(* ===== verification/Prelude.thy ===== *)
theory Prelude
  imports Main "HOL-Library.Word"
begin

text \<open>
  Shared vocabulary of the development: the fixed-width integer types of the
  SDK's C headers, the zero-terminated string reads and little-endian scalar
  codecs several headers use, and the list and word lemmas the component
  theories share.

  A C \<open>size_t\<close>/\<open>uintptr_t\<close> that only indexes a buffer is a \<open>nat\<close>; where the
  source subtracts two of them the wrap-around is written out by \<open>size_sub\<close>.
  Integers whose overflow the source has to guard keep their width as words.
  A pointer that the source compares with null is an \<open>option\<close>.
\<close>

unbundle bit_operations_syntax

type_synonym u8 = "8 word"
type_synonym u16 = "16 word"
type_synonym u32 = "32 word"
type_synonym u64 = "64 word"
type_synonym u128 = "128 word"

text \<open>A status code is a 32-bit word read as two's complement where its sign matters.\<close>

type_synonym i32 = "32 word"
type_synonym bytes = "u8 list"

abbreviation (input) negative :: "i32 \<Rightarrow> bool" where
  "negative r \<equiv> sint r < 0"

abbreviation UINT64_MAX :: u64 where "UINT64_MAX \<equiv> - 1"

text \<open>Rules the component proofs share, by the part of the SDK they simplify.\<close>

named_theorems path_simps \<open>byte classification, segment validation and path text\<close>
named_theorems tick_simps \<open>tick and deadline arithmetic\<close>
named_theorems bind_simps \<open>import, header and slot admission\<close>
named_theorems vm_simps \<open>address arithmetic and memory reads\<close>

subsection \<open>Subtraction of sizes\<close>

definition size_sub :: "nat \<Rightarrow> nat \<Rightarrow> nat" where
  "size_sub a b = (if b \<le> a then a - b else 2 ^ 64 - (b - a))"

lemma size_sub_le [simp]: "b \<le> a \<Longrightarrow> size_sub a b = a - b"
  by (simp add: size_sub_def)

subsection \<open>Zero-terminated strings\<close>

text \<open>
  The bytes before the terminator are the list; reading at its length gives the
  terminator. The source never reads past the first zero byte.
\<close>

definition cbyte :: "bytes \<Rightarrow> nat \<Rightarrow> u8" where
  "cbyte s i = (if i < length s then s ! i else 0)"

definition cstring :: "bytes \<Rightarrow> bool" where
  "cstring s \<longleftrightarrow> 0 \<notin> set s"

lemma cbyte_0_iff: "cstring s \<Longrightarrow> cbyte s i = 0 \<longleftrightarrow> length s \<le> i"
  by (auto simp: cbyte_def cstring_def in_set_conv_nth)

subsection \<open>Little-endian scalars\<close>

fun le_bytes :: "nat \<Rightarrow> 'a::len word \<Rightarrow> bytes" where
  "le_bytes 0 w = []"
| "le_bytes (Suc n) w = ucast w # le_bytes n (drop_bit 8 w)"

fun le_word :: "bytes \<Rightarrow> 'a::len word" where
  "le_word [] = 0"
| "le_word (b # bs) = ucast b OR push_bit 8 (le_word bs)"

lemma length_le_bytes [simp]: "length (le_bytes n w) = n"
  by (induction n w rule: le_bytes.induct) auto

lemma bit_le_word:
  "bit (le_word bs :: 'a::len word) i \<longleftrightarrow>
     i < LENGTH('a) \<and> i < 8 * length bs \<and> bit (bs ! (i div 8)) (i mod 8)"
proof (induction bs arbitrary: i)
  case Nil
  then show ?case by simp
next
  case (Cons b bs)
  show ?case
  proof (cases "i < 8")
    case True
    then show ?thesis by (auto simp: bit_simps)
  next
    case False
    then obtain j where j: "i = 8 + j" using le_Suc_ex by (metis not_less)
    have "\<not> bit b i" using False bit_imp_le_length [of b i] by auto
    have "(8 + j) div 8 = Suc (j div 8)" by simp
    with j \<open>\<not> bit b i\<close> show ?thesis using Cons.IH [of j] by (auto simp: bit_simps)
  qed
qed

subsection \<open>Masks on words\<close>

lemma unat_bound: "unat (w :: 'a::len word) < 2 ^ LENGTH('a)"
  by (rule unsigned_less)

lemma unat_exp:
  assumes "n < LENGTH('a::len)"
  shows "unat (2 ^ n :: 'a word) = 2 ^ n"
proof -
  have "(2::nat) ^ n < 2 ^ LENGTH('a)" using assms by simp
  then have "unat (word_of_nat (2 ^ n) :: 'a word) = 2 ^ n"
    by (simp only: unsigned_of_nat take_bit_nat_eq_self of_nat_id)
  then show ?thesis by simp
qed

lemma unat_clear_low:
  fixes b :: "'a::len word"
  assumes "n < LENGTH('a)"
  shows "unat (b AND NOT (mask n)) = unat b div 2 ^ n * 2 ^ n"
proof -
  have "b AND NOT (mask n) = push_bit n (drop_bit n b)"
    by (rule bit_word_eqI) (auto simp: bit_simps)
  moreover have "unat (drop_bit n b) = unat b div 2 ^ n"
    by (subst unat_drop_bit_eq) (simp add: drop_bit_eq_div)
  ultimately have "unat (b AND NOT (mask n)) = (unat b div 2 ^ n * 2 ^ n) mod 2 ^ LENGTH('a)"
    using assms by (simp add: push_bit_eq_mult unat_word_ariths(2) unat_exp)
  moreover have "unat b div 2 ^ n * 2 ^ n < 2 ^ LENGTH('a)"
    by (meson div_times_less_eq_dividend order.strict_trans1 unsigned_less)
  ultimately show ?thesis by simp
qed

subsection \<open>Codecs and sums that fit\<close>

lemma le_word_le_bytes:
  fixes w :: "'a::len word"
  assumes "LENGTH('a) \<le> 8 * n"
  shows "le_word (le_bytes n w) = w"
proof -
  have bits: "i < 8 * m \<Longrightarrow> bit (le_bytes m v ! (i div 8)) (i mod 8) \<longleftrightarrow> bit v i" for i m and v :: "'a word"
  proof (induction m v arbitrary: i rule: le_bytes.induct)
    case (2 m v)
    show ?case
    proof (cases "i < 8")
      case True
      then show ?thesis by (simp add: bit_simps)
    next
      case False
      then obtain j where "i = 8 + j" using le_Suc_ex by (metis not_less)
      moreover have "(8 + j) div 8 = Suc (j div 8)" by simp
      ultimately show ?thesis using 2 by (simp add: bit_simps)
    qed
  qed simp
  show ?thesis
  proof (rule bit_word_eqI)
    fix i assume "i < LENGTH('a)"
    then show "bit (le_word (le_bytes n w) :: 'a word) i \<longleftrightarrow> bit w i"
      using assms bits [of i n w] by (simp add: bit_le_word)
  qed
qed

lemma no_wrap_iff: "\<not> UINT64_MAX - c < b \<longleftrightarrow> unat b + unat c < 2 ^ 64"
proof -
  have "unat (UINT64_MAX - c) = 2 ^ 64 - 1 - unat c"
    by (simp add: unat_sub unsigned_minus_1_eq_mask mask_eq_exp_minus_1)
  then show ?thesis using unat_bound [of c] unfolding word_less_nat_alt by auto
qed

lemma unat_add_fit: "unat (b :: u64) + unat c < 2 ^ 64 \<Longrightarrow> unat (b + c) = unat b + unat c"
  by (simp add: unat_word_ariths(1))

end
