(* ===== verification/PathText.thy ===== *)
theory PathText
  imports Prelude
begin

text \<open>
  Byte level of \<open>Shared/C/include/r4os/path_timeout.h\<close>: the result codes, the
  byte classification and the validation of one path component, with UTF-8
  restricted to the basic multilingual plane as its specification.
\<close>

subsection \<open>Result codes\<close>

datatype path_code =
    PATH_OK
  | PATH_EMPTY
  | PATH_TOO_LONG
  | PATH_COMPONENT_TOO_LONG
  | PATH_EMBEDDED_NUL
  | PATH_INVALID_CHARACTER
  | PATH_WRONG_KIND
  | PATH_ROOT_TRAVERSAL

subsection \<open>Byte classification\<close>

definition r4_ascii_upper :: "u8 \<Rightarrow> u8" where
  "r4_ascii_upper byte = (if byte \<ge> 0x61 \<and> byte \<le> 0x7A then byte - 32 else byte)"

definition r4_path_separator :: "u8 \<Rightarrow> bool" where
  "r4_path_separator byte \<longleftrightarrow> byte = 0x5C \<or> byte = 0x2F"

definition r4_path_alpha :: "u8 \<Rightarrow> bool" where
  "r4_path_alpha byte \<longleftrightarrow> (let byte = r4_ascii_upper byte in byte \<ge> 0x41 \<and> byte \<le> 0x5A)"

definition r4_path_byte_valid :: "u8 \<Rightarrow> path_code" where
  "r4_path_byte_valid byte =
     (if byte = 0 then PATH_EMBEDDED_NUL
      else if byte < 0x20 \<or> byte = 0x7F \<or> byte = 0x3C \<or> byte = 0x3E \<or> byte = 0x22 \<or>
              byte = 0x7C \<or> byte = 0x3F \<or> byte = 0x2A \<or> byte = 0x3A
      then PATH_INVALID_CHARACTER
      else PATH_OK)"

subsection \<open>Validation of a component\<close>

text \<open>
  The source's loop: \<open>i\<close> is the read index, \<open>chars\<close> the characters counted so
  far. The result is the first error, or the value stored through \<open>out_chars\<close>.
\<close>

function segment_loop :: "bytes \<Rightarrow> nat \<Rightarrow> nat \<Rightarrow> path_code + nat" where
  "segment_loop s i chars =
     (if i < length s then
        let byte = s ! i in
        if byte < 0x80 then
          (let valid = r4_path_byte_valid byte in
           if valid \<noteq> PATH_OK then Inl valid else segment_loop s (i + 1) (chars + 1))
        else if byte AND 0xE0 = 0xC0 then
          (if byte < 0xC2 then Inl PATH_INVALID_CHARACTER
           else if i + 1 \<ge> length s \<or> s ! (i + 1) AND 0xC0 \<noteq> 0x80 then Inl PATH_INVALID_CHARACTER
           else segment_loop s (i + 2) (chars + 1))
        else if byte AND 0xF0 = 0xE0 then
          (if i + 2 \<ge> length s then Inl PATH_INVALID_CHARACTER
           else
             let b1 = s ! (i + 1); b2 = s ! (i + 2) in
             if b1 AND 0xC0 \<noteq> 0x80 \<or> b2 AND 0xC0 \<noteq> 0x80 then Inl PATH_INVALID_CHARACTER
             else if byte = 0xE0 \<and> b1 < 0xA0 then Inl PATH_INVALID_CHARACTER
             else if byte = 0xED \<and> b1 \<ge> 0xA0 then Inl PATH_INVALID_CHARACTER
             else segment_loop s (i + 3) (chars + 1))
        else Inl PATH_INVALID_CHARACTER
      else Inr chars)"
  by pat_completeness auto
termination
  by (relation "measure (\<lambda>(s, i, chars). length s - i)") auto

declare segment_loop.simps [simp del]

definition r4_path_segment_valid :: "bytes \<Rightarrow> path_code + nat" where
  "r4_path_segment_valid s = segment_loop s 0 0"

definition r4_path_equal_ignore_case :: "bytes \<Rightarrow> bytes \<Rightarrow> bool" where
  "r4_path_equal_ignore_case a b \<longleftrightarrow>
     length a = length b \<and> (\<forall>i < length a. r4_ascii_upper (a ! i) = r4_ascii_upper (b ! i))"

subsection \<open>Arithmetic reading of the byte tests\<close>

lemma unat_and_masks:
  fixes b :: u8
  shows "unat (b AND 0xE0) = unat b div 32 * 32"
    and "unat (b AND 0xF0) = unat b div 16 * 16"
    and "unat (b AND 0xC0) = unat b div 64 * 64"
proof -
  have "(0xE0 :: u8) = NOT (mask 5)" "(0xF0 :: u8) = NOT (mask 4)" "(0xC0 :: u8) = NOT (mask 6)"
    by (simp_all add: mask_eq_exp_minus_1)
  then show "unat (b AND 0xE0) = unat b div 32 * 32"
    and "unat (b AND 0xF0) = unat b div 16 * 16"
    and "unat (b AND 0xC0) = unat b div 64 * 64"
    using unat_clear_low [of 5 b] unat_clear_low [of 4 b] unat_clear_low [of 6 b] by simp_all
qed

lemma block_iff:
  fixes n :: nat
  assumes "0 < k"
  shows "n div k * k = q * k \<longleftrightarrow> q * k \<le> n \<and> n < q * k + k"
proof
  assume "n div k * k = q * k"
  then show "q * k \<le> n \<and> n < q * k + k"
    using div_times_less_eq_dividend [of n k] dividend_less_div_times [OF assms, of n] by linarith
next
  assume "q * k \<le> n \<and> n < q * k + k"
  then have "n div k = q" by (intro div_nat_eqI) (auto simp: algebra_simps)
  then show "n div k * k = q * k" by simp
qed

lemma lead2_iff: "b AND 0xE0 = (0xC0 :: u8) \<longleftrightarrow> 192 \<le> unat b \<and> unat b < 224"
  using block_iff [of 32 "unat b" 6] by (simp add: word_unat_eq_iff unat_and_masks)

lemma lead3_iff: "b AND 0xF0 = (0xE0 :: u8) \<longleftrightarrow> 224 \<le> unat b \<and> unat b < 240"
  using block_iff [of 16 "unat b" 14] by (simp add: word_unat_eq_iff unat_and_masks)

lemma trail_iff: "b AND 0xC0 = (0x80 :: u8) \<longleftrightarrow> 128 \<le> unat b \<and> unat b < 192"
  using block_iff [of 64 "unat b" 2] by (simp add: word_unat_eq_iff unat_and_masks)

lemma byte_eq_iff: "xs ! i = (0xE0 :: u8) \<longleftrightarrow> unat (xs ! i) = 224" "xs ! i = (0xED :: u8) \<longleftrightarrow> unat (xs ! i) = 237"
  by (simp_all add: word_unat_eq_iff)

lemmas byte_tests = word_less_nat_alt word_le_nat_alt lead2_iff lead3_iff trail_iff byte_eq_iff

subsection \<open>The specification: encodings of basic-plane scalars\<close>

definition utf8_bmp :: "nat \<Rightarrow> bytes" where
  "utf8_bmp cp =
     (if cp < 0x80 then [word_of_nat cp]
      else if cp < 0x800 then [word_of_nat (0xC0 + cp div 64), word_of_nat (0x80 + cp mod 64)]
      else [word_of_nat (0xE0 + cp div 4096), word_of_nat (0x80 + cp div 64 mod 64),
            word_of_nat (0x80 + cp mod 64)])"

definition path_scalar :: "nat \<Rightarrow> bool" where
  "path_scalar cp \<longleftrightarrow>
     0x20 \<le> cp \<and> cp < 0x10000 \<and> \<not> (0xD800 \<le> cp \<and> cp < 0xE000) \<and>
     cp \<notin> {0x22, 0x2A, 0x3A, 0x3C, 0x3E, 0x3F, 0x7C, 0x7F}"

lemma unat_small: "n < 256 \<Longrightarrow> unat (word_of_nat n :: u8) = n"
  by (simp add: unat_of_nat)

lemma of_unat: "word_of_nat (unat b) = (b :: u8)"
  by simp

lemma byte_valid_iff:
  "r4_path_byte_valid b = PATH_OK \<longleftrightarrow>
     32 \<le> unat b \<and> unat b \<notin> {0x22, 0x2A, 0x3A, 0x3C, 0x3E, 0x3F, 0x7C, 0x7F}"
  by (auto simp: r4_path_byte_valid_def word_less_nat_alt word_unat_eq_iff)

lemma drop_prefix_nth:
  assumes "drop i s = xs @ rest" and "j < length xs"
  shows "i + j < length s" and "s ! (i + j) = xs ! j"
proof -
  have "length (drop i s) = length xs + length rest" using assms by simp
  with assms(2) show l: "i + j < length s" by simp
  have "drop i s ! j = xs ! j" using assms by (simp add: nth_append)
  with l show "s ! (i + j) = xs ! j" by (simp add: nth_drop)
qed

lemma segment_loop_scalar:
  assumes "drop i s = utf8_bmp cp @ rest" and "path_scalar cp"
  shows "segment_loop s i c = segment_loop s (i + length (utf8_bmp cp)) (c + 1)"
proof -
  note nth = drop_prefix_nth [OF assms(1)]
  consider (a) "cp < 0x80" | (b) "0x80 \<le> cp" "cp < 0x800" | (c) "0x800 \<le> cp" by linarith
  then show ?thesis
  proof cases
    case a
    then have "i < length s" "s ! i = word_of_nat cp" "unat (s ! i) = cp"
      using nth [of 0] by (simp_all add: utf8_bmp_def unat_small)
    moreover from this have "r4_path_byte_valid (s ! i) = PATH_OK"
      using assms(2) by (simp add: byte_valid_iff path_scalar_def)
    ultimately show ?thesis using a
      by (subst segment_loop.simps) (simp add: Let_def utf8_bmp_def word_less_nat_alt)
  next
    case b
    then have "i + 1 < length s" "unat (s ! i) = 0xC0 + cp div 64" "unat (s ! (i + 1)) = 0x80 + cp mod 64"
      using nth [of 0] nth [of 1] by (simp_all add: utf8_bmp_def unat_small del: of_nat_add)
    moreover have "2 \<le> cp div 64" "cp div 64 < 32" using b by simp_all
    ultimately show ?thesis using b
      by (subst segment_loop.simps)
        (simp add: Let_def utf8_bmp_def byte_tests)
  next
    case c
    obtain q y z where v: "q = cp div 4096" "y = cp div 64 mod 64" "z = cp mod 64" by simp
    have "cp < 0x10000" using assms(2) by (simp add: path_scalar_def)
    then have lim: "q < 16" "y < 64" "z < 64" by (simp_all add: v less_mult_imp_div_less)
    have u: "utf8_bmp cp = [word_of_nat (0xE0 + q), word_of_nat (0x80 + y), word_of_nat (0x80 + z)]"
      using c by (simp add: utf8_bmp_def v)
    then have "i + 2 < length s" "unat (s ! i) = 0xE0 + q" "unat (s ! (i + 1)) = 0x80 + y"
      "unat (s ! (i + 2)) = 0x80 + z"
      using nth [of 0] nth [of 1] nth [of 2] lim by (simp_all add: unat_small del: of_nat_add)
    moreover have "cp div 64 = q * 64 + y" by (simp add: v div_mult2_eq [of cp 64 64, simplified])
    then have "cp = (q * 64 + y) * 64 + z" using div_mult_mod_eq [of cp 64] by (simp only: v)
    then have cp: "cp = q * 4096 + y * 64 + z" by simp
    then have "\<not> y < 32" if "q = 0" using c lim that by linarith
    moreover have "cp < 0xD800 \<or> 0xE000 \<le> cp" using assms(2) by (auto simp: path_scalar_def)
    then have "y < 32" if "q = 13" using cp lim that by (elim disjE) linarith+
    ultimately show ?thesis using lim unfolding u
      by (subst segment_loop.simps) (auto simp: Let_def byte_tests numeral_3_eq_3)
  qed
qed

text \<open>Conversely, every step the loop takes reads one such encoding.\<close>

lemma segment_loop_read:
  assumes "segment_loop s i c = Inr n" and "i < length s"
  shows "\<exists>cp rest. path_scalar cp \<and> drop i s = utf8_bmp cp @ rest \<and>
           segment_loop s (i + length (utf8_bmp cp)) (c + 1) = Inr n"
proof -
  let ?b = "unat (s ! i)" and ?b1 = "unat (s ! (i + 1))" and ?b2 = "unat (s ! (i + 2))"
  note eq = assms(1) [unfolded segment_loop.simps [of s i c]]
  have d: "drop i s = s ! i # drop (Suc i) s" using assms(2) by (simp add: Cons_nth_drop_Suc)
  consider (a) "?b < 128" | (b) "192 \<le> ?b \<and> ?b < 224" | (c) "224 \<le> ?b \<and> ?b < 240"
    using eq assms(2)
    by (auto simp: Let_def byte_tests split: if_splits)
  then show ?thesis
  proof cases
    case a
    with eq assms(2) have "r4_path_byte_valid (s ! i) = PATH_OK"
      and "segment_loop s (i + 1) (c + 1) = Inr n"
      by (auto simp: Let_def word_less_nat_alt split: if_splits)
    with a d show ?thesis
      by (intro exI [of _ ?b] exI [of _ "drop (Suc i) s"])
        (auto simp: path_scalar_def utf8_bmp_def byte_valid_iff)
  next
    case b
    with eq assms(2) have r: "194 \<le> ?b" "i + 1 < length s" "128 \<le> ?b1 \<and> ?b1 < 192"
      "segment_loop s (i + 2) (c + 1) = Inr n"
      by (auto simp: Let_def byte_tests split: if_splits)
    obtain q r1 where q: "?b = 192 + q" and r1: "?b1 = 128 + r1" using b r(3) le_Suc_ex by metis
    let ?cp = "q * 64 + r1"
    have cp: "128 \<le> ?cp" "?cp < 2048" "?cp div 64 = q" "?cp mod 64 = r1"
      using b r q r1 by auto
    moreover have "word_of_nat (192 + q) = s ! i" "word_of_nat (128 + r1) = s ! (i + 1)"
      by (simp_all only: q [symmetric] r1 [symmetric] of_unat)
    ultimately have "utf8_bmp ?cp = [s ! i, s ! (i + 1)]"
      unfolding utf8_bmp_def by simp
    moreover have "path_scalar ?cp" using cp by (auto simp: path_scalar_def)
    moreover have "drop i s = [s ! i, s ! (i + 1)] @ drop (i + 2) s"
      using d r(2) by (simp add: Cons_nth_drop_Suc)
    ultimately show ?thesis using r(4) by (intro exI [of _ ?cp] exI [of _ "drop (i + 2) s"]) simp
  next
    case c
    with eq assms(2) have r: "i + 2 < length s" "128 \<le> ?b1 \<and> ?b1 < 192" "128 \<le> ?b2 \<and> ?b2 < 192"
      "?b = 224 \<longrightarrow> 160 \<le> ?b1" "?b = 237 \<longrightarrow> ?b1 < 160" "segment_loop s (i + 3) (c + 1) = Inr n"
      by (auto simp: Let_def byte_tests split: if_splits)
    obtain q r1 r2 where q: "?b = 224 + q" and r1: "?b1 = 128 + r1" and r2: "?b2 = 128 + r2"
      using c r(2,3) le_Suc_ex by metis
    let ?cp = "q * 4096 + r1 * 64 + r2"
    have lim: "q < 16" "r1 < 64" "r2 < 64" using c r q r1 r2 by auto
    have e: "?cp = (q * 64 + r1) * 64 + r2" by simp
    have "?cp div 64 = q * 64 + r1" and "?cp mod 64 = r2"
      unfolding e using lim(3) by (simp_all only: div_mult_self3 mod_mult_self3 div_less mod_less)
    moreover have "?cp div 4096 = ?cp div 64 div 64" by (simp add: div_mult2_eq [symmetric])
    ultimately have cp: "?cp div 4096 = q" "?cp div 64 mod 64 = r1" "?cp mod 64 = r2"
      using lim by auto
    have bnd: "2048 \<le> ?cp" "?cp < 65536" using lim r q r1 by (cases "q = 0"; auto)+
    moreover have "word_of_nat (224 + q) = s ! i" "word_of_nat (128 + r1) = s ! (i + 1)"
      "word_of_nat (128 + r2) = s ! (i + 2)"
      by (simp_all only: q [symmetric] r1 [symmetric] r2 [symmetric] of_unat)
    ultimately have "utf8_bmp ?cp = [s ! i, s ! (i + 1), s ! (i + 2)]"
      unfolding utf8_bmp_def cp by simp
    moreover have "\<not> (55296 \<le> ?cp \<and> ?cp < 57344)" using lim r q r1 by (cases "q = 13"; auto)
    then have "path_scalar ?cp" using bnd by (auto simp: path_scalar_def)
    moreover have "drop i s = [s ! i, s ! (i + 1), s ! (i + 2)] @ drop (i + 3) s"
      using d r(1) by (simp add: Cons_nth_drop_Suc numeral_eq_Suc)
    ultimately show ?thesis using r(6) by (intro exI [of _ ?cp] exI [of _ "drop (i + 3) s"])
        (simp add: numeral_3_eq_3)
  qed
qed

lemma utf8_bmp_nonempty [simp]: "utf8_bmp cp \<noteq> []"
  by (simp add: utf8_bmp_def)

lemma segment_loop_encodes:
  assumes "\<forall>cp \<in> set cps. path_scalar cp" and "drop i s = concat (map utf8_bmp cps)" and "i \<le> length s"
  shows "segment_loop s i c = Inr (c + length cps)"
  using assms
proof (induction cps arbitrary: i c)
  case Nil
  then show ?case by (subst segment_loop.simps) simp
next
  case (Cons cp cps)
  let ?e = "utf8_bmp cp" and ?j = "i + length (utf8_bmp cp)"
  have d: "drop i s = ?e @ concat (map utf8_bmp cps)" using Cons.prems(2) by simp
  have "drop ?j s = concat (map utf8_bmp cps)"
    using arg_cong [OF d, of "drop (length ?e)"] by (simp add: add.commute)
  moreover have "length (drop i s) = length ?e + length (concat (map utf8_bmp cps))"
    unfolding d by simp
  then have "?j \<le> length s" using Cons.prems(3) by simp
  ultimately have "segment_loop s ?j (c + 1) = Inr (c + 1 + length cps)"
    using Cons.IH Cons.prems(1) by simp
  with segment_loop_scalar [OF d] Cons.prems(1) show ?case by simp
qed

lemma segment_loop_decodes:
  assumes "segment_loop s i c = Inr n" and "i \<le> length s"
  shows "\<exists>cps. (\<forall>cp \<in> set cps. path_scalar cp) \<and> drop i s = concat (map utf8_bmp cps) \<and>
           n = c + length cps"
  using assms
proof (induction "length s - i" arbitrary: i c rule: less_induct)
  case less
  show ?case
  proof (cases "i < length s")
    case False
    with less.prems show ?thesis by (intro exI [of _ "[]"]) (simp add: segment_loop.simps [of s i])
  next
    case True
    then obtain cp rest where cp: "path_scalar cp" and d: "drop i s = utf8_bmp cp @ rest"
      and l: "segment_loop s (i + length (utf8_bmp cp)) (c + 1) = Inr n"
      using segment_loop_read [OF less.prems(1)] by blast
    let ?j = "i + length (utf8_bmp cp)"
    have dj: "drop ?j s = rest"
      using arg_cong [OF d, of "drop (length (utf8_bmp cp))"] by (simp add: add.commute)
    have "length (drop i s) = length (utf8_bmp cp) + length rest" unfolding d by simp
    moreover have "0 < length (utf8_bmp cp)" by simp
    ultimately have "?j \<le> length s" "length s - ?j < length s - i"
      using True unfolding length_drop by linarith+
    with less.hyps [OF _ l] obtain cps where "\<forall>cp \<in> set cps. path_scalar cp"
      "drop ?j s = concat (map utf8_bmp cps)" "n = c + 1 + length cps" by blast
    with cp d dj show ?thesis by (intro exI [of _ "cp # cps"]) simp
  qed
qed

text \<open>
  C3: the component validator accepts exactly the encodings of sequences of
  basic-plane scalars that are neither surrogates nor reserved, and the count
  it reports is the number of scalars.
\<close>

theorem segment_valid_iff_utf8:
  "r4_path_segment_valid s = Inr n \<longleftrightarrow>
     (\<exists>cps. list_all path_scalar cps \<and> s = concat (map utf8_bmp cps) \<and> n = length cps)"
  using segment_loop_encodes [of _ 0 s 0] segment_loop_decodes [of s 0 0 n]
  unfolding r4_path_segment_valid_def list_all_iff by auto

end
