(* ===== verification/FilePath.thy ===== *)
theory FilePath
  imports PathText
begin

text \<open>
  File path normalisation of \<open>Shared/C/include/r4os/path_timeout.h\<close>
  (\<open>r4_path_normalize\<close> and the three typed constructors), as the loop over the
  caller's r_buffer and the two rollback arrays, and its refinement of a
  specification on lists of components.

  A store or a load outside its array makes the model return \<open>None\<close>; that it
  never does is a property. The contract's limits are not part of the
  repository and stay a parameter.
\<close>

subsection \<open>Limits and state\<close>

record path_limits =
  file_path_max_bytes :: nat
  fat_path_component_max_bytes :: nat
  path_component_max_chars :: nat
  file_path_max_chars :: nat

text \<open>The locals of \<open>r4_path_normalize\<close> that outlive one round of its loop.\<close>

record norm_state =
  n_out :: bytes
  n_pos :: nat
  n_count :: nat
  n_starts :: "u16 list"
  n_char_starts :: "u16 list"
  n_chars :: nat

definition store :: "'a list \<Rightarrow> nat \<Rightarrow> 'a \<Rightarrow> 'a list option" where
  "store xs i v = (if i < length xs then Some (xs[i := v]) else None)"

definition load :: "'a list \<Rightarrow> nat \<Rightarrow> 'a option" where
  "load xs i = (if i < length xs then Some (xs ! i) else None)"

fun r4_contract_copy :: "'a list \<Rightarrow> nat \<Rightarrow> 'a list \<Rightarrow> 'a list option" where
  "r4_contract_copy target i [] = Some target"
| "r4_contract_copy target i (b # bs) =
     (case store target i b of None \<Rightarrow> None | Some t \<Rightarrow> r4_contract_copy t (i + 1) bs)"

subsection \<open>The scanning loops\<close>

function skip_separators :: "bytes \<Rightarrow> nat \<Rightarrow> nat" where
  "skip_separators input index =
     (if index < length input \<and> r4_path_separator (input ! index)
      then skip_separators input (index + 1) else index)"
  by pat_completeness auto
termination
  by (relation "measure (\<lambda>(input, index). length input - index)") auto

function scan_segment :: "bytes \<Rightarrow> nat \<Rightarrow> nat" where
  "scan_segment input index =
     (if index < length input \<and> \<not> r4_path_separator (input ! index)
      then scan_segment input (index + 1) else index)"
  by pat_completeness auto
termination
  by (relation "measure (\<lambda>(input, index). length input - index)") auto

declare skip_separators.simps [simp del] scan_segment.simps [simp del]

subsection \<open>One component\<close>

text \<open>The body of the outer loop for the component \<open>input[start..index)\<close>.\<close>

definition norm_dotdot :: "bool \<Rightarrow> norm_state \<Rightarrow> (path_code \<times> norm_state) option" where
  "norm_dotdot absolute st =
     (if n_count st = 0 then Some (PATH_ROOT_TRAVERSAL, st)
      else
        let c = n_count st - 1 in
        case (load (n_starts st) c, load (n_char_starts st) c) of
          (Some p, Some ch) \<Rightarrow>
            Some (PATH_OK, st\<lparr>n_count := c,
              n_pos := (if absolute \<and> unat p = 2 then 3 else unat p),
              n_chars := (if absolute \<and> unat ch < 3 then 3 else unat ch)\<rparr>)
        | _ \<Rightarrow> None)"

definition norm_push ::
  "path_limits \<Rightarrow> bool \<Rightarrow> bytes \<Rightarrow> nat \<Rightarrow> norm_state \<Rightarrow> (path_code \<times> norm_state) option" where
  "norm_push L absolute seg segment_chars st =
     (if n_count st \<ge> 160 then Some (PATH_TOO_LONG, st)
      else
        let before = n_pos st; before_chars = n_chars st;
            sep = (absolute \<and> n_pos st > 3) \<or> (\<not> absolute \<and> n_pos st > 0) in
        case (if sep then map_option (\<lambda>b. st\<lparr>n_out := b, n_pos := n_pos st + 1, n_chars := n_chars st + 1\<rparr>)
                            (store (n_out st) (n_pos st) 0x5C)
              else Some st) of
          None \<Rightarrow> None
        | Some st1 \<Rightarrow>
            (case (store (n_starts st1) (n_count st1) (word_of_nat before),
                   store (n_char_starts st1) (n_count st1) (word_of_nat before_chars)) of
               (Some s, Some cs) \<Rightarrow>
                 let st2 = st1\<lparr>n_starts := s, n_char_starts := cs, n_count := n_count st1 + 1\<rparr> in
                 if length seg > size_sub (file_path_max_bytes L) (n_pos st2) then Some (PATH_TOO_LONG, st2)
                 else
                   let st3 = st2\<lparr>n_chars := n_chars st2 + segment_chars\<rparr> in
                   if n_chars st3 > file_path_max_chars L then Some (PATH_TOO_LONG, st3)
                   else map_option (\<lambda>b. (PATH_OK, st3\<lparr>n_out := b, n_pos := n_pos st3 + length seg\<rparr>))
                          (r4_contract_copy (n_out st3) (n_pos st3) seg)
             | _ \<Rightarrow> None))"

definition norm_segment ::
  "path_limits \<Rightarrow> bool \<Rightarrow> bytes \<Rightarrow> norm_state \<Rightarrow> (path_code \<times> norm_state) option" where
  "norm_segment L absolute seg st =
     (if length seg = 1 \<and> seg ! 0 = 0x2E then Some (PATH_OK, st)
      else if length seg = 2 \<and> seg ! 0 = 0x2E \<and> seg ! 1 = 0x2E then norm_dotdot absolute st
      else if length seg > fat_path_component_max_bytes L then Some (PATH_COMPONENT_TOO_LONG, st)
      else case r4_path_segment_valid seg of
             Inl e \<Rightarrow> Some (e, st)
           | Inr segment_chars \<Rightarrow>
               if segment_chars > path_component_max_chars L then Some (PATH_COMPONENT_TOO_LONG, st)
               else norm_push L absolute seg segment_chars st)"

subsection \<open>The outer loop\<close>

lemma skip_separators_ge: "i \<le> skip_separators s i"
proof (induction s i rule: skip_separators.induct)
  case (1 s i)
  then show ?case by (cases "i < length s \<and> r4_path_separator (s ! i)") (auto simp: skip_separators.simps [of s i])
qed

lemma scan_segment_ge: "i \<le> scan_segment s i"
proof (induction s i rule: scan_segment.induct)
  case (1 s i)
  then show ?case by (cases "i < length s \<and> \<not> r4_path_separator (s ! i)") (auto simp: scan_segment.simps [of s i])
qed

lemma skip_separators_stop: "skip_separators s i < length s \<Longrightarrow> \<not> r4_path_separator (s ! skip_separators s i)"
proof (induction s i rule: skip_separators.induct)
  case (1 s i)
  then show ?case by (cases "i < length s \<and> r4_path_separator (s ! i)") (auto simp: skip_separators.simps [of s i])
qed

lemma scan_segment_gt: "i < length s \<Longrightarrow> \<not> r4_path_separator (s ! i) \<Longrightarrow> i < scan_segment s i"
  using scan_segment_ge [of "i + 1" s] by (simp add: scan_segment.simps [of s i])

function norm_loop ::
  "path_limits \<Rightarrow> bool \<Rightarrow> bytes \<Rightarrow> nat \<Rightarrow> norm_state \<Rightarrow> (path_code \<times> norm_state) option" where
  "norm_loop L absolute input index st =
     (if index < length input then
        let start = skip_separators input index in
        if start \<ge> length input then Some (PATH_OK, st)
        else
          let stop = scan_segment input start in
          case norm_segment L absolute (take (stop - start) (drop start input)) st of
            None \<Rightarrow> None
          | Some (code, st') \<Rightarrow>
              if code \<noteq> PATH_OK then Some (code, st') else norm_loop L absolute input stop st'
      else Some (PATH_OK, st))"
  by pat_completeness auto
termination
proof (relation "measure (\<lambda>(L, a, input, index, st). length input - index)")
  fix L a input index st start stop x code st'
  assume *: "index < length input" "start = skip_separators input index"
    "\<not> length input \<le> start" "stop = scan_segment input start"
  then have "index < stop"
    using skip_separators_ge [of index input] scan_segment_gt [of start input] skip_separators_stop [of input index]
    by simp
  with * show "((L, a, input, stop, st'), L, a, input, index, st)
      \<in> measure (\<lambda>(L, a, input, index, st). length input - index)" by simp
qed simp

declare norm_loop.simps [simp del]

subsection \<open>Normalisation and the typed constructors\<close>

text \<open>
  What a call leaves behind: its result code, the caller's buffer, and the
  values stored through \<open>out_len\<close> and \<open>out_absolute\<close>, if any.
\<close>

record norm_result =
  r_code :: path_code
  r_buffer :: bytes
  r_len :: "u16 option"
  r_absolute :: "bool option"

definition path_absolute :: "bytes \<Rightarrow> bool" where
  "path_absolute input \<longleftrightarrow>
     length input \<ge> 3 \<and> r4_path_alpha (input ! 0) \<and> input ! 1 = 0x3A \<and> r4_path_separator (input ! 2)"

definition norm_fail :: "path_code \<Rightarrow> bytes \<Rightarrow> norm_result" where
  "norm_fail e b = \<lparr>r_code = e, r_buffer = b, r_len = None, r_absolute = None\<rparr>"

text \<open>The rollback arrays are uninitialised in the source; no entry is read before it is written.\<close>

definition norm_start :: "bool \<Rightarrow> bytes \<Rightarrow> bytes \<Rightarrow> norm_state option" where
  "norm_start absolute input buf =
     (let st = \<lparr>n_out = buf, n_pos = 0, n_count = 0, n_starts = replicate 160 0, n_char_starts = replicate 160 0,
                n_chars = (if absolute then 3 else 0)\<rparr> in
      if absolute then
        map_option (\<lambda>b. st\<lparr>n_out := b, n_pos := 3\<rparr>)
          (r4_contract_copy buf 0 [r4_ascii_upper (input ! 0), 0x3A, 0x5C])
      else Some st)"

definition norm_finish :: "bool \<Rightarrow> norm_state \<Rightarrow> norm_result option" where
  "norm_finish absolute st =
     (case (if \<not> absolute \<and> n_pos st = 0
            then map_option (\<lambda>b. st\<lparr>n_out := b, n_pos := n_pos st + 1\<rparr>) (store (n_out st) (n_pos st) 0x2E)
            else Some st) of
        None \<Rightarrow> None
      | Some st \<Rightarrow>
          map_option (\<lambda>b. \<lparr>r_code = PATH_OK, r_buffer = b, r_len = Some (word_of_nat (n_pos st)),
                          r_absolute = Some absolute\<rparr>) (store (n_out st) (n_pos st) 0))"

definition r4_path_normalize ::
  "path_limits \<Rightarrow> bytes option \<Rightarrow> int \<Rightarrow> bytes \<Rightarrow> norm_result option" where
  "r4_path_normalize L input required_kind buf =
     (case input of
        None \<Rightarrow> Some (norm_fail PATH_EMPTY buf)
      | Some input \<Rightarrow>
          if length input = 0 then Some (norm_fail PATH_EMPTY buf)
          else if length input > file_path_max_bytes L then Some (norm_fail PATH_TOO_LONG buf)
          else
            let absolute = path_absolute input in
            if (required_kind = 1 \<and> \<not> absolute) \<or> (required_kind = 0 \<and> absolute)
            then Some (norm_fail PATH_WRONG_KIND buf)
            else if \<not> absolute \<and> r4_path_separator (input ! 0) then Some (norm_fail PATH_WRONG_KIND buf)
            else case norm_start absolute input buf of
                None \<Rightarrow> None
              | Some st \<Rightarrow>
                  (case norm_loop L absolute input (if absolute then 3 else 0) st of
                     None \<Rightarrow> None
                   | Some (c, st) \<Rightarrow>
                       if c \<noteq> PATH_OK then Some (norm_fail c (n_out st)) else norm_finish absolute st))"

record file_path =
  fp_bytes :: bytes
  fp_length :: u16
  fp_absolute :: bool

definition fp_result :: "file_path \<Rightarrow> norm_result \<Rightarrow> path_code \<times> file_path option" where
  "fp_result p r = (r_code r, Some (p\<lparr>fp_bytes := r_buffer r,
     fp_length := (case r_len r of None \<Rightarrow> fp_length p | Some n \<Rightarrow> n),
     fp_absolute := (case r_absolute r of None \<Rightarrow> fp_absolute p | Some a \<Rightarrow> a)\<rparr>))"

definition r4_file_path ::
  "path_limits \<Rightarrow> bytes option \<Rightarrow> file_path option \<Rightarrow> (path_code \<times> file_path option) option" where
  "r4_file_path L input fp =
     (case fp of None \<Rightarrow> Some (PATH_EMPTY, None)
      | Some p \<Rightarrow> map_option (fp_result p) (r4_path_normalize L input (- 1) (fp_bytes p)))"

text \<open>\<open>R4AbsoluteFilePath\<close> and \<open>R4RelativeFilePath\<close> have no \<open>absolute\<close> member.\<close>

record typed_path =
  tp_bytes :: bytes
  tp_length :: u16

definition tp_result :: "typed_path \<Rightarrow> norm_result \<Rightarrow> path_code \<times> typed_path option" where
  "tp_result p r = (r_code r, Some (p\<lparr>tp_bytes := r_buffer r,
     tp_length := (case r_len r of None \<Rightarrow> tp_length p | Some n \<Rightarrow> n)\<rparr>))"

definition r4_absolute_file_path ::
  "path_limits \<Rightarrow> bytes option \<Rightarrow> typed_path option \<Rightarrow> (path_code \<times> typed_path option) option" where
  "r4_absolute_file_path L input tp =
     (case tp of None \<Rightarrow> Some (PATH_EMPTY, None)
      | Some p \<Rightarrow> map_option (tp_result p) (r4_path_normalize L input 1 (tp_bytes p)))"

definition r4_relative_file_path ::
  "path_limits \<Rightarrow> bytes option \<Rightarrow> typed_path option \<Rightarrow> (path_code \<times> typed_path option) option" where
  "r4_relative_file_path L input tp =
     (case tp of None \<Rightarrow> Some (PATH_EMPTY, None)
      | Some p \<Rightarrow> map_option (tp_result p) (r4_path_normalize L input 0 (tp_bytes p)))"

subsection \<open>The specification on lists of components\<close>

function path_segments :: "bytes \<Rightarrow> bytes list" where
  "path_segments xs =
     (let ys = dropWhile r4_path_separator xs in
      if ys = [] then []
      else takeWhile (Not \<circ> r4_path_separator) ys # path_segments (dropWhile (Not \<circ> r4_path_separator) ys))"
  by pat_completeness auto
termination
proof (relation "measure length")
  fix xs ys :: bytes
  assume ys: "ys = dropWhile r4_path_separator xs" and ne: "ys \<noteq> []"
  have "\<not> r4_path_separator (hd ys)" using ne unfolding ys by (rule hd_dropWhile)
  with ne obtain y zs where "ys = y # zs" "\<not> r4_path_separator y" by (cases ys) auto
  then have "length (dropWhile (Not \<circ> r4_path_separator) ys) < length ys"
    using length_dropWhile_le [of "Not \<circ> r4_path_separator" zs] by simp
  also have "length ys \<le> length xs" unfolding ys by (rule length_dropWhile_le)
  finally show "(dropWhile (Not \<circ> r4_path_separator) ys, xs) \<in> measure length" by simp
qed simp

declare path_segments.simps [simp del]

fun join_path :: "bytes list \<Rightarrow> bytes" where
  "join_path [] = []"
| "join_path [s] = s"
| "join_path (s # ss) = s @ 0x5C # join_path ss"

definition seg_chars :: "bytes \<Rightarrow> nat" where
  "seg_chars s = (case r4_path_segment_valid s of Inl _ \<Rightarrow> 0 | Inr n \<Rightarrow> n)"

definition path_chars :: "bool \<Rightarrow> bytes list \<Rightarrow> nat" where
  "path_chars absolute ss =
     (if absolute then 3 else 0) + sum_list (map seg_chars ss) + (length ss - 1)"

definition component_check :: "path_limits \<Rightarrow> bytes \<Rightarrow> path_code" where
  "component_check L s =
     (if length s > fat_path_component_max_bytes L then PATH_COMPONENT_TOO_LONG
      else case r4_path_segment_valid s of
             Inl e \<Rightarrow> e
           | Inr n \<Rightarrow> if n > path_component_max_chars L then PATH_COMPONENT_TOO_LONG else PATH_OK)"

text \<open>Resolve components left to right against the stack of accepted ones.\<close>

fun path_resolve :: "path_limits \<Rightarrow> bool \<Rightarrow> bytes list \<Rightarrow> bytes list \<Rightarrow> path_code + bytes list" where
  "path_resolve L absolute [] stk = Inr stk"
| "path_resolve L absolute (s # ss) stk =
     (if s = [0x2E] then path_resolve L absolute ss stk
      else if s = [0x2E, 0x2E] then
        (if stk = [] then Inl PATH_ROOT_TRAVERSAL else path_resolve L absolute ss (butlast stk))
      else if component_check L s \<noteq> PATH_OK then Inl (component_check L s)
      else if length stk \<ge> 160 \<or> path_chars absolute (stk @ [s]) > file_path_max_chars L then Inl PATH_TOO_LONG
      else path_resolve L absolute ss (stk @ [s]))"

definition drive_prefix :: "bool \<Rightarrow> u8 \<Rightarrow> bytes" where
  "drive_prefix absolute d = (if absolute then [r4_ascii_upper d, 0x3A, 0x5C] else [])"

definition path_text :: "bool \<Rightarrow> u8 \<Rightarrow> bytes list \<Rightarrow> bytes" where
  "path_text absolute d stk =
     (if \<not> absolute \<and> stk = [] then [0x2E] else drive_prefix absolute d @ join_path stk)"

definition path_spec :: "path_limits \<Rightarrow> int \<Rightarrow> bytes \<Rightarrow> path_code + (bool \<times> bytes)" where
  "path_spec L kind input =
     (if input = [] then Inl PATH_EMPTY
      else if length input > file_path_max_bytes L then Inl PATH_TOO_LONG
      else
        let absolute = path_absolute input in
        if (kind = 1 \<and> \<not> absolute) \<or> (kind = 0 \<and> absolute) then Inl PATH_WRONG_KIND
        else if \<not> absolute \<and> r4_path_separator (hd input) then Inl PATH_WRONG_KIND
        else case path_resolve L absolute (path_segments (drop (if absolute then 3 else 0) input)) [] of
               Inl e \<Rightarrow> Inl e
             | Inr stk \<Rightarrow> Inr (absolute, path_text absolute (hd input) stk))"

end
