(* ===== verification/NormLoop.thy ===== *)
theory NormLoop
  imports FilePath
begin

text \<open>
  The buffer loop of \<open>r4_path_normalize\<close> implements \<open>path_spec\<close>: it never leaves
  its arrays, returns the specification's r_code and writes its text. From the
  specification: the shape of a normalised path and idempotence.
\<close>

subsection \<open>Scanning\<close>

lemma drop_skip_separators:
  "drop (skip_separators s i) s = dropWhile r4_path_separator (drop i s)"
proof (induction s i rule: skip_separators.induct)
  case (1 s i)
  show ?case
  proof (cases "i < length s")
    case True
    then have "drop i s = s ! i # drop (i + 1) s" by (simp add: Cons_nth_drop_Suc)
    with True 1 show ?thesis by (simp add: skip_separators.simps [of s i])
  next
    case False
    then show ?thesis by (simp add: skip_separators.simps [of s i])
  qed
qed

lemma scan_segment_split:
  "take (scan_segment s i - i) (drop i s) = takeWhile (Not \<circ> r4_path_separator) (drop i s) \<and>
   drop (scan_segment s i) s = dropWhile (Not \<circ> r4_path_separator) (drop i s)"
proof (induction s i rule: scan_segment.induct)
  case (1 s i)
  show ?case
  proof (cases "i < length s \<and> \<not> r4_path_separator (s ! i)")
    case True
    then have d: "drop i s = s ! i # drop (i + 1) s" by (simp add: Cons_nth_drop_Suc)
    have "scan_segment s i - i = Suc (scan_segment s (i + 1) - (i + 1))"
      using True scan_segment_ge [of "i + 1" s] by (simp add: scan_segment.simps [of s i] Suc_diff_Suc)
    then have "take (scan_segment s i - i) (drop i s) =
        s ! i # take (scan_segment s (i + 1) - (i + 1)) (drop (i + 1) s)"
      unfolding d by simp
    with True 1 show ?thesis unfolding d by (simp add: scan_segment.simps [of s i])
  next
    case False
    then have "drop i s = [] \<or> r4_path_separator (hd (drop i s)) \<and> drop i s \<noteq> []"
      by (auto simp: hd_drop_conv_nth)
    then show ?thesis using False by (cases "drop i s") (auto simp: scan_segment.simps [of s i])
  qed
qed

lemma scan_segment_le: "i \<le> length s \<Longrightarrow> scan_segment s i \<le> length s"
proof (induction s i rule: scan_segment.induct)
  case (1 s i)
  then show ?case by (cases "i < length s \<and> \<not> r4_path_separator (s ! i)") (auto simp: scan_segment.simps [of s i])
qed

lemma scan_segment_stop: "scan_segment s i < length s \<Longrightarrow> r4_path_separator (s ! scan_segment s i)"
proof (induction s i rule: scan_segment.induct)
  case (1 s i)
  then show ?case by (cases "i < length s \<and> \<not> r4_path_separator (s ! i)") (auto simp: scan_segment.simps [of s i])
qed

lemma path_segments_step:
  assumes "start = skip_separators s i"
  shows "path_segments (drop i s) =
    (if start \<ge> length s then []
     else takeWhile (Not \<circ> r4_path_separator) (drop start s)
          # path_segments (drop (scan_segment s start) s))"
  using scan_segment_split [of s start]
  by (simp add: path_segments.simps [of "drop i s"] assms Let_def flip: drop_skip_separators)

subsection \<open>Stores, loads and copies\<close>

lemma store_Some [simp]: "i < length xs \<Longrightarrow> store xs i v = Some (xs[i := v])"
  by (simp add: store_def)

lemma load_Some [simp]: "i < length xs \<Longrightarrow> load xs i = Some (xs ! i)"
  by (simp add: load_def)

lemma contract_copy_Some:
  "i + length bs \<le> length t \<Longrightarrow>
   \<exists>t'. r4_contract_copy t i bs = Some t' \<and> length t' = length t \<and>
        take (i + length bs) t' = take i t @ bs"
proof (induction bs arbitrary: t i)
  case Nil
  then show ?case by simp
next
  case (Cons b bs)
  then have "i < length t" by simp
  with Cons.prems Cons.IH [of "i + 1" "t[i := b]"] obtain t' where
    "r4_contract_copy (t[i := b]) (i + 1) bs = Some t'" "length t' = length t"
    "take (i + 1 + length bs) t' = take (i + 1) (t[i := b]) @ bs" by auto
  moreover have "take (i + 1) (t[i := b]) = take i t @ [b]"
    using \<open>i < length t\<close> by (simp add: take_Suc_conv_app_nth)
  ultimately show ?case using \<open>i < length t\<close> by simp
qed

subsection \<open>Text and character counts\<close>

lemma join_path_snoc: "join_path (ss @ [s]) = (if ss = [] then s else join_path ss @ 0x5C # s)"
  by (induction ss rule: join_path.induct) auto

lemma join_path_eq_Nil: "\<forall>s \<in> set ss. s \<noteq> [] \<Longrightarrow> join_path ss = [] \<longleftrightarrow> ss = []"
  by (cases ss rule: join_path.cases) auto

lemma path_chars_snoc:
  "path_chars a (ss @ [s]) = path_chars a ss + (if ss = [] then 0 else 1) + seg_chars s"
  by (cases ss) (auto simp: path_chars_def)

lemma path_chars_take: "path_chars a (take k ss) \<le> path_chars a ss"
proof -
  have "sum_list (map seg_chars (take k ss)) \<le> sum_list (map seg_chars ss)"
    by (metis append_take_drop_id le_add1 map_append sum_list_append)
  then show ?thesis by (auto simp: path_chars_def intro!: add_mono diff_le_mono)
qed

lemma segment_error_not_ok: "r4_path_segment_valid s \<noteq> Inl PATH_OK"
proof -
  have "segment_loop s i c \<noteq> Inl PATH_OK" for i c
  proof (induction s i c rule: segment_loop.induct)
    case (1 s i c)
    then show ?case by (subst segment_loop.simps) (auto simp: Let_def)
  qed
  then show ?thesis by (simp add: r4_path_segment_valid_def)
qed

subsection \<open>The loop invariant\<close>

text \<open>The limits fit the 16-bit members the result is stored in.\<close>

definition limits_ok :: "path_limits \<Rightarrow> bool" where
  "limits_ok L \<longleftrightarrow> file_path_max_bytes L < 2 ^ 16 \<and> file_path_max_chars L < 2 ^ 16"

definition path_body :: "bool \<Rightarrow> u8 \<Rightarrow> bytes list \<Rightarrow> bytes" where
  "path_body a d stk = drive_prefix a d @ join_path stk"

text \<open>
  The state holds the text of the accepted components \<open>stk\<close>, and for each of
  them the text length and the character n_count before it was pushed.
\<close>

definition norm_inv :: "path_limits \<Rightarrow> bool \<Rightarrow> u8 \<Rightarrow> bytes list \<Rightarrow> norm_state \<Rightarrow> bool" where
  "norm_inv L a d stk st \<longleftrightarrow>
     length (n_out st) = file_path_max_bytes L + 1 \<and>
     length (n_starts st) = 160 \<and> length (n_char_starts st) = 160 \<and>
     n_count st = length stk \<and> length stk \<le> 160 \<and> (\<forall>s \<in> set stk. s \<noteq> []) \<and>
     n_pos st = length (path_body a d stk) \<and> n_pos st \<le> file_path_max_bytes L \<and>
     take (n_pos st) (n_out st) = path_body a d stk \<and>
     n_chars st = path_chars a stk \<and> (stk \<noteq> [] \<longrightarrow> path_chars a stk \<le> file_path_max_chars L) \<and>
     (\<forall>k < length stk. n_starts st ! k = word_of_nat (length (path_body a d (take k stk))) \<and>
                       n_char_starts st ! k = word_of_nat (path_chars a (take k stk)))"

lemma unat_u16: "n < 2 ^ 16 \<Longrightarrow> unat (word_of_nat n :: u16) = n"
  by (simp add: unat_of_nat)

lemma path_body_butlast:
  assumes "stk \<noteq> []"
  shows "path_body a d (butlast stk) = take (length (path_body a d (butlast stk))) (path_body a d stk)"
proof -
  obtain ss s where "stk = ss @ [s]" using assms by (metis append_butlast_last_id)
  then show ?thesis by (auto simp: path_body_def join_path_snoc)
qed

lemma norm_dotdot_ok:
  assumes "norm_inv L a d stk st" and "limits_ok L" and "stk \<noteq> []"
  shows "\<exists>st'. norm_dotdot a st = Some (PATH_OK, st') \<and> norm_inv L a d (butlast stk) st' \<and> n_pos st' \<le> n_pos st"
proof -
  let ?k = "length stk - 1" and ?b = "butlast stk"
  have k: "?k < length stk" "?k < 160" using assms by (auto simp: norm_inv_def)
  have tk: "take ?k stk = ?b" by (simp add: butlast_conv_take)
  have le: "length (path_body a d ?b) \<le> n_pos st"
    using arg_cong [OF path_body_butlast [OF assms(3), of a d], of length] assms(1)
    by (simp add: norm_inv_def)
  then have pu: "unat (n_starts st ! ?k) = length (path_body a d ?b)"
    using assms k tk by (simp add: norm_inv_def limits_ok_def unat_u16)
  have "path_chars a ?b \<le> path_chars a stk" using path_chars_take [of a ?k stk] tk by simp
  then have cu: "unat (n_char_starts st ! ?k) = path_chars a ?b"
    using assms k tk by (simp add: norm_inv_def limits_ok_def unat_u16)
  have "3 \<le> path_chars a ?b" "length (path_body a d ?b) \<noteq> 2" if a
    using that by (auto simp: path_chars_def path_body_def drive_prefix_def)
  then have "norm_dotdot a st = Some (PATH_OK, st\<lparr>n_count := ?k, n_pos := length (path_body a d ?b),
      n_chars := path_chars a ?b\<rparr>)"
    using assms k pu cu by (auto simp: norm_dotdot_def norm_inv_def Let_def)
  moreover have "take (length (path_body a d ?b)) (n_out st) = path_body a d ?b"
    using path_body_butlast [OF assms(3), of a d] assms(1) le
    by (metis (no_types, lifting) norm_inv_def min.absorb1 take_take)
  then have "norm_inv L a d ?b (st\<lparr>n_count := ?k, n_pos := length (path_body a d ?b), n_chars := path_chars a ?b\<rparr>)"
    using assms(1,3) le \<open>path_chars a ?b \<le> path_chars a stk\<close>
    by (auto simp: norm_inv_def take_butlast in_set_butlastD)
  ultimately show ?thesis using le by auto
qed

lemma path_body_snoc:
  "path_body a d (stk @ [seg]) = path_body a d stk @ (if stk = [] then [] else [0x5C]) @ seg"
  by (simp add: path_body_def join_path_snoc)

lemma path_body_sep:
  assumes "\<forall>s \<in> set stk. s \<noteq> []"
  shows "(a \<and> length (path_body a d stk) > 3) \<or> (\<not> a \<and> length (path_body a d stk) > 0) \<longleftrightarrow> stk \<noteq> []"
  using join_path_eq_Nil [OF assms] by (auto simp: path_body_def drive_prefix_def)

lemma norm_push_ok:
  assumes inv: "norm_inv L a d stk st" and lim: "limits_ok L" and "seg \<noteq> []"
    and room: "n_pos st + (if stk = [] then 0 else 1) + length seg \<le> file_path_max_bytes L"
  shows "\<exists>st'. if length stk \<ge> 160 \<or> path_chars a (stk @ [seg]) > file_path_max_chars L
    then norm_push L a seg (seg_chars seg) st = Some (PATH_TOO_LONG, st') \<and>
         length (n_out st') = file_path_max_bytes L + 1
    else norm_push L a seg (seg_chars seg) st = Some (PATH_OK, st') \<and> norm_inv L a d (stk @ [seg]) st' \<and>
         n_pos st' = n_pos st + (if stk = [] then 0 else 1) + length seg"
proof (cases "length stk \<ge> 160")
  case True
  then show ?thesis using inv by (auto simp: norm_push_def norm_inv_def)
next
  case False
  define sp where "sp = (if stk = [] then [] else [0x5C :: u8])"
  let ?p = "n_pos st + length sp"
  note I = inv [unfolded norm_inv_def]
  have tp: "take (n_pos st) (n_out st) = path_body a d stk" using I by blast
  have len: "length (n_out st) = file_path_max_bytes L + 1" "length (n_starts st) = 160" "length (n_char_starts st) = 160"
    and cnt: "n_count st = length stk" using I by simp_all
  have sep: "(a \<and> n_pos st > 3) \<or> (\<not> a \<and> n_pos st > 0) \<longleftrightarrow> stk \<noteq> []"
    using path_body_sep [of stk a d] I by simp
  obtain o1 where o1: "(if stk \<noteq> [] then map_option (\<lambda>b. st\<lparr>n_out := b, n_pos := n_pos st + 1, n_chars := n_chars st + 1\<rparr>)
        (store (n_out st) (n_pos st) 0x5C) else Some st) =
      Some (st\<lparr>n_out := o1, n_pos := ?p, n_chars := n_chars st + length sp\<rparr>)"
    and l1: "length o1 = file_path_max_bytes L + 1" and t1: "take ?p o1 = path_body a d stk @ sp"
  proof (cases "stk = []")
    case True
    then show ?thesis
      by (intro that [of "n_out st"]) (simp_all add: sp_def tp len)
  next
    case False
    then have lt: "n_pos st < length (n_out st)" using len room by simp
    then show ?thesis using False
      by (intro that [of "(n_out st)[n_pos st := 0x5C]"]) (simp_all add: sp_def tp len take_Suc_conv_app_nth)
  qed
  let ?S = "(n_starts st)[length stk := word_of_nat (n_pos st)]"
  let ?C = "(n_char_starts st)[length stk := word_of_nat (n_chars st)]"
  have room': "?p + length seg \<le> file_path_max_bytes L" using room by (auto simp: sp_def)
  then have fits: "\<not> length seg > size_sub (file_path_max_bytes L) ?p" by simp
  have ch: "n_chars st + length sp + seg_chars seg = path_chars a (stk @ [seg])"
    using I by (simp add: path_chars_snoc sp_def)
  obtain o2 where o2: "r4_contract_copy o1 ?p seg = Some o2" "length o2 = length o1"
      "take (?p + length seg) o2 = take ?p o1 @ seg"
    using contract_copy_Some [of ?p seg o1] room' l1 by auto
  let ?st = "st\<lparr>n_out := o2, n_pos := ?p + length seg, n_chars := path_chars a (stk @ [seg]),
      n_starts := ?S, n_char_starts := ?C, n_count := length stk + 1\<rparr>"
  have run: "norm_push L a seg (seg_chars seg) st =
      (if path_chars a (stk @ [seg]) > file_path_max_chars L
       then Some (PATH_TOO_LONG, ?st\<lparr>n_out := o1, n_pos := ?p\<rparr>) else Some (PATH_OK, ?st))"
    unfolding norm_push_def Let_def sep o1
    using False fits o2(1) len cnt ch by simp
  show ?thesis
  proof (cases "path_chars a (stk @ [seg]) > file_path_max_chars L")
    case True
    then show ?thesis using run l1 by auto
  next
    case ok: False
    have "norm_inv L a d (stk @ [seg]) ?st"
      unfolding norm_inv_def using I room' ok False o2 l1 t1 assms(3)
      by (auto simp: path_body_snoc sp_def nth_list_update less_Suc_eq nth_append)
    then show ?thesis using False ok run by (auto simp: sp_def)
  qed
qed

subsection \<open>One component and the whole loop\<close>

definition gap :: "bytes list \<Rightarrow> nat" where
  "gap stk = (if stk = [] then 0 else 1)"

lemma seg_tests:
  "length seg = 1 \<and> seg ! 0 = x \<longleftrightarrow> seg = [x]"
  "length seg = 2 \<and> seg ! 0 = x \<and> seg ! 1 = y \<longleftrightarrow> seg = [x, y]"
  by (auto simp: length_Suc_conv numeral_2_eq_2)

lemma norm_segment_ok:
  assumes inv: "norm_inv L a d stk st" and lim: "limits_ok L" and ne: "seg \<noteq> []"
    and room: "n_pos st + gap stk + length seg \<le> file_path_max_bytes L"
  shows "\<exists>e st'. norm_segment L a seg st = Some (e, st') \<and> length (n_out st') = file_path_max_bytes L + 1 \<and>
    (if e = PATH_OK
     then \<exists>stk'. norm_inv L a d stk' st' \<and> n_pos st' \<le> n_pos st + gap stk + length seg \<and>
                (\<forall>ss. path_resolve L a (seg # ss) stk = path_resolve L a ss stk')
     else \<forall>ss. path_resolve L a (seg # ss) stk = Inl e)"
proof -
  have n_out: "length (n_out st) = file_path_max_bytes L + 1" "n_count st = length stk"
    using inv by (simp_all add: norm_inv_def)
  consider (dot) "seg = [0x2E]" | (dotdot) "seg = [0x2E, 0x2E]"
    | (comp) "seg \<noteq> [0x2E]" "seg \<noteq> [0x2E, 0x2E]" by blast
  then show ?thesis
  proof cases
    case dot
    then show ?thesis using inv n_out by (auto simp: norm_segment_def)
  next
    case dotdot
    show ?thesis
    proof (cases "stk = []")
      case True
      then show ?thesis using dotdot n_out by (simp add: norm_segment_def norm_dotdot_def)
    next
      case False
      with norm_dotdot_ok [OF inv lim] obtain st' where st':
        "norm_dotdot a st = Some (PATH_OK, st')" "norm_inv L a d (butlast stk) st'" "n_pos st' \<le> n_pos st" by blast
      then have "length (n_out st') = file_path_max_bytes L + 1" by (simp add: norm_inv_def)
      with st' False dotdot show ?thesis by (auto simp: norm_segment_def intro!: exI [of _ "butlast stk"])
    qed
  next
    case comp
    show ?thesis
    proof (cases "component_check L seg = PATH_OK")
      case False
      then have "norm_segment L a seg st = Some (component_check L seg, st)"
        using comp segment_error_not_ok [of seg]
        unfolding norm_segment_def seg_tests
        by (auto simp: component_check_def split: sum.splits if_splits)
      then show ?thesis using False comp n_out by auto
    next
      case True
      then have n: "norm_segment L a seg st = norm_push L a seg (seg_chars seg) st"
        using comp segment_error_not_ok [of seg]
        unfolding norm_segment_def seg_tests
        by (auto simp: component_check_def seg_chars_def split: sum.splits if_splits)
      let ?long = "length stk \<ge> 160 \<or> path_chars a (stk @ [seg]) > file_path_max_chars L"
      from norm_push_ok [OF inv lim ne] room obtain st' where st': "if ?long
          then norm_push L a seg (seg_chars seg) st = Some (PATH_TOO_LONG, st') \<and>
               length (n_out st') = file_path_max_bytes L + 1
          else norm_push L a seg (seg_chars seg) st = Some (PATH_OK, st') \<and> norm_inv L a d (stk @ [seg]) st' \<and>
               n_pos st' = n_pos st + gap stk + length seg"
        unfolding gap_def by blast
      show ?thesis
      proof (cases ?long)
        case l: True
        with st' n True comp show ?thesis by auto
      next
        case ok: False
        with st' have s: "norm_push L a seg (seg_chars seg) st = Some (PATH_OK, st')"
          "norm_inv L a d (stk @ [seg]) st'" "n_pos st' = n_pos st + gap stk + length seg" by simp_all
        moreover from this have "length (n_out st') = file_path_max_bytes L + 1" by (simp add: norm_inv_def)
        ultimately show ?thesis using n True comp ok by (auto intro!: exI [of _ "stk @ [seg]"])
      qed
    qed
  qed
qed

text \<open>At the loop's head the text is no longer than what has been read of the input.\<close>

definition loop_at :: "bytes \<Rightarrow> nat \<Rightarrow> bytes list \<Rightarrow> nat \<Rightarrow> bool" where
  "loop_at input index stk p \<longleftrightarrow>
     p \<le> index \<and> index \<le> length input \<and>
     (stk = [] \<or> index = length input \<or> r4_path_separator (input ! index))"

lemma loop_at_room:
  assumes "loop_at input index stk p" and "start = skip_separators input index" and "start < length input"
  shows "p + gap stk \<le> start"
proof (cases "stk = []")
  case True
  then show ?thesis using assms skip_separators_ge [of index input] by (simp add: loop_at_def gap_def)
next
  case False
  have "index < length input" using assms(2,3) skip_separators_ge [of index input] by simp
  then have "r4_path_separator (input ! index)" using False assms(1) by (auto simp: loop_at_def)
  then have "index < start"
    using \<open>index < length input\<close> assms(2) skip_separators_ge [of "index + 1" input]
    by (simp add: skip_separators.simps [of input index])
  then show ?thesis using assms(1) False by (simp add: loop_at_def gap_def)
qed

lemma norm_loop_ok:
  assumes "norm_inv L a d stk st" and "limits_ok L" and "length input \<le> file_path_max_bytes L"
    and "loop_at input index stk (n_pos st)"
  shows "\<exists>st'. length (n_out st') = file_path_max_bytes L + 1 \<and>
    (case path_resolve L a (path_segments (drop index input)) stk of
       Inl e \<Rightarrow> e \<noteq> PATH_OK \<and> norm_loop L a input index st = Some (e, st')
     | Inr stk' \<Rightarrow> norm_loop L a input index st = Some (PATH_OK, st') \<and> norm_inv L a d stk' st' \<and>
                   n_pos st' \<le> length input)"
  using assms
proof (induction L a input index st arbitrary: stk rule: norm_loop.induct)
  case (1 L a input index st)
  let ?start = "skip_separators input index"
  show ?case
  proof (cases "?start < length input")
    case False
    have n_out: "length (n_out st) = file_path_max_bytes L + 1" using 1 by (simp add: norm_inv_def)
    have "path_segments (drop index input) = []" using False path_segments_step [OF refl, of index input] by simp
    moreover have "norm_loop L a input index st = Some (PATH_OK, st)"
      using False by (simp add: norm_loop.simps [of L a input index])
    ultimately show ?thesis using 1 n_out by (auto simp: loop_at_def)
  next
    case True
    let ?stop = "scan_segment input ?start"
    let ?seg = "take (?stop - ?start) (drop ?start input)"
    have lt: "index < length input" using True skip_separators_ge [of index input] by simp
    have bounds: "?start < ?stop" "?stop \<le> length input"
      using scan_segment_gt [OF True skip_separators_stop [OF True]] scan_segment_le [of ?start] True
      by simp_all
    have len: "length ?seg = ?stop - ?start" using bounds by simp
    have segs: "path_segments (drop index input) = ?seg # path_segments (drop ?stop input)"
      using path_segments_step [OF refl, of index input] True scan_segment_split [of input ?start] by simp
    have room: "n_pos st + gap stk + length ?seg \<le> ?stop"
      using loop_at_room [OF 1(5) refl True] len bounds by simp
    have ne: "?seg \<noteq> []" using len bounds by auto
    have fits: "n_pos st + gap stk + length ?seg \<le> file_path_max_bytes L" using room bounds 1(4) by linarith
    obtain e st' where e: "norm_segment L a ?seg st = Some (e, st')"
        "length (n_out st') = file_path_max_bytes L + 1"
        "if e = PATH_OK
         then \<exists>stk'. norm_inv L a d stk' st' \<and> n_pos st' \<le> n_pos st + gap stk + length ?seg \<and>
                (\<forall>ss. path_resolve L a (?seg # ss) stk = path_resolve L a ss stk')
         else \<forall>ss. path_resolve L a (?seg # ss) stk = Inl e"
      using norm_segment_ok [OF 1(2,3) ne fits] by (elim exE conjE) (rule that)
    have run: "norm_loop L a input index st =
        (if e \<noteq> PATH_OK then Some (e, st') else norm_loop L a input ?stop st')"
      using True lt e(1) by (simp add: norm_loop.simps [of L a input index] Let_def)
    show ?thesis
    proof (cases "e = PATH_OK")
      case False
      then show ?thesis using e run segs by auto
    next
      case ok: True
      then obtain stk' where stk': "norm_inv L a d stk' st'" "n_pos st' \<le> n_pos st + gap stk + length ?seg"
        "\<And>ss. path_resolve L a (?seg # ss) stk = path_resolve L a ss stk'" using e(3) by auto
      have "loop_at input ?stop stk' (n_pos st')"
        using stk'(2) room bounds(2) scan_segment_stop [of input ?start]
        by (cases "?stop < length input") (simp_all add: loop_at_def)
      moreover have "\<not> length input \<le> ?start" "\<not> e \<noteq> PATH_OK" using True ok by simp_all
      ultimately have ih: "\<exists>st''. length (n_out st'') = file_path_max_bytes L + 1 \<and>
        (case path_resolve L a (path_segments (drop ?stop input)) stk' of
           Inl e \<Rightarrow> e \<noteq> PATH_OK \<and> norm_loop L a input ?stop st' = Some (e, st'')
         | Inr stk' \<Rightarrow> norm_loop L a input ?stop st' = Some (PATH_OK, st'') \<and> norm_inv L a d stk' st'' \<and>
                       n_pos st'' \<le> length input)"
        by (rule 1(1) [OF lt refl _ refl e(1) refl _ stk'(1) 1(3,4), rotated -1])
      show ?thesis unfolding segs stk'(3) run using ih ok by simp
    qed
  qed
qed

end
