(* ===== verification/FilePathCorrect.thy ===== *)
theory FilePathCorrect
  imports NormLoop
begin

text \<open>
  \<open>r4_path_normalize\<close> against its specification on lists of components, and
  what the specification promises: the shape of a normalised path, its
  idempotence and the constructors' agreement.
\<close>

subsection \<open>Prologue and epilogue\<close>

lemma norm_start_ok:
  assumes "length buf = file_path_max_bytes L + 1" and "length input \<le> file_path_max_bytes L"
    and "a \<longrightarrow> 3 \<le> length input" and "input \<noteq> []"
  shows "\<exists>st. norm_start a input buf = Some st \<and> norm_inv L a (hd input) [] st \<and> n_pos st = (if a then 3 else 0)"
proof (cases a)
  case False
  then show ?thesis using assms(1)
    by (simp add: norm_start_def norm_inv_def path_body_def drive_prefix_def path_chars_def)
next
  case True
  then have "0 + length [r4_ascii_upper (input ! 0), 0x3A, 0x5C] \<le> length buf" using assms by simp
  from contract_copy_Some [OF this] obtain b where
    "r4_contract_copy buf 0 [r4_ascii_upper (input ! 0), 0x3A, 0x5C] = Some b" "length b = length buf"
    "take (0 + length [r4_ascii_upper (input ! 0), 0x3A, 0x5C]) b =
     take 0 buf @ [r4_ascii_upper (input ! 0), 0x3A, 0x5C]" by blast
  then show ?thesis using assms True
    by (simp add: norm_start_def norm_inv_def path_body_def drive_prefix_def path_chars_def hd_conv_nth
        numeral_3_eq_3)
qed

lemma norm_finish_ok:
  assumes inv: "norm_inv L a d stk st" and "0 < file_path_max_bytes L"
  shows "\<exists>b. norm_finish a st = Some \<lparr>r_code = PATH_OK, r_buffer = b,
      r_len = Some (word_of_nat (length (path_text a d stk))), r_absolute = Some a\<rparr> \<and>
    length b = file_path_max_bytes L + 1 \<and> length (path_text a d stk) \<le> file_path_max_bytes L \<and>
    take (length (path_text a d stk)) b = path_text a d stk \<and> b ! length (path_text a d stk) = 0"
proof -
  note I = inv [unfolded norm_inv_def]
  have p: "n_pos st = length (path_body a d stk)" and m: "n_pos st \<le> file_path_max_bytes L"
    and l: "length (n_out st) = file_path_max_bytes L + 1"
    using I by simp_all
  have t: "take (n_pos st) (n_out st) = path_body a d stk" using I by blast
  have dot: "\<not> a \<and> n_pos st = 0 \<longleftrightarrow> \<not> a \<and> stk = []"
    using path_body_sep [of stk a d] I by auto
  show ?thesis
  proof (cases "\<not> a \<and> stk = []")
    case True
    then have "n_pos st = 0" using dot by simp
    then show ?thesis using True l assms(2) by (simp add: norm_finish_def path_text_def Let_def take_Suc_conv_app_nth)
  next
    case False
    then have e: "path_text a d stk = path_body a d stk" by (auto simp: path_text_def path_body_def)
    have "\<not> (\<not> a \<and> n_pos st = 0)" using dot False by simp
    then have "norm_finish a st = Some \<lparr>r_code = PATH_OK, r_buffer = (n_out st)[n_pos st := 0],
        r_len = Some (word_of_nat (n_pos st)), r_absolute = Some a\<rparr>"
      using m l by (simp add: norm_finish_def)
    then show ?thesis unfolding e p [symmetric] using m l t by simp
  qed
qed

lemma normalize_run:
  assumes "limits_ok L" and "length buf = file_path_max_bytes L + 1"
  shows "\<exists>r. r4_path_normalize L input kind buf = Some r \<and> length (r_buffer r) = file_path_max_bytes L + 1 \<and>
    (case path_spec L kind (case input of None \<Rightarrow> [] | Some s \<Rightarrow> s) of
       Inl e \<Rightarrow> e \<noteq> PATH_OK \<and> r_code r = e \<and> r_len r = None \<and> r_absolute r = None
     | Inr (a, text) \<Rightarrow> r_code r = PATH_OK \<and> r_len r = Some (word_of_nat (length text)) \<and>
         r_absolute r = Some a \<and> length text \<le> file_path_max_bytes L \<and>
         take (length text) (r_buffer r) = text \<and> r_buffer r ! length text = 0)"
proof -
  let ?s = "case input of None \<Rightarrow> [] | Some s \<Rightarrow> s"
  let ?a = "path_absolute ?s"
  consider (early) e where "e \<noteq> PATH_OK" "r4_path_normalize L input kind buf = Some (norm_fail e buf)"
      "path_spec L kind ?s = Inl e"
    | (run) s where "input = Some s" "s \<noteq> []" "length s \<le> file_path_max_bytes L"
      "\<not> ((kind = 1 \<and> \<not> ?a) \<or> (kind = 0 \<and> ?a))" "\<not> (\<not> ?a \<and> r4_path_separator (s ! 0))"
  proof (cases "?s = [] \<or> length ?s > file_path_max_bytes L")
    case True
    then have "r4_path_normalize L input kind buf =
        Some (norm_fail (if ?s = [] then PATH_EMPTY else PATH_TOO_LONG) buf)"
      by (cases input) (auto simp: r4_path_normalize_def)
    with True that(1) [of "if ?s = [] then PATH_EMPTY else PATH_TOO_LONG"] show ?thesis
      by (auto simp: path_spec_def)
  next
    case False
    then obtain s where s: "input = Some s" "s \<noteq> []" "length s \<le> file_path_max_bytes L" by (cases input) auto
    show ?thesis
    proof (cases "((kind = 1 \<and> \<not> ?a) \<or> (kind = 0 \<and> ?a)) \<or> (\<not> ?a \<and> r4_path_separator (s ! 0))")
      case True
      then have "r4_path_normalize L input kind buf = Some (norm_fail PATH_WRONG_KIND buf)"
        "path_spec L kind ?s = Inl PATH_WRONG_KIND"
        using s by (auto simp: r4_path_normalize_def path_spec_def Let_def hd_conv_nth not_less)
      then show ?thesis using that(1) [of PATH_WRONG_KIND] by simp
    next
      case False
      then show ?thesis using that(2) [of s] s by blast
    qed
  qed
  then show ?thesis
  proof cases
    case early
    then show ?thesis using assms by (simp add: norm_fail_def)
  next
    case run
    define A where "A = path_absolute s"
    have sa: "?s = s" "?a = A" using run(1) by (simp_all add: A_def)
    note ok = run(4,5) [unfolded sa]
    let ?i = "if A then 3 else 0"
    have a3: "A \<longrightarrow> 3 \<le> length s" using run by (simp add: path_absolute_def A_def)
    obtain st where st: "norm_start A s buf = Some st" "norm_inv L A (hd s) [] st" "n_pos st = ?i"
      using norm_start_ok [OF assms(2) run(3) a3 run(2)] by blast
    have "loop_at s ?i [] (n_pos st)" using st(3) a3 by (simp add: loop_at_def)
    from norm_loop_ok [OF st(2) assms(1) run(3) this] obtain st' where
      l: "length (n_out st') = file_path_max_bytes L + 1" and
      c: "case path_resolve L A (path_segments (drop ?i s)) [] of
       Inl e \<Rightarrow> e \<noteq> PATH_OK \<and> norm_loop L A s ?i st = Some (e, st')
     | Inr stk' \<Rightarrow> norm_loop L A s ?i st = Some (PATH_OK, st') \<and> norm_inv L A (hd s) stk' st' \<and>
                   n_pos st' \<le> length s" by blast
    have code_eq: "r4_path_normalize L input kind buf =
        (case norm_loop L A s ?i st of None \<Rightarrow> None
         | Some (c, st) \<Rightarrow> if c \<noteq> PATH_OK then Some (norm_fail c (n_out st)) else norm_finish A st)"
      using run(1-3) ok st(1)
      by (cases A) (auto simp: r4_path_normalize_def Let_def not_less split: option.splits simp flip: A_def)
    have spec_eq: "path_spec L kind ?s = (case path_resolve L A (path_segments (drop ?i s)) [] of
               Inl e \<Rightarrow> Inl e | Inr stk \<Rightarrow> Inr (A, path_text A (hd s) stk))"
      using run(1-3) ok
      by (cases A) (auto simp: path_spec_def Let_def hd_conv_nth not_less split: sum.splits simp flip: A_def)
    show ?thesis
    proof (cases "path_resolve L A (path_segments (drop ?i s)) []")
      case (Inl e)
      then show ?thesis using c l code_eq spec_eq by (simp add: norm_fail_def)
    next
      case (Inr stk)
      then have n: "norm_loop L A s ?i st = Some (PATH_OK, st')" "norm_inv L A (hd s) stk st'" using c by simp_all
      moreover have "0 < file_path_max_bytes L" using run(2,3) by (cases s) auto
      ultimately show ?thesis using norm_finish_ok [of L A "hd s" stk st'] unfolding code_eq spec_eq Inr
        by auto
    qed
  qed
qed

text \<open>
  C1: with limits that fit 16 bits and an output buffer of \<open>R4OS_FILE_PATH_MAX_BYTES + 1\<close>
  bytes, \<open>r4_path_normalize\<close> never leaves the r_buffer or its rollback arrays. It
  returns the r_code of \<open>path_spec\<close>; on success the stored length, absolute flag
  and bytes are the specification's, followed by a zero terminator inside the
  r_buffer, and on an error the length and flag are left alone.
\<close>

theorem r4_path_normalize_refines:
  assumes "limits_ok L" and "length buf = file_path_max_bytes L + 1"
  shows "\<exists>r. r4_path_normalize L input kind buf = Some r \<and> length (r_buffer r) = file_path_max_bytes L + 1 \<and>
    (case path_spec L kind (case input of None \<Rightarrow> [] | Some s \<Rightarrow> s) of
       Inl e \<Rightarrow> e \<noteq> PATH_OK \<and> r_code r = e \<and> r_len r = None \<and> r_absolute r = None
     | Inr (a, text) \<Rightarrow> r_code r = PATH_OK \<and> r_len r = Some (word_of_nat (length text)) \<and>
         r_absolute r = Some a \<and> length text \<le> file_path_max_bytes L \<and>
         take (length text) (r_buffer r) = text \<and> r_buffer r ! length text = 0)"
  using assms by (rule normalize_run)

subsection \<open>Components that normalisation leaves behind\<close>

lemma utf8_bmp_bytes:
  assumes "path_scalar cp" and "b \<in> set (utf8_bmp cp)"
  shows "b \<noteq> 0 \<and> b \<noteq> 0x3A"
proof (cases "cp < 0x80")
  case True
  then have "unat b = cp" using assms(2) by (simp add: utf8_bmp_def unat_small)
  then show ?thesis using assms(1) by (auto simp: path_scalar_def)
next
  case False
  have "cp < 0x10000" using assms(1) by (simp add: path_scalar_def)
  then have "cp div 4096 < 16" by (simp add: less_mult_imp_div_less)
  moreover have "cp < 0x800 \<Longrightarrow> cp div 64 < 32" by (simp add: less_mult_imp_div_less)
  ultimately have "128 \<le> unat b"
    using assms(2) False by (auto simp: utf8_bmp_def unat_small simp del: of_nat_add split: if_splits)
  then show ?thesis by (auto simp: word_unat_eq_iff)
qed

lemma segment_valid_bytes:
  assumes "r4_path_segment_valid s = Inr n" and "b \<in> set s"
  shows "b \<noteq> 0 \<and> b \<noteq> 0x3A"
proof -
  obtain cps where "\<forall>cp \<in> set cps. path_scalar cp" "s = concat (map utf8_bmp cps)"
    using segment_loop_decodes [of s 0 0 n] assms(1) by (auto simp: r4_path_segment_valid_def)
  then obtain cp where "path_scalar cp" "b \<in> set (utf8_bmp cp)" using assms(2) by auto
  then show ?thesis by (rule utf8_bmp_bytes)
qed

definition bare_segment :: "bytes \<Rightarrow> bool" where
  "bare_segment s \<longleftrightarrow> s \<noteq> [] \<and> list_all (\<lambda>b. \<not> r4_path_separator b) s"

definition plain_component :: "path_limits \<Rightarrow> bytes \<Rightarrow> bool" where
  "plain_component L s \<longleftrightarrow>
     bare_segment s \<and> s \<noteq> [0x2E] \<and> s \<noteq> [0x2E, 0x2E] \<and> component_check L s = PATH_OK"

lemma plain_component_bytes:
  assumes "plain_component L s" and "b \<in> set s"
  shows "b \<noteq> 0 \<and> b \<noteq> 0x3A \<and> b \<noteq> 0x2F \<and> b \<noteq> 0x5C"
proof -
  obtain n where "r4_path_segment_valid s = Inr n"
    using assms(1) segment_error_not_ok [of s]
    by (auto simp: plain_component_def component_check_def split: if_splits sum.splits)
  with assms show ?thesis using segment_valid_bytes [of s n b]
    by (auto simp: plain_component_def bare_segment_def list_all_iff r4_path_separator_def)
qed

lemma path_segments_bare: "list_all bare_segment (path_segments xs)"
proof (induction xs rule: path_segments.induct)
  case (1 xs)
  let ?ys = "dropWhile r4_path_separator xs"
  show ?case
  proof (cases "?ys = []")
    case True
    then show ?thesis by (simp add: path_segments.simps [of xs])
  next
    case False
    then have "\<not> r4_path_separator (hd ?ys)" by (rule hd_dropWhile)
    then have "bare_segment (takeWhile (Not \<circ> r4_path_separator) ?ys)"
      using False by (cases ?ys) (auto simp: bare_segment_def list_all_iff dest: set_takeWhileD)
    then show ?thesis using 1 False by (simp add: path_segments.simps [of xs] Let_def)
  qed
qed

lemma path_segments_join: "list_all bare_segment ss \<Longrightarrow> path_segments (join_path ss) = ss"
proof (induction ss rule: join_path.induct)
  case 1
  then show ?case by (simp add: path_segments.simps)
next
  case (2 s)
  then have s: "s \<noteq> []" "\<forall>b \<in> set s. \<not> r4_path_separator b" by (simp_all add: bare_segment_def list_all_iff)
  then have d: "dropWhile r4_path_separator s = s" by (cases s) auto
  have t: "takeWhile (Not \<circ> r4_path_separator) s = s" "dropWhile (Not \<circ> r4_path_separator) s = []"
    using s by simp_all
  have "path_segments s = s # path_segments []"
    by (simp only: path_segments.simps [of s] Let_def d t s(1) if_False)
  then show ?case by (simp add: path_segments.simps [of "[]"])
next
  case (3 s t ss)
  let ?rest = "0x5C # join_path (t # ss)"
  have s: "s \<noteq> []" "\<forall>b \<in> set s. \<not> r4_path_separator b"
    using "3.prems" by (simp_all add: bare_segment_def list_all_iff)
  then have d: "dropWhile r4_path_separator (s @ ?rest) = s @ ?rest" by (cases s) auto
  have sep: "r4_path_separator 0x5C" by (simp add: r4_path_separator_def)
  have t: "takeWhile (Not \<circ> r4_path_separator) (s @ ?rest) = s"
    "dropWhile (Not \<circ> r4_path_separator) (s @ ?rest) = ?rest"
    using s sep by (simp_all add: takeWhile_append2 dropWhile_append2)
  have "path_segments ?rest = path_segments (join_path (t # ss))"
    using sep by (simp add: path_segments.simps [of ?rest] path_segments.simps [of "join_path (t # ss)"])
  then show ?case using 3 s d t by (simp add: path_segments.simps [of "s @ ?rest"])
qed

text \<open>The stack that resolution returns, and resolving such a stack again.\<close>

definition normal_stack :: "path_limits \<Rightarrow> bool \<Rightarrow> bytes list \<Rightarrow> bool" where
  "normal_stack L a stk \<longleftrightarrow>
     list_all (plain_component L) stk \<and> length stk \<le> 160 \<and>
     (stk = [] \<or> path_chars a stk \<le> file_path_max_chars L)"

lemma normal_stack_butlast: "normal_stack L a stk \<Longrightarrow> normal_stack L a (butlast stk)"
  using path_chars_take [of a "length stk - 1" stk]
  by (auto simp: normal_stack_def list_all_iff butlast_conv_take dest: in_set_takeD)

lemma path_resolve_normal:
  "path_resolve L a ss stk = Inr stk' \<Longrightarrow> list_all bare_segment ss \<Longrightarrow> normal_stack L a stk \<Longrightarrow>
   normal_stack L a stk'"
proof (induction L a ss stk rule: path_resolve.induct)
  case (1 L a stk)
  then show ?case by simp
next
  case (2 L a s ss stk)
  show ?case
  proof (cases "s = [0x2E] \<or> s = [0x2E, 0x2E]")
    case True
    then show ?thesis using 2 normal_stack_butlast [of L a stk] by (auto split: if_splits)
  next
    case False
    then have c: "component_check L s = PATH_OK" "length stk < 160"
      "path_chars a (stk @ [s]) \<le> file_path_max_chars L"
      and r: "path_resolve L a ss (stk @ [s]) = Inr stk'"
      using "2.prems"(1) by (simp_all split: if_splits)
    then have "normal_stack L a (stk @ [s])"
      using False "2.prems" by (simp add: normal_stack_def plain_component_def)
    then show ?thesis using "2.IH"(3) False c r "2.prems"(2) by simp
  qed
qed

lemma path_resolve_id:
  "normal_stack L a (stk @ ss) \<Longrightarrow> path_resolve L a ss stk = Inr (stk @ ss)"
proof (induction ss arbitrary: stk)
  case Nil
  then show ?case by simp
next
  case (Cons s ss)
  have "path_chars a (stk @ [s]) \<le> path_chars a (stk @ s # ss)"
    using path_chars_take [of a "length stk + 1" "stk @ s # ss"] by simp
  then show ?case using Cons.prems Cons.IH [of "stk @ [s]"]
    by (simp add: normal_stack_def plain_component_def)
qed

subsection \<open>Shape and idempotence\<close>

lemma path_spec_shape:
  assumes "path_spec L kind input = Inr (a, body)"
  shows "\<exists>stk. normal_stack L a stk \<and> body = path_text a (hd input) stk \<and>
    (a \<longrightarrow> r4_path_alpha (hd input)) \<and> \<not> ((kind = 1 \<and> \<not> a) \<or> (kind = 0 \<and> a))"
proof -
  let ?A = "path_absolute input"
  from assms obtain stk where a: "a = ?A" and
    r: "path_resolve L ?A (path_segments (drop (if ?A then 3 else 0) input)) [] = Inr stk" and
    t: "body = path_text ?A (hd input) stk" and
    k: "input \<noteq> []" "\<not> ((kind = 1 \<and> \<not> ?A) \<or> (kind = 0 \<and> ?A))"
    unfolding path_spec_def Let_def by (simp split: if_splits sum.splits)
  have "normal_stack L ?A stk"
    using path_resolve_normal [OF r path_segments_bare] by (simp add: normal_stack_def)
  moreover have "?A \<longrightarrow> r4_path_alpha (hd input)" using k(1) by (auto simp: path_absolute_def hd_conv_nth)
  ultimately show ?thesis using a t k by blast
qed

lemma ascii_upper_idem [path_simps]: "r4_ascii_upper (r4_ascii_upper b) = r4_ascii_upper b"
  by (auto simp: r4_ascii_upper_def word_le_nat_alt unat_sub_if')

lemma path_alpha_upper [path_simps]: "r4_path_alpha (r4_ascii_upper b) = r4_path_alpha b"
  by (simp add: r4_path_alpha_def ascii_upper_idem)

lemma normal_stack_bytes:
  assumes "normal_stack L a stk" and "b \<in> set (join_path stk)"
  shows "b \<noteq> 0 \<and> b \<noteq> 0x3A \<and> b \<noteq> 0x2F"
proof -
  have "b \<in> set (join_path ss) \<Longrightarrow> b = 0x5C \<or> (\<exists>s \<in> set ss. b \<in> set s)" for ss
    by (induction ss rule: join_path.induct) auto
  with assms(2) consider "b = 0x5C" | s where "s \<in> set stk" "b \<in> set s" by blast
  then show ?thesis
  proof cases
    case 2
    then have "plain_component L s" using assms(1) by (simp add: normal_stack_def list_all_iff)
    then show ?thesis using plain_component_bytes [of L s b] 2 by blast
  qed simp
qed

lemma normal_stack_segments: "normal_stack L a stk \<Longrightarrow> path_segments (join_path stk) = stk"
  by (intro path_segments_join) (auto simp: normal_stack_def plain_component_def list_all_iff)

lemma path_spec_idem:
  assumes n: "normal_stack L a stk" and al: "a \<longrightarrow> r4_path_alpha d"
    and len: "length (path_text a d stk) \<le> file_path_max_bytes L"
    and k: "\<not> ((kind = 1 \<and> \<not> a) \<or> (kind = 0 \<and> a))"
  shows "path_spec L kind (path_text a d stk) = Inr (a, path_text a d stk)"
proof (cases a)
  case True
  then have t: "path_text a d stk = r4_ascii_upper d # 0x3A # 0x5C # join_path stk"
    by (simp add: path_text_def drive_prefix_def)
  then have ab: "path_absolute (path_text a d stk)"
    using True al by (simp add: path_absolute_def path_alpha_upper r4_path_separator_def)
  have "path_resolve L True (path_segments (drop 3 (path_text a d stk))) [] = Inr stk"
    using n True t path_resolve_id [of L a "[]" stk] by (simp add: normal_stack_segments)
  moreover have "path_text True (hd (path_text a d stk)) stk = path_text a d stk"
    using True t by (simp add: path_text_def drive_prefix_def ascii_upper_idem)
  ultimately show ?thesis using ab k True len t by (simp add: path_spec_def Let_def)
next
  case False
  show ?thesis
  proof (cases "stk = []")
    case True
    then have "path_text a d stk = [0x2E]" using False by (simp add: path_text_def)
    moreover have "path_segments [0x2E] = [[0x2E]]"
      by (simp add: path_segments.simps [of "[0x2E]"] path_segments.simps [of "[]"] r4_path_separator_def)
    ultimately show ?thesis using False k len
      by (auto simp: path_spec_def path_absolute_def r4_path_separator_def path_text_def)
  next
    case ne: False
    then have t: "path_text a d stk = join_path stk" using False by (simp add: path_text_def drive_prefix_def)
    obtain s ss where stk: "stk = s # ss" using ne by (cases stk) auto
    have s: "plain_component L s" using n stk by (simp add: normal_stack_def)
    have jne: "join_path stk \<noteq> []" and hd: "hd (join_path stk) = hd s"
      using s stk by (cases ss; simp add: plain_component_def bare_segment_def)+
    have "\<not> r4_path_separator (hd (join_path stk))"
      unfolding hd using s by (cases s) (auto simp: plain_component_def bare_segment_def)
    moreover have "\<not> path_absolute (join_path stk)"
      using normal_stack_bytes [OF n nth_mem, of 1] by (auto simp: path_absolute_def)
    moreover have "path_resolve L False (path_segments (join_path stk)) [] = Inr stk"
      using n False path_resolve_id [of L a "[]" stk] by (simp add: normal_stack_segments)
    moreover have "path_text False (hd (join_path stk)) stk = join_path stk"
      using ne by (simp add: path_text_def drive_prefix_def)
    ultimately show ?thesis unfolding t using False k len t jne by (simp add: path_spec_def Let_def)
  qed
qed

text \<open>What a successful run leaves, in terms of the specification.\<close>

lemma normalize_success:
  assumes "limits_ok L" and "length buf = file_path_max_bytes L + 1"
    and "r4_path_normalize L (Some input) kind buf = Some r" and "r_code r = PATH_OK"
  obtains a body where "path_spec L kind input = Inr (a, body)" "r_len r = Some (word_of_nat (length body))"
    "unat (word_of_nat (length body) :: u16) = length body" "r_absolute r = Some a"
    "length body \<le> file_path_max_bytes L" "take (length body) (r_buffer r) = body" "r_buffer r ! length body = 0"
proof -
  from normalize_run [OF assms(1,2), of "Some input" kind] assms(3,4) obtain a body where
    *: "path_spec L kind input = Inr (a, body)" "r_len r = Some (word_of_nat (length body))"
      "r_absolute r = Some a" "length body \<le> file_path_max_bytes L"
      "take (length body) (r_buffer r) = body" "r_buffer r ! length body = 0"
    by (cases "path_spec L kind input") auto
  moreover have "unat (word_of_nat (length body) :: u16) = length body"
    using *(4) assms(1) by (intro unat_u16) (simp add: limits_ok_def)
  ultimately show ?thesis by (intro that)
qed

text \<open>
  C2: a successful \<open>r4_path_normalize\<close> leaves a normal form. The body is the drive
  prefix and the components joined by single backslashes (or a lone dot), no
  component is empty, a dot or a double dot or holds a separator, each passes
  the component check, there are at most 160 within the character limit, the
  body has no zero byte and no forward slash, and an absolute one n_starts with a letter.
\<close>

theorem normalized_path_shape:
  assumes "limits_ok L" and "length buf = file_path_max_bytes L + 1"
    and "r4_path_normalize L (Some input) kind buf = Some r" and "r_code r = PATH_OK"
  shows "\<exists>n a stk. r_len r = Some n \<and> r_absolute r = Some a \<and>
    take (unat n) (r_buffer r) = path_text a (hd input) stk \<and>
    (a \<longrightarrow> r4_path_alpha (hd input)) \<and> (kind = 1 \<longrightarrow> a) \<and> (kind = 0 \<longrightarrow> \<not> a) \<and>
    list_all (plain_component L) stk \<and> length stk \<le> 160 \<and>
    (stk = [] \<or> path_chars a stk \<le> file_path_max_chars L) \<and>
    0 \<notin> set (path_text a (hd input) stk) \<and> 0x2F \<notin> set (path_text a (hd input) stk)"
proof -
  obtain a body where n: "path_spec L kind input = Inr (a, body)"
    "r_len r = Some (word_of_nat (length body))" "unat (word_of_nat (length body) :: u16) = length body"
    "r_absolute r = Some a" "take (length body) (r_buffer r) = body"
    using normalize_success [OF assms] by metis
  from path_spec_shape [OF n(1)] obtain stk where stk: "normal_stack L a stk"
    "body = path_text a (hd input) stk" "a \<longrightarrow> r4_path_alpha (hd input)"
    "\<not> ((kind = 1 \<and> \<not> a) \<or> (kind = 0 \<and> a))" by blast
  have "r4_ascii_upper d \<noteq> 0 \<and> r4_ascii_upper d \<noteq> 0x2F" if "r4_path_alpha d" for d
    using that by (auto simp: r4_path_alpha_def Let_def)
  then have "b \<noteq> 0 \<and> b \<noteq> 0x2F" if "b \<in> set (path_text a (hd input) stk)" for b
    using that stk(3) normal_stack_bytes [OF stk(1), of b]
    by (auto simp: path_text_def drive_prefix_def split: if_splits)
  then show ?thesis using n stk by (auto simp: normal_stack_def)
qed

text \<open>
  normalising a normalised path changes nothing. Run again on the bytes a
  successful call stored, with the same kind, \<open>r4_path_normalize\<close> succeeds with
  the same length, the same absolute flag and the same bytes.
\<close>

theorem r4_path_normalize_idempotent:
  assumes "limits_ok L" and "length buf = file_path_max_bytes L + 1" and "length buf' = file_path_max_bytes L + 1"
    and "r4_path_normalize L (Some input) kind buf = Some r" and "r_code r = PATH_OK"
    and "r_len r = Some n"
  shows "\<exists>r'. r4_path_normalize L (Some (take (unat n) (r_buffer r))) kind buf' = Some r' \<and>
    r_code r' = PATH_OK \<and> r_len r' = Some n \<and> r_absolute r' = r_absolute r \<and>
    take (unat n) (r_buffer r') = take (unat n) (r_buffer r)"
proof -
  obtain a body where t: "path_spec L kind input = Inr (a, body)"
    "r_len r = Some (word_of_nat (length body))" "unat (word_of_nat (length body) :: u16) = length body"
    "r_absolute r = Some a" "length body \<le> file_path_max_bytes L" "take (length body) (r_buffer r) = body"
    using normalize_success [OF assms(1,2,4,5)] by metis
  from path_spec_shape [OF t(1)] obtain stk where stk: "normal_stack L a stk"
    "body = path_text a (hd input) stk" "a \<longrightarrow> r4_path_alpha (hd input)"
    "\<not> ((kind = 1 \<and> \<not> a) \<or> (kind = 0 \<and> a))" by blast
  have spec: "path_spec L kind body = Inr (a, body)"
    using path_spec_idem [OF stk(1,3) _ stk(4)] t(5) unfolding stk(2) by blast
  have n: "n = word_of_nat (length body)" using t(2) assms(6) by simp
  then have un: "unat n = length body" using t(3) by (simp only:)
  show ?thesis
    using normalize_run [OF assms(1,3), of "Some body" kind] spec t(4,6) un n by auto
qed

subsection \<open>The typed constructors\<close>

lemma path_spec_kinds:
  "path_spec L 1 input = Inr (a, t) \<longleftrightarrow> path_spec L (- 1) input = Inr (a, t) \<and> a"
  "path_spec L 0 input = Inr (a, t) \<longleftrightarrow> path_spec L (- 1) input = Inr (a, t) \<and> \<not> a"
  by (auto simp: path_spec_def Let_def split: if_splits sum.splits)

lemma normalize_code_iff:
  assumes "limits_ok L" and "length buf = file_path_max_bytes L + 1"
    and "r4_path_normalize L (Some input) kind buf = Some r"
  shows "r_code r = PATH_OK \<longleftrightarrow> (\<exists>a t. path_spec L kind input = Inr (a, t))"
  using normalize_run [OF assms(1,2), of "Some input" kind] assms(3)
  by (cases "path_spec L kind input") auto

text \<open>
  the three constructors agree. \<open>r4_absolute_file_path\<close> accepts exactly the
  inputs \<open>r4_file_path\<close> accepts as absolute, \<open>r4_relative_file_path\<close> exactly those
  it accepts as relative, and each then stores the same length and the same bytes.
\<close>

theorem typed_constructors_agree:
  assumes "limits_ok L" and "length (fp_bytes p) = file_path_max_bytes L + 1"
    and "length (tp_bytes q) = file_path_max_bytes L + 1" and "length (tp_bytes s) = file_path_max_bytes L + 1"
  shows "\<exists>c1 f c2 a c3 r. r4_file_path L (Some input) (Some p) = Some (c1, Some f) \<and>
    r4_absolute_file_path L (Some input) (Some q) = Some (c2, Some a) \<and>
    r4_relative_file_path L (Some input) (Some s) = Some (c3, Some r) \<and>
    (c2 = PATH_OK \<longleftrightarrow> c1 = PATH_OK \<and> fp_absolute f) \<and>
    (c3 = PATH_OK \<longleftrightarrow> c1 = PATH_OK \<and> \<not> fp_absolute f) \<and>
    (c2 = PATH_OK \<longrightarrow> tp_length a = fp_length f \<and>
       take (unat (fp_length f)) (tp_bytes a) = take (unat (fp_length f)) (fp_bytes f)) \<and>
    (c3 = PATH_OK \<longrightarrow> tp_length r = fp_length f \<and>
       take (unat (fp_length f)) (tp_bytes r) = take (unat (fp_length f)) (fp_bytes f))"
proof -
  obtain x y z where n: "r4_path_normalize L (Some input) (- 1) (fp_bytes p) = Some x"
    "r4_path_normalize L (Some input) 1 (tp_bytes q) = Some y"
    "r4_path_normalize L (Some input) 0 (tp_bytes s) = Some z"
    using normalize_run [OF assms(1,2), of "Some input" "- 1"] normalize_run [OF assms(1,3), of "Some input" 1]
      normalize_run [OF assms(1,4), of "Some input" 0] by blast
  note iff = normalize_code_iff [OF assms(1,2) n(1)] normalize_code_iff [OF assms(1,3) n(2)]
    normalize_code_iff [OF assms(1,4) n(3)]
  show ?thesis
  proof (cases "path_spec L (- 1) input")
    case (Inl e)
    then have "r_code x \<noteq> PATH_OK" "r_code y \<noteq> PATH_OK" "r_code z \<noteq> PATH_OK"
      using iff by (auto simp: path_spec_kinds)
    then show ?thesis using n
      by (simp add: r4_file_path_def r4_absolute_file_path_def r4_relative_file_path_def fp_result_def tp_result_def)
  next
    case (Inr v)
    then obtain b t where v: "path_spec L (- 1) input = Inr (b, t)" by (cases v) auto
    then have c: "r_code x = PATH_OK" "r_code y = PATH_OK \<longleftrightarrow> b" "r_code z = PATH_OK \<longleftrightarrow> \<not> b"
      using iff by (auto simp: path_spec_kinds)
    note ok = normalize_success [OF assms(1,2) n(1)] normalize_success [OF assms(1,3) n(2)]
      normalize_success [OF assms(1,4) n(3)]
    have X: "r_len x = Some (word_of_nat (length t))" "unat (word_of_nat (length t) :: u16) = length t"
      "r_absolute x = Some b" "take (length t) (r_buffer x) = t"
      using ok(1) [OF c(1)] v by (metis prod.inject sum.inject(2))+
    have Y: "r_len y = Some (word_of_nat (length t)) \<and> take (length t) (r_buffer y) = t" if b
      using ok(2) that c(2) v path_spec_kinds(1) [of L input] by (metis prod.inject sum.inject(2))
    have Z: "r_len z = Some (word_of_nat (length t)) \<and> take (length t) (r_buffer z) = t" if "\<not> b"
      using ok(3) that c(3) v path_spec_kinds(2) [of L input] by (metis prod.inject sum.inject(2))
    show ?thesis using n c X Y Z
      by (simp add: r4_file_path_def r4_absolute_file_path_def r4_relative_file_path_def fp_result_def tp_result_def
          del: unsigned_of_nat)
  qed
qed

definition sample_limits :: path_limits where
  "sample_limits = \<lparr>file_path_max_bytes = 12, fat_path_component_max_bytes = 6,
     path_component_max_chars = 5, file_path_max_chars = 11\<rparr>"

definition sample_input :: bytes where
  "sample_input = [0x63, 0x3A, 0x2F, 0x61, 0x5C, 0x2E, 0x2E, 0x2F, 0x62]"

lemma sample_limits_ok: "limits_ok sample_limits" "length (replicate 13 7 :: bytes) = file_path_max_bytes sample_limits + 1"
  by (simp_all add: limits_ok_def sample_limits_def)

lemma sample_run:
  "map_option (\<lambda>r. (r_code r, r_len r, take 5 (r_buffer r)))
     (r4_path_normalize sample_limits (Some sample_input) (- 1) (replicate 13 7)) =
   Some (PATH_OK, Some 4, [0x43, 0x3A, 0x5C, 0x62, 0])"
  by code_simp

lemma sample_result:
  obtains r where "r4_path_normalize sample_limits (Some sample_input) (- 1) (replicate 13 7) = Some r"
    "r_code r = PATH_OK" "r_len r = Some 4" "take 4 (r_buffer r) = [0x43, 0x3A, 0x5C, 0x62]"
proof -
  obtain r where r: "r4_path_normalize sample_limits (Some sample_input) (- 1) (replicate 13 7) = Some r"
    "r_code r = PATH_OK" "r_len r = Some 4" "take 5 (r_buffer r) = [0x43, 0x3A, 0x5C, 0x62, 0]"
    using sample_run by auto
  have "take 4 (r_buffer r) = take 4 (take 5 (r_buffer r))" by simp
  then have "take 4 (r_buffer r) = [0x43, 0x3A, 0x5C, 0x62]" unfolding r(4) by simp
  with r(1-3) show ?thesis by (rule that)
qed

lemma sample_spec: "path_spec sample_limits (- 1) sample_input = Inr (True, [0x43, 0x3A, 0x5C, 0x62])"
  by code_simp

theorem r4_path_normalize_refines_witness:
  "\<exists>r. r4_path_normalize sample_limits (Some sample_input) (- 1) (replicate 13 7) = Some r \<and>
     r_code r = PATH_OK \<and> r_len r = Some 4 \<and> r_buffer r ! 4 = 0"
  using r4_path_normalize_refines [OF sample_limits_ok, of "Some sample_input" "- 1"] sample_spec
  by (auto simp: eval_nat_numeral)

theorem normalized_path_shape_witness:
  "\<exists>a stk. [0x43, 0x3A, 0x5C, 0x62] = path_text a (hd sample_input) stk \<and>
     list_all (plain_component sample_limits) stk"
proof -
  obtain r where r: "r4_path_normalize sample_limits (Some sample_input) (- 1) (replicate 13 7) = Some r"
    "r_code r = PATH_OK" "r_len r = Some 4" "take 4 (r_buffer r) = [0x43, 0x3A, 0x5C, 0x62]"
    by (rule sample_result)
  have "unat (4 :: u16) = 4" by simp
  with normalized_path_shape [OF sample_limits_ok r(1,2)] r(3,4) show ?thesis by auto
qed

theorem r4_path_normalize_idempotent_witness:
  "\<exists>r'. r4_path_normalize sample_limits (Some [0x43, 0x3A, 0x5C, 0x62]) (- 1) (replicate 13 7) = Some r' \<and>
     r_code r' = PATH_OK \<and> take 4 (r_buffer r') = [0x43, 0x3A, 0x5C, 0x62]"
proof -
  obtain r where r: "r4_path_normalize sample_limits (Some sample_input) (- 1) (replicate 13 7) = Some r"
    "r_code r = PATH_OK" "r_len r = Some 4" "take 4 (r_buffer r) = [0x43, 0x3A, 0x5C, 0x62]"
    by (rule sample_result)
  have "unat (4 :: u16) = 4" by simp
  with r4_path_normalize_idempotent [OF sample_limits_ok sample_limits_ok(2) r(1-3)] r(4) show ?thesis by auto
qed

theorem typed_constructors_agree_witness:
  "\<exists>c a. r4_absolute_file_path sample_limits (Some sample_input)
           (Some \<lparr>tp_bytes = replicate 13 7, tp_length = 0\<rparr>) = Some (c, Some a) \<and> c = PATH_OK"
proof -
  let ?p = "\<lparr>fp_bytes = replicate 13 7, fp_length = 0, fp_absolute = False\<rparr>"
  let ?q = "\<lparr>tp_bytes = replicate 13 7, tp_length = 0\<rparr>"
  obtain r where "r4_path_normalize sample_limits (Some sample_input) (- 1) (replicate 13 7) = Some r"
    "r_code r = PATH_OK" "r_absolute r = Some True"
    using normalize_run [OF sample_limits_ok, of "Some sample_input" "- 1"] sample_spec by auto
  moreover have "length (fp_bytes ?p) = file_path_max_bytes sample_limits + 1"
    "length (tp_bytes ?q) = file_path_max_bytes sample_limits + 1" using sample_limits_ok(2) by simp_all
  note typed_constructors_agree [OF sample_limits_ok(1) this(1) this(2) this(2), of sample_input]
  ultimately show ?thesis by (auto simp: r4_file_path_def fp_result_def)
qed

end
