(* ===== verification/PathCase.thy ===== *)
theory PathCase
  imports FilePathCorrect
begin

text \<open>
  \<open>r4_path_equal_ignore_case\<close> of \<open>Shared/C/include/r4os/path_timeout.h\<close> and its
  agreement with normalisation: inputs that differ in the case of ASCII
  letters only are accepted alike and give texts that differ in case only.
\<close>

lemma equal_ignore_case_iff [path_simps]:
  "r4_path_equal_ignore_case a b \<longleftrightarrow> map r4_ascii_upper a = map r4_ascii_upper b"
  by (auto simp: r4_path_equal_ignore_case_def list_eq_iff_nth_eq)

subsection \<open>Upper-casing keeps every byte test\<close>

lemma unat_upper: "unat (r4_ascii_upper b) = (if 97 \<le> unat b \<and> unat b \<le> 122 then unat b - 32 else unat b)"
  by (auto simp: r4_ascii_upper_def word_le_nat_alt unat_sub_if')

lemma upper_high: "0x80 \<le> b \<Longrightarrow> r4_ascii_upper b = b"
  by (auto simp: r4_ascii_upper_def word_le_nat_alt)

lemma upper_less [path_simps]: "r4_ascii_upper b < 0x80 \<longleftrightarrow> b < 0x80"
  by (auto simp: word_less_nat_alt unat_upper)

lemma upper_valid [path_simps]: "r4_path_byte_valid (r4_ascii_upper b) = r4_path_byte_valid b"
  unfolding r4_path_byte_valid_def word_less_nat_alt word_unat_eq_iff unat_upper by auto

lemma upper_separator [path_simps]: "r4_path_separator (r4_ascii_upper b) = r4_path_separator b"
  by (auto simp: r4_path_separator_def word_unat_eq_iff unat_upper split: if_splits)

lemma upper_trail [path_simps]: "r4_ascii_upper b AND 0xC0 = 0x80 \<longleftrightarrow> b AND 0xC0 = 0x80"
  unfolding trail_iff unat_upper by auto

lemma upper_const [path_simps]:
  "r4_ascii_upper b = 0x2E \<longleftrightarrow> b = 0x2E" "r4_ascii_upper b = 0x3A \<longleftrightarrow> b = 0x3A"
  by (auto simp: word_unat_eq_iff unat_upper)

lemma upper_less_A0: "b AND 0xC0 = 0x80 \<Longrightarrow> r4_ascii_upper b = b"
  by (auto simp: trail_iff r4_ascii_upper_def word_le_nat_alt)

lemma segment_loop_upper: "segment_loop (map r4_ascii_upper s) i c = segment_loop s i c"
proof (induction s i c rule: segment_loop.induct)
  case (1 s i c)
  let ?u = "map r4_ascii_upper s"
  show ?case
  proof (cases "i < length s")
    case False
    then show ?thesis by (simp add: segment_loop.simps [of ?u i] segment_loop.simps [of s i])
  next
    case lt: True
    show ?thesis
    proof (cases "s ! i < 0x80")
      case True
      then show ?thesis using lt 1(1) [OF lt refl True refl]
        by (simp add: segment_loop.simps [of ?u i] segment_loop.simps [of s i] Let_def path_simps)
    next
      case False
      then have h: "r4_ascii_upper (s ! i) = s ! i" by (intro upper_high) simp
      show ?thesis using lt False h 1(2) [OF lt refl False] 1(3) [OF lt refl False]
        by (subst (1 2) segment_loop.simps) (auto simp: Let_def path_simps dest: upper_less_A0)
    qed
  qed
qed

lemma segment_valid_upper [path_simps]: "r4_path_segment_valid (map r4_ascii_upper s) = r4_path_segment_valid s"
  by (simp add: r4_path_segment_valid_def segment_loop_upper)

subsection \<open>Upper-casing commutes with the specification\<close>

abbreviation up :: "bytes \<Rightarrow> bytes" where
  "up \<equiv> map r4_ascii_upper"

lemma path_segments_up [path_simps]: "path_segments (up xs) = map up (path_segments xs)"
proof (induction xs rule: path_segments.induct)
  case (1 xs)
  have s: "r4_path_separator \<circ> r4_ascii_upper = r4_path_separator" by (auto simp: path_simps)
  have n: "(Not \<circ> r4_path_separator) \<circ> r4_ascii_upper = Not \<circ> r4_path_separator" by (auto simp: path_simps)
  show ?case using 1
    by (subst (1 2) path_segments.simps) (simp add: Let_def dropWhile_map takeWhile_map s n o_assoc)
qed

lemma component_check_up [path_simps]: "component_check L (up s) = component_check L s"
  by (simp add: component_check_def path_simps)

lemma path_chars_up [path_simps]: "path_chars a (map up ss) = path_chars a ss"
  by (simp add: path_chars_def seg_chars_def [abs_def] path_simps o_def)

lemma up_dots [path_simps]: "up s = [0x2E] \<longleftrightarrow> s = [0x2E]" "up s = [0x2E, 0x2E] \<longleftrightarrow> s = [0x2E, 0x2E]"
  by (auto simp: map_eq_Cons_conv path_simps)

lemma path_resolve_up:
  "path_resolve L a (map up ss) (map up stk) = map_sum id (map up) (path_resolve L a ss stk)"
proof (induction L a ss stk rule: path_resolve.induct)
  case (2 L a s ss stk)
  have "path_chars a (map up stk @ [up s]) = path_chars a (stk @ [s])"
    using path_chars_up [of a "stk @ [s]"] by simp
  with 2 show ?case by (simp add: path_simps map_butlast)
qed simp

lemma join_path_up: "join_path (map up ss) = up (join_path ss)"
  by (induction ss rule: join_path.induct) (auto simp: r4_ascii_upper_def)

lemma path_text_up: "path_text a (r4_ascii_upper d) (map up ss) = up (path_text a d ss)"
  by (auto simp: path_text_def drive_prefix_def join_path_up ascii_upper_idem) (auto simp: r4_ascii_upper_def)

lemma path_absolute_up [path_simps]: "path_absolute (up s) = path_absolute s"
proof (cases "3 \<le> length s")
  case True
  then have "0 < length s" "1 < length s" "2 < length s" by linarith+
  then show ?thesis by (simp add: path_absolute_def path_simps)
qed (simp add: path_absolute_def)

lemma path_spec_up: "path_spec L k (up s) = map_sum id (map_prod id up) (path_spec L k s)"
proof (cases "s = []")
  case False
  then have "hd (up s) = r4_ascii_upper (hd s)" by (simp add: hd_map)
  moreover have "path_resolve L a (path_segments (drop n (up s))) [] =
      map_sum id (map up) (path_resolve L a (path_segments (drop n s)) [])" for a n
    using path_resolve_up [of L a _ "[]"] by (simp add: drop_map path_simps)
  ultimately show ?thesis using False
    by (auto simp: path_spec_def Let_def path_simps path_text_up split: sum.split)
qed (simp add: path_spec_def)

text \<open>
  normalisation respects the case-insensitive comparison. Inputs that
  \<open>r4_path_equal_ignore_case\<close> identifies get the same r_code and the same absolute
  flag and length from \<open>r4_path_normalize\<close>, and the stored texts compare equal.
\<close>

theorem normalize_ignores_case:
  assumes "limits_ok L" and "length buf = file_path_max_bytes L + 1" and "length buf' = file_path_max_bytes L + 1"
    and "r4_path_equal_ignore_case x y"
  shows "\<exists>r r'. r4_path_normalize L (Some x) kind buf = Some r \<and> r4_path_normalize L (Some y) kind buf' = Some r' \<and>
    r_code r' = r_code r \<and> r_absolute r' = r_absolute r \<and> r_len r' = r_len r \<and>
    (\<forall>n. r_len r = Some n \<longrightarrow>
       r4_path_equal_ignore_case (take (unat n) (r_buffer r)) (take (unat n) (r_buffer r')))"
proof -
  have "map_sum id (map_prod id up) (path_spec L kind x) = map_sum id (map_prod id up) (path_spec L kind y)"
    using assms(4) by (simp add: equal_ignore_case_iff flip: path_spec_up)
  then consider (err) e where "path_spec L kind x = Inl e" "path_spec L kind y = Inl e"
    | (ok) a t u where "path_spec L kind x = Inr (a, t)" "path_spec L kind y = Inr (a, u)" "up t = up u"
    by (cases "path_spec L kind x"; cases "path_spec L kind y") auto
  then show ?thesis
  proof cases
    case err
    then show ?thesis
      using normalize_run [OF assms(1,2), of "Some x" kind] normalize_run [OF assms(1,3), of "Some y" kind] by auto
  next
    case ok
    have l: "length u = length t" using ok(3) map_eq_imp_length_eq by metis
    obtain r r' where r: "r4_path_normalize L (Some x) kind buf = Some r" "r_code r = PATH_OK"
      "r_len r = Some (word_of_nat (length t))" "r_absolute r = Some a" "take (length t) (r_buffer r) = t"
      "length t \<le> file_path_max_bytes L"
      and r': "r4_path_normalize L (Some y) kind buf' = Some r'" "r_code r' = PATH_OK"
      "r_len r' = Some (word_of_nat (length t))" "r_absolute r' = Some a" "take (length t) (r_buffer r') = u"
      using normalize_run [OF assms(1,2), of "Some x" kind] normalize_run [OF assms(1,3), of "Some y" kind] ok l
      by auto
    have "unat (word_of_nat (length t) :: u16) = length t"
      using r(6) assms(1) by (intro unat_u16) (simp add: limits_ok_def)
    with r r' ok(3) show ?thesis by (auto simp: equal_ignore_case_iff simp del: unsigned_of_nat)
  qed
qed

theorem normalize_ignores_case_witness:
  "\<exists>r r'. r4_path_normalize sample_limits (Some [0x61, 0x2F, 0x42]) (- 1) (replicate 13 7) = Some r \<and>
     r4_path_normalize sample_limits (Some [0x41, 0x2F, 0x62]) (- 1) (replicate 13 7) = Some r' \<and>
     r_code r' = r_code r \<and> r_len r' = r_len r"
proof -
  have "r4_path_equal_ignore_case [0x61, 0x2F, 0x42] [0x41, 0x2F, 0x62]"
    by (simp add: equal_ignore_case_iff r4_ascii_upper_def)
  from normalize_ignores_case [OF sample_limits_ok sample_limits_ok(2) this, of "- 1"]
  show ?thesis by blast
qed

end
