(* ===== verification/RegistryPath.thy ===== *)
theory RegistryPath
  imports FilePathCorrect
begin

text \<open>
  \<open>r4_registry_path\<close> of \<open>Shared/C/include/r4os/path_timeout.h\<close>: the loop that
  copies a registry path into its record while it collapses runs of
  separators, the trimming of a trailing one, and the specification it meets:
  the nonempty components of the input joined by single backslashes.
\<close>

subsection \<open>The code\<close>

record registry_path =
  rp_bytes :: bytes
  rp_length :: u16

text \<open>The copying loop over the input that is left; \<open>previous\<close> tells that the last byte written was a separator.\<close>

fun registry_loop :: "bytes \<Rightarrow> nat \<Rightarrow> bool \<Rightarrow> bytes \<Rightarrow> (path_code \<times> nat \<times> bytes) option" where
  "registry_loop [] pos previous buf = Some (PATH_OK, pos, buf)"
| "registry_loop (byte # rest) pos previous buf =
     (if byte = 0 then Some (PATH_EMBEDDED_NUL, pos, buf)
      else if byte < 0x20 \<or> byte = 0x7F then Some (PATH_INVALID_CHARACTER, pos, buf)
      else if r4_path_separator byte then
        if pos = 0 \<or> previous then registry_loop rest pos previous buf
        else case store buf pos 0x5C of None \<Rightarrow> None | Some buf \<Rightarrow> registry_loop rest (pos + 1) True buf
      else case store buf pos byte of None \<Rightarrow> None | Some buf \<Rightarrow> registry_loop rest (pos + 1) False buf)"

fun registry_trim :: "bytes \<Rightarrow> nat \<Rightarrow> nat option" where
  "registry_trim buf 0 = Some 0"
| "registry_trim buf (Suc p) =
     (case load buf p of None \<Rightarrow> None | Some b \<Rightarrow> if b = 0x5C then registry_trim buf p else Some (Suc p))"

definition r4_registry_path ::
  "nat \<Rightarrow> bytes option \<Rightarrow> registry_path option \<Rightarrow> (path_code \<times> registry_path option) option" where
  "r4_registry_path max_bytes input dst =
     (case (input, dst) of
        (Some input, Some p) \<Rightarrow>
          if length input = 0 then Some (PATH_EMPTY, Some p)
          else if length input > max_bytes then Some (PATH_TOO_LONG, Some p)
          else (case registry_loop input 0 False (rp_bytes p) of
                  None \<Rightarrow> None
                | Some (c, pos, buf) \<Rightarrow>
                    if c \<noteq> PATH_OK then Some (c, Some (p\<lparr>rp_bytes := buf\<rparr>))
                    else case registry_trim buf pos of
                           None \<Rightarrow> None
                         | Some pos \<Rightarrow>
                             if pos = 0 then Some (PATH_EMPTY, Some (p\<lparr>rp_bytes := buf\<rparr>))
                             else map_option (\<lambda>b. (PATH_OK, Some (p\<lparr>rp_bytes := b, rp_length := word_of_nat pos\<rparr>)))
                                    (store buf pos 0))
      | _ \<Rightarrow> Some (PATH_EMPTY, dst))"

subsection \<open>The specification\<close>

definition registry_byte :: "u8 \<Rightarrow> path_code" where
  "registry_byte b =
     (if b = 0 then PATH_EMBEDDED_NUL else if b < 0x20 \<or> b = 0x7F then PATH_INVALID_CHARACTER else PATH_OK)"

definition registry_spec :: "nat \<Rightarrow> bytes \<Rightarrow> path_code + bytes" where
  "registry_spec max_bytes input =
     (if input = [] then Inl PATH_EMPTY
      else if length input > max_bytes then Inl PATH_TOO_LONG
      else case find (\<lambda>b. registry_byte b \<noteq> PATH_OK) input of
             Some b \<Rightarrow> Inl (registry_byte b)
           | None \<Rightarrow> if path_segments input = [] then Inl PATH_EMPTY else Inr (join_path (path_segments input)))"

subsection \<open>What the loop writes\<close>

fun squeeze :: "bool \<Rightarrow> bool \<Rightarrow> bytes \<Rightarrow> bytes" where
  "squeeze started previous [] = []"
| "squeeze started previous (b # bs) =
     (if r4_path_separator b then
        if \<not> started \<or> previous then squeeze started previous bs else 0x5C # squeeze True True bs
      else b # squeeze True False bs)"

lemma separator_byte: "r4_path_separator b \<Longrightarrow> registry_byte b = PATH_OK"
  by (auto simp: registry_byte_def r4_path_separator_def)

lemma registry_loop_Cons:
  "registry_loop (b # bs) pos previous buf =
     (if registry_byte b \<noteq> PATH_OK then Some (registry_byte b, pos, buf)
      else if r4_path_separator b \<and> (pos = 0 \<or> previous) then registry_loop bs pos previous buf
      else let x = if r4_path_separator b then 0x5C else b in
        (case store buf pos x of None \<Rightarrow> None
         | Some buf \<Rightarrow> registry_loop bs (pos + 1) (r4_path_separator b) buf))"
  by (simp add: registry_byte_def cong: option.case_cong)

declare registry_loop.simps(2) [simp del]

lemma registry_loop_ok:
  assumes "pos + length xs < length buf"
  shows "\<exists>buf'. length buf' = length buf \<and>
    (case find (\<lambda>b. registry_byte b \<noteq> PATH_OK) xs of
       Some b \<Rightarrow> \<exists>p. registry_loop xs pos previous buf = Some (registry_byte b, p, buf')
     | None \<Rightarrow> registry_loop xs pos previous buf =
           Some (PATH_OK, pos + length (squeeze (pos > 0) previous xs), buf') \<and>
         take (pos + length (squeeze (pos > 0) previous xs)) buf' = take pos buf @ squeeze (pos > 0) previous xs)"
  using assms
proof (induction xs arbitrary: pos previous buf)
  case Nil
  then show ?case by auto
next
  case (Cons b bs)
  have w: "\<exists>buf'. length buf' = length buf \<and>
      (case find (\<lambda>b. registry_byte b \<noteq> PATH_OK) bs of
         Some b \<Rightarrow> \<exists>p. registry_loop bs (pos + 1) pr (buf[pos := x]) = Some (registry_byte b, p, buf')
       | None \<Rightarrow> registry_loop bs (pos + 1) pr (buf[pos := x]) =
             Some (PATH_OK, pos + 1 + length (squeeze True pr bs), buf') \<and>
           take (pos + 1 + length (squeeze True pr bs)) buf' = take pos buf @ x # squeeze True pr bs)" for x pr
    using Cons.IH [of "pos + 1" "buf[pos := x]" pr] Cons.prems
    by (auto simp: take_Suc_conv_app_nth split: option.splits)
  consider (bad) "registry_byte b \<noteq> PATH_OK" | (skip) "r4_path_separator b" "pos = 0 \<or> previous"
    | (sep) "r4_path_separator b" "\<not> (pos = 0 \<or> previous)"
    | (plain) "registry_byte b = PATH_OK" "\<not> r4_path_separator b" by blast
  then show ?case
  proof cases
    case bad
    then show ?thesis by (auto simp: registry_loop_Cons)
  next
    case skip
    then have "registry_byte b = PATH_OK" by (simp add: separator_byte)
    then show ?thesis using Cons.IH [of pos buf previous] Cons.prems skip
      by (simp add: registry_loop_Cons cong: option.case_cong)
  next
    case sep
    then have "registry_byte b = PATH_OK" by (simp add: separator_byte)
    then show ?thesis using Cons.prems w [of True "0x5C"] sep
      by (simp add: registry_loop_Cons cong: option.case_cong)
  next
    case plain
    then show ?thesis using Cons.prems w [of False b] by (simp add: registry_loop_Cons cong: option.case_cong)
  qed
qed

definition rtrim :: "bytes \<Rightarrow> bytes" where
  "rtrim xs = rev (dropWhile ((=) 0x5C) (rev xs))"

lemma rtrim_snoc [simp]: "rtrim (xs @ [b]) = (if b = 0x5C then rtrim xs else xs @ [b])"
  by (simp add: rtrim_def)

lemma registry_trim_ok: "pos \<le> length buf \<Longrightarrow> registry_trim buf pos = Some (length (rtrim (take pos buf)))"
proof (induction pos)
  case 0
  then show ?case by (simp add: rtrim_def)
next
  case (Suc p)
  then show ?case by (simp add: take_Suc_conv_app_nth)
qed

lemma rtrim_prefix: "take (length (rtrim xs)) xs = rtrim xs"
proof -
  have "xs = rtrim xs @ rev (takeWhile ((=) 0x5C) (rev xs))"
    unfolding rtrim_def by (simp flip: rev_append)
  then show ?thesis by (metis append_eq_conv_conj)
qed

subsection \<open>Squeezed text is the joined components\<close>

lemma squeeze_skip: "\<not> s \<or> p \<Longrightarrow> squeeze s p xs = squeeze s p (dropWhile r4_path_separator xs)"
  by (induction xs) (auto simp del: dropWhile_eq_Nil_conv)

lemma squeeze_segment:
  "w \<noteq> [] \<Longrightarrow> list_all (\<lambda>b. \<not> r4_path_separator b) w \<Longrightarrow> squeeze s p (w @ rest) = w @ squeeze True False rest"
proof (induction w arbitrary: s p)
  case (Cons b w)
  then show ?case by (cases "w = []") auto
qed simp

lemma rtrim_append: "rtrim (xs @ ys) = (if rtrim ys = [] then rtrim xs else xs @ rtrim ys)"
  by (auto simp: rtrim_def dropWhile_append)

lemma rtrim_segment: "bare_segment w \<Longrightarrow> rtrim w = w"
  by (cases w rule: rev_cases) (auto simp: bare_segment_def r4_path_separator_def)

lemma squeeze_join:
  "\<not> s \<or> p \<Longrightarrow> rtrim (squeeze s p xs) = join_path (path_segments xs)"
proof (induction xs arbitrary: s p rule: path_segments.induct)
  case (1 xs)
  let ?ys = "dropWhile r4_path_separator xs"
  let ?w = "takeWhile (Not \<circ> r4_path_separator) ?ys" and ?r = "dropWhile (Not \<circ> r4_path_separator) ?ys"
  have sk: "squeeze s p xs = squeeze s p ?ys" using "1.prems" by (rule squeeze_skip)
  show ?case
  proof (cases "?ys = []")
    case True
    then have "path_segments xs = []" by (simp add: path_segments.simps [of xs])
    then show ?thesis unfolding sk True by (simp add: rtrim_def)
  next
    case False
    have ps: "path_segments xs = ?w # path_segments ?r" using False by (simp only: path_segments.simps [of xs] Let_def if_False)
    then have w: "bare_segment ?w" using path_segments_bare [of xs] by simp
    then have "squeeze s p ?ys = ?w @ squeeze True False ?r"
      using squeeze_segment [of ?w s p ?r] unfolding bare_segment_def takeWhile_dropWhile_id by blast
    then have sq: "squeeze s p xs = ?w @ squeeze True False ?r" using sk by simp
    show ?thesis
    proof (cases "?r")
      case Nil
      have "path_segments ?r = []" unfolding Nil by (simp add: path_segments.simps)
      then have "path_segments xs = [?w]" unfolding ps by simp
      moreover have "squeeze s p xs = ?w" unfolding sq Nil by simp
      ultimately show ?thesis using rtrim_segment [OF w] by simp
    next
      case (Cons c r)
      have "r4_path_separator c" using hd_dropWhile [of "Not \<circ> r4_path_separator" ?ys] Cons by simp
      then have r: "squeeze True False ?r = 0x5C # squeeze True True r" and rr: "path_segments ?r = path_segments r"
        unfolding Cons by (simp_all add: path_segments.simps [of "c # r"] path_segments.simps [of r])
      have "squeeze True True ?r = squeeze True True r" unfolding Cons using \<open>r4_path_separator c\<close> by simp
      then have ih: "rtrim (squeeze True True r) = join_path (path_segments r)"
        using "1.IH" [OF refl False, of True True] rr by simp
      have "rtrim (squeeze s p xs) = rtrim ((?w @ [0x5C]) @ squeeze True True r)" unfolding sq r by simp
      also have "\<dots> = (if path_segments r = [] then ?w else ?w @ 0x5C # join_path (path_segments r))"
        using join_path_eq_Nil [of "path_segments r"] path_segments_bare [of r] rtrim_segment [OF w]
        unfolding rtrim_append [of "?w @ [0x5C]"] ih by (auto simp: bare_segment_def list_all_iff)
      also have "\<dots> = join_path (path_segments xs)" unfolding ps rr by (cases "path_segments r") auto
      finally show ?thesis .
    qed
  qed
qed

subsection \<open>The function meets its specification\<close>

lemma registry_run:
  assumes "length (rp_bytes p) = M + 1"
  shows "\<exists>c q. r4_registry_path M (Some input) (Some p) = Some (c, Some q) \<and> length (rp_bytes q) = M + 1 \<and>
    (case registry_spec M input of
       Inl e \<Rightarrow> c = e \<and> e \<noteq> PATH_OK \<and> rp_length q = rp_length p
     | Inr t \<Rightarrow> c = PATH_OK \<and> t \<noteq> [] \<and> length t \<le> M \<and> rp_length q = word_of_nat (length t) \<and>
               take (length t) (rp_bytes q) = t \<and> rp_bytes q ! length t = 0)"
proof (cases "input = [] \<or> length input > M")
  case True
  then show ?thesis using assms by (auto simp: r4_registry_path_def registry_spec_def)
next
  case False
  then have n: "input \<noteq> []" "length input \<le> M" by auto
  let ?sq = "squeeze False False input"
  from registry_loop_ok [of 0 input "rp_bytes p" False] n assms obtain buf where b: "length buf = M + 1" and
    l: "case find (\<lambda>b. registry_byte b \<noteq> PATH_OK) input of
       Some b \<Rightarrow> \<exists>p'. registry_loop input 0 False (rp_bytes p) = Some (registry_byte b, p', buf)
     | None \<Rightarrow> registry_loop input 0 False (rp_bytes p) = Some (PATH_OK, length ?sq, buf) \<and>
         take (length ?sq) buf = ?sq" by (auto cong: option.case_cong)
  show ?thesis
  proof (cases "find (\<lambda>b. registry_byte b \<noteq> PATH_OK) input")
    case (Some x)
    then have "registry_byte x \<noteq> PATH_OK" by (auto simp: find_Some_iff)
    then show ?thesis using Some l b n by (auto simp: r4_registry_path_def registry_spec_def)
  next
    case None
    then have run: "registry_loop input 0 False (rp_bytes p) = Some (PATH_OK, length ?sq, buf)"
      and tk: "take (length ?sq) buf = ?sq" using l by simp_all
    have len: "length ?sq \<le> M"
    proof -
      have "length (squeeze s q xs) \<le> length xs" for s q xs
        by (induction s q xs rule: squeeze.induct) auto
      then show ?thesis using n(2) le_trans by blast
    qed
    let ?t = "join_path (path_segments input)"
    have t: "rtrim ?sq = ?t" by (rule squeeze_join) simp
    then have trim: "registry_trim buf (length ?sq) = Some (length ?t)"
      using registry_trim_ok [of "length ?sq" buf] len b tk by simp
    have pre: "take (length ?t) ?sq = ?t" using rtrim_prefix [of ?sq] t by simp
    then have lt: "length ?t \<le> length ?sq" by (metis length_take min.cobounded1)
    then have tb: "take (length ?t) buf = ?t" using tk pre by (metis min.absorb1 take_take)
    have e: "?t = [] \<longleftrightarrow> path_segments input = []"
      using join_path_eq_Nil [of "path_segments input"] path_segments_bare [of input]
      by (auto simp: bare_segment_def list_all_iff)
    have spec: "registry_spec M input = (if ?t = [] then Inl PATH_EMPTY else Inr ?t)"
      using n None e by (simp add: registry_spec_def)
    have code: "r4_registry_path M (Some input) (Some p) =
       (if ?t = [] then Some (PATH_EMPTY, Some (p\<lparr>rp_bytes := buf\<rparr>))
        else Some (PATH_OK, Some (p\<lparr>rp_bytes := buf[length ?t := 0], rp_length := word_of_nat (length ?t)\<rparr>)))"
      using n run trim lt len b by (simp add: r4_registry_path_def)
    show ?thesis unfolding spec code using b tb lt len by (cases "?t = []") auto
  qed
qed

text \<open>
  C4: \<open>r4_registry_path\<close> never writes outside the record's
  \<open>R4OS_REGISTRY_PATH_MAX_BYTES + 1\<close> bytes and returns what \<open>registry_spec\<close> says:
  the code of the first forbidden byte, or the input's components joined by
  single backslashes, stored with its length and a zero terminator.
\<close>

theorem r4_registry_path_refines:
  assumes "length (rp_bytes p) = M + 1"
  shows "\<exists>c q. r4_registry_path M (Some input) (Some p) = Some (c, Some q) \<and> length (rp_bytes q) = M + 1 \<and>
    (case registry_spec M input of
       Inl e \<Rightarrow> c = e \<and> e \<noteq> PATH_OK \<and> rp_length q = rp_length p
     | Inr t \<Rightarrow> c = PATH_OK \<and> t \<noteq> [] \<and> length t \<le> M \<and> rp_length q = word_of_nat (length t) \<and>
               take (length t) (rp_bytes q) = t \<and> rp_bytes q ! length t = 0)"
  using assms by (rule registry_run)

theorem r4_registry_path_refines_witness:
  "\<exists>q. r4_registry_path 6 (Some [0x2F, 0x61, 0x2F, 0x5C, 0x62, 0x2F]) (Some \<lparr>rp_bytes = replicate 7 1, rp_length = 0\<rparr>) =
     Some (PATH_OK, Some q) \<and> rp_length q = 3 \<and> take 3 (rp_bytes q) = [0x61, 0x5C, 0x62]"
proof -
  have s: "registry_spec 6 [0x2F, 0x61, 0x2F, 0x5C, 0x62, 0x2F] = Inr [0x61, 0x5C, 0x62]" by code_simp
  have "length (rp_bytes \<lparr>rp_bytes = replicate 7 1, rp_length = 0\<rparr>) = 6 + 1" by simp
  from r4_registry_path_refines [OF this, of "[0x2F, 0x61, 0x2F, 0x5C, 0x62, 0x2F]"] s
  show ?thesis by (auto simp: eval_nat_numeral)
qed

text \<open>
  a registry path is a fixed point. \<open>r4_registry_path\<close> accepts the bytes a
  successful call stored and stores them again, with the same length.
\<close>

theorem r4_registry_path_idempotent:
  assumes "length (rp_bytes p) = M + 1" and "length (rp_bytes p') = M + 1" and "M < 2 ^ 16"
    and "r4_registry_path M (Some input) (Some p) = Some (PATH_OK, Some q)"
  shows "\<exists>q'. r4_registry_path M (Some (take (unat (rp_length q)) (rp_bytes q))) (Some p') = Some (PATH_OK, Some q') \<and>
    rp_length q' = rp_length q \<and>
    take (unat (rp_length q)) (rp_bytes q') = take (unat (rp_length q)) (rp_bytes q)"
proof -
  from registry_run [OF assms(1), of input] assms(4) obtain t where t: "registry_spec M input = Inr t" "t \<noteq> []"
    "length t \<le> M" "rp_length q = word_of_nat (length t)" "take (length t) (rp_bytes q) = t"
    by (auto split: sum.splits)
  then have u: "unat (rp_length q) = length t" using assms(3) unat_u16 [of "length t"] by simp
  have j: "t = join_path (path_segments input)" and f: "find (\<lambda>b. registry_byte b \<noteq> PATH_OK) input = None"
    using t(1) by (auto simp: registry_spec_def split: if_splits option.splits)
  have ps: "path_segments t = path_segments input"
    unfolding j by (rule path_segments_join) (rule path_segments_bare)
  have joined: "b = 0x5C \<or> b \<in> set xs" if "b \<in> set (join_path (path_segments xs))" for b xs
  proof -
    have "set (squeeze s p xs) \<subseteq> insert 0x5C (set xs)" for s p
      by (induction s p xs rule: squeeze.induct) auto
    moreover have "set (rtrim ys) \<subseteq> set ys" for ys
      unfolding rtrim_def using set_dropWhileD by fastforce
    ultimately show ?thesis using that squeeze_join [of False False xs] by (metis insertE subsetD)
  qed
  have "registry_byte b = PATH_OK" if "b \<in> set t" for b
  proof -
    have "b = 0x5C \<or> b \<in> set input" using that joined unfolding j by blast
    moreover have "registry_byte 0x5C = PATH_OK" by (simp add: registry_byte_def)
    ultimately show ?thesis using f by (auto simp: find_None_iff)
  qed
  then have "find (\<lambda>b. registry_byte b \<noteq> PATH_OK) t = None" by (simp add: find_None_iff)
  then have "registry_spec M t = Inr t"
    using t(2,3) ps j join_path.simps(1) by (auto simp: registry_spec_def)
  then show ?thesis using registry_run [OF assms(2), of t] t u by auto
qed

theorem r4_registry_path_idempotent_witness:
  "\<exists>q'. r4_registry_path 6 (Some [0x61, 0x5C, 0x62]) (Some \<lparr>rp_bytes = replicate 7 1, rp_length = 0\<rparr>) =
     Some (PATH_OK, Some q') \<and> rp_length q' = 3"
proof -
  let ?p = "\<lparr>rp_bytes = replicate 7 1, rp_length = 0\<rparr>"
  have "map_option (\<lambda>(c, q). (c, map_option (\<lambda>q. (rp_length q, take 3 (rp_bytes q))) q))
      (r4_registry_path 6 (Some [0x2F, 0x61, 0x2F, 0x5C, 0x62, 0x2F]) (Some ?p)) =
    Some (PATH_OK, Some (3, [0x61, 0x5C, 0x62]))" by code_simp
  then obtain q where q: "r4_registry_path 6 (Some [0x2F, 0x61, 0x2F, 0x5C, 0x62, 0x2F]) (Some ?p) = Some (PATH_OK, Some q)"
    "rp_length q = 3" "take 3 (rp_bytes q) = [0x61, 0x5C, 0x62]" by auto
  have "length (rp_bytes ?p) = 6 + 1" "(6::nat) < 2 ^ 16" "unat (3 :: u16) = 3" by simp_all
  with r4_registry_path_idempotent [OF this(1) this(1) this(2) q(1)] q(2,3) show ?thesis by auto
qed

end
