(* ===== verification/Timeouts.thy ===== *)
theory Timeouts
  imports Prelude
begin

text \<open>
  Durations, timeouts and deadlines of \<open>Shared/C/include/r4os/path_timeout.h\<close>.
  The product of a duration and a tick rate is computed in the source's 128-bit
  type; the theorems read the results as natural numbers.

  The contract's constants are the members of \<open>time_codes\<close>. A pointer to an
  output is the value behind it, or \<open>None\<close> for a null pointer.
\<close>

subsection \<open>The code\<close>

record time_codes =
  nanoseconds_per_second :: u64
  kind_poll :: u32
  kind_finite :: u32
  kind_forever :: u32
  io_wait_forever :: u64
  ok_code :: i32
  error_invalid :: i32

record r4_duration =
  duration_ns :: u64

record r4_instant =
  instant_ns :: u64

record r4_deadline =
  deadline_ns :: u64

record r4_timeout =
  timeout_kind :: u32
  timeout_ns :: u64

definition r4_duration_to_ticks ::
  "time_codes \<Rightarrow> r4_duration \<Rightarrow> u32 \<Rightarrow> u64 option \<Rightarrow> i32 \<times> u64 option" where
  "r4_duration_to_ticks K duration hz out_ticks =
     (if hz = 0 \<or> out_ticks = None then (error_invalid K, out_ticks)
      else if duration_ns duration = 0 then (ok_code K, Some 0)
      else
        let product = (ucast (duration_ns duration) :: u128) * ucast hz;
            rounded = (product + ucast (nanoseconds_per_second K) - 1) div ucast (nanoseconds_per_second K)
        in (ok_code K, Some (if rounded > ucast UINT64_MAX then UINT64_MAX else ucast rounded)))"

definition r4_timeout_poll :: "time_codes \<Rightarrow> r4_timeout" where
  "r4_timeout_poll K = \<lparr>timeout_kind = kind_poll K, timeout_ns = 0\<rparr>"

definition r4_timeout_finite :: "time_codes \<Rightarrow> r4_duration \<Rightarrow> r4_timeout" where
  "r4_timeout_finite K duration = \<lparr>timeout_kind = kind_finite K, timeout_ns = duration_ns duration\<rparr>"

definition r4_timeout_forever :: "time_codes \<Rightarrow> r4_timeout" where
  "r4_timeout_forever K = \<lparr>timeout_kind = kind_forever K, timeout_ns = 0\<rparr>"

definition r4_timeout_to_ticks ::
  "time_codes \<Rightarrow> r4_timeout \<Rightarrow> u32 \<Rightarrow> u64 option \<Rightarrow> i32 \<times> u64 option" where
  "r4_timeout_to_ticks K timeout hz out_ticks =
     (if out_ticks = None then (error_invalid K, out_ticks)
      else if timeout_kind timeout = kind_poll K then (ok_code K, Some 0)
      else if timeout_kind timeout = kind_forever K then (ok_code K, Some (io_wait_forever K))
      else if timeout_kind timeout \<noteq> kind_finite K then (error_invalid K, out_ticks)
      else r4_duration_to_ticks K \<lparr>duration_ns = timeout_ns timeout\<rparr> hz out_ticks)"

definition r4_timeout_deadline ::
  "time_codes \<Rightarrow> r4_timeout \<Rightarrow> r4_instant \<Rightarrow> r4_deadline option \<Rightarrow> bool option \<Rightarrow>
     i32 \<times> r4_deadline option \<times> bool option" where
  "r4_timeout_deadline K timeout now dst out_forever =
     (if dst = None \<or> out_forever = None then (error_invalid K, dst, out_forever)
      else if timeout_kind timeout = kind_forever K then (ok_code K, Some \<lparr>deadline_ns = 0\<rparr>, Some True)
      else if timeout_kind timeout = kind_poll K
      then (ok_code K, Some \<lparr>deadline_ns = instant_ns now\<rparr>, Some False)
      else if timeout_kind timeout \<noteq> kind_finite K then (error_invalid K, dst, Some False)
      else (ok_code K,
            Some \<lparr>deadline_ns = if UINT64_MAX - instant_ns now < timeout_ns timeout then UINT64_MAX
                                else instant_ns now + timeout_ns timeout\<rparr>, Some False))"

definition r4_remaining_ticks ::
  "time_codes \<Rightarrow> r4_deadline \<Rightarrow> r4_instant \<Rightarrow> u32 \<Rightarrow> u64 option \<Rightarrow> i32 \<times> u64 option" where
  "r4_remaining_ticks K deadline now hz out_ticks =
     (if out_ticks = None then (error_invalid K, out_ticks)
      else if instant_ns now \<ge> deadline_ns deadline then (ok_code K, Some 0)
      else r4_duration_to_ticks K
             \<lparr>duration_ns = if deadline_ns deadline > instant_ns now then deadline_ns deadline - instant_ns now else 0\<rparr>
             hz out_ticks)"

definition r4_monotonic_resolution_ns :: "time_codes \<Rightarrow> u32 \<Rightarrow> u64" where
  "r4_monotonic_resolution_ns K hz =
     (if hz = 0 then 0
      else nanoseconds_per_second K div ucast hz + (if nanoseconds_per_second K mod ucast hz \<noteq> 0 then 1 else 0))"

definition r4_deadline_after :: "r4_instant \<Rightarrow> r4_duration \<Rightarrow> r4_deadline" where
  "r4_deadline_after now duration =
     \<lparr>deadline_ns = if UINT64_MAX - instant_ns now < duration_ns duration then UINT64_MAX
                    else instant_ns now + duration_ns duration\<rparr>"

subsection \<open>Rounding up and saturating, on natural numbers\<close>

definition ceil_div :: "nat \<Rightarrow> nat \<Rightarrow> nat" where
  "ceil_div n k = (n + (k - 1)) div k"

definition saturate64 :: "nat \<Rightarrow> nat" where
  "saturate64 n = min (2 ^ 64 - 1) n"

lemma ceil_div_le_iff: "0 < k \<Longrightarrow> ceil_div n k \<le> m \<longleftrightarrow> n \<le> m * k"
proof -
  assume k: "0 < k"
  have "ceil_div n k \<le> m \<longleftrightarrow> n + (k - 1) < (m + 1) * k"
    unfolding ceil_div_def using k by (simp add: less_mult_imp_div_less div_less_iff_less_mult flip: less_Suc_eq_le)
  also have "\<dots> \<longleftrightarrow> n \<le> m * k" using k by (auto simp: algebra_simps)
  finally show ?thesis .
qed

lemma ceil_div_Least: "0 < k \<Longrightarrow> (LEAST m. n \<le> m * k) = ceil_div n k"
  by (rule Least_equality) (simp_all flip: ceil_div_le_iff)

lemma ceil_div_mono: "0 < k \<Longrightarrow> n \<le> n' \<Longrightarrow> ceil_div n k \<le> ceil_div n' k"
  unfolding ceil_div_def by (intro div_le_mono) simp

lemma unat_MAX64: "unat UINT64_MAX = 2 ^ 64 - 1"
  by (simp add: unsigned_minus_1_eq_mask mask_eq_exp_minus_1)

lemma unat_ucast_128 [tick_simps]:
  "unat (ucast (x :: u64) :: u128) = unat x" "unat (ucast (y :: u32) :: u128) = unat y"
  using unat_bound [of x] unat_bound [of y] by (simp_all add: unsigned_ucast_eq take_bit_nat_eq_self)

text \<open>The 128-bit product of a 64-bit and a 32-bit number, plus another 64-bit number, does not wrap.\<close>

lemma product_fits: "unat (x :: u64) * unat (y :: u32) + unat (z :: u64) < 2 ^ 128"
proof -
  have "unat x * unat y \<le> (2 ^ 64 - 1) * (2 ^ 32 - 1)"
    using unat_bound [of x] unat_bound [of y] by (intro mult_mono) simp_all
  moreover have "unat z < 2 ^ 64" using unat_bound [of z] by simp
  ultimately show ?thesis by simp
qed

lemma unat_rounded:
  assumes "n \<noteq> 0"
  shows "unat ((((ucast (d :: u64) :: u128) * ucast (hz :: u32) + ucast (n :: u64) - 1) div ucast n)) =
    ceil_div (unat d * unat hz) (unat n)"
proof -
  let ?p = "(ucast d :: u128) * ucast hz"
  have n: "0 < unat n" using assms by (simp add: unat_gt_0)
  have p: "unat ?p = unat d * unat hz"
    using product_fits [of d hz 0] by (simp add: unat_word_ariths unat_ucast_128)
  then have s: "unat (?p + ucast n) = unat d * unat hz + unat n"
    using product_fits [of d hz n] by (simp add: unat_word_ariths unat_ucast_128)
  then have "unat (?p + ucast n - 1) = unat d * unat hz + unat n - 1"
    using n by (subst unat_sub) (simp_all add: word_le_nat_alt)
  then show ?thesis using n by (simp add: unat_div unat_ucast_128 ceil_div_def)
qed

lemma duration_to_ticks_nat:
  assumes "nanoseconds_per_second K \<noteq> 0" and "hz \<noteq> 0"
  shows "\<exists>t. r4_duration_to_ticks K d hz (Some x) = (ok_code K, Some t) \<and>
    unat t = saturate64 (ceil_div (unat (duration_ns d) * unat hz) (unat (nanoseconds_per_second K)))"
proof (cases "duration_ns d = 0")
  case True
  have "0 < unat (nanoseconds_per_second K)" using assms(1) by (simp add: unat_gt_0)
  then show ?thesis using True assms by (simp add: r4_duration_to_ticks_def ceil_div_def saturate64_def)
next
  case False
  let ?r = "((ucast (duration_ns d) :: u128) * ucast hz + ucast (nanoseconds_per_second K) - 1)
    div ucast (nanoseconds_per_second K)"
  note r = unat_rounded [OF assms(1), of "duration_ns d" hz]
  have g: "?r > ucast UINT64_MAX \<longleftrightarrow> unat ?r > 2 ^ 64 - 1"
    by (simp only: word_less_nat_alt unat_ucast_128 unat_MAX64)
  have "unat (if ?r > ucast UINT64_MAX then UINT64_MAX else (ucast ?r :: u64)) = saturate64 (unat ?r)"
  proof (cases "unat ?r > 2 ^ 64 - 1")
    case True
    then show ?thesis using g by (simp add: saturate64_def unat_MAX64)
  next
    case False
    then have "unat (ucast ?r :: u64) = unat ?r" by (simp add: unsigned_ucast_eq take_bit_nat_eq_self)
    then show ?thesis using g False by (simp add: saturate64_def)
  qed
  then show ?thesis using False assms unfolding r by (simp add: r4_duration_to_ticks_def Let_def)
qed

lemma remaining_ticks_nat:
  assumes "nanoseconds_per_second K \<noteq> 0" and "hz \<noteq> 0"
  shows "\<exists>t. r4_remaining_ticks K dl now hz (Some x) = (ok_code K, Some t) \<and>
    unat t = saturate64 (ceil_div ((unat (deadline_ns dl) - unat (instant_ns now)) * unat hz)
                          (unat (nanoseconds_per_second K)))"
proof (cases "instant_ns now \<ge> deadline_ns dl")
  case True
  then have "unat (deadline_ns dl) - unat (instant_ns now) = 0" by (simp add: word_le_nat_alt)
  moreover have "0 < unat (nanoseconds_per_second K)" using assms(1) by (simp add: unat_gt_0)
  ultimately show ?thesis using True by (simp add: r4_remaining_ticks_def ceil_div_def saturate64_def)
next
  case False
  then have lt: "deadline_ns dl > instant_ns now" by simp
  then have "unat (deadline_ns dl - instant_ns now) = unat (deadline_ns dl) - unat (instant_ns now)"
    by (intro unat_sub) simp
  then show ?thesis
    using duration_to_ticks_nat [OF assms, of "\<lparr>duration_ns = deadline_ns dl - instant_ns now\<rparr>" x] False lt
    by (simp add: r4_remaining_ticks_def)
qed

lemma deadline_after_nat:
  "unat (deadline_ns (r4_deadline_after now d)) = saturate64 (unat (instant_ns now) + unat (duration_ns d))"
proof -
  let ?n = "instant_ns now" and ?d = "duration_ns d"
  have "unat (UINT64_MAX - ?n) = (2 ^ 64 - 1) - unat ?n"
    using unat_bound [of ?n] by (subst unat_sub) (simp_all add: word_le_nat_alt unat_MAX64)
  then have "UINT64_MAX - ?n < ?d \<longleftrightarrow> (2 ^ 64 - 1) - unat ?n < unat ?d"
    by (simp only: word_less_nat_alt)
  then show ?thesis using unat_bound [of ?n]
    by (simp add: r4_deadline_after_def saturate64_def unat_MAX64 unat_word_ariths)
qed

lemma timeout_deadline_after:
  assumes "kind_finite K \<noteq> kind_forever K" and "kind_finite K \<noteq> kind_poll K"
  shows "r4_timeout_deadline K (r4_timeout_finite K d) now (Some dl) (Some f) =
    (ok_code K, Some (r4_deadline_after now d), Some False)"
  using assms by (simp add: r4_timeout_deadline_def r4_timeout_finite_def r4_deadline_after_def)

subsection \<open>Properties\<close>

text \<open>
  C5: a duration becomes the least number of ticks that covers it. For every
  duration and every nonzero tick rate \<open>r4_duration_to_ticks\<close> stores the least
  \<open>n\<close> with \<open>ns * hz \<le> n * 1s\<close>, cut off at \<open>UINT64_MAX\<close>; nothing in the 128-bit
  computation wraps.
\<close>

theorem duration_to_ticks_least:
  assumes "nanoseconds_per_second K \<noteq> 0" and "hz \<noteq> 0"
  shows "\<exists>t. r4_duration_to_ticks K d hz (Some x) = (ok_code K, Some t) \<and>
    unat t = min (2 ^ 64 - 1)
      (LEAST n. unat (duration_ns d) * unat hz \<le> n * unat (nanoseconds_per_second K))"
proof -
  have "0 < unat (nanoseconds_per_second K)" using assms(1) by (simp add: unat_gt_0)
  then show ?thesis using duration_to_ticks_nat [OF assms, of d x] by (simp add: ceil_div_Least saturate64_def)
qed

definition sample_time :: time_codes where
  "sample_time = \<lparr>nanoseconds_per_second = 1000000000, kind_poll = 1, kind_finite = 2, kind_forever = 3,
     io_wait_forever = UINT64_MAX, ok_code = 0, error_invalid = - 1\<rparr>"

theorem duration_to_ticks_least_witness:
  "\<exists>t. r4_duration_to_ticks sample_time \<lparr>duration_ns = 1500000001\<rparr> 1000 (Some 0) = (0, Some t) \<and>
     unat t = min (2 ^ 64 - 1) (LEAST n. 1500000001 * 1000 \<le> n * 1000000000)"
proof -
  have "nanoseconds_per_second sample_time \<noteq> 0" "(1000 :: u32) \<noteq> 0" by (simp_all add: sample_time_def)
  from duration_to_ticks_least [OF this, of "\<lparr>duration_ns = 1500000001\<rparr>" 0]
  show ?thesis by (simp add: sample_time_def)
qed

text \<open>
  waiting for a finite timeout through its deadline loses nothing to
  overflow. The deadline of a finite timeout is the clock plus the duration,
  cut off at \<open>UINT64_MAX\<close>, and is not marked forever; the ticks that remain at
  any instant are those of the time left until it, rounded up.
\<close>

theorem finite_deadline_remaining:
  assumes "kind_finite K \<noteq> kind_forever K" and "kind_finite K \<noteq> kind_poll K"
    and "nanoseconds_per_second K \<noteq> 0" and "hz \<noteq> 0"
  shows "\<exists>dl t. r4_timeout_deadline K (r4_timeout_finite K d) start (Some old) (Some f) =
      (ok_code K, Some dl, Some False) \<and>
    r4_remaining_ticks K dl now hz (Some x) = (ok_code K, Some t) \<and>
    unat (deadline_ns dl) = min (2 ^ 64 - 1) (unat (instant_ns start) + unat (duration_ns d)) \<and>
    unat t = min (2 ^ 64 - 1)
      (LEAST n. (unat (deadline_ns dl) - unat (instant_ns now)) * unat hz \<le> n * unat (nanoseconds_per_second K))"
proof -
  have "0 < unat (nanoseconds_per_second K)" using assms(3) by (simp add: unat_gt_0)
  then show ?thesis
    using remaining_ticks_nat [OF assms(3,4), of "r4_deadline_after start d" now x]
    by (simp add: timeout_deadline_after [OF assms(1,2)] deadline_after_nat ceil_div_Least saturate64_def)
qed

theorem finite_deadline_remaining_witness:
  "\<exists>dl t. r4_timeout_deadline sample_time (r4_timeout_finite sample_time \<lparr>duration_ns = 5\<rparr>)
       \<lparr>instant_ns = 10\<rparr> (Some \<lparr>deadline_ns = 0\<rparr>) (Some True) = (0, Some dl, Some False) \<and>
     r4_remaining_ticks sample_time dl \<lparr>instant_ns = 12\<rparr> 100 (Some 0) = (0, Some t) \<and> unat (deadline_ns dl) = 15"
proof -
  have "kind_finite sample_time \<noteq> kind_forever sample_time" "kind_finite sample_time \<noteq> kind_poll sample_time"
    "nanoseconds_per_second sample_time \<noteq> 0" "(100 :: u32) \<noteq> 0" "ok_code sample_time = 0"
    by (simp_all add: sample_time_def)
  with finite_deadline_remaining [OF this(1-4), of "\<lparr>duration_ns = 5\<rparr>" "\<lparr>instant_ns = 10\<rparr>"
      "\<lparr>deadline_ns = 0\<rparr>" True "\<lparr>instant_ns = 12\<rparr>" 0]
  show ?thesis by auto
qed

text \<open>
  a wait that polls \<open>r4_remaining_ticks\<close> sees time run out exactly once. The
  ticks left never grow from one instant to a later one, and they are zero
  exactly from the deadline on, never earlier through rounding.
\<close>

theorem remaining_ticks_run_out:
  assumes "nanoseconds_per_second K \<noteq> 0" and "hz \<noteq> 0" and "instant_ns now \<le> instant_ns later"
  shows "\<exists>t u. r4_remaining_ticks K dl now hz (Some x) = (ok_code K, Some t) \<and>
    r4_remaining_ticks K dl later hz (Some x) = (ok_code K, Some u) \<and> u \<le> t \<and>
    (t = 0 \<longleftrightarrow> deadline_ns dl \<le> instant_ns now)"
proof -
  let ?N = "unat (nanoseconds_per_second K)"
  let ?left = "\<lambda>n. (unat (deadline_ns dl) - unat (instant_ns n)) * unat hz"
  have N: "0 < ?N" using assms(1) by (simp add: unat_gt_0)
  have h: "0 < unat hz" using assms(2) by (simp add: unat_gt_0)
  obtain t u where t: "r4_remaining_ticks K dl now hz (Some x) = (ok_code K, Some t)"
    "unat t = saturate64 (ceil_div (?left now) ?N)"
    and u: "r4_remaining_ticks K dl later hz (Some x) = (ok_code K, Some u)"
    "unat u = saturate64 (ceil_div (?left later) ?N)"
    using remaining_ticks_nat [OF assms(1,2)] by blast
  have "?left later \<le> ?left now" using assms(3) by (intro mult_le_mono1) (simp add: word_le_nat_alt diff_le_mono2)
  then have "unat u \<le> unat t"
    unfolding t u saturate64_def using ceil_div_mono [OF N] by (meson min.mono order_refl)
  moreover have "t = 0 \<longleftrightarrow> ceil_div (?left now) ?N \<le> 0"
    unfolding unat_eq_0 [symmetric] t by (auto simp: saturate64_def)
  then have "t = 0 \<longleftrightarrow> deadline_ns dl \<le> instant_ns now"
    unfolding ceil_div_le_iff [OF N] using h by (simp add: word_le_nat_alt)
  ultimately show ?thesis using t u by (auto simp: word_le_nat_alt)
qed

theorem remaining_ticks_run_out_witness:
  "\<exists>t u. r4_remaining_ticks sample_time \<lparr>deadline_ns = 15\<rparr> \<lparr>instant_ns = 12\<rparr> 100 (Some 0) = (0, Some t) \<and>
     r4_remaining_ticks sample_time \<lparr>deadline_ns = 15\<rparr> \<lparr>instant_ns = 20\<rparr> 100 (Some 0) = (0, Some u) \<and> u \<le> t"
proof -
  have "nanoseconds_per_second sample_time \<noteq> 0" "(100 :: u32) \<noteq> 0"
    "instant_ns \<lparr>instant_ns = 12\<rparr> \<le> instant_ns \<lparr>instant_ns = 20\<rparr>" "ok_code sample_time = 0"
    by (simp_all add: sample_time_def)
  with remaining_ticks_run_out [OF this(1-3), of "\<lparr>deadline_ns = 15\<rparr>" 0] show ?thesis by auto
qed

end
