(* ===== verification/RecordBuffer.thy ===== *)
theory RecordBuffer
  imports Prelude
begin

text \<open>
  Untyped buffers of fixed-size records, as \<open>Shared/C/include/r4os/directory_page.h\<close>
  keeps them: record \<open>i\<close> of size \<open>n\<close> is the bytes from \<open>i * n\<close> on. A read or a
  write that leaves the buffer is \<open>None\<close>. The interface \<open>record_array\<close> states what
  the page and the snapshot rely on; the byte buffer provides it.
\<close>

subsection \<open>The interface\<close>

locale record_array =
  fixes get :: "'b \<Rightarrow> nat \<Rightarrow> 'r option"
    and put :: "'b \<Rightarrow> nat \<Rightarrow> 'r \<Rightarrow> 'b option"
    and items :: "'b \<Rightarrow> 'r list"
    and well_formed :: "'b \<Rightarrow> bool"
    and fits :: "'r \<Rightarrow> bool"
  assumes get_item: "well_formed b \<Longrightarrow> i < length (items b) \<Longrightarrow> get b i = Some (items b ! i)"
    and put_item: "well_formed b \<Longrightarrow> fits v \<Longrightarrow> i < length (items b) \<Longrightarrow>
      \<exists>b'. put b i v = Some b' \<and> well_formed b' \<and> items b' = (items b)[i := v]"
    and items_fit: "well_formed b \<Longrightarrow> v \<in> set (items b) \<Longrightarrow> fits v"
begin

lemma item_fits: "well_formed b \<Longrightarrow> i < length (items b) \<Longrightarrow> fits (items b ! i)"
  using items_fit nth_mem by blast

lemma get_put_same:
  assumes "well_formed b" and "fits v" and "i < length (items b)" and "put b i v = Some b'"
  shows "get b' i = Some v"
  using put_item [OF assms(1-3)] assms(3,4) get_item [of b' i] by auto

lemma get_put_other:
  assumes "well_formed b" and "fits v" and "i < length (items b)" and "put b i v = Some b'"
    and "j < length (items b)" and "i \<noteq> j"
  shows "get b' j = get b j"
  using put_item [OF assms(1-3)] assms get_item [of b' j] get_item [of b j] by auto

text \<open>Moving one record over another.\<close>

lemma move_item:
  assumes "well_formed b" and "i < length (items b)" and "j < length (items b)"
  shows "\<exists>b'. get b i = Some (items b ! i) \<and> put b j (items b ! i) = Some b' \<and> well_formed b' \<and>
    items b' = (items b)[j := items b ! i]"
  using assms get_item put_item [of b "items b ! i" j] item_fits by blast

end

subsection \<open>Byte buffers\<close>

definition rec_at :: "nat \<Rightarrow> bytes \<Rightarrow> nat \<Rightarrow> bytes option" where
  "rec_at sz buf i = (if (i + 1) * sz \<le> length buf then Some (take sz (drop (i * sz) buf)) else None)"

definition rec_put :: "nat \<Rightarrow> bytes \<Rightarrow> nat \<Rightarrow> bytes \<Rightarrow> bytes option" where
  "rec_put sz buf i v =
     (if (i + 1) * sz \<le> length buf \<and> length v = sz
      then Some (take (i * sz) buf @ v @ drop ((i + 1) * sz) buf) else None)"

definition recs :: "nat \<Rightarrow> bytes \<Rightarrow> bytes list" where
  "recs sz buf = map (\<lambda>i. take sz (drop (i * sz) buf)) [0..<length buf div sz]"

definition whole_records :: "nat \<Rightarrow> bytes \<Rightarrow> bool" where
  "whole_records sz buf \<longleftrightarrow> 0 < sz \<and> sz dvd length buf"

lemma length_recs [simp]: "length (recs sz buf) = length buf div sz"
  by (simp add: recs_def)

lemma recs_nth [simp]: "i < length buf div sz \<Longrightarrow> recs sz buf ! i = take sz (drop (i * sz) buf)"
  by (simp add: recs_def)

lemma whole_records_le:
  assumes "whole_records sz buf" and "i < length buf div sz"
  shows "(i + 1) * sz \<le> length buf"
proof -
  have "(i + 1) * sz \<le> length buf div sz * sz" using assms(2) by (intro mult_le_mono1) simp
  then show ?thesis using assms(1) by (simp add: whole_records_def)
qed

lemma rec_split:
  assumes "(i + 1) * sz \<le> length buf"
  shows "take (i * sz) buf @ take sz (drop (i * sz) buf) @ drop ((i + 1) * sz) buf = buf"
proof -
  have "take sz (drop (i * sz) buf) @ drop ((i + 1) * sz) buf = drop (i * sz) buf"
    by (metis append_take_drop_id drop_drop add.commute mult_Suc Suc_eq_plus1)
  then show ?thesis by simp
qed

lemma take_drop_prefix: "j + n \<le> length xs \<Longrightarrow> take n (drop j (xs @ ys)) = take n (drop j xs)"
  by simp

lemma take_drop_take: "j + n \<le> m \<Longrightarrow> take n (drop j (take m xs)) = take n (drop j xs)"
  by (simp add: drop_take min_def)

lemma recs_put:
  assumes "whole_records sz buf" and "i < length buf div sz" and "length v = sz"
  shows "recs sz (take (i * sz) buf @ v @ drop ((i + 1) * sz) buf) = (recs sz buf)[i := v]"
proof (rule nth_equalityI)
  let ?b = "take (i * sz) buf @ v @ drop ((i + 1) * sz) buf"
  have le: "(i + 1) * sz \<le> length buf" using whole_records_le [OF assms(1,2)] .
  then have len: "length ?b = length buf" using assms(3) by simp
  then show "length (recs sz ?b) = length ((recs sz buf)[i := v])" by simp
  fix j
  assume "j < length (recs sz ?b)"
  then have j: "j < length buf div sz" using len by simp
  have jle: "(j + 1) * sz \<le> length buf" using whole_records_le [OF assms(1) j] .
  have "take sz (drop (j * sz) ?b) = (if j = i then v else take sz (drop (j * sz) buf))"
  proof (cases "j < i")
    case True
    then have "(j + 1) * sz \<le> i * sz" by (intro mult_le_mono1) simp
    then have "j * sz + sz \<le> i * sz" by (simp add: add.commute)
    moreover have "i * sz \<le> length buf" using le by simp
    ultimately have "take sz (drop (j * sz) ?b) = take sz (drop (j * sz) (take (i * sz) buf))"
      by (intro take_drop_prefix) (simp add: min_absorb2)
    also have "\<dots> = take sz (drop (j * sz) buf)"
      using \<open>j * sz + sz \<le> i * sz\<close> by (rule take_drop_take)
    finally show ?thesis using True by simp
  next
    case False
    show ?thesis
    proof (cases "j = i")
      case True
      then show ?thesis using assms(3) le by simp
    next
      case ne: False
      then obtain k where k: "j = i + 1 + k" using False less_imp_Suc_add [of i j] by auto
      have "j * sz = (i + 1) * sz + k * sz" unfolding k by (simp add: algebra_simps)
      moreover have "length (take (i * sz) buf @ v) = (i + 1) * sz" using assms(3) le by simp
      ultimately have "drop (j * sz) ((take (i * sz) buf @ v) @ drop ((i + 1) * sz) buf) = drop (j * sz) buf"
        using drop_append [of "j * sz" "take (i * sz) buf @ v"] by (simp add: add.commute)
      then show ?thesis using ne by simp
    qed
  qed
  then show "recs sz ?b ! j = (recs sz buf)[i := v] ! j"
    using j len by (simp add: nth_list_update)
qed

interpretation byte_records: record_array "rec_at sz" "rec_put sz" "recs sz" "whole_records sz" "\<lambda>v. length v = sz" for sz
proof unfold_locales
  fix b i
  assume "whole_records sz b" "i < length (recs sz b)"
  then show "rec_at sz b i = Some (recs sz b ! i)"
    using whole_records_le [of sz b i] by (simp add: rec_at_def)
next
  fix b i
  fix v :: bytes
  assume *: "whole_records sz b" "length v = sz" "i < length (recs sz b)"
  then have "(i + 1) * sz \<le> length b" using whole_records_le [of sz b i] by simp
  with * show "\<exists>b'. rec_put sz b i v = Some b' \<and> whole_records sz b' \<and> recs sz b' = (recs sz b)[i := v]"
    using recs_put [of sz b i v] by (simp add: rec_put_def whole_records_def)
next
  fix b and v :: bytes
  assume "whole_records sz b" "v \<in> set (recs sz b)"
  then obtain i where "i < length b div sz" "v = take sz (drop (i * sz) b)" by (auto simp: recs_def)
  with whole_records_le [of sz b i] \<open>whole_records sz b\<close> show "length v = sz" by simp
qed

lemma rec_put_length: "rec_put sz buf i v = Some b \<Longrightarrow> length b = length buf"
  by (auto simp: rec_put_def split: if_splits)

end
