(* ===== verification/OrderedPage.thy ===== *)
theory OrderedPage
  imports RecordBuffer "HOL-Library.Multiset"
begin

text \<open>
  \<open>R4OrderedPage\<close> of \<open>Shared/C/include/r4os/directory_page.h\<close>: a caller's buffer
  that keeps the first records of a stream in order, by insertion from the end.
  The comparator is the caller's callback with its context; the properties
  take one that compares a key.
\<close>

subsection \<open>The code\<close>

record ordered_page =
  pg_entries :: bytes
  pg_count :: nat
  pg_capacity :: nat
  pg_item_size :: nat

definition r4_ordered_page_init ::
  "ordered_page option \<Rightarrow> bytes option \<Rightarrow> nat \<Rightarrow> nat \<Rightarrow> bool \<times> ordered_page option" where
  "r4_ordered_page_init page entries capacity item_size =
     (case (page, entries) of
        (Some _, Some e) \<Rightarrow>
          if capacity = 0 \<or> item_size = 0 \<or> item_size > (2 ^ 64 - 1) div capacity then (False, page)
          else (True, Some \<lparr>pg_entries = e, pg_count = 0, pg_capacity = capacity, pg_item_size = item_size\<rparr>)
      | _ \<Rightarrow> (False, page))"

text \<open>The loop that makes room: records greater than the value move up by one.\<close>

fun offer_shift ::
  "(bytes \<Rightarrow> bytes \<Rightarrow> bool) \<Rightarrow> nat \<Rightarrow> bytes \<Rightarrow> bytes \<Rightarrow> nat \<Rightarrow> (bytes \<times> nat) option" where
  "offer_shift lt sz v buf 0 = Some (buf, 0)"
| "offer_shift lt sz v buf (Suc k) =
     (case rec_at sz buf k of
        None \<Rightarrow> None
      | Some e \<Rightarrow>
          if lt v e then
            (case rec_put sz buf (Suc k) e of None \<Rightarrow> None | Some buf \<Rightarrow> offer_shift lt sz v buf k)
          else Some (buf, Suc k))"

definition r4_ordered_page_offer ::
  "ordered_page option \<Rightarrow> bytes option \<Rightarrow> (bytes \<Rightarrow> bytes \<Rightarrow> bool) option \<Rightarrow> (bool \<times> ordered_page option) option" where
  "r4_ordered_page_offer page v lt =
     (case (page, v, lt) of
        (Some p, Some v, Some lt) \<Rightarrow>
          if pg_capacity p = 0 then Some (False, page)
          else
            case (if pg_count p = pg_capacity p
                  then map_option (\<lambda>e. \<not> lt v e) (rec_at (pg_item_size p) (pg_entries p) (pg_capacity p - 1))
                  else Some False) of
              None \<Rightarrow> None
            | Some True \<Rightarrow> Some (False, page)
            | Some False \<Rightarrow>
                (case offer_shift lt (pg_item_size p) v (pg_entries p)
                        (if pg_count p < pg_capacity p then pg_count p else pg_capacity p - 1) of
                   None \<Rightarrow> None
                 | Some (buf, at) \<Rightarrow>
                     map_option (\<lambda>buf. (True, Some (p\<lparr>pg_entries := buf,
                         pg_count := (if pg_count p < pg_capacity p then pg_count p + 1 else pg_count p)\<rparr>)))
                       (rec_put (pg_item_size p) buf at v))
      | _ \<Rightarrow> Some (False, page))"

subsection \<open>Insertion after equal keys\<close>

definition ins_after :: "('r \<Rightarrow> 'k::linorder) \<Rightarrow> 'r \<Rightarrow> 'r list \<Rightarrow> 'r list" where
  "ins_after k v xs = takeWhile (\<lambda>e. k e \<le> k v) xs @ v # dropWhile (\<lambda>e. k e \<le> k v) xs"

lemma length_ins_after [simp]: "length (ins_after k v xs) = Suc (length xs)"
  using arg_cong [OF takeWhile_dropWhile_id [of "\<lambda>e. k e \<le> k v" xs], of length] unfolding ins_after_def length_append
  by simp

lemma dropWhile_greater:
  "sorted (map k xs) \<Longrightarrow> \<forall>x \<in> set (dropWhile (\<lambda>e. k e \<le> c) xs). c < k x"
proof (induction xs)
  case (Cons a xs)
  then show ?case by (cases "k a \<le> c") force+
qed simp

lemma takeWhile_not_greater: "\<forall>x \<in> set (takeWhile (\<lambda>e. k e \<le> c) xs). k x \<le> c"
  by (auto dest: set_takeWhileD)

lemma filter_ins_after:
  "filter (\<lambda>x. k x = y) (ins_after k v (sort_key k xs)) = filter (\<lambda>x. k x = y) (xs @ [v])"
proof -
  let ?S = "sort_key k xs"
  let ?P = "takeWhile (\<lambda>e. k e \<le> k v) ?S" and ?D = "dropWhile (\<lambda>e. k e \<le> k v) ?S"
  have "filter (\<lambda>x. k x = y) ?P @ filter (\<lambda>x. k x = y) ?D = filter (\<lambda>x. k x = y) ?S"
    by (simp flip: filter_append)
  moreover have "filter (\<lambda>x. k x = y) ?D = []" if "y = k v"
    using dropWhile_greater [of k ?S "k v"] that by (auto simp: filter_empty_conv)
  ultimately have "filter (\<lambda>x. k x = y) (ins_after k v ?S) = filter (\<lambda>x. k x = y) ?S @ filter (\<lambda>x. k x = y) [v]"
    unfolding ins_after_def by (cases "y = k v") simp_all
  then show ?thesis by (simp add: sort_key_stable)
qed

lemma mset_ins_after: "mset (ins_after k v xs) = add_mset v (mset xs)"
proof -
  have "mset (takeWhile (\<lambda>e. k e \<le> k v) xs) + mset (dropWhile (\<lambda>e. k e \<le> k v) xs) = mset xs"
    by (simp flip: mset_append)
  then show ?thesis by (simp add: ins_after_def)
qed

lemma sorted_ins_after: "sorted (map k xs) \<Longrightarrow> sorted (map k (ins_after k v xs))"
proof -
  assume s: "sorted (map k xs)"
  let ?P = "takeWhile (\<lambda>e. k e \<le> k v) xs" and ?D = "dropWhile (\<lambda>e. k e \<le> k v) xs"
  have "sorted (map k (?P @ ?D))" using s by simp
  then have pd: "sorted (map k ?P)" "sorted (map k ?D)" unfolding map_append sorted_append by blast+
  have "\<forall>x \<in> set ?P. k x \<le> k v" by (rule takeWhile_not_greater)
  moreover have "\<forall>y \<in> set ?D. k v < k y" using s by (rule dropWhile_greater)
  ultimately show ?thesis using pd unfolding ins_after_def by (fastforce simp: sorted_append)
qed

text \<open>Insertion after the equal keys is what a stable sort does with one more element.\<close>

lemma sort_key_snoc: "sort_key k (xs @ [v]) = ins_after k v (sort_key k xs)"
proof (rule properties_for_sort_key)
  fix a
  have "(\<lambda>x. k a = k x) = (\<lambda>x. k x = k a)" by auto
  then show "filter (\<lambda>x. k a = k x) (ins_after k v (sort_key k xs)) = filter (\<lambda>x. k a = k x) (xs @ [v])"
    by (simp only: filter_ins_after)
qed (simp_all add: mset_ins_after sorted_ins_after)

lemma ins_after_split:
  assumes "\<forall>e \<in> set P. k e \<le> k v" and "D = [] \<or> \<not> k (hd D) \<le> k v"
  shows "ins_after k v (P @ D) = P @ v # D"
  using assms by (cases D) (simp_all add: ins_after_def takeWhile_append2 dropWhile_append2)

lemma take_ins_split:
  assumes P: "\<forall>e \<in> set P. k e \<le> k v" and D: "D = [] \<or> \<not> k (hd D) \<le> k v"
  shows "take c (ins_after k v (take c (P @ D))) = take c (ins_after k v (P @ D))"
proof (cases "c \<le> length P")
  case True
  then have "ins_after k v (take c (P @ D)) = take c P @ [v]"
    using ins_after_split [of "take c P" k v "[]"] P by (auto dest: in_set_takeD)
  then show ?thesis using True ins_after_split [OF P D] by simp
next
  case False
  then obtain d where d: "c - length P = Suc d" by (metis Suc_diff_Suc not_le)
  have "take (Suc d) D = [] \<or> \<not> k (hd (take (Suc d) D)) \<le> k v" using D by (cases D) auto
  then have "ins_after k v (take c (P @ D)) = P @ v # take (Suc d) D"
    using ins_after_split [OF P, of "take (Suc d) D"] False d by simp
  then show ?thesis using False d ins_after_split [OF P D] by simp
qed

lemma take_ins_after: "take c (ins_after k v (take c xs)) = take c (ins_after k v xs)"
proof -
  let ?D = "dropWhile (\<lambda>e. k e \<le> k v) xs"
  have "?D = [] \<or> \<not> k (hd ?D) \<le> k v" using hd_dropWhile [of "\<lambda>e. k e \<le> k v" xs] by blast
  from take_ins_split [OF takeWhile_not_greater [of k "k v" xs] this, of c]
  show ?thesis by (simp only: takeWhile_dropWhile_id)
qed

subsection \<open>The buffer loop\<close>

text \<open>
  \<open>offer_shift\<close> stops where the records before it are not greater: it opens a
  gap before the trailing run of greater records.
\<close>

lemma offer_shift_ok:
  assumes "whole_records sz buf" and "at < length (recs sz buf)"
  shows "\<exists>buf' j. offer_shift lt sz v buf at = Some (buf', j) \<and> whole_records sz buf' \<and>
    length buf' = length buf \<and> j \<le> at \<and>
    (j = 0 \<or> \<not> lt v (recs sz buf ! (j - 1))) \<and> (\<forall>i. j \<le> i \<and> i < at \<longrightarrow> lt v (recs sz buf ! i)) \<and>
    (\<forall>i < length (recs sz buf). recs sz buf' ! i =
       (if j < i \<and> i \<le> at then recs sz buf ! (i - 1) else recs sz buf ! i))"
  using assms
proof (induction lt sz v buf at rule: offer_shift.induct)
  case (1 lt sz v buf)
  then show ?case by auto
next
  case (2 lt sz v buf n)
  let ?R = "recs sz buf"
  have n: "n < length ?R" "Suc n < length ?R" using 2 by simp_all
  obtain b where mv: "rec_at sz buf n = Some (?R ! n)" "rec_put sz buf (Suc n) (?R ! n) = Some b"
    "whole_records sz b" "recs sz b = ?R[Suc n := ?R ! n]"
    using byte_records.move_item [OF 2(2) n] by blast
  show ?case
  proof (cases "lt v (?R ! n)")
    case False
    then show ?thesis using 2 mv by (auto intro!: exI [of _ buf] exI [of _ "Suc n"])
  next
    case True
    have len: "length b = length buf" using mv(2) by (rule rec_put_length)
    have "n < length (recs sz b)" using n len by simp
    from 2(1) [OF mv(1) True mv(2,3) this] obtain buf' j where j:
      "offer_shift lt sz v b n = Some (buf', j)" "whole_records sz buf'" "length buf' = length b" "j \<le> n"
      "j = 0 \<or> \<not> lt v (recs sz b ! (j - 1))" "\<forall>i. j \<le> i \<and> i < n \<longrightarrow> lt v (recs sz b ! i)"
      "\<forall>i < length (recs sz b). recs sz buf' ! i =
         (if j < i \<and> i \<le> n then recs sz b ! (i - 1) else recs sz b ! i)" by blast
    have same: "recs sz b ! i = ?R ! i" if "i \<noteq> Suc n" for i using that unfolding mv(4) by simp
    have "\<forall>i < length ?R. recs sz buf' ! i = (if j < i \<and> i \<le> Suc n then ?R ! (i - 1) else ?R ! i)"
      using j(4,7) n same mv(4) len by (auto simp: le_Suc_eq)
    then show ?thesis using j mv(1,2) True len same
      by (intro exI [of _ buf'] exI [of _ j]) (auto simp: less_Suc_eq)
  qed
qed

lemma offer_place:
  assumes w: "whole_records sz buf" and at: "at < length (recs sz buf)" and v: "length v = sz"
    and k: "\<And>a b. lt a b \<longleftrightarrow> k a < k b" and s: "sorted (map k (take at (recs sz buf)))"
  shows "\<exists>b1 j b2. offer_shift lt sz v buf at = Some (b1, j) \<and> rec_put sz b1 j v = Some b2 \<and>
    whole_records sz b2 \<and> length b2 = length buf \<and>
    take (at + 1) (recs sz b2) = ins_after k v (take at (recs sz buf))"
proof -
  let ?R = "recs sz buf"
  from offer_shift_ok [OF w at, of lt v] obtain b1 j where j:
    "offer_shift lt sz v buf at = Some (b1, j)" "whole_records sz b1" "length b1 = length buf" "j \<le> at"
    "j = 0 \<or> \<not> lt v (?R ! (j - 1))" "\<forall>i. j \<le> i \<and> i < at \<longrightarrow> lt v (?R ! i)"
    "\<forall>i < length ?R. recs sz b1 ! i = (if j < i \<and> i \<le> at then ?R ! (i - 1) else ?R ! i)" by blast
  have jl: "j < length (recs sz b1)" using j(3,4) at by simp
  from byte_records.put_item [OF j(2) v jl] obtain b2 where b2:
    "rec_put sz b1 j v = Some b2" "whole_records sz b2" "recs sz b2 = (recs sz b1)[j := v]" by blast
  have len: "length b2 = length buf" using rec_put_length [OF b2(1)] j(3) by simp
  let ?P = "take j ?R" and ?D = "drop j (take at ?R)"
  have pd: "take at ?R = ?P @ ?D" using j(4) by (metis append_take_drop_id min.absorb1 take_take)
  have "\<forall>e \<in> set ?P. k e \<le> k v"
  proof
    fix e
    assume "e \<in> set ?P"
    then obtain i where i: "i < j" "i < length ?R" "e = ?R ! i" by (auto simp: in_set_conv_nth)
    have "map k (take at ?R) ! i \<le> map k (take at ?R) ! (j - 1)"
      using i j(4) at by (intro sorted_nth_mono [OF s]) auto
    then have "k e \<le> k (?R ! (j - 1))" using i j(4) at by (auto simp del: recs_nth length_recs)
    then show "k e \<le> k v" using j(5) i(1) k by auto
  qed
  moreover have "?D = [] \<or> \<not> k (hd ?D) \<le> k v"
    using j(4,6) at k by (cases "j = at") (auto simp: hd_drop_conv_nth simp del: recs_nth length_recs)
  ultimately have "ins_after k v (?P @ ?D) = ?P @ v # ?D" by (rule ins_after_split)
  then have ins: "ins_after k v (take at ?R) = ?P @ v # ?D" by (rule trans [OF arg_cong [OF pd]])
  have "take (at + 1) (recs sz b2) = ?P @ v # ?D"
  proof (rule nth_equalityI)
    show "length (take (at + 1) (recs sz b2)) = length (?P @ v # ?D)" using len at j(4) by simp
    fix i
    assume "i < length (take (at + 1) (recs sz b2))"
    then have i: "i \<le> at" "i < length ?R" using len at by auto
    have "recs sz b2 ! i = (if i = j then v else if j < i then ?R ! (i - 1) else ?R ! i)"
      unfolding b2(3) using jl j(7) i by (auto simp: nth_list_update simp del: recs_nth)
    moreover have "(?P @ v # ?D) ! i = (if i = j then v else if j < i then ?R ! (i - 1) else ?R ! i)"
      using i at j(4) by (auto simp: nth_append nth_Cons' simp del: recs_nth)
    ultimately show "take (at + 1) (recs sz b2) ! i = (?P @ v # ?D) ! i" using i by (simp del: recs_nth)
  qed
  then show ?thesis using j(1) b2(1,2) len ins by auto
qed

subsection \<open>Offering a stream\<close>

text \<open>The page holds the first \<open>capacity\<close> records, by key, of the offered stream \<open>xs\<close>.\<close>

definition page_holds :: "(bytes \<Rightarrow> 'k::linorder) \<Rightarrow> bytes list \<Rightarrow> ordered_page \<Rightarrow> bool" where
  "page_holds k xs p \<longleftrightarrow>
     0 < pg_capacity p \<and> 0 < pg_item_size p \<and>
     length (pg_entries p) = pg_capacity p * pg_item_size p \<and>
     pg_count p = min (pg_capacity p) (length xs) \<and>
     take (pg_count p) (recs (pg_item_size p) (pg_entries p)) = take (pg_capacity p) (sort_key k xs)"

lemma page_offer_ok:
  assumes p: "page_holds k xs p" and v: "length v = pg_item_size p"
    and k: "\<And>a b. lt a b \<longleftrightarrow> k a < k b"
  shows "\<exists>ok p'. r4_ordered_page_offer (Some p) (Some v) (Some lt) = Some (ok, Some p') \<and>
    page_holds k (xs @ [v]) p' \<and> pg_capacity p' = pg_capacity p \<and> pg_item_size p' = pg_item_size p"
proof -
  let ?sz = "pg_item_size p" and ?c = "pg_capacity p" and ?S = "sort_key k xs"
  let ?R = "recs ?sz (pg_entries p)"
  note P = p [unfolded page_holds_def]
  have w: "whole_records ?sz (pg_entries p)" using P by (simp add: whole_records_def)
  have lR: "length ?R = ?c" using P by simp
  have cut: "take ?c (sort_key k (xs @ [v])) = take ?c (ins_after k v (take ?c ?S))"
    by (simp only: sort_key_snoc take_ins_after)
  show ?thesis
  proof (cases "length xs < ?c")
    case True
    have "take (pg_count p) ?R = take ?c ?S" using P by blast
    moreover have "take ?c ?S = ?S" using True by simp
    ultimately have n: "pg_count p = length xs" "take (pg_count p) ?R = ?S" using P True by simp_all
    have lt: "pg_count p < length ?R" using True n lR by simp
    have "sorted (map k (take (pg_count p) ?R))" by (simp only: n(2) sorted_sort_key)
    from offer_place [OF w lt v k this] obtain b1 j b2 where b:
      "offer_shift lt ?sz v (pg_entries p) (pg_count p) = Some (b1, j)" "rec_put ?sz b1 j v = Some b2"
      "length b2 = length (pg_entries p)" "take (pg_count p + 1) (recs ?sz b2) = ins_after k v ?S"
      unfolding n(2) by blast
    have "r4_ordered_page_offer (Some p) (Some v) (Some lt) =
        Some (True, Some (p\<lparr>pg_entries := b2, pg_count := pg_count p + 1\<rparr>))"
      using b(1,2) True n(1) P by (simp add: r4_ordered_page_offer_def)
    moreover have "take (pg_count p + 1) (recs ?sz b2) = take ?c (sort_key k (xs @ [v]))"
      unfolding b(4) cut using True by simp
    ultimately show ?thesis using P True n b(3) by (auto simp: page_holds_def)
  next
    case False
    then have n: "pg_count p = ?c" using P by simp
    have t: "?R = take ?c ?S"
    proof -
      have "take (pg_count p) ?R = take ?c ?S" using P by blast
      moreover have "take (pg_count p) ?R = ?R" using n lR by simp
      ultimately show ?thesis by simp
    qed
    have c: "?c - 1 < length ?R" "0 < ?c" using P lR by simp_all
    have l: "rec_at ?sz (pg_entries p) (?c - 1) = Some (?R ! (?c - 1))" by (rule byte_records.get_item [OF w c(1)])
    have s: "sorted (map k ?R)" unfolding t by (metis sorted_sort_key sorted_wrt_take take_map)
    show ?thesis
    proof (cases "lt v (?R ! (?c - 1))")
      case False
      have "\<forall>e \<in> set ?R. k e \<le> k v"
      proof
        fix e
        assume "e \<in> set ?R"
        then obtain i where i: "i < ?c" "e = ?R ! i" using lR by (auto simp: in_set_conv_nth)
        have "map k ?R ! i \<le> map k ?R ! (?c - 1)" using i lR by (intro sorted_nth_mono [OF s]) auto
        then have "k e \<le> k (?R ! (?c - 1))" using i lR c by (simp del: recs_nth length_recs)
        then show "k e \<le> k v" using False k by (meson leI order_trans)
      qed
      then have "take ?c (ins_after k v ?R) = ?R"
        using ins_after_split [of ?R k v "[]"] lR by simp
      then have "take ?c (sort_key k (xs @ [v])) = ?R" using cut t by simp
      moreover have "r4_ordered_page_offer (Some p) (Some v) (Some lt) = Some (False, Some p)"
        using l False n P by (simp add: r4_ordered_page_offer_def)
      ultimately show ?thesis using P \<open>\<not> length xs < ?c\<close> n lR by (auto simp: page_holds_def)
    next
      case True
      have s1: "sorted (map k (take (?c - 1) ?R))" using s by (metis sorted_wrt_take take_map)
      from offer_place [OF w c(1) v k s1] obtain b1 j b2 where b:
        "offer_shift lt ?sz v (pg_entries p) (?c - 1) = Some (b1, j)" "rec_put ?sz b1 j v = Some b2"
        "length b2 = length (pg_entries p)" "take (?c - 1 + 1) (recs ?sz b2) = ins_after k v (take (?c - 1) ?R)"
        by blast
      have ck: "?c - 1 + 1 = ?c" using c(2) by simp
      have "ins_after k v (take (?c - 1) ?R) = take ?c (ins_after k v ?R)"
      proof -
        have R: "?R = take (?c - 1) ?R @ [?R ! (?c - 1)]"
          using c lR take_Suc_conv_app_nth [of "?c - 1" ?R] by simp
        define P where "P = takeWhile (\<lambda>e. k e \<le> k v) (take (?c - 1) ?R)"
        define D where "D = dropWhile (\<lambda>e. k e \<le> k v) (take (?c - 1) ?R)"
        have PD: "take (?c - 1) ?R = P @ D" by (simp add: P_def D_def)
        have "\<forall>e \<in> set P. k e \<le> k v" unfolding P_def by (rule takeWhile_not_greater)
        moreover have d: "D = [] \<or> \<not> k (hd D) \<le> k v"
          unfolding D_def using hd_dropWhile by blast
        moreover have "\<not> k (?R ! (?c - 1)) \<le> k v" using True k by simp
        then have "\<not> k (hd (D @ [?R ! (?c - 1)])) \<le> k v" using d by (cases D) auto
        ultimately have "ins_after k v (P @ D) = P @ v # D"
          "ins_after k v (P @ (D @ [?R ! (?c - 1)])) = P @ v # (D @ [?R ! (?c - 1)])"
          using ins_after_split [of P k v] by blast+
        moreover have "?R = P @ (D @ [?R ! (?c - 1)])" using R PD by simp
        moreover have "length (P @ v # D) = ?c" using arg_cong [OF PD, of length] c lR by simp
        ultimately show ?thesis using PD by (metis append_Cons append_assoc append_eq_conv_conj)
      qed
      then have "take ?c (recs ?sz b2) = take ?c (sort_key k (xs @ [v]))"
        using b(4) cut t by (simp only: ck)
      moreover have "r4_ordered_page_offer (Some p) (Some v) (Some lt) =
          Some (True, Some (p\<lparr>pg_entries := b2, pg_count := pg_count p\<rparr>))"
        using l True n P b(1,2) by (simp add: r4_ordered_page_offer_def)
      ultimately show ?thesis using P \<open>\<not> length xs < ?c\<close> n b(3) by (auto simp: page_holds_def)
    qed
  qed
qed

primrec page_offers :: "(bytes \<Rightarrow> bytes \<Rightarrow> bool) \<Rightarrow> bytes list \<Rightarrow> ordered_page \<Rightarrow> ordered_page option" where
  "page_offers lt [] p = Some p"
| "page_offers lt (v # vs) p =
     (case r4_ordered_page_offer (Some p) (Some v) (Some lt) of
        Some (_, Some p') \<Rightarrow> page_offers lt vs p'
      | _ \<Rightarrow> None)"

lemma page_offers_ok:
  assumes "page_holds k xs p" and "\<forall>v \<in> set vs. length v = pg_item_size p"
    and k: "\<And>a b. lt a b \<longleftrightarrow> k a < k b"
  shows "\<exists>p'. page_offers lt vs p = Some p' \<and> page_holds k (xs @ vs) p' \<and> pg_capacity p' = pg_capacity p \<and>
    pg_item_size p' = pg_item_size p"
  using assms(1,2)
proof (induction vs arbitrary: xs p)
  case Nil
  then show ?case by simp
next
  case (Cons v vs)
  then have "length v = pg_item_size p" by simp
  from page_offer_ok [OF Cons.prems(1) this k] obtain ok p1 where p1:
    "r4_ordered_page_offer (Some p) (Some v) (Some lt) = Some (ok, Some p1)" "page_holds k (xs @ [v]) p1"
    "pg_capacity p1 = pg_capacity p" "pg_item_size p1 = pg_item_size p" by blast
  with Cons.IH [of "xs @ [v]" p1] Cons.prems(2) show ?case by auto
qed

text \<open>
  C7: a page offered a stream holds its smallest records in a stable order. A
  page set up by \<open>r4_ordered_page_init\<close> over a buffer of its size never reads or
  writes outside it, whatever is offered; after any sequence of offers its
  records are the first \<open>capacity\<close> ones of the stable sort of the sequence.
\<close>

theorem ordered_page_keeps_least:
  fixes k :: "bytes \<Rightarrow> 'k::linorder"
  assumes "0 < cap" and "0 < sz" and "sz \<le> (2 ^ 64 - 1) div cap" and "length buf = cap * sz"
    and "\<forall>v \<in> set vs. length v = sz" and "lt = (\<lambda>a b. k a < k b)"
  shows "\<exists>p p'. r4_ordered_page_init (Some old) (Some buf) cap sz = (True, Some p) \<and>
    page_offers lt vs p = Some p' \<and> pg_count p' = min cap (length vs) \<and>
    length (pg_entries p') = length buf \<and>
    take (pg_count p') (recs sz (pg_entries p')) = take cap (sort_key k vs)"
proof -
  let ?p = "\<lparr>pg_entries = buf, pg_count = 0, pg_capacity = cap, pg_item_size = sz\<rparr>"
  have i: "r4_ordered_page_init (Some old) (Some buf) cap sz = (True, Some ?p)"
    using assms(1-3) by (simp add: r4_ordered_page_init_def)
  have h: "page_holds k [] ?p" using assms by (simp add: page_holds_def)
  have v: "\<forall>v \<in> set vs. length v = pg_item_size ?p" using assms(5) by simp
  have "\<exists>p'. page_offers lt vs ?p = Some p' \<and> page_holds k ([] @ vs) p' \<and> pg_capacity p' = pg_capacity ?p \<and>
    pg_item_size p' = pg_item_size ?p"
    by (rule page_offers_ok [OF h v]) (simp add: assms(6))
  then obtain p' where "page_offers lt vs ?p = Some p'" "page_holds k vs p'" "pg_capacity p' = cap"
    "pg_item_size p' = sz" by auto
  then show ?thesis using i assms(4) unfolding page_holds_def by metis
qed

theorem ordered_page_keeps_least_witness:
  "\<exists>p p'. r4_ordered_page_init (Some \<lparr>pg_entries = [], pg_count = 0, pg_capacity = 0, pg_item_size = 0\<rparr>)
       (Some [0, 0, 0, 0]) 2 2 = (True, Some p) \<and>
     page_offers (\<lambda>a b. hd a < hd b) [[3, 1], [2, 1], [2, 2], [1, 1]] p = Some p' \<and> pg_count p' = 2 \<and>
     take 2 (recs 2 (pg_entries p')) = [[1, 1], [2, 1]]"
proof -
  have s: "take 2 (sort_key hd [[3, 1], [2, 1], [2, 2], [1, 1 :: u8]]) = [[1, 1], [2, 1]]"
    by code_simp
  have "(0 :: nat) < 2" "(2 :: nat) \<le> (2 ^ 64 - 1) div 2" "length [0, 0, 0, 0 :: u8] = 2 * 2"
    "\<forall>v \<in> set [[3, 1], [2, 1], [2, 2], [1, 1 :: u8]]. length v = 2" by simp_all
  from ordered_page_keeps_least [OF this(1,1,2,3,4) refl [of "\<lambda>a b. hd a < hd b"],
      of "\<lparr>pg_entries = [], pg_count = 0, pg_capacity = 0, pg_item_size = 0\<rparr>"]
  show ?thesis unfolding s by auto
qed

end
