(* ===== verification/HeapOrder.thy ===== *)
theory HeapOrder
  imports Prelude "HOL-Library.Multiset"
begin

text \<open>
  Binary heaps in the first \<open>e\<close> places of a list, for the sorting loop of
  \<open>Shared/C/include/r4os/directory_page.h\<close>: the order \<open>above\<close> from a node on,
  sinking one element, and what a sorted tail under a heap becomes.
\<close>

subsection \<open>Order\<close>

abbreviation parent :: "nat \<Rightarrow> nat" where
  "parent j \<equiv> (j - 1) div 2"

definition above :: "(nat \<Rightarrow> 'k::linorder) \<Rightarrow> nat \<Rightarrow> nat \<Rightarrow> bool" where
  "above f s e \<longleftrightarrow> (\<forall>j. 0 < j \<and> j < e \<and> s \<le> parent j \<longrightarrow> f j \<le> f (parent j))"

text \<open>The same with node \<open>r\<close> possibly too small for its place.\<close>

definition above_but :: "(nat \<Rightarrow> 'k::linorder) \<Rightarrow> nat \<Rightarrow> nat \<Rightarrow> nat \<Rightarrow> bool" where
  "above_but f s r e \<longleftrightarrow>
     (\<forall>j. 0 < j \<and> j < e \<and> s \<le> parent j \<and> parent j \<noteq> r \<longrightarrow> f j \<le> f (parent j)) \<and>
     (\<forall>j. 0 < j \<and> j < e \<and> parent j = r \<and> 0 < r \<and> s \<le> parent r \<longrightarrow> f j \<le> f (parent r))"

lemma parent_children: "0 < j \<Longrightarrow> parent j = r \<longleftrightarrow> j = 2 * r + 1 \<or> j = 2 * r + 2"
  by presburger

lemma above_but_leaf:
  assumes "above_but f s r e" and "\<not> r < e div 2"
  shows "above f s e"
  unfolding above_def
proof (intro allI impI)
  fix j
  assume j: "0 < j \<and> j < e \<and> s \<le> parent j"
  then have "parent j \<noteq> r" using assms(2) parent_children [of j r] by auto
  then show "f j \<le> f (parent j)" using assms(1) j unfolding above_but_def by blast
qed

lemma above_but_ordered:
  assumes "above_but f s r e" and "\<And>j. 0 < j \<Longrightarrow> j < e \<Longrightarrow> parent j = r \<Longrightarrow> f j \<le> f r"
  shows "above f s e"
  using assms unfolding above_def above_but_def by metis

lemma above_but_sink:
  assumes I: "above_but f s r e" and c: "0 < c" "c < e" "parent c = r" "s \<le> r"
    and max: "\<And>j. 0 < j \<Longrightarrow> j < e \<Longrightarrow> parent j = r \<Longrightarrow> f j \<le> f c" and le: "f r \<le> f c"
    and g: "g r = f c" "g c = f r" "\<And>i. i \<noteq> r \<Longrightarrow> i \<noteq> c \<Longrightarrow> g i = f i"
  shows "above_but g s c e"
  unfolding above_but_def
proof (intro conjI allI impI)
  have rc: "r < c" using c by auto
  fix j
  {
    assume j: "0 < j \<and> j < e \<and> s \<le> parent j \<and> parent j \<noteq> c"
    show "g j \<le> g (parent j)"
    proof (cases "parent j = r")
      case True
      then show ?thesis using j max g le rc by (metis order_refl nat_neq_iff)
    next
      case False
      then have p: "g (parent j) = f (parent j)" using j g by blast
      show ?thesis
      proof (cases "j = r")
        case True
        then have "f c \<le> f (parent r)" using I j c unfolding above_but_def by blast
        then show ?thesis using True p g by simp
      next
        case ne: False
        have "j \<noteq> c" using False c by blast
        then show ?thesis using I j False ne p g(3) unfolding above_but_def by metis
      qed
    qed
  next
    assume j: "0 < j \<and> j < e \<and> parent j = c \<and> 0 < c \<and> s \<le> parent c"
    then have "c < j" by presburger
    then have "g j = f j" using rc g(3) by simp
    moreover have "f j \<le> f c" using I j c rc unfolding above_but_def by (metis nat_neq_iff order_trans less_imp_le)
    ultimately show "g j \<le> g (parent c)" using c g by simp
  }
qed

lemma above_max: "above f 0 e \<Longrightarrow> j < e \<Longrightarrow> f j \<le> f 0"
proof (induction j rule: less_induct)
  case (less j)
  show ?case
  proof (cases "j = 0")
    case False
    then have p: "parent j < j" "parent j < e" using less.prems(2) by auto
    have "f j \<le> f (parent j)" using less.prems False unfolding above_def by simp
    also have "\<dots> \<le> f 0" using less.IH [OF p(1) less.prems(1) p(2)] .
    finally show ?thesis .
  qed simp
qed

subsection \<open>Lists\<close>

definition swap_at :: "'r list \<Rightarrow> nat \<Rightarrow> nat \<Rightarrow> 'r list" where
  "swap_at xs a b = xs[a := xs ! b, b := xs ! a]"

lemma length_swap_at [simp]: "length (swap_at xs a b) = length xs"
  by (simp add: swap_at_def)

lemma swap_at_nth:
  "a < length xs \<Longrightarrow> b < length xs \<Longrightarrow>
   swap_at xs a b ! i = (if i = a then xs ! b else if i = b then xs ! a else xs ! i)"
  by (cases "i < length xs") (auto simp: swap_at_def nth_list_update)

lemma mset_swap_at: "a < length xs \<Longrightarrow> b < length xs \<Longrightarrow> mset (swap_at xs a b) = mset xs"
  by (simp add: swap_at_def mset_swap)

lemma take_swap_at: "a < e \<Longrightarrow> b < e \<Longrightarrow> take e (swap_at xs a b) = swap_at (take e xs) a b"
  by (simp add: swap_at_def take_update_swap)

lemma drop_swap_at: "a < e \<Longrightarrow> b < e \<Longrightarrow> drop e (swap_at xs a b) = drop e xs"
  by (simp add: swap_at_def drop_update_cancel)

text \<open>The sinking loop.\<close>

function sift :: "('r \<Rightarrow> 'r \<Rightarrow> bool) \<Rightarrow> 'r list \<Rightarrow> nat \<Rightarrow> nat \<Rightarrow> 'r list" where
  "sift lt xs root e =
     (if root < e div 2 then
        let child = root * 2 + 1;
            child = (if child + 1 < e \<and> lt (xs ! child) (xs ! (child + 1)) then child + 1 else child)
        in if \<not> lt (xs ! root) (xs ! child) then xs else sift lt (swap_at xs root child) child e
      else xs)"
  by pat_completeness auto
termination
  by (relation "measure (\<lambda>(lt, xs, root, e). e - root)") auto

declare sift.simps [simp del]

lemma sift_ok:
  fixes k :: "'r \<Rightarrow> 'k::linorder"
  assumes "\<And>a b. lt a b \<longleftrightarrow> k a < k b" and "e \<le> length xs" and "s \<le> root"
    and "above_but (\<lambda>i. k (xs ! i)) s root e"
  shows "length (sift lt xs root e) = length xs \<and> mset (take e (sift lt xs root e)) = mset (take e xs) \<and>
    drop e (sift lt xs root e) = drop e xs \<and> above (\<lambda>i. k (sift lt xs root e ! i)) s e"
  using assms
proof (induction lt xs root e rule: sift.induct)
  case (1 lt xs root e)
  note lt = "1.prems"(1)
  show ?case
  proof (cases "root < e div 2")
    case False
    then show ?thesis using above_but_leaf [OF "1.prems"(4)] by (simp add: sift.simps [of lt xs root e])
  next
    case True
    let ?c0 = "root * 2 + 1"
    define c where "c = (if ?c0 + 1 < e \<and> lt (xs ! ?c0) (xs ! (?c0 + 1)) then ?c0 + 1 else ?c0)"
    have c: "0 < c" "c < e" "parent c = root" using True by (auto simp: c_def)
    have max: "k (xs ! j) \<le> k (xs ! c)" if "0 < j" "j < e" "parent j = root" for j
      using that parent_children [of j root] lt by (auto simp: c_def mult.commute)
    have step: "sift lt xs root e = (if \<not> lt (xs ! root) (xs ! c) then xs else sift lt (swap_at xs root c) c e)"
      unfolding sift.simps [of lt xs root e] Let_def c_def [symmetric] using True by (rule if_P)
    show ?thesis
    proof (cases "lt (xs ! root) (xs ! c)")
      case False
      then have "sift lt xs root e = xs" using step by simp
      moreover have "k (xs ! c) \<le> k (xs ! root)" using False lt by simp
      then have "above (\<lambda>i. k (xs ! i)) s e"
        using above_but_ordered [OF "1.prems"(4)] max by (meson order_trans)
      ultimately show ?thesis by simp
    next
      case less: True
      let ?ys = "swap_at xs root c"
      have r: "root < length xs" "c < length xs" "root < e" using c True "1.prems"(2) by auto
      have step: "sift lt xs root e = sift lt ?ys c e" using less step by simp
      have ab: "above_but (\<lambda>i. k (?ys ! i)) s c e"
        using above_but_sink [OF "1.prems"(4) c "1.prems"(3) max, of "\<lambda>i. k (?ys ! i)"] less lt r
        by (simp add: swap_at_nth less_imp_le)
      have sc: "s \<le> c" using "1.prems"(3) c by auto
      have nn: "\<not> \<not> lt (xs ! root) (xs ! c)" and el: "e \<le> length ?ys" using less "1.prems"(2) by simp_all
      have ih: "length (sift lt ?ys c e) = length ?ys \<and>
          mset (take e (sift lt ?ys c e)) = mset (take e ?ys) \<and>
          drop e (sift lt ?ys c e) = drop e ?ys \<and> above (\<lambda>i. k (sift lt ?ys c e ! i)) s e"
        by (rule "1.IH" [OF True refl c_def nn lt el sc ab])
      have "mset (take e ?ys) = mset (take e xs)"
        using r c "1.prems"(2) by (simp add: take_swap_at mset_swap_at)
      moreover have "drop e ?ys = drop e xs" using r c by (simp add: drop_swap_at)
      ultimately show ?thesis unfolding step using ih by simp
    qed
  qed
qed

text \<open>The two passes: building the heap from node \<open>n\<close> down, and moving the maximum to the end.\<close>

fun build_heap :: "('r \<Rightarrow> 'r \<Rightarrow> bool) \<Rightarrow> 'r list \<Rightarrow> nat \<Rightarrow> nat \<Rightarrow> 'r list" where
  "build_heap lt xs 0 e = xs"
| "build_heap lt xs (Suc n) e = build_heap lt (sift lt xs n e) n e"

fun drain_heap :: "('r \<Rightarrow> 'r \<Rightarrow> bool) \<Rightarrow> 'r list \<Rightarrow> nat \<Rightarrow> 'r list" where
  "drain_heap lt xs 0 = xs"
| "drain_heap lt xs (Suc 0) = xs"
| "drain_heap lt xs (Suc (Suc n)) = drain_heap lt (sift lt (swap_at xs 0 (Suc n)) 0 (Suc n)) (Suc n)"

lemma build_heap_ok:
  assumes lt: "\<And>a b. lt a b \<longleftrightarrow> k a < k b" and "e \<le> length xs" and "above (\<lambda>i. k (xs ! i)) n e"
  shows "length (build_heap lt xs n e) = length xs \<and> mset (take e (build_heap lt xs n e)) = mset (take e xs) \<and>
    drop e (build_heap lt xs n e) = drop e xs \<and> above (\<lambda>i. k (build_heap lt xs n e ! i)) 0 e"
  using assms(2,3)
proof (induction n arbitrary: xs)
  case 0
  then show ?case by simp
next
  case (Suc n)
  have "above_but (\<lambda>i. k (xs ! i)) n n e"
    unfolding above_but_def
  proof (intro conjI allI impI)
    fix j
    assume "0 < j \<and> j < e \<and> n \<le> parent j \<and> parent j \<noteq> n"
    then show "k (xs ! j) \<le> k (xs ! parent j)" using Suc.prems(2) unfolding above_def by simp
  next
    fix j
    assume "0 < j \<and> j < e \<and> parent j = n \<and> 0 < n \<and> n \<le> parent n"
    then have False by auto
    then show "k (xs ! j) \<le> k (xs ! parent n)" ..
  qed
  from sift_ok [OF lt Suc.prems(1) order_refl this] Suc.prems(1) Suc.IH [of "sift lt xs n e"]
  show ?case by simp
qed

lemma drain_heap_ok:
  assumes lt: "\<And>a b. lt a b \<longleftrightarrow> k a < k b" and "n \<le> length xs" and "above (\<lambda>i. k (xs ! i)) 0 n"
    and "sorted (map k (drop n xs))" and "\<forall>x \<in> set (take n xs). \<forall>y \<in> set (drop n xs). k x \<le> k y"
  shows "length (drain_heap lt xs n) = length xs \<and> mset (drain_heap lt xs n) = mset xs \<and>
    sorted (map k (drain_heap lt xs n))"
  using assms
proof (induction lt xs n rule: drain_heap.induct)
  case (1 lt xs)
  then show ?case by simp
next
  case (2 lt xs)
  then obtain x ys where "xs = x # ys" by (cases xs) auto
  with 2 show ?case by auto
next
  case (3 lt xs n)
  let ?ys = "swap_at xs 0 (Suc n)" and ?e = "Suc n"
  have l: "0 < length xs" "Suc n < length xs" using "3.prems"(2) by auto
  have nth: "?ys ! i = (if i = 0 then xs ! Suc n else if i = Suc n then xs ! 0 else xs ! i)" for i
    using l by (rule swap_at_nth)
  have "above_but (\<lambda>i. k (?ys ! i)) 0 0 ?e"
    unfolding above_but_def
  proof (intro conjI allI impI)
    fix j
    assume j: "0 < j \<and> j < ?e \<and> 0 \<le> parent j \<and> parent j \<noteq> 0"
    moreover from this have "parent j < Suc n" by auto
    ultimately show "k (?ys ! j) \<le> k (?ys ! parent j)"
      using "3.prems"(3) unfolding above_def by (simp add: nth)
  qed simp
  then have s: "length (sift lt ?ys 0 ?e) = length ?ys \<and> mset (take ?e (sift lt ?ys 0 ?e)) = mset (take ?e ?ys) \<and>
      drop ?e (sift lt ?ys 0 ?e) = drop ?e ?ys \<and> above (\<lambda>i. k (sift lt ?ys 0 ?e ! i)) 0 ?e"
    using l by (intro sift_ok "3.prems"(1)) simp_all
  let ?zs = "sift lt ?ys 0 ?e"
  have d: "drop ?e ?ys = xs ! 0 # drop (Suc ?e) xs"
  proof -
    have "drop ?e ?ys = ?ys ! ?e # drop (Suc ?e) ?ys" using l by (simp add: Cons_nth_drop_Suc)
    moreover have "drop (Suc ?e) ?ys = drop (Suc ?e) xs" by (rule drop_swap_at) simp_all
    ultimately show ?thesis by (simp add: nth)
  qed
  have "mset (take ?e ?ys) + mset (drop ?e ?ys) = mset ?ys" by (simp flip: mset_append)
  then have m: "mset (take ?e ?ys) + {#xs ! 0#} = mset (take (Suc ?e) xs)"
  proof -
    have "mset (take (Suc ?e) ?ys) = mset (take (Suc ?e) xs)"
      using l by (subst take_swap_at) (simp_all add: mset_swap_at)
    moreover have "take (Suc ?e) ?ys = take ?e ?ys @ [xs ! 0]" using l by (simp add: take_Suc_conv_app_nth nth)
    ultimately show ?thesis by simp
  qed
  have top: "k x \<le> k (xs ! 0)" if "x \<in> set (take (Suc ?e) xs)" for x
    using that above_max [OF "3.prems"(3)] l by (auto simp: in_set_conv_nth)
  have sub: "x \<in> set (take (Suc ?e) xs)" if "x \<in> set (take ?e ?zs)" for x
  proof -
    have "x \<in># mset (take ?e ?ys)" using that s by (metis set_mset_mset)
    then have "x \<in># mset (take (Suc ?e) xs)" using m by (metis union_iff)
    then show ?thesis by simp
  qed
  have x0: "xs ! 0 \<in> set (take (Suc ?e) xs)" using l by (simp add: in_set_conv_nth) (metis l(1) nth_take zero_less_Suc)
  have tail: "drop ?e ?zs = xs ! 0 # drop (Suc ?e) xs" using s d by simp
  have "sorted (map k (drop ?e ?zs))" unfolding tail using "3.prems"(4,5) x0 by (simp add: sorted_wrt_append)
  moreover have "\<forall>x \<in> set (take ?e ?zs). \<forall>y \<in> set (drop ?e ?zs). k x \<le> k y"
    unfolding tail using sub top "3.prems"(5) by auto
  moreover have "mset ?zs = mset xs"
  proof -
    have "mset ?zs = mset (take ?e ?zs) + mset (drop ?e ?zs)" by (simp flip: mset_append)
    also have "\<dots> = mset (take ?e ?ys) + mset (drop ?e ?ys)" using s by simp
    also have "\<dots> = mset xs" using l by (simp add: mset_swap_at flip: mset_append)
    finally show ?thesis .
  qed
  ultimately show ?case using "3.IH" [OF "3.prems"(1)] s l by simp
qed

text \<open>A heap in the first \<open>n\<close> places drains to a sorted prefix, and the rest stays.\<close>

lemma sift_append: "e \<le> length xs \<Longrightarrow> sift lt (xs @ ys) root e = sift lt xs root e @ ys"
proof (induction lt xs root e rule: sift.induct)
  case (1 lt xs root e)
  show ?case
  proof (cases "root < e div 2")
    case False
    then show ?thesis by (simp add: sift.simps [of lt "xs @ ys" root e] sift.simps [of lt xs root e])
  next
    case True
    let ?c0 = "root * 2 + 1"
    define c where "c = (if ?c0 + 1 < e \<and> lt (xs ! ?c0) (xs ! (?c0 + 1)) then ?c0 + 1 else ?c0)"
    have c: "c < length xs" "root < length xs" "?c0 < length xs" "?c0 + 1 < e \<Longrightarrow> ?c0 + 1 < length xs"
      using True "1.prems" by (auto simp: c_def)
    have c': "c = (if ?c0 + 1 < e \<and> lt ((xs @ ys) ! ?c0) ((xs @ ys) ! (?c0 + 1)) then ?c0 + 1 else ?c0)"
      using c(3,4) unfolding c_def by (auto simp: nth_append)
    have sw: "swap_at (xs @ ys) root c = swap_at xs root c @ ys"
      using c by (simp add: swap_at_def nth_append list_update_append)
    have s1: "sift lt (xs @ ys) root e =
        (if \<not> lt ((xs @ ys) ! root) ((xs @ ys) ! c) then xs @ ys else sift lt (swap_at (xs @ ys) root c) c e)"
      unfolding sift.simps [of lt "xs @ ys" root e] Let_def c' [symmetric] using True by (rule if_P)
    have s2: "sift lt xs root e = (if \<not> lt (xs ! root) (xs ! c) then xs else sift lt (swap_at xs root c) c e)"
      unfolding sift.simps [of lt xs root e] Let_def c_def [symmetric] using True by (rule if_P)
    show ?thesis
    proof (cases "lt (xs ! root) (xs ! c)")
      case False
      then show ?thesis using s1 s2 c by (simp add: nth_append)
    next
      case less: True
      have "sift lt (swap_at xs root c @ ys) c e = sift lt (swap_at xs root c) c e @ ys"
        by (rule "1.IH" [OF True refl c_def]) (use less "1.prems" in simp_all)
      then show ?thesis using s1 s2 c less by (simp add: nth_append sw)
    qed
  qed
qed

lemma drain_heap_append: "n \<le> length xs \<Longrightarrow> drain_heap lt (xs @ ys) n = drain_heap lt xs n @ ys"
proof (induction lt xs n rule: drain_heap.induct)
  case (3 lt xs n)
  have "swap_at (xs @ ys) 0 (Suc n) = swap_at xs 0 (Suc n) @ ys"
    using "3.prems" by (cases xs) (simp_all add: swap_at_def nth_append list_update_append)
  moreover have "sift lt (swap_at xs 0 (Suc n) @ ys) 0 (Suc n) = sift lt (swap_at xs 0 (Suc n)) 0 (Suc n) @ ys"
    using "3.prems" by (intro sift_append) simp
  moreover have "length (sift lt zs r e) = length zs" for zs r e
  proof (induction lt zs r e rule: sift.induct)
    case (1 lt zs r e)
    then show ?case by (subst sift.simps) (simp add: Let_def)
  qed
  ultimately show ?case using 3 by simp
qed simp_all

lemma drain_heap_prefix:
  assumes lt: "\<And>a b. lt a b \<longleftrightarrow> k a < k b" and n: "n \<le> length xs" and a: "above (\<lambda>i. k (xs ! i)) 0 n"
  shows "mset (take n (drain_heap lt xs n)) = mset (take n xs) \<and> sorted (map k (take n (drain_heap lt xs n)))"
proof -
  have "above (\<lambda>i. k (take n xs ! i)) 0 n"
    unfolding above_def
  proof (intro allI impI)
    fix j
    assume j: "0 < j \<and> j < n \<and> 0 \<le> parent j"
    then have "parent j < n" by auto
    then show "k (take n xs ! j) \<le> k (take n xs ! parent j)" using a j unfolding above_def by simp
  qed
  then have d: "length (drain_heap lt (take n xs) n) = n \<and> mset (drain_heap lt (take n xs) n) = mset (take n xs) \<and>
      sorted (map k (drain_heap lt (take n xs) n))"
    using drain_heap_ok [OF lt, of n "take n xs"] n by simp
  have "drain_heap lt xs n = drain_heap lt (take n xs) n @ drop n xs"
    using drain_heap_append [of n "take n xs" lt "drop n xs"] n by simp
  then show ?thesis using d by simp
qed

end
