(* ===== verification/Heap.thy ===== *)
theory Heap
  imports Prelude
begin

text \<open>
  \<open>Shared/C/include/r4os/heap.h\<close>: the per-instance heap handle and its guards in
  front of the SDK's pooled allocator. The allocator itself
  (\<open>R4SdkHeapAlloc\<close> and its siblings) is a library outside the repository: its
  entry points are the members of \<open>heap_services\<close>, over a state \<open>'w\<close> of their own.
  A block that a pointer leads to is the list of its bytes; null is \<open>None\<close>.
\<close>

subsection \<open>The code\<close>

record r4_heap =
  heap_api :: u64
  heap_instance :: u64

record 'w heap_services =
  hs_bind :: "u64 \<Rightarrow> u64 \<Rightarrow> 'w \<Rightarrow> 'w \<times> i32"
  hs_alloc :: "u64 \<Rightarrow> u64 \<Rightarrow> u64 \<Rightarrow> u64 \<Rightarrow> 'w \<Rightarrow> 'w \<times> bytes option"
  hs_realloc :: "u64 \<Rightarrow> u64 \<Rightarrow> bytes option \<Rightarrow> u64 \<Rightarrow> u64 \<Rightarrow> 'w \<Rightarrow> 'w \<times> bytes option"
  hs_free :: "u64 \<Rightarrow> u64 \<Rightarrow> bytes \<Rightarrow> 'w \<Rightarrow> 'w \<times> i32"
  hs_stats :: "u64 \<Rightarrow> u64 \<Rightarrow> u32 \<Rightarrow> 'w \<Rightarrow> 'w \<times> u64 list \<times> i32"
  hs_stat_name :: "u32 \<Rightarrow> bytes option"
  hs_finish :: "u64 \<Rightarrow> u64 \<Rightarrow> 'w \<Rightarrow> 'w \<times> i32"

record heap_stats =
  st_values :: "u64 list"
  st_count :: u32

text \<open>What \<open>r4_heap_init\<close> reads of \<open>R4Sys\<close>: the table's address and the context's instance.\<close>

record heap_sys =
  hsys_table :: u64
  hsys_instance :: "u64 option"

definition max_align :: u64 where
  "max_align = 16"

definition r4_heap_init ::
  "'w heap_services \<Rightarrow> heap_sys option \<Rightarrow> r4_heap option \<Rightarrow> 'w \<Rightarrow> 'w \<times> i32 \<times> r4_heap option" where
  "r4_heap_init E sys dst w =
     (case dst of
        None \<Rightarrow> (w, - 1, None)
      | Some _ \<Rightarrow>
          let zero = \<lparr>heap_api = 0, heap_instance = 0\<rparr> in
          (case sys of
             None \<Rightarrow> (w, - 1, Some zero)
           | Some s \<Rightarrow>
               if hsys_table s = 0 then (w, - 1, Some zero)
               else (case hsys_instance s of
                       None \<Rightarrow> (w, - 1, Some zero)
                     | Some inst \<Rightarrow>
                         let (w, rc) = hs_bind E (hsys_table s) inst w in
                         if rc \<noteq> 0 then (w, rc, Some zero)
                         else (w, 0, Some \<lparr>heap_api = hsys_table s, heap_instance = inst\<rparr>))))"

definition r4_heap_alloc ::
  "'w heap_services \<Rightarrow> r4_heap option \<Rightarrow> u64 \<Rightarrow> u64 \<Rightarrow> 'w \<Rightarrow> 'w \<times> bytes option" where
  "r4_heap_alloc E heap sz alignment w =
     (case heap of
        None \<Rightarrow> (w, None)
      | Some h \<Rightarrow> if heap_api h = 0 then (w, None) else hs_alloc E (heap_api h) (heap_instance h) sz alignment w)"

definition r4_heap_malloc :: "'w heap_services \<Rightarrow> r4_heap option \<Rightarrow> u64 \<Rightarrow> 'w \<Rightarrow> 'w \<times> bytes option" where
  "r4_heap_malloc E heap sz w = r4_heap_alloc E heap sz max_align w"

text \<open>The clearing loop; a store past the block is \<open>None\<close>.\<close>

fun zero_loop :: "bytes \<Rightarrow> nat \<Rightarrow> nat \<Rightarrow> bytes option" where
  "zero_loop p i 0 = Some p"
| "zero_loop p i (Suc n) = (if i < length p then zero_loop (p[i := 0]) (i + 1) n else None)"

definition r4_heap_calloc ::
  "'w heap_services \<Rightarrow> r4_heap option \<Rightarrow> u64 \<Rightarrow> u64 \<Rightarrow> 'w \<Rightarrow> ('w \<times> bytes option) option" where
  "r4_heap_calloc E heap count sz w =
     (if count \<noteq> 0 \<and> sz > UINT64_MAX div count then Some (w, None)
      else
        let bytes = count * sz; (w, p) = r4_heap_malloc E heap bytes w in
        (case p of
           None \<Rightarrow> Some (w, None)
         | Some block \<Rightarrow> map_option (\<lambda>b. (w, Some b)) (zero_loop block 0 (unat bytes))))"

definition r4_heap_realloc ::
  "'w heap_services \<Rightarrow> r4_heap option \<Rightarrow> bytes option \<Rightarrow> u64 \<Rightarrow> u64 \<Rightarrow> 'w \<Rightarrow> 'w \<times> bytes option" where
  "r4_heap_realloc E heap p sz alignment w =
     (case heap of
        None \<Rightarrow> (w, None)
      | Some h \<Rightarrow> if heap_api h = 0 then (w, None)
                   else hs_realloc E (heap_api h) (heap_instance h) p sz alignment w)"

definition r4_heap_free :: "'w heap_services \<Rightarrow> r4_heap option \<Rightarrow> bytes option \<Rightarrow> 'w \<Rightarrow> 'w \<times> i32" where
  "r4_heap_free E heap p w =
     (case p of
        None \<Rightarrow> (w, 0)
      | Some block \<Rightarrow>
          (case heap of
             None \<Rightarrow> (w, - 1)
           | Some h \<Rightarrow> if heap_api h = 0 then (w, - 1) else hs_free E (heap_api h) (heap_instance h) block w))"

definition r4_heap_stats ::
  "'w heap_services \<Rightarrow> r4_heap option \<Rightarrow> heap_stats option \<Rightarrow> 'w \<Rightarrow> 'w \<times> i32 \<times> heap_stats option" where
  "r4_heap_stats E heap dst w =
     (case (dst, heap) of
        (Some _, Some h) \<Rightarrow>
          if heap_api h = 0 then (w, - 1, dst)
          else
            let (w, values, count) = hs_stats E (heap_api h) (heap_instance h) 64 w;
                values = take 64 (values @ replicate 64 0) in
            if negative count then (w, count, Some \<lparr>st_values = values, st_count = 0\<rparr>)
            else (w, 0, Some \<lparr>st_values = values, st_count = count\<rparr>)
      | _ \<Rightarrow> (w, - 1, dst))"

text \<open>The name comparison: \<open>n\<close> runs over equal bytes up to the field's terminator.\<close>

function name_match :: "bytes \<Rightarrow> bytes \<Rightarrow> nat \<Rightarrow> nat" where
  "name_match field name n =
     (if n < length field \<and> cbyte field n \<noteq> 0 \<and> cbyte field n = cbyte name n then name_match field name (n + 1) else n)"
  by pat_completeness auto
termination
  by (relation "measure (\<lambda>(field, name, n). length field - n)") auto

declare name_match.simps [simp del]

function stat_loop :: "'w heap_services \<Rightarrow> heap_stats \<Rightarrow> bytes \<Rightarrow> nat \<Rightarrow> u64 option option" where
  "stat_loop E stats name i =
     (if i < unat (st_count stats) then
        (case hs_stat_name E (word_of_nat i) of
           None \<Rightarrow> Some None
         | Some field \<Rightarrow>
             let n = name_match field name 0 in
             if cbyte field n = 0 \<and> cbyte name n = 0 then
               (if i < length (st_values stats) then Some (Some (st_values stats ! i)) else None)
             else stat_loop E stats name (i + 1))
      else Some None)"
  by pat_completeness auto
termination
  by (relation "measure (\<lambda>(E, stats, name, i). unat (st_count stats) - i)") auto

declare stat_loop.simps [simp del]

text \<open>The result is the return value and what is behind \<open>out\<close>.\<close>

definition r4_heap_stat ::
  "'w heap_services \<Rightarrow> heap_stats option \<Rightarrow> bytes option \<Rightarrow> u64 option \<Rightarrow> (bool \<times> u64 option) option" where
  "r4_heap_stat E stats name dst =
     (case (stats, name, dst) of
        (Some stats, Some name, Some old) \<Rightarrow>
          (case stat_loop E stats name 0 of
             None \<Rightarrow> None
           | Some None \<Rightarrow> Some (False, Some old)
           | Some (Some v) \<Rightarrow> Some (True, Some v))
      | _ \<Rightarrow> Some (False, dst))"

definition r4_heap_finish :: "'w heap_services \<Rightarrow> r4_heap option \<Rightarrow> 'w \<Rightarrow> 'w \<times> i32" where
  "r4_heap_finish E heap w =
     (case heap of
        None \<Rightarrow> (w, - 1)
      | Some h \<Rightarrow> if heap_api h = 0 then (w, - 1) else hs_finish E (heap_api h) (heap_instance h) w)"

subsection \<open>Sizes that do not wrap\<close>

lemma mult_fits:
  fixes count sz :: "'a::len word"
  assumes "\<not> (count \<noteq> 0 \<and> sz > - 1 div count)"
  shows "unat (count * sz) = unat count * unat sz"
proof (cases "count = 0")
  case False
  then have "unat sz \<le> (2 ^ LENGTH('a) - 1) div unat count"
    using assms by (simp add: word_less_nat_alt unat_div unsigned_minus_1_eq_mask mask_eq_exp_minus_1 not_less)
  then have "unat count * unat sz \<le> 2 ^ LENGTH('a) - 1"
    by (metis False div_le_mono le_trans mult.commute mult_le_mono2 times_div_less_eq_dividend unat_eq_0)
  moreover have "(0::nat) < 2 ^ LENGTH('a)" by simp
  ultimately have "unat count * unat sz < 2 ^ LENGTH('a)" by linarith
  then show ?thesis by (simp add: unat_word_ariths)
qed simp

lemma zero_loop_ok:
  assumes "i + n \<le> length p"
  shows "zero_loop p i n = Some (take i p @ replicate n 0 @ drop (i + n) p)"
  using assms
proof (induction p i n rule: zero_loop.induct)
  case (1 p i)
  then show ?case by simp
next
  case (2 p i n)
  then have "i < length p" by simp
  moreover from this have "take (i + 1) (p[i := 0]) = take i p @ [0]" by (simp add: take_Suc_conv_app_nth)
  ultimately show ?case using 2 by simp
qed

text \<open>Documented behaviour of the allocator: a block has exactly the requested size.\<close>

definition alloc_exact :: "'w heap_services \<Rightarrow> bool" where
  "alloc_exact E \<longleftrightarrow> (\<forall>api inst sz al w w' b. hs_alloc E api inst sz al w = (w', Some b) \<longrightarrow> length b = unat sz)"

lemma name_match_inv:
  assumes "cstring f" and "n \<le> length f" and "n \<le> length g" and "take n f = take n g"
  shows "let m = name_match f g n in m \<le> length f \<and> m \<le> length g \<and> take m f = take m g \<and>
    \<not> (cbyte f m \<noteq> 0 \<and> cbyte f m = cbyte g m)"
  using assms
proof (induction f g n rule: name_match.induct)
  case (1 f g n)
  show ?case
  proof (cases "n < length f \<and> cbyte f n \<noteq> 0 \<and> cbyte f n = cbyte g n")
    case True
    then have n: "n < length f" "n < length g" "f ! n = g ! n" by (auto simp: cbyte_def split: if_splits)
    then have "take (n + 1) f = take (n + 1) g" using "1.prems"(4) by (simp add: take_Suc_conv_app_nth)
    then have "let m = name_match f g (n + 1) in m \<le> length f \<and> m \<le> length g \<and> take m f = take m g \<and>
        \<not> (cbyte f m \<noteq> 0 \<and> cbyte f m = cbyte g m)"
      using n "1.prems" by (intro "1.IH" [OF True]) simp_all
    moreover have "cbyte g n \<noteq> 0" using True by metis
    ultimately show ?thesis using True by (simp add: name_match.simps [of f g n])
  next
    case False
    then show ?thesis using 1 by (auto simp: name_match.simps [of f g n] cbyte_def)
  qed
qed

lemma name_match_eq:
  assumes "cstring f" and "cstring g"
  shows "cbyte f (name_match f g 0) = 0 \<and> cbyte g (name_match f g 0) = 0 \<longleftrightarrow> f = g"
proof -
  let ?m = "name_match f g 0"
  have m: "?m \<le> length f" "?m \<le> length g" "take ?m f = take ?m g" "\<not> (cbyte f ?m \<noteq> 0 \<and> cbyte f ?m = cbyte g ?m)"
    using name_match_inv [OF assms(1), of 0 g] by (simp_all add: Let_def)
  show ?thesis
  proof
    assume "cbyte f ?m = 0 \<and> cbyte g ?m = 0"
    then have "length f = ?m" "length g = ?m" using m cbyte_0_iff assms by auto
    then show "f = g" using m(3) by simp
  qed (use m in auto)
qed

definition stat_named :: "'w heap_services \<Rightarrow> nat \<Rightarrow> bytes \<Rightarrow> nat \<Rightarrow> bool" where
  "stat_named E n name i \<longleftrightarrow> i < n \<and> hs_stat_name E (word_of_nat i) = Some name \<and>
     (\<forall>j < i. hs_stat_name E (word_of_nat j) \<notin> {None, Some name})"

lemma stat_loop_ok:
  assumes "cstring name" and "\<forall>i f. hs_stat_name E i = Some f \<longrightarrow> cstring f"
    and "unat (st_count stats) \<le> length (st_values stats)"
    and "\<forall>j < i. hs_stat_name E (word_of_nat j) \<notin> {None, Some name}"
  shows "\<exists>r. stat_loop E stats name i = Some r \<and>
    (\<forall>v. r = Some v \<longleftrightarrow> (\<exists>n. stat_named E (unat (st_count stats)) name n \<and> v = st_values stats ! n))"
  using assms
proof (induction E stats name i rule: stat_loop.induct)
  case (1 E stats name i)
  let ?c = "unat (st_count stats)"
  note eq = stat_loop.simps [of E stats name i]
  consider (stop) "\<not> i < ?c" | (null) "i < ?c" "hs_stat_name E (word_of_nat i) = None"
    | (found) "i < ?c" "hs_stat_name E (word_of_nat i) = Some name"
    | (skip) f where "i < ?c" "hs_stat_name E (word_of_nat i) = Some f" "f \<noteq> name" by fastforce
  then show ?case
  proof cases
    case stop
    then have "\<not> stat_named E ?c name n" for n using "1.prems"(4) by (auto simp: stat_named_def)
    then show ?thesis using stop eq by auto
  next
    case null
    then have "\<not> stat_named E ?c name n" for n
      using "1.prems"(4) by (auto simp: stat_named_def) (metis linorder_neqE_nat option.distinct(1))
    then show ?thesis using null eq by auto
  next
    case found
    then have "stat_named E ?c name n \<longleftrightarrow> n = i" for n
      using "1.prems"(4) by (auto simp: stat_named_def) (metis linorder_neqE_nat)
    moreover have "stat_loop E stats name i = Some (Some (st_values stats ! i))"
      using found name_match_eq [of name name] "1.prems" eq by (simp add: Let_def)
    ultimately show ?thesis by auto
  next
    case skip
    have "cstring f" using skip "1.prems"(2) by blast
    then have ne: "\<not> (cbyte f (name_match f name 0) = 0 \<and> cbyte name (name_match f name 0) = 0)"
      using name_match_eq [of f name] "1.prems"(1) skip(3) by blast
    have "\<forall>j < i + 1. hs_stat_name E (word_of_nat j) \<notin> {None, Some name}"
      using "1.prems"(4) skip by (auto simp: less_Suc_eq)
    from "1.IH" [OF skip(1,2) refl ne "1.prems"(1-3) this] show ?thesis
      using skip eq ne by (simp add: Let_def del: insert_iff)
  qed
qed

text \<open>
  \<open>r4_heap_stat\<close> reports the statistic of that name. It succeeds exactly when
  the provider lists the name before any missing entry and below the number of
  values read, it then stores the value of the first such entry, and it leaves
  the output alone otherwise; it never reads past the 64 values.
\<close>

theorem r4_heap_stat_finds:
  assumes "cstring name" and "\<forall>i f. hs_stat_name E i = Some f \<longrightarrow> cstring f"
    and "unat (st_count stats) \<le> length (st_values stats)"
  shows "\<exists>ok v. r4_heap_stat E (Some stats) (Some name) (Some old) = Some (ok, Some v) \<and>
    (ok \<longleftrightarrow> (\<exists>n. stat_named E (unat (st_count stats)) name n)) \<and>
    (\<forall>n. stat_named E (unat (st_count stats)) name n \<longrightarrow> v = st_values stats ! n) \<and> (\<not> ok \<longrightarrow> v = old)"
proof -
  from stat_loop_ok [OF assms, of 0] obtain r where r: "stat_loop E stats name 0 = Some r"
    "\<forall>v. r = Some v \<longleftrightarrow> (\<exists>n. stat_named E (unat (st_count stats)) name n \<and> v = st_values stats ! n)" by auto
  show ?thesis
  proof (cases r)
    case None
    then show ?thesis using r by (auto simp: r4_heap_stat_def)
  next
    case (Some v)
    then have "\<exists>n. stat_named E (unat (st_count stats)) name n" using r(2) by blast
    moreover have "v = st_values stats ! n" if "stat_named E (unat (st_count stats)) name n" for n
      using r(2) that Some by (metis option.inject)
    ultimately have "\<exists>n. stat_named E (unat (st_count stats)) name n"
      "\<forall>n. stat_named E (unat (st_count stats)) name n \<longrightarrow> v = st_values stats ! n" by blast+
    then show ?thesis using r(1) Some by (auto simp: r4_heap_stat_def)
  qed
qed

text \<open>
  \<open>r4_heap_calloc\<close> never hands out a block that is too small. Whatever count and
  sz it is asked for, it returns null or a block of exactly their
  mathematical product, all zero, and its clearing loop stays inside the block;
  a product beyond 64 bits is refused before the allocator is called.
\<close>

theorem r4_heap_calloc_exact:
  assumes "alloc_exact E"
  shows "\<exists>w' p. r4_heap_calloc E heap count sz w = Some (w', p) \<and>
    (case p of None \<Rightarrow> True | Some b \<Rightarrow> b = replicate (unat count * unat sz) 0) \<and>
    (2 ^ 64 \<le> unat count * unat sz \<longrightarrow> w' = w \<and> p = None)"
proof (cases "count \<noteq> 0 \<and> sz > UINT64_MAX div count")
  case True
  then show ?thesis by (simp add: r4_heap_calloc_def)
next
  case False
  then have n: "unat (count * sz) = unat count * unat sz" by (rule mult_fits)
  then have lt: "unat count * unat sz < 2 ^ 64" using unat_bound [of "count * sz"] by simp
  obtain w' p where m: "r4_heap_malloc E heap (count * sz) w = (w', p)" by fastforce
  show ?thesis
  proof (cases p)
    case None
    then show ?thesis using False m lt by (auto simp: r4_heap_calloc_def)
  next
    case (Some b)
    then have "length b = unat (count * sz)"
      using m assms by (auto simp: r4_heap_malloc_def r4_heap_alloc_def alloc_exact_def split: option.splits if_splits)
    then have "zero_loop b 0 (unat (count * sz)) = Some (replicate (unat count * unat sz) 0)"
      using zero_loop_ok [of 0 "unat (count * sz)" b] n by simp
    then show ?thesis using False m Some lt by (auto simp: r4_heap_calloc_def)
  qed
qed

definition sample_heap :: "nat heap_services" where
  "sample_heap = \<lparr>hs_bind = (\<lambda>_ _ w. (w, 0)), hs_alloc = (\<lambda>_ _ n _ w. (w + 1, Some (replicate (unat n) 7))),
     hs_realloc = (\<lambda>_ _ p n _ w. (w + 1, Some (take (unat n) ((case p of None \<Rightarrow> [] | Some b \<Rightarrow> b) @ replicate (unat n) 7)))),
     hs_free = (\<lambda>_ _ _ w. (w, 0)), hs_stats = (\<lambda>_ _ _ w. (w, [], 0)), hs_stat_name = (\<lambda>_. None),
     hs_finish = (\<lambda>_ _ w. (w, 0))\<rparr>"

theorem r4_heap_calloc_exact_witness:
  "\<exists>w' p. r4_heap_calloc sample_heap (Some \<lparr>heap_api = 8, heap_instance = 1\<rparr>) 3 4 0 = Some (w', p) \<and>
     (case p of None \<Rightarrow> True | Some b \<Rightarrow> b = replicate 12 0)"
proof -
  have "alloc_exact sample_heap" by (auto simp: alloc_exact_def sample_heap_def)
  from r4_heap_calloc_exact [OF this, of "Some \<lparr>heap_api = 8, heap_instance = 1\<rparr>" 3 4 0]
  obtain w' p where "r4_heap_calloc sample_heap (Some \<lparr>heap_api = 8, heap_instance = 1\<rparr>) 3 4 0 = Some (w', p)"
    "case p of None \<Rightarrow> True | Some b \<Rightarrow> b = replicate (unat (3 :: u64) * unat (4 :: u64)) 0" by blast
  moreover have "unat (3 :: u64) * unat (4 :: u64) = 12" by simp
  ultimately show ?thesis by metis
qed

theorem r4_heap_stat_finds_witness:
  "\<exists>v. r4_heap_stat (sample_heap\<lparr>hs_stat_name := (\<lambda>i. if i = 0 then Some [97] else if i = 1 then Some [98] else None)\<rparr>)
     (Some \<lparr>st_values = [5, 6], st_count = 2\<rparr>) (Some [98]) (Some 0) = Some (True, Some v) \<and> v = 6"
proof -
  let ?E = "sample_heap\<lparr>hs_stat_name := (\<lambda>i. if i = 0 then Some [97] else if i = 1 then Some [98] else None)\<rparr>"
  have "cstring [98]" "\<forall>i f. hs_stat_name ?E i = Some f \<longrightarrow> cstring f"
    "unat (st_count \<lparr>st_values = [5, 6], st_count = 2\<rparr>) \<le> length (st_values \<lparr>st_values = [5, 6], st_count = 2\<rparr>)"
    by (auto simp: cstring_def)
  note r4_heap_stat_finds [OF this, of 0]
  moreover have "stat_named ?E 2 [98] 1" by (simp add: stat_named_def)
  ultimately show ?thesis by auto
qed

end
