(* ===== verification/Snapshot.thy ===== *)
theory Snapshot
  imports RecordBuffer HeapOrder Heap
begin

text \<open>
  \<open>R4DirectorySnapshot\<close> of \<open>Shared/C/include/r4os/directory_page.h\<close>: a growing
  buffer of records on the SDK heap, with its in-place heapsort and its close.
  The records are moved byte by byte, as in the source; \<open>RecordBuffer\<close> reads the
  buffer as a list and \<open>HeapOrder\<close> carries the order.
\<close>

subsection \<open>The code\<close>

record snapshot =
  sn_heap :: r4_heap
  sn_entries :: "bytes option"
  sn_count :: nat
  sn_capacity :: nat
  sn_limit :: nat
  sn_item_size :: nat
  sn_alignment :: nat

definition r4_snapshot_init ::
  "snapshot option \<Rightarrow> r4_heap option \<Rightarrow> nat \<Rightarrow> nat \<Rightarrow> u64 \<Rightarrow> bool \<times> snapshot option" where
  "r4_snapshot_init s heap max_bytes item_size alignment =
     (case (s, heap) of
        (Some _, Some h) \<Rightarrow>
          if item_size = 0 \<or> alignment = 0 \<or> alignment AND (alignment - 1) \<noteq> 0 then (False, s)
          else (True, Some \<lparr>sn_heap = h, sn_entries = None, sn_count = 0, sn_capacity = 0,
                  sn_limit = max_bytes div item_size, sn_item_size = item_size, sn_alignment = unat alignment\<rparr>)
      | _ \<Rightarrow> (False, s))"

definition append_wanted :: "nat \<Rightarrow> nat \<Rightarrow> nat" where
  "append_wanted capacity limit =
     (let wanted = (if capacity > limit div 2 then limit else capacity * 2)
      in if wanted < 64 then (if limit < 64 then limit else 64) else wanted)"

definition append_grow :: "'w heap_services \<Rightarrow> snapshot \<Rightarrow> 'w \<Rightarrow> 'w \<times> snapshot option" where
  "append_grow E s w =
     (let wanted = append_wanted (sn_capacity s) (sn_limit s);
          (w, p) = r4_heap_realloc E (Some (sn_heap s)) (sn_entries s)
                     (word_of_nat (wanted * sn_item_size s)) (word_of_nat (sn_alignment s)) w
      in (w, case p of None \<Rightarrow> None | Some b \<Rightarrow> Some (s\<lparr>sn_entries := Some b, sn_capacity := wanted\<rparr>)))"

definition r4_snapshot_append ::
  "'w heap_services \<Rightarrow> snapshot option \<Rightarrow> bytes option \<Rightarrow> 'w \<Rightarrow> ('w \<times> bool \<times> snapshot option) option" where
  "r4_snapshot_append E s v w =
     (case (s, v) of
        (Some sn, Some v) \<Rightarrow>
          if sn_count sn = sn_limit sn then Some (w, False, s)
          else
            (case (if sn_count sn = sn_capacity sn then append_grow E sn w else (w, Some sn)) of
               (w, None) \<Rightarrow> Some (w, False, s)
             | (w, Some sn) \<Rightarrow>
                 (case sn_entries sn of
                    None \<Rightarrow> None
                  | Some b \<Rightarrow>
                      map_option (\<lambda>b. (w, True, Some (sn\<lparr>sn_entries := Some b, sn_count := sn_count sn + 1\<rparr>)))
                        (rec_put (sn_item_size sn) b (sn_count sn) v)))
      | _ \<Rightarrow> Some (w, False, s))"

text \<open>\<open>r4_snapshot_swap\<close> on the buffer: byte \<open>i\<close> of record \<open>a\<close> against byte \<open>i\<close> of record \<open>b\<close>.\<close>

function swap_loop :: "nat \<Rightarrow> nat \<Rightarrow> nat \<Rightarrow> nat \<Rightarrow> bytes \<Rightarrow> bytes option" where
  "swap_loop sz a b i buf =
     (if i < sz then
        if a * sz + i < length buf \<and> b * sz + i < length buf then
          let t = buf ! (a * sz + i);
              buf = buf[a * sz + i := buf ! (b * sz + i)];
              buf = buf[b * sz + i := t]
          in swap_loop sz a b (i + 1) buf
        else None
      else Some buf)"
  by pat_completeness auto
termination
  by (relation "measure (\<lambda>(sz, a, b, i, buf). sz - i)") auto

declare swap_loop.simps [simp del]

definition r4_snapshot_swap :: "nat \<Rightarrow> bytes \<Rightarrow> nat \<Rightarrow> nat \<Rightarrow> bytes option" where
  "r4_snapshot_swap sz buf a b = swap_loop sz a b 0 buf"

function r4_snapshot_sift ::
  "(bytes \<Rightarrow> bytes \<Rightarrow> bool) \<Rightarrow> nat \<Rightarrow> bytes \<Rightarrow> nat \<Rightarrow> nat \<Rightarrow> bytes option" where
  "r4_snapshot_sift lt sz buf root e =
     (if root < e div 2 then
        let child = root * 2 + 1 in
        case (if child + 1 < e then
                (case (rec_at sz buf child, rec_at sz buf (child + 1)) of
                   (Some x, Some y) \<Rightarrow> Some (if lt x y then child + 1 else child)
                 | _ \<Rightarrow> None)
              else Some child) of
          None \<Rightarrow> None
        | Some child' \<Rightarrow>
            (case (rec_at sz buf root, rec_at sz buf child') of
               (Some x, Some y) \<Rightarrow>
                 if \<not> lt x y then Some buf
                 else (case r4_snapshot_swap sz buf root child' of
                         None \<Rightarrow> None
                       | Some buf \<Rightarrow> r4_snapshot_sift lt sz buf child' e)
             | _ \<Rightarrow> None)
      else Some buf)"
  by pat_completeness auto
termination
  by (relation "measure (\<lambda>(lt, sz, buf, root, e). e - root)") (auto split: if_splits option.splits)

declare r4_snapshot_sift.simps [simp del]

fun sort_build :: "(bytes \<Rightarrow> bytes \<Rightarrow> bool) \<Rightarrow> nat \<Rightarrow> nat \<Rightarrow> bytes \<Rightarrow> nat \<Rightarrow> bytes option" where
  "sort_build lt sz cnt buf 0 = Some buf"
| "sort_build lt sz cnt buf (Suc n) =
     (case r4_snapshot_sift lt sz buf n cnt of None \<Rightarrow> None | Some buf \<Rightarrow> sort_build lt sz cnt buf n)"

fun sort_drain :: "(bytes \<Rightarrow> bytes \<Rightarrow> bool) \<Rightarrow> nat \<Rightarrow> bytes \<Rightarrow> nat \<Rightarrow> bytes option" where
  "sort_drain lt sz buf 0 = Some buf"
| "sort_drain lt sz buf (Suc 0) = Some buf"
| "sort_drain lt sz buf (Suc (Suc n)) =
     (case r4_snapshot_swap sz buf 0 (Suc n) of
        None \<Rightarrow> None
      | Some buf \<Rightarrow>
          (case r4_snapshot_sift lt sz buf 0 (Suc n) of None \<Rightarrow> None | Some buf \<Rightarrow> sort_drain lt sz buf (Suc n)))"

definition r4_snapshot_sort ::
  "snapshot option \<Rightarrow> (bytes \<Rightarrow> bytes \<Rightarrow> bool) option \<Rightarrow> snapshot option option" where
  "r4_snapshot_sort s lt =
     (case (s, lt) of
        (Some sn, Some lt) \<Rightarrow>
          if sn_count sn < 2 then Some s
          else (case sn_entries sn of
                  None \<Rightarrow> None
                | Some buf \<Rightarrow>
                    (case sort_build lt (sn_item_size sn) (sn_count sn) buf (sn_count sn div 2) of
                       None \<Rightarrow> None
                     | Some buf \<Rightarrow>
                         map_option (\<lambda>buf. Some (sn\<lparr>sn_entries := Some buf\<rparr>))
                           (sort_drain lt (sn_item_size sn) buf (sn_count sn))))
      | _ \<Rightarrow> Some s)"

definition r4_snapshot_close :: "'w heap_services \<Rightarrow> snapshot option \<Rightarrow> 'w \<Rightarrow> 'w \<times> i32 \<times> snapshot option" where
  "r4_snapshot_close E s w =
     (case s of
        None \<Rightarrow> (w, - 1, None)
      | Some sn \<Rightarrow>
          let (w, rc) = r4_heap_free E (Some (sn_heap sn)) (sn_entries sn) w in
          if rc = 0 then (w, rc, Some (sn\<lparr>sn_entries := None, sn_count := 0, sn_capacity := 0\<rparr>))
          else (w, rc, Some sn))"

subsection \<open>The byte loop swaps records\<close>

lemma swap_loop_ok:
  assumes "i \<le> sz" and "(a + 1) * sz \<le> length buf" and "(b + 1) * sz \<le> length buf" and "a \<noteq> b"
  shows "\<exists>buf'. swap_loop sz a b i buf = Some buf' \<and> length buf' = length buf \<and>
    (\<forall>p < length buf. buf' ! p =
       (if a * sz + i \<le> p \<and> p < (a + 1) * sz then buf ! (b * sz + (p - a * sz))
        else if b * sz + i \<le> p \<and> p < (b + 1) * sz then buf ! (a * sz + (p - b * sz)) else buf ! p))"
  using assms
proof (induction sz a b i buf rule: swap_loop.induct)
  case (1 sz a b i buf)
  show ?case
  proof (cases "i < sz")
    case False
    then have "swap_loop sz a b i buf = Some buf" by (simp add: swap_loop.simps [of sz a b i])
    then show ?thesis using False "1.prems"(1) by (intro exI [of _ buf]) (auto simp: algebra_simps)
  next
    case True
    let ?A = "a * sz + i" and ?B = "b * sz + i"
    have bd: "?A < length buf" "?B < length buf" using True "1.prems" by auto
    let ?b1 = "buf[?A := buf ! ?B]"
    let ?b2 = "?b1[?B := buf ! ?A]"
    have dis: "(a < b \<and> a * sz + sz \<le> b * sz) \<or> (b < a \<and> b * sz + sz \<le> a * sz)"
    proof (cases "a < b")
      case True
      then have "(a + 1) * sz \<le> b * sz" by (intro mult_le_mono1) simp
      then show ?thesis using True by simp
    next
      case False
      then have "b < a" using "1.prems"(4) by simp
      then have "(b + 1) * sz \<le> a * sz" by (intro mult_le_mono1) simp
      then show ?thesis using \<open>b < a\<close> by simp
    qed
    have nth2: "?b2 ! p = (if p = ?A then buf ! ?B else if p = ?B then buf ! ?A else buf ! p)" if "p < length buf" for p
      using that bd dis True by (auto simp: nth_list_update)
    from "1.IH" [OF True conjI [OF bd] refl refl refl] True "1.prems" obtain buf' where
      r: "swap_loop sz a b (i + 1) ?b2 = Some buf'" "length buf' = length buf"
      "\<forall>p < length buf. buf' ! p =
       (if a * sz + (i + 1) \<le> p \<and> p < (a + 1) * sz then ?b2 ! (b * sz + (p - a * sz))
        else if b * sz + (i + 1) \<le> p \<and> p < (b + 1) * sz then ?b2 ! (a * sz + (p - b * sz)) else ?b2 ! p)"
      by auto
    have "swap_loop sz a b i buf = Some buf'"
      using True bd r(1) by (simp add: swap_loop.simps [of sz a b i] Let_def)
    moreover have "buf' ! p =
       (if a * sz + i \<le> p \<and> p < (a + 1) * sz then buf ! (b * sz + (p - a * sz))
        else if b * sz + i \<le> p \<and> p < (b + 1) * sz then buf ! (a * sz + (p - b * sz)) else buf ! p)"
      if p: "p < length buf" for p
    proof -
      consider (a) "a * sz + i \<le> p" "p < (a + 1) * sz" | (b) "b * sz + i \<le> p" "p < (b + 1) * sz"
        | (o) "\<not> (a * sz + i \<le> p \<and> p < (a + 1) * sz)" "\<not> (b * sz + i \<le> p \<and> p < (b + 1) * sz)" by blast
      then show ?thesis
      proof cases
        case a
        then have q: "b * sz + (p - a * sz) < length buf" using "1.prems"(3) by simp
        show ?thesis
        proof (cases "p = ?A")
          case True
          then show ?thesis using a p r(3) nth2 [OF p] dis by auto
        next
          case False
          then show ?thesis using a p r(3) nth2 [OF q] dis by auto
        qed
      next
        case b
        then have q: "a * sz + (p - b * sz) < length buf" using "1.prems"(2) by simp
        show ?thesis
        proof (cases "p = ?B")
          case True
          have "\<not> (a * sz + (i + 1) \<le> p \<and> p < (a + 1) * sz)" "\<not> (b * sz + (i + 1) \<le> p \<and> p < (b + 1) * sz)"
            using True dis \<open>i < sz\<close> by auto
          then have "buf' ! p = ?b2 ! p" using r(3) p by presburger
          moreover have "?b2 ! p = buf ! ?A" unfolding nth2 [OF p] using True dis \<open>i < sz\<close> by auto
          moreover have "\<not> (a * sz + i \<le> p \<and> p < (a + 1) * sz)" using True dis \<open>i < sz\<close> by auto
          ultimately show ?thesis using True b by auto
        next
          case False
          then show ?thesis using b p r(3) nth2 [OF q] dis by auto
        qed
      next
        case o
        then show ?thesis using p r(3) nth2 [OF p] True by auto
      qed
    qed
    ultimately show ?thesis using r(2) by blast
  qed
qed

lemma snapshot_swap_ok:
  assumes w: "whole_records sz buf" and a: "a < length (recs sz buf)" and b: "b < length (recs sz buf)" and "a \<noteq> b"
  shows "\<exists>buf'. r4_snapshot_swap sz buf a b = Some buf' \<and> whole_records sz buf' \<and> length buf' = length buf \<and>
    recs sz buf' = swap_at (recs sz buf) a b"
proof -
  have le: "(a + 1) * sz \<le> length buf" "(b + 1) * sz \<le> length buf"
    using whole_records_le [OF w] a b by simp_all
  from swap_loop_ok [OF le0 le assms(4)] obtain buf' where s: "swap_loop sz a b 0 buf = Some buf'"
    "length buf' = length buf" "\<forall>p < length buf. buf' ! p =
       (if a * sz \<le> p \<and> p < (a + 1) * sz then buf ! (b * sz + (p - a * sz))
        else if b * sz \<le> p \<and> p < (b + 1) * sz then buf ! (a * sz + (p - b * sz)) else buf ! p)" by auto
  have "recs sz buf' = swap_at (recs sz buf) a b"
  proof (rule nth_equalityI)
    show "length (recs sz buf') = length (swap_at (recs sz buf) a b)" using s(2) by simp
    fix i
    assume "i < length (recs sz buf')"
    then have i: "i < length buf div sz" using s(2) by simp
    note il = whole_records_le [OF w i]
    let ?src = "if i = a then b else if i = b then a else i"
    have sl: "(?src + 1) * sz \<le> length buf" using il le by simp
    have "take sz (drop (i * sz) buf') = take sz (drop (?src * sz) buf)"
    proof (rule nth_equalityI)
      show "length (take sz (drop (i * sz) buf')) = length (take sz (drop (?src * sz) buf))"
        using s(2) il sl by simp
      fix j
      assume "j < length (take sz (drop (i * sz) buf'))"
      then have j: "j < sz" by simp
      have p: "i * sz + j < length buf" using j il by simp
      have q: "\<not> (c * sz \<le> i * sz + j \<and> i * sz + j < (c + 1) * sz)" if "i \<noteq> c" for c
      proof
        assume h: "c * sz \<le> i * sz + j \<and> i * sz + j < (c + 1) * sz"
        then have "c = (i * sz + j) div sz" using j by (intro div_nat_eqI [symmetric]) (auto simp: algebra_simps)
        then show False using that j by simp
      qed
      have "buf' ! (i * sz + j) = buf ! (?src * sz + j)"
        using s(3) p q [of a] q [of b] j assms(4) by auto
      then show "take sz (drop (i * sz) buf') ! j = take sz (drop (?src * sz) buf) ! j"
        using j p s(2) sl by simp
    qed
    then show "recs sz buf' ! i = swap_at (recs sz buf) a b ! i"
      using i s(2) a b by (simp add: swap_at_nth)
  qed
  then show ?thesis using s w by (simp add: r4_snapshot_swap_def whole_records_def)
qed

subsection \<open>The sort is the list's heapsort\<close>

lemma get_rec: "whole_records sz buf \<Longrightarrow> i < length (recs sz buf) \<Longrightarrow> rec_at sz buf i = Some (recs sz buf ! i)"
  by (rule byte_records.get_item)

lemma snapshot_sift_ok:
  assumes "whole_records sz buf" and "e \<le> length (recs sz buf)"
  shows "\<exists>buf'. r4_snapshot_sift lt sz buf root e = Some buf' \<and> whole_records sz buf' \<and>
    length buf' = length buf \<and> recs sz buf' = sift lt (recs sz buf) root e"
  using assms
proof (induction lt sz buf root e rule: r4_snapshot_sift.induct)
  case (1 lt sz buf root e)
  let ?R = "recs sz buf"
  show ?case
  proof (cases "root < e div 2")
    case False
    then show ?thesis using 1 by (simp add: r4_snapshot_sift.simps [of lt sz buf root e] sift.simps [of lt ?R root e])
  next
    case True
    let ?c0 = "root * 2 + 1"
    define c where "c = (if ?c0 + 1 < e \<and> lt (?R ! ?c0) (?R ! (?c0 + 1)) then ?c0 + 1 else ?c0)"
    have lens: "root < length ?R" "?c0 < length ?R" "c < length ?R" "root \<noteq> c" "?c0 + 1 < e \<Longrightarrow> ?c0 + 1 < length ?R"
      using True "1.prems"(2) by (auto simp: c_def)
    note g = get_rec [OF "1.prems"(1)]
    have sel: "(if ?c0 + 1 < e then
                (case (rec_at sz buf ?c0, rec_at sz buf (?c0 + 1)) of
                   (Some x, Some y) \<Rightarrow> Some (if lt x y then ?c0 + 1 else ?c0)
                 | _ \<Rightarrow> None)
              else Some ?c0) = Some c"
      using g [OF lens(2)] g [OF lens(5)] by (simp add: c_def)
    have sel': "(if ?c0 + 1 < e then
                (case rec_at sz buf ?c0 of
                   None \<Rightarrow> None
                 | Some x \<Rightarrow> (case rec_at sz buf (?c0 + 1) of
                      None \<Rightarrow> None | Some y \<Rightarrow> Some (if lt x y then ?c0 + 1 else ?c0)))
              else Some ?c0) = Some c"
      using g [OF lens(2)] g [OF lens(5)] by (simp add: c_def)
    have gs: "rec_at sz buf root = Some (?R ! root)" "rec_at sz buf c = Some (?R ! c)"
      using g lens by blast+
    have code: "r4_snapshot_sift lt sz buf root e =
        (if \<not> lt (?R ! root) (?R ! c) then Some buf
         else case r4_snapshot_swap sz buf root c of
                None \<Rightarrow> None | Some buf \<Rightarrow> r4_snapshot_sift lt sz buf c e)"
      unfolding r4_snapshot_sift.simps [of lt sz buf root e] Let_def sel using True gs by simp
    have spec: "sift lt ?R root e = (if \<not> lt (?R ! root) (?R ! c) then ?R else sift lt (swap_at ?R root c) c e)"
      unfolding sift.simps [of lt ?R root e] Let_def c_def [symmetric] using True by (rule if_P)
    show ?thesis
    proof (cases "lt (?R ! root) (?R ! c)")
      case False
      then show ?thesis using code spec "1.prems" by simp
    next
      case less: True
      from snapshot_swap_ok [OF "1.prems"(1) lens(1,3,4)] obtain b where b:
        "r4_snapshot_swap sz buf root c = Some b" "whole_records sz b" "length b = length buf"
        "recs sz b = swap_at ?R root c" by blast
      have "e \<le> length (recs sz b)" using b(3) "1.prems"(2) by simp
      moreover have "\<not> \<not> lt (?R ! root) (?R ! c)" using less by simp
      ultimately have "\<exists>b'. r4_snapshot_sift lt sz b c e = Some b' \<and> whole_records sz b' \<and>
          length b' = length b \<and> recs sz b' = sift lt (recs sz b) c e"
        by (intro "1.IH" [OF True refl sel' refl gs _ b(1,2)])
      then obtain b' where
        "r4_snapshot_sift lt sz b c e = Some b'" "whole_records sz b'" "length b' = length b"
        "recs sz b' = sift lt (recs sz b) c e" by blast
      then show ?thesis using code spec less b by simp
    qed
  qed
qed

lemma sort_build_ok:
  assumes "whole_records sz buf" and "cnt \<le> length (recs sz buf)"
  shows "\<exists>buf'. sort_build lt sz cnt buf n = Some buf' \<and> whole_records sz buf' \<and> length buf' = length buf \<and>
    recs sz buf' = build_heap lt (recs sz buf) n cnt"
  using assms
proof (induction n arbitrary: buf)
  case 0
  then show ?case by simp
next
  case (Suc n)
  from snapshot_sift_ok [OF Suc.prems] obtain b where b: "r4_snapshot_sift lt sz buf n cnt = Some b"
    "whole_records sz b" "length b = length buf" "recs sz b = sift lt (recs sz buf) n cnt" by blast
  have "cnt \<le> length (recs sz b)" using b(3) Suc.prems(2) by simp
  from Suc.IH [OF b(2) this] b show ?case by auto
qed

lemma sort_drain_ok:
  assumes "whole_records sz buf" and "n \<le> length (recs sz buf)"
  shows "\<exists>buf'. sort_drain lt sz buf n = Some buf' \<and> whole_records sz buf' \<and> length buf' = length buf \<and>
    recs sz buf' = drain_heap lt (recs sz buf) n"
  using assms
proof (induction lt sz buf n rule: sort_drain.induct)
  case (3 lt sz buf n)
  from 3(3) have "0 < length (recs sz buf)" "Suc n < length (recs sz buf)" by auto
  from snapshot_swap_ok [OF 3(2) this] obtain b where b: "r4_snapshot_swap sz buf 0 (Suc n) = Some b"
    "whole_records sz b" "length b = length buf" "recs sz b = swap_at (recs sz buf) 0 (Suc n)" by auto
  have "Suc n \<le> length (recs sz b)" using b(3) 3(3) by simp
  from snapshot_sift_ok [OF b(2) this] obtain c where c: "r4_snapshot_sift lt sz b 0 (Suc n) = Some c"
    "whole_records sz c" "length c = length b" "recs sz c = sift lt (recs sz b) 0 (Suc n)" by blast
  have "Suc n \<le> length (recs sz c)" using c(3) b(3) 3(3) by simp
  from 3(1) [OF b(1) c(1,2) this] b c show ?case by auto
qed simp_all

subsection \<open>Properties of the snapshot\<close>

text \<open>The records a snapshot holds, and what keeps them in their buffer.\<close>

definition snapshot_items :: "snapshot \<Rightarrow> bytes list" where
  "snapshot_items s =
     (case sn_entries s of None \<Rightarrow> [] | Some b \<Rightarrow> take (sn_count s) (recs (sn_item_size s) b))"

definition snapshot_ok :: "snapshot \<Rightarrow> bool" where
  "snapshot_ok s \<longleftrightarrow>
     0 < sn_item_size s \<and> sn_count s \<le> sn_capacity s \<and> sn_capacity s \<le> sn_limit s \<and>
     sn_limit s * sn_item_size s < 2 ^ 64 \<and>
     (case sn_entries s of
        None \<Rightarrow> sn_capacity s = 0
      | Some b \<Rightarrow> 0 < sn_capacity s \<and> length b = sn_capacity s * sn_item_size s)"

lemma sort_whole:
  assumes "snapshot_ok s" and "sn_entries s = Some b"
  shows "whole_records (sn_item_size s) b" and "length (recs (sn_item_size s) b) = sn_capacity s"
  using assms by (auto simp: snapshot_ok_def whole_records_def)

lemma snapshot_sort_run:
  assumes ok: "snapshot_ok s" and k: "\<And>a b. lt a b \<longleftrightarrow> k a < (k b :: 'k::linorder)"
  shows "\<exists>s'. r4_snapshot_sort (Some s) (Some lt) = Some (Some s') \<and> snapshot_ok s' \<and>
    sn_count s' = sn_count s \<and> mset (snapshot_items s') = mset (snapshot_items s) \<and>
    sorted (map k (snapshot_items s'))"
proof (cases "sn_count s < 2")
  case True
  have "sorted (map k (snapshot_items s))"
  proof -
    have "length (snapshot_items s) \<le> 1" using True by (auto simp: snapshot_items_def split: option.splits)
    then show ?thesis by (cases "snapshot_items s") auto
  qed
  then show ?thesis using True ok by (simp add: r4_snapshot_sort_def)
next
  case False
  then obtain b where b: "sn_entries s = Some b" using ok by (auto simp: snapshot_ok_def split: option.splits)
  let ?sz = "sn_item_size s" and ?n = "sn_count s"
  let ?R = "recs ?sz b"
  note w = sort_whole [OF ok b]
  have n: "?n \<le> length ?R" using ok w(2) by (simp add: snapshot_ok_def)
  from sort_build_ok [OF w(1) n, of lt "?n div 2"] obtain b1 where b1:
    "sort_build lt ?sz ?n b (?n div 2) = Some b1" "whole_records ?sz b1" "length b1 = length b"
    "recs ?sz b1 = build_heap lt ?R (?n div 2) ?n" by blast
  have n1: "?n \<le> length (recs ?sz b1)" using b1(3) n by simp
  from sort_drain_ok [OF b1(2) n1, of lt] obtain b2 where b2:
    "sort_drain lt ?sz b1 ?n = Some b2" "whole_records ?sz b2" "length b2 = length b1"
    "recs ?sz b2 = drain_heap lt (recs ?sz b1) ?n" by blast
  have run: "r4_snapshot_sort (Some s) (Some lt) = Some (Some (s\<lparr>sn_entries := Some b2\<rparr>))"
    using False b b1(1) b2(1) by (simp add: r4_snapshot_sort_def)
  have "above (\<lambda>i. k (?R ! i)) (?n div 2) ?n" unfolding above_def by auto
  from build_heap_ok [OF k n this] have h: "length (recs ?sz b1) = length ?R"
    "mset (take ?n (recs ?sz b1)) = mset (take ?n ?R)" "above (\<lambda>i. k (recs ?sz b1 ! i)) 0 ?n"
    unfolding b1(4) by blast+
  have d: "mset (take ?n (recs ?sz b2)) = mset (take ?n (recs ?sz b1)) \<and> sorted (map k (take ?n (recs ?sz b2)))"
    unfolding b2(4) using drain_heap_prefix [OF k n1 h(3)] by blast
  have "snapshot_ok (s\<lparr>sn_entries := Some b2\<rparr>)" using ok b b2(3) b1(3) by (simp add: snapshot_ok_def)
  then show ?thesis using run d h(2) b by (auto simp: snapshot_items_def)
qed

text \<open>
  C6: \<open>r4_snapshot_sort\<close> sorts. On a snapshot whose buffer holds its records it
  never touches a byte outside it, ends, keeps the records as a multiset and
  leaves them in the order of the comparator's key; the count and the
  buffer's size stay.
\<close>

theorem r4_snapshot_sort_sorts:
  fixes k :: "bytes \<Rightarrow> 'k::linorder"
  assumes "snapshot_ok s" and "lt = (\<lambda>a b. k a < k b)"
  shows "\<exists>s'. r4_snapshot_sort (Some s) (Some lt) = Some (Some s') \<and> snapshot_ok s' \<and>
    sn_count s' = sn_count s \<and> mset (snapshot_items s') = mset (snapshot_items s) \<and>
    sorted (map k (snapshot_items s'))"
  using snapshot_sort_run [OF assms(1), of lt k] assms(2) by simp

subsection \<open>Appending\<close>

text \<open>
  Documented behaviour of the SDK's reallocation: the new block has the
  requested size and starts with the old one, as far as both reach.
\<close>

definition realloc_keeps :: "'w heap_services \<Rightarrow> bool" where
  "realloc_keeps E \<longleftrightarrow>
     (\<forall>api inst p n al w w' b. hs_realloc E api inst p n al w = (w', Some b) \<longrightarrow>
        length b = unat n \<and>
        (case p of None \<Rightarrow> True
         | Some old \<Rightarrow> take (min (length old) (unat n)) b = take (min (length old) (unat n)) old))"

lemma append_wanted_bounds: "c < l \<Longrightarrow> c < append_wanted c l \<and> append_wanted c l \<le> l"
  by (auto simp: append_wanted_def Let_def)

lemma recs_prefix:
  assumes "0 < sz" and "length old = c * sz" and "n \<le> c" and "take (c * sz) b = old"
  shows "take n (recs sz b) = take n (recs sz old)"
proof (rule nth_equalityI)
  have "c * sz \<le> length b" using assms(2,4) by (metis length_take min.cobounded1)
  then have c: "c \<le> length b div sz" using assms(1) by (simp add: less_eq_div_iff_mult_less_eq)
  then show "length (take n (recs sz b)) = length (take n (recs sz old))" using assms by simp
  fix i
  assume "i < length (take n (recs sz b))"
  then have i: "i < n" "i < c" using assms(3) by auto
  have "(i + 1) * sz \<le> c * sz" using i(2) by (intro mult_le_mono1) simp
  then have "take sz (drop (i * sz) (take (c * sz) b)) = take sz (drop (i * sz) b)"
    by (intro take_drop_take) simp
  then show "take n (recs sz b) ! i = take n (recs sz old) ! i"
    using i c assms by simp
qed

lemma append_grow_ok:
  assumes ok: "snapshot_ok s" and full: "sn_count s = sn_capacity s" "sn_count s < sn_limit s" and E: "realloc_keeps E"
    and g: "append_grow E s w = (w', Some t)"
  shows "snapshot_ok t \<and> sn_count t < sn_capacity t \<and> snapshot_items t = snapshot_items s \<and>
    sn_count t = sn_count s \<and> sn_limit t = sn_limit s \<and> sn_item_size t = sn_item_size s"
proof -
  let ?c = "sn_capacity s" and ?l = "sn_limit s" and ?sz = "sn_item_size s"
  let ?w = "append_wanted ?c ?l"
  have wb: "?c < ?w" "?w \<le> ?l" using append_wanted_bounds [of ?c ?l] full by simp_all
  have sz: "0 < ?sz" "?l * ?sz < 2 ^ 64" using ok by (simp_all add: snapshot_ok_def)
  have "?w * ?sz \<le> ?l * ?sz" using wb(2) by (intro mult_le_mono1)
  then have "?w * ?sz < 2 ^ 64" using sz(2) by (rule le_less_trans)
  then have fits: "unat (word_of_nat (?w * ?sz) :: u64) = ?w * ?sz" by (simp add: unat_of_nat del: of_nat_mult)
  from g obtain b where r: "hs_realloc E (heap_api (sn_heap s)) (heap_instance (sn_heap s)) (sn_entries s)
      (word_of_nat (?w * ?sz)) (word_of_nat (sn_alignment s)) w = (w', Some b)"
    and t: "t = s\<lparr>sn_entries := Some b, sn_capacity := ?w\<rparr>"
    by (auto simp: append_grow_def Let_def r4_heap_realloc_def split: prod.splits option.splits if_splits
        simp del: of_nat_mult)
  have lb: "length b = ?w * ?sz" using E r fits unfolding realloc_keeps_def by metis
  have "snapshot_items t = snapshot_items s"
  proof (cases "sn_entries s")
    case None
    then show ?thesis using ok full unfolding t by (auto simp: snapshot_items_def snapshot_ok_def)
  next
    case (Some old)
    then have lo: "length old = ?c * ?sz" using ok by (simp add: snapshot_ok_def)
    have le: "?c * ?sz \<le> ?w * ?sz" using wb(1) by (intro mult_le_mono1) simp
    let ?n = "word_of_nat (?w * ?sz) :: u64"
    have "take (min (length old) (unat ?n)) b = take (min (length old) (unat ?n)) old"
      using E [unfolded realloc_keeps_def, rule_format, OF r [unfolded Some]] by (simp only: option.case)
    then have "take (?c * ?sz) b = old" unfolding fits lo using le lo by simp
    then show ?thesis using recs_prefix [OF sz(1) lo, of "sn_count s" b] full Some unfolding t
      by (simp add: snapshot_items_def)
  qed
  then show ?thesis using ok wb lb full sz unfolding t by (simp add: snapshot_ok_def)
qed

lemma append_put:
  assumes ok: "snapshot_ok s" and room: "sn_count s < sn_capacity s" and v: "length v = sn_item_size s"
  shows "\<exists>b b'. sn_entries s = Some b \<and> rec_put (sn_item_size s) b (sn_count s) v = Some b' \<and>
    snapshot_ok (s\<lparr>sn_entries := Some b', sn_count := sn_count s + 1\<rparr>) \<and>
    snapshot_items (s\<lparr>sn_entries := Some b', sn_count := sn_count s + 1\<rparr>) = snapshot_items s @ [v]"
proof -
  obtain b where b: "sn_entries s = Some b" using ok room by (auto simp: snapshot_ok_def split: option.splits)
  note w = sort_whole [OF ok b]
  have n: "sn_count s < length (recs (sn_item_size s) b)" using room w(2) by simp
  from byte_records.put_item [OF w(1) v n] obtain b' where b':
    "rec_put (sn_item_size s) b (sn_count s) v = Some b'"
    "recs (sn_item_size s) b' = (recs (sn_item_size s) b)[sn_count s := v]" by blast
  have "take (Suc (sn_count s)) (recs (sn_item_size s) b') = take (sn_count s) (recs (sn_item_size s) b) @ [v]"
    unfolding b'(2) using n by (simp add: take_Suc_conv_app_nth del: length_recs recs_nth)
  then show ?thesis using b b'(1) ok room rec_put_length [OF b'(1)]
    by (simp add: snapshot_items_def snapshot_ok_def)
qed

text \<open>
  appending to a snapshot appends. Given a reallocator that keeps the old
  bytes, \<open>r4_snapshot_append\<close> stays inside the buffer it grows, and either the
  snapshot holds its records and the new one, in order, or nothing but the
  allocator's state changed and the limit was reached or a growth was refused.
\<close>

theorem r4_snapshot_append_appends:
  assumes "snapshot_ok s" and "length v = sn_item_size s" and "realloc_keeps E"
  shows "\<exists>w' done s'. r4_snapshot_append E (Some s) (Some v) w = Some (w', done, Some s') \<and> snapshot_ok s' \<and>
    sn_limit s' = sn_limit s \<and> sn_item_size s' = sn_item_size s \<and>
    (if done then snapshot_items s' = snapshot_items s @ [v] \<and> sn_count s' = sn_count s + 1
     else s' = s \<and> (sn_count s = sn_limit s \<or> sn_count s = sn_capacity s \<and> append_grow E s w = (w', None)))"
proof (cases "sn_count s = sn_limit s")
  case True
  then show ?thesis using assms(1) by (auto simp: r4_snapshot_append_def)
next
  case lim: False
  show ?thesis
  proof (cases "sn_count s = sn_capacity s")
    case False
    then have "sn_count s < sn_capacity s" using assms(1) by (simp add: snapshot_ok_def)
    from append_put [OF assms(1) this assms(2)] obtain b b' where "sn_entries s = Some b"
      "rec_put (sn_item_size s) b (sn_count s) v = Some b'"
      "snapshot_ok (s\<lparr>sn_entries := Some b', sn_count := sn_count s + 1\<rparr>)"
      "snapshot_items (s\<lparr>sn_entries := Some b', sn_count := sn_count s + 1\<rparr>) = snapshot_items s @ [v]" by blast
    then show ?thesis using lim False
      by (intro exI [of _ w] exI [of _ True] exI [of _ "s\<lparr>sn_entries := Some b', sn_count := sn_count s + 1\<rparr>"])
        (simp add: r4_snapshot_append_def)
  next
    case full: True
    have lt: "sn_count s < sn_limit s" using assms(1) lim by (auto simp: snapshot_ok_def)
    obtain w' p where g: "append_grow E s w = (w', p)" by fastforce
    show ?thesis
    proof (cases p)
      case None
      then show ?thesis using g full lim assms(1) by (auto simp: r4_snapshot_append_def)
    next
      case (Some t)
      have t: "snapshot_ok t" "sn_count t < sn_capacity t" "snapshot_items t = snapshot_items s"
        "sn_count t = sn_count s" "sn_limit t = sn_limit s" "sn_item_size t = sn_item_size s"
        using append_grow_ok [OF assms(1) full lt assms(3)] g Some by blast+
      have "length v = sn_item_size t" using t(6) assms(2) by simp
      from append_put [OF t(1,2) this] obtain b b' where "sn_entries t = Some b"
        "rec_put (sn_item_size t) b (sn_count t) v = Some b'"
        "snapshot_ok (t\<lparr>sn_entries := Some b', sn_count := sn_count t + 1\<rparr>)"
        "snapshot_items (t\<lparr>sn_entries := Some b', sn_count := sn_count t + 1\<rparr>) = snapshot_items t @ [v]" by blast
      then show ?thesis using t g Some full lim
        by (intro exI [of _ w'] exI [of _ True] exI [of _ "t\<lparr>sn_entries := Some b', sn_count := sn_count t + 1\<rparr>"])
          (simp add: r4_snapshot_append_def)
    qed
  qed
qed

definition sample_snapshot :: snapshot where
  "sample_snapshot = \<lparr>sn_heap = \<lparr>heap_api = 8, heap_instance = 1\<rparr>, sn_entries = Some [5, 3, 9, 0], sn_count = 3,
     sn_capacity = 4, sn_limit = 10, sn_item_size = 1, sn_alignment = 1\<rparr>"

lemma sample_snapshot_ok: "snapshot_ok sample_snapshot"
  by (simp add: snapshot_ok_def sample_snapshot_def)

theorem r4_snapshot_sort_sorts_witness:
  "\<exists>s'. r4_snapshot_sort (Some sample_snapshot) (Some (\<lambda>a b. hd a < hd b)) = Some (Some s') \<and>
     mset (snapshot_items s') = {#[5], [3], [9]#} \<and> sorted (map hd (snapshot_items s'))"
proof -
  have "snapshot_items sample_snapshot = [[5], [3], [9]]" by code_simp
  then show ?thesis
    using r4_snapshot_sort_sorts [OF sample_snapshot_ok refl [of "\<lambda>a b. hd a < hd b"]] by auto
qed

theorem r4_snapshot_append_appends_witness:
  "\<exists>w' done s'. r4_snapshot_append sample_heap (Some sample_snapshot) (Some [4]) 0 = Some (w', done, Some s') \<and>
     snapshot_ok s'"
proof -
  have "realloc_keeps sample_heap"
    unfolding realloc_keeps_def
  proof (intro allI impI)
    fix api inst p and n al :: u64 and w w' b
    assume "hs_realloc sample_heap api inst p n al w = (w', Some b)"
    then have b: "b = take (unat n) ((case p of None \<Rightarrow> [] | Some b \<Rightarrow> b) @ replicate (unat n) 7)"
      by (simp add: sample_heap_def)
    then show "length b = unat n \<and> (case p of None \<Rightarrow> True
        | Some old \<Rightarrow> take (min (length old) (unat n)) b = take (min (length old) (unat n)) old)"
      by (cases p) (auto simp: min_def)
  qed
  moreover have "length [4 :: u8] = sn_item_size sample_snapshot" by (simp add: sample_snapshot_def)
  ultimately obtain w' fin s' where
    "r4_snapshot_append sample_heap (Some sample_snapshot) (Some [4]) 0 = Some (w', fin, Some s')" "snapshot_ok s'"
    using r4_snapshot_append_appends [OF sample_snapshot_ok, of "[4]" sample_heap 0] by auto
  then show ?thesis by blast
qed

end
