(* ===== verification/Memory.thy ===== *)
theory Memory
  imports Prelude "HOL-Library.Monad_Syntax"
begin

text \<open>
  The memory a C header reads through addresses: a partial map from 64-bit
  addresses to bytes. A load from an unmapped byte has no value, so every reader is
  an option and a routine that would load outside its objects has the value \<open>None\<close>.
  Scalars are little-endian, as on the SDK's only target.
\<close>

type_synonym memory = "u64 \<Rightarrow> u8 option"

subsection \<open>Loads\<close>

fun load_bytes :: "memory \<Rightarrow> u64 \<Rightarrow> nat \<Rightarrow> bytes option" where
  "load_bytes M a 0 = Some []"
| "load_bytes M a (Suc n) =
     (case M a of
        None \<Rightarrow> None
      | Some b \<Rightarrow> (case load_bytes M (a + 1) n of None \<Rightarrow> None | Some bs \<Rightarrow> Some (b # bs)))"

definition load_u16 :: "memory \<Rightarrow> u64 \<Rightarrow> u16 option" where
  "load_u16 M a = map_option le_word (load_bytes M a 2)"

definition load_u32 :: "memory \<Rightarrow> u64 \<Rightarrow> u32 option" where
  "load_u32 M a = map_option le_word (load_bytes M a 4)"

definition load_u64 :: "memory \<Rightarrow> u64 \<Rightarrow> u64 option" where
  "load_u64 M a = map_option le_word (load_bytes M a 8)"

subsection \<open>Stores\<close>

fun store_bytes :: "memory \<Rightarrow> u64 \<Rightarrow> bytes \<Rightarrow> memory option" where
  "store_bytes M a [] = Some M"
| "store_bytes M a (b # bs) =
     (case M a of None \<Rightarrow> None | Some _ \<Rightarrow> store_bytes (M(a \<mapsto> b)) (a + 1) bs)"

subsection \<open>Mapped ranges\<close>

definition mapped :: "memory \<Rightarrow> u64 \<Rightarrow> nat \<Rightarrow> bool" where
  "mapped M a n \<longleftrightarrow> (\<forall>i < n. M (a + word_of_nat i) \<noteq> None)"

lemma mapped_0 [simp]: "mapped M a 0"
  by (simp add: mapped_def)

lemma mapped_Suc: "mapped M a (Suc n) \<longleftrightarrow> M a \<noteq> None \<and> mapped M (a + 1) n"
proof -
  have "(\<forall>i < Suc n. M (a + word_of_nat i) \<noteq> None) \<longleftrightarrow>
      M a \<noteq> None \<and> (\<forall>i < n. M (a + word_of_nat (Suc i)) \<noteq> None)"
    using All_less_Suc2 [of n "\<lambda>i. M (a + word_of_nat i) \<noteq> None"] by simp
  then show ?thesis unfolding mapped_def by (simp add: ac_simps)
qed

lemma mapped_mono: "mapped M a n \<Longrightarrow> m \<le> n \<Longrightarrow> mapped M a m"
  by (simp add: mapped_def)

lemma mapped_offset:
  assumes "mapped M a n" and "k + m \<le> n"
  shows "mapped M (a + word_of_nat k) m"
  unfolding mapped_def
proof (intro allI impI)
  fix i assume "i < m"
  then have "M (a + word_of_nat (k + i)) \<noteq> None" using assms by (simp add: mapped_def del: of_nat_add)
  then show "M (a + word_of_nat k + word_of_nat i) \<noteq> None" by (simp add: ac_simps)
qed

lemma load_bytes_mapped: "mapped M a n \<longleftrightarrow> load_bytes M a n \<noteq> None"
  by (induction n arbitrary: a) (auto simp: mapped_Suc split: option.splits)

lemma length_load_bytes: "load_bytes M a n = Some bs \<Longrightarrow> length bs = n"
  by (induction n arbitrary: a bs) (auto split: option.splits)

lemma load_bytes_nth:
  "load_bytes M a n = Some bs \<Longrightarrow> i < n \<Longrightarrow> M (a + word_of_nat i) = Some (bs ! i)"
proof (induction n arbitrary: a bs i)
  case (Suc n)
  then obtain b cs where *: "M a = Some b" "load_bytes M (a + 1) n = Some cs" "bs = b # cs"
    by (auto split: option.splits)
  show ?case using Suc.IH [OF *(2)] Suc.prems *
    by (cases i) (simp_all add: ac_simps)
qed simp

lemma load_bytes_part:
  assumes "load_bytes M t n = Some V" and "k + m \<le> n"
  shows "load_bytes M (t + word_of_nat k) m = Some (take m (drop k V))"
proof -
  have len: "length V = n" using length_load_bytes [OF assms(1)] .
  have "mapped M t n" using assms(1) load_bytes_mapped by auto
  then have "mapped M (t + word_of_nat k) m" using mapped_offset assms(2) by blast
  then obtain bs where bs: "load_bytes M (t + word_of_nat k) m = Some bs" using load_bytes_mapped by auto
  have "bs = take m (drop k V)"
  proof (rule nth_equalityI)
    show "length bs = length (take m (drop k V))" using length_load_bytes [OF bs] assms(2) len by simp
    fix i assume "i < length bs"
    then have i: "i < m" using length_load_bytes [OF bs] by simp
    have "M (t + word_of_nat k + word_of_nat i) = Some (bs ! i)" using load_bytes_nth [OF bs i] .
    moreover have "M (t + word_of_nat (k + i)) = Some (V ! (k + i))"
      by (rule load_bytes_nth [OF assms(1)]) (use i assms(2) in simp)
    ultimately show "bs ! i = take m (drop k V) ! i" using i assms(2) len by (simp add: ac_simps)
  qed
  with bs show ?thesis by simp
qed

lemma load_total:
  "mapped M a 2 \<Longrightarrow> \<exists>v. load_u16 M a = Some v"
  "mapped M a 4 \<Longrightarrow> \<exists>v. load_u32 M a = Some v"
  "mapped M a 8 \<Longrightarrow> \<exists>v. load_u64 M a = Some v"
  by (auto simp: load_bytes_mapped load_u16_def load_u32_def load_u64_def)

subsection \<open>What a store changes\<close>

lemma store_bytes_mapped: "store_bytes M a bs \<noteq> None \<longleftrightarrow> mapped M a (length bs)"
proof (induction bs arbitrary: M a)
  case (Cons b bs)
  have "mapped (M(a \<mapsto> b)) (a + 1) (length bs) \<longleftrightarrow> mapped M (a + 1) (length bs)" if *: "M a \<noteq> None"
  proof -
    have "(M(a \<mapsto> b)) x \<noteq> None \<longleftrightarrow> M x \<noteq> None" for x using * by (cases "x = a") simp_all
    then show ?thesis by (simp only: mapped_def)
  qed
  then show ?case by (cases "M a") (simp_all add: mapped_Suc Cons.IH del: not_None_eq fun_upd_apply)
qed simp

lemma store_bytes_keeps:
  "store_bytes M a bs = Some M' \<Longrightarrow> (\<And>i. i < length bs \<Longrightarrow> x \<noteq> a + word_of_nat i) \<Longrightarrow> M' x = M x"
proof (induction bs arbitrary: M a)
  case (Cons b bs)
  from Cons.prems have 1: "store_bytes (M(a \<mapsto> b)) (a + 1) bs = Some M'" by (auto split: option.splits)
  have "x \<noteq> a" using Cons.prems(2) [of 0] by simp
  moreover have "x \<noteq> a + 1 + word_of_nat i" if "i < length bs" for i
    using Cons.prems(2) [of "Suc i"] that by (simp add: ac_simps)
  ultimately show ?case using Cons.IH [OF 1] by simp
qed simp

lemma store_bytes_dom: "store_bytes M a bs = Some M' \<Longrightarrow> dom M' = dom M"
proof (induction bs arbitrary: M a)
  case (Cons b bs)
  then obtain c where "M a = Some c" "store_bytes (M(a \<mapsto> b)) (a + 1) bs = Some M'" by (auto split: option.splits)
  then show ?case using Cons.IH by (auto simp: dom_def split: if_splits)
qed simp

lemma load_bytes_eqI:
  assumes "\<And>i. i < length bs \<Longrightarrow> M (a + word_of_nat i) = Some (bs ! i)"
  shows "load_bytes M a (length bs) = Some bs"
proof -
  have "mapped M a (length bs)" using assms by (simp add: mapped_def)
  then obtain cs where cs: "load_bytes M a (length bs) = Some cs" using load_bytes_mapped by auto
  have "cs = bs"
    by (rule nth_equalityI) (use length_load_bytes [OF cs] load_bytes_nth [OF cs] assms in auto)
  with cs show ?thesis by simp
qed

lemma load_bytes_cong:
  "(\<And>i. i < n \<Longrightarrow> M' (a + word_of_nat i) = M (a + word_of_nat i)) \<Longrightarrow> load_bytes M' a n = load_bytes M a n"
proof (induction n arbitrary: a)
  case (Suc n)
  have "load_bytes M' (a + 1) n = load_bytes M (a + 1) n"
    using Suc.prems [of "Suc i" for i] by (intro Suc.IH) (simp add: ac_simps)
  then show ?case using Suc.prems [of 0] by (auto split: option.split)
qed simp

lemma store_bytes_hit:
  "store_bytes M a bs = Some M' \<Longrightarrow> length bs \<le> 2 ^ 64 \<Longrightarrow> i < length bs \<Longrightarrow> M' (a + word_of_nat i) = Some (bs ! i)"
proof (induction bs arbitrary: M a i)
  case (Cons b bs)
  from Cons.prems(1) have st: "store_bytes (M(a \<mapsto> b)) (a + 1) bs = Some M'" by (auto split: option.splits)
  show ?case
  proof (cases i)
    case 0
    have "M' a = (M(a \<mapsto> b)) a"
    proof (rule store_bytes_keeps [OF st])
      fix j assume "j < length bs"
      then have "word_of_nat (Suc j) \<noteq> (0 :: u64)"
        using Cons.prems(2) by (simp add: word_unat_eq_iff unat_of_nat take_bit_nat_eq_self del: of_nat_Suc)
      then show "a \<noteq> a + 1 + word_of_nat j" by (simp add: add.assoc)
    qed
    then show ?thesis using 0 by simp
  next
    case (Suc j)
    then show ?thesis using Cons.IH [OF st, of j] Cons.prems by (simp add: ac_simps)
  qed
qed simp

lemma store_bytes_load:
  assumes "store_bytes M a bs = Some M'" and "length bs \<le> 2 ^ 64" and "k + n \<le> length bs"
  shows "load_bytes M' (a + word_of_nat k) n = Some (take n (drop k bs))"
  by (rule load_bytes_part [OF load_bytes_eqI [OF store_bytes_hit [OF assms(1,2)]] assms(3)])

subsection \<open>Zero-terminated strings in memory\<close>

text \<open>\<open>string_at M a s\<close>: the bytes of \<open>s\<close> and their terminator lie at \<open>a\<close>.\<close>

definition string_at :: "memory \<Rightarrow> u64 \<Rightarrow> bytes \<Rightarrow> bool" where
  "string_at M a s \<longleftrightarrow> cstring s \<and> (\<forall>i \<le> length s. M (a + word_of_nat i) = Some (cbyte s i))"

lemma string_atD: "string_at M a s \<Longrightarrow> i \<le> length s \<Longrightarrow> M (a + word_of_nat i) = Some (cbyte s i)"
  by (simp add: string_at_def)

text \<open>A memory given by the objects it holds: address and bytes, first match wins.\<close>

primrec place :: "(u64 \<times> bytes) list \<Rightarrow> memory" where
  "place [] a = None"
| "place (ob # os) a =
     (let i = unat (a - fst ob) in if i < length (snd ob) then Some (snd ob ! i) else place os a)"


lemma place_loads:
  assumes "length bs < 2 ^ 64" and "k + n \<le> length bs"
  shows "load_bytes (place ((a, bs) # obs)) (a + word_of_nat k) n = Some (take n (drop k bs))"
proof -
  have byte: "place ((a, bs) # obs) (a + word_of_nat i) = Some (bs ! i)" if "i < length bs" for i
    using that assms(1) by (simp add: Let_def unat_of_nat take_bit_nat_eq_self)
  then have "mapped (place ((a, bs) # obs)) a (length bs)" by (simp add: mapped_def del: place.simps)
  then obtain cs where cs: "load_bytes (place ((a, bs) # obs)) a (length bs) = Some cs" using load_bytes_mapped by auto
  have "cs = bs"
  proof (rule nth_equalityI)
    show "length cs = length bs" by (rule length_load_bytes [OF cs])
    fix i assume "i < length cs"
    then have "i < length bs" using length_load_bytes [OF cs] by simp
    then show "cs ! i = bs ! i" using load_bytes_nth [OF cs, of i] byte [of i] by simp
  qed
  with cs show ?thesis using load_bytes_part [OF _ assms(2)] by simp
qed

end
