(* ===== verification/Binding.thy ===== *)
theory Binding
  imports Memory
begin

text \<open>
  \<open>Shared/C/include/r4os/r4l.h\<close> and the import lookup of \<open>r4sys.h\<close>: the start context
  an application receives, the search of its import list by name and by group, the
  admission of a named interface table and the reads of its slots.

  The interface header's layout is fixed by the header's own assertions, so it is
  read from memory byte by byte. The context, its import rows and the query record
  are laid out by the generated contract header, which is not in the repository:
  they are records here, found at their addresses by \<open>w_import\<close> and \<open>w_query\<close>, and the
  contract's numbers are members of \<open>start_contract\<close>.
\<close>

subsection \<open>Data\<close>

record start_contract =
  x_magic :: u32
  x_abi_major :: u32
  x_abi_minor :: u32
  x_context_size :: u32
  x_imports_valid :: u32
  x_close_supported :: u32
  x_group_interface :: u32
  x_import_size :: nat
  x_import_align :: u64
  x_context_align :: u64
  x_query_magic :: u32
  x_query_version :: u32
  x_query_size :: u32
  x_query_align :: u64

record start_import =
  i_module :: u64
  i_symbol :: u64
  i_min_version :: u32
  i_resolved_version :: u32
  i_group_id :: u32
  i_flags :: u32
  i_table :: u64

record start_context =
  c_address :: u64
  c_magic :: u32
  c_abi_major :: u32
  c_abi_minor :: u32
  c_size :: u32
  c_app_class :: u32
  c_flags :: u32
  c_import_count :: u32
  c_imports :: u64
  c_args :: u64
  c_args_len :: u64
  c_instance_id :: u64
  c_yield :: u64
  c_should_close :: u64

record r4l_query =
  q_magic :: u32
  q_abi_version :: u32
  q_size :: u32
  q_group :: u32
  q_kernel_bridge :: u64
  q_reserved :: u64

record loader =
  w_mem :: memory
  w_import :: "u64 \<Rightarrow> start_import option"
  w_query :: "u64 \<Rightarrow> r4l_query option"

record expectation =
  e_interface_id_lo :: u64
  e_interface_id_hi :: u64
  e_abi_major :: u16
  e_min_revision :: u16
  e_required_size :: u32
  e_known_required_flags :: u16

abbreviation R4L_INTERFACE_MAGIC :: u32 where "R4L_INTERFACE_MAGIC \<equiv> 0x31493452"
abbreviation R4L_INTERFACE_HEADER_VERSION :: u16 where "R4L_INTERFACE_HEADER_VERSION \<equiv> 1"
abbreviation R4L_INTERFACE_HEADER_SIZE :: u32 where "R4L_INTERFACE_HEADER_SIZE \<equiv> 32"
abbreviation R4L_INTERFACE_ALIGNMENT :: u32 where "R4L_INTERFACE_ALIGNMENT \<equiv> 8"
abbreviation R4L_INTERFACE_REQUIRED_FLAG_MASK :: u16 where "R4L_INTERFACE_REQUIRED_FLAG_MASK \<equiv> 0x00ff"

datatype binding_status =
    BINDING_OK | BINDING_INVALID_IMPORT | BINDING_MANIFEST_REVISION_TOO_OLD | BINDING_MISALIGNED_TABLE
  | BINDING_BAD_MAGIC | BINDING_UNSUPPORTED_HEADER | BINDING_UNKNOWN_REQUIRED_FLAGS | BINDING_INVALID_TABLE_SIZE
  | BINDING_WRONG_INTERFACE | BINDING_WRONG_MAJOR | BINDING_INVALID_REVISION | BINDING_REVISION_DRIFT
  | BINDING_REVISION_TOO_OLD | BINDING_TABLE_TOO_SMALL | BINDING_INVALID_EXPECTATION | BINDING_INVALID_QUERY

primrec binding_code :: "binding_status \<Rightarrow> i32" where
  "binding_code BINDING_OK = 0"
| "binding_code BINDING_INVALID_IMPORT = - 1001"
| "binding_code BINDING_MANIFEST_REVISION_TOO_OLD = - 1002"
| "binding_code BINDING_MISALIGNED_TABLE = - 1003"
| "binding_code BINDING_BAD_MAGIC = - 1004"
| "binding_code BINDING_UNSUPPORTED_HEADER = - 1005"
| "binding_code BINDING_UNKNOWN_REQUIRED_FLAGS = - 1006"
| "binding_code BINDING_INVALID_TABLE_SIZE = - 1007"
| "binding_code BINDING_WRONG_INTERFACE = - 1008"
| "binding_code BINDING_WRONG_MAJOR = - 1009"
| "binding_code BINDING_INVALID_REVISION = - 1010"
| "binding_code BINDING_REVISION_DRIFT = - 1011"
| "binding_code BINDING_REVISION_TOO_OLD = - 1012"
| "binding_code BINDING_TABLE_TOO_SMALL = - 1013"
| "binding_code BINDING_INVALID_EXPECTATION = - 1014"
| "binding_code BINDING_INVALID_QUERY = - 1015"

subsection \<open>The start context and its imports\<close>

definition r4xstart_context_valid :: "start_contract \<Rightarrow> start_context option \<Rightarrow> bool" where
  "r4xstart_context_valid K ctx =
     (case ctx of
        None \<Rightarrow> False
      | Some c \<Rightarrow> c_magic c = x_magic K \<and> c_abi_major c = x_abi_major K \<and> x_context_size K \<le> c_size c)"

definition r4xstart_args :: "start_context option \<Rightarrow> u64" where
  "r4xstart_args ctx =
     (case ctx of
        None \<Rightarrow> 0
      | Some c \<Rightarrow> if c_args c = 0 \<or> c_args_len c = 0 then 0 else c_args c)"

definition r4xstart_import_count :: "start_contract \<Rightarrow> start_context option \<Rightarrow> u32" where
  "r4xstart_import_count K ctx =
     (case ctx of
        None \<Rightarrow> 0
      | Some c \<Rightarrow> if c_flags c AND x_imports_valid K = 0 then 0 else c_import_count c)"

definition r4xstart_import_at ::
  "start_contract \<Rightarrow> loader \<Rightarrow> start_context option \<Rightarrow> nat \<Rightarrow> start_import option option" where
  "r4xstart_import_at K W ctx index =
     (case ctx of
        None \<Rightarrow> Some None
      | Some c \<Rightarrow>
          if c_imports c = 0 \<or> unat (r4xstart_import_count K ctx) \<le> index then Some None
          else map_option Some (w_import W (c_imports c + word_of_nat (index * x_import_size K))))"

definition r4xstart_name_upper :: "u8 \<Rightarrow> u8" where
  "r4xstart_name_upper value =
     (if value \<ge> 0x61 \<and> value \<le> 0x7A then value - (0x61 - 0x41) else value)"

text \<open>The comparison loop from \<open>index\<close> on, and the test after it.\<close>

function name_loop :: "memory \<Rightarrow> u64 \<Rightarrow> bytes \<Rightarrow> nat \<Rightarrow> bool option" where
  "name_loop M raw expected index =
     (if index < 31 \<and> cbyte expected index \<noteq> 0 then
        do { v \<leftarrow> M (raw + word_of_nat index);
             if v = 0 \<or> r4xstart_name_upper v \<noteq> r4xstart_name_upper (cbyte expected index) then Some False
             else name_loop M raw expected (index + 1) }
      else if index < 32 \<and> cbyte expected index = 0 then
        do { v \<leftarrow> M (raw + word_of_nat index); Some (v = 0) }
      else Some False)"
  by pat_completeness auto
termination
  by (relation "measure (\<lambda>(M, raw, expected, index). 31 - index)") auto

declare name_loop.simps [simp del]

definition r4xstart_import_name_equal :: "memory \<Rightarrow> u64 \<Rightarrow> bytes option \<Rightarrow> bool option" where
  "r4xstart_import_name_equal M raw expected =
     (case expected of
        None \<Rightarrow> Some False
      | Some e \<Rightarrow> if raw = 0 \<or> cbyte e 0 = 0 then Some False else name_loop M raw e 0)"

text \<open>The two searches share their loop: the first row that passes the test.\<close>

fun find_loop ::
  "(nat \<Rightarrow> start_import option option) \<Rightarrow> (start_import \<Rightarrow> bool option) \<Rightarrow> nat \<Rightarrow> nat \<Rightarrow> start_import option option" where
  "find_loop fetch test i 0 = Some None"
| "find_loop fetch test i (Suc n) =
     do { item \<leftarrow> fetch i;
          case item of
            None \<Rightarrow> find_loop fetch test (i + 1) n
          | Some it \<Rightarrow> do { hit \<leftarrow> test it; if hit then Some (Some it) else find_loop fetch test (i + 1) n } }"

definition named_test :: "memory \<Rightarrow> bytes option \<Rightarrow> bytes option \<Rightarrow> start_import \<Rightarrow> bool option" where
  "named_test M module_name symbol_name item =
     do { m \<leftarrow> r4xstart_import_name_equal M (i_module item) module_name;
          if m then r4xstart_import_name_equal M (i_symbol item) symbol_name else Some False }"

definition r4xstart_find_import_named ::
  "start_contract \<Rightarrow> loader \<Rightarrow> start_context option \<Rightarrow> bytes option \<Rightarrow> bytes option \<Rightarrow> start_import option option" where
  "r4xstart_find_import_named K W ctx module_name symbol_name =
     find_loop (r4xstart_import_at K W ctx) (named_test (w_mem W) module_name symbol_name) 0
       (unat (r4xstart_import_count K ctx))"

definition r4xstart_find_import ::
  "start_contract \<Rightarrow> loader \<Rightarrow> start_context option \<Rightarrow> u32 \<Rightarrow> start_import option option" where
  "r4xstart_find_import K W ctx group_id =
     find_loop (r4xstart_import_at K W ctx) (\<lambda>item. Some (i_group_id item = group_id)) 0
       (unat (r4xstart_import_count K ctx))"

subsection \<open>Admission of an interface table\<close>

definition expectation_malformed :: "expectation \<Rightarrow> bool" where
  "expectation_malformed e \<longleftrightarrow>
     (e_interface_id_lo e = 0 \<and> e_interface_id_hi e = 0) \<or> e_abi_major e = 0 \<or> e_min_revision e = 0 \<or>
     e_required_size e < R4L_INTERFACE_HEADER_SIZE \<or> e_required_size e mod R4L_INTERFACE_ALIGNMENT \<noteq> 0"

text \<open>The checks on the import row, before the table is touched.\<close>

definition import_refused :: "start_import option \<Rightarrow> expectation \<Rightarrow> binding_status option" where
  "import_refused item e =
     (case item of
        None \<Rightarrow> Some BINDING_INVALID_IMPORT
      | Some it \<Rightarrow>
          if i_group_id it \<noteq> 0 \<or> i_table it = 0 \<or> i_min_version it = 0 \<or> i_resolved_version it = 0
          then Some BINDING_INVALID_IMPORT
          else if i_min_version it < ucast (e_min_revision e) then Some BINDING_MANIFEST_REVISION_TOO_OLD
          else if i_resolved_version it < i_min_version it \<or> i_resolved_version it > 65535
          then Some BINDING_INVALID_REVISION
          else if i_table it mod ucast R4L_INTERFACE_ALIGNMENT \<noteq> 0 then Some BINDING_MISALIGNED_TABLE
          else None)"

text \<open>The checks on the table's header, each field loaded where the source reads it.\<close>

definition header_status :: "memory \<Rightarrow> start_import \<Rightarrow> expectation \<Rightarrow> binding_status option" where
  "header_status M it e =
     (let h = i_table it in
      do { magic \<leftarrow> load_u32 M h;
           if magic \<noteq> R4L_INTERFACE_MAGIC then Some BINDING_BAD_MAGIC else
      do { version \<leftarrow> load_u16 M (h + 4);
           if version \<noteq> R4L_INTERFACE_HEADER_VERSION then Some BINDING_UNSUPPORTED_HEADER else
      do { flags \<leftarrow> load_u16 M (h + 6);
           if (flags AND R4L_INTERFACE_REQUIRED_FLAG_MASK) AND NOT (e_known_required_flags e) \<noteq> 0
           then Some BINDING_UNKNOWN_REQUIRED_FLAGS else
      do { sz \<leftarrow> load_u32 M (h + 8);
           if sz < R4L_INTERFACE_HEADER_SIZE \<or> sz mod R4L_INTERFACE_ALIGNMENT \<noteq> 0
           then Some BINDING_INVALID_TABLE_SIZE else
      do { lo \<leftarrow> load_u64 M (h + 16);
           if lo \<noteq> e_interface_id_lo e then Some BINDING_WRONG_INTERFACE else
      do { hi \<leftarrow> load_u64 M (h + 24);
           if hi \<noteq> e_interface_id_hi e then Some BINDING_WRONG_INTERFACE else
      do { major \<leftarrow> load_u16 M (h + 12);
           if major \<noteq> e_abi_major e then Some BINDING_WRONG_MAJOR else
      do { minor \<leftarrow> load_u16 M (h + 14);
           if minor = 0 then Some BINDING_INVALID_REVISION
           else if i_resolved_version it \<noteq> ucast minor then Some BINDING_REVISION_DRIFT
           else if minor < e_min_revision e then Some BINDING_REVISION_TOO_OLD
           else if sz < e_required_size e then Some BINDING_TABLE_TOO_SMALL
           else Some BINDING_OK } } } } } } } })"

definition r4l_validate_import ::
  "memory \<Rightarrow> start_import option \<Rightarrow> expectation option \<Rightarrow> u64 option \<Rightarrow> (binding_status \<times> u64 option) option" where
  "r4l_validate_import M item expected out_header =
     (let out_header = map_option (\<lambda>_. 0) out_header in
      case (expected, out_header) of
        (Some e, Some _) \<Rightarrow>
          if expectation_malformed e then Some (BINDING_INVALID_EXPECTATION, out_header)
          else (case import_refused item e of
                  Some status \<Rightarrow> Some (status, out_header)
                | None \<Rightarrow>
                    do { status \<leftarrow> header_status M (the item) e;
                         Some (status, if status = BINDING_OK then Some (i_table (the item)) else out_header) })
      | _ \<Rightarrow> Some (BINDING_INVALID_EXPECTATION, out_header))"

text \<open>The query record of a stand-alone library; \<open>Query\<close> is its symbol.\<close>

definition query_symbol :: bytes where
  "query_symbol = [0x51, 0x75, 0x65, 0x72, 0x79]"

definition r4l_query_metadata ::
  "start_contract \<Rightarrow> loader \<Rightarrow> start_context option \<Rightarrow> bytes option \<Rightarrow> u64 option \<Rightarrow> (binding_status \<times> u64 option) option" where
  "r4l_query_metadata K W ctx module out_query =
     (case out_query of
        None \<Rightarrow> Some (BINDING_INVALID_EXPECTATION, None)
      | Some _ \<Rightarrow>
          do { item \<leftarrow> r4xstart_find_import_named K W ctx module (Some query_symbol);
               case item of
                 None \<Rightarrow> Some (BINDING_INVALID_IMPORT, Some 0)
               | Some it \<Rightarrow>
                   if i_group_id it \<noteq> 0 \<or> i_table it = 0 \<or> i_min_version it = 0 \<or> i_resolved_version it < i_min_version it
                   then Some (BINDING_INVALID_IMPORT, Some 0)
                   else if i_table it mod x_query_align K \<noteq> 0 then Some (BINDING_MISALIGNED_TABLE, Some 0)
                   else if i_resolved_version it \<noteq> 1 then Some (BINDING_INVALID_QUERY, Some 0)
                   else do { q \<leftarrow> w_query W (i_table it);
                             if q_magic q \<noteq> x_query_magic K \<or> q_abi_version q \<noteq> x_query_version K \<or>
                                q_size q < x_query_size K \<or> q_group q \<noteq> 0 \<or> q_kernel_bridge q \<noteq> 0 \<or> q_reserved q \<noteq> 0
                             then Some (BINDING_INVALID_QUERY, Some 0)
                             else Some (BINDING_OK, Some (i_table it)) } })"

subsection \<open>Slots of an admitted table\<close>

definition r4l_has_slot :: "memory \<Rightarrow> u64 \<Rightarrow> u32 \<Rightarrow> bool option" where
  "r4l_has_slot M header byte_offset =
     (if header = 0 \<or> byte_offset < R4L_INTERFACE_HEADER_SIZE \<or> byte_offset mod 8 \<noteq> 0 then Some False
      else do { sz \<leftarrow> load_u32 M (header + 8);
                Some (byte_offset \<le> sz \<and> 8 \<le> sz - byte_offset) })"

definition r4l_slot_address :: "memory \<Rightarrow> u64 \<Rightarrow> u32 \<Rightarrow> u64 option" where
  "r4l_slot_address M header byte_offset =
     do { present \<leftarrow> r4l_has_slot M header byte_offset;
          if \<not> present then Some 0 else load_u64 M (header + ucast byte_offset) }"


subsection \<open>Names\<close>

lemma name_upper_0 [simp]: "r4xstart_name_upper v = 0 \<longleftrightarrow> v = 0"
proof -
  have "v - (0x61 - 0x41) \<noteq> 0" if "v \<ge> 0x61"
  proof
    assume "v - (0x61 - 0x41) = 0"
    then have "v = 0x20" by simp
    with that show False by simp
  qed
  then show ?thesis by (auto simp: r4xstart_name_upper_def)
qed

lemma name_loop_compares:
  assumes "string_at M raw s" and "cstring e"
  shows "index \<le> length s \<Longrightarrow> index \<le> length e \<Longrightarrow> index \<le> 31 \<Longrightarrow>
    name_loop M raw e index =
      Some (length e \<le> 31 \<and> map r4xstart_name_upper (drop index s) = map r4xstart_name_upper (drop index e))"
proof (induction "31 - index" arbitrary: index)
  case 0
  then have [simp]: "index = 31" by simp
  show ?case using 0 cbyte_0_iff [OF assms(2), of 31] string_atD [OF assms(1) 0(2)]
      cbyte_0_iff [of s 31] assms(1)
    by (subst name_loop.simps) (auto simp: string_at_def)
next
  case (Suc n)
  have s0: "cbyte s index = 0 \<longleftrightarrow> index = length s"
    using cbyte_0_iff [of s index] assms(1) Suc.prems by (auto simp: string_at_def)
  have e0: "cbyte e index = 0 \<longleftrightarrow> index = length e"
    using cbyte_0_iff [OF assms(2), of index] Suc.prems by auto
  have load: "M (raw + word_of_nat index) = Some (cbyte s index)"
    using string_atD [OF assms(1) Suc.prems(1)] .
  show ?case
  proof (cases "index = length e")
    case True
    then show ?thesis using Suc.prems Suc.hyps load s0 e0
      by (subst name_loop.simps) auto
  next
    case inside: False
    show ?thesis
    proof (cases "index = length s")
      case True
      then show ?thesis using inside Suc.prems Suc.hyps load s0 e0
        by (subst name_loop.simps) auto
    next
      case False
      then have "drop index s = s ! index # drop (index + 1) s" "drop index e = e ! index # drop (index + 1) e"
        "cbyte s index = s ! index" "cbyte e index = e ! index"
        using Suc.prems inside by (auto simp: Cons_nth_drop_Suc cbyte_def)
      then show ?thesis
        using False inside Suc.prems Suc.hyps(2) load s0 e0 Suc.hyps(1) [of "index + 1"]
        by (subst name_loop.simps) auto
    qed
  qed
qed

lemma import_name_equal_iff:
  assumes "string_at M raw s" and "cstring e" and "raw \<noteq> 0"
  shows "r4xstart_import_name_equal M raw (Some e) =
    Some (e \<noteq> [] \<and> length e \<le> 31 \<and> map r4xstart_name_upper s = map r4xstart_name_upper e)"
  using name_loop_compares [OF assms(1,2), of 0] cbyte_0_iff [OF assms(2), of 0] assms(3)
  by (auto simp: r4xstart_import_name_equal_def)

lemma name_loop_accepts:
  "name_loop M raw e index = Some True \<Longrightarrow> index \<le> 31 \<Longrightarrow> cstring e \<Longrightarrow> index \<le> length e \<Longrightarrow>
    length e \<le> 31 \<and> (\<forall>j. index \<le> j \<and> j \<le> length e \<longrightarrow>
      (\<exists>v. M (raw + word_of_nat j) = Some v \<and> r4xstart_name_upper v = r4xstart_name_upper (cbyte e j)))"
proof (induction M raw e index rule: name_loop.induct)
  case (1 M raw e index)
  have e0: "cbyte e index = 0 \<longleftrightarrow> index = length e"
    using cbyte_0_iff [OF 1(4), of index] 1 by auto
  from 1(2) consider
      (step) v where "index < 31" "cbyte e index \<noteq> 0" "M (raw + word_of_nat index) = Some v" "v \<noteq> 0"
        "r4xstart_name_upper v = r4xstart_name_upper (cbyte e index)" "name_loop M raw e (index + 1) = Some True"
    | (stop) "cbyte e index = 0" "M (raw + word_of_nat index) = Some 0"
    by (subst (asm) name_loop.simps) (auto split: if_splits simp: bind_eq_Some_conv)
  then show ?case
  proof cases
    case step
    then have "length e \<le> 31 \<and> (\<forall>j. index + 1 \<le> j \<and> j \<le> length e \<longrightarrow>
      (\<exists>v. M (raw + word_of_nat j) = Some v \<and> r4xstart_name_upper v = r4xstart_name_upper (cbyte e j)))"
      using 1 e0 by (intro "1.IH" [of v]) auto
    note rest = this
    show ?thesis
    proof (intro conjI allI impI)
      show "length e \<le> 31" using rest by blast
      fix j assume j: "index \<le> j \<and> j \<le> length e"
      show "\<exists>v. M (raw + word_of_nat j) = Some v \<and> r4xstart_name_upper v = r4xstart_name_upper (cbyte e j)"
      proof (cases "j = index")
        case True
        then show ?thesis using step by blast
      next
        case False
        with j have "index + 1 \<le> j" by simp
        with rest j show ?thesis by blast
      qed
    qed
  next
    case stop
    with e0 1 show ?thesis by (auto intro!: exI [of _ 0])
  qed
qed

subsection \<open>The searches return the first row that matches\<close>

text \<open>\<open>rows_at\<close>: the loader's import rows, as the list the context describes.\<close>

definition rows_at :: "start_contract \<Rightarrow> loader \<Rightarrow> start_context \<Rightarrow> start_import list \<Rightarrow> bool" where
  "rows_at K W c rows \<longleftrightarrow>
     length rows = unat (r4xstart_import_count K (Some c)) \<and> (rows \<noteq> [] \<longrightarrow> c_imports c \<noteq> 0) \<and>
     (\<forall>i < length rows. w_import W (c_imports c + word_of_nat (i * x_import_size K)) = Some (rows ! i))"

lemma import_at_row:
  "rows_at K W c rows \<Longrightarrow> i < length rows \<Longrightarrow> r4xstart_import_at K W (Some c) i = Some (Some (rows ! i))"
  by (auto simp: r4xstart_import_at_def rows_at_def)

lemma find_loop_find:
  assumes "\<And>j. i \<le> j \<Longrightarrow> j < i + n \<Longrightarrow> fetch j = Some (Some (rows ! j))" and "i + n = length rows"
    and "\<And>j. j < length rows \<Longrightarrow> test (rows ! j) = Some (P (rows ! j))"
  shows "find_loop fetch test i n = Some (List.find P (drop i rows))"
  using assms
proof (induction n arbitrary: i)
  case (Suc n)
  then have "drop i rows = rows ! i # drop (i + 1) rows" by (simp add: Cons_nth_drop_Suc)
  with Suc show ?case by simp
qed simp

lemma find_import_first:
  assumes "rows_at K W c rows"
  shows "r4xstart_find_import K W (Some c) g = Some (List.find (\<lambda>r. i_group_id r = g) rows)"
proof -
  have "find_loop (r4xstart_import_at K W (Some c)) (\<lambda>item. Some (i_group_id item = g)) 0 (length rows) =
      Some (List.find (\<lambda>r. i_group_id r = g) (drop 0 rows))"
    by (rule find_loop_find) (auto simp: import_at_row [OF assms])
  then show ?thesis using assms by (simp add: r4xstart_find_import_def rows_at_def)
qed

text \<open>The names a row points to.\<close>

definition row_names :: "memory \<Rightarrow> start_import \<Rightarrow> bytes \<Rightarrow> bytes \<Rightarrow> bool" where
  "row_names M r m s \<longleftrightarrow> i_module r \<noteq> 0 \<and> i_symbol r \<noteq> 0 \<and> string_at M (i_module r) m \<and> string_at M (i_symbol r) s"

definition same_name :: "bytes \<Rightarrow> bytes \<Rightarrow> bool" where
  "same_name s e \<longleftrightarrow> e \<noteq> [] \<and> length e \<le> 31 \<and> map r4xstart_name_upper s = map r4xstart_name_upper e"

lemma named_test_names:
  "row_names M r m s \<Longrightarrow> cstring em \<Longrightarrow> cstring es \<Longrightarrow>
    named_test M (Some em) (Some es) r = Some (same_name m em \<and> same_name s es)"
  unfolding row_names_def named_test_def by (elim conjE) (auto simp: import_name_equal_iff same_name_def)

lemma find_import_named_first:
  assumes "rows_at K W c rows" and "cstring em" and "cstring es"
    and names: "\<And>r. r \<in> set rows \<Longrightarrow> row_names (w_mem W) r (mname r) (sname r)"
  shows "r4xstart_find_import_named K W (Some c) (Some em) (Some es) =
    Some (List.find (\<lambda>r. same_name (mname r) em \<and> same_name (sname r) es) rows)"
proof -
  have "find_loop (r4xstart_import_at K W (Some c)) (named_test (w_mem W) (Some em) (Some es)) 0 (length rows) =
      Some (List.find (\<lambda>r. same_name (mname r) em \<and> same_name (sname r) es) (drop 0 rows))"
    by (rule find_loop_find)
      (auto simp: import_at_row [OF assms(1)] intro!: named_test_names [OF names assms(2,3)])
  then show ?thesis using assms(1) by (simp add: r4xstart_find_import_named_def rows_at_def)
qed

subsection \<open>Slots\<close>

lemma has_slot_iff:
  assumes "load_u32 M (h + 8) = Some sz"
  shows "r4l_has_slot M h off =
    Some (h \<noteq> 0 \<and> 32 \<le> unat off \<and> 8 dvd unat off \<and> unat off + 8 \<le> unat sz)"
proof -
  have m: "off mod 8 = 0 \<longleftrightarrow> 8 dvd unat off"
    by (simp add: word_unat_eq_iff unat_mod_distrib mod_eq_0_iff_dvd)
  have l: "off < 32 \<longleftrightarrow> unat off < 32" by (simp add: word_less_nat_alt)
  have "off \<le> sz \<and> 8 \<le> sz - off \<longleftrightarrow> unat off + 8 \<le> unat sz"
    by (auto simp: word_le_nat_alt unat_sub)
  then show ?thesis using m l assms by (auto simp: r4l_has_slot_def)
qed

subsection \<open>What an accepted table promises\<close>

lemma header_status_ok:
  assumes "header_status M it e = Some BINDING_OK"
  obtains sz where "load_u32 M (i_table it) = Some R4L_INTERFACE_MAGIC" and "load_u32 M (i_table it + 8) = Some sz"
    and "e_required_size e \<le> sz" and "load_u64 M (i_table it + 16) = Some (e_interface_id_lo e)"
    and "load_u64 M (i_table it + 24) = Some (e_interface_id_hi e)" and "load_u16 M (i_table it + 12) = Some (e_abi_major e)"
    and "\<exists>minor. load_u16 M (i_table it + 14) = Some minor \<and> e_min_revision e \<le> minor \<and> i_resolved_version it = ucast minor"
  using assms unfolding header_status_def Let_def
  by (auto simp: bind_eq_Some_conv not_less split: if_splits)

lemma validate_import_ok:
  assumes "r4l_validate_import M item (Some e) out = Some (BINDING_OK, out')"
  obtains it where "item = Some it" and "out' = Some (i_table it)" and "\<not> expectation_malformed e"
    and "import_refused item e = None" and "header_status M it e = Some BINDING_OK"
  using assms unfolding r4l_validate_import_def Let_def
  by (auto simp: bind_eq_Some_conv import_refused_def split: if_splits option.splits)

lemma accepted_slot:
  assumes "r4l_validate_import M item (Some e) out = Some (BINDING_OK, Some h)"
    and size: "\<And>sz. load_u32 M (h + 8) = Some sz \<Longrightarrow> mapped M h (unat sz)"
    and off: "32 \<le> unat off" "8 dvd unat off" "unat off + 8 \<le> unat (e_required_size e)"
  shows "\<exists>v. r4l_slot_address M h off = Some v \<and> load_u64 M (h + ucast off) = Some v"
proof -
  from assms(1) obtain it where it: "h = i_table it" "item = Some it" "import_refused item e = None"
    "header_status M it e = Some BINDING_OK" by (auto elim: validate_import_ok)
  from it(2,3) have "h \<noteq> 0" by (auto simp: import_refused_def it(1) split: if_splits)
  from it(4) obtain sz where sz: "load_u32 M (h + 8) = Some sz" "e_required_size e \<le> sz"
    unfolding it(1) by (rule header_status_ok) blast
  have le: "unat off + 8 \<le> unat sz" using off(3) sz(2) by (simp add: word_le_nat_alt)
  have "mapped M (h + word_of_nat (unat off)) 8" using mapped_offset [OF size [OF sz(1)] le] .
  then have "mapped M (h + ucast off) 8" by simp
  then obtain v where "load_u64 M (h + ucast off) = Some v" using load_total(3) by blast
  then show ?thesis using off(1,2) le \<open>h \<noteq> 0\<close> by (simp add: r4l_slot_address_def has_slot_iff [OF sz(1)])
qed

lemma validate_import_total:
  assumes "\<And>it. item = Some it \<Longrightarrow> mapped M (i_table it) 32"
  shows "r4l_validate_import M item expected out \<noteq> None"
proof -
  have ld: "\<exists>v. load_u16 M (i_table it + word_of_nat k) = Some v" if "item = Some it" "k + 2 \<le> 32" for it k
    by (rule load_total(1), rule mapped_offset [OF assms [OF that(1)] that(2)])
  have ld4: "\<exists>v. load_u32 M (i_table it + word_of_nat k) = Some v" if "item = Some it" "k + 4 \<le> 32" for it k
    by (rule load_total(2), rule mapped_offset [OF assms [OF that(1)] that(2)])
  have ld8: "\<exists>v. load_u64 M (i_table it + word_of_nat k) = Some v" if "item = Some it" "k + 8 \<le> 32" for it k
    by (rule load_total(3), rule mapped_offset [OF assms [OF that(1)] that(2)])
  have "header_status M it e \<noteq> None" if "item = Some it" for it e
  proof -
    from ld4 [OF that, of 0] ld [OF that, of 4] ld [OF that, of 6] ld4 [OF that, of 8] ld8 [OF that, of 16]
      ld8 [OF that, of 24] ld [OF that, of 12] ld [OF that, of 14]
    obtain a b c d f g i j where "load_u32 M (i_table it) = Some a" "load_u16 M (i_table it + 4) = Some b"
      "load_u16 M (i_table it + 6) = Some c" "load_u32 M (i_table it + 8) = Some d" "load_u64 M (i_table it + 16) = Some f"
      "load_u64 M (i_table it + 24) = Some g" "load_u16 M (i_table it + 12) = Some i" "load_u16 M (i_table it + 14) = Some j"
      by auto
    then show ?thesis unfolding header_status_def Let_def by simp
  qed
  then have status: "\<exists>status. header_status M it e = Some status" if "item = Some it" for it e using that by simp
  show ?thesis
  proof (cases "expected = None \<or> out = None")
    case True
    then show ?thesis by (auto simp: r4l_validate_import_def Let_def split: option.splits)
  next
    case False
    then obtain e o' where [simp]: "expected = Some e" "out = Some o'" by auto
    show ?thesis
    proof (cases "import_refused item e")
      case None
      then obtain it where [simp]: "item = Some it" by (auto simp: import_refused_def split: option.splits)
      from None status [of it e] show ?thesis by (auto simp: r4l_validate_import_def Let_def)
    qed (simp add: r4l_validate_import_def Let_def)
  qed
qed

subsection \<open>Properties\<close>

text \<open>
  C10: Once \<open>r4l_validate_import\<close> accepts a table, every slot the expectation asks for, that
  is every aligned offset after the header within the required size, is present:
  \<open>r4l_slot_address\<close> reads it from the table and never answers "absent" or leaves the table.\<close>

theorem r4l_validate_import_slots:
  assumes "r4l_validate_import M item (Some e) out_header = Some (BINDING_OK, Some h)"
    and "\<forall>sz. load_u32 M (h + 8) = Some sz \<longrightarrow> mapped M h (unat sz)"
    and "32 \<le> unat off" "8 dvd unat off" "unat off + 8 \<le> unat (e_required_size e)"
  shows "r4l_has_slot M h off = Some True \<and>
    (\<exists>v. r4l_slot_address M h off = Some v \<and> load_u64 M (h + ucast off) = Some v)"
proof -
  from accepted_slot [OF assms(1) _ assms(3-5)] assms(2) obtain v where
    v: "r4l_slot_address M h off = Some v" "load_u64 M (h + ucast off) = Some v" by blast
  from assms(1) obtain it where it: "h = i_table it" "item = Some it" "import_refused item e = None"
    "header_status M it e = Some BINDING_OK" by (auto elim: validate_import_ok)
  then have "h \<noteq> 0" by (auto simp: import_refused_def split: if_splits)
  from it(4) obtain sz where "load_u32 M (h + 8) = Some sz" "e_required_size e \<le> sz"
    unfolding it(1) by (rule header_status_ok) blast
  then have "r4l_has_slot M h off = Some True"
    using assms(3-5) \<open>h \<noteq> 0\<close> by (simp add: has_slot_iff word_le_nat_alt)
  with v show ?thesis by blast
qed

text \<open>An interface of 40 bytes with one slot, the address \<open>0x77\<close>.\<close>

definition sample_interface :: bytes where
  "sample_interface = [0x52, 0x34, 0x49, 0x31, 1, 0, 0, 0, 40, 0, 0, 0, 1, 0, 3, 0, 9, 0, 0, 0, 0, 0, 0, 0,
     0, 0, 0, 0, 0, 0, 0, 0, 0x77, 0, 0, 0, 0, 0, 0, 0]"

definition sample_contract :: start_contract where
  "sample_contract = \<lparr>x_magic = 1, x_abi_major = 1, x_abi_minor = 0, x_context_size = 64, x_imports_valid = 1,
     x_close_supported = 2, x_group_interface = 1, x_import_size = 48, x_import_align = 8, x_context_align = 8,
     x_query_magic = 3, x_query_version = 1, x_query_size = 32, x_query_align = 8\<rparr>"

definition sample_context :: start_context where
  "sample_context = \<lparr>c_address = 0x8000, c_magic = 1, c_abi_major = 1, c_abi_minor = 0, c_size = 64, c_app_class = 0, c_flags = 1,
     c_import_count = 1, c_imports = 0x9000, c_args = 0, c_args_len = 0, c_instance_id = 7, c_yield = 0, c_should_close = 0\<rparr>"

definition sample_named_import :: start_import where
  "sample_named_import = \<lparr>i_module = 0x5000, i_symbol = 0x5100, i_min_version = 2, i_resolved_version = 3, i_group_id = 0,
     i_flags = 0, i_table = 0x1000\<rparr>"

definition sample_expectation :: expectation where
  "sample_expectation = \<lparr>e_interface_id_lo = 9, e_interface_id_hi = 0, e_abi_major = 1, e_min_revision = 2,
     e_required_size = 40, e_known_required_flags = 0\<rparr>"

definition sample_binding_memory :: memory where
  "sample_binding_memory = place [(0x1000, sample_interface), (0x5000, [0x41, 0]), (0x5100, [0x42, 0])]"

lemma sample_interface_loads:
  "k + n \<le> 40 \<Longrightarrow> load_bytes sample_binding_memory (0x1000 + word_of_nat k) n = Some (take n (drop k sample_interface))"
  unfolding sample_binding_memory_def by (rule place_loads) (simp_all add: sample_interface_def)

lemma sample_interface_fields:
  "load_u32 sample_binding_memory 0x1000 = Some R4L_INTERFACE_MAGIC" "load_u16 sample_binding_memory 0x1004 = Some 1"
  "load_u16 sample_binding_memory 0x1006 = Some 0" "load_u32 sample_binding_memory 0x1008 = Some 40"
  "load_u16 sample_binding_memory 0x100C = Some 1" "load_u16 sample_binding_memory 0x100E = Some 3"
  "load_u64 sample_binding_memory 0x1010 = Some 9" "load_u64 sample_binding_memory 0x1018 = Some 0"
  using sample_interface_loads [of 0 4] sample_interface_loads [of 4 2] sample_interface_loads [of 6 2]
    sample_interface_loads [of 8 4] sample_interface_loads [of 12 2] sample_interface_loads [of 14 2]
    sample_interface_loads [of 16 8] sample_interface_loads [of 24 8]
  by (simp_all add: load_u16_def load_u32_def load_u64_def sample_interface_def)

lemma sample_binding:
  "r4l_validate_import sample_binding_memory (Some sample_named_import) (Some sample_expectation) (Some 5) =
    Some (BINDING_OK, Some 0x1000)"
  by (simp add: r4l_validate_import_def expectation_malformed_def import_refused_def header_status_def sample_interface_fields
    sample_named_import_def sample_expectation_def)

theorem r4l_validate_import_slots_witness:
  "\<exists>v. r4l_slot_address sample_binding_memory 0x1000 32 = Some v \<and> load_u64 sample_binding_memory 0x1020 = Some v"
proof -
  have "mapped sample_binding_memory 0x1000 40"
    using sample_interface_loads [of 0 40] load_bytes_mapped [of sample_binding_memory "0x1000" 40] by simp
  then show ?thesis
    using r4l_validate_import_slots [OF sample_binding, of 32] by (simp add: sample_interface_fields sample_expectation_def)
qed

text \<open>
  \<open>r4xstart_find_import_named\<close> returns the first import row whose two names equal the
  requested ones up to ASCII case, and null exactly when no row does. A requested name of
  more than 31 bytes matches nothing.\<close>

theorem find_import_named_is_first:
  assumes "rows_at K W c rows" and "cstring em" and "cstring es"
    and "\<forall>r \<in> set rows. row_names (w_mem W) r (mname r) (sname r)"
  shows "r4xstart_find_import_named K W (Some c) (Some em) (Some es) =
    Some (List.find (\<lambda>r. same_name (mname r) em \<and> same_name (sname r) es) rows)"
  using assms(4) by (intro find_import_named_first [OF assms(1-3)]) blast

text \<open>Two equal rows, found under names of another case.\<close>

definition sample_named_loader :: loader where
  "sample_named_loader = \<lparr>w_mem = sample_binding_memory, w_import = (\<lambda>_. Some sample_named_import), w_query = (\<lambda>_. None)\<rparr>"

theorem find_import_named_is_first_witness:
  "r4xstart_find_import_named sample_contract sample_named_loader (Some (sample_context\<lparr>c_import_count := 2\<rparr>)) (Some [0x61]) (Some [0x62]) =
    Some (Some sample_named_import)"
proof -
  have names: "string_at sample_binding_memory 0x5000 [0x41]" "string_at sample_binding_memory 0x5100 [0x42]"
    by (simp_all add: string_at_def sample_binding_memory_def cbyte_def le_Suc_eq cstring_def sample_interface_def)
  then have "row_names (w_mem sample_named_loader) sample_named_import [0x41] [0x42]"
    by (simp add: row_names_def sample_named_loader_def sample_named_import_def)
  moreover have "rows_at sample_contract sample_named_loader (sample_context\<lparr>c_import_count := 2\<rparr>)
      [sample_named_import, sample_named_import]"
    by (simp add: rows_at_def sample_contract_def sample_named_loader_def sample_context_def r4xstart_import_count_def nth_Cons')
  ultimately show ?thesis
    using find_import_named_is_first [of sample_contract sample_named_loader "sample_context\<lparr>c_import_count := 2\<rparr>"
      "[sample_named_import, sample_named_import]" "[0x61]" "[0x62]" "\<lambda>_. [0x41]" "\<lambda>_. [0x42]"]
    by (simp add: cstring_def same_name_def r4xstart_name_upper_def)
qed

text \<open>
  C14: \<open>r4l_validate_import\<close> has an answer whenever the 32 bytes of the named table's header
  can be read: no field is read past them, and a refused import leaves a null header.\<close>

theorem r4l_validate_import_answers:
  assumes "\<forall>it. item = Some it \<longrightarrow> mapped M (i_table it) 32"
  shows "\<exists>status header. r4l_validate_import M item expected (Some before) = Some (status, Some header) \<and>
    (status = BINDING_OK \<longleftrightarrow> header \<noteq> 0) \<and> (binding_code status = 0 \<longleftrightarrow> header \<noteq> 0)"
proof -
  from validate_import_total [of item M expected "Some before"] assms obtain status h where
    r: "r4l_validate_import M item expected (Some before) = Some (status, h)" by auto
  have "h = Some (if status = BINDING_OK then i_table (the item) else 0) \<and> (status = BINDING_OK \<longrightarrow> i_table (the item) \<noteq> 0)"
    using r unfolding r4l_validate_import_def Let_def
    by (auto simp: bind_eq_Some_conv import_refused_def split: if_splits option.splits)
  moreover have "binding_code status = 0 \<longleftrightarrow> status = BINDING_OK" by (cases status) simp_all
  ultimately show ?thesis using r by auto
qed

theorem r4l_validate_import_answers_witness:
  "\<exists>status header. r4l_validate_import sample_binding_memory (Some sample_named_import) None (Some 5) = Some (status, Some header)"
proof -
  have "mapped sample_binding_memory 0x1000 32"
    using sample_interface_loads [of 0 32] load_bytes_mapped [of sample_binding_memory "0x1000" 32] by simp
  then show ?thesis
    using r4l_validate_import_answers [of "Some sample_named_import" sample_binding_memory None 5]
    by (auto simp: sample_named_import_def)
qed

end
