(* ===== verification/Startup.thy ===== *)
theory Startup
  imports Binding
begin

text \<open>
  \<open>Shared/C/include/r4os/startup.h\<close>: the check of a start context against the facts
  the build generated from the module's manifest.
\<close>

subsection \<open>The code\<close>

record startup_import =
  d_module :: "bytes option"
  d_symbol :: "bytes option"
  d_minimum :: u32
  d_optional :: u32
  d_group_id :: u32
  d_magic :: u32
  d_version :: u32
  d_size :: u32

record startup_info =
  s_profile :: u8
  s_app_class :: u32
  s_required_groups :: u32
  s_import_count :: u32
  s_imports :: "startup_import list option"

abbreviation PTRDIFF_MAX :: u64 where "PTRDIFF_MAX \<equiv> 0x7FFFFFFFFFFFFFFF"

text \<open>The common header every group table starts with: magic, version, size.\<close>

definition group_header_ok :: "memory \<Rightarrow> u64 \<Rightarrow> u32 \<Rightarrow> u32 \<Rightarrow> u32 \<Rightarrow> bool option" where
  "group_header_ok M table magic version sz =
     do { m \<leftarrow> load_u32 M table;
          if m \<noteq> magic then Some False else
     do { v \<leftarrow> load_u32 M (table + 4);
          if v < version then Some False else
     do { s \<leftarrow> load_u32 M (table + 8);
          Some (\<not> s < sz) } } }"

text \<open>One row: an early return of the code, or the groups bound so far.\<close>

definition declared_row ::
  "start_contract \<Rightarrow> memory \<Rightarrow> start_import \<Rightarrow> startup_import \<Rightarrow> u32 \<Rightarrow> (i32 + u32) option" where
  "declared_row K M actual expected groups =
     (if d_minimum expected = 0 \<or> i_min_version actual \<noteq> d_minimum expected \<or>
         i_group_id actual \<noteq> d_group_id expected then Some (Inl (- 14))
      else do {
        m \<leftarrow> r4xstart_import_name_equal M (i_module actual) (d_module expected);
        s \<leftarrow> (if m then r4xstart_import_name_equal M (i_symbol actual) (d_symbol expected) else Some False);
        if \<not> s then Some (Inl (- 14))
        else if i_table actual = 0 then
          (if d_optional expected = 0 \<or> d_group_id expected \<noteq> 0 \<or> i_resolved_version actual \<noteq> 0 \<or> i_flags actual \<noteq> 0
           then Some (Inl (- 14)) else Some (Inr groups))
        else if i_resolved_version actual < d_minimum expected then Some (Inl (- 14))
        else if d_group_id expected = 0 then
          (if i_flags actual \<noteq> 0 then Some (Inl (- 14)) else Some (Inr groups))
        else if d_optional expected \<noteq> 0 \<or> d_group_id expected \<ge> 32 \<or> i_flags actual \<noteq> x_group_interface K \<or>
                i_table actual mod 8 \<noteq> 0 \<or> d_size expected < 16 then Some (Inl (- 14))
        else do {
          ok \<leftarrow> group_header_ok M (i_table actual) (d_magic expected) (d_version expected) (d_size expected);
          Some (if ok then Inr (groups OR push_bit (unat (d_group_id expected)) 1) else Inl (- 15)) } })"

text \<open>The loop over the rows; a row past either array has no value.\<close>

fun declared_loop ::
  "start_contract \<Rightarrow> memory \<Rightarrow> (nat \<Rightarrow> start_import option option) \<Rightarrow> startup_import list \<Rightarrow> nat \<Rightarrow> nat \<Rightarrow> u32 \<Rightarrow>
    (i32 + u32) option" where
  "declared_loop K M fetch rows i 0 groups = Some (Inr groups)"
| "declared_loop K M fetch rows i (Suc n) groups =
     (case fetch i of
        Some (Some actual) \<Rightarrow>
          if i < length rows then
            (case declared_row K M actual (rows ! i) groups of
               Some (Inr groups) \<Rightarrow> declared_loop K M fetch rows (i + 1) n groups
             | result \<Rightarrow> result)
          else None
      | _ \<Rightarrow> None)"

definition declared_context_ok :: "start_contract \<Rightarrow> start_context \<Rightarrow> startup_info \<Rightarrow> bool" where
  "declared_context_ok K c info \<longleftrightarrow>
     c_address c mod x_context_align K = 0 \<and> r4xstart_context_valid K (Some c) \<and> x_abi_minor K \<le> c_abi_minor c \<and>
     c_app_class c = s_app_class info \<and> c_flags c AND x_imports_valid K \<noteq> 0"

definition declared_ranges_ok :: "start_contract \<Rightarrow> start_context \<Rightarrow> startup_info \<Rightarrow> bool" where
  "declared_ranges_ok K c info \<longleftrightarrow>
     (let bytes = ucast (c_import_count c) * word_of_nat (x_import_size K) in
      c_import_count c = s_import_count info \<and>
      (c_import_count c \<noteq> 0 \<longrightarrow> c_imports c \<noteq> 0 \<and> s_imports info \<noteq> None) \<and>
      c_imports c mod x_import_align K = 0 \<and>
      c_imports c \<le> UINT64_MAX - bytes \<and>
      c_args_len c \<le> PTRDIFF_MAX \<and> (c_args_len c \<noteq> 0 \<longrightarrow> c_args c \<noteq> 0) \<and>
      c_args c \<le> UINT64_MAX - c_args_len c)"

definition r4xstart_validate_declared ::
  "start_contract \<Rightarrow> loader \<Rightarrow> start_context option \<Rightarrow> startup_info option \<Rightarrow> i32 option" where
  "r4xstart_validate_declared K W ctx info =
     (case (ctx, info) of
        (Some c, Some i) \<Rightarrow>
          if \<not> declared_context_ok K c i then Some (- 12)
          else if \<not> declared_ranges_ok K c i then Some (- 13)
          else
            (case declared_loop K (w_mem W) (r4xstart_import_at K W ctx)
                    (case s_imports i of None \<Rightarrow> [] | Some rows \<Rightarrow> rows) 0 (unat (c_import_count c)) 0 of
               None \<Rightarrow> None
             | Some (Inl code) \<Rightarrow> Some code
             | Some (Inr groups) \<Rightarrow>
                 Some (if groups AND s_required_groups i = s_required_groups i then 0 else - 15))
      | _ \<Rightarrow> Some (- 12))"

subsection \<open>What acceptance says of each row\<close>

definition row_accepted :: "start_contract \<Rightarrow> memory \<Rightarrow> start_import \<Rightarrow> startup_import \<Rightarrow> bool" where
  "row_accepted K M actual expected \<longleftrightarrow>
     d_minimum expected \<noteq> 0 \<and> i_min_version actual = d_minimum expected \<and> i_group_id actual = d_group_id expected \<and>
     r4xstart_import_name_equal M (i_module actual) (d_module expected) = Some True \<and>
     r4xstart_import_name_equal M (i_symbol actual) (d_symbol expected) = Some True \<and>
     (i_table actual = 0 \<longrightarrow> d_optional expected \<noteq> 0 \<and> d_group_id expected = 0) \<and>
     (i_table actual \<noteq> 0 \<longrightarrow> d_minimum expected \<le> i_resolved_version actual) \<and>
     (d_group_id expected \<noteq> 0 \<longrightarrow>
        d_optional expected = 0 \<and> d_group_id expected < 32 \<and> i_table actual \<noteq> 0 \<and> i_flags actual = x_group_interface K \<and>
        group_header_ok M (i_table actual) (d_magic expected) (d_version expected) (d_size expected) = Some True)"

definition row_group :: "startup_import \<Rightarrow> u32" where
  "row_group d = (if d_group_id d = 0 then 0 else push_bit (unat (d_group_id d)) 1)"

lemma declared_row_accepts:
  assumes "declared_row K M actual expected groups = Some (Inr groups')"
  shows "row_accepted K M actual expected \<and> groups' = groups OR row_group expected"
  using assms unfolding declared_row_def row_accepted_def row_group_def
  by (auto simp: bind_eq_Some_conv not_less not_le split: if_splits)

lemma declared_row_code:
  "declared_row K M actual expected groups = Some (Inl code) \<Longrightarrow> code = - 14 \<or> code = - 15"
  unfolding declared_row_def by (auto simp: bind_eq_Some_conv split: if_splits)

lemma declared_loop_accepts:
  "declared_loop K M fetch rows i n groups = Some (Inr groups') \<Longrightarrow>
    (n \<noteq> 0 \<longrightarrow> i + n \<le> length rows) \<and>
    (\<forall>j. i \<le> j \<and> j < i + n \<longrightarrow> (\<exists>actual. fetch j = Some (Some actual) \<and> j < length rows \<and> row_accepted K M actual (rows ! j))) \<and>
    groups' = fold (\<lambda>d g. g OR row_group d) (take n (drop i rows)) groups"
proof (induction K M fetch rows i n groups rule: declared_loop.induct)
  case (2 K M fetch rows i n groups)
  from 2(2) obtain actual g where *: "fetch i = Some (Some actual)" "i < length rows"
    "declared_row K M actual (rows ! i) groups = Some (Inr g)"
    "declared_loop K M fetch rows (i + 1) n g = Some (Inr groups')"
    by (auto split: option.splits if_splits sum.splits)
  note row = declared_row_accepts [OF *(3)]
  note IH = "2.IH" [OF *(1) refl *(2,3) refl *(4)]
  have "take (Suc n) (drop i rows) = rows ! i # take n (drop (i + 1) rows)"
    using *(2) by (simp add: Cons_nth_drop_Suc [symmetric])
  moreover have "\<exists>a. fetch j = Some (Some a) \<and> j < length rows \<and> row_accepted K M a (rows ! j)"
    if "i \<le> j" "j < i + Suc n" for j
    using that IH row *(1,2) by (cases "j = i") auto
  moreover have "i + Suc n \<le> length rows" using IH *(2) by (cases n) auto
  ultimately show ?case using IH row by auto
qed auto

lemma declared_loop_code:
  "declared_loop K M fetch rows i n groups = Some (Inl code) \<Longrightarrow> code = - 14 \<or> code = - 15"
  by (induction K M fetch rows i n groups rule: declared_loop.induct)
    (auto split: option.splits if_splits sum.splits dest: declared_row_code)

lemma fold_groups: "fold (\<lambda>d g. g OR row_group d) ds groups = groups OR fold (\<lambda>d g. g OR row_group d) ds 0"
proof (induction ds arbitrary: groups)
  case (Cons d ds)
  from Cons [of "groups OR row_group d"] Cons [of "row_group d"] show ?case by (simp add: ac_simps)
qed simp

lemma bit_row_group: "bit (row_group d) n \<longleftrightarrow> d_group_id d \<noteq> 0 \<and> n = unat (d_group_id d) \<and> n < 32"
  by (auto simp: row_group_def bit_simps)

lemma bit_fold_groups:
  "bit (fold (\<lambda>d g. g OR row_group d) ds 0) n \<longleftrightarrow>
    n < 32 \<and> (\<exists>d \<in> set ds. d_group_id d \<noteq> 0 \<and> unat (d_group_id d) = n)"
proof (induction ds)
  case (Cons d ds)
  have "fold (\<lambda>d g. g OR row_group d) (d # ds) 0 = row_group d OR fold (\<lambda>d g. g OR row_group d) ds 0"
    using fold_groups [of ds "row_group d"] by simp
  then show ?case by (auto simp: bit_or_iff bit_row_group Cons)
qed simp

text \<open>Acceptance of the whole context, with the rows it describes.\<close>

lemma validate_declared_accepts:
  assumes "r4xstart_validate_declared K W (Some c) (Some info) = Some 0"
  obtains rows ds where "rows_at K W c rows" and "length ds = length rows"
    and "rows \<noteq> [] \<Longrightarrow> \<exists>more. s_imports info = Some (ds @ more)"
    and "list_all2 (row_accepted K (w_mem W)) rows ds"
    and "r4xstart_context_valid K (Some c)" and "c_app_class c = s_app_class info"
    and "\<And>n. bit (s_required_groups info) n \<Longrightarrow> \<exists>d \<in> set ds. d_group_id d \<noteq> 0 \<and> unat (d_group_id d) = n"
proof -
  define decl where "decl = (case s_imports info of None \<Rightarrow> [] | Some rows \<Rightarrow> rows)"
  define n where "n = unat (c_import_count c)"
  define fetch where "fetch = r4xstart_import_at K W (Some c)"
  from assms obtain groups where ok: "declared_context_ok K c info" "declared_ranges_ok K c info"
    and loop: "declared_loop K (w_mem W) fetch decl 0 n 0 = Some (Inr groups)"
    and groups: "groups AND s_required_groups info = s_required_groups info"
    unfolding r4xstart_validate_declared_def decl_def n_def fetch_def
    by (auto split: option.splits sum.splits if_splits dest!: declared_loop_code)
  note facts = declared_loop_accepts [OF loop]
  have row: "\<exists>actual. fetch j = Some (Some actual) \<and> j < length decl \<and> row_accepted K (w_mem W) actual (decl ! j)"
    if "j < n" for j using facts that by auto
  define rows where "rows = map (\<lambda>j. the (the (fetch j))) [0..<n]"
  define ds where "ds = take n decl"
  have len: "length rows = n" by (simp add: rows_def)
  have nth: "fetch j = Some (Some (rows ! j)) \<and> j < length decl \<and> row_accepted K (w_mem W) (rows ! j) (decl ! j)"
    if "j < n" for j using row [OF that] that by (auto simp: rows_def)
  have lends: "length ds = n" using facts by (cases n) (auto simp: ds_def)
  have count: "r4xstart_import_count K (Some c) = c_import_count c"
    using ok(1) by (simp add: r4xstart_import_count_def declared_context_ok_def)
  show thesis
  proof (rule that)
    show "rows_at K W c rows"
      unfolding rows_at_def
    proof (intro conjI allI impI)
      show "length rows = unat (r4xstart_import_count K (Some c))" by (simp add: len count n_def)
      show "c_imports c \<noteq> 0" if "rows \<noteq> []"
      proof -
        have "n \<noteq> 0" using that len by auto
        then show ?thesis using ok(2) by (auto simp: declared_ranges_ok_def Let_def n_def)
      qed
      fix i assume "i < length rows"
      then show "w_import W (c_imports c + word_of_nat (i * x_import_size K)) = Some (rows ! i)"
        using nth [of i] len by (auto simp: fetch_def r4xstart_import_at_def split: if_splits)
    qed
    show "length ds = length rows" by (simp add: len lends)
    show "\<exists>more. s_imports info = Some (ds @ more)" if "rows \<noteq> []"
    proof -
      have "decl \<noteq> []" using nth [of 0] that len by auto
      then have "s_imports info = Some decl" by (auto simp: decl_def split: option.splits)
      then show ?thesis unfolding ds_def by (metis append_take_drop_id)
    qed
    show "list_all2 (row_accepted K (w_mem W)) rows ds"
      unfolding list_all2_conv_all_nth using nth len lends by (auto simp: ds_def)
    show "r4xstart_context_valid K (Some c)" "c_app_class c = s_app_class info"
      using ok(1) by (auto simp: declared_context_ok_def)
    show "\<exists>d \<in> set ds. d_group_id d \<noteq> 0 \<and> unat (d_group_id d) = m" if "bit (s_required_groups info) m" for m
    proof -
      have "bit groups m" using that groups by (metis bit_and_iff)
      moreover have "groups = fold (\<lambda>d g. g OR row_group d) ds 0" using facts by (simp add: ds_def)
      ultimately show ?thesis by (simp add: bit_fold_groups)
    qed
  qed
qed

subsection \<open>What each code says\<close>

text \<open>
  The rules of the start contract, stage by stage and independent of the order in which the code tests
  them. The context: magic, version, size, application class, alignment, and its imports declared valid.
\<close>

definition context_sound :: "start_contract \<Rightarrow> start_context \<Rightarrow> startup_info \<Rightarrow> bool" where
  "context_sound K c info \<longleftrightarrow> c_magic c = x_magic K \<and> c_abi_major c = x_abi_major K \<and> x_abi_minor K \<le> c_abi_minor c \<and>
     x_context_size K \<le> c_size c \<and> c_app_class c = s_app_class info \<and> unat (x_context_align K) dvd unat (c_address c) \<and>
     (\<exists>n. bit (c_flags c) n \<and> bit (x_imports_valid K) n)"

text \<open>The two ranges: as many rows as declared, and nothing that runs past the address space.\<close>

definition ranges_sound :: "start_contract \<Rightarrow> start_context \<Rightarrow> startup_info \<Rightarrow> bool" where
  "ranges_sound K c info \<longleftrightarrow> c_import_count c = s_import_count info \<and>
     (0 < unat (c_import_count c) \<longrightarrow> c_imports c \<noteq> 0 \<and> s_imports info \<noteq> None) \<and>
     unat (x_import_align K) dvd unat (c_imports c) \<and>
     unat (c_imports c) + unat (c_import_count c) * x_import_size K < 2 ^ 64 \<and>
     unat (c_args_len c) < 2 ^ 63 \<and> (0 < unat (c_args_len c) \<longrightarrow> c_args c \<noteq> 0) \<and> unat (c_args c) + unat (c_args_len c) < 2 ^ 64"

text \<open>Row \<open>j\<close> of the context with the declared row it stands for.\<close>

definition declared_pair :: "start_contract \<Rightarrow> loader \<Rightarrow> start_context \<Rightarrow> startup_info \<Rightarrow> nat \<Rightarrow> (start_import \<times> startup_import) option" where
  "declared_pair K W c info j =
     (case (w_import W (c_imports c + word_of_nat (j * x_import_size K)), s_imports info) of
        (Some a, Some ds) \<Rightarrow> if j < length ds then Some (a, ds ! j) else None
      | _ \<Rightarrow> None)"

text \<open>The row itself, and the header of the group table it names.\<close>

definition row_agrees :: "start_contract \<Rightarrow> memory \<Rightarrow> start_import \<Rightarrow> startup_import \<Rightarrow> bool" where
  "row_agrees K M a d \<longleftrightarrow> d_minimum d \<noteq> 0 \<and> i_min_version a = d_minimum d \<and> i_group_id a = d_group_id d \<and>
     r4xstart_import_name_equal M (i_module a) (d_module d) = Some True \<and>
     r4xstart_import_name_equal M (i_symbol a) (d_symbol d) = Some True \<and>
     (i_table a = 0 \<longrightarrow> d_optional d \<noteq> 0 \<and> d_group_id d = 0 \<and> i_resolved_version a = 0) \<and>
     (i_table a \<noteq> 0 \<longrightarrow> d_minimum d \<le> i_resolved_version a) \<and>
     (d_group_id d = 0 \<longrightarrow> i_flags a = 0) \<and>
     (d_group_id d \<noteq> 0 \<longrightarrow> d_optional d = 0 \<and> unat (d_group_id d) < 32 \<and> i_flags a = x_group_interface K \<and>
        8 dvd unat (i_table a) \<and> 16 \<le> unat (d_size d))"

definition header_fits :: "memory \<Rightarrow> start_import \<Rightarrow> startup_import \<Rightarrow> bool" where
  "header_fits M a d \<longleftrightarrow> d_group_id d = 0 \<or>
     (\<exists>v sz. load_u32 M (i_table a) = Some (d_magic d) \<and> load_u32 M (i_table a + 4) = Some v \<and> d_version d \<le> v \<and>
        load_u32 M (i_table a + 8) = Some sz \<and> d_size d \<le> sz)"

definition row_passes :: "start_contract \<Rightarrow> loader \<Rightarrow> start_context \<Rightarrow> startup_info \<Rightarrow> nat \<Rightarrow> bool" where
  "row_passes K W c info j \<longleftrightarrow>
     (\<exists>a d. declared_pair K W c info j = Some (a, d) \<and> row_agrees K (w_mem W) a d \<and> header_fits (w_mem W) a d)"

text \<open>A required group is present when a row of the context binds it.\<close>

definition groups_present :: "start_contract \<Rightarrow> loader \<Rightarrow> start_context \<Rightarrow> startup_info \<Rightarrow> bool" where
  "groups_present K W c info \<longleftrightarrow>
     (\<forall>g. bit (s_required_groups info) g \<longrightarrow>
        (\<exists>j a d. j < unat (c_import_count c) \<and> declared_pair K W c info j = Some (a, d) \<and> d_group_id d \<noteq> 0 \<and> unat (d_group_id d) = g))"

lemma mod_0_iff_dvd: "(a :: 'a::len word) mod b = 0 \<longleftrightarrow> unat b dvd unat a"
  by (simp add: dvd_eq_mod_eq_0 unat_mod_distrib [symmetric] unsigned_eq_0_iff)

lemma context_sound_iff: "declared_context_ok K c info \<longleftrightarrow> context_sound K c info"
proof -
  have "c_flags c AND x_imports_valid K \<noteq> 0 \<longleftrightarrow> (\<exists>n. bit (c_flags c) n \<and> bit (x_imports_valid K) n)"
    using bit_imp_le_length [of "c_flags c"] by (auto simp: bit_eq_iff bit_and_iff)
  then show ?thesis
    by (auto simp: declared_context_ok_def context_sound_def r4xstart_context_valid_def mod_0_iff_dvd)
qed

lemma ranges_sound_iff:
  assumes "x_import_size K < 2 ^ 32"
  shows "declared_ranges_ok K c info \<longleftrightarrow> ranges_sound K c info"
proof -
  let ?b = "unat (c_import_count c) * x_import_size K"
  have "?b < 2 ^ 32 * 2 ^ 32" using assms unat_bound [of "c_import_count c"] by (intro mult_strict_mono') simp_all
  then have bytes: "unat (ucast (c_import_count c) * word_of_nat (x_import_size K) :: u64) = ?b"
    using assms unat_bound [of "c_import_count c"]
    by (simp add: unat_word_ariths unsigned_ucast_eq take_bit_nat_eq_self unsigned_of_nat)
  have "c_imports c \<le> UINT64_MAX - ucast (c_import_count c) * word_of_nat (x_import_size K) \<longleftrightarrow> unat (c_imports c) + ?b < 2 ^ 64"
    using no_wrap_iff [of "ucast (c_import_count c) * word_of_nat (x_import_size K)" "c_imports c"] bytes by (simp add: not_less)
  moreover have "c_args c \<le> UINT64_MAX - c_args_len c \<longleftrightarrow> unat (c_args c) + unat (c_args_len c) < 2 ^ 64"
    using no_wrap_iff [of "c_args_len c" "c_args c"] by (simp add: not_less)
  moreover have "c_args_len c \<le> PTRDIFF_MAX \<longleftrightarrow> unat (c_args_len c) < 2 ^ 63" by (auto simp: word_le_nat_alt)
  moreover have "0 < unat (c_import_count c) \<longleftrightarrow> c_import_count c \<noteq> 0" "0 < unat (c_args_len c) \<longleftrightarrow> c_args_len c \<noteq> 0"
    by (simp_all add: unat_gt_0)
  ultimately show ?thesis unfolding declared_ranges_ok_def ranges_sound_def Let_def by (simp add: mod_0_iff_dvd)
qed

lemma group_header_fits: "group_header_ok M (i_table a) (d_magic d) (d_version d) (d_size d) = Some ok \<Longrightarrow> d_group_id d \<noteq> 0 \<Longrightarrow> ok = header_fits M a d"
  by (auto simp: group_header_ok_def header_fits_def bind_eq_Some_conv not_less split: if_split_asm)

text \<open>The verdict on one row, and on the first that does not pass.\<close>

definition row_verdict :: "start_contract \<Rightarrow> memory \<Rightarrow> start_import \<Rightarrow> startup_import \<Rightarrow> i32 \<Rightarrow> bool" where
  "row_verdict K M a d code \<longleftrightarrow> (if row_agrees K M a d then \<not> header_fits M a d \<and> code = - 15 else code = - 14)"

lemma declared_row_result:
  assumes "declared_row K M a d groups = Some result"
  shows "case result of Inr g \<Rightarrow> row_agrees K M a d \<and> header_fits M a d | Inl code \<Rightarrow> row_verdict K M a d code"
proof -
  have small: "(32 \<le> d_group_id d) = (\<not> unat (d_group_id d) < 32)" "(d_size d < 16) = (\<not> 16 \<le> unat (d_size d))"
    by (auto simp: word_le_nat_alt word_less_nat_alt)
  note eight = mod_0_iff_dvd [of "i_table a" 8, simplified]
  show ?thesis using assms unfolding declared_row_def row_verdict_def
    by (auto simp: bind_eq_Some_conv small eight row_agrees_def not_less dest: group_header_fits split: if_split_asm)
      (auto simp: header_fits_def)
qed

text \<open>The first row that does not pass decides; there is at most one such row.\<close>

definition first_failing :: "start_contract \<Rightarrow> loader \<Rightarrow> start_context \<Rightarrow> startup_info \<Rightarrow> start_import \<Rightarrow> startup_import \<Rightarrow> bool" where
  "first_failing K W c info a d \<longleftrightarrow>
     (\<exists>j < unat (c_import_count c). declared_pair K W c info j = Some (a, d) \<and> \<not> row_passes K W c info j \<and> (\<forall>i < j. row_passes K W c info i))"

lemma first_failing_unique: "first_failing K W c info a d \<Longrightarrow> first_failing K W c info a' d' \<Longrightarrow> a' = a \<and> d' = d"
  unfolding first_failing_def by (metis nat_neq_iff option.inject prod.inject)

lemma row_verdict_fails:
  "row_verdict K (w_mem W) a d code \<Longrightarrow> declared_pair K W c info j = Some (a, d) \<Longrightarrow> \<not> row_passes K W c info j"
  by (auto simp: row_verdict_def row_passes_def split: if_split_asm)

lemma declared_loop_result:
  assumes fetch: "\<And>j. j < i + n \<Longrightarrow> (case fetch j of Some (Some a) \<Rightarrow> j < length rows \<longrightarrow> declared_pair K W c info j = Some (a, rows ! j) | _ \<Rightarrow> True)"
    and "declared_loop K (w_mem W) fetch rows i n groups = Some result"
  shows "case result of
      Inr _ \<Rightarrow> \<forall>j. i \<le> j \<longrightarrow> j < i + n \<longrightarrow> row_passes K W c info j
    | Inl code \<Rightarrow> \<exists>j a d. i \<le> j \<and> j < i + n \<and> declared_pair K W c info j = Some (a, d) \<and> (\<forall>k. i \<le> k \<longrightarrow> k < j \<longrightarrow> row_passes K W c info k) \<and>
        row_verdict K (w_mem W) a d code"
  using assms
proof (induction n arbitrary: i groups)
  case (Suc n)
  from Suc.prems(2) obtain a r where fi: "fetch i = Some (Some a)" "i < length rows"
    and row: "declared_row K (w_mem W) a (rows ! i) groups = Some r"
    and rest: "case r of Inl code \<Rightarrow> result = Inl code | Inr g \<Rightarrow> declared_loop K (w_mem W) fetch rows (i + 1) n g = Some result"
    by (auto split: option.split_asm if_split_asm sum.split_asm)
  have pair: "declared_pair K W c info i = Some (a, rows ! i)" using Suc.prems(1) [of i] fi by simp
  show ?case
  proof (cases r)
    case (Inl code)
    then have "row_verdict K (w_mem W) a (rows ! i) code" using declared_row_result [OF row] by simp
    moreover have "result = Inl code" using rest Inl by simp
    ultimately show ?thesis using pair by (auto intro!: exI [of _ i])
  next
    case (Inr g)
    have passes: "row_passes K W c info i" using declared_row_result [OF row] pair Inr by (auto simp: row_passes_def)
    have "declared_loop K (w_mem W) fetch rows (i + 1) n g = Some result" using rest Inr by simp
    from Suc.IH [OF _ this] have ih: "case result of
        Inr _ \<Rightarrow> \<forall>j. i + 1 \<le> j \<longrightarrow> j < i + 1 + n \<longrightarrow> row_passes K W c info j
      | Inl code \<Rightarrow> \<exists>j a d. i + 1 \<le> j \<and> j < i + 1 + n \<and> declared_pair K W c info j = Some (a, d) \<and>
          (\<forall>k. i + 1 \<le> k \<longrightarrow> k < j \<longrightarrow> row_passes K W c info k) \<and> row_verdict K (w_mem W) a d code"
      using Suc.prems(1) by simp
    have from_i: "i \<le> k \<longleftrightarrow> k = i \<or> i + 1 \<le> k" for k by auto
    show ?thesis
    proof (cases result)
      case (Inr x)
      then show ?thesis using ih passes from_i by auto
    next
      case (Inl code)
      then obtain j a d where "i + 1 \<le> j" "j < i + 1 + n" "declared_pair K W c info j = Some (a, d)"
        "\<forall>k. i + 1 \<le> k \<longrightarrow> k < j \<longrightarrow> row_passes K W c info k" "row_verdict K (w_mem W) a d code" using ih by auto
      then show ?thesis using Inl passes from_i by (auto intro!: exI [of _ j])
    qed
  qed
qed (auto split: sum.split)

lemma declared_groups_present:
  assumes loop: "declared_loop K (w_mem W) fetch rows 0 (unat (c_import_count c)) 0 = Some (Inr groups)"
    and pair: "\<And>j. j < unat (c_import_count c) \<Longrightarrow> \<exists>a. declared_pair K W c info j = Some (a, rows ! j)"
  shows "groups AND s_required_groups info = s_required_groups info \<longleftrightarrow> groups_present K W c info"
proof -
  let ?n = "unat (c_import_count c)"
  note facts = declared_loop_accepts [OF loop]
  have groups: "groups = fold (\<lambda>d g. g OR row_group d) (take ?n rows) 0" using facts by simp
  have len: "?n \<le> length rows" using facts by (cases ?n) auto
  have bits: "bit groups g \<longleftrightarrow> (\<exists>j < ?n. d_group_id (rows ! j) \<noteq> 0 \<and> unat (d_group_id (rows ! j)) = g)" for g
  proof -
    have "unat (d_group_id (rows ! j)) < 32" if "j < ?n" for j
      using facts that by (auto simp: row_accepted_def word_less_nat_alt unsigned_eq_0_iff)
    then show ?thesis unfolding groups bit_fold_groups nth_image [OF len, symmetric] by auto
  qed
  have "groups AND s_required_groups info = s_required_groups info \<longleftrightarrow> (\<forall>g. bit (s_required_groups info) g \<longrightarrow> bit groups g)"
    using bit_imp_le_length [of "s_required_groups info"] by (simp add: bit_eq_iff bit_and_iff) blast
  also have "\<dots> \<longleftrightarrow> groups_present K W c info"
    unfolding bits groups_present_def using pair by (metis (no_types, lifting) option.inject prod.inject)
  finally show ?thesis .
qed

text \<open>
  C15: The codes of \<open>r4xstart_validate_declared\<close> name the first stage that fails, exactly: -12 the
  context (magic, version, size, class, alignment, imports declared valid), -13 its import and argument
  ranges, and after these the first row that does not pass: -14 when the row itself disagrees with the
  manifest (version, group, names, presence, flags, alignment, size), -15 when only the header of the group
  table it names does not fit. -15 also stands for a required group no row binds, and 0 for a context
  that passes all of it. No other code exists.\<close>

theorem declared_codes_name_stage:
  assumes "r4xstart_validate_declared K W (Some c) (Some info) = Some code" and "x_import_size K < 2 ^ 32"
  shows "(code = - 12 \<longleftrightarrow> \<not> context_sound K c info) \<and>
    (code = - 13 \<longleftrightarrow> context_sound K c info \<and> \<not> ranges_sound K c info) \<and>
    (code = - 14 \<longleftrightarrow> context_sound K c info \<and> ranges_sound K c info \<and>
      (\<exists>a d. first_failing K W c info a d \<and> \<not> row_agrees K (w_mem W) a d)) \<and>
    (code = - 15 \<longleftrightarrow> context_sound K c info \<and> ranges_sound K c info \<and>
      ((\<exists>a d. first_failing K W c info a d \<and> row_agrees K (w_mem W) a d) \<or>
       (\<forall>j < unat (c_import_count c). row_passes K W c info j) \<and> \<not> groups_present K W c info)) \<and>
    (code = 0 \<longleftrightarrow> context_sound K c info \<and> ranges_sound K c info \<and>
      (\<forall>j < unat (c_import_count c). row_passes K W c info j) \<and> groups_present K W c info) \<and>
    code \<in> {0, - 12, - 13, - 14, - 15}"
proof -
  note sound = context_sound_iff [of K c info] ranges_sound_iff [OF assms(2), of c info]
  show ?thesis
  proof (cases "context_sound K c info \<and> ranges_sound K c info")
    case False
    then have "code = (if context_sound K c info then - 13 else - 12)"
      using assms(1) by (auto simp: r4xstart_validate_declared_def sound split: if_split_asm)
    then show ?thesis using False by auto
  next
    case True
    let ?rows = "case s_imports info of None \<Rightarrow> [] | Some rows \<Rightarrow> rows" and ?n = "unat (c_import_count c)"
    let ?fetch = "r4xstart_import_at K W (Some c)"
    from True obtain result where loop: "declared_loop K (w_mem W) ?fetch ?rows 0 ?n 0 = Some result"
      and code: "code = (case result of Inl code \<Rightarrow> code | Inr groups \<Rightarrow> if groups AND s_required_groups info = s_required_groups info then 0 else - 15)"
      using assms(1) by (auto simp: r4xstart_validate_declared_def sound split: option.split_asm sum.split_asm if_split_asm)
    have fetch: "case ?fetch j of Some (Some a) \<Rightarrow> j < length ?rows \<longrightarrow> declared_pair K W c info j = Some (a, ?rows ! j) | _ \<Rightarrow> True" for j
      by (auto simp: r4xstart_import_at_def declared_pair_def split: option.split)
    note verdict = declared_loop_result [OF fetch loop]
    show ?thesis
    proof (cases result)
      case (Inr groups)
      then have all: "\<forall>j < ?n. row_passes K W c info j" using verdict by simp
      have "\<exists>a. declared_pair K W c info j = Some (a, ?rows ! j)" if "j < ?n" for j
      proof -
        have "row_passes K W c info j" using all that by simp
        then obtain a d where "declared_pair K W c info j = Some (a, d)" unfolding row_passes_def by blast
        then show ?thesis by (auto simp: declared_pair_def split: option.split_asm if_split_asm)
      qed
      from declared_groups_present [OF loop [unfolded Inr] this] have
        "groups AND s_required_groups info = s_required_groups info \<longleftrightarrow> groups_present K W c info" .
      then have "code = (if groups_present K W c info then 0 else - 15)" using code Inr by simp
      moreover have "\<not> first_failing K W c info a d" for a d using all by (auto simp: first_failing_def)
      ultimately show ?thesis using True all by auto
    next
      case (Inl failed)
      then obtain j a d where j: "j < ?n" "declared_pair K W c info j = Some (a, d)" "\<forall>k < j. row_passes K W c info k"
        and v: "row_verdict K (w_mem W) a d failed" using verdict by auto
      have first: "first_failing K W c info a d" using j row_verdict_fails [OF v j(2)] by (auto simp: first_failing_def)
      have "\<not> (\<forall>j < ?n. row_passes K W c info j)" using j row_verdict_fails [OF v j(2)] by blast
      moreover have "code = (if row_agrees K (w_mem W) a d then - 15 else - 14)" using code Inl v by (auto simp: row_verdict_def split: if_split_asm)
      moreover have "(\<exists>a d. first_failing K W c info a d \<and> \<not> row_agrees K (w_mem W) a d) \<longleftrightarrow> \<not> row_agrees K (w_mem W) a d"
        "(\<exists>a d. first_failing K W c info a d \<and> row_agrees K (w_mem W) a d) \<longleftrightarrow> row_agrees K (w_mem W) a d"
        using first first_failing_unique [OF first] by metis+
      ultimately show ?thesis using True by (cases "row_agrees K (w_mem W) a d") simp_all
    qed
  qed
qed

text \<open>A context with one import row more than declared.\<close>

theorem declared_codes_name_stage_witness:
  "r4xstart_validate_declared sample_contract sample_named_loader (Some sample_context)
     (Some \<lparr>s_profile = 0, s_app_class = 0, s_required_groups = 0, s_import_count = 0, s_imports = None\<rparr>) = Some (- 13) \<and>
   context_sound sample_contract sample_context \<lparr>s_profile = 0, s_app_class = 0, s_required_groups = 0, s_import_count = 0, s_imports = None\<rparr> \<and>
   \<not> ranges_sound sample_contract sample_context
     \<lparr>s_profile = 0, s_app_class = 0, s_required_groups = 0, s_import_count = 0, s_imports = None\<rparr>"
proof -
  let ?i = "\<lparr>s_profile = 0, s_app_class = 0, s_required_groups = 0, s_import_count = 0, s_imports = None\<rparr>"
  have run: "r4xstart_validate_declared sample_contract sample_named_loader (Some sample_context) (Some ?i) = Some (- 13)"
    by (simp add: r4xstart_validate_declared_def declared_context_ok_def declared_ranges_ok_def r4xstart_context_valid_def
      sample_contract_def sample_context_def)
  have "x_import_size sample_contract < 2 ^ 32" by (simp add: sample_contract_def)
  from declared_codes_name_stage [OF run this] run show ?thesis by simp
qed

end
