(* ===== verification/Platform.thy ===== *)
theory Platform
  imports Binding
begin

text \<open>
  How the SDK's headers reach the platform: a group table is a block of memory whose
  size word stands at offset 8 and whose slots hold the addresses of the platform's
  functions. A wrapper tests its arguments and the slot, prepares its output objects
  and calls through the slot.

  \<open>platform\<close> holds what the generated contract header and the running platform
  supply: member offsets and sizes and numeric constants by name, and the effect of a
  call on memory and on the platform's own state. A wrapper is a function from the
  machine to its result and the next machine, \<open>None\<close> when the code would touch
  unmapped memory; the machine logs the calls made.
\<close>

subsection \<open>The machine and its steps\<close>

text \<open>
  \<open>p_off T m\<close> and \<open>p_len T m\<close> place member \<open>m\<close> in type \<open>T\<close>, \<open>p_frame\<close> is the address of a
  wrapper's only local object, \<open>p_local x\<close> that of the local \<open>x\<close> of a longer function, and \<open>p_run\<close> is what a platform function does.
\<close>

record 'w platform =
  p_off :: "string \<Rightarrow> string \<Rightarrow> nat"
  p_len :: "string \<Rightarrow> string \<Rightarrow> nat"
  p_size :: "string \<Rightarrow> nat"
  p_code :: "string \<Rightarrow> u32"
  p_frame :: u64
  p_local :: "string \<Rightarrow> u64"
  p_run :: "u64 \<Rightarrow> u64 list \<Rightarrow> memory \<Rightarrow> 'w \<Rightarrow> u64 \<times> memory \<times> 'w"

record 'w machine =
  m_mem :: memory
  m_calls :: "(u64 \<times> u64 list) list"
  m_os :: 'w

type_synonym ('a, 'w) io = "'w machine \<Rightarrow> ('a \<times> 'w machine) option"
type_synonym query = "memory \<Rightarrow> bool option"

definition give :: "'a \<Rightarrow> ('a, 'w) io" where
  "give x s = Some (x, s)"

definition and_then :: "('a, 'w) io \<Rightarrow> ('a \<Rightarrow> ('b, 'w) io) \<Rightarrow> ('b, 'w) io" where
  "and_then p k s = (case p s of None \<Rightarrow> None | Some (x, s) \<Rightarrow> k x s)"

definition ask :: "query \<Rightarrow> (bool \<Rightarrow> ('a, 'w) io) \<Rightarrow> ('a, 'w) io" where
  "ask q k s = (case q (m_mem s) of None \<Rightarrow> None | Some b \<Rightarrow> k b s)"

definition call_fn :: "'w platform \<Rightarrow> u64 \<Rightarrow> u64 list \<Rightarrow> (u64, 'w) io" where
  "call_fn E f args s =
     (case p_run E f args (m_mem s) (m_os s) of
        (r, M, w) \<Rightarrow> Some (r, \<lparr>m_mem = M, m_calls = m_calls s @ [(f, args)], m_os = w\<rparr>))"

text \<open>The call through slot \<open>slot\<close> of a table of type \<open>T\<close>; the result register is read at the declared type.\<close>

definition call_slot :: "'w platform \<Rightarrow> string \<Rightarrow> u64 \<Rightarrow> string \<Rightarrow> u64 list \<Rightarrow> ('a::len word, 'w) io" where
  "call_slot E T t slot args s =
     (case load_u64 (m_mem s) (t + word_of_nat (p_off E T slot)) of
        None \<Rightarrow> None
      | Some f \<Rightarrow> and_then (call_fn E f args) (\<lambda>r. give (ucast r)) s)"

definition store :: "u64 \<Rightarrow> bytes \<Rightarrow> (unit, 'w) io" where
  "store a bs s = map_option (\<lambda>M. ((), s\<lparr>m_mem := M\<rparr>)) (store_bytes (m_mem s) a bs)"

text \<open>\<open>*a = (T){0}\<close>, \<open>a->member = v\<close> and \<open>*dst = *src\<close> for a type \<open>T\<close> of the contract.\<close>

definition clear_obj :: "'w platform \<Rightarrow> u64 \<Rightarrow> string \<Rightarrow> (unit, 'w) io" where
  "clear_obj E a T = store a (replicate (p_size E T) 0)"

definition put_member :: "'w platform \<Rightarrow> u64 \<Rightarrow> string \<Rightarrow> string \<Rightarrow> u64 \<Rightarrow> (unit, 'w) io" where
  "put_member E a T member v = store (a + word_of_nat (p_off E T member)) (le_bytes (p_len E T member) v)"

definition copy_obj :: "'w platform \<Rightarrow> u64 \<Rightarrow> u64 \<Rightarrow> string \<Rightarrow> (unit, 'w) io" where
  "copy_obj E dst src T s =
     (case load_bytes (m_mem s) src (p_size E T) of None \<Rightarrow> None | Some bs \<Rightarrow> store dst bs s)"

definition sizeof :: "'w platform \<Rightarrow> string \<Rightarrow> u64" where
  "sizeof E T = word_of_nat (p_size E T)"

text \<open>The two members the SDK's versioned objects start with, set before a call.\<close>

definition put_header :: "'w platform \<Rightarrow> u64 \<Rightarrow> string \<Rightarrow> u64 \<Rightarrow> u64 \<Rightarrow> (unit, 'w) io" where
  "put_header E a T version sz =
     and_then (put_member E a T ''version'' version) (\<lambda>_. put_member E a T ''size'' sz)"

subsection \<open>Handles\<close>

text \<open>
  A facade handle holds the address of its group table; \<open>sys == 0 || sys->table == 0\<close>
  is \<open>table_of sys = 0\<close>.
\<close>

record handle =
  h_table :: u64

record r4_sys = handle +
  h_ctx :: "start_context option"

definition table_of :: "('a handle_scheme) option \<Rightarrow> u64" where
  "table_of h = (case h of None \<Rightarrow> 0 | Some x \<Rightarrow> h_table x)"

subsection \<open>Tests on a table\<close>

definition sure :: "bool \<Rightarrow> query" where
  "sure b M = Some b"

definition q_not :: "query \<Rightarrow> query" where
  "q_not q M = map_option Not (q M)"

definition q_and :: "query \<Rightarrow> query \<Rightarrow> query" where
  "q_and p q M = (case p M of None \<Rightarrow> None | Some b \<Rightarrow> if b then q M else Some False)"

definition q_or :: "query \<Rightarrow> query \<Rightarrow> query" where
  "q_or p q M = (case p M of None \<Rightarrow> None | Some b \<Rightarrow> if b then Some True else q M)"

text \<open>\<open>table->size >= offsetof(T, slot) + 8\<close>, and \<open>table->slot != 0\<close>.\<close>

definition covers :: "'w platform \<Rightarrow> string \<Rightarrow> u64 \<Rightarrow> string \<Rightarrow> query" where
  "covers E T t slot M = map_option (\<lambda>sz. p_off E T slot + 8 \<le> unat sz) (load_u32 M (t + 8))"

definition filled :: "'w platform \<Rightarrow> string \<Rightarrow> u64 \<Rightarrow> string \<Rightarrow> query" where
  "filled E T t slot M = map_option (\<lambda>f. f \<noteq> 0) (load_u64 M (t + word_of_nat (p_off E T slot)))"

text \<open>A member of an object compared in the code: loaded at its own length.\<close>

definition member_is :: "'w platform \<Rightarrow> u64 \<Rightarrow> string \<Rightarrow> string \<Rightarrow> (u64 \<Rightarrow> bool) \<Rightarrow> query" where
  "member_is E a T member P M =
     map_option (\<lambda>bs. P (le_word bs)) (load_bytes M (a + word_of_nat (p_off E T member)) (p_len E T member))"

text \<open>The tests most wrappers use: an optional tail slot, and a base slot.\<close>

definition tail_slot :: "'w platform \<Rightarrow> string \<Rightarrow> u64 \<Rightarrow> string \<Rightarrow> query" where
  "tail_slot E T t slot = q_and (covers E T t slot) (filled E T t slot)"

definition has_slot :: "'w platform \<Rightarrow> string \<Rightarrow> u64 \<Rightarrow> string \<Rightarrow> query" where
  "has_slot E T t slot = q_and (sure (t \<noteq> 0)) (tail_slot E T t slot)"

definition has_base :: "'w platform \<Rightarrow> string \<Rightarrow> u64 \<Rightarrow> string \<Rightarrow> query" where
  "has_base E T t slot = q_and (sure (t \<noteq> 0)) (filled E T t slot)"

text \<open>\<open>r4sys_has_callback\<close> and its twins, which subtract instead of adding, and the macro over them.\<close>

definition has_callback :: "u64 \<Rightarrow> nat \<Rightarrow> query" where
  "has_callback t offset =
     q_and (sure (t \<noteq> 0))
       (\<lambda>M. map_option (\<lambda>sz. offset \<le> unat sz \<and> 8 \<le> size_sub (unat sz) offset) (load_u32 M (t + 8)))"

definition has_field :: "'w platform \<Rightarrow> string \<Rightarrow> u64 \<Rightarrow> string \<Rightarrow> query" where
  "has_field E T t slot = q_and (has_callback t (p_off E T slot)) (filled E T t slot)"

text \<open>A coverage test followed by several slots, as in the \<open>supports\<close> predicates.\<close>

primrec all_filled :: "'w platform \<Rightarrow> string \<Rightarrow> u64 \<Rightarrow> string list \<Rightarrow> query" where
  "all_filled E T t [] = sure True"
| "all_filled E T t (s # ss) = q_and (filled E T t s) (all_filled E T t ss)"

definition tail_slots :: "'w platform \<Rightarrow> string \<Rightarrow> u64 \<Rightarrow> string \<Rightarrow> string list \<Rightarrow> query" where
  "tail_slots E T t last_slot slots = q_and (covers E T t last_slot) (all_filled E T t slots)"

definition has_slots :: "'w platform \<Rightarrow> string \<Rightarrow> u64 \<Rightarrow> string \<Rightarrow> string list \<Rightarrow> query" where
  "has_slots E T t last_slot slots = q_and (sure (t \<noteq> 0)) (tail_slots E T t last_slot slots)"

subsection \<open>A resident table\<close>

text \<open>
  \<open>V\<close> is the content of the table at \<open>t\<close>: its announced size is its length. The
  caller's output objects \<open>outs\<close> are mapped and do not overlap it.
\<close>

definition slot_word :: "bytes \<Rightarrow> nat \<Rightarrow> u64" where
  "slot_word V off = le_word (take 8 (drop off V))"

definition resident :: "u64 \<Rightarrow> bytes \<Rightarrow> memory \<Rightarrow> bool" where
  "resident t V M \<longleftrightarrow> 12 \<le> length V \<and> load_bytes M t (length V) = Some V \<and>
     unat (le_word (take 4 (drop 8 V)) :: u32) = length V"

definition apart :: "u64 \<Rightarrow> nat \<Rightarrow> u64 \<Rightarrow> nat \<Rightarrow> bool" where
  "apart a n t m \<longleftrightarrow> (\<forall>i < n. \<forall>j < m. a + word_of_nat i \<noteq> t + word_of_nat j)"

definition objects_ok :: "(u64 \<times> nat) list \<Rightarrow> u64 \<Rightarrow> bytes \<Rightarrow> memory \<Rightarrow> bool" where
  "objects_ok outs t V M \<longleftrightarrow> (\<forall>(a, n) \<in> set outs. a \<noteq> 0 \<longrightarrow> mapped M a n \<and> apart a n t (length V))"

definition steady :: "u64 \<Rightarrow> bytes \<Rightarrow> (u64 \<times> nat) list \<Rightarrow> memory \<Rightarrow> bool" where
  "steady t V outs M \<longleftrightarrow> (t \<noteq> 0 \<longrightarrow> resident t V M) \<and> objects_ok outs t V M"

text \<open>The platform keeps the table and leaves the caller's objects mapped.\<close>

definition keeps_steady :: "'w platform \<Rightarrow> u64 \<Rightarrow> bytes \<Rightarrow> (u64 \<times> nat) list \<Rightarrow> bool" where
  "keeps_steady E t V outs \<longleftrightarrow>
     (\<forall>f args M w. steady t V outs M \<longrightarrow> steady t V outs (fst (snd (p_run E f args M w))))"

text \<open>A slot of the table: a nonnull word that lies wholly inside the announced size.\<close>

definition table_target :: "bytes \<Rightarrow> u64 \<Rightarrow> bool" where
  "table_target V f \<longleftrightarrow> f \<noteq> 0 \<and> (\<exists>off. off + 8 \<le> length V \<and> f = slot_word V off)"

definition admitted :: "u64 \<Rightarrow> bytes \<Rightarrow> (u64 \<times> nat) list \<Rightarrow> ('a, 'w) io \<Rightarrow> bool" where
  "admitted t V outs p \<longleftrightarrow>
     (\<forall>s. steady t V outs (m_mem s) \<longrightarrow>
        (\<exists>r s' made. p s = Some (r, s') \<and> steady t V outs (m_mem s') \<and> m_calls s' = m_calls s @ made \<and>
           (\<forall>c \<in> set made. t \<noteq> 0 \<and> table_target V (fst c))))"

subsection \<open>Reading a resident table\<close>

lemma resident_size: "resident t V M \<Longrightarrow> \<exists>sz. load_u32 M (t + 8) = Some sz \<and> unat sz = length V"
  using load_bytes_part [of M t "length V" V 8 4] by (auto simp: resident_def load_u32_def)

lemma resident_slot:
  "resident t V M \<Longrightarrow> off + 8 \<le> length V \<Longrightarrow> load_u64 M (t + word_of_nat off) = Some (slot_word V off)"
  using load_bytes_part [of M t "length V" V off 8] by (auto simp: resident_def load_u64_def slot_word_def)

lemma resident_covers:
  "resident t V M \<Longrightarrow> covers E T t slot M = Some (p_off E T slot + 8 \<le> length V)"
  using resident_size [of t V M] by (auto simp: covers_def)

lemma resident_filled:
  "resident t V M \<Longrightarrow> p_off E T slot + 8 \<le> length V \<Longrightarrow>
    filled E T t slot M = Some (slot_word V (p_off E T slot) \<noteq> 0)"
  by (simp add: filled_def resident_slot)

lemma resident_keep:
  assumes "resident t V M" and "store_bytes M a bs = Some M'" and "apart a (length bs) t (length V)"
  shows "resident t V M'"
proof -
  have V: "load_bytes M t (length V) = Some V" using assms(1) by (simp add: resident_def)
  have same: "M' (t + word_of_nat j) = M (t + word_of_nat j)" if "j < length V" for j
    using store_bytes_keeps [OF assms(2)] assms(3) that unfolding apart_def by metis
  have "mapped M' t (length V)"
    using V load_bytes_mapped [of M t "length V"] same by (simp add: mapped_def)
  then obtain bs' where bs': "load_bytes M' t (length V) = Some bs'" using load_bytes_mapped by auto
  have "bs' = V"
    by (rule nth_equalityI)
      (use length_load_bytes [OF bs'] load_bytes_nth [OF bs'] load_bytes_nth [OF V] same in auto)
  with bs' assms(1) show ?thesis by (simp add: resident_def)
qed

lemma objects_keep:
  "objects_ok outs t V M \<Longrightarrow> dom M' = dom M \<Longrightarrow> objects_ok outs t V M'"
  unfolding objects_ok_def mapped_def domIff [symmetric] by simp

lemma apart_part: "apart a n t m \<Longrightarrow> k + l \<le> n \<Longrightarrow> apart (a + word_of_nat k) l t m"
proof -
  assume a: "apart a n t m" and le: "k + l \<le> n"
  show "apart (a + word_of_nat k) l t m" unfolding apart_def
  proof (intro allI impI)
    fix i j assume "i < l" "j < m"
    then have "a + word_of_nat (k + i) \<noteq> t + word_of_nat j"
      using a le unfolding apart_def by (simp del: of_nat_add)
    then show "a + word_of_nat k + word_of_nat i \<noteq> t + word_of_nat j" by (simp add: ac_simps)
  qed
qed

text \<open>The range \<open>[a + k, a + k + n)\<close> lies inside one of the caller's objects.\<close>

definition inside_out :: "(u64 \<times> nat) list \<Rightarrow> u64 \<Rightarrow> nat \<Rightarrow> bool" where
  "inside_out outs a n \<longleftrightarrow> (\<exists>b m k. (b, m) \<in> set outs \<and> b \<noteq> 0 \<and> a = b + word_of_nat k \<and> k + n \<le> m)"

lemma steady_inside:
  "steady t V outs M \<Longrightarrow> inside_out outs a n \<Longrightarrow> mapped M a n \<and> apart a n t (length V)"
  unfolding steady_def objects_ok_def inside_out_def using mapped_offset apart_part by blast

subsection \<open>Closure\<close>

named_theorems admits \<open>rules that derive the admission of a wrapper\<close>

lemma admitted_give [admits]: "admitted t V outs (give x)"
  by (auto simp: admitted_def give_def)

lemma admitted_if [admits]:
  "(b \<Longrightarrow> admitted t V outs p) \<Longrightarrow> (\<not> b \<Longrightarrow> admitted t V outs q) \<Longrightarrow> admitted t V outs (if b then p else q)"
  by auto

lemma admitted_then [admits]:
  fixes p :: "('a, 'w) io" and k :: "'a \<Rightarrow> ('b, 'w) io"
  assumes "admitted t V outs p" and "\<And>x. admitted t V outs (k x)"
  shows "admitted t V outs (and_then p k)"
  unfolding admitted_def
proof (intro allI impI)
  fix s :: "'w machine" assume "steady t V outs (m_mem s)"
  with assms(1) obtain r s1 m1 where 1: "p s = Some (r, s1)" "steady t V outs (m_mem s1)" "m_calls s1 = m_calls s @ m1"
    "\<forall>c \<in> set m1. t \<noteq> 0 \<and> table_target V (fst c)" unfolding admitted_def by blast
  from assms(2) [of r] 1(2) obtain r2 s2 m2 where 2: "k r s1 = Some (r2, s2)" "steady t V outs (m_mem s2)"
    "m_calls s2 = m_calls s1 @ m2" "\<forall>c \<in> set m2. t \<noteq> 0 \<and> table_target V (fst c)" unfolding admitted_def by blast
  show "\<exists>r s' made. and_then p k s = Some (r, s') \<and> steady t V outs (m_mem s') \<and> m_calls s' = m_calls s @ made \<and>
      (\<forall>c \<in> set made. t \<noteq> 0 \<and> table_target V (fst c))"
    using 1 2 by (intro exI [of _ r2] exI [of _ s2] exI [of _ "m1 @ m2"]) (auto simp: and_then_def)
qed

lemma admitted_ask:
  assumes "\<And>M. steady t V outs M \<Longrightarrow> q M = Some b" and "admitted t V outs (k b)"
  shows "admitted t V outs (ask q k)"
  using assms by (simp add: admitted_def ask_def)

lemma admitted_call:
  fixes E :: "'w platform"
  assumes "keeps_steady E t V outs" and "t \<noteq> 0" and "p_off E T slot + 8 \<le> length V" and "slot_word V (p_off E T slot) \<noteq> 0"
  shows "admitted t V outs (call_slot E T t slot args :: ('a::len word, 'w) io)"
  unfolding admitted_def
proof (intro allI impI)
  fix s :: "'w machine" assume st: "steady t V outs (m_mem s)"
  obtain r M w where run: "p_run E (slot_word V (p_off E T slot)) args (m_mem s) (m_os s) = (r, M, w)"
    by (metis prod_cases3)
  have "steady t V outs M" using assms(1) st run unfolding keeps_steady_def by (metis fst_conv snd_conv)
  moreover have "table_target V (slot_word V (p_off E T slot))" using assms(3,4) by (auto simp: table_target_def)
  moreover have "load_u64 (m_mem s) (t + word_of_nat (p_off E T slot)) = Some (slot_word V (p_off E T slot))"
    using st assms(2,3) by (simp add: steady_def resident_slot)
  ultimately show "\<exists>r s' made. call_slot E T t slot args s = Some (r :: 'a word, s') \<and> steady t V outs (m_mem s') \<and>
      m_calls s' = m_calls s @ made \<and> (\<forall>c \<in> set made. t \<noteq> 0 \<and> table_target V (fst c))"
    using run assms(2) by (simp add: call_slot_def and_then_def call_fn_def give_def)
qed

lemma admitted_store:
  assumes "inside_out outs a (length bs)"
  shows "admitted t V outs (store a bs :: (unit, 'w) io)"
  unfolding admitted_def
proof (intro allI impI)
  fix s :: "'w machine" assume st: "steady t V outs (m_mem s)"
  note in_ok = steady_inside [OF st assms]
  then obtain M' where M': "store_bytes (m_mem s) a bs = Some M'" using store_bytes_mapped by blast
  have "steady t V outs M'"
    using st in_ok resident_keep [OF _ M'] objects_keep [OF _ store_bytes_dom [OF M']] by (auto simp: steady_def)
  then show "\<exists>r s' made. store a bs s = Some (r, s') \<and> steady t V outs (m_mem s') \<and>
      m_calls s' = m_calls s @ made \<and> (\<forall>c \<in> set made. t \<noteq> 0 \<and> table_target V (fst c))"
    using M' by (simp add: store_def)
qed

lemma admitted_copy:
  fixes E :: "'w platform"
  assumes "inside_out outs dst (p_size E T)" and "inside_out outs src (p_size E T)"
  shows "admitted t V outs (copy_obj E dst src T)"
  unfolding admitted_def
proof (intro allI impI)
  fix s :: "'w machine" assume st: "steady t V outs (m_mem s)"
  from steady_inside [OF st assms(2)] obtain bs where bs: "load_bytes (m_mem s) src (p_size E T) = Some bs"
    using load_bytes_mapped by auto
  have "inside_out outs dst (length bs)" using assms(1) length_load_bytes [OF bs] by simp
  from admitted_store [OF this, of t V] st bs
  show "\<exists>r s' made. copy_obj E dst src T s = Some (r, s') \<and> steady t V outs (m_mem s') \<and>
      m_calls s' = m_calls s @ made \<and> (\<forall>c \<in> set made. t \<noteq> 0 \<and> table_target V (fst c))"
    by (auto simp: admitted_def copy_obj_def)
qed


text \<open>The contract places members inside their types; a slot is one address.\<close>

definition abi_ok :: "'w platform \<Rightarrow> bool" where
  "abi_ok E \<longleftrightarrow> (\<forall>T m. p_off E T m + p_len E T m \<le> p_size E T)"

definition out_ok :: "'w platform \<Rightarrow> (u64 \<times> nat) list \<Rightarrow> u64 \<Rightarrow> string \<Rightarrow> bool" where
  "out_ok E outs a T \<longleftrightarrow> a \<noteq> 0 \<and> (\<exists>(b, m) \<in> set outs. b = a \<and> p_size E T \<le> m)"

lemma inside_whole:
  assumes "out_ok E outs a T"
  shows "inside_out outs a (p_size E T)"
proof -
  from assms obtain m where "(a, m) \<in> set outs" "p_size E T \<le> m" "a \<noteq> 0" by (auto simp: out_ok_def)
  then show ?thesis unfolding inside_out_def by (intro exI [of _ a] exI [of _ m] exI [of _ 0]) simp
qed

lemma inside_member:
  assumes "abi_ok E" and "out_ok E outs a T"
  shows "inside_out outs (a + word_of_nat (p_off E T m)) (p_len E T m)"
proof -
  from assms(2) obtain n where "(a, n) \<in> set outs" "p_size E T \<le> n" "a \<noteq> 0" by (auto simp: out_ok_def)
  moreover have "p_off E T m + p_len E T m \<le> p_size E T" using assms(1) by (simp add: abi_ok_def)
  ultimately show ?thesis unfolding inside_out_def
    by (intro exI [of _ a] exI [of _ n] exI [of _ "p_off E T m"]) simp
qed

lemma admitted_clear: "out_ok E outs a T \<Longrightarrow> admitted t V outs (clear_obj E a T)"
  unfolding clear_obj_def by (rule admitted_store) (simp add: inside_whole)

lemma admitted_put: "abi_ok E \<Longrightarrow> out_ok E outs a T \<Longrightarrow> admitted t V outs (put_member E a T m v)"
  unfolding put_member_def by (rule admitted_store) (simp add: inside_member)

lemma admitted_header: "abi_ok E \<Longrightarrow> out_ok E outs a T \<Longrightarrow> admitted t V outs (put_header E a T v n)"
  unfolding put_header_def by (intro admits admitted_put)

lemma admitted_copy_obj:
  "out_ok E outs dst T \<Longrightarrow> out_ok E outs src T \<Longrightarrow> admitted t V outs (copy_obj E dst src T)"
  by (intro admitted_copy inside_whole)

text \<open>A test whose answer the table does not fix: both continuations are admitted.\<close>

lemma admitted_ask_any:
  fixes k :: "bool \<Rightarrow> ('a, 'w) io"
  assumes "\<And>M. steady t V outs M \<Longrightarrow> q M \<noteq> None" and "\<And>b. admitted t V outs (k b)"
  shows "admitted t V outs (ask q k)"
  unfolding admitted_def
proof (intro allI impI)
  fix s :: "'w machine" assume st: "steady t V outs (m_mem s)"
  from assms(1) [OF st] obtain b where "q (m_mem s) = Some b" by auto
  moreover note assms(2) [of b, unfolded admitted_def, rule_format, OF st]
  ultimately show "\<exists>r s' made. ask q k s = Some (r, s') \<and> steady t V outs (m_mem s') \<and>
      m_calls s' = m_calls s @ made \<and> (\<forall>c \<in> set made. t \<noteq> 0 \<and> table_target V (fst c))"
    by (simp add: ask_def)
qed

lemma member_is_total:
  "abi_ok E \<Longrightarrow> out_ok E outs a T \<Longrightarrow> steady t V outs M \<Longrightarrow> member_is E a T m P M \<noteq> None"
  using steady_inside [OF _ inside_member] load_bytes_mapped unfolding member_is_def by blast

lemma q_or_total: "p M \<noteq> None \<Longrightarrow> q M \<noteq> None \<Longrightarrow> q_or p q M \<noteq> None"
  by (auto simp: q_or_def)

subsection \<open>The answers of the tests on a resident table\<close>

text \<open>\<open>opens\<close>: slot \<open>slot\<close> of the table with content \<open>V\<close> can be called.\<close>

definition opens :: "'w platform \<Rightarrow> string \<Rightarrow> u64 \<Rightarrow> bytes \<Rightarrow> string \<Rightarrow> bool" where
  "opens E T t V slot \<longleftrightarrow> t \<noteq> 0 \<and> p_off E T slot + 8 \<le> length V \<and> slot_word V (p_off E T slot) \<noteq> 0"

lemma admitted_open:
  "keeps_steady E t V outs \<Longrightarrow> opens E T t V slot \<Longrightarrow>
    admitted t V outs (call_slot E T t slot args :: ('a::len word, 'w) io)"
  by (intro admitted_call) (auto simp: opens_def)

lemma has_slot_answer: "steady t V outs M \<Longrightarrow> has_slot E T t slot M = Some (opens E T t V slot)"
  by (auto simp: has_slot_def tail_slot_def q_and_def sure_def steady_def resident_covers resident_filled opens_def)

lemma tail_slot_answer:
  "steady t V outs M \<Longrightarrow> t \<noteq> 0 \<Longrightarrow> tail_slot E T t slot M = Some (opens E T t V slot)"
  by (auto simp: tail_slot_def q_and_def steady_def resident_covers resident_filled opens_def)

lemma has_field_slot: "has_field E T t slot = has_slot E T t slot"
proof
  fix M
  have "map_option (\<lambda>sz. p_off E T slot \<le> unat sz \<and> 8 \<le> size_sub (unat sz) (p_off E T slot)) (load_u32 M (t + 8)) =
      covers E T t slot M"
    unfolding covers_def by (rule option.map_cong [OF refl]) (auto simp: size_sub_def)
  then show "has_field E T t slot M = has_slot E T t slot M"
    by (auto simp: has_field_def has_callback_def has_slot_def tail_slot_def q_and_def sure_def split: option.splits)
qed

lemma has_field_answer: "steady t V outs M \<Longrightarrow> has_field E T t slot M = Some (opens E T t V slot)"
  by (simp add: has_field_slot has_slot_answer)

lemma all_filled_answer:
  "resident t V M \<Longrightarrow> \<forall>s \<in> set ss. p_off E T s + 8 \<le> length V \<Longrightarrow>
    all_filled E T t ss M = Some (\<forall>s \<in> set ss. slot_word V (p_off E T s) \<noteq> 0)"
  by (induction ss) (auto simp: sure_def q_and_def resident_filled)

text \<open>The slots of one capability precede the slot whose coverage is tested.\<close>

definition before :: "'w platform \<Rightarrow> string \<Rightarrow> string \<Rightarrow> string list \<Rightarrow> bool" where
  "before E T last_slot slots \<longleftrightarrow> (\<forall>s \<in> set slots. p_off E T s \<le> p_off E T last_slot)"

definition opens_all :: "'w platform \<Rightarrow> string \<Rightarrow> u64 \<Rightarrow> bytes \<Rightarrow> string \<Rightarrow> string list \<Rightarrow> bool" where
  "opens_all E T t V last_slot slots \<longleftrightarrow> t \<noteq> 0 \<and> p_off E T last_slot + 8 \<le> length V \<and>
     (\<forall>s \<in> set slots. p_off E T s + 8 \<le> length V \<and> slot_word V (p_off E T s) \<noteq> 0)"

lemma tail_slots_answer:
  assumes "steady t V outs M" and "t \<noteq> 0" and "before E T l ss"
  shows "tail_slots E T t l ss M = Some (opens_all E T t V l ss)"
proof (cases "p_off E T l + 8 \<le> length V")
  case True
  then have "\<forall>s \<in> set ss. p_off E T s + 8 \<le> length V" using assms(3) by (fastforce simp: before_def)
  then show ?thesis using True assms(1,2)
    by (auto simp: tail_slots_def q_and_def steady_def resident_covers all_filled_answer opens_all_def)
next
  case False
  then show ?thesis using assms(1,2)
    by (auto simp: tail_slots_def q_and_def steady_def resident_covers opens_all_def)
qed

lemma has_slots_answer:
  "steady t V outs M \<Longrightarrow> before E T l ss \<Longrightarrow> has_slots E T t l ss M = Some (opens_all E T t V l ss)"
  by (cases "t = 0") (auto simp: has_slots_def q_and_def sure_def tail_slots_answer opens_all_def)

lemma opens_nonnull: "opens E T t V s \<Longrightarrow> t \<noteq> 0"
  by (simp add: opens_def)

lemma opens_all_nonnull: "opens_all E T t V l ss \<Longrightarrow> t \<noteq> 0"
  by (simp add: opens_all_def)

lemma opens_all_opens: "opens_all E T t V l ss \<Longrightarrow> s \<in> set ss \<Longrightarrow> opens E T t V s"
  by (auto simp: opens_all_def opens_def)

text \<open>A base slot lies inside every table that its initialiser accepts.\<close>

definition based :: "'w platform \<Rightarrow> string \<Rightarrow> u64 \<Rightarrow> bytes \<Rightarrow> string \<Rightarrow> bool" where
  "based E T t V slot \<longleftrightarrow> (t \<noteq> 0 \<longrightarrow> p_off E T slot + 8 \<le> length V)"

lemma has_base_answer:
  "steady t V outs M \<Longrightarrow> based E T t V slot \<Longrightarrow> has_base E T t slot M = Some (opens E T t V slot)"
  by (auto simp: has_base_def q_and_def sure_def steady_def resident_filled opens_def based_def)

text \<open>The connectives, with the second operand read only when the first leaves it open.\<close>

lemma q_not_answer: "p M = Some a \<Longrightarrow> q_not p M = Some (\<not> a)"
  by (simp add: q_not_def)

lemma q_and_answer: "p M = Some a \<Longrightarrow> q M = Some b \<Longrightarrow> q_and p q M = Some (a \<and> b)"
  by (simp add: q_and_def)

lemma q_or_answer: "p M = Some a \<Longrightarrow> q M = Some b \<Longrightarrow> q_or p q M = Some (a \<or> b)"
  by (simp add: q_or_def)

lemma sure_answer: "sure b M = Some b"
  by (simp add: sure_def)

lemmas answers = has_slot_answer tail_slot_answer has_field_answer has_slots_answer has_base_answer q_not_answer q_and_answer q_or_answer sure_answer

lemmas admits_objects = admitted_clear admitted_put admitted_header admitted_copy_obj admitted_open


subsection \<open>Admission through a test\<close>

text \<open>The connectives unfold into nested tests, so the rules below treat only the atoms.\<close>

lemma ask_connectives:
  "ask (sure b) k = k b"
  "ask (q_not p) k = ask p (\<lambda>b. k (\<not> b))"
  "ask (q_and p q) k = ask p (\<lambda>b. if b then ask q k else k False)"
  "ask (q_or p q) k = ask p (\<lambda>b. if b then k True else ask q k)"
  by (auto simp: fun_eq_iff ask_def sure_def q_not_def q_and_def q_or_def split: option.splits)

lemma admitted_ask_split:
  assumes "\<And>M. steady t V outs M \<Longrightarrow> q M = Some b"
    and "b \<Longrightarrow> admitted t V outs (k True)" and "\<not> b \<Longrightarrow> admitted t V outs (k False)"
  shows "admitted t V outs (ask q k)"
  using assms by (cases b) (auto intro: admitted_ask)

lemmas admitted_ask_slot = admitted_ask_split [OF has_slot_answer]
lemmas admitted_ask_field = admitted_ask_split [OF has_field_answer]
lemmas admitted_ask_tail = admitted_ask_split [OF tail_slot_answer]
lemmas admitted_ask_base = admitted_ask_split [OF has_base_answer]
lemmas admitted_ask_slots = admitted_ask_split [OF has_slots_answer]

lemma filled_answer:
  "steady t V outs M \<Longrightarrow> t \<noteq> 0 \<Longrightarrow> p_off E T slot + 8 \<le> length V \<Longrightarrow> filled E T t slot M = Some (opens E T t V slot)"
  by (simp add: steady_def resident_filled opens_def)

lemmas admitted_ask_filled = admitted_ask_split [OF filled_answer]

text \<open>Where a slot is known to lie in the table.\<close>

lemma slot_inside:
  "opens E T t V slot \<Longrightarrow> p_off E T slot + 8 \<le> length V"
  "based E T t V slot \<Longrightarrow> t \<noteq> 0 \<Longrightarrow> p_off E T slot + 8 \<le> length V"
  by (auto simp: opens_def based_def)

lemmas admitted_ask_tail_slots = admitted_ask_split [OF tail_slots_answer]

lemmas admits_tests = admitted_ask_filled admitted_ask_tail_slots admitted_ask_slot admitted_ask_field admitted_ask_tail admitted_ask_base admitted_ask_slots

lemma admitted_ask_member:
  assumes "abi_ok E" and "out_ok E outs a T" and "\<And>b. admitted t V outs (k b)"
  shows "admitted t V outs (ask (member_is E a T m P) k)"
  by (rule admitted_ask_any) (use assms member_is_total in auto)

subsection \<open>Running a call\<close>

lemma call_slot_open:
  assumes "steady t V outs (m_mem s)" and "opens E T t V slot"
  shows "call_slot E T t slot args s =
    (case p_run E (slot_word V (p_off E T slot)) args (m_mem s) (m_os s) of
       (r, M, w) \<Rightarrow> Some (ucast r, \<lparr>m_mem = M, m_calls = m_calls s @ [(slot_word V (p_off E T slot), args)], m_os = w\<rparr>))"
  using assms resident_slot [of t V "m_mem s"]
  by (auto simp: call_slot_def opens_def steady_def and_then_def call_fn_def give_def split: prod.splits)

lemma keeps_steadyD:
  "keeps_steady E t V outs \<Longrightarrow> steady t V outs M \<Longrightarrow> p_run E f args M w = (r, M', w') \<Longrightarrow> steady t V outs M'"
  unfolding keeps_steady_def by (metis fst_conv snd_conv)

lemma has_base_open:
  "steady t V outs M \<Longrightarrow> opens E T t V slot \<Longrightarrow> has_base E T t slot M = Some True"
  by (auto simp: has_base_def q_and_def sure_def steady_def resident_filled opens_def)


subsection \<open>A sample platform\<close>

text \<open>One slot serves every name, every call succeeds and changes nothing.\<close>

definition sample_platform :: "unit platform" where
  "sample_platform = \<lparr>p_off = (\<lambda>_ _. 16), p_len = (\<lambda>_ _. 8), p_size = (\<lambda>_. 24), p_code = (\<lambda>_. 0), p_frame = 0x2000, p_local = (\<lambda>_. 0x3000),
     p_run = (\<lambda>_ _ M w. (0, M, w))\<rparr>"

definition sample_table :: bytes where
  "sample_table = [1, 0, 0, 0, 1, 0, 0, 0, 24, 0, 0, 0, 0, 0, 0, 0, 0, 0, 0x40, 0, 0, 0, 0, 0]"

definition sample_handle :: "handle option" where
  "sample_handle = Some \<lparr>h_table = 0x1000\<rparr>"

definition sample_handle_sys :: "r4_sys option" where
  "sample_handle_sys = Some \<lparr>h_table = 0x1000, h_ctx = None\<rparr>"

end
