(* ===== verification/SysCalls.thy ===== *)
theory SysCalls
  imports Platform
begin

text \<open>
  The slot wrappers of \<open>Shared/C/include/r4os/r4sys.h\<close>: each tests its arguments and the
  slot of the system group table and forwards its arguments. The definitions follow
  the order of the header.
\<close>

subsection \<open>Tests and calls on the table\<close>

abbreviation sys_has where "sys_has E h slot \<equiv> has_slot E ''R4Sys'' (table_of h) slot"
abbreviation sys_field where "sys_field E h slot \<equiv> has_field E ''R4Sys'' (table_of h) slot"
abbreviation sys_base where "sys_base E h slot \<equiv> has_base E ''R4Sys'' (table_of h) slot"
abbreviation sys_tail where "sys_tail E h slot \<equiv> tail_slot E ''R4Sys'' (table_of h) slot"
abbreviation sys_filled where "sys_filled E h slot \<equiv> filled E ''R4Sys'' (table_of h) slot"
abbreviation sys_slots where "sys_slots E h last_slot slots \<equiv> has_slots E ''R4Sys'' (table_of h) last_slot slots"
abbreviation sys_tail_slots where "sys_tail_slots E h last_slot slots \<equiv> tail_slots E ''R4Sys'' (table_of h) last_slot slots"
abbreviation sys_call where "sys_call E h slot args \<equiv> call_slot E ''R4Sys'' (table_of h) slot args"

subsection \<open>The code\<close>

definition r4sys_file_name_limits ::
  "'w platform \<Rightarrow> r4_sys option \<Rightarrow> u64 \<Rightarrow> u64 \<Rightarrow> (i32, 'w) io" where
  "r4sys_file_name_limits E sys path out =
    (if path = 0 \<or> out = 0 then give (p_code E ''R4OS_FILE_STREAM_ERROR_INVALID'')
       else ask (sys_field E sys ''file_name_limits'') (\<lambda>ok.
       if \<not> ok then give (p_code E ''R4OS_FILE_STREAM_ERROR_UNSUPPORTED'')
       else sys_call E sys ''file_name_limits'' [path, out]))"

definition r4sys_system_update_target_supported ::
  "'w platform \<Rightarrow> r4_sys option \<Rightarrow> u64 \<Rightarrow> (i32, 'w) io" where
  "r4sys_system_update_target_supported E sys path =
    (if path = 0 then give (- 1)
       else ask (sys_field E sys ''system_update_target_supported'') (\<lambda>ok.
       if \<not> ok then give (p_code E ''R4OS_ERR_NO_FN'')
       else sys_call E sys ''system_update_target_supported'' [path]))"

definition r4sys_system_power_transition ::
  "'w platform \<Rightarrow> r4_sys option \<Rightarrow> u32 \<Rightarrow> u64 \<Rightarrow> (i32, 'w) io" where
  "r4sys_system_power_transition E sys action timeout_ticks =
    (if action > p_code E ''R4OS_POWER_TRANSITION_ACTION_POWEROFF'' then give (p_code E ''R4OS_POWER_TRANSITION_ERROR_INVALID'')
       else ask (sys_has E sys ''system_power_transition'') (\<lambda>ok.
       if \<not> ok then give (p_code E ''R4OS_ERR_NO_FN'')
       else sys_call E sys ''system_power_transition'' [ucast action, timeout_ticks]))"

definition r4sys_platform_input_snapshot ::
  "'w platform \<Rightarrow> r4_sys option \<Rightarrow> u64 \<Rightarrow> (i32, 'w) io" where
  "r4sys_platform_input_snapshot E sys output =
    (if output = 0 then give (- 1)
       else and_then (clear_obj E output ''R4PlatformInputSnapshot'') (\<lambda>_. and_then (put_header E output ''R4PlatformInputSnapshot'' 1 (sizeof E ''R4PlatformInputSnapshot'')) (\<lambda>_.
       if table_of sys = 0 then give (p_code E ''R4OS_ERR_NO_GROUP'')
       else ask (sys_tail E sys ''platform_input_snapshot'') (\<lambda>ok.
       if \<not> ok then give (p_code E ''R4OS_ERR_NO_FN'')
       else sys_call E sys ''platform_input_snapshot'' [output]))))"

definition r4sys_file_copy_buffered ::
  "'w platform \<Rightarrow> r4_sys option \<Rightarrow> u64 \<Rightarrow> u64 \<Rightarrow> u64 \<Rightarrow> u32 \<Rightarrow> u64 \<Rightarrow> (i32, 'w) io" where
  "r4sys_file_copy_buffered E sys source target buffer capacity progress =
    (if source = 0 \<or> target = 0 \<or> buffer = 0 \<or> capacity = 0 \<or> progress = 0 then give (p_code E ''R4OS_FILE_STREAM_ERROR_INVALID'')
       else if table_of sys = 0 then give (p_code E ''R4OS_ERR_NO_GROUP'')
       else ask (sys_tail E sys ''file_copy_buffered'') (\<lambda>ok.
       if \<not> ok then give (p_code E ''R4OS_ERR_NO_FN'')
       else sys_call E sys ''file_copy_buffered'' [source, target, buffer, ucast capacity, progress]))"

definition r4sys_write ::
  "'w platform \<Rightarrow> r4_sys option \<Rightarrow> u64 \<Rightarrow> u32 \<Rightarrow> (i32, 'w) io" where
  "r4sys_write E sys data len =
    (ask (sys_base E sys ''write'') (\<lambda>ok.
       if \<not> ok then give (- 1)
       else if data = 0 \<or> len = 0 then give 0
       else sys_call E sys ''write'' [data, ucast len]))"

definition r4sys_putc ::
  "'w platform \<Rightarrow> r4_sys option \<Rightarrow> u8 \<Rightarrow> (unit, 'w) io" where
  "r4sys_putc E sys ch =
    (ask (sys_base E sys ''putc'') (\<lambda>ok.
       if \<not> ok then give ()
       else and_then (sys_call E sys ''putc'' [ucast ch] :: (u32, 'w) io) (\<lambda>_. give ())))"

definition r4sys_supports_vm :: "'w platform \<Rightarrow> r4_sys option \<Rightarrow> query" where
  "r4sys_supports_vm E sys =
     sys_slots E sys ''vm_query'' [''vm_reserve'', ''vm_commit'', ''vm_decommit'', ''vm_release'', ''vm_query'']"

definition r4sys_supports_threads :: "'w platform \<Rightarrow> r4_sys option \<Rightarrow> query" where
  "r4sys_supports_threads E sys =
     sys_slots E sys ''thread_status'' [''thread_create'', ''thread_exit'', ''thread_join'', ''thread_current'', ''thread_status'']"

definition r4sys_thread_create ::
  "'w platform \<Rightarrow> r4_sys option \<Rightarrow> u64 \<Rightarrow> u64 \<Rightarrow> u64 \<Rightarrow> u64 \<Rightarrow> (i32, 'w) io" where
  "r4sys_thread_create E sys entry arg stack_reserve_bytes out_thread_id =
    (ask (q_or (q_not (sys_field E sys ''thread_create'')) (q_or (sure (entry = 0)) (sure (out_thread_id = 0)))) (\<lambda>bad.
       if bad then give (p_code E ''R4OS_THREAD_ERROR_UNSUPPORTED'')
       else sys_call E sys ''thread_create'' [entry, arg, stack_reserve_bytes, 0, out_thread_id]))"

definition r4sys_thread_exit ::
  "'w platform \<Rightarrow> r4_sys option \<Rightarrow> i32 \<Rightarrow> (unit, 'w) io" where
  "r4sys_thread_exit E sys exit_code =
    (ask (sys_field E sys ''thread_exit'') (\<lambda>ok.
       if \<not> ok then give ()
       else and_then (sys_call E sys ''thread_exit'' [scast exit_code] :: (u32, 'w) io) (\<lambda>_. give ())))"

definition r4sys_thread_join ::
  "'w platform \<Rightarrow> r4_sys option \<Rightarrow> u32 \<Rightarrow> u64 \<Rightarrow> u64 \<Rightarrow> (i32, 'w) io" where
  "r4sys_thread_join E sys thread_id timeout_ticks out_exit_code =
    (ask (q_or (q_not (sys_field E sys ''thread_join'')) (sure (out_exit_code = 0))) (\<lambda>bad.
       if bad then give (p_code E ''R4OS_THREAD_ERROR_UNSUPPORTED'')
       else sys_call E sys ''thread_join'' [ucast thread_id, timeout_ticks, out_exit_code]))"

definition r4sys_thread_current ::
  "'w platform \<Rightarrow> r4_sys option \<Rightarrow> (u32, 'w) io" where
  "r4sys_thread_current E sys =
    (ask (sys_field E sys ''thread_current'') (\<lambda>ok.
       if \<not> ok then give 0
       else sys_call E sys ''thread_current'' []))"

definition r4sys_thread_current_handle ::
  "'w platform \<Rightarrow> r4_sys option \<Rightarrow> u64 \<Rightarrow> (i32, 'w) io" where
  "r4sys_thread_current_handle E sys out_handle =
    (if out_handle = 0 then give (p_code E ''R4OS_THREAD_ERROR_INVALID'')
       else ask (sys_has E sys ''thread_current_handle'') (\<lambda>ok.
       if \<not> ok then give (p_code E ''R4OS_THREAD_ERROR_UNSUPPORTED'')
       else sys_call E sys ''thread_current_handle'' [out_handle]))"

definition r4sys_thread_placement_get ::
  "'w platform \<Rightarrow> r4_sys option \<Rightarrow> u64 \<Rightarrow> u64 \<Rightarrow> u64 \<Rightarrow> u32 \<Rightarrow> (i32, 'w) io" where
  "r4sys_thread_placement_get E sys handle info cpus word_capacity =
    (ask (sys_has E sys ''thread_placement_get'') (\<lambda>ok.
       if \<not> ok then give (p_code E ''R4OS_THREAD_ERROR_UNSUPPORTED'')
       else sys_call E sys ''thread_placement_get'' [handle, info, cpus, ucast word_capacity]))"

definition r4sys_thread_placement_set ::
  "'w platform \<Rightarrow> r4_sys option \<Rightarrow> u64 \<Rightarrow> u64 \<Rightarrow> u64 \<Rightarrow> u32 \<Rightarrow> (i32, 'w) io" where
  "r4sys_thread_placement_set E sys handle request cpus word_count =
    (ask (sys_has E sys ''thread_placement_set'') (\<lambda>ok.
       if \<not> ok then give (p_code E ''R4OS_THREAD_ERROR_UNSUPPORTED'')
       else sys_call E sys ''thread_placement_set'' [handle, request, cpus, ucast word_count]))"

definition r4sys_cpu_capacity ::
  "'w platform \<Rightarrow> r4_sys option \<Rightarrow> u64 \<Rightarrow> (i32, 'w) io" where
  "r4sys_cpu_capacity E sys output =
    (if output = 0 then give (p_code E ''R4OS_THREAD_ERROR_INVALID'')
       else ask (sys_has E sys ''cpu_capacity'') (\<lambda>ok.
       if \<not> ok then give (p_code E ''R4OS_THREAD_ERROR_UNSUPPORTED'')
       else sys_call E sys ''cpu_capacity'' [output]))"

definition r4sys_program_exit ::
  "'w platform \<Rightarrow> r4_sys option \<Rightarrow> i32 \<Rightarrow> u32 \<Rightarrow> (i32, 'w) io" where
  "r4sys_program_exit E sys exit_code reason =
    (ask (sys_has E sys ''program_exit'') (\<lambda>ok.
       if \<not> ok then give (p_code E ''R4OS_THREAD_ERROR_UNSUPPORTED'')
       else sys_call E sys ''program_exit'' [scast exit_code, ucast reason]))"

definition r4sys_thread_status ::
  "'w platform \<Rightarrow> r4_sys option \<Rightarrow> u32 \<Rightarrow> u64 \<Rightarrow> (i32, 'w) io" where
  "r4sys_thread_status E sys thread_id out_info =
    (ask (q_or (q_not (sys_field E sys ''thread_status'')) (sure (out_info = 0))) (\<lambda>bad.
       if bad then give (p_code E ''R4OS_THREAD_ERROR_UNSUPPORTED'')
       else sys_call E sys ''thread_status'' [ucast thread_id, out_info]))"

definition r4sys_supports_program_lifecycle :: "'w platform \<Rightarrow> r4_sys option \<Rightarrow> query" where
  "r4sys_supports_program_lifecycle E sys =
     sys_slots E sys ''program_lifecycle_programs'' [''program_lifecycle_begin'', ''program_lifecycle_programs'']"

definition r4sys_program_lifecycle_begin ::
  "'w platform \<Rightarrow> r4_sys option \<Rightarrow> u64 \<Rightarrow> (i32, 'w) io" where
  "r4sys_program_lifecycle_begin E sys cursor =
    (if cursor = 0 then give (p_code E ''R4OS_PROGRAM_HANDLE_ERROR_INVALID'')
       else ask (r4sys_supports_program_lifecycle E sys) (\<lambda>ok.
       if \<not> ok then give (p_code E ''R4OS_ERR_NO_FN'')
       else sys_call E sys ''program_lifecycle_begin'' [cursor]))"

definition r4sys_program_lifecycle_programs ::
  "'w platform \<Rightarrow> r4_sys option \<Rightarrow> u64 \<Rightarrow> u64 \<Rightarrow> u32 \<Rightarrow> u64 \<Rightarrow> (i32, 'w) io" where
  "r4sys_program_lifecycle_programs E sys cursor out capacity page =
    (if cursor = 0 \<or> out = 0 \<or> page = 0 \<or> capacity = 0 \<or> capacity > p_code E ''R4OS_PROGRAM_INVENTORY_PAGE_MAX'' then give (p_code E ''R4OS_PROGRAM_HANDLE_ERROR_INVALID'')
       else ask (r4sys_supports_program_lifecycle E sys) (\<lambda>ok.
       if \<not> ok then give (p_code E ''R4OS_ERR_NO_FN'')
       else sys_call E sys ''program_lifecycle_programs'' [cursor, out, ucast capacity, page]))"

definition r4sys_supports_program_inventory :: "'w platform \<Rightarrow> r4_sys option \<Rightarrow> query" where
  "r4sys_supports_program_inventory E sys =
     sys_slots E sys ''program_inventory_threads'' [''program_inventory_begin'', ''program_inventory_programs'', ''program_inventory_tasks'', ''program_inventory_threads'']"

definition r4sys_program_inventory_begin ::
  "'w platform \<Rightarrow> r4_sys option \<Rightarrow> u64 \<Rightarrow> u64 \<Rightarrow> (i32, 'w) io" where
  "r4sys_program_inventory_begin E sys cursor out_summary =
    (if cursor = 0 \<or> out_summary = 0 then give (p_code E ''R4OS_PROGRAM_HANDLE_ERROR_INVALID'')
       else ask (r4sys_supports_program_inventory E sys) (\<lambda>ok.
       if \<not> ok then give (p_code E ''R4OS_ERR_NO_FN'')
       else sys_call E sys ''program_inventory_begin'' [cursor, out_summary]))"

definition r4sys_program_inventory_programs ::
  "'w platform \<Rightarrow> r4_sys option \<Rightarrow> u64 \<Rightarrow> u64 \<Rightarrow> u32 \<Rightarrow> u64 \<Rightarrow> (i32, 'w) io" where
  "r4sys_program_inventory_programs E sys cursor out capacity out_page =
    (if cursor = 0 \<or> out = 0 \<or> out_page = 0 \<or> capacity = 0 \<or> capacity > p_code E ''R4OS_PROGRAM_INVENTORY_PAGE_MAX'' then give (p_code E ''R4OS_PROGRAM_HANDLE_ERROR_INVALID'')
       else ask (r4sys_supports_program_inventory E sys) (\<lambda>ok.
       if \<not> ok then give (p_code E ''R4OS_ERR_NO_FN'')
       else sys_call E sys ''program_inventory_programs'' [cursor, out, ucast capacity, out_page]))"

definition r4sys_program_inventory_tasks ::
  "'w platform \<Rightarrow> r4_sys option \<Rightarrow> u64 \<Rightarrow> u64 \<Rightarrow> u32 \<Rightarrow> u64 \<Rightarrow> (i32, 'w) io" where
  "r4sys_program_inventory_tasks E sys cursor out capacity out_page =
    (if cursor = 0 \<or> out = 0 \<or> out_page = 0 \<or> capacity = 0 \<or> capacity > p_code E ''R4OS_PROGRAM_INVENTORY_PAGE_MAX'' then give (p_code E ''R4OS_PROGRAM_HANDLE_ERROR_INVALID'')
       else ask (r4sys_supports_program_inventory E sys) (\<lambda>ok.
       if \<not> ok then give (p_code E ''R4OS_ERR_NO_FN'')
       else sys_call E sys ''program_inventory_tasks'' [cursor, out, ucast capacity, out_page]))"

definition r4sys_program_inventory_threads ::
  "'w platform \<Rightarrow> r4_sys option \<Rightarrow> u64 \<Rightarrow> u64 \<Rightarrow> u32 \<Rightarrow> u64 \<Rightarrow> (i32, 'w) io" where
  "r4sys_program_inventory_threads E sys cursor out capacity out_page =
    (if cursor = 0 \<or> out = 0 \<or> out_page = 0 \<or> capacity = 0 \<or> capacity > p_code E ''R4OS_PROGRAM_INVENTORY_PAGE_MAX'' then give (p_code E ''R4OS_PROGRAM_HANDLE_ERROR_INVALID'')
       else ask (r4sys_supports_program_inventory E sys) (\<lambda>ok.
       if \<not> ok then give (p_code E ''R4OS_ERR_NO_FN'')
       else sys_call E sys ''program_inventory_threads'' [cursor, out, ucast capacity, out_page]))"

definition r4sys_supports_registry_snapshot :: "'w platform \<Rightarrow> r4_sys option \<Rightarrow> query" where
  "r4sys_supports_registry_snapshot E sys =
     sys_slots E sys ''registry_snapshot_page'' [''registry_snapshot_begin'', ''registry_snapshot_page'']"

definition r4sys_registry_snapshot_begin ::
  "'w platform \<Rightarrow> r4_sys option \<Rightarrow> u64 \<Rightarrow> u32 \<Rightarrow> u64 \<Rightarrow> (i32, 'w) io" where
  "r4sys_registry_snapshot_begin E sys key_path kind cursor =
    (if key_path = 0 \<or> cursor = 0 then give (p_code E ''R4OS_REGISTRY_API_RESULT_INVALID'')
       else ask (r4sys_supports_registry_snapshot E sys) (\<lambda>ok.
       if \<not> ok then give (p_code E ''R4OS_ERR_NO_FN'')
       else sys_call E sys ''registry_snapshot_begin'' [key_path, ucast kind, cursor]))"

definition r4sys_registry_snapshot_page ::
  "'w platform \<Rightarrow> r4_sys option \<Rightarrow> u64 \<Rightarrow> u64 \<Rightarrow> u32 \<Rightarrow> u64 \<Rightarrow> u32 \<Rightarrow> u64 \<Rightarrow> (i32, 'w) io" where
  "r4sys_registry_snapshot_page E sys cursor entries entry_capacity data data_capacity out_page =
    (if cursor = 0 \<or> entries = 0 \<or> data = 0 \<or> out_page = 0 \<or> entry_capacity = 0 \<or> entry_capacity > p_code E ''R4OS_REGISTRY_SNAPSHOT_PAGE_MAX'' \<or> data_capacity > p_code E ''R4OS_REGISTRY_SNAPSHOT_DATA_MAX'' then give (p_code E ''R4OS_REGISTRY_API_RESULT_INVALID'')
       else ask (r4sys_supports_registry_snapshot E sys) (\<lambda>ok.
       if \<not> ok then give (p_code E ''R4OS_ERR_NO_FN'')
       else sys_call E sys ''registry_snapshot_page'' [cursor, entries, ucast entry_capacity, data, ucast data_capacity, out_page]))"

definition r4sys_supports_registry_batch :: "'w platform \<Rightarrow> r4_sys option \<Rightarrow> query" where
  "r4sys_supports_registry_batch E sys =
     sys_has E sys ''registry_batch_mutate''"

definition r4sys_registry_batch_mutate ::
  "'w platform \<Rightarrow> r4_sys option \<Rightarrow> u64 \<Rightarrow> u32 \<Rightarrow> u64 \<Rightarrow> u32 \<Rightarrow> u64 \<Rightarrow> (i32, 'w) io" where
  "r4sys_registry_batch_mutate E sys operations operation_count blob blob_len out_result =
    (if operations = 0 \<or> operation_count = 0 \<or> blob = 0 \<or> out_result = 0 \<or> operation_count > p_code E ''R4OS_REGISTRY_BATCH_OPERATION_MAX'' \<or> blob_len > p_code E ''R4OS_REGISTRY_BATCH_BLOB_MAX'' then give (p_code E ''R4OS_REGISTRY_API_RESULT_INVALID'')
       else ask (r4sys_supports_registry_batch E sys) (\<lambda>ok.
       if \<not> ok then give (p_code E ''R4OS_ERR_NO_FN'')
       else sys_call E sys ''registry_batch_mutate'' [operations, ucast operation_count, blob, ucast blob_len, out_result]))"

definition r4sys_supports_thread_handles :: "'w platform \<Rightarrow> r4_sys option \<Rightarrow> query" where
  "r4sys_supports_thread_handles E sys =
     sys_slots E sys ''thread_handle_status'' [''thread_create_handle'', ''thread_handle_join'', ''thread_handle_status'']"

definition r4sys_thread_create_handle ::
  "'w platform \<Rightarrow> r4_sys option \<Rightarrow> u64 \<Rightarrow> u64 \<Rightarrow> u64 \<Rightarrow> u32 \<Rightarrow> u64 \<Rightarrow> (i32, 'w) io" where
  "r4sys_thread_create_handle E sys entry arg stack_reserve_bytes flags out_handle =
    (and_then (if out_handle \<noteq> 0 then clear_obj E out_handle ''R4ProgramJoinHandle'' else give ()) (\<lambda>_.
       if entry = 0 \<or> out_handle = 0 then give (p_code E ''R4OS_THREAD_ERROR_INVALID'')
       else ask (sys_field E sys ''thread_create_handle'') (\<lambda>ok.
       if \<not> ok then give (p_code E ''R4OS_THREAD_ERROR_UNSUPPORTED'')
       else sys_call E sys ''thread_create_handle'' [entry, arg, stack_reserve_bytes, ucast flags, out_handle])))"

definition r4sys_compute_worker_create ::
  "'w platform \<Rightarrow> r4_sys option \<Rightarrow> u64 \<Rightarrow> u64 \<Rightarrow> u64 \<Rightarrow> u64 \<Rightarrow> (i32, 'w) io" where
  "r4sys_compute_worker_create E sys entry arg stack_reserve_bytes out_handle =
    (r4sys_thread_create_handle E sys entry arg stack_reserve_bytes (p_code E ''R4OS_THREAD_CREATE_FLAG_COMPUTE_WORKER'') out_handle)"

definition r4sys_thread_handle_join ::
  "'w platform \<Rightarrow> r4_sys option \<Rightarrow> u64 \<Rightarrow> u64 \<Rightarrow> u64 \<Rightarrow> (i32, 'w) io" where
  "r4sys_thread_handle_join E sys handle timeout_ticks out_exit_code =
    (if handle = 0 \<or> out_exit_code = 0 then give (p_code E ''R4OS_THREAD_ERROR_INVALID'')
       else ask (sys_field E sys ''thread_handle_join'') (\<lambda>ok.
       if \<not> ok then give (p_code E ''R4OS_THREAD_ERROR_UNSUPPORTED'')
       else sys_call E sys ''thread_handle_join'' [handle, timeout_ticks, out_exit_code]))"

definition r4sys_thread_handle_status ::
  "'w platform \<Rightarrow> r4_sys option \<Rightarrow> u64 \<Rightarrow> u64 \<Rightarrow> (i32, 'w) io" where
  "r4sys_thread_handle_status E sys handle out_info =
    (if handle = 0 \<or> out_info = 0 then give (p_code E ''R4OS_THREAD_ERROR_INVALID'')
       else ask (sys_field E sys ''thread_handle_status'') (\<lambda>ok.
       if \<not> ok then give (p_code E ''R4OS_THREAD_ERROR_UNSUPPORTED'')
       else sys_call E sys ''thread_handle_status'' [handle, out_info]))"

definition r4sys_supports_file_replace_atomic :: "'w platform \<Rightarrow> r4_sys option \<Rightarrow> query" where
  "r4sys_supports_file_replace_atomic E sys =
     sys_has E sys ''file_replace_atomic''"

definition r4sys_file_replace_atomic_flags ::
  "'w platform \<Rightarrow> r4_sys option \<Rightarrow> u64 \<Rightarrow> u64 \<Rightarrow> u64 \<Rightarrow> u32 \<Rightarrow> (i32, 'w) io" where
  "r4sys_file_replace_atomic_flags E sys target_path staged_path backup_path flags =
    (ask (r4sys_supports_file_replace_atomic E sys) (\<lambda>ok.
       if \<not> ok then give (- 2)
       else if target_path = 0 \<or> staged_path = 0 \<or> backup_path = 0 then give (- 1)
       else sys_call E sys ''file_replace_atomic'' [target_path, staged_path, backup_path, ucast flags]))"

definition r4sys_file_replace_atomic ::
  "'w platform \<Rightarrow> r4_sys option \<Rightarrow> u64 \<Rightarrow> u64 \<Rightarrow> u64 \<Rightarrow> (i32, 'w) io" where
  "r4sys_file_replace_atomic E sys target_path staged_path backup_path =
    (r4sys_file_replace_atomic_flags E sys target_path staged_path backup_path (1))"

definition r4sys_supports_file_delete_if_match :: "'w platform \<Rightarrow> r4_sys option \<Rightarrow> query" where
  "r4sys_supports_file_delete_if_match E sys =
     sys_has E sys ''file_delete_if_match''"

definition r4sys_file_delete_if_match ::
  "'w platform \<Rightarrow> r4_sys option \<Rightarrow> u64 \<Rightarrow> u64 \<Rightarrow> u32 \<Rightarrow> (i32, 'w) io" where
  "r4sys_file_delete_if_match E sys path expected_size expected_checksum =
    (ask (r4sys_supports_file_delete_if_match E sys) (\<lambda>ok.
       if \<not> ok then give (- 2)
       else if path = 0 then give (- 1)
       else sys_call E sys ''file_delete_if_match'' [path, expected_size, ucast expected_checksum]))"

definition r4sys_supports_file_update_atomic_checked :: "'w platform \<Rightarrow> r4_sys option \<Rightarrow> query" where
  "r4sys_supports_file_update_atomic_checked E sys =
     sys_has E sys ''file_update_atomic_checked''"

definition r4sys_file_update_atomic_checked ::
  "'w platform \<Rightarrow> r4_sys option \<Rightarrow> u64 \<Rightarrow> u64 \<Rightarrow> u64 \<Rightarrow> u64 \<Rightarrow> u32 \<Rightarrow> u64 \<Rightarrow> u32 \<Rightarrow> u32 \<Rightarrow> (i32, 'w) io" where
  "r4sys_file_update_atomic_checked E sys target_path staged_path backup_path new_size new_checksum old_size old_checksum flags =
    (ask (r4sys_supports_file_update_atomic_checked E sys) (\<lambda>ok.
       if \<not> ok then give (- 2)
       else if target_path = 0 \<or> staged_path = 0 \<or> backup_path = 0 then give (- 1)
       else sys_call E sys ''file_update_atomic_checked'' [target_path, staged_path, backup_path, new_size, ucast new_checksum, old_size, ucast old_checksum, ucast flags]))"

definition r4sys_supports_async_io :: "'w platform \<Rightarrow> r4_sys option \<Rightarrow> query" where
  "r4sys_supports_async_io E sys =
     sys_slots E sys ''io_close'' [''io_file_read'', ''io_file_write'', ''io_file_stream_write'', ''io_service_call'', ''io_status'', ''io_wait'', ''io_close'']"

definition r4sys_io_file_read ::
  "'w platform \<Rightarrow> r4_sys option \<Rightarrow> u64 \<Rightarrow> u64 \<Rightarrow> u64 \<Rightarrow> u32 \<Rightarrow> u64 \<Rightarrow> (i32, 'w) io" where
  "r4sys_io_file_read E sys path out capacity flags out_request_id =
    (ask (q_or (q_not (sys_field E sys ''io_file_read'')) (q_or (sure (path = 0)) (sure (out_request_id = 0)))) (\<lambda>bad.
       if bad then give (p_code E ''R4OS_IO_ERROR_UNSUPPORTED'')
       else sys_call E sys ''io_file_read'' [path, out, capacity, ucast flags, out_request_id]))"

definition r4sys_io_file_read_at ::
  "'w platform \<Rightarrow> r4_sys option \<Rightarrow> u64 \<Rightarrow> u64 \<Rightarrow> u64 \<Rightarrow> u64 \<Rightarrow> u32 \<Rightarrow> u64 \<Rightarrow> (i32, 'w) io" where
  "r4sys_io_file_read_at E sys path offset out capacity flags out_request_id =
    (ask (q_or (q_not (q_and (sys_field E sys ''io_file_read_at'') (sys_filled E sys ''io_file_read_at''))) (q_or (sure (path = 0)) (sure (out_request_id = 0)))) (\<lambda>bad.
       if bad then give (p_code E ''R4OS_IO_ERROR_UNSUPPORTED'')
       else sys_call E sys ''io_file_read_at'' [path, offset, out, capacity, ucast flags, out_request_id]))"

definition r4sys_io_file_write ::
  "'w platform \<Rightarrow> r4_sys option \<Rightarrow> u64 \<Rightarrow> u64 \<Rightarrow> u64 \<Rightarrow> u32 \<Rightarrow> u64 \<Rightarrow> (i32, 'w) io" where
  "r4sys_io_file_write E sys path data len flags out_request_id =
    (ask (q_or (q_not (sys_field E sys ''io_file_write'')) (q_or (sure (path = 0)) (sure (out_request_id = 0)))) (\<lambda>bad.
       if bad then give (p_code E ''R4OS_IO_ERROR_UNSUPPORTED'')
       else sys_call E sys ''io_file_write'' [path, data, len, ucast flags, out_request_id]))"

definition r4sys_io_file_append ::
  "'w platform \<Rightarrow> r4_sys option \<Rightarrow> u64 \<Rightarrow> u64 \<Rightarrow> u64 \<Rightarrow> u32 \<Rightarrow> u64 \<Rightarrow> (i32, 'w) io" where
  "r4sys_io_file_append E sys path data len flags out_request_id =
    (ask (q_or (q_not (q_and (sys_field E sys ''io_file_append'') (sys_filled E sys ''io_file_append''))) (q_or (sure (path = 0)) (sure (out_request_id = 0)))) (\<lambda>bad.
       if bad then give (p_code E ''R4OS_IO_ERROR_UNSUPPORTED'')
       else sys_call E sys ''io_file_append'' [path, data, len, ucast flags, out_request_id]))"

definition r4sys_io_file_stream_begin ::
  "'w platform \<Rightarrow> r4_sys option \<Rightarrow> u64 \<Rightarrow> u32 \<Rightarrow> u64 \<Rightarrow> (i32, 'w) io" where
  "r4sys_io_file_stream_begin E sys path flags out_request_id =
    (ask (q_or (q_not (q_and (sys_field E sys ''io_file_stream_begin'') (sys_filled E sys ''io_file_stream_begin''))) (q_or (sure (path = 0)) (sure (out_request_id = 0)))) (\<lambda>bad.
       if bad then give (p_code E ''R4OS_IO_ERROR_UNSUPPORTED'')
       else sys_call E sys ''io_file_stream_begin'' [path, ucast flags, out_request_id]))"

definition r4sys_io_file_stream_write ::
  "'w platform \<Rightarrow> r4_sys option \<Rightarrow> u64 \<Rightarrow> u64 \<Rightarrow> u64 \<Rightarrow> u64 \<Rightarrow> u32 \<Rightarrow> u64 \<Rightarrow> (i32, 'w) io" where
  "r4sys_io_file_stream_write E sys path offset data len flags out_request_id =
    (ask (q_or (q_not (sys_field E sys ''io_file_stream_write'')) (q_or (sure (path = 0)) (sure (out_request_id = 0)))) (\<lambda>bad.
       if bad then give (p_code E ''R4OS_IO_ERROR_UNSUPPORTED'')
       else sys_call E sys ''io_file_stream_write'' [path, offset, data, len, ucast flags, out_request_id]))"

definition r4sys_io_file_stream_finish ::
  "'w platform \<Rightarrow> r4_sys option \<Rightarrow> u64 \<Rightarrow> u64 \<Rightarrow> u32 \<Rightarrow> u64 \<Rightarrow> (i32, 'w) io" where
  "r4sys_io_file_stream_finish E sys path expected_size flags out_request_id =
    (ask (q_or (q_not (q_and (sys_field E sys ''io_file_stream_finish'') (sys_filled E sys ''io_file_stream_finish''))) (q_or (sure (path = 0)) (sure (out_request_id = 0)))) (\<lambda>bad.
       if bad then give (p_code E ''R4OS_IO_ERROR_UNSUPPORTED'')
       else sys_call E sys ''io_file_stream_finish'' [path, expected_size, ucast flags, out_request_id]))"

definition r4sys_io_file_stream_abort ::
  "'w platform \<Rightarrow> r4_sys option \<Rightarrow> u64 \<Rightarrow> u64 \<Rightarrow> (i32, 'w) io" where
  "r4sys_io_file_stream_abort E sys path out_request_id =
    (ask (q_or (q_not (q_and (sys_field E sys ''io_file_stream_abort'') (sys_filled E sys ''io_file_stream_abort''))) (q_or (sure (path = 0)) (sure (out_request_id = 0)))) (\<lambda>bad.
       if bad then give (p_code E ''R4OS_IO_ERROR_UNSUPPORTED'')
       else sys_call E sys ''io_file_stream_abort'' [path, out_request_id]))"

definition r4sys_io_service_call ::
  "'w platform \<Rightarrow> r4_sys option \<Rightarrow> u32 \<Rightarrow> u16 \<Rightarrow> u64 \<Rightarrow> u32 \<Rightarrow> u64 \<Rightarrow> u64 \<Rightarrow> u32 \<Rightarrow> u64 \<Rightarrow> u32 \<Rightarrow> u64 \<Rightarrow> (i32, 'w) io" where
  "r4sys_io_service_call E sys handle op_code request request_len response_header response response_capacity timeout_ticks flags out_request_id =
    (ask (q_or (q_not (sys_field E sys ''io_service_call'')) (q_or (sure (response_header = 0)) (q_or (sure (response = 0)) (sure (out_request_id = 0))))) (\<lambda>bad.
       if bad then give (p_code E ''R4OS_IO_ERROR_UNSUPPORTED'')
       else sys_call E sys ''io_service_call'' [ucast handle, ucast op_code, request, ucast request_len, response_header, response, ucast response_capacity, timeout_ticks, ucast flags, out_request_id]))"

definition r4sys_io_status ::
  "'w platform \<Rightarrow> r4_sys option \<Rightarrow> u32 \<Rightarrow> u64 \<Rightarrow> (i32, 'w) io" where
  "r4sys_io_status E sys request_id out_info =
    (ask (q_or (q_not (sys_field E sys ''io_status'')) (sure (out_info = 0))) (\<lambda>bad.
       if bad then give (p_code E ''R4OS_IO_ERROR_UNSUPPORTED'')
       else sys_call E sys ''io_status'' [ucast request_id, out_info]))"

definition r4sys_io_wait ::
  "'w platform \<Rightarrow> r4_sys option \<Rightarrow> u32 \<Rightarrow> u64 \<Rightarrow> u64 \<Rightarrow> (i32, 'w) io" where
  "r4sys_io_wait E sys request_id timeout_ticks out_info =
    (ask (q_or (q_not (sys_field E sys ''io_wait'')) (sure (out_info = 0))) (\<lambda>bad.
       if bad then give (p_code E ''R4OS_IO_ERROR_UNSUPPORTED'')
       else sys_call E sys ''io_wait'' [ucast request_id, timeout_ticks, out_info]))"

definition r4sys_io_close ::
  "'w platform \<Rightarrow> r4_sys option \<Rightarrow> u32 \<Rightarrow> (i32, 'w) io" where
  "r4sys_io_close E sys request_id =
    (ask (sys_field E sys ''io_close'') (\<lambda>ok.
       if \<not> ok then give (p_code E ''R4OS_IO_ERROR_UNSUPPORTED'')
       else sys_call E sys ''io_close'' [ucast request_id]))"

definition r4sys_vm_reserve ::
  "'w platform \<Rightarrow> r4_sys option \<Rightarrow> u64 \<Rightarrow> u64 \<Rightarrow> u64 \<Rightarrow> u64 \<Rightarrow> (i32, 'w) io" where
  "r4sys_vm_reserve E sys sz alignment flags out_info =
    (ask (q_or (q_not (sys_field E sys ''vm_reserve'')) (sure (out_info = 0))) (\<lambda>bad.
       if bad then give (p_code E ''R4OS_VM_ERROR_NO_INSTANCE'')
       else sys_call E sys ''vm_reserve'' [sz, alignment, flags, out_info]))"

definition r4sys_vm_commit ::
  "'w platform \<Rightarrow> r4_sys option \<Rightarrow> u32 \<Rightarrow> u64 \<Rightarrow> u64 \<Rightarrow> (i32, 'w) io" where
  "r4sys_vm_commit E sys region_id offset len =
    (ask (sys_field E sys ''vm_commit'') (\<lambda>ok.
       if \<not> ok then give (p_code E ''R4OS_VM_ERROR_NO_INSTANCE'')
       else sys_call E sys ''vm_commit'' [ucast region_id, offset, len, 0]))"

definition r4sys_vm_commit_flags ::
  "'w platform \<Rightarrow> r4_sys option \<Rightarrow> u32 \<Rightarrow> u64 \<Rightarrow> u64 \<Rightarrow> u64 \<Rightarrow> (i32, 'w) io" where
  "r4sys_vm_commit_flags E sys region_id offset len flags =
    (ask (sys_field E sys ''vm_commit'') (\<lambda>ok.
       if \<not> ok then give (p_code E ''R4OS_VM_ERROR_NO_INSTANCE'')
       else sys_call E sys ''vm_commit'' [ucast region_id, offset, len, flags]))"

definition r4sys_vm_decommit ::
  "'w platform \<Rightarrow> r4_sys option \<Rightarrow> u32 \<Rightarrow> u64 \<Rightarrow> u64 \<Rightarrow> (i32, 'w) io" where
  "r4sys_vm_decommit E sys region_id offset len =
    (ask (sys_field E sys ''vm_decommit'') (\<lambda>ok.
       if \<not> ok then give (p_code E ''R4OS_VM_ERROR_NO_INSTANCE'')
       else sys_call E sys ''vm_decommit'' [ucast region_id, offset, len]))"

definition r4sys_vm_release ::
  "'w platform \<Rightarrow> r4_sys option \<Rightarrow> u32 \<Rightarrow> (i32, 'w) io" where
  "r4sys_vm_release E sys region_id =
    (ask (sys_field E sys ''vm_release'') (\<lambda>ok.
       if \<not> ok then give (p_code E ''R4OS_VM_ERROR_NO_INSTANCE'')
       else sys_call E sys ''vm_release'' [ucast region_id]))"

definition r4sys_vm_query ::
  "'w platform \<Rightarrow> r4_sys option \<Rightarrow> u32 \<Rightarrow> u64 \<Rightarrow> (i32, 'w) io" where
  "r4sys_vm_query E sys region_id out_info =
    (ask (q_or (q_not (sys_field E sys ''vm_query'')) (sure (out_info = 0))) (\<lambda>bad.
       if bad then give (p_code E ''R4OS_VM_ERROR_NO_INSTANCE'')
       else sys_call E sys ''vm_query'' [ucast region_id, out_info]))"

subsection \<open>Every call goes through a slot of the table\<close>

definition sys_capabilities :: "(string \<times> string list) list" where
  "sys_capabilities =
    [(''vm_query'', [''vm_reserve'', ''vm_commit'', ''vm_decommit'', ''vm_release'', ''vm_query'']),
     (''thread_status'', [''thread_create'', ''thread_exit'', ''thread_join'', ''thread_current'', ''thread_status'']),
     (''program_lifecycle_programs'', [''program_lifecycle_begin'', ''program_lifecycle_programs'']),
     (''program_inventory_threads'', [''program_inventory_begin'', ''program_inventory_programs'', ''program_inventory_tasks'', ''program_inventory_threads'']),
     (''registry_snapshot_page'', [''registry_snapshot_begin'', ''registry_snapshot_page'']),
     (''thread_handle_status'', [''thread_create_handle'', ''thread_handle_join'', ''thread_handle_status'']),
     (''io_close'', [''io_file_read'', ''io_file_write'', ''io_file_stream_write'', ''io_service_call'', ''io_status'', ''io_wait'', ''io_close''])]"

definition sys_base_slots :: "string list" where
  "sys_base_slots = [''write'', ''putc'']"

text \<open>What the contract and the loader promise: member layout, slot order, and a table that holds every base slot.\<close>

definition sys_ready :: "'w platform \<Rightarrow> u64 \<Rightarrow> bytes \<Rightarrow> (u64 \<times> nat) list \<Rightarrow> bool" where
  "sys_ready E t V outs \<longleftrightarrow> abi_ok E \<and> keeps_steady E t V outs \<and>
     (\<forall>(l, ss) \<in> set sys_capabilities. before E ''R4Sys'' l ss) \<and>
     (\<forall>s \<in> set sys_base_slots. based E ''R4Sys'' t V s)"

lemma sys_ready_facts:
  assumes "sys_ready E t V outs"
  shows "abi_ok E"
    and "keeps_steady E t V outs"
    and "before E ''R4Sys'' ''vm_query'' [''vm_reserve'', ''vm_commit'', ''vm_decommit'', ''vm_release'', ''vm_query'']"
    and "before E ''R4Sys'' ''thread_status'' [''thread_create'', ''thread_exit'', ''thread_join'', ''thread_current'', ''thread_status'']"
    and "before E ''R4Sys'' ''program_lifecycle_programs'' [''program_lifecycle_begin'', ''program_lifecycle_programs'']"
    and "before E ''R4Sys'' ''program_inventory_threads'' [''program_inventory_begin'', ''program_inventory_programs'', ''program_inventory_tasks'', ''program_inventory_threads'']"
    and "before E ''R4Sys'' ''registry_snapshot_page'' [''registry_snapshot_begin'', ''registry_snapshot_page'']"
    and "before E ''R4Sys'' ''thread_handle_status'' [''thread_create_handle'', ''thread_handle_join'', ''thread_handle_status'']"
    and "before E ''R4Sys'' ''io_close'' [''io_file_read'', ''io_file_write'', ''io_file_stream_write'', ''io_service_call'', ''io_status'', ''io_wait'', ''io_close'']"
    and "based E ''R4Sys'' t V ''write''"
    and "based E ''R4Sys'' t V ''putc''"
  using assms by (auto simp: sys_ready_def sys_capabilities_def sys_base_slots_def)

lemma sys_base_inside:
  assumes "sys_ready E t V outs" and "t \<noteq> 0"
  shows "p_off E ''R4Sys'' ''write'' + 8 \<le> length V"
    and "p_off E ''R4Sys'' ''putc'' + 8 \<le> length V"
  using assms by (auto simp: sys_ready_def sys_base_slots_def based_def)

lemmas sys_supports = r4sys_supports_vm_def r4sys_supports_threads_def r4sys_supports_program_lifecycle_def r4sys_supports_program_inventory_def r4sys_supports_registry_snapshot_def r4sys_supports_registry_batch_def r4sys_supports_thread_handles_def r4sys_supports_file_replace_atomic_def r4sys_supports_file_delete_if_match_def r4sys_supports_file_update_atomic_checked_def r4sys_supports_async_io_def

lemma r4sys_file_name_limits_admitted:
  "sys_ready E (table_of sys) V outs \<Longrightarrow>
    admitted (table_of sys) V outs (r4sys_file_name_limits E sys path out)"
  unfolding r4sys_file_name_limits_def ask_connectives
  by (intro admits admits_tests admits_objects) (auto dest: opens_all_opens opens_all_nonnull opens_nonnull slot_inside simp: sys_ready_facts sys_base_inside)

lemma r4sys_system_update_target_supported_admitted:
  "sys_ready E (table_of sys) V outs \<Longrightarrow>
    admitted (table_of sys) V outs (r4sys_system_update_target_supported E sys path)"
  unfolding r4sys_system_update_target_supported_def ask_connectives
  by (intro admits admits_tests admits_objects) (auto dest: opens_all_opens opens_all_nonnull opens_nonnull slot_inside simp: sys_ready_facts sys_base_inside)

lemma r4sys_system_power_transition_admitted:
  "sys_ready E (table_of sys) V outs \<Longrightarrow>
    admitted (table_of sys) V outs (r4sys_system_power_transition E sys action timeout_ticks)"
  unfolding r4sys_system_power_transition_def ask_connectives
  by (intro admits admits_tests admits_objects) (auto dest: opens_all_opens opens_all_nonnull opens_nonnull slot_inside simp: sys_ready_facts sys_base_inside)

lemma r4sys_platform_input_snapshot_admitted:
  "sys_ready E (table_of sys) V outs \<Longrightarrow> (output \<noteq> 0 \<longrightarrow> out_ok E outs output ''R4PlatformInputSnapshot'') \<Longrightarrow>
    admitted (table_of sys) V outs (r4sys_platform_input_snapshot E sys output)"
  unfolding r4sys_platform_input_snapshot_def ask_connectives
  by (intro admits admits_tests admits_objects) (auto dest: opens_all_opens opens_all_nonnull opens_nonnull slot_inside simp: sys_ready_facts sys_base_inside)

lemma r4sys_file_copy_buffered_admitted:
  "sys_ready E (table_of sys) V outs \<Longrightarrow>
    admitted (table_of sys) V outs (r4sys_file_copy_buffered E sys source target buffer capacity progress)"
  unfolding r4sys_file_copy_buffered_def ask_connectives
  by (intro admits admits_tests admits_objects) (auto dest: opens_all_opens opens_all_nonnull opens_nonnull slot_inside simp: sys_ready_facts sys_base_inside)

lemma r4sys_write_admitted:
  "sys_ready E (table_of sys) V outs \<Longrightarrow>
    admitted (table_of sys) V outs (r4sys_write E sys data len)"
  unfolding r4sys_write_def ask_connectives
  by (intro admits admits_tests admits_objects) (auto dest: opens_all_opens opens_all_nonnull opens_nonnull slot_inside simp: sys_ready_facts sys_base_inside)

lemma r4sys_putc_admitted:
  "sys_ready E (table_of sys) V outs \<Longrightarrow>
    admitted (table_of sys) V outs (r4sys_putc E sys ch)"
  unfolding r4sys_putc_def ask_connectives
  by (intro admits admits_tests admits_objects) (auto dest: opens_all_opens opens_all_nonnull opens_nonnull slot_inside simp: sys_ready_facts sys_base_inside)

lemma r4sys_thread_create_admitted:
  "sys_ready E (table_of sys) V outs \<Longrightarrow>
    admitted (table_of sys) V outs (r4sys_thread_create E sys entry arg stack_reserve_bytes out_thread_id)"
  unfolding r4sys_thread_create_def ask_connectives
  by (intro admits admits_tests admits_objects) (auto dest: opens_all_opens opens_all_nonnull opens_nonnull slot_inside simp: sys_ready_facts sys_base_inside)

lemma r4sys_thread_exit_admitted:
  "sys_ready E (table_of sys) V outs \<Longrightarrow>
    admitted (table_of sys) V outs (r4sys_thread_exit E sys exit_code)"
  unfolding r4sys_thread_exit_def ask_connectives
  by (intro admits admits_tests admits_objects) (auto dest: opens_all_opens opens_all_nonnull opens_nonnull slot_inside simp: sys_ready_facts sys_base_inside)

lemma r4sys_thread_join_admitted:
  "sys_ready E (table_of sys) V outs \<Longrightarrow>
    admitted (table_of sys) V outs (r4sys_thread_join E sys thread_id timeout_ticks out_exit_code)"
  unfolding r4sys_thread_join_def ask_connectives
  by (intro admits admits_tests admits_objects) (auto dest: opens_all_opens opens_all_nonnull opens_nonnull slot_inside simp: sys_ready_facts sys_base_inside)

lemma r4sys_thread_current_admitted:
  "sys_ready E (table_of sys) V outs \<Longrightarrow>
    admitted (table_of sys) V outs (r4sys_thread_current E sys)"
  unfolding r4sys_thread_current_def ask_connectives
  by (intro admits admits_tests admits_objects) (auto dest: opens_all_opens opens_all_nonnull opens_nonnull slot_inside simp: sys_ready_facts sys_base_inside)

lemma r4sys_thread_current_handle_admitted:
  "sys_ready E (table_of sys) V outs \<Longrightarrow>
    admitted (table_of sys) V outs (r4sys_thread_current_handle E sys out_handle)"
  unfolding r4sys_thread_current_handle_def ask_connectives
  by (intro admits admits_tests admits_objects) (auto dest: opens_all_opens opens_all_nonnull opens_nonnull slot_inside simp: sys_ready_facts sys_base_inside)

lemma r4sys_thread_placement_get_admitted:
  "sys_ready E (table_of sys) V outs \<Longrightarrow>
    admitted (table_of sys) V outs (r4sys_thread_placement_get E sys handle info cpus word_capacity)"
  unfolding r4sys_thread_placement_get_def ask_connectives
  by (intro admits admits_tests admits_objects) (auto dest: opens_all_opens opens_all_nonnull opens_nonnull slot_inside simp: sys_ready_facts sys_base_inside)

lemma r4sys_thread_placement_set_admitted:
  "sys_ready E (table_of sys) V outs \<Longrightarrow>
    admitted (table_of sys) V outs (r4sys_thread_placement_set E sys handle request cpus word_count)"
  unfolding r4sys_thread_placement_set_def ask_connectives
  by (intro admits admits_tests admits_objects) (auto dest: opens_all_opens opens_all_nonnull opens_nonnull slot_inside simp: sys_ready_facts sys_base_inside)

lemma r4sys_cpu_capacity_admitted:
  "sys_ready E (table_of sys) V outs \<Longrightarrow>
    admitted (table_of sys) V outs (r4sys_cpu_capacity E sys output)"
  unfolding r4sys_cpu_capacity_def ask_connectives
  by (intro admits admits_tests admits_objects) (auto dest: opens_all_opens opens_all_nonnull opens_nonnull slot_inside simp: sys_ready_facts sys_base_inside)

lemma r4sys_program_exit_admitted:
  "sys_ready E (table_of sys) V outs \<Longrightarrow>
    admitted (table_of sys) V outs (r4sys_program_exit E sys exit_code reason)"
  unfolding r4sys_program_exit_def ask_connectives
  by (intro admits admits_tests admits_objects) (auto dest: opens_all_opens opens_all_nonnull opens_nonnull slot_inside simp: sys_ready_facts sys_base_inside)

lemma r4sys_thread_status_admitted:
  "sys_ready E (table_of sys) V outs \<Longrightarrow>
    admitted (table_of sys) V outs (r4sys_thread_status E sys thread_id out_info)"
  unfolding r4sys_thread_status_def ask_connectives
  by (intro admits admits_tests admits_objects) (auto dest: opens_all_opens opens_all_nonnull opens_nonnull slot_inside simp: sys_ready_facts sys_base_inside)

lemma r4sys_program_lifecycle_begin_admitted:
  "sys_ready E (table_of sys) V outs \<Longrightarrow>
    admitted (table_of sys) V outs (r4sys_program_lifecycle_begin E sys cursor)"
  unfolding r4sys_program_lifecycle_begin_def sys_supports ask_connectives
  by (intro admits admits_tests admits_objects) (auto dest: opens_all_opens opens_all_nonnull opens_nonnull slot_inside simp: sys_ready_facts sys_base_inside)

lemma r4sys_program_lifecycle_programs_admitted:
  "sys_ready E (table_of sys) V outs \<Longrightarrow>
    admitted (table_of sys) V outs (r4sys_program_lifecycle_programs E sys cursor out capacity page)"
  unfolding r4sys_program_lifecycle_programs_def sys_supports ask_connectives
  by (intro admits admits_tests admits_objects) (auto dest: opens_all_opens opens_all_nonnull opens_nonnull slot_inside simp: sys_ready_facts sys_base_inside)

lemma r4sys_program_inventory_begin_admitted:
  "sys_ready E (table_of sys) V outs \<Longrightarrow>
    admitted (table_of sys) V outs (r4sys_program_inventory_begin E sys cursor out_summary)"
  unfolding r4sys_program_inventory_begin_def sys_supports ask_connectives
  by (intro admits admits_tests admits_objects) (auto dest: opens_all_opens opens_all_nonnull opens_nonnull slot_inside simp: sys_ready_facts sys_base_inside)

lemma r4sys_program_inventory_programs_admitted:
  "sys_ready E (table_of sys) V outs \<Longrightarrow>
    admitted (table_of sys) V outs (r4sys_program_inventory_programs E sys cursor out capacity out_page)"
  unfolding r4sys_program_inventory_programs_def sys_supports ask_connectives
  by (intro admits admits_tests admits_objects) (auto dest: opens_all_opens opens_all_nonnull opens_nonnull slot_inside simp: sys_ready_facts sys_base_inside)

lemma r4sys_program_inventory_tasks_admitted:
  "sys_ready E (table_of sys) V outs \<Longrightarrow>
    admitted (table_of sys) V outs (r4sys_program_inventory_tasks E sys cursor out capacity out_page)"
  unfolding r4sys_program_inventory_tasks_def sys_supports ask_connectives
  by (intro admits admits_tests admits_objects) (auto dest: opens_all_opens opens_all_nonnull opens_nonnull slot_inside simp: sys_ready_facts sys_base_inside)

lemma r4sys_program_inventory_threads_admitted:
  "sys_ready E (table_of sys) V outs \<Longrightarrow>
    admitted (table_of sys) V outs (r4sys_program_inventory_threads E sys cursor out capacity out_page)"
  unfolding r4sys_program_inventory_threads_def sys_supports ask_connectives
  by (intro admits admits_tests admits_objects) (auto dest: opens_all_opens opens_all_nonnull opens_nonnull slot_inside simp: sys_ready_facts sys_base_inside)

lemma r4sys_registry_snapshot_begin_admitted:
  "sys_ready E (table_of sys) V outs \<Longrightarrow>
    admitted (table_of sys) V outs (r4sys_registry_snapshot_begin E sys key_path kind cursor)"
  unfolding r4sys_registry_snapshot_begin_def sys_supports ask_connectives
  by (intro admits admits_tests admits_objects) (auto dest: opens_all_opens opens_all_nonnull opens_nonnull slot_inside simp: sys_ready_facts sys_base_inside)

lemma r4sys_registry_snapshot_page_admitted:
  "sys_ready E (table_of sys) V outs \<Longrightarrow>
    admitted (table_of sys) V outs (r4sys_registry_snapshot_page E sys cursor entries entry_capacity data data_capacity out_page)"
  unfolding r4sys_registry_snapshot_page_def sys_supports ask_connectives
  by (intro admits admits_tests admits_objects) (auto dest: opens_all_opens opens_all_nonnull opens_nonnull slot_inside simp: sys_ready_facts sys_base_inside)

lemma r4sys_registry_batch_mutate_admitted:
  "sys_ready E (table_of sys) V outs \<Longrightarrow>
    admitted (table_of sys) V outs (r4sys_registry_batch_mutate E sys operations operation_count blob blob_len out_result)"
  unfolding r4sys_registry_batch_mutate_def sys_supports ask_connectives
  by (intro admits admits_tests admits_objects) (auto dest: opens_all_opens opens_all_nonnull opens_nonnull slot_inside simp: sys_ready_facts sys_base_inside)

lemma r4sys_thread_create_handle_admitted:
  "sys_ready E (table_of sys) V outs \<Longrightarrow> (out_handle \<noteq> 0 \<longrightarrow> out_ok E outs out_handle ''R4ProgramJoinHandle'') \<Longrightarrow>
    admitted (table_of sys) V outs (r4sys_thread_create_handle E sys entry arg stack_reserve_bytes flags out_handle)"
  unfolding r4sys_thread_create_handle_def ask_connectives
  by (intro admits admits_tests admits_objects) (auto dest: opens_all_opens opens_all_nonnull opens_nonnull slot_inside simp: sys_ready_facts sys_base_inside)

lemma r4sys_compute_worker_create_admitted:
  "sys_ready E (table_of sys) V outs \<Longrightarrow> (out_handle \<noteq> 0 \<longrightarrow> out_ok E outs out_handle ''R4ProgramJoinHandle'') \<Longrightarrow>
    admitted (table_of sys) V outs (r4sys_compute_worker_create E sys entry arg stack_reserve_bytes out_handle)"
  unfolding r4sys_compute_worker_create_def by (rule r4sys_thread_create_handle_admitted)

lemma r4sys_thread_handle_join_admitted:
  "sys_ready E (table_of sys) V outs \<Longrightarrow>
    admitted (table_of sys) V outs (r4sys_thread_handle_join E sys handle timeout_ticks out_exit_code)"
  unfolding r4sys_thread_handle_join_def ask_connectives
  by (intro admits admits_tests admits_objects) (auto dest: opens_all_opens opens_all_nonnull opens_nonnull slot_inside simp: sys_ready_facts sys_base_inside)

lemma r4sys_thread_handle_status_admitted:
  "sys_ready E (table_of sys) V outs \<Longrightarrow>
    admitted (table_of sys) V outs (r4sys_thread_handle_status E sys handle out_info)"
  unfolding r4sys_thread_handle_status_def ask_connectives
  by (intro admits admits_tests admits_objects) (auto dest: opens_all_opens opens_all_nonnull opens_nonnull slot_inside simp: sys_ready_facts sys_base_inside)

lemma r4sys_file_replace_atomic_flags_admitted:
  "sys_ready E (table_of sys) V outs \<Longrightarrow>
    admitted (table_of sys) V outs (r4sys_file_replace_atomic_flags E sys target_path staged_path backup_path flags)"
  unfolding r4sys_file_replace_atomic_flags_def sys_supports ask_connectives
  by (intro admits admits_tests admits_objects) (auto dest: opens_all_opens opens_all_nonnull opens_nonnull slot_inside simp: sys_ready_facts sys_base_inside)

lemma r4sys_file_replace_atomic_admitted:
  "sys_ready E (table_of sys) V outs \<Longrightarrow>
    admitted (table_of sys) V outs (r4sys_file_replace_atomic E sys target_path staged_path backup_path)"
  unfolding r4sys_file_replace_atomic_def by (rule r4sys_file_replace_atomic_flags_admitted)

lemma r4sys_file_delete_if_match_admitted:
  "sys_ready E (table_of sys) V outs \<Longrightarrow>
    admitted (table_of sys) V outs (r4sys_file_delete_if_match E sys path expected_size expected_checksum)"
  unfolding r4sys_file_delete_if_match_def sys_supports ask_connectives
  by (intro admits admits_tests admits_objects) (auto dest: opens_all_opens opens_all_nonnull opens_nonnull slot_inside simp: sys_ready_facts sys_base_inside)

lemma r4sys_file_update_atomic_checked_admitted:
  "sys_ready E (table_of sys) V outs \<Longrightarrow>
    admitted (table_of sys) V outs (r4sys_file_update_atomic_checked E sys target_path staged_path backup_path new_size new_checksum old_size old_checksum flags)"
  unfolding r4sys_file_update_atomic_checked_def sys_supports ask_connectives
  by (intro admits admits_tests admits_objects) (auto dest: opens_all_opens opens_all_nonnull opens_nonnull slot_inside simp: sys_ready_facts sys_base_inside)

lemma r4sys_io_file_read_admitted:
  "sys_ready E (table_of sys) V outs \<Longrightarrow>
    admitted (table_of sys) V outs (r4sys_io_file_read E sys path out capacity flags out_request_id)"
  unfolding r4sys_io_file_read_def ask_connectives
  by (intro admits admits_tests admits_objects) (auto dest: opens_all_opens opens_all_nonnull opens_nonnull slot_inside simp: sys_ready_facts sys_base_inside)

lemma r4sys_io_file_read_at_admitted:
  "sys_ready E (table_of sys) V outs \<Longrightarrow>
    admitted (table_of sys) V outs (r4sys_io_file_read_at E sys path offset out capacity flags out_request_id)"
  unfolding r4sys_io_file_read_at_def ask_connectives
  by (intro admits admits_tests admits_objects) (auto dest: opens_all_opens opens_all_nonnull opens_nonnull slot_inside simp: sys_ready_facts sys_base_inside)

lemma r4sys_io_file_write_admitted:
  "sys_ready E (table_of sys) V outs \<Longrightarrow>
    admitted (table_of sys) V outs (r4sys_io_file_write E sys path data len flags out_request_id)"
  unfolding r4sys_io_file_write_def ask_connectives
  by (intro admits admits_tests admits_objects) (auto dest: opens_all_opens opens_all_nonnull opens_nonnull slot_inside simp: sys_ready_facts sys_base_inside)

lemma r4sys_io_file_append_admitted:
  "sys_ready E (table_of sys) V outs \<Longrightarrow>
    admitted (table_of sys) V outs (r4sys_io_file_append E sys path data len flags out_request_id)"
  unfolding r4sys_io_file_append_def ask_connectives
  by (intro admits admits_tests admits_objects) (auto dest: opens_all_opens opens_all_nonnull opens_nonnull slot_inside simp: sys_ready_facts sys_base_inside)

lemma r4sys_io_file_stream_begin_admitted:
  "sys_ready E (table_of sys) V outs \<Longrightarrow>
    admitted (table_of sys) V outs (r4sys_io_file_stream_begin E sys path flags out_request_id)"
  unfolding r4sys_io_file_stream_begin_def ask_connectives
  by (intro admits admits_tests admits_objects) (auto dest: opens_all_opens opens_all_nonnull opens_nonnull slot_inside simp: sys_ready_facts sys_base_inside)

lemma r4sys_io_file_stream_write_admitted:
  "sys_ready E (table_of sys) V outs \<Longrightarrow>
    admitted (table_of sys) V outs (r4sys_io_file_stream_write E sys path offset data len flags out_request_id)"
  unfolding r4sys_io_file_stream_write_def ask_connectives
  by (intro admits admits_tests admits_objects) (auto dest: opens_all_opens opens_all_nonnull opens_nonnull slot_inside simp: sys_ready_facts sys_base_inside)

lemma r4sys_io_file_stream_finish_admitted:
  "sys_ready E (table_of sys) V outs \<Longrightarrow>
    admitted (table_of sys) V outs (r4sys_io_file_stream_finish E sys path expected_size flags out_request_id)"
  unfolding r4sys_io_file_stream_finish_def ask_connectives
  by (intro admits admits_tests admits_objects) (auto dest: opens_all_opens opens_all_nonnull opens_nonnull slot_inside simp: sys_ready_facts sys_base_inside)

lemma r4sys_io_file_stream_abort_admitted:
  "sys_ready E (table_of sys) V outs \<Longrightarrow>
    admitted (table_of sys) V outs (r4sys_io_file_stream_abort E sys path out_request_id)"
  unfolding r4sys_io_file_stream_abort_def ask_connectives
  by (intro admits admits_tests admits_objects) (auto dest: opens_all_opens opens_all_nonnull opens_nonnull slot_inside simp: sys_ready_facts sys_base_inside)

lemma r4sys_io_service_call_admitted:
  "sys_ready E (table_of sys) V outs \<Longrightarrow>
    admitted (table_of sys) V outs (r4sys_io_service_call E sys handle op_code request request_len response_header response response_capacity timeout_ticks flags out_request_id)"
  unfolding r4sys_io_service_call_def ask_connectives
  by (intro admits admits_tests admits_objects) (auto dest: opens_all_opens opens_all_nonnull opens_nonnull slot_inside simp: sys_ready_facts sys_base_inside)

lemma r4sys_io_status_admitted:
  "sys_ready E (table_of sys) V outs \<Longrightarrow>
    admitted (table_of sys) V outs (r4sys_io_status E sys request_id out_info)"
  unfolding r4sys_io_status_def ask_connectives
  by (intro admits admits_tests admits_objects) (auto dest: opens_all_opens opens_all_nonnull opens_nonnull slot_inside simp: sys_ready_facts sys_base_inside)

lemma r4sys_io_wait_admitted:
  "sys_ready E (table_of sys) V outs \<Longrightarrow>
    admitted (table_of sys) V outs (r4sys_io_wait E sys request_id timeout_ticks out_info)"
  unfolding r4sys_io_wait_def ask_connectives
  by (intro admits admits_tests admits_objects) (auto dest: opens_all_opens opens_all_nonnull opens_nonnull slot_inside simp: sys_ready_facts sys_base_inside)

lemma r4sys_io_close_admitted:
  "sys_ready E (table_of sys) V outs \<Longrightarrow>
    admitted (table_of sys) V outs (r4sys_io_close E sys request_id)"
  unfolding r4sys_io_close_def ask_connectives
  by (intro admits admits_tests admits_objects) (auto dest: opens_all_opens opens_all_nonnull opens_nonnull slot_inside simp: sys_ready_facts sys_base_inside)

lemma r4sys_vm_reserve_admitted:
  "sys_ready E (table_of sys) V outs \<Longrightarrow>
    admitted (table_of sys) V outs (r4sys_vm_reserve E sys sz alignment flags out_info)"
  unfolding r4sys_vm_reserve_def ask_connectives
  by (intro admits admits_tests admits_objects) (auto dest: opens_all_opens opens_all_nonnull opens_nonnull slot_inside simp: sys_ready_facts sys_base_inside)

lemma r4sys_vm_commit_admitted:
  "sys_ready E (table_of sys) V outs \<Longrightarrow>
    admitted (table_of sys) V outs (r4sys_vm_commit E sys region_id offset len)"
  unfolding r4sys_vm_commit_def ask_connectives
  by (intro admits admits_tests admits_objects) (auto dest: opens_all_opens opens_all_nonnull opens_nonnull slot_inside simp: sys_ready_facts sys_base_inside)

lemma r4sys_vm_commit_flags_admitted:
  "sys_ready E (table_of sys) V outs \<Longrightarrow>
    admitted (table_of sys) V outs (r4sys_vm_commit_flags E sys region_id offset len flags)"
  unfolding r4sys_vm_commit_flags_def ask_connectives
  by (intro admits admits_tests admits_objects) (auto dest: opens_all_opens opens_all_nonnull opens_nonnull slot_inside simp: sys_ready_facts sys_base_inside)

lemma r4sys_vm_decommit_admitted:
  "sys_ready E (table_of sys) V outs \<Longrightarrow>
    admitted (table_of sys) V outs (r4sys_vm_decommit E sys region_id offset len)"
  unfolding r4sys_vm_decommit_def ask_connectives
  by (intro admits admits_tests admits_objects) (auto dest: opens_all_opens opens_all_nonnull opens_nonnull slot_inside simp: sys_ready_facts sys_base_inside)

lemma r4sys_vm_release_admitted:
  "sys_ready E (table_of sys) V outs \<Longrightarrow>
    admitted (table_of sys) V outs (r4sys_vm_release E sys region_id)"
  unfolding r4sys_vm_release_def ask_connectives
  by (intro admits admits_tests admits_objects) (auto dest: opens_all_opens opens_all_nonnull opens_nonnull slot_inside simp: sys_ready_facts sys_base_inside)

lemma r4sys_vm_query_admitted:
  "sys_ready E (table_of sys) V outs \<Longrightarrow>
    admitted (table_of sys) V outs (r4sys_vm_query E sys region_id out_info)"
  unfolding r4sys_vm_query_def ask_connectives
  by (intro admits admits_tests admits_objects) (auto dest: opens_all_opens opens_all_nonnull opens_nonnull slot_inside simp: sys_ready_facts sys_base_inside)

text \<open>The wrappers that forward, all together: each is admitted for all arguments, its output objects being the caller's.\<close>

definition forwarders_admitted :: "'w platform \<Rightarrow> r4_sys option \<Rightarrow> bytes \<Rightarrow> (u64 \<times> nat) list \<Rightarrow> bool" where
  "forwarders_admitted E sys V outs \<longleftrightarrow>
    (\<forall>path out. admitted (table_of sys) V outs (r4sys_file_name_limits E sys path out)) \<and>
    (\<forall>path. admitted (table_of sys) V outs (r4sys_system_update_target_supported E sys path)) \<and>
    (\<forall>action timeout_ticks. admitted (table_of sys) V outs (r4sys_system_power_transition E sys action timeout_ticks)) \<and>
    (\<forall>output. (output \<noteq> 0 \<longrightarrow> out_ok E outs output ''R4PlatformInputSnapshot'') \<longrightarrow> admitted (table_of sys) V outs (r4sys_platform_input_snapshot E sys output)) \<and>
    (\<forall>source target buffer capacity progress. admitted (table_of sys) V outs (r4sys_file_copy_buffered E sys source target buffer capacity progress)) \<and>
    (\<forall>data len. admitted (table_of sys) V outs (r4sys_write E sys data len)) \<and>
    (\<forall>ch. admitted (table_of sys) V outs (r4sys_putc E sys ch)) \<and>
    (\<forall>entry arg stack_reserve_bytes out_thread_id. admitted (table_of sys) V outs (r4sys_thread_create E sys entry arg stack_reserve_bytes out_thread_id)) \<and>
    (\<forall>exit_code. admitted (table_of sys) V outs (r4sys_thread_exit E sys exit_code)) \<and>
    (\<forall>thread_id timeout_ticks out_exit_code. admitted (table_of sys) V outs (r4sys_thread_join E sys thread_id timeout_ticks out_exit_code)) \<and>
    (admitted (table_of sys) V outs (r4sys_thread_current E sys)) \<and>
    (\<forall>out_handle. admitted (table_of sys) V outs (r4sys_thread_current_handle E sys out_handle)) \<and>
    (\<forall>handle info cpus word_capacity. admitted (table_of sys) V outs (r4sys_thread_placement_get E sys handle info cpus word_capacity)) \<and>
    (\<forall>handle request cpus word_count. admitted (table_of sys) V outs (r4sys_thread_placement_set E sys handle request cpus word_count)) \<and>
    (\<forall>output. admitted (table_of sys) V outs (r4sys_cpu_capacity E sys output)) \<and>
    (\<forall>exit_code reason. admitted (table_of sys) V outs (r4sys_program_exit E sys exit_code reason)) \<and>
    (\<forall>thread_id out_info. admitted (table_of sys) V outs (r4sys_thread_status E sys thread_id out_info)) \<and>
    (\<forall>cursor. admitted (table_of sys) V outs (r4sys_program_lifecycle_begin E sys cursor)) \<and>
    (\<forall>cursor out capacity page. admitted (table_of sys) V outs (r4sys_program_lifecycle_programs E sys cursor out capacity page)) \<and>
    (\<forall>cursor out_summary. admitted (table_of sys) V outs (r4sys_program_inventory_begin E sys cursor out_summary)) \<and>
    (\<forall>cursor out capacity out_page. admitted (table_of sys) V outs (r4sys_program_inventory_programs E sys cursor out capacity out_page)) \<and>
    (\<forall>cursor out capacity out_page. admitted (table_of sys) V outs (r4sys_program_inventory_tasks E sys cursor out capacity out_page)) \<and>
    (\<forall>cursor out capacity out_page. admitted (table_of sys) V outs (r4sys_program_inventory_threads E sys cursor out capacity out_page)) \<and>
    (\<forall>key_path kind cursor. admitted (table_of sys) V outs (r4sys_registry_snapshot_begin E sys key_path kind cursor)) \<and>
    (\<forall>cursor entries entry_capacity data data_capacity out_page. admitted (table_of sys) V outs (r4sys_registry_snapshot_page E sys cursor entries entry_capacity data data_capacity out_page)) \<and>
    (\<forall>operations operation_count blob blob_len out_result. admitted (table_of sys) V outs (r4sys_registry_batch_mutate E sys operations operation_count blob blob_len out_result)) \<and>
    (\<forall>entry arg stack_reserve_bytes flags out_handle. (out_handle \<noteq> 0 \<longrightarrow> out_ok E outs out_handle ''R4ProgramJoinHandle'') \<longrightarrow> admitted (table_of sys) V outs (r4sys_thread_create_handle E sys entry arg stack_reserve_bytes flags out_handle)) \<and>
    (\<forall>entry arg stack_reserve_bytes out_handle. (out_handle \<noteq> 0 \<longrightarrow> out_ok E outs out_handle ''R4ProgramJoinHandle'') \<longrightarrow> admitted (table_of sys) V outs (r4sys_compute_worker_create E sys entry arg stack_reserve_bytes out_handle)) \<and>
    (\<forall>handle timeout_ticks out_exit_code. admitted (table_of sys) V outs (r4sys_thread_handle_join E sys handle timeout_ticks out_exit_code)) \<and>
    (\<forall>handle out_info. admitted (table_of sys) V outs (r4sys_thread_handle_status E sys handle out_info)) \<and>
    (\<forall>target_path staged_path backup_path flags. admitted (table_of sys) V outs (r4sys_file_replace_atomic_flags E sys target_path staged_path backup_path flags)) \<and>
    (\<forall>target_path staged_path backup_path. admitted (table_of sys) V outs (r4sys_file_replace_atomic E sys target_path staged_path backup_path)) \<and>
    (\<forall>path expected_size expected_checksum. admitted (table_of sys) V outs (r4sys_file_delete_if_match E sys path expected_size expected_checksum)) \<and>
    (\<forall>target_path staged_path backup_path new_size new_checksum old_size old_checksum flags. admitted (table_of sys) V outs (r4sys_file_update_atomic_checked E sys target_path staged_path backup_path new_size new_checksum old_size old_checksum flags)) \<and>
    (\<forall>path out capacity flags out_request_id. admitted (table_of sys) V outs (r4sys_io_file_read E sys path out capacity flags out_request_id)) \<and>
    (\<forall>path offset out capacity flags out_request_id. admitted (table_of sys) V outs (r4sys_io_file_read_at E sys path offset out capacity flags out_request_id)) \<and>
    (\<forall>path data len flags out_request_id. admitted (table_of sys) V outs (r4sys_io_file_write E sys path data len flags out_request_id)) \<and>
    (\<forall>path data len flags out_request_id. admitted (table_of sys) V outs (r4sys_io_file_append E sys path data len flags out_request_id)) \<and>
    (\<forall>path flags out_request_id. admitted (table_of sys) V outs (r4sys_io_file_stream_begin E sys path flags out_request_id)) \<and>
    (\<forall>path offset data len flags out_request_id. admitted (table_of sys) V outs (r4sys_io_file_stream_write E sys path offset data len flags out_request_id)) \<and>
    (\<forall>path expected_size flags out_request_id. admitted (table_of sys) V outs (r4sys_io_file_stream_finish E sys path expected_size flags out_request_id)) \<and>
    (\<forall>path out_request_id. admitted (table_of sys) V outs (r4sys_io_file_stream_abort E sys path out_request_id)) \<and>
    (\<forall>handle op_code request request_len response_header response response_capacity timeout_ticks flags out_request_id. admitted (table_of sys) V outs (r4sys_io_service_call E sys handle op_code request request_len response_header response response_capacity timeout_ticks flags out_request_id)) \<and>
    (\<forall>request_id out_info. admitted (table_of sys) V outs (r4sys_io_status E sys request_id out_info)) \<and>
    (\<forall>request_id timeout_ticks out_info. admitted (table_of sys) V outs (r4sys_io_wait E sys request_id timeout_ticks out_info)) \<and>
    (\<forall>request_id. admitted (table_of sys) V outs (r4sys_io_close E sys request_id)) \<and>
    (\<forall>sz alignment flags out_info. admitted (table_of sys) V outs (r4sys_vm_reserve E sys sz alignment flags out_info)) \<and>
    (\<forall>region_id offset len. admitted (table_of sys) V outs (r4sys_vm_commit E sys region_id offset len)) \<and>
    (\<forall>region_id offset len flags. admitted (table_of sys) V outs (r4sys_vm_commit_flags E sys region_id offset len flags)) \<and>
    (\<forall>region_id offset len. admitted (table_of sys) V outs (r4sys_vm_decommit E sys region_id offset len)) \<and>
    (\<forall>region_id. admitted (table_of sys) V outs (r4sys_vm_release E sys region_id)) \<and>
    (\<forall>region_id out_info. admitted (table_of sys) V outs (r4sys_vm_query E sys region_id out_info))"

lemma forwarders_admittedI:
  assumes "sys_ready E (table_of sys) V outs"
  shows "forwarders_admitted E sys V outs"
  unfolding forwarders_admitted_def
  by (intro conjI allI impI; (elim conjE)?; rule r4sys_file_name_limits_admitted r4sys_system_update_target_supported_admitted r4sys_system_power_transition_admitted r4sys_platform_input_snapshot_admitted r4sys_file_copy_buffered_admitted r4sys_write_admitted r4sys_putc_admitted r4sys_thread_create_admitted r4sys_thread_exit_admitted r4sys_thread_join_admitted r4sys_thread_current_admitted r4sys_thread_current_handle_admitted r4sys_thread_placement_get_admitted r4sys_thread_placement_set_admitted r4sys_cpu_capacity_admitted r4sys_program_exit_admitted r4sys_thread_status_admitted r4sys_program_lifecycle_begin_admitted r4sys_program_lifecycle_programs_admitted r4sys_program_inventory_begin_admitted r4sys_program_inventory_programs_admitted r4sys_program_inventory_tasks_admitted r4sys_program_inventory_threads_admitted r4sys_registry_snapshot_begin_admitted r4sys_registry_snapshot_page_admitted r4sys_registry_batch_mutate_admitted r4sys_thread_create_handle_admitted r4sys_compute_worker_create_admitted r4sys_thread_handle_join_admitted r4sys_thread_handle_status_admitted r4sys_file_replace_atomic_flags_admitted r4sys_file_replace_atomic_admitted r4sys_file_delete_if_match_admitted r4sys_file_update_atomic_checked_admitted r4sys_io_file_read_admitted r4sys_io_file_read_at_admitted r4sys_io_file_write_admitted r4sys_io_file_append_admitted r4sys_io_file_stream_begin_admitted r4sys_io_file_stream_write_admitted r4sys_io_file_stream_finish_admitted r4sys_io_file_stream_abort_admitted r4sys_io_service_call_admitted r4sys_io_status_admitted r4sys_io_wait_admitted r4sys_io_close_admitted r4sys_vm_reserve_admitted r4sys_vm_commit_admitted r4sys_vm_commit_flags_admitted r4sys_vm_decommit_admitted r4sys_vm_release_admitted r4sys_vm_query_admitted; (rule assms | assumption))

lemma sample_ready: "sys_ready sample_platform (table_of sample_handle_sys) sample_table []"
  by (auto simp: sys_ready_def sys_capabilities_def sys_base_slots_def abi_ok_def keeps_steady_def before_def based_def
    sample_platform_def sample_table_def)

end
