(* ===== verification/SysFacade.thy ===== *)
theory SysFacade
  imports SysCalls
begin

text \<open>
  The parts of \<open>Shared/C/include/r4os/r4sys.h\<close> that do more than forward: console
  lines built from several calls, the tick sleep that falls back to the loader's
  yield, and the close request that asks the loader before the system table.
\<close>

subsection \<open>The code\<close>

text \<open>\<open>while (text[len] != 0) len += 1\<close> with a 32-bit \<open>len\<close>: \<open>None\<close> if no zero byte is met.\<close>

partial_function (option) cstr_len_loop :: "memory \<Rightarrow> u64 \<Rightarrow> u32 \<Rightarrow> u32 option" where
  "cstr_len_loop M str len =
     (case M (str + ucast len) of
        None \<Rightarrow> None
      | Some b \<Rightarrow> if b = 0 then Some len else cstr_len_loop M str (len + 1))"

definition r4os_cstr_len :: "memory \<Rightarrow> u64 \<Rightarrow> u32 option" where
  "r4os_cstr_len M str = (if str = 0 then Some 0 else cstr_len_loop M str 0)"

definition r4sys_write_cstr :: "'w platform \<Rightarrow> r4_sys option \<Rightarrow> u64 \<Rightarrow> (i32, 'w) io" where
  "r4sys_write_cstr E sys str s =
     (case r4os_cstr_len (m_mem s) str of None \<Rightarrow> None | Some len \<Rightarrow> r4sys_write E sys str len s)"

definition r4sys_write_line :: "'w platform \<Rightarrow> r4_sys option \<Rightarrow> u64 \<Rightarrow> (i32, 'w) io" where
  "r4sys_write_line E sys str =
     and_then (r4sys_write_cstr E sys str) (\<lambda>rc.
       if negative rc then give rc
       else and_then (r4sys_putc E sys 0x0D) (\<lambda>_. and_then (r4sys_putc E sys 0x0A) (\<lambda>_. give 0)))"

definition r4sys_sleep_ticks :: "'w platform \<Rightarrow> r4_sys option \<Rightarrow> u64 \<Rightarrow> (unit, 'w) io" where
  "r4sys_sleep_ticks E sys ticks =
     (if table_of sys = 0 then give ()
      else ask (sys_filled E sys ''sleep_ticks'') (\<lambda>filled.
        if filled then and_then (sys_call E sys ''sleep_ticks'' [ticks] :: (u64, 'w) io) (\<lambda>_. give ())
        else case Option.bind sys h_ctx of
               None \<Rightarrow> give ()
             | Some c \<Rightarrow> if c_yield c = 0 then give ()
                         else and_then (call_fn E (c_yield c) [c_address c]) (\<lambda>_. give ())))"

definition r4sys_program_should_close :: "start_contract \<Rightarrow> 'w platform \<Rightarrow> r4_sys option \<Rightarrow> (bool, 'w) io" where
  "r4sys_program_should_close K E sys =
     (if table_of sys = 0 then give False
      else case Option.bind sys h_ctx of
             Some c \<Rightarrow>
               if c_flags c AND x_close_supported K \<noteq> 0 \<and> c_should_close c \<noteq> 0
               then and_then (call_fn E (c_should_close c) [c_address c]) (\<lambda>r. give ((ucast r :: u32) \<noteq> 0))
               else ask (sys_filled E sys ''program_should_close'') (\<lambda>filled.
                 if filled then and_then (sys_call E sys ''program_should_close'' [] :: (u32, 'w) io) (\<lambda>r. give (r \<noteq> 0))
                 else give False)
           | None \<Rightarrow>
               ask (sys_filled E sys ''program_should_close'') (\<lambda>filled.
                 if filled then and_then (sys_call E sys ''program_should_close'' [] :: (u32, 'w) io) (\<lambda>r. give (r \<noteq> 0))
                 else give False))"

subsection \<open>The length of a terminated string\<close>

lemma cstr_len_loop_counts:
  assumes "string_at M str s" and "length s < 2 ^ 32"
  shows "n \<le> length s \<Longrightarrow> cstr_len_loop M str (word_of_nat n) = Some (word_of_nat (length s))"
proof (induction "length s - n" arbitrary: n)
  case 0
  then have n: "n = length s" by simp
  have "ucast (word_of_nat n :: u32) = (word_of_nat n :: u64)"
    using assms(2) n by (simp add: word_unat_eq_iff unsigned_ucast_eq unat_of_nat take_bit_nat_eq_self)
  then show ?case using n string_atD [OF assms(1), of n] assms(1)
    by (subst cstr_len_loop.simps) (simp add: cbyte_def string_at_def)
next
  case (Suc k)
  then have n: "n < length s" by simp
  have "ucast (word_of_nat n :: u32) = (word_of_nat n :: u64)"
    using assms(2) n by (simp add: word_unat_eq_iff unsigned_ucast_eq unat_of_nat take_bit_nat_eq_self)
  moreover have "cbyte s n \<noteq> 0" using assms(1) n cbyte_0_iff [of s n] by (auto simp: string_at_def)
  ultimately show ?case using n string_atD [OF assms(1), of n] Suc.hyps(1) [of "Suc n"] Suc.hyps(2)
    by (subst cstr_len_loop.simps) (simp add: add.commute)
qed

lemma cstr_len_string:
  "string_at M str s \<Longrightarrow> length s < 2 ^ 32 \<Longrightarrow> str \<noteq> 0 \<Longrightarrow> r4os_cstr_len M str = Some (word_of_nat (length s))"
  using cstr_len_loop_counts [of M str s 0] by (simp add: r4os_cstr_len_def)


subsection \<open>A line is its text followed by CR and LF\<close>

lemma putc_open:
  assumes "steady (table_of sys) V outs (m_mem s)" and "opens E ''R4Sys'' (table_of sys) V ''putc''"
    and "keeps_steady E (table_of sys) V outs"
  shows "\<exists>s'. r4sys_putc E sys ch s = Some ((), s') \<and> steady (table_of sys) V outs (m_mem s') \<and>
    m_calls s' = m_calls s @ [(slot_word V (p_off E ''R4Sys'' ''putc''), [ucast ch])]"
proof -
  obtain r M w where run: "p_run E (slot_word V (p_off E ''R4Sys'' ''putc'')) [ucast ch] (m_mem s) (m_os s) = (r, M, w)"
    by (metis prod_cases3)
  have "steady (table_of sys) V outs M" by (rule keeps_steadyD [OF assms(3,1) run])
  then show ?thesis using run has_base_open [OF assms(1,2)]
    by (simp add: r4sys_putc_def ask_def and_then_def give_def call_slot_open [OF assms(1,2)])
qed

lemma write_line_calls:
  fixes E :: "'w platform"
  assumes "steady (table_of sys) V outs (m_mem s)" and "keeps_steady E (table_of sys) V outs"
    and "opens E ''R4Sys'' (table_of sys) V ''write''" and "opens E ''R4Sys'' (table_of sys) V ''putc''"
    and str: "string_at (m_mem s) a str" "a \<noteq> 0" "str \<noteq> []" "length str < 2 ^ 32"
  defines "w \<equiv> slot_word V (p_off E ''R4Sys'' ''write'')" and "p \<equiv> slot_word V (p_off E ''R4Sys'' ''putc'')"
    and "len \<equiv> word_of_nat (length str) :: u32"
  defines "rc \<equiv> ucast (fst (p_run E w [a, ucast len] (m_mem s) (m_os s))) :: i32"
  shows "\<exists>s'. r4sys_write_line E sys a s = Some (if negative rc then rc else 0, s') \<and>
    m_calls s' = m_calls s @ (if negative rc then [(w, [a, ucast len])]
                              else [(w, [a, ucast len]), (p, [0x0D]), (p, [0x0A])])"
proof -
  obtain r M x where run: "p_run E w [a, ucast len] (m_mem s) (m_os s) = (r, M, x)" by (metis prod_cases3)
  define s1 where "s1 = \<lparr>m_mem = M, m_calls = m_calls s @ [(w, [a, ucast len])], m_os = x\<rparr>"
  have st1: "steady (table_of sys) V outs (m_mem s1)"
    using keeps_steadyD [OF assms(2,1) run] by (simp add: s1_def)
  have "len \<noteq> 0" using str(3,4) by (simp add: len_def word_unat_eq_iff unat_of_nat take_bit_nat_eq_self)
  then have wr: "r4sys_write_cstr E sys a s = Some (rc, s1)"
    using cstr_len_string [OF str(1,4,2)] has_base_open [OF assms(1,3)] str(2)
      run
    by (simp add: call_slot_open [OF assms(1,3)] r4sys_write_cstr_def r4sys_write_def ask_def len_def [symmetric] w_def [symmetric] rc_def s1_def)
  show ?thesis
  proof (cases "negative rc")
    case True
    then show ?thesis using wr by (simp add: r4sys_write_line_def and_then_def give_def s1_def)
  next
    case False
    from putc_open [OF st1 assms(4,2), of "0x0D"] obtain s2 where
      s2: "r4sys_putc E sys 0x0D s1 = Some ((), s2)" "steady (table_of sys) V outs (m_mem s2)"
      "m_calls s2 = m_calls s1 @ [(p, [0x0D])]" by (auto simp: p_def)
    from putc_open [OF s2(2) assms(4,2), of "0x0A"] obtain s3 where
      s3: "r4sys_putc E sys 0x0A s2 = Some ((), s3)" "m_calls s3 = m_calls s2 @ [(p, [0x0A])]" by (auto simp: p_def)
    have "r4sys_write_line E sys a s = Some (0, s3)"
      using False wr s2(1) s3(1) by (simp add: r4sys_write_line_def and_then_def give_def)
    then show ?thesis using False s3(2) s2(3) by (simp add: s1_def)
  qed
qed

text \<open>
  On a system table whose two mandatory slots can be called, \<open>r4sys_write_line\<close> makes one
  write of the whole text and, unless it fails, exactly the two further calls that put CR
  and LF, in this order; a failed write is passed on and nothing follows it.\<close>

theorem r4sys_write_line_calls:
  fixes E :: "'w platform"
  assumes "steady (table_of sys) V outs (m_mem s)" and "keeps_steady E (table_of sys) V outs"
    and "opens E ''R4Sys'' (table_of sys) V ''write''" and "opens E ''R4Sys'' (table_of sys) V ''putc''"
    and "string_at (m_mem s) a str" "a \<noteq> 0" "str \<noteq> []" "length str < 2 ^ 32"
  shows "\<exists>s' w p rc. w = slot_word V (p_off E ''R4Sys'' ''write'') \<and> p = slot_word V (p_off E ''R4Sys'' ''putc'') \<and>
    rc = ucast (fst (p_run E w [a, word_of_nat (length str)] (m_mem s) (m_os s))) \<and>
    r4sys_write_line E sys a s = Some (if negative rc then rc else 0, s') \<and>
    m_calls s' = m_calls s @ (if negative rc then [(w, [a, word_of_nat (length str)])]
                              else [(w, [a, word_of_nat (length str)]), (p, [0x0D]), (p, [0x0A])])"
proof -
  have "ucast (word_of_nat (length str) :: u32) = (word_of_nat (length str) :: u64)"
    using assms(8) by (simp add: word_unat_eq_iff unsigned_ucast_eq unat_of_nat take_bit_nat_eq_self)
  with write_line_calls [OF assms] show ?thesis by auto
qed

text \<open>A table of three slots, all at \<open>0x400000\<close>; the platform answers 0 and leaves memory alone.\<close>

definition sample_line_memory :: memory where
  "sample_line_memory = place [(0x1000, sample_table), (0x2000, [0x48, 0x69, 0])]"

theorem r4sys_write_line_calls_witness:
  "\<exists>s'. r4sys_write_line sample_platform sample_handle_sys 0x2000 \<lparr>m_mem = sample_line_memory, m_calls = [], m_os = ()\<rparr> =
     Some (0, s') \<and> m_calls s' = [(0x400000, [0x2000, 2]), (0x400000, [0x0D]), (0x400000, [0x0A])]"
proof -
  let ?s = "\<lparr>m_mem = sample_line_memory, m_calls = [], m_os = ()\<rparr>"
  have load: "load_bytes sample_line_memory (0x1000 + word_of_nat k) n = Some (take n (drop k sample_table))"
    if "k + n \<le> 24" for k n
    unfolding sample_line_memory_def by (rule place_loads) (use that in \<open>simp_all add: sample_table_def\<close>)
  have t: "table_of sample_handle_sys = 0x1000" by (simp add: table_of_def sample_handle_sys_def)
  have len: "length sample_table = 24" by (simp add: sample_table_def)
  have "resident 0x1000 sample_table sample_line_memory"
    using load [of 0 24] len by (simp add: resident_def) (simp add: sample_table_def)
  then have st: "steady (table_of sample_handle_sys) sample_table [] (m_mem ?s)"
    by (simp add: steady_def objects_ok_def t)
  have keep: "keeps_steady sample_platform (table_of sample_handle_sys) sample_table []"
    by (simp add: keeps_steady_def sample_platform_def)
  have slot: "slot_word sample_table (p_off sample_platform T m) = 0x400000" for T m
    by (simp add: slot_word_def sample_platform_def sample_table_def)
  have opens: "opens sample_platform ''R4Sys'' (table_of sample_handle_sys) sample_table slot" for slot
    using slot by (simp add: opens_def t len) (simp add: sample_platform_def)
  have str: "string_at (m_mem ?s) 0x2000 [0x48, 0x69]"
    by (simp add: string_at_def sample_line_memory_def cbyte_def le_Suc_eq cstring_def sample_table_def)
  then show ?thesis
    using r4sys_write_line_calls [OF st keep opens opens str] slot by (auto simp: sample_platform_def)
qed

subsection \<open>Every wrapper of the facade\<close>

text \<open>
  A run from one state, all of whose calls go to slots of the table or to the given callbacks of
  the loader; \<open>loader_call\<close> is a callback of the start context, called with the context's address.
\<close>

definition admitted_from :: "u64 \<Rightarrow> bytes \<Rightarrow> (u64 \<times> nat) list \<Rightarrow> (u64 \<times> u64 list) set \<Rightarrow> ('a, 'w) io \<Rightarrow> 'w machine \<Rightarrow> bool" where
  "admitted_from t V outs extra p s \<longleftrightarrow>
     (\<exists>r s' made. p s = Some (r, s') \<and> steady t V outs (m_mem s') \<and> m_calls s' = m_calls s @ made \<and>
        (\<forall>c \<in> set made. t \<noteq> 0 \<and> (table_target V (fst c) \<or> c \<in> extra)))"

definition loader_call :: "r4_sys option \<Rightarrow> (start_context \<Rightarrow> u64) \<Rightarrow> (u64 \<times> u64 list) set" where
  "loader_call sys f = {(f c, [c_address c]) | c. Option.bind sys h_ctx = Some c \<and> f c \<noteq> 0}"

text \<open>The predicates that report an optional group of slots.\<close>

definition support_tests :: "('w platform \<Rightarrow> r4_sys option \<Rightarrow> query) list" where
  "support_tests = [r4sys_supports_vm, r4sys_supports_threads, r4sys_supports_program_lifecycle, r4sys_supports_program_inventory,
     r4sys_supports_registry_snapshot, r4sys_supports_registry_batch, r4sys_supports_thread_handles, r4sys_supports_file_replace_atomic,
     r4sys_supports_file_delete_if_match, r4sys_supports_file_update_atomic_checked, r4sys_supports_async_io]"

lemma admitted_fromI: "admitted t V outs p \<Longrightarrow> steady t V outs (m_mem s) \<Longrightarrow> admitted_from t V outs extra p s"
  unfolding admitted_def admitted_from_def by blast

lemma admitted_from_then:
  assumes "admitted_from t V outs extra p s" and "\<And>x. admitted t V outs (k x)"
  shows "admitted_from t V outs extra (and_then p k) s"
proof -
  from assms(1) obtain x s1 m1 where 1: "p s = Some (x, s1)" "steady t V outs (m_mem s1)" "m_calls s1 = m_calls s @ m1"
    "\<forall>c \<in> set m1. t \<noteq> 0 \<and> (table_target V (fst c) \<or> c \<in> extra)" unfolding admitted_from_def by blast
  from assms(2) [of x] 1(2) obtain r s2 m2 where 2: "k x s1 = Some (r, s2)" "steady t V outs (m_mem s2)" "m_calls s2 = m_calls s1 @ m2"
    "\<forall>c \<in> set m2. t \<noteq> 0 \<and> table_target V (fst c)" unfolding admitted_def by blast
  show ?thesis unfolding admitted_from_def
    using 1 2 by (intro exI [of _ r] exI [of _ s2] exI [of _ "m1 @ m2"]) (auto simp: and_then_def)
qed

lemma admitted_from_fn:
  assumes "keeps_steady E t V outs" and "steady t V outs (m_mem s)" and "t \<noteq> 0" and "(f, args) \<in> extra"
  shows "admitted_from t V outs extra (and_then (call_fn E f args) (\<lambda>r. give (h r))) s"
proof (rule admitted_from_then)
  obtain r M w where run: "p_run E f args (m_mem s) (m_os s) = (r, M, w)" by (metis prod_cases3)
  then show "admitted_from t V outs extra (call_fn E f args) s"
    using keeps_steadyD [OF assms(1,2) run] assms(3,4) by (simp add: admitted_from_def call_fn_def)
qed (intro admits)

lemma slot_or_not:
  assumes "keeps_steady E (table_of sys) V outs" and "steady (table_of sys) V outs (m_mem s)" and "table_of sys \<noteq> 0"
    and "based E ''R4Sys'' (table_of sys) V slot"
    and "admitted_from (table_of sys) V outs extra q s"
  shows "admitted_from (table_of sys) V outs extra (ask (sys_filled E sys slot) (\<lambda>filled.
    if filled then and_then (sys_call E sys slot args :: ('r::len word, 'w) io) (\<lambda>r. give (h r)) else q)) s"
proof -
  have inside: "p_off E ''R4Sys'' slot + 8 \<le> length V" using assms(3,4) by (simp add: based_def)
  have "resident (table_of sys) V (m_mem s)" using assms(2,3) by (simp add: steady_def)
  note filled = resident_filled [OF this inside]
  show ?thesis
  proof (cases "slot_word V (p_off E ''R4Sys'' slot) = 0")
    case True
    then show ?thesis using assms(5) filled by (simp add: admitted_from_def ask_def)
  next
    case False
    have "admitted (table_of sys) V outs (and_then (sys_call E sys slot args :: ('r word, 'w) io) (\<lambda>r. give (h r)))"
      using assms(1,3) inside False by (intro admits admitted_call)
    from admitted_fromI [OF this assms(2)] show ?thesis using False filled by (simp add: admitted_from_def ask_def)
  qed
qed

lemma sleep_ticks_admitted:
  assumes "keeps_steady E (table_of sys) V outs" and "steady (table_of sys) V outs (m_mem s)" and "based E ''R4Sys'' (table_of sys) V ''sleep_ticks''"
  shows "admitted_from (table_of sys) V outs (loader_call sys c_yield) (r4sys_sleep_ticks E sys ticks) s"
proof (cases "table_of sys = 0")
  case True
  have "admitted (table_of sys) V outs (give ())" by (intro admits)
  from admitted_fromI [OF this assms(2)] True show ?thesis by (simp add: r4sys_sleep_ticks_def)
next
  case False
  have quiet: "admitted_from (table_of sys) V outs (loader_call sys c_yield) (give ()) s"
    by (rule admitted_fromI [OF _ assms(2)]) (intro admits)
  have "admitted_from (table_of sys) V outs (loader_call sys c_yield)
      (case Option.bind sys h_ctx of None \<Rightarrow> give ()
       | Some c \<Rightarrow> if c_yield c = 0 then give () else and_then (call_fn E (c_yield c) [c_address c]) (\<lambda>_. give ())) s"
  proof (cases "Option.bind sys h_ctx")
    case (Some c)
    have "admitted_from (table_of sys) V outs (loader_call sys c_yield) (and_then (call_fn E (c_yield c) [c_address c]) (\<lambda>_. give ())) s"
      if "c_yield c \<noteq> 0" using that Some by (intro admitted_from_fn [OF assms(1,2) False]) (simp add: loader_call_def)
    with quiet have "admitted_from (table_of sys) V outs (loader_call sys c_yield)
        (if c_yield c = 0 then give () else and_then (call_fn E (c_yield c) [c_address c]) (\<lambda>_. give ())) s"
    proof (cases "c_yield c = 0")
      case True
      show ?thesis unfolding if_P [OF True] by (rule quiet)
    qed (simp only: if_False not_False_eq_True)
    then show ?thesis by (simp only: Some option.case)
  next
    case None
    then show ?thesis using quiet by (simp only: option.case)
  qed
  from slot_or_not [OF assms(1,2) False assms(3) this] show ?thesis using False by (simp add: r4sys_sleep_ticks_def)
qed

lemma should_close_admitted:
  assumes "keeps_steady E (table_of sys) V outs" and "steady (table_of sys) V outs (m_mem s)"
    and "based E ''R4Sys'' (table_of sys) V ''program_should_close''"
  shows "admitted_from (table_of sys) V outs (loader_call sys c_should_close) (r4sys_program_should_close K E sys) s"
proof (cases "table_of sys = 0")
  case True
  have "admitted (table_of sys) V outs (give False)" by (intro admits)
  from admitted_fromI [OF this assms(2)] True show ?thesis by (simp add: r4sys_program_should_close_def)
next
  case False
  let ?p = "ask (sys_filled E sys ''program_should_close'') (\<lambda>filled.
      if filled then and_then (sys_call E sys ''program_should_close'' [] :: (u32, 'a) io) (\<lambda>r. give (r \<noteq> 0)) else give False)"
  have "admitted_from (table_of sys) V outs (loader_call sys c_should_close) (give False) s"
    by (rule admitted_fromI [OF _ assms(2)]) (intro admits)
  from slot_or_not [OF assms(1,2) False assms(3) this] have slot: "admitted_from (table_of sys) V outs (loader_call sys c_should_close) ?p s" .
  show ?thesis
  proof (cases "Option.bind sys h_ctx")
    case None
    then show ?thesis using False slot by (simp add: r4sys_program_should_close_def)
  next
    case (Some c)
    have "admitted_from (table_of sys) V outs (loader_call sys c_should_close)
        (and_then (call_fn E (c_should_close c) [c_address c]) (\<lambda>r. give ((ucast r :: u32) \<noteq> 0))) s" if "c_should_close c \<noteq> 0"
      using that Some by (intro admitted_from_fn [OF assms(1,2) False]) (simp add: loader_call_def)
    then show ?thesis using False slot Some by (simp add: r4sys_program_should_close_def)
  qed
qed

lemma write_cstr_admitted:
  assumes "sys_ready E (table_of sys) V outs" and "steady (table_of sys) V outs (m_mem s)"
    and "a = 0 \<or> string_at (m_mem s) a str \<and> length str < 2 ^ 32"
  shows "admitted_from (table_of sys) V outs {} (r4sys_write_cstr E sys a) s"
    and "admitted_from (table_of sys) V outs {} (r4sys_write_line E sys a) s"
proof -
  obtain n where n: "r4os_cstr_len (m_mem s) a = Some n"
    using assms(3) cstr_len_string by (cases "a = 0") (auto simp: r4os_cstr_len_def)
  have "admitted_from (table_of sys) V outs {} (r4sys_write E sys a n) s"
    by (rule admitted_fromI [OF r4sys_write_admitted [OF assms(1)] assms(2)])
  then show cstr: "admitted_from (table_of sys) V outs {} (r4sys_write_cstr E sys a) s"
    by (simp add: admitted_from_def r4sys_write_cstr_def n)
  show "admitted_from (table_of sys) V outs {} (r4sys_write_line E sys a) s"
    unfolding r4sys_write_line_def by (rule admitted_from_then [OF cstr]) (intro admits r4sys_putc_admitted [OF assms(1)])
qed

text \<open>
  C11: Every wrapper of the system facade but the two allocators (which also write the region they are granted)
  keeps to the table. On a resident system table that holds the four base slots the header reads without a test of
  the size (\<open>write\<close>, \<open>putc\<close>, \<open>sleep_ticks\<close>, \<open>program_should_close\<close>) and is of any length beyond them, each forwarding
  wrapper returns for all arguments, reads nothing outside the table and the caller's mapped objects, and
  calls only nonnull words that lie wholly inside the announced size. The same holds of the tests for optional groups of slots, of
  writing a terminated string or a line, and of sleeping and of the close request, which may instead call the
  loader's yield or close callback of the start context, and nothing else.\<close>

theorem sys_facade_admitted:
  assumes "sys_ready E (table_of sys) V outs"
    and "based E ''R4Sys'' (table_of sys) V ''sleep_ticks''" and "based E ''R4Sys'' (table_of sys) V ''program_should_close''"
  shows "forwarders_admitted E sys V outs \<and>
    (\<forall>test M. test \<in> set support_tests \<longrightarrow> steady (table_of sys) V outs M \<longrightarrow> test E sys M \<noteq> None) \<and>
    (\<forall>s. steady (table_of sys) V outs (m_mem s) \<longrightarrow>
      (\<forall>a str. a = 0 \<or> string_at (m_mem s) a str \<and> length str < 2 ^ 32 \<longrightarrow>
        admitted_from (table_of sys) V outs {} (r4sys_write_cstr E sys a) s \<and>
        admitted_from (table_of sys) V outs {} (r4sys_write_line E sys a) s) \<and>
      (\<forall>ticks. admitted_from (table_of sys) V outs (loader_call sys c_yield) (r4sys_sleep_ticks E sys ticks) s) \<and>
      (\<forall>K. admitted_from (table_of sys) V outs (loader_call sys c_should_close) (r4sys_program_should_close K E sys) s))"
proof -
  have tests: "test E sys M \<noteq> None" if "test \<in> set support_tests" "steady (table_of sys) V outs M" for test M
    using that(1) unfolding support_tests_def
    by (auto simp: sys_supports has_slots_answer [OF that(2)] has_slot_answer [OF that(2)] has_field_answer [OF that(2)] sys_ready_facts [OF assms(1)])
  note keeps = sys_ready_facts(2) [OF assms(1)]
  show ?thesis
    by (intro conjI allI impI forwarders_admittedI [OF assms(1)] tests write_cstr_admitted [OF assms(1)]
        sleep_ticks_admitted [OF keeps _ assms(2)] should_close_admitted [OF keeps _ assms(3)])
qed

theorem sys_facade_admitted_witness:
  "admitted (table_of sample_handle_sys) sample_table [] (r4sys_write sample_platform sample_handle_sys 5 6) \<and>
   admitted_from (table_of sample_handle_sys) sample_table [] {} (r4sys_sleep_ticks sample_platform sample_handle_sys 9)
     \<lparr>m_mem = sample_line_memory, m_calls = [], m_os = ()\<rparr>"
proof -
  let ?s = "\<lparr>m_mem = sample_line_memory, m_calls = [], m_os = ()\<rparr>"
  have base: "based sample_platform ''R4Sys'' (table_of sample_handle_sys) sample_table slot" for slot
    by (simp add: based_def sample_platform_def sample_table_def)
  have len: "length sample_table = 24" by (simp add: sample_table_def)
  have "load_bytes sample_line_memory (0x1000 + word_of_nat 0) 24 = Some (take 24 (drop 0 sample_table))"
    unfolding sample_line_memory_def by (rule place_loads) (simp_all add: sample_table_def)
  then have "resident 0x1000 sample_table sample_line_memory"
    using len by (simp add: resident_def) (simp add: sample_table_def)
  then have "steady (table_of sample_handle_sys) sample_table [] (m_mem ?s)"
    by (simp add: steady_def objects_ok_def table_of_def sample_handle_sys_def)
  moreover have "loader_call sample_handle_sys c_yield = {}" by (simp add: loader_call_def sample_handle_sys_def)
  ultimately show ?thesis
    using sys_facade_admitted [OF sample_ready base base] by (simp add: forwarders_admitted_def)
qed

end
