(* ===== verification/VmAlloc.thy ===== *)
theory VmAlloc
  imports SysFacade
begin

text \<open>
  The page allocator of \<open>Shared/C/include/r4os/r4sys.h\<close>: \<open>r4sys_vm_alloc\<close> reserves and
  commits a region, leaves a header at its base and a back reference just below the
  address it returns; \<open>r4sys_vm_free\<close> finds the header again through it.
\<close>

subsection \<open>The code\<close>

definition r4sys_align_up_u64 :: "u64 \<Rightarrow> u64 \<Rightarrow> u64" where
  "r4sys_align_up_u64 value_v alignment =
     (let mask = alignment - 1 in (value_v + mask) AND NOT mask)"

text \<open>
  \<open>R4SysVmAllocation\<close>: its members fill 32 bytes in order, so
  \<open>sizeof(R4SysVmAllocation) + sizeof(uintptr_t)\<close> is 40.
\<close>

record vm_allocation =
  va_magic :: u32
  va_region_id :: u32
  va_region_size :: u64
  va_requested_size :: u64
  va_user_addr :: u64

abbreviation VM_MAGIC :: u32 where "VM_MAGIC \<equiv> 0x32434D52"
abbreviation VM_OVERHEAD :: u64 where "VM_OVERHEAD \<equiv> 40"

definition vm_bytes :: "vm_allocation \<Rightarrow> bytes" where
  "vm_bytes h = le_bytes 4 (va_magic h) @ le_bytes 4 (va_region_id h) @ le_bytes 8 (va_region_size h) @
     le_bytes 8 (va_requested_size h) @ le_bytes 8 (va_user_addr h)"

text \<open>The alignment is raised to a pointer's; a size that cannot be rounded up has no region.\<close>

definition vm_alignment :: "u64 \<Rightarrow> u64" where
  "vm_alignment alignment = (if alignment < 8 then 8 else alignment)"

definition vm_region_size :: "u64 \<Rightarrow> u64 \<Rightarrow> u64 option" where
  "vm_region_size sz alignment =
     (if sz > UINT64_MAX - VM_OVERHEAD then None
      else let need = sz + VM_OVERHEAD in
        if need > UINT64_MAX - (alignment - 1) then None
        else let need = need + (alignment - 1) in
          if need > UINT64_MAX - 4095 then None
          else Some (r4sys_align_up_u64 need 4096))"

definition vm_user :: "u64 \<Rightarrow> u64 \<Rightarrow> u64" where
  "vm_user base alignment = r4sys_align_up_u64 (base + 32 + 8) alignment"

text \<open>The header and the back reference, written after the region is committed.\<close>

definition vm_stamp :: "u64 \<Rightarrow> u32 \<Rightarrow> u64 \<Rightarrow> u64 \<Rightarrow> u64 \<Rightarrow> (unit, 'w) io" where
  "vm_stamp base region_id region_size sz user =
     and_then (store base (vm_bytes \<lparr>va_magic = VM_MAGIC, va_region_id = region_id, va_region_size = region_size,
         va_requested_size = sz, va_user_addr = user\<rparr>)) (\<lambda>_.
     store (user - 8) (le_bytes 8 base))"

definition load_member :: "'w platform \<Rightarrow> u64 \<Rightarrow> string \<Rightarrow> string \<Rightarrow> (u64, 'w) io" where
  "load_member E a T m s =
     map_option (\<lambda>bs. (le_word bs, s)) (load_bytes (m_mem s) (a + word_of_nat (p_off E T m)) (p_len E T m))"

definition r4sys_vm_alloc :: "'w platform \<Rightarrow> r4_sys option \<Rightarrow> u64 \<Rightarrow> u64 \<Rightarrow> (u64, 'w) io" where
  "r4sys_vm_alloc E sys sz alignment =
    (if sz = 0 then give 0
     else ask (r4sys_supports_vm E sys) (\<lambda>ok.
     if \<not> ok then give 0
     else let alignment = vm_alignment alignment in
     if alignment AND (alignment - 1) \<noteq> 0 then give 0
     else let reserve_alignment = (if alignment > 4096 then alignment else 4096) in
     case vm_region_size sz alignment of
       None \<Rightarrow> give 0
     | Some region_size \<Rightarrow>
         and_then (r4sys_vm_reserve E sys region_size reserve_alignment (ucast (p_code E ''R4OS_VM_REGION_FLAGS_DEFAULT''))
           (p_frame E)) (\<lambda>rc.
         if rc \<noteq> p_code E ''R4OS_VM_OK'' then give 0
         else and_then (load_member E (p_frame E) ''R4ProgramVmRegionInfo'' ''id'') (\<lambda>region_id.
         and_then (r4sys_vm_commit E sys (ucast region_id) 0 region_size) (\<lambda>rc.
         if rc \<noteq> p_code E ''R4OS_VM_OK'' then and_then (r4sys_vm_release E sys (ucast region_id)) (\<lambda>_. give 0)
         else and_then (load_member E (p_frame E) ''R4ProgramVmRegionInfo'' ''base'') (\<lambda>base.
         let user = vm_user base alignment in
         and_then (vm_stamp base (ucast region_id) region_size sz user) (\<lambda>_. give user)))))))"

definition r4sys_vm_free :: "'w platform \<Rightarrow> r4_sys option \<Rightarrow> u64 \<Rightarrow> (i32, 'w) io" where
  "r4sys_vm_free E sys ptr =
    (if ptr = 0 then give (- 1)
     else ask (r4sys_supports_vm E sys) (\<lambda>ok.
     if \<not> ok then give (- 1)
     else (\<lambda>s.
       case load_u64 (m_mem s) (ptr - 8) of
         None \<Rightarrow> None
       | Some header \<Rightarrow>
           if header = 0 then give (- 1) s
           else (case load_u32 (m_mem s) header of
                   None \<Rightarrow> None
                 | Some magic \<Rightarrow>
                     if magic \<noteq> VM_MAGIC then give (- 1) s
                     else (case (load_u64 (m_mem s) (header + 24), load_u32 (m_mem s) (header + 4)) of
                             (Some user_addr, Some region_id) \<Rightarrow>
                               if user_addr \<noteq> ptr then give (- 1) s
                               else and_then (store header (le_bytes 4 (0 :: u32))) (\<lambda>_.
                                      r4sys_vm_release E sys region_id) s
                           | _ \<Rightarrow> None)))))"

subsection \<open>Rounding up to a power of two\<close>

lemma align_up_nat:
  assumes a: "a = 2 ^ n" and "n < 64" and fit: "unat v + (2 ^ n - 1) < 2 ^ 64"
  shows "unat (r4sys_align_up_u64 v a) = (unat v + (2 ^ n - 1)) div 2 ^ n * 2 ^ n"
proof -
  have m: "a - 1 = mask n" by (simp add: a mask_eq_exp_minus_1)
  have "unat (mask n :: u64) = 2 ^ n - 1" using assms(2) by (simp add: mask_eq_exp_minus_1 unat_sub_if' unat_exp)
  then have "unat (v + mask n) = unat v + (2 ^ n - 1)" using fit by (simp add: unat_word_ariths(1))
  then show ?thesis using unat_clear_low [of n "v + mask n"] assms(2) m
    by (simp add: r4sys_align_up_u64_def Let_def)
qed

lemma round_up_bounds:
  fixes v d :: nat
  assumes "0 < d"
  shows "v \<le> (v + (d - 1)) div d * d" and "(v + (d - 1)) div d * d \<le> v + (d - 1)" and "d dvd (v + (d - 1)) div d * d"
proof -
  have "(v + (d - 1)) div d * d + (v + (d - 1)) mod d = v + (d - 1)" by (rule div_mult_mod_eq)
  moreover have "(v + (d - 1)) mod d < d" using assms by (rule mod_less_divisor)
  ultimately show "v \<le> (v + (d - 1)) div d * d" "(v + (d - 1)) div d * d \<le> v + (d - 1)" by linarith+
qed simp

text \<open>A nonzero word without two bits set is a power of two.\<close>

lemma one_bit_power:
  fixes a :: u64
  assumes "a \<noteq> 0" and "a AND (a - 1) = 0"
  obtains n where "n < 64" and "a = 2 ^ n"
proof -
  define n where "n = (LEAST i. bit a i)"
  from assms(1) obtain i where "bit a i" by (auto simp: bit_eq_iff)
  then have n: "bit a n" and least: "\<And>i. i < n \<Longrightarrow> \<not> bit a i"
    unfolding n_def by (auto intro: LeastI dest: not_less_Least)
  have n64: "n < 64" using n bit_imp_le_length by fastforce
  have low: "take_bit n a = 0" by (rule bit_word_eqI) (use least in \<open>auto simp: bit_simps\<close>)
  define P where "P = push_bit (Suc n) (drop_bit (Suc n) a)"
  have P: "bit P i \<longleftrightarrow> Suc n \<le> i \<and> bit a i" for i
    unfolding P_def bit_push_bit_iff bit_drop_bit_eq comp_def using bit_imp_le_length [of a i] by auto
  have exp: "bit (2 ^ n :: u64) i \<longleftrightarrow> i = n" for i
    using n64 by (auto simp: bit_exp_iff)
  have "a = P OR 2 ^ n"
  proof (rule bit_word_eqI)
    fix i assume "i < LENGTH(64)"
    consider "i < n" | "i = n" | "n < i" by linarith
    then show "bit a i \<longleftrightarrow> bit (P OR 2 ^ n) i"
      using n least by cases (auto simp: bit_or_iff P exp)
  qed
  moreover have "P OR 2 ^ n = P + 2 ^ n"
    by (rule disjunctive_add_eq_or [symmetric]) (rule bit_word_eqI, auto simp: bit_and_iff P exp)
  ultimately have split: "a = P + 2 ^ n" by simp
  have "P + mask n = P OR mask n"
    by (rule disjunctive_add_eq_or) (rule bit_word_eqI, auto simp: bit_and_iff P bit_mask_iff)
  then have m: "a - 1 = P OR mask n" unfolding split mask_eq_exp_minus_1 by (simp only: add_diff_eq)
  have "P = 0"
  proof (rule bit_word_eqI)
    fix i assume "i < LENGTH(64)"
    have "\<not> (bit a i \<and> bit (a - 1) i)" using assms(2) by (metis bit_and_iff bit_0_eq bot_apply bot_bool_def)
    then show "bit P i \<longleftrightarrow> bit (0 :: u64) i" unfolding m by (auto simp: P bit_or_iff)
  qed
  then have "a = 2 ^ n" using split by simp
  then show thesis using that n64 by blast
qed


subsection \<open>Where the block lies in its region\<close>

text \<open>\<open>b > UINT64_MAX - c\<close> is the test that \<open>b + c\<close> wraps.\<close>

lemma region_size_unfold:
  assumes "vm_region_size sz a = Some R" and "a \<noteq> 0"
  shows "unat sz + 40 + (unat a - 1) + 4095 < 2 ^ 64"
    and "unat R = (unat sz + 40 + (unat a - 1) + 4095) div 4096 * 4096"
proof -
  have a1: "unat (a - 1) = unat a - 1" using assms(2) by (simp add: unat_sub word_le_nat_alt unat_gt_0 Suc_leI)
  from assms(1) have 1: "\<not> UINT64_MAX - 40 < sz" and 2: "\<not> UINT64_MAX - (a - 1) < sz + 40"
    and 3: "\<not> UINT64_MAX - 4095 < sz + 40 + (a - 1)" and R: "R = r4sys_align_up_u64 (sz + 40 + (a - 1)) 4096"
    by (auto simp: vm_region_size_def Let_def split: if_splits)
  note s40 = unat_add_fit [OF 1 [unfolded no_wrap_iff]]
  note sa = unat_add_fit [OF 2 [unfolded no_wrap_iff]]
  show fit: "unat sz + 40 + (unat a - 1) + 4095 < 2 ^ 64"
    using 3 [unfolded no_wrap_iff sa s40 a1] by simp
  have "unat R = (unat (sz + 40 + (a - 1)) + (2 ^ 12 - 1)) div 2 ^ 12 * 2 ^ 12"
    unfolding R by (rule align_up_nat) (use fit sa s40 a1 in simp_all)
  then have "unat R = (unat sz + unat (40 :: u64) + unat (a - 1) + (2 ^ 12 - 1)) div 2 ^ 12 * 2 ^ 12"
    unfolding sa s40 .
  then show "unat R = (unat sz + 40 + (unat a - 1) + 4095) div 4096 * 4096" unfolding a1 by simp
qed

lemma vm_layout:
  assumes "vm_region_size sz a = Some R" and "a \<noteq> 0" and "a AND (a - 1) = 0" and "sz \<noteq> 0"
    and fits: "unat base + unat R \<le> 2 ^ 64"
  shows "unat a dvd unat (vm_user base a)" and "unat base + 40 \<le> unat (vm_user base a)"
    and "unat (vm_user base a) + unat sz \<le> unat base + unat R" and "4096 dvd unat R"
proof -
  from one_bit_power [OF assms(2,3)] obtain n where n: "n < 64" "a = 2 ^ n" .
  have ua: "unat a = 2 ^ n" using n by (simp add: unat_exp)
  have sz: "0 < unat sz" using assms(4) by (simp add: unat_gt_0)
  note R = region_size_unfold [OF assms(1,2)]
  have need: "unat sz + 40 + (2 ^ n - 1) \<le> unat R"
    using round_up_bounds(1) [of 4096 "unat sz + 40 + (2 ^ n - 1)"] R(2) ua by simp
  have fit: "unat base + 40 + (2 ^ n - 1) < 2 ^ 64" using need fits sz by linarith
  have "unat base + 40 < 2 ^ 64" using need fits sz by linarith
  then have b40: "unat (base + 32 + 8) = unat base + 40" by (simp add: unat_word_ariths(1))
  have user: "unat (vm_user base a) = (unat base + 40 + (2 ^ n - 1)) div 2 ^ n * 2 ^ n"
    using align_up_nat [OF n(2,1), of "base + 32 + 8"] fit b40 by (simp add: vm_user_def)
  have "(0::nat) < 2 ^ n" by simp
  note rb = round_up_bounds [OF this, of "unat base + 40"]
  show "unat a dvd unat (vm_user base a)" using rb(3) user ua by simp
  show "unat base + 40 \<le> unat (vm_user base a)" using rb(1) user by simp
  show "unat (vm_user base a) + unat sz \<le> unat base + unat R" using rb(2) user need by linarith
  show "4096 dvd unat R" using R(2) by simp
qed


subsection \<open>A block frees the region it came from\<close>

lemma length_vm_bytes [simp]: "length (vm_bytes h) = 32"
  by (simp add: vm_bytes_def)

text \<open>A load apart from a store.\<close>

lemma load_bytes_apart:
  assumes "store_bytes M b bs = Some M'" and "apart b (length bs) a n"
  shows "load_bytes M' a n = load_bytes M a n"
  using store_bytes_keeps [OF assms(1)] assms(2) unfolding apart_def by (intro load_bytes_cong) metis


text \<open>\<open>block_at\<close>: the header at \<open>base\<close> and the back reference below \<open>user\<close> belong together.\<close>

definition block_at :: "memory \<Rightarrow> u64 \<Rightarrow> u64 \<Rightarrow> vm_allocation \<Rightarrow> bool" where
  "block_at M user base h \<longleftrightarrow> load_u64 M (user - 8) = Some base \<and> load_bytes M base 32 = Some (vm_bytes h) \<and>
     va_user_addr h = user"

lemma and_then_Some:
  "and_then p k s = Some (r, s') \<longleftrightarrow> (\<exists>x s1. p s = Some (x, s1) \<and> k x s1 = Some (r, s'))"
  by (auto simp: and_then_def split: option.splits)

lemma store_step: "store a bs s = Some (r, s') \<longleftrightarrow> (\<exists>M. store_bytes (m_mem s) a bs = Some M \<and> s' = s\<lparr>m_mem := M\<rparr>)"
  by (auto simp: store_def)

lemma apart_nat:
  assumes "unat a + n \<le> unat b" and "unat b + m \<le> 2 ^ 64"
  shows "apart b m a n"
  unfolding apart_def
proof (intro allI impI)
  fix i j assume "i < m" "j < n"
  have "unat (b + word_of_nat i) = unat b + i" using \<open>i < m\<close> assms(2)
    by (simp add: unat_word_ariths(1) unat_of_nat take_bit_nat_eq_self)
  moreover have "unat (a + word_of_nat j) = unat a + j" using \<open>j < n\<close> assms
    by (simp add: unat_word_ariths(1) unat_of_nat take_bit_nat_eq_self)
  ultimately show "b + word_of_nat i \<noteq> a + word_of_nat j" using assms(1) \<open>j < n\<close> by (metis add_less_cancel_left leD le_add1 order_trans)
qed

lemma vm_stamp_block:
  assumes "vm_stamp base rid R sz user s = Some (u, s')" and "unat base + 40 \<le> unat user"
  shows "block_at (m_mem s') user base
    \<lparr>va_magic = VM_MAGIC, va_region_id = rid, va_region_size = R, va_requested_size = sz, va_user_addr = user\<rparr>"
proof -
  let ?h = "\<lparr>va_magic = VM_MAGIC, va_region_id = rid, va_region_size = R, va_requested_size = sz, va_user_addr = user\<rparr>"
  from assms(1) obtain M1 M2 where M1: "store_bytes (m_mem s) base (vm_bytes ?h) = Some M1"
    and M2: "store_bytes M1 (user - 8) (le_bytes 8 base) = Some M2" and s': "m_mem s' = M2"
    by (auto simp: vm_stamp_def and_then_Some store_step)
  have u8: "unat (user - 8) = unat user - 8" using assms(2) by (simp add: unat_sub word_le_nat_alt)
  have "load_bytes M2 (user - 8 + word_of_nat 0) 8 = Some (take 8 (drop 0 (le_bytes 8 base)))"
    by (rule store_bytes_load [OF M2]) simp_all
  then have "load_u64 M2 (user - 8) = Some base" by (simp add: load_u64_def le_word_le_bytes)
  moreover have "load_bytes M1 (base + word_of_nat 0) 32 = Some (take 32 (drop 0 (vm_bytes ?h)))"
    by (rule store_bytes_load [OF M1]) simp_all
  moreover have "load_bytes M2 base 32 = load_bytes M1 base 32"
  proof (rule load_bytes_apart [OF M2])
    show "apart (user - 8) (length (le_bytes 8 base)) base 32"
      by (rule apart_nat) (use u8 assms(2) unat_bound [of user] in auto)
  qed
  ultimately show ?thesis by (simp add: block_at_def s')
qed

text \<open>
  What the platform grants: it accepts the reservation of \<open>R\<close> bytes and their commitment, and its
  description of the region names the id \<open>rid\<close> and the address \<open>base\<close>; \<open>s2\<close> is the machine then.
\<close>

definition granted :: "'w platform \<Rightarrow> r4_sys option \<Rightarrow> u64 \<Rightarrow> u64 \<Rightarrow> 'w machine \<Rightarrow> u64 \<Rightarrow> u32 \<Rightarrow> 'w machine \<Rightarrow> bool" where
  "granted E sys R alignment s base rid s2 \<longleftrightarrow>
     (\<exists>s1 i. r4sys_vm_reserve E sys R (if alignment > 4096 then alignment else 4096) (ucast (p_code E ''R4OS_VM_REGION_FLAGS_DEFAULT''))
         (p_frame E) s = Some (p_code E ''R4OS_VM_OK'', s1) \<and>
       load_member E (p_frame E) ''R4ProgramVmRegionInfo'' ''id'' s1 = Some (i, s1) \<and> rid = ucast i \<and>
       r4sys_vm_commit E sys rid 0 R s1 = Some (p_code E ''R4OS_VM_OK'', s2) \<and>
       load_member E (p_frame E) ''R4ProgramVmRegionInfo'' ''base'' s2 = Some (base, s2))"

lemma load_member_iff:
  "load_member E a T m s = Some (v, s') \<longleftrightarrow>
    s' = s \<and> map_option le_word (load_bytes (m_mem s) (a + word_of_nat (p_off E T m)) (p_len E T m)) = Some v"
  by (auto simp: load_member_def)

lemma vm_alloc_run:
  assumes "r4sys_vm_alloc E sys sz alignment s = Some (user, s')" and "user \<noteq> 0"
  obtains R base rid s2 u where "vm_region_size sz (vm_alignment alignment) = Some R" and "sz \<noteq> 0"
    and "vm_alignment alignment AND (vm_alignment alignment - 1) = 0" and "granted E sys R (vm_alignment alignment) s base rid s2"
    and "user = vm_user base (vm_alignment alignment)" and "vm_stamp base rid R sz user s2 = Some (u, s')"
proof -
  let ?a = "vm_alignment alignment" and ?frame = "p_frame E"
  obtain R s1 i s1' s2 base s2' u where parts: "vm_region_size sz ?a = Some R" "sz \<noteq> 0" "?a AND (?a - 1) = 0"
    "r4sys_vm_reserve E sys R (if ?a > 4096 then ?a else 4096) (ucast (p_code E ''R4OS_VM_REGION_FLAGS_DEFAULT'')) ?frame s =
      Some (p_code E ''R4OS_VM_OK'', s1)"
    "load_member E ?frame ''R4ProgramVmRegionInfo'' ''id'' s1 = Some (i, s1')" "r4sys_vm_commit E sys (ucast i) 0 R s1' = Some (p_code E ''R4OS_VM_OK'', s2)"
    "load_member E ?frame ''R4ProgramVmRegionInfo'' ''base'' s2 = Some (base, s2')"
    and user: "user = vm_user base ?a" "vm_stamp base (ucast i) R sz user s2' = Some (u, s')"
    using assms unfolding r4sys_vm_alloc_def by (auto simp: ask_def give_def Let_def and_then_Some split: if_split_asm option.split_asm)
  have same: "s1' = s1" "s2' = s2" using parts(5,7) by (simp_all add: load_member_iff)
  have "granted E sys R ?a s base (ucast i) s2" unfolding granted_def using parts(4-7) unfolding same by blast
  with parts(1-3) show thesis using user unfolding same by (rule that)
qed

lemma vm_alignment_nonzero [simp]: "vm_alignment a \<noteq> 0"
  by (auto simp: vm_alignment_def)

text \<open>What \<open>free\<close> reads of a block.\<close>

lemma load_prefix:
  "load_bytes M a n = Some bs \<Longrightarrow> k + m \<le> n \<Longrightarrow> load_bytes M (a + word_of_nat k) m = Some (take m (drop k bs))"
  by (rule load_bytes_part)

lemma block_fields:
  assumes "block_at M user base h"
  shows "load_u32 M base = Some (va_magic h)" and "load_u32 M (base + 4) = Some (va_region_id h)"
    and "load_u64 M (base + 24) = Some (va_user_addr h)"
proof -
  have b: "load_bytes M base 32 = Some (vm_bytes h)" using assms by (simp add: block_at_def)
  show "load_u32 M base = Some (va_magic h)"
    using load_prefix [OF b, of 0 4] by (simp add: load_u32_def vm_bytes_def le_word_le_bytes)
  show "load_u32 M (base + 4) = Some (va_region_id h)"
    using load_prefix [OF b, of 4 4] by (simp add: load_u32_def vm_bytes_def le_word_le_bytes)
  show "load_u64 M (base + 24) = Some (va_user_addr h)"
    using load_prefix [OF b, of 24 8] by (simp add: load_u64_def vm_bytes_def le_word_le_bytes)
qed

lemma vm_free_block:
  assumes "block_at (m_mem s) user base h" and "va_magic h = VM_MAGIC" and "user \<noteq> 0" and "base \<noteq> 0"
    and "r4sys_supports_vm E sys (m_mem s) = Some True"
  obtains M where "store_bytes (m_mem s) base (le_bytes 4 (0 :: u32)) = Some M"
    and "r4sys_vm_free E sys user s = r4sys_vm_release E sys (va_region_id h) (s\<lparr>m_mem := M\<rparr>)"
    and "load_u32 M base = Some 0"
proof -
  note f = block_fields [OF assms(1)]
  have "mapped (m_mem s) base 32" using assms(1) load_bytes_mapped by (auto simp: block_at_def)
  then have "mapped (m_mem s) base 4" by (rule mapped_mono) simp
  then obtain M where M: "store_bytes (m_mem s) base (le_bytes 4 (0 :: u32)) = Some M"
    using store_bytes_mapped [of "m_mem s" base "le_bytes 4 (0 :: u32)"] by auto
  moreover have "r4sys_vm_free E sys user s = r4sys_vm_release E sys (va_region_id h) (s\<lparr>m_mem := M\<rparr>)"
    using assms f M unfolding r4sys_vm_free_def by (simp add: ask_def block_at_def and_then_def store_def)
  moreover have "load_u32 M base = Some 0"
    using store_bytes_load [OF M, of 0 4] by (simp add: load_u32_def le_word_le_bytes)
  ultimately show thesis by (rule that)
qed


text \<open>
  C12: A block that \<open>r4sys_vm_alloc\<close> returns lies in the region the platform granted for it: it is aligned as asked
  (at least to 8), starts at least 40 bytes above the base the platform named and ends inside the region,
  whose size is the asked one rounded up without overflow; the header at that base names the platform's region id, its size and the
  block, and the back reference below the block names the base. Of the platform it is assumed that a region it grants
  does not wrap around the address space.\<close>

theorem r4sys_vm_alloc_fits:
  assumes "r4sys_vm_alloc E sys sz alignment s = Some (user, s')" and "user \<noteq> 0"
    and "\<And>R base rid s2. vm_region_size sz (vm_alignment alignment) = Some R \<Longrightarrow>
      granted E sys R (vm_alignment alignment) s base rid s2 \<Longrightarrow> unat base + unat R \<le> 2 ^ 64"
  shows "\<exists>base rid R s2. granted E sys R (vm_alignment alignment) s base rid s2 \<and>
    unat (vm_alignment alignment) dvd unat user \<and> unat base + 40 \<le> unat user \<and> unat user + unat sz \<le> unat base + unat R \<and>
    4096 dvd unat R \<and> unat R < unat sz + 40 + unat (vm_alignment alignment) + 4096 \<and>
    block_at (m_mem s') user base \<lparr>va_magic = VM_MAGIC, va_region_id = rid, va_region_size = R,
      va_requested_size = sz, va_user_addr = user\<rparr>"
proof -
  from vm_alloc_run [OF assms(1,2)] obtain R base rid s2 u where run: "vm_region_size sz (vm_alignment alignment) = Some R"
    "sz \<noteq> 0" "vm_alignment alignment AND (vm_alignment alignment - 1) = 0" and granted: "granted E sys R (vm_alignment alignment) s base rid s2"
    and user: "user = vm_user base (vm_alignment alignment)" and stamp: "vm_stamp base rid R sz user s2 = Some (u, s')" .
  note layout = vm_layout [OF run(1) vm_alignment_nonzero run(3,2) assms(3) [OF run(1) granted], folded user]
  have "unat R < unat sz + 40 + unat (vm_alignment alignment) + 4096"
    using region_size_unfold(2) [OF run(1)] round_up_bounds(2) [of 4096 "unat sz + 40 + (unat (vm_alignment alignment) - 1)"] by simp
  with layout granted vm_stamp_block [OF stamp layout(2)] show ?thesis by blast
qed

text \<open>
  C13: Freeing a block hands exactly its region to the platform's release after the header is
  marked; while the marked header stays, a second free of the same address is refused
  without a call.\<close>

theorem r4sys_vm_free_once:
  assumes "block_at (m_mem s) user base h" and "va_magic h = VM_MAGIC" and "user \<noteq> 0" and "base \<noteq> 0"
    and "r4sys_supports_vm E sys (m_mem s) = Some True"
  shows "\<exists>M. store_bytes (m_mem s) base (le_bytes 4 (0 :: u32)) = Some M \<and>
    r4sys_vm_free E sys user s = r4sys_vm_release E sys (va_region_id h) (s\<lparr>m_mem := M\<rparr>) \<and>
    (\<forall>s2. r4sys_supports_vm E sys (m_mem s2) = Some True \<and> load_u64 (m_mem s2) (user - 8) = Some base \<and>
       load_u32 (m_mem s2) base = load_u32 M base \<longrightarrow> r4sys_vm_free E sys user s2 = Some (- 1, s2))"
proof -
  from vm_free_block [OF assms] obtain M where M: "store_bytes (m_mem s) base (le_bytes 4 (0 :: u32)) = Some M"
    "r4sys_vm_free E sys user s = r4sys_vm_release E sys (va_region_id h) (s\<lparr>m_mem := M\<rparr>)"
    "load_u32 M base = Some 0" .
  have "r4sys_vm_free E sys user s2 = Some (- 1, s2)"
    if "r4sys_supports_vm E sys (m_mem s2) = Some True" "load_u64 (m_mem s2) (user - 8) = Some base"
      "load_u32 (m_mem s2) base = load_u32 M base" for s2
    using that M(3) assms(3,4) by (simp add: r4sys_vm_free_def ask_def give_def)
  with M(1,2) show ?thesis by blast
qed

text \<open>A platform that grants every request, on a memory of ones: every slot is filled.\<close>

definition sample_vm :: "unit platform" where
  "sample_vm = \<lparr>p_off = (\<lambda>_ _. 16), p_len = (\<lambda>_ _. 8), p_size = (\<lambda>_. 24), p_code = (\<lambda>_. 0), p_frame = 0x2000, p_local = (\<lambda>_. 0x3000),
     p_run = (\<lambda>_ _ M w. (0, M, w))\<rparr>"

definition sample_vm_state :: "unit machine" where
  "sample_vm_state = \<lparr>m_mem = (\<lambda>_. Some 1), m_calls = [], m_os = ()\<rparr>"

definition sample_sys :: "r4_sys option" where
  "sample_sys = Some \<lparr>h_table = 0x1000, h_ctx = None\<rparr>"


lemma load_ones: "load_bytes (\<lambda>_. Some 1) a n = Some (replicate n 1)" by (induction n arbitrary: a) auto

lemma ones_word: "le_word (replicate 4 1) = (0x01010101 :: u32)" "le_word (replicate 8 1) = (0x0101010101010101 :: u64)"
  by (simp_all add: eval_nat_numeral)

lemma sample_tests:
  "r4sys_supports_vm sample_vm sample_sys (\<lambda>_. Some 1) = Some True"
  "has_field sample_vm ''R4Sys'' (table_of sample_sys) slot (\<lambda>_. Some 1) = Some True"
  by (simp_all add: r4sys_supports_vm_def has_slots_def tail_slots_def q_and_def sure_def covers_def filled_def has_field_def has_callback_def
    table_of_def load_u32_def load_u64_def load_ones ones_word sample_sys_def sample_vm_def size_sub_def)

lemma sample_calls:
  "m_mem s = (\<lambda>_. Some 1) \<Longrightarrow> call_slot sample_vm ''R4Sys'' (table_of sample_sys) slot args s =
    Some (0, s\<lparr>m_calls := m_calls s @ [(0x0101010101010101, args)]\<rparr>)"
  by (simp add: call_slot_def load_u64_def load_ones ones_word and_then_def call_fn_def give_def sample_vm_def)

lemma sample_steps:
  assumes "m_mem s = (\<lambda>_. Some 1)"
  shows "r4sys_vm_reserve sample_vm sample_sys a b c 0x2000 s =
      Some (0, s\<lparr>m_calls := m_calls s @ [(0x0101010101010101, [a, b, c, 0x2000])]\<rparr>)"
    and "r4sys_vm_commit sample_vm sample_sys d b c s =
      Some (0, s\<lparr>m_calls := m_calls s @ [(0x0101010101010101, [ucast d, b, c, 0])]\<rparr>)"
    and "load_member sample_vm 0x2000 T m s = Some (0x0101010101010101, s)"
  using assms by (simp_all add: r4sys_vm_reserve_def r4sys_vm_commit_def ask_def q_or_def q_not_def sure_def sample_tests
    sample_calls load_member_def load_ones ones_word) (simp_all add: sample_vm_def load_ones ones_word)

lemma stamp_mapped:
  assumes "dom (m_mem s) = UNIV"
  shows "\<exists>s'. vm_stamp a b c d e s = Some ((), s')"
proof -
  have total: "mapped M x n" if "dom M = UNIV" for M x n using that by (auto simp: mapped_def dom_def)
  obtain M1 where M1: "store_bytes (m_mem s) a (vm_bytes \<lparr>va_magic = VM_MAGIC, va_region_id = b, va_region_size = c,
      va_requested_size = d, va_user_addr = e\<rparr>) = Some M1"
    using store_bytes_mapped [of "m_mem s" a] total [OF assms] by blast
  have "dom M1 = UNIV" using store_bytes_dom [OF M1] assms by simp
  then obtain M2 where "store_bytes M1 (e - 8) (le_bytes 8 a) = Some M2"
    using store_bytes_mapped [of M1 "e - 8" "le_bytes 8 a"] total [of M1 "e - 8" 8] by auto
  with M1 show ?thesis by (simp add: vm_stamp_def and_then_def store_def)
qed

lemma sample_dom: "dom (m_mem (sample_vm_state\<lparr>m_calls := cs\<rparr>)) = UNIV"
  by (auto simp: sample_vm_state_def)

lemma sample_vm_run:
  "\<exists>s'. r4sys_vm_alloc sample_vm sample_sys 100 64 sample_vm_state = Some (0x0101010101010140, s')"
proof -
  have "vm_region_size 100 64 = Some 0x1000" by (simp add: vm_region_size_def r4sys_align_up_u64_def Let_def)
  moreover have "vm_user 0x0101010101010101 64 = 0x0101010101010140" by (simp add: vm_user_def r4sys_align_up_u64_def Let_def)
  moreover have "p_frame sample_vm = 0x2000" "p_code sample_vm c = 0" for c by (simp_all add: sample_vm_def)
  moreover have "m_mem sample_vm_state = (\<lambda>_. Some 1)" by (simp add: sample_vm_state_def)
  moreover obtain s' where "vm_stamp 0x0101010101010101 0x0101010101010101 0x1000 100 0x0101010101010140
      (sample_vm_state\<lparr>m_calls := m_calls sample_vm_state @ [(0x0101010101010101, [0x1000, 0x1000, 0, 0x2000]),
        (0x0101010101010101, [0x01010101, 0, 0x1000, 0])]\<rparr>) = Some ((), s')"
    using stamp_mapped [OF sample_dom] by blast
  ultimately show ?thesis
    by (simp add: r4sys_vm_alloc_def ask_def sample_tests sample_steps Let_def vm_alignment_def and_then_def give_def)
qed

lemma granted_parts:
  "granted sample_vm sample_sys R 64 sample_vm_state base rid s2 \<Longrightarrow> base = 0x0101010101010101 \<and> rid = 0x01010101"
proof -
  have frame: "p_frame sample_vm = 0x2000" and codes: "p_code sample_vm c = 0" for c by (simp_all add: sample_vm_def)
  have ones: "m_mem sample_vm_state = (\<lambda>_. Some 1)" by (simp add: sample_vm_state_def)
  show "granted sample_vm sample_sys R 64 sample_vm_state base rid s2 \<Longrightarrow> base = 0x0101010101010101 \<and> rid = 0x01010101"
    unfolding granted_def frame codes by (auto simp: sample_steps ones)
qed

theorem r4sys_vm_alloc_fits_witness:
  "\<exists>s'. r4sys_vm_alloc sample_vm sample_sys 100 64 sample_vm_state = Some (0x0101010101010140, s') \<and>
    block_at (m_mem s') 0x0101010101010140 0x0101010101010101
      \<lparr>va_magic = VM_MAGIC, va_region_id = 0x01010101, va_region_size = 0x1000, va_requested_size = 100,
       va_user_addr = 0x0101010101010140\<rparr>"
proof -
  from sample_vm_run obtain s' where s': "r4sys_vm_alloc sample_vm sample_sys 100 64 sample_vm_state = Some (0x0101010101010140, s')"
    by auto
  have a: "vm_alignment 64 = 64" by (simp add: vm_alignment_def)
  have size: "vm_region_size 100 64 = Some R \<Longrightarrow> R = 0x1000" for R by (simp add: vm_region_size_def r4sys_align_up_u64_def Let_def)
  have fits: "unat base + unat R \<le> 2 ^ 64" if "vm_region_size 100 (vm_alignment 64) = Some R"
    "granted sample_vm sample_sys R (vm_alignment 64) sample_vm_state base rid s2" for R base rid s2
    using granted_parts size that unfolding a by fastforce
  have nonzero: "(0x0101010101010140 :: u64) \<noteq> 0" by simp
  obtain base rid R s2 where
    granted: "granted sample_vm sample_sys R 64 sample_vm_state base rid s2" and "4096 dvd unat R"
    and R: "unat (0x0101010101010140 :: u64) + unat (100 :: u64) \<le> unat base + unat R" "unat R < unat (100 :: u64) + 40 + unat (64 :: u64) + 4096"
    and block: "block_at (m_mem s') 0x0101010101010140 base \<lparr>va_magic = VM_MAGIC, va_region_id = rid, va_region_size = R,
      va_requested_size = 100, va_user_addr = 0x0101010101010140\<rparr>"
    using r4sys_vm_alloc_fits [OF s' nonzero] fits unfolding a by blast
  have at: "base = 0x0101010101010101" "rid = 0x01010101" using granted_parts [OF granted] by simp_all
  have "unat R = 4096" using \<open>4096 dvd unat R\<close> R at by (auto elim!: dvdE)
  then have "R = 0x1000" by (simp add: word_unat_eq_iff)
  then show ?thesis using s' block at by auto
qed

text \<open>A block stamped at 0x5000 leaves the table at 0x1000 as it was.\<close>

lemma stamp_below:
  assumes "vm_stamp base rid R sz user s = Some (u, s')" and "unat base + 40 \<le> unat user" and "unat x + n \<le> unat base"
    and "unat base + 32 \<le> 2 ^ 64"
  shows "load_bytes (m_mem s') x n = load_bytes (m_mem s) x n"
proof -
  from assms(1) obtain M1 M2 where M1: "store_bytes (m_mem s) base (vm_bytes \<lparr>va_magic = VM_MAGIC, va_region_id = rid,
      va_region_size = R, va_requested_size = sz, va_user_addr = user\<rparr>) = Some M1"
    and M2: "store_bytes M1 (user - 8) (le_bytes 8 base) = Some M2" and s': "m_mem s' = M2"
    by (auto simp: vm_stamp_def and_then_Some store_step)
  have u8: "unat (user - 8) = unat user - 8" using assms(2) by (simp add: unat_sub word_le_nat_alt)
  have "load_bytes M1 x n = load_bytes (m_mem s) x n"
    by (rule load_bytes_apart [OF M1], rule apart_nat) (use assms in auto)
  moreover have "load_bytes M2 x n = load_bytes M1 x n"
    by (rule load_bytes_apart [OF M2], rule apart_nat) (use assms u8 unat_bound [of user] in auto)
  ultimately show ?thesis by (simp add: s')
qed

theorem r4sys_vm_free_once_witness:
  "\<exists>s M. store_bytes (m_mem s) 0x5000 (le_bytes 4 (0 :: u32)) = Some M \<and>
    r4sys_vm_free sample_vm sample_sys 0x5040 s = r4sys_vm_release sample_vm sample_sys 7 (s\<lparr>m_mem := M\<rparr>)"
proof -
  let ?h = "\<lparr>va_magic = VM_MAGIC, va_region_id = 7, va_region_size = 4096, va_requested_size = 100, va_user_addr = 0x5040\<rparr>"
  obtain s where s: "vm_stamp 0x5000 7 4096 100 0x5040 sample_vm_state = Some ((), s)"
    using stamp_mapped [of sample_vm_state] sample_dom [of "[]"] by (simp add: sample_vm_state_def) blast
  have "load_bytes (m_mem s) x n = load_bytes (\<lambda>_. Some 1) x n" if "unat x + n \<le> 0x5000" for x n
    using stamp_below [OF s, of x n] that by (simp add: sample_vm_state_def)
  then have "r4sys_supports_vm sample_vm sample_sys (m_mem s) = Some True"
    by (simp add: r4sys_supports_vm_def has_slots_def tail_slots_def q_and_def sure_def covers_def filled_def table_of_def
      load_u32_def load_u64_def load_ones ones_word sample_sys_def sample_vm_def)
  moreover have "block_at (m_mem s) 0x5040 0x5000 ?h" by (rule vm_stamp_block [OF s]) simp
  ultimately show ?thesis
    using r4sys_vm_free_once [of s "0x5040" "0x5000" ?h sample_vm sample_sys] by auto
qed

end
