(* ===== verification/DrawCalls.thy ===== *)
theory DrawCalls
  imports Platform
begin

text \<open>
  The wrappers of \<open>Shared/C/include/r4os/r4draw.h\<close>: presentation, the window frame
  contracts, graphics buffers, outputs and queues. Most prepare a versioned output object;
  the newer ones let the platform fill a local object and copy it out on success only.
\<close>

subsection \<open>Tests and calls on the table\<close>

abbreviation draw_has where "draw_has E h slot \<equiv> has_slot E ''R4Draw'' (table_of h) slot"
abbreviation draw_field where "draw_field E h slot \<equiv> has_field E ''R4Draw'' (table_of h) slot"
abbreviation draw_base where "draw_base E h slot \<equiv> has_base E ''R4Draw'' (table_of h) slot"
abbreviation draw_tail where "draw_tail E h slot \<equiv> tail_slot E ''R4Draw'' (table_of h) slot"
abbreviation draw_filled where "draw_filled E h slot \<equiv> filled E ''R4Draw'' (table_of h) slot"
abbreviation draw_slots where "draw_slots E h last_slot slots \<equiv> has_slots E ''R4Draw'' (table_of h) last_slot slots"
abbreviation draw_tail_slots where "draw_tail_slots E h last_slot slots \<equiv> tail_slots E ''R4Draw'' (table_of h) last_slot slots"
abbreviation draw_call where "draw_call E h slot args \<equiv> call_slot E ''R4Draw'' (table_of h) slot args"

subsection \<open>The code\<close>

definition r4draw_supports_display_blit_stride :: "'w platform \<Rightarrow> handle option \<Rightarrow> query" where
  "r4draw_supports_display_blit_stride E draw =
     draw_has E draw ''display_blit_xrgb32_stride''"

definition r4draw_display_blit_xrgb32_stride ::
  "'w platform \<Rightarrow> handle option \<Rightarrow> i32 \<Rightarrow> i32 \<Rightarrow> u32 \<Rightarrow> u32 \<Rightarrow> u32 \<Rightarrow> u64 \<Rightarrow> u32 \<Rightarrow> (i32, 'w) io" where
  "r4draw_display_blit_xrgb32_stride E draw x y width height source_stride_pixels pixels pixel_count =
    (ask (r4draw_supports_display_blit_stride E draw) (\<lambda>ok.
       if \<not> ok then give (p_code E ''R4OS_ERR_NO_FN'')
       else if pixels = 0 \<or> pixel_count = 0 then give (- 1)
       else draw_call E draw ''display_blit_xrgb32_stride'' [scast x, scast y, ucast width, ucast height, pixels, ucast pixel_count, ucast source_stride_pixels]))"

definition r4draw_supports_display_present_regions :: "'w platform \<Rightarrow> handle option \<Rightarrow> query" where
  "r4draw_supports_display_present_regions E draw =
     draw_slots E draw ''display_present_completion'' [''display_present_regions'', ''display_present_capabilities'', ''display_present_completion'']"

definition r4draw_display_present_regions ::
  "'w platform \<Rightarrow> handle option \<Rightarrow> u64 \<Rightarrow> u64 \<Rightarrow> u32 \<Rightarrow> u64 \<Rightarrow> u32 \<Rightarrow> u64 \<Rightarrow> (i32, 'w) io" where
  "r4draw_display_present_regions E draw request pixels pixel_count regions region_count out_result =
    (ask (r4draw_supports_display_present_regions E draw) (\<lambda>ok.
       if \<not> ok then give (p_code E ''R4OS_ERR_NO_FN'')
       else if request = 0 \<or> pixels = 0 \<or> pixel_count = 0 \<or> regions = 0 \<or> region_count = 0 \<or> region_count > p_code E ''R4OS_DISPLAY_DAMAGE_MAX_REGIONS'' \<or> out_result = 0 then give (p_code E ''R4OS_DISPLAY_PRESENT_ERROR_INVALID'')
       else draw_call E draw ''display_present_regions'' [request, pixels, ucast pixel_count, regions, ucast region_count, out_result]))"

definition r4draw_display_present_capabilities ::
  "'w platform \<Rightarrow> handle option \<Rightarrow> u64 \<Rightarrow> (i32, 'w) io" where
  "r4draw_display_present_capabilities E draw out_capabilities =
    (ask (r4draw_supports_display_present_regions E draw) (\<lambda>ok.
       if \<not> ok then give (p_code E ''R4OS_ERR_NO_FN'')
       else if out_capabilities = 0 then give (p_code E ''R4OS_DISPLAY_PRESENT_ERROR_INVALID'')
       else and_then (put_header E out_capabilities ''R4DisplayPresentCapabilities'' (ucast (p_code E ''R4OS_DISPLAY_PRESENT_VERSION'')) (sizeof E ''R4DisplayPresentCapabilities'')) (\<lambda>_.
       draw_call E draw ''display_present_capabilities'' [out_capabilities])))"

definition r4draw_display_present_completion ::
  "'w platform \<Rightarrow> handle option \<Rightarrow> u64 \<Rightarrow> u64 \<Rightarrow> (i32, 'w) io" where
  "r4draw_display_present_completion E draw fence out_completion =
    (ask (r4draw_supports_display_present_regions E draw) (\<lambda>ok.
       if \<not> ok then give (p_code E ''R4OS_ERR_NO_FN'')
       else if fence = 0 \<or> out_completion = 0 then give (p_code E ''R4OS_DISPLAY_PRESENT_ERROR_INVALID'')
       else and_then (put_header E out_completion ''R4DisplayPresentCompletion'' (ucast (p_code E ''R4OS_DISPLAY_PRESENT_VERSION'')) (sizeof E ''R4DisplayPresentCompletion'')) (\<lambda>_.
       draw_call E draw ''display_present_completion'' [fence, out_completion])))"

definition r4draw_supports_display_presentation_stats :: "'w platform \<Rightarrow> handle option \<Rightarrow> query" where
  "r4draw_supports_display_presentation_stats E draw =
     draw_has E draw ''display_presentation_stats''"

definition r4draw_supports_display_presentation_info :: "'w platform \<Rightarrow> handle option \<Rightarrow> query" where
  "r4draw_supports_display_presentation_info E draw =
     draw_has E draw ''display_presentation_info''"

definition r4draw_display_presentation_info ::
  "'w platform \<Rightarrow> handle option \<Rightarrow> u32 \<Rightarrow> u64 \<Rightarrow> (i32, 'w) io" where
  "r4draw_display_presentation_info E draw head_id output =
    (ask (r4draw_supports_display_presentation_info E draw) (\<lambda>ok.
       if \<not> ok then give (p_code E ''R4OS_ERR_NO_FN'')
       else if output = 0 then give (p_code E ''R4OS_GFX_OUTPUT_ERROR_INVALID'')
       else and_then (put_header E output ''R4DisplayPresentationInfo'' 1 (sizeof E ''R4DisplayPresentationInfo'')) (\<lambda>_.
       draw_call E draw ''display_presentation_info'' [ucast head_id, output])))"

definition r4draw_display_presentation_feedback ::
  "'w platform \<Rightarrow> handle option \<Rightarrow> u32 \<Rightarrow> u64 \<Rightarrow> u64 \<Rightarrow> (i32, 'w) io" where
  "r4draw_display_presentation_feedback E draw head_id source output =
    (ask (draw_has E draw ''display_presentation_feedback'') (\<lambda>ok.
       if \<not> ok then give (p_code E ''R4OS_ERR_NO_FN'')
       else if source = 0 \<or> output = 0 then give (p_code E ''R4OS_GFX_OUTPUT_ERROR_INVALID'')
       else and_then (put_header E output ''R4DisplayPresentationStats'' 1 (sizeof E ''R4DisplayPresentationStats'')) (\<lambda>_.
       draw_call E draw ''display_presentation_feedback'' [ucast head_id, source, output])))"

definition r4draw_supports_display_cursor :: "'w platform \<Rightarrow> handle option \<Rightarrow> query" where
  "r4draw_supports_display_cursor E draw =
     draw_slots E draw ''display_cursor_status'' [''display_cursor_info'', ''display_cursor_submit'', ''display_cursor_status'']"

definition r4draw_display_cursor_info ::
  "'w platform \<Rightarrow> handle option \<Rightarrow> u64 \<Rightarrow> (i32, 'w) io" where
  "r4draw_display_cursor_info E draw output =
    (ask (r4draw_supports_display_cursor E draw) (\<lambda>ok.
       if \<not> ok then give (p_code E ''R4OS_ERR_NO_FN'')
       else if output = 0 then give (p_code E ''R4OS_GFX_OUTPUT_ERROR_INVALID'')
       else and_then (put_header E output ''R4DisplayCursorInfo'' 1 (sizeof E ''R4DisplayCursorInfo'')) (\<lambda>_.
       draw_call E draw ''display_cursor_info'' [output])))"

definition r4draw_display_cursor_submit ::
  "'w platform \<Rightarrow> handle option \<Rightarrow> u64 \<Rightarrow> u64 \<Rightarrow> (i32, 'w) io" where
  "r4draw_display_cursor_submit E draw input output =
    (ask (r4draw_supports_display_cursor E draw) (\<lambda>ok.
       if \<not> ok then give (p_code E ''R4OS_ERR_NO_FN'')
       else if input = 0 \<or> output = 0 then give (p_code E ''R4OS_GFX_OUTPUT_ERROR_INVALID'')
       else and_then (put_header E output ''R4DisplayCursorStatus'' 1 (sizeof E ''R4DisplayCursorStatus'')) (\<lambda>_.
       draw_call E draw ''display_cursor_submit'' [input, output])))"

definition r4draw_display_cursor_status ::
  "'w platform \<Rightarrow> handle option \<Rightarrow> u64 \<Rightarrow> (i32, 'w) io" where
  "r4draw_display_cursor_status E draw output =
    (ask (r4draw_supports_display_cursor E draw) (\<lambda>ok.
       if \<not> ok then give (p_code E ''R4OS_ERR_NO_FN'')
       else if output = 0 then give (p_code E ''R4OS_GFX_OUTPUT_ERROR_INVALID'')
       else and_then (put_header E output ''R4DisplayCursorStatus'' 1 (sizeof E ''R4DisplayCursorStatus'')) (\<lambda>_.
       draw_call E draw ''display_cursor_status'' [output])))"

definition r4draw_display_presentation_stats ::
  "'w platform \<Rightarrow> handle option \<Rightarrow> u32 \<Rightarrow> u64 \<Rightarrow> (i32, 'w) io" where
  "r4draw_display_presentation_stats E draw head_id output =
    (ask (r4draw_supports_display_presentation_stats E draw) (\<lambda>ok.
       if \<not> ok then give (p_code E ''R4OS_ERR_NO_FN'')
       else if output = 0 then give (p_code E ''R4OS_GFX_OUTPUT_ERROR_INVALID'')
       else and_then (put_header E output ''R4DisplayPresentationStats'' 1 (sizeof E ''R4DisplayPresentationStats'')) (\<lambda>_.
       draw_call E draw ''display_presentation_stats'' [ucast head_id, output])))"

definition r4draw_gui_clear ::
  "'w platform \<Rightarrow> handle option \<Rightarrow> u32 \<Rightarrow> (i32, 'w) io" where
  "r4draw_gui_clear E draw rgb =
    (ask (draw_base E draw ''gui_clear'') (\<lambda>ok.
       if \<not> ok then give (- 1)
       else draw_call E draw ''gui_clear'' [ucast rgb]))"

definition r4draw_gui_rect ::
  "'w platform \<Rightarrow> handle option \<Rightarrow> i32 \<Rightarrow> i32 \<Rightarrow> u32 \<Rightarrow> u32 \<Rightarrow> u32 \<Rightarrow> (i32, 'w) io" where
  "r4draw_gui_rect E draw x y w h rgb =
    (ask (draw_base E draw ''gui_rect'') (\<lambda>ok.
       if \<not> ok then give (- 1)
       else draw_call E draw ''gui_rect'' [scast x, scast y, ucast w, ucast h, ucast rgb]))"

definition r4draw_gui_draw_text ::
  "'w platform \<Rightarrow> handle option \<Rightarrow> i32 \<Rightarrow> i32 \<Rightarrow> u64 \<Rightarrow> u32 \<Rightarrow> u32 \<Rightarrow> (i32, 'w) io" where
  "r4draw_gui_draw_text E draw x y text_ptr fg bg =
    (ask (draw_base E draw ''gui_draw_text'') (\<lambda>ok.
       if \<not> ok then give (- 1)
       else draw_call E draw ''gui_draw_text'' [scast x, scast y, text_ptr, ucast fg, ucast bg]))"

definition r4draw_gui_blend_alpha8 ::
  "'w platform \<Rightarrow> handle option \<Rightarrow> i32 \<Rightarrow> i32 \<Rightarrow> u32 \<Rightarrow> u32 \<Rightarrow> u32 \<Rightarrow> u32 \<Rightarrow> u64 \<Rightarrow> u64 \<Rightarrow> (i32, 'w) io" where
  "r4draw_gui_blend_alpha8 E draw x y width height stride rgb alpha alpha_len =
    (ask (draw_has E draw ''gui_blend_alpha8'') (\<lambda>ok.
       if \<not> ok then give (p_code E ''R4OS_ERR_NO_FN'')
       else if alpha = 0 \<or> alpha_len = 0 \<or> alpha_len > 0xFFFFFFFF then give (- 1)
       else draw_call E draw ''gui_blend_alpha8'' [scast x, scast y, ucast width, ucast height, ucast stride, ucast rgb, alpha, ucast (ucast alpha_len :: u32)]))"

definition r4draw_supports_gui_frame_contract :: "'w platform \<Rightarrow> handle option \<Rightarrow> query" where
  "r4draw_supports_gui_frame_contract E draw =
     draw_slots E draw ''gui_frame_read'' [''gui_frame_begin'', ''gui_frame_append'', ''gui_frame_commit'', ''gui_frame_cancel'', ''gui_frame_info'', ''gui_frame_read'']"

definition r4draw_supports_gui_frame_damage_contract :: "'w platform \<Rightarrow> handle option \<Rightarrow> query" where
  "r4draw_supports_gui_frame_damage_contract E draw =
     q_and (r4draw_supports_gui_frame_contract E draw) (draw_tail_slots E draw ''gui_frame_generation_read'' [''gui_frame_begin_damage'', ''gui_frame_generation_info'', ''gui_frame_generation_read''])"

definition r4draw_supports_gui_frame_streaming_contract :: "'w platform \<Rightarrow> handle option \<Rightarrow> query" where
  "r4draw_supports_gui_frame_streaming_contract E draw =
     q_and (r4draw_supports_gui_frame_damage_contract E draw) (draw_tail_slots E draw ''gui_frame_stream_info'' [''gui_frame_begin_replace'', ''gui_frame_stream_info''])"

definition r4draw_gui_frame_begin ::
  "'w platform \<Rightarrow> handle option \<Rightarrow> (i32, 'w) io" where
  "r4draw_gui_frame_begin E draw =
    (ask (r4draw_supports_gui_frame_contract E draw) (\<lambda>ok.
       if \<not> ok then give (p_code E ''R4OS_ERR_NO_FN'')
       else draw_call E draw ''gui_frame_begin'' []))"

definition r4draw_gui_frame_begin_damage ::
  "'w platform \<Rightarrow> handle option \<Rightarrow> u64 \<Rightarrow> u32 \<Rightarrow> (i32, 'w) io" where
  "r4draw_gui_frame_begin_damage E draw regions region_count =
    (ask (r4draw_supports_gui_frame_damage_contract E draw) (\<lambda>ok.
       if \<not> ok then give (p_code E ''R4OS_ERR_NO_FN'')
       else if regions = 0 \<or> region_count = 0 \<or> region_count > p_code E ''R4OS_GUI_FRAME_MAX_DAMAGE_REGIONS'' then give (p_code E ''R4OS_GUI_FRAME_ERROR_INVALID'')
       else draw_call E draw ''gui_frame_begin_damage'' [regions, ucast region_count]))"

definition r4draw_gui_frame_begin_replace ::
  "'w platform \<Rightarrow> handle option \<Rightarrow> u64 \<Rightarrow> u32 \<Rightarrow> (i32, 'w) io" where
  "r4draw_gui_frame_begin_replace E draw regions region_count =
    (ask (r4draw_supports_gui_frame_streaming_contract E draw) (\<lambda>ok.
       if \<not> ok then give (p_code E ''R4OS_ERR_NO_FN'')
       else if regions = 0 \<or> region_count = 0 \<or> region_count > p_code E ''R4OS_GUI_FRAME_MAX_DAMAGE_REGIONS'' then give (p_code E ''R4OS_GUI_FRAME_ERROR_INVALID'')
       else draw_call E draw ''gui_frame_begin_replace'' [regions, ucast region_count]))"

definition r4draw_gui_frame_append ::
  "'w platform \<Rightarrow> handle option \<Rightarrow> u64 \<Rightarrow> u64 \<Rightarrow> u64 \<Rightarrow> u64 \<Rightarrow> (i32, 'w) io" where
  "r4draw_gui_frame_append E draw commands command_count resources resource_len =
    (ask (r4draw_supports_gui_frame_contract E draw) (\<lambda>ok.
       if \<not> ok then give (p_code E ''R4OS_ERR_NO_FN'')
       else draw_call E draw ''gui_frame_append'' [commands, command_count, resources, resource_len]))"

definition r4draw_gui_frame_commit ::
  "'w platform \<Rightarrow> handle option \<Rightarrow> (i32, 'w) io" where
  "r4draw_gui_frame_commit E draw =
    (ask (r4draw_supports_gui_frame_contract E draw) (\<lambda>ok.
       if \<not> ok then give (p_code E ''R4OS_ERR_NO_FN'')
       else draw_call E draw ''gui_frame_commit'' []))"

definition r4draw_gui_frame_cancel ::
  "'w platform \<Rightarrow> handle option \<Rightarrow> (i32, 'w) io" where
  "r4draw_gui_frame_cancel E draw =
    (ask (r4draw_supports_gui_frame_contract E draw) (\<lambda>ok.
       if \<not> ok then give (p_code E ''R4OS_ERR_NO_FN'')
       else draw_call E draw ''gui_frame_cancel'' []))"

definition r4draw_gui_frame_info ::
  "'w platform \<Rightarrow> handle option \<Rightarrow> u64 \<Rightarrow> u64 \<Rightarrow> (i32, 'w) io" where
  "r4draw_gui_frame_info E draw handle out_info =
    (ask (r4draw_supports_gui_frame_contract E draw) (\<lambda>ok.
       if \<not> ok then give (p_code E ''R4OS_ERR_NO_FN'')
       else if out_info = 0 then give (p_code E ''R4OS_GUI_FRAME_ERROR_INVALID'')
       else and_then (put_header E out_info ''R4GuiFrameInfo'' (ucast (p_code E ''R4OS_GUI_FRAME_INFO_VERSION'')) (ucast (p_code E ''R4OS_GUI_FRAME_INFO_SIZE''))) (\<lambda>_.
       draw_call E draw ''gui_frame_info'' [handle, out_info])))"

definition r4draw_gui_frame_read ::
  "'w platform \<Rightarrow> handle option \<Rightarrow> u64 \<Rightarrow> u64 \<Rightarrow> u64 \<Rightarrow> u64 \<Rightarrow> u64 \<Rightarrow> u64 \<Rightarrow> u64 \<Rightarrow> (i32, 'w) io" where
  "r4draw_gui_frame_read E draw handle expected_generation commands command_capacity resources resource_capacity out_info =
    (ask (r4draw_supports_gui_frame_contract E draw) (\<lambda>ok.
       if \<not> ok then give (p_code E ''R4OS_ERR_NO_FN'')
       else if out_info = 0 then give (p_code E ''R4OS_GUI_FRAME_ERROR_INVALID'')
       else and_then (put_header E out_info ''R4GuiFrameInfo'' (ucast (p_code E ''R4OS_GUI_FRAME_INFO_VERSION'')) (ucast (p_code E ''R4OS_GUI_FRAME_INFO_SIZE''))) (\<lambda>_.
       if handle = 0 then give (p_code E ''R4OS_GUI_FRAME_ERROR_INVALID'')
       else draw_call E draw ''gui_frame_read'' [handle, expected_generation, commands, command_capacity, resources, resource_capacity, out_info])))"

definition r4draw_gui_frame_generation_info ::
  "'w platform \<Rightarrow> handle option \<Rightarrow> u64 \<Rightarrow> u64 \<Rightarrow> u64 \<Rightarrow> (i32, 'w) io" where
  "r4draw_gui_frame_generation_info E draw handle generation out_info =
    (ask (r4draw_supports_gui_frame_damage_contract E draw) (\<lambda>ok.
       if \<not> ok then give (p_code E ''R4OS_ERR_NO_FN'')
       else if handle = 0 \<or> generation = 0 \<or> out_info = 0 then give (p_code E ''R4OS_GUI_FRAME_ERROR_INVALID'')
       else and_then (put_header E out_info ''R4GuiFrameGenerationInfo'' (ucast (p_code E ''R4OS_GUI_FRAME_GENERATION_INFO_VERSION'')) (ucast (p_code E ''R4OS_GUI_FRAME_GENERATION_INFO_SIZE''))) (\<lambda>_.
       draw_call E draw ''gui_frame_generation_info'' [handle, generation, out_info])))"

definition r4draw_gui_frame_generation_read ::
  "'w platform \<Rightarrow> handle option \<Rightarrow> u64 \<Rightarrow> u64 \<Rightarrow> u64 \<Rightarrow> u64 \<Rightarrow> u64 \<Rightarrow> u64 \<Rightarrow> u64 \<Rightarrow> u32 \<Rightarrow> u64 \<Rightarrow> (i32, 'w) io" where
  "r4draw_gui_frame_generation_read E draw handle generation commands command_capacity resources resource_capacity regions region_capacity out_info =
    (ask (r4draw_supports_gui_frame_damage_contract E draw) (\<lambda>ok.
       if \<not> ok then give (p_code E ''R4OS_ERR_NO_FN'')
       else if handle = 0 \<or> generation = 0 \<or> out_info = 0 \<or> (commands = 0 \<and> command_capacity \<noteq> 0) \<or> (resources = 0 \<and> resource_capacity \<noteq> 0) \<or> (regions = 0 \<and> region_capacity \<noteq> 0) then give (p_code E ''R4OS_GUI_FRAME_ERROR_INVALID'')
       else and_then (put_header E out_info ''R4GuiFrameGenerationInfo'' (ucast (p_code E ''R4OS_GUI_FRAME_GENERATION_INFO_VERSION'')) (ucast (p_code E ''R4OS_GUI_FRAME_GENERATION_INFO_SIZE''))) (\<lambda>_.
       draw_call E draw ''gui_frame_generation_read'' [handle, generation, commands, command_capacity, resources, resource_capacity, regions, ucast region_capacity, out_info])))"

definition r4draw_gui_frame_stream_info ::
  "'w platform \<Rightarrow> handle option \<Rightarrow> u64 \<Rightarrow> u64 \<Rightarrow> (i32, 'w) io" where
  "r4draw_gui_frame_stream_info E draw handle out_info =
    (ask (r4draw_supports_gui_frame_streaming_contract E draw) (\<lambda>ok.
       if \<not> ok then give (p_code E ''R4OS_ERR_NO_FN'')
       else if handle = 0 \<or> out_info = 0 then give (p_code E ''R4OS_GUI_FRAME_ERROR_INVALID'')
       else and_then (put_header E out_info ''R4GuiFrameStreamInfo'' (ucast (p_code E ''R4OS_GUI_FRAME_STREAM_INFO_VERSION'')) (ucast (p_code E ''R4OS_GUI_FRAME_STREAM_INFO_SIZE''))) (\<lambda>_.
       draw_call E draw ''gui_frame_stream_info'' [handle, out_info])))"

definition r4draw_gui_present ::
  "'w platform \<Rightarrow> handle option \<Rightarrow> (i32, 'w) io" where
  "r4draw_gui_present E draw =
    (ask (draw_base E draw ''gui_present'') (\<lambda>ok.
       if \<not> ok then give (- 1)
       else draw_call E draw ''gui_present'' []))"

definition r4draw_gfx_virtual_start ::
  "'w platform \<Rightarrow> handle option \<Rightarrow> u64 \<Rightarrow> u64 \<Rightarrow> (i32, 'w) io" where
  "r4draw_gfx_virtual_start E draw input output =
    (ask (draw_has E draw ''gfx_virtual_start'') (\<lambda>ok.
       if \<not> ok then give (p_code E ''R4OS_ERR_NO_FN'')
       else if input = 0 \<or> output = 0 then give (p_code E ''R4OS_GFX_BUFFER_ERROR_INVALID'')
       else and_then (clear_obj E (p_frame E) ''R4GfxVirtualStatus'') (\<lambda>_.
       and_then (put_header E (p_frame E) ''R4GfxVirtualStatus'' 1 (sizeof E ''R4GfxVirtualStatus'')) (\<lambda>_.
       and_then (draw_call E draw ''gfx_virtual_start'' [input, p_frame E]) (\<lambda>code.
       if code = 1 then and_then (copy_obj E output (p_frame E) ''R4GfxVirtualStatus'') (\<lambda>_. give code)
       else give code)))))"

definition r4draw_gfx_virtual_query ::
  "'w platform \<Rightarrow> handle option \<Rightarrow> u64 \<Rightarrow> u64 \<Rightarrow> (i32, 'w) io" where
  "r4draw_gfx_virtual_query E draw request output =
    (ask (draw_has E draw ''gfx_virtual_query'') (\<lambda>ok.
       if \<not> ok then give (p_code E ''R4OS_ERR_NO_FN'')
       else if request = 0 \<or> output = 0 then give (p_code E ''R4OS_GFX_BUFFER_ERROR_INVALID'')
       else and_then (clear_obj E (p_frame E) ''R4GfxVirtualStatus'') (\<lambda>_.
       and_then (put_header E (p_frame E) ''R4GfxVirtualStatus'' 1 (sizeof E ''R4GfxVirtualStatus'')) (\<lambda>_.
       and_then (draw_call E draw ''gfx_virtual_query'' [request, p_frame E]) (\<lambda>code.
       if code = 1 then and_then (copy_obj E output (p_frame E) ''R4GfxVirtualStatus'') (\<lambda>_. give code)
       else give code)))))"

definition r4draw_gfx_virtual_close ::
  "'w platform \<Rightarrow> handle option \<Rightarrow> u64 \<Rightarrow> u32 \<Rightarrow> (i32, 'w) io" where
  "r4draw_gfx_virtual_close E draw request mode =
    (ask (draw_has E draw ''gfx_virtual_close'') (\<lambda>ok.
       if \<not> ok then give (p_code E ''R4OS_ERR_NO_FN'')
       else if request = 0 then give (p_code E ''R4OS_GFX_BUFFER_ERROR_INVALID'')
       else draw_call E draw ''gfx_virtual_close'' [request, ucast mode]))"

definition r4draw_gfx_virtual_wait ::
  "'w platform \<Rightarrow> handle option \<Rightarrow> u64 \<Rightarrow> u32 \<Rightarrow> u64 \<Rightarrow> u64 \<Rightarrow> (i32, 'w) io" where
  "r4draw_gfx_virtual_wait E draw request until timeout_ticks output =
    (ask (draw_has E draw ''gfx_virtual_wait'') (\<lambda>ok.
       if \<not> ok then give (p_code E ''R4OS_ERR_NO_FN'')
       else if request = 0 \<or> output = 0 then give (p_code E ''R4OS_GFX_BUFFER_ERROR_INVALID'')
       else and_then (clear_obj E (p_frame E) ''R4GfxVirtualStatus'') (\<lambda>_.
       and_then (put_header E (p_frame E) ''R4GfxVirtualStatus'' 1 (sizeof E ''R4GfxVirtualStatus'')) (\<lambda>_.
       and_then (draw_call E draw ''gfx_virtual_wait'' [request, ucast until, timeout_ticks, p_frame E]) (\<lambda>code.
       if code = 1 then and_then (copy_obj E output (p_frame E) ''R4GfxVirtualStatus'') (\<lambda>_. give code)
       else give code)))))"

definition r4draw_gfx_native_start ::
  "'w platform \<Rightarrow> handle option \<Rightarrow> u64 \<Rightarrow> u64 \<Rightarrow> (i32, 'w) io" where
  "r4draw_gfx_native_start E draw input output =
    (ask (draw_has E draw ''gfx_native_start'') (\<lambda>ok.
       if \<not> ok then give (p_code E ''R4OS_ERR_NO_FN'')
       else if input = 0 \<or> output = 0 then give (p_code E ''R4OS_GFX_BUFFER_ERROR_INVALID'')
       else and_then (clear_obj E (p_frame E) ''R4GfxNativeStatus'') (\<lambda>_.
       and_then (put_header E (p_frame E) ''R4GfxNativeStatus'' 1 (sizeof E ''R4GfxNativeStatus'')) (\<lambda>_.
       and_then (draw_call E draw ''gfx_native_start'' [input, p_frame E]) (\<lambda>code.
       if code = 1 then and_then (copy_obj E output (p_frame E) ''R4GfxNativeStatus'') (\<lambda>_. give code)
       else give code)))))"

definition r4draw_gfx_native_query ::
  "'w platform \<Rightarrow> handle option \<Rightarrow> u64 \<Rightarrow> u64 \<Rightarrow> (i32, 'w) io" where
  "r4draw_gfx_native_query E draw request output =
    (ask (draw_has E draw ''gfx_native_query'') (\<lambda>ok.
       if \<not> ok then give (p_code E ''R4OS_ERR_NO_FN'')
       else if request = 0 \<or> output = 0 then give (p_code E ''R4OS_GFX_BUFFER_ERROR_INVALID'')
       else and_then (clear_obj E (p_frame E) ''R4GfxNativeStatus'') (\<lambda>_.
       and_then (put_header E (p_frame E) ''R4GfxNativeStatus'' 1 (sizeof E ''R4GfxNativeStatus'')) (\<lambda>_.
       and_then (draw_call E draw ''gfx_native_query'' [request, p_frame E]) (\<lambda>code.
       if code = 1 then and_then (copy_obj E output (p_frame E) ''R4GfxNativeStatus'') (\<lambda>_. give code)
       else give code)))))"

definition r4draw_gfx_native_receive ::
  "'w platform \<Rightarrow> handle option \<Rightarrow> u64 \<Rightarrow> u64 \<Rightarrow> (i32, 'w) io" where
  "r4draw_gfx_native_receive E draw request output =
    (ask (draw_has E draw ''gfx_native_receive'') (\<lambda>ok.
       if \<not> ok then give (p_code E ''R4OS_ERR_NO_FN'')
       else if request = 0 \<or> output = 0 then give (p_code E ''R4OS_GFX_BUFFER_ERROR_INVALID'')
       else and_then (clear_obj E (p_frame E) ''R4GfxBufferReference'') (\<lambda>_.
       and_then (put_header E (p_frame E) ''R4GfxBufferReference'' 1 (sizeof E ''R4GfxBufferReference'')) (\<lambda>_.
       and_then (draw_call E draw ''gfx_native_receive'' [request, p_frame E]) (\<lambda>code.
       if code = 1 then and_then (copy_obj E output (p_frame E) ''R4GfxBufferReference'') (\<lambda>_. give code)
       else give code)))))"

definition r4draw_gfx_native_close ::
  "'w platform \<Rightarrow> handle option \<Rightarrow> u64 \<Rightarrow> (i32, 'w) io" where
  "r4draw_gfx_native_close E draw request =
    (ask (draw_has E draw ''gfx_native_close'') (\<lambda>ok.
       if \<not> ok then give (p_code E ''R4OS_ERR_NO_FN'')
       else if request = 0 then give (p_code E ''R4OS_GFX_BUFFER_ERROR_INVALID'')
       else draw_call E draw ''gfx_native_close'' [request]))"

definition r4draw_gfx_native_wait ::
  "'w platform \<Rightarrow> handle option \<Rightarrow> u64 \<Rightarrow> u64 \<Rightarrow> u64 \<Rightarrow> (i32, 'w) io" where
  "r4draw_gfx_native_wait E draw request timeout_ticks output =
    (ask (draw_has E draw ''gfx_native_wait'') (\<lambda>ok.
       if \<not> ok then give (p_code E ''R4OS_ERR_NO_FN'')
       else if request = 0 \<or> output = 0 then give (p_code E ''R4OS_GFX_BUFFER_ERROR_INVALID'')
       else and_then (clear_obj E (p_frame E) ''R4GfxNativeStatus'') (\<lambda>_.
       and_then (put_header E (p_frame E) ''R4GfxNativeStatus'' 1 (sizeof E ''R4GfxNativeStatus'')) (\<lambda>_.
       and_then (draw_call E draw ''gfx_native_wait'' [request, timeout_ticks, p_frame E]) (\<lambda>code.
       if code = 1 then and_then (copy_obj E output (p_frame E) ''R4GfxNativeStatus'') (\<lambda>_. give code)
       else give code)))))"

definition r4draw_gfx_buffer_create ::
  "'w platform \<Rightarrow> handle option \<Rightarrow> u64 \<Rightarrow> u64 \<Rightarrow> (i32, 'w) io" where
  "r4draw_gfx_buffer_create E draw descriptor output =
    (ask (draw_has E draw ''gfx_buffer_create'') (\<lambda>ok.
       if \<not> ok then give (p_code E ''R4OS_ERR_NO_FN'')
       else if descriptor = 0 \<or> output = 0 then give (p_code E ''R4OS_GFX_BUFFER_ERROR_INVALID'')
       else and_then (put_header E output ''R4GfxBufferReference'' 1 (sizeof E ''R4GfxBufferReference'')) (\<lambda>_.
       draw_call E draw ''gfx_buffer_create'' [descriptor, output])))"

definition r4draw_gfx_buffer_describe ::
  "'w platform \<Rightarrow> handle option \<Rightarrow> u64 \<Rightarrow> u64 \<Rightarrow> (i32, 'w) io" where
  "r4draw_gfx_buffer_describe E draw reference output =
    (ask (draw_has E draw ''gfx_buffer_describe'') (\<lambda>ok.
       if \<not> ok then give (p_code E ''R4OS_ERR_NO_FN'')
       else if reference = 0 \<or> output = 0 then give (p_code E ''R4OS_GFX_BUFFER_ERROR_INVALID'')
       else and_then (put_header E output ''R4GfxBufferDescriptor'' 1 (sizeof E ''R4GfxBufferDescriptor'')) (\<lambda>_.
       draw_call E draw ''gfx_buffer_describe'' [reference, output])))"

definition r4draw_gfx_buffer_import ::
  "'w platform \<Rightarrow> handle option \<Rightarrow> u64 \<Rightarrow> u64 \<Rightarrow> (i32, 'w) io" where
  "r4draw_gfx_buffer_import E draw source_reference output =
    (ask (draw_has E draw ''gfx_buffer_import'') (\<lambda>ok.
       if \<not> ok then give (p_code E ''R4OS_ERR_NO_FN'')
       else if source_reference = 0 \<or> output = 0 then give (p_code E ''R4OS_GFX_BUFFER_ERROR_INVALID'')
       else and_then (put_header E output ''R4GfxBufferReference'' 1 (sizeof E ''R4GfxBufferReference'')) (\<lambda>_.
       draw_call E draw ''gfx_buffer_import'' [source_reference, output])))"

definition r4draw_gfx_buffer_release ::
  "'w platform \<Rightarrow> handle option \<Rightarrow> u64 \<Rightarrow> (i32, 'w) io" where
  "r4draw_gfx_buffer_release E draw reference =
    (ask (draw_has E draw ''gfx_buffer_release'') (\<lambda>ok.
       if \<not> ok then give (p_code E ''R4OS_ERR_NO_FN'')
       else if reference = 0 then give (p_code E ''R4OS_GFX_BUFFER_ERROR_INVALID'')
       else draw_call E draw ''gfx_buffer_release'' [reference]))"

definition r4draw_gfx_buffer_map ::
  "'w platform \<Rightarrow> handle option \<Rightarrow> u64 \<Rightarrow> u32 \<Rightarrow> u64 \<Rightarrow> u64 \<Rightarrow> u64 \<Rightarrow> (i32, 'w) io" where
  "r4draw_gfx_buffer_map E draw reference access offset byte_length output =
    (ask (draw_has E draw ''gfx_buffer_map'') (\<lambda>ok.
       if \<not> ok then give (p_code E ''R4OS_ERR_NO_FN'')
       else if reference = 0 \<or> output = 0 then give (p_code E ''R4OS_GFX_BUFFER_ERROR_INVALID'')
       else and_then (put_header E output ''R4GfxBufferMap'' 1 (sizeof E ''R4GfxBufferMap'')) (\<lambda>_.
       draw_call E draw ''gfx_buffer_map'' [reference, ucast access, offset, byte_length, output])))"

definition r4draw_gfx_buffer_unmap ::
  "'w platform \<Rightarrow> handle option \<Rightarrow> u64 \<Rightarrow> (i32, 'w) io" where
  "r4draw_gfx_buffer_unmap E draw lease =
    (ask (draw_has E draw ''gfx_buffer_unmap'') (\<lambda>ok.
       if \<not> ok then give (p_code E ''R4OS_ERR_NO_FN'')
       else if lease = 0 then give (p_code E ''R4OS_GFX_BUFFER_ERROR_INVALID'')
       else draw_call E draw ''gfx_buffer_unmap'' [lease]))"

definition r4draw_gfx_buffer_map_persistent ::
  "'w platform \<Rightarrow> handle option \<Rightarrow> u64 \<Rightarrow> u32 \<Rightarrow> u64 \<Rightarrow> u64 \<Rightarrow> u64 \<Rightarrow> (i32, 'w) io" where
  "r4draw_gfx_buffer_map_persistent E draw reference access offset byte_length output =
    (ask (draw_has E draw ''gfx_buffer_map_persistent'') (\<lambda>ok.
       if \<not> ok then give (p_code E ''R4OS_ERR_NO_FN'')
       else if output = 0 then give (p_code E ''R4OS_GFX_BUFFER_ERROR_INVALID'')
       else and_then (clear_obj E (p_frame E) ''R4GfxBufferMap'') (\<lambda>_.
       and_then (put_header E (p_frame E) ''R4GfxBufferMap'' 1 (sizeof E ''R4GfxBufferMap'')) (\<lambda>_.
       and_then (draw_call E draw ''gfx_buffer_map_persistent'' [reference, ucast access, offset, byte_length, p_frame E]) (\<lambda>code.
       if code = p_code E ''R4OS_GFX_BUFFER_RESULT_OK'' then and_then (copy_obj E output (p_frame E) ''R4GfxBufferMap'') (\<lambda>_. give code)
       else give code)))))"

definition r4draw_gfx_buffer_export_raster ::
  "'w platform \<Rightarrow> handle option \<Rightarrow> u64 \<Rightarrow> u64 \<Rightarrow> (i32, 'w) io" where
  "r4draw_gfx_buffer_export_raster E draw lease output =
    (ask (draw_has E draw ''gfx_buffer_export_raster'') (\<lambda>ok.
       if \<not> ok then give (p_code E ''R4OS_ERR_NO_FN'')
       else if lease = 0 \<or> output = 0 then give (p_code E ''R4OS_GFX_BUFFER_ERROR_INVALID'')
       else and_then (put_header E output ''R4GfxBufferReference'' 1 (sizeof E ''R4GfxBufferReference'')) (\<lambda>_.
       draw_call E draw ''gfx_buffer_export_raster'' [lease, output])))"

definition r4draw_gfx_telemetry ::
  "'w platform \<Rightarrow> handle option \<Rightarrow> u64 \<Rightarrow> u64 \<Rightarrow> (i32, 'w) io" where
  "r4draw_gfx_telemetry E draw input output =
    (ask (draw_has E draw ''gfx_telemetry'') (\<lambda>ok.
       if \<not> ok then give (p_code E ''R4OS_ERR_NO_FN'')
       else if input = 0 \<or> output = 0 then give (p_code E ''R4OS_GFX_BUFFER_ERROR_INVALID'')
       else and_then (clear_obj E (p_frame E) ''R4GfxTelemetryState'') (\<lambda>_.
       and_then (put_header E (p_frame E) ''R4GfxTelemetryState'' 1 (sizeof E ''R4GfxTelemetryState'')) (\<lambda>_.
       and_then (draw_call E draw ''gfx_telemetry'' [input, p_frame E]) (\<lambda>code.
       if code = p_code E ''R4OS_GFX_BUFFER_RESULT_OK'' then and_then (copy_obj E output (p_frame E) ''R4GfxTelemetryState'') (\<lambda>_. give code)
       else give code)))))"

definition r4draw_gfx_memory_budget ::
  "'w platform \<Rightarrow> handle option \<Rightarrow> u64 \<Rightarrow> u64 \<Rightarrow> (i32, 'w) io" where
  "r4draw_gfx_memory_budget E draw input output =
    (ask (draw_has E draw ''gfx_memory_budget'') (\<lambda>ok.
       if \<not> ok then give (p_code E ''R4OS_ERR_NO_FN'')
       else if input = 0 \<or> output = 0 then give (p_code E ''R4OS_GFX_BUFFER_ERROR_INVALID'')
       else and_then (clear_obj E (p_frame E) ''R4GfxDeviceBudgetState'') (\<lambda>_.
       and_then (put_header E (p_frame E) ''R4GfxDeviceBudgetState'' 1 (sizeof E ''R4GfxDeviceBudgetState'')) (\<lambda>_.
       and_then (draw_call E draw ''gfx_memory_budget'' [input, p_frame E]) (\<lambda>code.
       if code = p_code E ''R4OS_GFX_BUFFER_RESULT_OK'' then and_then (copy_obj E output (p_frame E) ''R4GfxDeviceBudgetState'') (\<lambda>_. give code)
       else give code)))))"

definition r4draw_gfx_buffer_stats ::
  "'w platform \<Rightarrow> handle option \<Rightarrow> u64 \<Rightarrow> (i32, 'w) io" where
  "r4draw_gfx_buffer_stats E draw output =
    (ask (draw_has E draw ''gfx_buffer_stats'') (\<lambda>ok.
       if \<not> ok then give (p_code E ''R4OS_ERR_NO_FN'')
       else if output = 0 then give (p_code E ''R4OS_GFX_BUFFER_ERROR_INVALID'')
       else and_then (clear_obj E (p_frame E) ''R4GfxBufferStats'') (\<lambda>_.
       and_then (put_header E (p_frame E) ''R4GfxBufferStats'' 1 (sizeof E ''R4GfxBufferStats'')) (\<lambda>_.
       and_then (draw_call E draw ''gfx_buffer_stats'' [p_frame E]) (\<lambda>code.
       if code = p_code E ''R4OS_GFX_BUFFER_RESULT_OK'' then
         ask (q_or (member_is E (p_frame E) ''R4GfxBufferStats'' ''version'' (\<lambda>v. v \<noteq> 1))
               (member_is E (p_frame E) ''R4GfxBufferStats'' ''size'' (\<lambda>v. v < sizeof E ''R4GfxBufferStats''))) (\<lambda>bad.
         if bad then give (p_code E ''R4OS_GFX_BUFFER_ERROR_INVALID'')
         else and_then (copy_obj E output (p_frame E) ''R4GfxBufferStats'') (\<lambda>_. give code))
       else give code)))))"

definition r4draw_gfx_output_revision ::
  "'w platform \<Rightarrow> handle option \<Rightarrow> u64 \<Rightarrow> (i32, 'w) io" where
  "r4draw_gfx_output_revision E draw output =
    (ask (draw_has E draw ''gfx_output_revision'') (\<lambda>ok.
       if \<not> ok then give (p_code E ''R4OS_ERR_NO_FN'')
       else if output = 0 then give (p_code E ''R4OS_GFX_OUTPUT_ERROR_INVALID'')
       else and_then (put_header E output ''R4GfxDisplayRevision'' 1 (sizeof E ''R4GfxDisplayRevision'')) (\<lambda>_.
       draw_call E draw ''gfx_output_revision'' [output])))"

definition r4draw_gfx_output_info ::
  "'w platform \<Rightarrow> handle option \<Rightarrow> u32 \<Rightarrow> u64 \<Rightarrow> (i32, 'w) io" where
  "r4draw_gfx_output_info E draw index output =
    (ask (draw_has E draw ''gfx_output_info'') (\<lambda>ok.
       if \<not> ok then give (p_code E ''R4OS_ERR_NO_FN'')
       else if output = 0 then give (p_code E ''R4OS_GFX_OUTPUT_ERROR_INVALID'')
       else and_then (put_header E output ''R4GfxOutputInfo'' 1 (sizeof E ''R4GfxOutputInfo'')) (\<lambda>_.
       draw_call E draw ''gfx_output_info'' [ucast index, output])))"

definition r4draw_gfx_output_mode ::
  "'w platform \<Rightarrow> handle option \<Rightarrow> u64 \<Rightarrow> u32 \<Rightarrow> u64 \<Rightarrow> (i32, 'w) io" where
  "r4draw_gfx_output_mode E draw identity index output =
    (ask (draw_has E draw ''gfx_output_mode'') (\<lambda>ok.
       if \<not> ok then give (p_code E ''R4OS_ERR_NO_FN'')
       else if output = 0 then give (p_code E ''R4OS_GFX_OUTPUT_ERROR_INVALID'')
       else and_then (put_header E output ''R4GfxOutputMode'' 1 (sizeof E ''R4GfxOutputMode'')) (\<lambda>_.
       draw_call E draw ''gfx_output_mode'' [identity, ucast index, output])))"

definition r4draw_gfx_output_edid ::
  "'w platform \<Rightarrow> handle option \<Rightarrow> u64 \<Rightarrow> u32 \<Rightarrow> u64 \<Rightarrow> (i32, 'w) io" where
  "r4draw_gfx_output_edid E draw identity index output =
    (ask (draw_has E draw ''gfx_output_edid'') (\<lambda>ok.
       if \<not> ok then give (p_code E ''R4OS_ERR_NO_FN'')
       else if output = 0 then give (p_code E ''R4OS_GFX_OUTPUT_ERROR_INVALID'')
       else and_then (put_header E output ''R4GfxEdidBlock'' 1 (sizeof E ''R4GfxEdidBlock'')) (\<lambda>_.
       draw_call E draw ''gfx_output_edid'' [identity, ucast index, output])))"

definition r4draw_gfx_output_color ::
  "'w platform \<Rightarrow> handle option \<Rightarrow> u64 \<Rightarrow> u64 \<Rightarrow> (i32, 'w) io" where
  "r4draw_gfx_output_color E draw identity output =
    (ask (draw_has E draw ''gfx_output_color'') (\<lambda>ok.
       if \<not> ok then give (p_code E ''R4OS_ERR_NO_FN'')
       else if identity = 0 \<or> output = 0 then give (p_code E ''R4OS_GFX_OUTPUT_ERROR_INVALID'')
       else and_then (clear_obj E (p_frame E) ''R4GfxOutputColorState'') (\<lambda>_.
       and_then (put_header E (p_frame E) ''R4GfxOutputColorState'' 1 (sizeof E ''R4GfxOutputColorState'')) (\<lambda>_.
       and_then (draw_call E draw ''gfx_output_color'' [identity, p_frame E]) (\<lambda>code.
       if code = p_code E ''R4OS_GFX_OUTPUT_OK'' then
         ask (q_or (member_is E (p_frame E) ''R4GfxOutputColorState'' ''version'' (\<lambda>v. v \<noteq> 1))
               (member_is E (p_frame E) ''R4GfxOutputColorState'' ''size'' (\<lambda>v. v < sizeof E ''R4GfxOutputColorState''))) (\<lambda>bad.
         if bad then give (p_code E ''R4OS_GFX_OUTPUT_ERROR_INVALID'')
         else and_then (copy_obj E output (p_frame E) ''R4GfxOutputColorState'') (\<lambda>_. give code))
       else give code)))))"

definition r4draw_gfx_output_power ::
  "'w platform \<Rightarrow> handle option \<Rightarrow> u64 \<Rightarrow> u64 \<Rightarrow> (i32, 'w) io" where
  "r4draw_gfx_output_power E draw identity output =
    (ask (draw_has E draw ''gfx_output_power'') (\<lambda>ok.
       if \<not> ok then give (p_code E ''R4OS_ERR_NO_FN'')
       else if identity = 0 \<or> output = 0 then give (p_code E ''R4OS_GFX_OUTPUT_ERROR_INVALID'')
       else and_then (clear_obj E (p_frame E) ''R4GfxOutputPower'') (\<lambda>_.
       and_then (put_header E (p_frame E) ''R4GfxOutputPower'' 1 (sizeof E ''R4GfxOutputPower'')) (\<lambda>_.
       and_then (draw_call E draw ''gfx_output_power'' [identity, p_frame E]) (\<lambda>code.
       if code = p_code E ''R4OS_GFX_OUTPUT_OK'' then and_then (copy_obj E output (p_frame E) ''R4GfxOutputPower'') (\<lambda>_. give code)
       else give code)))))"

definition r4draw_gfx_power_request ::
  "'w platform \<Rightarrow> handle option \<Rightarrow> u64 \<Rightarrow> u64 \<Rightarrow> (i32, 'w) io" where
  "r4draw_gfx_power_request E draw input output =
    (ask (draw_has E draw ''gfx_power_request'') (\<lambda>ok.
       if \<not> ok then give (p_code E ''R4OS_ERR_NO_FN'')
       else if input = 0 \<or> output = 0 then give (p_code E ''R4OS_GFX_OUTPUT_ERROR_INVALID'')
       else and_then (clear_obj E (p_frame E) ''R4GfxPowerRequest'') (\<lambda>_.
       and_then (put_header E (p_frame E) ''R4GfxPowerRequest'' 1 (sizeof E ''R4GfxPowerRequest'')) (\<lambda>_.
       and_then (draw_call E draw ''gfx_power_request'' [input, p_frame E]) (\<lambda>code.
       if code = p_code E ''R4OS_GFX_OUTPUT_OK'' then and_then (copy_obj E output (p_frame E) ''R4GfxPowerRequest'') (\<lambda>_. give code)
       else give code)))))"

definition r4draw_gfx_output_brightness ::
  "'w platform \<Rightarrow> handle option \<Rightarrow> u64 \<Rightarrow> u64 \<Rightarrow> (i32, 'w) io" where
  "r4draw_gfx_output_brightness E draw identity output =
    (ask (draw_has E draw ''gfx_output_brightness'') (\<lambda>ok.
       if \<not> ok then give (p_code E ''R4OS_ERR_NO_FN'')
       else if identity = 0 \<or> output = 0 then give (p_code E ''R4OS_GFX_OUTPUT_ERROR_INVALID'')
       else and_then (clear_obj E (p_frame E) ''R4GfxOutputBrightness'') (\<lambda>_.
       and_then (put_header E (p_frame E) ''R4GfxOutputBrightness'' 1 (sizeof E ''R4GfxOutputBrightness'')) (\<lambda>_.
       and_then (draw_call E draw ''gfx_output_brightness'' [identity, p_frame E]) (\<lambda>code.
       if code = p_code E ''R4OS_GFX_OUTPUT_OK'' then and_then (copy_obj E output (p_frame E) ''R4GfxOutputBrightness'') (\<lambda>_. give code)
       else give code)))))"

definition r4draw_gfx_brightness_request ::
  "'w platform \<Rightarrow> handle option \<Rightarrow> u64 \<Rightarrow> u64 \<Rightarrow> (i32, 'w) io" where
  "r4draw_gfx_brightness_request E draw input output =
    (ask (draw_has E draw ''gfx_brightness_request'') (\<lambda>ok.
       if \<not> ok then give (p_code E ''R4OS_ERR_NO_FN'')
       else if input = 0 \<or> output = 0 then give (p_code E ''R4OS_GFX_OUTPUT_ERROR_INVALID'')
       else and_then (clear_obj E (p_frame E) ''R4GfxBrightnessRequest'') (\<lambda>_.
       and_then (put_header E (p_frame E) ''R4GfxBrightnessRequest'' 1 (sizeof E ''R4GfxBrightnessRequest'')) (\<lambda>_.
       and_then (draw_call E draw ''gfx_brightness_request'' [input, p_frame E]) (\<lambda>code.
       if code = p_code E ''R4OS_GFX_OUTPUT_OK'' then and_then (copy_obj E output (p_frame E) ''R4GfxBrightnessRequest'') (\<lambda>_. give code)
       else give code)))))"

definition r4draw_gfx_output_refresh ::
  "'w platform \<Rightarrow> handle option \<Rightarrow> u64 \<Rightarrow> u64 \<Rightarrow> (i32, 'w) io" where
  "r4draw_gfx_output_refresh E draw target output =
    (ask (draw_has E draw ''gfx_output_refresh'') (\<lambda>ok.
       if \<not> ok then give (p_code E ''R4OS_ERR_NO_FN'')
       else if target = 0 \<or> output = 0 then give (p_code E ''R4OS_GFX_OUTPUT_ERROR_INVALID'')
       else and_then (clear_obj E (p_frame E) ''R4GfxOutputRefresh'') (\<lambda>_.
       and_then (put_header E (p_frame E) ''R4GfxOutputRefresh'' 1 (sizeof E ''R4GfxOutputRefresh'')) (\<lambda>_.
       and_then (draw_call E draw ''gfx_output_refresh'' [target, p_frame E]) (\<lambda>code.
       if code = p_code E ''R4OS_GFX_OUTPUT_OK'' then and_then (copy_obj E output (p_frame E) ''R4GfxOutputRefresh'') (\<lambda>_. give code)
       else give code)))))"

definition r4draw_gfx_refresh_request ::
  "'w platform \<Rightarrow> handle option \<Rightarrow> u64 \<Rightarrow> u64 \<Rightarrow> (i32, 'w) io" where
  "r4draw_gfx_refresh_request E draw input output =
    (ask (draw_has E draw ''gfx_refresh_request'') (\<lambda>ok.
       if \<not> ok then give (p_code E ''R4OS_ERR_NO_FN'')
       else if input = 0 \<or> output = 0 then give (p_code E ''R4OS_GFX_OUTPUT_ERROR_INVALID'')
       else and_then (clear_obj E (p_frame E) ''R4GfxRefreshRequest'') (\<lambda>_.
       and_then (put_header E (p_frame E) ''R4GfxRefreshRequest'' 1 (sizeof E ''R4GfxRefreshRequest'')) (\<lambda>_.
       and_then (draw_call E draw ''gfx_refresh_request'' [input, p_frame E]) (\<lambda>code.
       if code = p_code E ''R4OS_GFX_OUTPUT_OK'' then and_then (copy_obj E output (p_frame E) ''R4GfxRefreshRequest'') (\<lambda>_. give code)
       else give code)))))"

definition r4draw_gfx_atomic_test ::
  "'w platform \<Rightarrow> handle option \<Rightarrow> u64 \<Rightarrow> u64 \<Rightarrow> (i32, 'w) io" where
  "r4draw_gfx_atomic_test E draw state output =
    (ask (draw_has E draw ''gfx_atomic_test'') (\<lambda>ok.
       if \<not> ok then give (p_code E ''R4OS_ERR_NO_FN'')
       else if output = 0 then give (p_code E ''R4OS_GFX_OUTPUT_ERROR_INVALID'')
       else and_then (put_header E output ''R4GfxAtomicResult'' 1 (sizeof E ''R4GfxAtomicResult'')) (\<lambda>_.
       draw_call E draw ''gfx_atomic_test'' [state, output])))"

definition r4draw_gfx_atomic_test_color ::
  "'w platform \<Rightarrow> handle option \<Rightarrow> u64 \<Rightarrow> u64 \<Rightarrow> (i32, 'w) io" where
  "r4draw_gfx_atomic_test_color E draw request output =
    (ask (draw_has E draw ''gfx_atomic_test_color'') (\<lambda>ok.
       if \<not> ok then give (p_code E ''R4OS_ERR_NO_FN'')
       else if request = 0 \<or> output = 0 then give (p_code E ''R4OS_GFX_OUTPUT_ERROR_INVALID'')
       else and_then (put_header E output ''R4GfxAtomicResult'' 1 (sizeof E ''R4GfxAtomicResult'')) (\<lambda>_.
       draw_call E draw ''gfx_atomic_test_color'' [request, output])))"

definition r4draw_gfx_atomic_submit_color ::
  "'w platform \<Rightarrow> handle option \<Rightarrow> u64 \<Rightarrow> u32 \<Rightarrow> u64 \<Rightarrow> (i32, 'w) io" where
  "r4draw_gfx_atomic_submit_color E draw request confirmation_ms output =
    (ask (draw_has E draw ''gfx_atomic_submit_color'') (\<lambda>ok.
       if \<not> ok then give (p_code E ''R4OS_ERR_NO_FN'')
       else if request = 0 \<or> output = 0 then give (p_code E ''R4OS_GFX_OUTPUT_ERROR_INVALID'')
       else and_then (put_header E output ''R4GfxModeStatus'' 1 (sizeof E ''R4GfxModeStatus'')) (\<lambda>_.
       draw_call E draw ''gfx_atomic_submit_color'' [request, ucast confirmation_ms, output])))"

definition r4draw_gfx_atomic_commit ::
  "'w platform \<Rightarrow> handle option \<Rightarrow> u64 \<Rightarrow> u64 \<Rightarrow> (i32, 'w) io" where
  "r4draw_gfx_atomic_commit E draw state output =
    (ask (draw_has E draw ''gfx_atomic_commit'') (\<lambda>ok.
       if \<not> ok then give (p_code E ''R4OS_ERR_NO_FN'')
       else if output = 0 then give (p_code E ''R4OS_GFX_OUTPUT_ERROR_INVALID'')
       else and_then (put_header E output ''R4GfxAtomicResult'' 1 (sizeof E ''R4GfxAtomicResult'')) (\<lambda>_.
       draw_call E draw ''gfx_atomic_commit'' [state, output])))"

definition r4draw_gfx_atomic_submit ::
  "'w platform \<Rightarrow> handle option \<Rightarrow> u64 \<Rightarrow> u32 \<Rightarrow> u64 \<Rightarrow> (i32, 'w) io" where
  "r4draw_gfx_atomic_submit E draw state confirmation_ms output =
    (ask (draw_has E draw ''gfx_atomic_submit'') (\<lambda>ok.
       if \<not> ok then give (p_code E ''R4OS_ERR_NO_FN'')
       else if state = 0 \<or> output = 0 then give (p_code E ''R4OS_GFX_OUTPUT_ERROR_INVALID'')
       else and_then (put_header E output ''R4GfxModeStatus'' 1 (sizeof E ''R4GfxModeStatus'')) (\<lambda>_.
       draw_call E draw ''gfx_atomic_submit'' [state, ucast confirmation_ms, output])))"

definition r4draw_gfx_atomic_status ::
  "'w platform \<Rightarrow> handle option \<Rightarrow> u64 \<Rightarrow> u64 \<Rightarrow> (i32, 'w) io" where
  "r4draw_gfx_atomic_status E draw ticket output =
    (ask (draw_has E draw ''gfx_atomic_status'') (\<lambda>ok.
       if \<not> ok then give (p_code E ''R4OS_ERR_NO_FN'')
       else if output = 0 then give (p_code E ''R4OS_GFX_OUTPUT_ERROR_INVALID'')
       else and_then (put_header E output ''R4GfxModeStatus'' 1 (sizeof E ''R4GfxModeStatus'')) (\<lambda>_.
       draw_call E draw ''gfx_atomic_status'' [ticket, output])))"

definition r4draw_gfx_atomic_resolve ::
  "'w platform \<Rightarrow> handle option \<Rightarrow> u64 \<Rightarrow> u32 \<Rightarrow> u64 \<Rightarrow> (i32, 'w) io" where
  "r4draw_gfx_atomic_resolve E draw ticket action output =
    (ask (draw_has E draw ''gfx_atomic_resolve'') (\<lambda>ok.
       if \<not> ok then give (p_code E ''R4OS_ERR_NO_FN'')
       else if output = 0 then give (p_code E ''R4OS_GFX_OUTPUT_ERROR_INVALID'')
       else and_then (put_header E output ''R4GfxModeStatus'' 1 (sizeof E ''R4GfxModeStatus'')) (\<lambda>_.
       draw_call E draw ''gfx_atomic_resolve'' [ticket, ucast action, output])))"

definition r4draw_gfx_queue_open ::
  "'w platform \<Rightarrow> handle option \<Rightarrow> u64 \<Rightarrow> u64 \<Rightarrow> (i32, 'w) io" where
  "r4draw_gfx_queue_open E draw config output =
    (ask (draw_has E draw ''gfx_queue_open'') (\<lambda>ok.
       if \<not> ok then give (p_code E ''R4OS_ERR_NO_FN'')
       else if config = 0 \<or> output = 0 then give (p_code E ''R4OS_GFX_QUEUE_ERROR_INVALID'')
       else and_then (put_header E output ''R4GfxQueueHandle'' 1 (sizeof E ''R4GfxQueueHandle'')) (\<lambda>_.
       draw_call E draw ''gfx_queue_open'' [config, output])))"

definition r4draw_gfx_queue_backend ::
  "'w platform \<Rightarrow> handle option \<Rightarrow> u32 \<Rightarrow> u64 \<Rightarrow> (i32, 'w) io" where
  "r4draw_gfx_queue_backend E draw index output =
    (ask (draw_has E draw ''gfx_queue_backend'') (\<lambda>ok.
       if \<not> ok then give (p_code E ''R4OS_ERR_NO_FN'')
       else if output = 0 then give (p_code E ''R4OS_GFX_QUEUE_ERROR_INVALID'')
       else and_then (put_header E output ''R4GfxBackendBinding'' 1 (sizeof E ''R4GfxBackendBinding'')) (\<lambda>_.
       draw_call E draw ''gfx_queue_backend'' [ucast index, output])))"

definition r4draw_gfx_queue_backend_info ::
  "'w platform \<Rightarrow> handle option \<Rightarrow> u32 \<Rightarrow> u64 \<Rightarrow> (i32, 'w) io" where
  "r4draw_gfx_queue_backend_info E draw index output =
    (ask (draw_has E draw ''gfx_queue_backend_info'') (\<lambda>ok.
       if \<not> ok then give (p_code E ''R4OS_ERR_NO_FN'')
       else if output = 0 then give (p_code E ''R4OS_GFX_QUEUE_ERROR_INVALID'')
       else and_then (put_header E output ''R4GfxBackendInfo'' 1 (sizeof E ''R4GfxBackendInfo'')) (\<lambda>_.
       draw_call E draw ''gfx_queue_backend_info'' [ucast index, output])))"

definition r4draw_gfx_queue_backend_properties ::
  "'w platform \<Rightarrow> handle option \<Rightarrow> u64 \<Rightarrow> u64 \<Rightarrow> (i32, 'w) io" where
  "r4draw_gfx_queue_backend_properties E draw binding output =
    (ask (draw_has E draw ''gfx_queue_backend_properties'') (\<lambda>ok.
       if \<not> ok then give (p_code E ''R4OS_ERR_NO_FN'')
       else if binding = 0 \<or> output = 0 then give (p_code E ''R4OS_GFX_QUEUE_ERROR_INVALID'')
       else and_then (clear_obj E (p_frame E) ''R4GfxBackendProperties'') (\<lambda>_.
       and_then (put_header E (p_frame E) ''R4GfxBackendProperties'' 1 (sizeof E ''R4GfxBackendProperties'')) (\<lambda>_.
       and_then (draw_call E draw ''gfx_queue_backend_properties'' [binding, p_frame E]) (\<lambda>code.
       if code = 1 then and_then (copy_obj E output (p_frame E) ''R4GfxBackendProperties'') (\<lambda>_. give code)
       else give code)))))"

definition r4draw_gfx_queue_close ::
  "'w platform \<Rightarrow> handle option \<Rightarrow> u64 \<Rightarrow> (i32, 'w) io" where
  "r4draw_gfx_queue_close E draw queue =
    (ask (draw_has E draw ''gfx_queue_close'') (\<lambda>ok.
       if \<not> ok then give (p_code E ''R4OS_ERR_NO_FN'')
       else if queue = 0 then give (p_code E ''R4OS_GFX_QUEUE_ERROR_INVALID'')
       else draw_call E draw ''gfx_queue_close'' [queue]))"

definition r4draw_gfx_queue_submit ::
  "'w platform \<Rightarrow> handle option \<Rightarrow> u64 \<Rightarrow> u64 \<Rightarrow> u64 \<Rightarrow> (i32, 'w) io" where
  "r4draw_gfx_queue_submit E draw queue submission output =
    (ask (draw_has E draw ''gfx_queue_submit'') (\<lambda>ok.
       if \<not> ok then give (p_code E ''R4OS_ERR_NO_FN'')
       else if queue = 0 \<or> submission = 0 \<or> output = 0 then give (p_code E ''R4OS_GFX_QUEUE_ERROR_INVALID'')
       else and_then (put_header E output ''R4GfxFenceStatus'' 1 (sizeof E ''R4GfxFenceStatus'')) (\<lambda>_.
       draw_call E draw ''gfx_queue_submit'' [queue, submission, output])))"

definition r4draw_gfx_queue_submit_native ::
  "'w platform \<Rightarrow> handle option \<Rightarrow> u64 \<Rightarrow> u64 \<Rightarrow> u64 \<Rightarrow> u64 \<Rightarrow> (i32, 'w) io" where
  "r4draw_gfx_queue_submit_native E draw queue submission native output =
    (ask (draw_has E draw ''gfx_queue_submit_native'') (\<lambda>ok.
       if \<not> ok then give (p_code E ''R4OS_ERR_NO_FN'')
       else if queue = 0 \<or> submission = 0 \<or> native = 0 \<or> output = 0 then give (p_code E ''R4OS_GFX_QUEUE_ERROR_INVALID'')
       else and_then (clear_obj E (p_frame E) ''R4GfxFenceStatus'') (\<lambda>_.
       and_then (put_header E (p_frame E) ''R4GfxFenceStatus'' 1 (sizeof E ''R4GfxFenceStatus'')) (\<lambda>_.
       and_then (draw_call E draw ''gfx_queue_submit_native'' [queue, submission, native, p_frame E]) (\<lambda>code.
       if code = p_code E ''R4OS_GFX_QUEUE_OK'' then and_then (copy_obj E output (p_frame E) ''R4GfxFenceStatus'') (\<lambda>_. give code)
       else give code)))))"

definition r4draw_gfx_queue_submit_render_list ::
  "'w platform \<Rightarrow> handle option \<Rightarrow> u64 \<Rightarrow> u64 \<Rightarrow> u64 \<Rightarrow> u64 \<Rightarrow> (i32, 'w) io" where
  "r4draw_gfx_queue_submit_render_list E draw queue submission list output =
    (ask (draw_has E draw ''gfx_queue_submit_render_list'') (\<lambda>ok.
       if \<not> ok then give (p_code E ''R4OS_ERR_NO_FN'')
       else if queue = 0 \<or> submission = 0 \<or> list = 0 \<or> output = 0 then give (p_code E ''R4OS_GFX_QUEUE_ERROR_INVALID'')
       else and_then (put_header E output ''R4GfxFenceStatus'' 1 (sizeof E ''R4GfxFenceStatus'')) (\<lambda>_.
       draw_call E draw ''gfx_queue_submit_render_list'' [queue, submission, list, output])))"

definition r4draw_gfx_queue_submit_render_grid_list ::
  "'w platform \<Rightarrow> handle option \<Rightarrow> u64 \<Rightarrow> u64 \<Rightarrow> u64 \<Rightarrow> u64 \<Rightarrow> (i32, 'w) io" where
  "r4draw_gfx_queue_submit_render_grid_list E draw queue submission list output =
    (ask (draw_has E draw ''gfx_queue_submit_render_grid_list'') (\<lambda>ok.
       if \<not> ok then give (p_code E ''R4OS_ERR_NO_FN'')
       else if queue = 0 \<or> submission = 0 \<or> list = 0 \<or> output = 0 then give (p_code E ''R4OS_GFX_QUEUE_ERROR_INVALID'')
       else and_then (put_header E output ''R4GfxFenceStatus'' 1 (sizeof E ''R4GfxFenceStatus'')) (\<lambda>_.
       draw_call E draw ''gfx_queue_submit_render_grid_list'' [queue, submission, list, output])))"

definition r4draw_gfx_queue_submit_render_color_list ::
  "'w platform \<Rightarrow> handle option \<Rightarrow> u64 \<Rightarrow> u64 \<Rightarrow> u64 \<Rightarrow> u64 \<Rightarrow> (i32, 'w) io" where
  "r4draw_gfx_queue_submit_render_color_list E draw queue submission list output =
    (ask (draw_has E draw ''gfx_queue_submit_render_color_list'') (\<lambda>ok.
       if \<not> ok then give (p_code E ''R4OS_ERR_NO_FN'')
       else if queue = 0 \<or> submission = 0 \<or> list = 0 \<or> output = 0 then give (p_code E ''R4OS_GFX_QUEUE_ERROR_INVALID'')
       else and_then (put_header E output ''R4GfxFenceStatus'' 1 (sizeof E ''R4GfxFenceStatus'')) (\<lambda>_.
       draw_call E draw ''gfx_queue_submit_render_color_list'' [queue, submission, list, output])))"

definition r4draw_gfx_fence_query ::
  "'w platform \<Rightarrow> handle option \<Rightarrow> u64 \<Rightarrow> u64 \<Rightarrow> (i32, 'w) io" where
  "r4draw_gfx_fence_query E draw fence output =
    (ask (draw_has E draw ''gfx_fence_query'') (\<lambda>ok.
       if \<not> ok then give (p_code E ''R4OS_ERR_NO_FN'')
       else if fence = 0 \<or> output = 0 then give (p_code E ''R4OS_GFX_QUEUE_ERROR_INVALID'')
       else and_then (put_header E output ''R4GfxFenceStatus'' 1 (sizeof E ''R4GfxFenceStatus'')) (\<lambda>_.
       draw_call E draw ''gfx_fence_query'' [fence, output])))"

definition r4draw_gfx_fence_wait ::
  "'w platform \<Rightarrow> handle option \<Rightarrow> u64 \<Rightarrow> u64 \<Rightarrow> u32 \<Rightarrow> u64 \<Rightarrow> (i32, 'w) io" where
  "r4draw_gfx_fence_wait E draw fence timeout_ticks wait_for output =
    (ask (draw_has E draw ''gfx_fence_wait'') (\<lambda>ok.
       if \<not> ok then give (p_code E ''R4OS_ERR_NO_FN'')
       else if fence = 0 \<or> output = 0 then give (p_code E ''R4OS_GFX_QUEUE_ERROR_INVALID'')
       else and_then (put_header E output ''R4GfxFenceStatus'' 1 (sizeof E ''R4GfxFenceStatus'')) (\<lambda>_.
       draw_call E draw ''gfx_fence_wait'' [fence, timeout_ticks, ucast wait_for, output])))"

definition r4draw_gfx_fence_cancel ::
  "'w platform \<Rightarrow> handle option \<Rightarrow> u64 \<Rightarrow> (i32, 'w) io" where
  "r4draw_gfx_fence_cancel E draw fence =
    (ask (draw_has E draw ''gfx_fence_cancel'') (\<lambda>ok.
       if \<not> ok then give (p_code E ''R4OS_ERR_NO_FN'')
       else if fence = 0 then give (p_code E ''R4OS_GFX_QUEUE_ERROR_INVALID'')
       else draw_call E draw ''gfx_fence_cancel'' [fence]))"

definition r4draw_gfx_fence_release ::
  "'w platform \<Rightarrow> handle option \<Rightarrow> u64 \<Rightarrow> (i32, 'w) io" where
  "r4draw_gfx_fence_release E draw fence =
    (ask (draw_has E draw ''gfx_fence_release'') (\<lambda>ok.
       if \<not> ok then give (p_code E ''R4OS_ERR_NO_FN'')
       else if fence = 0 then give (p_code E ''R4OS_GFX_QUEUE_ERROR_INVALID'')
       else draw_call E draw ''gfx_fence_release'' [fence]))"

subsection \<open>Every call goes through a slot of the table\<close>

definition draw_capabilities :: "(string \<times> string list) list" where
  "draw_capabilities =
    [(''display_present_completion'', [''display_present_regions'', ''display_present_capabilities'', ''display_present_completion'']),
     (''display_cursor_status'', [''display_cursor_info'', ''display_cursor_submit'', ''display_cursor_status'']),
     (''gui_frame_read'', [''gui_frame_begin'', ''gui_frame_append'', ''gui_frame_commit'', ''gui_frame_cancel'', ''gui_frame_info'', ''gui_frame_read'']),
     (''gui_frame_generation_read'', [''gui_frame_begin_damage'', ''gui_frame_generation_info'', ''gui_frame_generation_read'']),
     (''gui_frame_stream_info'', [''gui_frame_begin_replace'', ''gui_frame_stream_info''])]"

definition draw_base_slots :: "string list" where
  "draw_base_slots = [''gui_clear'', ''gui_rect'', ''gui_draw_text'', ''gui_present'']"

text \<open>What the contract and the loader promise: member layout, slot order, and a table that holds every base slot.\<close>

definition draw_ready :: "'w platform \<Rightarrow> u64 \<Rightarrow> bytes \<Rightarrow> (u64 \<times> nat) list \<Rightarrow> bool" where
  "draw_ready E t V outs \<longleftrightarrow> abi_ok E \<and> keeps_steady E t V outs \<and>
     (\<forall>(l, ss) \<in> set draw_capabilities. before E ''R4Draw'' l ss) \<and>
     (\<forall>s \<in> set draw_base_slots. based E ''R4Draw'' t V s)"

lemma draw_ready_facts:
  assumes "draw_ready E t V outs"
  shows "abi_ok E"
    and "keeps_steady E t V outs"
    and "before E ''R4Draw'' ''display_present_completion'' [''display_present_regions'', ''display_present_capabilities'', ''display_present_completion'']"
    and "before E ''R4Draw'' ''display_cursor_status'' [''display_cursor_info'', ''display_cursor_submit'', ''display_cursor_status'']"
    and "before E ''R4Draw'' ''gui_frame_read'' [''gui_frame_begin'', ''gui_frame_append'', ''gui_frame_commit'', ''gui_frame_cancel'', ''gui_frame_info'', ''gui_frame_read'']"
    and "before E ''R4Draw'' ''gui_frame_generation_read'' [''gui_frame_begin_damage'', ''gui_frame_generation_info'', ''gui_frame_generation_read'']"
    and "before E ''R4Draw'' ''gui_frame_stream_info'' [''gui_frame_begin_replace'', ''gui_frame_stream_info'']"
    and "based E ''R4Draw'' t V ''gui_clear''"
    and "based E ''R4Draw'' t V ''gui_rect''"
    and "based E ''R4Draw'' t V ''gui_draw_text''"
    and "based E ''R4Draw'' t V ''gui_present''"
  using assms by (auto simp: draw_ready_def draw_capabilities_def draw_base_slots_def)

lemma draw_base_inside:
  assumes "draw_ready E t V outs" and "t \<noteq> 0"
  shows "p_off E ''R4Draw'' ''gui_clear'' + 8 \<le> length V"
    and "p_off E ''R4Draw'' ''gui_rect'' + 8 \<le> length V"
    and "p_off E ''R4Draw'' ''gui_draw_text'' + 8 \<le> length V"
    and "p_off E ''R4Draw'' ''gui_present'' + 8 \<le> length V"
  using assms by (auto simp: draw_ready_def draw_base_slots_def based_def)

lemmas draw_supports = r4draw_supports_display_blit_stride_def r4draw_supports_display_present_regions_def r4draw_supports_display_presentation_stats_def r4draw_supports_display_presentation_info_def r4draw_supports_display_cursor_def r4draw_supports_gui_frame_contract_def r4draw_supports_gui_frame_damage_contract_def r4draw_supports_gui_frame_streaming_contract_def

lemma r4draw_display_blit_xrgb32_stride_admitted:
  "draw_ready E (table_of draw) V outs \<Longrightarrow>
    admitted (table_of draw) V outs (r4draw_display_blit_xrgb32_stride E draw x y width height source_stride_pixels pixels pixel_count)"
  unfolding r4draw_display_blit_xrgb32_stride_def draw_supports ask_connectives
  by (intro admits admits_tests admits_objects) (auto dest: opens_all_opens opens_all_nonnull opens_nonnull slot_inside simp: draw_ready_facts draw_base_inside)

lemma r4draw_display_present_regions_admitted:
  "draw_ready E (table_of draw) V outs \<Longrightarrow>
    admitted (table_of draw) V outs (r4draw_display_present_regions E draw request pixels pixel_count regions region_count out_result)"
  unfolding r4draw_display_present_regions_def draw_supports ask_connectives
  by (intro admits admits_tests admits_objects) (auto dest: opens_all_opens opens_all_nonnull opens_nonnull slot_inside simp: draw_ready_facts draw_base_inside)

lemma r4draw_display_present_capabilities_admitted:
  "draw_ready E (table_of draw) V outs \<Longrightarrow> (out_capabilities \<noteq> 0 \<longrightarrow> out_ok E outs out_capabilities ''R4DisplayPresentCapabilities'') \<Longrightarrow>
    admitted (table_of draw) V outs (r4draw_display_present_capabilities E draw out_capabilities)"
  unfolding r4draw_display_present_capabilities_def draw_supports ask_connectives
  by (intro admits admits_tests admits_objects) (auto dest: opens_all_opens opens_all_nonnull opens_nonnull slot_inside simp: draw_ready_facts draw_base_inside)

lemma r4draw_display_present_completion_admitted:
  "draw_ready E (table_of draw) V outs \<Longrightarrow> (out_completion \<noteq> 0 \<longrightarrow> out_ok E outs out_completion ''R4DisplayPresentCompletion'') \<Longrightarrow>
    admitted (table_of draw) V outs (r4draw_display_present_completion E draw fence out_completion)"
  unfolding r4draw_display_present_completion_def draw_supports ask_connectives
  by (intro admits admits_tests admits_objects) (auto dest: opens_all_opens opens_all_nonnull opens_nonnull slot_inside simp: draw_ready_facts draw_base_inside)

lemma r4draw_display_presentation_info_admitted:
  "draw_ready E (table_of draw) V outs \<Longrightarrow> (output \<noteq> 0 \<longrightarrow> out_ok E outs output ''R4DisplayPresentationInfo'') \<Longrightarrow>
    admitted (table_of draw) V outs (r4draw_display_presentation_info E draw head_id output)"
  unfolding r4draw_display_presentation_info_def draw_supports ask_connectives
  by (intro admits admits_tests admits_objects) (auto dest: opens_all_opens opens_all_nonnull opens_nonnull slot_inside simp: draw_ready_facts draw_base_inside)

lemma r4draw_display_presentation_feedback_admitted:
  "draw_ready E (table_of draw) V outs \<Longrightarrow> (output \<noteq> 0 \<longrightarrow> out_ok E outs output ''R4DisplayPresentationStats'') \<Longrightarrow>
    admitted (table_of draw) V outs (r4draw_display_presentation_feedback E draw head_id source output)"
  unfolding r4draw_display_presentation_feedback_def ask_connectives
  by (intro admits admits_tests admits_objects) (auto dest: opens_all_opens opens_all_nonnull opens_nonnull slot_inside simp: draw_ready_facts draw_base_inside)

lemma r4draw_display_cursor_info_admitted:
  "draw_ready E (table_of draw) V outs \<Longrightarrow> (output \<noteq> 0 \<longrightarrow> out_ok E outs output ''R4DisplayCursorInfo'') \<Longrightarrow>
    admitted (table_of draw) V outs (r4draw_display_cursor_info E draw output)"
  unfolding r4draw_display_cursor_info_def draw_supports ask_connectives
  by (intro admits admits_tests admits_objects) (auto dest: opens_all_opens opens_all_nonnull opens_nonnull slot_inside simp: draw_ready_facts draw_base_inside)

lemma r4draw_display_cursor_submit_admitted:
  "draw_ready E (table_of draw) V outs \<Longrightarrow> (output \<noteq> 0 \<longrightarrow> out_ok E outs output ''R4DisplayCursorStatus'') \<Longrightarrow>
    admitted (table_of draw) V outs (r4draw_display_cursor_submit E draw input output)"
  unfolding r4draw_display_cursor_submit_def draw_supports ask_connectives
  by (intro admits admits_tests admits_objects) (auto dest: opens_all_opens opens_all_nonnull opens_nonnull slot_inside simp: draw_ready_facts draw_base_inside)

lemma r4draw_display_cursor_status_admitted:
  "draw_ready E (table_of draw) V outs \<Longrightarrow> (output \<noteq> 0 \<longrightarrow> out_ok E outs output ''R4DisplayCursorStatus'') \<Longrightarrow>
    admitted (table_of draw) V outs (r4draw_display_cursor_status E draw output)"
  unfolding r4draw_display_cursor_status_def draw_supports ask_connectives
  by (intro admits admits_tests admits_objects) (auto dest: opens_all_opens opens_all_nonnull opens_nonnull slot_inside simp: draw_ready_facts draw_base_inside)

lemma r4draw_display_presentation_stats_admitted:
  "draw_ready E (table_of draw) V outs \<Longrightarrow> (output \<noteq> 0 \<longrightarrow> out_ok E outs output ''R4DisplayPresentationStats'') \<Longrightarrow>
    admitted (table_of draw) V outs (r4draw_display_presentation_stats E draw head_id output)"
  unfolding r4draw_display_presentation_stats_def draw_supports ask_connectives
  by (intro admits admits_tests admits_objects) (auto dest: opens_all_opens opens_all_nonnull opens_nonnull slot_inside simp: draw_ready_facts draw_base_inside)

lemma r4draw_gui_clear_admitted:
  "draw_ready E (table_of draw) V outs \<Longrightarrow>
    admitted (table_of draw) V outs (r4draw_gui_clear E draw rgb)"
  unfolding r4draw_gui_clear_def ask_connectives
  by (intro admits admits_tests admits_objects) (auto dest: opens_all_opens opens_all_nonnull opens_nonnull slot_inside simp: draw_ready_facts draw_base_inside)

lemma r4draw_gui_rect_admitted:
  "draw_ready E (table_of draw) V outs \<Longrightarrow>
    admitted (table_of draw) V outs (r4draw_gui_rect E draw x y w h rgb)"
  unfolding r4draw_gui_rect_def ask_connectives
  by (intro admits admits_tests admits_objects) (auto dest: opens_all_opens opens_all_nonnull opens_nonnull slot_inside simp: draw_ready_facts draw_base_inside)

lemma r4draw_gui_draw_text_admitted:
  "draw_ready E (table_of draw) V outs \<Longrightarrow>
    admitted (table_of draw) V outs (r4draw_gui_draw_text E draw x y text_ptr fg bg)"
  unfolding r4draw_gui_draw_text_def ask_connectives
  by (intro admits admits_tests admits_objects) (auto dest: opens_all_opens opens_all_nonnull opens_nonnull slot_inside simp: draw_ready_facts draw_base_inside)

lemma r4draw_gui_blend_alpha8_admitted:
  "draw_ready E (table_of draw) V outs \<Longrightarrow>
    admitted (table_of draw) V outs (r4draw_gui_blend_alpha8 E draw x y width height stride rgb alpha alpha_len)"
  unfolding r4draw_gui_blend_alpha8_def ask_connectives
  by (intro admits admits_tests admits_objects) (auto dest: opens_all_opens opens_all_nonnull opens_nonnull slot_inside simp: draw_ready_facts draw_base_inside)

lemma r4draw_gui_frame_begin_admitted:
  "draw_ready E (table_of draw) V outs \<Longrightarrow>
    admitted (table_of draw) V outs (r4draw_gui_frame_begin E draw)"
  unfolding r4draw_gui_frame_begin_def draw_supports ask_connectives
  by (intro admits admits_tests admits_objects) (auto dest: opens_all_opens opens_all_nonnull opens_nonnull slot_inside simp: draw_ready_facts draw_base_inside)

lemma r4draw_gui_frame_begin_damage_admitted:
  "draw_ready E (table_of draw) V outs \<Longrightarrow>
    admitted (table_of draw) V outs (r4draw_gui_frame_begin_damage E draw regions region_count)"
  unfolding r4draw_gui_frame_begin_damage_def draw_supports ask_connectives
  by (intro admits admits_tests admits_objects) (auto dest: opens_all_opens opens_all_nonnull opens_nonnull slot_inside simp: draw_ready_facts draw_base_inside)

lemma r4draw_gui_frame_begin_replace_admitted:
  "draw_ready E (table_of draw) V outs \<Longrightarrow>
    admitted (table_of draw) V outs (r4draw_gui_frame_begin_replace E draw regions region_count)"
  unfolding r4draw_gui_frame_begin_replace_def draw_supports ask_connectives
  by (intro admits admits_tests admits_objects) (auto dest: opens_all_opens opens_all_nonnull opens_nonnull slot_inside simp: draw_ready_facts draw_base_inside)

lemma r4draw_gui_frame_append_admitted:
  "draw_ready E (table_of draw) V outs \<Longrightarrow>
    admitted (table_of draw) V outs (r4draw_gui_frame_append E draw commands command_count resources resource_len)"
  unfolding r4draw_gui_frame_append_def draw_supports ask_connectives
  by (intro admits admits_tests admits_objects) (auto dest: opens_all_opens opens_all_nonnull opens_nonnull slot_inside simp: draw_ready_facts draw_base_inside)

lemma r4draw_gui_frame_commit_admitted:
  "draw_ready E (table_of draw) V outs \<Longrightarrow>
    admitted (table_of draw) V outs (r4draw_gui_frame_commit E draw)"
  unfolding r4draw_gui_frame_commit_def draw_supports ask_connectives
  by (intro admits admits_tests admits_objects) (auto dest: opens_all_opens opens_all_nonnull opens_nonnull slot_inside simp: draw_ready_facts draw_base_inside)

lemma r4draw_gui_frame_cancel_admitted:
  "draw_ready E (table_of draw) V outs \<Longrightarrow>
    admitted (table_of draw) V outs (r4draw_gui_frame_cancel E draw)"
  unfolding r4draw_gui_frame_cancel_def draw_supports ask_connectives
  by (intro admits admits_tests admits_objects) (auto dest: opens_all_opens opens_all_nonnull opens_nonnull slot_inside simp: draw_ready_facts draw_base_inside)

lemma r4draw_gui_frame_info_admitted:
  "draw_ready E (table_of draw) V outs \<Longrightarrow> (out_info \<noteq> 0 \<longrightarrow> out_ok E outs out_info ''R4GuiFrameInfo'') \<Longrightarrow>
    admitted (table_of draw) V outs (r4draw_gui_frame_info E draw handle out_info)"
  unfolding r4draw_gui_frame_info_def draw_supports ask_connectives
  by (intro admits admits_tests admits_objects) (auto dest: opens_all_opens opens_all_nonnull opens_nonnull slot_inside simp: draw_ready_facts draw_base_inside)

lemma r4draw_gui_frame_read_admitted:
  "draw_ready E (table_of draw) V outs \<Longrightarrow> (out_info \<noteq> 0 \<longrightarrow> out_ok E outs out_info ''R4GuiFrameInfo'') \<Longrightarrow>
    admitted (table_of draw) V outs (r4draw_gui_frame_read E draw handle expected_generation commands command_capacity resources resource_capacity out_info)"
  unfolding r4draw_gui_frame_read_def draw_supports ask_connectives
  by (intro admits admits_tests admits_objects) (auto dest: opens_all_opens opens_all_nonnull opens_nonnull slot_inside simp: draw_ready_facts draw_base_inside)

lemma r4draw_gui_frame_generation_info_admitted:
  "draw_ready E (table_of draw) V outs \<Longrightarrow> (out_info \<noteq> 0 \<longrightarrow> out_ok E outs out_info ''R4GuiFrameGenerationInfo'') \<Longrightarrow>
    admitted (table_of draw) V outs (r4draw_gui_frame_generation_info E draw handle generation out_info)"
  unfolding r4draw_gui_frame_generation_info_def draw_supports ask_connectives
  by (intro admits admits_tests admits_objects) (auto dest: opens_all_opens opens_all_nonnull opens_nonnull slot_inside simp: draw_ready_facts draw_base_inside)

lemma r4draw_gui_frame_generation_read_admitted:
  "draw_ready E (table_of draw) V outs \<Longrightarrow> (out_info \<noteq> 0 \<longrightarrow> out_ok E outs out_info ''R4GuiFrameGenerationInfo'') \<Longrightarrow>
    admitted (table_of draw) V outs (r4draw_gui_frame_generation_read E draw handle generation commands command_capacity resources resource_capacity regions region_capacity out_info)"
  unfolding r4draw_gui_frame_generation_read_def draw_supports ask_connectives
  by (intro admits admits_tests admits_objects) (auto dest: opens_all_opens opens_all_nonnull opens_nonnull slot_inside simp: draw_ready_facts draw_base_inside)

lemma r4draw_gui_frame_stream_info_admitted:
  "draw_ready E (table_of draw) V outs \<Longrightarrow> (out_info \<noteq> 0 \<longrightarrow> out_ok E outs out_info ''R4GuiFrameStreamInfo'') \<Longrightarrow>
    admitted (table_of draw) V outs (r4draw_gui_frame_stream_info E draw handle out_info)"
  unfolding r4draw_gui_frame_stream_info_def draw_supports ask_connectives
  by (intro admits admits_tests admits_objects) (auto dest: opens_all_opens opens_all_nonnull opens_nonnull slot_inside simp: draw_ready_facts draw_base_inside)

lemma r4draw_gui_present_admitted:
  "draw_ready E (table_of draw) V outs \<Longrightarrow>
    admitted (table_of draw) V outs (r4draw_gui_present E draw)"
  unfolding r4draw_gui_present_def ask_connectives
  by (intro admits admits_tests admits_objects) (auto dest: opens_all_opens opens_all_nonnull opens_nonnull slot_inside simp: draw_ready_facts draw_base_inside)

lemma r4draw_gfx_virtual_start_admitted:
  "draw_ready E (table_of draw) V outs \<Longrightarrow> out_ok E outs (p_frame E) ''R4GfxVirtualStatus'' \<Longrightarrow> (output \<noteq> 0 \<longrightarrow> out_ok E outs output ''R4GfxVirtualStatus'') \<Longrightarrow>
    admitted (table_of draw) V outs (r4draw_gfx_virtual_start E draw input output)"
  unfolding r4draw_gfx_virtual_start_def ask_connectives
  by (intro admits admits_tests admits_objects) (auto dest: opens_all_opens opens_all_nonnull opens_nonnull slot_inside simp: draw_ready_facts draw_base_inside)

lemma r4draw_gfx_virtual_query_admitted:
  "draw_ready E (table_of draw) V outs \<Longrightarrow> out_ok E outs (p_frame E) ''R4GfxVirtualStatus'' \<Longrightarrow> (output \<noteq> 0 \<longrightarrow> out_ok E outs output ''R4GfxVirtualStatus'') \<Longrightarrow>
    admitted (table_of draw) V outs (r4draw_gfx_virtual_query E draw request output)"
  unfolding r4draw_gfx_virtual_query_def ask_connectives
  by (intro admits admits_tests admits_objects) (auto dest: opens_all_opens opens_all_nonnull opens_nonnull slot_inside simp: draw_ready_facts draw_base_inside)

lemma r4draw_gfx_virtual_close_admitted:
  "draw_ready E (table_of draw) V outs \<Longrightarrow>
    admitted (table_of draw) V outs (r4draw_gfx_virtual_close E draw request mode)"
  unfolding r4draw_gfx_virtual_close_def ask_connectives
  by (intro admits admits_tests admits_objects) (auto dest: opens_all_opens opens_all_nonnull opens_nonnull slot_inside simp: draw_ready_facts draw_base_inside)

lemma r4draw_gfx_virtual_wait_admitted:
  "draw_ready E (table_of draw) V outs \<Longrightarrow> out_ok E outs (p_frame E) ''R4GfxVirtualStatus'' \<Longrightarrow> (output \<noteq> 0 \<longrightarrow> out_ok E outs output ''R4GfxVirtualStatus'') \<Longrightarrow>
    admitted (table_of draw) V outs (r4draw_gfx_virtual_wait E draw request until timeout_ticks output)"
  unfolding r4draw_gfx_virtual_wait_def ask_connectives
  by (intro admits admits_tests admits_objects) (auto dest: opens_all_opens opens_all_nonnull opens_nonnull slot_inside simp: draw_ready_facts draw_base_inside)

lemma r4draw_gfx_native_start_admitted:
  "draw_ready E (table_of draw) V outs \<Longrightarrow> out_ok E outs (p_frame E) ''R4GfxNativeStatus'' \<Longrightarrow> (output \<noteq> 0 \<longrightarrow> out_ok E outs output ''R4GfxNativeStatus'') \<Longrightarrow>
    admitted (table_of draw) V outs (r4draw_gfx_native_start E draw input output)"
  unfolding r4draw_gfx_native_start_def ask_connectives
  by (intro admits admits_tests admits_objects) (auto dest: opens_all_opens opens_all_nonnull opens_nonnull slot_inside simp: draw_ready_facts draw_base_inside)

lemma r4draw_gfx_native_query_admitted:
  "draw_ready E (table_of draw) V outs \<Longrightarrow> out_ok E outs (p_frame E) ''R4GfxNativeStatus'' \<Longrightarrow> (output \<noteq> 0 \<longrightarrow> out_ok E outs output ''R4GfxNativeStatus'') \<Longrightarrow>
    admitted (table_of draw) V outs (r4draw_gfx_native_query E draw request output)"
  unfolding r4draw_gfx_native_query_def ask_connectives
  by (intro admits admits_tests admits_objects) (auto dest: opens_all_opens opens_all_nonnull opens_nonnull slot_inside simp: draw_ready_facts draw_base_inside)

lemma r4draw_gfx_native_receive_admitted:
  "draw_ready E (table_of draw) V outs \<Longrightarrow> out_ok E outs (p_frame E) ''R4GfxBufferReference'' \<Longrightarrow> (output \<noteq> 0 \<longrightarrow> out_ok E outs output ''R4GfxBufferReference'') \<Longrightarrow>
    admitted (table_of draw) V outs (r4draw_gfx_native_receive E draw request output)"
  unfolding r4draw_gfx_native_receive_def ask_connectives
  by (intro admits admits_tests admits_objects) (auto dest: opens_all_opens opens_all_nonnull opens_nonnull slot_inside simp: draw_ready_facts draw_base_inside)

lemma r4draw_gfx_native_close_admitted:
  "draw_ready E (table_of draw) V outs \<Longrightarrow>
    admitted (table_of draw) V outs (r4draw_gfx_native_close E draw request)"
  unfolding r4draw_gfx_native_close_def ask_connectives
  by (intro admits admits_tests admits_objects) (auto dest: opens_all_opens opens_all_nonnull opens_nonnull slot_inside simp: draw_ready_facts draw_base_inside)

lemma r4draw_gfx_native_wait_admitted:
  "draw_ready E (table_of draw) V outs \<Longrightarrow> out_ok E outs (p_frame E) ''R4GfxNativeStatus'' \<Longrightarrow> (output \<noteq> 0 \<longrightarrow> out_ok E outs output ''R4GfxNativeStatus'') \<Longrightarrow>
    admitted (table_of draw) V outs (r4draw_gfx_native_wait E draw request timeout_ticks output)"
  unfolding r4draw_gfx_native_wait_def ask_connectives
  by (intro admits admits_tests admits_objects) (auto dest: opens_all_opens opens_all_nonnull opens_nonnull slot_inside simp: draw_ready_facts draw_base_inside)

lemma r4draw_gfx_buffer_create_admitted:
  "draw_ready E (table_of draw) V outs \<Longrightarrow> (output \<noteq> 0 \<longrightarrow> out_ok E outs output ''R4GfxBufferReference'') \<Longrightarrow>
    admitted (table_of draw) V outs (r4draw_gfx_buffer_create E draw descriptor output)"
  unfolding r4draw_gfx_buffer_create_def ask_connectives
  by (intro admits admits_tests admits_objects) (auto dest: opens_all_opens opens_all_nonnull opens_nonnull slot_inside simp: draw_ready_facts draw_base_inside)

lemma r4draw_gfx_buffer_describe_admitted:
  "draw_ready E (table_of draw) V outs \<Longrightarrow> (output \<noteq> 0 \<longrightarrow> out_ok E outs output ''R4GfxBufferDescriptor'') \<Longrightarrow>
    admitted (table_of draw) V outs (r4draw_gfx_buffer_describe E draw reference output)"
  unfolding r4draw_gfx_buffer_describe_def ask_connectives
  by (intro admits admits_tests admits_objects) (auto dest: opens_all_opens opens_all_nonnull opens_nonnull slot_inside simp: draw_ready_facts draw_base_inside)

lemma r4draw_gfx_buffer_import_admitted:
  "draw_ready E (table_of draw) V outs \<Longrightarrow> (output \<noteq> 0 \<longrightarrow> out_ok E outs output ''R4GfxBufferReference'') \<Longrightarrow>
    admitted (table_of draw) V outs (r4draw_gfx_buffer_import E draw source_reference output)"
  unfolding r4draw_gfx_buffer_import_def ask_connectives
  by (intro admits admits_tests admits_objects) (auto dest: opens_all_opens opens_all_nonnull opens_nonnull slot_inside simp: draw_ready_facts draw_base_inside)

lemma r4draw_gfx_buffer_release_admitted:
  "draw_ready E (table_of draw) V outs \<Longrightarrow>
    admitted (table_of draw) V outs (r4draw_gfx_buffer_release E draw reference)"
  unfolding r4draw_gfx_buffer_release_def ask_connectives
  by (intro admits admits_tests admits_objects) (auto dest: opens_all_opens opens_all_nonnull opens_nonnull slot_inside simp: draw_ready_facts draw_base_inside)

lemma r4draw_gfx_buffer_map_admitted:
  "draw_ready E (table_of draw) V outs \<Longrightarrow> (output \<noteq> 0 \<longrightarrow> out_ok E outs output ''R4GfxBufferMap'') \<Longrightarrow>
    admitted (table_of draw) V outs (r4draw_gfx_buffer_map E draw reference access offset byte_length output)"
  unfolding r4draw_gfx_buffer_map_def ask_connectives
  by (intro admits admits_tests admits_objects) (auto dest: opens_all_opens opens_all_nonnull opens_nonnull slot_inside simp: draw_ready_facts draw_base_inside)

lemma r4draw_gfx_buffer_unmap_admitted:
  "draw_ready E (table_of draw) V outs \<Longrightarrow>
    admitted (table_of draw) V outs (r4draw_gfx_buffer_unmap E draw lease)"
  unfolding r4draw_gfx_buffer_unmap_def ask_connectives
  by (intro admits admits_tests admits_objects) (auto dest: opens_all_opens opens_all_nonnull opens_nonnull slot_inside simp: draw_ready_facts draw_base_inside)

lemma r4draw_gfx_buffer_map_persistent_admitted:
  "draw_ready E (table_of draw) V outs \<Longrightarrow> out_ok E outs (p_frame E) ''R4GfxBufferMap'' \<Longrightarrow> (output \<noteq> 0 \<longrightarrow> out_ok E outs output ''R4GfxBufferMap'') \<Longrightarrow>
    admitted (table_of draw) V outs (r4draw_gfx_buffer_map_persistent E draw reference access offset byte_length output)"
  unfolding r4draw_gfx_buffer_map_persistent_def ask_connectives
  by (intro admits admits_tests admits_objects) (auto dest: opens_all_opens opens_all_nonnull opens_nonnull slot_inside simp: draw_ready_facts draw_base_inside)

lemma r4draw_gfx_buffer_export_raster_admitted:
  "draw_ready E (table_of draw) V outs \<Longrightarrow> (output \<noteq> 0 \<longrightarrow> out_ok E outs output ''R4GfxBufferReference'') \<Longrightarrow>
    admitted (table_of draw) V outs (r4draw_gfx_buffer_export_raster E draw lease output)"
  unfolding r4draw_gfx_buffer_export_raster_def ask_connectives
  by (intro admits admits_tests admits_objects) (auto dest: opens_all_opens opens_all_nonnull opens_nonnull slot_inside simp: draw_ready_facts draw_base_inside)

lemma r4draw_gfx_telemetry_admitted:
  "draw_ready E (table_of draw) V outs \<Longrightarrow> out_ok E outs (p_frame E) ''R4GfxTelemetryState'' \<Longrightarrow> (output \<noteq> 0 \<longrightarrow> out_ok E outs output ''R4GfxTelemetryState'') \<Longrightarrow>
    admitted (table_of draw) V outs (r4draw_gfx_telemetry E draw input output)"
  unfolding r4draw_gfx_telemetry_def ask_connectives
  by (intro admits admits_tests admits_objects) (auto dest: opens_all_opens opens_all_nonnull opens_nonnull slot_inside simp: draw_ready_facts draw_base_inside)

lemma r4draw_gfx_memory_budget_admitted:
  "draw_ready E (table_of draw) V outs \<Longrightarrow> out_ok E outs (p_frame E) ''R4GfxDeviceBudgetState'' \<Longrightarrow> (output \<noteq> 0 \<longrightarrow> out_ok E outs output ''R4GfxDeviceBudgetState'') \<Longrightarrow>
    admitted (table_of draw) V outs (r4draw_gfx_memory_budget E draw input output)"
  unfolding r4draw_gfx_memory_budget_def ask_connectives
  by (intro admits admits_tests admits_objects) (auto dest: opens_all_opens opens_all_nonnull opens_nonnull slot_inside simp: draw_ready_facts draw_base_inside)

lemma r4draw_gfx_buffer_stats_admitted:
  "draw_ready E (table_of draw) V outs \<Longrightarrow> out_ok E outs (p_frame E) ''R4GfxBufferStats'' \<Longrightarrow> (output \<noteq> 0 \<longrightarrow> out_ok E outs output ''R4GfxBufferStats'') \<Longrightarrow>
    admitted (table_of draw) V outs (r4draw_gfx_buffer_stats E draw output)"
  unfolding r4draw_gfx_buffer_stats_def ask_connectives
  by (intro admits admits_tests admits_objects admitted_ask_member) (auto dest: opens_all_opens opens_all_nonnull opens_nonnull slot_inside simp: draw_ready_facts draw_base_inside)

lemma r4draw_gfx_output_revision_admitted:
  "draw_ready E (table_of draw) V outs \<Longrightarrow> (output \<noteq> 0 \<longrightarrow> out_ok E outs output ''R4GfxDisplayRevision'') \<Longrightarrow>
    admitted (table_of draw) V outs (r4draw_gfx_output_revision E draw output)"
  unfolding r4draw_gfx_output_revision_def ask_connectives
  by (intro admits admits_tests admits_objects) (auto dest: opens_all_opens opens_all_nonnull opens_nonnull slot_inside simp: draw_ready_facts draw_base_inside)

lemma r4draw_gfx_output_info_admitted:
  "draw_ready E (table_of draw) V outs \<Longrightarrow> (output \<noteq> 0 \<longrightarrow> out_ok E outs output ''R4GfxOutputInfo'') \<Longrightarrow>
    admitted (table_of draw) V outs (r4draw_gfx_output_info E draw index output)"
  unfolding r4draw_gfx_output_info_def ask_connectives
  by (intro admits admits_tests admits_objects) (auto dest: opens_all_opens opens_all_nonnull opens_nonnull slot_inside simp: draw_ready_facts draw_base_inside)

lemma r4draw_gfx_output_mode_admitted:
  "draw_ready E (table_of draw) V outs \<Longrightarrow> (output \<noteq> 0 \<longrightarrow> out_ok E outs output ''R4GfxOutputMode'') \<Longrightarrow>
    admitted (table_of draw) V outs (r4draw_gfx_output_mode E draw identity index output)"
  unfolding r4draw_gfx_output_mode_def ask_connectives
  by (intro admits admits_tests admits_objects) (auto dest: opens_all_opens opens_all_nonnull opens_nonnull slot_inside simp: draw_ready_facts draw_base_inside)

lemma r4draw_gfx_output_edid_admitted:
  "draw_ready E (table_of draw) V outs \<Longrightarrow> (output \<noteq> 0 \<longrightarrow> out_ok E outs output ''R4GfxEdidBlock'') \<Longrightarrow>
    admitted (table_of draw) V outs (r4draw_gfx_output_edid E draw identity index output)"
  unfolding r4draw_gfx_output_edid_def ask_connectives
  by (intro admits admits_tests admits_objects) (auto dest: opens_all_opens opens_all_nonnull opens_nonnull slot_inside simp: draw_ready_facts draw_base_inside)

lemma r4draw_gfx_output_color_admitted:
  "draw_ready E (table_of draw) V outs \<Longrightarrow> out_ok E outs (p_frame E) ''R4GfxOutputColorState'' \<Longrightarrow> (output \<noteq> 0 \<longrightarrow> out_ok E outs output ''R4GfxOutputColorState'') \<Longrightarrow>
    admitted (table_of draw) V outs (r4draw_gfx_output_color E draw identity output)"
  unfolding r4draw_gfx_output_color_def ask_connectives
  by (intro admits admits_tests admits_objects admitted_ask_member) (auto dest: opens_all_opens opens_all_nonnull opens_nonnull slot_inside simp: draw_ready_facts draw_base_inside)

lemma r4draw_gfx_output_power_admitted:
  "draw_ready E (table_of draw) V outs \<Longrightarrow> out_ok E outs (p_frame E) ''R4GfxOutputPower'' \<Longrightarrow> (output \<noteq> 0 \<longrightarrow> out_ok E outs output ''R4GfxOutputPower'') \<Longrightarrow>
    admitted (table_of draw) V outs (r4draw_gfx_output_power E draw identity output)"
  unfolding r4draw_gfx_output_power_def ask_connectives
  by (intro admits admits_tests admits_objects) (auto dest: opens_all_opens opens_all_nonnull opens_nonnull slot_inside simp: draw_ready_facts draw_base_inside)

lemma r4draw_gfx_power_request_admitted:
  "draw_ready E (table_of draw) V outs \<Longrightarrow> out_ok E outs (p_frame E) ''R4GfxPowerRequest'' \<Longrightarrow> (output \<noteq> 0 \<longrightarrow> out_ok E outs output ''R4GfxPowerRequest'') \<Longrightarrow>
    admitted (table_of draw) V outs (r4draw_gfx_power_request E draw input output)"
  unfolding r4draw_gfx_power_request_def ask_connectives
  by (intro admits admits_tests admits_objects) (auto dest: opens_all_opens opens_all_nonnull opens_nonnull slot_inside simp: draw_ready_facts draw_base_inside)

lemma r4draw_gfx_output_brightness_admitted:
  "draw_ready E (table_of draw) V outs \<Longrightarrow> out_ok E outs (p_frame E) ''R4GfxOutputBrightness'' \<Longrightarrow> (output \<noteq> 0 \<longrightarrow> out_ok E outs output ''R4GfxOutputBrightness'') \<Longrightarrow>
    admitted (table_of draw) V outs (r4draw_gfx_output_brightness E draw identity output)"
  unfolding r4draw_gfx_output_brightness_def ask_connectives
  by (intro admits admits_tests admits_objects) (auto dest: opens_all_opens opens_all_nonnull opens_nonnull slot_inside simp: draw_ready_facts draw_base_inside)

lemma r4draw_gfx_brightness_request_admitted:
  "draw_ready E (table_of draw) V outs \<Longrightarrow> out_ok E outs (p_frame E) ''R4GfxBrightnessRequest'' \<Longrightarrow> (output \<noteq> 0 \<longrightarrow> out_ok E outs output ''R4GfxBrightnessRequest'') \<Longrightarrow>
    admitted (table_of draw) V outs (r4draw_gfx_brightness_request E draw input output)"
  unfolding r4draw_gfx_brightness_request_def ask_connectives
  by (intro admits admits_tests admits_objects) (auto dest: opens_all_opens opens_all_nonnull opens_nonnull slot_inside simp: draw_ready_facts draw_base_inside)

lemma r4draw_gfx_output_refresh_admitted:
  "draw_ready E (table_of draw) V outs \<Longrightarrow> out_ok E outs (p_frame E) ''R4GfxOutputRefresh'' \<Longrightarrow> (output \<noteq> 0 \<longrightarrow> out_ok E outs output ''R4GfxOutputRefresh'') \<Longrightarrow>
    admitted (table_of draw) V outs (r4draw_gfx_output_refresh E draw target output)"
  unfolding r4draw_gfx_output_refresh_def ask_connectives
  by (intro admits admits_tests admits_objects) (auto dest: opens_all_opens opens_all_nonnull opens_nonnull slot_inside simp: draw_ready_facts draw_base_inside)

lemma r4draw_gfx_refresh_request_admitted:
  "draw_ready E (table_of draw) V outs \<Longrightarrow> out_ok E outs (p_frame E) ''R4GfxRefreshRequest'' \<Longrightarrow> (output \<noteq> 0 \<longrightarrow> out_ok E outs output ''R4GfxRefreshRequest'') \<Longrightarrow>
    admitted (table_of draw) V outs (r4draw_gfx_refresh_request E draw input output)"
  unfolding r4draw_gfx_refresh_request_def ask_connectives
  by (intro admits admits_tests admits_objects) (auto dest: opens_all_opens opens_all_nonnull opens_nonnull slot_inside simp: draw_ready_facts draw_base_inside)

lemma r4draw_gfx_atomic_test_admitted:
  "draw_ready E (table_of draw) V outs \<Longrightarrow> (output \<noteq> 0 \<longrightarrow> out_ok E outs output ''R4GfxAtomicResult'') \<Longrightarrow>
    admitted (table_of draw) V outs (r4draw_gfx_atomic_test E draw state output)"
  unfolding r4draw_gfx_atomic_test_def ask_connectives
  by (intro admits admits_tests admits_objects) (auto dest: opens_all_opens opens_all_nonnull opens_nonnull slot_inside simp: draw_ready_facts draw_base_inside)

lemma r4draw_gfx_atomic_test_color_admitted:
  "draw_ready E (table_of draw) V outs \<Longrightarrow> (output \<noteq> 0 \<longrightarrow> out_ok E outs output ''R4GfxAtomicResult'') \<Longrightarrow>
    admitted (table_of draw) V outs (r4draw_gfx_atomic_test_color E draw request output)"
  unfolding r4draw_gfx_atomic_test_color_def ask_connectives
  by (intro admits admits_tests admits_objects) (auto dest: opens_all_opens opens_all_nonnull opens_nonnull slot_inside simp: draw_ready_facts draw_base_inside)

lemma r4draw_gfx_atomic_submit_color_admitted:
  "draw_ready E (table_of draw) V outs \<Longrightarrow> (output \<noteq> 0 \<longrightarrow> out_ok E outs output ''R4GfxModeStatus'') \<Longrightarrow>
    admitted (table_of draw) V outs (r4draw_gfx_atomic_submit_color E draw request confirmation_ms output)"
  unfolding r4draw_gfx_atomic_submit_color_def ask_connectives
  by (intro admits admits_tests admits_objects) (auto dest: opens_all_opens opens_all_nonnull opens_nonnull slot_inside simp: draw_ready_facts draw_base_inside)

lemma r4draw_gfx_atomic_commit_admitted:
  "draw_ready E (table_of draw) V outs \<Longrightarrow> (output \<noteq> 0 \<longrightarrow> out_ok E outs output ''R4GfxAtomicResult'') \<Longrightarrow>
    admitted (table_of draw) V outs (r4draw_gfx_atomic_commit E draw state output)"
  unfolding r4draw_gfx_atomic_commit_def ask_connectives
  by (intro admits admits_tests admits_objects) (auto dest: opens_all_opens opens_all_nonnull opens_nonnull slot_inside simp: draw_ready_facts draw_base_inside)

lemma r4draw_gfx_atomic_submit_admitted:
  "draw_ready E (table_of draw) V outs \<Longrightarrow> (output \<noteq> 0 \<longrightarrow> out_ok E outs output ''R4GfxModeStatus'') \<Longrightarrow>
    admitted (table_of draw) V outs (r4draw_gfx_atomic_submit E draw state confirmation_ms output)"
  unfolding r4draw_gfx_atomic_submit_def ask_connectives
  by (intro admits admits_tests admits_objects) (auto dest: opens_all_opens opens_all_nonnull opens_nonnull slot_inside simp: draw_ready_facts draw_base_inside)

lemma r4draw_gfx_atomic_status_admitted:
  "draw_ready E (table_of draw) V outs \<Longrightarrow> (output \<noteq> 0 \<longrightarrow> out_ok E outs output ''R4GfxModeStatus'') \<Longrightarrow>
    admitted (table_of draw) V outs (r4draw_gfx_atomic_status E draw ticket output)"
  unfolding r4draw_gfx_atomic_status_def ask_connectives
  by (intro admits admits_tests admits_objects) (auto dest: opens_all_opens opens_all_nonnull opens_nonnull slot_inside simp: draw_ready_facts draw_base_inside)

lemma r4draw_gfx_atomic_resolve_admitted:
  "draw_ready E (table_of draw) V outs \<Longrightarrow> (output \<noteq> 0 \<longrightarrow> out_ok E outs output ''R4GfxModeStatus'') \<Longrightarrow>
    admitted (table_of draw) V outs (r4draw_gfx_atomic_resolve E draw ticket action output)"
  unfolding r4draw_gfx_atomic_resolve_def ask_connectives
  by (intro admits admits_tests admits_objects) (auto dest: opens_all_opens opens_all_nonnull opens_nonnull slot_inside simp: draw_ready_facts draw_base_inside)

lemma r4draw_gfx_queue_open_admitted:
  "draw_ready E (table_of draw) V outs \<Longrightarrow> (output \<noteq> 0 \<longrightarrow> out_ok E outs output ''R4GfxQueueHandle'') \<Longrightarrow>
    admitted (table_of draw) V outs (r4draw_gfx_queue_open E draw config output)"
  unfolding r4draw_gfx_queue_open_def ask_connectives
  by (intro admits admits_tests admits_objects) (auto dest: opens_all_opens opens_all_nonnull opens_nonnull slot_inside simp: draw_ready_facts draw_base_inside)

lemma r4draw_gfx_queue_backend_admitted:
  "draw_ready E (table_of draw) V outs \<Longrightarrow> (output \<noteq> 0 \<longrightarrow> out_ok E outs output ''R4GfxBackendBinding'') \<Longrightarrow>
    admitted (table_of draw) V outs (r4draw_gfx_queue_backend E draw index output)"
  unfolding r4draw_gfx_queue_backend_def ask_connectives
  by (intro admits admits_tests admits_objects) (auto dest: opens_all_opens opens_all_nonnull opens_nonnull slot_inside simp: draw_ready_facts draw_base_inside)

lemma r4draw_gfx_queue_backend_info_admitted:
  "draw_ready E (table_of draw) V outs \<Longrightarrow> (output \<noteq> 0 \<longrightarrow> out_ok E outs output ''R4GfxBackendInfo'') \<Longrightarrow>
    admitted (table_of draw) V outs (r4draw_gfx_queue_backend_info E draw index output)"
  unfolding r4draw_gfx_queue_backend_info_def ask_connectives
  by (intro admits admits_tests admits_objects) (auto dest: opens_all_opens opens_all_nonnull opens_nonnull slot_inside simp: draw_ready_facts draw_base_inside)

lemma r4draw_gfx_queue_backend_properties_admitted:
  "draw_ready E (table_of draw) V outs \<Longrightarrow> out_ok E outs (p_frame E) ''R4GfxBackendProperties'' \<Longrightarrow> (output \<noteq> 0 \<longrightarrow> out_ok E outs output ''R4GfxBackendProperties'') \<Longrightarrow>
    admitted (table_of draw) V outs (r4draw_gfx_queue_backend_properties E draw binding output)"
  unfolding r4draw_gfx_queue_backend_properties_def ask_connectives
  by (intro admits admits_tests admits_objects) (auto dest: opens_all_opens opens_all_nonnull opens_nonnull slot_inside simp: draw_ready_facts draw_base_inside)

lemma r4draw_gfx_queue_close_admitted:
  "draw_ready E (table_of draw) V outs \<Longrightarrow>
    admitted (table_of draw) V outs (r4draw_gfx_queue_close E draw queue)"
  unfolding r4draw_gfx_queue_close_def ask_connectives
  by (intro admits admits_tests admits_objects) (auto dest: opens_all_opens opens_all_nonnull opens_nonnull slot_inside simp: draw_ready_facts draw_base_inside)

lemma r4draw_gfx_queue_submit_admitted:
  "draw_ready E (table_of draw) V outs \<Longrightarrow> (output \<noteq> 0 \<longrightarrow> out_ok E outs output ''R4GfxFenceStatus'') \<Longrightarrow>
    admitted (table_of draw) V outs (r4draw_gfx_queue_submit E draw queue submission output)"
  unfolding r4draw_gfx_queue_submit_def ask_connectives
  by (intro admits admits_tests admits_objects) (auto dest: opens_all_opens opens_all_nonnull opens_nonnull slot_inside simp: draw_ready_facts draw_base_inside)

lemma r4draw_gfx_queue_submit_native_admitted:
  "draw_ready E (table_of draw) V outs \<Longrightarrow> out_ok E outs (p_frame E) ''R4GfxFenceStatus'' \<Longrightarrow> (output \<noteq> 0 \<longrightarrow> out_ok E outs output ''R4GfxFenceStatus'') \<Longrightarrow>
    admitted (table_of draw) V outs (r4draw_gfx_queue_submit_native E draw queue submission native output)"
  unfolding r4draw_gfx_queue_submit_native_def ask_connectives
  by (intro admits admits_tests admits_objects) (auto dest: opens_all_opens opens_all_nonnull opens_nonnull slot_inside simp: draw_ready_facts draw_base_inside)

lemma r4draw_gfx_queue_submit_render_list_admitted:
  "draw_ready E (table_of draw) V outs \<Longrightarrow> (output \<noteq> 0 \<longrightarrow> out_ok E outs output ''R4GfxFenceStatus'') \<Longrightarrow>
    admitted (table_of draw) V outs (r4draw_gfx_queue_submit_render_list E draw queue submission list output)"
  unfolding r4draw_gfx_queue_submit_render_list_def ask_connectives
  by (intro admits admits_tests admits_objects) (auto dest: opens_all_opens opens_all_nonnull opens_nonnull slot_inside simp: draw_ready_facts draw_base_inside)

lemma r4draw_gfx_queue_submit_render_grid_list_admitted:
  "draw_ready E (table_of draw) V outs \<Longrightarrow> (output \<noteq> 0 \<longrightarrow> out_ok E outs output ''R4GfxFenceStatus'') \<Longrightarrow>
    admitted (table_of draw) V outs (r4draw_gfx_queue_submit_render_grid_list E draw queue submission list output)"
  unfolding r4draw_gfx_queue_submit_render_grid_list_def ask_connectives
  by (intro admits admits_tests admits_objects) (auto dest: opens_all_opens opens_all_nonnull opens_nonnull slot_inside simp: draw_ready_facts draw_base_inside)

lemma r4draw_gfx_queue_submit_render_color_list_admitted:
  "draw_ready E (table_of draw) V outs \<Longrightarrow> (output \<noteq> 0 \<longrightarrow> out_ok E outs output ''R4GfxFenceStatus'') \<Longrightarrow>
    admitted (table_of draw) V outs (r4draw_gfx_queue_submit_render_color_list E draw queue submission list output)"
  unfolding r4draw_gfx_queue_submit_render_color_list_def ask_connectives
  by (intro admits admits_tests admits_objects) (auto dest: opens_all_opens opens_all_nonnull opens_nonnull slot_inside simp: draw_ready_facts draw_base_inside)

lemma r4draw_gfx_fence_query_admitted:
  "draw_ready E (table_of draw) V outs \<Longrightarrow> (output \<noteq> 0 \<longrightarrow> out_ok E outs output ''R4GfxFenceStatus'') \<Longrightarrow>
    admitted (table_of draw) V outs (r4draw_gfx_fence_query E draw fence output)"
  unfolding r4draw_gfx_fence_query_def ask_connectives
  by (intro admits admits_tests admits_objects) (auto dest: opens_all_opens opens_all_nonnull opens_nonnull slot_inside simp: draw_ready_facts draw_base_inside)

lemma r4draw_gfx_fence_wait_admitted:
  "draw_ready E (table_of draw) V outs \<Longrightarrow> (output \<noteq> 0 \<longrightarrow> out_ok E outs output ''R4GfxFenceStatus'') \<Longrightarrow>
    admitted (table_of draw) V outs (r4draw_gfx_fence_wait E draw fence timeout_ticks wait_for output)"
  unfolding r4draw_gfx_fence_wait_def ask_connectives
  by (intro admits admits_tests admits_objects) (auto dest: opens_all_opens opens_all_nonnull opens_nonnull slot_inside simp: draw_ready_facts draw_base_inside)

lemma r4draw_gfx_fence_cancel_admitted:
  "draw_ready E (table_of draw) V outs \<Longrightarrow>
    admitted (table_of draw) V outs (r4draw_gfx_fence_cancel E draw fence)"
  unfolding r4draw_gfx_fence_cancel_def ask_connectives
  by (intro admits admits_tests admits_objects) (auto dest: opens_all_opens opens_all_nonnull opens_nonnull slot_inside simp: draw_ready_facts draw_base_inside)

lemma r4draw_gfx_fence_release_admitted:
  "draw_ready E (table_of draw) V outs \<Longrightarrow>
    admitted (table_of draw) V outs (r4draw_gfx_fence_release E draw fence)"
  unfolding r4draw_gfx_fence_release_def ask_connectives
  by (intro admits admits_tests admits_objects) (auto dest: opens_all_opens opens_all_nonnull opens_nonnull slot_inside simp: draw_ready_facts draw_base_inside)

text \<open>
  On every resident drawing table the wrappers of the drawing facade stay inside the table,
  the caller's objects and their own local object, never get stuck, and call only through
  nonnull slots inside the announced size.\<close>

theorem r4draw_calls_admitted:
  assumes "draw_ready E (table_of draw) V outs"
  shows "(\<forall>x y width height source_stride_pixels pixels pixel_count. admitted (table_of draw) V outs (r4draw_display_blit_xrgb32_stride E draw x y width height source_stride_pixels pixels pixel_count)) \<and>
    (\<forall>request pixels pixel_count regions region_count out_result. admitted (table_of draw) V outs (r4draw_display_present_regions E draw request pixels pixel_count regions region_count out_result)) \<and>
    (\<forall>out_capabilities. (out_capabilities \<noteq> 0 \<longrightarrow> out_ok E outs out_capabilities ''R4DisplayPresentCapabilities'') \<longrightarrow> admitted (table_of draw) V outs (r4draw_display_present_capabilities E draw out_capabilities)) \<and>
    (\<forall>fence out_completion. (out_completion \<noteq> 0 \<longrightarrow> out_ok E outs out_completion ''R4DisplayPresentCompletion'') \<longrightarrow> admitted (table_of draw) V outs (r4draw_display_present_completion E draw fence out_completion)) \<and>
    (\<forall>head_id output. (output \<noteq> 0 \<longrightarrow> out_ok E outs output ''R4DisplayPresentationInfo'') \<longrightarrow> admitted (table_of draw) V outs (r4draw_display_presentation_info E draw head_id output)) \<and>
    (\<forall>head_id source output. (output \<noteq> 0 \<longrightarrow> out_ok E outs output ''R4DisplayPresentationStats'') \<longrightarrow> admitted (table_of draw) V outs (r4draw_display_presentation_feedback E draw head_id source output)) \<and>
    (\<forall>output. (output \<noteq> 0 \<longrightarrow> out_ok E outs output ''R4DisplayCursorInfo'') \<longrightarrow> admitted (table_of draw) V outs (r4draw_display_cursor_info E draw output)) \<and>
    (\<forall>input output. (output \<noteq> 0 \<longrightarrow> out_ok E outs output ''R4DisplayCursorStatus'') \<longrightarrow> admitted (table_of draw) V outs (r4draw_display_cursor_submit E draw input output)) \<and>
    (\<forall>output. (output \<noteq> 0 \<longrightarrow> out_ok E outs output ''R4DisplayCursorStatus'') \<longrightarrow> admitted (table_of draw) V outs (r4draw_display_cursor_status E draw output)) \<and>
    (\<forall>head_id output. (output \<noteq> 0 \<longrightarrow> out_ok E outs output ''R4DisplayPresentationStats'') \<longrightarrow> admitted (table_of draw) V outs (r4draw_display_presentation_stats E draw head_id output)) \<and>
    (\<forall>rgb. admitted (table_of draw) V outs (r4draw_gui_clear E draw rgb)) \<and>
    (\<forall>x y w h rgb. admitted (table_of draw) V outs (r4draw_gui_rect E draw x y w h rgb)) \<and>
    (\<forall>x y text_ptr fg bg. admitted (table_of draw) V outs (r4draw_gui_draw_text E draw x y text_ptr fg bg)) \<and>
    (\<forall>x y width height stride rgb alpha alpha_len. admitted (table_of draw) V outs (r4draw_gui_blend_alpha8 E draw x y width height stride rgb alpha alpha_len)) \<and>
    (admitted (table_of draw) V outs (r4draw_gui_frame_begin E draw)) \<and>
    (\<forall>regions region_count. admitted (table_of draw) V outs (r4draw_gui_frame_begin_damage E draw regions region_count)) \<and>
    (\<forall>regions region_count. admitted (table_of draw) V outs (r4draw_gui_frame_begin_replace E draw regions region_count)) \<and>
    (\<forall>commands command_count resources resource_len. admitted (table_of draw) V outs (r4draw_gui_frame_append E draw commands command_count resources resource_len)) \<and>
    (admitted (table_of draw) V outs (r4draw_gui_frame_commit E draw)) \<and>
    (admitted (table_of draw) V outs (r4draw_gui_frame_cancel E draw)) \<and>
    (\<forall>handle out_info. (out_info \<noteq> 0 \<longrightarrow> out_ok E outs out_info ''R4GuiFrameInfo'') \<longrightarrow> admitted (table_of draw) V outs (r4draw_gui_frame_info E draw handle out_info)) \<and>
    (\<forall>handle expected_generation commands command_capacity resources resource_capacity out_info. (out_info \<noteq> 0 \<longrightarrow> out_ok E outs out_info ''R4GuiFrameInfo'') \<longrightarrow> admitted (table_of draw) V outs (r4draw_gui_frame_read E draw handle expected_generation commands command_capacity resources resource_capacity out_info)) \<and>
    (\<forall>handle generation out_info. (out_info \<noteq> 0 \<longrightarrow> out_ok E outs out_info ''R4GuiFrameGenerationInfo'') \<longrightarrow> admitted (table_of draw) V outs (r4draw_gui_frame_generation_info E draw handle generation out_info)) \<and>
    (\<forall>handle generation commands command_capacity resources resource_capacity regions region_capacity out_info. (out_info \<noteq> 0 \<longrightarrow> out_ok E outs out_info ''R4GuiFrameGenerationInfo'') \<longrightarrow> admitted (table_of draw) V outs (r4draw_gui_frame_generation_read E draw handle generation commands command_capacity resources resource_capacity regions region_capacity out_info)) \<and>
    (\<forall>handle out_info. (out_info \<noteq> 0 \<longrightarrow> out_ok E outs out_info ''R4GuiFrameStreamInfo'') \<longrightarrow> admitted (table_of draw) V outs (r4draw_gui_frame_stream_info E draw handle out_info)) \<and>
    (admitted (table_of draw) V outs (r4draw_gui_present E draw)) \<and>
    (\<forall>input output. out_ok E outs (p_frame E) ''R4GfxVirtualStatus'' \<and> (output \<noteq> 0 \<longrightarrow> out_ok E outs output ''R4GfxVirtualStatus'') \<longrightarrow> admitted (table_of draw) V outs (r4draw_gfx_virtual_start E draw input output)) \<and>
    (\<forall>request output. out_ok E outs (p_frame E) ''R4GfxVirtualStatus'' \<and> (output \<noteq> 0 \<longrightarrow> out_ok E outs output ''R4GfxVirtualStatus'') \<longrightarrow> admitted (table_of draw) V outs (r4draw_gfx_virtual_query E draw request output)) \<and>
    (\<forall>request mode. admitted (table_of draw) V outs (r4draw_gfx_virtual_close E draw request mode)) \<and>
    (\<forall>request until timeout_ticks output. out_ok E outs (p_frame E) ''R4GfxVirtualStatus'' \<and> (output \<noteq> 0 \<longrightarrow> out_ok E outs output ''R4GfxVirtualStatus'') \<longrightarrow> admitted (table_of draw) V outs (r4draw_gfx_virtual_wait E draw request until timeout_ticks output)) \<and>
    (\<forall>input output. out_ok E outs (p_frame E) ''R4GfxNativeStatus'' \<and> (output \<noteq> 0 \<longrightarrow> out_ok E outs output ''R4GfxNativeStatus'') \<longrightarrow> admitted (table_of draw) V outs (r4draw_gfx_native_start E draw input output)) \<and>
    (\<forall>request output. out_ok E outs (p_frame E) ''R4GfxNativeStatus'' \<and> (output \<noteq> 0 \<longrightarrow> out_ok E outs output ''R4GfxNativeStatus'') \<longrightarrow> admitted (table_of draw) V outs (r4draw_gfx_native_query E draw request output)) \<and>
    (\<forall>request output. out_ok E outs (p_frame E) ''R4GfxBufferReference'' \<and> (output \<noteq> 0 \<longrightarrow> out_ok E outs output ''R4GfxBufferReference'') \<longrightarrow> admitted (table_of draw) V outs (r4draw_gfx_native_receive E draw request output)) \<and>
    (\<forall>request. admitted (table_of draw) V outs (r4draw_gfx_native_close E draw request)) \<and>
    (\<forall>request timeout_ticks output. out_ok E outs (p_frame E) ''R4GfxNativeStatus'' \<and> (output \<noteq> 0 \<longrightarrow> out_ok E outs output ''R4GfxNativeStatus'') \<longrightarrow> admitted (table_of draw) V outs (r4draw_gfx_native_wait E draw request timeout_ticks output)) \<and>
    (\<forall>descriptor output. (output \<noteq> 0 \<longrightarrow> out_ok E outs output ''R4GfxBufferReference'') \<longrightarrow> admitted (table_of draw) V outs (r4draw_gfx_buffer_create E draw descriptor output)) \<and>
    (\<forall>reference output. (output \<noteq> 0 \<longrightarrow> out_ok E outs output ''R4GfxBufferDescriptor'') \<longrightarrow> admitted (table_of draw) V outs (r4draw_gfx_buffer_describe E draw reference output)) \<and>
    (\<forall>source_reference output. (output \<noteq> 0 \<longrightarrow> out_ok E outs output ''R4GfxBufferReference'') \<longrightarrow> admitted (table_of draw) V outs (r4draw_gfx_buffer_import E draw source_reference output)) \<and>
    (\<forall>reference. admitted (table_of draw) V outs (r4draw_gfx_buffer_release E draw reference)) \<and>
    (\<forall>reference access offset byte_length output. (output \<noteq> 0 \<longrightarrow> out_ok E outs output ''R4GfxBufferMap'') \<longrightarrow> admitted (table_of draw) V outs (r4draw_gfx_buffer_map E draw reference access offset byte_length output)) \<and>
    (\<forall>lease. admitted (table_of draw) V outs (r4draw_gfx_buffer_unmap E draw lease)) \<and>
    (\<forall>reference access offset byte_length output. out_ok E outs (p_frame E) ''R4GfxBufferMap'' \<and> (output \<noteq> 0 \<longrightarrow> out_ok E outs output ''R4GfxBufferMap'') \<longrightarrow> admitted (table_of draw) V outs (r4draw_gfx_buffer_map_persistent E draw reference access offset byte_length output)) \<and>
    (\<forall>lease output. (output \<noteq> 0 \<longrightarrow> out_ok E outs output ''R4GfxBufferReference'') \<longrightarrow> admitted (table_of draw) V outs (r4draw_gfx_buffer_export_raster E draw lease output)) \<and>
    (\<forall>input output. out_ok E outs (p_frame E) ''R4GfxTelemetryState'' \<and> (output \<noteq> 0 \<longrightarrow> out_ok E outs output ''R4GfxTelemetryState'') \<longrightarrow> admitted (table_of draw) V outs (r4draw_gfx_telemetry E draw input output)) \<and>
    (\<forall>input output. out_ok E outs (p_frame E) ''R4GfxDeviceBudgetState'' \<and> (output \<noteq> 0 \<longrightarrow> out_ok E outs output ''R4GfxDeviceBudgetState'') \<longrightarrow> admitted (table_of draw) V outs (r4draw_gfx_memory_budget E draw input output)) \<and>
    (\<forall>output. out_ok E outs (p_frame E) ''R4GfxBufferStats'' \<and> (output \<noteq> 0 \<longrightarrow> out_ok E outs output ''R4GfxBufferStats'') \<longrightarrow> admitted (table_of draw) V outs (r4draw_gfx_buffer_stats E draw output)) \<and>
    (\<forall>output. (output \<noteq> 0 \<longrightarrow> out_ok E outs output ''R4GfxDisplayRevision'') \<longrightarrow> admitted (table_of draw) V outs (r4draw_gfx_output_revision E draw output)) \<and>
    (\<forall>index output. (output \<noteq> 0 \<longrightarrow> out_ok E outs output ''R4GfxOutputInfo'') \<longrightarrow> admitted (table_of draw) V outs (r4draw_gfx_output_info E draw index output)) \<and>
    (\<forall>identity index output. (output \<noteq> 0 \<longrightarrow> out_ok E outs output ''R4GfxOutputMode'') \<longrightarrow> admitted (table_of draw) V outs (r4draw_gfx_output_mode E draw identity index output)) \<and>
    (\<forall>identity index output. (output \<noteq> 0 \<longrightarrow> out_ok E outs output ''R4GfxEdidBlock'') \<longrightarrow> admitted (table_of draw) V outs (r4draw_gfx_output_edid E draw identity index output)) \<and>
    (\<forall>identity output. out_ok E outs (p_frame E) ''R4GfxOutputColorState'' \<and> (output \<noteq> 0 \<longrightarrow> out_ok E outs output ''R4GfxOutputColorState'') \<longrightarrow> admitted (table_of draw) V outs (r4draw_gfx_output_color E draw identity output)) \<and>
    (\<forall>identity output. out_ok E outs (p_frame E) ''R4GfxOutputPower'' \<and> (output \<noteq> 0 \<longrightarrow> out_ok E outs output ''R4GfxOutputPower'') \<longrightarrow> admitted (table_of draw) V outs (r4draw_gfx_output_power E draw identity output)) \<and>
    (\<forall>input output. out_ok E outs (p_frame E) ''R4GfxPowerRequest'' \<and> (output \<noteq> 0 \<longrightarrow> out_ok E outs output ''R4GfxPowerRequest'') \<longrightarrow> admitted (table_of draw) V outs (r4draw_gfx_power_request E draw input output)) \<and>
    (\<forall>identity output. out_ok E outs (p_frame E) ''R4GfxOutputBrightness'' \<and> (output \<noteq> 0 \<longrightarrow> out_ok E outs output ''R4GfxOutputBrightness'') \<longrightarrow> admitted (table_of draw) V outs (r4draw_gfx_output_brightness E draw identity output)) \<and>
    (\<forall>input output. out_ok E outs (p_frame E) ''R4GfxBrightnessRequest'' \<and> (output \<noteq> 0 \<longrightarrow> out_ok E outs output ''R4GfxBrightnessRequest'') \<longrightarrow> admitted (table_of draw) V outs (r4draw_gfx_brightness_request E draw input output)) \<and>
    (\<forall>target output. out_ok E outs (p_frame E) ''R4GfxOutputRefresh'' \<and> (output \<noteq> 0 \<longrightarrow> out_ok E outs output ''R4GfxOutputRefresh'') \<longrightarrow> admitted (table_of draw) V outs (r4draw_gfx_output_refresh E draw target output)) \<and>
    (\<forall>input output. out_ok E outs (p_frame E) ''R4GfxRefreshRequest'' \<and> (output \<noteq> 0 \<longrightarrow> out_ok E outs output ''R4GfxRefreshRequest'') \<longrightarrow> admitted (table_of draw) V outs (r4draw_gfx_refresh_request E draw input output)) \<and>
    (\<forall>state output. (output \<noteq> 0 \<longrightarrow> out_ok E outs output ''R4GfxAtomicResult'') \<longrightarrow> admitted (table_of draw) V outs (r4draw_gfx_atomic_test E draw state output)) \<and>
    (\<forall>request output. (output \<noteq> 0 \<longrightarrow> out_ok E outs output ''R4GfxAtomicResult'') \<longrightarrow> admitted (table_of draw) V outs (r4draw_gfx_atomic_test_color E draw request output)) \<and>
    (\<forall>request confirmation_ms output. (output \<noteq> 0 \<longrightarrow> out_ok E outs output ''R4GfxModeStatus'') \<longrightarrow> admitted (table_of draw) V outs (r4draw_gfx_atomic_submit_color E draw request confirmation_ms output)) \<and>
    (\<forall>state output. (output \<noteq> 0 \<longrightarrow> out_ok E outs output ''R4GfxAtomicResult'') \<longrightarrow> admitted (table_of draw) V outs (r4draw_gfx_atomic_commit E draw state output)) \<and>
    (\<forall>state confirmation_ms output. (output \<noteq> 0 \<longrightarrow> out_ok E outs output ''R4GfxModeStatus'') \<longrightarrow> admitted (table_of draw) V outs (r4draw_gfx_atomic_submit E draw state confirmation_ms output)) \<and>
    (\<forall>ticket output. (output \<noteq> 0 \<longrightarrow> out_ok E outs output ''R4GfxModeStatus'') \<longrightarrow> admitted (table_of draw) V outs (r4draw_gfx_atomic_status E draw ticket output)) \<and>
    (\<forall>ticket action output. (output \<noteq> 0 \<longrightarrow> out_ok E outs output ''R4GfxModeStatus'') \<longrightarrow> admitted (table_of draw) V outs (r4draw_gfx_atomic_resolve E draw ticket action output)) \<and>
    (\<forall>config output. (output \<noteq> 0 \<longrightarrow> out_ok E outs output ''R4GfxQueueHandle'') \<longrightarrow> admitted (table_of draw) V outs (r4draw_gfx_queue_open E draw config output)) \<and>
    (\<forall>index output. (output \<noteq> 0 \<longrightarrow> out_ok E outs output ''R4GfxBackendBinding'') \<longrightarrow> admitted (table_of draw) V outs (r4draw_gfx_queue_backend E draw index output)) \<and>
    (\<forall>index output. (output \<noteq> 0 \<longrightarrow> out_ok E outs output ''R4GfxBackendInfo'') \<longrightarrow> admitted (table_of draw) V outs (r4draw_gfx_queue_backend_info E draw index output)) \<and>
    (\<forall>binding output. out_ok E outs (p_frame E) ''R4GfxBackendProperties'' \<and> (output \<noteq> 0 \<longrightarrow> out_ok E outs output ''R4GfxBackendProperties'') \<longrightarrow> admitted (table_of draw) V outs (r4draw_gfx_queue_backend_properties E draw binding output)) \<and>
    (\<forall>queue. admitted (table_of draw) V outs (r4draw_gfx_queue_close E draw queue)) \<and>
    (\<forall>queue submission output. (output \<noteq> 0 \<longrightarrow> out_ok E outs output ''R4GfxFenceStatus'') \<longrightarrow> admitted (table_of draw) V outs (r4draw_gfx_queue_submit E draw queue submission output)) \<and>
    (\<forall>queue submission native output. out_ok E outs (p_frame E) ''R4GfxFenceStatus'' \<and> (output \<noteq> 0 \<longrightarrow> out_ok E outs output ''R4GfxFenceStatus'') \<longrightarrow> admitted (table_of draw) V outs (r4draw_gfx_queue_submit_native E draw queue submission native output)) \<and>
    (\<forall>queue submission list output. (output \<noteq> 0 \<longrightarrow> out_ok E outs output ''R4GfxFenceStatus'') \<longrightarrow> admitted (table_of draw) V outs (r4draw_gfx_queue_submit_render_list E draw queue submission list output)) \<and>
    (\<forall>queue submission list output. (output \<noteq> 0 \<longrightarrow> out_ok E outs output ''R4GfxFenceStatus'') \<longrightarrow> admitted (table_of draw) V outs (r4draw_gfx_queue_submit_render_grid_list E draw queue submission list output)) \<and>
    (\<forall>queue submission list output. (output \<noteq> 0 \<longrightarrow> out_ok E outs output ''R4GfxFenceStatus'') \<longrightarrow> admitted (table_of draw) V outs (r4draw_gfx_queue_submit_render_color_list E draw queue submission list output)) \<and>
    (\<forall>fence output. (output \<noteq> 0 \<longrightarrow> out_ok E outs output ''R4GfxFenceStatus'') \<longrightarrow> admitted (table_of draw) V outs (r4draw_gfx_fence_query E draw fence output)) \<and>
    (\<forall>fence timeout_ticks wait_for output. (output \<noteq> 0 \<longrightarrow> out_ok E outs output ''R4GfxFenceStatus'') \<longrightarrow> admitted (table_of draw) V outs (r4draw_gfx_fence_wait E draw fence timeout_ticks wait_for output)) \<and>
    (\<forall>fence. admitted (table_of draw) V outs (r4draw_gfx_fence_cancel E draw fence)) \<and>
    (\<forall>fence. admitted (table_of draw) V outs (r4draw_gfx_fence_release E draw fence))"
  by (intro conjI allI impI; (elim conjE)?; rule r4draw_display_blit_xrgb32_stride_admitted r4draw_display_present_regions_admitted r4draw_display_present_capabilities_admitted r4draw_display_present_completion_admitted r4draw_display_presentation_info_admitted r4draw_display_presentation_feedback_admitted r4draw_display_cursor_info_admitted r4draw_display_cursor_submit_admitted r4draw_display_cursor_status_admitted r4draw_display_presentation_stats_admitted r4draw_gui_clear_admitted r4draw_gui_rect_admitted r4draw_gui_draw_text_admitted r4draw_gui_blend_alpha8_admitted r4draw_gui_frame_begin_admitted r4draw_gui_frame_begin_damage_admitted r4draw_gui_frame_begin_replace_admitted r4draw_gui_frame_append_admitted r4draw_gui_frame_commit_admitted r4draw_gui_frame_cancel_admitted r4draw_gui_frame_info_admitted r4draw_gui_frame_read_admitted r4draw_gui_frame_generation_info_admitted r4draw_gui_frame_generation_read_admitted r4draw_gui_frame_stream_info_admitted r4draw_gui_present_admitted r4draw_gfx_virtual_start_admitted r4draw_gfx_virtual_query_admitted r4draw_gfx_virtual_close_admitted r4draw_gfx_virtual_wait_admitted r4draw_gfx_native_start_admitted r4draw_gfx_native_query_admitted r4draw_gfx_native_receive_admitted r4draw_gfx_native_close_admitted r4draw_gfx_native_wait_admitted r4draw_gfx_buffer_create_admitted r4draw_gfx_buffer_describe_admitted r4draw_gfx_buffer_import_admitted r4draw_gfx_buffer_release_admitted r4draw_gfx_buffer_map_admitted r4draw_gfx_buffer_unmap_admitted r4draw_gfx_buffer_map_persistent_admitted r4draw_gfx_buffer_export_raster_admitted r4draw_gfx_telemetry_admitted r4draw_gfx_memory_budget_admitted r4draw_gfx_buffer_stats_admitted r4draw_gfx_output_revision_admitted r4draw_gfx_output_info_admitted r4draw_gfx_output_mode_admitted r4draw_gfx_output_edid_admitted r4draw_gfx_output_color_admitted r4draw_gfx_output_power_admitted r4draw_gfx_power_request_admitted r4draw_gfx_output_brightness_admitted r4draw_gfx_brightness_request_admitted r4draw_gfx_output_refresh_admitted r4draw_gfx_refresh_request_admitted r4draw_gfx_atomic_test_admitted r4draw_gfx_atomic_test_color_admitted r4draw_gfx_atomic_submit_color_admitted r4draw_gfx_atomic_commit_admitted r4draw_gfx_atomic_submit_admitted r4draw_gfx_atomic_status_admitted r4draw_gfx_atomic_resolve_admitted r4draw_gfx_queue_open_admitted r4draw_gfx_queue_backend_admitted r4draw_gfx_queue_backend_info_admitted r4draw_gfx_queue_backend_properties_admitted r4draw_gfx_queue_close_admitted r4draw_gfx_queue_submit_admitted r4draw_gfx_queue_submit_native_admitted r4draw_gfx_queue_submit_render_list_admitted r4draw_gfx_queue_submit_render_grid_list_admitted r4draw_gfx_queue_submit_render_color_list_admitted r4draw_gfx_fence_query_admitted r4draw_gfx_fence_wait_admitted r4draw_gfx_fence_cancel_admitted r4draw_gfx_fence_release_admitted; (rule assms | assumption))

theorem r4draw_calls_admitted_witness:
  "admitted (table_of sample_handle) sample_table [] (r4draw_gui_present sample_platform sample_handle) \<and>
   admitted (table_of sample_handle) sample_table [] (r4draw_gfx_queue_close sample_platform sample_handle 7)"
proof -
  have "draw_ready sample_platform (table_of sample_handle) sample_table []"
    by (auto simp: draw_ready_def draw_capabilities_def draw_base_slots_def abi_ok_def keeps_steady_def before_def based_def
      sample_platform_def sample_table_def)
  from r4draw_calls_admitted [OF this] show ?thesis by simp
qed

end
