(* ===== verification/DeskCalls.thy ===== *)
theory DeskCalls
  imports Platform
begin

text \<open>
  The wrappers of \<open>Shared/C/include/r4os/r4desk.h\<close>: window, pointer capture, key, remote
  frame and remote input operations of the desktop group table.
\<close>

subsection \<open>Tests and calls on the table\<close>

abbreviation desk_has where "desk_has E h slot \<equiv> has_slot E ''R4Desk'' (table_of h) slot"
abbreviation desk_field where "desk_field E h slot \<equiv> has_field E ''R4Desk'' (table_of h) slot"
abbreviation desk_base where "desk_base E h slot \<equiv> has_base E ''R4Desk'' (table_of h) slot"
abbreviation desk_tail where "desk_tail E h slot \<equiv> tail_slot E ''R4Desk'' (table_of h) slot"
abbreviation desk_filled where "desk_filled E h slot \<equiv> filled E ''R4Desk'' (table_of h) slot"
abbreviation desk_slots where "desk_slots E h last_slot slots \<equiv> has_slots E ''R4Desk'' (table_of h) last_slot slots"
abbreviation desk_tail_slots where "desk_tail_slots E h last_slot slots \<equiv> tail_slots E ''R4Desk'' (table_of h) last_slot slots"
abbreviation desk_call where "desk_call E h slot args \<equiv> call_slot E ''R4Desk'' (table_of h) slot args"

subsection \<open>The code\<close>

definition r4desk_gui_window_appearance ::
  "'w platform \<Rightarrow> handle option \<Rightarrow> u64 \<Rightarrow> u64 \<Rightarrow> (i32, 'w) io" where
  "r4desk_gui_window_appearance E desk window out =
    (if window = 0 \<or> out = 0 then give (p_code E ''R4OS_GUI_HOST_INPUT_ERROR_INVALID'')
       else ask (desk_field E desk ''gui_window_appearance'') (\<lambda>ok.
       if \<not> ok then give (p_code E ''R4OS_ERR_NO_FN'')
       else desk_call E desk ''gui_window_appearance'' [window, out]))"

definition r4desk_gui_host_input ::
  "'w platform \<Rightarrow> handle option \<Rightarrow> u64 \<Rightarrow> u64 \<Rightarrow> (i32, 'w) io" where
  "r4desk_gui_host_input E desk request out =
    (if request = 0 \<or> out = 0 then give (p_code E ''R4OS_GUI_HOST_INPUT_ERROR_INVALID'')
       else ask (desk_field E desk ''gui_host_input'') (\<lambda>ok.
       if \<not> ok then give (p_code E ''R4OS_ERR_NO_FN'')
       else desk_call E desk ''gui_host_input'' [request, out]))"

definition r4desk_gui_pointer_capture_info ::
  "'w platform \<Rightarrow> handle option \<Rightarrow> u64 \<Rightarrow> u64 \<Rightarrow> (i32, 'w) io" where
  "r4desk_gui_pointer_capture_info E desk capture out =
    (if out = 0 then give (p_code E ''R4OS_GUI_POINTER_ERROR_INVALID'')
       else ask (desk_field E desk ''gui_pointer_capture_info'') (\<lambda>ok.
       if \<not> ok then give (p_code E ''R4OS_ERR_NO_FN'')
       else desk_call E desk ''gui_pointer_capture_info'' [capture, out]))"

definition r4desk_gui_pointer_capture_acquire ::
  "'w platform \<Rightarrow> handle option \<Rightarrow> u64 \<Rightarrow> u32 \<Rightarrow> u64 \<Rightarrow> (i32, 'w) io" where
  "r4desk_gui_pointer_capture_acquire E desk window mode out =
    (if window = 0 \<or> out = 0 then give (p_code E ''R4OS_GUI_POINTER_ERROR_INVALID'')
       else ask (desk_field E desk ''gui_pointer_capture_acquire'') (\<lambda>ok.
       if \<not> ok then give (p_code E ''R4OS_ERR_NO_FN'')
       else desk_call E desk ''gui_pointer_capture_acquire'' [window, ucast mode, out]))"

definition r4desk_gui_pointer_capture_release ::
  "'w platform \<Rightarrow> handle option \<Rightarrow> u64 \<Rightarrow> (i32, 'w) io" where
  "r4desk_gui_pointer_capture_release E desk capture =
    (if capture = 0 then give (p_code E ''R4OS_GUI_POINTER_ERROR_INVALID'')
       else ask (desk_field E desk ''gui_pointer_capture_release'') (\<lambda>ok.
       if \<not> ok then give (p_code E ''R4OS_ERR_NO_FN'')
       else desk_call E desk ''gui_pointer_capture_release'' [capture]))"

definition r4desk_gui_pointer_capture_host ::
  "'w platform \<Rightarrow> handle option \<Rightarrow> u64 \<Rightarrow> u64 \<Rightarrow> (i32, 'w) io" where
  "r4desk_gui_pointer_capture_host E desk request out =
    (if request = 0 \<or> out = 0 then give (p_code E ''R4OS_GUI_POINTER_ERROR_INVALID'')
       else ask (desk_field E desk ''gui_pointer_capture_host'') (\<lambda>ok.
       if \<not> ok then give (p_code E ''R4OS_ERR_NO_FN'')
       else desk_call E desk ''gui_pointer_capture_host'' [request, out]))"

definition r4desk_mouse_motion ::
  "'w platform \<Rightarrow> handle option \<Rightarrow> u64 \<Rightarrow> (i32, 'w) io" where
  "r4desk_mouse_motion E desk output =
    (ask (desk_has E desk ''mouse_motion'') (\<lambda>ok.
       if \<not> ok then give (p_code E ''R4OS_ERR_NO_FN'')
       else if output = 0 then give (- 1)
       else desk_call E desk ''mouse_motion'' [output]))"

definition r4desk_read_key_codepoint ::
  "'w platform \<Rightarrow> handle option \<Rightarrow> (u32, 'w) io" where
  "r4desk_read_key_codepoint E desk =
    (ask (desk_has E desk ''read_key_codepoint'') (\<lambda>ok.
       if \<not> ok then give 0
       else desk_call E desk ''read_key_codepoint'' []))"

definition r4desk_remote_frame_snapshot_acquire ::
  "'w platform \<Rightarrow> handle option \<Rightarrow> u32 \<Rightarrow> u64 \<Rightarrow> u64 \<Rightarrow> (i32, 'w) io" where
  "r4desk_remote_frame_snapshot_acquire E desk expected info lease =
    (ask (desk_has E desk ''remote_frame_snapshot_acquire'') (\<lambda>ok.
       if \<not> ok then give (p_code E ''R4OS_ERR_NO_FN'')
       else if info = 0 \<or> lease = 0 then give (- 1)
       else desk_call E desk ''remote_frame_snapshot_acquire'' [ucast expected, info, lease]))"

definition r4desk_remote_frame_snapshot_release ::
  "'w platform \<Rightarrow> handle option \<Rightarrow> u64 \<Rightarrow> (i32, 'w) io" where
  "r4desk_remote_frame_snapshot_release E desk lease =
    (ask (desk_has E desk ''remote_frame_snapshot_release'') (\<lambda>ok.
       if \<not> ok then give (p_code E ''R4OS_ERR_NO_FN'')
       else if lease = 0 then give (- 1)
       else desk_call E desk ''remote_frame_snapshot_release'' [lease]))"

definition r4desk_remote_frame_source_reset ::
  "'w platform \<Rightarrow> handle option \<Rightarrow> (i32, 'w) io" where
  "r4desk_remote_frame_source_reset E desk =
    (ask (desk_has E desk ''remote_frame_source_reset'') (\<lambda>ok.
       if \<not> ok then give (p_code E ''R4OS_ERR_NO_FN'')
       else desk_call E desk ''remote_frame_source_reset'' []))"

definition r4desk_remote_frame_capture_stats ::
  "'w platform \<Rightarrow> handle option \<Rightarrow> u64 \<Rightarrow> (i32, 'w) io" where
  "r4desk_remote_frame_capture_stats E desk output =
    (ask (desk_has E desk ''remote_frame_capture_stats'') (\<lambda>ok.
       if \<not> ok then give (p_code E ''R4OS_ERR_NO_FN'')
       else if output = 0 then give (- 1)
       else desk_call E desk ''remote_frame_capture_stats'' [output]))"

definition r4desk_console_input_wait ::
  "'w platform \<Rightarrow> handle option \<Rightarrow> u64 \<Rightarrow> u64 \<Rightarrow> u64 \<Rightarrow> (i32, 'w) io" where
  "r4desk_console_input_wait E desk last_generation timeout_ticks out_generation =
    (if out_generation = 0 then give (p_code E ''R4OS_CONSOLE_INPUT_WAIT_ERROR_INVALID'')
       else and_then (store out_generation (le_bytes 8 last_generation)) (\<lambda>_.
       ask (desk_has E desk ''console_input_wait'') (\<lambda>ok.
       if \<not> ok then give (p_code E ''R4OS_CONSOLE_INPUT_WAIT_ERROR_UNSUPPORTED'')
       else desk_call E desk ''console_input_wait'' [last_generation, timeout_ticks, out_generation])))"

definition r4desk_physical_key_poll ::
  "'w platform \<Rightarrow> handle option \<Rightarrow> u64 \<Rightarrow> (i32, 'w) io" where
  "r4desk_physical_key_poll E desk out_event =
    (if out_event = 0 then give (p_code E ''R4OS_PHYSICAL_KEY_POLL_ERROR_INVALID'')
       else and_then (clear_obj E out_event ''R4PhysicalKeyEvent'') (\<lambda>_.
       ask (desk_has E desk ''physical_key_poll'') (\<lambda>ok.
       if \<not> ok then give (p_code E ''R4OS_PHYSICAL_KEY_POLL_ERROR_UNSUPPORTED'')
       else desk_call E desk ''physical_key_poll'' [out_event])))"

definition r4desk_program_window_id ::
  "'w platform \<Rightarrow> handle option \<Rightarrow> (i32, 'w) io" where
  "r4desk_program_window_id E desk =
    (ask (desk_base E desk ''program_window_id'') (\<lambda>ok.
       if \<not> ok then give (- 1)
       else desk_call E desk ''program_window_id'' []))"

definition r4desk_program_set_window_handle ::
  "'w platform \<Rightarrow> handle option \<Rightarrow> u64 \<Rightarrow> i32 \<Rightarrow> (i32, 'w) io" where
  "r4desk_program_set_window_handle E desk handle window_id =
    (ask (q_or (sure (table_of desk = 0)) (q_or (sure (handle = 0)) (q_not (desk_filled E desk ''program_set_window_handle'')))) (\<lambda>bad.
       if bad then give (p_code E ''R4OS_PROGRAM_HANDLE_ERROR_INVALID'')
       else desk_call E desk ''program_set_window_handle'' [handle, scast window_id]))"

definition r4desk_gui_window_info ::
  "'w platform \<Rightarrow> handle option \<Rightarrow> u64 \<Rightarrow> (i32, 'w) io" where
  "r4desk_gui_window_info E desk out =
    (ask (desk_base E desk ''gui_window_info'') (\<lambda>ok.
       if \<not> ok then give (- 1)
       else desk_call E desk ''gui_window_info'' [out]))"

definition r4desk_gui_poll_event ::
  "'w platform \<Rightarrow> handle option \<Rightarrow> u64 \<Rightarrow> (i32, 'w) io" where
  "r4desk_gui_poll_event E desk out =
    (ask (desk_base E desk ''gui_poll_event'') (\<lambda>ok.
       if \<not> ok then give 0
       else desk_call E desk ''gui_poll_event'' [out]))"

definition r4desk_gui_set_title ::
  "'w platform \<Rightarrow> handle option \<Rightarrow> u64 \<Rightarrow> (i32, 'w) io" where
  "r4desk_gui_set_title E desk text_ptr =
    (ask (desk_base E desk ''gui_set_title'') (\<lambda>ok.
       if \<not> ok then give (- 1)
       else desk_call E desk ''gui_set_title'' [text_ptr]))"

definition r4desk_gui_set_min_size ::
  "'w platform \<Rightarrow> handle option \<Rightarrow> i32 \<Rightarrow> i32 \<Rightarrow> (i32, 'w) io" where
  "r4desk_gui_set_min_size E desk w h =
    (ask (desk_base E desk ''gui_set_min_size'') (\<lambda>ok.
       if \<not> ok then give (- 1)
       else desk_call E desk ''gui_set_min_size'' [scast w, scast h]))"

definition r4desk_remote_frame_info ::
  "'w platform \<Rightarrow> handle option \<Rightarrow> u64 \<Rightarrow> (i32, 'w) io" where
  "r4desk_remote_frame_info E desk out =
    (ask (desk_base E desk ''remote_frame_info'') (\<lambda>ok.
       if \<not> ok then give (p_code E ''R4_REMOTE_FRAME_ERROR_UNSUPPORTED'')
       else desk_call E desk ''remote_frame_info'' [out]))"

definition r4desk_remote_frame_read ::
  "'w platform \<Rightarrow> handle option \<Rightarrow> u32 \<Rightarrow> u64 \<Rightarrow> u32 \<Rightarrow> u64 \<Rightarrow> (i32, 'w) io" where
  "r4desk_remote_frame_read E desk offset_pixels out pixel_count out_info =
    (ask (desk_base E desk ''remote_frame_read'') (\<lambda>ok.
       if \<not> ok then give (p_code E ''R4_REMOTE_FRAME_ERROR_UNSUPPORTED'')
       else desk_call E desk ''remote_frame_read'' [ucast offset_pixels, out, ucast pixel_count, out_info]))"

definition r4desk_remote_frame_wait ::
  "'w platform \<Rightarrow> handle option \<Rightarrow> u32 \<Rightarrow> u64 \<Rightarrow> u64 \<Rightarrow> (i32, 'w) io" where
  "r4desk_remote_frame_wait E desk last_revision timeout_ticks out =
    (ask (desk_base E desk ''remote_frame_wait'') (\<lambda>ok.
       if \<not> ok then give (p_code E ''R4_REMOTE_FRAME_ERROR_UNSUPPORTED'')
       else desk_call E desk ''remote_frame_wait'' [ucast last_revision, timeout_ticks, out]))"

definition r4desk_remote_frame_publish ::
  "'w platform \<Rightarrow> handle option \<Rightarrow> u64 \<Rightarrow> u64 \<Rightarrow> u32 \<Rightarrow> (i32, 'w) io" where
  "r4desk_remote_frame_publish E desk info pixels pixel_count =
    (ask (desk_base E desk ''remote_frame_publish'') (\<lambda>ok.
       if \<not> ok then give (p_code E ''R4_REMOTE_FRAME_ERROR_UNSUPPORTED'')
       else desk_call E desk ''remote_frame_publish'' [info, pixels, ucast pixel_count]))"

definition r4desk_supports_remote_frame_regions :: "'w platform \<Rightarrow> handle option \<Rightarrow> query" where
  "r4desk_supports_remote_frame_regions E desk =
     desk_has E desk ''remote_frame_publish_regions''"

definition r4desk_remote_frame_publish_regions ::
  "'w platform \<Rightarrow> handle option \<Rightarrow> u64 \<Rightarrow> u64 \<Rightarrow> u32 \<Rightarrow> u64 \<Rightarrow> u32 \<Rightarrow> (i32, 'w) io" where
  "r4desk_remote_frame_publish_regions E desk info pixels pixel_count regions region_count =
    (ask (r4desk_supports_remote_frame_regions E desk) (\<lambda>ok.
       if \<not> ok then give (p_code E ''R4_REMOTE_FRAME_ERROR_UNSUPPORTED'')
       else if info = 0 \<or> pixels = 0 \<or> pixel_count = 0 \<or> regions = 0 \<or> region_count = 0 \<or> region_count > p_code E ''R4OS_DISPLAY_DAMAGE_MAX_REGIONS'' then give (- 1)
       else desk_call E desk ''remote_frame_publish_regions'' [info, pixels, ucast pixel_count, regions, ucast region_count]))"

definition r4desk_supports_remote_frame_demand :: "'w platform \<Rightarrow> handle option \<Rightarrow> query" where
  "r4desk_supports_remote_frame_demand E desk =
     desk_slots E desk ''remote_frame_consumers'' [''remote_frame_acquire'', ''remote_frame_release'', ''remote_frame_consumers'']"

definition r4desk_remote_frame_acquire ::
  "'w platform \<Rightarrow> handle option \<Rightarrow> (i32, 'w) io" where
  "r4desk_remote_frame_acquire E desk =
    (ask (r4desk_supports_remote_frame_demand E desk) (\<lambda>ok.
       if \<not> ok then give (p_code E ''R4_REMOTE_FRAME_ERROR_UNSUPPORTED'')
       else desk_call E desk ''remote_frame_acquire'' []))"

definition r4desk_remote_frame_release ::
  "'w platform \<Rightarrow> handle option \<Rightarrow> (i32, 'w) io" where
  "r4desk_remote_frame_release E desk =
    (ask (r4desk_supports_remote_frame_demand E desk) (\<lambda>ok.
       if \<not> ok then give (p_code E ''R4_REMOTE_FRAME_ERROR_UNSUPPORTED'')
       else desk_call E desk ''remote_frame_release'' []))"

definition r4desk_remote_frame_consumers ::
  "'w platform \<Rightarrow> handle option \<Rightarrow> (u32, 'w) io" where
  "r4desk_remote_frame_consumers E desk =
    (ask (r4desk_supports_remote_frame_demand E desk) (\<lambda>ok.
       if \<not> ok then give 0
       else desk_call E desk ''remote_frame_consumers'' []))"

definition r4desk_remote_input_push ::
  "'w platform \<Rightarrow> handle option \<Rightarrow> u64 \<Rightarrow> (i32, 'w) io" where
  "r4desk_remote_input_push E desk event =
    (ask (desk_base E desk ''remote_input_push'') (\<lambda>ok.
       if \<not> ok then give (p_code E ''R4_REMOTE_INPUT_ERROR_UNSUPPORTED'')
       else desk_call E desk ''remote_input_push'' [event]))"

definition r4desk_remote_input_poll ::
  "'w platform \<Rightarrow> handle option \<Rightarrow> u64 \<Rightarrow> (i32, 'w) io" where
  "r4desk_remote_input_poll E desk out =
    (ask (desk_base E desk ''remote_input_poll'') (\<lambda>ok.
       if \<not> ok then give (p_code E ''R4_REMOTE_INPUT_ERROR_UNSUPPORTED'')
       else desk_call E desk ''remote_input_poll'' [out]))"

definition r4desk_remote_input_status ::
  "'w platform \<Rightarrow> handle option \<Rightarrow> u64 \<Rightarrow> (i32, 'w) io" where
  "r4desk_remote_input_status E desk out =
    (ask (desk_base E desk ''remote_input_status'') (\<lambda>ok.
       if \<not> ok then give (p_code E ''R4_REMOTE_INPUT_ERROR_UNSUPPORTED'')
       else desk_call E desk ''remote_input_status'' [out]))"

subsection \<open>Every call goes through a slot of the table\<close>

definition desk_capabilities :: "(string \<times> string list) list" where
  "desk_capabilities =
    [(''remote_frame_consumers'', [''remote_frame_acquire'', ''remote_frame_release'', ''remote_frame_consumers''])]"

definition desk_base_slots :: "string list" where
  "desk_base_slots = [''program_window_id'', ''program_set_window_handle'', ''gui_window_info'', ''gui_poll_event'', ''gui_set_title'', ''gui_set_min_size'', ''remote_frame_info'', ''remote_frame_read'', ''remote_frame_wait'', ''remote_frame_publish'', ''remote_input_push'', ''remote_input_poll'', ''remote_input_status'']"

text \<open>What the contract and the loader promise: member layout, slot order, and a table that holds every base slot.\<close>

definition desk_ready :: "'w platform \<Rightarrow> u64 \<Rightarrow> bytes \<Rightarrow> (u64 \<times> nat) list \<Rightarrow> bool" where
  "desk_ready E t V outs \<longleftrightarrow> abi_ok E \<and> keeps_steady E t V outs \<and>
     (\<forall>(l, ss) \<in> set desk_capabilities. before E ''R4Desk'' l ss) \<and>
     (\<forall>s \<in> set desk_base_slots. based E ''R4Desk'' t V s)"

lemma desk_ready_facts:
  assumes "desk_ready E t V outs"
  shows "abi_ok E"
    and "keeps_steady E t V outs"
    and "before E ''R4Desk'' ''remote_frame_consumers'' [''remote_frame_acquire'', ''remote_frame_release'', ''remote_frame_consumers'']"
    and "based E ''R4Desk'' t V ''program_window_id''"
    and "based E ''R4Desk'' t V ''program_set_window_handle''"
    and "based E ''R4Desk'' t V ''gui_window_info''"
    and "based E ''R4Desk'' t V ''gui_poll_event''"
    and "based E ''R4Desk'' t V ''gui_set_title''"
    and "based E ''R4Desk'' t V ''gui_set_min_size''"
    and "based E ''R4Desk'' t V ''remote_frame_info''"
    and "based E ''R4Desk'' t V ''remote_frame_read''"
    and "based E ''R4Desk'' t V ''remote_frame_wait''"
    and "based E ''R4Desk'' t V ''remote_frame_publish''"
    and "based E ''R4Desk'' t V ''remote_input_push''"
    and "based E ''R4Desk'' t V ''remote_input_poll''"
    and "based E ''R4Desk'' t V ''remote_input_status''"
  using assms by (auto simp: desk_ready_def desk_capabilities_def desk_base_slots_def)

lemma desk_base_inside:
  assumes "desk_ready E t V outs" and "t \<noteq> 0"
  shows "p_off E ''R4Desk'' ''program_window_id'' + 8 \<le> length V"
    and "p_off E ''R4Desk'' ''program_set_window_handle'' + 8 \<le> length V"
    and "p_off E ''R4Desk'' ''gui_window_info'' + 8 \<le> length V"
    and "p_off E ''R4Desk'' ''gui_poll_event'' + 8 \<le> length V"
    and "p_off E ''R4Desk'' ''gui_set_title'' + 8 \<le> length V"
    and "p_off E ''R4Desk'' ''gui_set_min_size'' + 8 \<le> length V"
    and "p_off E ''R4Desk'' ''remote_frame_info'' + 8 \<le> length V"
    and "p_off E ''R4Desk'' ''remote_frame_read'' + 8 \<le> length V"
    and "p_off E ''R4Desk'' ''remote_frame_wait'' + 8 \<le> length V"
    and "p_off E ''R4Desk'' ''remote_frame_publish'' + 8 \<le> length V"
    and "p_off E ''R4Desk'' ''remote_input_push'' + 8 \<le> length V"
    and "p_off E ''R4Desk'' ''remote_input_poll'' + 8 \<le> length V"
    and "p_off E ''R4Desk'' ''remote_input_status'' + 8 \<le> length V"
  using assms by (auto simp: desk_ready_def desk_base_slots_def based_def)

lemmas desk_supports = r4desk_supports_remote_frame_regions_def r4desk_supports_remote_frame_demand_def

lemma r4desk_gui_window_appearance_admitted:
  "desk_ready E (table_of desk) V outs \<Longrightarrow>
    admitted (table_of desk) V outs (r4desk_gui_window_appearance E desk window out)"
  unfolding r4desk_gui_window_appearance_def ask_connectives
  by (intro admits admits_tests admits_objects) (auto dest: opens_all_opens opens_all_nonnull opens_nonnull slot_inside simp: desk_ready_facts desk_base_inside)

lemma r4desk_gui_host_input_admitted:
  "desk_ready E (table_of desk) V outs \<Longrightarrow>
    admitted (table_of desk) V outs (r4desk_gui_host_input E desk request out)"
  unfolding r4desk_gui_host_input_def ask_connectives
  by (intro admits admits_tests admits_objects) (auto dest: opens_all_opens opens_all_nonnull opens_nonnull slot_inside simp: desk_ready_facts desk_base_inside)

lemma r4desk_gui_pointer_capture_info_admitted:
  "desk_ready E (table_of desk) V outs \<Longrightarrow>
    admitted (table_of desk) V outs (r4desk_gui_pointer_capture_info E desk capture out)"
  unfolding r4desk_gui_pointer_capture_info_def ask_connectives
  by (intro admits admits_tests admits_objects) (auto dest: opens_all_opens opens_all_nonnull opens_nonnull slot_inside simp: desk_ready_facts desk_base_inside)

lemma r4desk_gui_pointer_capture_acquire_admitted:
  "desk_ready E (table_of desk) V outs \<Longrightarrow>
    admitted (table_of desk) V outs (r4desk_gui_pointer_capture_acquire E desk window mode out)"
  unfolding r4desk_gui_pointer_capture_acquire_def ask_connectives
  by (intro admits admits_tests admits_objects) (auto dest: opens_all_opens opens_all_nonnull opens_nonnull slot_inside simp: desk_ready_facts desk_base_inside)

lemma r4desk_gui_pointer_capture_release_admitted:
  "desk_ready E (table_of desk) V outs \<Longrightarrow>
    admitted (table_of desk) V outs (r4desk_gui_pointer_capture_release E desk capture)"
  unfolding r4desk_gui_pointer_capture_release_def ask_connectives
  by (intro admits admits_tests admits_objects) (auto dest: opens_all_opens opens_all_nonnull opens_nonnull slot_inside simp: desk_ready_facts desk_base_inside)

lemma r4desk_gui_pointer_capture_host_admitted:
  "desk_ready E (table_of desk) V outs \<Longrightarrow>
    admitted (table_of desk) V outs (r4desk_gui_pointer_capture_host E desk request out)"
  unfolding r4desk_gui_pointer_capture_host_def ask_connectives
  by (intro admits admits_tests admits_objects) (auto dest: opens_all_opens opens_all_nonnull opens_nonnull slot_inside simp: desk_ready_facts desk_base_inside)

lemma r4desk_mouse_motion_admitted:
  "desk_ready E (table_of desk) V outs \<Longrightarrow>
    admitted (table_of desk) V outs (r4desk_mouse_motion E desk output)"
  unfolding r4desk_mouse_motion_def ask_connectives
  by (intro admits admits_tests admits_objects) (auto dest: opens_all_opens opens_all_nonnull opens_nonnull slot_inside simp: desk_ready_facts desk_base_inside)

lemma r4desk_read_key_codepoint_admitted:
  "desk_ready E (table_of desk) V outs \<Longrightarrow>
    admitted (table_of desk) V outs (r4desk_read_key_codepoint E desk)"
  unfolding r4desk_read_key_codepoint_def ask_connectives
  by (intro admits admits_tests admits_objects) (auto dest: opens_all_opens opens_all_nonnull opens_nonnull slot_inside simp: desk_ready_facts desk_base_inside)

lemma r4desk_remote_frame_snapshot_acquire_admitted:
  "desk_ready E (table_of desk) V outs \<Longrightarrow>
    admitted (table_of desk) V outs (r4desk_remote_frame_snapshot_acquire E desk expected info lease)"
  unfolding r4desk_remote_frame_snapshot_acquire_def ask_connectives
  by (intro admits admits_tests admits_objects) (auto dest: opens_all_opens opens_all_nonnull opens_nonnull slot_inside simp: desk_ready_facts desk_base_inside)

lemma r4desk_remote_frame_snapshot_release_admitted:
  "desk_ready E (table_of desk) V outs \<Longrightarrow>
    admitted (table_of desk) V outs (r4desk_remote_frame_snapshot_release E desk lease)"
  unfolding r4desk_remote_frame_snapshot_release_def ask_connectives
  by (intro admits admits_tests admits_objects) (auto dest: opens_all_opens opens_all_nonnull opens_nonnull slot_inside simp: desk_ready_facts desk_base_inside)

lemma r4desk_remote_frame_source_reset_admitted:
  "desk_ready E (table_of desk) V outs \<Longrightarrow>
    admitted (table_of desk) V outs (r4desk_remote_frame_source_reset E desk)"
  unfolding r4desk_remote_frame_source_reset_def ask_connectives
  by (intro admits admits_tests admits_objects) (auto dest: opens_all_opens opens_all_nonnull opens_nonnull slot_inside simp: desk_ready_facts desk_base_inside)

lemma r4desk_remote_frame_capture_stats_admitted:
  "desk_ready E (table_of desk) V outs \<Longrightarrow>
    admitted (table_of desk) V outs (r4desk_remote_frame_capture_stats E desk output)"
  unfolding r4desk_remote_frame_capture_stats_def ask_connectives
  by (intro admits admits_tests admits_objects) (auto dest: opens_all_opens opens_all_nonnull opens_nonnull slot_inside simp: desk_ready_facts desk_base_inside)

lemma r4desk_console_input_wait_admitted:
  "desk_ready E (table_of desk) V outs \<Longrightarrow> (out_generation \<noteq> 0 \<longrightarrow> inside_out outs out_generation 8) \<Longrightarrow>
    admitted (table_of desk) V outs (r4desk_console_input_wait E desk last_generation timeout_ticks out_generation)"
  unfolding r4desk_console_input_wait_def ask_connectives
  by (intro admits admits_tests admits_objects admitted_store) (auto dest: opens_all_opens opens_all_nonnull opens_nonnull slot_inside simp: desk_ready_facts desk_base_inside)

lemma r4desk_physical_key_poll_admitted:
  "desk_ready E (table_of desk) V outs \<Longrightarrow> (out_event \<noteq> 0 \<longrightarrow> out_ok E outs out_event ''R4PhysicalKeyEvent'') \<Longrightarrow>
    admitted (table_of desk) V outs (r4desk_physical_key_poll E desk out_event)"
  unfolding r4desk_physical_key_poll_def ask_connectives
  by (intro admits admits_tests admits_objects) (auto dest: opens_all_opens opens_all_nonnull opens_nonnull slot_inside simp: desk_ready_facts desk_base_inside)

lemma r4desk_program_window_id_admitted:
  "desk_ready E (table_of desk) V outs \<Longrightarrow>
    admitted (table_of desk) V outs (r4desk_program_window_id E desk)"
  unfolding r4desk_program_window_id_def ask_connectives
  by (intro admits admits_tests admits_objects) (auto dest: opens_all_opens opens_all_nonnull opens_nonnull slot_inside simp: desk_ready_facts desk_base_inside)

lemma r4desk_program_set_window_handle_admitted:
  "desk_ready E (table_of desk) V outs \<Longrightarrow>
    admitted (table_of desk) V outs (r4desk_program_set_window_handle E desk handle window_id)"
  unfolding r4desk_program_set_window_handle_def ask_connectives
  by (intro admits admits_tests admits_objects) (auto dest: opens_all_opens opens_all_nonnull opens_nonnull slot_inside simp: desk_ready_facts desk_base_inside)

lemma r4desk_gui_window_info_admitted:
  "desk_ready E (table_of desk) V outs \<Longrightarrow>
    admitted (table_of desk) V outs (r4desk_gui_window_info E desk out)"
  unfolding r4desk_gui_window_info_def ask_connectives
  by (intro admits admits_tests admits_objects) (auto dest: opens_all_opens opens_all_nonnull opens_nonnull slot_inside simp: desk_ready_facts desk_base_inside)

lemma r4desk_gui_poll_event_admitted:
  "desk_ready E (table_of desk) V outs \<Longrightarrow>
    admitted (table_of desk) V outs (r4desk_gui_poll_event E desk out)"
  unfolding r4desk_gui_poll_event_def ask_connectives
  by (intro admits admits_tests admits_objects) (auto dest: opens_all_opens opens_all_nonnull opens_nonnull slot_inside simp: desk_ready_facts desk_base_inside)

lemma r4desk_gui_set_title_admitted:
  "desk_ready E (table_of desk) V outs \<Longrightarrow>
    admitted (table_of desk) V outs (r4desk_gui_set_title E desk text_ptr)"
  unfolding r4desk_gui_set_title_def ask_connectives
  by (intro admits admits_tests admits_objects) (auto dest: opens_all_opens opens_all_nonnull opens_nonnull slot_inside simp: desk_ready_facts desk_base_inside)

lemma r4desk_gui_set_min_size_admitted:
  "desk_ready E (table_of desk) V outs \<Longrightarrow>
    admitted (table_of desk) V outs (r4desk_gui_set_min_size E desk w h)"
  unfolding r4desk_gui_set_min_size_def ask_connectives
  by (intro admits admits_tests admits_objects) (auto dest: opens_all_opens opens_all_nonnull opens_nonnull slot_inside simp: desk_ready_facts desk_base_inside)

lemma r4desk_remote_frame_info_admitted:
  "desk_ready E (table_of desk) V outs \<Longrightarrow>
    admitted (table_of desk) V outs (r4desk_remote_frame_info E desk out)"
  unfolding r4desk_remote_frame_info_def ask_connectives
  by (intro admits admits_tests admits_objects) (auto dest: opens_all_opens opens_all_nonnull opens_nonnull slot_inside simp: desk_ready_facts desk_base_inside)

lemma r4desk_remote_frame_read_admitted:
  "desk_ready E (table_of desk) V outs \<Longrightarrow>
    admitted (table_of desk) V outs (r4desk_remote_frame_read E desk offset_pixels out pixel_count out_info)"
  unfolding r4desk_remote_frame_read_def ask_connectives
  by (intro admits admits_tests admits_objects) (auto dest: opens_all_opens opens_all_nonnull opens_nonnull slot_inside simp: desk_ready_facts desk_base_inside)

lemma r4desk_remote_frame_wait_admitted:
  "desk_ready E (table_of desk) V outs \<Longrightarrow>
    admitted (table_of desk) V outs (r4desk_remote_frame_wait E desk last_revision timeout_ticks out)"
  unfolding r4desk_remote_frame_wait_def ask_connectives
  by (intro admits admits_tests admits_objects) (auto dest: opens_all_opens opens_all_nonnull opens_nonnull slot_inside simp: desk_ready_facts desk_base_inside)

lemma r4desk_remote_frame_publish_admitted:
  "desk_ready E (table_of desk) V outs \<Longrightarrow>
    admitted (table_of desk) V outs (r4desk_remote_frame_publish E desk info pixels pixel_count)"
  unfolding r4desk_remote_frame_publish_def ask_connectives
  by (intro admits admits_tests admits_objects) (auto dest: opens_all_opens opens_all_nonnull opens_nonnull slot_inside simp: desk_ready_facts desk_base_inside)

lemma r4desk_remote_frame_publish_regions_admitted:
  "desk_ready E (table_of desk) V outs \<Longrightarrow>
    admitted (table_of desk) V outs (r4desk_remote_frame_publish_regions E desk info pixels pixel_count regions region_count)"
  unfolding r4desk_remote_frame_publish_regions_def desk_supports ask_connectives
  by (intro admits admits_tests admits_objects) (auto dest: opens_all_opens opens_all_nonnull opens_nonnull slot_inside simp: desk_ready_facts desk_base_inside)

lemma r4desk_remote_frame_acquire_admitted:
  "desk_ready E (table_of desk) V outs \<Longrightarrow>
    admitted (table_of desk) V outs (r4desk_remote_frame_acquire E desk)"
  unfolding r4desk_remote_frame_acquire_def desk_supports ask_connectives
  by (intro admits admits_tests admits_objects) (auto dest: opens_all_opens opens_all_nonnull opens_nonnull slot_inside simp: desk_ready_facts desk_base_inside)

lemma r4desk_remote_frame_release_admitted:
  "desk_ready E (table_of desk) V outs \<Longrightarrow>
    admitted (table_of desk) V outs (r4desk_remote_frame_release E desk)"
  unfolding r4desk_remote_frame_release_def desk_supports ask_connectives
  by (intro admits admits_tests admits_objects) (auto dest: opens_all_opens opens_all_nonnull opens_nonnull slot_inside simp: desk_ready_facts desk_base_inside)

lemma r4desk_remote_frame_consumers_admitted:
  "desk_ready E (table_of desk) V outs \<Longrightarrow>
    admitted (table_of desk) V outs (r4desk_remote_frame_consumers E desk)"
  unfolding r4desk_remote_frame_consumers_def desk_supports ask_connectives
  by (intro admits admits_tests admits_objects) (auto dest: opens_all_opens opens_all_nonnull opens_nonnull slot_inside simp: desk_ready_facts desk_base_inside)

lemma r4desk_remote_input_push_admitted:
  "desk_ready E (table_of desk) V outs \<Longrightarrow>
    admitted (table_of desk) V outs (r4desk_remote_input_push E desk event)"
  unfolding r4desk_remote_input_push_def ask_connectives
  by (intro admits admits_tests admits_objects) (auto dest: opens_all_opens opens_all_nonnull opens_nonnull slot_inside simp: desk_ready_facts desk_base_inside)

lemma r4desk_remote_input_poll_admitted:
  "desk_ready E (table_of desk) V outs \<Longrightarrow>
    admitted (table_of desk) V outs (r4desk_remote_input_poll E desk out)"
  unfolding r4desk_remote_input_poll_def ask_connectives
  by (intro admits admits_tests admits_objects) (auto dest: opens_all_opens opens_all_nonnull opens_nonnull slot_inside simp: desk_ready_facts desk_base_inside)

lemma r4desk_remote_input_status_admitted:
  "desk_ready E (table_of desk) V outs \<Longrightarrow>
    admitted (table_of desk) V outs (r4desk_remote_input_status E desk out)"
  unfolding r4desk_remote_input_status_def ask_connectives
  by (intro admits admits_tests admits_objects) (auto dest: opens_all_opens opens_all_nonnull opens_nonnull slot_inside simp: desk_ready_facts desk_base_inside)

text \<open>
  On every resident desktop table the wrappers of the desktop facade stay inside the table
  and the caller's objects, never get stuck, and call only through nonnull slots inside the
  announced size.\<close>

theorem r4desk_calls_admitted:
  assumes "desk_ready E (table_of desk) V outs"
  shows "(\<forall>window out. admitted (table_of desk) V outs (r4desk_gui_window_appearance E desk window out)) \<and>
    (\<forall>request out. admitted (table_of desk) V outs (r4desk_gui_host_input E desk request out)) \<and>
    (\<forall>capture out. admitted (table_of desk) V outs (r4desk_gui_pointer_capture_info E desk capture out)) \<and>
    (\<forall>window mode out. admitted (table_of desk) V outs (r4desk_gui_pointer_capture_acquire E desk window mode out)) \<and>
    (\<forall>capture. admitted (table_of desk) V outs (r4desk_gui_pointer_capture_release E desk capture)) \<and>
    (\<forall>request out. admitted (table_of desk) V outs (r4desk_gui_pointer_capture_host E desk request out)) \<and>
    (\<forall>output. admitted (table_of desk) V outs (r4desk_mouse_motion E desk output)) \<and>
    (admitted (table_of desk) V outs (r4desk_read_key_codepoint E desk)) \<and>
    (\<forall>expected info lease. admitted (table_of desk) V outs (r4desk_remote_frame_snapshot_acquire E desk expected info lease)) \<and>
    (\<forall>lease. admitted (table_of desk) V outs (r4desk_remote_frame_snapshot_release E desk lease)) \<and>
    (admitted (table_of desk) V outs (r4desk_remote_frame_source_reset E desk)) \<and>
    (\<forall>output. admitted (table_of desk) V outs (r4desk_remote_frame_capture_stats E desk output)) \<and>
    (\<forall>last_generation timeout_ticks out_generation. (out_generation \<noteq> 0 \<longrightarrow> inside_out outs out_generation 8) \<longrightarrow> admitted (table_of desk) V outs (r4desk_console_input_wait E desk last_generation timeout_ticks out_generation)) \<and>
    (\<forall>out_event. (out_event \<noteq> 0 \<longrightarrow> out_ok E outs out_event ''R4PhysicalKeyEvent'') \<longrightarrow> admitted (table_of desk) V outs (r4desk_physical_key_poll E desk out_event)) \<and>
    (admitted (table_of desk) V outs (r4desk_program_window_id E desk)) \<and>
    (\<forall>handle window_id. admitted (table_of desk) V outs (r4desk_program_set_window_handle E desk handle window_id)) \<and>
    (\<forall>out. admitted (table_of desk) V outs (r4desk_gui_window_info E desk out)) \<and>
    (\<forall>out. admitted (table_of desk) V outs (r4desk_gui_poll_event E desk out)) \<and>
    (\<forall>text_ptr. admitted (table_of desk) V outs (r4desk_gui_set_title E desk text_ptr)) \<and>
    (\<forall>w h. admitted (table_of desk) V outs (r4desk_gui_set_min_size E desk w h)) \<and>
    (\<forall>out. admitted (table_of desk) V outs (r4desk_remote_frame_info E desk out)) \<and>
    (\<forall>offset_pixels out pixel_count out_info. admitted (table_of desk) V outs (r4desk_remote_frame_read E desk offset_pixels out pixel_count out_info)) \<and>
    (\<forall>last_revision timeout_ticks out. admitted (table_of desk) V outs (r4desk_remote_frame_wait E desk last_revision timeout_ticks out)) \<and>
    (\<forall>info pixels pixel_count. admitted (table_of desk) V outs (r4desk_remote_frame_publish E desk info pixels pixel_count)) \<and>
    (\<forall>info pixels pixel_count regions region_count. admitted (table_of desk) V outs (r4desk_remote_frame_publish_regions E desk info pixels pixel_count regions region_count)) \<and>
    (admitted (table_of desk) V outs (r4desk_remote_frame_acquire E desk)) \<and>
    (admitted (table_of desk) V outs (r4desk_remote_frame_release E desk)) \<and>
    (admitted (table_of desk) V outs (r4desk_remote_frame_consumers E desk)) \<and>
    (\<forall>event. admitted (table_of desk) V outs (r4desk_remote_input_push E desk event)) \<and>
    (\<forall>out. admitted (table_of desk) V outs (r4desk_remote_input_poll E desk out)) \<and>
    (\<forall>out. admitted (table_of desk) V outs (r4desk_remote_input_status E desk out))"
  by (intro conjI allI impI; (elim conjE)?; rule r4desk_gui_window_appearance_admitted r4desk_gui_host_input_admitted r4desk_gui_pointer_capture_info_admitted r4desk_gui_pointer_capture_acquire_admitted r4desk_gui_pointer_capture_release_admitted r4desk_gui_pointer_capture_host_admitted r4desk_mouse_motion_admitted r4desk_read_key_codepoint_admitted r4desk_remote_frame_snapshot_acquire_admitted r4desk_remote_frame_snapshot_release_admitted r4desk_remote_frame_source_reset_admitted r4desk_remote_frame_capture_stats_admitted r4desk_console_input_wait_admitted r4desk_physical_key_poll_admitted r4desk_program_window_id_admitted r4desk_program_set_window_handle_admitted r4desk_gui_window_info_admitted r4desk_gui_poll_event_admitted r4desk_gui_set_title_admitted r4desk_gui_set_min_size_admitted r4desk_remote_frame_info_admitted r4desk_remote_frame_read_admitted r4desk_remote_frame_wait_admitted r4desk_remote_frame_publish_admitted r4desk_remote_frame_publish_regions_admitted r4desk_remote_frame_acquire_admitted r4desk_remote_frame_release_admitted r4desk_remote_frame_consumers_admitted r4desk_remote_input_push_admitted r4desk_remote_input_poll_admitted r4desk_remote_input_status_admitted; (rule assms | assumption))

theorem r4desk_calls_admitted_witness:
  "admitted (table_of sample_handle) sample_table [] (r4desk_gui_set_min_size sample_platform sample_handle 5 6) \<and>
   admitted (table_of sample_handle) sample_table [] (r4desk_remote_frame_release sample_platform sample_handle)"
proof -
  have "desk_ready sample_platform (table_of sample_handle) sample_table []"
    by (auto simp: desk_ready_def desk_capabilities_def desk_base_slots_def abi_ok_def keeps_steady_def before_def based_def
      sample_platform_def sample_table_def)
  from r4desk_calls_admitted [OF this] show ?thesis by simp
qed

end
