(* ===== verification/DevCalls.thy ===== *)
theory DevCalls
  imports Platform
begin

text \<open>
  The wrappers of \<open>Shared/C/include/r4os/r4dev.h\<close>, \<open>r4audio.h\<close> and \<open>serial.h\<close>: processor
  power and performance queries, memory and performance counters, the audio catalogue and
  the serial ports, which are slots of the device table.
\<close>

subsection \<open>Tests and calls on the table\<close>

abbreviation dev_has where "dev_has E h slot \<equiv> has_slot E ''R4Dev'' (table_of h) slot"
abbreviation dev_field where "dev_field E h slot \<equiv> has_field E ''R4Dev'' (table_of h) slot"
abbreviation dev_base where "dev_base E h slot \<equiv> has_base E ''R4Dev'' (table_of h) slot"
abbreviation dev_tail where "dev_tail E h slot \<equiv> tail_slot E ''R4Dev'' (table_of h) slot"
abbreviation dev_filled where "dev_filled E h slot \<equiv> filled E ''R4Dev'' (table_of h) slot"
abbreviation dev_slots where "dev_slots E h last_slot slots \<equiv> has_slots E ''R4Dev'' (table_of h) last_slot slots"
abbreviation dev_tail_slots where "dev_tail_slots E h last_slot slots \<equiv> tail_slots E ''R4Dev'' (table_of h) last_slot slots"
abbreviation dev_call where "dev_call E h slot args \<equiv> call_slot E ''R4Dev'' (table_of h) slot args"

subsection \<open>The code\<close>

text \<open>Two operations pass the address of a local copy of the work function.\<close>

definition r4dev_cpu_acceleration_work ::
  "'w platform \<Rightarrow> handle option \<Rightarrow> u32 \<Rightarrow> u32 \<Rightarrow> u64 \<Rightarrow> u64 \<Rightarrow> u64 \<Rightarrow> (i32, 'w) io" where
  "r4dev_cpu_acceleration_work E dev kind iterations work context out =
    (if out = 0 \<or> work = 0 then give (p_code E ''R4OS_CPU_CAPABILITIES_ERROR_INVALID'')
     else ask (dev_has E dev ''cpu_acceleration_work'') (\<lambda>ok.
     if \<not> ok then give (p_code E ''R4OS_ERR_NO_FN'')
     else and_then (store (p_frame E) (le_bytes 8 work)) (\<lambda>_.
       dev_call E dev ''cpu_acceleration_work'' [ucast kind, ucast iterations, p_frame E, context, out])))"

definition r4dev_cpu_pmu_measure ::
  "'w platform \<Rightarrow> handle option \<Rightarrow> u32 \<Rightarrow> u64 \<Rightarrow> u32 \<Rightarrow> u32 \<Rightarrow> u64 \<Rightarrow> u64 \<Rightarrow> u64 \<Rightarrow> (i32, 'w) io" where
  "r4dev_cpu_pmu_measure E dev cpu epoch event iterations work context out =
    (if out = 0 then give (p_code E ''R4OS_CPU_CAPABILITIES_ERROR_INVALID'')
     else ask (dev_has E dev ''cpu_pmu_measure'') (\<lambda>ok.
     if \<not> ok then give (p_code E ''R4OS_ERR_NO_FN'')
     else if work = 0 then give (p_code E ''R4OS_CPU_CAPABILITIES_ERROR_INVALID'')
     else and_then (store (p_frame E) (le_bytes 8 work)) (\<lambda>_.
       dev_call E dev ''cpu_pmu_measure'' [ucast cpu, epoch, ucast event, ucast iterations, p_frame E, context, out])))"


definition r4dev_cpu_capabilities ::
  "'w platform \<Rightarrow> handle option \<Rightarrow> u32 \<Rightarrow> u64 \<Rightarrow> (i32, 'w) io" where
  "r4dev_cpu_capabilities E dev cpu out =
    (if out = 0 then give (p_code E ''R4OS_CPU_CAPABILITIES_ERROR_INVALID'')
       else ask (dev_has E dev ''cpu_capabilities'') (\<lambda>ok.
       if \<not> ok then give (p_code E ''R4OS_ERR_NO_FN'')
       else dev_call E dev ''cpu_capabilities'' [ucast cpu, out]))"

definition r4dev_cpu_feature ::
  "'w platform \<Rightarrow> handle option \<Rightarrow> u32 \<Rightarrow> u64 \<Rightarrow> u32 \<Rightarrow> u64 \<Rightarrow> (i32, 'w) io" where
  "r4dev_cpu_feature E dev cpu epoch index out =
    (if out = 0 then give (p_code E ''R4OS_CPU_CAPABILITIES_ERROR_INVALID'')
       else ask (dev_has E dev ''cpu_feature'') (\<lambda>ok.
       if \<not> ok then give (p_code E ''R4OS_ERR_NO_FN'')
       else dev_call E dev ''cpu_feature'' [ucast cpu, epoch, ucast index, out]))"

definition r4dev_cpu_register_read ::
  "'w platform \<Rightarrow> handle option \<Rightarrow> u32 \<Rightarrow> u64 \<Rightarrow> u32 \<Rightarrow> u64 \<Rightarrow> (i32, 'w) io" where
  "r4dev_cpu_register_read E dev cpu epoch id_v out =
    (if out = 0 then give (p_code E ''R4OS_CPU_CAPABILITIES_ERROR_INVALID'')
       else ask (dev_has E dev ''cpu_register_read'') (\<lambda>ok.
       if \<not> ok then give (p_code E ''R4OS_ERR_NO_FN'')
       else dev_call E dev ''cpu_register_read'' [ucast cpu, epoch, ucast id_v, out]))"

definition r4dev_cpu_power_info ::
  "'w platform \<Rightarrow> handle option \<Rightarrow> u32 \<Rightarrow> u64 \<Rightarrow> u64 \<Rightarrow> (i32, 'w) io" where
  "r4dev_cpu_power_info E dev cpu epoch out =
    (if out = 0 then give (p_code E ''R4OS_CPU_CAPABILITIES_ERROR_INVALID'')
       else ask (dev_has E dev ''cpu_power_info'') (\<lambda>ok.
       if \<not> ok then give (p_code E ''R4OS_ERR_NO_FN'')
       else dev_call E dev ''cpu_power_info'' [ucast cpu, epoch, out]))"

definition r4dev_cpu_performance ::
  "'w platform \<Rightarrow> handle option \<Rightarrow> u64 \<Rightarrow> u64 \<Rightarrow> (i32, 'w) io" where
  "r4dev_cpu_performance E dev request out =
    (if request = 0 \<or> out = 0 then give (p_code E ''R4OS_CPU_CAPABILITIES_ERROR_INVALID'')
       else ask (dev_has E dev ''cpu_performance'') (\<lambda>ok.
       if \<not> ok then give (p_code E ''R4OS_ERR_NO_FN'')
       else dev_call E dev ''cpu_performance'' [request, out]))"

definition r4dev_cpu_cppc ::
  "'w platform \<Rightarrow> handle option \<Rightarrow> u64 \<Rightarrow> u64 \<Rightarrow> (i32, 'w) io" where
  "r4dev_cpu_cppc E dev request out =
    (if request = 0 \<or> out = 0 then give (p_code E ''R4OS_CPU_CAPABILITIES_ERROR_INVALID'')
       else ask (dev_has E dev ''cpu_cppc'') (\<lambda>ok.
       if \<not> ok then give (p_code E ''R4OS_ERR_NO_FN'')
       else dev_call E dev ''cpu_cppc'' [request, out]))"

definition r4dev_cpu_firmware_performance ::
  "'w platform \<Rightarrow> handle option \<Rightarrow> u64 \<Rightarrow> u64 \<Rightarrow> (i32, 'w) io" where
  "r4dev_cpu_firmware_performance E dev request out =
    (if request = 0 \<or> out = 0 then give (p_code E ''R4OS_CPU_CAPABILITIES_ERROR_INVALID'')
       else ask (dev_has E dev ''cpu_firmware_performance'') (\<lambda>ok.
       if \<not> ok then give (p_code E ''R4OS_ERR_NO_FN'')
       else dev_call E dev ''cpu_firmware_performance'' [request, out]))"

definition r4dev_cpu_idle_info ::
  "'w platform \<Rightarrow> handle option \<Rightarrow> u32 \<Rightarrow> u64 \<Rightarrow> (i32, 'w) io" where
  "r4dev_cpu_idle_info E dev cpu out =
    (if out = 0 then give (p_code E ''R4OS_CPU_CAPABILITIES_ERROR_INVALID'')
       else ask (dev_has E dev ''cpu_idle_info'') (\<lambda>ok.
       if \<not> ok then give (p_code E ''R4OS_ERR_NO_FN'')
       else dev_call E dev ''cpu_idle_info'' [ucast cpu, out]))"

definition r4dev_cpu_microcode_info ::
  "'w platform \<Rightarrow> handle option \<Rightarrow> u32 \<Rightarrow> u64 \<Rightarrow> (i32, 'w) io" where
  "r4dev_cpu_microcode_info E dev cpu out =
    (if out = 0 then give (p_code E ''R4OS_CPU_CAPABILITIES_ERROR_INVALID'')
       else ask (dev_has E dev ''cpu_microcode_info'') (\<lambda>ok.
       if \<not> ok then give (p_code E ''R4OS_ERR_NO_FN'')
       else dev_call E dev ''cpu_microcode_info'' [ucast cpu, out]))"

definition r4dev_cpu_acceleration_info ::
  "'w platform \<Rightarrow> handle option \<Rightarrow> u64 \<Rightarrow> (i32, 'w) io" where
  "r4dev_cpu_acceleration_info E dev out =
    (if out = 0 then give (p_code E ''R4OS_CPU_CAPABILITIES_ERROR_INVALID'')
       else ask (dev_has E dev ''cpu_acceleration_info'') (\<lambda>ok.
       if \<not> ok then give (p_code E ''R4OS_ERR_NO_FN'')
       else dev_call E dev ''cpu_acceleration_info'' [out]))"

definition r4dev_cpu_pmu_info ::
  "'w platform \<Rightarrow> handle option \<Rightarrow> u32 \<Rightarrow> u64 \<Rightarrow> (i32, 'w) io" where
  "r4dev_cpu_pmu_info E dev cpu out =
    (if out = 0 then give (p_code E ''R4OS_CPU_CAPABILITIES_ERROR_INVALID'')
       else ask (dev_has E dev ''cpu_pmu_info'') (\<lambda>ok.
       if \<not> ok then give (p_code E ''R4OS_ERR_NO_FN'')
       else dev_call E dev ''cpu_pmu_info'' [ucast cpu, out]))"

definition r4dev_cpu_pmu_result ::
  "'w platform \<Rightarrow> handle option \<Rightarrow> u32 \<Rightarrow> u64 \<Rightarrow> u64 \<Rightarrow> u64 \<Rightarrow> (i32, 'w) io" where
  "r4dev_cpu_pmu_result E dev cpu epoch generation out =
    (if out = 0 then give (p_code E ''R4OS_CPU_CAPABILITIES_ERROR_INVALID'')
       else ask (dev_has E dev ''cpu_pmu_result'') (\<lambda>ok.
       if \<not> ok then give (p_code E ''R4OS_ERR_NO_FN'')
       else dev_call E dev ''cpu_pmu_result'' [ucast cpu, epoch, generation, out]))"

definition r4dev_cpu_machine_info ::
  "'w platform \<Rightarrow> handle option \<Rightarrow> u32 \<Rightarrow> u64 \<Rightarrow> (i32, 'w) io" where
  "r4dev_cpu_machine_info E dev cpu out =
    (if out = 0 then give (p_code E ''R4OS_CPU_CAPABILITIES_ERROR_INVALID'')
       else ask (dev_has E dev ''cpu_machine_info'') (\<lambda>ok.
       if \<not> ok then give (p_code E ''R4OS_ERR_NO_FN'')
       else dev_call E dev ''cpu_machine_info'' [ucast cpu, out]))"

definition r4dev_cpu_machine_bank ::
  "'w platform \<Rightarrow> handle option \<Rightarrow> u32 \<Rightarrow> u64 \<Rightarrow> u64 \<Rightarrow> u32 \<Rightarrow> u64 \<Rightarrow> (i32, 'w) io" where
  "r4dev_cpu_machine_bank E dev cpu epoch sequence bank out =
    (if out = 0 then give (p_code E ''R4OS_CPU_CAPABILITIES_ERROR_INVALID'')
       else ask (dev_has E dev ''cpu_machine_bank'') (\<lambda>ok.
       if \<not> ok then give (p_code E ''R4OS_ERR_NO_FN'')
       else dev_call E dev ''cpu_machine_bank'' [ucast cpu, epoch, sequence, ucast bank, out]))"

definition r4dev_cpu_performance_hint ::
  "'w platform \<Rightarrow> handle option \<Rightarrow> u32 \<Rightarrow> u64 \<Rightarrow> u64 \<Rightarrow> (i32, 'w) io" where
  "r4dev_cpu_performance_hint E dev cpu epoch out =
    (if out = 0 then give (p_code E ''R4OS_CPU_CAPABILITIES_ERROR_INVALID'')
       else ask (dev_has E dev ''cpu_performance_hint'') (\<lambda>ok.
       if \<not> ok then give (p_code E ''R4OS_ERR_NO_FN'')
       else dev_call E dev ''cpu_performance_hint'' [ucast cpu, epoch, out]))"

definition r4dev_cpu_power_capture ::
  "'w platform \<Rightarrow> handle option \<Rightarrow> u32 \<Rightarrow> u64 \<Rightarrow> u64 \<Rightarrow> (i32, 'w) io" where
  "r4dev_cpu_power_capture E dev cpu epoch out =
    (if out = 0 then give (p_code E ''R4OS_CPU_CAPABILITIES_ERROR_INVALID'')
       else ask (dev_has E dev ''cpu_power_capture'') (\<lambda>ok.
       if \<not> ok then give (p_code E ''R4OS_ERR_NO_FN'')
       else dev_call E dev ''cpu_power_capture'' [ucast cpu, epoch, out]))"

definition r4dev_kernel_cpu_register_check ::
  "'w platform \<Rightarrow> handle option \<Rightarrow> u32 \<Rightarrow> u64 \<Rightarrow> u64 \<Rightarrow> (i32, 'w) io" where
  "r4dev_kernel_cpu_register_check E dev cpu epoch out =
    (if out = 0 then give (p_code E ''R4OS_CPU_CAPABILITIES_ERROR_INVALID'')
       else ask (dev_has E dev ''kernel_cpu_register_check'') (\<lambda>ok.
       if \<not> ok then give (p_code E ''R4OS_ERR_NO_FN'')
       else dev_call E dev ''kernel_cpu_register_check'' [ucast cpu, epoch, out]))"

definition r4dev_cpu_lifecycle ::
  "'w platform \<Rightarrow> handle option \<Rightarrow> u32 \<Rightarrow> u32 \<Rightarrow> u64 \<Rightarrow> u64 \<Rightarrow> (i32, 'w) io" where
  "r4dev_cpu_lifecycle E dev operation cpu expected_epoch out =
    (if out = 0 then give (p_code E ''R4OS_CPU_LIFECYCLE_ERROR_INVALID'')
       else ask (dev_has E dev ''cpu_lifecycle'') (\<lambda>ok.
       if \<not> ok then give (p_code E ''R4OS_ERR_NO_FN'')
       else dev_call E dev ''cpu_lifecycle'' [ucast operation, ucast cpu, expected_epoch, out]))"

definition r4dev_kernel_cpu_lifecycle_check ::
  "'w platform \<Rightarrow> handle option \<Rightarrow> u64 \<Rightarrow> (i32, 'w) io" where
  "r4dev_kernel_cpu_lifecycle_check E dev out =
    (if out = 0 then give (p_code E ''R4OS_CPU_LIFECYCLE_ERROR_INVALID'')
       else ask (dev_has E dev ''kernel_cpu_lifecycle_check'') (\<lambda>ok.
       if \<not> ok then give (p_code E ''R4OS_ERR_NO_FN'')
       else dev_call E dev ''kernel_cpu_lifecycle_check'' [out]))"

definition r4dev_cpu_topology ::
  "'w platform \<Rightarrow> handle option \<Rightarrow> u32 \<Rightarrow> u64 \<Rightarrow> (i32, 'w) io" where
  "r4dev_cpu_topology E dev cpu_index out =
    (if out = 0 then give (- 1)
       else ask (dev_has E dev ''cpu_topology'') (\<lambda>ok.
       if \<not> ok then give (p_code E ''R4OS_ERR_NO_FN'')
       else dev_call E dev ''cpu_topology'' [ucast cpu_index, out]))"

definition r4dev_cpu_cache_topology ::
  "'w platform \<Rightarrow> handle option \<Rightarrow> u32 \<Rightarrow> u32 \<Rightarrow> u64 \<Rightarrow> (i32, 'w) io" where
  "r4dev_cpu_cache_topology E dev cpu_index cache_index out =
    (if out = 0 then give (- 1)
       else ask (dev_has E dev ''cpu_cache_topology'') (\<lambda>ok.
       if \<not> ok then give (p_code E ''R4OS_ERR_NO_FN'')
       else dev_call E dev ''cpu_cache_topology'' [ucast cpu_index, ucast cache_index, out]))"

definition r4dev_memory_pressure_snapshot ::
  "'w platform \<Rightarrow> handle option \<Rightarrow> u64 \<Rightarrow> (i32, 'w) io" where
  "r4dev_memory_pressure_snapshot E dev out =
    (if out = 0 then give (- 1)
       else ask (dev_has E dev ''memory_pressure_snapshot'') (\<lambda>ok.
       if \<not> ok then give (p_code E ''R4OS_ERR_NO_FN'')
       else dev_call E dev ''memory_pressure_snapshot'' [out]))"

definition r4dev_performance_instrumentation ::
  "'w platform \<Rightarrow> handle option \<Rightarrow> u64 \<Rightarrow> (i32, 'w) io" where
  "r4dev_performance_instrumentation E dev out =
    (if out = 0 then give (- 1)
       else ask (dev_has E dev ''performance_instrumentation'') (\<lambda>ok.
       if \<not> ok then give (p_code E ''R4OS_ERR_NO_FN'')
       else dev_call E dev ''performance_instrumentation'' [out]))"

definition r4dev_performance_lock ::
  "'w platform \<Rightarrow> handle option \<Rightarrow> u32 \<Rightarrow> u64 \<Rightarrow> (i32, 'w) io" where
  "r4dev_performance_lock E dev index out =
    (if out = 0 then give (- 1)
       else ask (dev_has E dev ''performance_lock'') (\<lambda>ok.
       if \<not> ok then give (p_code E ''R4OS_ERR_NO_FN'')
       else dev_call E dev ''performance_lock'' [ucast index, out]))"

definition r4dev_performance_stack ::
  "'w platform \<Rightarrow> handle option \<Rightarrow> u32 \<Rightarrow> u64 \<Rightarrow> (i32, 'w) io" where
  "r4dev_performance_stack E dev index out =
    (if out = 0 then give (- 1)
       else ask (dev_has E dev ''performance_stack'') (\<lambda>ok.
       if \<not> ok then give (p_code E ''R4OS_ERR_NO_FN'')
       else dev_call E dev ''performance_stack'' [ucast index, out]))"

definition r4dev_stack_fault ::
  "'w platform \<Rightarrow> handle option \<Rightarrow> u32 \<Rightarrow> u64 \<Rightarrow> (i32, 'w) io" where
  "r4dev_stack_fault E dev index out =
    (if out = 0 then give (- 1)
       else ask (dev_has E dev ''stack_fault'') (\<lambda>ok.
       if \<not> ok then give (p_code E ''R4OS_ERR_NO_FN'')
       else dev_call E dev ''stack_fault'' [ucast index, out]))"

definition r4dev_display_state ::
  "'w platform \<Rightarrow> handle option \<Rightarrow> u64 \<Rightarrow> (i32, 'w) io" where
  "r4dev_display_state E dev out =
    (if out = 0 then give (- 1)
       else ask (dev_has E dev ''display_state'') (\<lambda>ok.
       if \<not> ok then give (p_code E ''R4OS_ERR_NO_FN'')
       else dev_call E dev ''display_state'' [out]))"

definition r4dev_available :: "'w platform \<Rightarrow> handle option \<Rightarrow> query" where
  "r4dev_available E g =
     sure (table_of g \<noteq> 0)"

definition r4dev_program_instance_storage_summary_v2 ::
  "'w platform \<Rightarrow> handle option \<Rightarrow> u64 \<Rightarrow> (i32, 'w) io" where
  "r4dev_program_instance_storage_summary_v2 E dev out_summary =
    (if out_summary = 0 then give (- 1)
       else ask (q_and (r4dev_available E dev) (dev_tail E dev ''program_instance_storage_summary_v2'')) (\<lambda>ok.
       if \<not> ok then give (p_code E ''R4OS_ERR_NO_FN'')
       else dev_call E dev ''program_instance_storage_summary_v2'' [out_summary]))"

definition r4dev_execution_inventory_summary ::
  "'w platform \<Rightarrow> handle option \<Rightarrow> u64 \<Rightarrow> (i32, 'w) io" where
  "r4dev_execution_inventory_summary E dev out_summary =
    (if out_summary = 0 then give (p_code E ''R4OS_PROGRAM_HANDLE_ERROR_INVALID'')
       else ask (q_and (r4dev_available E dev) (dev_tail E dev ''execution_inventory_summary'')) (\<lambda>ok.
       if \<not> ok then give (p_code E ''R4OS_ERR_NO_FN'')
       else dev_call E dev ''execution_inventory_summary'' [out_summary]))"

definition r4dev_performance_driver_work ::
  "'w platform \<Rightarrow> handle option \<Rightarrow> u32 \<Rightarrow> u64 \<Rightarrow> (i32, 'w) io" where
  "r4dev_performance_driver_work E dev owner out_info =
    (if out_info = 0 then give (- 1)
       else ask (q_and (r4dev_available E dev) (dev_tail E dev ''performance_driver_work'')) (\<lambda>ok.
       if \<not> ok then give (p_code E ''R4OS_ERR_NO_FN'')
       else dev_call E dev ''performance_driver_work'' [ucast owner, out_info]))"

definition r4dev_performance_pci_inventory ::
  "'w platform \<Rightarrow> handle option \<Rightarrow> u64 \<Rightarrow> (i32, 'w) io" where
  "r4dev_performance_pci_inventory E dev out_info =
    (if out_info = 0 then give (- 1)
       else ask (q_and (r4dev_available E dev) (dev_tail E dev ''performance_pci_inventory'')) (\<lambda>ok.
       if \<not> ok then give (p_code E ''R4OS_ERR_NO_FN'')
       else dev_call E dev ''performance_pci_inventory'' [out_info]))"

subsection \<open>Serial ports\<close>

definition r4serial_count ::
  "'w platform \<Rightarrow> handle option \<Rightarrow> (u32, 'w) io" where
  "r4serial_count E s =
    (ask (dev_has E s ''serial_count'') (\<lambda>ok.
       if \<not> ok then give 0
       else dev_call E s ''serial_count'' []))"

definition r4serial_port_at ::
  "'w platform \<Rightarrow> handle option \<Rightarrow> u32 \<Rightarrow> u64 \<Rightarrow> (i32, 'w) io" where
  "r4serial_port_at E s index out =
    (ask (dev_has E s ''serial_port_at'') (\<lambda>ok.
       if \<not> ok then give (p_code E ''R4OS_ERR_NO_FN'')
       else dev_call E s ''serial_port_at'' [ucast index, out]))"

definition r4serial_open ::
  "'w platform \<Rightarrow> handle option \<Rightarrow> u64 \<Rightarrow> u64 \<Rightarrow> u64 \<Rightarrow> u64 \<Rightarrow> (i32, 'w) io" where
  "r4serial_open E s port_id generation config out_handle =
    (ask (dev_has E s ''serial_open'') (\<lambda>ok.
       if \<not> ok then give (p_code E ''R4OS_ERR_NO_FN'')
       else dev_call E s ''serial_open'' [port_id, generation, config, out_handle]))"

definition r4serial_configure ::
  "'w platform \<Rightarrow> handle option \<Rightarrow> u64 \<Rightarrow> u64 \<Rightarrow> (i32, 'w) io" where
  "r4serial_configure E s handle config =
    (ask (dev_has E s ''serial_configure'') (\<lambda>ok.
       if \<not> ok then give (p_code E ''R4OS_ERR_NO_FN'')
       else dev_call E s ''serial_configure'' [handle, config]))"

definition r4serial_read ::
  "'w platform \<Rightarrow> handle option \<Rightarrow> u64 \<Rightarrow> u64 \<Rightarrow> u32 \<Rightarrow> u64 \<Rightarrow> u64 \<Rightarrow> (i32, 'w) io" where
  "r4serial_read E s handle buffer capacity timeout_ticks out =
    (ask (dev_has E s ''serial_read'') (\<lambda>ok.
       if \<not> ok then give (p_code E ''R4OS_ERR_NO_FN'')
       else dev_call E s ''serial_read'' [handle, buffer, ucast capacity, timeout_ticks, out]))"

definition r4serial_write ::
  "'w platform \<Rightarrow> handle option \<Rightarrow> u64 \<Rightarrow> u64 \<Rightarrow> u32 \<Rightarrow> u64 \<Rightarrow> u64 \<Rightarrow> (i32, 'w) io" where
  "r4serial_write E s handle buffer byte_count timeout_ticks out =
    (ask (dev_has E s ''serial_write'') (\<lambda>ok.
       if \<not> ok then give (p_code E ''R4OS_ERR_NO_FN'')
       else dev_call E s ''serial_write'' [handle, buffer, ucast byte_count, timeout_ticks, out]))"

definition r4serial_drain ::
  "'w platform \<Rightarrow> handle option \<Rightarrow> u64 \<Rightarrow> u64 \<Rightarrow> (i32, 'w) io" where
  "r4serial_drain E s handle timeout_ticks =
    (ask (dev_has E s ''serial_drain'') (\<lambda>ok.
       if \<not> ok then give (p_code E ''R4OS_ERR_NO_FN'')
       else dev_call E s ''serial_drain'' [handle, timeout_ticks]))"

definition r4serial_status ::
  "'w platform \<Rightarrow> handle option \<Rightarrow> u64 \<Rightarrow> u64 \<Rightarrow> (i32, 'w) io" where
  "r4serial_status E s handle out =
    (ask (dev_has E s ''serial_status'') (\<lambda>ok.
       if \<not> ok then give (p_code E ''R4OS_ERR_NO_FN'')
       else dev_call E s ''serial_status'' [handle, out]))"

definition r4serial_cancel ::
  "'w platform \<Rightarrow> handle option \<Rightarrow> u64 \<Rightarrow> (i32, 'w) io" where
  "r4serial_cancel E s handle =
    (ask (dev_has E s ''serial_cancel'') (\<lambda>ok.
       if \<not> ok then give (p_code E ''R4OS_ERR_NO_FN'')
       else dev_call E s ''serial_cancel'' [handle]))"

definition r4serial_close ::
  "'w platform \<Rightarrow> handle option \<Rightarrow> u64 \<Rightarrow> u32 \<Rightarrow> u64 \<Rightarrow> (i32, 'w) io" where
  "r4serial_close E s handle flags timeout_ticks =
    (ask (dev_has E s ''serial_close'') (\<lambda>ok.
       if \<not> ok then give (p_code E ''R4OS_ERR_NO_FN'')
       else dev_call E s ''serial_close'' [handle, ucast flags, timeout_ticks]))"

subsection \<open>Every call goes through a slot of the table\<close>

definition dev_capabilities :: "(string \<times> string list) list" where
  "dev_capabilities =
    []"

definition dev_base_slots :: "string list" where
  "dev_base_slots = []"

text \<open>What the contract and the loader promise: member layout, slot order, and a table that holds every base slot.\<close>

definition dev_ready :: "'w platform \<Rightarrow> u64 \<Rightarrow> bytes \<Rightarrow> (u64 \<times> nat) list \<Rightarrow> bool" where
  "dev_ready E t V outs \<longleftrightarrow> abi_ok E \<and> keeps_steady E t V outs \<and>
     (\<forall>(l, ss) \<in> set dev_capabilities. before E ''R4Dev'' l ss) \<and>
     (\<forall>s \<in> set dev_base_slots. based E ''R4Dev'' t V s)"

lemma dev_ready_facts:
  assumes "dev_ready E t V outs"
  shows "abi_ok E"
    and "keeps_steady E t V outs"
  using assms by (auto simp: dev_ready_def dev_capabilities_def dev_base_slots_def)

lemmas dev_supports = r4dev_available_def

lemma r4dev_cpu_capabilities_admitted:
  "dev_ready E (table_of dev) V outs \<Longrightarrow>
    admitted (table_of dev) V outs (r4dev_cpu_capabilities E dev cpu out)"
  unfolding r4dev_cpu_capabilities_def ask_connectives
  by (intro admits admits_tests admits_objects) (auto dest: opens_all_opens opens_all_nonnull opens_nonnull slot_inside simp: dev_ready_facts)

lemma r4dev_cpu_feature_admitted:
  "dev_ready E (table_of dev) V outs \<Longrightarrow>
    admitted (table_of dev) V outs (r4dev_cpu_feature E dev cpu epoch index out)"
  unfolding r4dev_cpu_feature_def ask_connectives
  by (intro admits admits_tests admits_objects) (auto dest: opens_all_opens opens_all_nonnull opens_nonnull slot_inside simp: dev_ready_facts)

lemma r4dev_cpu_register_read_admitted:
  "dev_ready E (table_of dev) V outs \<Longrightarrow>
    admitted (table_of dev) V outs (r4dev_cpu_register_read E dev cpu epoch id_v out)"
  unfolding r4dev_cpu_register_read_def ask_connectives
  by (intro admits admits_tests admits_objects) (auto dest: opens_all_opens opens_all_nonnull opens_nonnull slot_inside simp: dev_ready_facts)

lemma r4dev_cpu_power_info_admitted:
  "dev_ready E (table_of dev) V outs \<Longrightarrow>
    admitted (table_of dev) V outs (r4dev_cpu_power_info E dev cpu epoch out)"
  unfolding r4dev_cpu_power_info_def ask_connectives
  by (intro admits admits_tests admits_objects) (auto dest: opens_all_opens opens_all_nonnull opens_nonnull slot_inside simp: dev_ready_facts)

lemma r4dev_cpu_performance_admitted:
  "dev_ready E (table_of dev) V outs \<Longrightarrow>
    admitted (table_of dev) V outs (r4dev_cpu_performance E dev request out)"
  unfolding r4dev_cpu_performance_def ask_connectives
  by (intro admits admits_tests admits_objects) (auto dest: opens_all_opens opens_all_nonnull opens_nonnull slot_inside simp: dev_ready_facts)

lemma r4dev_cpu_cppc_admitted:
  "dev_ready E (table_of dev) V outs \<Longrightarrow>
    admitted (table_of dev) V outs (r4dev_cpu_cppc E dev request out)"
  unfolding r4dev_cpu_cppc_def ask_connectives
  by (intro admits admits_tests admits_objects) (auto dest: opens_all_opens opens_all_nonnull opens_nonnull slot_inside simp: dev_ready_facts)

lemma r4dev_cpu_firmware_performance_admitted:
  "dev_ready E (table_of dev) V outs \<Longrightarrow>
    admitted (table_of dev) V outs (r4dev_cpu_firmware_performance E dev request out)"
  unfolding r4dev_cpu_firmware_performance_def ask_connectives
  by (intro admits admits_tests admits_objects) (auto dest: opens_all_opens opens_all_nonnull opens_nonnull slot_inside simp: dev_ready_facts)

lemma r4dev_cpu_idle_info_admitted:
  "dev_ready E (table_of dev) V outs \<Longrightarrow>
    admitted (table_of dev) V outs (r4dev_cpu_idle_info E dev cpu out)"
  unfolding r4dev_cpu_idle_info_def ask_connectives
  by (intro admits admits_tests admits_objects) (auto dest: opens_all_opens opens_all_nonnull opens_nonnull slot_inside simp: dev_ready_facts)

lemma r4dev_cpu_microcode_info_admitted:
  "dev_ready E (table_of dev) V outs \<Longrightarrow>
    admitted (table_of dev) V outs (r4dev_cpu_microcode_info E dev cpu out)"
  unfolding r4dev_cpu_microcode_info_def ask_connectives
  by (intro admits admits_tests admits_objects) (auto dest: opens_all_opens opens_all_nonnull opens_nonnull slot_inside simp: dev_ready_facts)

lemma r4dev_cpu_acceleration_info_admitted:
  "dev_ready E (table_of dev) V outs \<Longrightarrow>
    admitted (table_of dev) V outs (r4dev_cpu_acceleration_info E dev out)"
  unfolding r4dev_cpu_acceleration_info_def ask_connectives
  by (intro admits admits_tests admits_objects) (auto dest: opens_all_opens opens_all_nonnull opens_nonnull slot_inside simp: dev_ready_facts)

lemma r4dev_cpu_pmu_info_admitted:
  "dev_ready E (table_of dev) V outs \<Longrightarrow>
    admitted (table_of dev) V outs (r4dev_cpu_pmu_info E dev cpu out)"
  unfolding r4dev_cpu_pmu_info_def ask_connectives
  by (intro admits admits_tests admits_objects) (auto dest: opens_all_opens opens_all_nonnull opens_nonnull slot_inside simp: dev_ready_facts)

lemma r4dev_cpu_pmu_result_admitted:
  "dev_ready E (table_of dev) V outs \<Longrightarrow>
    admitted (table_of dev) V outs (r4dev_cpu_pmu_result E dev cpu epoch generation out)"
  unfolding r4dev_cpu_pmu_result_def ask_connectives
  by (intro admits admits_tests admits_objects) (auto dest: opens_all_opens opens_all_nonnull opens_nonnull slot_inside simp: dev_ready_facts)

lemma r4dev_cpu_machine_info_admitted:
  "dev_ready E (table_of dev) V outs \<Longrightarrow>
    admitted (table_of dev) V outs (r4dev_cpu_machine_info E dev cpu out)"
  unfolding r4dev_cpu_machine_info_def ask_connectives
  by (intro admits admits_tests admits_objects) (auto dest: opens_all_opens opens_all_nonnull opens_nonnull slot_inside simp: dev_ready_facts)

lemma r4dev_cpu_machine_bank_admitted:
  "dev_ready E (table_of dev) V outs \<Longrightarrow>
    admitted (table_of dev) V outs (r4dev_cpu_machine_bank E dev cpu epoch sequence bank out)"
  unfolding r4dev_cpu_machine_bank_def ask_connectives
  by (intro admits admits_tests admits_objects) (auto dest: opens_all_opens opens_all_nonnull opens_nonnull slot_inside simp: dev_ready_facts)

lemma r4dev_cpu_performance_hint_admitted:
  "dev_ready E (table_of dev) V outs \<Longrightarrow>
    admitted (table_of dev) V outs (r4dev_cpu_performance_hint E dev cpu epoch out)"
  unfolding r4dev_cpu_performance_hint_def ask_connectives
  by (intro admits admits_tests admits_objects) (auto dest: opens_all_opens opens_all_nonnull opens_nonnull slot_inside simp: dev_ready_facts)

lemma r4dev_cpu_power_capture_admitted:
  "dev_ready E (table_of dev) V outs \<Longrightarrow>
    admitted (table_of dev) V outs (r4dev_cpu_power_capture E dev cpu epoch out)"
  unfolding r4dev_cpu_power_capture_def ask_connectives
  by (intro admits admits_tests admits_objects) (auto dest: opens_all_opens opens_all_nonnull opens_nonnull slot_inside simp: dev_ready_facts)

lemma r4dev_kernel_cpu_register_check_admitted:
  "dev_ready E (table_of dev) V outs \<Longrightarrow>
    admitted (table_of dev) V outs (r4dev_kernel_cpu_register_check E dev cpu epoch out)"
  unfolding r4dev_kernel_cpu_register_check_def ask_connectives
  by (intro admits admits_tests admits_objects) (auto dest: opens_all_opens opens_all_nonnull opens_nonnull slot_inside simp: dev_ready_facts)

lemma r4dev_cpu_lifecycle_admitted:
  "dev_ready E (table_of dev) V outs \<Longrightarrow>
    admitted (table_of dev) V outs (r4dev_cpu_lifecycle E dev operation cpu expected_epoch out)"
  unfolding r4dev_cpu_lifecycle_def ask_connectives
  by (intro admits admits_tests admits_objects) (auto dest: opens_all_opens opens_all_nonnull opens_nonnull slot_inside simp: dev_ready_facts)

lemma r4dev_kernel_cpu_lifecycle_check_admitted:
  "dev_ready E (table_of dev) V outs \<Longrightarrow>
    admitted (table_of dev) V outs (r4dev_kernel_cpu_lifecycle_check E dev out)"
  unfolding r4dev_kernel_cpu_lifecycle_check_def ask_connectives
  by (intro admits admits_tests admits_objects) (auto dest: opens_all_opens opens_all_nonnull opens_nonnull slot_inside simp: dev_ready_facts)

lemma r4dev_cpu_topology_admitted:
  "dev_ready E (table_of dev) V outs \<Longrightarrow>
    admitted (table_of dev) V outs (r4dev_cpu_topology E dev cpu_index out)"
  unfolding r4dev_cpu_topology_def ask_connectives
  by (intro admits admits_tests admits_objects) (auto dest: opens_all_opens opens_all_nonnull opens_nonnull slot_inside simp: dev_ready_facts)

lemma r4dev_cpu_cache_topology_admitted:
  "dev_ready E (table_of dev) V outs \<Longrightarrow>
    admitted (table_of dev) V outs (r4dev_cpu_cache_topology E dev cpu_index cache_index out)"
  unfolding r4dev_cpu_cache_topology_def ask_connectives
  by (intro admits admits_tests admits_objects) (auto dest: opens_all_opens opens_all_nonnull opens_nonnull slot_inside simp: dev_ready_facts)

lemma r4dev_memory_pressure_snapshot_admitted:
  "dev_ready E (table_of dev) V outs \<Longrightarrow>
    admitted (table_of dev) V outs (r4dev_memory_pressure_snapshot E dev out)"
  unfolding r4dev_memory_pressure_snapshot_def ask_connectives
  by (intro admits admits_tests admits_objects) (auto dest: opens_all_opens opens_all_nonnull opens_nonnull slot_inside simp: dev_ready_facts)

lemma r4dev_performance_instrumentation_admitted:
  "dev_ready E (table_of dev) V outs \<Longrightarrow>
    admitted (table_of dev) V outs (r4dev_performance_instrumentation E dev out)"
  unfolding r4dev_performance_instrumentation_def ask_connectives
  by (intro admits admits_tests admits_objects) (auto dest: opens_all_opens opens_all_nonnull opens_nonnull slot_inside simp: dev_ready_facts)

lemma r4dev_performance_lock_admitted:
  "dev_ready E (table_of dev) V outs \<Longrightarrow>
    admitted (table_of dev) V outs (r4dev_performance_lock E dev index out)"
  unfolding r4dev_performance_lock_def ask_connectives
  by (intro admits admits_tests admits_objects) (auto dest: opens_all_opens opens_all_nonnull opens_nonnull slot_inside simp: dev_ready_facts)

lemma r4dev_performance_stack_admitted:
  "dev_ready E (table_of dev) V outs \<Longrightarrow>
    admitted (table_of dev) V outs (r4dev_performance_stack E dev index out)"
  unfolding r4dev_performance_stack_def ask_connectives
  by (intro admits admits_tests admits_objects) (auto dest: opens_all_opens opens_all_nonnull opens_nonnull slot_inside simp: dev_ready_facts)

lemma r4dev_stack_fault_admitted:
  "dev_ready E (table_of dev) V outs \<Longrightarrow>
    admitted (table_of dev) V outs (r4dev_stack_fault E dev index out)"
  unfolding r4dev_stack_fault_def ask_connectives
  by (intro admits admits_tests admits_objects) (auto dest: opens_all_opens opens_all_nonnull opens_nonnull slot_inside simp: dev_ready_facts)

lemma r4dev_display_state_admitted:
  "dev_ready E (table_of dev) V outs \<Longrightarrow>
    admitted (table_of dev) V outs (r4dev_display_state E dev out)"
  unfolding r4dev_display_state_def ask_connectives
  by (intro admits admits_tests admits_objects) (auto dest: opens_all_opens opens_all_nonnull opens_nonnull slot_inside simp: dev_ready_facts)

lemma r4dev_program_instance_storage_summary_v2_admitted:
  "dev_ready E (table_of dev) V outs \<Longrightarrow>
    admitted (table_of dev) V outs (r4dev_program_instance_storage_summary_v2 E dev out_summary)"
  unfolding r4dev_program_instance_storage_summary_v2_def dev_supports ask_connectives
  by (intro admits admits_tests admits_objects) (auto dest: opens_all_opens opens_all_nonnull opens_nonnull slot_inside simp: dev_ready_facts)

lemma r4dev_execution_inventory_summary_admitted:
  "dev_ready E (table_of dev) V outs \<Longrightarrow>
    admitted (table_of dev) V outs (r4dev_execution_inventory_summary E dev out_summary)"
  unfolding r4dev_execution_inventory_summary_def dev_supports ask_connectives
  by (intro admits admits_tests admits_objects) (auto dest: opens_all_opens opens_all_nonnull opens_nonnull slot_inside simp: dev_ready_facts)

lemma r4dev_performance_driver_work_admitted:
  "dev_ready E (table_of dev) V outs \<Longrightarrow>
    admitted (table_of dev) V outs (r4dev_performance_driver_work E dev owner out_info)"
  unfolding r4dev_performance_driver_work_def dev_supports ask_connectives
  by (intro admits admits_tests admits_objects) (auto dest: opens_all_opens opens_all_nonnull opens_nonnull slot_inside simp: dev_ready_facts)

lemma r4dev_performance_pci_inventory_admitted:
  "dev_ready E (table_of dev) V outs \<Longrightarrow>
    admitted (table_of dev) V outs (r4dev_performance_pci_inventory E dev out_info)"
  unfolding r4dev_performance_pci_inventory_def dev_supports ask_connectives
  by (intro admits admits_tests admits_objects) (auto dest: opens_all_opens opens_all_nonnull opens_nonnull slot_inside simp: dev_ready_facts)

lemma r4serial_count_admitted:
  "dev_ready E (table_of s) V outs \<Longrightarrow>
    admitted (table_of s) V outs (r4serial_count E s)"
  unfolding r4serial_count_def ask_connectives
  by (intro admits admits_tests admits_objects) (auto dest: opens_all_opens opens_all_nonnull opens_nonnull slot_inside simp: dev_ready_facts)

lemma r4serial_port_at_admitted:
  "dev_ready E (table_of s) V outs \<Longrightarrow>
    admitted (table_of s) V outs (r4serial_port_at E s index out)"
  unfolding r4serial_port_at_def ask_connectives
  by (intro admits admits_tests admits_objects) (auto dest: opens_all_opens opens_all_nonnull opens_nonnull slot_inside simp: dev_ready_facts)

lemma r4serial_open_admitted:
  "dev_ready E (table_of s) V outs \<Longrightarrow>
    admitted (table_of s) V outs (r4serial_open E s port_id generation config out_handle)"
  unfolding r4serial_open_def ask_connectives
  by (intro admits admits_tests admits_objects) (auto dest: opens_all_opens opens_all_nonnull opens_nonnull slot_inside simp: dev_ready_facts)

lemma r4serial_configure_admitted:
  "dev_ready E (table_of s) V outs \<Longrightarrow>
    admitted (table_of s) V outs (r4serial_configure E s handle config)"
  unfolding r4serial_configure_def ask_connectives
  by (intro admits admits_tests admits_objects) (auto dest: opens_all_opens opens_all_nonnull opens_nonnull slot_inside simp: dev_ready_facts)

lemma r4serial_read_admitted:
  "dev_ready E (table_of s) V outs \<Longrightarrow>
    admitted (table_of s) V outs (r4serial_read E s handle buffer capacity timeout_ticks out)"
  unfolding r4serial_read_def ask_connectives
  by (intro admits admits_tests admits_objects) (auto dest: opens_all_opens opens_all_nonnull opens_nonnull slot_inside simp: dev_ready_facts)

lemma r4serial_write_admitted:
  "dev_ready E (table_of s) V outs \<Longrightarrow>
    admitted (table_of s) V outs (r4serial_write E s handle buffer byte_count timeout_ticks out)"
  unfolding r4serial_write_def ask_connectives
  by (intro admits admits_tests admits_objects) (auto dest: opens_all_opens opens_all_nonnull opens_nonnull slot_inside simp: dev_ready_facts)

lemma r4serial_drain_admitted:
  "dev_ready E (table_of s) V outs \<Longrightarrow>
    admitted (table_of s) V outs (r4serial_drain E s handle timeout_ticks)"
  unfolding r4serial_drain_def ask_connectives
  by (intro admits admits_tests admits_objects) (auto dest: opens_all_opens opens_all_nonnull opens_nonnull slot_inside simp: dev_ready_facts)

lemma r4serial_status_admitted:
  "dev_ready E (table_of s) V outs \<Longrightarrow>
    admitted (table_of s) V outs (r4serial_status E s handle out)"
  unfolding r4serial_status_def ask_connectives
  by (intro admits admits_tests admits_objects) (auto dest: opens_all_opens opens_all_nonnull opens_nonnull slot_inside simp: dev_ready_facts)

lemma r4serial_cancel_admitted:
  "dev_ready E (table_of s) V outs \<Longrightarrow>
    admitted (table_of s) V outs (r4serial_cancel E s handle)"
  unfolding r4serial_cancel_def ask_connectives
  by (intro admits admits_tests admits_objects) (auto dest: opens_all_opens opens_all_nonnull opens_nonnull slot_inside simp: dev_ready_facts)

lemma r4serial_close_admitted:
  "dev_ready E (table_of s) V outs \<Longrightarrow>
    admitted (table_of s) V outs (r4serial_close E s handle flags timeout_ticks)"
  unfolding r4serial_close_def ask_connectives
  by (intro admits admits_tests admits_objects) (auto dest: opens_all_opens opens_all_nonnull opens_nonnull slot_inside simp: dev_ready_facts)

lemma r4dev_cpu_acceleration_work_admitted:
  "dev_ready E (table_of dev) V outs \<Longrightarrow> inside_out outs (p_frame E) 8 \<Longrightarrow>
    admitted (table_of dev) V outs (r4dev_cpu_acceleration_work E dev kind iterations work context out)"
  unfolding r4dev_cpu_acceleration_work_def ask_connectives
  by (intro admits admits_tests admits_objects admitted_store) (auto simp: dev_ready_facts)

lemma r4dev_cpu_pmu_measure_admitted:
  "dev_ready E (table_of dev) V outs \<Longrightarrow> inside_out outs (p_frame E) 8 \<Longrightarrow>
    admitted (table_of dev) V outs (r4dev_cpu_pmu_measure E dev cpu epoch event iterations work context out)"
  unfolding r4dev_cpu_pmu_measure_def ask_connectives
  by (intro admits admits_tests admits_objects admitted_store) (auto simp: dev_ready_facts)

text \<open>
  On every resident device table the wrappers of the device and serial facades stay inside
  the table, the caller's objects and their own local slot, never get stuck, and call only
  through nonnull slots inside the announced size.\<close>

theorem r4dev_calls_admitted:
  assumes "dev_ready E (table_of dev) V outs"
  shows "(\<forall>cpu out. admitted (table_of dev) V outs (r4dev_cpu_capabilities E dev cpu out)) \<and>
    (\<forall>cpu epoch index out. admitted (table_of dev) V outs (r4dev_cpu_feature E dev cpu epoch index out)) \<and>
    (\<forall>cpu epoch id_v out. admitted (table_of dev) V outs (r4dev_cpu_register_read E dev cpu epoch id_v out)) \<and>
    (\<forall>cpu epoch out. admitted (table_of dev) V outs (r4dev_cpu_power_info E dev cpu epoch out)) \<and>
    (\<forall>request out. admitted (table_of dev) V outs (r4dev_cpu_performance E dev request out)) \<and>
    (\<forall>request out. admitted (table_of dev) V outs (r4dev_cpu_cppc E dev request out)) \<and>
    (\<forall>request out. admitted (table_of dev) V outs (r4dev_cpu_firmware_performance E dev request out)) \<and>
    (\<forall>cpu out. admitted (table_of dev) V outs (r4dev_cpu_idle_info E dev cpu out)) \<and>
    (\<forall>cpu out. admitted (table_of dev) V outs (r4dev_cpu_microcode_info E dev cpu out)) \<and>
    (\<forall>out. admitted (table_of dev) V outs (r4dev_cpu_acceleration_info E dev out)) \<and>
    (\<forall>cpu out. admitted (table_of dev) V outs (r4dev_cpu_pmu_info E dev cpu out)) \<and>
    (\<forall>cpu epoch generation out. admitted (table_of dev) V outs (r4dev_cpu_pmu_result E dev cpu epoch generation out)) \<and>
    (\<forall>cpu out. admitted (table_of dev) V outs (r4dev_cpu_machine_info E dev cpu out)) \<and>
    (\<forall>cpu epoch sequence bank out. admitted (table_of dev) V outs (r4dev_cpu_machine_bank E dev cpu epoch sequence bank out)) \<and>
    (\<forall>cpu epoch out. admitted (table_of dev) V outs (r4dev_cpu_performance_hint E dev cpu epoch out)) \<and>
    (\<forall>cpu epoch out. admitted (table_of dev) V outs (r4dev_cpu_power_capture E dev cpu epoch out)) \<and>
    (\<forall>cpu epoch out. admitted (table_of dev) V outs (r4dev_kernel_cpu_register_check E dev cpu epoch out)) \<and>
    (\<forall>operation cpu expected_epoch out. admitted (table_of dev) V outs (r4dev_cpu_lifecycle E dev operation cpu expected_epoch out)) \<and>
    (\<forall>out. admitted (table_of dev) V outs (r4dev_kernel_cpu_lifecycle_check E dev out)) \<and>
    (\<forall>cpu_index out. admitted (table_of dev) V outs (r4dev_cpu_topology E dev cpu_index out)) \<and>
    (\<forall>cpu_index cache_index out. admitted (table_of dev) V outs (r4dev_cpu_cache_topology E dev cpu_index cache_index out)) \<and>
    (\<forall>out. admitted (table_of dev) V outs (r4dev_memory_pressure_snapshot E dev out)) \<and>
    (\<forall>out. admitted (table_of dev) V outs (r4dev_performance_instrumentation E dev out)) \<and>
    (\<forall>index out. admitted (table_of dev) V outs (r4dev_performance_lock E dev index out)) \<and>
    (\<forall>index out. admitted (table_of dev) V outs (r4dev_performance_stack E dev index out)) \<and>
    (\<forall>index out. admitted (table_of dev) V outs (r4dev_stack_fault E dev index out)) \<and>
    (\<forall>out. admitted (table_of dev) V outs (r4dev_display_state E dev out)) \<and>
    (\<forall>out_summary. admitted (table_of dev) V outs (r4dev_program_instance_storage_summary_v2 E dev out_summary)) \<and>
    (\<forall>out_summary. admitted (table_of dev) V outs (r4dev_execution_inventory_summary E dev out_summary)) \<and>
    (\<forall>owner out_info. admitted (table_of dev) V outs (r4dev_performance_driver_work E dev owner out_info)) \<and>
    (\<forall>out_info. admitted (table_of dev) V outs (r4dev_performance_pci_inventory E dev out_info)) \<and>
    (admitted (table_of dev) V outs (r4serial_count E dev)) \<and>
    (\<forall>index out. admitted (table_of dev) V outs (r4serial_port_at E dev index out)) \<and>
    (\<forall>port_id generation config out_handle. admitted (table_of dev) V outs (r4serial_open E dev port_id generation config out_handle)) \<and>
    (\<forall>handle config. admitted (table_of dev) V outs (r4serial_configure E dev handle config)) \<and>
    (\<forall>handle buffer capacity timeout_ticks out. admitted (table_of dev) V outs (r4serial_read E dev handle buffer capacity timeout_ticks out)) \<and>
    (\<forall>handle buffer byte_count timeout_ticks out. admitted (table_of dev) V outs (r4serial_write E dev handle buffer byte_count timeout_ticks out)) \<and>
    (\<forall>handle timeout_ticks. admitted (table_of dev) V outs (r4serial_drain E dev handle timeout_ticks)) \<and>
    (\<forall>handle out. admitted (table_of dev) V outs (r4serial_status E dev handle out)) \<and>
    (\<forall>handle. admitted (table_of dev) V outs (r4serial_cancel E dev handle)) \<and>
    (\<forall>handle flags timeout_ticks. admitted (table_of dev) V outs (r4serial_close E dev handle flags timeout_ticks)) \<and>
    (\<forall>kind iterations work context out. inside_out outs (p_frame E) 8 \<longrightarrow> admitted (table_of dev) V outs (r4dev_cpu_acceleration_work E dev kind iterations work context out)) \<and>
    (\<forall>cpu epoch event iterations work context out. inside_out outs (p_frame E) 8 \<longrightarrow> admitted (table_of dev) V outs (r4dev_cpu_pmu_measure E dev cpu epoch event iterations work context out))"
  by (intro conjI allI impI; (elim conjE)?; rule r4dev_cpu_capabilities_admitted r4dev_cpu_feature_admitted r4dev_cpu_register_read_admitted r4dev_cpu_power_info_admitted r4dev_cpu_performance_admitted r4dev_cpu_cppc_admitted r4dev_cpu_firmware_performance_admitted r4dev_cpu_idle_info_admitted r4dev_cpu_microcode_info_admitted r4dev_cpu_acceleration_info_admitted r4dev_cpu_pmu_info_admitted r4dev_cpu_pmu_result_admitted r4dev_cpu_machine_info_admitted r4dev_cpu_machine_bank_admitted r4dev_cpu_performance_hint_admitted r4dev_cpu_power_capture_admitted r4dev_kernel_cpu_register_check_admitted r4dev_cpu_lifecycle_admitted r4dev_kernel_cpu_lifecycle_check_admitted r4dev_cpu_topology_admitted r4dev_cpu_cache_topology_admitted r4dev_memory_pressure_snapshot_admitted r4dev_performance_instrumentation_admitted r4dev_performance_lock_admitted r4dev_performance_stack_admitted r4dev_stack_fault_admitted r4dev_display_state_admitted r4dev_program_instance_storage_summary_v2_admitted r4dev_execution_inventory_summary_admitted r4dev_performance_driver_work_admitted r4dev_performance_pci_inventory_admitted r4serial_count_admitted r4serial_port_at_admitted r4serial_open_admitted r4serial_configure_admitted r4serial_read_admitted r4serial_write_admitted r4serial_drain_admitted r4serial_status_admitted r4serial_cancel_admitted r4serial_close_admitted r4dev_cpu_acceleration_work_admitted r4dev_cpu_pmu_measure_admitted; (rule assms | assumption))

theorem r4dev_calls_admitted_witness:
  "admitted (table_of sample_handle) sample_table [] (r4dev_cpu_topology sample_platform sample_handle 5 6) \<and>
   admitted (table_of sample_handle) sample_table [] (r4serial_cancel sample_platform sample_handle 7)"
proof -
  have "dev_ready sample_platform (table_of sample_handle) sample_table []"
    by (auto simp: dev_ready_def dev_capabilities_def dev_base_slots_def abi_ok_def keeps_steady_def before_def based_def
      sample_platform_def sample_table_def)
  from r4dev_calls_admitted [OF this] show ?thesis by simp
qed

end
