(* ===== verification/GroupInit.thy ===== *)
theory GroupInit
  imports Startup VmAlloc DrawCalls DeskCalls DevCalls
begin

text \<open>
  The initialisers of the group facades: \<open>r4sys_init\<close>, \<open>r4draw_init\<close>, \<open>r4desk_init\<close>,
  \<open>r4net_init\<close>, \<open>r4audio_init\<close>, \<open>r4dev_init\<close> and \<open>r4serial_init\<close>, and what their success
  gives to the wrappers of the group.
\<close>

subsection \<open>The code\<close>

text \<open>The checks every initialiser makes of a table, in order; each failure is \<open>R4OS_ERROR_INVALID\<close>.\<close>

definition accept_table ::
  "'w platform \<Rightarrow> memory \<Rightarrow> string \<Rightarrow> u64 \<Rightarrow> u32 \<Rightarrow> u32 \<Rightarrow> nat \<Rightarrow> string list \<Rightarrow> i32 option" where
  "accept_table E M T table magic version minimum slots =
     do { m \<leftarrow> load_u32 M table;
          if m \<noteq> magic then Some (- 1) else
     do { v \<leftarrow> load_u32 M (table + 4);
          if v < version then Some (- 1) else
     do { s \<leftarrow> load_u32 M (table + 8);
          if unat s < minimum then Some (- 1) else
     do { filled \<leftarrow> all_filled E T table slots M;
          Some (if filled then 0 else - 1) } } } }"

definition r4sys_init ::
  "start_contract \<Rightarrow> 'w platform \<Rightarrow> loader \<Rightarrow> start_context option \<Rightarrow> r4_sys option \<Rightarrow> (i32 \<times> r4_sys option) option" where
  "r4sys_init K E W ctx out_sys =
     (case out_sys of
        None \<Rightarrow> Some (- 1, None)
      | Some _ \<Rightarrow>
          let zero = \<lparr>h_table = 0, h_ctx = None\<rparr> in
          do { item \<leftarrow> r4xstart_find_import K W ctx (p_code E ''R4L_GROUP_R4SYS'');
               case item of
                 None \<Rightarrow> Some (- 2, Some zero)
               | Some it \<Rightarrow>
                   if i_flags it AND x_group_interface K = 0 \<or> i_table it = 0 then Some (- 2, Some zero)
                   else do { rc \<leftarrow> accept_table E (w_mem W) ''R4Sys'' (i_table it) (p_code E ''R4XSTART_R4SYS_MAGIC'')
                                    (p_code E ''R4XSTART_R4SYS_VERSION'') (unat (p_code E ''R4XSTART_R4SYS_SIZE'')) [''write'', ''putc''];
                             Some (rc, Some (if rc = 0 then \<lparr>h_table = i_table it, h_ctx = ctx\<rparr> else zero)) } })"

definition r4draw_import_valid :: "start_contract \<Rightarrow> 'w platform \<Rightarrow> start_import option \<Rightarrow> bool" where
  "r4draw_import_valid K E item =
     (case item of
        None \<Rightarrow> False
      | Some it \<Rightarrow> i_group_id it = p_code E ''R4L_GROUP_R4DRAW'' \<and> i_flags it AND x_group_interface K \<noteq> 0 \<and> i_table it \<noteq> 0)"

definition r4draw_init ::
  "start_contract \<Rightarrow> 'w platform \<Rightarrow> loader \<Rightarrow> start_context option \<Rightarrow> handle option \<Rightarrow> (i32 \<times> handle option) option" where
  "r4draw_init K E W ctx out_draw =
     (case out_draw of
        None \<Rightarrow> Some (- 1, None)
      | Some _ \<Rightarrow>
          let zero = \<lparr>h_table = 0\<rparr> in
          do { item \<leftarrow> r4xstart_find_import K W ctx (p_code E ''R4L_GROUP_R4DRAW'');
               case item of
                 None \<Rightarrow> Some (- 2, Some zero)
               | Some it \<Rightarrow>
                   if \<not> r4draw_import_valid K E item then Some (- 2, Some zero)
                   else do { rc \<leftarrow> accept_table E (w_mem W) ''R4Draw'' (i_table it) (p_code E ''R4XSTART_R4DRAW_MAGIC'') 1
                                    (p_off E ''R4Draw'' ''gui_present'' + 8) [''gui_clear'', ''gui_rect'', ''gui_present''];
                             Some (rc, Some (if rc = 0 then \<lparr>h_table = i_table it\<rparr> else zero)) } })"

definition r4desk_import_valid :: "start_contract \<Rightarrow> 'w platform \<Rightarrow> start_import option \<Rightarrow> bool" where
  "r4desk_import_valid K E item =
     (case item of
        None \<Rightarrow> False
      | Some it \<Rightarrow> i_group_id it = p_code E ''R4L_GROUP_R4DESK'' \<and> i_flags it AND x_group_interface K \<noteq> 0 \<and> i_table it \<noteq> 0)"

definition r4desk_init ::
  "start_contract \<Rightarrow> 'w platform \<Rightarrow> loader \<Rightarrow> start_context option \<Rightarrow> handle option \<Rightarrow> (i32 \<times> handle option) option" where
  "r4desk_init K E W ctx out_desk =
     (case out_desk of
        None \<Rightarrow> Some (- 1, None)
      | Some _ \<Rightarrow>
          let zero = \<lparr>h_table = 0\<rparr> in
          do { item \<leftarrow> r4xstart_find_import K W ctx (p_code E ''R4L_GROUP_R4DESK'');
               case item of
                 None \<Rightarrow> Some (- 2, Some zero)
               | Some it \<Rightarrow>
                   if \<not> r4desk_import_valid K E item then Some (- 2, Some zero)
                   else do { rc \<leftarrow> accept_table E (w_mem W) ''R4Desk'' (i_table it) (p_code E ''R4XSTART_R4DESK_MAGIC'')
                                    (p_code E ''R4XSTART_R4DESK_VERSION'') (unat (p_code E ''R4XSTART_R4DESK_SIZE''))
                                    [''program_window_id'', ''gui_poll_event''];
                             Some (rc, Some (if rc = 0 then \<lparr>h_table = i_table it\<rparr> else zero)) } })"

text \<open>\<open>r4net_init\<close>, \<open>r4audio_init\<close> and \<open>r4dev_init\<close> differ in their constants and their one base slot.\<close>

definition group_init ::
  "start_contract \<Rightarrow> 'w platform \<Rightarrow> loader \<Rightarrow> start_context option \<Rightarrow> handle option \<Rightarrow> u32 \<Rightarrow> string \<Rightarrow> u32 \<Rightarrow> u32 \<Rightarrow> nat \<Rightarrow> string \<Rightarrow>
    (i32 \<times> handle option) option" where
  "group_init K E W ctx dst gid T magic version minimum slot =
     (case dst of
        None \<Rightarrow> Some (- 1, None)
      | Some _ \<Rightarrow>
          let zero = \<lparr>h_table = 0\<rparr> in
          do { item \<leftarrow> r4xstart_find_import K W ctx gid;
               case item of
                 None \<Rightarrow> Some (- 2, Some zero)
               | Some it \<Rightarrow>
                   if i_table it = 0 then Some (- 2, Some zero)
                   else if i_flags it AND x_group_interface K = 0 then Some (- 2, Some zero)
                   else do { rc \<leftarrow> accept_table E (w_mem W) T (i_table it) magic version minimum [slot];
                             Some (rc, Some (if rc = 0 then \<lparr>h_table = i_table it\<rparr> else zero)) } })"

definition r4net_init ::
  "start_contract \<Rightarrow> 'w platform \<Rightarrow> loader \<Rightarrow> start_context option \<Rightarrow> handle option \<Rightarrow> (i32 \<times> handle option) option" where
  "r4net_init K E W ctx out =
     group_init K E W ctx out (p_code E ''R4L_GROUP_R4NET'') ''R4Net'' (p_code E ''R4XSTART_R4NET_MAGIC'')
       (p_code E ''R4XSTART_R4NET_VERSION'') (p_off E ''R4Net'' ''tcp_connect'' + 8) ''tcp_connect''"

definition r4net_available :: "handle option \<Rightarrow> bool" where
  "r4net_available g \<longleftrightarrow> table_of g \<noteq> 0"

definition r4audio_init ::
  "start_contract \<Rightarrow> 'w platform \<Rightarrow> loader \<Rightarrow> start_context option \<Rightarrow> handle option \<Rightarrow> (i32 \<times> handle option) option" where
  "r4audio_init K E W ctx out =
     group_init K E W ctx out (p_code E ''R4L_GROUP_R4AUDIO'') ''R4Audio'' (p_code E ''R4XSTART_R4AUDIO_MAGIC'')
       (p_code E ''R4XSTART_R4AUDIO_VERSION'') (unat (p_code E ''R4XSTART_R4AUDIO_SIZE'')) ''audio_open_stream''"

definition r4audio_available :: "handle option \<Rightarrow> bool" where
  "r4audio_available g \<longleftrightarrow> table_of g \<noteq> 0"

definition r4audio_output_catalog :: "'w platform \<Rightarrow> handle option \<Rightarrow> u64 \<Rightarrow> u32 \<Rightarrow> u64 \<Rightarrow> (i32, 'w) io" where
  "r4audio_output_catalog E g outputs capacity receipt =
     (if \<not> r4audio_available g then give (p_code E ''R4OS_ERR_NO_GROUP'')
      else ask (tail_slot E ''R4Audio'' (table_of g) ''audio_output_catalog'') (\<lambda>ok.
      if \<not> ok then give (p_code E ''R4OS_ERR_NO_FN'')
      else call_slot E ''R4Audio'' (table_of g) ''audio_output_catalog'' [outputs, ucast capacity, receipt]))"

definition r4dev_init ::
  "start_contract \<Rightarrow> 'w platform \<Rightarrow> loader \<Rightarrow> start_context option \<Rightarrow> handle option \<Rightarrow> (i32 \<times> handle option) option" where
  "r4dev_init K E W ctx out =
     group_init K E W ctx out (p_code E ''R4L_GROUP_R4DEV'') ''R4Dev'' (p_code E ''R4XSTART_R4DEV_MAGIC'')
       (p_code E ''R4XSTART_R4DEV_VERSION'') (p_off E ''R4Dev'' ''performance_summary'' + 8) ''performance_summary''"

definition serial_slots :: "string list" where
  "serial_slots = [''serial_count'', ''serial_port_at'', ''serial_open'', ''serial_configure'', ''serial_read'', ''serial_write'',
     ''serial_drain'', ''serial_status'', ''serial_cancel'', ''serial_close'']"

definition r4serial_init :: "'w platform \<Rightarrow> memory \<Rightarrow> handle option \<Rightarrow> handle option \<Rightarrow> (i32 \<times> handle option) option" where
  "r4serial_init E M dev out =
     (case out of
        None \<Rightarrow> Some (p_code E ''R4OS_SERIAL_ERROR_INVALID'', None)
      | Some _ \<Rightarrow>
          let no_fn = Some (p_code E ''R4OS_ERR_NO_FN'', Some \<lparr>h_table = 0\<rparr>); t = table_of dev in
          if t = 0 then no_fn else
          do { m \<leftarrow> load_u32 M t;
               if m \<noteq> p_code E ''R4XSTART_R4DEV_MAGIC'' then no_fn else
          do { v \<leftarrow> load_u32 M (t + 4);
               if v < 21 then no_fn else
          do { ok \<leftarrow> tail_slots E ''R4Dev'' t ''serial_close'' serial_slots M;
               if \<not> ok then no_fn else Some (0, Some \<lparr>h_table = t\<rparr>) } } })"

subsection \<open>An accepted table is resident\<close>

lemma accept_table_resident:
  assumes "accept_table E M T t magic version minimum slots = Some 0"
    and size: "\<And>sz. load_u32 M (t + 8) = Some sz \<Longrightarrow> mapped M t (unat sz)" and "12 \<le> minimum"
    and slots: "\<forall>s \<in> set slots. p_off E T s + 8 \<le> minimum" and "t \<noteq> 0"
  obtains V where "resident t V M" and "minimum \<le> length V" and "\<forall>s \<in> set slots. opens E T t V s"
proof -
  from assms(1) obtain sz where sz: "load_u32 M (t + 8) = Some sz" "minimum \<le> unat sz"
    and fill: "all_filled E T t slots M = Some True"
    by (auto simp: accept_table_def bind_eq_Some_conv not_less split: if_splits)
  from size [OF sz(1)] obtain V where V: "load_bytes M t (unat sz) = Some V" using load_bytes_mapped by auto
  have len: "length V = unat sz" using length_load_bytes [OF V] .
  have "load_bytes M (t + word_of_nat 8) 4 = Some (take 4 (drop 8 V))"
    by (rule load_bytes_part [OF V]) (use sz(2) assms(3) in simp)
  then have "le_word (take 4 (drop 8 V)) = sz" using sz(1) by (simp add: load_u32_def)
  then have res: "resident t V M" using V len sz(2) assms(3) by (simp add: resident_def)
  have "\<forall>s \<in> set slots. p_off E T s + 8 \<le> length V" using slots sz(2) len by (auto intro: order_trans)
  then have "\<forall>s \<in> set slots. opens E T t V s"
    using all_filled_answer [OF res, of slots E T] fill assms(5) by (auto simp: opens_def)
  then show thesis using that res sz(2) len by simp
qed


text \<open>The contract's promise on the base slots of the system table.\<close>

definition sys_base_layout :: "'w platform \<Rightarrow> bool" where
  "sys_base_layout E \<longleftrightarrow> 12 \<le> unat (p_code E ''R4XSTART_R4SYS_SIZE'') \<and>
     (\<forall>s \<in> set sys_base_slots. p_off E ''R4Sys'' s + 8 \<le> unat (p_code E ''R4XSTART_R4SYS_SIZE''))"

lemma sys_init_accepts:
  assumes "r4sys_init K E W ctx out = Some (0, Some h)"
  shows "h_table h \<noteq> 0" and "h_ctx h = ctx"
    and "accept_table E (w_mem W) ''R4Sys'' (h_table h) (p_code E ''R4XSTART_R4SYS_MAGIC'')
      (p_code E ''R4XSTART_R4SYS_VERSION'') (unat (p_code E ''R4XSTART_R4SYS_SIZE'')) [''write'', ''putc''] = Some 0"
  using assms unfolding r4sys_init_def Let_def
  by (auto simp: bind_eq_Some_conv split: option.splits if_splits)

lemma sys_init_resident:
  assumes init: "r4sys_init K E W ctx out = Some (0, Some h)"
    and size: "\<forall>sz. load_u32 (w_mem W) (h_table h + 8) = Some sz \<longrightarrow> mapped (w_mem W) (h_table h) (unat sz)"
    and layout: "sys_base_layout E"
  obtains V where "resident (h_table h) V (w_mem W)" and "\<forall>s \<in> set sys_base_slots. opens E ''R4Sys'' (h_table h) V s"
proof -
  note a = sys_init_accepts [OF init]
  have base: "set [''write'', ''putc''] = set sys_base_slots" by (simp add: sys_base_slots_def)
  obtain V where V: "resident (h_table h) V (w_mem W)" "\<forall>s \<in> set [''write'', ''putc'']. opens E ''R4Sys'' (h_table h) V s"
  proof (rule accept_table_resident [OF a(3)])
    show "mapped (w_mem W) (h_table h) (unat sz)" if "load_u32 (w_mem W) (h_table h + 8) = Some sz" for sz
      using size that by blast
    show "12 \<le> unat (p_code E ''R4XSTART_R4SYS_SIZE'')" using layout by (simp add: sys_base_layout_def)
    show "\<forall>s \<in> set [''write'', ''putc'']. p_off E ''R4Sys'' s + 8 \<le> unat (p_code E ''R4XSTART_R4SYS_SIZE'')"
      using layout base by (simp add: sys_base_layout_def)
    show "h_table h \<noteq> 0" by (rule a(1))
  qed blast
  then show thesis using that base by metis
qed

text \<open>
  A system table that \<open>r4sys_init\<close> accepts is a resident table on which the mandatory
  slots can be called, and together with a platform that keeps it in place it makes the
  whole system facade ready: every wrapper call is then admitted.\<close>

theorem r4sys_init_ready:
  assumes "r4sys_init K E W ctx out = Some (0, Some h)"
    and "\<forall>sz. load_u32 (w_mem W) (h_table h + 8) = Some sz \<longrightarrow> mapped (w_mem W) (h_table h) (unat sz)"
    and "sys_base_layout E" and "abi_ok E" and "\<forall>(l, ss) \<in> set sys_capabilities. before E ''R4Sys'' l ss"
  shows "h_ctx h = ctx \<and> (\<exists>V. resident (h_table h) V (w_mem W) \<and>
    opens E ''R4Sys'' (h_table h) V ''write'' \<and> opens E ''R4Sys'' (h_table h) V ''putc'' \<and>
    (\<forall>outs. keeps_steady E (h_table h) V outs \<longrightarrow> sys_ready E (table_of (Some h)) V outs))"
proof -
  from sys_init_resident [OF assms(1-3)] obtain V where V: "resident (h_table h) V (w_mem W)"
    "\<forall>s \<in> set sys_base_slots. opens E ''R4Sys'' (h_table h) V s" .
  have "sys_ready E (table_of (Some h)) V outs" if "keeps_steady E (h_table h) V outs" for outs
    using that V(2) assms(4,5) by (auto simp: sys_ready_def table_of_def based_def opens_def)
  moreover have "h_ctx h = ctx" by (rule sys_init_accepts(2) [OF assms(1)])
  ultimately show ?thesis using V by (auto simp: sys_base_slots_def)
qed

text \<open>A loader with one import: the sample table as the system group.\<close>

definition sample_import :: start_import where
  "sample_import = \<lparr>i_module = 0x5000, i_symbol = 0x5100, i_min_version = 1, i_resolved_version = 1, i_group_id = 0,
     i_flags = 1, i_table = 0x1000\<rparr>"

definition sample_loader :: loader where
  "sample_loader = \<lparr>w_mem = place [(0x1000, sample_table)], w_import = (\<lambda>_. Some sample_import), w_query = (\<lambda>_. None)\<rparr>"

definition sample_init_platform :: "unit platform" where
  "sample_init_platform = sample_platform\<lparr>p_code := (\<lambda>c. if c = ''R4XSTART_R4SYS_SIZE'' then 24 else if c = ''R4XSTART_R4SYS_MAGIC'' then 1 else 0)\<rparr>"

lemma sample_load:
  "k + n \<le> 24 \<Longrightarrow> load_bytes (w_mem sample_loader) (0x1000 + word_of_nat k) n = Some (take n (drop k sample_table))"
  unfolding sample_loader_def by (simp only: loader.simps, rule place_loads) (simp_all add: sample_table_def)

lemma sample_loads:
  "load_u32 (w_mem sample_loader) 0x1000 = Some 1" "load_u32 (w_mem sample_loader) 0x1004 = Some 1"
  "load_u32 (w_mem sample_loader) 0x1008 = Some 24" "load_u64 (w_mem sample_loader) 0x1010 = Some 0x400000"
  using sample_load [of 0 4] sample_load [of 4 4] sample_load [of 8 4] sample_load [of 16 8]
  by (simp_all add: load_u32_def load_u64_def sample_table_def)

lemma sample_init:
  "r4sys_init sample_contract sample_init_platform sample_loader (Some sample_context) sample_handle_sys =
    Some (0, Some \<lparr>h_table = 0x1000, h_ctx = Some sample_context\<rparr>)"
proof -
  have "r4xstart_find_import sample_contract sample_loader (Some sample_context) 0 = Some (Some sample_import)"
    by (simp add: r4xstart_find_import_def r4xstart_import_count_def r4xstart_import_at_def sample_contract_def
      sample_context_def sample_loader_def sample_import_def)
  then show ?thesis
    by (simp add: r4sys_init_def accept_table_def sample_init_platform_def sample_platform_def sample_import_def
      sample_contract_def sample_handle_sys_def filled_def q_and_def sure_def sample_loads)
qed

theorem r4sys_init_ready_witness:
  "\<exists>V. resident 0x1000 V (w_mem sample_loader) \<and> opens sample_init_platform ''R4Sys'' 0x1000 V ''write''"
proof -
  have "mapped (w_mem sample_loader) 0x1000 24"
    using sample_load [of 0 24] load_bytes_mapped [of "w_mem sample_loader" "0x1000" 24] by simp
  moreover have "sys_base_layout sample_init_platform" "abi_ok sample_init_platform"
    "\<forall>(l, ss) \<in> set sys_capabilities. before sample_init_platform ''R4Sys'' l ss"
    by (simp_all add: sys_base_layout_def sys_base_slots_def sample_init_platform_def sample_platform_def abi_ok_def
      sys_capabilities_def before_def)
  ultimately show ?thesis using r4sys_init_ready [OF sample_init] sample_loads(3) by auto
qed

end
