(* ===== verification/AppContract.thy ===== *)
theory AppContract
  imports GroupInit FilePathCorrect RegistryPath
begin

text \<open>
  \<open>Shared/C/include/r4os/app_contract.h\<close>, the scalar exports of \<open>src/facades.c\<close> and the two
  program entries \<open>src/r4app_startup.c\<close> and \<open>src/r4xstart_startup.c\<close>: status values, stop
  flags, wait classification, the application object with its six group tables, and the
  owned handles.
\<close>

subsection \<open>Status values, stop flags and waits\<close>

record r4_status =
  s_domain :: u16
  s_raw_code :: i32
  s_flags :: u32
  s_progress :: u64
  s_required_size :: u64

definition r4_status_ok :: r4_status where
  "r4_status_ok = \<lparr>s_domain = 0, s_raw_code = 0, s_flags = 0, s_progress = 0, s_required_size = 0\<rparr>"

definition r4_status_failure :: "u16 \<Rightarrow> i32 \<Rightarrow> r4_status" where
  "r4_status_failure domain raw_code = r4_status_ok\<lparr>s_domain := domain, s_raw_code := raw_code\<rparr>"

definition r4_status_succeeded :: "r4_status \<Rightarrow> bool" where
  "r4_status_succeeded status \<longleftrightarrow> \<not> negative (s_raw_code status)"

text \<open>A stop flag is one 32-bit word that only atomic loads and stores touch.\<close>

definition r4_stop_flag_init :: "u32 option \<Rightarrow> u32 option" where
  "r4_stop_flag_init flag = map_option (\<lambda>_. 0) flag"

definition r4_stop_flag_request :: "u32 option \<Rightarrow> u32 option" where
  "r4_stop_flag_request flag = map_option (\<lambda>_. 1) flag"

definition r4_stop_flag_requested :: "u32 option \<Rightarrow> bool" where
  "r4_stop_flag_requested flag = (case flag of None \<Rightarrow> False | Some v \<Rightarrow> v \<noteq> 0)"

datatype wait_state = WAIT_COMPLETED | WAIT_WOULD_BLOCK | WAIT_TIMED_OUT | WAIT_CANCELLED | WAIT_FAILED

definition r4_wait_classify :: "i32 \<Rightarrow> i32 \<Rightarrow> i32 \<Rightarrow> i32 \<Rightarrow> wait_state" where
  "r4_wait_classify raw timeout_code cancelled_code would_block_code =
     (if \<not> negative raw then WAIT_COMPLETED
      else if raw = timeout_code then WAIT_TIMED_OUT
      else if raw = cancelled_code then WAIT_CANCELLED
      else if raw = would_block_code then WAIT_WOULD_BLOCK
      else WAIT_FAILED)"

subsection \<open>The application object\<close>

text \<open>The identity of a group in the contract, and the contract's application profiles.\<close>

record group_contract =
  g_id :: u32
  g_magic :: u32
  g_version :: u32
  g_size :: u32

record app_contract =
  ac_sys :: group_contract
  ac_desk :: group_contract
  ac_draw :: group_contract
  ac_net :: group_contract
  ac_audio :: group_contract
  ac_dev :: group_contract
  ac_console :: u8
  ac_desktop :: u8
  ac_service :: u8
  ac_console_required :: u32
  ac_desktop_required :: u32
  ac_service_required :: u32
  ac_domain :: u16
  ac_no_group :: i32
  ac_class_console :: u32
  ac_class_gui :: u32
  ac_class_service :: u32

record r4_app =
  a_context :: "start_context option"
  a_system :: r4_sys
  a_desktop :: u64
  a_drawing :: u64
  a_network :: u64
  a_audio :: u64
  a_devices :: u64
  a_group_mask :: u32
  a_profile :: u8

definition zero_app :: r4_app where
  "zero_app = \<lparr>a_context = None, a_system = \<lparr>h_table = 0, h_ctx = None\<rparr>, a_desktop = 0, a_drawing = 0, a_network = 0,
     a_audio = 0, a_devices = 0, a_group_mask = 0, a_profile = 0\<rparr>"

definition r4_app_group_table ::
  "start_contract \<Rightarrow> loader \<Rightarrow> start_context option \<Rightarrow> group_contract \<Rightarrow> u64 option" where
  "r4_app_group_table K W ctx g =
     do { item \<leftarrow> r4xstart_find_import K W ctx (g_id g);
          case item of
            None \<Rightarrow> Some 0
          | Some it \<Rightarrow>
              if i_table it = 0 \<or> i_flags it AND x_group_interface K = 0 then Some 0
              else do { ok \<leftarrow> group_header_ok (w_mem W) (i_table it) (g_magic g) (g_version g) (g_size g);
                        Some (if ok then i_table it else 0) } }"

text \<open>\<open>if (table != 0) groups |= 1u << GROUP\<close>\<close>

definition groups_with :: "u64 \<Rightarrow> group_contract \<Rightarrow> u32 \<Rightarrow> u32" where
  "groups_with table g groups = (if table \<noteq> 0 then groups OR push_bit (unat (g_id g)) 1 else groups)"

definition app_required :: "app_contract \<Rightarrow> u8 \<Rightarrow> u32" where
  "app_required A profile =
     (if profile = ac_desktop A then ac_desktop_required A
      else if profile = ac_service A then ac_service_required A else ac_console_required A)"

definition r4_app_init ::
  "start_contract \<Rightarrow> app_contract \<Rightarrow> loader \<Rightarrow> start_context option \<Rightarrow> u8 \<Rightarrow> r4_app option \<Rightarrow> (r4_status \<times> r4_app option) option" where
  "r4_app_init K A W ctx profile out_app =
     (if out_app = None \<or> ctx = None then Some (r4_status_failure (ac_domain A) (- 1), out_app)
      else if \<not> r4xstart_context_valid K ctx then
        Some (r4_status_failure (ac_domain A) (- 1), Some (zero_app\<lparr>a_profile := profile\<rparr>))
      else if profile \<noteq> ac_console A \<and> profile \<noteq> ac_desktop A \<and> profile \<noteq> ac_service A then
        Some (r4_status_failure (ac_domain A) (- 1), Some (zero_app\<lparr>a_profile := profile\<rparr>))
      else do {
        sys \<leftarrow> r4_app_group_table K W ctx (ac_sys A);
        desk \<leftarrow> r4_app_group_table K W ctx (ac_desk A);
        draw \<leftarrow> r4_app_group_table K W ctx (ac_draw A);
        net \<leftarrow> r4_app_group_table K W ctx (ac_net A);
        audio \<leftarrow> r4_app_group_table K W ctx (ac_audio A);
        dev \<leftarrow> r4_app_group_table K W ctx (ac_dev A);
        let groups = groups_with dev (ac_dev A) (groups_with audio (ac_audio A) (groups_with net (ac_net A)
              (groups_with draw (ac_draw A) (groups_with desk (ac_desk A) (groups_with sys (ac_sys A) 0)))));
            required = app_required A profile
        in if groups AND required \<noteq> required then Some (r4_status_failure (ac_domain A) (ac_no_group A), Some zero_app)
           else Some (r4_status_ok, Some \<lparr>a_context = ctx, a_system = \<lparr>h_table = sys, h_ctx = ctx\<rparr>, a_desktop = desk,
                  a_drawing = draw, a_network = net, a_audio = audio, a_devices = dev, a_group_mask = groups,
                  a_profile = profile\<rparr>) })"

definition r4_app_init_declared ::
  "start_contract \<Rightarrow> app_contract \<Rightarrow> loader \<Rightarrow> start_context option \<Rightarrow> startup_info option \<Rightarrow> r4_app option \<Rightarrow>
    (r4_status \<times> r4_app option) option" where
  "r4_app_init_declared K A W ctx info out_app =
     (case out_app of
        None \<Rightarrow> Some (r4_status_failure (ac_domain A) (- 1), None)
      | Some _ \<Rightarrow>
          do { raw \<leftarrow> r4xstart_validate_declared K W ctx info;
               if negative raw then Some (r4_status_failure (ac_domain A) raw, Some zero_app)
               else (case info of None \<Rightarrow> None | Some i \<Rightarrow> r4_app_init K A W ctx (s_profile i) (Some zero_app)) })"

definition r4_app_has_group :: "r4_app option \<Rightarrow> u32 \<Rightarrow> bool" where
  "r4_app_has_group app group_id =
     (case app of
        None \<Rightarrow> False
      | Some a \<Rightarrow> group_id < 32 \<and> a_group_mask a AND push_bit (unat group_id) 1 \<noteq> 0)"

text \<open>The length is written when a place is given; the result is the argument pointer.\<close>

definition r4_app_args :: "r4_app option \<Rightarrow> u64 option \<Rightarrow> u64 \<times> u64 option" where
  "r4_app_args app out_len =
     (case app of
        None \<Rightarrow> (0, map_option (\<lambda>_. 0) out_len)
      | Some a \<Rightarrow> (r4xstart_args (a_context a),
           map_option (\<lambda>_. case a_context a of None \<Rightarrow> 0 | Some c \<Rightarrow> c_args_len c) out_len))"

definition r4_app_should_close :: "start_contract \<Rightarrow> 'w platform \<Rightarrow> r4_app option \<Rightarrow> (bool, 'w) io" where
  "r4_app_should_close K E app =
     (case app of None \<Rightarrow> give True | Some a \<Rightarrow> r4sys_program_should_close K E (Some (a_system a)))"

definition r4_app_ticks :: "'w platform \<Rightarrow> r4_app option \<Rightarrow> (u64, 'w) io" where
  "r4_app_ticks E app =
     (case app of
        None \<Rightarrow> give 0
      | Some a \<Rightarrow> ask (sys_base E (Some (a_system a)) ''ticks'') (\<lambda>ok.
          if \<not> ok then give 0 else sys_call E (Some (a_system a)) ''ticks'' []))"

definition R4SdkAppFacade ::
  "start_contract \<Rightarrow> app_contract \<Rightarrow> loader \<Rightarrow> start_context option \<Rightarrow> r4_app option \<Rightarrow> (i32 \<times> r4_app option) option" where
  "R4SdkAppFacade K A W ctx out_app =
     (case ctx of
        None \<Rightarrow> Some (- 1, out_app)
      | Some c \<Rightarrow>
          let launch = (\<lambda>profile. map_option (\<lambda>(st, app). (s_raw_code st, app)) (r4_app_init K A W ctx profile out_app))
          in if c_app_class c = ac_class_console A then launch (ac_console A)
             else if c_app_class c = ac_class_gui A then launch (ac_desktop A)
             else if c_app_class c = ac_class_service A then launch (ac_service A)
             else Some (- 1, out_app))"

subsection \<open>Program entries\<close>

text \<open>
  \<open>bind_entropy\<close> is \<open>R4SdkBindProgramEntropy\<close> and \<open>main\<close> is \<open>r4_app_main\<close> or \<open>r4_main\<close>: code of
  the program, not of the SDK. The application object starts uninitialised and is cleared first.
\<close>

definition r4app_R4XStart ::
  "start_contract \<Rightarrow> app_contract \<Rightarrow> loader \<Rightarrow> startup_info \<Rightarrow> (start_context option \<Rightarrow> (i32, 'w) io) \<Rightarrow>
    (r4_app \<Rightarrow> (i32, 'w) io) \<Rightarrow> start_context option \<Rightarrow> (i32, 'w) io" where
  "r4app_R4XStart K A W info bind_entropy main ctx s =
     (case r4_app_init_declared K A (W\<lparr>w_mem := m_mem s\<rparr>) ctx (Some info) (Some zero_app) of
        Some (st, Some app) \<Rightarrow>
          if \<not> r4_status_succeeded st then Some (s_raw_code st, s)
          else and_then (bind_entropy ctx) (\<lambda>e. if negative e then give e else main app) s
      | _ \<Rightarrow> None)"

definition r4xstart_R4XStart ::
  "start_contract \<Rightarrow> 'w platform \<Rightarrow> loader \<Rightarrow> (start_context option \<Rightarrow> r4_sys \<Rightarrow> (i32, 'w) io) \<Rightarrow>
    start_context option \<Rightarrow> (i32, 'w) io" where
  "r4xstart_R4XStart K E W main ctx s =
     (if \<not> r4xstart_context_valid K ctx then Some (51, s)
      else case r4sys_init K E (W\<lparr>w_mem := m_mem s\<rparr>) ctx (Some \<lparr>h_table = 0, h_ctx = None\<rparr>) of
             Some (rc, Some sys) \<Rightarrow> if rc \<noteq> 0 then Some (52, s) else main ctx sys s
           | _ \<Rightarrow> None)"

subsection \<open>Scalar path exports\<close>

text \<open>The three outputs are pointers; \<open>capacity\<close> is the announced size of the first.\<close>

definition R4SdkFilePath ::
  "path_limits \<Rightarrow> bytes option \<Rightarrow> int \<Rightarrow> bytes option \<Rightarrow> nat \<Rightarrow> u16 option \<Rightarrow> bool option \<Rightarrow>
    (path_code \<times> bytes option \<times> u16 option \<times> bool option) option" where
  "R4SdkFilePath L input kind out_bytes capacity out_length out_absolute =
     (case (out_bytes, out_length, out_absolute) of
        (Some buf, Some _, Some _) \<Rightarrow>
          if capacity < file_path_max_bytes L + 1 \<or> kind < - 1 \<or> kind > 1
          then Some (PATH_WRONG_KIND, out_bytes, out_length, out_absolute)
          else map_option (\<lambda>r. (r_code r, Some (r_buffer r),
                 Some (case r_len r of None \<Rightarrow> 0 | Some n \<Rightarrow> n),
                 Some (case r_absolute r of None \<Rightarrow> False | Some a \<Rightarrow> a)))
               (r4_path_normalize L input kind buf)
      | _ \<Rightarrow> Some (PATH_WRONG_KIND, out_bytes, out_length, out_absolute))"

definition R4SdkRegistryPath ::
  "nat \<Rightarrow> bytes option \<Rightarrow> bytes option \<Rightarrow> nat \<Rightarrow> u16 option \<Rightarrow> (path_code \<times> bytes option \<times> u16 option) option" where
  "R4SdkRegistryPath max_bytes input out_bytes capacity out_length =
     (case (out_bytes, out_length) of
        (Some buf, Some _) \<Rightarrow>
          if capacity < max_bytes + 1 then Some (PATH_TOO_LONG, out_bytes, out_length)
          else do {
            (code, path) \<leftarrow> r4_registry_path max_bytes input
               (Some \<lparr>rp_bytes = replicate (max_bytes + 1) 0, rp_length = 0\<rparr>);
            if code \<noteq> PATH_OK then Some (code, out_bytes, Some 0)
            else do { p \<leftarrow> path;
                      buf \<leftarrow> r4_contract_copy buf 0 (take (unat (rp_length p) + 1) (rp_bytes p));
                      Some (PATH_OK, Some buf, Some (rp_length p)) } }
      | _ \<Rightarrow> Some (PATH_TOO_LONG, out_bytes, out_length))"

definition r4app_serial :: "'w platform \<Rightarrow> memory \<Rightarrow> r4_app option \<Rightarrow> handle option \<Rightarrow> (i32 \<times> handle option) option" where
  "r4app_serial E M app out = r4serial_init E M (map_option (\<lambda>a. \<lparr>h_table = a_devices a\<rparr>) app) out"

subsection \<open>Owned handles\<close>

text \<open>\<open>R4_DECLARE_HANDLE\<close>: null is 0; \<open>R4WindowHandle\<close>: every negative number is none.\<close>

record 'r owned_handle =
  o_raw :: 'r
  o_owned :: u8

definition handle_valid :: "u32 owned_handle option \<Rightarrow> bool" where
  "handle_valid h = (case h of None \<Rightarrow> False | Some x \<Rightarrow> o_raw x \<noteq> 0)"

definition handle_apply_close_result :: "u32 owned_handle option \<Rightarrow> i32 \<Rightarrow> i32 \<times> u32 owned_handle option" where
  "handle_apply_close_result h raw_code =
     (raw_code, map_option (\<lambda>x. if o_owned x \<noteq> 0 \<and> \<not> negative raw_code then x\<lparr>o_raw := 0\<rparr> else x) h)"

definition R4WindowHandle_valid :: "i32 owned_handle option \<Rightarrow> bool" where
  "R4WindowHandle_valid h = (case h of None \<Rightarrow> False | Some x \<Rightarrow> \<not> negative (o_raw x))"

definition R4WindowHandle_apply_close_result :: "i32 owned_handle option \<Rightarrow> i32 \<Rightarrow> i32 \<times> i32 owned_handle option" where
  "R4WindowHandle_apply_close_result h raw_code =
     (raw_code, map_option (\<lambda>x. if o_owned x \<noteq> 0 \<and> \<not> negative raw_code then x\<lparr>o_raw := - 1\<rparr> else x) h)"

subsection \<open>Close results\<close>

text \<open>What both kinds of handle promise their owner.\<close>

locale owned_close =
  fixes valid :: "'h \<Rightarrow> bool" and owned :: "'h \<Rightarrow> bool" and close :: "'h \<Rightarrow> i32 \<Rightarrow> i32 \<times> 'h"
  assumes returns: "fst (close h rc) = rc"
    and keeps: "\<not> owned h \<or> negative rc \<Longrightarrow> snd (close h rc) = h"
    and releases: "owned h \<Longrightarrow> \<not> negative rc \<Longrightarrow> \<not> valid (snd (close h rc))"
    and owned_kept: "owned (snd (close h rc)) = owned h"
begin

definition close_all :: "'h \<Rightarrow> i32 list \<Rightarrow> 'h" where
  "close_all h rcs = fold (\<lambda>rc h. snd (close h rc)) rcs h"

lemma owned_close_all: "owned (close_all h rcs) = owned h"
  by (induction rcs arbitrary: h) (simp_all add: close_all_def owned_kept)

lemma close_all_borrowed: "\<not> owned h \<Longrightarrow> close_all h rcs = h"
  by (induction rcs arbitrary: h) (simp_all add: close_all_def keeps)

lemma close_all_failed: "\<forall>rc \<in> set rcs. negative rc \<Longrightarrow> close_all h rcs = h"
  by (induction rcs arbitrary: h) (simp_all add: close_all_def keeps)

lemma invalid_stays: "\<not> valid h \<Longrightarrow> \<not> valid (snd (close h rc))"
  by (cases "owned h \<and> \<not> negative rc") (auto simp: releases keeps)

lemma close_all_valid:
  "valid (close_all h rcs) \<longleftrightarrow> valid h \<and> (\<not> owned h \<or> (\<forall>rc \<in> set rcs. negative rc))"
proof (induction rcs arbitrary: h)
  case (Cons rc rcs)
  have "close_all h (rc # rcs) = close_all (snd (close h rc)) rcs" by (simp add: close_all_def)
  then show ?case using Cons [of "snd (close h rc)"] invalid_stays [of h rc] keeps [of h rc] releases [of h rc]
    by (cases "negative rc") (auto simp: owned_kept)
qed (simp add: close_all_def)

end

definition handle_owned :: "'r owned_handle option \<Rightarrow> bool" where
  "handle_owned h = (case h of None \<Rightarrow> False | Some x \<Rightarrow> o_owned x \<noteq> 0)"

interpretation kernel: owned_close handle_valid handle_owned handle_apply_close_result
  by unfold_locales
    (auto simp: handle_valid_def handle_owned_def handle_apply_close_result_def split: option.splits)

interpretation window: owned_close R4WindowHandle_valid handle_owned R4WindowHandle_apply_close_result
  by unfold_locales
    (auto simp: R4WindowHandle_valid_def handle_owned_def R4WindowHandle_apply_close_result_def
      split: option.splits)

text \<open>
  However many close results are applied to a handle, in whatever order, the handle is
  still valid exactly when it was valid and either it is borrowed or every result was an
  error: one success releases an owned handle for good, and a failed close never loses it.
  This holds of the unsigned handles and of window handles, whose none is \<open>-1\<close>.\<close>

theorem owned_handles_close_once:
  "handle_valid (fold (\<lambda>rc h. snd (handle_apply_close_result h rc)) rcs h) =
     (handle_valid h \<and> (\<not> handle_owned h \<or> (\<forall>rc \<in> set rcs. negative rc))) \<and>
   R4WindowHandle_valid (fold (\<lambda>rc h. snd (R4WindowHandle_apply_close_result h rc)) rcs w) =
     (R4WindowHandle_valid w \<and> (\<not> handle_owned w \<or> (\<forall>rc \<in> set rcs. negative rc)))"
  using kernel.close_all_valid [of h rcs] window.close_all_valid [of w rcs]
  by (simp add: kernel.close_all_def window.close_all_def)

theorem owned_handles_close_once_witness:
  "\<not> handle_valid (fold (\<lambda>rc h. snd (handle_apply_close_result h rc)) [- 5, 0] (Some \<lparr>o_raw = 9, o_owned = 1\<rparr>))"
  using owned_handles_close_once [of "[- 5, 0]" "Some \<lparr>o_raw = 9, o_owned = 1\<rparr>"]
  by (simp add: handle_owned_def)

subsection \<open>The group mask\<close>

definition app_groups :: "app_contract \<Rightarrow> group_contract list" where
  "app_groups A = [ac_sys A, ac_desk A, ac_draw A, ac_net A, ac_audio A, ac_dev A]"

definition app_tables :: "r4_app \<Rightarrow> u64 list" where
  "app_tables a = [h_table (a_system a), a_desktop a, a_drawing a, a_network a, a_audio a, a_devices a]"

definition groups_of :: "(u64 \<times> group_contract) list \<Rightarrow> u32" where
  "groups_of tgs = fold (\<lambda>(t, g). groups_with t g) tgs 0"

lemma bit_groups_with:
  "bit (groups_with t g m) n \<longleftrightarrow> bit m n \<or> (t \<noteq> 0 \<and> n = unat (g_id g) \<and> n < 32)"
  by (auto simp: groups_with_def bit_or_iff bit_exp_iff)

lemma bit_fold_groups_with:
  "bit (fold (\<lambda>(t, g). groups_with t g) tgs m) n \<longleftrightarrow>
    bit m n \<or> (n < 32 \<and> (\<exists>(t, g) \<in> set tgs. t \<noteq> 0 \<and> unat (g_id g) = n))"
  by (induction tgs arbitrary: m) (auto simp: bit_groups_with split: prod.splits)

lemma has_group_bit: "r4_app_has_group (Some a) n \<longleftrightarrow> n < 32 \<and> bit (a_group_mask a) (unat n)"
proof -
  have "x AND push_bit k 1 \<noteq> 0 \<longleftrightarrow> bit x k" for x :: u32 and k
    by (simp add: and_exp_eq_0_iff_not_bit)
  then show ?thesis by (auto simp: r4_app_has_group_def word_less_nat_alt)
qed

text \<open>A declaration whose group rows ask for no less than the contract's own identity of the group.\<close>

definition declares_contract :: "group_contract list \<Rightarrow> startup_info \<Rightarrow> bool" where
  "declares_contract gs info \<longleftrightarrow>
     (\<forall>rows. s_imports info = Some rows \<longrightarrow> (\<forall>d \<in> set rows. \<forall>g \<in> set gs. d_group_id d = g_id g \<longrightarrow>
        d_magic d = g_magic g \<and> g_version g \<le> d_version d \<and> g_size g \<le> d_size d))"

lemma group_header_ok_iff:
  "group_header_ok M t m v z = Some True \<longleftrightarrow>
    (\<exists>v0 z0. load_u32 M t = Some m \<and> load_u32 M (t + 4) = Some v0 \<and> load_u32 M (t + 8) = Some z0 \<and> v \<le> v0 \<and> z \<le> z0)"
  by (cases "load_u32 M t"; cases "load_u32 M (t + 4)"; cases "load_u32 M (t + 8)")
    (auto simp: group_header_ok_def not_less)

lemma group_header_ok_mono:
  "group_header_ok M t m v z = Some True \<Longrightarrow> v' \<le> v \<Longrightarrow> z' \<le> z \<Longrightarrow> group_header_ok M t m v' z' = Some True"
  unfolding group_header_ok_iff using order_trans by blast

lemma find_group:
  assumes "list_all2 (row_accepted K M) rows ds" and "List.find (\<lambda>r. i_group_id r = n) rows = Some r"
  shows "\<exists>d \<in> set ds. row_accepted K M r d \<and> d_group_id d = n"
proof -
  from assms(2) obtain i where "i < length rows" "rows ! i = r" "i_group_id r = n" by (auto simp: find_Some_iff)
  with assms(1) show ?thesis by (auto simp: list_all2_conv_all_nth row_accepted_def intro!: bexI [of _ "ds ! i"])
qed

text \<open>
  The table a group is bound to: the one its first import row names, whose header passes the group's own
  identity; a group no row names has none.
\<close>

definition header_passes :: "memory \<Rightarrow> group_contract \<Rightarrow> u64 \<Rightarrow> bool" where
  "header_passes M g t \<longleftrightarrow> (\<exists>v sz. load_u32 M t = Some (g_magic g) \<and> load_u32 M (t + 4) = Some v \<and> g_version g \<le> v \<and>
     load_u32 M (t + 8) = Some sz \<and> g_size g \<le> sz)"

definition group_bound :: "memory \<Rightarrow> start_import list \<Rightarrow> group_contract \<Rightarrow> u64 \<Rightarrow> bool" where
  "group_bound M rows g t \<longleftrightarrow>
     (case List.find (\<lambda>r. i_group_id r = g_id g) rows of
        None \<Rightarrow> t = 0
      | Some r \<Rightarrow> t = i_table r \<and> t \<noteq> 0 \<and> header_passes M g t)"

lemma header_passes_iff: "header_passes M g t \<longleftrightarrow> group_header_ok M t (g_magic g) (g_version g) (g_size g) = Some True"
  unfolding header_passes_def group_header_ok_iff by blast

lemma declared_group_table:
  assumes rows: "rows_at K W c rows" "list_all2 (row_accepted K (w_mem W)) rows ds"
    and ident: "\<forall>d \<in> set ds. d_group_id d = g_id g \<longrightarrow> d_magic d = g_magic g \<and> g_version g \<le> d_version d \<and> g_size g \<le> d_size d"
    and g: "g_id g \<noteq> 0" and K: "x_group_interface K \<noteq> 0"
  shows "\<exists>t. r4_app_group_table K W (Some c) g = Some t \<and> group_bound (w_mem W) rows g t \<and> (t \<noteq> 0 \<longleftrightarrow> (\<exists>d \<in> set ds. d_group_id d = g_id g))"
proof (cases "List.find (\<lambda>r. i_group_id r = g_id g) rows")
  case None
  then have "\<forall>r \<in> set rows. i_group_id r \<noteq> g_id g" by (simp add: find_None_iff)
  then have "\<not> (\<exists>d \<in> set ds. d_group_id d = g_id g)"
    using rows(2) by (fastforce simp: list_all2_conv_all_nth row_accepted_def in_set_conv_nth)
  then show ?thesis using None find_import_first [OF rows(1), of "g_id g"] by (simp add: r4_app_group_table_def group_bound_def)
next
  case (Some r)
  from find_group [OF rows(2) this] obtain d where d: "d \<in> set ds" "row_accepted K (w_mem W) r d" "d_group_id d = g_id g"
    by blast
  then have "group_header_ok (w_mem W) (i_table r) (g_magic g) (g_version g) (g_size g) = Some True"
    using ident g group_header_ok_mono [of "w_mem W" "i_table r" "d_magic d" "d_version d" "d_size d"]
    by (auto simp: row_accepted_def)
  moreover have "i_table r \<noteq> 0" "i_flags r = x_group_interface K" using d g by (auto simp: row_accepted_def)
  ultimately show ?thesis using Some find_import_first [OF rows(1), of "g_id g"] K d
    by (auto simp: r4_app_group_table_def group_bound_def header_passes_iff)
qed

text \<open>The three profiles, and the groups each needs, as the contract names them.\<close>

definition known_profile :: "app_contract \<Rightarrow> u8 \<Rightarrow> bool" where
  "known_profile A p \<longleftrightarrow> p = ac_console A \<or> p = ac_desktop A \<or> p = ac_service A"

definition app_contract_ok :: "app_contract \<Rightarrow> bool" where
  "app_contract_ok A \<longleftrightarrow> distinct (map g_id (app_groups A)) \<and> (\<forall>g \<in> set (app_groups A). g_id g \<noteq> 0 \<and> g_id g < 32) \<and>
     (\<forall>p n. bit (app_required A p) n \<longrightarrow> n \<in> (unat \<circ> g_id) ` set (app_groups A))"

lemma app_contract_okD:
  "app_contract_ok A \<Longrightarrow> g \<in> set (app_groups A) \<Longrightarrow> g_id g \<noteq> 0 \<and> g_id g < 32"
  by (simp add: app_contract_ok_def)

text \<open>What \<open>r4_app_init\<close> computes once the six lookups have their values.\<close>

lemma app_init_run:
  assumes "r4xstart_context_valid K (Some c)" and "known_profile A p"
    and tables: "map (r4_app_group_table K W (Some c)) (app_groups A) = map Some ts"
  defines "m \<equiv> groups_of (zip ts (app_groups A))"
  assumes req: "m AND app_required A p = app_required A p"
  shows "\<exists>app. r4_app_init K A W (Some c) p (Some out) = Some (r4_status_ok, Some app) \<and> a_context app = Some c \<and>
    a_profile app = p \<and> app_tables app = ts \<and> a_group_mask app = m \<and> h_ctx (a_system app) = Some c"
proof -
  obtain t1 t2 t3 t4 t5 t6 where ts: "ts = [t1, t2, t3, t4, t5, t6]"
  proof -
    have "length ts = 6" using arg_cong [OF tables, of length] by (simp add: app_groups_def)
    then show thesis using that by (auto simp: length_Suc_conv eval_nat_numeral)
  qed
  show ?thesis using assms(1,2) tables req
    by (auto simp: r4_app_init_def app_groups_def ts m_def groups_of_def app_tables_def known_profile_def Let_def)
qed

lemma declared_tables:
  assumes "rows_at K W c rows" and "list_all2 (row_accepted K (w_mem W)) rows ds"
    and "\<forall>g \<in> set gs. g_id g \<noteq> 0 \<and> (\<forall>d \<in> set ds. d_group_id d = g_id g \<longrightarrow>
      d_magic d = g_magic g \<and> g_version g \<le> d_version d \<and> g_size g \<le> d_size d)"
    and "x_group_interface K \<noteq> 0"
  shows "\<exists>ts. map (r4_app_group_table K W (Some c)) gs = map Some ts \<and>
    list_all2 (\<lambda>t g. t \<noteq> 0 \<longleftrightarrow> (\<exists>d \<in> set ds. d_group_id d = g_id g)) ts gs \<and> list_all2 (group_bound (w_mem W) rows) gs ts"
  using assms(3)
proof (induction gs)
  case (Cons g gs)
  then obtain ts where ts: "map (r4_app_group_table K W (Some c)) gs = map Some ts"
    "list_all2 (\<lambda>t g. t \<noteq> 0 \<longleftrightarrow> (\<exists>d \<in> set ds. d_group_id d = g_id g)) ts gs" "list_all2 (group_bound (w_mem W) rows) gs ts" by auto
  from Cons.prems declared_group_table [OF assms(1,2) _ _ assms(4), of g] obtain t where
    "r4_app_group_table K W (Some c) g = Some t" "group_bound (w_mem W) rows g t" "t \<noteq> 0 \<longleftrightarrow> (\<exists>d \<in> set ds. d_group_id d = g_id g)" by auto
  with ts show ?case by (intro exI [of _ "t # ts"]) simp
qed simp

lemma declared_rows_identity:
  assumes "declares_contract gs info" and "length ds = length rows" and "rows \<noteq> [] \<Longrightarrow> \<exists>more. s_imports info = Some (ds @ more)"
    and "g \<in> set gs" and "d \<in> set ds" and "d_group_id d = g_id g"
  shows "d_magic d = g_magic g \<and> g_version g \<le> d_version d \<and> g_size g \<le> d_size d"
proof -
  have "rows \<noteq> []" using assms(2,5) by auto
  with assms(3) obtain more where "s_imports info = Some (ds @ more)" by blast
  then show ?thesis using assms(1,4-6) unfolding declares_contract_def by auto
qed

lemma list_all2_zip_mem: "list_all2 P ts gs \<Longrightarrow> (t, g) \<in> set (zip ts gs) \<Longrightarrow> P t g"
  by (auto simp: list_all2_iff)

lemma zip_mem: "length ts = length gs \<Longrightarrow> g \<in> set gs \<Longrightarrow> \<exists>t. (t, g) \<in> set (zip ts gs)"
  by (metis in_set_impl_in_set_zip2)

lemma declared_start_binds:
  assumes valid: "r4xstart_validate_declared K W (Some c) (Some info) = Some 0"
    and "known_profile A (s_profile info)" and "app_contract_ok A" and "declares_contract (app_groups A) info"
    and "\<forall>n. bit (app_required A (s_profile info)) n \<longrightarrow> bit (s_required_groups info) n"
    and "x_group_interface K \<noteq> 0"
  shows "\<exists>app rows ds. r4_app_init_declared K A W (Some c) (Some info) (Some out) = Some (r4_status_ok, Some app) \<and>
    a_context app = Some c \<and> a_profile app = s_profile info \<and> h_ctx (a_system app) = Some c \<and>
    rows_at K W c rows \<and> list_all2 (group_bound (w_mem W) rows) (app_groups A) (app_tables app) \<and>
    (\<forall>g \<in> set (app_groups A). r4_app_has_group (Some app) (g_id g) \<longleftrightarrow> (\<exists>d \<in> set ds. d_group_id d = g_id g)) \<and>
    (ds \<noteq> [] \<longrightarrow> (\<exists>more. s_imports info = Some (ds @ more))) \<and> length ds = unat (c_import_count c)"
proof -
  from valid obtain rows ds where r: "rows_at K W c rows" "length ds = length rows"
    "rows \<noteq> [] \<Longrightarrow> \<exists>more. s_imports info = Some (ds @ more)" "list_all2 (row_accepted K (w_mem W)) rows ds"
    "r4xstart_context_valid K (Some c)"
    "\<And>n. bit (s_required_groups info) n \<Longrightarrow> \<exists>d \<in> set ds. d_group_id d \<noteq> 0 \<and> unat (d_group_id d) = n"
    and flags: "c_flags c AND x_imports_valid K \<noteq> 0"
    by (rule validate_declared_accepts) (use valid in \<open>auto simp: r4xstart_validate_declared_def declared_context_ok_def split: if_splits\<close>)
  note ident = declared_rows_identity [OF assms(4) r(2,3)]
  have "\<forall>g \<in> set (app_groups A). g_id g \<noteq> 0 \<and> (\<forall>d \<in> set ds. d_group_id d = g_id g \<longrightarrow>
      d_magic d = g_magic g \<and> g_version g \<le> d_version d \<and> g_size g \<le> d_size d)"
    using ident app_contract_okD [OF assms(3)] by blast
  from declared_tables [OF r(1,4) this assms(6)] obtain ts where
    ts: "map (r4_app_group_table K W (Some c)) (app_groups A) = map Some ts"
    "list_all2 (\<lambda>t g. t \<noteq> 0 \<longleftrightarrow> (\<exists>d \<in> set ds. d_group_id d = g_id g)) ts (app_groups A)"
    "list_all2 (group_bound (w_mem W) rows) (app_groups A) ts" by blast
  define m where "m = groups_of (zip ts (app_groups A))"
  have bit_m: "bit m (unat (g_id g)) \<longleftrightarrow> (\<exists>d \<in> set ds. d_group_id d = g_id g)" if g: "g \<in> set (app_groups A)" for g
  proof -
    obtain t where t: "(t, g) \<in> set (zip ts (app_groups A))"
      using zip_mem [of ts "app_groups A" g] ts(2) g by (auto dest: list_all2_lengthD)
    have uniq: "g' = g" if "(t', g') \<in> set (zip ts (app_groups A))" "unat (g_id g') = unat (g_id g)" for t' g'
    proof -
      have "g' \<in> set (app_groups A)" using that(1) by (rule set_zip_rightD)
      moreover have "inj_on g_id (set (app_groups A))" using assms(3) by (simp add: app_contract_ok_def distinct_map)
      moreover have "g_id g' = g_id g" using that(2) by (simp add: word_unat_eq_iff)
      ultimately show ?thesis using g by (simp add: inj_on_def)
    qed
    have "unat (g_id g) < 32" using app_contract_okD [OF assms(3) g] by (simp add: word_less_nat_alt)
    then show ?thesis using t uniq list_all2_zip_mem [OF ts(2)]
      unfolding m_def groups_of_def bit_fold_groups_with by auto blast+
  qed
  have req: "m AND app_required A (s_profile info) = app_required A (s_profile info)"
  proof (rule bit_word_eqI)
    fix n
    have "bit m n" if n: "bit (app_required A (s_profile info)) n"
    proof -
      have "n \<in> (unat \<circ> g_id) ` set (app_groups A)" using assms(3) n by (simp add: app_contract_ok_def)
      then obtain g where g: "g \<in> set (app_groups A)" "n = unat (g_id g)" by auto
      from r(6) [of n] assms(5) n obtain d where "d \<in> set ds" "unat (d_group_id d) = n" by blast
      then have "d_group_id d = g_id g" "d \<in> set ds" using g(2) by (simp_all add: word_unat_eq_iff)
      then show ?thesis using bit_m [OF g(1)] g(2) by blast
    qed
    then show "bit (m AND app_required A (s_profile info)) n = bit (app_required A (s_profile info)) n"
      by (auto simp: bit_and_iff)
  qed
  from app_init_run [OF r(5) assms(2) ts(1) req [unfolded m_def], of zero_app] obtain app where
    app: "r4_app_init K A W (Some c) (s_profile info) (Some zero_app) = Some (r4_status_ok, Some app)"
    "a_context app = Some c" "a_profile app = s_profile info" "a_group_mask app = m" "app_tables app = ts" "h_ctx (a_system app) = Some c"
    unfolding m_def by blast
  have "length ds = unat (c_import_count c)"
    using r(1,2) flags by (simp add: rows_at_def r4xstart_import_count_def)
  moreover have "r4_app_has_group (Some app) (g_id g) \<longleftrightarrow> (\<exists>d \<in> set ds. d_group_id d = g_id g)"
    if "g \<in> set (app_groups A)" for g
    using bit_m [OF that] app_contract_okD [OF assms(3) that] app(4) by (simp add: has_group_bit)
  moreover have "\<exists>more. s_imports info = Some (ds @ more)" if "ds \<noteq> []" using r(2,3) that by (cases rows) auto
  moreover have "r4_app_init_declared K A W (Some c) (Some info) (Some out) = Some (r4_status_ok, Some app)"
    using app(1) valid by (simp add: r4_app_init_declared_def)
  ultimately show ?thesis using app(2,3,5,6) ts(3) r(1) by blast
qed

lemma group_table_passes: "r4_app_group_table K W (Some c) g = Some t \<Longrightarrow> t = 0 \<or> header_passes (w_mem W) g t"
  by (auto simp: r4_app_group_table_def header_passes_iff bind_eq_Some_conv split: option.split_asm if_split_asm)

lemma app_init_tables:
  assumes "r4_app_init K A W (Some c) p (Some out) = Some (st, Some app)"
  shows "app_tables app = replicate 6 0 \<or> map (r4_app_group_table K W (Some c)) (app_groups A) = map Some (app_tables app)"
proof (cases "r4xstart_context_valid K (Some c) \<and> known_profile A p")
  case False
  then have "app = zero_app\<lparr>a_profile := p\<rparr>" using assms by (auto simp: r4_app_init_def known_profile_def split: if_split_asm)
  then show ?thesis by (simp add: app_tables_def zero_app_def numeral_eq_Suc)
next
  case True
  then have run: "\<not> (p \<noteq> ac_console A \<and> p \<noteq> ac_desktop A \<and> p \<noteq> ac_service A)" by (auto simp: known_profile_def)
  from assms True show ?thesis
    unfolding r4_app_init_def if_not_P [OF run] by (auto simp: Let_def bind_eq_Some_conv app_groups_def app_tables_def zero_app_def numeral_eq_Suc
      split: if_split_asm)
qed

lemma app_init_passes:
  assumes "r4_app_init K A W (Some c) p (Some out) = Some (st, Some app)"
  shows "list_all2 (\<lambda>g t. t = 0 \<or> header_passes (w_mem W) g t) (app_groups A) (app_tables app)"
proof -
  have six: "length (app_groups A) = 6" "length (app_tables app) = 6" by (simp_all add: app_groups_def app_tables_def)
  from app_init_tables [OF assms] show ?thesis
  proof
    assume "app_tables app = replicate 6 0"
    then show ?thesis by (simp add: list_all2_conv_all_nth six)
  next
    assume *: "map (r4_app_group_table K W (Some c)) (app_groups A) = map Some (app_tables app)"
    have "r4_app_group_table K W (Some c) (app_groups A ! i) = Some (app_tables app ! i)" if "i < 6" for i
      using arg_cong [OF *, of "\<lambda>xs. xs ! i"] that six by simp
    then have "\<forall>i < 6. app_tables app ! i = 0 \<or> header_passes (w_mem W) (app_groups A ! i) (app_tables app ! i)"
      using group_table_passes by blast
    then show ?thesis by (simp add: list_all2_conv_all_nth six)
  qed
qed

text \<open>
  C8: A start context that the declared check accepts, for a declaration that names the
  contract's own groups and requires what its profile needs, always yields a bound
  application: \<open>r4_app_init_declared\<close> succeeds, and each of its six tables is the one the first import row
  of its group names, with the magic and at least the version and size of that group in its header, or null when
  no row names the group; \<open>r4_app_has_group\<close> answers yes exactly for the groups that are declared. Without a
  declaration \<open>r4_app_init\<close> binds no table whose header does not pass either.\<close>

theorem declared_start_binds_app:
  assumes valid: "r4xstart_validate_declared K W (Some c) (Some info) = Some 0"
    and "known_profile A (s_profile info)" and "app_contract_ok A" and "declares_contract (app_groups A) info"
    and "\<forall>n. bit (app_required A (s_profile info)) n \<longrightarrow> bit (s_required_groups info) n"
    and "x_group_interface K \<noteq> 0"
  shows "(\<exists>app rows ds. r4_app_init_declared K A W (Some c) (Some info) (Some out) = Some (r4_status_ok, Some app) \<and>
    a_context app = Some c \<and> a_profile app = s_profile info \<and> h_ctx (a_system app) = Some c \<and>
    rows_at K W c rows \<and> list_all2 (group_bound (w_mem W) rows) (app_groups A) (app_tables app) \<and>
    (\<forall>g \<in> set (app_groups A). r4_app_has_group (Some app) (g_id g) \<longleftrightarrow> (\<exists>d \<in> set ds. d_group_id d = g_id g)) \<and>
    (ds \<noteq> [] \<longrightarrow> (\<exists>more. s_imports info = Some (ds @ more))) \<and> length ds = unat (c_import_count c)) \<and>
    (\<forall>V c' p out st app. r4_app_init K A V (Some c') p (Some out) = Some (st, Some app) \<longrightarrow>
      list_all2 (\<lambda>g t. t = 0 \<or> header_passes (w_mem V) g t) (app_groups A) (app_tables app))"
  using declared_start_binds [OF assms] app_init_passes by blast

text \<open>One declared group, the system, with one-letter names.\<close>

definition sample_app_contract :: app_contract where
  "sample_app_contract =
     (let g = (\<lambda>n. \<lparr>g_id = n, g_magic = 1, g_version = 1, g_size = 16\<rparr>) in
      \<lparr>ac_sys = g 1, ac_desk = g 2, ac_draw = g 3, ac_net = g 4, ac_audio = g 5, ac_dev = g 6,
       ac_console = 0, ac_desktop = 1, ac_service = 2, ac_console_required = 2, ac_desktop_required = 2,
       ac_service_required = 2, ac_domain = 1, ac_no_group = - 20, ac_class_console = 0, ac_class_gui = 1, ac_class_service = 2\<rparr>)"

definition sample_start_loader :: loader where
  "sample_start_loader = \<lparr>w_mem = place [(0x1000, sample_table), (0x5000, [0x41, 0]), (0x5100, [0x42, 0])],
     w_import = (\<lambda>_. Some (sample_import\<lparr>i_group_id := 1\<rparr>)), w_query = (\<lambda>_. None)\<rparr>"

definition sample_info :: startup_info where
  "sample_info = \<lparr>s_profile = 0, s_app_class = 0, s_required_groups = 2, s_import_count = 1,
     s_imports = Some [\<lparr>d_module = Some [0x61], d_symbol = Some [0x42], d_minimum = 1, d_optional = 0, d_group_id = 1,
        d_magic = 1, d_version = 1, d_size = 16\<rparr>]\<rparr>"

lemma sample_start_names:
  "string_at (w_mem sample_start_loader) 0x5000 [0x41]" "string_at (w_mem sample_start_loader) 0x5100 [0x42]"
  by (simp_all add: string_at_def sample_start_loader_def cbyte_def less_Suc_eq le_Suc_eq cstring_def sample_table_def)

lemma sample_start_loads:
  "load_u32 (w_mem sample_start_loader) 0x1000 = Some 1" "load_u32 (w_mem sample_start_loader) 0x1004 = Some 1"
  "load_u32 (w_mem sample_start_loader) 0x1008 = Some 24"
proof -
  have "load_bytes (w_mem sample_start_loader) (0x1000 + word_of_nat k) 4 = Some (take 4 (drop k sample_table))"
    if "k + 4 \<le> 24" for k
    unfolding sample_start_loader_def by (simp only: loader.simps, rule place_loads) (use that in \<open>simp_all add: sample_table_def\<close>)
  from this [of 0] this [of 4] this [of 8] show
    "load_u32 (w_mem sample_start_loader) 0x1000 = Some 1" "load_u32 (w_mem sample_start_loader) 0x1004 = Some 1"
    "load_u32 (w_mem sample_start_loader) 0x1008 = Some 24"
    by (simp_all add: load_u32_def sample_table_def)
qed

lemma sample_start_valid:
  "r4xstart_validate_declared sample_contract sample_start_loader (Some sample_context) (Some sample_info) = Some 0"
proof -
  have "r4xstart_import_name_equal (w_mem sample_start_loader) 0x5000 (Some [0x61]) = Some True"
    "r4xstart_import_name_equal (w_mem sample_start_loader) 0x5100 (Some [0x42]) = Some True"
    using sample_start_names by (simp_all add: import_name_equal_iff cstring_def r4xstart_name_upper_def)
  moreover have "group_header_ok (w_mem sample_start_loader) 0x1000 1 1 16 = Some True"
    by (simp add: group_header_ok_def sample_start_loads)
  moreover have "w_import sample_start_loader = (\<lambda>_. Some (sample_import\<lparr>i_group_id := 1\<rparr>))"
    by (simp add: sample_start_loader_def)
  ultimately show ?thesis
    by (simp add: r4xstart_validate_declared_def declared_context_ok_def declared_ranges_ok_def declared_row_def
      r4xstart_context_valid_def r4xstart_import_at_def r4xstart_import_count_def sample_contract_def sample_context_def
      sample_info_def sample_import_def word_le_nat_alt)
qed

lemma sample_required: "app_required sample_app_contract p = 2"
  by (simp add: app_required_def sample_app_contract_def Let_def)

lemma sample_app_facts:
  "app_groups sample_app_contract = map (\<lambda>n. \<lparr>g_id = n, g_magic = 1, g_version = 1, g_size = 16\<rparr>) [1, 2, 3, 4, 5, 6]"
  "app_contract_ok sample_app_contract" "declares_contract (app_groups sample_app_contract) sample_info"
  "known_profile sample_app_contract (s_profile sample_info)" "x_group_interface sample_contract \<noteq> 0"
  "\<forall>n. bit (app_required sample_app_contract (s_profile sample_info)) n \<longrightarrow> bit (s_required_groups sample_info) n"
proof -
  show groups: "app_groups sample_app_contract = map (\<lambda>n. \<lparr>g_id = n, g_magic = 1, g_version = 1, g_size = 16\<rparr>) [1, 2, 3, 4, 5, 6]"
    by (simp add: app_groups_def sample_app_contract_def Let_def)
  note req = sample_required
  have bit2: "bit (2 :: u32) n \<longleftrightarrow> n = 1" for n using bit_exp_iff [where 'a = "32 word", of 1 n] by auto
  show "app_contract_ok sample_app_contract" unfolding app_contract_ok_def groups req bit2 by simp
  show "declares_contract (app_groups sample_app_contract) sample_info"
    unfolding groups by (simp add: declares_contract_def sample_info_def)
  show "known_profile sample_app_contract (s_profile sample_info)"
    by (simp add: known_profile_def sample_app_contract_def sample_info_def Let_def)
  show "\<forall>n. bit (app_required sample_app_contract (s_profile sample_info)) n \<longrightarrow> bit (s_required_groups sample_info) n"
    by (simp add: req sample_info_def)
  show "x_group_interface sample_contract \<noteq> 0" by (simp add: sample_contract_def)
qed

lemma sample_app_init:
  "\<exists>app. r4_app_init_declared sample_contract sample_app_contract sample_start_loader (Some sample_context) (Some sample_info)
      (Some zero_app) = Some (r4_status_ok, Some app)"
  using declared_start_binds [OF sample_start_valid sample_app_facts(4,2,3,6,5), of zero_app] by blast

theorem declared_start_binds_app_witness:
  "\<exists>app. r4_app_init_declared sample_contract sample_app_contract sample_start_loader (Some sample_context) (Some sample_info)
      (Some zero_app) = Some (r4_status_ok, Some app) \<and> app_tables app = [0x1000, 0, 0, 0, 0, 0] \<and>
    r4_app_has_group (Some app) 1 \<and> \<not> r4_app_has_group (Some app) 2"
proof -
  from declared_start_binds_app [OF sample_start_valid sample_app_facts(4,2,3,6,5), THEN conjunct1, of zero_app] obtain app rows ds where
    app: "r4_app_init_declared sample_contract sample_app_contract sample_start_loader
      (Some sample_context) (Some sample_info) (Some zero_app) = Some (r4_status_ok, Some app)"
    "\<forall>g \<in> set (app_groups sample_app_contract). r4_app_has_group (Some app) (g_id g) \<longleftrightarrow> (\<exists>d \<in> set ds. d_group_id d = g_id g)"
    "ds \<noteq> [] \<longrightarrow> (\<exists>more. s_imports sample_info = Some (ds @ more))" "length ds = unat (c_import_count sample_context)"
    and rows: "rows_at sample_contract sample_start_loader sample_context rows"
    and bound: "list_all2 (group_bound (w_mem sample_start_loader) rows) (app_groups sample_app_contract) (app_tables app)"
    by blast
  then obtain d where "ds = [d]" "d_group_id d = 1"
    by (cases ds) (auto simp: sample_context_def sample_info_def)
  moreover have "rows = [sample_import\<lparr>i_group_id := 1\<rparr>]"
    using rows by (cases rows) (auto simp: rows_at_def r4xstart_import_count_def sample_context_def sample_contract_def sample_start_loader_def)
  then have "app_tables app = [0x1000, 0, 0, 0, 0, 0]"
    using bound unfolding sample_app_facts(1) by (auto simp: list_all2_Cons1 group_bound_def sample_import_def)
  ultimately show ?thesis using app(1,2) unfolding sample_app_facts(1) by auto
qed

subsection \<open>The program entry\<close>

lemma validate_declared_code:
  "r4xstart_validate_declared K W ctx info = Some raw \<Longrightarrow> raw = 0 \<or> negative raw"
  unfolding r4xstart_validate_declared_def
  by (auto split: option.splits sum.splits if_splits dest!: declared_loop_code)

text \<open>A successful bind has validated the start and holds every group its profile needs.\<close>

lemma init_declared_ok:
  assumes "r4_app_init_declared K A W ctx (Some info) (Some out) = Some (st, Some app)" and "r4_status_succeeded st"
    and "negative (ac_no_group A)"
  shows "r4xstart_validate_declared K W ctx (Some info) = Some 0 \<and> a_context app = ctx \<and>
    a_group_mask app AND app_required A (s_profile info) = app_required A (s_profile info)"
proof -
  from assms(1) obtain raw where raw: "r4xstart_validate_declared K W ctx (Some info) = Some raw"
    and run: "if negative raw then st = r4_status_failure (ac_domain A) raw
              else r4_app_init K A W ctx (s_profile info) (Some zero_app) = Some (st, Some app)"
    unfolding r4_app_init_declared_def by (auto simp: bind_eq_Some_conv split: if_splits)
  have ok: "\<not> negative raw" using run assms(2)
    by (auto simp: r4_status_succeeded_def r4_status_failure_def r4_status_ok_def split: if_splits)
  with run have init: "r4_app_init K A W ctx (s_profile info) (Some zero_app) = Some (st, Some app)" by simp
  have "a_context app = ctx \<and> a_group_mask app AND app_required A (s_profile info) = app_required A (s_profile info)"
    using init assms(2,3) unfolding r4_app_init_def Let_def
    by (auto simp: bind_eq_Some_conv r4_status_succeeded_def r4_status_failure_def r4_status_ok_def split: if_splits)
  with validate_declared_code [OF raw] ok raw show ?thesis by auto
qed

text \<open>
  C9: The program's own main function runs only in a start that passed every check: the
  entry either returns a negative code without calling anything, or the declared context
  was valid, the application holds all the groups its profile requires, and what happens
  next is the entropy bind followed, unless that failed, by main on this application.\<close>

theorem app_entry_gate:
  assumes "r4app_R4XStart K A W info bind_entropy main ctx s = Some (rc, s')" and "negative (ac_no_group A)"
  shows "(negative rc \<and> s' = s) \<or>
    (r4xstart_validate_declared K (W\<lparr>w_mem := m_mem s\<rparr>) ctx (Some info) = Some 0 \<and>
     (\<exists>app. a_context app = ctx \<and>
       a_group_mask app AND app_required A (s_profile info) = app_required A (s_profile info) \<and>
       and_then (bind_entropy ctx) (\<lambda>e. if negative e then give e else main app) s = Some (rc, s')))"
proof -
  from assms(1) obtain st app where init:
    "r4_app_init_declared K A (W\<lparr>w_mem := m_mem s\<rparr>) ctx (Some info) (Some zero_app) = Some (st, Some app)"
    "if r4_status_succeeded st then and_then (bind_entropy ctx) (\<lambda>e. if negative e then give e else main app) s = Some (rc, s')
     else rc = s_raw_code st \<and> s' = s"
    unfolding r4app_R4XStart_def by (auto split: option.splits if_splits)
  show ?thesis
  proof (cases "r4_status_succeeded st")
    case True
    with init(2) init_declared_ok [OF init(1) True assms(2)] show ?thesis by auto
  next
    case False
    with init(2) show ?thesis by (simp add: r4_status_succeeded_def)
  qed
qed

text \<open>The sample start, with a main that returns 7.\<close>

theorem app_entry_gate_witness:
  "r4app_R4XStart sample_contract sample_app_contract sample_start_loader sample_info (\<lambda>_. give 0) (\<lambda>_. give 7) (Some sample_context)
     \<lparr>m_mem = w_mem sample_start_loader, m_calls = [], m_os = ()\<rparr> =
     Some (7, \<lparr>m_mem = w_mem sample_start_loader, m_calls = [], m_os = ()\<rparr>) \<and>
   (\<exists>app :: r4_app. a_context app = Some sample_context \<and> a_group_mask app AND 2 = 2)"
proof -
  let ?s = "\<lparr>m_mem = w_mem sample_start_loader, m_calls = [], m_os = ()\<rparr>"
  from sample_app_init obtain app where "r4_app_init_declared sample_contract sample_app_contract sample_start_loader
      (Some sample_context) (Some sample_info) (Some zero_app) = Some (r4_status_ok, Some app)" by blast
  moreover have "r4_status_succeeded r4_status_ok" by (simp add: r4_status_succeeded_def r4_status_ok_def)
  ultimately have run: "r4app_R4XStart sample_contract sample_app_contract sample_start_loader sample_info (\<lambda>_. give 0) (\<lambda>_. give 7)
      (Some sample_context) ?s = Some (7, ?s)"
    by (simp add: r4app_R4XStart_def and_then_def give_def)
  have "negative (ac_no_group sample_app_contract)" by (simp add: sample_app_contract_def Let_def)
  moreover have "\<not> sint (7 :: i32) < 0" by simp
  ultimately have "\<exists>app :: r4_app. a_context app = Some sample_context \<and>
      a_group_mask app AND app_required sample_app_contract (s_profile sample_info) =
        app_required sample_app_contract (s_profile sample_info)" using app_entry_gate [OF run] by blast
  then show ?thesis using run by (simp add: sample_required)
qed

subsection \<open>The exported path functions\<close>

text \<open>
  \<open>R4SdkFilePath\<close> refuses missing outputs, a short buffer and an unknown kind without
  touching them, and otherwise reports exactly what the path specification says, clearing
  the length and the absolute flag when it fails.\<close>

theorem R4SdkFilePath_reports:
  assumes "limits_ok L" and "length buf = file_path_max_bytes L + 1"
  shows "\<exists>code bytes len absolute. R4SdkFilePath L input kind (Some buf) capacity (Some len0) (Some abs0) =
      Some (code, Some bytes, Some len, Some absolute) \<and>
    (if capacity < file_path_max_bytes L + 1 \<or> kind < - 1 \<or> kind > 1
     then code = PATH_WRONG_KIND \<and> bytes = buf \<and> len = len0 \<and> absolute = abs0
     else case path_spec L kind (case input of None \<Rightarrow> [] | Some s \<Rightarrow> s) of
       Inl e \<Rightarrow> code = e \<and> e \<noteq> PATH_OK \<and> len = 0 \<and> \<not> absolute
     | Inr (a, str) \<Rightarrow> code = PATH_OK \<and> absolute = a \<and> len = word_of_nat (length str) \<and>
         take (length str) bytes = str \<and> bytes ! length str = 0)"
proof -
  from normalize_run [OF assms, of input kind] obtain r where r: "r4_path_normalize L input kind buf = Some r"
    "case path_spec L kind (case input of None \<Rightarrow> [] | Some s \<Rightarrow> s) of
       Inl e \<Rightarrow> e \<noteq> PATH_OK \<and> r_code r = e \<and> r_len r = None \<and> r_absolute r = None
     | Inr (a, text) \<Rightarrow> r_code r = PATH_OK \<and> r_len r = Some (word_of_nat (length text)) \<and>
         r_absolute r = Some a \<and> length text \<le> file_path_max_bytes L \<and>
         take (length text) (r_buffer r) = text \<and> r_buffer r ! length text = 0" by blast
  then show ?thesis
    by (auto simp: R4SdkFilePath_def split: sum.splits option.splits)
qed

theorem R4SdkFilePath_reports_witness:
  "\<exists>bytes. R4SdkFilePath sample_limits (Some sample_input) 5 (Some (replicate 13 7)) 13 (Some 9) (Some True) =
     Some (PATH_WRONG_KIND, Some (replicate 13 7), Some 9, Some True)"
  using R4SdkFilePath_reports [OF sample_limits_ok, of "Some sample_input" 5 13 9 True] by auto

end
