(* ===== verification/Handles.thy ===== *)
theory Handles
  imports AppContract Timeouts
begin

text \<open>
  What the owning facades share: the tables an application object reaches, whole
  objects read back after a call, timeouts turned into ticks, and the protocol every
  handle the application owns follows.
\<close>

subsection \<open>Tables of an application\<close>

definition app_sys :: "r4_app option \<Rightarrow> u64" where
  "app_sys app = (case app of None \<Rightarrow> 0 | Some a \<Rightarrow> h_table (a_system a))"

definition app_desk :: "r4_app option \<Rightarrow> u64" where
  "app_desk app = (case app of None \<Rightarrow> 0 | Some a \<Rightarrow> a_desktop a)"

definition system_of :: "r4_app option \<Rightarrow> r4_sys option" where
  "system_of app = map_option a_system app"

lemma table_of_system [simp]: "table_of (system_of app) = app_sys app"
  by (simp add: table_of_def system_of_def app_sys_def split: option.splits)

text \<open>The \<open>HAS\<close> macros add the slot's size to its offset, as \<open>has_slot\<close> does, or subtract it, as \<open>has_field\<close> does.\<close>

abbreviation app_slot where "app_slot E app slot \<equiv> has_slot E ''R4Sys'' (app_sys app) slot"
abbreviation app_field where "app_field E app slot \<equiv> has_field E ''R4Sys'' (app_sys app) slot"
abbreviation app_call where "app_call E app slot args \<equiv> call_slot E ''R4Sys'' (app_sys app) slot args"
abbreviation desk_app_field where "desk_app_field E app slot \<equiv> has_field E ''R4Desk'' (app_desk app) slot"
abbreviation desk_app_call where "desk_app_call E app slot args \<equiv> call_slot E ''R4Desk'' (app_desk app) slot args"

abbreviation code :: "'w platform \<Rightarrow> string \<Rightarrow> i32" where "code E c \<equiv> p_code E c"

subsection \<open>Objects read back\<close>

text \<open>An object of the contract is the list of its bytes; a member is read at its own length.\<close>

definition load_obj :: "'w platform \<Rightarrow> u64 \<Rightarrow> string \<Rightarrow> (bytes, 'w) io" where
  "load_obj E a T s = map_option (\<lambda>bs. (bs, s)) (load_bytes (m_mem s) a (p_size E T))"

definition obj_word :: "'w platform \<Rightarrow> string \<Rightarrow> string \<Rightarrow> bytes \<Rightarrow> 'a::len word" where
  "obj_word E T m bs = le_word (take (p_len E T m) (drop (p_off E T m) bs))"

definition obj_part :: "'w platform \<Rightarrow> string \<Rightarrow> string \<Rightarrow> bytes \<Rightarrow> bytes" where
  "obj_part E T m bs = take (p_len E T m) (drop (p_off E T m) bs)"

definition zero_obj :: "'w platform \<Rightarrow> string \<Rightarrow> bytes" where
  "zero_obj E T = replicate (p_size E T) 0"

subsection \<open>Timeouts\<close>

text \<open>\<open>uint64_t ticks = 0; if (r4_timeout_to_ticks(...) != R4OS_OK) ...\<close>\<close>

definition timeout_ticks :: "time_codes \<Rightarrow> r4_timeout \<Rightarrow> u32 \<Rightarrow> u64 option" where
  "timeout_ticks K timeout hz =
     (case r4_timeout_to_ticks K timeout hz (Some 0) of
        (rc, ticks) \<Rightarrow> if rc \<noteq> ok_code K then None else ticks)"

subsection \<open>The protocol of an owned handle\<close>

text \<open>
  A step changes the handle and the machine. A dead handle takes no effective step, and a
  live one keeps naming the same resource until it dies.
\<close>

locale handle_protocol =
  fixes live :: "'h \<Rightarrow> bool" and names :: "'h \<Rightarrow> 'i" and step :: "'h \<times> 's \<Rightarrow> 'h \<times> 's \<Rightarrow> bool"
  assumes dead_inert: "step (h, s) (h', s') \<Longrightarrow> \<not> live h \<Longrightarrow> h' = h \<and> s' = s"
    and names_kept: "step (h, s) (h', s') \<Longrightarrow> live h' \<Longrightarrow> names h' = names h"
begin

lemma dead_stays: "step\<^sup>*\<^sup>* (h, s) (h', s') \<Longrightarrow> \<not> live h \<Longrightarrow> h' = h \<and> s' = s"
proof (induction "(h, s)" "(h', s')" arbitrary: h' s' rule: rtranclp.induct)
  case (rtrancl_into_rtrancl b)
  obtain h1 s1 where b: "b = (h1, s1)" by (cases b)
  with rtrancl_into_rtrancl have "h1 = h \<and> s1 = s" by blast
  with rtrancl_into_rtrancl(3,4) dead_inert show ?case unfolding b by blast
qed simp

lemma live_same: "step\<^sup>*\<^sup>* (h, s) (h', s') \<Longrightarrow> live h' \<Longrightarrow> live h \<and> names h' = names h"
proof (induction "(h, s)" "(h', s')" arbitrary: h' s' rule: rtranclp.induct)
  case (rtrancl_into_rtrancl b)
  obtain h1 s1 where b: "b = (h1, s1)" by (cases b)
  note st = rtrancl_into_rtrancl(3) [unfolded b]
  have "live h1" using dead_inert [OF st] rtrancl_into_rtrancl(4) by blast
  then have "live h \<and> names h1 = names h" using rtrancl_into_rtrancl(2) b by blast
  with names_kept [OF st rtrancl_into_rtrancl(4)] show ?case by simp
qed simp

text \<open>Along every run: as long as the handle lives it names what it named, and once dead it stays so.\<close>

lemma run_safe:
  assumes "step\<^sup>*\<^sup>* (h, s) (h', s')"
  shows "(live h' \<longrightarrow> live h \<and> names h' = names h) \<and> (\<not> live h \<longrightarrow> h' = h \<and> s' = s)"
  using dead_stays [OF assms] live_same [OF assms] by blast

end

subsection \<open>A sample application\<close>

definition sample_app :: r4_app where
  "sample_app = zero_app\<lparr>a_system := \<lparr>h_table = 0x1000, h_ctx = None\<rparr>\<rparr>"

definition sample_state :: "unit machine" where
  "sample_state = \<lparr>m_mem = sample_line_memory, m_calls = [], m_os = ()\<rparr>"

lemma sample_steady: "steady 0x1000 sample_table [] sample_line_memory"
proof -
  have load: "load_bytes sample_line_memory (0x1000 + word_of_nat 0) 24 = Some (take 24 (drop 0 sample_table))"
    unfolding sample_line_memory_def by (rule place_loads) (simp_all add: sample_table_def)
  have "length sample_table = 24" by (simp add: sample_table_def)
  then show ?thesis using load by (simp add: steady_def objects_ok_def resident_def) (simp add: sample_table_def)
qed

lemma sample_opens: "opens sample_platform T 0x1000 sample_table slot"
proof -
  have "length sample_table = 24" by (simp add: sample_table_def)
  moreover have "slot_word sample_table (p_off sample_platform T m) = 0x400000" for T m
    by (simp add: slot_word_def sample_platform_def sample_table_def)
  ultimately show ?thesis by (simp add: opens_def) (simp add: sample_platform_def)
qed

lemma sample_app_sys: "app_sys (Some sample_app) = 0x1000"
  by (simp add: app_sys_def sample_app_def)

lemma sample_slot: "app_slot sample_platform (Some sample_app) slot sample_line_memory = Some True"
  using has_slot_answer [OF sample_steady, of sample_platform "''R4Sys''" slot] sample_opens
  by (simp add: sample_app_sys opens_def)

end
