(* ===== verification/Services.thy ===== *)
theory Services
  imports Handles
begin

text \<open>
  \<open>Shared/C/include/r4os/app_services.h\<close>: the service inventory, connections a client
  opens and calls, and endpoints a service registers, waits on and replies through.
\<close>

subsection \<open>Data\<close>

record r4_services =
  sv_app :: "r4_app option"

text \<open>\<open>R4ServiceConnection\<close> and \<open>R4ServiceEndpoint\<close> have the same members; \<open>sl_info\<close> is the service's info object.\<close>

record service_link =
  sl_app :: "r4_app option"
  sl_raw :: u32
  sl_owned :: u8
  sl_info :: bytes

datatype service_call_kind = CALL_RESPONSE | CALL_TIMED_OUT | CALL_REMOTE_FAILURE | CALL_FAILED

record service_call_result =
  sc_kind :: service_call_kind
  sc_raw_code :: i32
  sc_bytes :: u32
  sc_header :: bytes

datatype endpoint_wait_kind = ENDPOINT_READY | ENDPOINT_TIMED_OUT | ENDPOINT_FAILED

record endpoint_wait_result =
  ew_kind :: endpoint_wait_kind
  ew_raw_code :: i32
  ew_pending :: u32

datatype endpoint_receive_kind = RECEIVE_MESSAGE | RECEIVE_WOULD_BLOCK | RECEIVE_FAILED

record endpoint_receive_result =
  er_kind :: endpoint_receive_kind
  er_raw_code :: i32
  er_bytes :: u32
  er_header :: bytes

record control_request =
  cr_registration_id :: u64
  cr_start_generation :: u64
  cr_process :: bytes
  cr_operation :: u32

definition link_zero :: "'w platform \<Rightarrow> service_link" where
  "link_zero E = \<lparr>sl_app = None, sl_raw = 0, sl_owned = 0, sl_info = zero_obj E ''R4ServiceInfo''\<rparr>"

definition r4_app_services :: "r4_app option \<Rightarrow> r4_services" where
  "r4_app_services app = \<lparr>sv_app = app\<rparr>"

text \<open>\<open>services != 0 && services->app != 0 ? services->app->system.table : 0\<close>\<close>

definition services_app :: "r4_services option \<Rightarrow> r4_app option" where
  "services_app services = Option.bind services sv_app"

subsection \<open>Inventory and control\<close>

definition r4_services_inventory_available :: "'w platform \<Rightarrow> r4_services option \<Rightarrow> query" where
  "r4_services_inventory_available E services =
     q_and (app_slot E (services_app services) ''service_inventory_page'')
       (app_slot E (services_app services) ''service_control_bound'')"

definition r4_services_inventory_page ::
  "'w platform \<Rightarrow> r4_services option \<Rightarrow> u64 \<Rightarrow> u64 \<Rightarrow> u32 \<Rightarrow> (i32, 'w) io" where
  "r4_services_inventory_page E services cursor rows capacity =
     (if cursor = 0 \<or> rows = 0 \<or> capacity = 0 then give (code E ''R4OS_SERVICE_API_RESULT_INVALID'')
      else ask (app_slot E (services_app services) ''service_inventory_page'') (\<lambda>ok.
        if \<not> ok then give (code E ''R4OS_ERR_NO_FN'')
        else app_call E (services_app services) ''service_inventory_page'' [cursor, rows, ucast capacity]))"

definition r4_services_control_bound :: "'w platform \<Rightarrow> r4_services option \<Rightarrow> u64 \<Rightarrow> (i32, 'w) io" where
  "r4_services_control_bound E services request =
     (if request = 0 then give (code E ''R4OS_SERVICE_API_RESULT_INVALID'')
      else ask (app_slot E (services_app services) ''service_control_bound'') (\<lambda>ok.
        if \<not> ok then give (code E ''R4OS_ERR_NO_FN'')
        else app_call E (services_app services) ''service_control_bound'' [request]))"

definition r4_service_control_request :: "'w platform \<Rightarrow> u64 \<Rightarrow> u32 \<Rightarrow> (control_request, 'w) io" where
  "r4_service_control_request E row operation =
     (if row = 0
      then give \<lparr>cr_registration_id = 0, cr_start_generation = 0,
        cr_process = zero_obj E ''R4ProgramProcessHandle'', cr_operation = operation\<rparr>
      else and_then (load_obj E row ''R4ServiceInventoryRow'') (\<lambda>r.
        give \<lparr>cr_registration_id = obj_word E ''R4ServiceInventoryRow'' ''registration_id'' r,
          cr_start_generation = obj_word E ''R4ServiceInventoryRow'' ''start_generation'' r,
          cr_process = obj_part E ''R4ServiceInventoryRow'' ''process'' r, cr_operation = operation\<rparr>))"

definition r4_service_connection_valid :: "service_link option \<Rightarrow> bool" where
  "r4_service_connection_valid c = (case c of None \<Rightarrow> False | Some l \<Rightarrow> sl_app l \<noteq> None \<and> sl_raw l \<noteq> 0)"

definition r4_service_endpoint_valid :: "service_link option \<Rightarrow> bool" where
  "r4_service_endpoint_valid e = (case e of None \<Rightarrow> False | Some l \<Rightarrow> sl_app l \<noteq> None \<and> sl_raw l \<noteq> 0)"

definition r4_services_available :: "'w platform \<Rightarrow> r4_services option \<Rightarrow> query" where
  "r4_services_available E services =
     foldr (\<lambda>slot. q_and (app_slot E (services_app services) slot))
       [''service_open'', ''service_close'', ''service_call'', ''service_endpoint_register'', ''service_endpoint_unregister'',
        ''service_endpoint_wait'', ''service_endpoint_recv'', ''service_endpoint_reply''] (sure True)"

definition clear_out :: "'w platform \<Rightarrow> u64 \<Rightarrow> string \<Rightarrow> (unit, 'w) io" where
  "clear_out E a T = (if a \<noteq> 0 then clear_obj E a T else give ())"

definition r4_services_bound_detail ::
  "'w platform \<Rightarrow> r4_services option \<Rightarrow> u64 \<Rightarrow> u64 \<Rightarrow> u64 \<Rightarrow> (i32, 'w) io" where
  "r4_services_bound_detail E services name detail process =
     and_then (clear_out E detail ''R4ServiceDetail'') (\<lambda>_.
     and_then (clear_out E process ''R4ProgramProcessHandle'') (\<lambda>_.
     if name = 0 \<or> detail = 0 \<or> process = 0 then give (code E ''R4OS_SERVICE_API_RESULT_INVALID'')
     else ask (app_slot E (services_app services) ''service_bound_detail'') (\<lambda>ok.
       if \<not> ok then give (code E ''R4OS_ERR_NO_FN'')
       else app_call E (services_app services) ''service_bound_detail'' [name, detail, process])))"

definition r4_services_monotonic_hz :: "'w platform \<Rightarrow> r4_app option \<Rightarrow> (u32, 'w) io" where
  "r4_services_monotonic_hz E app =
     (if app = None then give 0
      else ask (app_field E app ''monotonic_clock'') (\<lambda>ok.
        if \<not> ok then give 0
        else and_then (clear_obj E (p_local E ''clock'') ''R4MonotonicClockInfo'') (\<lambda>_.
          and_then (app_call E app ''monotonic_clock'' [p_local E ''clock''] :: (i32, 'w) io) (\<lambda>rc.
          and_then (load_obj E (p_local E ''clock'') ''R4MonotonicClockInfo'') (\<lambda>clock.
            if sint rc \<le> 0 \<or>
               (obj_word E ''R4MonotonicClockInfo'' ''flags'' clock :: u32) AND code E ''R4OS_MONOTONIC_CLOCK_FLAG_VALID'' = 0 \<or>
               (obj_word E ''R4MonotonicClockInfo'' ''frequency_hz'' clock :: u64) \<noteq> ucast (code E ''R4OS_MONOTONIC_CLOCK_FREQUENCY_HZ'')
            then give 0
            else give (obj_word E ''R4MonotonicClockInfo'' ''event_requested_hz'' clock))))))"

definition r4_services_stop_bound ::
  "'w platform \<Rightarrow> time_codes \<Rightarrow> r4_services option \<Rightarrow> u64 \<Rightarrow> u64 \<Rightarrow> r4_timeout \<Rightarrow> u64 \<Rightarrow> (i32, 'w) io" where
  "r4_services_stop_bound E K services name process timeout out =
     and_then (clear_out E out ''R4ServiceInfo'') (\<lambda>_.
     if name = 0 \<or> process = 0 \<or> out = 0 then give (code E ''R4OS_SERVICE_API_RESULT_INVALID'')
     else ask (app_slot E (services_app services) ''service_stop_bound'') (\<lambda>ok.
       if \<not> ok then give (code E ''R4OS_ERR_NO_FN'')
       else and_then (r4_services_monotonic_hz E (services_app services)) (\<lambda>hz.
         case timeout_ticks K timeout hz of
           None \<Rightarrow> give (code E ''R4OS_SERVICE_API_RESULT_INVALID'')
         | Some ticks \<Rightarrow> app_call E (services_app services) ''service_stop_bound'' [name, process, out, ticks])))"

subsection \<open>Connections\<close>

text \<open>
  Opening a connection and registering an endpoint differ in the slot and its arguments.
  The caller's object is cleared first and filled on success only.
\<close>

definition bind_link ::
  "'w platform \<Rightarrow> r4_app option \<Rightarrow> string \<Rightarrow> u64 \<Rightarrow> u64 list \<Rightarrow> service_link option \<Rightarrow> (i32 \<times> service_link option, 'w) io" where
  "bind_link E app slot name args out =
     (let zero = map_option (\<lambda>_. link_zero E) out in
      ask (app_slot E app slot) (\<lambda>ok.
        if \<not> ok \<or> name = 0 \<or> out = None then give (code E ''R4OS_ERR_NO_FN'', zero)
        else and_then (clear_obj E (p_local E ''info'') ''R4ServiceInfo'') (\<lambda>_.
          and_then (app_call E app slot args :: (i32, 'w) io) (\<lambda>raw.
          and_then (load_obj E (p_local E ''info'') ''R4ServiceInfo'') (\<lambda>info.
            let h = obj_word E ''R4ServiceInfo'' ''handle'' info :: u32 in
            if raw \<noteq> code E ''R4OS_SERVICE_API_RESULT_OK'' \<or> h = 0
            then give (if raw = code E ''R4OS_SERVICE_API_RESULT_OK'' then code E ''R4OS_SERVICE_API_RESULT_NO_ENDPOINT'' else raw, zero)
            else give (code E ''R4OS_SERVICE_API_RESULT_OK'',
              Some \<lparr>sl_app = app, sl_raw = h, sl_owned = 1, sl_info = info\<rparr>))))))"

definition r4_services_open ::
  "'w platform \<Rightarrow> r4_services option \<Rightarrow> u64 \<Rightarrow> service_link option \<Rightarrow> (i32 \<times> service_link option, 'w) io" where
  "r4_services_open E services name out =
     bind_link E (services_app services) ''service_open'' name [name, p_local E ''info''] out"

definition call_failed :: "'w platform \<Rightarrow> i32 \<Rightarrow> service_call_result" where
  "call_failed E rc = \<lparr>sc_kind = CALL_FAILED, sc_raw_code = rc, sc_bytes = 0, sc_header = zero_obj E ''R4ServiceMessageHeader''\<rparr>"

definition payload_bad :: "'w platform \<Rightarrow> u64 \<Rightarrow> u32 \<Rightarrow> u64 \<Rightarrow> u32 \<Rightarrow> bool" where
  "payload_bad E request request_len response response_capacity \<longleftrightarrow>
     request_len > p_code E ''R4OS_SERVICE_API_MAX_PAYLOAD'' \<or> response_capacity > p_code E ''R4OS_SERVICE_API_MAX_PAYLOAD'' \<or>
     (request_len \<noteq> 0 \<and> request = 0) \<or> (response_capacity \<noteq> 0 \<and> response = 0)"

text \<open>\<open>raw == BAD_HANDLE || raw == NOT_RUNNING\<close>: the other side is gone and the handle is dropped.\<close>

definition gone :: "'w platform \<Rightarrow> i32 \<Rightarrow> bool" where
  "gone E raw \<longleftrightarrow> raw = code E ''R4OS_SERVICE_API_RESULT_BAD_HANDLE'' \<or> raw = code E ''R4OS_SERVICE_API_RESULT_NOT_RUNNING''"

definition drop_if :: "bool \<Rightarrow> service_link \<Rightarrow> service_link" where
  "drop_if b l = (if b then l\<lparr>sl_raw := 0\<rparr> else l)"

definition classify_call ::
  "'w platform \<Rightarrow> i32 \<Rightarrow> bytes \<Rightarrow> service_link \<Rightarrow> service_call_result \<times> service_link" where
  "classify_call E raw header l =
     (let status = obj_word E ''R4ServiceMessageHeader'' ''status'' header :: i32;
          result = (call_failed E raw)\<lparr>sc_header := header\<rparr>
      in if raw = code E ''R4OS_SERVICE_API_RESULT_TIMEOUT'' \<or> status = code E ''R4OS_SERVICE_API_RESULT_TIMEOUT''
         then (result\<lparr>sc_kind := CALL_TIMED_OUT\<rparr>, l)
         else let l = drop_if (gone E raw) l in
           if negative raw then (result, l)
           else if status \<noteq> code E ''R4OS_SERVICE_API_RESULT_OK''
           then (result\<lparr>sc_kind := CALL_REMOTE_FAILURE, sc_raw_code := status\<rparr>, l)
           else (result\<lparr>sc_kind := CALL_RESPONSE, sc_raw_code := code E ''R4OS_SERVICE_API_RESULT_OK'', sc_bytes := raw\<rparr>, l))"

definition r4_service_connection_call_ticks ::
  "'w platform \<Rightarrow> service_link option \<Rightarrow> u16 \<Rightarrow> u64 \<Rightarrow> u32 \<Rightarrow> u64 \<Rightarrow> u32 \<Rightarrow> u64 \<Rightarrow>
    (service_call_result \<times> service_link option, 'w) io" where
  "r4_service_connection_call_ticks E c op_code request request_len response response_capacity ticks =
     (case c of
        Some l \<Rightarrow>
          if \<not> r4_service_connection_valid c then give (call_failed E (code E ''R4OS_ERR_CLOSED''), c)
          else if payload_bad E request request_len response response_capacity
          then give (call_failed E (code E ''R4OS_SERVICE_API_RESULT_INVALID''), c)
          else ask (app_slot E (sl_app l) ''service_call'') (\<lambda>ok.
            if \<not> ok then give (call_failed E (code E ''R4OS_ERR_NO_FN''), c)
            else and_then (clear_obj E (p_local E ''header'') ''R4ServiceMessageHeader'') (\<lambda>_.
              and_then (app_call E (sl_app l) ''service_call'' [ucast (sl_raw l), ucast op_code, request, ucast request_len,
                  p_local E ''header'', response, ucast response_capacity, ticks] :: (i32, 'w) io) (\<lambda>raw.
              and_then (load_obj E (p_local E ''header'') ''R4ServiceMessageHeader'') (\<lambda>header.
                give (apsnd Some (classify_call E raw header l))))))
      | None \<Rightarrow> give (call_failed E (code E ''R4OS_ERR_CLOSED''), None))"

definition r4_service_connection_call ::
  "'w platform \<Rightarrow> time_codes \<Rightarrow> service_link option \<Rightarrow> u16 \<Rightarrow> u64 \<Rightarrow> u32 \<Rightarrow> u64 \<Rightarrow> u32 \<Rightarrow> r4_timeout \<Rightarrow>
    (service_call_result \<times> service_link option, 'w) io" where
  "r4_service_connection_call E K c op_code request request_len response response_capacity timeout =
     (case c of
        Some l \<Rightarrow>
          if \<not> r4_service_connection_valid c then give (call_failed E (code E ''R4OS_ERR_CLOSED''), c)
          else if payload_bad E request request_len response response_capacity
          then give (call_failed E (code E ''R4OS_SERVICE_API_RESULT_INVALID''), c)
          else ask (app_slot E (sl_app l) ''service_call'') (\<lambda>ok.
            if \<not> ok then give (call_failed E (code E ''R4OS_ERR_NO_FN''), c)
            else and_then (r4_services_monotonic_hz E (sl_app l)) (\<lambda>hz.
              case timeout_ticks K timeout hz of
                None \<Rightarrow> give (call_failed E (code E ''R4OS_SERVICE_API_RESULT_INVALID''), c)
              | Some ticks \<Rightarrow>
                  r4_service_connection_call_ticks E c op_code request request_len response response_capacity ticks))
      | None \<Rightarrow> give (call_failed E (code E ''R4OS_ERR_CLOSED''), None))"

definition r4_service_connection_call_struct ::
  "'w platform \<Rightarrow> time_codes \<Rightarrow> service_link option \<Rightarrow> u16 \<Rightarrow> u64 \<Rightarrow> u32 \<Rightarrow> u64 \<Rightarrow> u32 \<Rightarrow> r4_timeout \<Rightarrow>
    (service_call_result \<times> service_link option, 'w) io" where
  "r4_service_connection_call_struct E K c op_code request request_size response response_size timeout =
     and_then (r4_service_connection_call E K c op_code request request_size response response_size timeout) (\<lambda>(result, c).
       give (if sc_kind result = CALL_RESPONSE \<and> sc_bytes result \<noteq> response_size
             then (result\<lparr>sc_kind := CALL_FAILED, sc_raw_code := code E ''R4OS_SERVICE_API_RESULT_BUFFER_TOO_SMALL''\<rparr>, c)
             else (result, c)))"

text \<open>Closing a connection and unregistering an endpoint differ in the slot.\<close>

definition release_link ::
  "'w platform \<Rightarrow> string \<Rightarrow> service_link \<Rightarrow> (i32 \<times> service_link option, 'w) io" where
  "release_link E slot l =
     (if sl_owned l = 0 then give (code E ''R4OS_ERR_NOT_OWNED'', Some l)
      else ask (app_slot E (sl_app l) slot) (\<lambda>ok.
        if \<not> ok then give (code E ''R4OS_ERR_NO_FN'', Some l)
        else and_then (app_call E (sl_app l) slot [ucast (sl_raw l)] :: (i32, 'w) io) (\<lambda>raw.
          if raw = code E ''R4OS_SERVICE_API_RESULT_OK'' \<or> raw = code E ''R4OS_SERVICE_API_RESULT_BAD_HANDLE''
          then give (if raw = code E ''R4OS_SERVICE_API_RESULT_OK'' then raw else code E ''R4OS_ERR_CLOSED'', Some (link_zero E))
          else give (raw, Some l))))"

definition r4_service_connection_close ::
  "'w platform \<Rightarrow> service_link option \<Rightarrow> (i32 \<times> service_link option, 'w) io" where
  "r4_service_connection_close E c =
     (case c of
        Some l \<Rightarrow> if r4_service_connection_valid c then release_link E ''service_close'' l
                  else give (code E ''R4OS_ERR_CLOSED'', c)
      | None \<Rightarrow> give (code E ''R4OS_ERR_CLOSED'', c))"

subsection \<open>Endpoints\<close>

definition r4_services_register ::
  "'w platform \<Rightarrow> r4_services option \<Rightarrow> u64 \<Rightarrow> u32 \<Rightarrow> service_link option \<Rightarrow> (i32 \<times> service_link option, 'w) io" where
  "r4_services_register E services name flags out =
     bind_link E (services_app services) ''service_endpoint_register'' name [name, ucast flags, p_local E ''info''] out"

definition classify_wait :: "'w platform \<Rightarrow> i32 \<Rightarrow> service_link \<Rightarrow> endpoint_wait_result \<times> service_link" where
  "classify_wait E raw l =
     (let result = \<lparr>ew_kind = ENDPOINT_FAILED, ew_raw_code = raw, ew_pending = 0\<rparr> in
      if raw = 0 then (result\<lparr>ew_kind := ENDPOINT_TIMED_OUT\<rparr>, l)
      else let l = drop_if (gone E raw) l in
        if negative raw then (result, l)
        else (result\<lparr>ew_kind := ENDPOINT_READY, ew_raw_code := code E ''R4OS_SERVICE_API_RESULT_OK'', ew_pending := raw\<rparr>, l))"

definition r4_service_endpoint_wait ::
  "'w platform \<Rightarrow> time_codes \<Rightarrow> service_link option \<Rightarrow> r4_timeout \<Rightarrow> (endpoint_wait_result \<times> service_link option, 'w) io" where
  "r4_service_endpoint_wait E K e timeout =
     (let fail = (\<lambda>rc. \<lparr>ew_kind = ENDPOINT_FAILED, ew_raw_code = rc, ew_pending = 0\<rparr>) in
      case e of
        Some l \<Rightarrow>
          if \<not> r4_service_endpoint_valid e then give (fail (code E ''R4OS_ERR_CLOSED''), e)
          else ask (app_slot E (sl_app l) ''service_endpoint_wait'') (\<lambda>ok.
            if \<not> ok then give (fail (code E ''R4OS_ERR_NO_FN''), e)
            else and_then (r4_services_monotonic_hz E (sl_app l)) (\<lambda>hz.
              case timeout_ticks K timeout hz of
                None \<Rightarrow> give (fail (code E ''R4OS_SERVICE_API_RESULT_INVALID''), e)
              | Some ticks \<Rightarrow>
                  and_then (app_call E (sl_app l) ''service_endpoint_wait'' [ucast (sl_raw l), ticks] :: (i32, 'w) io) (\<lambda>raw.
                    give (apsnd Some (classify_wait E raw l)))))
      | None \<Rightarrow> give (fail (code E ''R4OS_ERR_CLOSED''), None))"

definition classify_receive ::
  "'w platform \<Rightarrow> i32 \<Rightarrow> bytes \<Rightarrow> service_link \<Rightarrow> endpoint_receive_result \<times> service_link" where
  "classify_receive E raw header l =
     (let result = \<lparr>er_kind = RECEIVE_FAILED, er_raw_code = raw, er_bytes = 0, er_header = header\<rparr> in
      if raw = 0 \<and> (obj_word E ''R4ServiceMessageHeader'' ''magic'' header :: u32) \<noteq> p_code E ''R4OS_SERVICE_API_MAGIC''
      then (result\<lparr>er_kind := RECEIVE_WOULD_BLOCK\<rparr>, l)
      else let l = drop_if (gone E raw) l in
        if negative raw then (result, l)
        else (result\<lparr>er_kind := RECEIVE_MESSAGE, er_raw_code := code E ''R4OS_SERVICE_API_RESULT_OK'', er_bytes := raw\<rparr>, l))"

definition r4_service_endpoint_recv ::
  "'w platform \<Rightarrow> service_link option \<Rightarrow> u64 \<Rightarrow> u32 \<Rightarrow> (endpoint_receive_result \<times> service_link option, 'w) io" where
  "r4_service_endpoint_recv E e out capacity =
     (let fail = (\<lambda>rc. \<lparr>er_kind = RECEIVE_FAILED, er_raw_code = rc, er_bytes = 0,
                        er_header = zero_obj E ''R4ServiceMessageHeader''\<rparr>) in
      case e of
        Some l \<Rightarrow>
          if \<not> r4_service_endpoint_valid e then give (fail (code E ''R4OS_ERR_CLOSED''), e)
          else if capacity > p_code E ''R4OS_SERVICE_API_MAX_PAYLOAD'' \<or> (capacity \<noteq> 0 \<and> out = 0)
          then give (fail (code E ''R4OS_SERVICE_API_RESULT_INVALID''), e)
          else ask (app_slot E (sl_app l) ''service_endpoint_recv'') (\<lambda>ok.
            if \<not> ok then give (fail (code E ''R4OS_ERR_NO_FN''), e)
            else and_then (clear_obj E (p_local E ''header'') ''R4ServiceMessageHeader'') (\<lambda>_.
              and_then (app_call E (sl_app l) ''service_endpoint_recv''
                  [ucast (sl_raw l), p_local E ''header'', out, ucast capacity] :: (i32, 'w) io) (\<lambda>raw.
              and_then (load_obj E (p_local E ''header'') ''R4ServiceMessageHeader'') (\<lambda>header.
                give (apsnd Some (classify_receive E raw header l))))))
      | None \<Rightarrow> give (fail (code E ''R4OS_ERR_CLOSED''), None))"

definition r4_service_endpoint_reply ::
  "'w platform \<Rightarrow> service_link option \<Rightarrow> u32 \<Rightarrow> i32 \<Rightarrow> u64 \<Rightarrow> u32 \<Rightarrow> (i32 \<times> service_link option, 'w) io" where
  "r4_service_endpoint_reply E e request_id status payload payload_len =
     (case e of
        Some l \<Rightarrow>
          if \<not> r4_service_endpoint_valid e then give (code E ''R4OS_ERR_CLOSED'', e)
          else if payload_len > p_code E ''R4OS_SERVICE_API_MAX_PAYLOAD'' \<or> (payload_len \<noteq> 0 \<and> payload = 0)
          then give (code E ''R4OS_SERVICE_API_RESULT_PAYLOAD_TOO_LARGE'', e)
          else ask (app_slot E (sl_app l) ''service_endpoint_reply'') (\<lambda>ok.
            if \<not> ok then give (code E ''R4OS_ERR_NO_FN'', e)
            else and_then (app_call E (sl_app l) ''service_endpoint_reply''
                [ucast (sl_raw l), ucast request_id, scast status, payload, ucast payload_len] :: (i32, 'w) io) (\<lambda>raw.
              give (raw, Some (drop_if (gone E raw) l))))
      | None \<Rightarrow> give (code E ''R4OS_ERR_CLOSED'', e))"

definition r4_service_endpoint_unregister ::
  "'w platform \<Rightarrow> service_link option \<Rightarrow> (i32 \<times> service_link option, 'w) io" where
  "r4_service_endpoint_unregister E e =
     (case e of
        Some l \<Rightarrow> if r4_service_endpoint_valid e then release_link E ''service_endpoint_unregister'' l
                  else give (code E ''R4OS_ERR_CLOSED'', e)
      | None \<Rightarrow> give (code E ''R4OS_ERR_CLOSED'', e))"

subsection \<open>What the operations do to their handle\<close>

lemma and_then_Some_iff:
  "and_then p k s = Some r \<longleftrightarrow> (\<exists>x s1. p s = Some (x, s1) \<and> k x s1 = Some r)"
  by (auto simp: and_then_def split: option.splits)

lemma ask_Some_iff: "ask q k s = Some r \<longleftrightarrow> (\<exists>b. q (m_mem s) = Some b \<and> k b s = Some r)"
  by (auto simp: ask_def split: option.splits)

lemma apsnd_Some_eq: "apsnd Some x = (r, c) \<longleftrightarrow> r = fst x \<and> c = Some (snd x)"
  by (cases x) auto

lemmas io_steps = and_then_Some_iff ask_Some_iff give_def apsnd_Some_eq

text \<open>A handle is kept, dropped, or zeroed.\<close>

definition kept_or_dead :: "service_link \<Rightarrow> service_link \<Rightarrow> bool" where
  "kept_or_dead l l' \<longleftrightarrow> l' = l \<or> sl_raw l' = 0"

lemma kept_or_dead_simps [simp]:
  "kept_or_dead l l" "kept_or_dead l (drop_if b l)" "kept_or_dead l (link_zero E)"
  by (auto simp: kept_or_dead_def drop_if_def link_zero_def)

lemma classify_kept [simp]:
  "kept_or_dead l (snd (classify_call E raw header l))"
  "kept_or_dead l (snd (classify_wait E raw l))"
  "kept_or_dead l (snd (classify_receive E raw header l))"
  by (auto simp: classify_call_def classify_wait_def classify_receive_def Let_def)

lemma release_kept: "release_link E slot l s = Some ((rc, c), s') \<Longrightarrow> \<exists>l'. c = Some l' \<and> kept_or_dead l l'"
  by (auto simp: release_link_def io_steps split: if_splits)

lemma call_ticks_kept:
  "r4_service_connection_call_ticks E (Some l) op_code rq rl rs rc ticks s = Some ((r, c), s') \<Longrightarrow>
    (\<exists>l'. c = Some l' \<and> kept_or_dead l l') \<and> (\<not> r4_service_connection_valid (Some l) \<longrightarrow> c = Some l \<and> s' = s)"
  by (auto simp: r4_service_connection_call_ticks_def io_steps split: if_splits)

lemma call_kept:
  "r4_service_connection_call E K (Some l) op_code rq rl rs rc t s = Some ((r, c), s') \<Longrightarrow>
    (\<exists>l'. c = Some l' \<and> kept_or_dead l l') \<and> (\<not> r4_service_connection_valid (Some l) \<longrightarrow> c = Some l \<and> s' = s)"
  by (auto simp: r4_service_connection_call_def io_steps dest: call_ticks_kept split: if_splits option.splits)

lemma close_kept:
  "r4_service_connection_close E (Some l) s = Some ((rc, c), s') \<Longrightarrow>
    (\<exists>l'. c = Some l' \<and> kept_or_dead l l') \<and> (\<not> r4_service_connection_valid (Some l) \<longrightarrow> c = Some l \<and> s' = s)"
  by (auto simp: r4_service_connection_close_def io_steps dest: release_kept split: if_splits)

lemma endpoint_kept:
  "r4_service_endpoint_wait E K (Some l) t s = Some ((w, c), s') \<Longrightarrow>
    (\<exists>l'. c = Some l' \<and> kept_or_dead l l') \<and> (\<not> r4_service_endpoint_valid (Some l) \<longrightarrow> c = Some l \<and> s' = s)"
  "r4_service_endpoint_recv E (Some l) out capacity s = Some ((v, c), s') \<Longrightarrow>
    (\<exists>l'. c = Some l' \<and> kept_or_dead l l') \<and> (\<not> r4_service_endpoint_valid (Some l) \<longrightarrow> c = Some l \<and> s' = s)"
  "r4_service_endpoint_reply E (Some l) i status p n s = Some ((rc, c), s') \<Longrightarrow>
    (\<exists>l'. c = Some l' \<and> kept_or_dead l l') \<and> (\<not> r4_service_endpoint_valid (Some l) \<longrightarrow> c = Some l \<and> s' = s)"
  "r4_service_endpoint_unregister E (Some l) s = Some ((rc, c), s') \<Longrightarrow>
    (\<exists>l'. c = Some l' \<and> kept_or_dead l l') \<and> (\<not> r4_service_endpoint_valid (Some l) \<longrightarrow> c = Some l \<and> s' = s)"
  by (auto simp: r4_service_endpoint_wait_def r4_service_endpoint_recv_def r4_service_endpoint_reply_def
      r4_service_endpoint_unregister_def io_steps Let_def dest: release_kept
      split: if_splits option.splits)

subsection \<open>Runs of a handle\<close>

inductive connection_step ::
  "'w platform \<Rightarrow> time_codes \<Rightarrow> service_link \<times> 'w machine \<Rightarrow> service_link \<times> 'w machine \<Rightarrow> bool" for E K where
  call: "r4_service_connection_call E K (Some l) op_code rq rl rs rc t s = Some ((r, Some l'), s') \<Longrightarrow>
    connection_step E K (l, s) (l', s')"
| call_ticks: "r4_service_connection_call_ticks E (Some l) op_code rq rl rs rc ticks s = Some ((r, Some l'), s') \<Longrightarrow>
    connection_step E K (l, s) (l', s')"
| call_struct: "r4_service_connection_call_struct E K (Some l) op_code rq rl rs rc t s = Some ((r, Some l'), s') \<Longrightarrow>
    connection_step E K (l, s) (l', s')"
| close: "r4_service_connection_close E (Some l) s = Some ((rc, Some l'), s') \<Longrightarrow> connection_step E K (l, s) (l', s')"

inductive endpoint_step ::
  "'w platform \<Rightarrow> time_codes \<Rightarrow> service_link \<times> 'w machine \<Rightarrow> service_link \<times> 'w machine \<Rightarrow> bool" for E K where
  wait: "r4_service_endpoint_wait E K (Some l) t s = Some ((w, Some l'), s') \<Longrightarrow> endpoint_step E K (l, s) (l', s')"
| recv: "r4_service_endpoint_recv E (Some l) out capacity s = Some ((v, Some l'), s') \<Longrightarrow> endpoint_step E K (l, s) (l', s')"
| reply: "r4_service_endpoint_reply E (Some l) i status p n s = Some ((rc, Some l'), s') \<Longrightarrow> endpoint_step E K (l, s) (l', s')"
| unregister: "r4_service_endpoint_unregister E (Some l) s = Some ((rc, Some l'), s') \<Longrightarrow> endpoint_step E K (l, s) (l', s')"

lemma connection_step_kept:
  "connection_step E K (l, s) (l', s') \<Longrightarrow>
    kept_or_dead l l' \<and> (\<not> r4_service_connection_valid (Some l) \<longrightarrow> l' = l \<and> s' = s)"
  by (cases rule: connection_step.cases, assumption)
    (auto dest!: call_kept call_ticks_kept close_kept simp: r4_service_connection_call_struct_def io_steps split: if_splits)

lemma endpoint_step_kept:
  "endpoint_step E K (l, s) (l', s') \<Longrightarrow>
    kept_or_dead l l' \<and> (\<not> r4_service_endpoint_valid (Some l) \<longrightarrow> l' = l \<and> s' = s)"
  by (cases rule: endpoint_step.cases, assumption) (auto dest!: endpoint_kept)

interpretation connection: handle_protocol "\<lambda>l. r4_service_connection_valid (Some l)" "\<lambda>l. l" "connection_step E K" for E K
  by unfold_locales (auto dest!: connection_step_kept simp: kept_or_dead_def r4_service_connection_valid_def)

interpretation endpoint: handle_protocol "\<lambda>l. r4_service_endpoint_valid (Some l)" "\<lambda>l. l" "endpoint_step E K" for E K
  by unfold_locales (auto dest!: endpoint_step_kept simp: kept_or_dead_def r4_service_endpoint_valid_def)

text \<open>
  C16: Along every run of calls and closes a connection that is still valid is the one the
  run started with, and a connection that is not valid stays as it is: no operation on it
  calls the platform or changes memory. Endpoints keep the same promise along every run of
  waits, receives, replies and unregistrations.\<close>

theorem service_handles_die_once:
  assumes "(connection_step E K)\<^sup>*\<^sup>* (l, s) (l', s')" and "(endpoint_step E K)\<^sup>*\<^sup>* (e, t) (e', t')"
  shows "(r4_service_connection_valid (Some l') \<longrightarrow> r4_service_connection_valid (Some l) \<and> l' = l) \<and>
    (\<not> r4_service_connection_valid (Some l) \<longrightarrow> l' = l \<and> s' = s) \<and>
    (r4_service_endpoint_valid (Some e') \<longrightarrow> r4_service_endpoint_valid (Some e) \<and> e' = e) \<and>
    (\<not> r4_service_endpoint_valid (Some e) \<longrightarrow> e' = e \<and> t' = t)"
  using connection.run_safe [OF assms(1)] endpoint.run_safe [OF assms(2)] by blast

text \<open>A connection over the sample table, whose close the platform accepts.\<close>

definition sample_link :: service_link where
  "sample_link = \<lparr>sl_app = Some sample_app, sl_raw = 7, sl_owned = 1, sl_info = []\<rparr>"

lemma sample_close:
  "r4_service_connection_close sample_platform (Some sample_link) sample_state =
    Some ((0, Some (link_zero sample_platform)), sample_state\<lparr>m_calls := [(0x400000, [7])]\<rparr>)"
proof -
  have word: "slot_word sample_table (p_off sample_platform T slot) = 0x400000" for T slot
    by (simp add: slot_word_def sample_platform_def sample_table_def)
  have mem: "steady 0x1000 sample_table [] (m_mem sample_state)" using sample_steady by (simp add: sample_state_def)
  have "app_call sample_platform (Some sample_app) ''service_close'' [7] sample_state =
      Some (0 :: i32, sample_state\<lparr>m_calls := [(0x400000, [7])]\<rparr>)"
    unfolding sample_app_sys call_slot_open [OF mem sample_opens] word
    by (simp add: sample_platform_def sample_state_def)
  moreover have "p_code sample_platform c = 0" for c by (simp add: sample_platform_def)
  ultimately show ?thesis
    using sample_slot [of "''service_close''"]
    by (simp add: r4_service_connection_close_def release_link_def r4_service_connection_valid_def sample_link_def ask_def
      and_then_def give_def sample_state_def)
qed

theorem service_handles_die_once_witness:
  "\<forall>K. (connection_step sample_platform K)\<^sup>*\<^sup>* (sample_link, sample_state)
      (link_zero sample_platform, sample_state\<lparr>m_calls := [(0x400000, [7])]\<rparr>) \<and>
    \<not> r4_service_connection_valid (Some (link_zero sample_platform)) \<and> r4_service_connection_valid (Some sample_link)"
proof
  fix K
  have run: "(connection_step sample_platform K)\<^sup>*\<^sup>* (sample_link, sample_state)
      (link_zero sample_platform, sample_state\<lparr>m_calls := [(0x400000, [7])]\<rparr>)"
    by (rule r_into_rtranclp, rule connection_step.close [OF sample_close])
  moreover have "link_zero sample_platform \<noteq> sample_link" by (simp add: link_zero_def sample_link_def)
  ultimately show "(connection_step sample_platform K)\<^sup>*\<^sup>* (sample_link, sample_state)
      (link_zero sample_platform, sample_state\<lparr>m_calls := [(0x400000, [7])]\<rparr>) \<and>
    \<not> r4_service_connection_valid (Some (link_zero sample_platform)) \<and> r4_service_connection_valid (Some sample_link)"
    using service_handles_die_once [OF run rtranclp.rtrancl_refl [of _ "(sample_link, sample_state)"]] by auto
qed

subsection \<open>What a call reports\<close>

lemma classify_call_report:
  assumes "negative (code E ''R4OS_SERVICE_API_RESULT_BAD_HANDLE'')" and "negative (code E ''R4OS_SERVICE_API_RESULT_NOT_RUNNING'')"
  shows "sc_kind (fst (classify_call E raw header l)) = CALL_RESPONSE \<Longrightarrow> snd (classify_call E raw header l) = l"
    and "snd (classify_call E raw header l) \<noteq> l \<Longrightarrow> sc_kind (fst (classify_call E raw header l)) = CALL_FAILED \<and>
      gone E (sc_raw_code (fst (classify_call E raw header l))) \<and> snd (classify_call E raw header l) = l\<lparr>sl_raw := 0\<rparr>"
  using assms by (auto simp: classify_call_def call_failed_def drop_if_def gone_def Let_def split: if_splits)

lemma connection_call_report:
  assumes "negative (code E ''R4OS_SERVICE_API_RESULT_BAD_HANDLE'')" and "negative (code E ''R4OS_SERVICE_API_RESULT_NOT_RUNNING'')"
    and "r4_service_connection_call_ticks E (Some l) op_code rq rl rs rc ticks s = Some ((r, Some l'), s')"
  shows "(sc_kind r = CALL_RESPONSE \<longrightarrow> l' = l \<and> r4_service_connection_valid (Some l) \<and> rl \<le> p_code E ''R4OS_SERVICE_API_MAX_PAYLOAD'') \<and>
    (l' \<noteq> l \<longrightarrow> sc_kind r = CALL_FAILED \<and> gone E (sc_raw_code r) \<and> l' = l\<lparr>sl_raw := 0\<rparr>)"
proof -
  from assms(3) consider (early) x where "l' = l" "r = call_failed E x"
    | (called) raw header where "apsnd Some (classify_call E raw header l) = (r, Some l')"
        "r4_service_connection_valid (Some l)" "\<not> payload_bad E rq rl rs rc"
    unfolding r4_service_connection_call_ticks_def option.case
    by (simp add: and_then_Some_iff ask_Some_iff give_def split: if_split_asm) blast+
  then show ?thesis
  proof cases
    case called
    then have eq: "r = fst (classify_call E raw header l)" "l' = snd (classify_call E raw header l)" by (simp_all add: apsnd_Some_eq)
    have "rl \<le> p_code E ''R4OS_SERVICE_API_MAX_PAYLOAD''" using called(3) by (simp add: payload_bad_def not_less)
    with called(2) classify_call_report [OF assms(1,2), of raw header l] show ?thesis unfolding eq by blast
  qed (simp add: call_failed_def)
qed

text \<open>
  A service call gives its connection up only when it reports failure with a code that
  says the service is gone, and then only clears the raw handle; a call that reports a
  response came through a valid connection, within the payload limit, and keeps it.\<close>

theorem service_call_reports:
  assumes "negative (code E ''R4OS_SERVICE_API_RESULT_BAD_HANDLE'')" and "negative (code E ''R4OS_SERVICE_API_RESULT_NOT_RUNNING'')"
    and "r4_service_connection_call E K (Some l) op_code rq rl rs rc timeout s = Some ((r, Some l'), s')"
  shows "(sc_kind r = CALL_RESPONSE \<longrightarrow> l' = l \<and> r4_service_connection_valid (Some l) \<and> rl \<le> p_code E ''R4OS_SERVICE_API_MAX_PAYLOAD'') \<and>
    (l' \<noteq> l \<longrightarrow> sc_kind r = CALL_FAILED \<and> gone E (sc_raw_code r) \<and> l' = l\<lparr>sl_raw := 0\<rparr>)"
proof -
  from assms(3) consider (early) "l' = l" "sc_kind r = CALL_FAILED"
    | (called) ticks s1 where "r4_service_connection_call_ticks E (Some l) op_code rq rl rs rc ticks s1 = Some ((r, Some l'), s')"
    by (auto simp: r4_service_connection_call_def io_steps call_failed_def split: if_splits option.splits)
  then show ?thesis
  proof cases
    case called
    show ?thesis by (rule connection_call_report [OF assms(1,2) called])
  qed simp
qed

text \<open>A call whose request is missing.\<close>

definition sample_codes :: time_codes where
  "sample_codes = \<lparr>nanoseconds_per_second = 1000000000, kind_poll = 0, kind_finite = 1, kind_forever = 2,
     io_wait_forever = - 1, ok_code = 0, error_invalid = - 1\<rparr>"

theorem service_call_reports_witness:
  "\<exists>r. r4_service_connection_call (sample_platform\<lparr>p_code := (\<lambda>_. - 5)\<rparr>) sample_codes (Some sample_link) 1 0 9 0 0
       \<lparr>timeout_kind = 0, timeout_ns = 0\<rparr> sample_state = Some ((r, Some sample_link), sample_state) \<and> sc_kind r \<noteq> CALL_RESPONSE"
proof -
  let ?E = "sample_platform\<lparr>p_code := (\<lambda>_. - 5)\<rparr>" and ?t = "\<lparr>timeout_kind = 0, timeout_ns = 0\<rparr>"
  have run: "r4_service_connection_call ?E sample_codes (Some sample_link) 1 0 9 0 0 ?t sample_state =
      Some ((call_failed ?E (- 5), Some sample_link), sample_state)"
    by (simp add: r4_service_connection_call_def r4_service_connection_valid_def sample_link_def payload_bad_def give_def)
  have "negative (code ?E c)" for c by simp
  from service_call_reports [OF this this run] run show ?thesis by (simp add: call_failed_def)
qed

end
