(* ===== verification/Context2.thy ===== *)
theory Context2
  imports SysFacade
begin

text \<open>
  \<open>Shared/C/include/r4os/platform2.h\<close>: the start context of the second platform
  generation, its admission and the lookup of a function in one of its six group tables.
\<close>

subsection \<open>The code\<close>

record context2_contract =
  k2_start_magic :: u32
  k2_context_size :: u32
  k2_import_size :: nat
  k2_import_align :: u64
  k2_magics :: "u32 list"
  k2_no_group :: i32
  k2_no_fn :: i32

text \<open>\<open>R4XStartContext2\<close>, laid out by the generated header.\<close>

record start_context2 =
  c2_magic :: u32
  c2_abi_major :: u32
  c2_size :: u32
  c2_import_count :: u32
  c2_imports :: u64

datatype context2_result =
    CONTEXT_OK | CONTEXT_INVALID | CONTEXT_IMPORTS | CONTEXT_MIXED | CONTEXT_DUPLICATE | CONTEXT_NO_SYSTEM | CONTEXT_TABLE

record r4os2_context =
  x2_raw :: start_context2
  x2_tables :: "u64 list"

text \<open>The table of a group, 0 for none.\<close>

definition R4OS2ContextGroup :: "context2_contract \<Rightarrow> memory \<Rightarrow> r4os2_context option \<Rightarrow> u32 \<Rightarrow> u64 option" where
  "R4OS2ContextGroup K M context g_no =
     (case context of
        None \<Rightarrow> Some 0
      | Some x \<Rightarrow>
          if g_no = 0 \<or> g_no > 6 then Some 0
          else let g = unat (g_no - 1); address = x2_tables x ! g in
            if address = 0 \<or> address mod 8 \<noteq> 0 then Some 0
            else do { m \<leftarrow> load_u32 M address;
                      if m \<noteq> k2_magics K ! g then Some 0 else
                 do { v \<leftarrow> load_u32 M (address + 4);
                      if v < 1 then Some 0 else
                 do { sz \<leftarrow> load_u32 M (address + 8);
                      Some (if sz < 16 then 0 else address) } } })"

text \<open>The loop over the import rows: the result that stops it, or the groups seen and the tables.\<close>

fun context2_loop ::
  "context2_contract \<Rightarrow> loader \<Rightarrow> u64 \<Rightarrow> nat \<Rightarrow> nat \<Rightarrow> u32 \<Rightarrow> u64 list \<Rightarrow> (context2_result + u64 list) option" where
  "context2_loop K W imports i 0 seen tables = Some (Inr tables)"
| "context2_loop K W imports i (Suc n) seen tables =
     (case w_import W (imports + word_of_nat (i * k2_import_size K)) of
        None \<Rightarrow> None
      | Some item \<Rightarrow>
          if i_group_id item = 0 then context2_loop K W imports (i + 1) n seen tables
          else if i_group_id item > 6 then Some (Inl CONTEXT_IMPORTS)
          else if i_resolved_version item \<noteq> 2 then Some (Inl CONTEXT_MIXED)
          else let bit_v = push_bit (unat (i_group_id item - 1)) 1 in
            if seen AND bit_v \<noteq> 0 then Some (Inl CONTEXT_DUPLICATE)
            else context2_loop K W imports (i + 1) n (seen OR bit_v)
                   (tables[unat (i_group_id item - 1) := i_table item]))"

definition R4OS2ContextInit ::
  "context2_contract \<Rightarrow> loader \<Rightarrow> start_context2 option \<Rightarrow> r4os2_context option \<Rightarrow>
    (context2_result \<times> r4os2_context option) option" where
  "R4OS2ContextInit K W raw out =
     (case (out, raw) of
        (Some _, Some r) \<Rightarrow>
          if c2_magic r \<noteq> k2_start_magic K \<or> c2_abi_major r \<noteq> 2 \<or> c2_size r < k2_context_size K
          then Some (CONTEXT_INVALID, out)
          else if c2_import_count r > 32 \<or>
                  (c2_import_count r \<noteq> 0 \<and> (c2_imports r = 0 \<or> c2_imports r mod k2_import_align K \<noteq> 0))
          then Some (CONTEXT_IMPORTS, out)
          else do { run \<leftarrow> context2_loop K W (c2_imports r) 0 (unat (c2_import_count r)) 0 (replicate 6 0);
                    case run of
                      Inl e \<Rightarrow> Some (e, out)
                    | Inr tables \<Rightarrow>
                        if tables ! 0 = 0 then Some (CONTEXT_NO_SYSTEM, out)
                        else do { t \<leftarrow> R4OS2ContextGroup K (w_mem W) (Some \<lparr>x2_raw = r, x2_tables = tables\<rparr>) 1;
                                  Some (if t = 0 then (CONTEXT_TABLE, out)
                                        else (CONTEXT_OK, Some \<lparr>x2_raw = r, x2_tables = tables\<rparr>)) } }
      | _ \<Rightarrow> Some (CONTEXT_INVALID, out))"

definition R4OS2ContextFunction ::
  "context2_contract \<Rightarrow> memory \<Rightarrow> r4os2_context option \<Rightarrow> u32 \<Rightarrow> u32 \<Rightarrow> u64 option \<Rightarrow> (i32 \<times> u64 option) option" where
  "R4OS2ContextFunction K M context g_no offset out =
     do { table \<leftarrow> R4OS2ContextGroup K M context g_no;
          if table = 0 then Some (k2_no_group K, out)
          else if out = None \<or> offset < 16 \<or> offset mod 8 \<noteq> 0 then Some (k2_no_fn K, out)
          else do { sz \<leftarrow> load_u32 M (table + 8);
                    if (ucast offset :: u64) + 8 > ucast sz then Some (k2_no_fn K, out)
                    else if table > UINT64_MAX - ucast offset then Some (k2_no_fn K, out)
                    else do { slot \<leftarrow> load_u64 M (table + ucast offset);
                              Some (if slot = 0 then (k2_no_fn K, out) else (0, Some slot)) } } }"

subsection \<open>Admission\<close>

text \<open>
  The specification: which rows are sound, and the tables they give. Rows of group 0
  are named imports and do not count.
\<close>

definition group_rows :: "start_import list \<Rightarrow> start_import list" where
  "group_rows rows = filter (\<lambda>r. i_group_id r \<noteq> 0) rows"

definition rows_sound :: "start_import list \<Rightarrow> bool" where
  "rows_sound rows \<longleftrightarrow>
     (\<forall>r \<in> set (group_rows rows). i_group_id r \<le> 6 \<and> i_resolved_version r = 2) \<and> distinct (map i_group_id (group_rows rows))"

definition group_table :: "start_import list \<Rightarrow> nat \<Rightarrow> u64" where
  "group_table rows g = (case List.find (\<lambda>r. unat (i_group_id r) = g + 1) rows of None \<Rightarrow> 0 | Some r \<Rightarrow> i_table r)"

definition import_rows :: "context2_contract \<Rightarrow> loader \<Rightarrow> u64 \<Rightarrow> nat \<Rightarrow> start_import list \<Rightarrow> bool" where
  "import_rows K W imports i rows \<longleftrightarrow>
     (\<forall>j < length rows. w_import W (imports + word_of_nat ((i + j) * k2_import_size K)) = Some (rows ! j))"

lemma import_rows_Cons:
  "import_rows K W imports i (r # rows) \<longleftrightarrow>
    w_import W (imports + word_of_nat (i * k2_import_size K)) = Some r \<and> import_rows K W imports (i + 1) rows"
  unfolding import_rows_def
  by (auto simp: All_less_Suc2 simp del: of_nat_mult of_nat_add of_nat_Suc mult_Suc)

lemma unat_group: "g \<noteq> 0 \<Longrightarrow> g \<le> 6 \<Longrightarrow> unat (g - 1 :: u32) = unat g - 1 \<and> unat g \<le> 6 \<and> unat g \<noteq> 0"
  by (simp add: unat_sub word_le_nat_alt unat_eq_0 Suc_leI word_neq_0_conv [symmetric])
    (metis One_nat_def Suc_leI unat_1 unat_gt_0 unat_sub word_le_nat_alt)

text \<open>What the loop has to show of the rows that are left, given the groups seen before them.\<close>

definition left_sound :: "u32 \<Rightarrow> start_import list \<Rightarrow> bool" where
  "left_sound seen rows \<longleftrightarrow> rows_sound rows \<and> (\<forall>r \<in> set (group_rows rows). \<not> bit seen (unat (i_group_id r) - 1))"

definition tables_after :: "u64 list \<Rightarrow> start_import list \<Rightarrow> u64 list" where
  "tables_after tables rows = fold (\<lambda>r ts. ts[unat (i_group_id r) - 1 := i_table r]) (group_rows rows) tables"

lemma left_sound_Cons:
  assumes "i_group_id r \<noteq> 0" and "i_group_id r \<le> 6" and "i_resolved_version r = 2" and "\<not> bit seen (unat (i_group_id r) - 1)"
  shows "left_sound seen (r # rows) \<longleftrightarrow> left_sound (seen OR push_bit (unat (i_group_id r) - 1) 1) rows"
proof -
  define n where "n = unat (i_group_id r) - Suc 0"
  have n: "n < 32" using unat_group [OF assms(1,2)] n_def by arith
  have b: "bit (seen OR 2 ^ n) k \<longleftrightarrow> bit seen k \<or> k = n" for k
    using n by (auto simp: bit_or_iff bit_exp_iff)
  have same: "i_group_id q = i_group_id r \<longleftrightarrow> unat (i_group_id q) - 1 = n" if "i_group_id q \<noteq> 0" for q :: start_import
  proof -
    have "unat (i_group_id q) \<noteq> 0" "unat (i_group_id r) \<noteq> 0" using that assms(1) by (simp_all add: unat_eq_0)
    then show ?thesis unfolding word_unat_eq_iff n_def by arith
  qed
  have new: "i_group_id r \<notin> i_group_id ` set (group_rows rows) \<longleftrightarrow>
      (\<forall>q \<in> set (group_rows rows). unat (i_group_id q) - Suc 0 \<noteq> n)"
  proof -
    have "\<forall>q \<in> set (group_rows rows). (i_group_id q \<noteq> i_group_id r) = (unat (i_group_id q) - Suc 0 \<noteq> n)"
      using same by (simp add: group_rows_def)
    moreover have "i_group_id r \<notin> i_group_id ` set (group_rows rows) \<longleftrightarrow> (\<forall>q \<in> set (group_rows rows). i_group_id q \<noteq> i_group_id r)"
      by (auto simp: image_iff)
    ultimately show ?thesis by blast
  qed
  show ?thesis
    using assms new by (auto simp: left_sound_def rows_sound_def group_rows_def b n_def [symmetric])
qed

lemma left_sound_skip: "i_group_id r = 0 \<Longrightarrow> left_sound seen (r # rows) = left_sound seen rows"
  by (simp add: left_sound_def rows_sound_def group_rows_def)

lemma context2_loop_sound:
  "import_rows K W imports i rows \<Longrightarrow>
    (if left_sound seen rows then context2_loop K W imports i (length rows) seen tables = Some (Inr (tables_after tables rows))
     else \<exists>e. e \<in> {CONTEXT_IMPORTS, CONTEXT_MIXED, CONTEXT_DUPLICATE} \<and>
            context2_loop K W imports i (length rows) seen tables = Some (Inl e))"
proof (induction rows arbitrary: i seen tables)
  case Nil
  then show ?case by (simp add: left_sound_def rows_sound_def group_rows_def tables_after_def)
next
  case (Cons r rows)
  then have row: "w_import W (imports + word_of_nat (i * k2_import_size K)) = Some r" and rest: "import_rows K W imports (i + 1) rows"
    by (simp_all add: import_rows_Cons)
  show ?case
  proof (cases "i_group_id r = 0")
    case True
    then have "context2_loop K W imports i (length (r # rows)) seen tables = context2_loop K W imports (i + 1) (length rows) seen tables"
      using row by simp
    moreover have "tables_after tables (r # rows) = tables_after tables rows" using True by (simp add: tables_after_def group_rows_def)
    ultimately show ?thesis using Cons.IH [OF rest, of seen tables] left_sound_skip [OF True, of seen rows] by presburger
  next
    case g0: False
    show ?thesis
    proof (cases "i_group_id r > 6 \<or> i_resolved_version r \<noteq> 2")
      case True
      then have "\<not> left_sound seen (r # rows)" using g0 by (auto simp: left_sound_def rows_sound_def group_rows_def not_le [symmetric])
      then show ?thesis using True row g0 by auto
    next
      case False
      then have ok: "i_group_id r \<le> 6" "i_resolved_version r = 2" by auto
      define n where "n = unat (i_group_id r) - 1"
      have n: "unat (i_group_id r - 1) = n" "n < 32" using unat_group [OF g0 ok(1)] n_def by (simp, arith)
      show ?thesis
      proof (cases "bit seen n")
        case True
        then have "\<not> left_sound seen (r # rows)" using g0 by (auto simp: left_sound_def group_rows_def n_def)
        then show ?thesis using True row g0 ok n by (auto simp: Let_def and_exp_eq_0_iff_not_bit)
      next
        case new: False
        have "context2_loop K W imports i (length (r # rows)) seen tables =
            context2_loop K W imports (i + 1) (length rows) (seen OR push_bit n 1) (tables[n := i_table r])"
          using row g0 ok leD [OF ok(1)] n new by (simp add: Let_def and_exp_eq_0_iff_not_bit)
        moreover have "left_sound seen (r # rows) = left_sound (seen OR push_bit n 1) rows"
          using left_sound_Cons [OF g0 ok, of seen rows] new by (simp add: n_def)
        moreover have "tables_after tables (r # rows) = tables_after (tables[n := i_table r]) rows"
          using g0 by (simp add: tables_after_def group_rows_def n_def)
        ultimately show ?thesis using Cons.IH [OF rest, of "seen OR push_bit n 1" "tables[n := i_table r]"] by presburger
      qed
    qed
  qed
qed

lemma length_tables_after: "length (tables_after tables rows) = length tables"
proof -
  have "length (fold (\<lambda>r ts. ts[unat (i_group_id r) - 1 := i_table r]) rs tables) = length tables" for rs
    by (induction rs arbitrary: tables) auto
  then show ?thesis by (simp add: tables_after_def)
qed

lemma tables_after_nth:
  assumes "rows_sound rows" and "g < length tables" and "length tables = 6"
  shows "tables_after tables rows ! g = (if \<exists>r \<in> set rows. unat (i_group_id r) = g + 1 then group_table rows g else tables ! g)"
  using assms
proof (induction rows arbitrary: tables)
  case (Cons r rows)
  have snd: "rows_sound rows" using Cons.prems(1) by (auto simp: rows_sound_def group_rows_def split: if_splits)
  show ?case
  proof (cases "i_group_id r = 0")
    case True
    then have "tables_after tables (r # rows) = tables_after tables rows" by (simp add: tables_after_def group_rows_def)
    then show ?thesis using True Cons.IH [OF snd Cons.prems(2,3)] by (simp add: group_table_def)
  next
    case False
    define n where "n = unat (i_group_id r) - 1"
    have "unat (i_group_id r) \<noteq> 0" using False by (simp add: unat_eq_0)
    then have n: "unat (i_group_id r) = n + 1" unfolding n_def by arith
    have le: "n < 6"
    proof -
      have "i_group_id r \<le> 6" using Cons.prems(1) False by (simp add: rows_sound_def group_rows_def)
      then show ?thesis using n by (simp add: word_le_nat_alt)
    qed
    have other: "unat (i_group_id q) \<noteq> n + 1" if "q \<in> set rows" for q
    proof
      assume q: "unat (i_group_id q) = n + 1"
      then have "i_group_id q = i_group_id r" "i_group_id q \<noteq> 0" using n False by (auto simp: word_unat_eq_iff)
      then have "i_group_id r \<in> i_group_id ` set (group_rows rows)"
        using that by (intro image_eqI [of _ _ q]) (simp_all add: group_rows_def)
      moreover have "i_group_id r \<notin> i_group_id ` set (group_rows rows)"
        using Cons.prems(1) False by (simp add: rows_sound_def group_rows_def)
      ultimately show False by blast
    qed
    have "tables_after tables (r # rows) = tables_after (tables[n := i_table r]) rows"
      using False by (simp add: tables_after_def group_rows_def n_def)
    then show ?thesis using Cons.IH [OF snd, of "tables[n := i_table r]"] Cons.prems(2,3) n other le
      by (auto simp: group_table_def nth_list_update)
  qed
qed (simp add: tables_after_def group_rows_def)

lemma group_table_none: "\<not> (\<exists>r \<in> set rows. unat (i_group_id r) = g + 1) \<Longrightarrow> group_table rows g = 0"
  by (cases "List.find (\<lambda>r. unat (i_group_id r) = g + 1) rows") (auto simp: find_Some_iff group_table_def)

lemma tables_after_zero:
  assumes "rows_sound rows"
  shows "tables_after (replicate 6 0) rows = map (group_table rows) [0..<6]"
proof (rule nth_equalityI)
  fix g assume "g < length (tables_after (replicate 6 0) rows)"
  then have g: "g < 6" by (simp add: length_tables_after)
  then show "tables_after (replicate 6 0) rows ! g = map (group_table rows) [0..<6] ! g"
    using tables_after_nth [OF assms, of g "replicate 6 0"] group_table_none [of rows g] by auto
qed (simp add: length_tables_after)

text \<open>
  C17: \<open>R4OS2ContextInit\<close> accepts a well-formed start record exactly when its group rows are
  sound (at most six groups, each once, each resolved for this generation) and name a
  system table with a valid header; the context it fills in then holds, for each group, the
  table of the row that names it, and null for a group no row names. Otherwise the
  caller's context is left as it was.\<close>

theorem R4OS2ContextInit_spec:
  assumes "c2_magic r = k2_start_magic K" and "c2_abi_major r = 2" and "k2_context_size K \<le> c2_size r"
    and "c2_import_count r \<le> 32" and "rows \<noteq> [] \<longrightarrow> c2_imports r \<noteq> 0 \<and> c2_imports r mod k2_import_align K = 0"
    and "length rows = unat (c2_import_count r)" and "import_rows K W (c2_imports r) 0 rows"
  defines "x \<equiv> \<lparr>x2_raw = r, x2_tables = map (group_table rows) [0..<6]\<rparr>"
  assumes "R4OS2ContextGroup K (w_mem W) (Some x) 1 = Some t"
  shows "\<exists>e. R4OS2ContextInit K W (Some r) (Some old) =
      Some (e, if rows_sound rows \<and> t \<noteq> 0 then Some x else Some old) \<and>
    (e = CONTEXT_OK \<longleftrightarrow> rows_sound rows \<and> t \<noteq> 0)"
proof -
  have cond: "\<not> (c2_import_count r > 32 \<or>
      (c2_import_count r \<noteq> 0 \<and> (c2_imports r = 0 \<or> c2_imports r mod k2_import_align K \<noteq> 0)))"
  proof -
    have "c2_import_count r \<noteq> 0 \<Longrightarrow> rows \<noteq> []" using assms(6) by (auto simp: unat_eq_0)
    then show ?thesis using assms(4,5) by (auto simp: not_less)
  qed
  have head: "\<not> (c2_magic r \<noteq> k2_start_magic K \<or> c2_abi_major r \<noteq> 2 \<or> c2_size r < k2_context_size K)"
    using assms(1-3) by (simp add: not_less)
  note init = R4OS2ContextInit_def [of K W "Some r" "Some old", unfolded prod.case option.case if_not_P [OF head] if_not_P [OF cond]]
  have sound: "left_sound 0 rows = rows_sound rows" by (simp add: left_sound_def)
  note run = context2_loop_sound [OF assms(7), of 0 "replicate 6 0", unfolded sound assms(6)]
  show ?thesis
  proof (cases "rows_sound rows")
    case True
    with run have loop: "context2_loop K W (c2_imports r) 0 (unat (c2_import_count r)) 0 (replicate 6 0) =
        Some (Inr (x2_tables x))" by (simp add: tables_after_zero x_def)
    have none: "t = 0" if "x2_tables x ! 0 = 0"
      using assms(9) that by (simp add: R4OS2ContextGroup_def)
    have x: "\<lparr>x2_raw = r, x2_tables = x2_tables x\<rparr> = x" by (simp add: x_def)
    show ?thesis
    proof (cases "x2_tables x ! 0 = 0")
      case True
      then show ?thesis unfolding init loop using none by simp
    next
      case False
      then show ?thesis unfolding init loop using True x assms(9) by simp
    qed
  next
    case False
    with run obtain e where "e \<noteq> CONTEXT_OK"
      "context2_loop K W (c2_imports r) 0 (unat (c2_import_count r)) 0 (replicate 6 0) = Some (Inl e)" by auto
    then show ?thesis unfolding init using False by simp
  qed
qed

text \<open>
  A function address that \<open>R4OS2ContextFunction\<close> hands out is a nonnull word of the
  group's table, at an aligned offset behind the 16-byte header and wholly inside the
  table's announced size; every other answer leaves the caller's address unchanged.\<close>

theorem R4OS2ContextFunction_inside:
  assumes "R4OS2ContextFunction K M context g_no offset (Some old) = Some (rc, Some slot)"
    and "k2_no_group K \<noteq> 0" and "k2_no_fn K \<noteq> 0"
  shows "if rc = 0 then slot \<noteq> 0 \<and> (\<exists>table sz. R4OS2ContextGroup K M context g_no = Some table \<and> table \<noteq> 0 \<and>
      load_u32 M (table + 8) = Some sz \<and> 16 \<le> unat offset \<and> 8 dvd unat offset \<and> unat offset + 8 \<le> unat sz \<and>
      unat table + unat offset < 2 ^ 64 \<and> load_u64 M (table + ucast offset) = Some slot)
    else slot = old"
proof -
  from assms(1) obtain table where t: "R4OS2ContextGroup K M context g_no = Some table"
    by (auto simp: R4OS2ContextFunction_def bind_eq_Some_conv)
  show ?thesis
  proof (cases "table = 0 \<or> offset < 16 \<or> offset mod 8 \<noteq> 0")
    case True
    then show ?thesis using assms t by (cases "table = 0") (auto simp: R4OS2ContextFunction_def split: if_splits)
  next
    case False
    with assms(1) t obtain sz where sz: "load_u32 M (table + 8) = Some sz"
      and rest: "if (ucast offset :: u64) + 8 > ucast sz \<or> table > UINT64_MAX - ucast offset then rc = k2_no_fn K \<and> slot = old
        else \<exists>v. load_u64 M (table + ucast offset) = Some v \<and> (if v = 0 then rc = k2_no_fn K \<and> slot = old else rc = 0 \<and> slot = v)"
      by (auto simp: R4OS2ContextFunction_def bind_eq_Some_conv split: if_splits)
    show ?thesis
    proof (cases "(ucast offset :: u64) + 8 > ucast sz \<or> table > UINT64_MAX - ucast offset")
      case True
      then show ?thesis using rest assms(3) by auto
    next
      case in_table: False
      then obtain v where v: "load_u64 M (table + ucast offset) = Some v"
        "if v = 0 then rc = k2_no_fn K \<and> slot = old else rc = 0 \<and> slot = v" using rest by auto
      have widen: "unat (ucast w :: u64) = unat w" for w :: u32
        using unat_bound [of w] by (simp add: unsigned_ucast_eq take_bit_nat_eq_self)
      note off = widen [of offset]
      have "unat (ucast offset + 8 :: u64) = unat offset + 8"
        using unat_bound [of offset] by (simp add: unat_word_ariths(1) off)
      then have inside: "unat offset + 8 \<le> unat sz"
        using in_table by (simp add: not_less word_le_nat_alt widen)
      have "\<not> table > UINT64_MAX - ucast offset" using in_table by blast
      then have fit: "unat table + unat offset < 2 ^ 64"
        using no_wrap_iff [of "ucast offset" table] off by (simp add: not_less)
      have al: "16 \<le> unat offset" "8 dvd unat offset"
        using False by (simp_all add: word_less_nat_alt not_less word_unat_eq_iff unat_mod_distrib mod_eq_0_iff_dvd)
      show ?thesis using v t sz inside fit al False assms(3) by (cases "v = 0") auto
    qed
  qed
qed

text \<open>One group row, the sample table as the system group, and one named import.\<close>

definition sample_contract2 :: context2_contract where
  "sample_contract2 = \<lparr>k2_start_magic = 5, k2_context_size = 24, k2_import_size = 48, k2_import_align = 8,
     k2_magics = replicate 6 1, k2_no_group = - 20, k2_no_fn = - 21\<rparr>"

definition sample_start2 :: start_context2 where
  "sample_start2 = \<lparr>c2_magic = 5, c2_abi_major = 2, c2_size = 24, c2_import_count = 2, c2_imports = 0x9000\<rparr>"

definition sample_rows2 :: "start_import list" where
  "sample_rows2 = [\<lparr>i_module = 0, i_symbol = 0, i_min_version = 1, i_resolved_version = 7, i_group_id = 0, i_flags = 0, i_table = 0x2000\<rparr>,
     \<lparr>i_module = 0, i_symbol = 0, i_min_version = 1, i_resolved_version = 2, i_group_id = 1, i_flags = 1, i_table = 0x1000\<rparr>]"

definition sample_loader2 :: loader where
  "sample_loader2 = \<lparr>w_mem = sample_line_memory,
     w_import = (\<lambda>a. if a = 0x9000 then Some (sample_rows2 ! 0) else Some (sample_rows2 ! 1)), w_query = (\<lambda>_. None)\<rparr>"

definition sample_view2 :: r4os2_context where
  "sample_view2 = \<lparr>x2_raw = sample_start2, x2_tables = [0x1000, 0, 0, 0, 0, 0]\<rparr>"

lemma sample_line_loads:
  "load_u32 sample_line_memory 0x1000 = Some 1" "load_u32 sample_line_memory 0x1004 = Some 1"
  "load_u32 sample_line_memory 0x1008 = Some 24" "load_u64 sample_line_memory 0x1010 = Some 0x400000"
proof -
  have load: "load_bytes sample_line_memory (0x1000 + word_of_nat k) n = Some (take n (drop k sample_table))"
    if "k + n \<le> 24" for k n
    unfolding sample_line_memory_def by (rule place_loads) (use that in \<open>simp_all add: sample_table_def\<close>)
  from load [of 0 4] load [of 4 4] load [of 8 4] load [of 16 8] show
    "load_u32 sample_line_memory 0x1000 = Some 1" "load_u32 sample_line_memory 0x1004 = Some 1"
    "load_u32 sample_line_memory 0x1008 = Some 24" "load_u64 sample_line_memory 0x1010 = Some 0x400000"
    by (simp_all add: load_u32_def load_u64_def sample_table_def)
qed

lemma sample_group2: "R4OS2ContextGroup sample_contract2 sample_line_memory (Some sample_view2) 1 = Some 0x1000"
  by (simp add: R4OS2ContextGroup_def sample_view2_def sample_line_loads sample_contract2_def)

lemma sample_tables2: "map (group_table sample_rows2) [0..<6] = [0x1000, 0, 0, 0, 0, 0]"
  by (simp add: group_table_def sample_rows2_def upt_conv_Cons)

theorem R4OS2ContextInit_spec_witness:
  "R4OS2ContextInit sample_contract2 sample_loader2 (Some sample_start2) (Some sample_view2) = Some (CONTEXT_OK, Some sample_view2)"
proof -
  have rows: "import_rows sample_contract2 sample_loader2 (c2_imports sample_start2) 0 sample_rows2"
    by (simp add: import_rows_def sample_rows2_def sample_loader2_def sample_start2_def sample_contract2_def less_Suc_eq)
  have sound: "rows_sound sample_rows2" by (simp add: rows_sound_def group_rows_def sample_rows2_def)
  have view: "\<lparr>x2_raw = sample_start2, x2_tables = map (group_table sample_rows2) [0..<6]\<rparr> = sample_view2"
    unfolding sample_tables2 sample_view2_def ..
  show ?thesis
    using R4OS2ContextInit_spec [OF _ _ _ _ _ _ rows, unfolded view, where t = "0x1000" and old = sample_view2] sound sample_group2
    by (simp add: sample_start2_def sample_contract2_def sample_loader2_def sample_rows2_def)
qed

theorem R4OS2ContextFunction_inside_witness:
  "R4OS2ContextFunction sample_contract2 sample_line_memory (Some sample_view2) 1 16 (Some 9) = Some (0, Some 0x400000) \<and>
   load_u64 sample_line_memory 0x1010 = Some 0x400000"
proof -
  have run: "R4OS2ContextFunction sample_contract2 sample_line_memory (Some sample_view2) 1 16 (Some 9) = Some (0, Some 0x400000)"
    by (simp add: R4OS2ContextFunction_def sample_group2 sample_line_loads)
  have "k2_no_group sample_contract2 \<noteq> 0" "k2_no_fn sample_contract2 \<noteq> 0" by (simp_all add: sample_contract2_def)
  from R4OS2ContextFunction_inside [OF run this] run show ?thesis by (auto simp: sample_group2)
qed

end
