(* ===== verification/RegistryBatch.thy ===== *)
theory RegistryBatch
  imports RegistryPath
begin

text \<open>
  The registry batch of \<open>Shared/C/include/r4os/app_storage.h\<close>: a caller-owned array of
  operations and a blob their keys, names and data are appended to, and the typed views
  of a registry value.
\<close>

subsection \<open>The batch builder\<close>

record registry_codes =
  gc_ok :: i32
  gc_invalid :: i32
  gc_small :: i32
  gc_operation_max :: u32
  gc_blob_max :: u32
  gc_set :: u16
  gc_delete :: u16
  gc_type_u32 :: u16
  gc_type_u64 :: u16
  gc_type_bool :: u16
  gc_type_string :: u16
  gc_type_binary :: u16

text \<open>\<open>R4RegistryBatchOperation\<close>; its last member is reserved and written as 0.\<close>

record batch_operation =
  bo_operation :: u16
  bo_value_type :: u16
  bo_key_offset :: u32
  bo_key_len :: u32
  bo_name_offset :: u32
  bo_name_len :: u32
  bo_data_offset :: u32
  bo_data_len :: u32
  bo_reserved :: u32

record batch_builder =
  bb_operations :: "batch_operation list option"
  bb_operation_capacity :: u32
  bb_operation_count :: u32
  bb_blob :: "bytes option"
  bb_blob_capacity :: u32
  bb_blob_len :: u32

definition r4_registry_batch_builder_init ::
  "batch_builder option \<Rightarrow> batch_operation list option \<Rightarrow> u32 \<Rightarrow> bytes option \<Rightarrow> u32 \<Rightarrow> batch_builder option" where
  "r4_registry_batch_builder_init builder operations operation_capacity blob blob_capacity =
     map_option (\<lambda>_. \<lparr>bb_operations = operations, bb_operation_capacity = operation_capacity, bb_operation_count = 0,
       bb_blob = blob, bb_blob_capacity = blob_capacity, bb_blob_len = 0\<rparr>) builder"

definition r4_registry_batch_builder_reset :: "batch_builder option \<Rightarrow> batch_builder option" where
  "r4_registry_batch_builder_reset builder = map_option (\<lambda>b. b\<lparr>bb_operation_count := 0, bb_blob_len := 0\<rparr>) builder"

text \<open>\<open>memcpy\<close> of a whole list; no value when it would leave the target.\<close>

definition memcpy_at :: "bytes \<Rightarrow> nat \<Rightarrow> bytes \<Rightarrow> bytes option" where
  "memcpy_at target off src =
     (if off + length src \<le> length target then Some (take off target @ src @ drop (off + length src) target) else None)"

text \<open>A name byte that would read as a path or an assignment is refused.\<close>

definition name_byte_bad :: "u8 \<Rightarrow> bool" where
  "name_byte_bad ch \<longleftrightarrow> ch < 0x20 \<or> ch = 0x7F \<or> ch = 0x5C \<or> ch = 0x2F \<or> ch = 0x3D"

definition name_bytes :: "bytes \<Rightarrow> bytes" where
  "name_bytes name = takeWhile (\<lambda>b. b \<noteq> 0) name"

text \<open>\<open>r4os_cstr_len(name)\<close>, which does not end on a name of 4294967296 bytes.\<close>

definition name_length :: "bytes \<Rightarrow> u32 option" where
  "name_length name = (if length (name_bytes name) < 2 ^ 32 then Some (word_of_nat (length (name_bytes name))) else None)"

text \<open>\<open>(uint64_t)key->length + name_len + data_len\<close>, and the test that it fits.\<close>

definition batch_needed :: "registry_path \<Rightarrow> u32 \<Rightarrow> u32 \<Rightarrow> u64" where
  "batch_needed key name_len data_len = ucast (rp_length key) + ucast name_len + ucast data_len"

definition batch_full :: "registry_codes \<Rightarrow> batch_builder \<Rightarrow> u64 \<Rightarrow> bool" where
  "batch_full R b needed \<longleftrightarrow>
     needed > ucast (bb_blob_capacity b) \<or> bb_blob_len b > bb_blob_capacity b - ucast needed \<or>
     bb_blob_len b + ucast needed > gc_blob_max R"

text \<open>The three copies and the entry, once everything is checked.\<close>

definition batch_put ::
  "batch_builder \<Rightarrow> batch_operation list \<Rightarrow> bytes \<Rightarrow> registry_path \<Rightarrow> bytes \<Rightarrow> u16 \<Rightarrow> u16 \<Rightarrow> bytes \<Rightarrow> u32 \<Rightarrow> batch_builder option" where
  "batch_put b ops blob key name operation value_type data data_len =
     (let key_offset = bb_blob_len b; name_len = word_of_nat (length name);
          name_offset = key_offset + ucast (rp_length key); data_offset = name_offset + name_len in
      if unat (rp_length key) > length (rp_bytes key) \<or> unat data_len > length data \<or> unat (bb_operation_count b) \<ge> length ops
      then None
      else Option.bind (memcpy_at blob (unat key_offset) (take (unat (rp_length key)) (rp_bytes key))) (\<lambda>blob.
           Option.bind (memcpy_at blob (unat name_offset) name) (\<lambda>blob.
           Option.bind (memcpy_at blob (unat data_offset) (take (unat data_len) data)) (\<lambda>blob.
           Some (b\<lparr>bb_blob := Some blob, bb_blob_len := data_offset + data_len,
             bb_operation_count := bb_operation_count b + 1,
             bb_operations := Some (ops[unat (bb_operation_count b) :=
               \<lparr>bo_operation = operation, bo_value_type = value_type, bo_key_offset = key_offset, bo_key_len = ucast (rp_length key),
                bo_name_offset = name_offset, bo_name_len = name_len, bo_data_offset = data_offset, bo_data_len = data_len,
                bo_reserved = 0\<rparr>])\<rparr>)))))"

definition r4_registry_batch_builder_append ::
  "registry_codes \<Rightarrow> batch_builder option \<Rightarrow> registry_path option \<Rightarrow> bytes option \<Rightarrow> u16 \<Rightarrow> u16 \<Rightarrow> bytes option \<Rightarrow> u32 \<Rightarrow>
    (i32 \<times> batch_builder option) option" where
  "r4_registry_batch_builder_append R builder key name operation value_type data data_len =
     (case (builder, key, name) of
        (Some b, Some k, Some nm) \<Rightarrow>
          (case (bb_operations b, bb_blob b) of
             (Some ops, Some blob) \<Rightarrow>
               if (data = None \<and> data_len \<noteq> 0) \<or> bb_operation_count b \<ge> bb_operation_capacity b \<or>
                  bb_operation_count b \<ge> gc_operation_max R then Some (gc_invalid R, builder)
               else case name_length nm of None \<Rightarrow> None | Some name_len \<Rightarrow>
                 if name_len > 63 then Some (gc_invalid R, builder)
                 else if list_ex name_byte_bad (name_bytes nm) then Some (gc_invalid R, builder)
                 else if batch_full R b (batch_needed k name_len data_len) then Some (gc_small R, builder)
                 else map_option (\<lambda>b. (gc_ok R, Some b))
                        (batch_put b ops blob k (name_bytes nm) operation value_type (case data of None \<Rightarrow> [] | Some d \<Rightarrow> d) data_len)
           | _ \<Rightarrow> Some (gc_invalid R, builder))
      | _ \<Rightarrow> Some (gc_invalid R, builder))"

definition r4_registry_batch_builder_set where
  "r4_registry_batch_builder_set R builder key name value_type data data_len =
     r4_registry_batch_builder_append R builder key name (gc_set R) value_type data data_len"

definition u32_bytes :: "u32 \<Rightarrow> bytes" where
  "u32_bytes v = [ucast v, ucast (drop_bit 8 v), ucast (drop_bit 16 v), ucast (drop_bit 24 v)]"

definition r4_registry_batch_builder_set_u32 where
  "r4_registry_batch_builder_set_u32 R builder key name v =
     r4_registry_batch_builder_set R builder key name (gc_type_u32 R) (Some (u32_bytes v)) 4"

definition r4_registry_batch_builder_delete where
  "r4_registry_batch_builder_delete R builder key name =
     r4_registry_batch_builder_append R builder key name (gc_delete R) 0 None 0"

subsection \<open>Typed views of a value\<close>

text \<open>\<open>vv_bytes\<close> are the bytes from the view's pointer on, \<open>vv_length\<close> of them its own.\<close>

record value_view =
  vv_type :: u16
  vv_bytes :: bytes
  vv_length :: u32

definition u64_bytes :: "u64 \<Rightarrow> bytes" where
  "u64_bytes v = map (\<lambda>i. ucast (drop_bit (i * 8) v)) [0..<8]"

definition r4_registry_value_u32 :: "registry_codes \<Rightarrow> value_view option \<Rightarrow> u32 option \<Rightarrow> (bool \<times> u32 option) option" where
  "r4_registry_value_u32 R view out =
     (case (view, out) of
        (Some v, Some _) \<Rightarrow>
          if vv_type v \<noteq> gc_type_u32 R \<or> vv_length v \<noteq> 4 then Some (False, out)
          else (case vv_bytes v of
                  b0 # b1 # b2 # b3 # _ \<Rightarrow>
                    Some (True, Some (ucast b0 OR push_bit 8 (ucast b1) OR push_bit 16 (ucast b2) OR push_bit 24 (ucast b3)))
                | _ \<Rightarrow> None)
      | _ \<Rightarrow> Some (False, out))"

definition r4_registry_value_u64 :: "registry_codes \<Rightarrow> value_view option \<Rightarrow> u64 option \<Rightarrow> (bool \<times> u64 option) option" where
  "r4_registry_value_u64 R view out =
     (case (view, out) of
        (Some v, Some _) \<Rightarrow>
          if vv_type v \<noteq> gc_type_u64 R \<or> vv_length v \<noteq> 8 then Some (False, out)
          else if length (vv_bytes v) < 8 then None
          else Some (True, Some (fold (\<lambda>i acc. acc OR push_bit (i * 8) (ucast (vv_bytes v ! i))) [0..<8] 0))
      | _ \<Rightarrow> Some (False, out))"

definition r4_registry_value_bool :: "registry_codes \<Rightarrow> value_view option \<Rightarrow> bool option \<Rightarrow> (bool \<times> bool option) option" where
  "r4_registry_value_bool R view out =
     (case (view, out) of
        (Some v, Some _) \<Rightarrow>
          if vv_type v \<noteq> gc_type_bool R \<or> vv_length v \<noteq> 1 then Some (False, out)
          else (case vv_bytes v of
                  [] \<Rightarrow> None
                | b # _ \<Rightarrow> if b > 1 then Some (False, out) else Some (True, Some (b \<noteq> 0)))
      | _ \<Rightarrow> Some (False, out))"

text \<open>Text and binary views hand out the pointer, here the bytes from it on, and the length.\<close>

definition r4_registry_value_string :: "registry_codes \<Rightarrow> value_view option \<Rightarrow> (bytes \<times> u32) option \<Rightarrow> bool \<times> (bytes \<times> u32) option" where
  "r4_registry_value_string R view out =
     (case (view, out) of
        (Some v, Some _) \<Rightarrow>
          if vv_type v \<noteq> gc_type_string R then (False, out) else (True, Some (vv_bytes v, vv_length v))
      | _ \<Rightarrow> (False, out))"

definition r4_registry_value_binary ::
  "registry_codes \<Rightarrow> value_view option \<Rightarrow> bytes option \<Rightarrow> u32 option \<Rightarrow> bool \<times> bytes option \<times> u32 option" where
  "r4_registry_value_binary R view out_bytes out_length =
     (case (view, out_bytes, out_length) of
        (Some v, Some _, Some _) \<Rightarrow>
          if vv_type v \<noteq> gc_type_binary R then (False, out_bytes, out_length)
          else (True, Some (vv_bytes v), Some (vv_length v))
      | _ \<Rightarrow> (False, out_bytes, out_length))"

subsection \<open>The batch as a list of entries\<close>

text \<open>
  A builder stands for the list of the entries appended so far, each with the bytes its
  offsets name in the blob.
\<close>

type_synonym batch_entry = "u16 \<times> u16 \<times> bytes \<times> bytes \<times> bytes"

definition slice :: "bytes \<Rightarrow> u32 \<Rightarrow> u32 \<Rightarrow> bytes" where
  "slice blob off n = take (unat n) (drop (unat off) blob)"

definition entry_view :: "bytes \<Rightarrow> batch_operation \<Rightarrow> batch_entry" where
  "entry_view blob e =
     (bo_operation e, bo_value_type e, slice blob (bo_key_offset e) (bo_key_len e), slice blob (bo_name_offset e) (bo_name_len e),
      slice blob (bo_data_offset e) (bo_data_len e))"

definition entry_inside :: "u32 \<Rightarrow> batch_operation \<Rightarrow> bool" where
  "entry_inside limit e \<longleftrightarrow> unat (bo_key_offset e) + unat (bo_key_len e) \<le> unat limit \<and>
     unat (bo_name_offset e) + unat (bo_name_len e) \<le> unat limit \<and> unat (bo_data_offset e) + unat (bo_data_len e) \<le> unat limit"

definition batch_wf :: "batch_builder \<Rightarrow> bool" where
  "batch_wf b = (case (bb_operations b, bb_blob b) of
     (Some ops, Some blob) \<Rightarrow>
        bb_operation_count b \<le> bb_operation_capacity b \<and> unat (bb_operation_capacity b) \<le> length ops \<and>
        bb_blob_len b \<le> bb_blob_capacity b \<and> unat (bb_blob_capacity b) \<le> length blob \<and>
        (\<forall>e \<in> set (take (unat (bb_operation_count b)) ops). entry_inside (bb_blob_len b) e)
   | _ \<Rightarrow> False)"

definition batch_view :: "batch_builder \<Rightarrow> batch_entry list" where
  "batch_view b = (case (bb_operations b, bb_blob b) of
     (Some ops, Some blob) \<Rightarrow> map (entry_view blob) (take (unat (bb_operation_count b)) ops)
   | _ \<Rightarrow> [])"

text \<open>What the code accepts, over unbounded numbers.\<close>

definition batch_room :: "registry_codes \<Rightarrow> batch_builder \<Rightarrow> nat \<Rightarrow> bool" where
  "batch_room R b n \<longleftrightarrow> unat (bb_blob_len b) + n \<le> unat (bb_blob_capacity b) \<and> unat (bb_blob_len b) + n \<le> unat (gc_blob_max R)"

definition entry_accepted :: "registry_codes \<Rightarrow> batch_builder \<Rightarrow> bytes \<Rightarrow> bool" where
  "entry_accepted R b name \<longleftrightarrow> bb_operation_count b < bb_operation_capacity b \<and> bb_operation_count b < gc_operation_max R \<and>
     length name \<le> 63 \<and> (\<forall>ch \<in> set name. \<not> name_byte_bad ch)"

lemma length_memcpy_at: "memcpy_at target off src = Some r \<Longrightarrow> length r = length target"
  by (auto simp: memcpy_at_def split: if_splits)

lemma memcpy_at_fits: "off + length src \<le> length target \<Longrightarrow> \<exists>r. memcpy_at target off src = Some r"
  by (simp add: memcpy_at_def)

lemma memcpy_at_before: "memcpy_at target off src = Some r \<Longrightarrow> i + n \<le> off \<Longrightarrow> take n (drop i r) = take n (drop i target)"
  by (auto simp: memcpy_at_def min_def drop_take split: if_splits)

lemma memcpy_at_there: "memcpy_at target off src = Some r \<Longrightarrow> take (length src) (drop off r) = src"
  by (auto simp: memcpy_at_def split: if_splits)

lemma batch_full_iff:
  assumes "bb_blob_len b \<le> bb_blob_capacity b"
  shows "\<not> batch_full R b (batch_needed k name_len data_len) \<longleftrightarrow>
    batch_room R b (unat (rp_length k) + unat name_len + unat data_len)"
proof -
  let ?n = "batch_needed k name_len data_len"
  have bounds: "unat (rp_length k) < 2 ^ 16" "unat name_len < 2 ^ 32" "unat data_len < 2 ^ 32"
    "unat (bb_blob_capacity b) < 2 ^ 32"
    using unat_bound [of "rp_length k"] unat_bound [of name_len] unat_bound [of data_len] unat_bound [of "bb_blob_capacity b"] by simp_all
  have n: "unat ?n = unat (rp_length k) + unat name_len + unat data_len"
    using bounds by (simp add: batch_needed_def unat_word_ariths(1) unsigned_ucast_eq take_bit_nat_eq_self)
  have cap: "unat (ucast (bb_blob_capacity b) :: u64) = unat (bb_blob_capacity b)"
    using bounds by (simp add: unsigned_ucast_eq take_bit_nat_eq_self)
  show ?thesis
  proof (cases "unat ?n \<le> unat (bb_blob_capacity b)")
    case True
    then have u: "unat (ucast ?n :: u32) = unat ?n" using bounds by (simp add: unsigned_ucast_eq take_bit_nat_eq_self)
    have sub: "unat (bb_blob_capacity b - ucast ?n) = unat (bb_blob_capacity b) - unat ?n"
      using True u by (simp add: unat_sub word_le_nat_alt)
    have add: "unat (bb_blob_len b) + unat ?n \<le> unat (bb_blob_capacity b) \<Longrightarrow> unat (bb_blob_len b + ucast ?n) = unat (bb_blob_len b) + unat ?n"
      using u bounds by (simp add: unat_word_ariths(1))
    have "\<not> batch_full R b ?n \<longleftrightarrow> unat (bb_blob_len b) + unat ?n \<le> unat (bb_blob_capacity b) \<and> bb_blob_len b + ucast ?n \<le> gc_blob_max R"
      using True by (auto simp: batch_full_def not_less not_le word_le_nat_alt word_less_nat_alt cap sub)
    then show ?thesis using add n by (auto simp: batch_room_def word_le_nat_alt)
  next
    case False
    then show ?thesis using n by (simp add: batch_full_def batch_room_def word_less_nat_alt cap)
  qed
qed

lemma unat_offset: "unat (b :: u32) + n < 2 ^ 32 \<Longrightarrow> unat (w :: u32) = n \<Longrightarrow> unat (b + w) = unat b + n"
  by (simp add: unat_word_ariths(1))

lemma slice_memcpy:
  assumes "memcpy_at t1 o1 s1 = Some t2" and "memcpy_at t2 o2 s2 = Some t3" and "memcpy_at t3 o3 s3 = Some t4"
    and "o2 = o1 + length s1" and "o3 = o2 + length s2"
  shows "take (length s1) (drop o1 t4) = s1" and "take (length s2) (drop o2 t4) = s2" and "take (length s3) (drop o3 t4) = s3"
    and "i + n \<le> o1 \<Longrightarrow> take n (drop i t4) = take n (drop i t1)" and "length t4 = length t1"
  using memcpy_at_there [OF assms(1)] memcpy_at_there [OF assms(2)] memcpy_at_there [OF assms(3)]
    memcpy_at_before [OF assms(1), of i n] memcpy_at_before [OF assms(2), of i n] memcpy_at_before [OF assms(3), of i n]
    memcpy_at_before [OF assms(2), of o1 "length s1"] memcpy_at_before [OF assms(3), of o1 "length s1"]
    memcpy_at_before [OF assms(3), of o2 "length s2"]
    length_memcpy_at [OF assms(1)] length_memcpy_at [OF assms(2)] length_memcpy_at [OF assms(3)] assms(4,5)
  by simp_all

lemma batch_put_appends:
  fixes b :: batch_builder and k :: registry_path
  assumes wf: "batch_wf b" and ops: "bb_operations b = Some ops" and blob: "bb_blob b = Some blob"
    and room: "batch_room R b (unat (rp_length k) + length name + unat data_len)"
    and key: "unat (rp_length k) \<le> length (rp_bytes k)" and data: "unat data_len \<le> length data"
    and more: "bb_operation_count b < bb_operation_capacity b"
  shows "\<exists>b'. batch_put b ops blob k name operation value_type data data_len = Some b' \<and> batch_wf b' \<and>
    batch_view b' = batch_view b @ [(operation, value_type, take (unat (rp_length k)) (rp_bytes k), name, take (unat data_len) data)]"
proof -
  let ?k = "take (unat (rp_length k)) (rp_bytes k)" and ?d = "take (unat data_len) data"
  define base where "base = bb_blob_len b"
  define off1 where "off1 = base + ucast (rp_length k)"
  define off2 where "off2 = off1 + word_of_nat (length name)"
  define fin where "fin = off2 + data_len"
  define e where "e = \<lparr>bo_operation = operation, bo_value_type = value_type, bo_key_offset = base, bo_key_len = ucast (rp_length k),
    bo_name_offset = off1, bo_name_len = word_of_nat (length name), bo_data_offset = off2, bo_data_len = data_len, bo_reserved = 0\<rparr>"
  note facts = wf [unfolded batch_wf_def ops blob, simplified]
  have cap: "unat (bb_blob_capacity b) < 2 ^ 32" using unat_bound [of "bb_blob_capacity b"] by simp
  have total: "unat base + (unat (rp_length k) + length name + unat data_len) \<le> unat (bb_blob_capacity b)"
    using room by (simp add: batch_room_def base_def)
  have kl: "unat (ucast (rp_length k) :: u32) = unat (rp_length k)"
    using unat_bound [of "rp_length k"] by (simp add: unsigned_ucast_eq take_bit_nat_eq_self)
  have nl: "unat (word_of_nat (length name) :: u32) = length name" using total cap by (simp add: unsigned_of_nat take_bit_nat_eq_self)
  have o1: "unat off1 = unat base + unat (rp_length k)" unfolding off1_def using total cap kl by (intro unat_offset) simp_all
  have o2: "unat off2 = unat off1 + length name" unfolding off2_def using total cap nl o1 by (intro unat_offset) simp_all
  have o3: "unat fin = unat off2 + unat data_len" unfolding fin_def using total cap o1 o2 by (intro unat_offset) simp_all
  have fits: "unat fin \<le> length blob" using facts total o1 o2 o3 by linarith
  obtain t1 where t1: "memcpy_at blob (unat base) ?k = Some t1"
    using memcpy_at_fits [of "unat base" ?k blob] fits o1 o2 o3 key by auto
  obtain t2 where t2: "memcpy_at t1 (unat off1) name = Some t2"
    using memcpy_at_fits [of "unat off1" name t1] fits o1 o2 o3 length_memcpy_at [OF t1] by auto
  obtain t3 where t3: "memcpy_at t2 (unat off2) ?d = Some t3"
    using memcpy_at_fits [of "unat off2" ?d t2] fits o2 o3 data length_memcpy_at [OF t1] length_memcpy_at [OF t2] by auto
  have lens: "length ?k = unat (rp_length k)" "length ?d = unat data_len" using key data by simp_all
  note copied = slice_memcpy [OF t1 t2 t3, unfolded lens]
  let ?c = "unat (bb_operation_count b)"
  have c: "?c < length ops" and c1: "unat (bb_operation_count b + 1) = Suc ?c" and c2: "bb_operation_count b + 1 \<le> bb_operation_capacity b"
    using more facts unat_bound [of "bb_operation_capacity b"]
    by (auto simp: word_less_nat_alt word_le_nat_alt unat_word_ariths(1))
  define b' where "b' = b\<lparr>bb_blob := Some t3, bb_blob_len := fin, bb_operation_count := bb_operation_count b + 1,
    bb_operations := Some (ops[?c := e])\<rparr>"
  have run: "batch_put b ops blob k name operation value_type data data_len = Some b'"
    using key data c t1 t2 t3
    by (simp add: batch_put_def Let_def not_less not_le b'_def e_def base_def [symmetric] off1_def [symmetric] off2_def [symmetric] fin_def [symmetric])
  have first: "take (Suc ?c) (ops[?c := e]) = take ?c ops @ [e]" using c by (simp add: take_Suc_conv_app_nth)
  have inside: "entry_inside fin e" using o1 o2 o3 kl nl by (simp add: entry_inside_def e_def)
  have "entry_inside fin x" if "entry_inside base x" for x
    using that o1 o2 o3 by (auto simp: entry_inside_def)
  then have "batch_wf b'"
    using facts c1 c2 inside copied(5) key o1 o2 o3 total
    by (auto simp: batch_wf_def b'_def first base_def word_le_nat_alt)
  moreover have "entry_view t3 x = entry_view blob x" if "x \<in> set (take ?c ops)" for x
    using facts that copied(4) o1 o2 by (simp add: entry_view_def slice_def entry_inside_def base_def)
  moreover have "entry_view t3 e = (operation, value_type, ?k, name, ?d)"
    using copied(1-3) o1 o2 kl nl by (simp add: entry_view_def slice_def e_def)
  ultimately show ?thesis using run ops blob by (simp add: batch_view_def b'_def c1 first)
qed

subsection \<open>Appending against its specification\<close>

definition batch_append_spec ::
  "registry_codes \<Rightarrow> batch_builder \<Rightarrow> registry_path \<Rightarrow> bytes \<Rightarrow> u16 \<Rightarrow> u16 \<Rightarrow> bytes option \<Rightarrow> u32 \<Rightarrow> i32 \<times> batch_entry list" where
  "batch_append_spec R b k name operation value_type data data_len =
     (if (data = None \<and> data_len \<noteq> 0) \<or> \<not> entry_accepted R b name then (gc_invalid R, batch_view b)
      else if \<not> batch_room R b (unat (rp_length k) + length name + unat data_len) then (gc_small R, batch_view b)
      else (gc_ok R, batch_view b @
        [(operation, value_type, take (unat (rp_length k)) (rp_bytes k), name, take (unat data_len) (case data of None \<Rightarrow> [] | Some d \<Rightarrow> d))]))"

text \<open>The caller's buffers hold what their lengths announce.\<close>

definition entry_buffers :: "registry_path \<Rightarrow> bytes \<Rightarrow> bytes option \<Rightarrow> u32 \<Rightarrow> bool" where
  "entry_buffers k nm data data_len \<longleftrightarrow> unat (rp_length k) \<le> length (rp_bytes k) \<and> length nm < 2 ^ 32 \<and>
     (case data of None \<Rightarrow> True | Some d \<Rightarrow> unat data_len \<le> length d)"

lemma name_bytes_short: "length (name_bytes nm) \<le> length nm"
  by (simp add: name_bytes_def length_takeWhile_le)

lemma name_length_short:
  "length nm < 2 ^ 32 \<Longrightarrow> name_length nm = Some (word_of_nat (length (name_bytes nm)))"
  "length nm < 2 ^ 32 \<Longrightarrow> unat (word_of_nat (length (name_bytes nm)) :: u32) = length (name_bytes nm)"
  using name_bytes_short [of nm] by (simp_all add: name_length_def unsigned_of_nat take_bit_nat_eq_self)

lemma batch_append_refines:
  fixes b :: batch_builder and k :: registry_path
  assumes wf: "batch_wf b" and buf: "entry_buffers k nm data data_len"
  shows "\<exists>rc b'. r4_registry_batch_builder_append R (Some b) (Some k) (Some nm) operation value_type data data_len = Some (rc, Some b') \<and>
    batch_wf b' \<and> (rc, batch_view b') = batch_append_spec R b k (name_bytes nm) operation value_type data data_len"
proof -
  obtain ops blob where fields: "bb_operations b = Some ops" "bb_blob b = Some blob"
    using wf by (auto simp: batch_wf_def split: option.splits)
  let ?nm = "name_bytes nm" and ?d = "case data of None \<Rightarrow> [] | Some d \<Rightarrow> d"
  let ?app = "r4_registry_batch_builder_append R (Some b) (Some k) (Some nm) operation value_type data data_len"
  note nl = name_length_short [of nm]
  have short: "length nm < 2 ^ 32" using buf by (simp add: entry_buffers_def)
  have len: "(word_of_nat (length ?nm) :: u32) > 63 \<longleftrightarrow> \<not> length ?nm \<le> 63"
    using nl(2) [OF short] by (simp add: word_less_nat_alt not_le)
  have full: "\<not> batch_full R b (batch_needed k (word_of_nat (length ?nm)) data_len) \<longleftrightarrow>
      batch_room R b (unat (rp_length k) + length ?nm + unat data_len)"
    using batch_full_iff [of b R k "word_of_nat (length ?nm)" data_len] wf nl(2) [OF short]
    by (simp add: batch_wf_def fields)
  have bad: "list_ex name_byte_bad ?nm \<longleftrightarrow> \<not> (\<forall>ch \<in> set ?nm. \<not> name_byte_bad ch)" by (auto simp: list_ex_iff)
  consider (refused) "(data = None \<and> data_len \<noteq> 0) \<or> \<not> entry_accepted R b ?nm"
    | (small) "\<not> (data = None \<and> data_len \<noteq> 0)" "entry_accepted R b ?nm"
        "\<not> batch_room R b (unat (rp_length k) + length ?nm + unat data_len)"
    | (room) "\<not> (data = None \<and> data_len \<noteq> 0)" "entry_accepted R b ?nm"
        "batch_room R b (unat (rp_length k) + length ?nm + unat data_len)" by blast
  then show ?thesis
  proof cases
    case refused
    then have "?app = Some (gc_invalid R, Some b)"
      by (auto simp: r4_registry_batch_builder_append_def fields nl(1) [OF short] entry_accepted_def len bad not_le not_less)
    with refused wf show ?thesis by (simp add: batch_append_spec_def)
  next
    case small
    then have "?app = Some (gc_small R, Some b)"
      using full by (auto simp: r4_registry_batch_builder_append_def fields nl(1) [OF short] entry_accepted_def len bad not_less [symmetric])
    with small wf show ?thesis by (auto simp: batch_append_spec_def)
  next
    case room
    have data: "unat data_len \<le> length ?d"
      using buf room(1) by (auto simp: entry_buffers_def split: option.splits)
    have key: "unat (rp_length k) \<le> length (rp_bytes k)" using buf by (simp add: entry_buffers_def)
    have more: "bb_operation_count b < bb_operation_capacity b" using room(2) by (simp add: entry_accepted_def)
    from batch_put_appends [OF wf fields room(3) key data more] obtain b' where
      put: "batch_put b ops blob k ?nm operation value_type ?d data_len = Some b'" "batch_wf b'"
        "batch_view b' = batch_view b @ [(operation, value_type, take (unat (rp_length k)) (rp_bytes k), ?nm, take (unat data_len) ?d)]"
      by blast
    have "?app = Some (gc_ok R, Some b')"
      using room full put(1) by (auto simp: r4_registry_batch_builder_append_def fields nl(1) [OF short] entry_accepted_def len bad not_less [symmetric])
    with room put show ?thesis by (auto simp: batch_append_spec_def)
  qed
qed

text \<open>
  C18: Appending to a well-formed registry batch always answers, keeps the batch well-formed
  and does what the specification over unbounded numbers says: a full table, an oversized
  name or a forbidden name byte is refused as invalid and missing room as too small, both
  without changing the entries, and otherwise exactly one entry with the caller's key, name
  and data is added at the end.\<close>

theorem r4_registry_batch_builder_append_refines:
  fixes b :: batch_builder and k :: registry_path
  assumes "batch_wf b" and "entry_buffers k nm data data_len"
  shows "\<exists>rc b'. r4_registry_batch_builder_append R (Some b) (Some k) (Some nm) operation value_type data data_len = Some (rc, Some b') \<and>
    batch_wf b' \<and> (rc, batch_view b') = batch_append_spec R b k (name_bytes nm) operation value_type data data_len"
  by (rule batch_append_refines [OF assms])

definition sample_codes_reg :: registry_codes where
  "sample_codes_reg = \<lparr>gc_ok = 0, gc_invalid = - 1, gc_small = - 2, gc_operation_max = 4, gc_blob_max = 64, gc_set = 1, gc_delete = 2,
     gc_type_u32 = 1, gc_type_u64 = 2, gc_type_bool = 3, gc_type_string = 4, gc_type_binary = 5\<rparr>"

definition sample_operation :: batch_operation where
  "sample_operation = \<lparr>bo_operation = 0, bo_value_type = 0, bo_key_offset = 0, bo_key_len = 0, bo_name_offset = 0, bo_name_len = 0,
     bo_data_offset = 0, bo_data_len = 0, bo_reserved = 0\<rparr>"

definition sample_builder :: batch_builder where
  "sample_builder = \<lparr>bb_operations = Some [sample_operation], bb_operation_capacity = 1, bb_operation_count = 0,
     bb_blob = Some [0, 0, 0, 0, 0], bb_blob_capacity = 5, bb_blob_len = 0\<rparr>"

definition sample_key :: registry_path where
  "sample_key = \<lparr>rp_bytes = [0x41, 0x42], rp_length = 2\<rparr>"

theorem r4_registry_batch_builder_append_refines_witness:
  "\<exists>b'. r4_registry_batch_builder_append sample_codes_reg (Some sample_builder) (Some sample_key) (Some [0x4E, 0]) 1 1 (Some [7, 8]) 2 =
     Some (0, Some b') \<and> batch_wf b' \<and> batch_view b' = [(1, 1, [0x41, 0x42], [0x4E], [7, 8])]"
proof -
  have wf: "batch_wf sample_builder" by (simp add: batch_wf_def sample_builder_def)
  have buf: "entry_buffers sample_key [0x4E, 0] (Some [7, 8]) 2" by (simp add: entry_buffers_def sample_key_def)
  have "batch_append_spec sample_codes_reg sample_builder sample_key (name_bytes [0x4E, 0]) 1 1 (Some [7, 8]) 2 =
      (0, [(1, 1, [0x41, 0x42], [0x4E], [7, 8])])"
    by (simp add: batch_append_spec_def entry_accepted_def batch_room_def batch_view_def sample_codes_reg_def sample_builder_def
        sample_key_def name_bytes_def name_byte_bad_def)
  with r4_registry_batch_builder_append_refines [OF wf buf, of sample_codes_reg 1 1] show ?thesis by auto
qed

subsection \<open>Values written and read back\<close>

text \<open>\<open>r4_registry_set_bool\<close> writes one byte.\<close>

definition bool_bytes :: "bool \<Rightarrow> bytes" where
  "bool_bytes v = [if v then 1 else 0]"

lemma u32_round: "(ucast (ucast v :: u8) OR push_bit 8 (ucast (ucast (drop_bit 8 v) :: u8)) OR
    push_bit 16 (ucast (ucast (drop_bit 16 v) :: u8)) OR push_bit 24 (ucast (ucast (drop_bit 24 v) :: u8)) :: u32) = v"
proof (rule bit_word_eqI)
  fix n assume "n < LENGTH(32)"
  then have "n < 8 \<or> 8 \<le> n \<and> n < 16 \<or> 16 \<le> n \<and> n < 24 \<or> 24 \<le> n \<and> n < 32" by simp arith
  then show "bit (ucast (ucast v :: u8) OR push_bit 8 (ucast (ucast (drop_bit 8 v) :: u8)) OR
    push_bit 16 (ucast (ucast (drop_bit 16 v) :: u8)) OR push_bit 24 (ucast (ucast (drop_bit 24 v) :: u8)) :: u32) n = bit v n"
    by (elim disjE conjE) (auto simp: bit_simps)
qed

lemma u64_fold_bit: "bit (fold (\<lambda>i acc. acc OR push_bit (i * 8) (ucast (bs ! i))) [0..<m] 0 :: u64) n \<longleftrightarrow>
    n < 64 \<and> n < 8 * m \<and> bit (bs ! (n div 8) :: u8) (n mod 8)"
proof (induction m)
  case (Suc m)
  have "bit (push_bit (m * 8) (ucast (bs ! m)) :: u64) n \<longleftrightarrow> n < 64 \<and> 8 * m \<le> n \<and> n < 8 * Suc m \<and> bit (bs ! (n div 8)) (n mod 8)"
  proof (cases "8 * m \<le> n \<and> n < 8 * Suc m")
    case True
    then have d: "n div 8 = m" by (auto intro!: div_nat_eqI)
    then have "n mod 8 = n - m * 8" by (simp add: minus_mult_div_eq_mod [symmetric] mult.commute)
    note d this
    with True show ?thesis by (auto simp: bit_simps)
  next
    case False
    then show ?thesis by (auto simp: bit_simps dest: bit_imp_le_length)
  qed
  with Suc show ?case by (auto simp: bit_or_iff)
qed simp

lemma u64_round: "(fold (\<lambda>i acc. acc OR push_bit (i * 8) (ucast ((u64_bytes v @ rest) ! i))) [0..<8] 0 :: u64) = v"
proof (rule bit_word_eqI)
  fix n assume n: "n < LENGTH(64)"
  then have d: "n div 8 < 8" by simp
  have split: "(n div 8) * 8 + n mod 8 = n" by simp
  have m: "n mod 8 < 8" by simp
  have "(u64_bytes v @ rest) ! (n div 8) = ucast (drop_bit (n div 8 * 8) v)"
    using d by (simp add: u64_bytes_def nth_append)
  then show "bit (fold (\<lambda>i acc. acc OR push_bit (i * 8) (ucast ((u64_bytes v @ rest) ! i))) [0..<8] 0 :: u64) n = bit v n"
    using n m split by (simp add: u64_fold_bit bit_ucast_iff bit_drop_bit_eq del: upt_rec_numeral)
qed

text \<open>
  C19: A value written by the registry's typed setters reads back through the typed views,
  whatever follows its bytes in memory; a view of another type or length is refused and
  leaves the caller's object as it was, and so does a boolean byte other than 0 and 1.\<close>

theorem registry_values_round_trip:
  "r4_registry_value_u32 R (Some \<lparr>vv_type = gc_type_u32 R, vv_bytes = u32_bytes a @ rest, vv_length = 4\<rparr>) (Some a') = Some (True, Some a) \<and>
   r4_registry_value_u64 R (Some \<lparr>vv_type = gc_type_u64 R, vv_bytes = u64_bytes b @ rest, vv_length = 8\<rparr>) (Some b') = Some (True, Some b) \<and>
   r4_registry_value_bool R (Some \<lparr>vv_type = gc_type_bool R, vv_bytes = bool_bytes c @ rest, vv_length = 1\<rparr>) (Some c') = Some (True, Some c) \<and>
   (\<exists>q. r4_registry_value_u32 R (Some \<lparr>vv_type = t, vv_bytes = u32_bytes a @ rest, vv_length = n\<rparr>) (Some a') = Some (q, Some (if q then a else a')) \<and>
     (q \<longleftrightarrow> t = gc_type_u32 R \<and> n = 4)) \<and>
   (\<exists>q. r4_registry_value_u64 R (Some \<lparr>vv_type = t, vv_bytes = u64_bytes b @ rest, vv_length = n\<rparr>) (Some b') = Some (q, Some (if q then b else b')) \<and>
     (q \<longleftrightarrow> t = gc_type_u64 R \<and> n = 8)) \<and>
   (\<exists>q. r4_registry_value_bool R (Some \<lparr>vv_type = t, vv_bytes = x # rest, vv_length = n\<rparr>) (Some c') = Some (q, Some (if q then x = 1 else c')) \<and>
     (q \<longleftrightarrow> t = gc_type_bool R \<and> n = 1 \<and> (x = 0 \<or> x = 1)))"
  (is "?u32 \<and> ?u64 \<and> ?bool \<and> ?u32any \<and> ?u64any \<and> ?boolany")
proof -
  have len: "length (u64_bytes b) = 8" by (simp add: u64_bytes_def)
  have le1: "\<not> 1 < x \<longleftrightarrow> x = 0 \<or> x = 1" for x :: u8
    unfolding not_less word_le_nat_alt word_unat_eq_iff [of x] by simp arith
  have u32: ?u32 by (simp add: r4_registry_value_u32_def u32_bytes_def u32_round)
  have u64: ?u64 using len by (simp add: r4_registry_value_u64_def u64_round del: upt_rec_numeral)
  have ?bool by (simp add: r4_registry_value_bool_def bool_bytes_def)
  moreover have ?u32any using u32 by (cases "t = gc_type_u32 R \<and> n = 4") (auto simp: r4_registry_value_u32_def)
  moreover have ?u64any using u64 by (cases "t = gc_type_u64 R \<and> n = 8") (auto simp: r4_registry_value_u64_def simp del: upt_rec_numeral)
  moreover have ?boolany using le1 [of x] by (auto simp: r4_registry_value_bool_def)
  ultimately show ?thesis using u32 u64 by (intro conjI)
qed

end
