(* ===== verification/Files.thy ===== *)
theory Files
  imports Handles
begin

text \<open>
  The console and file part of \<open>Shared/C/include/r4os/app_storage.h\<close>: results classified
  from the platform's return codes, single file operations, the directory iterator and
  the streaming reader and writer.

  Paths are the addresses of the caller's path objects; their first member is the byte
  array the platform receives.
\<close>

subsection \<open>Results\<close>

record r4_console =
  cn_system :: "r4_sys option"

record r4_files =
  fs_system :: "r4_sys option"

record r4_registry =
  rg_system :: "r4_sys option"

datatype transfer_state = TRANSFER_BYTES | TRANSFER_END | TRANSFER_FAILED

record transfer =
  tr_state :: transfer_state
  tr_raw_code :: i32
  tr_bytes :: u32

datatype operation_state = OPERATION_OK | OPERATION_MISSING | OPERATION_FAILED

record operation =
  op_state :: operation_state
  op_raw_code :: i32

datatype file_info_state = INFO_VALUE | INFO_MISSING | INFO_FAILED

record file_info_read =
  fi_state :: file_info_state
  fi_raw_code :: i32
  fi_value :: bytes

record file_copy_result =
  fc_progress :: bytes
  fc_raw_code :: i32
  fc_ok :: bool

definition r4_transfer_raw :: "i32 \<Rightarrow> transfer" where
  "r4_transfer_raw raw =
     (if negative raw then \<lparr>tr_state = TRANSFER_FAILED, tr_raw_code = raw, tr_bytes = 0\<rparr>
      else if raw = 0 then \<lparr>tr_state = TRANSFER_END, tr_raw_code = raw, tr_bytes = 0\<rparr>
      else \<lparr>tr_state = TRANSFER_BYTES, tr_raw_code = raw, tr_bytes = raw\<rparr>)"

definition r4_operation_presence :: "i32 \<Rightarrow> operation" where
  "r4_operation_presence raw =
     \<lparr>op_state = (if negative raw then OPERATION_FAILED else if raw = 0 then OPERATION_MISSING else OPERATION_OK),
      op_raw_code = raw\<rparr>"

definition r4_operation_status :: "i32 \<Rightarrow> operation" where
  "r4_operation_status raw = \<lparr>op_state = (if negative raw then OPERATION_FAILED else OPERATION_OK), op_raw_code = raw\<rparr>"

definition r4_app_console :: "r4_app option \<Rightarrow> r4_console" where
  "r4_app_console app = \<lparr>cn_system = map_option a_system app\<rparr>"

definition r4_app_files :: "r4_app option \<Rightarrow> r4_files" where
  "r4_app_files app = \<lparr>fs_system = map_option a_system app\<rparr>"

definition r4_app_registry :: "r4_app option \<Rightarrow> r4_registry" where
  "r4_app_registry app = \<lparr>rg_system = map_option a_system app\<rparr>"

subsection \<open>Console\<close>

abbreviation console_sys :: "r4_console option \<Rightarrow> r4_sys option" where
  "console_sys console \<equiv> Option.bind console cn_system"

definition r4_console_available :: "'w platform \<Rightarrow> r4_console option \<Rightarrow> query" where
  "r4_console_available E console =
     q_and (sys_base E (console_sys console) ''write'') (sys_filled E (console_sys console) ''putc'')"

definition r4_console_write :: "'w platform \<Rightarrow> r4_console option \<Rightarrow> u64 \<Rightarrow> u32 \<Rightarrow> (i32, 'w) io" where
  "r4_console_write E console data len =
     ask (r4_console_available E console) (\<lambda>ok.
       if ok then r4sys_write E (console_sys console) data len else give (p_code E ''R4OS_ERR_NO_FN''))"

definition r4_console_line :: "'w platform \<Rightarrow> r4_console option \<Rightarrow> u64 \<Rightarrow> (i32, 'w) io" where
  "r4_console_line E console str =
     ask (r4_console_available E console) (\<lambda>ok.
       if ok then r4sys_write_line E (console_sys console) str else give (p_code E ''R4OS_ERR_NO_FN''))"

text \<open>
  The three complete-write operations go to \<open>R4SdkConsole\<close>, which is not C code: a parameter
  that takes the system, the bytes, their number and the operation. A single byte is passed in a local.
\<close>

type_synonym 'w sdk_console = "r4_sys option \<Rightarrow> u64 \<Rightarrow> u64 \<Rightarrow> i32 \<Rightarrow> (i32, 'w) io"

definition r4_console_put :: "'w platform \<Rightarrow> 'w sdk_console \<Rightarrow> r4_console option \<Rightarrow> u8 \<Rightarrow> (i32, 'w) io" where
  "r4_console_put E R4SdkConsole console byte =
     and_then (Platform.store (p_local E ''byte'') [byte]) (\<lambda>_. R4SdkConsole (console_sys console) (p_local E ''byte'') 1 2)"

definition r4_console_write_line :: "'w sdk_console \<Rightarrow> r4_console option \<Rightarrow> u64 \<Rightarrow> u32 \<Rightarrow> (i32, 'w) io" where
  "r4_console_write_line R4SdkConsole console data len = R4SdkConsole (console_sys console) data (ucast len) 1"

definition r4_console_write_all :: "'w sdk_console \<Rightarrow> r4_console option \<Rightarrow> u64 \<Rightarrow> u64 \<Rightarrow> (i32, 'w) io" where
  "r4_console_write_all R4SdkConsole console data len = R4SdkConsole (console_sys console) data len 0"

subsection \<open>Single file operations\<close>

abbreviation files_sys :: "r4_files option \<Rightarrow> r4_sys option" where
  "files_sys files \<equiv> Option.bind files fs_system"

text \<open>\<open>path->bytes\<close>\<close>

definition path_bytes :: "'w platform \<Rightarrow> u64 \<Rightarrow> u64" where
  "path_bytes E path = path + word_of_nat (p_off E ''R4FilePath'' ''bytes'')"

definition r4_files_available :: "'w platform \<Rightarrow> r4_files option \<Rightarrow> query" where
  "r4_files_available E files =
     q_and (sure (table_of (files_sys files) \<noteq> 0))
       (all_filled E ''R4Sys'' (table_of (files_sys files)) [''file_read'', ''file_write'', ''file_read_at'', ''file_append''])"

text \<open>
  The shape of most operations: a missing object or slot answers \<open>R4OS_ERR_NO_FN\<close>, and
  otherwise the platform's code is read off by \<open>result\<close>.
\<close>

definition files_op ::
  "'w platform \<Rightarrow> r4_files option \<Rightarrow> bool \<Rightarrow> string \<Rightarrow> u64 list \<Rightarrow> 'a \<Rightarrow> (i32 \<Rightarrow> 'a) \<Rightarrow> ('a, 'w) io" where
  "files_op E files present slot args missing result =
     ask (q_and (sure present) (sys_base E (files_sys files) slot)) (\<lambda>ok.
       if \<not> ok then give missing
       else and_then (sys_call E (files_sys files) slot args) (\<lambda>raw. give (result raw)))"

definition no_fn_transfer :: "'w platform \<Rightarrow> transfer" where
  "no_fn_transfer E = r4_transfer_raw (p_code E ''R4OS_ERR_NO_FN'')"

definition no_fn_operation :: "'w platform \<Rightarrow> operation" where
  "no_fn_operation E = r4_operation_status (p_code E ''R4OS_ERR_NO_FN'')"

definition r4_files_read :: "'w platform \<Rightarrow> r4_files option \<Rightarrow> u64 \<Rightarrow> u64 \<Rightarrow> u32 \<Rightarrow> (transfer, 'w) io" where
  "r4_files_read E files path out capacity =
     files_op E files (path \<noteq> 0) ''file_read'' [path_bytes E path, out, ucast capacity] (no_fn_transfer E) r4_transfer_raw"

definition r4_files_read_at :: "'w platform \<Rightarrow> r4_files option \<Rightarrow> u64 \<Rightarrow> u32 \<Rightarrow> u64 \<Rightarrow> u32 \<Rightarrow> (transfer, 'w) io" where
  "r4_files_read_at E files path offset out capacity =
     files_op E files (path \<noteq> 0) ''file_read_at'' [path_bytes E path, ucast offset, out, ucast capacity] (no_fn_transfer E) r4_transfer_raw"

text \<open>A write of no bytes is not an end.\<close>

definition written_transfer :: "i32 \<Rightarrow> transfer" where
  "written_transfer raw =
     (let result = r4_transfer_raw raw in if raw = 0 then result\<lparr>tr_state := TRANSFER_BYTES, tr_bytes := 0\<rparr> else result)"

definition r4_files_write :: "'w platform \<Rightarrow> r4_files option \<Rightarrow> u64 \<Rightarrow> u64 \<Rightarrow> u32 \<Rightarrow> (transfer, 'w) io" where
  "r4_files_write E files path data len =
     files_op E files (path \<noteq> 0) ''file_write'' [path_bytes E path, data, ucast len] (no_fn_transfer E) written_transfer"

definition r4_files_append :: "'w platform \<Rightarrow> r4_files option \<Rightarrow> u64 \<Rightarrow> u64 \<Rightarrow> u32 \<Rightarrow> (transfer, 'w) io" where
  "r4_files_append E files path data len =
     files_op E files (path \<noteq> 0) ''file_append'' [path_bytes E path, data, ucast len] (no_fn_transfer E) written_transfer"

definition r4_files_name_limits :: "'w platform \<Rightarrow> r4_files option \<Rightarrow> u64 \<Rightarrow> u64 \<Rightarrow> (i32, 'w) io" where
  "r4_files_name_limits E files path out =
     (if files = None \<or> path = 0 \<or> out = 0 then give (p_code E ''R4OS_FILE_STREAM_ERROR_INVALID'')
      else r4sys_file_name_limits E (files_sys files) (path_bytes E path) out)"

definition r4_files_system_update_target_supported :: "'w platform \<Rightarrow> r4_files option \<Rightarrow> u64 \<Rightarrow> (i32, 'w) io" where
  "r4_files_system_update_target_supported E files path =
     (if files = None \<or> path = 0 then give (- 1)
      else ask (member_is E path ''R4FilePath'' ''absolute'' (\<lambda>v. v = 0)) (\<lambda>relative.
        if relative then give (- 1)
        else r4sys_system_update_target_supported E (files_sys files) (path_bytes E path)))"

definition r4_files_info :: "'w platform \<Rightarrow> r4_files option \<Rightarrow> u64 \<Rightarrow> (file_info_read, 'w) io" where
  "r4_files_info E files path =
     ask (q_and (sure (path \<noteq> 0)) (sys_base E (files_sys files) ''file_info'')) (\<lambda>ok.
       if \<not> ok then give \<lparr>fi_state = INFO_FAILED, fi_raw_code = p_code E ''R4OS_ERR_NO_FN'', fi_value = zero_obj E ''R4FileInfo''\<rparr>
       else and_then (clear_obj E (p_local E ''value'') ''R4FileInfo'') (\<lambda>_.
         and_then (sys_call E (files_sys files) ''file_info'' [path_bytes E path, p_local E ''value'']) (\<lambda>raw.
         and_then (load_obj E (p_local E ''value'') ''R4FileInfo'') (\<lambda>v.
           give \<lparr>fi_state = (if negative raw then INFO_FAILED
                            else if raw = 0 \<or> (obj_word E ''R4FileInfo'' ''exists'' v :: u32) = 0 then INFO_MISSING
                            else INFO_VALUE),
             fi_raw_code = raw, fi_value = v\<rparr>))))"

definition r4_files_delete :: "'w platform \<Rightarrow> r4_files option \<Rightarrow> u64 \<Rightarrow> (operation, 'w) io" where
  "r4_files_delete E files path =
     files_op E files (path \<noteq> 0) ''file_delete'' [path_bytes E path] (no_fn_operation E) r4_operation_presence"

definition r4_files_copy ::
  "'w platform \<Rightarrow> r4_files option \<Rightarrow> u64 \<Rightarrow> u64 \<Rightarrow> u64 \<Rightarrow> u32 \<Rightarrow> (file_copy_result, 'w) io" where
  "r4_files_copy E files source target buffer capacity =
     (let progress = p_local E ''progress'' in
      and_then (clear_obj E progress ''R4FileCopyProgress'') (\<lambda>_.
      and_then (put_header E progress ''R4FileCopyProgress'' 1 (sizeof E ''R4FileCopyProgress'')) (\<lambda>_.
      and_then (r4sys_file_copy_buffered E (files_sys files) (if source = 0 then 0 else path_bytes E source)
          (if target = 0 then 0 else path_bytes E target) buffer capacity progress) (\<lambda>raw.
      and_then (load_obj E progress ''R4FileCopyProgress'') (\<lambda>v.
        give \<lparr>fc_progress = v, fc_raw_code = raw, fc_ok = (raw = p_code E ''R4OS_FILE_STREAM_RESULT_OK'')\<rparr>)))))"

definition r4_files_create_directory :: "'w platform \<Rightarrow> r4_files option \<Rightarrow> u64 \<Rightarrow> (operation, 'w) io" where
  "r4_files_create_directory E files path =
     files_op E files (path \<noteq> 0) ''dir_create'' [path_bytes E path] (no_fn_operation E) r4_operation_presence"

definition r4_files_delete_directory :: "'w platform \<Rightarrow> r4_files option \<Rightarrow> u64 \<Rightarrow> (operation, 'w) io" where
  "r4_files_delete_directory E files path =
     files_op E files (path \<noteq> 0) ''dir_delete'' [path_bytes E path] (no_fn_operation E) r4_operation_presence"

definition r4_files_rename :: "'w platform \<Rightarrow> r4_files option \<Rightarrow> u64 \<Rightarrow> u64 \<Rightarrow> (operation, 'w) io" where
  "r4_files_rename E files source target =
     files_op E files (source \<noteq> 0 \<and> target \<noteq> 0) ''file_rename'' [path_bytes E source, path_bytes E target]
       (no_fn_operation E) r4_operation_presence"

text \<open>
  The flags of an atomic replacement: nothing unknown, the two requirements only together
  with consuming the stage, and ownership of the stage only when the target must be absent.
\<close>

definition replace_flags_bad :: "'w platform \<Rightarrow> u32 \<Rightarrow> bool" where
  "replace_flags_bad E flags \<longleftrightarrow>
     (let consume = p_code E ''R4SYS_FILE_REPLACE_ATOMIC_CONSUME_STAGE'';
          absent = p_code E ''R4SYS_FILE_REPLACE_ATOMIC_REQUIRE_TARGET_ABSENT'';
          owned = p_code E ''R4SYS_FILE_REPLACE_ATOMIC_REQUIRE_OWNED_STAGE'' in
      flags AND NOT (consume OR absent OR owned) \<noteq> 0 \<or>
      (flags AND (absent OR owned) \<noteq> 0 \<and> flags AND consume = 0) \<or>
      (flags AND owned \<noteq> 0 \<and> flags AND (consume OR absent) \<noteq> consume OR absent))"

definition r4_files_replace_atomic ::
  "'w platform \<Rightarrow> r4_files option \<Rightarrow> u64 \<Rightarrow> u64 \<Rightarrow> u64 \<Rightarrow> u32 \<Rightarrow> (i32, 'w) io" where
  "r4_files_replace_atomic E files target stage backup flags =
     (if files = None \<or> target = 0 \<or> stage = 0 \<or> backup = 0 \<or> replace_flags_bad E flags
      then give (p_code E ''R4SYS_FILE_REPLACE_ATOMIC_ERROR_INVALID'')
      else r4sys_file_replace_atomic_flags E (files_sys files) (path_bytes E target) (path_bytes E stage) (path_bytes E backup) flags)"

definition r4_files_directory_changes_begin :: "'w platform \<Rightarrow> r4_files option \<Rightarrow> u64 \<Rightarrow> u64 \<Rightarrow> (i32, 'w) io" where
  "r4_files_directory_changes_begin E files path cursor =
     (if table_of (files_sys files) = 0 \<or> path = 0 \<or> cursor = 0 then give (- 1)
      else ask (sys_tail E (files_sys files) ''directory_change_begin'') (\<lambda>ok.
        if \<not> ok then give (p_code E ''R4OS_ERR_NO_FN'')
        else and_then (clear_obj E cursor ''R4DirectoryChangeCursor'') (\<lambda>_.
          and_then (put_header E cursor ''R4DirectoryChangeCursor'' 1 (sizeof E ''R4DirectoryChangeCursor'')) (\<lambda>_.
          sys_call E (files_sys files) ''directory_change_begin'' [path_bytes E path, cursor]))))"

definition r4_files_directory_changes_poll :: "'w platform \<Rightarrow> r4_files option \<Rightarrow> u64 \<Rightarrow> (i32, 'w) io" where
  "r4_files_directory_changes_poll E files cursor =
     (if table_of (files_sys files) = 0 \<or> cursor = 0 then give (- 1)
      else ask (sys_tail E (files_sys files) ''directory_change_poll'') (\<lambda>ok.
        if \<not> ok then give (p_code E ''R4OS_ERR_NO_FN'')
        else sys_call E (files_sys files) ''directory_change_poll'' [cursor]))"

definition r4_files_directory_batch ::
  "'w platform \<Rightarrow> r4_files option \<Rightarrow> u64 \<Rightarrow> u64 \<Rightarrow> u64 \<Rightarrow> u32 \<Rightarrow> (i32, 'w) io" where
  "r4_files_directory_batch E files path cursor out capacity =
     (if table_of (files_sys files) = 0 \<or> path = 0 \<or> cursor = 0 then give (- 1)
      else ask (sys_tail E (files_sys files) ''directory_batch'') (\<lambda>ok.
        if \<not> ok then give (p_code E ''R4OS_ERR_NO_FN'')
        else sys_call E (files_sys files) ''directory_batch'' [path_bytes E path, cursor, out, ucast capacity]))"

end
