(* ===== verification/FileStreams.thy ===== *)
theory FileStreams
  imports Files
begin

text \<open>
  Iteration and streaming in \<open>Shared/C/include/r4os/app_storage.h\<close>: the directory iterator
  with its batch buffer and its older one-entry path, the stream reader and the stream
  writer.
\<close>

subsection \<open>The directory iterator\<close>

text \<open>
  The iterator's cursor and its buffer of four entries are written by the platform, so they
  stay in memory: \<open>di_cursor\<close> and \<open>di_buffer\<close> are their addresses inside the iterator.
\<close>

record directory_iterator =
  di_files :: r4_files
  di_directory :: u64
  di_index :: u32
  di_ended :: bool
  di_legacy :: bool
  di_cursor :: u64
  di_buffer :: u64
  di_buffer_index :: u32
  di_buffer_count :: u32

datatype directory_state = DIRECTORY_ENTRY | DIRECTORY_END | DIRECTORY_FAILED

record directory_next =
  dn_state :: directory_state
  dn_raw_code :: i32
  dn_is_directory :: bool
  dn_path :: bytes
  dn_length :: u16
  dn_absolute :: bool
  dn_info :: "bytes option"

text \<open>\<open>sizeof(result.path.bytes)\<close>\<close>

definition path_room :: "'w platform \<Rightarrow> nat" where
  "path_room E = p_len E ''R4FilePath'' ''bytes''"

definition reset_cursor :: "'w platform \<Rightarrow> u64 \<Rightarrow> (unit, 'w) io" where
  "reset_cursor E cursor =
     and_then (clear_obj E cursor ''R4DirectoryBatchCursor'') (\<lambda>_.
       put_header E cursor ''R4DirectoryBatchCursor'' 1 (sizeof E ''R4DirectoryBatchCursor''))"

definition r4_files_iterate :: "'w platform \<Rightarrow> r4_files \<Rightarrow> u64 \<Rightarrow> u64 \<Rightarrow> u64 \<Rightarrow> (directory_iterator, 'w) io" where
  "r4_files_iterate E files directory cursor buffer =
     and_then (Platform.store buffer (replicate (4 * p_size E ''R4DirectoryBatchEntry'') 0)) (\<lambda>_.
     and_then (reset_cursor E cursor) (\<lambda>_.
       give \<lparr>di_files = files, di_directory = directory, di_index = 2, di_ended = False, di_legacy = False,
         di_cursor = cursor, di_buffer = buffer, di_buffer_index = 0, di_buffer_count = 0\<rparr>))"

text \<open>
  The loop that refills the buffer: \<open>Inl\<close> is the code it leaves with. An empty batch is
  not the end; the loop sleeps and asks again until the program should close.
\<close>

partial_function (option) directory_fill ::
  "start_contract \<Rightarrow> 'w platform \<Rightarrow> directory_iterator \<Rightarrow> 'w machine \<Rightarrow> ((i32 + directory_iterator) \<times> 'w machine) option" where
  "directory_fill K E it s =
     (case r4_files_directory_batch E (Some (di_files it)) (di_directory it) (di_cursor it) (di_buffer it) 4 s of
        None \<Rightarrow> None
      | Some (raw, s) \<Rightarrow>
          if negative raw then Some (Inl raw, s)
          else if sint raw > 4 then Some (Inl (- 1), s)
          else if raw \<noteq> 0 then Some (Inr (it\<lparr>di_buffer_index := 0, di_buffer_count := raw\<rparr>), s)
          else (case r4sys_program_should_close K E (fs_system (di_files it)) s of
                  None \<Rightarrow> None
                | Some (closing, s) \<Rightarrow>
                    if closing then Some (Inl (- 10), s)
                    else (case r4sys_sleep_ticks E (fs_system (di_files it)) 0 s of
                            None \<Rightarrow> None
                          | Some (_, s) \<Rightarrow> directory_fill K E it s)))"

text \<open>The bytes before the first zero within \<open>n\<close> bytes; the inner \<open>None\<close> is a missing terminator.\<close>

fun scan_terminated :: "memory \<Rightarrow> u64 \<Rightarrow> nat \<Rightarrow> bytes option option" where
  "scan_terminated M a 0 = Some None"
| "scan_terminated M a (Suc n) =
     (case M a of
        None \<Rightarrow> None
      | Some b \<Rightarrow> if b = 0 then Some (Some []) else map_option (map_option ((#) b)) (scan_terminated M (a + 1) n))"

text \<open>What a branch hands to the common end: the code, the path bytes, the info and the iterator.\<close>

type_synonym directory_step = "i32 \<times> bytes \<times> bytes option \<times> directory_iterator"

definition directory_stop :: "'w platform \<Rightarrow> directory_iterator \<Rightarrow> i32 \<Rightarrow> directory_step" where
  "directory_stop E it raw = (raw, replicate (path_room E) 0, None, it)"

definition directory_record :: "'w platform \<Rightarrow> directory_iterator \<Rightarrow> (directory_step, 'w) io" where
  "directory_record E it s =
     (let rec = di_buffer it + word_of_nat (unat (di_buffer_index it) * p_size E ''R4DirectoryBatchEntry'') in
      case scan_terminated (m_mem s) (rec + word_of_nat (p_off E ''R4DirectoryBatchEntry'' ''path'')) (path_room E) of
        None \<Rightarrow> None
      | Some None \<Rightarrow> Some (directory_stop E it (- 1), s)
      | Some (Some bs) \<Rightarrow>
          (case load_bytes (m_mem s) (rec + word_of_nat (p_off E ''R4DirectoryBatchEntry'' ''info'')) (p_size E ''R4FileInfo'') of
             None \<Rightarrow> None
           | Some info \<Rightarrow>
               Some ((if (obj_word E ''R4FileInfo'' ''is_dir'' info :: u32) = 0 then 0 else 1,
                      bs @ replicate (path_room E - length bs) 0, Some info,
                      it\<lparr>di_buffer_index := di_buffer_index it + 1\<rparr>), s)))"

definition directory_batched :: "start_contract \<Rightarrow> 'w platform \<Rightarrow> directory_iterator \<Rightarrow> (directory_step, 'w) io" where
  "directory_batched K E it =
     and_then (if di_buffer_index it = di_buffer_count it then directory_fill K E it else give (Inr it)) (\<lambda>filled.
       case filled of
         Inl raw \<Rightarrow> give (directory_stop E it raw)
       | Inr it \<Rightarrow>
           and_then (r4sys_program_should_close K E (fs_system (di_files it))) (\<lambda>closing.
             if closing then give (directory_stop E it (- 10))
             else and_then (r4_files_directory_batch E (Some (di_files it)) (di_directory it) (di_cursor it) 0 0) (\<lambda>raw.
               if negative raw then give (directory_stop E it raw) else directory_record E it)))"

definition directory_single :: "'w platform \<Rightarrow> directory_iterator \<Rightarrow> (directory_step, 'w) io" where
  "directory_single E it =
     ask (sys_filled E (fs_system (di_files it)) ''dir_entry'') (\<lambda>ok.
       if \<not> ok then give (directory_stop E it (p_code E ''R4OS_ERR_NO_FN''))
       else and_then (Platform.store (p_local E ''path'') (replicate (path_room E) 0)) (\<lambda>_.
         and_then (sys_call E (fs_system (di_files it)) ''dir_entry''
             [path_bytes E (di_directory it), ucast (di_index it), p_local E ''path'', word_of_nat (path_room E)]) (\<lambda>raw s.
           map_option (\<lambda>bs. ((raw, bs, None, it), s)) (load_bytes (m_mem s) (p_local E ''path'') (path_room E)))))"

definition directory_complete :: "'w platform \<Rightarrow> directory_step \<Rightarrow> directory_next \<times> directory_iterator" where
  "directory_complete E d = (case d of (raw, path, info, it) \<Rightarrow>
     (let result = \<lparr>dn_state = DIRECTORY_ENTRY, dn_raw_code = raw, dn_is_directory = False, dn_path = path, dn_length = 0,
            dn_absolute = False, dn_info = info\<rparr> in
      if raw = p_code E ''R4SYS_DIR_ENTRY_RESULT_END'' then (result\<lparr>dn_state := DIRECTORY_END\<rparr>, it\<lparr>di_ended := True\<rparr>)
      else if negative raw then (result\<lparr>dn_state := DIRECTORY_FAILED\<rparr>, it)
      else (result\<lparr>dn_is_directory := (raw = 1), dn_length := word_of_nat (length (takeWhile (\<lambda>b. b \<noteq> 0) path)), dn_absolute := True\<rparr>,
            it\<lparr>di_index := di_index it + 1\<rparr>)))"

definition directory_empty :: "'w platform \<Rightarrow> directory_state \<Rightarrow> i32 \<Rightarrow> directory_next" where
  "directory_empty E state raw =
     \<lparr>dn_state = state, dn_raw_code = raw, dn_is_directory = False, dn_path = replicate (path_room E) 0, dn_length = 0,
      dn_absolute = False, dn_info = None\<rparr>"

definition r4_directory_next ::
  "start_contract \<Rightarrow> 'w platform \<Rightarrow> directory_iterator option \<Rightarrow> (directory_next \<times> directory_iterator option, 'w) io" where
  "r4_directory_next K E iterator =
     (case iterator of
        None \<Rightarrow> give (directory_empty E DIRECTORY_END 0, None)
      | Some it \<Rightarrow>
          if di_ended it then give (directory_empty E DIRECTORY_END 0, iterator)
          else if di_directory it = 0 \<or> table_of (fs_system (di_files it)) = 0
          then give (directory_empty E DIRECTORY_FAILED (p_code E ''R4OS_ERR_NO_FN''), iterator)
          else and_then (if di_legacy it \<or> di_index it < 2 then directory_single E it else directory_batched K E it) (\<lambda>d.
            give (apsnd Some (directory_complete E d))))"

definition r4_directory_revisit_after_removal ::
  "'w platform \<Rightarrow> directory_iterator option \<Rightarrow> (directory_iterator option, 'w) io" where
  "r4_directory_revisit_after_removal E iterator =
     (case iterator of
        None \<Rightarrow> give None
      | Some it \<Rightarrow>
          and_then (reset_cursor E (di_cursor it)) (\<lambda>_.
            give (Some (it\<lparr>di_legacy := True, di_buffer_index := 0, di_buffer_count := 0,
              di_index := (if di_index it > 2 then di_index it - 1 else di_index it), di_ended := False\<rparr>))))"

subsection \<open>The stream reader\<close>

record stream_reader =
  sr_files :: r4_files
  sr_path :: u64
  sr_offset :: u64
  sr_ended :: bool

definition r4_files_stream_reader :: "r4_files \<Rightarrow> u64 \<Rightarrow> stream_reader" where
  "r4_files_stream_reader files path = \<lparr>sr_files = files, sr_path = path, sr_offset = 0, sr_ended = False\<rparr>"

definition reader_advance :: "stream_reader \<Rightarrow> transfer \<Rightarrow> stream_reader" where
  "reader_advance r result =
     (case tr_state result of
        TRANSFER_BYTES \<Rightarrow> r\<lparr>sr_offset := sr_offset r + ucast (tr_bytes result)\<rparr>
      | TRANSFER_END \<Rightarrow> r\<lparr>sr_ended := True\<rparr>
      | TRANSFER_FAILED \<Rightarrow> r)"

definition r4_stream_reader_read ::
  "'w platform \<Rightarrow> stream_reader option \<Rightarrow> u64 \<Rightarrow> u32 \<Rightarrow> (transfer \<times> stream_reader option, 'w) io" where
  "r4_stream_reader_read E reader out capacity =
     (case reader of
        None \<Rightarrow> give (\<lparr>tr_state = TRANSFER_END, tr_raw_code = 0, tr_bytes = 0\<rparr>, None)
      | Some r \<Rightarrow>
          if sr_ended r then give (\<lparr>tr_state = TRANSFER_END, tr_raw_code = 0, tr_bytes = 0\<rparr>, reader)
          else if sr_offset r > 0xFFFFFFFF
          then give (r4_transfer_raw (p_code E ''R4OS_FILE_STREAM_ERROR_TOO_LARGE''), reader)
          else and_then (r4_files_read_at E (Some (sr_files r)) (sr_path r) (ucast (sr_offset r)) out capacity) (\<lambda>result.
            give (result, Some (reader_advance r result))))"

subsection \<open>The stream writer\<close>

record stream_writer =
  sw_files :: r4_files
  sw_path :: u64
  sw_offset :: u64
  sw_raw_code :: i32
  sw_active :: bool

definition r4_files_stream_writer ::
  "'w platform \<Rightarrow> r4_files \<Rightarrow> u64 \<Rightarrow> u32 \<Rightarrow> stream_writer option \<Rightarrow> (operation \<times> stream_writer option, 'w) io" where
  "r4_files_stream_writer E files path flags out_writer =
     ask (q_and (sure (out_writer \<noteq> None \<and> path \<noteq> 0)) (sys_base E (fs_system files) ''file_stream_begin'')) (\<lambda>ok.
       if \<not> ok then give (no_fn_operation E, out_writer)
       else and_then (sys_call E (fs_system files) ''file_stream_begin'' [path_bytes E path, ucast flags]) (\<lambda>raw.
         give (r4_operation_status raw,
           Some \<lparr>sw_files = files, sw_path = path, sw_offset = 0, sw_raw_code = raw,
             sw_active = (raw = p_code E ''R4OS_FILE_STREAM_RESULT_OK'')\<rparr>)))"

text \<open>
  An active writer's slot is read without a test of its table: a writer that never came
  from \<open>r4_files_stream_writer\<close> would read through a null pointer.
\<close>

definition writer_slot :: "'w platform \<Rightarrow> stream_writer \<Rightarrow> string \<Rightarrow> query" where
  "writer_slot E w slot M =
     (if table_of (fs_system (sw_files w)) = 0 then None else sys_filled E (fs_system (sw_files w)) slot M)"

definition writer_wrote :: "'w platform \<Rightarrow> stream_writer \<Rightarrow> u32 \<Rightarrow> i32 \<Rightarrow> operation \<times> stream_writer" where
  "writer_wrote E w len raw =
     (if negative raw \<or> raw \<noteq> len
      then (r4_operation_status (if negative raw then raw else p_code E ''R4OS_FILE_STREAM_ERROR_IO''),
            w\<lparr>sw_raw_code := raw, sw_active := False\<rparr>)
      else (r4_operation_status (p_code E ''R4OS_FILE_STREAM_RESULT_OK''),
            w\<lparr>sw_raw_code := raw, sw_offset := sw_offset w + ucast len\<rparr>))"

definition r4_stream_writer_write ::
  "'w platform \<Rightarrow> stream_writer option \<Rightarrow> u64 \<Rightarrow> u32 \<Rightarrow> (operation \<times> stream_writer option, 'w) io" where
  "r4_stream_writer_write E writer data len =
     (case writer of
        None \<Rightarrow> give (no_fn_operation E, None)
      | Some w \<Rightarrow>
          ask (q_and (sure (sw_active w)) (writer_slot E w ''file_stream_write'')) (\<lambda>ok.
            if \<not> ok then give (no_fn_operation E, writer)
            else and_then (sys_call E (fs_system (sw_files w)) ''file_stream_write''
                [path_bytes E (sw_path w), sw_offset w, data, ucast len, 0]) (\<lambda>raw.
              give (apsnd Some (writer_wrote E w len raw)))))"

definition r4_stream_writer_finish_flags ::
  "'w platform \<Rightarrow> stream_writer option \<Rightarrow> u32 \<Rightarrow> (operation \<times> stream_writer option, 'w) io" where
  "r4_stream_writer_finish_flags E writer flags =
     (case writer of
        None \<Rightarrow> give (no_fn_operation E, None)
      | Some w \<Rightarrow>
          ask (q_and (sure (sw_active w)) (writer_slot E w ''file_stream_finish'')) (\<lambda>ok.
            if \<not> ok then give (no_fn_operation E, writer)
            else and_then (sys_call E (fs_system (sw_files w)) ''file_stream_finish''
                [path_bytes E (sw_path w), sw_offset w, ucast flags]) (\<lambda>raw.
              give (r4_operation_status raw, Some (w\<lparr>sw_raw_code := raw, sw_active := False\<rparr>)))))"

definition r4_stream_writer_finish :: "'w platform \<Rightarrow> stream_writer option \<Rightarrow> (operation \<times> stream_writer option, 'w) io" where
  "r4_stream_writer_finish E writer = r4_stream_writer_finish_flags E writer 0"

definition r4_stream_writer_abort :: "'w platform \<Rightarrow> stream_writer option \<Rightarrow> (operation \<times> stream_writer option, 'w) io" where
  "r4_stream_writer_abort E writer =
     (case writer of
        None \<Rightarrow> give (no_fn_operation E, None)
      | Some w \<Rightarrow>
          ask (sys_base E (fs_system (sw_files w)) ''file_stream_abort'') (\<lambda>ok.
            if \<not> ok then give (no_fn_operation E, writer)
            else and_then (sys_call E (fs_system (sw_files w)) ''file_stream_abort'' [path_bytes E (sw_path w)]) (\<lambda>raw.
              give (r4_operation_status raw, Some (w\<lparr>sw_raw_code := raw, sw_active := False\<rparr>)))))"

subsection \<open>The protocols of reader and writer\<close>

text \<open>
  A reader is live until it has met the end, a writer while it is active. Aborting is not a
  step: it calls the platform whether or not the writer is active.
\<close>

inductive reader_step :: "'w platform \<Rightarrow> stream_reader \<times> 'w machine \<Rightarrow> stream_reader \<times> 'w machine \<Rightarrow> bool" for E where
  advance: "r4_stream_reader_read E (Some r) out capacity s = Some ((result, Some r'), s') \<Longrightarrow> reader_step E (r, s) (r', s')"

inductive writer_step :: "'w platform \<Rightarrow> stream_writer \<times> 'w machine \<Rightarrow> stream_writer \<times> 'w machine \<Rightarrow> bool" for E where
  block: "r4_stream_writer_write E (Some w) data len s = Some ((result, Some w'), s') \<Longrightarrow> writer_step E (w, s) (w', s')"
| close: "r4_stream_writer_finish_flags E (Some w) flags s = Some ((result, Some w'), s') \<Longrightarrow> writer_step E (w, s) (w', s')"

inductive_cases reader_stepE: "reader_step E (r, s) (r', s')"
inductive_cases writer_stepE: "writer_step E (w, s) (w', s')"

lemma reader_advance_simps [simp]:
  "sr_files (reader_advance r x) = sr_files r" "sr_path (reader_advance r x) = sr_path r"
  by (simp_all add: reader_advance_def split: transfer_state.splits)

lemma writer_wrote_simps [simp]:
  "sw_files (snd (writer_wrote E w n raw)) = sw_files w" "sw_path (snd (writer_wrote E w n raw)) = sw_path w"
  by (simp_all add: writer_wrote_def)

lemma reader_step_kept:
  assumes "reader_step E (r, s) (r', s')"
  shows "sr_ended r \<Longrightarrow> r' = r \<and> s' = s" and "(sr_files r', sr_path r') = (sr_files r, sr_path r)"
  using assms by (auto elim!: reader_stepE simp: r4_stream_reader_read_def and_then_def give_def split: if_splits option.splits)

lemma writer_step_kept:
  assumes "writer_step E (w, s) (w', s')"
  shows "\<not> sw_active w \<Longrightarrow> w' = w \<and> s' = s" and "(sw_files w', sw_path w') = (sw_files w, sw_path w)"
  using assms
  by (auto elim!: writer_stepE simp: r4_stream_writer_write_def r4_stream_writer_finish_flags_def and_then_def ask_def
      q_and_def sure_def give_def apsnd_def map_prod_def split: if_splits option.splits prod.splits)
    (metis writer_wrote_simps snd_conv)+

interpretation reader: handle_protocol "\<lambda>r. \<not> sr_ended r" "\<lambda>r. (sr_files r, sr_path r)" "reader_step E" for E
  by unfold_locales (use reader_step_kept in blast)+

interpretation writer: handle_protocol sw_active "\<lambda>w. (sw_files w, sw_path w)" "writer_step E" for E
  by unfold_locales (use writer_step_kept in blast)+

subsection \<open>A run of writes\<close>

fun stream_writes :: "'w platform \<Rightarrow> stream_writer option \<Rightarrow> (u64 \<times> u32) list \<Rightarrow> (operation list \<times> stream_writer option, 'w) io" where
  "stream_writes E writer [] = give ([], writer)"
| "stream_writes E writer ((data, len) # blocks) =
     and_then (r4_stream_writer_write E writer data len) (\<lambda>(result, writer).
     and_then (stream_writes E writer blocks) (\<lambda>(results, writer). give (result # results, writer)))"

text \<open>Where each block belongs in the file: at the sum of the lengths before it.\<close>

fun stream_places :: "u64 \<Rightarrow> (u64 \<times> u32) list \<Rightarrow> (u64 \<times> u64 \<times> u32) list" where
  "stream_places off [] = []"
| "stream_places off ((data, len) # blocks) = (off, data, len) # stream_places (off + ucast len) blocks"

definition stream_call :: "'w platform \<Rightarrow> bytes \<Rightarrow> u64 \<Rightarrow> u64 \<times> u64 \<times> u32 \<Rightarrow> u64 \<times> u64 list" where
  "stream_call E V path = (\<lambda>(off, data, len).
     (slot_word V (p_off E ''R4Sys'' ''file_stream_write''), [path_bytes E path, off, data, ucast len, 0]))"

lemma inactive_writes:
  "\<not> sw_active w \<Longrightarrow> stream_writes E (Some w) blocks s = Some ((map (\<lambda>_. no_fn_operation E) blocks, Some w), s)"
  by (induction blocks) (auto simp: give_def and_then_def r4_stream_writer_write_def ask_def q_and_def sure_def)

lemma active_write:
  assumes steady: "steady (table_of (fs_system (sw_files w))) V outs (m_mem s)"
    and keeps: "keeps_steady E (table_of (fs_system (sw_files w))) V outs"
    and opens: "opens E ''R4Sys'' (table_of (fs_system (sw_files w))) V ''file_stream_write''" and active: "sw_active w"
  shows "\<exists>raw M w' s'. (\<lambda>(f, args). p_run E f args (m_mem s) (m_os s)) (stream_call E V (sw_path w) (sw_offset w, data, len)) = (raw, M, w') \<and>
    m_mem s' = M \<and> m_os s' = w' \<and> r4_stream_writer_write E (Some w) data len s =
      Some ((fst (writer_wrote E w len (ucast raw)), Some (snd (writer_wrote E w len (ucast raw)))), s') \<and>
    m_calls s' = m_calls s @ [stream_call E V (sw_path w) (sw_offset w, data, len)] \<and>
    steady (table_of (fs_system (sw_files w))) V outs (m_mem s')"
proof -
  let ?args = "[path_bytes E (sw_path w), sw_offset w, data, ucast len, 0]"
  obtain r M w' where run: "p_run E (slot_word V (p_off E ''R4Sys'' ''file_stream_write'')) ?args (m_mem s) (m_os s) = (r, M, w')"
    by (metis prod_cases3)
  have call: "(sys_call E (fs_system (sw_files w)) ''file_stream_write'' ?args :: (i32, 'a) io) s =
      Some (ucast r, \<lparr>m_mem = M, m_calls = m_calls s @ [(slot_word V (p_off E ''R4Sys'' ''file_stream_write''), ?args)], m_os = w'\<rparr>)"
    using call_slot_open [OF steady opens, of ?args] run by simp
  have "has_base E ''R4Sys'' (table_of (fs_system (sw_files w))) ''file_stream_write'' (m_mem s) = Some True"
    by (rule has_base_open [OF steady opens])
  then have "writer_slot E w ''file_stream_write'' (m_mem s) = Some True"
    by (auto simp: writer_slot_def has_base_def q_and_def sure_def split: if_splits)
  then show ?thesis
    using call run keeps_steadyD [OF keeps steady run] active
    by (auto simp: r4_stream_writer_write_def ask_def q_and_def sure_def and_then_def give_def stream_call_def
        apsnd_def map_prod_def split_beta)
qed

text \<open>
  What the platform answers, call after call, to the given calls; a block is written in full when the
  answer to its call is its length.
\<close>

fun replies :: "'w platform \<Rightarrow> (u64 \<times> u64 list) list \<Rightarrow> memory \<Rightarrow> 'w \<Rightarrow> i32 list" where
  "replies E [] M os = []"
| "replies E ((f, args) # calls) M os = (case p_run E f args M os of (raw, M', os') \<Rightarrow> ucast raw # replies E calls M' os')"

definition written_in_full :: "i32 \<Rightarrow> u64 \<times> u32 \<Rightarrow> bool" where
  "written_in_full raw block \<longleftrightarrow> 0 \<le> sint raw \<and> sint raw = uint (snd block)"

fun full_blocks :: "i32 list \<Rightarrow> (u64 \<times> u32) list \<Rightarrow> nat" where
  "full_blocks (raw # raws) (block # blocks) = (if written_in_full raw block then Suc (full_blocks raws blocks) else 0)"
| "full_blocks _ _ = 0"

lemma sint_nonneg: "0 \<le> sint (raw :: i32) \<Longrightarrow> sint raw = uint raw"
proof -
  have "sint raw = uint raw - 2 ^ 32 * of_bool (bit (uint raw) 31)"
    using signed_take_bit_eq_take_bit_minus [of 31 "uint raw"] take_bit_int_eq_self [OF uint_ge_0 uint_lt2p, of raw]
    by (simp add: sint_uint)
  moreover have "uint raw < 2 ^ 32" using uint_lt2p [of raw] by simp
  ultimately show "0 \<le> sint raw \<Longrightarrow> sint raw = uint raw" by (cases "bit (uint raw) 31") auto
qed

lemma written_in_full_iff: "written_in_full raw (data, len) \<longleftrightarrow> \<not> (negative raw \<or> raw \<noteq> len)"
  using sint_nonneg [of raw] by (cases "0 \<le> sint raw") (auto simp: written_in_full_def word_uint_eq_iff)

definition run_outcome ::
  "'w platform \<Rightarrow> stream_writer \<Rightarrow> (u64 \<times> u32) list \<Rightarrow> nat \<Rightarrow> operation list \<Rightarrow> stream_writer \<Rightarrow> bool" where
  "run_outcome E w blocks k results w' \<longleftrightarrow> length results = length blocks \<and> k \<le> length blocks \<and>
     (\<forall>i < k. op_state (results ! i) = OPERATION_OK) \<and>
     (k < length blocks \<longrightarrow> op_state (results ! k) = OPERATION_FAILED) \<and>
     (\<forall>i. k < i \<longrightarrow> i < length blocks \<longrightarrow> results ! i = no_fn_operation E) \<and>
     (sw_active w' \<longleftrightarrow> k = length blocks) \<and>
     sw_offset w' = sw_offset w + sum_list (map (\<lambda>(_, len). ucast len) (take k blocks))"

lemma run_outcome_stop:
  "\<not> sw_active w' \<Longrightarrow> sw_offset w' = sw_offset w \<Longrightarrow> op_state r = OPERATION_FAILED \<Longrightarrow>
    run_outcome E w (b # blocks) 0 (r # map (\<lambda>_. no_fn_operation E) blocks) w'"
  by (auto simp: run_outcome_def nth_Cons')

lemma run_outcome_go:
  assumes "run_outcome E w1 blocks k results w'" and "op_state r = OPERATION_OK" and "sw_offset w1 = sw_offset w + ucast (snd b)"
  shows "run_outcome E w (b # blocks) (Suc k) (r # results) w'"
  using assms by (auto simp: run_outcome_def nth_Cons' add.assoc split_beta less_Suc_eq_0_disj)

lemma stream_writes_run:
  fixes w :: stream_writer
  assumes "keeps_steady E (table_of (fs_system (sw_files w))) V outs"
    and "opens E ''R4Sys'' (table_of (fs_system (sw_files w))) V ''file_stream_write''"
    and "\<not> negative (p_code E ''R4OS_FILE_STREAM_RESULT_OK'')" and "negative (p_code E ''R4OS_FILE_STREAM_ERROR_IO'')"
    and "steady (table_of (fs_system (sw_files w))) V outs (m_mem s)" and "sw_active w"
  shows "\<exists>results w' s'. stream_writes E (Some w) blocks s = Some ((results, Some w'), s') \<and>
    (let calls = map (stream_call E V (sw_path w)) (stream_places (sw_offset w) blocks);
         k = full_blocks (replies E calls (m_mem s) (m_os s)) blocks
     in m_calls s' = m_calls s @ take (Suc k) calls \<and> run_outcome E w blocks k results w')"
  using assms
proof (induction blocks arbitrary: w s)
  case Nil
  then show ?case by (auto simp: give_def run_outcome_def)
next
  case (Cons block blocks)
  obtain data len where b: "block = (data, len)" by (cases block)
  from active_write [OF Cons.prems(5,1,2,6), of data len] obtain r M w1' s1 where
    reply: "(\<lambda>(f, args). p_run E f args (m_mem s) (m_os s)) (stream_call E V (sw_path w) (sw_offset w, data, len)) = (r, M, w1')"
      "m_mem s1 = M" "m_os s1 = w1'" and
    one: "r4_stream_writer_write E (Some w) data len s = Some ((fst (writer_wrote E w len (ucast r)), Some (snd (writer_wrote E w len (ucast r)))), s1)"
      "m_calls s1 = m_calls s @ [stream_call E V (sw_path w) (sw_offset w, data, len)]"
      "steady (table_of (fs_system (sw_files w))) V outs (m_mem s1)" by blast
  let ?raw = "ucast r :: i32" let ?w1 = "snd (writer_wrote E w len ?raw)" and ?r = "fst (writer_wrote E w len ?raw)"
  let ?calls = "map (stream_call E V (sw_path w)) (stream_places (sw_offset w + ucast len) blocks)"
  have rest: "stream_writes E (Some w) (block # blocks) s = Some ((?r # results, w'), s')"
    if "stream_writes E (Some ?w1) blocks s1 = Some ((results, w'), s')" for results w' s'
    using that one(1) by (simp add: b and_then_def give_def)
  have raws: "replies E (map (stream_call E V (sw_path w)) (stream_places (sw_offset w) (block # blocks))) (m_mem s) (m_os s) =
      ?raw # replies E ?calls (m_mem s1) (m_os s1)"
    using reply by (simp add: b stream_call_def)
  show ?case
  proof (cases "written_in_full ?raw block")
    case False
    then have stop: "negative ?raw \<or> ?raw \<noteq> len" by (simp add: b written_in_full_iff)
    then have w1: "\<not> sw_active ?w1" "sw_offset ?w1 = sw_offset w" "op_state ?r = OPERATION_FAILED"
      using Cons.prems(4) by (auto simp: writer_wrote_def r4_operation_status_def)
    from rest [OF inactive_writes [OF w1(1)]] run_outcome_stop [OF w1] one(2) show ?thesis
      unfolding Let_def raws using False by (auto simp: b)
  next
    case True
    then have go: "\<not> (negative ?raw \<or> ?raw \<noteq> len)" unfolding b written_in_full_iff .
    then have w1: "sw_active ?w1" "op_state ?r = OPERATION_OK" "sw_offset ?w1 = sw_offset w + ucast len"
      using Cons.prems(3,6) unfolding writer_wrote_def if_not_P [OF go] by (simp_all add: r4_operation_status_def)
    let ?k = "full_blocks (replies E ?calls (m_mem s1) (m_os s1)) blocks"
    have same: "sw_files ?w1 = sw_files w" "sw_path ?w1 = sw_path w" by simp_all
    from Cons.IH [of ?w1 s1, unfolded same, OF Cons.prems(1-4) one(3) w1(1)] obtain results w' s' where
      ih: "stream_writes E (Some ?w1) blocks s1 = Some ((results, Some w'), s')" "m_calls s' = m_calls s1 @ take (Suc ?k) ?calls"
        "run_outcome E ?w1 blocks ?k results w'" unfolding w1(3) Let_def by blast
    have "run_outcome E w (block # blocks) (Suc ?k) (?r # results) w'"
      by (rule run_outcome_go [OF ih(3) w1(2)]) (simp add: b w1(3))
    then show ?thesis using rest [OF ih(1)] ih(2) one(2) True unfolding Let_def raws by (simp add: b)
  qed
qed

text \<open>
  C20: A run of stream writes always returns. The platform is called exactly for a prefix of
  the blocks, in order, each at the sum of the lengths before it: the blocks it answered with their
  own length, which are reported as done, and the first it did not, which is reported as failed;
  every later block is refused without a call. The writer stays active iff the platform wrote every
  block in full, and its offset has grown by exactly the lengths of the blocks written in full.\<close>

theorem stream_writes_contiguous:
  fixes w :: stream_writer
  assumes "keeps_steady E (table_of (fs_system (sw_files w))) V outs"
    and "opens E ''R4Sys'' (table_of (fs_system (sw_files w))) V ''file_stream_write''"
    and "\<not> negative (p_code E ''R4OS_FILE_STREAM_RESULT_OK'')" and "negative (p_code E ''R4OS_FILE_STREAM_ERROR_IO'')"
    and "steady (table_of (fs_system (sw_files w))) V outs (m_mem s)" and "sw_active w"
  shows "\<exists>results w' s'. stream_writes E (Some w) blocks s = Some ((results, Some w'), s') \<and>
    (let calls = map (stream_call E V (sw_path w)) (stream_places (sw_offset w) blocks);
         k = full_blocks (replies E calls (m_mem s) (m_os s)) blocks
     in m_calls s' = m_calls s @ take (Suc k) calls \<and> length results = length blocks \<and>
       (\<forall>i < k. op_state (results ! i) = OPERATION_OK) \<and>
       (k < length blocks \<longrightarrow> op_state (results ! k) = OPERATION_FAILED) \<and>
       (\<forall>i. k < i \<longrightarrow> i < length blocks \<longrightarrow> results ! i = no_fn_operation E) \<and>
       (sw_active w' \<longleftrightarrow> k = length blocks) \<and>
       sw_offset w' = sw_offset w + sum_list (map (\<lambda>(_, len). ucast len) (take k blocks)))"
  using stream_writes_run [OF assms, of blocks] unfolding Let_def run_outcome_def by blast

definition sample_writer :: stream_writer where
  "sample_writer = \<lparr>sw_files = \<lparr>fs_system = sample_handle_sys\<rparr>, sw_path = 0x6000, sw_offset = 5, sw_raw_code = 0, sw_active = True\<rparr>"

definition sample_stream_platform :: "unit platform" where
  "sample_stream_platform = sample_platform\<lparr>p_code := (\<lambda>c. if c = ''R4OS_FILE_STREAM_ERROR_IO'' then - 5 else 0)\<rparr>"

text \<open>Three blocks of 0, 3 and 1 bytes from offset 5 on: the platform answers 0, so the second is a short write.\<close>

theorem stream_writes_contiguous_witness:
  "\<exists>results w' s'. stream_writes sample_stream_platform (Some sample_writer) [(0x5000, 0), (0x5000, 3), (0x5000, 1)] sample_state =
      Some ((results, Some w'), s') \<and> \<not> sw_active w' \<and> sw_offset w' = 5 \<and> map op_state (take 2 results) = [OPERATION_OK, OPERATION_FAILED] \<and>
    results ! 2 = no_fn_operation sample_stream_platform \<and>
    m_calls s' = map (stream_call sample_stream_platform sample_table 0x6000) [(5, 0x5000, 0), (5, 0x5000, 3)]"
proof -
  let ?E = sample_stream_platform and ?w = sample_writer and ?bl = "[(0x5000, 0), (0x5000, 3), (0x5000, 1)] :: (u64 \<times> u32) list"
  let ?calls = "map (stream_call ?E sample_table 0x6000) [(5, 0x5000, 0), (5, 0x5000, 3), (8, 0x5000, 1)]"
  have t: "table_of (fs_system (sw_files ?w)) = 0x1000" by (simp add: sample_writer_def sample_handle_sys_def table_of_def)
  have keeps: "keeps_steady ?E 0x1000 sample_table []" by (simp add: keeps_steady_def sample_stream_platform_def sample_platform_def)
  have op: "opens ?E ''R4Sys'' 0x1000 sample_table ''file_stream_write''"
    using sample_opens [of "''R4Sys''" "''file_stream_write''"] by (simp add: opens_def sample_stream_platform_def)
  have st: "steady 0x1000 sample_table [] (m_mem sample_state)" using sample_steady by (simp add: sample_state_def)
  have codes: "\<not> negative (p_code ?E ''R4OS_FILE_STREAM_RESULT_OK'')" "negative (p_code ?E ''R4OS_FILE_STREAM_ERROR_IO'')"
    by (simp_all add: sample_stream_platform_def sample_platform_def)
  have act: "sw_active ?w" by (simp add: sample_writer_def)
  have places: "map (stream_call ?E sample_table (sw_path ?w)) (stream_places (sw_offset ?w) ?bl) = ?calls" "m_calls sample_state = []" "sw_offset ?w = 5"
    by (simp_all add: sample_writer_def sample_state_def)
  have "replies ?E cs M os = map (\<lambda>_. 0) cs" for cs M os
    by (induction cs arbitrary: M os) (auto simp: sample_stream_platform_def sample_platform_def)
  then have one: "full_blocks (replies ?E ?calls (m_mem sample_state) (m_os sample_state)) ?bl = 1"
    by (simp add: written_in_full_def)
  obtain results w' s' where run: "stream_writes ?E (Some ?w) ?bl sample_state = Some ((results, Some w'), s')" and
    calls: "m_calls s' = take 2 ?calls" and len: "length results = 3" and ok: "op_state (results ! 0) = OPERATION_OK" and
    stop: "op_state (results ! 1) = OPERATION_FAILED" and refused: "results ! 2 = no_fn_operation ?E" and w': "\<not> sw_active w'" "sw_offset w' = 5"
    using stream_writes_contiguous [of ?E ?w sample_table "[]" sample_state ?bl, unfolded t, OF keeps op codes st act]
    unfolding places(1) Let_def one by (auto simp: places(2,3) numeral_2_eq_2)
  have "map op_state (take 2 results) = [OPERATION_OK, OPERATION_FAILED]"
    using len ok stop by (cases results; cases "tl results") (auto simp: numeral_2_eq_2)
  then show ?thesis using run calls refused w' by auto
qed

end
