(* ===== verification/RegistryFacade.thy ===== *)
theory RegistryFacade
  imports Files RegistryBatch
begin

text \<open>
  The registry operations of \<open>Shared/C/include/r4os/app_storage.h\<close> that reach the platform:
  single values, snapshots and the application of a batch. Keys, names and buffers are
  addresses; a key's first member is the byte array the platform receives.
\<close>

abbreviation registry_sys :: "r4_registry option \<Rightarrow> r4_sys option" where
  "registry_sys registry \<equiv> Option.bind registry rg_system"

definition key_bytes :: "'w platform \<Rightarrow> u64 \<Rightarrow> u64" where
  "key_bytes E key = key + word_of_nat (p_off E ''R4RegistryPath'' ''bytes'')"

definition r4_registry_available :: "'w platform \<Rightarrow> r4_registry option \<Rightarrow> query" where
  "r4_registry_available E registry =
     q_and (sys_base E (registry_sys registry) ''registry_get_value'') (sys_filled E (registry_sys registry) ''registry_set_value'')"

definition r4_registry_snapshot_available :: "'w platform \<Rightarrow> r4_registry option \<Rightarrow> query" where
  "r4_registry_snapshot_available E registry =
     q_and (sure (registry \<noteq> None)) (r4sys_supports_registry_snapshot E (registry_sys registry))"

definition r4_registry_snapshot_begin :: "'w platform \<Rightarrow> r4_registry option \<Rightarrow> u64 \<Rightarrow> u32 \<Rightarrow> u64 \<Rightarrow> (i32, 'w) io" where
  "r4_registry_snapshot_begin E registry key kind cursor =
     (if registry = None \<or> key = 0 \<or> cursor = 0 then give (p_code E ''R4OS_REGISTRY_API_RESULT_INVALID'')
      else r4sys_registry_snapshot_begin E (registry_sys registry) (key_bytes E key) kind cursor)"

definition r4_registry_snapshot_page ::
  "'w platform \<Rightarrow> r4_registry option \<Rightarrow> u64 \<Rightarrow> u64 \<Rightarrow> u32 \<Rightarrow> u64 \<Rightarrow> u32 \<Rightarrow> u64 \<Rightarrow> (i32, 'w) io" where
  "r4_registry_snapshot_page E registry cursor entries entry_capacity data data_capacity out_page =
     (if registry = None then give (p_code E ''R4OS_REGISTRY_API_RESULT_INVALID'')
      else r4sys_registry_snapshot_page E (registry_sys registry) cursor entries entry_capacity data data_capacity out_page)"

subsection \<open>Applying a batch\<close>

text \<open>What \<open>r4_registry_batch_apply\<close> reads of a builder: its arrays by address, and their lengths.\<close>

record batch_arrays =
  ba_operations :: u64
  ba_operation_count :: u32
  ba_blob :: u64
  ba_blob_len :: u32

record batch_apply =
  bp_raw_code :: i32
  bp_result :: bytes

definition r4_registry_batch_available :: "'w platform \<Rightarrow> r4_registry option \<Rightarrow> query" where
  "r4_registry_batch_available E registry =
     q_and (sure (registry \<noteq> None)) (r4sys_supports_registry_batch E (registry_sys registry))"

definition r4_registry_batch_apply :: "'w platform \<Rightarrow> r4_registry option \<Rightarrow> batch_arrays option \<Rightarrow> (batch_apply, 'w) io" where
  "r4_registry_batch_apply E registry builder =
     (let result = p_local E ''result'' in
      and_then (clear_obj E result ''R4RegistryBatchResult'') (\<lambda>_.
      and_then (put_header E result ''R4RegistryBatchResult'' (ucast (p_code E ''R4OS_REGISTRY_BATCH_VERSION''))
          (sizeof E ''R4RegistryBatchResult'')) (\<lambda>_.
      and_then (case (registry, builder) of
          (Some _, Some b) \<Rightarrow>
            r4sys_registry_batch_mutate E (registry_sys registry) (ba_operations b) (ba_operation_count b) (ba_blob b) (ba_blob_len b) result
        | _ \<Rightarrow> give (p_code E ''R4OS_REGISTRY_API_RESULT_INVALID'')) (\<lambda>raw.
      and_then (load_obj E result ''R4RegistryBatchResult'') (\<lambda>v. give \<lparr>bp_raw_code = raw, bp_result = v\<rparr>)))))"

definition r4_registry_batch_committed :: "'w platform \<Rightarrow> batch_apply option \<Rightarrow> bool" where
  "r4_registry_batch_committed E applied =
     (case applied of
        None \<Rightarrow> False
      | Some a \<Rightarrow> bp_raw_code a = p_code E ''R4OS_REGISTRY_API_RESULT_OK'' \<and>
          (obj_word E ''R4RegistryBatchResult'' ''status'' (bp_result a) :: u32) = p_code E ''R4OS_REGISTRY_BATCH_STATUS_COMMITTED'')"

subsection \<open>Single values\<close>

datatype registry_read_state = REGISTRY_VALUE | REGISTRY_MISSING | REGISTRY_FAILED

record registry_read =
  rr_state :: registry_read_state
  rr_raw_code :: i32
  rr_info :: bytes
  rr_bytes :: u64
  rr_length :: u32

definition registry_missing :: "'w platform \<Rightarrow> i32 \<Rightarrow> bool" where
  "registry_missing E raw \<longleftrightarrow> raw = p_code E ''R4OS_REGISTRY_API_RESULT_VALUE_NOT_FOUND'' \<or> raw = p_code E ''R4OS_REGISTRY_API_RESULT_KEY_NOT_FOUND''"

definition registry_classify :: "'w platform \<Rightarrow> i32 \<Rightarrow> bytes \<Rightarrow> u64 \<Rightarrow> u32 \<Rightarrow> registry_read" where
  "registry_classify E raw info out capacity =
     (let result = \<lparr>rr_state = REGISTRY_FAILED, rr_raw_code = raw, rr_info = info, rr_bytes = 0, rr_length = 0\<rparr> in
      if registry_missing E raw then result\<lparr>rr_state := REGISTRY_MISSING\<rparr>
      else if negative raw then result
      else if raw > capacity then result\<lparr>rr_raw_code := p_code E ''R4OS_REGISTRY_API_RESULT_BUFFER_TOO_SMALL''\<rparr>
      else result\<lparr>rr_state := REGISTRY_VALUE, rr_bytes := out, rr_length := raw\<rparr>)"

definition r4_registry_get ::
  "'w platform \<Rightarrow> r4_registry option \<Rightarrow> u64 \<Rightarrow> u64 \<Rightarrow> u64 \<Rightarrow> u32 \<Rightarrow> (registry_read, 'w) io" where
  "r4_registry_get E registry key name out capacity =
     ask (q_and (sure (key \<noteq> 0 \<and> name \<noteq> 0)) (sys_base E (registry_sys registry) ''registry_get_value'')) (\<lambda>ok.
       if \<not> ok then give \<lparr>rr_state = REGISTRY_FAILED, rr_raw_code = p_code E ''R4OS_ERR_NO_FN'',
         rr_info = zero_obj E ''R4RegistryValueInfo'', rr_bytes = 0, rr_length = 0\<rparr>
       else and_then (clear_obj E (p_local E ''info'') ''R4RegistryValueInfo'') (\<lambda>_.
         and_then (sys_call E (registry_sys registry) ''registry_get_value'' [key_bytes E key, name, p_local E ''info'', out, ucast capacity]) (\<lambda>raw.
         and_then (load_obj E (p_local E ''info'') ''R4RegistryValueInfo'') (\<lambda>info.
           give (registry_classify E raw info out capacity)))))"

definition r4_registry_set ::
  "'w platform \<Rightarrow> r4_registry option \<Rightarrow> u64 \<Rightarrow> u64 \<Rightarrow> u16 \<Rightarrow> u64 \<Rightarrow> u32 \<Rightarrow> (operation, 'w) io" where
  "r4_registry_set E registry key name type data len =
     ask (q_and (sure (key \<noteq> 0 \<and> name \<noteq> 0)) (sys_base E (registry_sys registry) ''registry_set_value'')) (\<lambda>ok.
       if \<not> ok then give (no_fn_operation E)
       else and_then (sys_call E (registry_sys registry) ''registry_set_value'' [key_bytes E key, name, ucast type, data, ucast len]) (\<lambda>raw.
         give (r4_operation_status raw)))"

text \<open>The typed setters lay the value out in a local array.\<close>

definition registry_set_local ::
  "'w platform \<Rightarrow> r4_registry option \<Rightarrow> u64 \<Rightarrow> u64 \<Rightarrow> string \<Rightarrow> bytes \<Rightarrow> (operation, 'w) io" where
  "registry_set_local E registry key name type data =
     and_then (Platform.store (p_local E ''bytes'') data) (\<lambda>_.
       r4_registry_set E registry key name (ucast (p_code E type)) (p_local E ''bytes'') (word_of_nat (length data)))"

definition r4_registry_set_u32 :: "'w platform \<Rightarrow> r4_registry option \<Rightarrow> u64 \<Rightarrow> u64 \<Rightarrow> u32 \<Rightarrow> (operation, 'w) io" where
  "r4_registry_set_u32 E registry key name v = registry_set_local E registry key name ''R4OS_REGISTRY_VALUE_TYPE_U32'' (u32_bytes v)"

definition r4_registry_set_string :: "'w platform \<Rightarrow> r4_registry option \<Rightarrow> u64 \<Rightarrow> u64 \<Rightarrow> u64 \<Rightarrow> (operation, 'w) io" where
  "r4_registry_set_string E registry key name v s =
     (if v = 0 then give (r4_operation_status (p_code E ''R4OS_REGISTRY_API_RESULT_INVALID'')) s
      else case r4os_cstr_len (m_mem s) v of
        None \<Rightarrow> None
      | Some len \<Rightarrow> r4_registry_set E registry key name (ucast (p_code E ''R4OS_REGISTRY_VALUE_TYPE_STRING'')) v len s)"

definition r4_registry_set_u64 :: "'w platform \<Rightarrow> r4_registry option \<Rightarrow> u64 \<Rightarrow> u64 \<Rightarrow> u64 \<Rightarrow> (operation, 'w) io" where
  "r4_registry_set_u64 E registry key name v = registry_set_local E registry key name ''R4OS_REGISTRY_VALUE_TYPE_U64'' (u64_bytes v)"

definition r4_registry_set_bool :: "'w platform \<Rightarrow> r4_registry option \<Rightarrow> u64 \<Rightarrow> u64 \<Rightarrow> bool \<Rightarrow> (operation, 'w) io" where
  "r4_registry_set_bool E registry key name v = registry_set_local E registry key name ''R4OS_REGISTRY_VALUE_TYPE_BOOL'' (bool_bytes v)"

definition r4_registry_set_binary :: "'w platform \<Rightarrow> r4_registry option \<Rightarrow> u64 \<Rightarrow> u64 \<Rightarrow> u64 \<Rightarrow> u32 \<Rightarrow> (operation, 'w) io" where
  "r4_registry_set_binary E registry key name data len =
     r4_registry_set E registry key name (ucast (p_code E ''R4OS_REGISTRY_VALUE_TYPE_BINARY'')) data len"

definition r4_registry_delete :: "'w platform \<Rightarrow> r4_registry option \<Rightarrow> u64 \<Rightarrow> u64 \<Rightarrow> (operation, 'w) io" where
  "r4_registry_delete E registry key name =
     ask (q_and (sure (key \<noteq> 0 \<and> name \<noteq> 0)) (sys_base E (registry_sys registry) ''registry_delete_value'')) (\<lambda>ok.
       if \<not> ok then give (no_fn_operation E)
       else and_then (sys_call E (registry_sys registry) ''registry_delete_value'' [key_bytes E key, name]) (\<lambda>raw.
         give (if registry_missing E raw then \<lparr>op_state = OPERATION_MISSING, op_raw_code = raw\<rparr> else r4_operation_status raw)))"

end
