(* ===== verification/ProtocolGate.thy ===== *)
theory ProtocolGate
  imports Prelude
begin

text \<open>
  The session gate of \<open>Shared/C/include/r4os/protocol.h\<close>: a gate counts the leases that
  entered it in its current epoch, refuses new ones once it is closing, and hands out a
  receipt only when none is left; a reset starts a later epoch.
\<close>

subsection \<open>Gates, leases and receipts\<close>

record gate =
  g_epoch :: u64
  g_active :: u32
  g_phase :: u32

text \<open>Owners are addresses of gates, 0 the null pointer.\<close>

record lease =
  l_owner :: u64
  l_epoch :: u64
  l_held :: u32

record closed =
  c_owner :: u64
  c_epoch :: u64

text \<open>The gate objects by address; reading where there is none has no value.\<close>

type_synonym gates = "u64 \<Rightarrow> gate option"

abbreviation GATE_BUSY :: i32 where "GATE_BUSY \<equiv> - 1"
abbreviation GATE_CLOSED :: i32 where "GATE_CLOSED \<equiv> - 2"
abbreviation GATE_STALE :: i32 where "GATE_STALE \<equiv> - 3"
abbreviation GATE_EXHAUSTED :: i32 where "GATE_EXHAUSTED \<equiv> - 4"

definition r4protocol_gate_init :: "gates \<Rightarrow> u64 \<Rightarrow> u64 \<Rightarrow> i32 \<times> gates" where
  "r4protocol_gate_init Gs g epoch =
     (if g = 0 \<or> epoch = 0 then (GATE_STALE, Gs)
      else (0, Gs(g \<mapsto> \<lparr>g_epoch = epoch, g_active = 0, g_phase = 0\<rparr>)))"

definition r4protocol_gate_enter :: "gates \<Rightarrow> u64 \<Rightarrow> lease option \<Rightarrow> (i32 \<times> gates \<times> lease option) option" where
  "r4protocol_gate_enter Gs g out =
     (if g = 0 \<or> out = None then Some (GATE_STALE, Gs, out)
      else case Gs g of
        None \<Rightarrow> None
      | Some G \<Rightarrow>
          if g_epoch G = 0 then Some (GATE_STALE, Gs, out)
          else if g_phase G \<noteq> 0 then Some (GATE_CLOSED, Gs, out)
          else if g_active G = - 1 then Some (GATE_EXHAUSTED, Gs, out)
          else Some (0, Gs(g \<mapsto> G\<lparr>g_active := g_active G + 1\<rparr>), Some \<lparr>l_owner = g, l_epoch = g_epoch G, l_held = 1\<rparr>))"

definition r4protocol_lease_finish :: "gates \<Rightarrow> lease option \<Rightarrow> (i32 \<times> gates \<times> lease option) option" where
  "r4protocol_lease_finish Gs out =
     (case out of
        None \<Rightarrow> Some (GATE_STALE, Gs, out)
      | Some l \<Rightarrow>
          if l_held l = 0 \<or> l_owner l = 0 then Some (GATE_STALE, Gs, out)
          else case Gs (l_owner l) of
            None \<Rightarrow> None
          | Some G \<Rightarrow>
              if g_epoch G \<noteq> l_epoch l \<or> g_active G = 0 then Some (GATE_STALE, Gs, out)
              else Some (0, Gs(l_owner l \<mapsto> G\<lparr>g_active := g_active G - 1\<rparr>), Some (l\<lparr>l_held := 0\<rparr>)))"

definition r4protocol_gate_close :: "gates \<Rightarrow> u64 \<Rightarrow> closed option \<Rightarrow> (i32 \<times> gates \<times> closed option) option" where
  "r4protocol_gate_close Gs g receipt =
     (if g = 0 \<or> receipt = None then Some (GATE_STALE, Gs, receipt)
      else case Gs g of
        None \<Rightarrow> None
      | Some G \<Rightarrow>
          if g_epoch G = 0 then Some (GATE_STALE, Gs, receipt)
          else if g_active G \<noteq> 0 then Some (GATE_BUSY, Gs(g \<mapsto> G\<lparr>g_phase := 1\<rparr>), receipt)
          else Some (0, Gs(g \<mapsto> G\<lparr>g_phase := 2\<rparr>), Some \<lparr>c_owner = g, c_epoch = g_epoch G\<rparr>))"

definition r4protocol_gate_reset :: "gates \<Rightarrow> u64 \<Rightarrow> closed \<Rightarrow> u64 \<Rightarrow> (i32 \<times> gates) option" where
  "r4protocol_gate_reset Gs g receipt new =
     (if g = 0 then Some (GATE_STALE, Gs)
      else case Gs g of
        None \<Rightarrow> None
      | Some G \<Rightarrow>
          if g_phase G \<noteq> 2 \<or> g_active G \<noteq> 0 \<or> c_owner receipt \<noteq> g \<or> c_epoch receipt \<noteq> g_epoch G \<or> new \<le> g_epoch G
          then Some (GATE_STALE, Gs)
          else Some (r4protocol_gate_init Gs g new))"

subsection \<open>What a successful operation did\<close>

lemma gate_init_cases:
  assumes "r4protocol_gate_init Gs g epoch = (rc, Gs')"
  obtains (refused) "Gs' = Gs" "rc = GATE_STALE"
    | (took) "rc = 0" "g \<noteq> 0" "epoch \<noteq> 0" "Gs' = Gs(g \<mapsto> \<lparr>g_epoch = epoch, g_active = 0, g_phase = 0\<rparr>)"
  using assms by (auto simp: r4protocol_gate_init_def split: if_splits)

lemma gate_enter_cases:
  assumes "r4protocol_gate_enter Gs g (Some l) = Some (rc, Gs', Some l')"
  obtains (refused) "Gs' = Gs" "l' = l" "rc \<noteq> 0"
    | (took) G where "rc = 0" "g \<noteq> 0" "Gs g = Some G" "g_epoch G \<noteq> 0" "g_phase G = 0" "g_active G \<noteq> - 1"
        "Gs' = Gs(g \<mapsto> G\<lparr>g_active := g_active G + 1\<rparr>)" "l' = \<lparr>l_owner = g, l_epoch = g_epoch G, l_held = 1\<rparr>"
  using assms by (auto simp: r4protocol_gate_enter_def split: if_splits option.splits)

lemma lease_finish_cases:
  assumes "r4protocol_lease_finish Gs (Some l) = Some (rc, Gs', Some l')"
  obtains (refused) "Gs' = Gs" "l' = l" "rc \<noteq> 0"
    | (took) G where "rc = 0" "l_held l \<noteq> 0" "l_owner l \<noteq> 0" "Gs (l_owner l) = Some G" "g_epoch G = l_epoch l" "g_active G \<noteq> 0"
        "Gs' = Gs(l_owner l \<mapsto> G\<lparr>g_active := g_active G - 1\<rparr>)" "l' = l\<lparr>l_held := 0\<rparr>"
proof (cases "l_held l = 0 \<or> l_owner l = 0")
  case True
  then have "r4protocol_lease_finish Gs (Some l) = Some (GATE_STALE, Gs, Some l)" by (auto simp: r4protocol_lease_finish_def)
  with assms show ?thesis by (intro refused) simp_all
next
  case live: False
  have "Gs (l_owner l) \<noteq> None"
  proof
    assume "Gs (l_owner l) = None"
    with live have "r4protocol_lease_finish Gs (Some l) = None" by (simp add: r4protocol_lease_finish_def)
    with assms show False by simp
  qed
  then obtain G where G: "Gs (l_owner l) = Some G" by blast
  show ?thesis
  proof (cases "g_epoch G \<noteq> l_epoch l \<or> g_active G = 0")
    case True
    then have "r4protocol_lease_finish Gs (Some l) = Some (GATE_STALE, Gs, Some l)"
      using live G by (auto simp: r4protocol_lease_finish_def)
    with assms show ?thesis by (intro refused) simp_all
  next
    case False
    then have "r4protocol_lease_finish Gs (Some l) =
        Some (0, Gs(l_owner l \<mapsto> G\<lparr>g_active := g_active G - 1\<rparr>), Some (l\<lparr>l_held := 0\<rparr>))"
      using live G by (simp add: r4protocol_lease_finish_def)
    with assms live False G show ?thesis by (intro took [OF _ _ _ G]) simp_all
  qed
qed

lemma gate_close_cases:
  assumes "r4protocol_gate_close Gs g (Some r) = Some (rc, Gs', Some r')"
  obtains (refused) "Gs' = Gs" "r' = r" "rc \<noteq> 0"
    | (busy) G where "rc \<noteq> 0" "r' = r" "Gs g = Some G" "g_active G \<noteq> 0" "Gs' = Gs(g \<mapsto> G\<lparr>g_phase := 1\<rparr>)"
    | (took) G where "rc = 0" "g \<noteq> 0" "Gs g = Some G" "g_epoch G \<noteq> 0" "g_active G = 0" "Gs' = Gs(g \<mapsto> G\<lparr>g_phase := 2\<rparr>)"
        "r' = \<lparr>c_owner = g, c_epoch = g_epoch G\<rparr>"
proof (cases "g = 0")
  case True
  with assms show ?thesis by (intro refused) (auto simp: r4protocol_gate_close_def)
next
  case g: False
  have "Gs g \<noteq> None"
  proof
    assume "Gs g = None"
    with g have "r4protocol_gate_close Gs g (Some r) = None" by (simp add: r4protocol_gate_close_def)
    with assms show False by simp
  qed
  then obtain G where G: "Gs g = Some G" by blast
  have run: "(if g_epoch G = 0 then Some (GATE_STALE, Gs, Some r)
      else if g_active G \<noteq> 0 then Some (GATE_BUSY, Gs(g \<mapsto> G\<lparr>g_phase := 1\<rparr>), Some r)
      else Some (0, Gs(g \<mapsto> G\<lparr>g_phase := 2\<rparr>), Some \<lparr>c_owner = g, c_epoch = g_epoch G\<rparr>)) = Some (rc, Gs', Some r')"
    using assms g G by (simp add: r4protocol_gate_close_def)
  consider "g_epoch G = 0" | "g_epoch G \<noteq> 0" "g_active G \<noteq> 0" | "g_epoch G \<noteq> 0" "g_active G = 0" by blast
  then show ?thesis
  proof cases
    case 1
    with run show ?thesis by (intro refused) auto
  next
    case 2
    then show ?thesis using run by (intro busy [OF _ _ G]) auto
  next
    case 3
    then show ?thesis using run by (intro took [OF _ g G]) auto
  qed
qed

lemma gate_reset_cases:
  assumes "r4protocol_gate_reset Gs g r new = Some (rc, Gs')"
  obtains (refused) "Gs' = Gs" "rc \<noteq> 0"
    | (took) G where "rc = 0" "g \<noteq> 0" "Gs g = Some G" "g_phase G = 2" "g_active G = 0" "c_owner r = g" "c_epoch r = g_epoch G"
        "g_epoch G < new" "new \<noteq> 0" "Gs' = Gs(g \<mapsto> \<lparr>g_epoch = new, g_active = 0, g_phase = 0\<rparr>)"
proof (cases "Gs g")
  case None
  with assms show ?thesis by (intro refused) (auto simp: r4protocol_gate_reset_def split: if_splits)
next
  case (Some G)
  show ?thesis
  proof (cases "g = 0 \<or> g_phase G \<noteq> 2 \<or> g_active G \<noteq> 0 \<or> c_owner r \<noteq> g \<or> c_epoch r \<noteq> g_epoch G \<or> new \<le> g_epoch G")
    case True
    then have "rc = GATE_STALE \<and> Gs' = Gs" using assms Some unfolding r4protocol_gate_reset_def by (simp split: if_splits)
    then show ?thesis by (intro refused) auto
  next
    case False
    then have new: "new \<noteq> 0" using word_not_simps(1) by fastforce
    have "r4protocol_gate_reset Gs g r new = Some (r4protocol_gate_init Gs g new)"
      using False Some by (simp add: r4protocol_gate_reset_def)
    with assms False new have "rc = 0 \<and> Gs' = Gs(g \<mapsto> \<lparr>g_epoch = new, g_active = 0, g_phase = 0\<rparr>)"
      by (simp add: r4protocol_gate_init_def)
    with False new show ?thesis by (intro took [OF _ _ Some]) auto
  qed
qed

subsection \<open>A system of gates, lease objects and receipts\<close>

text \<open>
  The lease objects are numbered. The steps are the calls of the header under its rules: a
  gate is initialised once, a live lease object is neither overwritten nor copied, and only
  \<open>r4protocol_gate_close\<close> makes receipts. A reset may be tried with any receipt value.
\<close>

record gate_system =
  gs_gates :: gates
  gs_leases :: "nat \<Rightarrow> lease"
  gs_receipts :: "closed set"

definition no_lease :: lease where
  "no_lease = \<lparr>l_owner = 0, l_epoch = 0, l_held = 0\<rparr>"

definition gate_start :: gate_system where
  "gate_start = \<lparr>gs_gates = (\<lambda>_. None), gs_leases = (\<lambda>_. no_lease), gs_receipts = {}\<rparr>"

inductive gate_step :: "gate_system \<Rightarrow> gate_system \<Rightarrow> bool" where
  init: "gs_gates S g = None \<Longrightarrow> r4protocol_gate_init (gs_gates S) g epoch = (rc, Gs) \<Longrightarrow> gate_step S (S\<lparr>gs_gates := Gs\<rparr>)"
| enter: "l_held (gs_leases S i) = 0 \<Longrightarrow>
    r4protocol_gate_enter (gs_gates S) g (Some (gs_leases S i)) = Some (rc, Gs, Some l) \<Longrightarrow>
    gate_step S (S\<lparr>gs_gates := Gs, gs_leases := (gs_leases S)(i := l)\<rparr>)"
| leave: "r4protocol_lease_finish (gs_gates S) (Some (gs_leases S i)) = Some (rc, Gs, Some l) \<Longrightarrow>
    gate_step S (S\<lparr>gs_gates := Gs, gs_leases := (gs_leases S)(i := l)\<rparr>)"
| close: "r4protocol_gate_close (gs_gates S) g (Some r) = Some (rc, Gs, Some r') \<Longrightarrow>
    gate_step S (S\<lparr>gs_gates := Gs, gs_receipts := (if rc = 0 then {r'} else {}) \<union> gs_receipts S\<rparr>)"
| reset: "r4protocol_gate_reset (gs_gates S) g r new = Some (rc, Gs) \<Longrightarrow> gate_step S (S\<lparr>gs_gates := Gs\<rparr>)"

definition held :: "gate_system \<Rightarrow> u64 \<Rightarrow> nat set" where
  "held S g = {i. l_held (gs_leases S i) \<noteq> 0 \<and> l_owner (gs_leases S i) = g}"

text \<open>A gate counts exactly the leases that name it, all of its own epoch; a closed one counts none.\<close>

definition gate_sound :: "gate_system \<Rightarrow> u64 \<Rightarrow> gate \<Rightarrow> bool" where
  "gate_sound S g G \<longleftrightarrow> g \<noteq> 0 \<and> g_epoch G \<noteq> 0 \<and> finite (held S g) \<and> unat (g_active G) = card (held S g) \<and>
     (\<forall>i \<in> held S g. l_epoch (gs_leases S i) = g_epoch G) \<and> (g_phase G = 2 \<longrightarrow> held S g = {})"

text \<open>A receipt is of an earlier epoch, or its gate is closed.\<close>

definition receipt_sound :: "gates \<Rightarrow> closed \<Rightarrow> bool" where
  "receipt_sound Gs r \<longleftrightarrow>
     (\<exists>G. Gs (c_owner r) = Some G \<and> (c_epoch r < g_epoch G \<or> c_epoch r = g_epoch G \<and> g_phase G = 2))"

definition gates_sound :: "gate_system \<Rightarrow> bool" where
  "gates_sound S \<longleftrightarrow> (\<forall>g G. gs_gates S g = Some G \<longrightarrow> gate_sound S g G) \<and> (\<forall>g. gs_gates S g = None \<longrightarrow> held S g = {}) \<and>
     (\<forall>r \<in> gs_receipts S. receipt_sound (gs_gates S) r)"

lemma gates_soundI:
  assumes "\<And>g G. gs_gates S g = Some G \<Longrightarrow> gate_sound S g G" and "\<And>g. gs_gates S g = None \<Longrightarrow> held S g = {}"
    and "\<And>r. r \<in> gs_receipts S \<Longrightarrow> receipt_sound (gs_gates S) r"
  shows "gates_sound S"
  using assms by (simp add: gates_sound_def)

lemma gates_soundD:
  assumes "gates_sound S"
  shows "gs_gates S g = Some G \<Longrightarrow> gate_sound S g G" and "gs_gates S g = None \<Longrightarrow> held S g = {}"
    and "r \<in> gs_receipts S \<Longrightarrow> receipt_sound (gs_gates S) r"
  using assms by (simp_all add: gates_sound_def)

text \<open>Only the one gate an operation wrote has to be looked at again.\<close>

lemma gates_sound_update:
  assumes sound: "gates_sound S" and at: "gate_sound S' g G'"
    and gates: "gs_gates S' = (gs_gates S)(g \<mapsto> G')" and others: "\<And>h. h \<noteq> g \<Longrightarrow> held S' h = held S h"
    and leases: "\<And>h i. h \<noteq> g \<Longrightarrow> i \<in> held S h \<Longrightarrow> gs_leases S' i = gs_leases S i"
    and receipts: "\<And>r. r \<in> gs_receipts S' \<Longrightarrow> receipt_sound (gs_gates S') r"
  shows "gates_sound S'"
proof (rule gates_soundI)
  fix h G assume "gs_gates S' h = Some G"
  then show "gate_sound S' h G"
    using at gates gates_soundD(1) [OF sound, of h G] others [of h] leases [of h]
    by (cases "h = g") (auto simp: gate_sound_def)
next
  fix h assume "gs_gates S' h = None"
  then have "h \<noteq> g" and "gs_gates S h = None" using gates by (auto split: if_splits)
  then show "held S' h = {}" using others gates_soundD(2) [OF sound] by simp
qed (rule receipts)

lemma receipt_sound_update:
  assumes "receipt_sound Gs r" and "Gs g = Some G"
    and "g_epoch G < g_epoch G' \<or> g_epoch G' = g_epoch G \<and> (g_phase G = 2 \<longrightarrow> g_phase G' = 2)"
  shows "receipt_sound (Gs(g \<mapsto> G')) r"
  using assms by (cases "c_owner r = g") (auto simp: receipt_sound_def)

subsection \<open>Every step keeps the gates sound\<close>

lemma held_update [simp]:
  "held (S\<lparr>gs_gates := Gs\<rparr>) g = held S g" "held (S\<lparr>gs_receipts := R\<rparr>) g = held S g"
  by (simp_all add: held_def)

lemma gate_sound_none: "g \<noteq> 0 \<Longrightarrow> g_epoch G \<noteq> 0 \<Longrightarrow> g_active G = 0 \<Longrightarrow> held S g = {} \<Longrightarrow> gate_sound S g G"
  by (simp add: gate_sound_def)

lemma unat_plus_1: "(w :: u32) \<noteq> - 1 \<Longrightarrow> unat (w + 1) = Suc (unat w)"
  using unatSuc [of w] by (simp add: add.commute eq_neg_iff_add_eq_0)

lemma init_keeps:
  assumes sound: "gates_sound S" and fresh: "gs_gates S g = None" and run: "r4protocol_gate_init (gs_gates S) g epoch = (rc, Gs)"
  shows "gates_sound (S\<lparr>gs_gates := Gs\<rparr>)"
  using run
proof (cases rule: gate_init_cases)
  case refused
  then show ?thesis using sound by simp
next
  case took
  show ?thesis
  proof (rule gates_sound_update [OF sound])
    show "gate_sound (S\<lparr>gs_gates := Gs\<rparr>) g \<lparr>g_epoch = epoch, g_active = 0, g_phase = 0\<rparr>"
      using took gates_soundD(2) [OF sound fresh] by (intro gate_sound_none) simp_all
    fix r assume "r \<in> gs_receipts (S\<lparr>gs_gates := Gs\<rparr>)"
    then show "receipt_sound (gs_gates (S\<lparr>gs_gates := Gs\<rparr>)) r"
      using gates_soundD(3) [OF sound, of r] took fresh by (auto simp: receipt_sound_def)
  qed (use took in simp_all)
qed

lemma enter_keeps:
  assumes sound: "gates_sound S" and free: "l_held (gs_leases S i) = 0"
    and run: "r4protocol_gate_enter (gs_gates S) g (Some (gs_leases S i)) = Some (rc, Gs, Some l)"
  shows "gates_sound (S\<lparr>gs_gates := Gs, gs_leases := (gs_leases S)(i := l)\<rparr>)"
  using run
proof (cases rule: gate_enter_cases)
  case refused
  then show ?thesis using sound by simp
next
  case (took G)
  let ?S = "S\<lparr>gs_gates := Gs, gs_leases := (gs_leases S)(i := l)\<rparr>"
  note G = gates_soundD(1) [OF sound took(3)]
  have notin: "i \<notin> held S h" for h using free by (simp add: held_def)
  have epoch: "l_epoch l = g_epoch G" using took by simp
  have own: "held ?S g = insert i (held S g)" using took free by (auto simp: held_def)
  show ?thesis
  proof (rule gates_sound_update [OF sound])
    show "gate_sound ?S g (G\<lparr>g_active := g_active G + 1\<rparr>)"
      unfolding gate_sound_def own
      using G took(2,4,5) notin [of g] unat_plus_1 [OF took(6)] epoch by (auto simp: gate_sound_def)
    show "held ?S h = held S h" if "h \<noteq> g" for h using that took free by (auto simp: held_def)
    show "gs_leases ?S j = gs_leases S j" if "j \<in> held S h" for h j using that notin by auto
    fix r assume "r \<in> gs_receipts ?S"
    then show "receipt_sound (gs_gates ?S) r"
      using receipt_sound_update [OF gates_soundD(3) [OF sound, of r] took(3)] took by simp
  qed (use took in simp)
qed

lemma leave_keeps:
  assumes sound: "gates_sound S"
    and run: "r4protocol_lease_finish (gs_gates S) (Some (gs_leases S i)) = Some (rc, Gs, Some l)"
  shows "gates_sound (S\<lparr>gs_gates := Gs, gs_leases := (gs_leases S)(i := l)\<rparr>)"
  using run
proof (cases rule: lease_finish_cases)
  case refused
  then show ?thesis using sound by simp
next
  case (took G)
  let ?S = "S\<lparr>gs_gates := Gs, gs_leases := (gs_leases S)(i := l)\<rparr>" and ?g = "l_owner (gs_leases S i)"
  note G = gates_soundD(1) [OF sound took(4)]
  have mem: "i \<in> held S ?g" using took by (simp add: held_def)
  have dead: "l_held l = 0" using took by simp
  have own: "held ?S ?g = held S ?g - {i}" using dead by (auto simp: held_def)
  have le: "unat (g_active G - 1) = unat (g_active G) - 1" using took(6) by (rule unat_minus_one)
  show ?thesis
  proof (rule gates_sound_update [OF sound])
    show "gate_sound ?S ?g (G\<lparr>g_active := g_active G - 1\<rparr>)"
      unfolding gate_sound_def own
      using G mem le by (auto simp: gate_sound_def)
    show "held ?S h = held S h" if "h \<noteq> ?g" for h using that dead by (auto simp: held_def)
    show "gs_leases ?S j = gs_leases S j" if "h \<noteq> ?g" "j \<in> held S h" for h j using that by (auto simp: held_def)
    fix r assume "r \<in> gs_receipts ?S"
    then show "receipt_sound (gs_gates ?S) r"
      using receipt_sound_update [OF gates_soundD(3) [OF sound, of r] took(4)] took by simp
  qed (use took in simp)
qed

lemma close_keeps:
  assumes sound: "gates_sound S" and run: "r4protocol_gate_close (gs_gates S) g (Some r) = Some (rc, Gs, Some r')"
  shows "gates_sound (S\<lparr>gs_gates := Gs, gs_receipts := (if rc = 0 then {r'} else {}) \<union> gs_receipts S\<rparr>)" (is "gates_sound ?S")
  using run
proof (cases rule: gate_close_cases)
  case refused
  then show ?thesis using sound by simp
next
  case (busy G)
  note G = gates_soundD(1) [OF sound busy(3)]
  have "held S g \<noteq> {}" using G busy(4) by (auto simp: gate_sound_def unat_eq_0)
  then have "g_phase G \<noteq> 2" using G by (auto simp: gate_sound_def)
  then show ?thesis
  proof (intro gates_sound_update [OF sound, of _ g "G\<lparr>g_phase := 1\<rparr>"])
    show "gate_sound ?S g (G\<lparr>g_phase := 1\<rparr>)" using G by (simp add: gate_sound_def)
    fix q assume "q \<in> gs_receipts ?S"
    then show "receipt_sound (gs_gates ?S) q"
      using receipt_sound_update [OF gates_soundD(3) [OF sound, of q] busy(3)] busy \<open>g_phase G \<noteq> 2\<close> by simp
  qed (use busy in simp_all)
next
  case (took G)
  note G = gates_soundD(1) [OF sound took(3)]
  have none: "held S g = {}" using G took(5) by (auto simp: gate_sound_def)
  show ?thesis
  proof (intro gates_sound_update [OF sound, of _ g "G\<lparr>g_phase := 2\<rparr>"])
    show "gate_sound ?S g (G\<lparr>g_phase := 2\<rparr>)" using G none by (simp add: gate_sound_def)
    fix q assume "q \<in> gs_receipts ?S"
    then consider "q = r'" | "q \<in> gs_receipts S" using took by auto
    then show "receipt_sound (gs_gates ?S) q"
    proof cases
      case 1
      then show ?thesis using took by (simp add: receipt_sound_def)
    next
      case 2
      then show ?thesis using receipt_sound_update [OF gates_soundD(3) [OF sound, of q] took(3)] took by simp
    qed
  qed (use took in simp_all)
qed

lemma reset_keeps:
  assumes sound: "gates_sound S" and run: "r4protocol_gate_reset (gs_gates S) g r new = Some (rc, Gs)"
  shows "gates_sound (S\<lparr>gs_gates := Gs\<rparr>)"
  using run
proof (cases rule: gate_reset_cases)
  case refused
  then show ?thesis using sound by simp
next
  case (took G)
  let ?G = "\<lparr>g_epoch = new, g_active = 0, g_phase = 0\<rparr>" and ?S = "S\<lparr>gs_gates := Gs\<rparr>"
  note G = gates_soundD(1) [OF sound took(3)]
  have none: "held S g = {}" using G took(5) by (auto simp: gate_sound_def)
  show ?thesis
  proof (rule gates_sound_update [OF sound])
    show "gate_sound ?S g ?G" using took none by (intro gate_sound_none) simp_all
    fix q assume "q \<in> gs_receipts ?S"
    then show "receipt_sound (gs_gates ?S) q"
      using receipt_sound_update [OF gates_soundD(3) [OF sound, of q] took(3), of ?G] took by simp
  qed (use took in simp_all)
qed

lemma gate_step_keeps: "gate_step S S' \<Longrightarrow> gates_sound S \<Longrightarrow> gates_sound S'"
  by (induction rule: gate_step.induct) (simp_all add: init_keeps enter_keeps leave_keeps close_keeps reset_keeps)

lemma gate_run_keeps: "gate_step\<^sup>*\<^sup>* S S' \<Longrightarrow> gates_sound S \<Longrightarrow> gates_sound S'"
  by (induction rule: rtranclp_induct) (auto intro: gate_step_keeps)

lemma gate_start_sound: "gates_sound gate_start"
  by (simp add: gates_sound_def gate_start_def held_def no_lease_def)

lemmas reachable_sound = gate_run_keeps [OF _ gate_start_sound]

text \<open>
  C21: In every reachable system of gates, leases and receipts, a gate's counter is exactly the
  number of lease objects that hold it, all of them of its current epoch, and a closed gate
  is held by none.\<close>

theorem gate_counts_leases:
  assumes "gate_step\<^sup>*\<^sup>* gate_start S" and "gs_gates S g = Some G"
  shows "finite (held S g) \<and> unat (g_active G) = card (held S g) \<and>
    (\<forall>i \<in> held S g. l_epoch (gs_leases S i) = g_epoch G) \<and> (g_phase G = 2 \<longrightarrow> held S g = {})"
  using gates_soundD(1) [OF reachable_sound [OF assms(1)] assms(2)] by (simp add: gate_sound_def)

text \<open>A gate of epoch 5 that lease object 0 has entered.\<close>

definition sample_gate :: gate where
  "sample_gate = \<lparr>g_epoch = 5, g_active = 1, g_phase = 0\<rparr>"

definition sample_gates :: gate_system where
  "sample_gates = \<lparr>gs_gates = (\<lambda>_. None)(0x10 \<mapsto> sample_gate),
     gs_leases = (\<lambda>_. no_lease)(0 := \<lparr>l_owner = 0x10, l_epoch = 5, l_held = 1\<rparr>), gs_receipts = {}\<rparr>"

lemma sample_gates_reached: "gate_step\<^sup>*\<^sup>* gate_start sample_gates"
proof -
  let ?G = "\<lparr>g_epoch = 5, g_active = 0, g_phase = 0\<rparr>"
  let ?S = "gate_start\<lparr>gs_gates := (\<lambda>_. None)(0x10 \<mapsto> ?G)\<rparr>" and ?l = "\<lparr>l_owner = 0x10, l_epoch = 5, l_held = 1\<rparr>"
  have "gate_step gate_start ?S"
    by (rule gate_step.init [where g = "0x10" and epoch = 5]) (simp_all add: gate_start_def r4protocol_gate_init_def)
  moreover have "gate_step ?S (?S\<lparr>gs_gates := (gs_gates ?S)(0x10 \<mapsto> sample_gate), gs_leases := (gs_leases ?S)(0 := ?l)\<rparr>)"
    by (rule gate_step.enter [where g = "0x10" and i = 0])
      (simp_all add: gate_start_def no_lease_def r4protocol_gate_enter_def sample_gate_def)
  moreover have "?S\<lparr>gs_gates := (gs_gates ?S)(0x10 \<mapsto> sample_gate), gs_leases := (gs_leases ?S)(0 := ?l)\<rparr> = sample_gates"
    by (simp add: sample_gates_def gate_start_def)
  ultimately show ?thesis by (metis rtranclp.rtrancl_refl rtranclp.rtrancl_into_rtrancl)
qed

lemma sample_held: "held sample_gates 0x10 = {0}"
  by (auto simp: held_def sample_gates_def no_lease_def)

theorem gate_counts_leases_witness:
  "gs_gates sample_gates 0x10 = Some sample_gate \<and> card (held sample_gates 0x10) = 1 \<and> g_phase sample_gate \<noteq> 2"
proof -
  have at: "gs_gates sample_gates 0x10 = Some sample_gate" by (simp add: sample_gates_def)
  from gate_counts_leases [OF sample_gates_reached at] at sample_held show ?thesis by (auto simp: sample_gate_def)
qed

subsection \<open>What a receipt proves\<close>

lemma receipts_grow: "gate_step S S' \<Longrightarrow> gs_receipts S \<subseteq> gs_receipts S'"
  by (induction rule: gate_step.induct) auto

lemma receipts_stay: "gate_step\<^sup>*\<^sup>* S S' \<Longrightarrow> gs_receipts S \<subseteq> gs_receipts S'"
  by (induction rule: rtranclp_induct) (use receipts_grow in blast)+

text \<open>
  C22: A receipt is a proof of quiescence: once the close of a gate has handed out a receipt
  for an epoch, no lease object ever holds that gate in that epoch again, whatever
  entering, finishing, closing and resetting follow.\<close>

theorem receipt_means_quiescent:
  assumes "gate_step\<^sup>*\<^sup>* gate_start S" and "r \<in> gs_receipts S" and "gate_step\<^sup>*\<^sup>* S S'"
  shows "\<not> (l_held (gs_leases S' i) \<noteq> 0 \<and> l_owner (gs_leases S' i) = c_owner r \<and> l_epoch (gs_leases S' i) = c_epoch r)"
proof
  assume live: "l_held (gs_leases S' i) \<noteq> 0 \<and> l_owner (gs_leases S' i) = c_owner r \<and> l_epoch (gs_leases S' i) = c_epoch r"
  have sound: "gates_sound S'" using gate_run_keeps [OF assms(3) reachable_sound [OF assms(1)]] .
  have "r \<in> gs_receipts S'" using receipts_stay [OF assms(3)] assms(2) by blast
  then obtain G where G: "gs_gates S' (c_owner r) = Some G" "c_epoch r < g_epoch G \<or> c_epoch r = g_epoch G \<and> g_phase G = 2"
    using gates_soundD(3) [OF sound] by (auto simp: receipt_sound_def)
  have "i \<in> held S' (c_owner r)" using live by (simp add: held_def)
  then have "l_epoch (gs_leases S' i) = g_epoch G \<and> g_phase G \<noteq> 2"
    using gates_soundD(1) [OF sound G(1)] by (auto simp: gate_sound_def)
  with G(2) live show False by auto
qed

subsection \<open>Draining a gate\<close>

fun finish_all :: "gate_system \<Rightarrow> nat list \<Rightarrow> gate_system option" where
  "finish_all S [] = Some S"
| "finish_all S (i # is) =
     (case r4protocol_lease_finish (gs_gates S) (Some (gs_leases S i)) of
        Some (rc, Gs, Some l) \<Rightarrow>
          if rc = 0 then finish_all (S\<lparr>gs_gates := Gs, gs_leases := (gs_leases S)(i := l)\<rparr>) is else None
      | _ \<Rightarrow> None)"

lemma held_finishes:
  assumes sound: "gates_sound S" and i: "i \<in> held S g" and G: "gs_gates S g = Some G"
  shows "r4protocol_lease_finish (gs_gates S) (Some (gs_leases S i)) =
    Some (0, (gs_gates S)(g \<mapsto> G\<lparr>g_active := g_active G - 1\<rparr>), Some ((gs_leases S i)\<lparr>l_held := 0\<rparr>))"
proof -
  note g = gates_soundD(1) [OF sound G, unfolded gate_sound_def]
  have "g_active G \<noteq> 0" using g i by (auto simp: card_gt_0_iff)
  then show ?thesis using g i G by (simp add: r4protocol_lease_finish_def held_def)
qed

lemma finish_all_drains:
  assumes "gates_sound S" and "gs_gates S g = Some G" and "distinct is" and "set is = held S g"
  shows "\<exists>S' G'. finish_all S is = Some S' \<and> gates_sound S' \<and> held S' g = {} \<and> gs_gates S' g = Some G' \<and> g_epoch G' = g_epoch G"
  using assms
proof (induction "is" arbitrary: S G)
  case (Cons i "is")
  let ?G = "G\<lparr>g_active := g_active G - 1\<rparr>" and ?l = "(gs_leases S i)\<lparr>l_held := 0\<rparr>"
  let ?S = "S\<lparr>gs_gates := (gs_gates S)(g \<mapsto> ?G), gs_leases := (gs_leases S)(i := ?l)\<rparr>"
  have i: "i \<in> held S g" using Cons.prems(4) by auto
  note run = held_finishes [OF Cons.prems(1) i Cons.prems(2)]
  have "gates_sound ?S" by (rule leave_keeps [OF Cons.prems(1) run])
  moreover have "set is = held ?S g" using Cons.prems(3,4) by (auto simp: held_def)
  ultimately have "\<exists>S' G'. finish_all ?S is = Some S' \<and> gates_sound S' \<and> held S' g = {} \<and> gs_gates S' g = Some G' \<and> g_epoch G' = g_epoch ?G"
    using Cons.prems(3) by (intro Cons.IH) simp_all
  then show ?case by (simp add: run)
qed auto

lemma finish_all_runs: "finish_all S is = Some S' \<Longrightarrow> gate_step\<^sup>*\<^sup>* S S'"
proof (induction "is" arbitrary: S)
  case (Cons i "is")
  then obtain Gs l where run: "r4protocol_lease_finish (gs_gates S) (Some (gs_leases S i)) = Some (0, Gs, Some l)"
    and rest: "finish_all (S\<lparr>gs_gates := Gs, gs_leases := (gs_leases S)(i := l)\<rparr>) is = Some S'"
    by (auto split: option.split_asm if_split_asm)
  from gate_step.leave [OF run] Cons.IH [OF rest] show ?case by (rule converse_rtranclp_into_rtranclp)
qed simp

text \<open>Once closing, a gate only loses holders until a reset gives it a later epoch.\<close>

definition shutting :: "u64 \<Rightarrow> u64 \<Rightarrow> nat set \<Rightarrow> gate_system \<Rightarrow> bool" where
  "shutting g epoch holders S \<longleftrightarrow>
     (\<exists>G. gs_gates S g = Some G \<and> (epoch < g_epoch G \<or> g_epoch G = epoch \<and> g_phase G \<noteq> 0 \<and> held S g \<subseteq> holders))"

lemma shutting_same:
  assumes "shutting g epoch holders S" and "gs_gates S' g = gs_gates S g" and "held S' g \<subseteq> held S g"
  shows "shutting g epoch holders S'"
  using assms by (auto simp: shutting_def)

lemma shutting_step:
  assumes "gate_step S S'" and "shutting g epoch holders S"
  shows "shutting g epoch holders S'"
  using assms
proof cases
  case (init h new rc Gs)
  then have "h \<noteq> g" using assms(2) by (auto simp: shutting_def)
  from init(3) show ?thesis
    by (cases rule: gate_init_cases) (use init(1) \<open>h \<noteq> g\<close> shutting_same [OF assms(2)] in auto)
next
  case (enter i h rc Gs l)
  from enter(3) show ?thesis
  proof (cases rule: gate_enter_cases)
    case refused
    then show ?thesis using assms(2) enter(1) by simp
  next
    case (took G)
    show ?thesis
    proof (cases "h = g")
      case True
      then have "epoch < g_epoch G" using took(3,5) assms(2) by (auto simp: shutting_def)
      then show ?thesis using enter(1) took(7) True by (simp add: shutting_def)
    next
      case False
      then have "held S' g \<subseteq> held S g" using enter(1) took(8) by (auto simp: held_def split: if_split_asm)
      then show ?thesis using False enter(1) took(7) by (intro shutting_same [OF assms(2)]) simp_all
    qed
  qed
next
  case (leave i rc Gs l)
  from leave(2) show ?thesis
  proof (cases rule: lease_finish_cases)
    case refused
    then show ?thesis using assms(2) leave(1) by simp
  next
    case (took G)
    have "held S' g \<subseteq> held S g" using leave(1) took(8) by (auto simp: held_def split: if_split_asm)
    then show ?thesis using assms(2) leave(1) took(4,7) by (auto simp: shutting_def)
  qed
next
  case (close h r rc Gs r')
  from close(2) show ?thesis
    by (cases rule: gate_close_cases) (use assms(2) close(1) in \<open>auto simp: shutting_def\<close>)
next
  case (reset h r new rc Gs)
  from reset(2) show ?thesis
    by (cases rule: gate_reset_cases) (use assms(2) reset(1) in \<open>auto simp: shutting_def\<close>)
qed

lemma shutting_run: "gate_step\<^sup>*\<^sup>* S S' \<Longrightarrow> shutting g epoch holders S \<Longrightarrow> shutting g epoch holders S'"
  by (induction rule: rtranclp_induct) (auto intro: shutting_step)

text \<open>A sound gate that nobody holds is closed with a receipt, and the receipt opens a later epoch.\<close>

lemma idle_reopens:
  assumes "gates_sound S" and "gs_gates S g = Some G" and "held S g = {}"
  shows "\<exists>Gs. r4protocol_gate_close (gs_gates S) g (Some r) = Some (0, Gs, Some \<lparr>c_owner = g, c_epoch = g_epoch G\<rparr>) \<and>
    (\<forall>new l. g_epoch G < new \<longrightarrow> (\<exists>Gs' Gs''. r4protocol_gate_reset Gs g \<lparr>c_owner = g, c_epoch = g_epoch G\<rparr> new = Some (0, Gs') \<and>
      r4protocol_gate_enter Gs' g (Some l) = Some (0, Gs'', Some \<lparr>l_owner = g, l_epoch = new, l_held = 1\<rparr>)))"
proof -
  note g = gates_soundD(1) [OF assms(1,2), unfolded gate_sound_def]
  have idle: "g_active G = 0" using g assms(3) by (simp add: unat_eq_0)
  let ?Gs = "(gs_gates S)(g \<mapsto> G\<lparr>g_phase := 2\<rparr>)"
  have "r4protocol_gate_close (gs_gates S) g (Some r) = Some (0, ?Gs, Some \<lparr>c_owner = g, c_epoch = g_epoch G\<rparr>)"
    using g assms(2) idle by (simp add: r4protocol_gate_close_def)
  moreover have "\<exists>Gs' Gs''. r4protocol_gate_reset ?Gs g \<lparr>c_owner = g, c_epoch = g_epoch G\<rparr> new = Some (0, Gs') \<and>
      r4protocol_gate_enter Gs' g (Some l) = Some (0, Gs'', Some \<lparr>l_owner = g, l_epoch = new, l_held = 1\<rparr>)"
    if "g_epoch G < new" for new l
  proof -
    have "new \<noteq> 0" using that by auto
    then show ?thesis
      using that g idle by (simp add: r4protocol_gate_reset_def r4protocol_gate_init_def r4protocol_gate_enter_def not_le)
  qed
  ultimately show ?thesis by blast
qed

lemma close_shuts:
  assumes "gates_sound S" and "gs_gates S g = Some G"
  shows "\<exists>Gs q. r4protocol_gate_close (gs_gates S) g (Some r) = Some (if held S g = {} then 0 else GATE_BUSY, Gs, Some q) \<and>
    gates_sound (S\<lparr>gs_gates := Gs\<rparr>) \<and> shutting g (g_epoch G) (held S g) (S\<lparr>gs_gates := Gs\<rparr>) \<and>
    (\<exists>G'. Gs g = Some G' \<and> g_epoch G' = g_epoch G)"
proof -
  note g = gates_soundD(1) [OF assms, unfolded gate_sound_def]
  have active: "g_active G = 0 \<longleftrightarrow> held S g = {}" using g by (auto simp: card_gt_0_iff unat_eq_0 [symmetric])
  then obtain Gs q where run: "r4protocol_gate_close (gs_gates S) g (Some r) = Some (if held S g = {} then 0 else GATE_BUSY, Gs, Some q)"
    and Gs: "\<exists>G'. Gs g = Some G' \<and> g_epoch G' = g_epoch G \<and> g_phase G' \<noteq> 0"
    using g assms(2) by (cases "g_active G = 0") (auto simp: r4protocol_gate_close_def)
  have "gates_sound (S\<lparr>gs_gates := Gs\<rparr>)" using close_keeps [OF assms(1) run] by (auto simp: gates_sound_def gate_sound_def held_def)
  then show ?thesis using run Gs by (auto simp: shutting_def)
qed

text \<open>
  C23: No gate is stuck. In every reachable system, closing a gate reports busy exactly when leases hold it.
  From then on, in every state any run of calls reaches before the gate has a later epoch, the gate refuses
  every entry, is held by none but the leases that held it at the close, each of which finishes
  successfully, and once none does, a close hands out the receipt of its epoch, with which a reset to any
  later epoch opens the gate again. Such a state is reached by finishing the leases one after another, in any order.\<close>

theorem gate_drains_and_reopens:
  assumes "gate_step\<^sup>*\<^sup>* gate_start S" and "gs_gates S g = Some G"
  shows "\<exists>Gs q. r4protocol_gate_close (gs_gates S) g (Some r) = Some (if held S g = {} then 0 else GATE_BUSY, Gs, Some q) \<and>
    (\<forall>S' G'. gate_step\<^sup>*\<^sup>* (S\<lparr>gs_gates := Gs\<rparr>) S' \<longrightarrow> gs_gates S' g = Some G' \<longrightarrow> g_epoch G' \<le> g_epoch G \<longrightarrow>
      (\<forall>l. r4protocol_gate_enter (gs_gates S') g (Some l) = Some (GATE_CLOSED, gs_gates S', Some l)) \<and>
      held S' g \<subseteq> held S g \<and>
      (\<forall>i \<in> held S' g. \<exists>Gs' l. r4protocol_lease_finish (gs_gates S') (Some (gs_leases S' i)) = Some (0, Gs', Some l) \<and> l_held l = 0) \<and>
      (held S' g = {} \<longrightarrow> (\<forall>r. \<exists>Gs'. r4protocol_gate_close (gs_gates S') g (Some r) = Some (0, Gs', Some \<lparr>c_owner = g, c_epoch = g_epoch G\<rparr>) \<and>
        (\<forall>new l. g_epoch G < new \<longrightarrow> (\<exists>H H'. r4protocol_gate_reset Gs' g \<lparr>c_owner = g, c_epoch = g_epoch G\<rparr> new = Some (0, H) \<and>
          r4protocol_gate_enter H g (Some l) = Some (0, H', Some \<lparr>l_owner = g, l_epoch = new, l_held = 1\<rparr>)))))) \<and>
    (\<forall>is. distinct is \<longrightarrow> set is = held S g \<longrightarrow> (\<exists>S' G'. finish_all (S\<lparr>gs_gates := Gs\<rparr>) is = Some S' \<and>
      gate_step\<^sup>*\<^sup>* (S\<lparr>gs_gates := Gs\<rparr>) S' \<and> held S' g = {} \<and> gs_gates S' g = Some G' \<and> g_epoch G' = g_epoch G))"
proof -
  have "gates_sound S" by (rule reachable_sound [OF assms(1)])
  from close_shuts [OF this assms(2)] obtain Gs q G1 where
    run: "r4protocol_gate_close (gs_gates S) g (Some r) = Some (if held S g = {} then 0 else GATE_BUSY, Gs, Some q)" and
    sound: "gates_sound (S\<lparr>gs_gates := Gs\<rparr>)" and shut: "shutting g (g_epoch G) (held S g) (S\<lparr>gs_gates := Gs\<rparr>)" and
    G1: "Gs g = Some G1" "g_epoch G1 = g_epoch G" by blast
  have "(\<forall>l. r4protocol_gate_enter (gs_gates S') g (Some l) = Some (GATE_CLOSED, gs_gates S', Some l)) \<and> held S' g \<subseteq> held S g \<and>
      (\<forall>i \<in> held S' g. \<exists>Gs' l. r4protocol_lease_finish (gs_gates S') (Some (gs_leases S' i)) = Some (0, Gs', Some l) \<and> l_held l = 0) \<and>
      (held S' g = {} \<longrightarrow> (\<forall>r. \<exists>Gs'. r4protocol_gate_close (gs_gates S') g (Some r) = Some (0, Gs', Some \<lparr>c_owner = g, c_epoch = g_epoch G\<rparr>) \<and>
        (\<forall>new l. g_epoch G < new \<longrightarrow> (\<exists>H H'. r4protocol_gate_reset Gs' g \<lparr>c_owner = g, c_epoch = g_epoch G\<rparr> new = Some (0, H) \<and>
          r4protocol_gate_enter H g (Some l) = Some (0, H', Some \<lparr>l_owner = g, l_epoch = new, l_held = 1\<rparr>)))))"
    if steps: "gate_step\<^sup>*\<^sup>* (S\<lparr>gs_gates := Gs\<rparr>) S'" and G': "gs_gates S' g = Some G'" "g_epoch G' \<le> g_epoch G" for S' G'
  proof -
    have S': "gates_sound S'" by (rule gate_run_keeps [OF steps sound])
    have still: "g_epoch G' = g_epoch G" "g_phase G' \<noteq> 0" "held S' g \<subseteq> held S g"
      using shutting_run [OF steps shut] G' by (auto simp: shutting_def)
    note g = gates_soundD(1) [OF S' G'(1), unfolded gate_sound_def]
    show ?thesis using still g G'(1) held_finishes [OF S' _ G'(1)] idle_reopens [OF S' G'(1)]
      by (auto simp: r4protocol_gate_enter_def)
  qed
  moreover have "\<exists>S' G'. finish_all (S\<lparr>gs_gates := Gs\<rparr>) is = Some S' \<and> gate_step\<^sup>*\<^sup>* (S\<lparr>gs_gates := Gs\<rparr>) S' \<and> held S' g = {} \<and>
      gs_gates S' g = Some G' \<and> g_epoch G' = g_epoch G" if "distinct is" "set is = held S g" for "is"
    using finish_all_drains [OF sound, of g G1 "is"] that G1 finish_all_runs by simp blast
  ultimately show ?thesis using run by blast
qed

lemma ex_and3E: "\<exists>x y. A x y \<and> B x \<and> C x \<Longrightarrow> (\<And>x y. A x y \<Longrightarrow> B x \<Longrightarrow> C x \<Longrightarrow> P) \<Longrightarrow> P"
  by blast

theorem gate_drains_and_reopens_witness:
  "\<exists>Gs q S' Gs'. r4protocol_gate_close (gs_gates sample_gates) 0x10 (Some \<lparr>c_owner = 0, c_epoch = 0\<rparr>) = Some (GATE_BUSY, Gs, Some q) \<and>
    finish_all (sample_gates\<lparr>gs_gates := Gs\<rparr>) [0] = Some S' \<and> held S' 0x10 = {} \<and>
    r4protocol_gate_enter (gs_gates S') 0x10 (Some no_lease) = Some (GATE_CLOSED, gs_gates S', Some no_lease) \<and>
    r4protocol_gate_close (gs_gates S') 0x10 (Some q) = Some (0, Gs', Some \<lparr>c_owner = 0x10, c_epoch = 5\<rparr>)"
proof -
  let ?r = "\<lparr>c_owner = 0, c_epoch = 0\<rparr>"
  have at: "gs_gates sample_gates 0x10 = Some sample_gate" by (simp add: sample_gates_def)
  have epoch: "g_epoch sample_gate = 5" by (simp add: sample_gate_def)
  have one: "distinct [0 :: nat]" "set [0 :: nat] = held sample_gates 0x10" and some: "held sample_gates 0x10 \<noteq> {}" using sample_held by simp_all
  show ?thesis
    apply (rule ex_and3E [OF gate_drains_and_reopens [OF sample_gates_reached at, of ?r]])
    subgoal premises run for Gs q
    proof -
      obtain S' G' where S': "finish_all (sample_gates\<lparr>gs_gates := Gs\<rparr>) [0] = Some S'" "gate_step\<^sup>*\<^sup>* (sample_gates\<lparr>gs_gates := Gs\<rparr>) S'"
        "held S' 0x10 = {}" "gs_gates S' 0x10 = Some G'" "g_epoch G' = g_epoch sample_gate"
        using run(3) [rule_format, OF one] by (elim exE conjE)
      note there = run(2) [rule_format, OF S'(2,4), unfolded S'(5), OF order_refl]
      obtain Gs' where "r4protocol_gate_close (gs_gates S') 0x10 (Some q) = Some (0, Gs', Some \<lparr>c_owner = 0x10, c_epoch = 5\<rparr>)"
        using there [THEN conjunct2, THEN conjunct2, THEN conjunct2, rule_format, OF S'(3)] epoch by metis
      with run(1) some S'(1,3) there [THEN conjunct1, rule_format, of no_lease] show ?thesis by (simp only: if_False) metis
    qed
    done
qed

text \<open>The drained and closed sample gate: its receipt is a witness of quiescence.\<close>

definition sample_closed :: gate_system where
  "sample_closed = sample_gates\<lparr>gs_gates := (\<lambda>_. None)(0x10 \<mapsto> sample_gate\<lparr>g_active := 0, g_phase := 2\<rparr>),
     gs_leases := (gs_leases sample_gates)(0 := \<lparr>l_owner = 0x10, l_epoch = 5, l_held = 0\<rparr>),
     gs_receipts := {\<lparr>c_owner = 0x10, c_epoch = 5\<rparr>}\<rparr>"

lemma sample_closed_reached: "gate_step\<^sup>*\<^sup>* gate_start sample_closed"
proof -
  let ?l = "\<lparr>l_owner = 0x10, l_epoch = 5, l_held = 0\<rparr>" and ?G = "sample_gate\<lparr>g_active := 0\<rparr>"
  let ?S = "sample_gates\<lparr>gs_gates := (gs_gates sample_gates)(0x10 \<mapsto> ?G), gs_leases := (gs_leases sample_gates)(0 := ?l)\<rparr>"
  let ?r = "\<lparr>c_owner = 0x10, c_epoch = 5\<rparr>"
  have "gate_step sample_gates ?S"
    by (rule gate_step.leave [where i = 0]) (simp add: r4protocol_lease_finish_def sample_gates_def sample_gate_def)
  moreover have "gate_step ?S (?S\<lparr>gs_gates := (gs_gates ?S)(0x10 \<mapsto> ?G\<lparr>g_phase := 2\<rparr>),
      gs_receipts := (if (0 :: i32) = 0 then {?r} else {}) \<union> gs_receipts ?S\<rparr>)"
    by (rule gate_step.close [where g = "0x10" and r = ?r]) (simp add: r4protocol_gate_close_def sample_gates_def sample_gate_def)
  moreover have "?S\<lparr>gs_gates := (gs_gates ?S)(0x10 \<mapsto> ?G\<lparr>g_phase := 2\<rparr>), gs_receipts := (if (0 :: i32) = 0 then {?r} else {}) \<union> gs_receipts ?S\<rparr> = sample_closed"
    by (simp add: sample_closed_def sample_gates_def)
  ultimately show ?thesis using sample_gates_reached by (metis rtranclp.rtrancl_into_rtrancl)
qed

theorem receipt_means_quiescent_witness:
  "\<lparr>c_owner = 0x10, c_epoch = 5\<rparr> \<in> gs_receipts sample_closed \<and> \<not> (l_held (gs_leases sample_closed 0) \<noteq> 0 \<and>
    l_owner (gs_leases sample_closed 0) = 0x10 \<and> l_epoch (gs_leases sample_closed 0) = 5)"
proof -
  have r: "\<lparr>c_owner = 0x10, c_epoch = 5\<rparr> \<in> gs_receipts sample_closed" by (simp add: sample_closed_def)
  from receipt_means_quiescent [OF sample_closed_reached r rtranclp.rtrancl_refl, of 0] r show ?thesis by simp
qed

end
