(* ===== verification/FlatMemory.thy ===== *)
theory FlatMemory
  imports Handles
begin

text \<open>
  Memories written as lists of objects, so that the run of an operation on a concrete
  machine is a computation on byte lists: everything is mapped, later stores come first.
\<close>

primrec flat :: "(u64 \<times> bytes) list \<Rightarrow> memory" where
  "flat [] a = Some 0"
| "flat (ob # obs) a = (let i = unat (a - fst ob) in if i < length (snd ob) then Some (snd ob ! i) else flat obs a)"

lemma flat_mapped: "mapped (flat obs) a n"
proof -
  have "flat obs x \<noteq> None" for x by (induction obs) (simp_all add: Let_def)
  then show ?thesis by (simp add: mapped_def)
qed

lemma store_flat:
  assumes "length bs < 2 ^ 64"
  shows "store_bytes (flat obs) a bs = Some (flat ((a, bs) # obs))"
proof -
  obtain M' where M': "store_bytes (flat obs) a bs = Some M'" using store_bytes_mapped flat_mapped by blast
  have "M' x = flat ((a, bs) # obs) x" for x
  proof (cases "unat (x - a) < length bs")
    case False
    have "x \<noteq> a + word_of_nat i" if "i < length bs" for i
      using that False assms by (auto simp: unsigned_of_nat take_bit_nat_eq_self)
    then have "M' x = flat obs x" using store_bytes_keeps [OF M'] by blast
    then show ?thesis using False by (simp add: Let_def)
  next
    case True
    have "x = a + word_of_nat (unat (x - a))" by simp
    with store_bytes_hit [OF M' _ True] assms True show ?thesis by (simp add: Let_def)
  qed
  with M' show ?thesis by (simp add: fun_eq_iff)
qed

lemma flat_loadI:
  "length bs = n \<Longrightarrow> (\<And>i. i < n \<Longrightarrow> flat obs (a + word_of_nat i) = Some (bs ! i)) \<Longrightarrow> load_bytes (flat obs) a n = Some bs"
  using load_bytes_eqI [of bs "flat obs" a] by simp

lemma unat_step:
  assumes "unat (a :: u64) + n \<le> 2 ^ 64" and "i < n"
  shows "unat (a + word_of_nat i) = unat a + i"
proof -
  have "i < 2 ^ 64" using assms by simp
  then have "unat (word_of_nat i :: u64) = i" by (simp add: unsigned_of_nat take_bit_nat_eq_self)
  then show ?thesis using assms by (subst unat_add_fit) simp_all
qed

lemma load_flat_hit:
  assumes "unat b \<le> unat a" and "unat a + n \<le> unat b + length bs" and "unat b + length bs \<le> 2 ^ 64"
  shows "load_bytes (flat ((b, bs) # obs)) a n = Some (take n (drop (unat a - unat b) bs))"
proof (rule flat_loadI)
  fix i assume i: "i < n"
  then have u: "unat (a + word_of_nat i) = unat a + i" using assms unat_step [of a n i] by simp
  then have "unat (a + word_of_nat i - b) = unat a + i - unat b"
    using assms(1) by (subst unat_sub) (simp_all add: word_le_nat_alt)
  moreover have "unat a + i - unat b < length bs" "unat a + i - unat b = unat a - unat b + i" using i assms(1,2) by simp_all
  ultimately show "flat ((b, bs) # obs) (a + word_of_nat i) = Some (take n (drop (unat a - unat b) bs) ! i)"
    using i assms(2) by (simp add: Let_def)
qed (use assms in simp)

lemma load_flat_miss:
  assumes "unat a + n \<le> unat b \<or> unat b + length bs \<le> unat a" and "unat a + n \<le> 2 ^ 64" and "unat b + length bs \<le> 2 ^ 64"
  shows "load_bytes (flat ((b, bs) # obs)) a n = load_bytes (flat obs) a n"
proof -
  obtain cs where cs: "load_bytes (flat obs) a n = Some cs"
    using flat_mapped [of obs a n] load_bytes_mapped [of "flat obs" a n] by auto
  have "load_bytes (flat ((b, bs) # obs)) a n = Some cs"
  proof (rule flat_loadI [OF length_load_bytes [OF cs]])
    fix i assume i: "i < n"
    have u: "unat (a + word_of_nat i) = unat a + i" by (rule unat_step [OF assms(2) i])
    have "\<not> unat (a + word_of_nat i - b) < length bs"
    proof (cases "unat b \<le> unat a + i")
      case True
      then have "unat (a + word_of_nat i - b) = unat a + i - unat b"
        using u by (subst unat_sub) (simp_all add: word_le_nat_alt)
      then show ?thesis using True assms(1) i by auto
    next
      case False
      have "unat (a + word_of_nat i - b) = 2 ^ 64 + (unat a + i) - unat b"
        using False unat_sub_if_size [of "a + word_of_nat i" b] u
        by (simp add: word_le_nat_alt word_size)
      then show ?thesis using False assms(3) by simp
    qed
    then show "flat ((b, bs) # obs) (a + word_of_nat i) = Some (cs ! i)"
      using load_bytes_nth [OF cs i] by (simp add: Let_def)
  qed
  with cs show ?thesis by simp
qed

lemma load_flat_zero: "load_bytes (flat []) a n = Some (replicate n 0)"
  by (rule flat_loadI) simp_all

lemmas flat_simps = store_flat load_flat_hit load_flat_miss load_flat_zero

text \<open>
  Running a step: a continuation is entered only once its argument is known, so the
  congruences keep it as it is until then.
\<close>

lemma run_steps:
  "give x s = Some (x, s)"
  "p s = Some (x, s1) \<Longrightarrow> and_then p k s = k x s1"
  "q (m_mem s) = Some True \<Longrightarrow> ask q k' s = k' True s"
  "q (m_mem s) = Some False \<Longrightarrow> ask q k' s = k' False s"
  by (simp_all add: give_def and_then_def ask_def)

lemma run_stores:
  "m_mem s = flat obs \<Longrightarrow> length bs < 2 ^ 64 \<Longrightarrow> Platform.store a bs s = Some ((), s\<lparr>m_mem := flat ((a, bs) # obs)\<rparr>)"
  by (simp add: Platform.store_def store_flat)

lemma run_congs:
  "p = p' \<Longrightarrow> s = s' \<Longrightarrow> and_then p k s = and_then p' k s'"
  "q = q' \<Longrightarrow> s = s' \<Longrightarrow> ask q k' s = ask q' k' s'"
  by simp_all

lemmas run_tests = sure_def q_not_def q_and_def q_or_def covers_def filled_def tail_slot_def has_slot_def has_callback_def has_field_def
  load_u32_def load_u64_def size_sub_def

lemmas run_objects = load_obj_def clear_obj_def put_header_def put_member_def sizeof_def obj_word_def call_slot_def call_fn_def

end
