(* ===== verification/ServiceClient.thy ===== *)
theory ServiceClient
  imports Services FlatMemory
begin

text \<open>
  What the clients of named services share (\<open>power_profiles.h\<close>, \<open>desktop_evidence.h\<close>,
  \<open>desktop_actions.h\<close>, \<open>desktop_links.h\<close>): members of contract objects at any width, copies
  between objects in memory, and the exchange they all make: open the service by name, call
  it once, close the connection.
\<close>

subsection \<open>Members and copies\<close>

text \<open>An unsigned member is read at its own length and widened.\<close>

abbreviation field :: "'w platform \<Rightarrow> string \<Rightarrow> string \<Rightarrow> bytes \<Rightarrow> u64" where
  "field E T m v \<equiv> obj_word E T m v"

text \<open>Element \<open>i\<close> of an array of 64-bit words.\<close>

definition array_word :: "bytes \<Rightarrow> nat \<Rightarrow> u64" where
  "array_word bs i = le_word (take 8 (drop (8 * i) bs))"

definition member_at :: "'w platform \<Rightarrow> u64 \<Rightarrow> string \<Rightarrow> string \<Rightarrow> u64" where
  "member_at E a T m = a + word_of_nat (p_off E T m)"

definition load_range :: "u64 \<Rightarrow> nat \<Rightarrow> (bytes, 'w) io" where
  "load_range a n s = map_option (\<lambda>bs. (bs, s)) (load_bytes (m_mem s) a n)"

definition copy_range :: "u64 \<Rightarrow> u64 \<Rightarrow> nat \<Rightarrow> (unit, 'w) io" where
  "copy_range dst src n = and_then (load_range src n) (Platform.store dst)"

text \<open>\<open>dst->m = src->m\<close>\<close>

definition copy_member :: "'w platform \<Rightarrow> string \<Rightarrow> string \<Rightarrow> u64 \<Rightarrow> u64 \<Rightarrow> (unit, 'w) io" where
  "copy_member E T m dst src = copy_range (member_at E dst T m) (member_at E src T m) (p_len E T m)"

text \<open>\<open>dst[i] = src[i]\<close> for an array of 64-bit words.\<close>

definition copy_word :: "u64 \<Rightarrow> u64 \<Rightarrow> nat \<Rightarrow> (unit, 'w) io" where
  "copy_word dst src i = copy_range (dst + word_of_nat (8 * i)) (src + word_of_nat (8 * i)) 8"

primrec each :: "('b \<Rightarrow> (unit, 'w) io) \<Rightarrow> 'b list \<Rightarrow> (unit, 'w) io" where
  "each f [] = give ()"
| "each f (x # xs) = and_then (f x) (\<lambda>_. each f xs)"

subsection \<open>Process handles\<close>

definition same_process :: "'w platform \<Rightarrow> bytes \<Rightarrow> bytes \<Rightarrow> bool" where
  "same_process E a b \<longleftrightarrow> (\<forall>m \<in> set [''instance_id'', ''reserved'', ''generation''].
     field E ''R4ProgramProcessHandle'' m a = field E ''R4ProgramProcessHandle'' m b)"

definition valid_process :: "'w platform \<Rightarrow> bytes \<Rightarrow> bool" where
  "valid_process E p \<longleftrightarrow> field E ''R4ProgramProcessHandle'' ''instance_id'' p \<noteq> 0 \<and>
     field E ''R4ProgramProcessHandle'' ''reserved'' p = 0 \<and> field E ''R4ProgramProcessHandle'' ''generation'' p \<noteq> 0"

definition same_words :: "bytes \<Rightarrow> bytes \<Rightarrow> bool" where
  "same_words a b \<longleftrightarrow> array_word a 0 = array_word b 0 \<and> array_word a 1 = array_word b 1 \<and> array_word a 2 = array_word b 2"

definition any_word :: "bytes \<Rightarrow> bool" where
  "any_word a \<longleftrightarrow> array_word a 0 OR array_word a 1 OR array_word a 2 \<noteq> 0"

lemma same_process_refl [simp]: "same_process E a a"
  by (simp add: same_process_def)

lemma same_words_refl [simp]: "same_words a a"
  by (simp add: same_words_def)

lemma same_process_trans: "same_process E a b \<Longrightarrow> same_process E b c \<Longrightarrow> same_process E a c"
  by (simp add: same_process_def)

lemma same_process_valid: "same_process E a b \<Longrightarrow> valid_process E a = valid_process E b"
  by (simp add: same_process_def valid_process_def)

subsection \<open>The exchange\<close>

text \<open>
  \<open>Inl rc\<close>: the code the caller returns. The connection is closed whatever the call
  reported, and its own result is dropped.
\<close>

definition exchange_result :: "'w platform \<Rightarrow> service_call_result \<Rightarrow> i32 + service_call_result" where
  "exchange_result E result =
     (if sc_kind result = CALL_TIMED_OUT then Inl (code E ''R4OS_SERVICE_API_RESULT_TIMEOUT'')
      else if sc_kind result \<noteq> CALL_RESPONSE then Inl (sc_raw_code result)
      else Inr result)"

definition service_exchange ::
  "'w platform \<Rightarrow> time_codes \<Rightarrow> r4_app option \<Rightarrow> u64 \<Rightarrow> u16 \<Rightarrow> u64 \<Rightarrow> u32 \<Rightarrow> u64 \<Rightarrow> u32 \<Rightarrow> r4_timeout \<Rightarrow>
    (i32 + service_call_result, 'w) io" where
  "service_exchange E K app name op_code request request_len response capacity timeout =
     and_then (r4_services_open E (Some (r4_app_services app)) name (Some (link_zero E))) (\<lambda>(rc, c).
       if rc \<noteq> 0 then give (Inl rc)
       else and_then (r4_service_connection_call E K c op_code request request_len response capacity timeout) (\<lambda>(result, c).
         and_then (r4_service_connection_close E c) (\<lambda>_. give (exchange_result E result))))"

lemma exchange_response:
  "service_exchange E K app name op_code rq rl rs cap t s = Some (Inr result, s') \<Longrightarrow> sc_kind result = CALL_RESPONSE"
  by (auto simp: service_exchange_def exchange_result_def io_steps split: if_splits prod.splits)

text \<open>The codes the header's own branches return are errors, and success is zero.\<close>

definition service_codes :: "'w platform \<Rightarrow> bool" where
  "service_codes E \<longleftrightarrow> code E ''R4OS_SERVICE_API_RESULT_OK'' = 0 \<and> code E ''R4OS_SERVICE_API_RESULT_TIMEOUT'' \<noteq> 0 \<and>
     code E ''R4OS_SERVICE_API_RESULT_INVALID'' \<noteq> 0 \<and> code E ''R4OS_ERR_CLOSED'' \<noteq> 0 \<and> code E ''R4OS_ERR_NO_FN'' \<noteq> 0"

lemma classify_nonzero:
  assumes "service_codes E" and "sc_kind (fst (classify_call E raw header l)) \<noteq> CALL_RESPONSE"
    and "sc_kind (fst (classify_call E raw header l)) \<noteq> CALL_TIMED_OUT"
  shows "sc_raw_code (fst (classify_call E raw header l)) \<noteq> 0"
  using assms by (auto simp: classify_call_def call_failed_def service_codes_def Let_def split: if_splits)

lemma call_nonzero:
  assumes "service_codes E" and "r4_service_connection_call E K c op_code rq rl rs cap t s = Some ((r, c'), s')"
    and "sc_kind r \<noteq> CALL_RESPONSE" and "sc_kind r \<noteq> CALL_TIMED_OUT"
  shows "sc_raw_code r \<noteq> 0"
proof -
  have ticks: "sc_raw_code r \<noteq> 0"
    if "r4_service_connection_call_ticks E c op_code rq rl rs cap n s1 = Some ((r, c'), s')" for n s1
  proof -
    from that consider (early) x where "r = call_failed E x" "x \<in> set [code E ''R4OS_ERR_CLOSED'', code E ''R4OS_SERVICE_API_RESULT_INVALID'', code E ''R4OS_ERR_NO_FN'']"
      | (called) raw header l where "apsnd Some (classify_call E raw header l) = (r, c')"
      by (cases c) (simp_all add: r4_service_connection_call_ticks_def and_then_Some_iff ask_Some_iff give_def split: if_split_asm, blast+)
    then show ?thesis
    proof cases
      case called
      then show ?thesis using classify_nonzero [OF assms(1)] assms(3,4) by (simp add: apsnd_Some_eq)
    qed (use assms(1) in \<open>auto simp: call_failed_def service_codes_def\<close>)
  qed
  from assms(2) consider (early) x where "r = call_failed E x" "x \<in> set [code E ''R4OS_ERR_CLOSED'', code E ''R4OS_SERVICE_API_RESULT_INVALID'', code E ''R4OS_ERR_NO_FN'']"
    | (called) n s1 where "r4_service_connection_call_ticks E c op_code rq rl rs cap n s1 = Some ((r, c'), s')"
    by (cases c) (auto simp: r4_service_connection_call_def io_steps split: if_splits option.splits)
  then show ?thesis
  proof cases
    case early
    then show ?thesis using assms(1) by (auto simp: call_failed_def service_codes_def)
  qed (rule ticks)
qed

lemma exchange_refused:
  assumes "service_codes E" and "service_exchange E K app name op_code rq rl rs cap t s = Some (Inl rc, s')"
  shows "rc \<noteq> 0"
proof -
  from assms(2) consider "rc \<noteq> 0"
    | r c c' s1 s2 where "r4_service_connection_call E K c op_code rq rl rs cap t s1 = Some ((r, c'), s2)" "exchange_result E r = Inl rc"
    unfolding service_exchange_def by (auto simp: and_then_Some_iff give_def split: if_split_asm)
  then show ?thesis
  proof cases
    case 2
    then show ?thesis using call_nonzero [OF assms(1) 2(1)] assms(1)
      by (auto simp: exchange_result_def service_codes_def split: if_splits)
  qed
qed

lemma exchange_then:
  assumes "service_codes E"
    and "and_then (service_exchange E K app name op_code rq rl rs cap t) (\<lambda>r. case r of Inl rc \<Rightarrow> give rc | Inr result \<Rightarrow> k result) s = Some (0, s')"
  shows "\<exists>result s1. service_exchange E K app name op_code rq rl rs cap t s = Some (Inr result, s1) \<and> k result s1 = Some (0, s')"
proof -
  from assms(2) obtain r s1 where ex: "service_exchange E K app name op_code rq rl rs cap t s = Some (r, s1)"
    and k: "(case r of Inl rc \<Rightarrow> give rc | Inr result \<Rightarrow> k result) s1 = Some (0, s')"
    unfolding and_then_Some_iff by blast
  show ?thesis
  proof (cases r)
    case (Inl rc)
    then show ?thesis using k exchange_refused [OF assms(1) ex [unfolded Inl]] by (simp add: give_def)
  next
    case (Inr result)
    then show ?thesis using ex k by simp
  qed
qed

subsection \<open>A sample service\<close>

text \<open>
  A platform with one service: \<open>layout\<close> gives the members of each type with their lengths;
  the table has the three service slots and no clock. The service is instance 9, handle 7,
  and answers every call with the bytes of the platform's state.
\<close>

fun layout_off :: "(string \<times> nat) list \<Rightarrow> string \<Rightarrow> nat" where
  "layout_off [] m = 0"
| "layout_off ((x, n) # xs) m = (if x = m then 0 else n + layout_off xs m)"

fun layout_len :: "(string \<times> nat) list \<Rightarrow> string \<Rightarrow> nat" where
  "layout_len [] m = 0"
| "layout_len ((x, n) # xs) m = (if x = m then n else layout_len xs m)"

definition service_layout :: "string \<Rightarrow> (string \<times> nat) list" where
  "service_layout T =
     (if T = ''R4Sys'' then [(''head'', 16), (''service_open'', 8), (''service_call'', 8), (''service_close'', 8), (''monotonic_clock'', 8)]
      else if T = ''R4ServiceInfo'' then [(''handle'', 1), (''instance_id'', 1)]
      else if T = ''R4ServiceMessageHeader'' then [(''status'', 1), (''op'', 1)]
      else if T = ''R4ProgramProcessHandle'' then [(''instance_id'', 1), (''reserved'', 1), (''generation'', 1)] else [])"

definition service_run :: "u64 \<Rightarrow> u64 list \<Rightarrow> memory \<Rightarrow> bytes \<Rightarrow> u64 \<times> memory \<times> bytes" where
  "service_run f args M reply =
     (if f = 1 then (0, the (store_bytes M (args ! 1) [7, 9]), reply)
      else if f = 2 then (word_of_nat (length reply), the (store_bytes M (args ! 5) reply), reply)
      else (0, M, reply))"

definition service_local :: "string \<Rightarrow> u64" where
  "service_local x = (if x = ''info'' then 0x2000 else if x = ''header'' then 0x2100 else if x = ''request'' then 0x3000
     else if x = ''bytes'' then 0x4000 else 0x5000)"

definition service_code :: "string \<Rightarrow> u32" where
  "service_code x = (if x = ''R4OS_SERVICE_API_MAX_PAYLOAD'' then 64 else if x = ''R4OS_SERVICE_API_RESULT_OK'' then 0 else - 5)"

definition service_platform :: "(string \<Rightarrow> (string \<times> nat) list) \<Rightarrow> (string \<Rightarrow> u32) \<Rightarrow> bytes platform" where
  "service_platform layout codes =
     (let lay = (\<lambda>T. if layout T \<noteq> [] then layout T else service_layout T) in
      \<lparr>p_off = (\<lambda>T. layout_off (lay T)), p_len = (\<lambda>T. layout_len (lay T)), p_size = (\<lambda>T. sum_list (List.map snd (lay T))),
       p_code = (\<lambda>x. if codes x \<noteq> 0 then codes x else service_code x), p_frame = 0x6000, p_local = service_local, p_run = service_run\<rparr>)"

lemma service_platform_simps [simp]:
  "p_off (service_platform layout codes) T m = layout_off (if layout T \<noteq> [] then layout T else service_layout T) m"
  "p_len (service_platform layout codes) T m = layout_len (if layout T \<noteq> [] then layout T else service_layout T) m"
  "p_size (service_platform layout codes) T = sum_list (List.map snd (if layout T \<noteq> [] then layout T else service_layout T))"
  "p_code (service_platform layout codes) x = (if codes x \<noteq> 0 then codes x else service_code x)"
  "p_local (service_platform layout codes) = service_local"
  "p_run (service_platform layout codes) = service_run"
  by (simp_all add: service_platform_def)

definition service_table :: bytes where
  "service_table = [0, 0, 0, 0, 1, 0, 0, 0, 40, 0, 0, 0, 0, 0, 0, 0, 1, 0, 0, 0, 0, 0, 0, 0, 2, 0, 0, 0, 0, 0, 0, 0, 3, 0, 0, 0, 0, 0, 0, 0]"

definition service_app :: r4_app where
  "service_app = zero_app\<lparr>a_system := \<lparr>h_table = 0x1000, h_ctx = None\<rparr>\<rparr>"

definition service_start :: "bytes \<Rightarrow> bytes machine" where
  "service_start reply = \<lparr>m_mem = flat [(0x1000, service_table)], m_calls = [], m_os = reply\<rparr>"

definition poll_timeout :: r4_timeout where
  "poll_timeout = \<lparr>timeout_kind = 0, timeout_ns = 0\<rparr>"

lemmas service_eval = service_layout_def service_code_def service_local_def service_table_def service_run_def service_app_def
  service_start_def zero_app_def flat_simps run_steps run_stores run_tests run_objects app_sys_def

lemmas exchange_eval = r4_services_open_def bind_link_def services_app_def r4_app_services_def link_zero_def
  r4_service_connection_call_def r4_service_connection_call_struct_def r4_service_connection_call_ticks_def
  r4_services_monotonic_hz_def r4_service_connection_valid_def payload_bad_def timeout_ticks_def r4_timeout_to_ticks_def
  r4_service_connection_close_def release_link_def classify_call_def call_failed_def gone_def drop_if_def
  exchange_result_def poll_timeout_def

end
