(* ===== verification/PowerProfiles.thy ===== *)
theory PowerProfiles
  imports ServiceClient
begin

text \<open>
  \<open>Shared/C/include/r4os/power_profiles.h\<close>: the client of the power service. It keeps the
  last information the service gave, and accepts new information only from the same instance
  and generation and of no earlier revision.
\<close>

subsection \<open>State\<close>

record power_profiles =
  pp_services :: r4_services
  pp_info :: bytes

abbreviation info_word :: "'w platform \<Rightarrow> string \<Rightarrow> bytes \<Rightarrow> u64" where
  "info_word E m v \<equiv> field E ''R4PowerProfileInfo'' m v"

definition cpu_mask :: "u64 \<Rightarrow> u64" where
  "cpu_mask cpus = (if cpus = 64 then UINT64_MAX else push_bit (unat cpus) 1 - 1)"

definition r4_power_profile_info_valid :: "'w platform \<Rightarrow> bytes option \<Rightarrow> bool" where
  "r4_power_profile_info_valid E info =
     (case info of
        None \<Rightarrow> False
      | Some v \<Rightarrow>
          if info_word E ''version'' v \<noteq> 1 \<or> info_word E ''size'' v \<noteq> sizeof E ''R4PowerProfileInfo'' \<or>
             info_word E ''reserved0'' v \<noteq> 0 \<or> info_word E ''service_generation'' v = 0 \<or>
             info_word E ''service_instance_id'' v = 0 \<or> info_word E ''revision'' v = 0 \<or>
             info_word E ''state'' v > ucast (p_code E ''R4OS_POWER_PROFILE_STATE_QUIESCED'') \<or>
             info_word E ''selected_profile'' v > ucast (p_code E ''R4OS_POWER_PROFILE_SAVING'') \<or>
             info_word E ''configured_cpus'' v = 0 \<or> info_word E ''configured_cpus'' v > 64 \<or>
             info_word E ''online_cpus'' v > info_word E ''configured_cpus'' v \<or>
             info_word E ''backend_cpus'' v > info_word E ''online_cpus'' v \<or>
             info_word E ''worker_count'' v > info_word E ''configured_cpus'' v
          then False
          else (info_word E ''owned_mask'' v OR info_word E ''applied_mask'' v OR info_word E ''pending_mask'' v OR
                info_word E ''supported_mask'' v) AND NOT (cpu_mask (info_word E ''configured_cpus'' v)) = 0)"

subsection \<open>The call\<close>

text \<open>The request is a local object; the members not named are zero.\<close>

definition put_request :: "'w platform \<Rightarrow> (string \<times> u64) list \<Rightarrow> (unit, 'w) io" where
  "put_request E members =
     and_then (clear_obj E (p_local E ''request'') ''R4PowerProfileRequest'') (\<lambda>_.
     and_then (put_header E (p_local E ''request'') ''R4PowerProfileRequest'' 1 (sizeof E ''R4PowerProfileRequest'')) (\<lambda>_.
       each (\<lambda>(m, v). put_member E (p_local E ''request'') ''R4PowerProfileRequest'' m v) members))"

text \<open>
  The exchange of this client differs from the plain one: between open and call it may
  refuse the peer. \<open>T\<close> is the reply's type; \<open>Inr (instance, value)\<close> is a complete reply.
\<close>

definition power_exchange ::
  "'w platform \<Rightarrow> time_codes \<Rightarrow> r4_services \<Rightarrow> (bytes \<Rightarrow> bool) \<Rightarrow> u16 \<Rightarrow> (string \<times> u64) list \<Rightarrow> string \<Rightarrow> r4_timeout \<Rightarrow>
    (i32 + u32 \<times> bytes, 'w) io" where
  "power_exchange E K services wrong_peer op_code members T timeout =
     and_then (r4_services_open E (Some services) (p_local E ''POWERSVC'') (Some (link_zero E))) (\<lambda>(rc, c).
       if rc \<noteq> code E ''R4OS_SERVICE_API_RESULT_OK'' then give (Inl rc)
       else let info = (case c of Some l \<Rightarrow> sl_info l | None \<Rightarrow> []);
                peer = obj_word E ''R4ServiceInfo'' ''instance_id'' info :: u32 in
         if wrong_peer info
         then and_then (r4_service_connection_close E c) (\<lambda>_. give (Inl (code E ''R4OS_SERVICE_API_RESULT_NOT_RUNNING'')))
         else and_then (put_request E members) (\<lambda>_.
              and_then (clear_obj E (p_local E ''value'') T) (\<lambda>_.
              and_then (r4_service_connection_call_struct E K c op_code (p_local E ''request'') (ucast (sizeof E ''R4PowerProfileRequest''))
                  (p_local E ''value'') (ucast (sizeof E T)) timeout) (\<lambda>(result, c).
              and_then (r4_service_connection_close E c) (\<lambda>_.
              and_then (load_obj E (p_local E ''value'') T) (\<lambda>value.
                give (case exchange_result E result of Inl rc \<Rightarrow> Inl rc | Inr _ \<Rightarrow> Inr (peer, value))))))))"

text \<open>\<open>client->info.service_generation && ...\<close>: the client already follows an incarnation.\<close>

definition follows :: "'w platform \<Rightarrow> power_profiles \<Rightarrow> bool" where
  "follows E client \<longleftrightarrow> info_word E ''service_generation'' (pp_info client) \<noteq> 0"

definition other_instance :: "'w platform \<Rightarrow> power_profiles \<Rightarrow> bytes \<Rightarrow> bool" where
  "other_instance E client peer_info \<longleftrightarrow>
     info_word E ''service_instance_id'' (pp_info client) \<noteq> field E ''R4ServiceInfo'' ''instance_id'' peer_info"

definition info_refused :: "'w platform \<Rightarrow> power_profiles \<Rightarrow> u32 \<Rightarrow> bytes \<Rightarrow> bool" where
  "info_refused E client peer value \<longleftrightarrow>
     \<not> r4_power_profile_info_valid E (Some value) \<or> info_word E ''service_instance_id'' value \<noteq> ucast peer \<or>
     (follows E client \<and>
        (info_word E ''service_generation'' value \<noteq> info_word E ''service_generation'' (pp_info client) \<or>
         info_word E ''revision'' value < info_word E ''revision'' (pp_info client)))"

definition power_publish ::
  "'w platform \<Rightarrow> power_profiles \<Rightarrow> u64 \<Rightarrow> i32 + u32 \<times> bytes \<Rightarrow> (i32 \<times> power_profiles option, 'w) io" where
  "power_publish E c out reply =
     (case reply of
        Inl rc \<Rightarrow> give (rc, Some c)
      | Inr (peer, v) \<Rightarrow>
          if info_refused E c peer v then give (code E ''R4OS_SERVICE_API_RESULT_INVALID'', Some c)
          else and_then (Platform.store out v) (\<lambda>_.
            give (code E ''R4OS_SERVICE_API_RESULT_OK'', Some (c\<lparr>pp_info := v\<rparr>))))"

definition r4_power_profiles_call ::
  "'w platform \<Rightarrow> time_codes \<Rightarrow> power_profiles option \<Rightarrow> u16 \<Rightarrow> u32 \<Rightarrow> u32 \<Rightarrow> u64 \<Rightarrow> r4_timeout \<Rightarrow>
    (i32 \<times> power_profiles option, 'w) io" where
  "r4_power_profiles_call E K client op_code profile flags out timeout =
     (case client of
        None \<Rightarrow> give (code E ''R4OS_SERVICE_API_RESULT_INVALID'', None)
      | Some c \<Rightarrow>
          if out = 0 \<or> (op_code \<noteq> ucast (p_code E ''R4OS_POWER_PROFILE_OP_STATUS'') \<and> \<not> follows E c)
          then give (code E ''R4OS_SERVICE_API_RESULT_INVALID'', client)
          else and_then (power_exchange E K (pp_services c) (\<lambda>peer. follows E c \<and> other_instance E c peer) op_code
              [(''profile'', ucast profile), (''flags'', ucast flags),
               (''expected_service_generation'', info_word E ''service_generation'' (pp_info c)),
               (''expected_revision'', if op_code = ucast (p_code E ''R4OS_POWER_PROFILE_OP_STATUS'') then 0
                                      else info_word E ''revision'' (pp_info c))]
              ''R4PowerProfileInfo'' timeout) (power_publish E c out))"

text \<open>The argument \<open>out\<close> of the call below is a local of \<open>open\<close>, like the client it fills.\<close>

definition r4_power_profiles_open ::
  "'w platform \<Rightarrow> time_codes \<Rightarrow> r4_app option \<Rightarrow> power_profiles option \<Rightarrow> r4_timeout \<Rightarrow> (i32 \<times> power_profiles option, 'w) io" where
  "r4_power_profiles_open E K app out timeout =
     (if app = None \<or> out = None then give (code E ''R4OS_SERVICE_API_RESULT_INVALID'', out)
      else and_then (clear_obj E (p_local E ''info_out'') ''R4PowerProfileInfo'') (\<lambda>_.
        and_then (r4_power_profiles_call E K
            (Some \<lparr>pp_services = \<lparr>sv_app = app\<rparr>, pp_info = zero_obj E ''R4PowerProfileInfo''\<rparr>)
            (ucast (p_code E ''R4OS_POWER_PROFILE_OP_STATUS'')) 0 0 (p_local E ''info_out'') timeout) (\<lambda>(rc, value).
          give (rc, if rc = code E ''R4OS_SERVICE_API_RESULT_OK'' then value else out))))"

definition r4_power_profiles_status ::
  "'w platform \<Rightarrow> time_codes \<Rightarrow> power_profiles option \<Rightarrow> u64 \<Rightarrow> r4_timeout \<Rightarrow> (i32 \<times> power_profiles option, 'w) io" where
  "r4_power_profiles_status E K client out timeout =
     r4_power_profiles_call E K client (ucast (p_code E ''R4OS_POWER_PROFILE_OP_STATUS'')) 0 0 out timeout"

definition r4_power_profiles_select ::
  "'w platform \<Rightarrow> time_codes \<Rightarrow> power_profiles option \<Rightarrow> u32 \<Rightarrow> bool \<Rightarrow> u64 \<Rightarrow> r4_timeout \<Rightarrow>
    (i32 \<times> power_profiles option, 'w) io" where
  "r4_power_profiles_select E K client profile sticky_enable out timeout =
     (if profile > p_code E ''R4OS_POWER_PROFILE_SAVING'' \<or>
         (profile = p_code E ''R4OS_POWER_PROFILE_FIRMWARE'' \<and> sticky_enable)
      then give (code E ''R4OS_SERVICE_API_RESULT_INVALID'', client)
      else r4_power_profiles_call E K client (ucast (p_code E ''R4OS_POWER_PROFILE_OP_SELECT'')) profile
        (if sticky_enable then p_code E ''R4OS_POWER_PROFILE_REQUEST_FLAG_STICKY_ENABLE'' else 0) out timeout)"

definition r4_power_profiles_quiesce ::
  "'w platform \<Rightarrow> time_codes \<Rightarrow> power_profiles option \<Rightarrow> u64 \<Rightarrow> r4_timeout \<Rightarrow> (i32 \<times> power_profiles option, 'w) io" where
  "r4_power_profiles_quiesce E K client out timeout =
     r4_power_profiles_call E K client (ucast (p_code E ''R4OS_POWER_PROFILE_OP_QUIESCE'')) 0 0 out timeout"

definition r4_power_profiles_resume ::
  "'w platform \<Rightarrow> time_codes \<Rightarrow> power_profiles option \<Rightarrow> u64 \<Rightarrow> r4_timeout \<Rightarrow> (i32 \<times> power_profiles option, 'w) io" where
  "r4_power_profiles_resume E K client out timeout =
     r4_power_profiles_call E K client (ucast (p_code E ''R4OS_POWER_PROFILE_OP_RESUME'')) 0 0 out timeout"

definition r4_power_profiles_reload ::
  "'w platform \<Rightarrow> time_codes \<Rightarrow> power_profiles option \<Rightarrow> u64 \<Rightarrow> r4_timeout \<Rightarrow> (i32 \<times> power_profiles option, 'w) io" where
  "r4_power_profiles_reload E K client out timeout =
     r4_power_profiles_call E K client (ucast (p_code E ''R4OS_POWER_PROFILE_OP_RELOAD'')) 0 0 out timeout"

abbreviation cpu_word :: "'w platform \<Rightarrow> string \<Rightarrow> bytes \<Rightarrow> u64" where
  "cpu_word E m v \<equiv> field E ''R4PowerCpuProfileInfo'' m v"

definition cpu_refused :: "'w platform \<Rightarrow> power_profiles \<Rightarrow> u32 \<Rightarrow> bytes \<Rightarrow> bool" where
  "cpu_refused E c cpu value \<longleftrightarrow>
     cpu_word E ''version'' value \<noteq> 1 \<or> cpu_word E ''size'' value \<noteq> sizeof E ''R4PowerCpuProfileInfo'' \<or>
     cpu_word E ''cpu_index'' value \<noteq> ucast cpu \<or>
     cpu_word E ''service_generation'' value \<noteq> info_word E ''service_generation'' (pp_info c) \<or>
     cpu_word E ''reserved0'' value \<noteq> 0 \<or> cpu_word E ''reserved1'' value \<noteq> 0 \<or>
     cpu_word E ''backend'' value > ucast (p_code E ''R4OS_POWER_PROFILE_BACKEND_ACPI_PSS'') \<or>
     cpu_word E ''state'' value > ucast (p_code E ''R4OS_POWER_PROFILE_STATE_QUIESCED'')"

text \<open>The query of one processor leaves the client as it is.\<close>

definition r4_power_profiles_cpu ::
  "'w platform \<Rightarrow> time_codes \<Rightarrow> power_profiles option \<Rightarrow> u32 \<Rightarrow> u64 \<Rightarrow> r4_timeout \<Rightarrow> (i32, 'w) io" where
  "r4_power_profiles_cpu E K client cpu out timeout =
     (case client of
        None \<Rightarrow> give (code E ''R4OS_SERVICE_API_RESULT_INVALID'')
      | Some c \<Rightarrow>
          if out = 0 \<or> \<not> follows E c \<or> ucast cpu \<ge> info_word E ''configured_cpus'' (pp_info c)
          then give (code E ''R4OS_SERVICE_API_RESULT_INVALID'')
          else and_then (power_exchange E K (pp_services c) (other_instance E c) (ucast (p_code E ''R4OS_POWER_PROFILE_OP_CPU''))
              [(''cpu_index'', ucast cpu), (''expected_service_generation'', info_word E ''service_generation'' (pp_info c))]
              ''R4PowerCpuProfileInfo'' timeout) (\<lambda>reply.
            case reply of
              Inl rc \<Rightarrow> give rc
            | Inr (peer, value) \<Rightarrow>
                if cpu_refused E c cpu value then give (code E ''R4OS_SERVICE_API_RESULT_INVALID'')
                else and_then (Platform.store out value) (\<lambda>_. give (code E ''R4OS_SERVICE_API_RESULT_OK''))))"

subsection \<open>What valid information says\<close>

lemma cpu_mask_bits: "cpus \<le> 64 \<Longrightarrow> bit (cpu_mask cpus) i \<longleftrightarrow> i < unat cpus \<and> i < 64"
proof (cases "cpus = 64")
  case False
  assume "cpus \<le> 64"
  with False have "unat cpus < 64" by (simp add: word_le_nat_alt word_unat_eq_iff)
  moreover have "push_bit (unat cpus) 1 - 1 = (mask (unat cpus) :: u64)" by (simp add: mask_eq_decr_exp push_bit_eq_mult)
  ultimately show ?thesis using False by (auto simp: cpu_mask_def bit_mask_iff)
qed (auto simp: cpu_mask_def)

lemma info_valid_parts:
  assumes "r4_power_profile_info_valid E (Some v)"
  shows "info_word E ''service_generation'' v \<noteq> 0" "info_word E ''revision'' v \<noteq> 0"
    "0 < info_word E ''configured_cpus'' v" "info_word E ''configured_cpus'' v \<le> 64"
    "info_word E ''backend_cpus'' v \<le> info_word E ''online_cpus'' v"
    "info_word E ''online_cpus'' v \<le> info_word E ''configured_cpus'' v"
    "(info_word E ''owned_mask'' v OR info_word E ''applied_mask'' v OR info_word E ''pending_mask'' v OR
      info_word E ''supported_mask'' v) AND NOT (cpu_mask (info_word E ''configured_cpus'' v)) = 0"
  using assms by (simp_all add: r4_power_profile_info_valid_def not_less word_gt_0 split: if_split_asm)

lemma info_valid_masks:
  assumes "r4_power_profile_info_valid E (Some v)" and "m \<in> set [''owned_mask'', ''applied_mask'', ''pending_mask'', ''supported_mask'']"
    and "bit (info_word E m v) i"
  shows "i < unat (info_word E ''configured_cpus'' v)"
proof -
  note p = info_valid_parts [OF assms(1)]
  have i: "i < 64" using assms(3) bit_imp_le_length [of "info_word E m v" i] by simp
  have "bit (info_word E ''owned_mask'' v OR info_word E ''applied_mask'' v OR info_word E ''pending_mask'' v OR
      info_word E ''supported_mask'' v) i" using assms(2,3) by (auto simp: bit_simps)
  moreover have "\<not> bit ((info_word E ''owned_mask'' v OR info_word E ''applied_mask'' v OR info_word E ''pending_mask'' v OR
      info_word E ''supported_mask'' v) AND NOT (cpu_mask (info_word E ''configured_cpus'' v))) i" using p(7) by simp
  ultimately have "bit (cpu_mask (info_word E ''configured_cpus'' v)) i" using i by (simp add: bit_simps)
  then show ?thesis using cpu_mask_bits [OF p(4)] by blast
qed

subsection \<open>What an operation does to its client\<close>

lemma exchange_peer:
  assumes "power_exchange E K sv wrong op_code ms T t s = Some (Inr (peer, v), s')"
  shows "\<exists>info. \<not> wrong info \<and> peer = obj_word E ''R4ServiceInfo'' ''instance_id'' info"
  using assms by (auto simp: power_exchange_def io_steps Let_def split: if_splits prod.splits option.splits sum.splits)

text \<open>Information that replaces \<open>v\<close>: valid, and of the same incarnation and no older when \<open>v\<close> names one.\<close>

definition info_succeeds :: "'w platform \<Rightarrow> bytes \<Rightarrow> bytes \<Rightarrow> bool" where
  "info_succeeds E v v' \<longleftrightarrow> r4_power_profile_info_valid E (Some v') \<and>
     (info_word E ''service_generation'' v \<noteq> 0 \<longrightarrow>
        info_word E ''service_generation'' v' = info_word E ''service_generation'' v \<and>
        info_word E ''service_instance_id'' v' = info_word E ''service_instance_id'' v \<and>
        info_word E ''revision'' v \<le> info_word E ''revision'' v')"

lemma narrow_word:
  assumes "p_len E T m \<le> 4"
  shows "ucast (obj_word E T m bs :: u32) = (obj_word E T m bs :: u64)"
proof (rule bit_word_eqI)
  fix i assume "i < LENGTH(64)"
  moreover have "i < 8 * length (take (p_len E T m) (drop (p_off E T m) bs)) \<Longrightarrow> i < 32" using assms by auto
  ultimately show "bit (ucast (obj_word E T m bs :: u32) :: u64) i = bit (obj_word E T m bs :: u64) i"
    by (auto simp: bit_simps obj_word_def bit_le_word)
qed

lemma publish_cases:
  assumes "power_publish E c out reply s = Some ((rc, r), s')"
  shows "r = Some c \<or> (\<exists>peer v. reply = Inr (peer, v) \<and> \<not> info_refused E c peer v \<and> r = Some (c\<lparr>pp_info := v\<rparr>) \<and>
    rc = code E ''R4OS_SERVICE_API_RESULT_OK'' \<and> Platform.store out v s = Some ((), s'))"
proof (cases reply)
  case (Inr pv)
  with assms show ?thesis by (cases pv) (auto simp: power_publish_def io_steps split: if_splits)
qed (use assms in \<open>simp add: power_publish_def give_def\<close>)

lemma call_advances:
  assumes "p_len E ''R4ServiceInfo'' ''instance_id'' \<le> 4"
    and "r4_power_profiles_call E K (Some c) op_code profile flags out t s = Some ((rc, r), s')"
  shows "\<exists>c'. r = Some c' \<and> (c' = c \<or> pp_services c' = pp_services c \<and> info_succeeds E (pp_info c) (pp_info c'))"
proof -
  from assms(2) consider (kept) "r = Some c"
    | (sent) ms reply s1 where "power_publish E c out reply s1 = Some ((rc, r), s')"
        "power_exchange E K (pp_services c) (\<lambda>peer. follows E c \<and> other_instance E c peer) op_code ms ''R4PowerProfileInfo'' t s =
          Some (reply, s1)"
    unfolding r4_power_profiles_call_def option.case by (simp add: and_then_Some_iff give_def split: if_split_asm) blast+
  then show ?thesis
  proof cases
    case sent
    from publish_cases [OF sent(1)] show ?thesis
    proof
      assume "\<exists>peer v. reply = Inr (peer, v) \<and> \<not> info_refused E c peer v \<and> r = Some (c\<lparr>pp_info := v\<rparr>) \<and>
        rc = code E ''R4OS_SERVICE_API_RESULT_OK'' \<and> Platform.store out v s1 = Some ((), s')"
      then obtain peer v where new: "reply = Inr (peer, v)" "\<not> info_refused E c peer v" "r = Some (c\<lparr>pp_info := v\<rparr>)" by blast
      from exchange_peer [OF sent(2) [unfolded new(1)]] obtain info
        where "follows E c \<Longrightarrow> \<not> other_instance E c info" "peer = obj_word E ''R4ServiceInfo'' ''instance_id'' info" by blast
      then show ?thesis using new(2,3) narrow_word [OF assms(1), of info]
        by (auto simp: info_refused_def info_succeeds_def follows_def other_instance_def not_less)
    qed simp
  qed simp
qed

subsection \<open>Runs of a client\<close>

text \<open>Between the client's operations the rest of the program may do anything else (\<open>other\<close>).\<close>

inductive power_step ::
  "'w platform \<Rightarrow> time_codes \<Rightarrow> power_profiles \<times> 'w machine \<Rightarrow> power_profiles \<times> 'w machine \<Rightarrow> bool" for E K where
  status: "r4_power_profiles_status E K (Some c) out t s = Some ((rc, Some c'), s') \<Longrightarrow> power_step E K (c, s) (c', s')"
| select: "r4_power_profiles_select E K (Some c) profile sticky out t s = Some ((rc, Some c'), s') \<Longrightarrow>
    power_step E K (c, s) (c', s')"
| quiesce: "r4_power_profiles_quiesce E K (Some c) out t s = Some ((rc, Some c'), s') \<Longrightarrow> power_step E K (c, s) (c', s')"
| resume: "r4_power_profiles_resume E K (Some c) out t s = Some ((rc, Some c'), s') \<Longrightarrow> power_step E K (c, s) (c', s')"
| reload: "r4_power_profiles_reload E K (Some c) out t s = Some ((rc, Some c'), s') \<Longrightarrow> power_step E K (c, s) (c', s')"
| cpu: "r4_power_profiles_cpu E K (Some c) index out t s = Some (rc, s') \<Longrightarrow> power_step E K (c, s) (c, s')"
| other: "power_step E K (c, s) (c, s')"

lemma select_cases:
  assumes "r4_power_profiles_select E K client profile sticky out t s = Some ((rc, r), s')"
  shows "r = client \<or>
    (\<exists>o_code flags. r4_power_profiles_call E K client o_code profile flags out t s = Some ((rc, r), s'))"
proof (cases "profile > p_code E ''R4OS_POWER_PROFILE_SAVING'' \<or> (profile = p_code E ''R4OS_POWER_PROFILE_FIRMWARE'' \<and> sticky)")
  case False
  with assms show ?thesis unfolding r4_power_profiles_select_def by (simp only: if_False) blast
qed (use assms in \<open>simp add: r4_power_profiles_select_def give_def\<close>)

lemma power_step_advances:
  assumes "p_len E ''R4ServiceInfo'' ''instance_id'' \<le> 4" and "power_step E K (c, s) (c', s')"
  shows "c' = c \<or> pp_services c' = pp_services c \<and> info_succeeds E (pp_info c) (pp_info c')"
  using assms(2)
proof (cases rule: power_step.cases)
  case (status out t rc)
  from call_advances [OF assms(1) status [unfolded r4_power_profiles_status_def]] show ?thesis by auto
next
  case (select profile sticky out t rc)
  from select_cases [OF select] show ?thesis
  proof
    assume "\<exists>o_code flags. r4_power_profiles_call E K (Some c) o_code profile flags out t s = Some ((rc, Some c'), s')"
    then obtain o_code flags where "r4_power_profiles_call E K (Some c) o_code profile flags out t s = Some ((rc, Some c'), s')" by blast
    from call_advances [OF assms(1) this] show ?thesis by simp
  qed simp
next
  case (quiesce out t rc)
  from call_advances [OF assms(1) quiesce [unfolded r4_power_profiles_quiesce_def]] show ?thesis by auto
next
  case (resume out t rc)
  from call_advances [OF assms(1) resume [unfolded r4_power_profiles_resume_def]] show ?thesis by auto
next
  case (reload out t rc)
  from call_advances [OF assms(1) reload [unfolded r4_power_profiles_reload_def]] show ?thesis by auto
qed simp_all

lemma info_succeeds_trans:
  "info_succeeds E u v \<Longrightarrow> info_succeeds E v w \<Longrightarrow> info_succeeds E u w"
  unfolding info_succeeds_def by (auto intro: order_trans)

lemma power_run_advances:
  assumes "(power_step E K)\<^sup>*\<^sup>* (c, s) (c', s')" and "p_len E ''R4ServiceInfo'' ''instance_id'' \<le> 4"
  shows "c' = c \<or> pp_services c' = pp_services c \<and> info_succeeds E (pp_info c) (pp_info c')"
  using assms(1)
proof (induction "(c', s')" arbitrary: c' s' rule: rtranclp_induct)
  case (step b)
  obtain c1 s1 where b: "b = (c1, s1)" by (cases b)
  from step(3) [OF b] power_step_advances [OF assms(2) step(2) [unfolded b]] show ?case
    using info_succeeds_trans by auto
qed simp

definition power_layout :: "string \<Rightarrow> (string \<times> nat) list" where
  "power_layout T =
     (if T = ''R4PowerProfileInfo'' then
        [(''version'', 1), (''size'', 1), (''reserved0'', 1), (''service_generation'', 1), (''service_instance_id'', 1), (''revision'', 1),
         (''state'', 1), (''selected_profile'', 1), (''configured_cpus'', 1), (''online_cpus'', 1), (''backend_cpus'', 1),
         (''worker_count'', 1), (''owned_mask'', 1), (''applied_mask'', 1), (''pending_mask'', 1), (''supported_mask'', 1)]
      else if T = ''R4PowerProfileRequest'' then
        [(''version'', 1), (''size'', 1), (''profile'', 1), (''flags'', 1), (''cpu_index'', 1), (''expected_service_generation'', 1),
         (''expected_revision'', 1)]
      else [])"

definition power_platform :: "bytes platform" where
  "power_platform = service_platform power_layout (\<lambda>x. if x = ''R4OS_POWER_PROFILE_SAVING'' then 3 else 0)"

definition power_reply :: bytes where
  "power_reply = [1, 16, 0, 5, 9, 4, 0, 1, 4, 4, 2, 1, 3, 1, 2, 15]"

definition power_client :: power_profiles where
  "power_client = \<lparr>pp_services = \<lparr>sv_app = Some service_app\<rparr>, pp_info = [1, 16, 0, 5, 9, 3, 0, 1, 4, 4, 2, 1, 3, 1, 2, 15]\<rparr>"

lemmas power_eval = r4_power_profiles_status_def r4_power_profiles_call_def power_exchange_def put_request_def follows_def
  other_instance_def info_refused_def power_publish_def r4_power_profile_info_valid_def cpu_mask_def power_client_def
  power_reply_def power_layout_def power_platform_def exchange_eval service_eval

text \<open>The service answers a status call of a client at revision 3 with revision 4.\<close>

lemma power_run:
  "\<exists>s. r4_power_profiles_status power_platform sample_codes (Some power_client) 0x7000 poll_timeout (service_start power_reply) =
    Some ((0, Some (power_client\<lparr>pp_info := power_reply\<rparr>)), s)"
  by (simp add: power_eval Let_def sample_codes_def cong: run_congs del: load_bytes.simps store_bytes.simps)

text \<open>
  C24: Along every run of operations of a power client, whatever else the program does in
  between, the client either keeps its information or holds information that is well formed
  (nonzero generation and revision, at most 64 configured processors, the online and backed
  ones within them, no mask beyond them); and a client that follows a service incarnation
  keeps its generation and instance and never goes back in revision.\<close>

theorem power_client_follows:
  assumes "(power_step E K)\<^sup>*\<^sup>* (c, s) (c', s')" and "p_len E ''R4ServiceInfo'' ''instance_id'' \<le> 4"
  shows "(c' = c \<or>
      info_word E ''service_generation'' (pp_info c') \<noteq> 0 \<and> info_word E ''revision'' (pp_info c') \<noteq> 0 \<and>
      info_word E ''configured_cpus'' (pp_info c') \<le> 64 \<and>
      info_word E ''backend_cpus'' (pp_info c') \<le> info_word E ''online_cpus'' (pp_info c') \<and>
      info_word E ''online_cpus'' (pp_info c') \<le> info_word E ''configured_cpus'' (pp_info c') \<and>
      (\<forall>m \<in> set [''owned_mask'', ''applied_mask'', ''pending_mask'', ''supported_mask''].
         \<forall>i. bit (info_word E m (pp_info c')) i \<longrightarrow> i < unat (info_word E ''configured_cpus'' (pp_info c')))) \<and>
    (follows E c \<longrightarrow>
      info_word E ''service_generation'' (pp_info c') = info_word E ''service_generation'' (pp_info c) \<and>
      info_word E ''service_instance_id'' (pp_info c') = info_word E ''service_instance_id'' (pp_info c) \<and>
      info_word E ''revision'' (pp_info c) \<le> info_word E ''revision'' (pp_info c'))"
proof -
  consider "c' = c" | "info_succeeds E (pp_info c) (pp_info c')" using power_run_advances [OF assms] by blast
  then show ?thesis
  proof cases
    case 2
    then have valid: "r4_power_profile_info_valid E (Some (pp_info c'))" by (simp add: info_succeeds_def)
    then show ?thesis using 2 info_valid_parts [OF valid] info_valid_masks [OF valid]
      unfolding info_succeeds_def follows_def by blast
  qed simp
qed

theorem power_client_follows_witness:
  "\<exists>s. (power_step power_platform sample_codes)\<^sup>*\<^sup>* (power_client, service_start power_reply) (power_client\<lparr>pp_info := power_reply\<rparr>, s) \<and>
     follows power_platform power_client \<and> info_word power_platform ''revision'' (pp_info power_client) \<le> info_word power_platform ''revision'' power_reply"
proof -
  obtain s where "r4_power_profiles_status power_platform sample_codes (Some power_client) 0x7000 poll_timeout (service_start power_reply) =
    Some ((0, Some (power_client\<lparr>pp_info := power_reply\<rparr>)), s)" using power_run by blast
  then have run: "(power_step power_platform sample_codes)\<^sup>*\<^sup>* (power_client, service_start power_reply) (power_client\<lparr>pp_info := power_reply\<rparr>, s)"
    by (intro r_into_rtranclp power_step.status)
  have "follows power_platform power_client" by (simp add: power_eval)
  moreover have "p_len power_platform ''R4ServiceInfo'' ''instance_id'' \<le> 4" by (simp add: power_eval)
  ultimately show ?thesis using power_client_follows [OF run] run by auto
qed

end
