(* ===== verification/DesktopEvidence.thy ===== *)
theory DesktopEvidence
  imports ServiceClient
begin

text \<open>
  \<open>Shared/C/include/r4os/desktop_evidence.h\<close>: tokens of the desktop evidence broker, the call
  that validates the broker's reply, and the lease that owns a token. Tokens, requests and
  replies are objects of the contract in memory.
\<close>

abbreviation evidence_word where "evidence_word E m v \<equiv> field E ''R4DesktopEvidenceReply'' m v"
abbreviation evidence_code where "evidence_code E c \<equiv> code E (''R4OS_DESKTOP_EVIDENCE_'' @ c)"
abbreviation token_part where "token_part E m token \<equiv> obj_part E ''R4DesktopEvidenceToken'' m token"

definition r4_desktop_evidence_same_process :: "'w platform \<Rightarrow> bytes \<Rightarrow> bytes \<Rightarrow> bool" where
  "r4_desktop_evidence_same_process E a b = same_process E a b"

definition r4_desktop_evidence_same_words :: "bytes \<Rightarrow> bytes \<Rightarrow> bool" where
  "r4_desktop_evidence_same_words a b = same_words a b"

definition r4_desktop_evidence_valid_process :: "'w platform \<Rightarrow> bytes \<Rightarrow> bool" where
  "r4_desktop_evidence_valid_process E p = valid_process E p"

lemmas evidence_tests = r4_desktop_evidence_same_process_def r4_desktop_evidence_same_words_def r4_desktop_evidence_valid_process_def

subsection \<open>Tokens\<close>

definition r4_desktop_evidence_prepare ::
  "'w platform \<Rightarrow> u64 \<Rightarrow> bytes \<Rightarrow> u64 \<Rightarrow> u64 \<Rightarrow> (i32, 'w) io" where
  "r4_desktop_evidence_prepare E scope request intent out =
     (if scope = 0 \<or> intent = 0 \<or> out = 0 then give (evidence_code E ''RESULT_INVALID'')
      else and_then (load_obj E scope ''R4DesktopEvidenceToken'') (\<lambda>sc.
           and_then (load_range intent 24) (\<lambda>words.
             if field E ''R4DesktopEvidenceToken'' ''version'' sc \<noteq> 1 \<or>
                field E ''R4DesktopEvidenceToken'' ''size'' sc \<noteq> sizeof E ''R4DesktopEvidenceToken'' \<or>
                \<not> r4_desktop_evidence_valid_process E (token_part E ''broker'' sc) \<or>
                \<not> r4_desktop_evidence_valid_process E request \<or>
                \<not> any_word (token_part E ''epoch'' sc) \<or> \<not> any_word words
             then give (evidence_code E ''RESULT_INVALID'')
             else and_then (clear_obj E out ''R4DesktopEvidenceToken'') (\<lambda>_.
                  and_then (put_header E out ''R4DesktopEvidenceToken'' 1 (sizeof E ''R4DesktopEvidenceToken'')) (\<lambda>_.
                  and_then (copy_member E ''R4DesktopEvidenceToken'' ''broker'' out scope) (\<lambda>_.
                  and_then (Platform.store (member_at E out ''R4DesktopEvidenceToken'' ''request'') request) (\<lambda>_.
                  and_then (each (\<lambda>i. and_then (copy_word (member_at E out ''R4DesktopEvidenceToken'' ''epoch'')
                                             (member_at E scope ''R4DesktopEvidenceToken'' ''epoch'') i) (\<lambda>_.
                                   copy_word (member_at E out ''R4DesktopEvidenceToken'' ''intent'') intent i)) [0, 1, 2]) (\<lambda>_.
                    give 0))))))))"

subsection \<open>The call\<close>

definition evidence_malformed :: "'w platform \<Rightarrow> u32 \<Rightarrow> u32 \<Rightarrow> bytes \<Rightarrow> bool" where
  "evidence_malformed E capacity got v \<longleftrightarrow>
     (let token = obj_part E ''R4DesktopEvidenceReply'' ''token'' v;
          result = obj_word E ''R4DesktopEvidenceReply'' ''result'' v :: i32 in
      field E ''R4DesktopEvidenceToken'' ''version'' token \<noteq> 1 \<or>
      field E ''R4DesktopEvidenceToken'' ''size'' token \<noteq> sizeof E ''R4DesktopEvidenceToken'' \<or>
      evidence_word E ''phase'' v > ucast (p_code E ''R4OS_DESKTOP_EVIDENCE_PHASE_UNAVAILABLE'') \<or>
      sint result > 0 \<or> sint result < sint (evidence_code E ''RESULT_RELEASED'') \<or>
      evidence_word E ''data_bytes'' v > ucast capacity \<or>
      ucast got \<noteq> sizeof E ''R4DesktopEvidenceReply'' + evidence_word E ''data_bytes'' v)"

text \<open>The reply does not echo the token of the request; a member not yet known to the caller is not compared.\<close>

definition evidence_foreign :: "'w platform \<Rightarrow> bytes \<Rightarrow> bytes \<Rightarrow> bool" where
  "evidence_foreign E mine token \<longleftrightarrow>
     \<not> r4_desktop_evidence_same_process E (token_part E ''broker'' token) (token_part E ''broker'' mine) \<or>
     \<not> r4_desktop_evidence_same_process E (token_part E ''request'' token) (token_part E ''request'' mine) \<or>
     \<not> r4_desktop_evidence_same_words (token_part E ''epoch'' token) (token_part E ''epoch'' mine) \<or>
     \<not> r4_desktop_evidence_same_words (token_part E ''intent'' token) (token_part E ''intent'' mine) \<or>
     (field E ''R4DesktopEvidenceToken'' ''serial'' mine \<noteq> 0 \<and>
        field E ''R4DesktopEvidenceToken'' ''serial'' token \<noteq> field E ''R4DesktopEvidenceToken'' ''serial'' mine) \<or>
     (r4_desktop_evidence_valid_process E (token_part E ''process'' mine) \<and>
        \<not> r4_desktop_evidence_same_process E (token_part E ''process'' token) (token_part E ''process'' mine)) \<or>
     (r4_desktop_evidence_valid_process E (token_part E ''desktop'' mine) \<and>
        \<not> r4_desktop_evidence_same_process E (token_part E ''desktop'' token) (token_part E ''desktop'' mine))"

text \<open>The reply is parsed from the local payload buffer; nothing of the caller's is written before it is accepted.\<close>

definition evidence_accept ::
  "'w platform \<Rightarrow> u16 \<Rightarrow> u64 \<Rightarrow> u64 \<Rightarrow> u64 \<Rightarrow> u32 \<Rightarrow> u32 \<Rightarrow> (i32, 'w) io" where
  "evidence_accept E op_code request reply data capacity got =
     (if ucast got < sizeof E ''R4DesktopEvidenceReply'' then give (evidence_code E ''RESULT_INVALID'')
      else and_then (load_obj E (p_local E ''bytes'') ''R4DesktopEvidenceReply'') (\<lambda>v.
        if evidence_malformed E capacity got v then give (evidence_code E ''RESULT_INVALID'')
        else and_then (load_obj E request ''R4DesktopEvidenceRequest'') (\<lambda>rq.
          if op_code \<noteq> ucast (p_code E ''R4OS_DESKTOP_EVIDENCE_OP_SCOPE'') \<and>
             evidence_foreign E (obj_part E ''R4DesktopEvidenceRequest'' ''token'' rq) (obj_part E ''R4DesktopEvidenceReply'' ''token'' v)
          then give (evidence_code E ''RESULT_INVALID'')
          else and_then (if evidence_word E ''data_bytes'' v = 0 then give ()
                 else copy_range data (p_local E ''bytes'' + sizeof E ''R4DesktopEvidenceReply'') (unat (evidence_word E ''data_bytes'' v))) (\<lambda>_.
               and_then (Platform.store reply v) (\<lambda>_. give 0)))))"

definition half_second :: "time_codes \<Rightarrow> r4_timeout" where
  "half_second K = r4_timeout_finite K \<lparr>duration_ns = 500000000\<rparr>"

definition r4_desktop_evidence_call ::
  "'w platform \<Rightarrow> time_codes \<Rightarrow> r4_app option \<Rightarrow> u16 \<Rightarrow> u64 \<Rightarrow> u64 \<Rightarrow> u64 \<Rightarrow> u32 \<Rightarrow> (i32, 'w) io" where
  "r4_desktop_evidence_call E K app op_code request reply data capacity =
     (if app = None \<or> request = 0 \<or> reply = 0 \<or> capacity > p_code E ''R4OS_DESKTOP_EVIDENCE_MAX_OUTPUT_CHUNK'' \<or>
         (capacity \<noteq> 0 \<and> data = 0)
      then give (evidence_code E ''RESULT_INVALID'')
      else and_then (service_exchange E K app (p_local E ''R4OS_WINDOW_SERVICE_NAME'') op_code request
          (ucast (sizeof E ''R4DesktopEvidenceRequest'')) (p_local E ''bytes'') (p_code E ''R4OS_SERVICE_API_MAX_PAYLOAD'') (half_second K)) (\<lambda>r.
        case r of Inl rc \<Rightarrow> give rc
        | Inr result \<Rightarrow> evidence_accept E op_code request reply data capacity (sc_bytes result)))"

subsection \<open>The operations\<close>

text \<open>The request is a local object whose token comes first from zero, then from the caller's.\<close>

definition request_with_token :: "'w platform \<Rightarrow> u64 \<Rightarrow> (unit, 'w) io" where
  "request_with_token E token =
     and_then (clear_obj E (p_local E ''request'') ''R4DesktopEvidenceRequest'') (\<lambda>_.
       copy_obj E (member_at E (p_local E ''request'') ''R4DesktopEvidenceRequest'' ''token'') token ''R4DesktopEvidenceToken'')"

definition r4_desktop_evidence_scope :: "'w platform \<Rightarrow> time_codes \<Rightarrow> r4_app option \<Rightarrow> u64 \<Rightarrow> (i32, 'w) io" where
  "r4_desktop_evidence_scope E K app reply =
     and_then (clear_obj E (p_local E ''request'') ''R4DesktopEvidenceRequest'') (\<lambda>_.
     and_then (put_header E (member_at E (p_local E ''request'') ''R4DesktopEvidenceRequest'' ''token'') ''R4DesktopEvidenceToken'' 1
         (sizeof E ''R4DesktopEvidenceToken'')) (\<lambda>_.
       r4_desktop_evidence_call E K app (ucast (p_code E ''R4OS_DESKTOP_EVIDENCE_OP_SCOPE'')) (p_local E ''request'') reply 0 0))"

text \<open>\<open>token->serial\<close>\<close>

definition token_serial :: "'w platform \<Rightarrow> u64 \<Rightarrow> (u64, 'w) io" where
  "token_serial E token =
     and_then (load_obj E token ''R4DesktopEvidenceToken'') (\<lambda>t. give (field E ''R4DesktopEvidenceToken'' ''serial'' t))"

definition r4_desktop_evidence_reserve :: "'w platform \<Rightarrow> time_codes \<Rightarrow> r4_app option \<Rightarrow> u64 \<Rightarrow> u64 \<Rightarrow> (i32, 'w) io" where
  "r4_desktop_evidence_reserve E K app intent reply =
     (if intent = 0 then give (evidence_code E ''RESULT_INVALID'')
      else and_then (token_serial E intent) (\<lambda>serial.
        if serial \<noteq> 0 then give (evidence_code E ''RESULT_INVALID'')
        else and_then (request_with_token E intent) (\<lambda>_.
          r4_desktop_evidence_call E K app (ucast (p_code E ''R4OS_DESKTOP_EVIDENCE_OP_RESERVE'')) (p_local E ''request'') reply 0 0)))"

definition r4_desktop_evidence_token_call ::
  "'w platform \<Rightarrow> time_codes \<Rightarrow> r4_app option \<Rightarrow> u16 \<Rightarrow> u64 \<Rightarrow> u64 \<Rightarrow> (i32, 'w) io" where
  "r4_desktop_evidence_token_call E K app op_code token reply =
     (if token = 0 then give (evidence_code E ''RESULT_INVALID'')
      else and_then (if op_code = ucast (p_code E ''R4OS_DESKTOP_EVIDENCE_OP_STATUS'') then give 1 else token_serial E token) (\<lambda>serial.
        if serial = 0 then give (evidence_code E ''RESULT_INVALID'')
        else and_then (request_with_token E token) (\<lambda>_.
          r4_desktop_evidence_call E K app op_code (p_local E ''request'') reply 0 0)))"

definition r4_desktop_evidence_offer :: "'w platform \<Rightarrow> time_codes \<Rightarrow> r4_app option \<Rightarrow> u64 \<Rightarrow> u64 \<Rightarrow> (i32, 'w) io" where
  "r4_desktop_evidence_offer E K app token reply =
     r4_desktop_evidence_token_call E K app (ucast (p_code E ''R4OS_DESKTOP_EVIDENCE_OP_OFFER'')) token reply"

definition r4_desktop_evidence_acknowledge :: "'w platform \<Rightarrow> time_codes \<Rightarrow> r4_app option \<Rightarrow> u64 \<Rightarrow> u64 \<Rightarrow> (i32, 'w) io" where
  "r4_desktop_evidence_acknowledge E K app token reply =
     r4_desktop_evidence_token_call E K app (ucast (p_code E ''R4OS_DESKTOP_EVIDENCE_OP_ACK'')) token reply"

definition r4_desktop_evidence_status :: "'w platform \<Rightarrow> time_codes \<Rightarrow> r4_app option \<Rightarrow> u64 \<Rightarrow> u64 \<Rightarrow> (i32, 'w) io" where
  "r4_desktop_evidence_status E K app token reply =
     r4_desktop_evidence_token_call E K app (ucast (p_code E ''R4OS_DESKTOP_EVIDENCE_OP_STATUS'')) token reply"

definition r4_desktop_evidence_read ::
  "'w platform \<Rightarrow> time_codes \<Rightarrow> r4_app option \<Rightarrow> u64 \<Rightarrow> u32 \<Rightarrow> u64 \<Rightarrow> u32 \<Rightarrow> u64 \<Rightarrow> (i32, 'w) io" where
  "r4_desktop_evidence_read E K app token offset out capacity reply =
     (if token = 0 \<or> out = 0 \<or> capacity = 0 \<or> capacity > p_code E ''R4OS_DESKTOP_EVIDENCE_MAX_OUTPUT_CHUNK''
      then give (evidence_code E ''RESULT_INVALID'')
      else and_then (request_with_token E token) (\<lambda>_.
           and_then (put_member E (p_local E ''request'') ''R4DesktopEvidenceRequest'' ''offset'' (ucast offset)) (\<lambda>_.
           and_then (put_member E (p_local E ''request'') ''R4DesktopEvidenceRequest'' ''capacity'' (ucast capacity)) (\<lambda>_.
             r4_desktop_evidence_call E K app (ucast (p_code E ''R4OS_DESKTOP_EVIDENCE_OP_READ'')) (p_local E ''request'') reply out capacity))))"

definition r4_desktop_evidence_release :: "'w platform \<Rightarrow> time_codes \<Rightarrow> r4_app option \<Rightarrow> u64 \<Rightarrow> u64 \<Rightarrow> (i32, 'w) io" where
  "r4_desktop_evidence_release E K app token reply =
     r4_desktop_evidence_token_call E K app (ucast (p_code E ''R4OS_DESKTOP_EVIDENCE_OP_RELEASE'')) token reply"

subsection \<open>Leases\<close>

text \<open>\<open>el_token\<close> is the address of the lease's token, which the calls read in place.\<close>

record evidence_lease =
  el_app :: "r4_app option"
  el_token :: u64
  el_owned :: u8

definition r4_desktop_evidence_adopt :: "r4_app option \<Rightarrow> bytes \<Rightarrow> u64 \<Rightarrow> (evidence_lease, 'w) io" where
  "r4_desktop_evidence_adopt app token at_token =
     and_then (Platform.store at_token token) (\<lambda>_. give \<lparr>el_app = app, el_token = at_token, el_owned = 1\<rparr>)"

definition r4_desktop_evidence_export ::
  "'w platform \<Rightarrow> evidence_lease option \<Rightarrow> (bytes \<times> evidence_lease option, 'w) io" where
  "r4_desktop_evidence_export E lease =
     (case lease of
        None \<Rightarrow> give (zero_obj E ''R4DesktopEvidenceToken'', None)
      | Some l \<Rightarrow> and_then (load_obj E (el_token l) ''R4DesktopEvidenceToken'') (\<lambda>token. give (token, Some (l\<lparr>el_owned := 0\<rparr>))))"

text \<open>The results after which the broker no longer holds the token.\<close>

definition evidence_ended :: "'w platform \<Rightarrow> bytes \<Rightarrow> bool" where
  "evidence_ended E v \<longleftrightarrow>
     (obj_word E ''R4DesktopEvidenceReply'' ''result'' v :: i32) \<in>
       set [evidence_code E ''RESULT_RELEASED'', evidence_code E ''RESULT_EXPIRED'', evidence_code E ''RESULT_UNKNOWN'',
            evidence_code E ''RESULT_STALE'']"

definition r4_desktop_evidence_close ::
  "'w platform \<Rightarrow> time_codes \<Rightarrow> evidence_lease option \<Rightarrow> u64 \<Rightarrow> (i32 \<times> evidence_lease option, 'w) io" where
  "r4_desktop_evidence_close E K lease reply =
     (case lease of
        None \<Rightarrow> give (code E ''R4OS_ERR_NOT_OWNED'', None)
      | Some l \<Rightarrow>
          if el_owned l = 0 then give (code E ''R4OS_ERR_NOT_OWNED'', lease)
          else and_then (r4_desktop_evidence_release E K (el_app l) (el_token l) reply) (\<lambda>rc.
            if rc \<noteq> 0 then give (rc, lease)
            else and_then (load_obj E reply ''R4DesktopEvidenceReply'') (\<lambda>v.
              give (rc, Some (if evidence_ended E v then l\<lparr>el_owned := 0\<rparr> else l)))))"

subsection \<open>What an accepted reply is\<close>

lemma copy_range_Some:
  "copy_range dst src n s = Some (u, s') \<longleftrightarrow>
     (\<exists>bs M. load_bytes (m_mem s) src n = Some bs \<and> store_bytes (m_mem s) dst bs = Some M \<and> s' = s\<lparr>m_mem := M\<rparr>)"
  by (auto simp: copy_range_def load_range_def and_then_def Platform.store_def split: option.splits)

lemma store_Some_iff:
  "Platform.store a bs s = Some (u, s') \<longleftrightarrow> (\<exists>M. store_bytes (m_mem s) a bs = Some M \<and> s' = s\<lparr>m_mem := M\<rparr>)"
  by (auto simp: Platform.store_def)

text \<open>The accepted path, step by step.\<close>

lemma accept_cases:
  assumes "evidence_accept E op_code request reply data capacity got s = Some (0, s')" and "evidence_code E ''RESULT_INVALID'' \<noteq> 0"
  obtains (accepted) v rq s1 where "load_bytes (m_mem s) (p_local E ''bytes'') (p_size E ''R4DesktopEvidenceReply'') = Some v"
    "load_bytes (m_mem s) request (p_size E ''R4DesktopEvidenceRequest'') = Some rq"
    "\<not> evidence_malformed E capacity got v"
    "op_code \<noteq> ucast (p_code E ''R4OS_DESKTOP_EVIDENCE_OP_SCOPE'') \<Longrightarrow>
      \<not> evidence_foreign E (obj_part E ''R4DesktopEvidenceRequest'' ''token'' rq) (obj_part E ''R4DesktopEvidenceReply'' ''token'' v)"
    "s1 = s \<or> copy_range data (p_local E ''bytes'' + sizeof E ''R4DesktopEvidenceReply'') (unat (evidence_word E ''data_bytes'' v)) s = Some ((), s1)"
    "Platform.store reply v s1 = Some ((), s')"
  using assms
  by (auto simp: evidence_accept_def and_then_Some_iff give_def load_obj_def split: if_split_asm)

lemma store_outside:
  "store_bytes M a bs = Some M' \<Longrightarrow> (\<forall>i < length bs. x \<noteq> a + word_of_nat i) \<Longrightarrow> M' x = M x"
  using store_bytes_keeps by blast

lemma accept_writes:
  assumes "Platform.store reply v s1 = Some ((), s')" and "length v = n" and "unat d \<le> unat capacity"
    and "s1 = s \<or> copy_range data src (unat d) s = Some ((), s1)"
    and "\<forall>i < n. x \<noteq> reply + word_of_nat i" and "\<forall>i < unat capacity. x \<noteq> data + word_of_nat i"
  shows "m_mem s' x = m_mem s x"
proof -
  from assms(1) obtain M where M: "store_bytes (m_mem s1) reply v = Some M" "s' = s1\<lparr>m_mem := M\<rparr>"
    by (auto simp: store_Some_iff)
  have "m_mem s1 x = m_mem s x" using assms(4)
  proof
    assume "copy_range data src (unat d) s = Some ((), s1)"
    then obtain bs M1 where 1: "load_bytes (m_mem s) src (unat d) = Some bs" "store_bytes (m_mem s) data bs = Some M1"
      "s1 = s\<lparr>m_mem := M1\<rparr>" by (auto simp: copy_range_Some)
    then show ?thesis using store_outside [OF 1(2), of x] length_load_bytes [OF 1(1)] assms(3,6) by simp
  qed simp
  then show ?thesis using store_outside [OF M(1), of x] M(2) assms(2,5) by simp
qed

lemma call_accepted:
  assumes "service_codes E" and "evidence_code E ''RESULT_INVALID'' \<noteq> 0"
    and "r4_desktop_evidence_call E K app op_code request reply data capacity s = Some (0, s')"
  shows "\<exists>result s1. service_exchange E K app (p_local E ''R4OS_WINDOW_SERVICE_NAME'') op_code request
        (ucast (sizeof E ''R4DesktopEvidenceRequest'')) (p_local E ''bytes'') (p_code E ''R4OS_SERVICE_API_MAX_PAYLOAD'') (half_second K) s =
      Some (Inr result, s1) \<and> evidence_accept E op_code request reply data capacity (sc_bytes result) s1 = Some (0, s')"
  by (rule exchange_then [OF assms(1)])
    (use assms(2,3) in \<open>simp add: r4_desktop_evidence_call_def give_def split: if_split_asm\<close>)

text \<open>
  When an evidence call returns 0, the broker's reply was complete: its data is no
  longer than the caller's capacity and makes up exactly the rest of the payload, the reply
  object holds it, and, except for a scope query, its token carries the broker, request,
  epoch and intent of the request and any serial the request named. Compared with the memory
  the exchange left, only the reply object and the caller's buffer, within its capacity,
  have changed.\<close>

theorem evidence_reply_accepted:
  assumes "service_codes E" and "evidence_code E ''RESULT_INVALID'' \<noteq> 0" and "p_size E ''R4DesktopEvidenceReply'' < 2 ^ 64"
    and "r4_desktop_evidence_call E K app op_code request reply data capacity s = Some (0, s')"
  shows "\<exists>result s1 v rq.
    service_exchange E K app (p_local E ''R4OS_WINDOW_SERVICE_NAME'') op_code request (ucast (sizeof E ''R4DesktopEvidenceRequest''))
      (p_local E ''bytes'') (p_code E ''R4OS_SERVICE_API_MAX_PAYLOAD'') (half_second K) s = Some (Inr result, s1) \<and>
    load_bytes (m_mem s1) (p_local E ''bytes'') (p_size E ''R4DesktopEvidenceReply'') = Some v \<and>
    load_bytes (m_mem s1) request (p_size E ''R4DesktopEvidenceRequest'') = Some rq \<and>
    evidence_word E ''data_bytes'' v \<le> ucast capacity \<and>
    ucast (sc_bytes result) = sizeof E ''R4DesktopEvidenceReply'' + evidence_word E ''data_bytes'' v \<and>
    load_bytes (m_mem s') reply (p_size E ''R4DesktopEvidenceReply'') = Some v \<and>
    (op_code \<noteq> ucast (p_code E ''R4OS_DESKTOP_EVIDENCE_OP_SCOPE'') \<longrightarrow>
      (let mine = obj_part E ''R4DesktopEvidenceRequest'' ''token'' rq; token = obj_part E ''R4DesktopEvidenceReply'' ''token'' v in
       same_process E (token_part E ''broker'' token) (token_part E ''broker'' mine) \<and>
       same_process E (token_part E ''request'' token) (token_part E ''request'' mine) \<and>
       same_words (token_part E ''epoch'' token) (token_part E ''epoch'' mine) \<and>
       same_words (token_part E ''intent'' token) (token_part E ''intent'' mine) \<and>
       field E ''R4DesktopEvidenceToken'' ''serial'' mine \<in> {0, field E ''R4DesktopEvidenceToken'' ''serial'' token})) \<and>
    (\<forall>x. (\<forall>i < p_size E ''R4DesktopEvidenceReply''. x \<noteq> reply + word_of_nat i) \<longrightarrow>
         (\<forall>i < unat capacity. x \<noteq> data + word_of_nat i) \<longrightarrow> m_mem s' x = m_mem s1 x)"
proof -
  from call_accepted [OF assms(1,2,4)] obtain result s1 where ex: "service_exchange E K app (p_local E ''R4OS_WINDOW_SERVICE_NAME'') op_code
      request (ucast (sizeof E ''R4DesktopEvidenceRequest'')) (p_local E ''bytes'') (p_code E ''R4OS_SERVICE_API_MAX_PAYLOAD'') (half_second K) s =
      Some (Inr result, s1)" and acc: "evidence_accept E op_code request reply data capacity (sc_bytes result) s1 = Some (0, s')" by blast
  from acc assms(2) show ?thesis
  proof (cases rule: accept_cases)
    case (accepted v rq s2)
    have n: "length v = p_size E ''R4DesktopEvidenceReply''" using length_load_bytes [OF accepted(1)] .
    from accepted(6) obtain M where M: "store_bytes (m_mem s2) reply v = Some M" "s' = s2\<lparr>m_mem := M\<rparr>" by (auto simp: store_Some_iff)
    have written: "load_bytes (m_mem s') reply (p_size E ''R4DesktopEvidenceReply'') = Some v"
      using store_bytes_load [OF M(1), of 0 "length v"] M(2) n assms(3) by simp
    have fit: "evidence_word E ''data_bytes'' v \<le> ucast capacity"
      "ucast (sc_bytes result) = sizeof E ''R4DesktopEvidenceReply'' + evidence_word E ''data_bytes'' v"
      using accepted(3) by (simp_all add: evidence_malformed_def Let_def not_less)
    have "unat (ucast capacity :: u64) \<le> unat capacity" unfolding unsigned_ucast_eq by simp
    with fit(1) have "unat (evidence_word E ''data_bytes'' v) \<le> unat capacity" unfolding word_le_nat_alt by (rule order_trans)
    note outside = accept_writes [OF accepted(6) n this accepted(5)]
    have echo: "op_code \<noteq> ucast (p_code E ''R4OS_DESKTOP_EVIDENCE_OP_SCOPE'') \<longrightarrow>
      (let mine = obj_part E ''R4DesktopEvidenceRequest'' ''token'' rq; token = obj_part E ''R4DesktopEvidenceReply'' ''token'' v in
       same_process E (token_part E ''broker'' token) (token_part E ''broker'' mine) \<and>
       same_process E (token_part E ''request'' token) (token_part E ''request'' mine) \<and>
       same_words (token_part E ''epoch'' token) (token_part E ''epoch'' mine) \<and>
       same_words (token_part E ''intent'' token) (token_part E ''intent'' mine) \<and>
       field E ''R4DesktopEvidenceToken'' ''serial'' mine \<in> {0, field E ''R4DesktopEvidenceToken'' ''serial'' token})"
      using accepted(4) by (auto simp: evidence_foreign_def evidence_tests Let_def)
    show ?thesis using ex accepted(1,2) fit written echo outside by blast
  qed
qed

subsection \<open>Leases\<close>

inductive lease_step ::
  "'w platform \<Rightarrow> time_codes \<Rightarrow> evidence_lease \<times> 'w machine \<Rightarrow> evidence_lease \<times> 'w machine \<Rightarrow> bool" for E K where
  close: "r4_desktop_evidence_close E K (Some l) reply s = Some ((rc, Some l'), s') \<Longrightarrow> lease_step E K (l, s) (l', s')"
| export: "r4_desktop_evidence_export E (Some l) s = Some ((token, Some l'), s') \<Longrightarrow> lease_step E K (l, s) (l', s')"

inductive_cases lease_stepE: "lease_step E K (l, s) (l', s')"

lemma close_lease:
  assumes "r4_desktop_evidence_close E K (Some l) reply s = Some ((rc, Some l'), s')"
  shows "el_owned l = 0 \<Longrightarrow> l' = l \<and> s' = s" and "el_token l' = el_token l"
    and "l' \<noteq> l \<Longrightarrow> rc = 0 \<and> (\<exists>v. load_bytes (m_mem s') reply (p_size E ''R4DesktopEvidenceReply'') = Some v \<and> evidence_ended E v)"
  using assms by (auto simp: r4_desktop_evidence_close_def and_then_Some_iff give_def load_obj_def split: if_splits)

lemma export_lease:
  assumes "r4_desktop_evidence_export E (Some l) s = Some ((token, Some l'), s')"
  shows "l' = l\<lparr>el_owned := 0\<rparr>" and "s' = s"
  using assms by (auto simp: r4_desktop_evidence_export_def and_then_Some_iff give_def load_obj_def)

interpretation evidence: handle_protocol "\<lambda>l. el_owned l \<noteq> 0" el_token "lease_step E K" for E K
proof unfold_locales
  fix l s l' s' assume "lease_step E K (l, s) (l', s')" "\<not> el_owned l \<noteq> 0"
  then show "l' = l \<and> s' = s"
    by (elim lease_stepE) (auto dest: close_lease(1) export_lease)
next
  fix l s l' s' assume "lease_step E K (l, s) (l', s')"
  then show "el_token l' = el_token l" by (elim lease_stepE) (auto dest: close_lease(2) export_lease)
qed

subsection \<open>A sample broker\<close>

definition evidence_layout :: "string \<Rightarrow> (string \<times> nat) list" where
  "evidence_layout T =
     (if T = ''R4DesktopEvidenceToken'' then
        [(''version'', 1), (''size'', 1), (''broker'', 3), (''request'', 3), (''epoch'', 1), (''intent'', 1), (''serial'', 1),
         (''process'', 3), (''desktop'', 3)]
      else if T = ''R4DesktopEvidenceRequest'' then [(''token'', 17), (''offset'', 1), (''capacity'', 1)]
      else if T = ''R4DesktopEvidenceReply'' then [(''token'', 17), (''phase'', 1), (''result'', 1), (''data_bytes'', 1)]
      else [])"

definition evidence_platform :: "bytes platform" where
  "evidence_platform = service_platform evidence_layout (\<lambda>x. if x = ''R4OS_DESKTOP_EVIDENCE_OP_SCOPE'' then 1 else 0)"

definition evidence_token :: bytes where
  "evidence_token = [1, 17, 4, 0, 2, 6, 0, 1, 7, 8, 5, 0, 0, 0, 0, 0, 0]"

text \<open>The reply to a read: the token, phase 0, result 0 and two bytes of data.\<close>

definition evidence_reply :: bytes where
  "evidence_reply = [1, 17, 4, 0, 2, 6, 0, 1, 7, 8, 5, 0, 0, 0, 0, 0, 0, 0, 0, 2, 77, 78]"

definition evidence_start :: "bytes machine" where
  "evidence_start = \<lparr>m_mem = flat [(0x7000, evidence_token @ [0, 8]), (0x1000, service_table)], m_calls = [], m_os = evidence_reply\<rparr>"

lemmas evidence_eval = evidence_layout_def evidence_platform_def

lemma evidence_exchange:
  "\<exists>calls. service_exchange evidence_platform (sample_codes\<lparr>kind_finite := 0\<rparr>) (Some service_app) n 4 0x7000 19 0x4000 64 (half_second (sample_codes\<lparr>kind_finite := 0\<rparr>)) evidence_start =
    Some (Inr \<lparr>sc_kind = CALL_RESPONSE, sc_raw_code = 0, sc_bytes = 22, sc_header = [0, 0]\<rparr>,
     \<lparr>m_mem = flat [(0x4000, evidence_reply), (0x2100, [0, 0]), (0x2000, [7, 9]), (0x2000, [0, 0]),
        (0x7000, evidence_token @ [0, 8]), (0x1000, service_table)], m_calls = calls, m_os = evidence_reply\<rparr>)" if "n \<noteq> 0"
  using that by (simp add: service_exchange_def evidence_start_def evidence_reply_def evidence_token_def half_second_def r4_timeout_finite_def evidence_eval exchange_eval service_eval Let_def sample_codes_def cong: run_congs del: load_bytes.simps store_bytes.simps)

lemma evidence_reply_good: "\<not> evidence_malformed evidence_platform 8 22 (take 20 evidence_reply)"
  by (simp add: evidence_malformed_def obj_part_def obj_word_def sizeof_def evidence_reply_def evidence_eval service_layout_def service_code_def Let_def)

lemma evidence_reply_mine:
  "\<not> evidence_foreign evidence_platform (obj_part evidence_platform ''R4DesktopEvidenceRequest'' ''token'' (evidence_token @ [0, 8]))
     (obj_part evidence_platform ''R4DesktopEvidenceReply'' ''token'' (take 20 evidence_reply))"
proof -
  have part: "obj_part evidence_platform ''R4DesktopEvidenceRequest'' ''token'' (evidence_token @ [0, 8]) = evidence_token"
    "obj_part evidence_platform ''R4DesktopEvidenceReply'' ''token'' (take 20 evidence_reply) = evidence_token"
    by (simp_all add: obj_part_def evidence_eval evidence_token_def evidence_reply_def)
  show ?thesis unfolding part by (simp add: evidence_foreign_def evidence_tests)
qed

lemma evidence_accepts:
  "\<exists>s. evidence_accept evidence_platform 4 0x7000 0x7100 0x7200 8 22
     \<lparr>m_mem = flat [(0x4000, evidence_reply), (0x2100, [0, 0]), (0x2000, [7, 9]), (0x2000, [0, 0]),
        (0x7000, evidence_token @ [0, 8]), (0x1000, service_table)], m_calls = calls, m_os = evidence_reply\<rparr> = Some (0, s)"
proof -
  have shape: "take 20 evidence_reply = evidence_token @ [0, 0, 2]" "length evidence_reply = 22" "length evidence_token = 17"
    by (simp_all add: evidence_reply_def evidence_token_def)
  have bytes: "(evidence_word evidence_platform ''data_bytes'' (take 20 evidence_reply)) = 2"
    by (simp add: obj_word_def evidence_eval evidence_reply_def)
  have eval: "p_local evidence_platform = service_local" "p_size evidence_platform ''R4DesktopEvidenceReply'' = 20"
    "p_size evidence_platform ''R4DesktopEvidenceRequest'' = 19" by (simp_all add: evidence_eval)
  show ?thesis using evidence_reply_good evidence_reply_mine unfolding shape
    by (simp add: evidence_accept_def bytes [unfolded shape] eval sizeof_def load_obj_def copy_range_def load_range_def service_local_def
      flat_simps run_steps run_stores shape cong: run_congs del: load_bytes.simps store_bytes.simps)
qed

text \<open>A read of two bytes of evidence into a buffer of eight.\<close>

lemma evidence_run:
  "\<exists>s. r4_desktop_evidence_call evidence_platform (sample_codes\<lparr>kind_finite := 0\<rparr>) (Some service_app) 4 0x7000 0x7100 0x7200 8 evidence_start = Some (0, s)"
proof -
  have local: "p_local evidence_platform ''R4OS_WINDOW_SERVICE_NAME'' \<noteq> 0" by (simp add: evidence_eval service_local_def)
  obtain calls where ex: "service_exchange evidence_platform (sample_codes\<lparr>kind_finite := 0\<rparr>) (Some service_app)
      (p_local evidence_platform ''R4OS_WINDOW_SERVICE_NAME'') 4 0x7000 19 0x4000 64 (half_second (sample_codes\<lparr>kind_finite := 0\<rparr>)) evidence_start =
    Some (Inr \<lparr>sc_kind = CALL_RESPONSE, sc_raw_code = 0, sc_bytes = 22, sc_header = [0, 0]\<rparr>,
     \<lparr>m_mem = flat [(0x4000, evidence_reply), (0x2100, [0, 0]), (0x2000, [7, 9]), (0x2000, [0, 0]),
        (0x7000, evidence_token @ [0, 8]), (0x1000, service_table)], m_calls = calls, m_os = evidence_reply\<rparr>)"
    using evidence_exchange [OF local] by blast
  obtain s where acc: "evidence_accept evidence_platform 4 0x7000 0x7100 0x7200 8 22
     \<lparr>m_mem = flat [(0x4000, evidence_reply), (0x2100, [0, 0]), (0x2000, [7, 9]), (0x2000, [0, 0]),
        (0x7000, evidence_token @ [0, 8]), (0x1000, service_table)], m_calls = calls, m_os = evidence_reply\<rparr> = Some (0, s)"
    using evidence_accepts by blast
  have eval: "p_local evidence_platform ''bytes'' = 0x4000" "p_code evidence_platform ''R4OS_SERVICE_API_MAX_PAYLOAD'' = 64"
    "sizeof evidence_platform ''R4DesktopEvidenceRequest'' = 19" "p_code evidence_platform ''R4OS_DESKTOP_EVIDENCE_MAX_OUTPUT_CHUNK'' = - 5"
    by (simp_all add: evidence_eval service_local_def service_code_def sizeof_def)
  show ?thesis using ex acc by (simp add: r4_desktop_evidence_call_def eval and_then_def)
qed

theorem evidence_reply_accepted_witness:
  "\<exists>v s'. r4_desktop_evidence_call evidence_platform (sample_codes\<lparr>kind_finite := 0\<rparr>) (Some service_app) 4 0x7000 0x7100 0x7200 8 evidence_start =
      Some (0, s') \<and> load_bytes (m_mem s') 0x7100 20 = Some v \<and> evidence_word evidence_platform ''data_bytes'' v \<le> 8"
proof -
  obtain s' where run: "r4_desktop_evidence_call evidence_platform (sample_codes\<lparr>kind_finite := 0\<rparr>) (Some service_app) 4 0x7000 0x7100 0x7200 8
      evidence_start = Some (0, s')" using evidence_run by blast
  have "service_codes evidence_platform" by (simp add: service_codes_def evidence_eval service_code_def)
  moreover have "evidence_code evidence_platform ''RESULT_INVALID'' \<noteq> 0" by (simp add: evidence_eval service_code_def)
  moreover have size: "p_size evidence_platform ''R4DesktopEvidenceReply'' = 20" by (simp add: evidence_eval)
  ultimately show ?thesis using evidence_reply_accepted [OF _ _ _ run] run by (simp add: size) blast
qed

end
