(* ===== verification/DesktopActions.thy ===== *)
theory DesktopActions
  imports ServiceClient
begin

text \<open>
  \<open>Shared/C/include/r4os/desktop_actions.h\<close>: delegation of desktop actions. Tokens, requests
  and replies are objects of the contract; a reply is accepted only when it echoes the
  grant the request named.
\<close>

abbreviation action_code where "action_code E c \<equiv> code E (''R4OS_DESKTOP_ACTION_'' @ c)"
abbreviation action_op :: "'w platform \<Rightarrow> string \<Rightarrow> u16" where
  "action_op E c \<equiv> ucast (p_code E (''R4OS_DESKTOP_ACTION_OP_'' @ c))"
abbreviation action_part where "action_part E m token \<equiv> obj_part E ''R4DesktopActionToken'' m token"
abbreviation action_word where "action_word E m token \<equiv> field E ''R4DesktopActionToken'' m token"
abbreviation window_part where "window_part E m w \<equiv> obj_part E ''R4WindowModeIdentity'' m w"
abbreviation window_word where "window_word E m w \<equiv> field E ''R4WindowModeIdentity'' m w"

definition r4_desktop_action_same_process :: "'w platform \<Rightarrow> bytes \<Rightarrow> bytes \<Rightarrow> bool" where
  "r4_desktop_action_same_process E a b = same_process E a b"

definition r4_desktop_action_same_window :: "'w platform \<Rightarrow> bytes \<Rightarrow> bytes \<Rightarrow> bool" where
  "r4_desktop_action_same_window E a b \<longleftrightarrow>
     r4_desktop_action_same_process E (window_part E ''service'' a) (window_part E ''service'' b) \<and>
     r4_desktop_action_same_process E (window_part E ''desktop'' a) (window_part E ''desktop'' b) \<and>
     r4_desktop_action_same_process E (window_part E ''owner'' a) (window_part E ''owner'' b) \<and>
     window_word E ''serial'' a = window_word E ''serial'' b \<and> window_word E ''window_id'' a = window_word E ''window_id'' b \<and>
     window_word E ''reserved'' a = window_word E ''reserved'' b"

definition r4_desktop_action_valid_process :: "'w platform \<Rightarrow> bytes \<Rightarrow> bool" where
  "r4_desktop_action_valid_process E p = valid_process E p"

subsection \<open>Requests\<close>

text \<open>The request object is built at \<open>q\<close>; \<open>q_token\<close> is the address of its token.\<close>

definition q_token :: "'w platform \<Rightarrow> u64 \<Rightarrow> u64" where
  "q_token E q = member_at E q ''R4DesktopActionRequest'' ''token''"

definition r4_desktop_action_request :: "'w platform \<Rightarrow> u64 \<Rightarrow> u64 \<Rightarrow> (unit, 'w) io" where
  "r4_desktop_action_request E token q =
     and_then (clear_obj E q ''R4DesktopActionRequest'') (\<lambda>_.
     and_then (put_header E (q_token E q) ''R4DesktopActionToken'' 1 (sizeof E ''R4DesktopActionToken'')) (\<lambda>_.
       if token = 0 then give () else copy_obj E (q_token E q) token ''R4DesktopActionToken''))"

definition rights_bad :: "'w platform \<Rightarrow> u32 \<Rightarrow> bool" where
  "rights_bad E rights \<longleftrightarrow> rights = 0 \<or> (rights AND NOT 7 \<noteq> 0 \<and> rights \<noteq> action_code E ''RIGHT_POINTER'')"

text \<open>\<open>copy_service\<close> is \<open>out->window.service = scope->window.service\<close>.\<close>

definition window_service_at :: "'w platform \<Rightarrow> u64 \<Rightarrow> u64" where
  "window_service_at E token = member_at E (member_at E token ''R4DesktopActionToken'' ''window'') ''R4WindowModeIdentity'' ''service''"

definition r4_desktop_action_prepare ::
  "'w platform \<Rightarrow> u64 \<Rightarrow> bytes \<Rightarrow> bytes \<Rightarrow> u32 \<Rightarrow> u64 \<Rightarrow> (i32, 'w) io" where
  "r4_desktop_action_prepare E scope requester controller rights out =
     (if scope = 0 \<or> out = 0 then give (action_code E ''RESULT_INVALID'')
      else and_then (load_obj E scope ''R4DesktopActionToken'') (\<lambda>sc.
        if action_word E ''version'' sc \<noteq> 1 \<or> action_word E ''size'' sc \<noteq> sizeof E ''R4DesktopActionToken'' \<or>
           \<not> r4_desktop_action_valid_process E (window_part E ''service'' (action_part E ''window'' sc)) \<or>
           \<not> any_word (action_part E ''epoch'' sc) \<or>
           \<not> r4_desktop_action_valid_process E requester \<or> \<not> r4_desktop_action_valid_process E controller \<or> rights_bad E rights
        then give (action_code E ''RESULT_INVALID'')
        else and_then (clear_obj E out ''R4DesktopActionToken'') (\<lambda>_.
             and_then (put_header E out ''R4DesktopActionToken'' 1 (sizeof E ''R4DesktopActionToken'')) (\<lambda>_.
             and_then (copy_range (window_service_at E out) (window_service_at E scope) (p_len E ''R4WindowModeIdentity'' ''service'')) (\<lambda>_.
             and_then (Platform.store (member_at E out ''R4DesktopActionToken'' ''request'') requester) (\<lambda>_.
             and_then (Platform.store (member_at E out ''R4DesktopActionToken'' ''controller'') controller) (\<lambda>_.
             and_then (put_member E out ''R4DesktopActionToken'' ''rights'' (ucast rights)) (\<lambda>_.
             and_then (each (copy_word (member_at E out ''R4DesktopActionToken'' ''epoch'')
                         (member_at E scope ''R4DesktopActionToken'' ''epoch'')) [0, 1, 2]) (\<lambda>_. give 0)))))))))"

subsection \<open>The call\<close>

definition state_malformed :: "'w platform \<Rightarrow> string \<Rightarrow> bytes \<Rightarrow> bool" where
  "state_malformed E m v \<longleftrightarrow>
     (let state = obj_part E ''R4DesktopActionReply'' m v in
      field E ''R4DesktopActionState'' ''version'' state \<noteq> 1 \<or>
      field E ''R4DesktopActionState'' ''size'' state \<noteq> sizeof E ''R4DesktopActionState'')"

definition reply_token :: "'w platform \<Rightarrow> bytes \<Rightarrow> bytes" where
  "reply_token E v = obj_part E ''R4DesktopActionRequest'' ''token'' (obj_part E ''R4DesktopActionReply'' ''request'' v)"

definition reply_result :: "'w platform \<Rightarrow> bytes \<Rightarrow> i32" where
  "reply_result E v = obj_word E ''R4DesktopActionReply'' ''result'' v"

definition action_malformed :: "'w platform \<Rightarrow> u32 \<Rightarrow> bytes \<Rightarrow> bool" where
  "action_malformed E got v \<longleftrightarrow>
     ucast got \<noteq> sizeof E ''R4DesktopActionReply'' \<or>
     action_word E ''version'' (reply_token E v) \<noteq> 1 \<or> action_word E ''size'' (reply_token E v) \<noteq> sizeof E ''R4DesktopActionToken'' \<or>
     sint (reply_result E v) > 0 \<or> sint (reply_result E v) < sint (action_code E ''RESULT_RELEASED'') \<or>
     field E ''R4DesktopActionReply'' ''phase'' v > ucast (p_code E ''R4OS_DESKTOP_ACTION_PHASE_UNKNOWN'') \<or>
     state_malformed E ''applied'' v \<or> state_malformed E ''current'' v"

definition action_foreign :: "'w platform \<Rightarrow> bytes \<Rightarrow> bytes \<Rightarrow> bool" where
  "action_foreign E mine t \<longleftrightarrow>
     \<not> r4_desktop_action_same_process E (window_part E ''service'' (action_part E ''window'' t))
         (window_part E ''service'' (action_part E ''window'' mine)) \<or>
     \<not> r4_desktop_action_same_process E (action_part E ''request'' t) (action_part E ''request'' mine) \<or>
     \<not> r4_desktop_action_same_process E (action_part E ''controller'' t) (action_part E ''controller'' mine) \<or>
     action_word E ''rights'' t \<noteq> action_word E ''rights'' mine \<or>
     \<not> same_words (action_part E ''epoch'' t) (action_part E ''epoch'' mine) \<or>
     (action_word E ''grant'' mine \<noteq> 0 \<and> action_word E ''grant'' t \<noteq> action_word E ''grant'' mine) \<or>
     (window_word E ''serial'' (action_part E ''window'' mine) \<noteq> 0 \<and>
        \<not> r4_desktop_action_same_window E (action_part E ''window'' t) (action_part E ''window'' mine))"

text \<open>\<open>rq\<close> is the request as it stands after the call, \<open>v\<close> the reply received.\<close>

definition action_refused :: "'w platform \<Rightarrow> u16 \<Rightarrow> u32 \<Rightarrow> bytes \<Rightarrow> bytes \<Rightarrow> bool" where
  "action_refused E op_code got rq v \<longleftrightarrow>
     (let mine = obj_part E ''R4DesktopActionRequest'' ''token'' rq in
      action_malformed E got v \<or>
      (op_code \<noteq> action_op E ''SCOPE'' \<and> op_code \<noteq> action_op E ''APP_VIEW'' \<and> action_foreign E mine (reply_token E v)) \<or>
      (op_code = action_op E ''APP_VIEW'' \<and> reply_result E v = 0 \<and>
         window_word E ''window_id'' (action_part E ''window'' (reply_token E v)) \<noteq> window_word E ''window_id'' (action_part E ''window'' mine)))"

definition action_accept :: "'w platform \<Rightarrow> u16 \<Rightarrow> u64 \<Rightarrow> u64 \<Rightarrow> u32 \<Rightarrow> (i32, 'w) io" where
  "action_accept E op_code q out got =
     and_then (load_obj E (p_local E ''reply'') ''R4DesktopActionReply'') (\<lambda>v.
     and_then (load_obj E q ''R4DesktopActionRequest'') (\<lambda>rq.
       if action_refused E op_code got rq v then give (action_code E ''RESULT_INVALID'')
       else and_then (Platform.store out v) (\<lambda>_. give 0)))"

definition milliseconds_timeout :: "time_codes \<Rightarrow> u32 \<Rightarrow> r4_timeout" where
  "milliseconds_timeout K milliseconds = r4_timeout_finite K \<lparr>duration_ns = ucast milliseconds * 1000000\<rparr>"

definition r4_desktop_action_call_ms ::
  "'w platform \<Rightarrow> time_codes \<Rightarrow> r4_app option \<Rightarrow> u16 \<Rightarrow> u64 \<Rightarrow> u64 \<Rightarrow> u32 \<Rightarrow> (i32, 'w) io" where
  "r4_desktop_action_call_ms E K app op_code q out milliseconds =
     (if app = None \<or> q = 0 \<or> out = 0 then give (action_code E ''RESULT_INVALID'')
      else and_then (service_exchange E K app (p_local E ''R4OS_WINDOW_SERVICE_NAME'') op_code q (ucast (sizeof E ''R4DesktopActionRequest''))
          (p_local E ''reply'') (ucast (sizeof E ''R4DesktopActionReply'')) (milliseconds_timeout K milliseconds)) (\<lambda>r.
        case r of Inl rc \<Rightarrow> give rc | Inr result \<Rightarrow> action_accept E op_code q out (sc_bytes result)))"

subsection \<open>The operations\<close>

text \<open>The request of an operation is its local \<open>q\<close>; \<open>members\<close> are set after the token.\<close>

definition action_send ::
  "'w platform \<Rightarrow> time_codes \<Rightarrow> r4_app option \<Rightarrow> string \<Rightarrow> u64 \<Rightarrow> (string \<times> u64) list \<Rightarrow> u64 \<Rightarrow> u32 \<Rightarrow> (i32, 'w) io" where
  "action_send E K app opname token members out milliseconds =
     and_then (r4_desktop_action_request E token (p_local E ''q'')) (\<lambda>_.
     and_then (each (\<lambda>(m, v). put_member E (p_local E ''q'') ''R4DesktopActionRequest'' m v) members) (\<lambda>_.
       r4_desktop_action_call_ms E K app (action_op E opname) (p_local E ''q'') out milliseconds))"

definition r4_desktop_action_scope :: "'w platform \<Rightarrow> time_codes \<Rightarrow> r4_app option \<Rightarrow> u64 \<Rightarrow> (i32, 'w) io" where
  "r4_desktop_action_scope E K app out = action_send E K app ''SCOPE'' 0 [] out 500"

definition r4_desktop_action_grant :: "'w platform \<Rightarrow> time_codes \<Rightarrow> r4_app option \<Rightarrow> u64 \<Rightarrow> u64 \<Rightarrow> (i32, 'w) io" where
  "r4_desktop_action_grant E K app t out = action_send E K app ''GRANT'' t [] out 500"

definition r4_desktop_action_command :: "'w platform \<Rightarrow> time_codes \<Rightarrow> r4_app option \<Rightarrow> u64 \<Rightarrow> u64 \<Rightarrow> (i32, 'w) io" where
  "r4_desktop_action_command E K app q out = r4_desktop_action_call_ms E K app (action_op E ''COMMAND'') q out 500"

definition r4_desktop_action_pointer_step ::
  "'w platform \<Rightarrow> time_codes \<Rightarrow> r4_app option \<Rightarrow> u64 \<Rightarrow> u64 \<Rightarrow> u64 \<Rightarrow> u32 \<Rightarrow> i32 \<Rightarrow> i32 \<Rightarrow> u64 \<Rightarrow> (i32, 'w) io" where
  "r4_desktop_action_pointer_step E K app t operation deadline kind x y out =
     (if t = 0 then give (action_code E ''RESULT_INVALID'')
      else and_then (load_obj E t ''R4DesktopActionToken'') (\<lambda>token.
        if action_word E ''rights'' token \<noteq> ucast (action_code E ''RIGHT_POINTER'') \<or>
           kind \<notin> set [action_code E ''KIND_POINTER_DOWN'', action_code E ''KIND_POINTER_MOVE'', action_code E ''KIND_POINTER_UP'']
        then give (action_code E ''RESULT_INVALID'')
        else and_then (r4_desktop_action_request E t (p_local E ''q'')) (\<lambda>_.
             and_then (each (\<lambda>(m, v). put_member E (p_local E ''q'') ''R4DesktopActionRequest'' m v)
                 [(''operation'', operation), (''deadline'', deadline), (''kind'', ucast kind), (''x'', scast x), (''y'', scast y)]) (\<lambda>_.
               r4_desktop_action_command E K app (p_local E ''q'') out))))"

definition r4_desktop_action_status :: "'w platform \<Rightarrow> time_codes \<Rightarrow> r4_app option \<Rightarrow> u64 \<Rightarrow> u64 \<Rightarrow> u64 \<Rightarrow> (i32, 'w) io" where
  "r4_desktop_action_status E K app t operation out = action_send E K app ''STATUS'' t [(''operation'', operation)] out 500"

definition r4_desktop_action_release :: "'w platform \<Rightarrow> time_codes \<Rightarrow> r4_app option \<Rightarrow> u64 \<Rightarrow> u64 \<Rightarrow> (i32, 'w) io" where
  "r4_desktop_action_release E K app t out = action_send E K app ''RELEASE'' t [] out 500"

definition r4_desktop_action_app_view :: "'w platform \<Rightarrow> time_codes \<Rightarrow> r4_app option \<Rightarrow> i32 \<Rightarrow> u64 \<Rightarrow> (i32, 'w) io" where
  "r4_desktop_action_app_view E K app window_id out =
     (if negative window_id then give (action_code E ''RESULT_INVALID'')
      else and_then (r4_desktop_action_request E 0 (p_local E ''q'')) (\<lambda>_.
           and_then (put_member E (member_at E (q_token E (p_local E ''q'')) ''R4DesktopActionToken'' ''window'')
               ''R4WindowModeIdentity'' ''window_id'' (ucast window_id)) (\<lambda>_.
             r4_desktop_action_call_ms E K app (action_op E ''APP_VIEW'') (p_local E ''q'') out 20)))"

definition r4_desktop_action_app_frame ::
  "'w platform \<Rightarrow> time_codes \<Rightarrow> r4_app option \<Rightarrow> u64 \<Rightarrow> u64 \<Rightarrow> u64 \<Rightarrow> i32 \<Rightarrow> i32 \<Rightarrow> u64 \<Rightarrow> (i32, 'w) io" where
  "r4_desktop_action_app_frame E K app t revision frame width height out =
     action_send E K app ''APP_FRAME'' t
       [(''operation'', revision), (''frame_generation'', frame), (''width'', scast width), (''height'', scast height)] out 20"

subsection \<open>Focus snapshots\<close>

definition focus_malformed :: "'w platform \<Rightarrow> u32 \<Rightarrow> bytes \<Rightarrow> bytes \<Rightarrow> bool" where
  "focus_malformed E got wanted v \<longleftrightarrow>
     (let result = obj_word E ''R4DesktopFocusReply'' ''result'' v :: i32;
          snap = obj_part E ''R4DesktopFocusReply'' ''snapshot'' v in
      ucast got \<noteq> sizeof E ''R4DesktopFocusReply'' \<or> sint result > 0 \<or>
      sint result < sint (code E ''R4OS_DESKTOP_FOCUS_RESULT_UNKNOWN'') \<or> field E ''R4DesktopFocusReply'' ''reserved'' v \<noteq> 0 \<or>
      (result = 0 \<and>
         (field E ''R4DesktopFocusSnapshot'' ''version'' snap \<noteq> 1 \<or>
          field E ''R4DesktopFocusSnapshot'' ''size'' snap \<noteq> sizeof E ''R4DesktopFocusSnapshot'' \<or>
          window_word E ''window_id'' (obj_part E ''R4DesktopFocusSnapshot'' ''window'' snap) \<noteq> window_word E ''window_id'' wanted \<or>
          field E ''R4DesktopFocusSnapshot'' ''input_revision'' snap = 0)))"

definition focus_accept :: "'w platform \<Rightarrow> u64 \<Rightarrow> u64 \<Rightarrow> service_call_result \<Rightarrow> (i32, 'w) io" where
  "focus_accept E wanted out result =
     (if (obj_word E ''R4ServiceMessageHeader'' ''status'' (sc_header result) :: i32) \<noteq> 0 \<or>
         field E ''R4ServiceMessageHeader'' ''op'' (sc_header result) \<noteq> ucast (p_code E ''R4OS_DESKTOP_ACTION_OP_FOCUS_SNAPSHOT'')
      then give (code E ''R4OS_DESKTOP_FOCUS_RESULT_STALE'')
      else and_then (load_obj E (p_local E ''reply'') ''R4DesktopFocusReply'') (\<lambda>v.
           and_then (load_obj E wanted ''R4WindowModeIdentity'') (\<lambda>w.
             if focus_malformed E (sc_bytes result) w v then give (code E ''R4OS_DESKTOP_FOCUS_RESULT_STALE'')
             else and_then (Platform.store out v) (\<lambda>_. give 0))))"

text \<open>The reply object is cleared before the call, after the connection is open; nothing reads it in between.\<close>

definition r4_desktop_focus_snapshot :: "'w platform \<Rightarrow> time_codes \<Rightarrow> r4_app option \<Rightarrow> u64 \<Rightarrow> u64 \<Rightarrow> (i32, 'w) io" where
  "r4_desktop_focus_snapshot E K app wanted out =
     (if app = None \<or> wanted = 0 \<or> out = 0 then give (code E ''R4OS_DESKTOP_FOCUS_RESULT_STALE'')
      else and_then (clear_obj E (p_local E ''reply'') ''R4DesktopFocusReply'') (\<lambda>_.
           and_then (service_exchange E K app (p_local E ''R4OS_WINDOW_SERVICE_NAME'') (action_op E ''FOCUS_SNAPSHOT'') wanted
               (ucast (sizeof E ''R4WindowModeIdentity'')) (p_local E ''reply'') (ucast (sizeof E ''R4DesktopFocusReply''))
               (milliseconds_timeout K 20)) (\<lambda>r.
             case r of Inl rc \<Rightarrow> give rc | Inr result \<Rightarrow> focus_accept E wanted out result)))"

subsection \<open>A frame that is ready\<close>

definition r4_desktop_action_frame_ready :: "'w platform \<Rightarrow> bytes option \<Rightarrow> bool" where
  "r4_desktop_action_frame_ready E reply =
     (case reply of
        None \<Rightarrow> False
      | Some r \<Rightarrow>
          let applied = obj_part E ''R4DesktopActionReply'' ''applied'' r;
              current = obj_part E ''R4DesktopActionReply'' ''current'' r;
              proof_flags = obj_word E ''R4DesktopActionState'' ''proof_flags'' current :: u32 in
          field E ''R4DesktopActionReply'' ''phase'' r = ucast (p_code E ''R4OS_DESKTOP_ACTION_PHASE_APPLIED'') \<and>
          reply_result E r = 0 \<and> field E ''R4DesktopActionState'' ''view_revision'' applied \<noteq> 0 \<and>
          field E ''R4DesktopActionState'' ''view_revision'' applied = field E ''R4DesktopActionState'' ''view_revision'' current \<and>
          r4_desktop_action_same_window E (obj_part E ''R4DesktopActionState'' ''window'' applied) (obj_part E ''R4DesktopActionState'' ''window'' current) \<and>
          proof_flags AND action_code E ''PROOF_COMPOSED'' \<noteq> 0 \<and> field E ''R4DesktopActionState'' ''composition_serial'' current \<noteq> 0 \<and>
          (proof_flags AND action_code E ''PROOF_INVISIBLE'' \<noteq> 0 \<or> proof_flags AND action_code E ''PROOF_APP_FRESH'' \<noteq> 0))"

subsection \<open>What an accepted reply is\<close>

lemma action_accepted:
  assumes "action_accept E op_code q out got s = Some (0, s')" and "action_code E ''RESULT_INVALID'' \<noteq> 0"
  obtains (accepted) v rq M where "load_bytes (m_mem s) (p_local E ''reply'') (p_size E ''R4DesktopActionReply'') = Some v"
    "load_bytes (m_mem s) q (p_size E ''R4DesktopActionRequest'') = Some rq" "\<not> action_refused E op_code got rq v"
    "store_bytes (m_mem s) out v = Some M" "s' = s\<lparr>m_mem := M\<rparr>"
  using assms by (auto simp: action_accept_def and_then_Some_iff give_def load_obj_def Platform.store_def split: if_split_asm)

lemma foreign_echo:
  assumes "\<not> action_foreign E mine t"
  shows "
        same_process E (window_part E ''service'' (action_part E ''window'' t)) (window_part E ''service'' (action_part E ''window'' mine)) \<and>
        same_process E (action_part E ''request'' t) (action_part E ''request'' mine) \<and>
        same_process E (action_part E ''controller'' t) (action_part E ''controller'' mine) \<and>
        action_word E ''rights'' t = action_word E ''rights'' mine \<and> same_words (action_part E ''epoch'' t) (action_part E ''epoch'' mine) \<and>
        action_word E ''grant'' mine \<in> {0, action_word E ''grant'' t} \<and>
        (window_word E ''serial'' (action_part E ''window'' mine) \<noteq> 0 \<longrightarrow>
          r4_desktop_action_same_window E (action_part E ''window'' t) (action_part E ''window'' mine))"
  using assms by (auto simp: action_foreign_def r4_desktop_action_same_process_def)

lemma refused_echo:
  assumes "\<not> action_refused E op_code got rq v"
  shows "ucast got = sizeof E ''R4DesktopActionReply'' \<and>
    (let mine = obj_part E ''R4DesktopActionRequest'' ''token'' rq; t = reply_token E v in
      (op_code \<notin> {action_op E ''SCOPE'', action_op E ''APP_VIEW''} \<longrightarrow>
        same_process E (window_part E ''service'' (action_part E ''window'' t)) (window_part E ''service'' (action_part E ''window'' mine)) \<and>
        same_process E (action_part E ''request'' t) (action_part E ''request'' mine) \<and>
        same_process E (action_part E ''controller'' t) (action_part E ''controller'' mine) \<and>
        action_word E ''rights'' t = action_word E ''rights'' mine \<and> same_words (action_part E ''epoch'' t) (action_part E ''epoch'' mine) \<and>
        action_word E ''grant'' mine \<in> {0, action_word E ''grant'' t} \<and>
        (window_word E ''serial'' (action_part E ''window'' mine) \<noteq> 0 \<longrightarrow>
          r4_desktop_action_same_window E (action_part E ''window'' t) (action_part E ''window'' mine))) \<and>
      (op_code = action_op E ''APP_VIEW'' \<and> reply_result E v = 0 \<longrightarrow>
        window_word E ''window_id'' (action_part E ''window'' t) = window_word E ''window_id'' (action_part E ''window'' mine)))"
proof -
  have "\<not> action_malformed E got v" using assms by (simp add: action_refused_def Let_def)
  moreover have "\<not> action_foreign E (obj_part E ''R4DesktopActionRequest'' ''token'' rq) (reply_token E v)"
    if "op_code \<notin> {action_op E ''SCOPE'', action_op E ''APP_VIEW''}"
    using assms that by (simp add: action_refused_def Let_def)
  note foreign_echo [OF this]
  moreover have "window_word E ''window_id'' (action_part E ''window'' (reply_token E v)) =
      window_word E ''window_id'' (action_part E ''window'' (obj_part E ''R4DesktopActionRequest'' ''token'' rq))"
    if "op_code = action_op E ''APP_VIEW'' \<and> reply_result E v = 0"
    using assms that by (simp add: action_refused_def Let_def)
  ultimately show ?thesis unfolding action_malformed_def Let_def by blast
qed

text \<open>
  C25: When an action call returns 0 the reply is complete and has been written to the
  caller's object. Unless the call asked for a scope or an application's view, the reply's
  token carries the window service, requester, controller, rights and epoch of the request,
  the grant when the request named one, and the whole window identity when the request
  named a window incarnation; a successful view is the view of the window asked for.\<close>

theorem action_reply_accepted:
  assumes "service_codes E" and "action_code E ''RESULT_INVALID'' \<noteq> 0" and "p_size E ''R4DesktopActionReply'' < 2 ^ 64"
    and "r4_desktop_action_call_ms E K app op_code q out ms s = Some (0, s')"
  shows "\<exists>result s1 v rq.
    service_exchange E K app (p_local E ''R4OS_WINDOW_SERVICE_NAME'') op_code q (ucast (sizeof E ''R4DesktopActionRequest''))
      (p_local E ''reply'') (ucast (sizeof E ''R4DesktopActionReply'')) (milliseconds_timeout K ms) s = Some (Inr result, s1) \<and>
    load_bytes (m_mem s1) q (p_size E ''R4DesktopActionRequest'') = Some rq \<and>
    ucast (sc_bytes result) = sizeof E ''R4DesktopActionReply'' \<and>
    load_bytes (m_mem s') out (p_size E ''R4DesktopActionReply'') = Some v \<and>
    (let mine = obj_part E ''R4DesktopActionRequest'' ''token'' rq; t = reply_token E v in
      (op_code \<notin> {action_op E ''SCOPE'', action_op E ''APP_VIEW''} \<longrightarrow>
        same_process E (window_part E ''service'' (action_part E ''window'' t)) (window_part E ''service'' (action_part E ''window'' mine)) \<and>
        same_process E (action_part E ''request'' t) (action_part E ''request'' mine) \<and>
        same_process E (action_part E ''controller'' t) (action_part E ''controller'' mine) \<and>
        action_word E ''rights'' t = action_word E ''rights'' mine \<and> same_words (action_part E ''epoch'' t) (action_part E ''epoch'' mine) \<and>
        action_word E ''grant'' mine \<in> {0, action_word E ''grant'' t} \<and>
        (window_word E ''serial'' (action_part E ''window'' mine) \<noteq> 0 \<longrightarrow>
          r4_desktop_action_same_window E (action_part E ''window'' t) (action_part E ''window'' mine))) \<and>
      (op_code = action_op E ''APP_VIEW'' \<and> reply_result E v = 0 \<longrightarrow>
        window_word E ''window_id'' (action_part E ''window'' t) = window_word E ''window_id'' (action_part E ''window'' mine)))"
proof -
  let ?ex = "service_exchange E K app (p_local E ''R4OS_WINDOW_SERVICE_NAME'') op_code q (ucast (sizeof E ''R4DesktopActionRequest''))
      (p_local E ''reply'') (ucast (sizeof E ''R4DesktopActionReply'')) (milliseconds_timeout K ms)"
  from assms(2,4) have "and_then ?ex (\<lambda>r. case r of Inl rc \<Rightarrow> give rc | Inr result \<Rightarrow> action_accept E op_code q out (sc_bytes result)) s = Some (0, s')"
    by (simp add: r4_desktop_action_call_ms_def give_def split: if_split_asm)
  from exchange_then [OF assms(1) this] obtain result s1 where ex: "?ex s = Some (Inr result, s1)"
    and acc: "action_accept E op_code q out (sc_bytes result) s1 = Some (0, s')" by blast
  from acc assms(2) show ?thesis
  proof (cases rule: action_accepted)
    case (accepted v rq M)
    have "load_bytes (m_mem s') out (p_size E ''R4DesktopActionReply'') = Some v"
      using store_bytes_load [OF accepted(4), of 0 "length v"] accepted(5) length_load_bytes [OF accepted(1)] assms(3) by simp
    moreover note refused_echo [OF accepted(3)]
    ultimately show ?thesis using ex accepted(2) by blast
  qed
qed

text \<open>A pointer gesture is sent only under a pointer grant: otherwise the machine is left as it is.\<close>

lemma pointer_step_needs_grant:
  assumes "r4_desktop_action_pointer_step E K app t operation deadline kind x y out s = Some (rc, s')"
    and "load_bytes (m_mem s) t (p_size E ''R4DesktopActionToken'') = Some token"
    and "action_word E ''rights'' token \<noteq> ucast (action_code E ''RIGHT_POINTER'')"
  shows "rc = action_code E ''RESULT_INVALID'' \<and> s' = s"
  using assms by (auto simp: r4_desktop_action_pointer_step_def and_then_Some_iff give_def load_obj_def split: if_split_asm)

lemma frame_ready_current:
  assumes "r4_desktop_action_frame_ready E (Some r)"
  shows "field E ''R4DesktopActionState'' ''view_revision'' (obj_part E ''R4DesktopActionReply'' ''current'' r) \<noteq> 0"
    and "field E ''R4DesktopActionState'' ''composition_serial'' (obj_part E ''R4DesktopActionReply'' ''current'' r) \<noteq> 0"
  using assms by (auto simp: r4_desktop_action_frame_ready_def Let_def)

subsection \<open>A sample broker\<close>

definition action_layout :: "string \<Rightarrow> (string \<times> nat) list" where
  "action_layout T =
     (if T = ''R4DesktopActionToken'' then
        [(''version'', 1), (''size'', 1), (''window'', 7), (''request'', 3), (''controller'', 3), (''rights'', 1), (''epoch'', 1), (''grant'', 1)]
      else if T = ''R4WindowModeIdentity'' then [(''service'', 3), (''desktop'', 1), (''owner'', 1), (''serial'', 1), (''window_id'', 1)]
      else if T = ''R4DesktopActionRequest'' then [(''token'', 18)]
      else if T = ''R4DesktopActionState'' then [(''version'', 1), (''size'', 1)]
      else if T = ''R4DesktopActionReply'' then [(''request'', 18), (''phase'', 1), (''result'', 1), (''applied'', 2), (''current'', 2)]
      else [])"

definition action_platform :: "bytes platform" where
  "action_platform = service_platform action_layout (\<lambda>x. if x = ''R4OS_DESKTOP_ACTION_OP_SCOPE'' then 1
     else if x = ''R4OS_DESKTOP_ACTION_OP_APP_VIEW'' then 6 else 0)"

definition action_token :: bytes where
  "action_token = [1, 18, 4, 0, 1, 0, 0, 0, 2, 6, 0, 1, 7, 0, 1, 3, 9, 5]"

definition action_start :: "bytes machine" where
  "action_start = \<lparr>m_mem = flat [(0x7000, action_token), (0x1000, service_table)], m_calls = [], m_os = action_token @ [0, 0, 1, 2, 1, 2]\<rparr>"

lemmas action_eval = action_layout_def action_platform_def milliseconds_timeout_def r4_timeout_finite_def exchange_eval service_eval

lemma action_exchange:
  "\<exists>calls. service_exchange action_platform (sample_codes\<lparr>kind_finite := 0\<rparr>) (Some service_app) 0x5000 3 0x7000 18 0x5000 24
      (milliseconds_timeout (sample_codes\<lparr>kind_finite := 0\<rparr>) 500) action_start =
    Some (Inr \<lparr>sc_kind = CALL_RESPONSE, sc_raw_code = 0, sc_bytes = 24, sc_header = [0, 0]\<rparr>,
     \<lparr>m_mem = flat [(0x5000, action_token @ [0, 0, 1, 2, 1, 2]), (0x2100, [0, 0]), (0x2000, [7, 9]), (0x2000, [0, 0]),
        (0x7000, action_token), (0x1000, service_table)], m_calls = calls, m_os = action_token @ [0, 0, 1, 2, 1, 2]\<rparr>)"
  by (simp add: service_exchange_def action_start_def action_token_def action_eval sample_codes_def Let_def
    cong: run_congs del: load_bytes.simps store_bytes.simps)

lemma action_reply_good:
  "\<not> action_refused action_platform 3 24 action_token (action_token @ [0, 0, 1, 2, 1, 2])"
proof -
  have t: "obj_part action_platform ''R4DesktopActionRequest'' ''token'' action_token = action_token"
    "reply_token action_platform (action_token @ [0, 0, 1, 2, 1, 2]) = action_token"
    by (simp_all add: obj_part_def reply_token_def action_platform_def action_layout_def action_token_def)
  have "\<not> action_malformed action_platform 24 (action_token @ [0, 0, 1, 2, 1, 2])"
    unfolding action_malformed_def t
    by (simp add: state_malformed_def reply_result_def obj_part_def obj_word_def sizeof_def action_platform_def action_layout_def
      action_token_def service_code_def Let_def)
  then show ?thesis unfolding action_refused_def t
    by (simp add: action_foreign_def r4_desktop_action_same_process_def r4_desktop_action_same_window_def action_platform_def
      service_code_def Let_def)
qed

theorem action_reply_accepted_witness:
  "\<exists>s' v. r4_desktop_action_call_ms action_platform (sample_codes\<lparr>kind_finite := 0\<rparr>) (Some service_app) 3 0x7000 0x7100 500 action_start =
      Some (0, s') \<and> load_bytes (m_mem s') 0x7100 24 = Some v"
proof -
  obtain calls where ex: "service_exchange action_platform (sample_codes\<lparr>kind_finite := 0\<rparr>) (Some service_app) 0x5000 3 0x7000 18 0x5000 24
      (milliseconds_timeout (sample_codes\<lparr>kind_finite := 0\<rparr>) 500) action_start =
    Some (Inr \<lparr>sc_kind = CALL_RESPONSE, sc_raw_code = 0, sc_bytes = 24, sc_header = [0, 0]\<rparr>,
     \<lparr>m_mem = flat [(0x5000, action_token @ [0, 0, 1, 2, 1, 2]), (0x2100, [0, 0]), (0x2000, [7, 9]), (0x2000, [0, 0]),
        (0x7000, action_token), (0x1000, service_table)], m_calls = calls, m_os = action_token @ [0, 0, 1, 2, 1, 2]\<rparr>)"
    using action_exchange by blast
  have eval: "p_local action_platform = service_local" "p_size action_platform ''R4DesktopActionReply'' = 24"
    "p_size action_platform ''R4DesktopActionRequest'' = 18" "length action_token = 18"
    by (simp_all add: action_platform_def action_layout_def action_token_def)
  obtain s' where run: "r4_desktop_action_call_ms action_platform (sample_codes\<lparr>kind_finite := 0\<rparr>) (Some service_app) 3 0x7000 0x7100 500 action_start =
      Some (0, s')"
    using action_reply_good
    by (simp add: r4_desktop_action_call_ms_def and_then_def [of "service_exchange _ _ _ _ _ _ _ _ _ _"] eval sizeof_def service_local_def ex
      action_accept_def load_obj_def flat_simps run_steps run_stores cong: run_congs del: load_bytes.simps store_bytes.simps)
  have "service_codes action_platform" "action_code action_platform ''RESULT_INVALID'' \<noteq> 0"
    by (simp_all add: service_codes_def action_platform_def service_code_def)
  then show ?thesis using action_reply_accepted [OF _ _ _ run] run by (simp add: eval Let_def) blast
qed

end
