(* ===== verification/DesktopLinks.thy ===== *)
theory DesktopLinks
  imports ServiceClient
begin

text \<open>
  \<open>Shared/C/include/r4os/desktop_links.h\<close>: the canonical request that binds a link to an
  owner and an intent, and the call whose reply has to repeat the request byte for byte.
\<close>

abbreviation link_code where "link_code E c \<equiv> code E (''R4OS_DESKTOP_LINK_'' @ c)"
abbreviation link_op :: "'w platform \<Rightarrow> string \<Rightarrow> u16" where
  "link_op E c \<equiv> ucast (p_code E (''R4OS_DESKTOP_LINK_OP_'' @ c))"
abbreviation link_word where "link_word E m token \<equiv> field E ''R4DesktopLinkToken'' m token"
abbreviation link_part where "link_part E m token \<equiv> obj_part E ''R4DesktopLinkToken'' m token"

definition link_result :: "'w platform \<Rightarrow> bytes \<Rightarrow> i32" where
  "link_result E v = obj_word E ''R4DesktopLinkReply'' ''result'' v"

definition r4_desktop_link_supported :: "'w platform \<Rightarrow> bytes option \<Rightarrow> bool" where
  "r4_desktop_link_supported E reply =
     (case reply of
        None \<Rightarrow> False
      | Some r \<Rightarrow> link_result E r = 0 \<and>
          (obj_word E ''R4DesktopLinkReply'' ''flags'' r :: u32) AND link_code E ''CAPABILITIES'' = link_code E ''CAPABILITIES'')"

subsection \<open>The canonical request\<close>

text \<open>\<open>for (i = 0; i < n; i++) { if (!src[i]) return INVALID; dst[i] = src[i]; }\<close>: \<open>False\<close> leaves with the bytes before copied.\<close>

fun copy_nonzero :: "u64 \<Rightarrow> u64 \<Rightarrow> nat \<Rightarrow> (bool, 'w) io" where
  "copy_nonzero dst src 0 = give True"
| "copy_nonzero dst src (Suc n) =
     and_then (load_range src 1) (\<lambda>b.
       if b = [0] then give False
       else and_then (Platform.store dst b) (\<lambda>_. copy_nonzero (dst + 1) (src + 1) n))"

definition binding_bad :: "'w platform \<Rightarrow> u32 \<Rightarrow> u32 \<Rightarrow> bytes \<Rightarrow> bytes \<Rightarrow> bytes \<Rightarrow> bool" where
  "binding_bad E path_bytes count owner words scope \<longleftrightarrow>
     path_bytes = 0 \<or> path_bytes \<ge> 160 \<or> count = 0 \<or> count > link_code E ''MAX_BYTES'' \<or> \<not> valid_process E owner \<or> \<not> any_word words \<or>
     link_word E ''version'' scope \<noteq> 1 \<or> link_word E ''size'' scope \<noteq> sizeof E ''R4DesktopLinkToken'' \<or>
     field E ''R4ProgramProcessHandle'' ''instance_id'' (link_part E ''service'' scope) = 0 \<or>
     field E ''R4ProgramProcessHandle'' ''generation'' (link_part E ''service'' scope) = 0 \<or> \<not> any_word (link_part E ''epoch'' scope)"

abbreviation link_at :: "'w platform \<Rightarrow> u64 \<Rightarrow> string \<Rightarrow> u64" where
  "link_at E out m \<equiv> member_at E out ''R4DesktopLinkRequest'' m"

definition r4_desktop_link_binding ::
  "'w platform \<Rightarrow> u64 \<Rightarrow> bytes \<Rightarrow> u64 \<Rightarrow> u64 \<Rightarrow> u64 \<Rightarrow> u32 \<Rightarrow> u64 \<Rightarrow> u32 \<Rightarrow> u64 \<Rightarrow> (i32, 'w) io" where
  "r4_desktop_link_binding E scope owner intent deadline path path_bytes link count out =
     (if scope = 0 \<or> intent = 0 \<or> out = 0 \<or> path = 0 \<or> link = 0 then give (link_code E ''RESULT_INVALID'')
      else and_then (load_obj E scope ''R4DesktopLinkToken'') (\<lambda>sc.
           and_then (load_range intent 24) (\<lambda>words.
             if binding_bad E path_bytes count owner words sc then give (link_code E ''RESULT_INVALID'')
             else let token = link_at E out ''token'' in
               and_then (clear_obj E out ''R4DesktopLinkRequest'') (\<lambda>_.
               and_then (put_header E token ''R4DesktopLinkToken'' 1 (sizeof E ''R4DesktopLinkToken'')) (\<lambda>_.
               and_then (copy_member E ''R4DesktopLinkToken'' ''service'' token scope) (\<lambda>_.
               and_then (Platform.store (member_at E token ''R4DesktopLinkToken'' ''owner'') owner) (\<lambda>_.
               and_then (put_member E out ''R4DesktopLinkRequest'' ''deadline'' deadline) (\<lambda>_.
               and_then (put_member E out ''R4DesktopLinkRequest'' ''link_length'' (ucast count)) (\<lambda>_.
               and_then (each (\<lambda>i. and_then (copy_word (member_at E token ''R4DesktopLinkToken'' ''epoch'')
                                          (member_at E scope ''R4DesktopLinkToken'' ''epoch'') i) (\<lambda>_.
                                copy_word (member_at E token ''R4DesktopLinkToken'' ''intent'') intent i)) [0, 1, 2]) (\<lambda>_.
               and_then (copy_nonzero (link_at E out ''link_path'') path (unat path_bytes)) (\<lambda>ok.
                 if \<not> ok then give (link_code E ''RESULT_INVALID'')
                 else and_then (copy_nonzero (link_at E out ''link_bytes'') link (unat count)) (\<lambda>ok.
                   if \<not> ok then give (link_code E ''RESULT_INVALID'') else give 0))))))))))))"

subsection \<open>The call\<close>

definition link_reply_request :: "'w platform \<Rightarrow> bytes \<Rightarrow> bytes" where
  "link_reply_request E v = obj_part E ''R4DesktopLinkReply'' ''request'' v"

definition link_malformed :: "'w platform \<Rightarrow> u32 \<Rightarrow> bytes \<Rightarrow> bool" where
  "link_malformed E got v \<longleftrightarrow>
     (let request = link_reply_request E v; token = obj_part E ''R4DesktopLinkRequest'' ''token'' request in
      ucast got \<noteq> sizeof E ''R4DesktopLinkReply'' \<or> link_word E ''version'' token \<noteq> 1 \<or>
      link_word E ''size'' token \<noteq> sizeof E ''R4DesktopLinkToken'' \<or>
      field E ''R4DesktopLinkRequest'' ''link_length'' request > ucast (p_code E ''R4OS_DESKTOP_LINK_MAX_BYTES'') \<or>
      field E ''R4DesktopLinkReply'' ''phase'' v > ucast (p_code E ''R4OS_DESKTOP_LINK_PHASE_EXPIRED'') \<or>
      sint (link_result E v) > 0 \<or> sint (link_result E v) < sint (link_code E ''RESULT_UNAVAILABLE''))"

text \<open>
  \<open>expected\<close> is the request with the serial the reply names; the two are then compared byte by
  byte, padding included. \<open>serial_off\<close> is the offset of \<open>token.serial\<close> inside a request.
\<close>

definition serial_off :: "'w platform \<Rightarrow> nat" where
  "serial_off E = p_off E ''R4DesktopLinkRequest'' ''token'' + p_off E ''R4DesktopLinkToken'' ''serial''"

definition serial_bytes :: "'w platform \<Rightarrow> bytes \<Rightarrow> bytes" where
  "serial_bytes E request = link_part E ''serial'' (obj_part E ''R4DesktopLinkRequest'' ''token'' request)"

definition with_serial :: "'w platform \<Rightarrow> bytes \<Rightarrow> bytes \<Rightarrow> bytes" where
  "with_serial E serial request = take (serial_off E) request @ serial @ drop (serial_off E + length serial) request"

definition link_foreign :: "'w platform \<Rightarrow> bytes \<Rightarrow> bytes \<Rightarrow> bool" where
  "link_foreign E mine theirs \<longleftrightarrow>
     (let wanted = link_word E ''serial'' (obj_part E ''R4DesktopLinkRequest'' ''token'' mine) in
      (wanted \<noteq> 0 \<and> wanted \<noteq> link_word E ''serial'' (obj_part E ''R4DesktopLinkRequest'' ''token'' theirs)) \<or>
      with_serial E (serial_bytes E theirs) mine \<noteq> theirs)"

definition link_accept :: "'w platform \<Rightarrow> u16 \<Rightarrow> u64 \<Rightarrow> u64 \<Rightarrow> service_call_result \<Rightarrow> (i32, 'w) io" where
  "link_accept E op_code q out got =
     (let status = obj_word E ''R4ServiceMessageHeader'' ''status'' (sc_header got) :: i32 in
      if status \<noteq> 0 then give status
      else and_then (load_obj E (p_local E ''r'') ''R4DesktopLinkReply'') (\<lambda>v.
        if link_malformed E (sc_bytes got) v then give (link_code E ''RESULT_INVALID'')
        else and_then (load_obj E q ''R4DesktopLinkRequest'') (\<lambda>rq.
          if op_code \<noteq> link_op E ''SCOPE'' \<and> link_foreign E rq (link_reply_request E v) then give (link_code E ''RESULT_INVALID'')
          else and_then (Platform.store out v) (\<lambda>_. give 0))))"

text \<open>The reply object is a local: it is cleared here before the connection is opened, in the code right after.\<close>

definition link_exchange ::
  "'w platform \<Rightarrow> time_codes \<Rightarrow> r4_app option \<Rightarrow> u16 \<Rightarrow> u64 \<Rightarrow> (i32 + service_call_result, 'w) io" where
  "link_exchange E K app op_code q =
     and_then (clear_obj E (p_local E ''r'') ''R4DesktopLinkReply'') (\<lambda>_.
       service_exchange E K app (p_local E ''R4OS_WINDOW_SERVICE_NAME'') op_code q (ucast (sizeof E ''R4DesktopLinkRequest''))
         (p_local E ''r'') (ucast (sizeof E ''R4DesktopLinkReply'')) (r4_timeout_finite K \<lparr>duration_ns = 500000000\<rparr>))"

definition r4_desktop_link_call ::
  "'w platform \<Rightarrow> time_codes \<Rightarrow> r4_app option \<Rightarrow> u16 \<Rightarrow> u64 \<Rightarrow> u64 \<Rightarrow> (i32, 'w) io" where
  "r4_desktop_link_call E K app op_code q out =
     (if app = None \<or> q = 0 \<or> out = 0 then give (link_code E ''RESULT_INVALID'')
      else and_then (link_exchange E K app op_code q) (\<lambda>r.
        case r of Inl rc \<Rightarrow> give rc | Inr got \<Rightarrow> link_accept E op_code q out got))"

definition r4_desktop_link_scope :: "'w platform \<Rightarrow> time_codes \<Rightarrow> r4_app option \<Rightarrow> u64 \<Rightarrow> (i32, 'w) io" where
  "r4_desktop_link_scope E K app out =
     and_then (clear_obj E (p_local E ''q'') ''R4DesktopLinkRequest'') (\<lambda>_.
     and_then (put_header E (link_at E (p_local E ''q'') ''token'') ''R4DesktopLinkToken'' 1 (sizeof E ''R4DesktopLinkToken'')) (\<lambda>_.
       r4_desktop_link_call E K app (link_op E ''SCOPE'') (p_local E ''q'') out))"

definition r4_desktop_link_prepare :: "'w platform \<Rightarrow> time_codes \<Rightarrow> r4_app option \<Rightarrow> u64 \<Rightarrow> u64 \<Rightarrow> (i32, 'w) io" where
  "r4_desktop_link_prepare E K app q out = r4_desktop_link_call E K app (link_op E ''PREPARE'') q out"

definition r4_desktop_link_activate :: "'w platform \<Rightarrow> time_codes \<Rightarrow> r4_app option \<Rightarrow> u64 \<Rightarrow> u64 \<Rightarrow> (i32, 'w) io" where
  "r4_desktop_link_activate E K app q out = r4_desktop_link_call E K app (link_op E ''ACTIVATE'') q out"

definition r4_desktop_link_status :: "'w platform \<Rightarrow> time_codes \<Rightarrow> r4_app option \<Rightarrow> u64 \<Rightarrow> u64 \<Rightarrow> (i32, 'w) io" where
  "r4_desktop_link_status E K app q out = r4_desktop_link_call E K app (link_op E ''STATUS'') q out"

definition r4_desktop_link_release :: "'w platform \<Rightarrow> time_codes \<Rightarrow> r4_app option \<Rightarrow> u64 \<Rightarrow> u64 \<Rightarrow> (i32, 'w) io" where
  "r4_desktop_link_release E K app q out = r4_desktop_link_call E K app (link_op E ''RELEASE'') q out"

subsection \<open>What an accepted reply is\<close>

lemma le_word_inj:
  assumes "(le_word bs :: u64) = le_word cs" and "length bs = length cs" and "length cs \<le> 8"
  shows "bs = cs"
proof (rule nth_equalityI [OF assms(2)])
  fix i assume i: "i < length bs"
  show "bs ! i = cs ! i"
  proof (rule bit_word_eqI)
    fix j assume j: "j < LENGTH(8)"
    have "8 * i + j < 64" "8 * i + j < 8 * length bs" using i j assms(2,3) by simp_all
    moreover have "(8 * i + j) div 8 = i" "(8 * i + j) mod 8 = j" using j by simp_all
    moreover have "bit (le_word bs :: u64) (8 * i + j) = bit (le_word cs :: u64) (8 * i + j)" using assms(1) by simp
    ultimately show "bit (bs ! i) j = bit (cs ! i) j" using assms(2) by (simp add: bit_le_word)
  qed
qed

text \<open>The layout of a request: the token's serial lies inside it and is at most a 64-bit word.\<close>

definition link_layout_ok :: "'w platform \<Rightarrow> bool" where
  "link_layout_ok E \<longleftrightarrow> p_off E ''R4DesktopLinkToken'' ''serial'' + p_len E ''R4DesktopLinkToken'' ''serial'' \<le> p_len E ''R4DesktopLinkRequest'' ''token'' \<and>
     p_off E ''R4DesktopLinkRequest'' ''token'' + p_len E ''R4DesktopLinkRequest'' ''token'' \<le> p_size E ''R4DesktopLinkRequest'' \<and>
     p_len E ''R4DesktopLinkToken'' ''serial'' \<le> 8 \<and> p_size E ''R4DesktopLinkReply'' < 2 ^ 64"

lemma serial_bytes_part:
  assumes "link_layout_ok E"
  shows "serial_bytes E rq = take (p_len E ''R4DesktopLinkToken'' ''serial'') (drop (serial_off E) rq)"
proof -
  have "take k (drop n (take m (drop l rq))) = take k (drop (l + n) rq)" if "n + k \<le> m" for k l m n :: nat
    using that by (simp add: drop_take min_def add.commute)
  then show ?thesis using assms by (simp add: serial_bytes_def serial_off_def link_layout_ok_def obj_part_def)
qed

lemma serial_inside:
  "link_layout_ok E \<Longrightarrow> serial_off E + p_len E ''R4DesktopLinkToken'' ''serial'' \<le> p_size E ''R4DesktopLinkRequest''"
  by (simp add: link_layout_ok_def serial_off_def)

lemma serial_length:
  "link_layout_ok E \<Longrightarrow> p_size E ''R4DesktopLinkRequest'' \<le> length rq \<Longrightarrow>
    length (serial_bytes E rq) = p_len E ''R4DesktopLinkToken'' ''serial''"
  using serial_inside [of E] by (simp add: serial_bytes_part)

lemma with_serial_same:
  assumes "link_layout_ok E" and "length rq = p_size E ''R4DesktopLinkRequest''"
  shows "with_serial E (serial_bytes E rq) rq = rq"
proof -
  let ?n = "serial_off E" and ?k = "p_len E ''R4DesktopLinkToken'' ''serial''"
  have "length (take ?k (drop ?n rq)) = ?k" using serial_length [OF assms(1), of rq] assms(2) by (simp add: serial_bytes_part [OF assms(1)])
  moreover have "drop (?n + ?k) rq = drop ?k (drop ?n rq)" by (simp add: add.commute)
  ultimately show ?thesis unfolding with_serial_def serial_bytes_part [OF assms(1)] by (simp del: drop_drop)
qed

lemma serial_word: "link_word E ''serial'' (obj_part E ''R4DesktopLinkRequest'' ''token'' rq) = le_word (serial_bytes E rq)"
  by (simp add: serial_bytes_def obj_word_def obj_part_def)

lemma repeated:
  assumes "link_layout_ok E" and "length mine = p_size E ''R4DesktopLinkRequest''" and "\<not> link_foreign E mine theirs"
    and "link_word E ''serial'' (obj_part E ''R4DesktopLinkRequest'' ''token'' mine) \<noteq> 0"
  shows "theirs = mine"
proof -
  let ?k = "p_len E ''R4DesktopLinkToken'' ''serial''"
  have eq: "(le_word (serial_bytes E mine) :: u64) = le_word (serial_bytes E theirs)"
    and same: "with_serial E (serial_bytes E theirs) mine = theirs"
    using assms(3,4) by (auto simp: link_foreign_def serial_word Let_def)
  have k: "length (serial_bytes E mine) = ?k" "?k \<le> 8"
    using serial_length [OF assms(1), of mine] assms(1,2) by (simp_all add: link_layout_ok_def)
  have "length theirs \<ge> length mine" using arg_cong [OF same, of length] serial_inside [OF assms(1)] assms(2)
    by (simp add: with_serial_def)
  then have "length (serial_bytes E theirs) = ?k" using serial_length [OF assms(1), of theirs] assms(2) by simp
  with le_word_inj [OF eq] k have "serial_bytes E mine = serial_bytes E theirs" by simp
  then show ?thesis using same with_serial_same [OF assms(1,2)] by simp
qed

lemma link_accepted:
  assumes "link_accept E op_code q out got s = Some (0, s')" and "link_code E ''RESULT_INVALID'' \<noteq> 0"
  shows "\<exists>v rq. load_bytes (m_mem s) (p_local E ''r'') (p_size E ''R4DesktopLinkReply'') = Some v \<and>
    load_bytes (m_mem s) q (p_size E ''R4DesktopLinkRequest'') = Some rq \<and> \<not> link_malformed E (sc_bytes got) v \<and>
    (op_code \<noteq> link_op E ''SCOPE'' \<longrightarrow> \<not> link_foreign E rq (link_reply_request E v)) \<and> Platform.store out v s = Some ((), s')"
  using assms
  by (auto simp: link_accept_def and_then_Some_iff give_def load_obj_def Let_def split: if_split_asm)

lemma link_exchange_then:
  assumes "service_codes E"
    and "and_then (link_exchange E K app op_code q) (\<lambda>r. case r of Inl rc \<Rightarrow> give rc | Inr got \<Rightarrow> k got) s = Some (0, s')"
  shows "\<exists>got s1. link_exchange E K app op_code q s = Some (Inr got, s1) \<and> k got s1 = Some (0, s')"
proof -
  from assms(2) obtain s0 where clear: "clear_obj E (p_local E ''r'') ''R4DesktopLinkReply'' s = Some ((), s0)"
    and rest: "and_then (service_exchange E K app (p_local E ''R4OS_WINDOW_SERVICE_NAME'') op_code q (ucast (sizeof E ''R4DesktopLinkRequest''))
      (p_local E ''r'') (ucast (sizeof E ''R4DesktopLinkReply'')) (r4_timeout_finite K \<lparr>duration_ns = 500000000\<rparr>))
      (\<lambda>r. case r of Inl rc \<Rightarrow> give rc | Inr got \<Rightarrow> k got) s0 = Some (0, s')"
    by (auto simp: link_exchange_def and_then_def split: option.splits)
  from exchange_then [OF assms(1) rest] show ?thesis unfolding link_exchange_def by (auto simp: and_then_def clear)
qed

text \<open>
  When a link call other than a scope query returns 0, the broker's reply has been
  written to the caller's object and repeats the caller's request byte for byte, padding
  included, apart from the serial a request without one is given; a request that already
  names a serial is repeated exactly.\<close>

theorem link_reply_repeats_request:
  assumes "service_codes E" and "link_code E ''RESULT_INVALID'' \<noteq> 0" and "link_layout_ok E"
    and "r4_desktop_link_call E K app op_code q out s = Some (0, s')" and "op_code \<noteq> link_op E ''SCOPE''"
  shows "\<exists>got s1 v mine. link_exchange E K app op_code q s = Some (Inr got, s1) \<and> load_bytes (m_mem s1) q (p_size E ''R4DesktopLinkRequest'') = Some mine \<and>
    load_bytes (m_mem s') out (p_size E ''R4DesktopLinkReply'') = Some v \<and>
    (let theirs = link_reply_request E v in
      theirs = with_serial E (serial_bytes E theirs) mine \<and>
      (link_word E ''serial'' (obj_part E ''R4DesktopLinkRequest'' ''token'' mine) \<noteq> 0 \<longrightarrow> theirs = mine))"
proof -
  from assms(2,4) have "and_then (link_exchange E K app op_code q) (\<lambda>r. case r of Inl rc \<Rightarrow> give rc | Inr got \<Rightarrow> link_accept E op_code q out got) s = Some (0, s')"
    by (simp add: r4_desktop_link_call_def give_def split: if_split_asm)
  then obtain got s1 where ex: "link_exchange E K app op_code q s = Some (Inr got, s1)" and acc: "link_accept E op_code q out got s1 = Some (0, s')"
    using link_exchange_then [OF assms(1)] by blast
  from link_accepted [OF acc assms(2)] assms(5) obtain v mine
    where v: "load_bytes (m_mem s1) (p_local E ''r'') (p_size E ''R4DesktopLinkReply'') = Some v"
      and mine: "load_bytes (m_mem s1) q (p_size E ''R4DesktopLinkRequest'') = Some mine"
      and same: "\<not> link_foreign E mine (link_reply_request E v)" and st: "Platform.store out v s1 = Some ((), s')" by blast
  from st obtain M where M: "store_bytes (m_mem s1) out v = Some M" "s' = s1\<lparr>m_mem := M\<rparr>" by (auto simp: Platform.store_def)
  have written: "load_bytes (m_mem s') out (p_size E ''R4DesktopLinkReply'') = Some v"
    using store_bytes_load [OF M(1), of 0 "length v"] M(2) length_load_bytes [OF v] assms(3) by (simp add: link_layout_ok_def)
  have whole: "link_reply_request E v = with_serial E (serial_bytes E (link_reply_request E v)) mine"
    using same by (auto simp: link_foreign_def Let_def)
  have exact: "link_word E ''serial'' (obj_part E ''R4DesktopLinkRequest'' ''token'' mine) \<noteq> 0 \<longrightarrow> link_reply_request E v = mine"
    using repeated [OF assms(3) length_load_bytes [OF mine] same] by (rule impI)
  show ?thesis unfolding Let_def
    by (rule exI [of _ got], rule exI [of _ s1], rule exI [of _ v], rule exI [of _ mine], intro conjI) (rule ex, rule mine, rule written, rule whole, rule exact)
qed

subsection \<open>A sample broker\<close>

definition link_layout :: "string \<Rightarrow> (string \<times> nat) list" where
  "link_layout T =
     (if T = ''R4DesktopLinkToken'' then [(''version'', 1), (''size'', 1), (''serial'', 1)]
      else if T = ''R4DesktopLinkRequest'' then [(''token'', 3), (''deadline'', 1), (''link_length'', 1), (''link_bytes'', 2)]
      else if T = ''R4DesktopLinkReply'' then [(''request'', 7), (''phase'', 1), (''result'', 1), (''flags'', 1)]
      else [])"

definition link_platform :: "bytes platform" where
  "link_platform = service_platform link_layout (\<lambda>x. if x = ''R4OS_DESKTOP_LINK_OP_SCOPE'' then 1 else 0)"

text \<open>A request without a serial, and the reply that gives it serial 5.\<close>

definition link_request :: bytes where
  "link_request = [1, 3, 0, 9, 2, 65, 66]"

definition link_start :: "bytes machine" where
  "link_start = \<lparr>m_mem = flat [(0x7000, link_request), (0x1000, service_table)], m_calls = [], m_os = [1, 3, 5, 9, 2, 65, 66, 0, 0, 0]\<rparr>"

lemmas link_eval = link_exchange_def service_exchange_def link_layout_def link_platform_def link_request_def link_start_def
  r4_timeout_finite_def exchange_eval service_eval

lemma link_run:
  "\<exists>s. r4_desktop_link_call link_platform (sample_codes\<lparr>kind_finite := 0\<rparr>) (Some service_app) 2 0x7000 0x7100 link_start = Some (0, s)"
  by (simp add: r4_desktop_link_call_def link_accept_def link_malformed_def link_foreign_def with_serial_def serial_bytes_def serial_off_def
    link_reply_request_def link_result_def obj_part_def link_eval sample_codes_def Let_def
    cong: run_congs del: load_bytes.simps store_bytes.simps)

theorem link_reply_repeats_request_witness:
  "\<exists>s' v. r4_desktop_link_call link_platform (sample_codes\<lparr>kind_finite := 0\<rparr>) (Some service_app) 2 0x7000 0x7100 link_start = Some (0, s') \<and>
     load_bytes (m_mem s') 0x7100 10 = Some v"
proof -
  obtain s' where run: "r4_desktop_link_call link_platform (sample_codes\<lparr>kind_finite := 0\<rparr>) (Some service_app) 2 0x7000 0x7100 link_start =
    Some (0, s')" using link_run by blast
  have "service_codes link_platform" "link_code link_platform ''RESULT_INVALID'' \<noteq> 0" "link_layout_ok link_platform"
    "(2 :: u16) \<noteq> link_op link_platform ''SCOPE''" and size: "p_size link_platform ''R4DesktopLinkReply'' = 10"
    by (simp_all add: service_codes_def link_layout_ok_def link_platform_def link_layout_def service_code_def)
  then show ?thesis using link_reply_repeats_request [OF _ _ _ run] run by (simp add: Let_def) blast
qed

end
