(* ===== verification/DriverTable.thy ===== *)
theory DriverTable
  imports Handles
begin

text \<open>
  How a driver reaches the kernel: each interface is a table with a version word and a size
  word, which every wrapper tests, with the slot it needs, before it calls. Reads and writes
  that stay inside known memory are a contract, \<open>memory_contract\<close>; the group tables of
  \<open>Platform\<close> and the driver tables here both provide it.
\<close>

subsection \<open>Operations that stay inside known memory\<close>

text \<open>\<open>okm\<close> describes the memory, \<open>target\<close> the functions that may be called.\<close>

definition safe_in :: "(memory \<Rightarrow> bool) \<Rightarrow> (u64 \<Rightarrow> bool) \<Rightarrow> ('a, 'w) io \<Rightarrow> bool" where
  "safe_in okm target p \<longleftrightarrow>
     (\<forall>s. okm (m_mem s) \<longrightarrow>
        (\<exists>r s' made. p s = Some (r, s') \<and> okm (m_mem s') \<and> m_calls s' = m_calls s @ made \<and> (\<forall>c \<in> set made. target (fst c))))"

locale memory_contract =
  fixes okm :: "memory \<Rightarrow> bool" and room :: "u64 \<Rightarrow> nat \<Rightarrow> bool"
  assumes room_store: "okm M \<Longrightarrow> room a (length bs) \<Longrightarrow> \<exists>M'. store_bytes M a bs = Some M' \<and> okm M'"
    and room_load: "okm M \<Longrightarrow> room a n \<Longrightarrow> \<exists>bs. load_bytes M a n = Some bs"
begin

lemma safe_give: "safe_in okm target (give x)"
  by (auto simp: safe_in_def give_def)

lemma safe_if:
  "(b \<Longrightarrow> safe_in okm target p) \<Longrightarrow> (\<not> b \<Longrightarrow> safe_in okm target q) \<Longrightarrow> safe_in okm target (if b then p else q)"
  by auto

lemma safe_then:
  fixes p :: "('a, 'w) io" and k :: "'a \<Rightarrow> ('b, 'w) io"
  assumes "safe_in okm target p" and "\<And>x. safe_in okm target (k x)"
  shows "safe_in okm target (and_then p k)"
  unfolding safe_in_def
proof (intro allI impI)
  fix s :: "'w machine" assume "okm (m_mem s)"
  with assms(1) obtain r s1 m1 where 1: "p s = Some (r, s1)" "okm (m_mem s1)" "m_calls s1 = m_calls s @ m1"
    "\<forall>c \<in> set m1. target (fst c)" unfolding safe_in_def by blast
  from assms(2) [of r] 1(2) obtain r2 s2 m2 where 2: "k r s1 = Some (r2, s2)" "okm (m_mem s2)"
    "m_calls s2 = m_calls s1 @ m2" "\<forall>c \<in> set m2. target (fst c)" unfolding safe_in_def by blast
  show "\<exists>r s' made. and_then p k s = Some (r, s') \<and> okm (m_mem s') \<and> m_calls s' = m_calls s @ made \<and> (\<forall>c \<in> set made. target (fst c))"
    using 1 2 by (intro exI [of _ r2] exI [of _ s2] exI [of _ "m1 @ m2"]) (auto simp: and_then_def)
qed

lemma safe_ask:
  assumes "\<And>M. okm M \<Longrightarrow> q M = Some b" and "b \<Longrightarrow> safe_in okm target (k True)" and "\<not> b \<Longrightarrow> safe_in okm target (k False)"
  shows "safe_in okm target (ask q k)"
  using assms by (cases b) (auto simp: safe_in_def ask_def)

lemma safe_store: "room a (length bs) \<Longrightarrow> safe_in okm target (Platform.store a bs)"
  using room_store by (fastforce simp: safe_in_def Platform.store_def)

lemma safe_clear: "room a (p_size E T) \<Longrightarrow> safe_in okm target (clear_obj E a T)"
  unfolding clear_obj_def by (rule safe_store) simp

lemma safe_put: "room (a + word_of_nat (p_off E T m)) (p_len E T m) \<Longrightarrow> safe_in okm target (put_member E a T m v)"
  unfolding put_member_def by (rule safe_store) simp

lemma safe_copy:
  fixes E :: "'w platform"
  assumes "room dst (p_size E T)" and "room src (p_size E T)"
  shows "safe_in okm target (copy_obj E dst src T)"
  unfolding safe_in_def
proof (intro allI impI)
  fix s :: "'w machine" assume s: "okm (m_mem s)"
  from room_load [OF s assms(2)] obtain bs where bs: "load_bytes (m_mem s) src (p_size E T) = Some bs" by blast
  with room_store [OF s, of dst bs] assms(1) length_load_bytes [OF bs] obtain M'
    where "store_bytes (m_mem s) dst bs = Some M'" "okm M'" by auto
  then show "\<exists>r s' made. copy_obj E dst src T s = Some (r, s') \<and> okm (m_mem s') \<and> m_calls s' = m_calls s @ made \<and> (\<forall>c \<in> set made. target (fst c))"
    using bs by (simp add: copy_obj_def Platform.store_def)
qed

text \<open>A call through a slot whose content is a target, when the platform keeps the memory as described.\<close>

lemma safe_call:
  fixes E :: "'w platform"
  assumes "\<And>M f args w. okm M \<Longrightarrow> okm (fst (snd (p_run E f args M w)))"
    and "\<And>M. okm M \<Longrightarrow> \<exists>f. load_u64 M (t + word_of_nat (p_off E T slot)) = Some f \<and> target f"
  shows "safe_in okm target (call_slot E T t slot args)"
  unfolding safe_in_def
proof (intro allI impI)
  fix s :: "'w machine" assume s: "okm (m_mem s)"
  from assms(2) [OF s] obtain f where f: "load_u64 (m_mem s) (t + word_of_nat (p_off E T slot)) = Some f" "target f" by blast
  obtain r M w where run: "p_run E f args (m_mem s) (m_os s) = (r, M, w)" by (metis prod_cases3)
  have "okm M" using assms(1) [OF s, of f args "m_os s"] run by simp
  then show "\<exists>r s' made. call_slot E T t slot args s = Some (r, s') \<and> okm (m_mem s') \<and> m_calls s' = m_calls s @ made \<and> (\<forall>c \<in> set made. target (fst c))"
    using f run by (simp add: call_slot_def and_then_def call_fn_def give_def)
qed

end

interpretation group_memory: memory_contract "steady t V outs" "inside_out outs" for t V outs
proof unfold_locales
  fix M a and bs :: bytes assume st: "steady t V outs M" and "inside_out outs a (length bs)"
  note in_ok = steady_inside [OF this]
  then obtain M' where M': "store_bytes M a bs = Some M'" using store_bytes_mapped by blast
  have "steady t V outs M'"
    using st in_ok resident_keep [OF _ M'] objects_keep [OF _ store_bytes_dom [OF M']] by (auto simp: steady_def)
  with M' show "\<exists>M'. store_bytes M a bs = Some M' \<and> steady t V outs M'" by blast
next
  fix M a n assume "steady t V outs M" and "inside_out outs a n"
  then show "\<exists>bs. load_bytes M a n = Some bs" using steady_inside load_bytes_mapped by blast
qed

subsection \<open>The tests on a driver table\<close>

text \<open>\<open>table->size >= offsetof(T, slot) + 8\<close> with the size word where the table's type has it.\<close>

definition driver_covers :: "'w platform \<Rightarrow> string \<Rightarrow> u64 \<Rightarrow> string \<Rightarrow> query" where
  "driver_covers E T t slot = member_is E t T ''size'' (\<lambda>sz. p_off E T slot + 8 \<le> unat sz)"

definition driver_version :: "'w platform \<Rightarrow> string \<Rightarrow> u64 \<Rightarrow> query" where
  "driver_version E T t = member_is E t T ''version'' (\<lambda>v. v = 1)"

definition driver_slots :: "'w platform \<Rightarrow> string \<Rightarrow> u64 \<Rightarrow> string \<Rightarrow> string list \<Rightarrow> query" where
  "driver_slots E T t last_slot slots =
     q_and (sure (t \<noteq> 0)) (q_and (driver_version E T t) (q_and (driver_covers E T t last_slot) (all_filled E T t slots)))"

definition driver_has :: "'w platform \<Rightarrow> string \<Rightarrow> u64 \<Rightarrow> string \<Rightarrow> query" where
  "driver_has E T t slot = driver_slots E T t slot [slot]"

text \<open>A call that fills the wrapper's local object, copied to the caller's when the call succeeds.\<close>

definition through_local :: "'w platform \<Rightarrow> string \<Rightarrow> u64 \<Rightarrow> string \<Rightarrow> u64 list \<Rightarrow> string \<Rightarrow> i32 \<Rightarrow> u64 \<Rightarrow> (i32, 'w) io" where
  "through_local E T t slot args obj good out =
     and_then (call_slot E T t slot args) (\<lambda>rc.
       if rc = good then and_then (copy_obj E out (p_frame E) obj) (\<lambda>_. give rc) else give rc)"

subsection \<open>A resident driver table\<close>

text \<open>\<open>V\<close> is the mapped part of the table at \<open>t\<close>; it holds both words and all of the announced size.\<close>

definition driver_resident :: "'w platform \<Rightarrow> string \<Rightarrow> u64 \<Rightarrow> bytes \<Rightarrow> memory \<Rightarrow> bool" where
  "driver_resident E T t V M \<longleftrightarrow> load_bytes M t (length V) = Some V \<and>
     p_off E T ''version'' + p_len E T ''version'' \<le> length V \<and> p_off E T ''size'' + p_len E T ''size'' \<le> length V \<and>
     unat (obj_word E T ''size'' V :: u64) \<le> length V"

definition driver_steady :: "'w platform \<Rightarrow> string \<Rightarrow> u64 \<Rightarrow> bytes \<Rightarrow> (u64 \<times> nat) list \<Rightarrow> memory \<Rightarrow> bool" where
  "driver_steady E T t V outs M \<longleftrightarrow> (t \<noteq> 0 \<longrightarrow> driver_resident E T t V M) \<and> objects_ok outs t V M"

definition driver_opens :: "'w platform \<Rightarrow> string \<Rightarrow> u64 \<Rightarrow> bytes \<Rightarrow> string \<Rightarrow> string list \<Rightarrow> bool" where
  "driver_opens E T t V last_slot slots \<longleftrightarrow> t \<noteq> 0 \<and> (obj_word E T ''version'' V :: u64) = 1 \<and>
     p_off E T last_slot + 8 \<le> unat (obj_word E T ''size'' V :: u64) \<and>
     (\<forall>slot \<in> set slots. slot_word V (p_off E T slot) \<noteq> 0)"

text \<open>A target: a nonnull slot inside the announced size of a table of version 1.\<close>

definition driver_target :: "'w platform \<Rightarrow> string \<Rightarrow> u64 \<Rightarrow> bytes \<Rightarrow> u64 \<Rightarrow> bool" where
  "driver_target E T t V f \<longleftrightarrow> t \<noteq> 0 \<and> (obj_word E T ''version'' V :: u64) = 1 \<and> f \<noteq> 0 \<and>
     (\<exists>slot. p_off E T slot + 8 \<le> unat (obj_word E T ''size'' V :: u64) \<and> f = slot_word V (p_off E T slot))"

lemma driver_member:
  assumes "driver_resident E T t V M" and "m \<in> {''version'', ''size''}"
  shows "member_is E t T m P M = Some (P (obj_word E T m V))"
  using load_bytes_part [of M t "length V" V "p_off E T m" "p_len E T m"] assms
  by (auto simp: driver_resident_def member_is_def obj_word_def)

lemma driver_slot:
  assumes "driver_resident E T t V M" and "p_off E T slot + 8 \<le> unat (obj_word E T ''size'' V :: u64)"
  shows "load_u64 M (t + word_of_nat (p_off E T slot)) = Some (slot_word V (p_off E T slot))"
  using load_bytes_part [of M t "length V" V "p_off E T slot" 8] assms
  by (simp add: driver_resident_def load_u64_def slot_word_def)

lemma driver_filled:
  assumes "driver_resident E T t V M" and "\<forall>slot \<in> set slots. p_off E T slot + 8 \<le> unat (obj_word E T ''size'' V :: u64)"
  shows "all_filled E T t slots M = Some (\<forall>slot \<in> set slots. slot_word V (p_off E T slot) \<noteq> 0)"
  using assms by (induction slots) (auto simp: sure_def q_and_def filled_def driver_slot)

lemma driver_slots_answer:
  assumes "driver_steady E T t V outs M" and "before E T last_slot slots"
  shows "driver_slots E T t last_slot slots M = Some (driver_opens E T t V last_slot slots)"
proof (cases "t = 0")
  case False
  then have res: "driver_resident E T t V M" using assms(1) by (simp add: driver_steady_def)
  have "\<forall>slot \<in> set slots. p_off E T slot + 8 \<le> unat (obj_word E T ''size'' V :: u64)"
    if "p_off E T last_slot + 8 \<le> unat (obj_word E T ''size'' V :: u64)"
    using that assms(2) by (fastforce simp: before_def)
  then show ?thesis using False driver_member [OF res] driver_filled [OF res, of slots]
    by (auto simp: driver_slots_def q_and_def sure_def driver_version_def driver_covers_def driver_opens_def)
qed (simp add: driver_slots_def q_and_def sure_def driver_opens_def)

lemma driver_keep:
  assumes "driver_resident E T t V M" and "store_bytes M a bs = Some M'" and "apart a (length bs) t (length V)"
  shows "driver_resident E T t V M'"
  using assms load_bytes_cong [of "length V" M' t M] store_bytes_keeps [OF assms(2)]
  unfolding driver_resident_def apart_def by (metis (no_types, lifting))

lemma driver_inside:
  "driver_steady E T t V outs M \<Longrightarrow> inside_out outs a n \<Longrightarrow> mapped M a n \<and> apart a n t (length V)"
  unfolding driver_steady_def objects_ok_def inside_out_def using mapped_offset apart_part by blast

interpretation driver_memory: memory_contract "driver_steady E T t V outs" "inside_out outs" for E T t V outs
proof unfold_locales
  fix M a and bs :: bytes assume st: "driver_steady E T t V outs M" and "inside_out outs a (length bs)"
  note in_ok = driver_inside [OF this]
  then obtain M' where M': "store_bytes M a bs = Some M'" using store_bytes_mapped by blast
  have "driver_steady E T t V outs M'"
    using st in_ok driver_keep [OF _ M'] objects_keep [OF _ store_bytes_dom [OF M']] by (auto simp: driver_steady_def)
  with M' show "\<exists>M'. store_bytes M a bs = Some M' \<and> driver_steady E T t V outs M'" by blast
next
  fix M a n assume "driver_steady E T t V outs M" and "inside_out outs a n"
  then show "\<exists>bs. load_bytes M a n = Some bs" using driver_inside load_bytes_mapped by blast
qed

subsection \<open>Wrappers of a driver table\<close>

abbreviation driver_safe :: "'w platform \<Rightarrow> string \<Rightarrow> u64 \<Rightarrow> bytes \<Rightarrow> (u64 \<times> nat) list \<Rightarrow> ('a, 'w) io \<Rightarrow> bool" where
  "driver_safe E T t V outs p \<equiv> safe_in (driver_steady E T t V outs) (driver_target E T t V) p"

text \<open>The contract lays members out inside their types, slots are addresses, and the platform keeps the table.\<close>

definition driver_ready :: "'w platform \<Rightarrow> string \<Rightarrow> u64 \<Rightarrow> bytes \<Rightarrow> (u64 \<times> nat) list \<Rightarrow> bool" where
  "driver_ready E T t V outs \<longleftrightarrow> abi_ok E \<and>
     (\<forall>M f args w. driver_steady E T t V outs M \<longrightarrow> driver_steady E T t V outs (fst (snd (p_run E f args M w))))"

definition driver_can :: "'w platform \<Rightarrow> string \<Rightarrow> u64 \<Rightarrow> bytes \<Rightarrow> string \<Rightarrow> bool" where
  "driver_can E T t V slot \<longleftrightarrow> t \<noteq> 0 \<and> (obj_word E T ''version'' V :: u64) = 1 \<and>
     p_off E T slot + 8 \<le> unat (obj_word E T ''size'' V :: u64) \<and> slot_word V (p_off E T slot) \<noteq> 0"

named_theorems driver_admits \<open>rules that derive the safety of a driver wrapper\<close>

lemmas [driver_admits] = driver_memory.safe_give driver_memory.safe_if driver_memory.safe_then

lemma driver_opens_can:
  "driver_opens E T t V last_slot slots \<Longrightarrow> before E T last_slot slots \<Longrightarrow> slot \<in> set slots \<Longrightarrow> driver_can E T t V slot"
  by (fastforce simp: driver_opens_def driver_can_def before_def)

lemma driver_ask [driver_admits]:
  assumes "before E T last_slot slots"
    and "\<forall>slot \<in> set slots. driver_can E T t V slot \<Longrightarrow> driver_safe E T t V outs (k True)" and "driver_safe E T t V outs (k False)"
  shows "driver_safe E T t V outs (ask (driver_slots E T t last_slot slots) k)"
  by (rule driver_memory.safe_ask [OF driver_slots_answer [OF _ assms(1)]], assumption, rule assms(2), rule ballI,
      rule driver_opens_can [OF _ assms(1)], assumption+, rule assms(3))

lemma driver_ask_has [driver_admits]:
  assumes "driver_can E T t V slot \<Longrightarrow> driver_safe E T t V outs (k True)" and "driver_safe E T t V outs (k False)"
  shows "driver_safe E T t V outs (ask (driver_has E T t slot) k)"
  unfolding driver_has_def by (rule driver_ask) (use assms in \<open>simp_all add: before_def\<close>)

lemma driver_call [driver_admits]:
  assumes "driver_ready E T t V outs" and "driver_can E T t V slot"
  shows "driver_safe E T t V outs (call_slot E T t slot args)"
proof (rule driver_memory.safe_call)
  fix M assume "driver_steady E T t V outs M"
  then have "driver_resident E T t V M" using assms(2) by (simp add: driver_steady_def driver_can_def)
  from driver_slot [OF this, of slot] assms(2)
  show "\<exists>f. load_u64 M (t + word_of_nat (p_off E T slot)) = Some f \<and> driver_target E T t V f"
    by (auto simp: driver_can_def driver_target_def)
qed (use assms(1) in \<open>auto simp: driver_ready_def\<close>)

lemma driver_store: "inside_out outs a (length bs) \<Longrightarrow> driver_safe E T t V outs (Platform.store a bs)"
  by (rule driver_memory.safe_store)

lemma driver_zero [driver_admits]: "inside_out outs a n \<Longrightarrow> driver_safe E T t V outs (Platform.store a (replicate n 0))"
  by (rule driver_store) simp

lemma driver_clear [driver_admits]: "out_ok E outs a obj \<Longrightarrow> driver_safe E T t V outs (clear_obj E a obj)"
  by (rule driver_memory.safe_clear) (rule inside_whole)

lemma driver_put: "driver_ready E T t V outs \<Longrightarrow> out_ok E outs a obj \<Longrightarrow> driver_safe E T t V outs (put_member E a obj m v)"
  by (rule driver_memory.safe_put) (simp add: inside_member driver_ready_def)

lemma driver_header [driver_admits]:
  "driver_ready E T t V outs \<Longrightarrow> out_ok E outs a obj \<Longrightarrow> driver_safe E T t V outs (put_header E a obj v n)"
  unfolding put_header_def by (intro driver_memory.safe_then driver_put)

lemma driver_copy [driver_admits]:
  "out_ok E outs dst obj \<Longrightarrow> out_ok E outs src obj \<Longrightarrow> driver_safe E T t V outs (copy_obj E dst src obj)"
  by (intro driver_memory.safe_copy inside_whole)

lemma driver_local [driver_admits]:
  assumes "driver_ready E T t V outs" and "driver_can E T t V slot" and "out_ok E outs out obj" and "out_ok E outs (p_frame E) obj"
  shows "driver_safe E T t V outs (through_local E T t slot args obj good out)"
  unfolding through_local_def using assms by (intro driver_admits)

text \<open>A test that always has an answer, such as one on the members of an object of the caller's or of the frame.\<close>

lemma driver_ask_total:
  fixes k :: "bool \<Rightarrow> ('a, 'w) io"
  assumes "\<And>M. driver_steady E T t V outs M \<Longrightarrow> q M \<noteq> None"
    and "driver_safe E T t V outs (k True)" and "driver_safe E T t V outs (k False)"
  shows "driver_safe E T t V outs (ask q k)"
  unfolding safe_in_def
proof (intro allI impI)
  fix s :: "'w machine" assume s: "driver_steady E T t V outs (m_mem s)"
  from assms(1) [OF s] obtain b where "q (m_mem s) = Some b" by auto
  with s assms(2,3) show "\<exists>r s' made. ask q k s = Some (r, s') \<and> driver_steady E T t V outs (m_mem s') \<and>
      m_calls s' = m_calls s @ made \<and> (\<forall>c \<in> set made. driver_target E T t V (fst c))"
    by (cases b) (simp_all add: ask_def safe_in_def)
qed

lemma driver_member_total:
  assumes "driver_ready E T t V outs" and "out_ok E outs a obj" and "driver_steady E T t V outs M"
  shows "member_is E a obj m P M \<noteq> None"
proof -
  have "inside_out outs (a + word_of_nat (p_off E obj m)) (p_len E obj m)"
    using assms(1,2) by (simp add: inside_member driver_ready_def)
  from driver_memory.room_load [OF assms(3) this] show ?thesis by (auto simp: member_is_def)
qed

lemma q_and_total: "p M \<noteq> None \<Longrightarrow> q M \<noteq> None \<Longrightarrow> q_and p q M \<noteq> None"
  by (auto simp: q_and_def)

lemma driver_ask_member:
  "driver_ready E T t V outs \<Longrightarrow> out_ok E outs a obj \<Longrightarrow> driver_safe E T t V outs (k True) \<Longrightarrow> driver_safe E T t V outs (k False) \<Longrightarrow>
    driver_safe E T t V outs (ask (member_is E a obj m P) k)"
  by (intro driver_ask_total driver_member_total)

text \<open>The caller's object \<open>a\<close>, when there is one, is mapped and apart from the table.\<close>

definition room_for :: "'w platform \<Rightarrow> (u64 \<times> nat) list \<Rightarrow> u64 \<Rightarrow> string \<Rightarrow> bool" where
  "room_for E outs a obj \<longleftrightarrow> (a \<noteq> 0 \<longrightarrow> out_ok E outs a obj)"

definition word_room :: "(u64 \<times> nat) list \<Rightarrow> u64 \<Rightarrow> nat \<Rightarrow> bool" where
  "word_room outs a n \<longleftrightarrow> (a \<noteq> 0 \<longrightarrow> inside_out outs a n)"

text \<open>The frame object is a local, so it has an address.\<close>

abbreviation frame_room :: "'w platform \<Rightarrow> (u64 \<times> nat) list \<Rightarrow> string \<Rightarrow> bool" where
  "frame_room E outs obj \<equiv> out_ok E outs (p_frame E) obj"

lemmas driver_sides = room_for_def word_room_def before_def

subsection \<open>A sample table\<close>

definition sample_driver :: "unit platform" where
  "sample_driver = sample_platform\<lparr>p_off := (\<lambda>T m. if m = ''version'' then 0 else if m = ''size'' then 4 else 16),
     p_len := (\<lambda>T m. if m = ''version'' \<or> m = ''size'' then 4 else 8)\<rparr>"

definition sample_driver_table :: bytes where
  "sample_driver_table = [1, 0, 0, 0, 24, 0, 0, 0, 0, 0, 0, 0, 0, 0, 0, 0, 0, 0, 0x40, 0, 0, 0, 0, 0]"

lemma sample_driver_ready: "driver_ready sample_driver T t sample_driver_table outs"
  by (simp add: driver_ready_def abi_ok_def sample_driver_def sample_platform_def)

lemma sample_driver_can: "t \<noteq> 0 \<Longrightarrow> slot \<notin> {''version'', ''size''} \<Longrightarrow> driver_can sample_driver T t sample_driver_table slot"
  by (auto simp: driver_can_def sample_driver_def sample_driver_table_def obj_word_def slot_word_def)

end
