(* ===== verification/DriverGraphics.thy ===== *)
theory DriverGraphics
  imports DriverTable
begin

text \<open>
  The graphics interfaces a driver uses: \<open>Shared/C/include/r4os/driver_queue.h\<close>,
  \<open>driver_memory.h\<close>, \<open>driver_outputs.h\<close> and \<open>driver_display.h\<close>. Every wrapper tests its table
  and its arguments, prepares the object the call fills and calls through one slot.
\<close>

subsection \<open>Queues\<close>

definition r4driver_queue_owner_info ::
  "'w platform \<Rightarrow> u64 \<Rightarrow> u64 \<Rightarrow> u64 \<Rightarrow> u64 \<Rightarrow> (i32, 'w) io" where
  "r4driver_queue_owner_info E table binding timeline output =
     (ask (driver_has E ''R4GfxDriverQueueApi'' table ''queue_owner_info'') (\<lambda>ok. if \<not> ok then give (code E ''R4OS_ERR_NO_FN'') else
     if binding = 0 \<or> output = 0 \<or> timeline = 0 then give (code E ''R4OS_GFX_QUEUE_ERROR_INVALID'') else
     and_then (clear_obj E (p_frame E) ''R4GfxQueueOwnerInfo'') (\<lambda>_.
     and_then (put_header E (p_frame E) ''R4GfxQueueOwnerInfo'' 1 (sizeof E ''R4GfxQueueOwnerInfo'')) (\<lambda>_.
     through_local E ''R4GfxDriverQueueApi'' table ''queue_owner_info'' [binding, timeline, p_frame E] ''R4GfxQueueOwnerInfo'' (code E ''R4OS_GFX_QUEUE_OK'') output))))"

definition r4driver_queue_native_info ::
  "'w platform \<Rightarrow> u64 \<Rightarrow> u64 \<Rightarrow> u64 \<Rightarrow> (i32, 'w) io" where
  "r4driver_queue_native_info E table fence output =
     (ask (driver_has E ''R4GfxDriverQueueApi'' table ''read_native_info'') (\<lambda>ok. if \<not> ok then give (code E ''R4OS_ERR_NO_FN'') else
     if fence = 0 \<or> output = 0 then give (code E ''R4OS_GFX_QUEUE_ERROR_INVALID'') else
     and_then (clear_obj E (p_frame E) ''R4GfxNativeJobInfo'') (\<lambda>_.
     and_then (put_header E (p_frame E) ''R4GfxNativeJobInfo'' 1 (sizeof E ''R4GfxNativeJobInfo'')) (\<lambda>_.
     through_local E ''R4GfxDriverQueueApi'' table ''read_native_info'' [fence, p_frame E] ''R4GfxNativeJobInfo'' (code E ''R4OS_GFX_QUEUE_OK'') output))))"

definition r4driver_queue_native_data ::
  "'w platform \<Rightarrow> u64 \<Rightarrow> u64 \<Rightarrow> u32 \<Rightarrow> u64 \<Rightarrow> u32 \<Rightarrow> (i32, 'w) io" where
  "r4driver_queue_native_data E table fence offset output count =
     (ask (driver_has E ''R4GfxDriverQueueApi'' table ''read_native_data'') (\<lambda>ok. if \<not> ok then give (code E ''R4OS_ERR_NO_FN'') else
     if fence = 0 \<or> output = 0 \<or> count = 0 \<or> count > p_code E ''R4OS_GFX_NATIVE_READ_CAPACITY'' then give (code E ''R4OS_GFX_QUEUE_ERROR_INVALID'') else
     call_slot E ''R4GfxDriverQueueApi'' table ''read_native_data'' [fence, ucast offset, output, ucast count]))"

definition r4driver_queue_native_binding ::
  "'w platform \<Rightarrow> u64 \<Rightarrow> u64 \<Rightarrow> u32 \<Rightarrow> u64 \<Rightarrow> (i32, 'w) io" where
  "r4driver_queue_native_binding E table fence index output =
     (ask (driver_has E ''R4GfxDriverQueueApi'' table ''read_native_binding'') (\<lambda>ok. if \<not> ok then give (code E ''R4OS_ERR_NO_FN'') else
     if fence = 0 \<or> output = 0 then give (code E ''R4OS_GFX_QUEUE_ERROR_INVALID'') else
     and_then (clear_obj E (p_frame E) ''R4GfxNativeBinding'') (\<lambda>_.
     and_then (put_header E (p_frame E) ''R4GfxNativeBinding'' 1 (sizeof E ''R4GfxNativeBinding'')) (\<lambda>_.
     through_local E ''R4GfxDriverQueueApi'' table ''read_native_binding'' [fence, ucast index, p_frame E] ''R4GfxNativeBinding'' (code E ''R4OS_GFX_QUEUE_OK'') output))))"

definition r4driver_queue_publish_properties ::
  "'w platform \<Rightarrow> u64 \<Rightarrow> u64 \<Rightarrow> u64 \<Rightarrow> (i32, 'w) io" where
  "r4driver_queue_publish_properties E table binding properties =
     (ask (driver_has E ''R4GfxDriverQueueApi'' table ''publish_properties'') (\<lambda>ok. if \<not> ok then give (code E ''R4OS_ERR_NO_FN'') else
     if binding = 0 \<or> properties = 0 then give (code E ''R4OS_GFX_QUEUE_ERROR_INVALID'') else
     call_slot E ''R4GfxDriverQueueApi'' table ''publish_properties'' [binding, properties]))"

definition r4driver_queue_supports_scanout :: "'w platform \<Rightarrow> u64 \<Rightarrow> query" where
  "r4driver_queue_supports_scanout E table = driver_slots E ''R4GfxDriverQueueApi'' table ''scanout_retire_requested'' [''retain_scanout'', ''begin_scanout'', ''scanout_retire_requested'']"

definition r4driver_queue_retain_scanout ::
  "'w platform \<Rightarrow> u64 \<Rightarrow> u64 \<Rightarrow> u64 \<Rightarrow> (i32, 'w) io" where
  "r4driver_queue_retain_scanout E table fence output =
     (ask (r4driver_queue_supports_scanout E table) (\<lambda>ok. if \<not> ok then give (code E ''R4OS_ERR_NO_FN'') else
     if fence = 0 \<or> output = 0 then give (code E ''R4OS_GFX_QUEUE_ERROR_INVALID'') else
     and_then (put_header E output ''R4GfxBufferReference'' 1 (sizeof E ''R4GfxBufferReference'')) (\<lambda>_.
     call_slot E ''R4GfxDriverQueueApi'' table ''retain_scanout'' [fence, output])))"

definition r4driver_queue_begin_scanout ::
  "'w platform \<Rightarrow> u64 \<Rightarrow> u64 \<Rightarrow> (i32, 'w) io" where
  "r4driver_queue_begin_scanout E table fence =
     (ask (r4driver_queue_supports_scanout E table) (\<lambda>ok. if \<not> ok then give (code E ''R4OS_ERR_NO_FN'') else
     if fence = 0 then give (code E ''R4OS_GFX_QUEUE_ERROR_INVALID'') else
     call_slot E ''R4GfxDriverQueueApi'' table ''begin_scanout'' [fence]))"

definition r4driver_queue_scanout_retire_requested ::
  "'w platform \<Rightarrow> u64 \<Rightarrow> u64 \<Rightarrow> (i32, 'w) io" where
  "r4driver_queue_scanout_retire_requested E table fence =
     (ask (r4driver_queue_supports_scanout E table) (\<lambda>ok. if \<not> ok then give (code E ''R4OS_ERR_NO_FN'') else
     if fence = 0 then give (code E ''R4OS_GFX_QUEUE_ERROR_INVALID'') else
     call_slot E ''R4GfxDriverQueueApi'' table ''scanout_retire_requested'' [fence]))"

definition r4driver_queue_read_render_list ::
  "'w platform \<Rightarrow> u64 \<Rightarrow> u64 \<Rightarrow> u64 \<Rightarrow> (i32, 'w) io" where
  "r4driver_queue_read_render_list E table fence output =
     (ask (driver_has E ''R4GfxDriverQueueApi'' table ''read_render_list'') (\<lambda>ok. if \<not> ok then give (code E ''R4OS_ERR_NO_FN'') else
     if fence = 0 \<or> output = 0 then give (code E ''R4OS_GFX_QUEUE_ERROR_INVALID'') else
     and_then (put_header E output ''R4GfxRenderList'' 1 (sizeof E ''R4GfxRenderList'')) (\<lambda>_.
     call_slot E ''R4GfxDriverQueueApi'' table ''read_render_list'' [fence, output])))"

definition r4driver_queue_read_render_grid_list ::
  "'w platform \<Rightarrow> u64 \<Rightarrow> u64 \<Rightarrow> u64 \<Rightarrow> (i32, 'w) io" where
  "r4driver_queue_read_render_grid_list E table fence output =
     (ask (driver_has E ''R4GfxDriverQueueApi'' table ''read_render_grid_list'') (\<lambda>ok. if \<not> ok then give (code E ''R4OS_ERR_NO_FN'') else
     if fence = 0 \<or> output = 0 then give (code E ''R4OS_GFX_QUEUE_ERROR_INVALID'') else
     and_then (put_header E output ''R4GfxRenderGridList'' 1 (sizeof E ''R4GfxRenderGridList'')) (\<lambda>_.
     call_slot E ''R4GfxDriverQueueApi'' table ''read_render_grid_list'' [fence, output])))"

definition r4driver_queue_read_render_color_list ::
  "'w platform \<Rightarrow> u64 \<Rightarrow> u64 \<Rightarrow> u64 \<Rightarrow> (i32, 'w) io" where
  "r4driver_queue_read_render_color_list E table fence output =
     (ask (driver_has E ''R4GfxDriverQueueApi'' table ''read_render_color_list'') (\<lambda>ok. if \<not> ok then give (code E ''R4OS_ERR_NO_FN'') else
     if fence = 0 \<or> output = 0 then give (code E ''R4OS_GFX_QUEUE_ERROR_INVALID'') else
     and_then (put_header E output ''R4GfxRenderColorList'' 1 (sizeof E ''R4GfxRenderColorList'')) (\<lambda>_.
     call_slot E ''R4GfxDriverQueueApi'' table ''read_render_color_list'' [fence, output])))"

definition r4driver_queue_update_operations ::
  "'w platform \<Rightarrow> u64 \<Rightarrow> u64 \<Rightarrow> u64 \<Rightarrow> (i32, 'w) io" where
  "r4driver_queue_update_operations E table input operations =
     (ask (driver_has E ''R4GfxDriverQueueApi'' table ''update_operations'') (\<lambda>ok. if \<not> ok then give (code E ''R4OS_ERR_NO_FN'') else
     call_slot E ''R4GfxDriverQueueApi'' table ''update_operations'' [input, operations]))"

definition r4driver_queue_register_profile ::
  "'w platform \<Rightarrow> u64 \<Rightarrow> u64 \<Rightarrow> u64 \<Rightarrow> u64 \<Rightarrow> (i32, 'w) io" where
  "r4driver_queue_register_profile E table input profile output =
     (ask (driver_has E ''R4GfxDriverQueueApi'' table ''register_profile'') (\<lambda>ok. if \<not> ok then give (code E ''R4OS_ERR_NO_FN'') else
     if output = 0 then give (code E ''R4OS_GFX_QUEUE_ERROR_INVALID'') else
     and_then (put_header E output ''R4GfxBackendBinding'' 1 (sizeof E ''R4GfxBackendBinding'')) (\<lambda>_.
     call_slot E ''R4GfxDriverQueueApi'' table ''register_profile'' [input, profile, output])))"

definition r4driver_queue_register_backend ::
  "'w platform \<Rightarrow> u64 \<Rightarrow> u64 \<Rightarrow> u64 \<Rightarrow> (i32, 'w) io" where
  "r4driver_queue_register_backend E table input output =
     (ask (driver_has E ''R4GfxDriverQueueApi'' table ''register_backend'') (\<lambda>ok. if \<not> ok then give (code E ''R4OS_ERR_NO_FN'') else
     if output = 0 then give (code E ''R4OS_GFX_QUEUE_ERROR_INVALID'') else
     and_then (put_header E output ''R4GfxBackendBinding'' 1 (sizeof E ''R4GfxBackendBinding'')) (\<lambda>_.
     call_slot E ''R4GfxDriverQueueApi'' table ''register_backend'' [input, output])))"

definition r4driver_queue_unregister_backend ::
  "'w platform \<Rightarrow> u64 \<Rightarrow> u64 \<Rightarrow> u32 \<Rightarrow> (i32, 'w) io" where
  "r4driver_queue_unregister_backend E table input quiesced =
     (ask (driver_has E ''R4GfxDriverQueueApi'' table ''unregister_backend'') (\<lambda>ok. if \<not> ok then give (code E ''R4OS_ERR_NO_FN'') else
     call_slot E ''R4GfxDriverQueueApi'' table ''unregister_backend'' [input, ucast quiesced]))"

definition r4driver_queue_take ::
  "'w platform \<Rightarrow> u64 \<Rightarrow> u64 \<Rightarrow> u64 \<Rightarrow> (i32, 'w) io" where
  "r4driver_queue_take E table input output =
     (ask (driver_has E ''R4GfxDriverQueueApi'' table ''take'') (\<lambda>ok. if \<not> ok then give (code E ''R4OS_ERR_NO_FN'') else
     if output = 0 then give (code E ''R4OS_GFX_QUEUE_ERROR_INVALID'') else
     and_then (put_header E output ''R4GfxDriverJob'' 1 (sizeof E ''R4GfxDriverJob'')) (\<lambda>_.
     call_slot E ''R4GfxDriverQueueApi'' table ''take'' [input, output])))"

definition r4driver_queue_complete ::
  "'w platform \<Rightarrow> u64 \<Rightarrow> u64 \<Rightarrow> u32 \<Rightarrow> u32 \<Rightarrow> (i32, 'w) io" where
  "r4driver_queue_complete E table input result_p quiesced =
     (ask (driver_has E ''R4GfxDriverQueueApi'' table ''complete'') (\<lambda>ok. if \<not> ok then give (code E ''R4OS_ERR_NO_FN'') else
     call_slot E ''R4GfxDriverQueueApi'' table ''complete'' [input, ucast result_p, ucast quiesced]))"

definition r4driver_queue_reset ::
  "'w platform \<Rightarrow> u64 \<Rightarrow> u64 \<Rightarrow> u32 \<Rightarrow> u64 \<Rightarrow> (i32, 'w) io" where
  "r4driver_queue_reset E table input quiesced output =
     (ask (driver_has E ''R4GfxDriverQueueApi'' table ''reset'') (\<lambda>ok. if \<not> ok then give (code E ''R4OS_ERR_NO_FN'') else
     if output = 0 then give (code E ''R4OS_GFX_QUEUE_ERROR_INVALID'') else
     and_then (put_header E output ''R4GfxBackendBinding'' 1 (sizeof E ''R4GfxBackendBinding'')) (\<lambda>_.
     call_slot E ''R4GfxDriverQueueApi'' table ''reset'' [input, ucast quiesced, output])))"

definition r4driver_queue_segment ::
  "'w platform \<Rightarrow> u64 \<Rightarrow> u64 \<Rightarrow> u32 \<Rightarrow> u64 \<Rightarrow> u64 \<Rightarrow> u64 \<Rightarrow> (i32, 'w) io" where
  "r4driver_queue_segment E table input which offset mask_v output =
     (ask (driver_has E ''R4GfxDriverQueueApi'' table ''segment'') (\<lambda>ok. if \<not> ok then give (code E ''R4OS_ERR_NO_FN'') else
     if output = 0 then give (code E ''R4OS_GFX_QUEUE_ERROR_INVALID'') else
     and_then (put_header E output ''R4GfxDmaSegment'' 1 (sizeof E ''R4GfxDmaSegment'')) (\<lambda>_.
     call_slot E ''R4GfxDriverQueueApi'' table ''segment'' [input, ucast which, offset, mask_v, output])))"

definition r4driver_queue_retain_resource ::
  "'w platform \<Rightarrow> u64 \<Rightarrow> u64 \<Rightarrow> u32 \<Rightarrow> u64 \<Rightarrow> (i32, 'w) io" where
  "r4driver_queue_retain_resource E table input which output =
     (ask (driver_has E ''R4GfxDriverQueueApi'' table ''retain_resource'') (\<lambda>ok. if \<not> ok then give (code E ''R4OS_ERR_NO_FN'') else
     if output = 0 then give (code E ''R4OS_GFX_QUEUE_ERROR_INVALID'') else
     and_then (put_header E output ''R4GfxBufferReference'' 1 (sizeof E ''R4GfxBufferReference'')) (\<lambda>_.
     call_slot E ''R4GfxDriverQueueApi'' table ''retain_resource'' [input, ucast which, output])))"

subsection \<open>Memory\<close>

definition r4driver_memory_reserved_span ::
  "'w platform \<Rightarrow> u64 \<Rightarrow> u64 \<Rightarrow> u64 \<Rightarrow> (i32, 'w) io" where
  "r4driver_memory_reserved_span E table base bytes =
     (ask (driver_has E ''R4GfxDriverMemoryApi'' table ''reserved_span'') (\<lambda>ok. if \<not> ok then give (code E ''R4OS_ERR_NO_FN'') else
     call_slot E ''R4GfxDriverMemoryApi'' table ''reserved_span'' [base, bytes]))"

definition r4driver_memory_unmanaged_span ::
  "'w platform \<Rightarrow> u64 \<Rightarrow> u64 \<Rightarrow> u64 \<Rightarrow> (i32, 'w) io" where
  "r4driver_memory_unmanaged_span E table base bytes =
     (ask (driver_has E ''R4GfxDriverMemoryApi'' table ''unmanaged_span'') (\<lambda>ok. if \<not> ok then give (code E ''R4OS_ERR_NO_FN'') else
     call_slot E ''R4GfxDriverMemoryApi'' table ''unmanaged_span'' [base, bytes]))"

definition r4driver_memory_device_lost ::
  "'w platform \<Rightarrow> u64 \<Rightarrow> u32 \<Rightarrow> u64 \<Rightarrow> u32 \<Rightarrow> (i32, 'w) io" where
  "r4driver_memory_device_lost E table adapter generation quiesced =
     (ask (driver_has E ''R4GfxDriverMemoryApi'' table ''device_lost'') (\<lambda>ok. if \<not> ok then give (code E ''R4OS_ERR_NO_FN'') else
     if quiesced > 1 then give (code E ''R4OS_GFX_BUFFER_ERROR_INVALID'') else
     call_slot E ''R4GfxDriverMemoryApi'' table ''device_lost'' [ucast adapter, generation, ucast quiesced]))"

definition r4driver_telemetry_exchange ::
  "'w platform \<Rightarrow> u64 \<Rightarrow> u64 \<Rightarrow> u64 \<Rightarrow> (i32, 'w) io" where
  "r4driver_telemetry_exchange E table input output =
     (ask (driver_has E ''R4GfxDriverMemoryApi'' table ''telemetry_exchange'') (\<lambda>ok. if \<not> ok then give (code E ''R4OS_ERR_NO_FN'') else
     if input = 0 \<or> output = 0 then give (code E ''R4OS_GFX_BUFFER_ERROR_INVALID'') else
     and_then (clear_obj E (p_frame E) ''R4GfxTelemetryDemand'') (\<lambda>_.
     and_then (put_header E (p_frame E) ''R4GfxTelemetryDemand'' 1 (sizeof E ''R4GfxTelemetryDemand'')) (\<lambda>_.
     through_local E ''R4GfxDriverMemoryApi'' table ''telemetry_exchange'' [input, p_frame E] ''R4GfxTelemetryDemand'' (code E ''R4OS_GFX_BUFFER_RESULT_OK'') output))))"

definition r4driver_memory_budget ::
  "'w platform \<Rightarrow> u64 \<Rightarrow> u64 \<Rightarrow> u64 \<Rightarrow> (i32, 'w) io" where
  "r4driver_memory_budget E table input output =
     (ask (driver_has E ''R4GfxDriverMemoryApi'' table ''memory_budget'') (\<lambda>ok. if \<not> ok then give (code E ''R4OS_ERR_NO_FN'') else
     if input = 0 \<or> output = 0 then give (code E ''R4OS_GFX_BUFFER_ERROR_INVALID'') else
     and_then (clear_obj E (p_frame E) ''R4GfxDeviceBudgetState'') (\<lambda>_.
     and_then (put_header E (p_frame E) ''R4GfxDeviceBudgetState'' 1 (sizeof E ''R4GfxDeviceBudgetState'')) (\<lambda>_.
     through_local E ''R4GfxDriverMemoryApi'' table ''memory_budget'' [input, p_frame E] ''R4GfxDeviceBudgetState'' (code E ''R4OS_GFX_BUFFER_RESULT_OK'') output))))"

definition r4driver_memory_virtual_register ::
  "'w platform \<Rightarrow> u64 \<Rightarrow> u64 \<Rightarrow> u64 \<Rightarrow> (i32, 'w) io" where
  "r4driver_memory_virtual_register E table input output =
     (ask (driver_has E ''R4GfxDriverMemoryApi'' table ''virtual_register'') (\<lambda>ok. if \<not> ok then give (code E ''R4OS_ERR_NO_FN'') else
     if input = 0 \<or> output = 0 then give (code E ''R4OS_GFX_BUFFER_ERROR_INVALID'') else
     and_then (clear_obj E (p_frame E) ''R4GfxBufferHandle'') (\<lambda>_.
     through_local E ''R4GfxDriverMemoryApi'' table ''virtual_register'' [input, p_frame E] ''R4GfxBufferHandle'' (1) output)))"

definition r4driver_memory_virtual_unregister ::
  "'w platform \<Rightarrow> u64 \<Rightarrow> u64 \<Rightarrow> (i32, 'w) io" where
  "r4driver_memory_virtual_unregister E table provider =
     (ask (driver_has E ''R4GfxDriverMemoryApi'' table ''virtual_unregister'') (\<lambda>ok. if \<not> ok then give (code E ''R4OS_ERR_NO_FN'') else
     if provider = 0 then give (code E ''R4OS_GFX_BUFFER_ERROR_INVALID'') else
     call_slot E ''R4GfxDriverMemoryApi'' table ''virtual_unregister'' [provider]))"

definition r4driver_memory_virtual_take ::
  "'w platform \<Rightarrow> u64 \<Rightarrow> u64 \<Rightarrow> u64 \<Rightarrow> (i32, 'w) io" where
  "r4driver_memory_virtual_take E table provider output =
     (ask (driver_has E ''R4GfxDriverMemoryApi'' table ''virtual_take'') (\<lambda>ok. if \<not> ok then give (code E ''R4OS_ERR_NO_FN'') else
     if provider = 0 \<or> output = 0 then give (code E ''R4OS_GFX_BUFFER_ERROR_INVALID'') else
     and_then (clear_obj E (p_frame E) ''R4GfxVirtualJob'') (\<lambda>_.
     and_then (put_header E (p_frame E) ''R4GfxVirtualJob'' 1 (sizeof E ''R4GfxVirtualJob'')) (\<lambda>_.
     through_local E ''R4GfxDriverMemoryApi'' table ''virtual_take'' [provider, p_frame E] ''R4GfxVirtualJob'' (1) output))))"

definition r4driver_memory_virtual_complete ::
  "'w platform \<Rightarrow> u64 \<Rightarrow> u64 \<Rightarrow> u64 \<Rightarrow> (i32, 'w) io" where
  "r4driver_memory_virtual_complete E table provider completion =
     (ask (driver_has E ''R4GfxDriverMemoryApi'' table ''virtual_complete'') (\<lambda>ok. if \<not> ok then give (code E ''R4OS_ERR_NO_FN'') else
     if provider = 0 \<or> completion = 0 then give (code E ''R4OS_GFX_BUFFER_ERROR_INVALID'') else
     call_slot E ''R4GfxDriverMemoryApi'' table ''virtual_complete'' [provider, completion]))"

definition r4driver_memory_native_register ::
  "'w platform \<Rightarrow> u64 \<Rightarrow> u64 \<Rightarrow> u64 \<Rightarrow> (i32, 'w) io" where
  "r4driver_memory_native_register E table input output =
     (ask (driver_has E ''R4GfxDriverMemoryApi'' table ''native_register'') (\<lambda>ok. if \<not> ok then give (code E ''R4OS_ERR_NO_FN'') else
     if input = 0 \<or> output = 0 then give (code E ''R4OS_GFX_BUFFER_ERROR_INVALID'') else
     and_then (clear_obj E (p_frame E) ''R4GfxBufferHandle'') (\<lambda>_.
     through_local E ''R4GfxDriverMemoryApi'' table ''native_register'' [input, p_frame E] ''R4GfxBufferHandle'' (1) output)))"

definition r4driver_memory_native_unregister ::
  "'w platform \<Rightarrow> u64 \<Rightarrow> u64 \<Rightarrow> (i32, 'w) io" where
  "r4driver_memory_native_unregister E table provider =
     (ask (driver_has E ''R4GfxDriverMemoryApi'' table ''native_unregister'') (\<lambda>ok. if \<not> ok then give (code E ''R4OS_ERR_NO_FN'') else
     if provider = 0 then give (code E ''R4OS_GFX_BUFFER_ERROR_INVALID'') else
     call_slot E ''R4GfxDriverMemoryApi'' table ''native_unregister'' [provider]))"

definition r4driver_memory_native_take ::
  "'w platform \<Rightarrow> u64 \<Rightarrow> u64 \<Rightarrow> u64 \<Rightarrow> (i32, 'w) io" where
  "r4driver_memory_native_take E table provider output =
     (ask (driver_has E ''R4GfxDriverMemoryApi'' table ''native_take'') (\<lambda>ok. if \<not> ok then give (code E ''R4OS_ERR_NO_FN'') else
     if provider = 0 \<or> output = 0 then give (code E ''R4OS_GFX_BUFFER_ERROR_INVALID'') else
     and_then (clear_obj E (p_frame E) ''R4GfxNativeJob'') (\<lambda>_.
     and_then (put_header E (p_frame E) ''R4GfxNativeJob'' 1 (sizeof E ''R4GfxNativeJob'')) (\<lambda>_.
     through_local E ''R4GfxDriverMemoryApi'' table ''native_take'' [provider, p_frame E] ''R4GfxNativeJob'' (1) output))))"

definition r4driver_memory_native_complete ::
  "'w platform \<Rightarrow> u64 \<Rightarrow> u64 \<Rightarrow> u64 \<Rightarrow> i32 \<Rightarrow> u64 \<Rightarrow> (i32, 'w) io" where
  "r4driver_memory_native_complete E table provider request result_p reference =
     (ask (driver_has E ''R4GfxDriverMemoryApi'' table ''native_complete'') (\<lambda>ok. if \<not> ok then give (code E ''R4OS_ERR_NO_FN'') else
     if provider = 0 \<or> request = 0 \<or> reference = 0 then give (code E ''R4OS_GFX_BUFFER_ERROR_INVALID'') else
     call_slot E ''R4GfxDriverMemoryApi'' table ''native_complete'' [provider, request, scast result_p, reference]))"

definition r4driver_memory_buffer_create ::
  "'w platform \<Rightarrow> u64 \<Rightarrow> u64 \<Rightarrow> u64 \<Rightarrow> (i32, 'w) io" where
  "r4driver_memory_buffer_create E table input output =
     (ask (driver_has E ''R4GfxDriverMemoryApi'' table ''buffer_create'') (\<lambda>ok. if \<not> ok then give (code E ''R4OS_ERR_NO_FN'') else
     if output = 0 then give (- 1) else
     and_then (put_header E output ''R4GfxBufferReference'' 1 (sizeof E ''R4GfxBufferReference'')) (\<lambda>_.
     call_slot E ''R4GfxDriverMemoryApi'' table ''buffer_create'' [input, output])))"

definition r4driver_memory_buffer_describe ::
  "'w platform \<Rightarrow> u64 \<Rightarrow> u64 \<Rightarrow> u64 \<Rightarrow> (i32, 'w) io" where
  "r4driver_memory_buffer_describe E table input output =
     (ask (driver_has E ''R4GfxDriverMemoryApi'' table ''buffer_describe'') (\<lambda>ok. if \<not> ok then give (code E ''R4OS_ERR_NO_FN'') else
     if output = 0 then give (- 1) else
     and_then (put_header E output ''R4GfxBufferDescriptor'' 1 (sizeof E ''R4GfxBufferDescriptor'')) (\<lambda>_.
     call_slot E ''R4GfxDriverMemoryApi'' table ''buffer_describe'' [input, output])))"

definition r4driver_memory_buffer_import ::
  "'w platform \<Rightarrow> u64 \<Rightarrow> u64 \<Rightarrow> u64 \<Rightarrow> (i32, 'w) io" where
  "r4driver_memory_buffer_import E table input output =
     (ask (driver_has E ''R4GfxDriverMemoryApi'' table ''buffer_import'') (\<lambda>ok. if \<not> ok then give (code E ''R4OS_ERR_NO_FN'') else
     if output = 0 then give (- 1) else
     and_then (put_header E output ''R4GfxBufferReference'' 1 (sizeof E ''R4GfxBufferReference'')) (\<lambda>_.
     call_slot E ''R4GfxDriverMemoryApi'' table ''buffer_import'' [input, output])))"

definition r4driver_memory_buffer_release ::
  "'w platform \<Rightarrow> u64 \<Rightarrow> u64 \<Rightarrow> (i32, 'w) io" where
  "r4driver_memory_buffer_release E table input =
     (ask (driver_has E ''R4GfxDriverMemoryApi'' table ''buffer_release'') (\<lambda>ok. if \<not> ok then give (code E ''R4OS_ERR_NO_FN'') else
     call_slot E ''R4GfxDriverMemoryApi'' table ''buffer_release'' [input]))"

definition r4driver_memory_buffer_map ::
  "'w platform \<Rightarrow> u64 \<Rightarrow> u64 \<Rightarrow> u32 \<Rightarrow> u64 \<Rightarrow> u64 \<Rightarrow> u64 \<Rightarrow> (i32, 'w) io" where
  "r4driver_memory_buffer_map E table input access offset bytes output =
     (ask (driver_has E ''R4GfxDriverMemoryApi'' table ''buffer_map'') (\<lambda>ok. if \<not> ok then give (code E ''R4OS_ERR_NO_FN'') else
     if output = 0 then give (- 1) else
     and_then (put_header E output ''R4GfxBufferMap'' 1 (sizeof E ''R4GfxBufferMap'')) (\<lambda>_.
     call_slot E ''R4GfxDriverMemoryApi'' table ''buffer_map'' [input, ucast access, offset, bytes, output])))"

definition r4driver_memory_buffer_unmap ::
  "'w platform \<Rightarrow> u64 \<Rightarrow> u64 \<Rightarrow> (i32, 'w) io" where
  "r4driver_memory_buffer_unmap E table input =
     (ask (driver_has E ''R4GfxDriverMemoryApi'' table ''buffer_unmap'') (\<lambda>ok. if \<not> ok then give (code E ''R4OS_ERR_NO_FN'') else
     call_slot E ''R4GfxDriverMemoryApi'' table ''buffer_unmap'' [input]))"

definition r4driver_memory_device_acquire ::
  "'w platform \<Rightarrow> u64 \<Rightarrow> u64 \<Rightarrow> u64 \<Rightarrow> u64 \<Rightarrow> (i32, 'w) io" where
  "r4driver_memory_device_acquire E table reference request output =
     (ask (driver_has E ''R4GfxDriverMemoryApi'' table ''device_acquire'') (\<lambda>ok. if \<not> ok then give (code E ''R4OS_ERR_NO_FN'') else
     if output = 0 then give (- 1) else
     and_then (put_header E output ''R4GfxDeviceLease'' 1 (sizeof E ''R4GfxDeviceLease'')) (\<lambda>_.
     call_slot E ''R4GfxDriverMemoryApi'' table ''device_acquire'' [reference, request, output])))"

definition r4driver_memory_device_segment ::
  "'w platform \<Rightarrow> u64 \<Rightarrow> u64 \<Rightarrow> u64 \<Rightarrow> u64 \<Rightarrow> (i32, 'w) io" where
  "r4driver_memory_device_segment E table lease offset output =
     (ask (driver_has E ''R4GfxDriverMemoryApi'' table ''device_segment'') (\<lambda>ok. if \<not> ok then give (code E ''R4OS_ERR_NO_FN'') else
     if output = 0 then give (- 1) else
     and_then (put_header E output ''R4GfxDmaSegment'' 1 (sizeof E ''R4GfxDmaSegment'')) (\<lambda>_.
     call_slot E ''R4GfxDriverMemoryApi'' table ''device_segment'' [lease, offset, output])))"

definition r4driver_memory_device_release ::
  "'w platform \<Rightarrow> u64 \<Rightarrow> u64 \<Rightarrow> u32 \<Rightarrow> (i32, 'w) io" where
  "r4driver_memory_device_release E table lease quiesced =
     (ask (driver_has E ''R4GfxDriverMemoryApi'' table ''device_release'') (\<lambda>ok. if \<not> ok then give (code E ''R4OS_ERR_NO_FN'') else
     call_slot E ''R4GfxDriverMemoryApi'' table ''device_release'' [lease, ucast quiesced]))"

definition r4driver_memory_mmio_map ::
  "'w platform \<Rightarrow> u64 \<Rightarrow> u64 \<Rightarrow> u64 \<Rightarrow> (i32, 'w) io" where
  "r4driver_memory_mmio_map E table request output =
     (ask (driver_has E ''R4GfxDriverMemoryApi'' table ''mmio_map'') (\<lambda>ok. if \<not> ok then give (code E ''R4OS_ERR_NO_FN'') else
     if output = 0 then give (- 1) else
     and_then (put_header E output ''R4GfxMmioWindow'' 1 (sizeof E ''R4GfxMmioWindow'')) (\<lambda>_.
     call_slot E ''R4GfxDriverMemoryApi'' table ''mmio_map'' [request, output])))"

definition r4driver_memory_mmio_unmap ::
  "'w platform \<Rightarrow> u64 \<Rightarrow> u64 \<Rightarrow> u32 \<Rightarrow> (i32, 'w) io" where
  "r4driver_memory_mmio_unmap E table window quiesced =
     (ask (driver_has E ''R4GfxDriverMemoryApi'' table ''mmio_unmap'') (\<lambda>ok. if \<not> ok then give (code E ''R4OS_ERR_NO_FN'') else
     call_slot E ''R4GfxDriverMemoryApi'' table ''mmio_unmap'' [window, ucast quiesced]))"

definition r4driver_memory_collect ::
  "'w platform \<Rightarrow> u64 \<Rightarrow> (i32, 'w) io" where
  "r4driver_memory_collect E table =
     (ask (driver_has E ''R4GfxDriverMemoryApi'' table ''collect'') (\<lambda>ok. if \<not> ok then give (code E ''R4OS_ERR_NO_FN'') else
     call_slot E ''R4GfxDriverMemoryApi'' table ''collect'' []))"

text \<open>The one wrapper that looks at the object the call filled before handing it on.\<close>

definition r4driver_memory_buffer_stats :: "'w platform \<Rightarrow> u64 \<Rightarrow> u64 \<Rightarrow> (i32, 'w) io" where
  "r4driver_memory_buffer_stats E table output =
     (ask (driver_has E ''R4GfxDriverMemoryApi'' table ''buffer_stats'') (\<lambda>ok. if \<not> ok then give (code E ''R4OS_ERR_NO_FN'') else
     if output = 0 then give (- 1) else
     and_then (clear_obj E (p_frame E) ''R4GfxBufferStats'') (\<lambda>_.
     and_then (put_header E (p_frame E) ''R4GfxBufferStats'' 1 (sizeof E ''R4GfxBufferStats'')) (\<lambda>_.
     and_then (call_slot E ''R4GfxDriverMemoryApi'' table ''buffer_stats'' [p_frame E]) (\<lambda>rc.
       if rc \<noteq> code E ''R4OS_GFX_BUFFER_RESULT_OK'' then give rc
       else ask (q_and (member_is E (p_frame E) ''R4GfxBufferStats'' ''version'' (\<lambda>v. v = 1))
                  (member_is E (p_frame E) ''R4GfxBufferStats'' ''size'' (\<lambda>sz. sizeof E ''R4GfxBufferStats'' \<le> sz))) (\<lambda>ok.
         if \<not> ok then give (code E ''R4OS_GFX_BUFFER_ERROR_INVALID'')
         else and_then (copy_obj E output (p_frame E) ''R4GfxBufferStats'') (\<lambda>_. give rc)))))))"

definition r4driver_memory_buffer_reserve ::
  "'w platform \<Rightarrow> u64 \<Rightarrow> u64 \<Rightarrow> u64 \<Rightarrow> u64 \<Rightarrow> (i32, 'w) io" where
  "r4driver_memory_buffer_reserve E table input cookie output =
     (ask (driver_has E ''R4GfxDriverMemoryApi'' table ''buffer_reserve'') (\<lambda>ok. if \<not> ok then give (code E ''R4OS_ERR_NO_FN'') else
     if output = 0 then give (- 1) else
     and_then (put_header E output ''R4GfxOwnedBufferReservation'' 1 (sizeof E ''R4GfxOwnedBufferReservation'')) (\<lambda>_.
     call_slot E ''R4GfxDriverMemoryApi'' table ''buffer_reserve'' [input, cookie, output])))"

definition r4driver_memory_buffer_commit ::
  "'w platform \<Rightarrow> u64 \<Rightarrow> u64 \<Rightarrow> u64 \<Rightarrow> (i32, 'w) io" where
  "r4driver_memory_buffer_commit E table input output =
     (ask (driver_has E ''R4GfxDriverMemoryApi'' table ''buffer_commit'') (\<lambda>ok. if \<not> ok then give (code E ''R4OS_ERR_NO_FN'') else
     if output = 0 then give (- 1) else
     and_then (put_header E output ''R4GfxBufferReference'' 1 (sizeof E ''R4GfxBufferReference'')) (\<lambda>_.
     call_slot E ''R4GfxDriverMemoryApi'' table ''buffer_commit'' [input, output])))"

definition r4driver_memory_buffer_abort ::
  "'w platform \<Rightarrow> u64 \<Rightarrow> u64 \<Rightarrow> u32 \<Rightarrow> (i32, 'w) io" where
  "r4driver_memory_buffer_abort E table input quiesced =
     (ask (driver_has E ''R4GfxDriverMemoryApi'' table ''buffer_abort'') (\<lambda>ok. if \<not> ok then give (code E ''R4OS_ERR_NO_FN'') else
     call_slot E ''R4GfxDriverMemoryApi'' table ''buffer_abort'' [input, ucast quiesced]))"

definition r4driver_memory_buffer_take_release ::
  "'w platform \<Rightarrow> u64 \<Rightarrow> u32 \<Rightarrow> u64 \<Rightarrow> u64 \<Rightarrow> (i32, 'w) io" where
  "r4driver_memory_buffer_take_release E table adapter generation output =
     (ask (driver_has E ''R4GfxDriverMemoryApi'' table ''buffer_take_release'') (\<lambda>ok. if \<not> ok then give (code E ''R4OS_ERR_NO_FN'') else
     if output = 0 then give (- 1) else
     and_then (put_header E output ''R4GfxOwnedBufferRelease'' 1 (sizeof E ''R4GfxOwnedBufferRelease'')) (\<lambda>_.
     call_slot E ''R4GfxDriverMemoryApi'' table ''buffer_take_release'' [ucast adapter, generation, output])))"

definition r4driver_memory_buffer_finish_release ::
  "'w platform \<Rightarrow> u64 \<Rightarrow> u64 \<Rightarrow> u32 \<Rightarrow> (i32, 'w) io" where
  "r4driver_memory_buffer_finish_release E table input quiesced =
     (ask (driver_has E ''R4GfxDriverMemoryApi'' table ''buffer_finish_release'') (\<lambda>ok. if \<not> ok then give (code E ''R4OS_ERR_NO_FN'') else
     call_slot E ''R4GfxDriverMemoryApi'' table ''buffer_finish_release'' [input, ucast quiesced]))"

subsection \<open>Outputs\<close>

definition r4driver_output_supports_power :: "'w platform \<Rightarrow> u64 \<Rightarrow> query" where
  "r4driver_output_supports_power E table = driver_slots E ''R4GfxDriverOutputApi'' table ''power_read'' [''power_publish'', ''power_read'']"

definition r4driver_output_publish_power ::
  "'w platform \<Rightarrow> u64 \<Rightarrow> u64 \<Rightarrow> (i32, 'w) io" where
  "r4driver_output_publish_power E table input =
     (ask (r4driver_output_supports_power E table) (\<lambda>ok. if \<not> ok then give (code E ''R4OS_ERR_NO_FN'') else
     if input = 0 then give (code E ''R4OS_GFX_OUTPUT_ERROR_INVALID'') else
     call_slot E ''R4GfxDriverOutputApi'' table ''power_publish'' [input]))"

definition r4driver_output_read_power ::
  "'w platform \<Rightarrow> u64 \<Rightarrow> u64 \<Rightarrow> u64 \<Rightarrow> (i32, 'w) io" where
  "r4driver_output_read_power E table identity output =
     (ask (r4driver_output_supports_power E table) (\<lambda>ok. if \<not> ok then give (code E ''R4OS_ERR_NO_FN'') else
     if identity = 0 \<or> output = 0 then give (code E ''R4OS_GFX_OUTPUT_ERROR_INVALID'') else
     and_then (clear_obj E (p_frame E) ''R4GfxPowerRequest'') (\<lambda>_.
     and_then (put_header E (p_frame E) ''R4GfxPowerRequest'' 1 (sizeof E ''R4GfxPowerRequest'')) (\<lambda>_.
     through_local E ''R4GfxDriverOutputApi'' table ''power_read'' [identity, p_frame E] ''R4GfxPowerRequest'' (code E ''R4OS_GFX_OUTPUT_OK'') output))))"

definition r4driver_output_supports_brightness :: "'w platform \<Rightarrow> u64 \<Rightarrow> query" where
  "r4driver_output_supports_brightness E table = driver_slots E ''R4GfxDriverOutputApi'' table ''brightness_read'' [''brightness_publish'', ''brightness_read'']"

definition r4driver_output_publish_brightness ::
  "'w platform \<Rightarrow> u64 \<Rightarrow> u64 \<Rightarrow> (i32, 'w) io" where
  "r4driver_output_publish_brightness E table input =
     (ask (r4driver_output_supports_brightness E table) (\<lambda>ok. if \<not> ok then give (code E ''R4OS_ERR_NO_FN'') else
     if input = 0 then give (code E ''R4OS_GFX_OUTPUT_ERROR_INVALID'') else
     call_slot E ''R4GfxDriverOutputApi'' table ''brightness_publish'' [input]))"

definition r4driver_output_read_brightness ::
  "'w platform \<Rightarrow> u64 \<Rightarrow> u64 \<Rightarrow> u64 \<Rightarrow> (i32, 'w) io" where
  "r4driver_output_read_brightness E table identity output =
     (ask (r4driver_output_supports_brightness E table) (\<lambda>ok. if \<not> ok then give (code E ''R4OS_ERR_NO_FN'') else
     if identity = 0 \<or> output = 0 then give (code E ''R4OS_GFX_OUTPUT_ERROR_INVALID'') else
     and_then (clear_obj E (p_frame E) ''R4GfxBrightnessRequest'') (\<lambda>_.
     and_then (put_header E (p_frame E) ''R4GfxBrightnessRequest'' 1 (sizeof E ''R4GfxBrightnessRequest'')) (\<lambda>_.
     through_local E ''R4GfxDriverOutputApi'' table ''brightness_read'' [identity, p_frame E] ''R4GfxBrightnessRequest'' (code E ''R4OS_GFX_OUTPUT_OK'') output))))"

definition r4driver_output_supports_refresh :: "'w platform \<Rightarrow> u64 \<Rightarrow> query" where
  "r4driver_output_supports_refresh E table = driver_slots E ''R4GfxDriverOutputApi'' table ''refresh_read'' [''refresh_publish'', ''refresh_read'']"

definition r4driver_output_publish_refresh ::
  "'w platform \<Rightarrow> u64 \<Rightarrow> u64 \<Rightarrow> (i32, 'w) io" where
  "r4driver_output_publish_refresh E table input =
     (ask (r4driver_output_supports_refresh E table) (\<lambda>ok. if \<not> ok then give (code E ''R4OS_ERR_NO_FN'') else
     if input = 0 then give (code E ''R4OS_GFX_OUTPUT_ERROR_INVALID'') else
     call_slot E ''R4GfxDriverOutputApi'' table ''refresh_publish'' [input]))"

definition r4driver_output_read_refresh ::
  "'w platform \<Rightarrow> u64 \<Rightarrow> u64 \<Rightarrow> u64 \<Rightarrow> (i32, 'w) io" where
  "r4driver_output_read_refresh E table target output =
     (ask (r4driver_output_supports_refresh E table) (\<lambda>ok. if \<not> ok then give (code E ''R4OS_ERR_NO_FN'') else
     if target = 0 \<or> output = 0 then give (code E ''R4OS_GFX_OUTPUT_ERROR_INVALID'') else
     and_then (clear_obj E (p_frame E) ''R4GfxRefreshRequest'') (\<lambda>_.
     and_then (put_header E (p_frame E) ''R4GfxRefreshRequest'' 1 (sizeof E ''R4GfxRefreshRequest'')) (\<lambda>_.
     through_local E ''R4GfxDriverOutputApi'' table ''refresh_read'' [target, p_frame E] ''R4GfxRefreshRequest'' (code E ''R4OS_GFX_OUTPUT_OK'') output))))"

definition r4driver_output_supports_mode_color :: "'w platform \<Rightarrow> u64 \<Rightarrow> query" where
  "r4driver_output_supports_mode_color E table = driver_slots E ''R4GfxDriverOutputApi'' table ''mode_read_color'' [''mode_enable'', ''mode_take'', ''mode_complete'', ''mode_read_color'']"

definition r4driver_output_read_mode_color ::
  "'w platform \<Rightarrow> u64 \<Rightarrow> u64 \<Rightarrow> u64 \<Rightarrow> u64 \<Rightarrow> (i32, 'w) io" where
  "r4driver_output_read_mode_color E table ticket sequence output =
     (ask (r4driver_output_supports_mode_color E table) (\<lambda>ok. if \<not> ok then give (code E ''R4OS_ERR_NO_FN'') else
     if output = 0 then give (code E ''R4OS_GFX_OUTPUT_ERROR_INVALID'') else
     call_slot E ''R4GfxDriverOutputApi'' table ''mode_read_color'' [ticket, sequence, output]))"

definition r4driver_output_supports_color :: "'w platform \<Rightarrow> u64 \<Rightarrow> query" where
  "r4driver_output_supports_color E table = driver_slots E ''R4GfxDriverOutputApi'' table ''color_publish'' [''color_publish'']"

definition r4driver_output_publish_color ::
  "'w platform \<Rightarrow> u64 \<Rightarrow> u64 \<Rightarrow> (i32, 'w) io" where
  "r4driver_output_publish_color E table input =
     (ask (r4driver_output_supports_color E table) (\<lambda>ok. if \<not> ok then give (code E ''R4OS_ERR_NO_FN'') else
     if input = 0 then give (code E ''R4OS_GFX_OUTPUT_ERROR_INVALID'') else
     call_slot E ''R4GfxDriverOutputApi'' table ''color_publish'' [input]))"

definition r4driver_output_supports_hotplug :: "'w platform \<Rightarrow> u64 \<Rightarrow> query" where
  "r4driver_output_supports_hotplug E table = driver_slots E ''R4GfxDriverOutputApi'' table ''mode_status'' [''output_pause'', ''mode_restore'', ''mode_status'']"

definition r4driver_output_pause ::
  "'w platform \<Rightarrow> u64 \<Rightarrow> u64 \<Rightarrow> u32 \<Rightarrow> (i32, 'w) io" where
  "r4driver_output_pause E table output paused =
     (ask (r4driver_output_supports_hotplug E table) (\<lambda>ok. if \<not> ok then give (code E ''R4OS_ERR_NO_FN'') else
     if output = 0 \<or> paused > 1 then give (code E ''R4OS_GFX_OUTPUT_ERROR_INVALID'') else
     call_slot E ''R4GfxDriverOutputApi'' table ''output_pause'' [output, ucast paused]))"

definition r4driver_output_restore_mode ::
  "'w platform \<Rightarrow> u64 \<Rightarrow> u64 \<Rightarrow> u64 \<Rightarrow> (i32, 'w) io" where
  "r4driver_output_restore_mode E table input output =
     (ask (r4driver_output_supports_hotplug E table) (\<lambda>ok. if \<not> ok then give (code E ''R4OS_ERR_NO_FN'') else
     if input = 0 \<or> output = 0 then give (code E ''R4OS_GFX_OUTPUT_ERROR_INVALID'') else
     call_slot E ''R4GfxDriverOutputApi'' table ''mode_restore'' [input, output]))"

definition r4driver_output_mode_status ::
  "'w platform \<Rightarrow> u64 \<Rightarrow> u64 \<Rightarrow> u64 \<Rightarrow> (i32, 'w) io" where
  "r4driver_output_mode_status E table ticket output =
     (ask (r4driver_output_supports_hotplug E table) (\<lambda>ok. if \<not> ok then give (code E ''R4OS_ERR_NO_FN'') else
     if output = 0 then give (code E ''R4OS_GFX_OUTPUT_ERROR_INVALID'') else
     call_slot E ''R4GfxDriverOutputApi'' table ''mode_status'' [ticket, output]))"

definition r4driver_output_supports_audio :: "'w platform \<Rightarrow> u64 \<Rightarrow> query" where
  "r4driver_output_supports_audio E table = driver_slots E ''R4GfxDriverOutputApi'' table ''audio_query'' [''audio_publish'', ''audio_query'']"

definition r4driver_output_publish_audio ::
  "'w platform \<Rightarrow> u64 \<Rightarrow> u64 \<Rightarrow> (i32, 'w) io" where
  "r4driver_output_publish_audio E table input =
     (ask (r4driver_output_supports_audio E table) (\<lambda>ok. if \<not> ok then give (code E ''R4OS_ERR_NO_FN'') else
     if input = 0 then give (code E ''R4OS_GFX_OUTPUT_ERROR_INVALID'') else
     call_slot E ''R4GfxDriverOutputApi'' table ''audio_publish'' [input]))"

definition r4driver_output_query_audio ::
  "'w platform \<Rightarrow> u64 \<Rightarrow> u32 \<Rightarrow> u32 \<Rightarrow> u32 \<Rightarrow> u64 \<Rightarrow> (i32, 'w) io" where
  "r4driver_output_query_audio E table location device index output =
     (ask (r4driver_output_supports_audio E table) (\<lambda>ok. if \<not> ok then give (code E ''R4OS_ERR_NO_FN'') else
     if output = 0 then give (code E ''R4OS_GFX_OUTPUT_ERROR_INVALID'') else
     call_slot E ''R4GfxDriverOutputApi'' table ''audio_query'' [ucast location, ucast device, ucast index, output]))"

definition r4driver_output_supports_modes :: "'w platform \<Rightarrow> u64 \<Rightarrow> query" where
  "r4driver_output_supports_modes E table = driver_slots E ''R4GfxDriverOutputApi'' table ''mode_complete'' [''mode_enable'', ''mode_take'', ''mode_complete'']"

definition r4driver_output_enable_modes ::
  "'w platform \<Rightarrow> u64 \<Rightarrow> u64 \<Rightarrow> (i32, 'w) io" where
  "r4driver_output_enable_modes E table backend =
     (ask (r4driver_output_supports_modes E table) (\<lambda>ok. if \<not> ok then give (code E ''R4OS_ERR_NO_FN'') else
     if backend = 0 then give (code E ''R4OS_GFX_OUTPUT_ERROR_INVALID'') else
     call_slot E ''R4GfxDriverOutputApi'' table ''mode_enable'' [backend]))"

definition r4driver_output_take_mode ::
  "'w platform \<Rightarrow> u64 \<Rightarrow> u64 \<Rightarrow> u64 \<Rightarrow> (i32, 'w) io" where
  "r4driver_output_take_mode E table backend output =
     (ask (r4driver_output_supports_modes E table) (\<lambda>ok. if \<not> ok then give (code E ''R4OS_ERR_NO_FN'') else
     if backend = 0 \<or> output = 0 then give (code E ''R4OS_GFX_OUTPUT_ERROR_INVALID'') else
     call_slot E ''R4GfxDriverOutputApi'' table ''mode_take'' [backend, output]))"

definition r4driver_output_complete_mode ::
  "'w platform \<Rightarrow> u64 \<Rightarrow> u64 \<Rightarrow> (i32, 'w) io" where
  "r4driver_output_complete_mode E table input =
     (ask (r4driver_output_supports_modes E table) (\<lambda>ok. if \<not> ok then give (code E ''R4OS_ERR_NO_FN'') else
     if input = 0 then give (code E ''R4OS_GFX_OUTPUT_ERROR_INVALID'') else
     call_slot E ''R4GfxDriverOutputApi'' table ''mode_complete'' [input]))"

definition r4driver_output_supports_receivers :: "'w platform \<Rightarrow> u64 \<Rightarrow> query" where
  "r4driver_output_supports_receivers E table = driver_slots E ''R4GfxDriverOutputApi'' table ''close_source'' [''register_source'', ''replace_receivers'', ''close_source'']"

definition r4driver_output_register_source ::
  "'w platform \<Rightarrow> u64 \<Rightarrow> u32 \<Rightarrow> u64 \<Rightarrow> (i32, 'w) io" where
  "r4driver_output_register_source E table adapter output =
     (ask (r4driver_output_supports_receivers E table) (\<lambda>ok. if \<not> ok then give (code E ''R4OS_ERR_NO_FN'') else
     if output = 0 then give (code E ''R4OS_GFX_OUTPUT_ERROR_INVALID'') else
     call_slot E ''R4GfxDriverOutputApi'' table ''register_source'' [ucast adapter, output]))"

definition r4driver_output_replace_receivers ::
  "'w platform \<Rightarrow> u64 \<Rightarrow> u64 \<Rightarrow> (i32, 'w) io" where
  "r4driver_output_replace_receivers E table input =
     (ask (r4driver_output_supports_receivers E table) (\<lambda>ok. if \<not> ok then give (code E ''R4OS_ERR_NO_FN'') else
     if input = 0 then give (code E ''R4OS_GFX_OUTPUT_ERROR_INVALID'') else
     call_slot E ''R4GfxDriverOutputApi'' table ''replace_receivers'' [input]))"

definition r4driver_output_close_source ::
  "'w platform \<Rightarrow> u64 \<Rightarrow> u64 \<Rightarrow> (i32, 'w) io" where
  "r4driver_output_close_source E table input =
     (ask (r4driver_output_supports_receivers E table) (\<lambda>ok. if \<not> ok then give (code E ''R4OS_ERR_NO_FN'') else
     if input = 0 then give (code E ''R4OS_GFX_OUTPUT_ERROR_INVALID'') else
     call_slot E ''R4GfxDriverOutputApi'' table ''close_source'' [input]))"

definition r4driver_output_publish ::
  "'w platform \<Rightarrow> u64 \<Rightarrow> u64 \<Rightarrow> u64 \<Rightarrow> (i32, 'w) io" where
  "r4driver_output_publish E table input output =
     (ask (driver_has E ''R4GfxDriverOutputApi'' table ''publish'') (\<lambda>ok. if \<not> ok then give (code E ''R4OS_ERR_NO_FN'') else
     if input = 0 \<or> output = 0 then give (code E ''R4OS_GFX_OUTPUT_ERROR_INVALID'') else
     call_slot E ''R4GfxDriverOutputApi'' table ''publish'' [input, output]))"

definition r4driver_output_withdraw ::
  "'w platform \<Rightarrow> u64 \<Rightarrow> u64 \<Rightarrow> (i32, 'w) io" where
  "r4driver_output_withdraw E table input =
     (ask (driver_has E ''R4GfxDriverOutputApi'' table ''withdraw'') (\<lambda>ok. if \<not> ok then give (code E ''R4OS_ERR_NO_FN'') else
     if input = 0 then give (code E ''R4OS_GFX_OUTPUT_ERROR_INVALID'') else
     call_slot E ''R4GfxDriverOutputApi'' table ''withdraw'' [input]))"

subsection \<open>Displays\<close>

definition r4driver_display_supports_headless_resume :: "'w platform \<Rightarrow> u64 \<Rightarrow> query" where
  "r4driver_display_supports_headless_resume E table = driver_slots E ''R4GfxDriverDisplayApi'' table ''resume_headless'' [''resume_headless'']"

definition r4driver_display_resume_headless ::
  "'w platform \<Rightarrow> u64 \<Rightarrow> u64 \<Rightarrow> u64 \<Rightarrow> u64 \<Rightarrow> (i32, 'w) io" where
  "r4driver_display_resume_headless E table backend generation output =
     (ask (r4driver_display_supports_headless_resume E table) (\<lambda>ok. if \<not> ok then give (code E ''R4OS_ERR_NO_FN'') else
     if backend = 0 \<or> output = 0 then give (code E ''R4OS_GFX_OUTPUT_ERROR_INVALID'') else
     and_then (put_header E output ''R4GfxNativeState'' 1 (sizeof E ''R4GfxNativeState'')) (\<lambda>_.
     call_slot E ''R4GfxDriverDisplayApi'' table ''resume_headless'' [backend, generation, output])))"

definition r4driver_display_supports_reset :: "'w platform \<Rightarrow> u64 \<Rightarrow> query" where
  "r4driver_display_supports_reset E table = driver_slots E ''R4GfxDriverDisplayApi'' table ''prepare_reset'' [''device_reset'', ''prepare_reset'']"

definition r4driver_display_device_reset ::
  "'w platform \<Rightarrow> u64 \<Rightarrow> u64 \<Rightarrow> u64 \<Rightarrow> u32 \<Rightarrow> u64 \<Rightarrow> (i32, 'w) io" where
  "r4driver_display_device_reset E table backend generation quiesced output =
     (ask (r4driver_display_supports_reset E table) (\<lambda>ok. if \<not> ok then give (code E ''R4OS_ERR_NO_FN'') else
     if backend = 0 \<or> output = 0 \<or> quiesced > 1 then give (code E ''R4OS_GFX_OUTPUT_ERROR_INVALID'') else
     and_then (put_header E output ''R4GfxNativeState'' 1 (sizeof E ''R4GfxNativeState'')) (\<lambda>_.
     call_slot E ''R4GfxDriverDisplayApi'' table ''device_reset'' [backend, generation, ucast quiesced, output])))"

definition r4driver_display_prepare_reset ::
  "'w platform \<Rightarrow> u64 \<Rightarrow> u64 \<Rightarrow> u64 \<Rightarrow> u64 \<Rightarrow> u64 \<Rightarrow> (i32, 'w) io" where
  "r4driver_display_prepare_reset E table input held_generation reset_generation output =
     (ask (r4driver_display_supports_reset E table) (\<lambda>ok. if \<not> ok then give (code E ''R4OS_ERR_NO_FN'') else
     if input = 0 \<or> output = 0 then give (code E ''R4OS_GFX_OUTPUT_ERROR_INVALID'') else
     and_then (put_header E output ''R4GfxNativeState'' 1 (sizeof E ''R4GfxNativeState'')) (\<lambda>_.
     call_slot E ''R4GfxDriverDisplayApi'' table ''prepare_reset'' [input, held_generation, reset_generation, output])))"

definition r4driver_display_supports_cursor :: "'w platform \<Rightarrow> u64 \<Rightarrow> query" where
  "r4driver_display_supports_cursor E table = driver_slots E ''R4GfxDriverDisplayApi'' table ''cursor_complete'' [''cursor_configure'', ''cursor_take'', ''cursor_complete'']"

definition r4driver_display_cursor_configure ::
  "'w platform \<Rightarrow> u64 \<Rightarrow> u64 \<Rightarrow> (i32, 'w) io" where
  "r4driver_display_cursor_configure E table input =
     (ask (r4driver_display_supports_cursor E table) (\<lambda>ok. if \<not> ok then give (code E ''R4OS_ERR_NO_FN'') else
     if input = 0 then give (code E ''R4OS_GFX_OUTPUT_ERROR_INVALID'') else
     call_slot E ''R4GfxDriverDisplayApi'' table ''cursor_configure'' [input]))"

definition r4driver_display_cursor_take ::
  "'w platform \<Rightarrow> u64 \<Rightarrow> u64 \<Rightarrow> u64 \<Rightarrow> (i32, 'w) io" where
  "r4driver_display_cursor_take E table backend output =
     (ask (r4driver_display_supports_cursor E table) (\<lambda>ok. if \<not> ok then give (code E ''R4OS_ERR_NO_FN'') else
     if backend = 0 \<or> output = 0 then give (code E ''R4OS_GFX_OUTPUT_ERROR_INVALID'') else
     and_then (put_header E output ''R4GfxDriverCursorJob'' 1 (sizeof E ''R4GfxDriverCursorJob'')) (\<lambda>_.
     call_slot E ''R4GfxDriverDisplayApi'' table ''cursor_take'' [backend, output])))"

definition r4driver_display_cursor_complete ::
  "'w platform \<Rightarrow> u64 \<Rightarrow> u64 \<Rightarrow> (i32, 'w) io" where
  "r4driver_display_cursor_complete E table input =
     (ask (r4driver_display_supports_cursor E table) (\<lambda>ok. if \<not> ok then give (code E ''R4OS_ERR_NO_FN'') else
     if input = 0 then give (code E ''R4OS_GFX_OUTPUT_ERROR_INVALID'') else
     call_slot E ''R4GfxDriverDisplayApi'' table ''cursor_complete'' [input]))"

definition r4driver_display_supports_presentation_stats :: "'w platform \<Rightarrow> u64 \<Rightarrow> query" where
  "r4driver_display_supports_presentation_stats E table = driver_slots E ''R4GfxDriverDisplayApi'' table ''presentation_stats'' [''presentation_stats'']"

definition r4driver_display_supports_presentation_info :: "'w platform \<Rightarrow> u64 \<Rightarrow> query" where
  "r4driver_display_supports_presentation_info E table = driver_slots E ''R4GfxDriverDisplayApi'' table ''presentation_info'' [''presentation_info'']"

definition r4driver_display_presentation_info ::
  "'w platform \<Rightarrow> u64 \<Rightarrow> u64 \<Rightarrow> (i32, 'w) io" where
  "r4driver_display_presentation_info E table input =
     (ask (r4driver_display_supports_presentation_info E table) (\<lambda>ok. if \<not> ok then give (code E ''R4OS_ERR_NO_FN'') else
     if input = 0 then give (code E ''R4OS_GFX_OUTPUT_ERROR_INVALID'') else
     call_slot E ''R4GfxDriverDisplayApi'' table ''presentation_info'' [input]))"

definition r4driver_display_presentation_stats ::
  "'w platform \<Rightarrow> u64 \<Rightarrow> u64 \<Rightarrow> (i32, 'w) io" where
  "r4driver_display_presentation_stats E table input =
     (ask (r4driver_display_supports_presentation_stats E table) (\<lambda>ok. if \<not> ok then give (code E ''R4OS_ERR_NO_FN'') else
     if input = 0 then give (code E ''R4OS_GFX_OUTPUT_ERROR_INVALID'') else
     call_slot E ''R4GfxDriverDisplayApi'' table ''presentation_stats'' [input]))"

definition r4driver_display_boot_hold ::
  "'w platform \<Rightarrow> u64 \<Rightarrow> u64 \<Rightarrow> u64 \<Rightarrow> (i32, 'w) io" where
  "r4driver_display_boot_hold E table input output =
     (ask (driver_has E ''R4GfxDriverDisplayApi'' table ''boot_hold'') (\<lambda>ok. if \<not> ok then give (code E ''R4OS_ERR_NO_FN'') else
     if input = 0 \<or> output = 0 then give (code E ''R4OS_GFX_OUTPUT_ERROR_INVALID'') else
     call_slot E ''R4GfxDriverDisplayApi'' table ''boot_hold'' [input, output]))"

definition r4driver_display_boot_finish ::
  "'w platform \<Rightarrow> u64 \<Rightarrow> u64 \<Rightarrow> u32 \<Rightarrow> u64 \<Rightarrow> (i32, 'w) io" where
  "r4driver_display_boot_finish E table generation operation output =
     (ask (driver_has E ''R4GfxDriverDisplayApi'' table ''boot_finish'') (\<lambda>ok. if \<not> ok then give (code E ''R4OS_ERR_NO_FN'') else
     if output = 0 then give (code E ''R4OS_GFX_OUTPUT_ERROR_INVALID'') else
     call_slot E ''R4GfxDriverDisplayApi'' table ''boot_finish'' [generation, ucast operation, output]))"

definition r4driver_display_boot_info ::
  "'w platform \<Rightarrow> u64 \<Rightarrow> u64 \<Rightarrow> (i32, 'w) io" where
  "r4driver_display_boot_info E table output =
     (ask (driver_has E ''R4GfxDriverDisplayApi'' table ''boot_info'') (\<lambda>ok. if \<not> ok then give (code E ''R4OS_ERR_NO_FN'') else
     if output = 0 then give (code E ''R4OS_GFX_OUTPUT_ERROR_INVALID'') else
     call_slot E ''R4GfxDriverDisplayApi'' table ''boot_info'' [output]))"

definition r4driver_display_prepare_held ::
  "'w platform \<Rightarrow> u64 \<Rightarrow> u64 \<Rightarrow> u64 \<Rightarrow> u64 \<Rightarrow> (i32, 'w) io" where
  "r4driver_display_prepare_held E table input generation output =
     (ask (driver_has E ''R4GfxDriverDisplayApi'' table ''prepare_held'') (\<lambda>ok. if \<not> ok then give (code E ''R4OS_ERR_NO_FN'') else
     if input = 0 \<or> output = 0 then give (code E ''R4OS_GFX_OUTPUT_ERROR_INVALID'') else
     call_slot E ''R4GfxDriverDisplayApi'' table ''prepare_held'' [input, generation, output]))"

definition r4driver_display_prepare ::
  "'w platform \<Rightarrow> u64 \<Rightarrow> u64 \<Rightarrow> u64 \<Rightarrow> (i32, 'w) io" where
  "r4driver_display_prepare E table input output =
     (ask (driver_has E ''R4GfxDriverDisplayApi'' table ''prepare'') (\<lambda>ok. if \<not> ok then give (code E ''R4OS_ERR_NO_FN'') else
     if input = 0 \<or> output = 0 then give (code E ''R4OS_GFX_OUTPUT_ERROR_INVALID'') else
     call_slot E ''R4GfxDriverDisplayApi'' table ''prepare'' [input, output]))"

definition r4driver_display_transition ::
  "'w platform \<Rightarrow> u64 \<Rightarrow> u64 \<Rightarrow> u32 \<Rightarrow> u64 \<Rightarrow> (i32, 'w) io" where
  "r4driver_display_transition E table generation operation output =
     (ask (driver_has E ''R4GfxDriverDisplayApi'' table ''transition'') (\<lambda>ok. if \<not> ok then give (code E ''R4OS_ERR_NO_FN'') else
     if output = 0 then give (code E ''R4OS_GFX_OUTPUT_ERROR_INVALID'') else
     call_slot E ''R4GfxDriverDisplayApi'' table ''transition'' [generation, ucast operation, output]))"

definition r4driver_display_schedule ::
  "'w platform \<Rightarrow> u64 \<Rightarrow> u64 \<Rightarrow> (i32, 'w) io" where
  "r4driver_display_schedule E table input =
     (ask (driver_has E ''R4GfxDriverDisplayApi'' table ''schedule'') (\<lambda>ok. if \<not> ok then give (code E ''R4OS_ERR_NO_FN'') else
     if input = 0 then give (code E ''R4OS_GFX_QUEUE_ERROR_INVALID'') else
     call_slot E ''R4GfxDriverDisplayApi'' table ''schedule'' [input]))"

subsection \<open>Safety\<close>

text \<open>The slots of one capability precede the slot whose coverage is tested.\<close>

definition graphics_layout :: "'w platform \<Rightarrow> bool" where
  "graphics_layout E \<longleftrightarrow>
     before E ''R4GfxDriverQueueApi'' ''scanout_retire_requested'' [''retain_scanout'', ''begin_scanout'', ''scanout_retire_requested''] \<and>
     before E ''R4GfxDriverOutputApi'' ''power_read'' [''power_publish'', ''power_read''] \<and>
     before E ''R4GfxDriverOutputApi'' ''brightness_read'' [''brightness_publish'', ''brightness_read''] \<and>
     before E ''R4GfxDriverOutputApi'' ''refresh_read'' [''refresh_publish'', ''refresh_read''] \<and>
     before E ''R4GfxDriverOutputApi'' ''mode_read_color'' [''mode_enable'', ''mode_take'', ''mode_complete'', ''mode_read_color''] \<and>
     before E ''R4GfxDriverOutputApi'' ''mode_status'' [''output_pause'', ''mode_restore'', ''mode_status''] \<and>
     before E ''R4GfxDriverOutputApi'' ''audio_query'' [''audio_publish'', ''audio_query''] \<and>
     before E ''R4GfxDriverOutputApi'' ''mode_complete'' [''mode_enable'', ''mode_take'', ''mode_complete''] \<and>
     before E ''R4GfxDriverOutputApi'' ''close_source'' [''register_source'', ''replace_receivers'', ''close_source''] \<and>
     before E ''R4GfxDriverDisplayApi'' ''prepare_reset'' [''device_reset'', ''prepare_reset''] \<and>
     before E ''R4GfxDriverDisplayApi'' ''cursor_complete'' [''cursor_configure'', ''cursor_take'', ''cursor_complete'']"

lemma r4driver_queue_owner_info_safe:
  assumes "driver_ready E ''R4GfxDriverQueueApi'' table V outs" and "room_for E outs output ''R4GfxQueueOwnerInfo''" and "frame_room E outs ''R4GfxQueueOwnerInfo''"
  shows "driver_safe E ''R4GfxDriverQueueApi'' table V outs (r4driver_queue_owner_info E table binding timeline output)"
  unfolding r4driver_queue_owner_info_def by (intro driver_admits) (use assms in \<open>simp_all add: driver_sides\<close>)

lemma r4driver_queue_native_info_safe:
  assumes "driver_ready E ''R4GfxDriverQueueApi'' table V outs" and "room_for E outs output ''R4GfxNativeJobInfo''" and "frame_room E outs ''R4GfxNativeJobInfo''"
  shows "driver_safe E ''R4GfxDriverQueueApi'' table V outs (r4driver_queue_native_info E table fence output)"
  unfolding r4driver_queue_native_info_def by (intro driver_admits) (use assms in \<open>simp_all add: driver_sides\<close>)

lemma r4driver_queue_native_data_safe:
  assumes "driver_ready E ''R4GfxDriverQueueApi'' table V outs"
  shows "driver_safe E ''R4GfxDriverQueueApi'' table V outs (r4driver_queue_native_data E table fence offset output count)"
  unfolding r4driver_queue_native_data_def by (intro driver_admits) (use assms in \<open>simp_all add: driver_sides\<close>)

lemma r4driver_queue_native_binding_safe:
  assumes "driver_ready E ''R4GfxDriverQueueApi'' table V outs" and "room_for E outs output ''R4GfxNativeBinding''" and "frame_room E outs ''R4GfxNativeBinding''"
  shows "driver_safe E ''R4GfxDriverQueueApi'' table V outs (r4driver_queue_native_binding E table fence index output)"
  unfolding r4driver_queue_native_binding_def by (intro driver_admits) (use assms in \<open>simp_all add: driver_sides\<close>)

lemma r4driver_queue_publish_properties_safe:
  assumes "driver_ready E ''R4GfxDriverQueueApi'' table V outs"
  shows "driver_safe E ''R4GfxDriverQueueApi'' table V outs (r4driver_queue_publish_properties E table binding properties)"
  unfolding r4driver_queue_publish_properties_def by (intro driver_admits) (use assms in \<open>simp_all add: driver_sides\<close>)

lemma r4driver_queue_supports_scanout_ask [driver_admits]:
  "graphics_layout E \<Longrightarrow> (\<forall>slot \<in> set [''retain_scanout'', ''begin_scanout'', ''scanout_retire_requested'']. driver_can E ''R4GfxDriverQueueApi'' table V slot \<Longrightarrow> driver_safe E ''R4GfxDriverQueueApi'' table V outs (k True)) \<Longrightarrow>
    driver_safe E ''R4GfxDriverQueueApi'' table V outs (k False) \<Longrightarrow> driver_safe E ''R4GfxDriverQueueApi'' table V outs (ask (r4driver_queue_supports_scanout E table) k)"
  unfolding r4driver_queue_supports_scanout_def by (rule driver_ask) (simp_all add: graphics_layout_def before_def)

lemma r4driver_queue_retain_scanout_safe:
  assumes "driver_ready E ''R4GfxDriverQueueApi'' table V outs" and "graphics_layout E" and "room_for E outs output ''R4GfxBufferReference''"
  shows "driver_safe E ''R4GfxDriverQueueApi'' table V outs (r4driver_queue_retain_scanout E table fence output)"
  unfolding r4driver_queue_retain_scanout_def by (intro driver_admits) (use assms in \<open>simp_all add: driver_sides\<close>)

lemma r4driver_queue_begin_scanout_safe:
  assumes "driver_ready E ''R4GfxDriverQueueApi'' table V outs" and "graphics_layout E"
  shows "driver_safe E ''R4GfxDriverQueueApi'' table V outs (r4driver_queue_begin_scanout E table fence)"
  unfolding r4driver_queue_begin_scanout_def by (intro driver_admits) (use assms in \<open>simp_all add: driver_sides\<close>)

lemma r4driver_queue_scanout_retire_requested_safe:
  assumes "driver_ready E ''R4GfxDriverQueueApi'' table V outs" and "graphics_layout E"
  shows "driver_safe E ''R4GfxDriverQueueApi'' table V outs (r4driver_queue_scanout_retire_requested E table fence)"
  unfolding r4driver_queue_scanout_retire_requested_def by (intro driver_admits) (use assms in \<open>simp_all add: driver_sides\<close>)

lemma r4driver_queue_read_render_list_safe:
  assumes "driver_ready E ''R4GfxDriverQueueApi'' table V outs" and "room_for E outs output ''R4GfxRenderList''"
  shows "driver_safe E ''R4GfxDriverQueueApi'' table V outs (r4driver_queue_read_render_list E table fence output)"
  unfolding r4driver_queue_read_render_list_def by (intro driver_admits) (use assms in \<open>simp_all add: driver_sides\<close>)

lemma r4driver_queue_read_render_grid_list_safe:
  assumes "driver_ready E ''R4GfxDriverQueueApi'' table V outs" and "room_for E outs output ''R4GfxRenderGridList''"
  shows "driver_safe E ''R4GfxDriverQueueApi'' table V outs (r4driver_queue_read_render_grid_list E table fence output)"
  unfolding r4driver_queue_read_render_grid_list_def by (intro driver_admits) (use assms in \<open>simp_all add: driver_sides\<close>)

lemma r4driver_queue_read_render_color_list_safe:
  assumes "driver_ready E ''R4GfxDriverQueueApi'' table V outs" and "room_for E outs output ''R4GfxRenderColorList''"
  shows "driver_safe E ''R4GfxDriverQueueApi'' table V outs (r4driver_queue_read_render_color_list E table fence output)"
  unfolding r4driver_queue_read_render_color_list_def by (intro driver_admits) (use assms in \<open>simp_all add: driver_sides\<close>)

lemma r4driver_queue_update_operations_safe:
  assumes "driver_ready E ''R4GfxDriverQueueApi'' table V outs"
  shows "driver_safe E ''R4GfxDriverQueueApi'' table V outs (r4driver_queue_update_operations E table input operations)"
  unfolding r4driver_queue_update_operations_def by (intro driver_admits) (use assms in \<open>simp_all add: driver_sides\<close>)

lemma r4driver_queue_register_profile_safe:
  assumes "driver_ready E ''R4GfxDriverQueueApi'' table V outs" and "room_for E outs output ''R4GfxBackendBinding''"
  shows "driver_safe E ''R4GfxDriverQueueApi'' table V outs (r4driver_queue_register_profile E table input profile output)"
  unfolding r4driver_queue_register_profile_def by (intro driver_admits) (use assms in \<open>simp_all add: driver_sides\<close>)

lemma r4driver_queue_register_backend_safe:
  assumes "driver_ready E ''R4GfxDriverQueueApi'' table V outs" and "room_for E outs output ''R4GfxBackendBinding''"
  shows "driver_safe E ''R4GfxDriverQueueApi'' table V outs (r4driver_queue_register_backend E table input output)"
  unfolding r4driver_queue_register_backend_def by (intro driver_admits) (use assms in \<open>simp_all add: driver_sides\<close>)

lemma r4driver_queue_unregister_backend_safe:
  assumes "driver_ready E ''R4GfxDriverQueueApi'' table V outs"
  shows "driver_safe E ''R4GfxDriverQueueApi'' table V outs (r4driver_queue_unregister_backend E table input quiesced)"
  unfolding r4driver_queue_unregister_backend_def by (intro driver_admits) (use assms in \<open>simp_all add: driver_sides\<close>)

lemma r4driver_queue_take_safe:
  assumes "driver_ready E ''R4GfxDriverQueueApi'' table V outs" and "room_for E outs output ''R4GfxDriverJob''"
  shows "driver_safe E ''R4GfxDriverQueueApi'' table V outs (r4driver_queue_take E table input output)"
  unfolding r4driver_queue_take_def by (intro driver_admits) (use assms in \<open>simp_all add: driver_sides\<close>)

lemma r4driver_queue_complete_safe:
  assumes "driver_ready E ''R4GfxDriverQueueApi'' table V outs"
  shows "driver_safe E ''R4GfxDriverQueueApi'' table V outs (r4driver_queue_complete E table input result_p quiesced)"
  unfolding r4driver_queue_complete_def by (intro driver_admits) (use assms in \<open>simp_all add: driver_sides\<close>)

lemma r4driver_queue_reset_safe:
  assumes "driver_ready E ''R4GfxDriverQueueApi'' table V outs" and "room_for E outs output ''R4GfxBackendBinding''"
  shows "driver_safe E ''R4GfxDriverQueueApi'' table V outs (r4driver_queue_reset E table input quiesced output)"
  unfolding r4driver_queue_reset_def by (intro driver_admits) (use assms in \<open>simp_all add: driver_sides\<close>)

lemma r4driver_queue_segment_safe:
  assumes "driver_ready E ''R4GfxDriverQueueApi'' table V outs" and "room_for E outs output ''R4GfxDmaSegment''"
  shows "driver_safe E ''R4GfxDriverQueueApi'' table V outs (r4driver_queue_segment E table input which offset mask_v output)"
  unfolding r4driver_queue_segment_def by (intro driver_admits) (use assms in \<open>simp_all add: driver_sides\<close>)

lemma r4driver_queue_retain_resource_safe:
  assumes "driver_ready E ''R4GfxDriverQueueApi'' table V outs" and "room_for E outs output ''R4GfxBufferReference''"
  shows "driver_safe E ''R4GfxDriverQueueApi'' table V outs (r4driver_queue_retain_resource E table input which output)"
  unfolding r4driver_queue_retain_resource_def by (intro driver_admits) (use assms in \<open>simp_all add: driver_sides\<close>)

lemma r4driver_memory_reserved_span_safe:
  assumes "driver_ready E ''R4GfxDriverMemoryApi'' table V outs"
  shows "driver_safe E ''R4GfxDriverMemoryApi'' table V outs (r4driver_memory_reserved_span E table base bytes)"
  unfolding r4driver_memory_reserved_span_def by (intro driver_admits) (use assms in \<open>simp_all add: driver_sides\<close>)

lemma r4driver_memory_unmanaged_span_safe:
  assumes "driver_ready E ''R4GfxDriverMemoryApi'' table V outs"
  shows "driver_safe E ''R4GfxDriverMemoryApi'' table V outs (r4driver_memory_unmanaged_span E table base bytes)"
  unfolding r4driver_memory_unmanaged_span_def by (intro driver_admits) (use assms in \<open>simp_all add: driver_sides\<close>)

lemma r4driver_memory_device_lost_safe:
  assumes "driver_ready E ''R4GfxDriverMemoryApi'' table V outs"
  shows "driver_safe E ''R4GfxDriverMemoryApi'' table V outs (r4driver_memory_device_lost E table adapter generation quiesced)"
  unfolding r4driver_memory_device_lost_def by (intro driver_admits) (use assms in \<open>simp_all add: driver_sides\<close>)

lemma r4driver_telemetry_exchange_safe:
  assumes "driver_ready E ''R4GfxDriverMemoryApi'' table V outs" and "room_for E outs output ''R4GfxTelemetryDemand''" and "frame_room E outs ''R4GfxTelemetryDemand''"
  shows "driver_safe E ''R4GfxDriverMemoryApi'' table V outs (r4driver_telemetry_exchange E table input output)"
  unfolding r4driver_telemetry_exchange_def by (intro driver_admits) (use assms in \<open>simp_all add: driver_sides\<close>)

lemma r4driver_memory_budget_safe:
  assumes "driver_ready E ''R4GfxDriverMemoryApi'' table V outs" and "room_for E outs output ''R4GfxDeviceBudgetState''" and "frame_room E outs ''R4GfxDeviceBudgetState''"
  shows "driver_safe E ''R4GfxDriverMemoryApi'' table V outs (r4driver_memory_budget E table input output)"
  unfolding r4driver_memory_budget_def by (intro driver_admits) (use assms in \<open>simp_all add: driver_sides\<close>)

lemma r4driver_memory_virtual_register_safe:
  assumes "driver_ready E ''R4GfxDriverMemoryApi'' table V outs" and "room_for E outs output ''R4GfxBufferHandle''" and "frame_room E outs ''R4GfxBufferHandle''"
  shows "driver_safe E ''R4GfxDriverMemoryApi'' table V outs (r4driver_memory_virtual_register E table input output)"
  unfolding r4driver_memory_virtual_register_def by (intro driver_admits) (use assms in \<open>simp_all add: driver_sides\<close>)

lemma r4driver_memory_virtual_unregister_safe:
  assumes "driver_ready E ''R4GfxDriverMemoryApi'' table V outs"
  shows "driver_safe E ''R4GfxDriverMemoryApi'' table V outs (r4driver_memory_virtual_unregister E table provider)"
  unfolding r4driver_memory_virtual_unregister_def by (intro driver_admits) (use assms in \<open>simp_all add: driver_sides\<close>)

lemma r4driver_memory_virtual_take_safe:
  assumes "driver_ready E ''R4GfxDriverMemoryApi'' table V outs" and "room_for E outs output ''R4GfxVirtualJob''" and "frame_room E outs ''R4GfxVirtualJob''"
  shows "driver_safe E ''R4GfxDriverMemoryApi'' table V outs (r4driver_memory_virtual_take E table provider output)"
  unfolding r4driver_memory_virtual_take_def by (intro driver_admits) (use assms in \<open>simp_all add: driver_sides\<close>)

lemma r4driver_memory_virtual_complete_safe:
  assumes "driver_ready E ''R4GfxDriverMemoryApi'' table V outs"
  shows "driver_safe E ''R4GfxDriverMemoryApi'' table V outs (r4driver_memory_virtual_complete E table provider completion)"
  unfolding r4driver_memory_virtual_complete_def by (intro driver_admits) (use assms in \<open>simp_all add: driver_sides\<close>)

lemma r4driver_memory_native_register_safe:
  assumes "driver_ready E ''R4GfxDriverMemoryApi'' table V outs" and "room_for E outs output ''R4GfxBufferHandle''" and "frame_room E outs ''R4GfxBufferHandle''"
  shows "driver_safe E ''R4GfxDriverMemoryApi'' table V outs (r4driver_memory_native_register E table input output)"
  unfolding r4driver_memory_native_register_def by (intro driver_admits) (use assms in \<open>simp_all add: driver_sides\<close>)

lemma r4driver_memory_native_unregister_safe:
  assumes "driver_ready E ''R4GfxDriverMemoryApi'' table V outs"
  shows "driver_safe E ''R4GfxDriverMemoryApi'' table V outs (r4driver_memory_native_unregister E table provider)"
  unfolding r4driver_memory_native_unregister_def by (intro driver_admits) (use assms in \<open>simp_all add: driver_sides\<close>)

lemma r4driver_memory_native_take_safe:
  assumes "driver_ready E ''R4GfxDriverMemoryApi'' table V outs" and "room_for E outs output ''R4GfxNativeJob''" and "frame_room E outs ''R4GfxNativeJob''"
  shows "driver_safe E ''R4GfxDriverMemoryApi'' table V outs (r4driver_memory_native_take E table provider output)"
  unfolding r4driver_memory_native_take_def by (intro driver_admits) (use assms in \<open>simp_all add: driver_sides\<close>)

lemma r4driver_memory_native_complete_safe:
  assumes "driver_ready E ''R4GfxDriverMemoryApi'' table V outs"
  shows "driver_safe E ''R4GfxDriverMemoryApi'' table V outs (r4driver_memory_native_complete E table provider request result_p reference)"
  unfolding r4driver_memory_native_complete_def by (intro driver_admits) (use assms in \<open>simp_all add: driver_sides\<close>)

lemma r4driver_memory_buffer_create_safe:
  assumes "driver_ready E ''R4GfxDriverMemoryApi'' table V outs" and "room_for E outs output ''R4GfxBufferReference''"
  shows "driver_safe E ''R4GfxDriverMemoryApi'' table V outs (r4driver_memory_buffer_create E table input output)"
  unfolding r4driver_memory_buffer_create_def by (intro driver_admits) (use assms in \<open>simp_all add: driver_sides\<close>)

lemma r4driver_memory_buffer_describe_safe:
  assumes "driver_ready E ''R4GfxDriverMemoryApi'' table V outs" and "room_for E outs output ''R4GfxBufferDescriptor''"
  shows "driver_safe E ''R4GfxDriverMemoryApi'' table V outs (r4driver_memory_buffer_describe E table input output)"
  unfolding r4driver_memory_buffer_describe_def by (intro driver_admits) (use assms in \<open>simp_all add: driver_sides\<close>)

lemma r4driver_memory_buffer_import_safe:
  assumes "driver_ready E ''R4GfxDriverMemoryApi'' table V outs" and "room_for E outs output ''R4GfxBufferReference''"
  shows "driver_safe E ''R4GfxDriverMemoryApi'' table V outs (r4driver_memory_buffer_import E table input output)"
  unfolding r4driver_memory_buffer_import_def by (intro driver_admits) (use assms in \<open>simp_all add: driver_sides\<close>)

lemma r4driver_memory_buffer_release_safe:
  assumes "driver_ready E ''R4GfxDriverMemoryApi'' table V outs"
  shows "driver_safe E ''R4GfxDriverMemoryApi'' table V outs (r4driver_memory_buffer_release E table input)"
  unfolding r4driver_memory_buffer_release_def by (intro driver_admits) (use assms in \<open>simp_all add: driver_sides\<close>)

lemma r4driver_memory_buffer_map_safe:
  assumes "driver_ready E ''R4GfxDriverMemoryApi'' table V outs" and "room_for E outs output ''R4GfxBufferMap''"
  shows "driver_safe E ''R4GfxDriverMemoryApi'' table V outs (r4driver_memory_buffer_map E table input access offset bytes output)"
  unfolding r4driver_memory_buffer_map_def by (intro driver_admits) (use assms in \<open>simp_all add: driver_sides\<close>)

lemma r4driver_memory_buffer_unmap_safe:
  assumes "driver_ready E ''R4GfxDriverMemoryApi'' table V outs"
  shows "driver_safe E ''R4GfxDriverMemoryApi'' table V outs (r4driver_memory_buffer_unmap E table input)"
  unfolding r4driver_memory_buffer_unmap_def by (intro driver_admits) (use assms in \<open>simp_all add: driver_sides\<close>)

lemma r4driver_memory_device_acquire_safe:
  assumes "driver_ready E ''R4GfxDriverMemoryApi'' table V outs" and "room_for E outs output ''R4GfxDeviceLease''"
  shows "driver_safe E ''R4GfxDriverMemoryApi'' table V outs (r4driver_memory_device_acquire E table reference request output)"
  unfolding r4driver_memory_device_acquire_def by (intro driver_admits) (use assms in \<open>simp_all add: driver_sides\<close>)

lemma r4driver_memory_device_segment_safe:
  assumes "driver_ready E ''R4GfxDriverMemoryApi'' table V outs" and "room_for E outs output ''R4GfxDmaSegment''"
  shows "driver_safe E ''R4GfxDriverMemoryApi'' table V outs (r4driver_memory_device_segment E table lease offset output)"
  unfolding r4driver_memory_device_segment_def by (intro driver_admits) (use assms in \<open>simp_all add: driver_sides\<close>)

lemma r4driver_memory_device_release_safe:
  assumes "driver_ready E ''R4GfxDriverMemoryApi'' table V outs"
  shows "driver_safe E ''R4GfxDriverMemoryApi'' table V outs (r4driver_memory_device_release E table lease quiesced)"
  unfolding r4driver_memory_device_release_def by (intro driver_admits) (use assms in \<open>simp_all add: driver_sides\<close>)

lemma r4driver_memory_mmio_map_safe:
  assumes "driver_ready E ''R4GfxDriverMemoryApi'' table V outs" and "room_for E outs output ''R4GfxMmioWindow''"
  shows "driver_safe E ''R4GfxDriverMemoryApi'' table V outs (r4driver_memory_mmio_map E table request output)"
  unfolding r4driver_memory_mmio_map_def by (intro driver_admits) (use assms in \<open>simp_all add: driver_sides\<close>)

lemma r4driver_memory_mmio_unmap_safe:
  assumes "driver_ready E ''R4GfxDriverMemoryApi'' table V outs"
  shows "driver_safe E ''R4GfxDriverMemoryApi'' table V outs (r4driver_memory_mmio_unmap E table window quiesced)"
  unfolding r4driver_memory_mmio_unmap_def by (intro driver_admits) (use assms in \<open>simp_all add: driver_sides\<close>)

lemma r4driver_memory_collect_safe:
  assumes "driver_ready E ''R4GfxDriverMemoryApi'' table V outs"
  shows "driver_safe E ''R4GfxDriverMemoryApi'' table V outs (r4driver_memory_collect E table)"
  unfolding r4driver_memory_collect_def by (intro driver_admits) (use assms in \<open>simp_all add: driver_sides\<close>)

lemma r4driver_memory_buffer_stats_safe:
  assumes "driver_ready E ''R4GfxDriverMemoryApi'' table V outs" and "room_for E outs output ''R4GfxBufferStats''"
    and "frame_room E outs ''R4GfxBufferStats''"
  shows "driver_safe E ''R4GfxDriverMemoryApi'' table V outs (r4driver_memory_buffer_stats E table output)"
  unfolding r4driver_memory_buffer_stats_def ask_connectives
  by (intro driver_admits driver_ask_member) (use assms in \<open>simp_all add: driver_sides driver_ready_def\<close>)

lemma r4driver_memory_buffer_reserve_safe:
  assumes "driver_ready E ''R4GfxDriverMemoryApi'' table V outs" and "room_for E outs output ''R4GfxOwnedBufferReservation''"
  shows "driver_safe E ''R4GfxDriverMemoryApi'' table V outs (r4driver_memory_buffer_reserve E table input cookie output)"
  unfolding r4driver_memory_buffer_reserve_def by (intro driver_admits) (use assms in \<open>simp_all add: driver_sides\<close>)

lemma r4driver_memory_buffer_commit_safe:
  assumes "driver_ready E ''R4GfxDriverMemoryApi'' table V outs" and "room_for E outs output ''R4GfxBufferReference''"
  shows "driver_safe E ''R4GfxDriverMemoryApi'' table V outs (r4driver_memory_buffer_commit E table input output)"
  unfolding r4driver_memory_buffer_commit_def by (intro driver_admits) (use assms in \<open>simp_all add: driver_sides\<close>)

lemma r4driver_memory_buffer_abort_safe:
  assumes "driver_ready E ''R4GfxDriverMemoryApi'' table V outs"
  shows "driver_safe E ''R4GfxDriverMemoryApi'' table V outs (r4driver_memory_buffer_abort E table input quiesced)"
  unfolding r4driver_memory_buffer_abort_def by (intro driver_admits) (use assms in \<open>simp_all add: driver_sides\<close>)

lemma r4driver_memory_buffer_take_release_safe:
  assumes "driver_ready E ''R4GfxDriverMemoryApi'' table V outs" and "room_for E outs output ''R4GfxOwnedBufferRelease''"
  shows "driver_safe E ''R4GfxDriverMemoryApi'' table V outs (r4driver_memory_buffer_take_release E table adapter generation output)"
  unfolding r4driver_memory_buffer_take_release_def by (intro driver_admits) (use assms in \<open>simp_all add: driver_sides\<close>)

lemma r4driver_memory_buffer_finish_release_safe:
  assumes "driver_ready E ''R4GfxDriverMemoryApi'' table V outs"
  shows "driver_safe E ''R4GfxDriverMemoryApi'' table V outs (r4driver_memory_buffer_finish_release E table input quiesced)"
  unfolding r4driver_memory_buffer_finish_release_def by (intro driver_admits) (use assms in \<open>simp_all add: driver_sides\<close>)

lemma r4driver_output_supports_power_ask [driver_admits]:
  "graphics_layout E \<Longrightarrow> (\<forall>slot \<in> set [''power_publish'', ''power_read'']. driver_can E ''R4GfxDriverOutputApi'' table V slot \<Longrightarrow> driver_safe E ''R4GfxDriverOutputApi'' table V outs (k True)) \<Longrightarrow>
    driver_safe E ''R4GfxDriverOutputApi'' table V outs (k False) \<Longrightarrow> driver_safe E ''R4GfxDriverOutputApi'' table V outs (ask (r4driver_output_supports_power E table) k)"
  unfolding r4driver_output_supports_power_def by (rule driver_ask) (simp_all add: graphics_layout_def before_def)

lemma r4driver_output_publish_power_safe:
  assumes "driver_ready E ''R4GfxDriverOutputApi'' table V outs" and "graphics_layout E"
  shows "driver_safe E ''R4GfxDriverOutputApi'' table V outs (r4driver_output_publish_power E table input)"
  unfolding r4driver_output_publish_power_def by (intro driver_admits) (use assms in \<open>simp_all add: driver_sides\<close>)

lemma r4driver_output_read_power_safe:
  assumes "driver_ready E ''R4GfxDriverOutputApi'' table V outs" and "graphics_layout E" and "room_for E outs output ''R4GfxPowerRequest''" and "frame_room E outs ''R4GfxPowerRequest''"
  shows "driver_safe E ''R4GfxDriverOutputApi'' table V outs (r4driver_output_read_power E table identity output)"
  unfolding r4driver_output_read_power_def by (intro driver_admits) (use assms in \<open>simp_all add: driver_sides\<close>)

lemma r4driver_output_supports_brightness_ask [driver_admits]:
  "graphics_layout E \<Longrightarrow> (\<forall>slot \<in> set [''brightness_publish'', ''brightness_read'']. driver_can E ''R4GfxDriverOutputApi'' table V slot \<Longrightarrow> driver_safe E ''R4GfxDriverOutputApi'' table V outs (k True)) \<Longrightarrow>
    driver_safe E ''R4GfxDriverOutputApi'' table V outs (k False) \<Longrightarrow> driver_safe E ''R4GfxDriverOutputApi'' table V outs (ask (r4driver_output_supports_brightness E table) k)"
  unfolding r4driver_output_supports_brightness_def by (rule driver_ask) (simp_all add: graphics_layout_def before_def)

lemma r4driver_output_publish_brightness_safe:
  assumes "driver_ready E ''R4GfxDriverOutputApi'' table V outs" and "graphics_layout E"
  shows "driver_safe E ''R4GfxDriverOutputApi'' table V outs (r4driver_output_publish_brightness E table input)"
  unfolding r4driver_output_publish_brightness_def by (intro driver_admits) (use assms in \<open>simp_all add: driver_sides\<close>)

lemma r4driver_output_read_brightness_safe:
  assumes "driver_ready E ''R4GfxDriverOutputApi'' table V outs" and "graphics_layout E" and "room_for E outs output ''R4GfxBrightnessRequest''" and "frame_room E outs ''R4GfxBrightnessRequest''"
  shows "driver_safe E ''R4GfxDriverOutputApi'' table V outs (r4driver_output_read_brightness E table identity output)"
  unfolding r4driver_output_read_brightness_def by (intro driver_admits) (use assms in \<open>simp_all add: driver_sides\<close>)

lemma r4driver_output_supports_refresh_ask [driver_admits]:
  "graphics_layout E \<Longrightarrow> (\<forall>slot \<in> set [''refresh_publish'', ''refresh_read'']. driver_can E ''R4GfxDriverOutputApi'' table V slot \<Longrightarrow> driver_safe E ''R4GfxDriverOutputApi'' table V outs (k True)) \<Longrightarrow>
    driver_safe E ''R4GfxDriverOutputApi'' table V outs (k False) \<Longrightarrow> driver_safe E ''R4GfxDriverOutputApi'' table V outs (ask (r4driver_output_supports_refresh E table) k)"
  unfolding r4driver_output_supports_refresh_def by (rule driver_ask) (simp_all add: graphics_layout_def before_def)

lemma r4driver_output_publish_refresh_safe:
  assumes "driver_ready E ''R4GfxDriverOutputApi'' table V outs" and "graphics_layout E"
  shows "driver_safe E ''R4GfxDriverOutputApi'' table V outs (r4driver_output_publish_refresh E table input)"
  unfolding r4driver_output_publish_refresh_def by (intro driver_admits) (use assms in \<open>simp_all add: driver_sides\<close>)

lemma r4driver_output_read_refresh_safe:
  assumes "driver_ready E ''R4GfxDriverOutputApi'' table V outs" and "graphics_layout E" and "room_for E outs output ''R4GfxRefreshRequest''" and "frame_room E outs ''R4GfxRefreshRequest''"
  shows "driver_safe E ''R4GfxDriverOutputApi'' table V outs (r4driver_output_read_refresh E table target output)"
  unfolding r4driver_output_read_refresh_def by (intro driver_admits) (use assms in \<open>simp_all add: driver_sides\<close>)

lemma r4driver_output_supports_mode_color_ask [driver_admits]:
  "graphics_layout E \<Longrightarrow> (\<forall>slot \<in> set [''mode_enable'', ''mode_take'', ''mode_complete'', ''mode_read_color'']. driver_can E ''R4GfxDriverOutputApi'' table V slot \<Longrightarrow> driver_safe E ''R4GfxDriverOutputApi'' table V outs (k True)) \<Longrightarrow>
    driver_safe E ''R4GfxDriverOutputApi'' table V outs (k False) \<Longrightarrow> driver_safe E ''R4GfxDriverOutputApi'' table V outs (ask (r4driver_output_supports_mode_color E table) k)"
  unfolding r4driver_output_supports_mode_color_def by (rule driver_ask) (simp_all add: graphics_layout_def before_def)

lemma r4driver_output_read_mode_color_safe:
  assumes "driver_ready E ''R4GfxDriverOutputApi'' table V outs" and "graphics_layout E"
  shows "driver_safe E ''R4GfxDriverOutputApi'' table V outs (r4driver_output_read_mode_color E table ticket sequence output)"
  unfolding r4driver_output_read_mode_color_def by (intro driver_admits) (use assms in \<open>simp_all add: driver_sides\<close>)

lemma r4driver_output_supports_color_ask [driver_admits]:
  "(\<forall>slot \<in> set [''color_publish'']. driver_can E ''R4GfxDriverOutputApi'' table V slot \<Longrightarrow> driver_safe E ''R4GfxDriverOutputApi'' table V outs (k True)) \<Longrightarrow>
    driver_safe E ''R4GfxDriverOutputApi'' table V outs (k False) \<Longrightarrow> driver_safe E ''R4GfxDriverOutputApi'' table V outs (ask (r4driver_output_supports_color E table) k)"
  unfolding r4driver_output_supports_color_def by (rule driver_ask) (simp_all add: before_def)

lemma r4driver_output_publish_color_safe:
  assumes "driver_ready E ''R4GfxDriverOutputApi'' table V outs" and "graphics_layout E"
  shows "driver_safe E ''R4GfxDriverOutputApi'' table V outs (r4driver_output_publish_color E table input)"
  unfolding r4driver_output_publish_color_def by (intro driver_admits) (use assms in \<open>simp_all add: driver_sides\<close>)

lemma r4driver_output_supports_hotplug_ask [driver_admits]:
  "graphics_layout E \<Longrightarrow> (\<forall>slot \<in> set [''output_pause'', ''mode_restore'', ''mode_status'']. driver_can E ''R4GfxDriverOutputApi'' table V slot \<Longrightarrow> driver_safe E ''R4GfxDriverOutputApi'' table V outs (k True)) \<Longrightarrow>
    driver_safe E ''R4GfxDriverOutputApi'' table V outs (k False) \<Longrightarrow> driver_safe E ''R4GfxDriverOutputApi'' table V outs (ask (r4driver_output_supports_hotplug E table) k)"
  unfolding r4driver_output_supports_hotplug_def by (rule driver_ask) (simp_all add: graphics_layout_def before_def)

lemma r4driver_output_pause_safe:
  assumes "driver_ready E ''R4GfxDriverOutputApi'' table V outs" and "graphics_layout E"
  shows "driver_safe E ''R4GfxDriverOutputApi'' table V outs (r4driver_output_pause E table output paused)"
  unfolding r4driver_output_pause_def by (intro driver_admits) (use assms in \<open>simp_all add: driver_sides\<close>)

lemma r4driver_output_restore_mode_safe:
  assumes "driver_ready E ''R4GfxDriverOutputApi'' table V outs" and "graphics_layout E"
  shows "driver_safe E ''R4GfxDriverOutputApi'' table V outs (r4driver_output_restore_mode E table input output)"
  unfolding r4driver_output_restore_mode_def by (intro driver_admits) (use assms in \<open>simp_all add: driver_sides\<close>)

lemma r4driver_output_mode_status_safe:
  assumes "driver_ready E ''R4GfxDriverOutputApi'' table V outs" and "graphics_layout E"
  shows "driver_safe E ''R4GfxDriverOutputApi'' table V outs (r4driver_output_mode_status E table ticket output)"
  unfolding r4driver_output_mode_status_def by (intro driver_admits) (use assms in \<open>simp_all add: driver_sides\<close>)

lemma r4driver_output_supports_audio_ask [driver_admits]:
  "graphics_layout E \<Longrightarrow> (\<forall>slot \<in> set [''audio_publish'', ''audio_query'']. driver_can E ''R4GfxDriverOutputApi'' table V slot \<Longrightarrow> driver_safe E ''R4GfxDriverOutputApi'' table V outs (k True)) \<Longrightarrow>
    driver_safe E ''R4GfxDriverOutputApi'' table V outs (k False) \<Longrightarrow> driver_safe E ''R4GfxDriverOutputApi'' table V outs (ask (r4driver_output_supports_audio E table) k)"
  unfolding r4driver_output_supports_audio_def by (rule driver_ask) (simp_all add: graphics_layout_def before_def)

lemma r4driver_output_publish_audio_safe:
  assumes "driver_ready E ''R4GfxDriverOutputApi'' table V outs" and "graphics_layout E"
  shows "driver_safe E ''R4GfxDriverOutputApi'' table V outs (r4driver_output_publish_audio E table input)"
  unfolding r4driver_output_publish_audio_def by (intro driver_admits) (use assms in \<open>simp_all add: driver_sides\<close>)

lemma r4driver_output_query_audio_safe:
  assumes "driver_ready E ''R4GfxDriverOutputApi'' table V outs" and "graphics_layout E"
  shows "driver_safe E ''R4GfxDriverOutputApi'' table V outs (r4driver_output_query_audio E table location device index output)"
  unfolding r4driver_output_query_audio_def by (intro driver_admits) (use assms in \<open>simp_all add: driver_sides\<close>)

lemma r4driver_output_supports_modes_ask [driver_admits]:
  "graphics_layout E \<Longrightarrow> (\<forall>slot \<in> set [''mode_enable'', ''mode_take'', ''mode_complete'']. driver_can E ''R4GfxDriverOutputApi'' table V slot \<Longrightarrow> driver_safe E ''R4GfxDriverOutputApi'' table V outs (k True)) \<Longrightarrow>
    driver_safe E ''R4GfxDriverOutputApi'' table V outs (k False) \<Longrightarrow> driver_safe E ''R4GfxDriverOutputApi'' table V outs (ask (r4driver_output_supports_modes E table) k)"
  unfolding r4driver_output_supports_modes_def by (rule driver_ask) (simp_all add: graphics_layout_def before_def)

lemma r4driver_output_enable_modes_safe:
  assumes "driver_ready E ''R4GfxDriverOutputApi'' table V outs" and "graphics_layout E"
  shows "driver_safe E ''R4GfxDriverOutputApi'' table V outs (r4driver_output_enable_modes E table backend)"
  unfolding r4driver_output_enable_modes_def by (intro driver_admits) (use assms in \<open>simp_all add: driver_sides\<close>)

lemma r4driver_output_take_mode_safe:
  assumes "driver_ready E ''R4GfxDriverOutputApi'' table V outs" and "graphics_layout E"
  shows "driver_safe E ''R4GfxDriverOutputApi'' table V outs (r4driver_output_take_mode E table backend output)"
  unfolding r4driver_output_take_mode_def by (intro driver_admits) (use assms in \<open>simp_all add: driver_sides\<close>)

lemma r4driver_output_complete_mode_safe:
  assumes "driver_ready E ''R4GfxDriverOutputApi'' table V outs" and "graphics_layout E"
  shows "driver_safe E ''R4GfxDriverOutputApi'' table V outs (r4driver_output_complete_mode E table input)"
  unfolding r4driver_output_complete_mode_def by (intro driver_admits) (use assms in \<open>simp_all add: driver_sides\<close>)

lemma r4driver_output_supports_receivers_ask [driver_admits]:
  "graphics_layout E \<Longrightarrow> (\<forall>slot \<in> set [''register_source'', ''replace_receivers'', ''close_source'']. driver_can E ''R4GfxDriverOutputApi'' table V slot \<Longrightarrow> driver_safe E ''R4GfxDriverOutputApi'' table V outs (k True)) \<Longrightarrow>
    driver_safe E ''R4GfxDriverOutputApi'' table V outs (k False) \<Longrightarrow> driver_safe E ''R4GfxDriverOutputApi'' table V outs (ask (r4driver_output_supports_receivers E table) k)"
  unfolding r4driver_output_supports_receivers_def by (rule driver_ask) (simp_all add: graphics_layout_def before_def)

lemma r4driver_output_register_source_safe:
  assumes "driver_ready E ''R4GfxDriverOutputApi'' table V outs" and "graphics_layout E"
  shows "driver_safe E ''R4GfxDriverOutputApi'' table V outs (r4driver_output_register_source E table adapter output)"
  unfolding r4driver_output_register_source_def by (intro driver_admits) (use assms in \<open>simp_all add: driver_sides\<close>)

lemma r4driver_output_replace_receivers_safe:
  assumes "driver_ready E ''R4GfxDriverOutputApi'' table V outs" and "graphics_layout E"
  shows "driver_safe E ''R4GfxDriverOutputApi'' table V outs (r4driver_output_replace_receivers E table input)"
  unfolding r4driver_output_replace_receivers_def by (intro driver_admits) (use assms in \<open>simp_all add: driver_sides\<close>)

lemma r4driver_output_close_source_safe:
  assumes "driver_ready E ''R4GfxDriverOutputApi'' table V outs" and "graphics_layout E"
  shows "driver_safe E ''R4GfxDriverOutputApi'' table V outs (r4driver_output_close_source E table input)"
  unfolding r4driver_output_close_source_def by (intro driver_admits) (use assms in \<open>simp_all add: driver_sides\<close>)

lemma r4driver_output_publish_safe:
  assumes "driver_ready E ''R4GfxDriverOutputApi'' table V outs"
  shows "driver_safe E ''R4GfxDriverOutputApi'' table V outs (r4driver_output_publish E table input output)"
  unfolding r4driver_output_publish_def by (intro driver_admits) (use assms in \<open>simp_all add: driver_sides\<close>)

lemma r4driver_output_withdraw_safe:
  assumes "driver_ready E ''R4GfxDriverOutputApi'' table V outs"
  shows "driver_safe E ''R4GfxDriverOutputApi'' table V outs (r4driver_output_withdraw E table input)"
  unfolding r4driver_output_withdraw_def by (intro driver_admits) (use assms in \<open>simp_all add: driver_sides\<close>)

lemma r4driver_display_supports_headless_resume_ask [driver_admits]:
  "(\<forall>slot \<in> set [''resume_headless'']. driver_can E ''R4GfxDriverDisplayApi'' table V slot \<Longrightarrow> driver_safe E ''R4GfxDriverDisplayApi'' table V outs (k True)) \<Longrightarrow>
    driver_safe E ''R4GfxDriverDisplayApi'' table V outs (k False) \<Longrightarrow> driver_safe E ''R4GfxDriverDisplayApi'' table V outs (ask (r4driver_display_supports_headless_resume E table) k)"
  unfolding r4driver_display_supports_headless_resume_def by (rule driver_ask) (simp_all add: before_def)

lemma r4driver_display_resume_headless_safe:
  assumes "driver_ready E ''R4GfxDriverDisplayApi'' table V outs" and "graphics_layout E" and "room_for E outs output ''R4GfxNativeState''"
  shows "driver_safe E ''R4GfxDriverDisplayApi'' table V outs (r4driver_display_resume_headless E table backend generation output)"
  unfolding r4driver_display_resume_headless_def by (intro driver_admits) (use assms in \<open>simp_all add: driver_sides\<close>)

lemma r4driver_display_supports_reset_ask [driver_admits]:
  "graphics_layout E \<Longrightarrow> (\<forall>slot \<in> set [''device_reset'', ''prepare_reset'']. driver_can E ''R4GfxDriverDisplayApi'' table V slot \<Longrightarrow> driver_safe E ''R4GfxDriverDisplayApi'' table V outs (k True)) \<Longrightarrow>
    driver_safe E ''R4GfxDriverDisplayApi'' table V outs (k False) \<Longrightarrow> driver_safe E ''R4GfxDriverDisplayApi'' table V outs (ask (r4driver_display_supports_reset E table) k)"
  unfolding r4driver_display_supports_reset_def by (rule driver_ask) (simp_all add: graphics_layout_def before_def)

lemma r4driver_display_device_reset_safe:
  assumes "driver_ready E ''R4GfxDriverDisplayApi'' table V outs" and "graphics_layout E" and "room_for E outs output ''R4GfxNativeState''"
  shows "driver_safe E ''R4GfxDriverDisplayApi'' table V outs (r4driver_display_device_reset E table backend generation quiesced output)"
  unfolding r4driver_display_device_reset_def by (intro driver_admits) (use assms in \<open>simp_all add: driver_sides\<close>)

lemma r4driver_display_prepare_reset_safe:
  assumes "driver_ready E ''R4GfxDriverDisplayApi'' table V outs" and "graphics_layout E" and "room_for E outs output ''R4GfxNativeState''"
  shows "driver_safe E ''R4GfxDriverDisplayApi'' table V outs (r4driver_display_prepare_reset E table input held_generation reset_generation output)"
  unfolding r4driver_display_prepare_reset_def by (intro driver_admits) (use assms in \<open>simp_all add: driver_sides\<close>)

lemma r4driver_display_supports_cursor_ask [driver_admits]:
  "graphics_layout E \<Longrightarrow> (\<forall>slot \<in> set [''cursor_configure'', ''cursor_take'', ''cursor_complete'']. driver_can E ''R4GfxDriverDisplayApi'' table V slot \<Longrightarrow> driver_safe E ''R4GfxDriverDisplayApi'' table V outs (k True)) \<Longrightarrow>
    driver_safe E ''R4GfxDriverDisplayApi'' table V outs (k False) \<Longrightarrow> driver_safe E ''R4GfxDriverDisplayApi'' table V outs (ask (r4driver_display_supports_cursor E table) k)"
  unfolding r4driver_display_supports_cursor_def by (rule driver_ask) (simp_all add: graphics_layout_def before_def)

lemma r4driver_display_cursor_configure_safe:
  assumes "driver_ready E ''R4GfxDriverDisplayApi'' table V outs" and "graphics_layout E"
  shows "driver_safe E ''R4GfxDriverDisplayApi'' table V outs (r4driver_display_cursor_configure E table input)"
  unfolding r4driver_display_cursor_configure_def by (intro driver_admits) (use assms in \<open>simp_all add: driver_sides\<close>)

lemma r4driver_display_cursor_take_safe:
  assumes "driver_ready E ''R4GfxDriverDisplayApi'' table V outs" and "graphics_layout E" and "room_for E outs output ''R4GfxDriverCursorJob''"
  shows "driver_safe E ''R4GfxDriverDisplayApi'' table V outs (r4driver_display_cursor_take E table backend output)"
  unfolding r4driver_display_cursor_take_def by (intro driver_admits) (use assms in \<open>simp_all add: driver_sides\<close>)

lemma r4driver_display_cursor_complete_safe:
  assumes "driver_ready E ''R4GfxDriverDisplayApi'' table V outs" and "graphics_layout E"
  shows "driver_safe E ''R4GfxDriverDisplayApi'' table V outs (r4driver_display_cursor_complete E table input)"
  unfolding r4driver_display_cursor_complete_def by (intro driver_admits) (use assms in \<open>simp_all add: driver_sides\<close>)

lemma r4driver_display_supports_presentation_stats_ask [driver_admits]:
  "(\<forall>slot \<in> set [''presentation_stats'']. driver_can E ''R4GfxDriverDisplayApi'' table V slot \<Longrightarrow> driver_safe E ''R4GfxDriverDisplayApi'' table V outs (k True)) \<Longrightarrow>
    driver_safe E ''R4GfxDriverDisplayApi'' table V outs (k False) \<Longrightarrow> driver_safe E ''R4GfxDriverDisplayApi'' table V outs (ask (r4driver_display_supports_presentation_stats E table) k)"
  unfolding r4driver_display_supports_presentation_stats_def by (rule driver_ask) (simp_all add: before_def)

lemma r4driver_display_supports_presentation_info_ask [driver_admits]:
  "(\<forall>slot \<in> set [''presentation_info'']. driver_can E ''R4GfxDriverDisplayApi'' table V slot \<Longrightarrow> driver_safe E ''R4GfxDriverDisplayApi'' table V outs (k True)) \<Longrightarrow>
    driver_safe E ''R4GfxDriverDisplayApi'' table V outs (k False) \<Longrightarrow> driver_safe E ''R4GfxDriverDisplayApi'' table V outs (ask (r4driver_display_supports_presentation_info E table) k)"
  unfolding r4driver_display_supports_presentation_info_def by (rule driver_ask) (simp_all add: before_def)

lemma r4driver_display_presentation_info_safe:
  assumes "driver_ready E ''R4GfxDriverDisplayApi'' table V outs" and "graphics_layout E"
  shows "driver_safe E ''R4GfxDriverDisplayApi'' table V outs (r4driver_display_presentation_info E table input)"
  unfolding r4driver_display_presentation_info_def by (intro driver_admits) (use assms in \<open>simp_all add: driver_sides\<close>)

lemma r4driver_display_presentation_stats_safe:
  assumes "driver_ready E ''R4GfxDriverDisplayApi'' table V outs" and "graphics_layout E"
  shows "driver_safe E ''R4GfxDriverDisplayApi'' table V outs (r4driver_display_presentation_stats E table input)"
  unfolding r4driver_display_presentation_stats_def by (intro driver_admits) (use assms in \<open>simp_all add: driver_sides\<close>)

lemma r4driver_display_boot_hold_safe:
  assumes "driver_ready E ''R4GfxDriverDisplayApi'' table V outs"
  shows "driver_safe E ''R4GfxDriverDisplayApi'' table V outs (r4driver_display_boot_hold E table input output)"
  unfolding r4driver_display_boot_hold_def by (intro driver_admits) (use assms in \<open>simp_all add: driver_sides\<close>)

lemma r4driver_display_boot_finish_safe:
  assumes "driver_ready E ''R4GfxDriverDisplayApi'' table V outs"
  shows "driver_safe E ''R4GfxDriverDisplayApi'' table V outs (r4driver_display_boot_finish E table generation operation output)"
  unfolding r4driver_display_boot_finish_def by (intro driver_admits) (use assms in \<open>simp_all add: driver_sides\<close>)

lemma r4driver_display_boot_info_safe:
  assumes "driver_ready E ''R4GfxDriverDisplayApi'' table V outs"
  shows "driver_safe E ''R4GfxDriverDisplayApi'' table V outs (r4driver_display_boot_info E table output)"
  unfolding r4driver_display_boot_info_def by (intro driver_admits) (use assms in \<open>simp_all add: driver_sides\<close>)

lemma r4driver_display_prepare_held_safe:
  assumes "driver_ready E ''R4GfxDriverDisplayApi'' table V outs"
  shows "driver_safe E ''R4GfxDriverDisplayApi'' table V outs (r4driver_display_prepare_held E table input generation output)"
  unfolding r4driver_display_prepare_held_def by (intro driver_admits) (use assms in \<open>simp_all add: driver_sides\<close>)

lemma r4driver_display_prepare_safe:
  assumes "driver_ready E ''R4GfxDriverDisplayApi'' table V outs"
  shows "driver_safe E ''R4GfxDriverDisplayApi'' table V outs (r4driver_display_prepare E table input output)"
  unfolding r4driver_display_prepare_def by (intro driver_admits) (use assms in \<open>simp_all add: driver_sides\<close>)

lemma r4driver_display_transition_safe:
  assumes "driver_ready E ''R4GfxDriverDisplayApi'' table V outs"
  shows "driver_safe E ''R4GfxDriverDisplayApi'' table V outs (r4driver_display_transition E table generation operation output)"
  unfolding r4driver_display_transition_def by (intro driver_admits) (use assms in \<open>simp_all add: driver_sides\<close>)

lemma r4driver_display_schedule_safe:
  assumes "driver_ready E ''R4GfxDriverDisplayApi'' table V outs"
  shows "driver_safe E ''R4GfxDriverDisplayApi'' table V outs (r4driver_display_schedule E table input)"
  unfolding r4driver_display_schedule_def by (intro driver_admits) (use assms in \<open>simp_all add: driver_sides\<close>)

text \<open>
  C26: On every resident graphics memory or queue table, of whatever version and announced size,
  the driver wrappers never get stuck, write only to the caller's objects and their own
  local object, and call only functions that a table of version 1 holds in a nonnull slot
  inside its announced size.\<close>

theorem driver_memory_queue_safe:
  assumes "\<forall>T \<in> set [''R4GfxDriverQueueApi'', ''R4GfxDriverMemoryApi'']. driver_ready E T table V outs" and "graphics_layout E"
  shows "(\<forall>output. room_for E outs output ''R4GfxBufferStats'' \<longrightarrow> frame_room E outs ''R4GfxBufferStats'' \<longrightarrow> driver_safe E ''R4GfxDriverMemoryApi'' table V outs (r4driver_memory_buffer_stats E table output)) \<and>
    (\<forall>binding timeline output. room_for E outs output ''R4GfxQueueOwnerInfo'' \<longrightarrow> frame_room E outs ''R4GfxQueueOwnerInfo'' \<longrightarrow> driver_safe E ''R4GfxDriverQueueApi'' table V outs (r4driver_queue_owner_info E table binding timeline output)) \<and>
    (\<forall>fence output. room_for E outs output ''R4GfxNativeJobInfo'' \<longrightarrow> frame_room E outs ''R4GfxNativeJobInfo'' \<longrightarrow> driver_safe E ''R4GfxDriverQueueApi'' table V outs (r4driver_queue_native_info E table fence output)) \<and>
    (\<forall>fence offset output count. driver_safe E ''R4GfxDriverQueueApi'' table V outs (r4driver_queue_native_data E table fence offset output count)) \<and>
    (\<forall>fence index output. room_for E outs output ''R4GfxNativeBinding'' \<longrightarrow> frame_room E outs ''R4GfxNativeBinding'' \<longrightarrow> driver_safe E ''R4GfxDriverQueueApi'' table V outs (r4driver_queue_native_binding E table fence index output)) \<and>
    (\<forall>binding properties. driver_safe E ''R4GfxDriverQueueApi'' table V outs (r4driver_queue_publish_properties E table binding properties)) \<and>
    (\<forall>fence output. room_for E outs output ''R4GfxBufferReference'' \<longrightarrow> driver_safe E ''R4GfxDriverQueueApi'' table V outs (r4driver_queue_retain_scanout E table fence output)) \<and>
    (\<forall>fence. driver_safe E ''R4GfxDriverQueueApi'' table V outs (r4driver_queue_begin_scanout E table fence)) \<and>
    (\<forall>fence. driver_safe E ''R4GfxDriverQueueApi'' table V outs (r4driver_queue_scanout_retire_requested E table fence)) \<and>
    (\<forall>fence output. room_for E outs output ''R4GfxRenderList'' \<longrightarrow> driver_safe E ''R4GfxDriverQueueApi'' table V outs (r4driver_queue_read_render_list E table fence output)) \<and>
    (\<forall>fence output. room_for E outs output ''R4GfxRenderGridList'' \<longrightarrow> driver_safe E ''R4GfxDriverQueueApi'' table V outs (r4driver_queue_read_render_grid_list E table fence output)) \<and>
    (\<forall>fence output. room_for E outs output ''R4GfxRenderColorList'' \<longrightarrow> driver_safe E ''R4GfxDriverQueueApi'' table V outs (r4driver_queue_read_render_color_list E table fence output)) \<and>
    (\<forall>input operations. driver_safe E ''R4GfxDriverQueueApi'' table V outs (r4driver_queue_update_operations E table input operations)) \<and>
    (\<forall>input profile output. room_for E outs output ''R4GfxBackendBinding'' \<longrightarrow> driver_safe E ''R4GfxDriverQueueApi'' table V outs (r4driver_queue_register_profile E table input profile output)) \<and>
    (\<forall>input output. room_for E outs output ''R4GfxBackendBinding'' \<longrightarrow> driver_safe E ''R4GfxDriverQueueApi'' table V outs (r4driver_queue_register_backend E table input output)) \<and>
    (\<forall>input quiesced. driver_safe E ''R4GfxDriverQueueApi'' table V outs (r4driver_queue_unregister_backend E table input quiesced)) \<and>
    (\<forall>input output. room_for E outs output ''R4GfxDriverJob'' \<longrightarrow> driver_safe E ''R4GfxDriverQueueApi'' table V outs (r4driver_queue_take E table input output)) \<and>
    (\<forall>input result_p quiesced. driver_safe E ''R4GfxDriverQueueApi'' table V outs (r4driver_queue_complete E table input result_p quiesced)) \<and>
    (\<forall>input quiesced output. room_for E outs output ''R4GfxBackendBinding'' \<longrightarrow> driver_safe E ''R4GfxDriverQueueApi'' table V outs (r4driver_queue_reset E table input quiesced output)) \<and>
    (\<forall>input which offset mask_v output. room_for E outs output ''R4GfxDmaSegment'' \<longrightarrow> driver_safe E ''R4GfxDriverQueueApi'' table V outs (r4driver_queue_segment E table input which offset mask_v output)) \<and>
    (\<forall>input which output. room_for E outs output ''R4GfxBufferReference'' \<longrightarrow> driver_safe E ''R4GfxDriverQueueApi'' table V outs (r4driver_queue_retain_resource E table input which output)) \<and>
    (\<forall>base bytes. driver_safe E ''R4GfxDriverMemoryApi'' table V outs (r4driver_memory_reserved_span E table base bytes)) \<and>
    (\<forall>base bytes. driver_safe E ''R4GfxDriverMemoryApi'' table V outs (r4driver_memory_unmanaged_span E table base bytes)) \<and>
    (\<forall>adapter generation quiesced. driver_safe E ''R4GfxDriverMemoryApi'' table V outs (r4driver_memory_device_lost E table adapter generation quiesced)) \<and>
    (\<forall>input output. room_for E outs output ''R4GfxTelemetryDemand'' \<longrightarrow> frame_room E outs ''R4GfxTelemetryDemand'' \<longrightarrow> driver_safe E ''R4GfxDriverMemoryApi'' table V outs (r4driver_telemetry_exchange E table input output)) \<and>
    (\<forall>input output. room_for E outs output ''R4GfxDeviceBudgetState'' \<longrightarrow> frame_room E outs ''R4GfxDeviceBudgetState'' \<longrightarrow> driver_safe E ''R4GfxDriverMemoryApi'' table V outs (r4driver_memory_budget E table input output)) \<and>
    (\<forall>input output. room_for E outs output ''R4GfxBufferHandle'' \<longrightarrow> frame_room E outs ''R4GfxBufferHandle'' \<longrightarrow> driver_safe E ''R4GfxDriverMemoryApi'' table V outs (r4driver_memory_virtual_register E table input output)) \<and>
    (\<forall>provider. driver_safe E ''R4GfxDriverMemoryApi'' table V outs (r4driver_memory_virtual_unregister E table provider)) \<and>
    (\<forall>provider output. room_for E outs output ''R4GfxVirtualJob'' \<longrightarrow> frame_room E outs ''R4GfxVirtualJob'' \<longrightarrow> driver_safe E ''R4GfxDriverMemoryApi'' table V outs (r4driver_memory_virtual_take E table provider output)) \<and>
    (\<forall>provider completion. driver_safe E ''R4GfxDriverMemoryApi'' table V outs (r4driver_memory_virtual_complete E table provider completion)) \<and>
    (\<forall>input output. room_for E outs output ''R4GfxBufferHandle'' \<longrightarrow> frame_room E outs ''R4GfxBufferHandle'' \<longrightarrow> driver_safe E ''R4GfxDriverMemoryApi'' table V outs (r4driver_memory_native_register E table input output)) \<and>
    (\<forall>provider. driver_safe E ''R4GfxDriverMemoryApi'' table V outs (r4driver_memory_native_unregister E table provider)) \<and>
    (\<forall>provider output. room_for E outs output ''R4GfxNativeJob'' \<longrightarrow> frame_room E outs ''R4GfxNativeJob'' \<longrightarrow> driver_safe E ''R4GfxDriverMemoryApi'' table V outs (r4driver_memory_native_take E table provider output)) \<and>
    (\<forall>provider request result_p reference. driver_safe E ''R4GfxDriverMemoryApi'' table V outs (r4driver_memory_native_complete E table provider request result_p reference)) \<and>
    (\<forall>input output. room_for E outs output ''R4GfxBufferReference'' \<longrightarrow> driver_safe E ''R4GfxDriverMemoryApi'' table V outs (r4driver_memory_buffer_create E table input output)) \<and>
    (\<forall>input output. room_for E outs output ''R4GfxBufferDescriptor'' \<longrightarrow> driver_safe E ''R4GfxDriverMemoryApi'' table V outs (r4driver_memory_buffer_describe E table input output)) \<and>
    (\<forall>input output. room_for E outs output ''R4GfxBufferReference'' \<longrightarrow> driver_safe E ''R4GfxDriverMemoryApi'' table V outs (r4driver_memory_buffer_import E table input output)) \<and>
    (\<forall>input. driver_safe E ''R4GfxDriverMemoryApi'' table V outs (r4driver_memory_buffer_release E table input)) \<and>
    (\<forall>input access offset bytes output. room_for E outs output ''R4GfxBufferMap'' \<longrightarrow> driver_safe E ''R4GfxDriverMemoryApi'' table V outs (r4driver_memory_buffer_map E table input access offset bytes output)) \<and>
    (\<forall>input. driver_safe E ''R4GfxDriverMemoryApi'' table V outs (r4driver_memory_buffer_unmap E table input)) \<and>
    (\<forall>reference request output. room_for E outs output ''R4GfxDeviceLease'' \<longrightarrow> driver_safe E ''R4GfxDriverMemoryApi'' table V outs (r4driver_memory_device_acquire E table reference request output)) \<and>
    (\<forall>lease offset output. room_for E outs output ''R4GfxDmaSegment'' \<longrightarrow> driver_safe E ''R4GfxDriverMemoryApi'' table V outs (r4driver_memory_device_segment E table lease offset output)) \<and>
    (\<forall>lease quiesced. driver_safe E ''R4GfxDriverMemoryApi'' table V outs (r4driver_memory_device_release E table lease quiesced)) \<and>
    (\<forall>request output. room_for E outs output ''R4GfxMmioWindow'' \<longrightarrow> driver_safe E ''R4GfxDriverMemoryApi'' table V outs (r4driver_memory_mmio_map E table request output)) \<and>
    (\<forall>window quiesced. driver_safe E ''R4GfxDriverMemoryApi'' table V outs (r4driver_memory_mmio_unmap E table window quiesced)) \<and>
    (driver_safe E ''R4GfxDriverMemoryApi'' table V outs (r4driver_memory_collect E table)) \<and>
    (\<forall>input cookie output. room_for E outs output ''R4GfxOwnedBufferReservation'' \<longrightarrow> driver_safe E ''R4GfxDriverMemoryApi'' table V outs (r4driver_memory_buffer_reserve E table input cookie output)) \<and>
    (\<forall>input output. room_for E outs output ''R4GfxBufferReference'' \<longrightarrow> driver_safe E ''R4GfxDriverMemoryApi'' table V outs (r4driver_memory_buffer_commit E table input output)) \<and>
    (\<forall>input quiesced. driver_safe E ''R4GfxDriverMemoryApi'' table V outs (r4driver_memory_buffer_abort E table input quiesced)) \<and>
    (\<forall>adapter generation output. room_for E outs output ''R4GfxOwnedBufferRelease'' \<longrightarrow> driver_safe E ''R4GfxDriverMemoryApi'' table V outs (r4driver_memory_buffer_take_release E table adapter generation output)) \<and>
    (\<forall>input quiesced. driver_safe E ''R4GfxDriverMemoryApi'' table V outs (r4driver_memory_buffer_finish_release E table input quiesced))"
  by (intro conjI allI impI; rule r4driver_memory_buffer_stats_safe r4driver_queue_owner_info_safe r4driver_queue_native_info_safe r4driver_queue_native_data_safe r4driver_queue_native_binding_safe r4driver_queue_publish_properties_safe r4driver_queue_retain_scanout_safe r4driver_queue_begin_scanout_safe r4driver_queue_scanout_retire_requested_safe r4driver_queue_read_render_list_safe r4driver_queue_read_render_grid_list_safe r4driver_queue_read_render_color_list_safe r4driver_queue_update_operations_safe r4driver_queue_register_profile_safe r4driver_queue_register_backend_safe r4driver_queue_unregister_backend_safe r4driver_queue_take_safe r4driver_queue_complete_safe r4driver_queue_reset_safe r4driver_queue_segment_safe r4driver_queue_retain_resource_safe r4driver_memory_reserved_span_safe r4driver_memory_unmanaged_span_safe r4driver_memory_device_lost_safe r4driver_telemetry_exchange_safe r4driver_memory_budget_safe r4driver_memory_virtual_register_safe r4driver_memory_virtual_unregister_safe r4driver_memory_virtual_take_safe r4driver_memory_virtual_complete_safe r4driver_memory_native_register_safe r4driver_memory_native_unregister_safe r4driver_memory_native_take_safe r4driver_memory_native_complete_safe r4driver_memory_buffer_create_safe r4driver_memory_buffer_describe_safe r4driver_memory_buffer_import_safe r4driver_memory_buffer_release_safe r4driver_memory_buffer_map_safe r4driver_memory_buffer_unmap_safe r4driver_memory_device_acquire_safe r4driver_memory_device_segment_safe r4driver_memory_device_release_safe r4driver_memory_mmio_map_safe r4driver_memory_mmio_unmap_safe r4driver_memory_collect_safe r4driver_memory_buffer_reserve_safe r4driver_memory_buffer_commit_safe r4driver_memory_buffer_abort_safe r4driver_memory_buffer_take_release_safe r4driver_memory_buffer_finish_release_safe; (rule assms(1) [rule_format], simp | rule assms | assumption))

theorem driver_memory_queue_safe_witness:
  "driver_safe sample_driver ''R4GfxDriverMemoryApi'' 0x1000 sample_driver_table [] (r4driver_memory_buffer_release sample_driver 0x1000 7) \<and>
   driver_safe sample_driver ''R4GfxDriverQueueApi'' 0x1000 sample_driver_table [] (r4driver_queue_begin_scanout sample_driver 0x1000 7) \<and>
   driver_can sample_driver ''R4GfxDriverMemoryApi'' 0x1000 sample_driver_table ''buffer_release''"
proof -
  have "graphics_layout sample_driver" by (simp add: graphics_layout_def before_def sample_driver_def)
  with driver_memory_queue_safe [of sample_driver "0x1000" sample_driver_table "[]"] sample_driver_ready sample_driver_can
  show ?thesis by simp
qed

end
