(* ===== verification/DriverSystem.thy ===== *)
theory DriverSystem
  imports DriverTable
begin

text \<open>
  The interfaces a driver has to the kernel's own services: \<open>Shared/C/include/r4os/driver_semaphores.h\<close>,
  \<open>driver_threads.h\<close>, \<open>driver_heap.h\<close>, \<open>driver_resources.h\<close>, \<open>driver_serial.h\<close> and
  \<open>driver_cpu_power.h\<close>.
\<close>

subsection \<open>Semaphores\<close>

definition r4driver_semaphore_create ::
  "'w platform \<Rightarrow> u64 \<Rightarrow> u32 \<Rightarrow> u32 \<Rightarrow> u64 \<Rightarrow> (i32, 'w) io" where
  "r4driver_semaphore_create E table initial maximum handle =
     (if handle = 0 then give (code E ''R4OS_DRIVER_SEMAPHORE_ERROR_INVALID'') else
     and_then (Platform.store handle (replicate 8 0)) (\<lambda>_.
     ask (driver_has E ''R4DriverSemaphoreApi'' table ''create'') (\<lambda>ok. if \<not> ok then give (code E ''R4OS_ERR_NO_FN'') else
     call_slot E ''R4DriverSemaphoreApi'' table ''create'' [ucast initial, ucast maximum, handle])))"

definition r4driver_semaphore_acquire ::
  "'w platform \<Rightarrow> u64 \<Rightarrow> u64 \<Rightarrow> u64 \<Rightarrow> (i32, 'w) io" where
  "r4driver_semaphore_acquire E table handle ticks =
     (ask (driver_has E ''R4DriverSemaphoreApi'' table ''acquire'') (\<lambda>ok. if \<not> ok then give (code E ''R4OS_ERR_NO_FN'') else
     call_slot E ''R4DriverSemaphoreApi'' table ''acquire'' [handle, ticks]))"

definition r4driver_semaphore_release ::
  "'w platform \<Rightarrow> u64 \<Rightarrow> u64 \<Rightarrow> (i32, 'w) io" where
  "r4driver_semaphore_release E table handle =
     (ask (driver_has E ''R4DriverSemaphoreApi'' table ''release'') (\<lambda>ok. if \<not> ok then give (code E ''R4OS_ERR_NO_FN'') else
     call_slot E ''R4DriverSemaphoreApi'' table ''release'' [handle]))"

definition r4driver_semaphore_destroy ::
  "'w platform \<Rightarrow> u64 \<Rightarrow> u64 \<Rightarrow> (i32, 'w) io" where
  "r4driver_semaphore_destroy E table handle =
     (ask (driver_has E ''R4DriverSemaphoreApi'' table ''destroy'') (\<lambda>ok. if \<not> ok then give (code E ''R4OS_ERR_NO_FN'') else
     call_slot E ''R4DriverSemaphoreApi'' table ''destroy'' [handle]))"

definition r4driver_semaphore_status ::
  "'w platform \<Rightarrow> u64 \<Rightarrow> u64 \<Rightarrow> u64 \<Rightarrow> (i32, 'w) io" where
  "r4driver_semaphore_status E table handle output =
     (ask (driver_has E ''R4DriverSemaphoreApi'' table ''status'') (\<lambda>ok. if \<not> ok then give (code E ''R4OS_ERR_NO_FN'') else
     if output = 0 then give (code E ''R4OS_DRIVER_SEMAPHORE_ERROR_INVALID'') else
     call_slot E ''R4DriverSemaphoreApi'' table ''status'' [handle, output]))"

definition r4driver_semaphore_stats ::
  "'w platform \<Rightarrow> u64 \<Rightarrow> u64 \<Rightarrow> (i32, 'w) io" where
  "r4driver_semaphore_stats E table output =
     (ask (driver_has E ''R4DriverSemaphoreApi'' table ''stats'') (\<lambda>ok. if \<not> ok then give (code E ''R4OS_ERR_NO_FN'') else
     if output = 0 then give (code E ''R4OS_DRIVER_SEMAPHORE_ERROR_INVALID'') else
     call_slot E ''R4DriverSemaphoreApi'' table ''stats'' [output]))"

definition r4driver_semaphore_context_flags ::
  "'w platform \<Rightarrow> u64 \<Rightarrow> (u32, 'w) io" where
  "r4driver_semaphore_context_flags E table =
     (ask (driver_has E ''R4DriverSemaphoreApi'' table ''context_flags'') (\<lambda>ok. if \<not> ok then give 0 else
     call_slot E ''R4DriverSemaphoreApi'' table ''context_flags'' []))"

subsection \<open>Threads\<close>

definition r4driver_thread_current_request ::
  "'w platform \<Rightarrow> u64 \<Rightarrow> u64 \<Rightarrow> (i32, 'w) io" where
  "r4driver_thread_current_request E table output =
     (if output = 0 then give (code E ''R4OS_DRIVER_THREAD_ERROR_INVALID'') else
     ask (driver_has E ''R4DriverThreadApi'' table ''current_request'') (\<lambda>ok. if \<not> ok then give (code E ''R4OS_ERR_NO_FN'') else
     call_slot E ''R4DriverThreadApi'' table ''current_request'' [output]))"

definition r4driver_thread_abort_current ::
  "'w platform \<Rightarrow> u64 \<Rightarrow> i32 \<Rightarrow> (i32, 'w) io" where
  "r4driver_thread_abort_current E table result_p =
     (ask (driver_has E ''R4DriverThreadApi'' table ''abort_current'') (\<lambda>ok. if \<not> ok then give (code E ''R4OS_ERR_NO_FN'') else
     call_slot E ''R4DriverThreadApi'' table ''abort_current'' [scast result_p]))"

text \<open>The request is a local object. An abortable thread needs the slot that aborts it.\<close>

definition r4driver_thread_start ::
  "'w platform \<Rightarrow> u64 \<Rightarrow> u64 \<Rightarrow> u64 \<Rightarrow> u32 \<Rightarrow> u64 \<Rightarrow> (i32, 'w) io" where
  "r4driver_thread_start E table handler context flags handle =
     (if handle = 0 then give (code E ''R4OS_DRIVER_THREAD_ERROR_INVALID'') else
     and_then (Platform.store handle (replicate 8 0)) (\<lambda>_.
     ask (driver_has E ''R4DriverThreadApi'' table ''start'') (\<lambda>ok. if \<not> ok then give (code E ''R4OS_ERR_NO_FN'') else
     ask (q_and (sure (flags AND p_code E ''R4OS_DRIVER_THREAD_FLAG_ABORTABLE'' \<noteq> 0))
            (q_not (driver_has E ''R4DriverThreadApi'' table ''abort_current''))) (\<lambda>bad. if bad then give (code E ''R4OS_ERR_NO_FN'') else
     and_then (clear_obj E (p_frame E) ''R4DriverThreadRequest'') (\<lambda>_.
     and_then (put_header E (p_frame E) ''R4DriverThreadRequest'' 1 (sizeof E ''R4DriverThreadRequest'')) (\<lambda>_.
     and_then (put_member E (p_frame E) ''R4DriverThreadRequest'' ''handler'' handler) (\<lambda>_.
     and_then (put_member E (p_frame E) ''R4DriverThreadRequest'' ''context'' context) (\<lambda>_.
     and_then (put_member E (p_frame E) ''R4DriverThreadRequest'' ''flags'' (ucast flags)) (\<lambda>_.
     call_slot E ''R4DriverThreadApi'' table ''start'' [p_frame E, handle])))))))))"

definition r4driver_thread_stop ::
  "'w platform \<Rightarrow> u64 \<Rightarrow> u64 \<Rightarrow> (i32, 'w) io" where
  "r4driver_thread_stop E table handle =
     (ask (driver_has E ''R4DriverThreadApi'' table ''stop'') (\<lambda>ok. if \<not> ok then give (code E ''R4OS_ERR_NO_FN'') else
     call_slot E ''R4DriverThreadApi'' table ''stop'' [handle]))"

definition r4driver_thread_join ::
  "'w platform \<Rightarrow> u64 \<Rightarrow> u64 \<Rightarrow> u64 \<Rightarrow> u64 \<Rightarrow> (i32, 'w) io" where
  "r4driver_thread_join E table handle ticks result_p =
     (if result_p = 0 then give (code E ''R4OS_DRIVER_THREAD_ERROR_INVALID'') else
     and_then (Platform.store result_p (replicate 4 0)) (\<lambda>_.
     ask (driver_has E ''R4DriverThreadApi'' table ''join'') (\<lambda>ok. if \<not> ok then give (code E ''R4OS_ERR_NO_FN'') else
     call_slot E ''R4DriverThreadApi'' table ''join'' [handle, ticks, result_p])))"

definition r4driver_thread_release ::
  "'w platform \<Rightarrow> u64 \<Rightarrow> u64 \<Rightarrow> (i32, 'w) io" where
  "r4driver_thread_release E table handle =
     (ask (driver_has E ''R4DriverThreadApi'' table ''release'') (\<lambda>ok. if \<not> ok then give (code E ''R4OS_ERR_NO_FN'') else
     call_slot E ''R4DriverThreadApi'' table ''release'' [handle]))"

definition r4driver_thread_status ::
  "'w platform \<Rightarrow> u64 \<Rightarrow> u64 \<Rightarrow> u64 \<Rightarrow> (i32, 'w) io" where
  "r4driver_thread_status E table handle output =
     (ask (driver_has E ''R4DriverThreadApi'' table ''status'') (\<lambda>ok. if \<not> ok then give (code E ''R4OS_ERR_NO_FN'') else
     if output = 0 then give (code E ''R4OS_DRIVER_THREAD_ERROR_INVALID'') else
     call_slot E ''R4DriverThreadApi'' table ''status'' [handle, output]))"

definition r4driver_thread_current ::
  "'w platform \<Rightarrow> u64 \<Rightarrow> (u64, 'w) io" where
  "r4driver_thread_current E table =
     (ask (driver_has E ''R4DriverThreadApi'' table ''current'') (\<lambda>ok. if \<not> ok then give 0 else
     call_slot E ''R4DriverThreadApi'' table ''current'' []))"

definition r4driver_thread_sleep_ticks ::
  "'w platform \<Rightarrow> u64 \<Rightarrow> u64 \<Rightarrow> (i32, 'w) io" where
  "r4driver_thread_sleep_ticks E table ticks =
     (ask (driver_has E ''R4DriverThreadApi'' table ''sleep_ticks'') (\<lambda>ok. if \<not> ok then give (code E ''R4OS_ERR_NO_FN'') else
     call_slot E ''R4DriverThreadApi'' table ''sleep_ticks'' [ticks]))"

definition r4driver_thread_stats ::
  "'w platform \<Rightarrow> u64 \<Rightarrow> u64 \<Rightarrow> (i32, 'w) io" where
  "r4driver_thread_stats E table output =
     (ask (driver_has E ''R4DriverThreadApi'' table ''stats'') (\<lambda>ok. if \<not> ok then give (code E ''R4OS_ERR_NO_FN'') else
     if output = 0 then give (code E ''R4OS_DRIVER_THREAD_ERROR_INVALID'') else
     call_slot E ''R4DriverThreadApi'' table ''stats'' [output]))"

subsection \<open>Heap\<close>

definition r4driver_heap_allocate ::
  "'w platform \<Rightarrow> u64 \<Rightarrow> u64 \<Rightarrow> u32 \<Rightarrow> u64 \<Rightarrow> (i32, 'w) io" where
  "r4driver_heap_allocate E table bytes alignment output =
     (ask (driver_has E ''R4DriverHeapApi'' table ''allocate'') (\<lambda>ok. if \<not> ok then give (code E ''R4OS_ERR_NO_FN'') else
     if output = 0 then give (code E ''R4OS_DRIVER_HEAP_ERROR_INVALID'') else
     call_slot E ''R4DriverHeapApi'' table ''allocate'' [bytes, ucast alignment, output]))"

definition r4driver_heap_release ::
  "'w platform \<Rightarrow> u64 \<Rightarrow> u64 \<Rightarrow> (i32, 'w) io" where
  "r4driver_heap_release E table handle =
     (ask (driver_has E ''R4DriverHeapApi'' table ''release'') (\<lambda>ok. if \<not> ok then give (code E ''R4OS_ERR_NO_FN'') else
     call_slot E ''R4DriverHeapApi'' table ''release'' [handle]))"

definition r4driver_heap_stats ::
  "'w platform \<Rightarrow> u64 \<Rightarrow> u64 \<Rightarrow> (i32, 'w) io" where
  "r4driver_heap_stats E table output =
     (ask (driver_has E ''R4DriverHeapApi'' table ''stats'') (\<lambda>ok. if \<not> ok then give (code E ''R4OS_ERR_NO_FN'') else
     if output = 0 then give (code E ''R4OS_DRIVER_HEAP_ERROR_INVALID'') else
     call_slot E ''R4DriverHeapApi'' table ''stats'' [output]))"

subsection \<open>Resources and the platform\<close>

text \<open>The processor power table is handed on only when it is complete; it is filled in a local object first.\<close>

definition power_table_complete :: "'w platform \<Rightarrow> u64 \<Rightarrow> query" where
  "power_table_complete E a =
     q_and (member_is E a ''R4DriverCpuPowerApi'' ''version'' (\<lambda>v. v = 1))
       (q_and (member_is E a ''R4DriverCpuPowerApi'' ''size'' (\<lambda>sz. 64 \<le> sz))
         (foldr (\<lambda>slot. q_and (member_is E a ''R4DriverCpuPowerApi'' slot (\<lambda>f. f \<noteq> 0)))
           [''register_backend'', ''unregister_backend'', ''current_cpu'', ''capabilities'', ''topology'', ''register_read'', ''clock''] (sure True)))"

definition r4driver_resource_cpu_power :: "'w platform \<Rightarrow> u64 \<Rightarrow> u64 \<Rightarrow> (i32, 'w) io" where
  "r4driver_resource_cpu_power E table output =
     (if output = 0 then give (code E ''R4OS_CPU_CAPABILITIES_ERROR_INVALID'') else
     ask (driver_has E ''R4DriverResourceApi'' table ''cpu_power_query'') (\<lambda>ok. if \<not> ok then give (code E ''R4OS_ERR_NO_FN'') else
     and_then (clear_obj E (p_frame E) ''R4DriverCpuPowerApi'') (\<lambda>_.
     and_then (put_header E (p_frame E) ''R4DriverCpuPowerApi'' 1 (sizeof E ''R4DriverCpuPowerApi'')) (\<lambda>_.
     and_then (call_slot E ''R4DriverResourceApi'' table ''cpu_power_query'' [p_frame E]) (\<lambda>rc.
       if rc \<noteq> code E ''R4OS_CPU_CAPABILITIES_OK'' then give rc
       else ask (power_table_complete E (p_frame E)) (\<lambda>ok.
         if \<not> ok then give (code E ''R4OS_CPU_CAPABILITIES_ERROR_INVALID'')
         else and_then (copy_obj E output (p_frame E) ''R4DriverCpuPowerApi'') (\<lambda>_. give rc)))))))"

definition r4driver_resource_platform :: "'w platform \<Rightarrow> u64 \<Rightarrow> u64 \<Rightarrow> (i32, 'w) io" where
  "r4driver_resource_platform E table output =
     (if output = 0 then give (code E ''R4OS_DRIVER_RESOURCE_ERROR_INVALID'') else
     and_then (clear_obj E output ''R4DriverPlatformApi'') (\<lambda>_.
     and_then (put_header E output ''R4DriverPlatformApi'' 1 (sizeof E ''R4DriverPlatformApi'')) (\<lambda>_.
     ask (driver_has E ''R4DriverResourceApi'' table ''platform_query'') (\<lambda>ok. if \<not> ok then give (code E ''R4OS_ERR_NO_FN'') else
     call_slot E ''R4DriverResourceApi'' table ''platform_query'' [output]))))"

text \<open>The platform table is tested as a whole: \<open>table->size < sizeof(*table)\<close>.\<close>

definition driver_whole :: "'w platform \<Rightarrow> string \<Rightarrow> u64 \<Rightarrow> string \<Rightarrow> query" where
  "driver_whole E T t slot =
     q_and (sure (t \<noteq> 0)) (q_and (driver_version E T t)
       (q_and (member_is E t T ''size'' (\<lambda>sz. p_size E T \<le> unat sz)) (filled E T t slot)))"

definition r4driver_platform_rsdp :: "'w platform \<Rightarrow> u64 \<Rightarrow> (u64, 'w) io" where
  "r4driver_platform_rsdp E table =
     ask (driver_whole E ''R4DriverPlatformApi'' table ''rsdp'') (\<lambda>ok. if \<not> ok then give 0 else
     call_slot E ''R4DriverPlatformApi'' table ''rsdp'' [])"

definition r4driver_platform_view :: "'w platform \<Rightarrow> u64 \<Rightarrow> u64 \<Rightarrow> u64 \<Rightarrow> u64 \<Rightarrow> (i32, 'w) io" where
  "r4driver_platform_view E table physical byte_count output =
     (if output = 0 then give (code E ''R4OS_DRIVER_RESOURCE_ERROR_INVALID'') else
     ask (driver_whole E ''R4DriverPlatformApi'' table ''physical_view'') (\<lambda>ok. if \<not> ok then give (code E ''R4OS_ERR_NO_FN'') else
     call_slot E ''R4DriverPlatformApi'' table ''physical_view'' [physical, byte_count, output]))"

definition r4driver_platform_input :: "'w platform \<Rightarrow> u64 \<Rightarrow> u32 \<Rightarrow> u32 \<Rightarrow> (i32, 'w) io" where
  "r4driver_platform_input E table kind value_v =
     ask (driver_whole E ''R4DriverPlatformApi'' table ''input_submit'') (\<lambda>ok. if \<not> ok then give (code E ''R4OS_ERR_NO_FN'') else
     call_slot E ''R4DriverPlatformApi'' table ''input_submit'' [ucast kind, ucast value_v])"

definition r4driver_resource_stat ::
  "'w platform \<Rightarrow> u64 \<Rightarrow> u64 \<Rightarrow> u32 \<Rightarrow> u64 \<Rightarrow> (i32, 'w) io" where
  "r4driver_resource_stat E table name_p byte_count output =
     (ask (driver_has E ''R4DriverResourceApi'' table ''stat'') (\<lambda>ok. if \<not> ok then give (code E ''R4OS_ERR_NO_FN'') else
     if name_p = 0 \<or> byte_count = 0 \<or> byte_count > 63 \<or> output = 0 then give (code E ''R4OS_DRIVER_RESOURCE_ERROR_INVALID'') else
     call_slot E ''R4DriverResourceApi'' table ''stat'' [name_p, ucast byte_count, output]))"

definition r4driver_resource_read_at ::
  "'w platform \<Rightarrow> u64 \<Rightarrow> u64 \<Rightarrow> u64 \<Rightarrow> u64 \<Rightarrow> u32 \<Rightarrow> u64 \<Rightarrow> (i32, 'w) io" where
  "r4driver_resource_read_at E table handle offset output byte_count deadline =
     (ask (driver_has E ''R4DriverResourceApi'' table ''read_at'') (\<lambda>ok. if \<not> ok then give (code E ''R4OS_ERR_NO_FN'') else
     if output = 0 \<or> byte_count = 0 \<or> byte_count > p_code E ''R4OS_DRIVER_RESOURCE_MAX_READ_BYTES'' then give (code E ''R4OS_DRIVER_RESOURCE_ERROR_INVALID'') else
     call_slot E ''R4DriverResourceApi'' table ''read_at'' [handle, offset, output, ucast byte_count, deadline]))"

definition r4driver_resource_now_ns ::
  "'w platform \<Rightarrow> u64 \<Rightarrow> (u64, 'w) io" where
  "r4driver_resource_now_ns E table =
     (ask (driver_has E ''R4DriverResourceApi'' table ''now_ns'') (\<lambda>ok. if \<not> ok then give (- 1) else
     call_slot E ''R4DriverResourceApi'' table ''now_ns'' []))"

subsection \<open>Serial ports\<close>

definition r4driver_serial_register_port ::
  "'w platform \<Rightarrow> u64 \<Rightarrow> u64 \<Rightarrow> u64 \<Rightarrow> (i32, 'w) io" where
  "r4driver_serial_register_port E t d out =
     (ask (driver_has E ''R4DriverSerialApi'' t ''register_port'') (\<lambda>ok. if \<not> ok then give (code E ''R4OS_ERR_NO_FN'') else
     call_slot E ''R4DriverSerialApi'' t ''register_port'' [d, out]))"

definition r4driver_serial_unregister_port ::
  "'w platform \<Rightarrow> u64 \<Rightarrow> u64 \<Rightarrow> (i32, 'w) io" where
  "r4driver_serial_unregister_port E t registration =
     (ask (driver_has E ''R4DriverSerialApi'' t ''unregister_port'') (\<lambda>ok. if \<not> ok then give (code E ''R4OS_ERR_NO_FN'') else
     call_slot E ''R4DriverSerialApi'' t ''unregister_port'' [registration]))"

definition r4driver_serial_notify ::
  "'w platform \<Rightarrow> u64 \<Rightarrow> u64 \<Rightarrow> u32 \<Rightarrow> (i32, 'w) io" where
  "r4driver_serial_notify E t registration events =
     (ask (driver_has E ''R4DriverSerialApi'' t ''notify'') (\<lambda>ok. if \<not> ok then give (code E ''R4OS_ERR_NO_FN'') else
     call_slot E ''R4DriverSerialApi'' t ''notify'' [registration, ucast events]))"

definition r4driver_serial_admission ::
  "'w platform \<Rightarrow> u64 \<Rightarrow> u64 \<Rightarrow> (i32, 'w) io" where
  "r4driver_serial_admission E t registration =
     (ask (driver_has E ''R4DriverSerialApi'' t ''admission'') (\<lambda>ok. if \<not> ok then give (code E ''R4OS_ERR_NO_FN'') else
     call_slot E ''R4DriverSerialApi'' t ''admission'' [registration]))"

subsection \<open>Processor power\<close>

definition r4driver_cpu_power_register ::
  "'w platform \<Rightarrow> u64 \<Rightarrow> u64 \<Rightarrow> u64 \<Rightarrow> (i32, 'w) io" where
  "r4driver_cpu_power_register E t backend cookie =
     (ask (driver_has E ''R4DriverCpuPowerApi'' t ''register_backend'') (\<lambda>ok. if \<not> ok then give (code E ''R4OS_ERR_NO_FN'') else
     call_slot E ''R4DriverCpuPowerApi'' t ''register_backend'' [backend, cookie]))"

definition r4driver_cpu_power_unregister ::
  "'w platform \<Rightarrow> u64 \<Rightarrow> u64 \<Rightarrow> (i32, 'w) io" where
  "r4driver_cpu_power_unregister E t cookie =
     (ask (driver_has E ''R4DriverCpuPowerApi'' t ''unregister_backend'') (\<lambda>ok. if \<not> ok then give (code E ''R4OS_ERR_NO_FN'') else
     call_slot E ''R4DriverCpuPowerApi'' t ''unregister_backend'' [cookie]))"

definition r4driver_cpu_power_current ::
  "'w platform \<Rightarrow> u64 \<Rightarrow> (u32, 'w) io" where
  "r4driver_cpu_power_current E t =
     (ask (driver_has E ''R4DriverCpuPowerApi'' t ''current_cpu'') (\<lambda>ok. if \<not> ok then give (code E ''R4OS_CPU_POWER_CPU_NONE'') else
     call_slot E ''R4DriverCpuPowerApi'' t ''current_cpu'' []))"

definition r4driver_cpu_power_capabilities ::
  "'w platform \<Rightarrow> u64 \<Rightarrow> u32 \<Rightarrow> u64 \<Rightarrow> (i32, 'w) io" where
  "r4driver_cpu_power_capabilities E t cpu out =
     (ask (driver_has E ''R4DriverCpuPowerApi'' t ''capabilities'') (\<lambda>ok. if \<not> ok then give (code E ''R4OS_ERR_NO_FN'') else
     call_slot E ''R4DriverCpuPowerApi'' t ''capabilities'' [ucast cpu, out]))"

definition r4driver_cpu_power_topology ::
  "'w platform \<Rightarrow> u64 \<Rightarrow> u32 \<Rightarrow> u64 \<Rightarrow> (i32, 'w) io" where
  "r4driver_cpu_power_topology E t cpu out =
     (ask (driver_has E ''R4DriverCpuPowerApi'' t ''topology'') (\<lambda>ok. if \<not> ok then give (code E ''R4OS_ERR_NO_FN'') else
     call_slot E ''R4DriverCpuPowerApi'' t ''topology'' [ucast cpu, out]))"

definition r4driver_cpu_power_read ::
  "'w platform \<Rightarrow> u64 \<Rightarrow> u32 \<Rightarrow> u64 \<Rightarrow> u32 \<Rightarrow> u64 \<Rightarrow> (i32, 'w) io" where
  "r4driver_cpu_power_read E t cpu epoch id_v out =
     (ask (driver_has E ''R4DriverCpuPowerApi'' t ''register_read'') (\<lambda>ok. if \<not> ok then give (code E ''R4OS_ERR_NO_FN'') else
     call_slot E ''R4DriverCpuPowerApi'' t ''register_read'' [ucast cpu, epoch, ucast id_v, out]))"

definition r4driver_cpu_power_clock ::
  "'w platform \<Rightarrow> u64 \<Rightarrow> u64 \<Rightarrow> (i32, 'w) io" where
  "r4driver_cpu_power_clock E t out =
     (ask (driver_has E ''R4DriverCpuPowerApi'' t ''clock'') (\<lambda>ok. if \<not> ok then give (code E ''R4OS_ERR_NO_FN'') else
     call_slot E ''R4DriverCpuPowerApi'' t ''clock'' [out]))"

definition r4driver_cpu_power_counters ::
  "'w platform \<Rightarrow> u64 \<Rightarrow> u32 \<Rightarrow> u64 \<Rightarrow> u64 \<Rightarrow> (i32, 'w) io" where
  "r4driver_cpu_power_counters E t cpu epoch out =
     (ask (driver_has E ''R4DriverCpuPowerApi'' t ''counters_read'') (\<lambda>ok. if \<not> ok then give (code E ''R4OS_ERR_NO_FN'') else
     call_slot E ''R4DriverCpuPowerApi'' t ''counters_read'' [ucast cpu, epoch, out]))"

definition r4driver_cpu_power_feature ::
  "'w platform \<Rightarrow> u64 \<Rightarrow> u32 \<Rightarrow> u64 \<Rightarrow> u32 \<Rightarrow> u64 \<Rightarrow> (i32, 'w) io" where
  "r4driver_cpu_power_feature E t cpu epoch ordinal out =
     (if out = 0 then give (code E ''R4OS_CPU_CAPABILITIES_ERROR_INVALID'') else
     ask (driver_has E ''R4DriverCpuPowerApi'' t ''feature'') (\<lambda>ok. if \<not> ok then give (code E ''R4OS_ERR_NO_FN'') else
     call_slot E ''R4DriverCpuPowerApi'' t ''feature'' [ucast cpu, epoch, ucast ordinal, out]))"

definition r4driver_cpu_power_register_performance ::
  "'w platform \<Rightarrow> u64 \<Rightarrow> u64 \<Rightarrow> u64 \<Rightarrow> (i32, 'w) io" where
  "r4driver_cpu_power_register_performance E t cookie backend =
     (if backend = 0 then give (code E ''R4OS_CPU_CAPABILITIES_ERROR_INVALID'') else
     ask (driver_has E ''R4DriverCpuPowerApi'' t ''register_performance'') (\<lambda>ok. if \<not> ok then give (code E ''R4OS_ERR_NO_FN'') else
     call_slot E ''R4DriverCpuPowerApi'' t ''register_performance'' [cookie, backend]))"

definition r4driver_cpu_power_control_acquire ::
  "'w platform \<Rightarrow> u64 \<Rightarrow> u32 \<Rightarrow> u64 \<Rightarrow> u64 \<Rightarrow> (i32, 'w) io" where
  "r4driver_cpu_power_control_acquire E t cpu epoch token =
     (if token = 0 then give (code E ''R4OS_CPU_CAPABILITIES_ERROR_INVALID'') else
     ask (driver_has E ''R4DriverCpuPowerApi'' t ''control_acquire'') (\<lambda>ok. if \<not> ok then give (code E ''R4OS_ERR_NO_FN'') else
     call_slot E ''R4DriverCpuPowerApi'' t ''control_acquire'' [ucast cpu, epoch, token]))"

definition r4driver_cpu_power_control_release ::
  "'w platform \<Rightarrow> u64 \<Rightarrow> u32 \<Rightarrow> u64 \<Rightarrow> u64 \<Rightarrow> (i32, 'w) io" where
  "r4driver_cpu_power_control_release E t cpu epoch token =
     (if False then give (code E ''R4OS_CPU_CAPABILITIES_ERROR_INVALID'') else
     ask (driver_has E ''R4DriverCpuPowerApi'' t ''control_release'') (\<lambda>ok. if \<not> ok then give (code E ''R4OS_ERR_NO_FN'') else
     call_slot E ''R4DriverCpuPowerApi'' t ''control_release'' [ucast cpu, epoch, token]))"

definition r4driver_cpu_power_compare_write ::
  "'w platform \<Rightarrow> u64 \<Rightarrow> u32 \<Rightarrow> u64 \<Rightarrow> u64 \<Rightarrow> u32 \<Rightarrow> u64 \<Rightarrow> u64 \<Rightarrow> u64 \<Rightarrow> (i32, 'w) io" where
  "r4driver_cpu_power_compare_write E t cpu epoch token id_v expected requested out =
     (if out = 0 then give (code E ''R4OS_CPU_CAPABILITIES_ERROR_INVALID'') else
     ask (driver_has E ''R4DriverCpuPowerApi'' t ''register_compare_write'') (\<lambda>ok. if \<not> ok then give (code E ''R4OS_ERR_NO_FN'') else
     call_slot E ''R4DriverCpuPowerApi'' t ''register_compare_write'' [ucast cpu, epoch, token, ucast id_v, expected, requested, out]))"

definition r4driver_cpu_power_register_cppc ::
  "'w platform \<Rightarrow> u64 \<Rightarrow> u64 \<Rightarrow> u64 \<Rightarrow> (i32, 'w) io" where
  "r4driver_cpu_power_register_cppc E t cookie backend =
     (if backend = 0 then give (code E ''R4OS_CPU_CAPABILITIES_ERROR_INVALID'') else
     ask (driver_has E ''R4DriverCpuPowerApi'' t ''register_cppc'') (\<lambda>ok. if \<not> ok then give (code E ''R4OS_ERR_NO_FN'') else
     call_slot E ''R4DriverCpuPowerApi'' t ''register_cppc'' [cookie, backend]))"

definition r4driver_cpu_power_rank_publish ::
  "'w platform \<Rightarrow> u64 \<Rightarrow> u64 \<Rightarrow> u64 \<Rightarrow> (i32, 'w) io" where
  "r4driver_cpu_power_rank_publish E t input sequence =
     (if input = 0 \<or> sequence = 0 then give (code E ''R4OS_CPU_CAPABILITIES_ERROR_INVALID'') else
     ask (driver_has E ''R4DriverCpuPowerApi'' t ''rank_publish'') (\<lambda>ok. if \<not> ok then give (code E ''R4OS_ERR_NO_FN'') else
     call_slot E ''R4DriverCpuPowerApi'' t ''rank_publish'' [input, sequence]))"

subsection \<open>Safety\<close>

lemma r4driver_semaphore_create_safe:
  assumes "driver_ready E ''R4DriverSemaphoreApi'' table V outs" and "word_room outs handle 8"
  shows "driver_safe E ''R4DriverSemaphoreApi'' table V outs (r4driver_semaphore_create E table initial maximum handle)"
  unfolding r4driver_semaphore_create_def by (intro driver_admits) (use assms in \<open>simp_all add: driver_sides\<close>)

lemma r4driver_semaphore_acquire_safe:
  assumes "driver_ready E ''R4DriverSemaphoreApi'' table V outs"
  shows "driver_safe E ''R4DriverSemaphoreApi'' table V outs (r4driver_semaphore_acquire E table handle ticks)"
  unfolding r4driver_semaphore_acquire_def by (intro driver_admits) (use assms in \<open>simp_all add: driver_sides\<close>)

lemma r4driver_semaphore_release_safe:
  assumes "driver_ready E ''R4DriverSemaphoreApi'' table V outs"
  shows "driver_safe E ''R4DriverSemaphoreApi'' table V outs (r4driver_semaphore_release E table handle)"
  unfolding r4driver_semaphore_release_def by (intro driver_admits) (use assms in \<open>simp_all add: driver_sides\<close>)

lemma r4driver_semaphore_destroy_safe:
  assumes "driver_ready E ''R4DriverSemaphoreApi'' table V outs"
  shows "driver_safe E ''R4DriverSemaphoreApi'' table V outs (r4driver_semaphore_destroy E table handle)"
  unfolding r4driver_semaphore_destroy_def by (intro driver_admits) (use assms in \<open>simp_all add: driver_sides\<close>)

lemma r4driver_semaphore_status_safe:
  assumes "driver_ready E ''R4DriverSemaphoreApi'' table V outs"
  shows "driver_safe E ''R4DriverSemaphoreApi'' table V outs (r4driver_semaphore_status E table handle output)"
  unfolding r4driver_semaphore_status_def by (intro driver_admits) (use assms in \<open>simp_all add: driver_sides\<close>)

lemma r4driver_semaphore_stats_safe:
  assumes "driver_ready E ''R4DriverSemaphoreApi'' table V outs"
  shows "driver_safe E ''R4DriverSemaphoreApi'' table V outs (r4driver_semaphore_stats E table output)"
  unfolding r4driver_semaphore_stats_def by (intro driver_admits) (use assms in \<open>simp_all add: driver_sides\<close>)

lemma r4driver_semaphore_context_flags_safe:
  assumes "driver_ready E ''R4DriverSemaphoreApi'' table V outs"
  shows "driver_safe E ''R4DriverSemaphoreApi'' table V outs (r4driver_semaphore_context_flags E table)"
  unfolding r4driver_semaphore_context_flags_def by (intro driver_admits) (use assms in \<open>simp_all add: driver_sides\<close>)

lemma r4driver_thread_current_request_safe:
  assumes "driver_ready E ''R4DriverThreadApi'' table V outs"
  shows "driver_safe E ''R4DriverThreadApi'' table V outs (r4driver_thread_current_request E table output)"
  unfolding r4driver_thread_current_request_def by (intro driver_admits) (use assms in \<open>simp_all add: driver_sides\<close>)

lemma r4driver_thread_abort_current_safe:
  assumes "driver_ready E ''R4DriverThreadApi'' table V outs"
  shows "driver_safe E ''R4DriverThreadApi'' table V outs (r4driver_thread_abort_current E table result_p)"
  unfolding r4driver_thread_abort_current_def by (intro driver_admits) (use assms in \<open>simp_all add: driver_sides\<close>)

lemma r4driver_thread_start_safe:
  assumes "driver_ready E ''R4DriverThreadApi'' table V outs" and "word_room outs handle 8" and "frame_room E outs ''R4DriverThreadRequest''"
  shows "driver_safe E ''R4DriverThreadApi'' table V outs (r4driver_thread_start E table handler context flags handle)"
  unfolding r4driver_thread_start_def ask_connectives
  by (intro driver_admits driver_put) (use assms in \<open>simp_all add: driver_sides\<close>)

lemma r4driver_thread_stop_safe:
  assumes "driver_ready E ''R4DriverThreadApi'' table V outs"
  shows "driver_safe E ''R4DriverThreadApi'' table V outs (r4driver_thread_stop E table handle)"
  unfolding r4driver_thread_stop_def by (intro driver_admits) (use assms in \<open>simp_all add: driver_sides\<close>)

lemma r4driver_thread_join_safe:
  assumes "driver_ready E ''R4DriverThreadApi'' table V outs" and "word_room outs result_p 4"
  shows "driver_safe E ''R4DriverThreadApi'' table V outs (r4driver_thread_join E table handle ticks result_p)"
  unfolding r4driver_thread_join_def by (intro driver_admits) (use assms in \<open>simp_all add: driver_sides\<close>)

lemma r4driver_thread_release_safe:
  assumes "driver_ready E ''R4DriverThreadApi'' table V outs"
  shows "driver_safe E ''R4DriverThreadApi'' table V outs (r4driver_thread_release E table handle)"
  unfolding r4driver_thread_release_def by (intro driver_admits) (use assms in \<open>simp_all add: driver_sides\<close>)

lemma r4driver_thread_status_safe:
  assumes "driver_ready E ''R4DriverThreadApi'' table V outs"
  shows "driver_safe E ''R4DriverThreadApi'' table V outs (r4driver_thread_status E table handle output)"
  unfolding r4driver_thread_status_def by (intro driver_admits) (use assms in \<open>simp_all add: driver_sides\<close>)

lemma r4driver_thread_current_safe:
  assumes "driver_ready E ''R4DriverThreadApi'' table V outs"
  shows "driver_safe E ''R4DriverThreadApi'' table V outs (r4driver_thread_current E table)"
  unfolding r4driver_thread_current_def by (intro driver_admits) (use assms in \<open>simp_all add: driver_sides\<close>)

lemma r4driver_thread_sleep_ticks_safe:
  assumes "driver_ready E ''R4DriverThreadApi'' table V outs"
  shows "driver_safe E ''R4DriverThreadApi'' table V outs (r4driver_thread_sleep_ticks E table ticks)"
  unfolding r4driver_thread_sleep_ticks_def by (intro driver_admits) (use assms in \<open>simp_all add: driver_sides\<close>)

lemma r4driver_thread_stats_safe:
  assumes "driver_ready E ''R4DriverThreadApi'' table V outs"
  shows "driver_safe E ''R4DriverThreadApi'' table V outs (r4driver_thread_stats E table output)"
  unfolding r4driver_thread_stats_def by (intro driver_admits) (use assms in \<open>simp_all add: driver_sides\<close>)

lemma r4driver_heap_allocate_safe:
  assumes "driver_ready E ''R4DriverHeapApi'' table V outs"
  shows "driver_safe E ''R4DriverHeapApi'' table V outs (r4driver_heap_allocate E table bytes alignment output)"
  unfolding r4driver_heap_allocate_def by (intro driver_admits) (use assms in \<open>simp_all add: driver_sides\<close>)

lemma r4driver_heap_release_safe:
  assumes "driver_ready E ''R4DriverHeapApi'' table V outs"
  shows "driver_safe E ''R4DriverHeapApi'' table V outs (r4driver_heap_release E table handle)"
  unfolding r4driver_heap_release_def by (intro driver_admits) (use assms in \<open>simp_all add: driver_sides\<close>)

lemma r4driver_heap_stats_safe:
  assumes "driver_ready E ''R4DriverHeapApi'' table V outs"
  shows "driver_safe E ''R4DriverHeapApi'' table V outs (r4driver_heap_stats E table output)"
  unfolding r4driver_heap_stats_def by (intro driver_admits) (use assms in \<open>simp_all add: driver_sides\<close>)

lemma power_table_ask:
  assumes "driver_ready E T t V outs" and "out_ok E outs a ''R4DriverCpuPowerApi''"
    and "driver_safe E T t V outs (k True)" and "driver_safe E T t V outs (k False)"
  shows "driver_safe E T t V outs (ask (power_table_complete E a) k)"
proof (rule driver_ask_total)
  fix M assume "driver_steady E T t V outs M"
  note total = driver_member_total [OF assms(1,2) this]
  show "power_table_complete E a M \<noteq> None"
    unfolding power_table_complete_def foldr.simps comp_def id_def by (intro q_and_total total) (simp add: sure_def)
qed (rule assms(3,4))+

lemma r4driver_resource_cpu_power_safe:
  assumes "driver_ready E ''R4DriverResourceApi'' table V outs" and "room_for E outs output ''R4DriverCpuPowerApi''"
    and "frame_room E outs ''R4DriverCpuPowerApi''"
  shows "driver_safe E ''R4DriverResourceApi'' table V outs (r4driver_resource_cpu_power E table output)"
  unfolding r4driver_resource_cpu_power_def
  by (intro driver_admits power_table_ask) (use assms in \<open>simp_all add: driver_sides\<close>)

lemma r4driver_resource_platform_safe:
  assumes "driver_ready E ''R4DriverResourceApi'' table V outs" and "room_for E outs output ''R4DriverPlatformApi''"
  shows "driver_safe E ''R4DriverResourceApi'' table V outs (r4driver_resource_platform E table output)"
  unfolding r4driver_resource_platform_def
  by (intro driver_admits) (use assms in \<open>simp_all add: driver_sides\<close>)

lemma driver_whole_ask [driver_admits]:
  assumes "p_off E T slot + 8 \<le> p_size E T"
    and "driver_can E T t V slot \<Longrightarrow> driver_safe E T t V outs (k True)" and "driver_safe E T t V outs (k False)"
  shows "driver_safe E T t V outs (ask (driver_whole E T t slot) k)"
proof -
  let ?b = "t \<noteq> 0 \<and> (obj_word E T ''version'' V :: u64) = 1 \<and> p_size E T \<le> unat (obj_word E T ''size'' V :: u64) \<and>
    slot_word V (p_off E T slot) \<noteq> 0"
  have "driver_whole E T t slot M = Some ?b" if st: "driver_steady E T t V outs M" for M
  proof (cases "t = 0")
    case False
    then have res: "driver_resident E T t V M" using st by (simp add: driver_steady_def)
    show ?thesis using False driver_member [OF res] driver_slot [OF res, of slot] assms(1)
      by (auto simp: driver_whole_def q_and_def sure_def driver_version_def filled_def)
  qed (simp add: driver_whole_def q_and_def sure_def)
  moreover have "driver_safe E T t V outs (k True)" if ?b
    using that assms(1) by (intro assms(2)) (simp add: driver_can_def)
  ultimately show ?thesis using driver_memory.safe_ask [where b = ?b] assms(3) by blast
qed

text \<open>The slots of the platform table lie inside its type.\<close>

definition platform_layout :: "'w platform \<Rightarrow> bool" where
  "platform_layout E \<longleftrightarrow> (\<forall>slot \<in> set [''rsdp'', ''physical_view'', ''input_submit''].
     p_off E ''R4DriverPlatformApi'' slot + 8 \<le> p_size E ''R4DriverPlatformApi'')"

lemma r4driver_platform_rsdp_safe:
  assumes "driver_ready E ''R4DriverPlatformApi'' table V outs" and "platform_layout E"
  shows "driver_safe E ''R4DriverPlatformApi'' table V outs (r4driver_platform_rsdp E table)"
  unfolding r4driver_platform_rsdp_def by (intro driver_admits) (use assms in \<open>simp_all add: platform_layout_def\<close>)

lemma r4driver_platform_view_safe:
  assumes "driver_ready E ''R4DriverPlatformApi'' table V outs" and "platform_layout E"
  shows "driver_safe E ''R4DriverPlatformApi'' table V outs (r4driver_platform_view E table physical byte_count output)"
  unfolding r4driver_platform_view_def by (intro driver_admits) (use assms in \<open>simp_all add: platform_layout_def\<close>)

lemma r4driver_platform_input_safe:
  assumes "driver_ready E ''R4DriverPlatformApi'' table V outs" and "platform_layout E"
  shows "driver_safe E ''R4DriverPlatformApi'' table V outs (r4driver_platform_input E table kind value_v)"
  unfolding r4driver_platform_input_def by (intro driver_admits) (use assms in \<open>simp_all add: platform_layout_def\<close>)

lemma r4driver_resource_stat_safe:
  assumes "driver_ready E ''R4DriverResourceApi'' table V outs"
  shows "driver_safe E ''R4DriverResourceApi'' table V outs (r4driver_resource_stat E table name_p byte_count output)"
  unfolding r4driver_resource_stat_def by (intro driver_admits) (use assms in \<open>simp_all add: driver_sides\<close>)

lemma r4driver_resource_read_at_safe:
  assumes "driver_ready E ''R4DriverResourceApi'' table V outs"
  shows "driver_safe E ''R4DriverResourceApi'' table V outs (r4driver_resource_read_at E table handle offset output byte_count deadline)"
  unfolding r4driver_resource_read_at_def by (intro driver_admits) (use assms in \<open>simp_all add: driver_sides\<close>)

lemma r4driver_resource_now_ns_safe:
  assumes "driver_ready E ''R4DriverResourceApi'' table V outs"
  shows "driver_safe E ''R4DriverResourceApi'' table V outs (r4driver_resource_now_ns E table)"
  unfolding r4driver_resource_now_ns_def by (intro driver_admits) (use assms in \<open>simp_all add: driver_sides\<close>)

lemma r4driver_serial_register_port_safe:
  assumes "driver_ready E ''R4DriverSerialApi'' t V outs"
  shows "driver_safe E ''R4DriverSerialApi'' t V outs (r4driver_serial_register_port E t d out)"
  unfolding r4driver_serial_register_port_def by (intro driver_admits) (use assms in \<open>simp_all add: driver_sides\<close>)

lemma r4driver_serial_unregister_port_safe:
  assumes "driver_ready E ''R4DriverSerialApi'' t V outs"
  shows "driver_safe E ''R4DriverSerialApi'' t V outs (r4driver_serial_unregister_port E t registration)"
  unfolding r4driver_serial_unregister_port_def by (intro driver_admits) (use assms in \<open>simp_all add: driver_sides\<close>)

lemma r4driver_serial_notify_safe:
  assumes "driver_ready E ''R4DriverSerialApi'' t V outs"
  shows "driver_safe E ''R4DriverSerialApi'' t V outs (r4driver_serial_notify E t registration events)"
  unfolding r4driver_serial_notify_def by (intro driver_admits) (use assms in \<open>simp_all add: driver_sides\<close>)

lemma r4driver_serial_admission_safe:
  assumes "driver_ready E ''R4DriverSerialApi'' t V outs"
  shows "driver_safe E ''R4DriverSerialApi'' t V outs (r4driver_serial_admission E t registration)"
  unfolding r4driver_serial_admission_def by (intro driver_admits) (use assms in \<open>simp_all add: driver_sides\<close>)

lemma r4driver_cpu_power_register_safe:
  assumes "driver_ready E ''R4DriverCpuPowerApi'' t V outs"
  shows "driver_safe E ''R4DriverCpuPowerApi'' t V outs (r4driver_cpu_power_register E t backend cookie)"
  unfolding r4driver_cpu_power_register_def by (intro driver_admits) (use assms in \<open>simp_all add: driver_sides\<close>)

lemma r4driver_cpu_power_unregister_safe:
  assumes "driver_ready E ''R4DriverCpuPowerApi'' t V outs"
  shows "driver_safe E ''R4DriverCpuPowerApi'' t V outs (r4driver_cpu_power_unregister E t cookie)"
  unfolding r4driver_cpu_power_unregister_def by (intro driver_admits) (use assms in \<open>simp_all add: driver_sides\<close>)

lemma r4driver_cpu_power_current_safe:
  assumes "driver_ready E ''R4DriverCpuPowerApi'' t V outs"
  shows "driver_safe E ''R4DriverCpuPowerApi'' t V outs (r4driver_cpu_power_current E t)"
  unfolding r4driver_cpu_power_current_def by (intro driver_admits) (use assms in \<open>simp_all add: driver_sides\<close>)

lemma r4driver_cpu_power_capabilities_safe:
  assumes "driver_ready E ''R4DriverCpuPowerApi'' t V outs"
  shows "driver_safe E ''R4DriverCpuPowerApi'' t V outs (r4driver_cpu_power_capabilities E t cpu out)"
  unfolding r4driver_cpu_power_capabilities_def by (intro driver_admits) (use assms in \<open>simp_all add: driver_sides\<close>)

lemma r4driver_cpu_power_topology_safe:
  assumes "driver_ready E ''R4DriverCpuPowerApi'' t V outs"
  shows "driver_safe E ''R4DriverCpuPowerApi'' t V outs (r4driver_cpu_power_topology E t cpu out)"
  unfolding r4driver_cpu_power_topology_def by (intro driver_admits) (use assms in \<open>simp_all add: driver_sides\<close>)

lemma r4driver_cpu_power_read_safe:
  assumes "driver_ready E ''R4DriverCpuPowerApi'' t V outs"
  shows "driver_safe E ''R4DriverCpuPowerApi'' t V outs (r4driver_cpu_power_read E t cpu epoch id_v out)"
  unfolding r4driver_cpu_power_read_def by (intro driver_admits) (use assms in \<open>simp_all add: driver_sides\<close>)

lemma r4driver_cpu_power_clock_safe:
  assumes "driver_ready E ''R4DriverCpuPowerApi'' t V outs"
  shows "driver_safe E ''R4DriverCpuPowerApi'' t V outs (r4driver_cpu_power_clock E t out)"
  unfolding r4driver_cpu_power_clock_def by (intro driver_admits) (use assms in \<open>simp_all add: driver_sides\<close>)

lemma r4driver_cpu_power_counters_safe:
  assumes "driver_ready E ''R4DriverCpuPowerApi'' t V outs"
  shows "driver_safe E ''R4DriverCpuPowerApi'' t V outs (r4driver_cpu_power_counters E t cpu epoch out)"
  unfolding r4driver_cpu_power_counters_def by (intro driver_admits) (use assms in \<open>simp_all add: driver_sides\<close>)

lemma r4driver_cpu_power_feature_safe:
  assumes "driver_ready E ''R4DriverCpuPowerApi'' t V outs"
  shows "driver_safe E ''R4DriverCpuPowerApi'' t V outs (r4driver_cpu_power_feature E t cpu epoch ordinal out)"
  unfolding r4driver_cpu_power_feature_def by (intro driver_admits) (use assms in \<open>simp_all add: driver_sides\<close>)

lemma r4driver_cpu_power_register_performance_safe:
  assumes "driver_ready E ''R4DriverCpuPowerApi'' t V outs"
  shows "driver_safe E ''R4DriverCpuPowerApi'' t V outs (r4driver_cpu_power_register_performance E t cookie backend)"
  unfolding r4driver_cpu_power_register_performance_def by (intro driver_admits) (use assms in \<open>simp_all add: driver_sides\<close>)

lemma r4driver_cpu_power_control_acquire_safe:
  assumes "driver_ready E ''R4DriverCpuPowerApi'' t V outs"
  shows "driver_safe E ''R4DriverCpuPowerApi'' t V outs (r4driver_cpu_power_control_acquire E t cpu epoch token)"
  unfolding r4driver_cpu_power_control_acquire_def by (intro driver_admits) (use assms in \<open>simp_all add: driver_sides\<close>)

lemma r4driver_cpu_power_control_release_safe:
  assumes "driver_ready E ''R4DriverCpuPowerApi'' t V outs"
  shows "driver_safe E ''R4DriverCpuPowerApi'' t V outs (r4driver_cpu_power_control_release E t cpu epoch token)"
  unfolding r4driver_cpu_power_control_release_def by (intro driver_admits) (use assms in \<open>simp_all add: driver_sides\<close>)

lemma r4driver_cpu_power_compare_write_safe:
  assumes "driver_ready E ''R4DriverCpuPowerApi'' t V outs"
  shows "driver_safe E ''R4DriverCpuPowerApi'' t V outs (r4driver_cpu_power_compare_write E t cpu epoch token id_v expected requested out)"
  unfolding r4driver_cpu_power_compare_write_def by (intro driver_admits) (use assms in \<open>simp_all add: driver_sides\<close>)

lemma r4driver_cpu_power_register_cppc_safe:
  assumes "driver_ready E ''R4DriverCpuPowerApi'' t V outs"
  shows "driver_safe E ''R4DriverCpuPowerApi'' t V outs (r4driver_cpu_power_register_cppc E t cookie backend)"
  unfolding r4driver_cpu_power_register_cppc_def by (intro driver_admits) (use assms in \<open>simp_all add: driver_sides\<close>)

lemma r4driver_cpu_power_rank_publish_safe:
  assumes "driver_ready E ''R4DriverCpuPowerApi'' t V outs"
  shows "driver_safe E ''R4DriverCpuPowerApi'' t V outs (r4driver_cpu_power_rank_publish E t input sequence)"
  unfolding r4driver_cpu_power_rank_publish_def by (intro driver_admits) (use assms in \<open>simp_all add: driver_sides\<close>)


end
