(* ===== verification/DriverLifecycle.thy ===== *)
theory DriverLifecycle
  imports Prelude
begin

text \<open>
  \<open>Shared/C/include/r4os/driver.h\<close> and \<open>driver_lifecycle.h\<close>: how a driver reads the result
  slots of the SDK library and gives up its DMA and work leases. The library's functions are
  compiled elsewhere and are parameters.
\<close>

subsection \<open>Results\<close>

record sdk_slot =
  ss_status :: i32
  ss_flags :: u32
  ss_bits :: u64

text \<open>\<open>R4SDKDRIVER_NATIVE_ERROR\<close> and the work codes come from generated headers.\<close>

record work_codes =
  w_native_error :: u32
  w_completed :: u32
  w_cancelled :: u32
  w_busy :: i32
  w_magic :: u32
  w_version :: u32
  w_api_size :: u32

definition r4driver_result :: "work_codes \<Rightarrow> sdk_slot \<Rightarrow> i32" where
  "r4driver_result K slot =
     (if negative (ss_status slot) then ss_status slot
      else if ss_flags slot AND w_native_error K \<noteq> 0 then - 1
      else ucast (ss_bits slot))"

text \<open>The head of the loader's table, and the context object the library fills; \<open>None\<close> is a null pointer.\<close>

record driver_api =
  da_magic :: u32
  da_version :: u32
  da_size :: u32

definition r4driver_init ::
  "work_codes \<Rightarrow> (driver_api \<Rightarrow> 'c \<Rightarrow> 'w \<Rightarrow> sdk_slot \<times> 'c \<times> 'w) \<Rightarrow> driver_api option \<Rightarrow> 'c option \<Rightarrow> 'w \<Rightarrow> i32 \<times> 'c option \<times> 'w" where
  "r4driver_init K sdk_init api out w =
     (case api of
        None \<Rightarrow> (- 1, out, w)
      | Some a \<Rightarrow>
          (case out of
             None \<Rightarrow> (- 1, out, w)
           | Some c \<Rightarrow>
               if da_magic a \<noteq> w_magic K \<or> da_version a < w_version K \<or> da_size a < w_api_size K then (- 1, out, w)
               else case sdk_init a c w of (slot, c', w') \<Rightarrow> (r4driver_result K slot, Some c', w')))"

subsection \<open>DMA leases\<close>

text \<open>
  \<open>'p\<close> and \<open>'m\<close> are the pinned buffer and the mapping, of which only the handle is read here;
  \<open>dl_owner\<close> is the address of the driver context.
\<close>

record ('p, 'm) dma_lease =
  dl_owner :: u64
  dl_pin :: 'p
  dl_mapping :: 'm

record ('p, 'm, 'w) dma_sdk =
  pin_handle :: "'p \<Rightarrow> u64"
  mapping_handle :: "'m \<Rightarrow> u64"
  sdk_unmap :: "u64 \<Rightarrow> 'm \<Rightarrow> 'w \<Rightarrow> sdk_slot \<times> 'm \<times> 'w"
  sdk_unpin :: "u64 \<Rightarrow> 'p \<Rightarrow> 'w \<Rightarrow> sdk_slot \<times> 'p \<times> 'w"

definition dma_unmap ::
  "work_codes \<Rightarrow> ('p, 'm, 'w) dma_sdk \<Rightarrow> ('p, 'm) dma_lease \<Rightarrow> 'w \<Rightarrow> i32 \<times> ('p, 'm) dma_lease \<times> 'w" where
  "dma_unmap K sdk l w =
     (if mapping_handle sdk (dl_mapping l) = 0 then (0, l, w)
      else case sdk_unmap sdk (dl_owner l) (dl_mapping l) w of (slot, m, w) \<Rightarrow> (r4driver_result K slot, l\<lparr>dl_mapping := m\<rparr>, w))"

definition dma_unpin ::
  "work_codes \<Rightarrow> ('p, 'm, 'w) dma_sdk \<Rightarrow> ('p, 'm) dma_lease \<Rightarrow> 'w \<Rightarrow> i32 \<times> ('p, 'm) dma_lease \<times> 'w" where
  "dma_unpin K sdk l w =
     (if pin_handle sdk (dl_pin l) = 0 then (0, l, w)
      else case sdk_unpin sdk (dl_owner l) (dl_pin l) w of (slot, p, w) \<Rightarrow> (r4driver_result K slot, l\<lparr>dl_pin := p\<rparr>, w))"

definition r4driver_dma_close_quiesced ::
  "work_codes \<Rightarrow> ('p, 'm, 'w) dma_sdk \<Rightarrow> ('p, 'm) dma_lease option \<Rightarrow> 'w \<Rightarrow> i32 \<times> ('p, 'm) dma_lease option \<times> 'w" where
  "r4driver_dma_close_quiesced K sdk lease w =
     (case lease of
        None \<Rightarrow> (- 1, None, w)
      | Some l \<Rightarrow>
          if dl_owner l = 0 then (- 1, lease, w)
          else case dma_unmap K sdk l w of (rc, l, w) \<Rightarrow>
            if rc \<noteq> 0 then (rc, Some l, w)
            else case dma_unpin K sdk l w of (rc, l, w) \<Rightarrow> (rc, Some l, w))"

subsection \<open>Work leases\<close>

record work_lease =
  wl_owner :: u64
  wl_ticket :: u32

text \<open>The status object is a local; of it only the state word is read.\<close>

record 'w work_sdk =
  sdk_status :: "u64 \<Rightarrow> u32 \<Rightarrow> 'w \<Rightarrow> sdk_slot \<times> u32 \<times> 'w"
  sdk_release :: "u64 \<Rightarrow> u32 \<Rightarrow> 'w \<Rightarrow> sdk_slot \<times> 'w"

definition work_finish ::
  "work_codes \<Rightarrow> 'w work_sdk \<Rightarrow> work_lease \<Rightarrow> 'w \<Rightarrow> i32 \<times> work_lease \<times> 'w" where
  "work_finish K sdk l w =
     (case sdk_release sdk (wl_owner l) (wl_ticket l) w of (slot, w) \<Rightarrow>
        let rc = r4driver_result K slot in (rc, if rc = 0 then l\<lparr>wl_ticket := 0\<rparr> else l, w))"

definition r4driver_work_release_terminal ::
  "work_codes \<Rightarrow> 'w work_sdk \<Rightarrow> work_lease option \<Rightarrow> 'w \<Rightarrow> i32 \<times> work_lease option \<times> 'w" where
  "r4driver_work_release_terminal K sdk lease w =
     (case lease of
        None \<Rightarrow> (- 1, None, w)
      | Some l \<Rightarrow>
          if wl_owner l = 0 then (- 1, lease, w)
          else if wl_ticket l = 0 then (0, lease, w)
          else case sdk_status sdk (wl_owner l) (wl_ticket l) w of (slot, state, w) \<Rightarrow>
            let rc = r4driver_result K slot in
            if rc \<noteq> 0 then (rc, lease, w)
            else if state \<noteq> w_completed K \<and> state \<noteq> w_cancelled K then (w_busy K, lease, w)
            else case work_finish K sdk l w of (rc, l, w) \<Rightarrow> (rc, Some l, w))"

subsection \<open>The order of the DMA calls\<close>

text \<open>
  A library that writes down what it answered, and a driver that closes one lease several times,
  as it must after a refusal.
\<close>

datatype dma_event = Unmapped i32 | Unpinned i32

definition logged :: "work_codes \<Rightarrow> ('p, 'm, 'w) dma_sdk \<Rightarrow> ('p, 'm, 'w \<times> dma_event list) dma_sdk" where
  "logged K sdk = \<lparr>pin_handle = pin_handle sdk, mapping_handle = mapping_handle sdk,
     sdk_unmap = (\<lambda>owner m (w, es). case sdk_unmap sdk owner m w of (slot, m', w') \<Rightarrow>
       (slot, m', w', es @ [Unmapped (r4driver_result K slot)])),
     sdk_unpin = (\<lambda>owner p (w, es). case sdk_unpin sdk owner p w of (slot, p', w') \<Rightarrow>
       (slot, p', w', es @ [Unpinned (r4driver_result K slot)]))\<rparr>"

fun close_again ::
  "work_codes \<Rightarrow> ('p, 'm, 'w) dma_sdk \<Rightarrow> nat \<Rightarrow> ('p, 'm) dma_lease option \<Rightarrow> 'w \<Rightarrow> ('p, 'm) dma_lease option \<times> 'w" where
  "close_again K sdk 0 lease w = (lease, w)"
| "close_again K sdk (Suc n) lease w =
     (case close_again K sdk n lease w of (lease', w') \<Rightarrow> snd (r4driver_dma_close_quiesced K sdk lease' w'))"

text \<open>What the records are documented to do: zero only after the acknowledgement, kept by a refusal.\<close>

definition acknowledges :: "work_codes \<Rightarrow> ('p, 'm, 'w) dma_sdk \<Rightarrow> bool" where
  "acknowledges K sdk \<longleftrightarrow>
     (\<forall>owner m w. case sdk_unmap sdk owner m w of (slot, m', w') \<Rightarrow>
        mapping_handle sdk m' = (if r4driver_result K slot = 0 then 0 else mapping_handle sdk m)) \<and>
     (\<forall>owner p w. case sdk_unpin sdk owner p w of (slot, p', w') \<Rightarrow>
        pin_handle sdk p' = (if r4driver_result K slot = 0 then 0 else pin_handle sdk p))"

definition dma_history :: "u64 \<Rightarrow> u64 \<Rightarrow> dma_event list \<Rightarrow> bool" where
  "dma_history mapping pin es \<longleftrightarrow>
     (\<exists>refused kept. 0 \<notin> set refused \<and> 0 \<notin> set kept \<and>
        es = map Unmapped refused @
          (if mapping \<noteq> 0 then []
           else Unmapped 0 # map Unpinned kept @ (if pin \<noteq> 0 then [] else [Unpinned 0])) \<and>
        (mapping \<noteq> 0 \<longrightarrow> pin \<noteq> 0))"

lemma dma_history_start: "mapping \<noteq> 0 \<Longrightarrow> pin \<noteq> 0 \<Longrightarrow> dma_history mapping pin []"
  unfolding dma_history_def by (intro exI[of _ "[]"]) simp

lemma dma_history_unmap:
  assumes "dma_history mapping pin es" "mapping \<noteq> 0"
  shows "dma_history (if rc = 0 then 0 else mapping) pin (es @ [Unmapped rc])"
proof -
  obtain refused where r: "0 \<notin> set refused" "es = map Unmapped refused" "pin \<noteq> 0"
    using assms by (auto simp: dma_history_def)
  show ?thesis
  proof (cases "rc = 0")
    case True
    then show ?thesis
      unfolding dma_history_def using r by (intro exI[of _ refused] exI[of _ "[]"]) simp
  next
    case False
    then show ?thesis
      unfolding dma_history_def using r assms by (intro exI[of _ "refused @ [rc]"] exI[of _ "[]"]) simp
  qed
qed

lemma dma_history_unpin:
  assumes "dma_history 0 pin es" "pin \<noteq> 0"
  shows "dma_history 0 (if rc = 0 then 0 else pin) (es @ [Unpinned rc])"
proof -
  obtain refused kept where r: "0 \<notin> set refused" "0 \<notin> set kept" "es = map Unmapped refused @ Unmapped 0 # map Unpinned kept"
    using assms by (auto simp: dma_history_def)
  show ?thesis
    unfolding dma_history_def using r assms
    by (intro exI[of _ refused] exI[of _ "if rc = 0 then kept else kept @ [rc]"]) simp
qed

lemma logged_handles [simp]:
  "mapping_handle (logged K sdk) = mapping_handle sdk" "pin_handle (logged K sdk) = pin_handle sdk"
  by (simp_all add: logged_def)

lemma acknowledges_unmap:
  assumes "acknowledges K sdk" "sdk_unmap sdk owner m w = (slot, m', w')"
  shows "mapping_handle sdk m' = (if r4driver_result K slot = 0 then 0 else mapping_handle sdk m)"
proof -
  have "case sdk_unmap sdk owner m w of (slot, m', w') \<Rightarrow>
      mapping_handle sdk m' = (if r4driver_result K slot = 0 then 0 else mapping_handle sdk m)"
    by (rule assms(1)[unfolded acknowledges_def, THEN conjunct1, rule_format])
  then show ?thesis by (simp add: assms(2))
qed

lemma acknowledges_unpin:
  assumes "acknowledges K sdk" "sdk_unpin sdk owner p w = (slot, p', w')"
  shows "pin_handle sdk p' = (if r4driver_result K slot = 0 then 0 else pin_handle sdk p)"
proof -
  have "case sdk_unpin sdk owner p w of (slot, p', w') \<Rightarrow>
      pin_handle sdk p' = (if r4driver_result K slot = 0 then 0 else pin_handle sdk p)"
    by (rule assms(1)[unfolded acknowledges_def, THEN conjunct2, rule_format])
  then show ?thesis by (simp add: assms(2))
qed

lemma logged_unmap:
  assumes "acknowledges K sdk" "dma_history (mapping_handle sdk (dl_mapping l)) (pin_handle sdk (dl_pin l)) es"
    and "dma_unmap K (logged K sdk) l (w, es) = (rc, l', w', es')"
  shows "dma_history (mapping_handle sdk (dl_mapping l')) (pin_handle sdk (dl_pin l')) es' \<and> dl_owner l' = dl_owner l \<and>
    (rc = 0 \<longrightarrow> mapping_handle sdk (dl_mapping l') = 0)"
proof (cases "mapping_handle sdk (dl_mapping l) = 0")
  case True
  then show ?thesis using assms(2,3) by (simp add: dma_unmap_def)
next
  case False
  obtain slot m v where u: "sdk_unmap sdk (dl_owner l) (dl_mapping l) w = (slot, m, v)" by (metis prod_cases3)
  have "mapping_handle sdk m = (if r4driver_result K slot = 0 then 0 else mapping_handle sdk (dl_mapping l))"
    by (rule acknowledges_unmap[OF assms(1) u])
  moreover have "dma_unmap K (logged K sdk) l (w, es) =
      (r4driver_result K slot, l\<lparr>dl_mapping := m\<rparr>, v, es @ [Unmapped (r4driver_result K slot)])"
    unfolding dma_unmap_def logged_def using False u by simp
  then have "rc = r4driver_result K slot" "l' = l\<lparr>dl_mapping := m\<rparr>" "es' = es @ [Unmapped (r4driver_result K slot)]"
    using assms(3) by (metis prod.inject)+
  ultimately show ?thesis
    using dma_history_unmap[OF assms(2) False, of "r4driver_result K slot"] by simp
qed

lemma logged_unpin:
  assumes "acknowledges K sdk" "dma_history (mapping_handle sdk (dl_mapping l)) (pin_handle sdk (dl_pin l)) es"
    and "mapping_handle sdk (dl_mapping l) = 0" "dma_unpin K (logged K sdk) l (w, es) = (rc, l', w', es')"
  shows "dma_history (mapping_handle sdk (dl_mapping l')) (pin_handle sdk (dl_pin l')) es' \<and> dl_owner l' = dl_owner l"
proof (cases "pin_handle sdk (dl_pin l) = 0")
  case True
  then show ?thesis using assms(2,4) by (simp add: dma_unpin_def)
next
  case False
  obtain slot p v where u: "sdk_unpin sdk (dl_owner l) (dl_pin l) w = (slot, p, v)" by (metis prod_cases3)
  have "pin_handle sdk p = (if r4driver_result K slot = 0 then 0 else pin_handle sdk (dl_pin l))"
    by (rule acknowledges_unpin[OF assms(1) u])
  moreover have "dma_unpin K (logged K sdk) l (w, es) =
      (r4driver_result K slot, l\<lparr>dl_pin := p\<rparr>, v, es @ [Unpinned (r4driver_result K slot)])"
    unfolding dma_unpin_def logged_def using False u by simp
  then have "rc = r4driver_result K slot" "l' = l\<lparr>dl_pin := p\<rparr>" "es' = es @ [Unpinned (r4driver_result K slot)]"
    using assms(4) by (metis prod.inject)+
  ultimately show ?thesis
    using dma_history_unpin[OF assms(2)[unfolded assms(3)] False, of "r4driver_result K slot"] assms(3) by simp
qed

lemma logged_close:
  assumes "acknowledges K sdk" "dma_history (mapping_handle sdk (dl_mapping l)) (pin_handle sdk (dl_pin l)) es" "dl_owner l \<noteq> 0"
  shows "\<exists>rc l' w' es'. r4driver_dma_close_quiesced K (logged K sdk) (Some l) (w, es) = (rc, Some l', w', es') \<and>
    dma_history (mapping_handle sdk (dl_mapping l')) (pin_handle sdk (dl_pin l')) es' \<and> dl_owner l' = dl_owner l"
proof -
  obtain rc l1 w1 es1 where u: "dma_unmap K (logged K sdk) l (w, es) = (rc, l1, w1, es1)" by (metis prod_cases4)
  note first = logged_unmap[OF assms(1,2) u]
  show ?thesis
  proof (cases "rc = 0")
    case False
    then show ?thesis using u first assms(3) by (simp add: r4driver_dma_close_quiesced_def)
  next
    case True
    obtain rc' l2 w2 es2 where p: "dma_unpin K (logged K sdk) l1 (w1, es1) = (rc', l2, w2, es2)" by (metis prod_cases4)
    have "dma_history (mapping_handle sdk (dl_mapping l2)) (pin_handle sdk (dl_pin l2)) es2 \<and> dl_owner l2 = dl_owner l1"
      using logged_unpin[OF assms(1) _ _ p] first True by blast
    then show ?thesis using u p True first assms(3) by (simp add: r4driver_dma_close_quiesced_def)
  qed
qed

text \<open>
  C27: However often a driver closes one DMA lease, and whatever the library refuses, the calls come in
  one order: refused unmaps, then one acknowledged unmap, then refused unpins, then one acknowledged
  unpin. So the pinned memory is never given up while the device may still reach it through the
  mapping, neither is given up twice, and the handles left in the lease tell how far the order got.\<close>

theorem dma_backing_outlives_mapping:
  assumes "acknowledges K sdk"
    and "dl_owner l \<noteq> 0" "mapping_handle sdk (dl_mapping l) \<noteq> 0" "pin_handle sdk (dl_pin l) \<noteq> 0"
  shows "\<exists>l' w' es. close_again K (logged K sdk) n (Some l) (w, []) = (Some l', w', es) \<and>
    dma_history (mapping_handle sdk (dl_mapping l')) (pin_handle sdk (dl_pin l')) es"
proof -
  have "\<exists>l' w' es. close_again K (logged K sdk) n (Some l) (w, []) = (Some l', w', es) \<and>
    dma_history (mapping_handle sdk (dl_mapping l')) (pin_handle sdk (dl_pin l')) es \<and> dl_owner l' = dl_owner l"
  proof (induction n)
    case 0
    show ?case using dma_history_start[OF assms(3,4)] by simp
  next
    case (Suc n)
    then obtain l1 w1 es1 where "close_again K (logged K sdk) n (Some l) (w, []) = (Some l1, w1, es1)"
      "dma_history (mapping_handle sdk (dl_mapping l1)) (pin_handle sdk (dl_pin l1)) es1" "dl_owner l1 = dl_owner l"
      by blast
    with logged_close[OF assms(1) this(2), of w1] assms(2) show ?case by fastforce
  qed
  then show ?thesis by blast
qed

text \<open>A library that refuses as many calls as its state says, then accepts.\<close>

definition sample_work_codes :: work_codes where
  "sample_work_codes = \<lparr>w_native_error = 2, w_completed = 3, w_cancelled = 4, w_busy = - 16, w_magic = 7, w_version = 1, w_api_size = 64\<rparr>"

definition stubborn :: "(u64, u64, nat) dma_sdk" where
  "stubborn = (let answer = (\<lambda>_ h n. if n = 0 then (\<lparr>ss_status = 0, ss_flags = 0, ss_bits = 0\<rparr>, 0, 1)
     else (\<lparr>ss_status = - 5, ss_flags = 0, ss_bits = 0\<rparr>, h, n - 1))
     in \<lparr>pin_handle = (\<lambda>p. p), mapping_handle = (\<lambda>m. m), sdk_unmap = answer, sdk_unpin = answer\<rparr>)"

lemma stubborn_acknowledges: "acknowledges sample_work_codes stubborn"
  by (simp add: acknowledges_def stubborn_def Let_def r4driver_result_def sample_work_codes_def)

lemma stubborn_run:
  "close_again sample_work_codes (logged sample_work_codes stubborn) (Suc (Suc (Suc (Suc 0))))
     (Some \<lparr>dl_owner = 64, dl_pin = 8, dl_mapping = 9\<rparr>) (1, []) =
     (Some \<lparr>dl_owner = 64, dl_pin = 0, dl_mapping = 0\<rparr>, 1, [Unmapped (- 5), Unmapped 0, Unpinned (- 5), Unpinned 0])"
  by code_simp

theorem dma_backing_outlives_mapping_witness:
  "(\<exists>l' w' es. close_again sample_work_codes (logged sample_work_codes stubborn) (Suc (Suc (Suc (Suc 0))))
      (Some \<lparr>dl_owner = 64, dl_pin = 8, dl_mapping = 9\<rparr>) (1, []) = (Some l', w', es) \<and>
      dma_history (mapping_handle stubborn (dl_mapping l')) (pin_handle stubborn (dl_pin l')) es)"
proof (rule dma_backing_outlives_mapping[OF stubborn_acknowledges])
qed (simp_all add: stubborn_def Let_def)

subsection \<open>Work tickets\<close>

text \<open>A ticket is given up exactly by an acknowledged release, which is asked for in a terminal state only.\<close>

lemma work_release_cases:
  assumes "wl_owner l \<noteq> 0" "wl_ticket l \<noteq> 0" "sdk_status sdk (wl_owner l) (wl_ticket l) w = (slot, state, w1)"
  shows "r4driver_work_release_terminal K sdk (Some l) w =
    (if r4driver_result K slot \<noteq> 0 then (r4driver_result K slot, Some l, w1)
     else if state \<notin> {w_completed K, w_cancelled K} then (w_busy K, Some l, w1)
     else case sdk_release sdk (wl_owner l) (wl_ticket l) w1 of (answer, w2) \<Rightarrow>
       (r4driver_result K answer, Some (if r4driver_result K answer = 0 then l\<lparr>wl_ticket := 0\<rparr> else l), w2))"
  using assms by (simp add: r4driver_work_release_terminal_def work_finish_def Let_def split: prod.split)

lemma work_ticket_kept_or_released:
  assumes "w_busy K \<noteq> 0" "r4driver_work_release_terminal K sdk (Some l) w = (rc, Some l', w')" "wl_owner l \<noteq> 0"
  shows "wl_owner l' = wl_owner l \<and> wl_ticket l' = (if rc = 0 then 0 else wl_ticket l)"
proof (cases "wl_ticket l = 0")
  case True
  then show ?thesis using assms by (simp add: r4driver_work_release_terminal_def)
next
  case False
  obtain slot state w1 where "sdk_status sdk (wl_owner l) (wl_ticket l) w = (slot, state, w1)" by (metis prod_cases3)
  from work_release_cases[OF assms(3) False this, of K] show ?thesis
    using assms(1,2) by (auto split: if_splits prod.splits)
qed

end
