(* ===== verification/ProtocolApi.thy ===== *)
theory ProtocolApi
  imports DriverTable
begin

text \<open>
  The first half of \<open>Shared/C/include/r4os/protocol.h\<close>: a protocol provider keeps the loader's
  table after testing its head once, and every call goes straight through a slot of it. The gate
  and its leases are in \<open>ProtocolGate\<close>.
\<close>

record protocol_context =
  pc_api :: u64

definition protocol_head_bad :: "'w platform \<Rightarrow> u64 \<Rightarrow> query" where
  "protocol_head_bad E api =
     q_or (member_is E api ''R4ProtocolApi'' ''magic'' (\<lambda>x. x \<noteq> ucast (p_code E ''R4OS_PROTOCOL_MAGIC'')))
       (q_or (member_is E api ''R4ProtocolApi'' ''version'' (\<lambda>x. x \<noteq> ucast (p_code E ''R4OS_PROTOCOL_API_VERSION'')))
         (member_is E api ''R4ProtocolApi'' ''size'' (\<lambda>x. x < sizeof E ''R4ProtocolApi'')))"

definition r4protocol_init ::
  "'w platform \<Rightarrow> protocol_context option \<Rightarrow> u64 \<Rightarrow> (i32 \<times> protocol_context option, 'w) io" where
  "r4protocol_init E out api =
     (if out = None \<or> api = 0 then give (- 1, out)
      else ask (protocol_head_bad E api) (\<lambda>bad. if bad then give (- 1, out) else give (0, Some \<lparr>pc_api = api\<rparr>)))"

abbreviation protocol_call :: "'w platform \<Rightarrow> protocol_context \<Rightarrow> string \<Rightarrow> u64 list \<Rightarrow> ('a::len word, 'w) io" where
  "protocol_call E c slot args \<equiv> call_slot E ''R4ProtocolApi'' (pc_api c) slot args"

text \<open>The functions without a result leave the register unread.\<close>

definition r4protocol_log_info :: "'w platform \<Rightarrow> protocol_context \<Rightarrow> u64 \<Rightarrow> (unit, 'w) io" where
  "r4protocol_log_info E c text_p = and_then (protocol_call E c ''log_info'' [text_p]) (\<lambda>_ :: u64. give ())"

definition r4protocol_log_warn :: "'w platform \<Rightarrow> protocol_context \<Rightarrow> u64 \<Rightarrow> (unit, 'w) io" where
  "r4protocol_log_warn E c text_p = and_then (protocol_call E c ''log_warn'' [text_p]) (\<lambda>_ :: u64. give ())"

definition r4protocol_log_error :: "'w platform \<Rightarrow> protocol_context \<Rightarrow> u64 \<Rightarrow> (unit, 'w) io" where
  "r4protocol_log_error E c text_p = and_then (protocol_call E c ''log_error'' [text_p]) (\<lambda>_ :: u64. give ())"

definition r4protocol_register :: "'w platform \<Rightarrow> protocol_context \<Rightarrow> u64 \<Rightarrow> u32 \<Rightarrow> u32 \<Rightarrow> (i32, 'w) io" where
  "r4protocol_register E c role category flags = protocol_call E c ''register_role'' [role, ucast category, ucast flags]"

definition r4protocol_status :: "'w platform \<Rightarrow> protocol_context \<Rightarrow> u32 \<Rightarrow> u64 \<Rightarrow> (i32, 'w) io" where
  "r4protocol_status E c state note = protocol_call E c ''set_status'' [ucast state, note]"

definition r4protocol_dependency :: "'w platform \<Rightarrow> protocol_context \<Rightarrow> u64 \<Rightarrow> (i32, 'w) io" where
  "r4protocol_dependency E c role = protocol_call E c ''dependency_status'' [role]"

definition r4protocol_alloc :: "'w platform \<Rightarrow> protocol_context \<Rightarrow> u32 \<Rightarrow> u32 \<Rightarrow> (u64, 'w) io" where
  "r4protocol_alloc E c bytes alignment = protocol_call E c ''alloc'' [ucast bytes, ucast alignment]"

definition r4protocol_free :: "'w platform \<Rightarrow> protocol_context \<Rightarrow> u64 \<Rightarrow> u32 \<Rightarrow> (unit, 'w) io" where
  "r4protocol_free E c p bytes = and_then (protocol_call E c ''free'' [p, ucast bytes]) (\<lambda>_ :: u64. give ())"

definition r4protocol_file_read :: "'w platform \<Rightarrow> protocol_context \<Rightarrow> u64 \<Rightarrow> u64 \<Rightarrow> u32 \<Rightarrow> (i32, 'w) io" where
  "r4protocol_file_read E c path out bytes = protocol_call E c ''file_read'' [path, out, ucast bytes]"

subsection \<open>What the test of the head is worth\<close>

text \<open>
  \<open>V\<close> is all of the table the loader mapped. The test is made once, so the calls rely on the table
  staying as it was; the platform is a parameter that keeps it.
\<close>

definition protocol_slot :: "'w platform \<Rightarrow> bytes \<Rightarrow> u64 \<Rightarrow> bool" where
  "protocol_slot E V f \<longleftrightarrow>
     (\<exists>slot. p_off E ''R4ProtocolApi'' slot + 8 \<le> unat (obj_word E ''R4ProtocolApi'' ''size'' V :: u64) \<and>
        f = slot_word V (p_off E ''R4ProtocolApi'' slot))"

lemma protocol_context_covers:
  assumes "driver_steady E ''R4ProtocolApi'' api V outs (m_mem s)"
    and "r4protocol_init E out api s = Some ((0, Some c), s')" and "out \<noteq> None"
  shows "pc_api c = api \<and> s' = s \<and> api \<noteq> 0 \<and> sizeof E ''R4ProtocolApi'' \<le> (obj_word E ''R4ProtocolApi'' ''size'' V :: u64)"
proof (cases "api = 0")
  case True
  then show ?thesis using assms(2) by (simp add: r4protocol_init_def give_def)
next
  case False
  then have "member_is E api ''R4ProtocolApi'' ''size'' P (m_mem s) = Some (P (obj_word E ''R4ProtocolApi'' ''size'' V))" for P
    using driver_member assms(1) by (fastforce simp: driver_steady_def)
  with False assms(2,3) show ?thesis
    by (auto simp: r4protocol_init_def ask_def give_def protocol_head_bad_def q_or_def split: option.splits if_splits)
qed

text \<open>So a context that initialised reaches every slot of the contract inside the announced size.\<close>

lemma protocol_calls_inside:
  fixes E :: "'w platform"
  assumes "driver_ready E ''R4ProtocolApi'' api V outs" and "driver_steady E ''R4ProtocolApi'' api V outs (m_mem s)"
    and "r4protocol_init E out api s = Some ((0, Some c), s')" and "out \<noteq> None"
    and "p_off E ''R4ProtocolApi'' slot + 8 \<le> unat (sizeof E ''R4ProtocolApi'')"
  shows "safe_in (driver_steady E ''R4ProtocolApi'' api V outs) (protocol_slot E V)
    (protocol_call E c slot args :: ('a::len word, 'w) io)"
proof (rule driver_memory.safe_call)
  note context_ok = protocol_context_covers [OF assms(2-4)]
  fix M assume "driver_steady E ''R4ProtocolApi'' api V outs M"
  with context_ok have res: "driver_resident E ''R4ProtocolApi'' api V M" by (simp add: driver_steady_def)
  have "p_off E ''R4ProtocolApi'' slot + 8 \<le> unat (obj_word E ''R4ProtocolApi'' ''size'' V :: u64)"
    using context_ok assms(5) by (simp add: word_le_nat_alt)
  with driver_slot [OF res this] context_ok
  show "\<exists>f. load_u64 M (pc_api c + word_of_nat (p_off E ''R4ProtocolApi'' slot)) = Some f \<and> protocol_slot E V f"
    by (auto simp: protocol_slot_def)
qed (use assms(1) in \<open>auto simp: driver_ready_def\<close>)

end
