(* ===== verification/Tray.thy ===== *)
theory Tray
  imports ServiceClient
begin

text \<open>
  \<open>Shared/C/include/r4os/app_tray.h\<close>: a program's items in the desktop tray. A tray handle
  names its owner process and remembers the desktop's epoch; every operation is one call of the
  window service, whose reply is checked before the epoch is taken from it.
\<close>

subsection \<open>Data\<close>

text \<open>The owner is a process handle object; addresses stand for the item's tooltip and icon.\<close>

record tray =
  tr_app :: "r4_app option"
  tr_owner :: bytes
  tr_epoch :: u64

record tray_item =
  ti_id :: u64
  ti_revision :: u64
  ti_flags :: u32
  ti_status_flags :: u32
  ti_tooltip :: u64
  ti_tooltip_length :: u16
  ti_icon :: u64

datatype tray_call_kind = TRAY_RESPONSE | TRAY_TIMED_OUT | TRAY_NO_SERVICE | TRAY_FAILED

record tray_call_result =
  tc_kind :: tray_call_kind
  tc_raw :: i32
  tc_changed :: bool
  tc_response :: bytes

abbreviation tray_code where "tray_code E c \<equiv> code E (''R4OS_TRAY_'' @ c)"
abbreviation tray_word where "tray_word E m v \<equiv> field E ''R4TrayServiceResponse'' m v"

definition r4_tray_owner_equal :: "'w platform \<Rightarrow> bytes \<Rightarrow> bytes \<Rightarrow> bool" where
  "r4_tray_owner_equal E left right = same_process E left right"

definition r4_tray_owner_valid :: "'w platform \<Rightarrow> bytes \<Rightarrow> bool" where
  "r4_tray_owner_valid E owner = valid_process E owner"

definition tray_zero :: "'w platform \<Rightarrow> tray" where
  "tray_zero E = \<lparr>tr_app = None, tr_owner = zero_obj E ''R4ProgramProcessHandle'', tr_epoch = 0\<rparr>"

text \<open>\<open>app->context == 0 || app->context->instance_id == 0u || app->context->instance_id > UINT32_MAX\<close>\<close>

definition tray_instance :: "r4_app option \<Rightarrow> u64 option" where
  "tray_instance app =
     (case Option.bind app a_context of
        None \<Rightarrow> None
      | Some c \<Rightarrow> if c_instance_id c = 0 \<or> c_instance_id c > 0xFFFFFFFF then None else Some (c_instance_id c))"

definition r4_app_tray :: "'w platform \<Rightarrow> r4_app option \<Rightarrow> tray option \<Rightarrow> (i32 \<times> tray option, 'w) io" where
  "r4_app_tray E app out =
     (let zero = map_option (\<lambda>_. tray_zero E) out in
      if app = None \<or> out = None \<or> Option.bind app a_context = None then give (code E ''R4OS_ERR_NO_FN'', zero)
      else ask (app_slot E app ''program_open_handle'') (\<lambda>ok.
        case (if ok then tray_instance app else None) of
          None \<Rightarrow> give (code E ''R4OS_ERR_NO_FN'', zero)
        | Some n \<Rightarrow>
            and_then (clear_obj E (p_local E ''owner'') ''R4ProgramProcessHandle'') (\<lambda>_.
            and_then (app_call E app ''program_open_handle'' [n, p_local E ''owner''] :: (i32, 'w) io) (\<lambda>raw.
            and_then (load_obj E (p_local E ''owner'') ''R4ProgramProcessHandle'') (\<lambda>owner.
              if raw \<noteq> code E ''R4OS_PROGRAM_HANDLE_OK'' \<or> \<not> r4_tray_owner_valid E owner
              then give (if raw = code E ''R4OS_PROGRAM_HANDLE_OK'' then code E ''R4OS_PROGRAM_HANDLE_ERROR_INVALID'' else raw, zero)
              else give (code E ''R4OS_PROGRAM_HANDLE_OK'', Some \<lparr>tr_app = app, tr_owner = owner, tr_epoch = 0\<rparr>))))))"

subsection \<open>Requests and replies\<close>

text \<open>A request is built in the caller's local object; \<open>tray_put\<close> sets one of its members.\<close>

abbreviation tray_put :: "'w platform \<Rightarrow> string \<Rightarrow> u64 \<Rightarrow> (unit, 'w) io" where
  "tray_put E m v \<equiv> put_member E (p_local E ''request'') ''R4TrayServiceRequest'' m v"

definition r4_tray_request :: "'w platform \<Rightarrow> bytes \<Rightarrow> (unit, 'w) io" where
  "r4_tray_request E owner =
     and_then (clear_obj E (p_local E ''request'') ''R4TrayServiceRequest'') (\<lambda>_.
     and_then (tray_put E ''magic'' (ucast (p_code E ''R4OS_TRAY_SERVICE_REQUEST_MAGIC''))) (\<lambda>_.
     and_then (tray_put E ''version'' (ucast (p_code E ''R4OS_TRAY_SERVICE_REQUEST_VERSION''))) (\<lambda>_.
     and_then (tray_put E ''size'' (sizeof E ''R4TrayServiceRequest'')) (\<lambda>_.
       Platform.store (member_at E (p_local E ''request'') ''R4TrayServiceRequest'' ''owner'') owner))))"

definition tray_owner :: "'w platform \<Rightarrow> tray option \<Rightarrow> bytes" where
  "tray_owner E t = (case t of None \<Rightarrow> zero_obj E ''R4ProgramProcessHandle'' | Some x \<Rightarrow> tr_owner x)"

definition tray_result :: "'w platform \<Rightarrow> bytes \<Rightarrow> i32" where
  "tray_result E v = obj_word E ''R4TrayServiceResponse'' ''result'' v"

definition r4_tray_response_valid :: "'w platform \<Rightarrow> bytes \<Rightarrow> bytes \<Rightarrow> bool" where
  "r4_tray_response_valid E v owner \<longleftrightarrow>
     tray_word E ''magic'' v = ucast (p_code E ''R4OS_TRAY_SERVICE_RESPONSE_MAGIC'') \<and>
     tray_word E ''version'' v = ucast (p_code E ''R4OS_TRAY_SERVICE_RESPONSE_VERSION'') \<and>
     tray_word E ''size'' v = sizeof E ''R4TrayServiceResponse'' \<and>
     (tray_word E ''desktop_epoch'' v \<noteq> 0 \<or> tray_result E v = tray_code E ''RESULT_NOT_FOUND'') \<and>
     tray_word E ''capacity'' v = ucast (p_code E ''R4OS_TRAY_MAX_ITEMS'') \<and>
     r4_tray_owner_equal E (obj_part E ''R4TrayServiceResponse'' ''owner'' v) owner"

subsection \<open>The call\<close>

definition tray_unsent :: "'w platform \<Rightarrow> tray_call_result" where
  "tray_unsent E = \<lparr>tc_kind = TRAY_FAILED, tc_raw = tray_code E ''RESULT_BAD_REQUEST'', tc_changed = False,
     tc_response = zero_obj E ''R4TrayServiceResponse''\<rparr>"

text \<open>What a call that did not end in a reply is reported as.\<close>

definition tray_failure :: "'w platform \<Rightarrow> service_call_result \<Rightarrow> bytes \<Rightarrow> tray_call_result" where
  "tray_failure E called v =
     (let r = \<lparr>tc_kind = TRAY_FAILED, tc_raw = sc_raw_code called, tc_changed = False, tc_response = v\<rparr> in
      if sc_kind called = CALL_TIMED_OUT then r\<lparr>tc_kind := TRAY_TIMED_OUT, tc_raw := tray_code E ''RESULT_TIMEOUT''\<rparr>
      else if sc_raw_code called \<in> {code E ''R4OS_SERVICE_API_RESULT_NO_ENDPOINT'', code E ''R4OS_SERVICE_API_RESULT_NOT_RUNNING'',
             code E ''R4OS_SERVICE_API_RESULT_BAD_HANDLE''}
      then r\<lparr>tc_kind := TRAY_NO_SERVICE\<rparr> else r)"

text \<open>The end of the call: \<open>v\<close> is the response object as the service left it.\<close>

definition tray_accept :: "'w platform \<Rightarrow> tray \<Rightarrow> service_call_result \<Rightarrow> bytes \<Rightarrow> tray_call_result \<times> tray" where
  "tray_accept E t called v =
     (if sc_kind called \<noteq> CALL_RESPONSE then (tray_failure E called v, t)
      else if \<not> r4_tray_response_valid E v (tr_owner t)
      then (\<lparr>tc_kind = TRAY_FAILED, tc_raw = code E ''R4OS_SERVICE_API_RESULT_INVALID'', tc_changed = False, tc_response = v\<rparr>, t)
      else let epoch = tray_word E ''desktop_epoch'' v in
        (\<lparr>tc_kind = TRAY_RESPONSE, tc_raw = tray_result E v, tc_changed = (tr_epoch t \<noteq> 0 \<and> tr_epoch t \<noteq> epoch), tc_response = v\<rparr>,
         t\<lparr>tr_epoch := epoch\<rparr>))"

text \<open>The connection is opened, used for one call and closed; the result of closing it is dropped.\<close>

definition tray_send ::
  "'w platform \<Rightarrow> time_codes \<Rightarrow> tray \<Rightarrow> u16 \<Rightarrow> u64 \<Rightarrow> r4_timeout \<Rightarrow> (tray_call_result \<times> tray, 'w) io" where
  "tray_send E K t op_code request timeout =
     and_then (clear_obj E (p_local E ''response'') ''R4TrayServiceResponse'') (\<lambda>_.
     and_then (r4_services_open E (Some (r4_app_services (tr_app t))) (p_local E ''R4_TRAY_SERVICE_NAME'') (Some (link_zero E))) (\<lambda>(opened, c).
       if opened \<noteq> code E ''R4OS_SERVICE_API_RESULT_OK''
       then give (\<lparr>tc_kind = TRAY_NO_SERVICE, tc_raw = opened, tc_changed = False, tc_response = zero_obj E ''R4TrayServiceResponse''\<rparr>, t)
       else and_then (r4_service_connection_call_struct E K c op_code request (ucast (sizeof E ''R4TrayServiceRequest''))
             (p_local E ''response'') (ucast (sizeof E ''R4TrayServiceResponse'')) timeout) (\<lambda>(called, c).
         and_then (r4_service_connection_close E c) (\<lambda>_.
         and_then (load_obj E (p_local E ''response'') ''R4TrayServiceResponse'') (\<lambda>v. give (tray_accept E t called v))))))"

definition r4_tray_call ::
  "'w platform \<Rightarrow> time_codes \<Rightarrow> tray option \<Rightarrow> u16 \<Rightarrow> u64 \<Rightarrow> r4_timeout \<Rightarrow> (tray_call_result \<times> tray option, 'w) io" where
  "r4_tray_call E K tray op_code request timeout =
     (case tray of
        None \<Rightarrow> give (tray_unsent E, None)
      | Some t \<Rightarrow>
          if tr_app t = None \<or> \<not> r4_tray_owner_valid E (tr_owner t) \<or> request = 0 then give (tray_unsent E, tray)
          else and_then (load_obj E (member_at E request ''R4TrayServiceRequest'' ''owner'') ''R4ProgramProcessHandle'') (\<lambda>owner.
            if \<not> r4_tray_owner_equal E owner (tr_owner t) then give (tray_unsent E, tray)
            else and_then (tray_send E K t op_code request timeout) (\<lambda>(r, t). give (r, Some t))))"

subsection \<open>Operations\<close>

abbreviation tray_op :: "'w platform \<Rightarrow> string \<Rightarrow> u16" where
  "tray_op E c \<equiv> ucast (p_code E (''R4OS_TRAY_SERVICE_OP_'' @ c))"

definition r4_tray_status ::
  "'w platform \<Rightarrow> time_codes \<Rightarrow> tray option \<Rightarrow> u64 \<Rightarrow> r4_timeout \<Rightarrow> (tray_call_result \<times> tray option, 'w) io" where
  "r4_tray_status E K tray item timeout =
     and_then (r4_tray_request E (tray_owner E tray)) (\<lambda>_.
     and_then (tray_put E ''item_id'' item) (\<lambda>_.
       r4_tray_call E K tray (tray_op E ''STATUS'') (p_local E ''request'') timeout))"

definition item_bad :: "'w platform \<Rightarrow> tray_item \<Rightarrow> bool" where
  "item_bad E i \<longleftrightarrow> ti_id i = 0 \<or> ti_revision i = 0 \<or> ti_icon i = 0 \<or>
     ucast (ti_tooltip_length i) > p_code E ''R4OS_TRAY_TOOLTIP_BYTES'' \<or> (ti_tooltip_length i \<noteq> 0 \<and> ti_tooltip i = 0) \<or>
     ti_flags i AND NOT (p_code E ''R4OS_TRAY_ITEM_FLAG_VISIBLE'' OR p_code E ''R4OS_TRAY_ITEM_FLAG_ENABLED'' OR
       p_code E ''R4OS_TRAY_ITEM_FLAG_ATTENTION'') \<noteq> 0"

text \<open>The members of an item, its tooltip bytes and its icon, four bytes a pixel.\<close>

definition put_item :: "'w platform \<Rightarrow> tray_item \<Rightarrow> (unit, 'w) io" where
  "put_item E i =
     (let request = p_local E ''request''; T = ''R4TrayServiceRequest'' in
      and_then (each (\<lambda>(m, v). tray_put E m v)
        [(''item_id'', ti_id i), (''item_revision'', ti_revision i), (''item_flags'', ucast (ti_flags i)),
         (''status_flags'', ucast (ti_status_flags i)), (''tooltip_length'', ucast (ti_tooltip_length i)),
         (''icon_width'', ucast (p_code E ''R4OS_TRAY_ICON_WIDTH'')), (''icon_height'', ucast (p_code E ''R4OS_TRAY_ICON_HEIGHT'')),
         (''icon_format'', ucast (p_code E ''R4OS_TRAY_ICON_FORMAT_ARGB32''))]) (\<lambda>_.
      and_then (copy_range (member_at E request T ''tooltip'') (ti_tooltip i) (unat (ti_tooltip_length i))) (\<lambda>_.
        copy_range (member_at E request T ''icon'') (ti_icon i) (4 * unat (p_code E ''R4OS_TRAY_ICON_PIXEL_COUNT'')))))"

definition r4_tray_upsert ::
  "'w platform \<Rightarrow> time_codes \<Rightarrow> tray option \<Rightarrow> tray_item option \<Rightarrow> r4_timeout \<Rightarrow> (tray_call_result \<times> tray option, 'w) io" where
  "r4_tray_upsert E K tray item timeout =
     and_then (r4_tray_request E (tray_owner E tray)) (\<lambda>_.
       case item of
         None \<Rightarrow> give (tray_unsent E, tray)
       | Some i \<Rightarrow>
           if item_bad E i then give (tray_unsent E, tray)
           else and_then (put_item E i) (\<lambda>_. r4_tray_call E K tray (tray_op E ''UPSERT'') (p_local E ''request'') timeout))"

definition r4_tray_remove ::
  "'w platform \<Rightarrow> time_codes \<Rightarrow> tray option \<Rightarrow> u64 \<Rightarrow> r4_timeout \<Rightarrow> (tray_call_result \<times> tray option, 'w) io" where
  "r4_tray_remove E K tray item timeout =
     and_then (r4_tray_request E (tray_owner E tray)) (\<lambda>_.
       if item = 0 then give (tray_unsent E, tray)
       else and_then (tray_put E ''item_id'' item) (\<lambda>_.
         r4_tray_call E K tray (tray_op E ''REMOVE'') (p_local E ''request'') timeout))"

text \<open>The service is asked to answer one tick before the caller's own wait ends; the sum saturates.\<close>

definition tray_deadline :: "u64 \<Rightarrow> u64 \<Rightarrow> u64" where
  "tray_deadline now budget =
     (let server = (if budget > 0 then budget - 1 else 0) in if - 1 - now < server then - 1 else now + server)"

definition r4_tray_wait_event ::
  "'w platform \<Rightarrow> time_codes \<Rightarrow> tray option \<Rightarrow> u64 \<Rightarrow> r4_timeout \<Rightarrow> (tray_call_result \<times> tray option, 'w) io" where
  "r4_tray_wait_event E K tray after_sequence timeout =
     (let app = Option.bind tray tr_app in
      and_then (r4_tray_request E (tray_owner E tray)) (\<lambda>_.
      and_then (r4_services_monotonic_hz E app) (\<lambda>hz.
        case (if timeout_kind timeout = kind_forever K then None else timeout_ticks K timeout hz) of
          None \<Rightarrow> give (tray_unsent E, tray)
        | Some budget \<Rightarrow>
            and_then (r4_app_ticks E app) (\<lambda>now.
            and_then (tray_put E ''after_sequence'' after_sequence) (\<lambda>_.
            and_then (tray_put E ''deadline_tick'' (tray_deadline now budget)) (\<lambda>_.
              r4_tray_call E K tray (tray_op E ''WAIT_EVENT'') (p_local E ''request'') timeout))))))"

subsection \<open>Runs of operations\<close>

inductive tray_step :: "'w platform \<Rightarrow> time_codes \<Rightarrow> tray \<times> 'w machine \<Rightarrow> tray_call_result \<Rightarrow> tray \<times> 'w machine \<Rightarrow> bool" for E K where
  status: "r4_tray_status E K (Some t) item timeout s = Some ((r, Some t'), s') \<Longrightarrow> tray_step E K (t, s) r (t', s')"
| upsert: "r4_tray_upsert E K (Some t) new timeout s = Some ((r, Some t'), s') \<Longrightarrow> tray_step E K (t, s) r (t', s')"
| remove: "r4_tray_remove E K (Some t) item timeout s = Some ((r, Some t'), s') \<Longrightarrow> tray_step E K (t, s) r (t', s')"
| wait: "r4_tray_wait_event E K (Some t) after_sequence timeout s = Some ((r, Some t'), s') \<Longrightarrow> tray_step E K (t, s) r (t', s')"

inductive_cases tray_stepE: "tray_step E K (t, s) r (t', s')"

inductive tray_run :: "'w platform \<Rightarrow> time_codes \<Rightarrow> tray \<times> 'w machine \<Rightarrow> tray_call_result list \<Rightarrow> tray \<times> 'w machine \<Rightarrow> bool" for E K where
  stop: "tray_run E K c [] c"
| step: "tray_step E K c r c1 \<Longrightarrow> tray_run E K c1 rs c2 \<Longrightarrow> tray_run E K c (r # rs) c2"

text \<open>
  What a program may rely on, given the epoch \<open>e\<close> it knows: a reply is valid and for this owner, and
  it is marked exactly when it comes from another epoch; a failed call changes nothing.
\<close>

fun replies_ok :: "'w platform \<Rightarrow> bytes \<Rightarrow> u64 \<Rightarrow> tray_call_result list \<Rightarrow> bool" where
  "replies_ok E owner e [] \<longleftrightarrow> True"
| "replies_ok E owner e (r # rs) \<longleftrightarrow>
     (if tc_kind r = TRAY_RESPONSE
      then r4_tray_response_valid E (tc_response r) owner \<and> tc_raw r = tray_result E (tc_response r) \<and>
        (tc_changed r \<longleftrightarrow> e \<noteq> 0 \<and> e \<noteq> tray_word E ''desktop_epoch'' (tc_response r)) \<and>
        replies_ok E owner (tray_word E ''desktop_epoch'' (tc_response r)) rs
      else \<not> tc_changed r \<and> replies_ok E owner e rs)"

fun known_epoch :: "'w platform \<Rightarrow> u64 \<Rightarrow> tray_call_result list \<Rightarrow> u64" where
  "known_epoch E e [] = e"
| "known_epoch E e (r # rs) =
     known_epoch E (if tc_kind r = TRAY_RESPONSE then tray_word E ''desktop_epoch'' (tc_response r) else e) rs"

definition tray_reports :: "'w platform \<Rightarrow> tray \<Rightarrow> tray_call_result \<Rightarrow> tray \<Rightarrow> bool" where
  "tray_reports E t r t' \<longleftrightarrow> t' = t\<lparr>tr_epoch := known_epoch E (tr_epoch t) [r]\<rparr> \<and> replies_ok E (tr_owner t) (tr_epoch t) [r]"

named_theorems tray_facts \<open>what each way a tray call ends reports\<close>

lemma unsent_reports [tray_facts]: "tray_reports E t (tray_unsent E) t"
  by (simp add: tray_reports_def tray_unsent_def)

lemma no_service_reports [tray_facts]: "tray_reports E t \<lparr>tc_kind = TRAY_NO_SERVICE, tc_raw = rc, tc_changed = False, tc_response = v\<rparr> t"
  by (simp add: tray_reports_def)

lemma accept_reports [tray_facts]: "tray_accept E t called v = (r, t') \<Longrightarrow> tray_reports E t r t'"
  by (auto simp: tray_reports_def tray_accept_def tray_failure_def Let_def split: if_splits)

lemma send_reports: "tray_send E K t op_code rq timeout s = Some ((r, t'), s') \<Longrightarrow> tray_reports E t r t'"
  by (auto simp: tray_send_def and_then_Some_iff give_def split: if_split_asm intro: tray_facts)

lemma call_reports:
  assumes "r4_tray_call E K (Some t) op_code rq timeout s = Some ((r, Some t'), s')"
  shows "tray_reports E t r t'"
proof -
  from assms consider "r = tray_unsent E" "t' = t"
    | s1 s2 where "tray_send E K t op_code rq timeout s1 = Some ((r, t'), s2)"
    by (auto simp: r4_tray_call_def and_then_Some_iff give_def split: if_split_asm)
  then show ?thesis by cases (auto intro: tray_facts send_reports)
qed

lemma step_reports: "tray_step E K (t, s) r (t', s') \<Longrightarrow> tray_reports E t r t'"
  by (elim tray_stepE)
    (auto simp: r4_tray_status_def r4_tray_upsert_def r4_tray_remove_def r4_tray_wait_event_def and_then_Some_iff give_def Let_def
      split: if_split_asm option.split_asm intro: tray_facts call_reports)

text \<open>
  C28: Along every run of tray operations the handle keeps its application and owner; every reply a
  caller is given is a valid reply for that owner whose result is the one reported; it is marked as a
  change of epoch exactly when the last accepted reply came from another desktop epoch; calls that
  fail are never marked and leave the known epoch alone.\<close>

theorem tray_run_reports:
  assumes "tray_run E K (t, s) rs (t', s')"
  shows "tr_app t' = tr_app t \<and> tr_owner t' = tr_owner t \<and> tr_epoch t' = known_epoch E (tr_epoch t) rs \<and>
    replies_ok E (tr_owner t) (tr_epoch t) rs"
  using assms
proof (induction "(t, s)" rs "(t', s')" arbitrary: t s rule: tray_run.induct)
  case (step r c1 rs)
  obtain t1 s1 where c1: "c1 = (t1, s1)" by (cases c1)
  have "tray_reports E t r t1" by (rule step_reports) (use step(1) c1 in simp)
  with step(3) [OF c1] show ?case by (auto simp: tray_reports_def split: if_split_asm)
qed simp

text \<open>The service is asked to answer within the caller's wait and never before now.\<close>

lemma tray_deadline_bounds:
  "now \<le> tray_deadline now budget" "unat (tray_deadline now budget) = min (2 ^ 64 - 1) (unat now + (unat budget - 1))"
proof -
  have now: "unat now < 2 ^ 64" using unsigned_less [of now] by simp
  have ones: "unat (- 1 :: u64) = 2 ^ 64 - 1" by (simp add: unsigned_minus_1_eq_mask mask_eq_exp_minus_1)
  have top: "unat (- 1 - now) = 2 ^ 64 - 1 - unat now"
    using unat_sub [of now "- 1"] ones by simp
  define b where "b = (if budget > 0 then budget - 1 else 0)"
  have server: "unat b = unat budget - 1"
    by (cases "budget = 0") (auto simp: b_def unat_minus_one word_gt_0)
  have deadline: "tray_deadline now budget = (if - 1 - now < b then - 1 else now + b)"
    by (simp add: tray_deadline_def b_def Let_def)
  show amount: "unat (tray_deadline now budget) = min (2 ^ 64 - 1) (unat now + (unat budget - 1))"
  proof (cases "- 1 - now < b")
    case True
    then have "2 ^ 64 - 1 - unat now < unat b" using top by (simp only: word_less_nat_alt)
    moreover have "unat (tray_deadline now budget) = 2 ^ 64 - 1" using True ones unfolding deadline by (simp only: if_True)
    ultimately show ?thesis using now server by linarith
  next
    case False
    then have le: "unat now + unat b < 2 ^ 64" using top now by (simp only: word_less_nat_alt)
    have "unat (tray_deadline now budget) = unat now + unat b" unfolding deadline using False le by (simp add: unat_word_ariths(1))
    then show ?thesis using le server by linarith
  qed
  show "now \<le> tray_deadline now budget" using amount now by (simp add: word_le_nat_alt)
qed

subsection \<open>A sample tray\<close>

definition tray_layout :: "string \<Rightarrow> (string \<times> nat) list" where
  "tray_layout T =
     (if T = ''R4TrayServiceRequest'' then [(''magic'', 1), (''version'', 1), (''size'', 1), (''owner'', 3), (''item_id'', 1)]
      else if T = ''R4TrayServiceResponse''
      then [(''magic'', 1), (''version'', 1), (''size'', 1), (''desktop_epoch'', 1), (''capacity'', 1), (''owner'', 3), (''result'', 1)]
      else [])"

definition tray_platform :: "bytes platform" where
  "tray_platform = service_platform tray_layout (\<lambda>x. if x = ''R4OS_TRAY_SERVICE_RESPONSE_MAGIC'' then 11
     else if x = ''R4OS_TRAY_SERVICE_RESPONSE_VERSION'' then 1 else if x = ''R4OS_TRAY_MAX_ITEMS'' then 8 else 0)"

definition sample_tray :: tray where
  "sample_tray = \<lparr>tr_app = Some service_app, tr_owner = [4, 0, 6], tr_epoch = 3\<rparr>"

definition tray_start :: "bytes machine" where
  "tray_start = service_start [11, 1, 9, 5, 8, 4, 0, 6, 0]"

lemma tray_sample_run:
  "\<exists>r s'. r4_tray_status tray_platform sample_codes (Some sample_tray) 2 poll_timeout tray_start =
     Some ((r, Some (sample_tray\<lparr>tr_epoch := 5\<rparr>)), s') \<and> tc_kind r = TRAY_RESPONSE \<and> tc_changed r"
  by (simp add: r4_tray_status_def r4_tray_request_def tray_owner_def r4_tray_call_def r4_tray_owner_valid_def r4_tray_owner_equal_def
    valid_process_def same_process_def member_at_def tray_send_def tray_accept_def r4_tray_response_valid_def tray_result_def obj_part_def
    tray_platform_def tray_layout_def sample_tray_def tray_start_def exchange_eval service_eval sample_codes_def Let_def
    cong: run_congs del: load_bytes.simps store_bytes.simps)

theorem tray_run_reports_witness:
  "\<exists>r s'. tray_run tray_platform sample_codes (sample_tray, tray_start) [r] (sample_tray\<lparr>tr_epoch := 5\<rparr>, s') \<and> tc_kind r = TRAY_RESPONSE \<and>
     tc_changed r \<and> replies_ok tray_platform [4, 0, 6] 3 [r]"
proof -
  obtain r s' where run: "r4_tray_status tray_platform sample_codes (Some sample_tray) 2 poll_timeout tray_start =
     Some ((r, Some (sample_tray\<lparr>tr_epoch := 5\<rparr>)), s')" and r: "tc_kind r = TRAY_RESPONSE" "tc_changed r"
    using tray_sample_run by blast
  have "tray_run tray_platform sample_codes (sample_tray, tray_start) [r] (sample_tray\<lparr>tr_epoch := 5\<rparr>, s')"
    by (rule tray_run.step [OF tray_step.status [OF run] tray_run.stop])
  from tray_run_reports [OF this] this r show ?thesis by (auto simp: sample_tray_def)
qed

end
