(* ===== verification/Processes.thy ===== *)
theory Processes
  imports Handles
begin

text \<open>
  The process half of \<open>Shared/C/include/r4os/app_resources.h\<close>: starting, opening, waiting for and
  reaping processes by exact generation, and observing them. A process handle is a value of the
  program; the platform sees a local copy of its three words.
\<close>

subsection \<open>Data\<close>

record r4_resources =
  rs_app :: "r4_app option"

datatype resource_wait_kind = WAIT_EXITED | WAIT_BLOCKED | WAIT_EXPIRED | WAIT_REFUSED

record resource_wait =
  rw_kind :: resource_wait_kind
  rw_amount :: i32

record r4_process =
  ps_app :: "r4_app option"
  ps_raw :: u32
  ps_owned :: u8
  ps_generation :: u64
  ps_handle_reserved :: u32
  ps_extension_reserved :: u32

definition process_zero :: r4_process where
  "process_zero = \<lparr>ps_app = None, ps_raw = 0, ps_owned = 0, ps_generation = 0, ps_handle_reserved = 0, ps_extension_reserved = 0\<rparr>"

definition r4_app_resources :: "r4_app option \<Rightarrow> r4_resources" where
  "r4_app_resources app = \<lparr>rs_app = app\<rparr>"

text \<open>\<open>resources != 0 && resources->app != 0 ? resources->app : 0\<close>\<close>

definition resources_app :: "r4_resources option \<Rightarrow> r4_app option" where
  "resources_app resources = Option.bind resources rs_app"

definition r4os_process_valid :: "r4_process option \<Rightarrow> bool" where
  "r4os_process_valid process =
     (case process of
        None \<Rightarrow> False
      | Some p \<Rightarrow> ps_app p \<noteq> None \<and> ps_raw p \<noteq> 0 \<and> ps_generation p \<noteq> 0 \<and> ps_handle_reserved p = 0 \<and> ps_extension_reserved p = 0)"

definition r4os_process_invalidate :: "r4_process \<Rightarrow> r4_process" where
  "r4os_process_invalidate p = p\<lparr>ps_raw := 0, ps_generation := 0, ps_handle_reserved := 0, ps_extension_reserved := 0\<rparr>"

subsection \<open>The local copy of a handle\<close>

text \<open>\<open>r4os_process_abi_handle\<close> fills the local object whose address is passed on.\<close>

abbreviation handle_local :: "'w platform \<Rightarrow> u64" where
  "handle_local E \<equiv> p_local E ''handle''"

definition clear_handle :: "'w platform \<Rightarrow> (unit, 'w) io" where
  "clear_handle E = clear_obj E (handle_local E) ''R4ProgramProcessHandle''"

definition r4os_process_abi_handle :: "'w platform \<Rightarrow> r4_process option \<Rightarrow> (unit, 'w) io" where
  "r4os_process_abi_handle E process =
     and_then (clear_handle E) (\<lambda>_.
       case process of
         None \<Rightarrow> give ()
       | Some p \<Rightarrow>
           and_then (put_member E (handle_local E) ''R4ProgramProcessHandle'' ''instance_id'' (ucast (ps_raw p))) (\<lambda>_.
           and_then (put_member E (handle_local E) ''R4ProgramProcessHandle'' ''reserved'' (ucast (ps_handle_reserved p))) (\<lambda>_.
             put_member E (handle_local E) ''R4ProgramProcessHandle'' ''generation'' (ps_generation p))))"

definition r4os_process_store_abi_handle :: "'w platform \<Rightarrow> r4_process \<Rightarrow> bytes \<Rightarrow> r4_process" where
  "r4os_process_store_abi_handle E p h =
     p\<lparr>ps_raw := obj_word E ''R4ProgramProcessHandle'' ''instance_id'' h,
       ps_generation := obj_word E ''R4ProgramProcessHandle'' ''generation'' h,
       ps_handle_reserved := obj_word E ''R4ProgramProcessHandle'' ''reserved'' h, ps_extension_reserved := 0\<rparr>"

definition r4_resource_monotonic_hz :: "'w platform \<Rightarrow> r4_app option \<Rightarrow> (u32, 'w) io" where
  "r4_resource_monotonic_hz E app =
     ask (app_field E app ''time_state'') (\<lambda>ok.
       if \<not> ok then give 0
       else and_then (clear_obj E (p_local E ''state'') ''R4TimeState'') (\<lambda>_.
         and_then (app_call E app ''time_state'' [p_local E ''state''] :: (u64, 'w) io) (\<lambda>_.
         and_then (load_obj E (p_local E ''state'') ''R4TimeState'') (\<lambda>state. give (obj_word E ''R4TimeState'' ''monotonic_hz'' state)))))"

definition r4_resource_yield :: "'w platform \<Rightarrow> r4_app option \<Rightarrow> (unit, 'w) io" where
  "r4_resource_yield E app =
     (if app = None then give ()
      else ask (app_field E app ''task_yield'') (\<lambda>ok.
        if ok then and_then (app_call E app ''task_yield'' [] :: (u64, 'w) io) (\<lambda>_. give ())
        else case Option.bind app a_context of
          None \<Rightarrow> give ()
        | Some c \<Rightarrow> if c_yield c = 0 then give () else and_then (call_fn E (c_yield c) [c_address c]) (\<lambda>_. give ())))"

subsection \<open>Starting and opening\<close>

text \<open>
  Spawning, spawning with a console host and opening differ in the table, the arguments and in whether
  the handle owns its process. The caller's handle is cleared first and filled on success only.
\<close>

definition process_handle :: "'w platform \<Rightarrow> r4_app option \<Rightarrow> u8 \<Rightarrow> bytes \<Rightarrow> r4_process" where
  "process_handle E app own h = r4os_process_store_abi_handle E (process_zero\<lparr>ps_app := app, ps_owned := own\<rparr>) h"

definition process_start ::
  "'w platform \<Rightarrow> r4_app option \<Rightarrow> u8 \<Rightarrow> bool \<Rightarrow> query \<Rightarrow> (i32, 'w) io \<Rightarrow> r4_process option \<Rightarrow> (i32 \<times> r4_process option, 'w) io" where
  "process_start E app own bad has call out =
     (let zero = map_option (\<lambda>_. process_zero) out in
      if app = None \<or> out = None \<or> bad then give (code E ''R4OS_PROGRAM_HANDLE_ERROR_INVALID'', zero)
      else ask has (\<lambda>ok.
        if \<not> ok then give (code E ''R4OS_ERR_NO_FN'', zero)
        else and_then (clear_handle E) (\<lambda>_.
          and_then call (\<lambda>status.
            if status \<noteq> code E ''R4OS_PROGRAM_HANDLE_OK'' then give (status, zero)
            else and_then (load_obj E (handle_local E) ''R4ProgramProcessHandle'') (\<lambda>h.
              give (status, Some (process_handle E app own h)))))))"

definition argument_text :: "'w platform \<Rightarrow> u64 \<Rightarrow> u64" where
  "argument_text E args = (if args \<noteq> 0 then args else p_local E ''empty'')"

definition r4_resources_spawn ::
  "'w platform \<Rightarrow> r4_resources option \<Rightarrow> u64 \<Rightarrow> u64 \<Rightarrow> u32 \<Rightarrow> r4_process option \<Rightarrow> (i32 \<times> r4_process option, 'w) io" where
  "r4_resources_spawn E resources path args policy out =
     (let app = resources_app resources in
      process_start E app 1 (path = 0) (app_field E app ''program_spawn_handle'')
        (app_call E app ''program_spawn_handle'' [path, argument_text E args, ucast policy, handle_local E]) out)"

definition r4os_spawn_with_console_host ::
  "'w platform \<Rightarrow> r4_resources option \<Rightarrow> u64 \<Rightarrow> u64 \<Rightarrow> u32 \<Rightarrow> u32 \<Rightarrow> r4_process option \<Rightarrow> (i32 \<times> r4_process option, 'w) io" where
  "r4os_spawn_with_console_host E resources path args policy host out =
     (let app = resources_app resources in
      process_start E app 1 (path = 0) (desk_app_field E app ''program_spawn_with_console_host_handle'')
        (desk_app_call E app ''program_spawn_with_console_host_handle''
          [path, argument_text E args, ucast policy, ucast host, handle_local E]) out)"

definition r4_resources_open_process ::
  "'w platform \<Rightarrow> r4_resources option \<Rightarrow> u32 \<Rightarrow> r4_process option \<Rightarrow> (i32 \<times> r4_process option, 'w) io" where
  "r4_resources_open_process E resources instance_v out =
     (let app = resources_app resources in
      process_start E app 0 (instance_v = 0) (app_field E app ''program_open_handle'')
        (app_call E app ''program_open_handle'' [ucast instance_v, handle_local E]) out)"

text \<open>\<open>handle\<close> is the address of the caller's handle object.\<close>

definition r4_resources_borrow_process ::
  "'w platform \<Rightarrow> r4_resources option \<Rightarrow> u64 \<Rightarrow> r4_process option \<Rightarrow> (i32 \<times> r4_process option, 'w) io" where
  "r4_resources_borrow_process E resources handle_p out =
     (let app = resources_app resources; zero = map_option (\<lambda>_. process_zero) out;
          refuse = (code E ''R4OS_PROGRAM_HANDLE_ERROR_INVALID'', zero) in
      if app = None \<or> handle_p = 0 \<or> out = None then give refuse
      else and_then (load_obj E handle_p ''R4ProgramProcessHandle'') (\<lambda>h.
        let p = process_handle E app 0 h in
        if ps_raw p = 0 \<or> ps_generation p = 0 \<or> ps_handle_reserved p \<noteq> 0 then give refuse
        else give (code E ''R4OS_PROGRAM_HANDLE_OK'', Some p)))"

subsection \<open>Operations of a handle\<close>

text \<open>The test and the call the single operations share: \<open>args\<close> follow the handle's address.\<close>

definition process_op ::
  "'w platform \<Rightarrow> r4_process option \<Rightarrow> bool \<Rightarrow> string \<Rightarrow> u64 list \<Rightarrow> (i32, 'w) io" where
  "process_op E process bad slot args =
     (case process of
        None \<Rightarrow> give (code E ''R4OS_PROGRAM_HANDLE_ERROR_INVALID'')
      | Some p \<Rightarrow>
          if bad then give (code E ''R4OS_PROGRAM_HANDLE_ERROR_INVALID'')
          else if \<not> r4os_process_valid process then give (code E ''R4OS_ERR_CLOSED'')
          else ask (app_field E (ps_app p) slot) (\<lambda>ok.
            if \<not> ok then give (code E ''R4OS_ERR_NO_FN'')
            else and_then (r4os_process_abi_handle E process) (\<lambda>_. app_call E (ps_app p) slot (handle_local E # args))))"

definition r4os_process_status :: "'w platform \<Rightarrow> r4_process option \<Rightarrow> u64 \<Rightarrow> (i32, 'w) io" where
  "r4os_process_status E process out = process_op E process (out = 0) ''program_handle_status'' [out]"

definition r4os_process_request_close :: "'w platform \<Rightarrow> r4_process option \<Rightarrow> (i32, 'w) io" where
  "r4os_process_request_close E process = process_op E process False ''program_handle_request_close'' []"

definition r4os_process_kill :: "'w platform \<Rightarrow> r4_process option \<Rightarrow> (i32, 'w) io" where
  "r4os_process_kill E process = process_op E process False ''program_handle_kill'' []"

definition clear_completion :: "'w platform \<Rightarrow> u64 \<Rightarrow> (unit, 'w) io" where
  "clear_completion E out = (if out \<noteq> 0 then clear_obj E out ''R4ProgramProcessCompletion'' else give ())"

definition r4os_process_wait_ready :: "'w platform \<Rightarrow> time_codes \<Rightarrow> r4_process option \<Rightarrow> r4_timeout \<Rightarrow> u64 \<Rightarrow> (i32, 'w) io" where
  "r4os_process_wait_ready E K process timeout out =
     and_then (clear_completion E out) (\<lambda>_.
       case process of
         None \<Rightarrow> give (code E ''R4OS_PROGRAM_HANDLE_ERROR_INVALID'')
       | Some p \<Rightarrow>
           if out = 0 then give (code E ''R4OS_PROGRAM_HANDLE_ERROR_INVALID'')
           else if \<not> r4os_process_valid process then give (code E ''R4OS_ERR_CLOSED'')
           else ask (app_field E (ps_app p) ''program_handle_wait'') (\<lambda>ok.
             if \<not> ok then give (code E ''R4OS_ERR_NO_FN'')
             else and_then (r4_resource_monotonic_hz E (ps_app p)) (\<lambda>hz.
               case timeout_ticks K timeout hz of
                 None \<Rightarrow> give (code E ''R4OS_PROGRAM_HANDLE_ERROR_INVALID'')
               | Some ticks \<Rightarrow>
                   and_then (r4os_process_abi_handle E process) (\<lambda>_.
                     app_call E (ps_app p) ''program_handle_wait'' [handle_local E, ticks, out]))))"

definition r4os_process_completion_read ::
  "'w platform \<Rightarrow> r4_process option \<Rightarrow> u32 \<Rightarrow> u64 \<Rightarrow> u32 \<Rightarrow> u64 \<Rightarrow> (i32, 'w) io" where
  "r4os_process_completion_read E process offset out capacity out_read =
     and_then (if out_read \<noteq> 0 then Platform.store out_read (replicate 4 0) else give ()) (\<lambda>_.
       process_op E process (out = 0 \<or> out_read = 0) ''program_completion_read'' [ucast offset, out, ucast capacity, out_read])"

definition r4os_process_reap :: "'w platform \<Rightarrow> r4_process option \<Rightarrow> u64 \<Rightarrow> (i32 \<times> r4_process option, 'w) io" where
  "r4os_process_reap E process out =
     and_then (clear_completion E out) (\<lambda>_.
       case process of
         None \<Rightarrow> give (code E ''R4OS_PROGRAM_HANDLE_ERROR_INVALID'', process)
       | Some p \<Rightarrow>
           if out = 0 then give (code E ''R4OS_PROGRAM_HANDLE_ERROR_INVALID'', process)
           else if \<not> r4os_process_valid process then give (code E ''R4OS_ERR_CLOSED'', process)
           else if ps_owned p = 0 then give (code E ''R4OS_ERR_NOT_OWNED'', process)
           else ask (app_field E (ps_app p) ''program_handle_reap'') (\<lambda>ok.
             if \<not> ok then give (code E ''R4OS_ERR_NO_FN'', process)
             else and_then (r4os_process_abi_handle E process) (\<lambda>_.
               and_then (app_call E (ps_app p) ''program_handle_reap'' [handle_local E, out]) (\<lambda>status.
                 give (status, Some (if status = code E ''R4OS_PROGRAM_HANDLE_OK'' then r4os_process_invalidate p else p))))))"

definition r4os_process_wait ::
  "'w platform \<Rightarrow> time_codes \<Rightarrow> r4_process option \<Rightarrow> r4_timeout \<Rightarrow> u64 \<Rightarrow> (i32 \<times> r4_process option, 'w) io" where
  "r4os_process_wait E K process timeout out =
     (case process of
        None \<Rightarrow> give (code E ''R4OS_PROGRAM_HANDLE_ERROR_INVALID'', process)
      | Some p \<Rightarrow>
          if out = 0 then give (code E ''R4OS_PROGRAM_HANDLE_ERROR_INVALID'', process)
          else if \<not> r4os_process_valid process then give (code E ''R4OS_ERR_CLOSED'', process)
          else if ps_owned p = 0 then give (code E ''R4OS_ERR_NOT_OWNED'', process)
          else and_then (clear_obj E (p_local E ''observed'') ''R4ProgramProcessCompletion'') (\<lambda>_.
            and_then (r4os_process_wait_ready E K process timeout (p_local E ''observed'')) (\<lambda>status.
              if status \<noteq> code E ''R4OS_PROGRAM_HANDLE_OK'' then give (status, process)
              else r4os_process_reap E process out)))"

text \<open>The two shorter forms read the exit code from a local completion; only the wait can expire.\<close>

definition completion_wait :: "'w platform \<Rightarrow> bool \<Rightarrow> i32 \<times> r4_process option \<Rightarrow> (resource_wait \<times> r4_process option, 'w) io" where
  "completion_wait E expires = (\<lambda>(status, process).
     if expires \<and> status = code E ''R4OS_PROGRAM_HANDLE_ERROR_TIMEOUT'' then give (\<lparr>rw_kind = WAIT_EXPIRED, rw_amount = 0\<rparr>, process)
     else if status = code E ''R4OS_PROGRAM_HANDLE_ERROR_WOULD_BLOCK'' then give (\<lparr>rw_kind = WAIT_BLOCKED, rw_amount = 0\<rparr>, process)
     else if status \<noteq> code E ''R4OS_PROGRAM_HANDLE_OK'' then give (\<lparr>rw_kind = WAIT_REFUSED, rw_amount = status\<rparr>, process)
     else and_then (load_obj E (p_local E ''completion'') ''R4ProgramProcessCompletion'') (\<lambda>c.
       give (\<lparr>rw_kind = WAIT_EXITED, rw_amount = obj_word E ''R4ProgramProcessCompletion'' ''exit_code'' c\<rparr>, process)))"

definition r4_process_reap :: "'w platform \<Rightarrow> r4_process option \<Rightarrow> (resource_wait \<times> r4_process option, 'w) io" where
  "r4_process_reap E process =
     and_then (clear_obj E (p_local E ''completion'') ''R4ProgramProcessCompletion'') (\<lambda>_.
     and_then (r4os_process_reap E process (p_local E ''completion'')) (completion_wait E False))"

definition r4_process_wait ::
  "'w platform \<Rightarrow> time_codes \<Rightarrow> r4_process option \<Rightarrow> r4_timeout \<Rightarrow> (resource_wait \<times> r4_process option, 'w) io" where
  "r4_process_wait E K process timeout =
     and_then (clear_obj E (p_local E ''completion'') ''R4ProgramProcessCompletion'') (\<lambda>_.
     and_then (r4os_process_wait E K process timeout (p_local E ''completion'')) (completion_wait E True))"

subsection \<open>Observations\<close>

definition r4_resources_observation_retain ::
  "'w platform \<Rightarrow> r4_resources option \<Rightarrow> u64 \<Rightarrow> u32 \<Rightarrow> u64 \<Rightarrow> (i32, 'w) io" where
  "r4_resources_observation_retain E resources process_p flags out =
     (let app = resources_app resources in
      if app = None \<or> process_p = 0 \<or> out = 0 then give (code E ''R4OS_PROGRAM_HANDLE_ERROR_INVALID'')
      else ask (app_field E app ''program_observation_retain'') (\<lambda>ok.
        if \<not> ok then give (code E ''R4OS_ERR_NO_FN'') else app_call E app ''program_observation_retain'' [process_p, ucast flags, out]))"

definition r4_resources_observation_wait ::
  "'w platform \<Rightarrow> time_codes \<Rightarrow> r4_resources option \<Rightarrow> u64 \<Rightarrow> r4_timeout \<Rightarrow> u64 \<Rightarrow> (i32, 'w) io" where
  "r4_resources_observation_wait E K resources observation timeout out =
     (let app = resources_app resources in
      if app = None \<or> observation = 0 \<or> out = 0 then give (code E ''R4OS_PROGRAM_HANDLE_ERROR_INVALID'')
      else ask (app_field E app ''program_observation_wait'') (\<lambda>ok.
        if \<not> ok then give (code E ''R4OS_ERR_NO_FN'')
        else and_then (r4_resource_monotonic_hz E app) (\<lambda>hz.
          case timeout_ticks K timeout hz of
            None \<Rightarrow> give (code E ''R4OS_PROGRAM_HANDLE_ERROR_INVALID'')
          | Some ticks \<Rightarrow> app_call E app ''program_observation_wait'' [observation, ticks, out])))"

definition r4_resources_observation_read ::
  "'w platform \<Rightarrow> r4_resources option \<Rightarrow> u64 \<Rightarrow> u32 \<Rightarrow> u64 \<Rightarrow> u32 \<Rightarrow> u64 \<Rightarrow> (i32, 'w) io" where
  "r4_resources_observation_read E resources observation offset out capacity out_read =
     (let app = resources_app resources in
      if app = None \<or> observation = 0 \<or> out = 0 \<or> out_read = 0 then give (code E ''R4OS_PROGRAM_HANDLE_ERROR_INVALID'')
      else ask (app_field E app ''program_observation_read'') (\<lambda>ok.
        if \<not> ok then give (code E ''R4OS_ERR_NO_FN'')
        else app_call E app ''program_observation_read'' [observation, ucast offset, out, ucast capacity, out_read]))"

definition r4_resources_observation_release :: "'w platform \<Rightarrow> r4_resources option \<Rightarrow> u64 \<Rightarrow> (i32, 'w) io" where
  "r4_resources_observation_release E resources observation =
     (let app = resources_app resources in
      if app = None \<or> observation = 0 then give (code E ''R4OS_PROGRAM_HANDLE_ERROR_INVALID'')
      else ask (app_field E app ''program_observation_release'') (\<lambda>ok.
        if \<not> ok then give (code E ''R4OS_ERR_NO_FN'') else app_call E app ''program_observation_release'' [observation]))"

end
