(* ===== verification/Requests.thy ===== *)
theory Requests
  imports Processes ServiceClient
begin

text \<open>
  The second half of \<open>Shared/C/include/r4os/app_resources.h\<close>: join handles of threads, reserved
  memory regions and asynchronous requests, with the rule that the buffers of a request belong to the
  platform until its closing is acknowledged.
\<close>

subsection \<open>Join handles\<close>

text \<open>\<open>jh_handle\<close> is the content of the member the platform is given the address of, \<open>join_local\<close>.\<close>

record join_handle =
  jh_app :: "r4_app option"
  jh_handle :: bytes
  jh_owned :: u8

abbreviation join_local :: "'w platform \<Rightarrow> u64" where
  "join_local E \<equiv> p_local E ''join''"

abbreviation join_word where "join_word E m h \<equiv> field E ''R4ProgramJoinHandle'' m h"

definition join_zero :: "'w platform \<Rightarrow> join_handle" where
  "join_zero E = \<lparr>jh_app = None, jh_handle = zero_obj E ''R4ProgramJoinHandle'', jh_owned = 0\<rparr>"

definition r4_join_handle_valid :: "'w platform \<Rightarrow> join_handle option \<Rightarrow> bool" where
  "r4_join_handle_valid E join =
     (case join of
        None \<Rightarrow> False
      | Some j \<Rightarrow> jh_app j \<noteq> None \<and> join_word E ''thread_id'' (jh_handle j) \<noteq> 0 \<and> join_word E ''instance_id'' (jh_handle j) \<noteq> 0 \<and>
          join_word E ''thread_generation'' (jh_handle j) \<noteq> 0 \<and> join_word E ''instance_generation'' (jh_handle j) \<noteq> 0 \<and>
          join_word E ''reserved'' (jh_handle j) = 0)"

definition r4_join_handle_invalidate :: "'w platform \<Rightarrow> join_handle \<Rightarrow> join_handle" where
  "r4_join_handle_invalidate E j = j\<lparr>jh_handle := zero_obj E ''R4ProgramJoinHandle''\<rparr>"

definition r4_resources_create_thread_flags ::
  "'w platform \<Rightarrow> r4_resources option \<Rightarrow> u64 \<Rightarrow> u64 \<Rightarrow> u64 \<Rightarrow> u32 \<Rightarrow> join_handle option \<Rightarrow> (i32 \<times> join_handle option, 'w) io" where
  "r4_resources_create_thread_flags E resources entry arg reserve flags out =
     (let app = resources_app resources; zero = map_option (\<lambda>_. join_zero E) out in
      if app = None \<or> out = None then give (code E ''R4OS_THREAD_ERROR_UNSUPPORTED'', zero)
      else and_then (clear_obj E (join_local E) ''R4ProgramJoinHandle'') (\<lambda>_.
        and_then (r4sys_thread_create_handle E (system_of app) entry arg reserve flags (join_local E)) (\<lambda>raw.
          if raw \<noteq> code E ''R4OS_THREAD_OK'' then give (raw, zero)
          else and_then (load_obj E (join_local E) ''R4ProgramJoinHandle'') (\<lambda>h.
            give (raw, Some \<lparr>jh_app = app, jh_handle = h, jh_owned = 1\<rparr>)))))"

definition r4_resources_create_thread ::
  "'w platform \<Rightarrow> r4_resources option \<Rightarrow> u64 \<Rightarrow> u64 \<Rightarrow> u64 \<Rightarrow> join_handle option \<Rightarrow> (i32 \<times> join_handle option, 'w) io" where
  "r4_resources_create_thread E resources entry arg reserve out = r4_resources_create_thread_flags E resources entry arg reserve 0 out"

definition r4_resources_create_compute_worker ::
  "'w platform \<Rightarrow> r4_resources option \<Rightarrow> u64 \<Rightarrow> u64 \<Rightarrow> u64 \<Rightarrow> join_handle option \<Rightarrow> (i32 \<times> join_handle option, 'w) io" where
  "r4_resources_create_compute_worker E resources entry arg reserve out =
     r4_resources_create_thread_flags E resources entry arg reserve (p_code E ''R4OS_THREAD_CREATE_FLAG_COMPUTE_WORKER'') out"

text \<open>A call on the handle's member: \<open>call\<close> is given the system handle and the member's address.\<close>

definition join_op :: "'w platform \<Rightarrow> join_handle option \<Rightarrow> (r4_sys option \<Rightarrow> u64 \<Rightarrow> (i32, 'w) io) \<Rightarrow> (i32, 'w) io" where
  "join_op E join call =
     (case join of
        None \<Rightarrow> give (code E ''R4OS_ERR_CLOSED'')
      | Some j \<Rightarrow>
          if \<not> r4_join_handle_valid E join then give (code E ''R4OS_ERR_CLOSED'')
          else and_then (Platform.store (join_local E) (jh_handle j)) (\<lambda>_. call (system_of (jh_app j)) (join_local E)))"

definition r4_join_status :: "'w platform \<Rightarrow> join_handle option \<Rightarrow> u64 \<Rightarrow> (i32, 'w) io" where
  "r4_join_status E join out = join_op E join (\<lambda>sys h. r4sys_thread_handle_status E sys h out)"

definition r4_join_placement :: "'w platform \<Rightarrow> join_handle option \<Rightarrow> u64 \<Rightarrow> u64 \<Rightarrow> u32 \<Rightarrow> (i32, 'w) io" where
  "r4_join_placement E join info cpus capacity = join_op E join (\<lambda>sys h. r4sys_thread_placement_get E sys h info cpus capacity)"

definition r4_join_set_placement :: "'w platform \<Rightarrow> join_handle option \<Rightarrow> u64 \<Rightarrow> u64 \<Rightarrow> u32 \<Rightarrow> (i32, 'w) io" where
  "r4_join_set_placement E join request cpus count = join_op E join (\<lambda>sys h. r4sys_thread_placement_set E sys h request cpus count)"

text \<open>The thread's handle dies with a successful join, and when the platform no longer knows it.\<close>

definition join_result :: "'w platform \<Rightarrow> i32 \<Rightarrow> i32 \<Rightarrow> join_handle \<Rightarrow> resource_wait \<times> join_handle" where
  "join_result E raw exit_code j =
     (if raw = code E ''R4OS_THREAD_ERROR_TIMEOUT'' then (\<lparr>rw_kind = WAIT_EXPIRED, rw_amount = 0\<rparr>, j)
      else if raw = code E ''R4OS_THREAD_ERROR_NOT_FOUND''
      then (\<lparr>rw_kind = WAIT_REFUSED, rw_amount = code E ''R4OS_ERR_CLOSED''\<rparr>, r4_join_handle_invalidate E j)
      else if raw \<noteq> code E ''R4OS_THREAD_OK'' then (\<lparr>rw_kind = WAIT_REFUSED, rw_amount = raw\<rparr>, j)
      else (\<lparr>rw_kind = WAIT_EXITED, rw_amount = exit_code\<rparr>, r4_join_handle_invalidate E j))"

definition r4_join_wait ::
  "'w platform \<Rightarrow> time_codes \<Rightarrow> join_handle option \<Rightarrow> r4_timeout \<Rightarrow> (resource_wait \<times> join_handle option, 'w) io" where
  "r4_join_wait E K join timeout =
     (let refuse = (\<lambda>rc. give (\<lparr>rw_kind = WAIT_REFUSED, rw_amount = rc\<rparr>, join)) in
      case join of
        None \<Rightarrow> refuse (code E ''R4OS_ERR_CLOSED'')
      | Some j \<Rightarrow>
          if \<not> r4_join_handle_valid E join then refuse (code E ''R4OS_ERR_CLOSED'')
          else if jh_owned j = 0 then refuse (code E ''R4OS_ERR_NOT_OWNED'')
          else and_then (r4_resource_monotonic_hz E (jh_app j)) (\<lambda>hz.
            case timeout_ticks K timeout hz of
              None \<Rightarrow> refuse (code E ''R4OS_THREAD_ERROR_INVALID'')
            | Some ticks \<Rightarrow>
                and_then (Platform.store (p_local E ''exit_code'') (replicate 4 0)) (\<lambda>_.
                and_then (join_op E join (\<lambda>sys h. r4sys_thread_handle_join E sys h ticks (p_local E ''exit_code''))) (\<lambda>raw.
                and_then (load_range (p_local E ''exit_code'') 4) (\<lambda>bs.
                  give (apsnd Some (join_result E raw (le_word bs) j)))))))"

definition r4_resources_current_thread ::
  "'w platform \<Rightarrow> r4_resources option \<Rightarrow> join_handle option \<Rightarrow> (i32 \<times> join_handle option, 'w) io" where
  "r4_resources_current_thread E resources out =
     (let app = resources_app resources; zero = map_option (\<lambda>_. join_zero E) out in
      if app = None \<or> out = None then give (code E ''R4OS_THREAD_ERROR_INVALID'', zero)
      else and_then (clear_obj E (join_local E) ''R4ProgramJoinHandle'') (\<lambda>_.
        and_then (r4sys_thread_current_handle E (system_of app) (join_local E)) (\<lambda>raw.
        and_then (load_obj E (join_local E) ''R4ProgramJoinHandle'') (\<lambda>h.
          give (raw, Some \<lparr>jh_app = (if raw = code E ''R4OS_THREAD_OK'' then app else None), jh_handle = h, jh_owned = 0\<rparr>)))))"

subsection \<open>Memory regions\<close>

record vm_handle =
  vh_app :: "r4_app option"
  vh_raw :: u32
  vh_owned :: u8
  vh_info :: bytes

definition vm_handle_zero :: "'w platform \<Rightarrow> vm_handle" where
  "vm_handle_zero E = \<lparr>vh_app = None, vh_raw = 0, vh_owned = 0, vh_info = zero_obj E ''R4ProgramVmRegionInfo''\<rparr>"

definition r4_vm_region_valid :: "vm_handle option \<Rightarrow> bool" where
  "r4_vm_region_valid region = (case region of None \<Rightarrow> False | Some r \<Rightarrow> vh_app r \<noteq> None \<and> vh_raw r \<noteq> 0)"

definition r4_resources_reserve_vm ::
  "'w platform \<Rightarrow> r4_resources option \<Rightarrow> u64 \<Rightarrow> u64 \<Rightarrow> u64 \<Rightarrow> vm_handle option \<Rightarrow> (i32 \<times> vm_handle option, 'w) io" where
  "r4_resources_reserve_vm E resources sz alignment flags out =
     (let app = resources_app resources; zero = map_option (\<lambda>_. vm_handle_zero E) out in
      if app = None \<or> out = None then give (code E ''R4OS_VM_ERROR_NO_INSTANCE'', zero)
      else and_then (clear_obj E (p_local E ''info'') ''R4ProgramVmRegionInfo'') (\<lambda>_.
        and_then (r4sys_vm_reserve E (system_of app) sz alignment flags (p_local E ''info'')) (\<lambda>raw.
          if raw \<noteq> code E ''R4OS_VM_OK'' then give (raw, zero)
          else and_then (load_obj E (p_local E ''info'') ''R4ProgramVmRegionInfo'') (\<lambda>info.
            give (raw, Some \<lparr>vh_app = app, vh_raw = obj_word E ''R4ProgramVmRegionInfo'' ''id'' info, vh_owned = 1, vh_info = info\<rparr>)))))"

definition r4_vm_region_query ::
  "'w platform \<Rightarrow> vm_handle option \<Rightarrow> u64 \<Rightarrow> (i32 \<times> vm_handle option, 'w) io" where
  "r4_vm_region_query E region out =
     (case region of
        None \<Rightarrow> give (code E ''R4OS_ERR_CLOSED'', region)
      | Some r \<Rightarrow>
          if \<not> r4_vm_region_valid region then give (code E ''R4OS_ERR_CLOSED'', region)
          else and_then (r4sys_vm_query E (system_of (vh_app r)) (vh_raw r) out) (\<lambda>raw.
            if raw = code E ''R4OS_VM_OK'' \<and> out \<noteq> 0
            then and_then (load_obj E out ''R4ProgramVmRegionInfo'') (\<lambda>info. give (raw, Some (r\<lparr>vh_info := info\<rparr>)))
            else give (raw, region)))"

definition region_op :: "'w platform \<Rightarrow> vm_handle option \<Rightarrow> (r4_sys option \<Rightarrow> u32 \<Rightarrow> (i32, 'w) io) \<Rightarrow> (i32, 'w) io" where
  "region_op E region call =
     (case region of
        None \<Rightarrow> give (code E ''R4OS_ERR_CLOSED'')
      | Some r \<Rightarrow> if r4_vm_region_valid region then call (system_of (vh_app r)) (vh_raw r) else give (code E ''R4OS_ERR_CLOSED''))"

definition r4_vm_region_commit :: "'w platform \<Rightarrow> vm_handle option \<Rightarrow> u64 \<Rightarrow> u64 \<Rightarrow> (i32, 'w) io" where
  "r4_vm_region_commit E region offset len = region_op E region (\<lambda>sys raw. r4sys_vm_commit E sys raw offset len)"

definition r4_vm_region_commit_flags :: "'w platform \<Rightarrow> vm_handle option \<Rightarrow> u64 \<Rightarrow> u64 \<Rightarrow> u64 \<Rightarrow> (i32, 'w) io" where
  "r4_vm_region_commit_flags E region offset len flags = region_op E region (\<lambda>sys raw. r4sys_vm_commit_flags E sys raw offset len flags)"

definition r4_vm_region_decommit :: "'w platform \<Rightarrow> vm_handle option \<Rightarrow> u64 \<Rightarrow> u64 \<Rightarrow> (i32, 'w) io" where
  "r4_vm_region_decommit E region offset len = region_op E region (\<lambda>sys raw. r4sys_vm_decommit E sys raw offset len)"

definition r4_vm_region_release :: "'w platform \<Rightarrow> vm_handle option \<Rightarrow> (i32 \<times> vm_handle option, 'w) io" where
  "r4_vm_region_release E region =
     (case region of
        None \<Rightarrow> give (code E ''R4OS_ERR_CLOSED'', region)
      | Some r \<Rightarrow>
          if \<not> r4_vm_region_valid region then give (code E ''R4OS_ERR_CLOSED'', region)
          else if vh_owned r = 0 then give (code E ''R4OS_ERR_NOT_OWNED'', region)
          else and_then (r4sys_vm_release E (system_of (vh_app r)) (vh_raw r)) (\<lambda>raw.
            if raw = code E ''R4OS_VM_OK'' \<or> raw = code E ''R4OS_VM_ERROR_INVALID_RANGE''
            then give (if raw = code E ''R4OS_VM_OK'' then raw else code E ''R4OS_ERR_CLOSED'',
              Some (r\<lparr>vh_raw := 0, vh_info := zero_obj E ''R4ProgramVmRegionInfo''\<rparr>))
            else give (raw, region)))"

subsection \<open>Asynchronous requests\<close>

datatype io_buffer_kind = BUFFER_NONE | BUFFER_MUTABLE | BUFFER_READ_ONLY

record io_request =
  iq_app :: "r4_app option"
  iq_raw :: u32
  iq_owned :: u8
  iq_kind :: io_buffer_kind
  iq_mutable :: u64
  iq_read_only :: u64
  iq_length :: u64
  iq_info :: bytes

definition io_zero :: "'w platform \<Rightarrow> io_request" where
  "io_zero E = \<lparr>iq_app = None, iq_raw = 0, iq_owned = 0, iq_kind = BUFFER_NONE, iq_mutable = 0, iq_read_only = 0, iq_length = 0,
     iq_info = zero_obj E ''R4ProgramIoInfo''\<rparr>"

definition r4_io_request_valid :: "io_request option \<Rightarrow> bool" where
  "r4_io_request_valid request = (case request of None \<Rightarrow> False | Some q \<Rightarrow> iq_app q \<noteq> None \<and> iq_raw q \<noteq> 0)"

definition r4_io_bind :: "'w platform \<Rightarrow> r4_app option \<Rightarrow> u32 \<Rightarrow> io_buffer_kind \<Rightarrow> u64 \<Rightarrow> u64 \<Rightarrow> u64 \<Rightarrow> io_request" where
  "r4_io_bind E app raw kind mutable_p read_only_p len =
     (io_zero E)\<lparr>iq_app := app, iq_raw := raw, iq_owned := 1, iq_kind := kind, iq_mutable := mutable_p, iq_read_only := read_only_p, iq_length := len\<rparr>"

text \<open>
  The operations that start a request differ in the call, given the address of the local id, and in
  the buffer they hand over.
\<close>

definition io_begin ::
  "'w platform \<Rightarrow> r4_resources option \<Rightarrow> io_request option \<Rightarrow> io_buffer_kind \<Rightarrow> u64 \<Rightarrow> u64 \<Rightarrow> u64 \<Rightarrow>
    (r4_sys option \<Rightarrow> u64 \<Rightarrow> (i32, 'w) io) \<Rightarrow> (i32 \<times> io_request option, 'w) io" where
  "io_begin E resources out kind mutable_p read_only_p len start =
     (let app = resources_app resources; zero = map_option (\<lambda>_. io_zero E) out in
      if app = None \<or> out = None then give (code E ''R4OS_IO_ERROR_UNSUPPORTED'', zero)
      else and_then (Platform.store (p_local E ''id'') (replicate 4 0)) (\<lambda>_.
        and_then (start (system_of app) (p_local E ''id'')) (\<lambda>raw.
          if raw \<noteq> code E ''R4OS_IO_OK'' then give (raw, zero)
          else and_then (load_range (p_local E ''id'') 4) (\<lambda>bs.
            give (raw, Some (r4_io_bind E app (le_word bs) kind mutable_p read_only_p len))))))"

type_synonym 'w io_start = "'w platform \<Rightarrow> r4_resources option \<Rightarrow> u64 \<Rightarrow> io_request option \<Rightarrow> (i32 \<times> io_request option, 'w) io"

definition r4_resources_async_read :: "u64 \<Rightarrow> u64 \<Rightarrow> u32 \<Rightarrow> 'w io_start" where
  "r4_resources_async_read buffer capacity flags E resources path out =
     io_begin E resources out BUFFER_MUTABLE buffer 0 capacity (\<lambda>sys raw_id. r4sys_io_file_read E sys path buffer capacity flags raw_id)"

definition r4_resources_async_read_at :: "u64 \<Rightarrow> u64 \<Rightarrow> u64 \<Rightarrow> u32 \<Rightarrow> 'w io_start" where
  "r4_resources_async_read_at offset buffer capacity flags E resources path out =
     io_begin E resources out BUFFER_MUTABLE buffer 0 capacity (\<lambda>sys raw_id. r4sys_io_file_read_at E sys path offset buffer capacity flags raw_id)"

definition r4_resources_async_write :: "u64 \<Rightarrow> u64 \<Rightarrow> u32 \<Rightarrow> 'w io_start" where
  "r4_resources_async_write data len flags E resources path out =
     io_begin E resources out BUFFER_READ_ONLY 0 data len (\<lambda>sys raw_id. r4sys_io_file_write E sys path data len flags raw_id)"

definition r4_resources_async_append :: "u64 \<Rightarrow> u64 \<Rightarrow> u32 \<Rightarrow> 'w io_start" where
  "r4_resources_async_append data len flags E resources path out =
     io_begin E resources out BUFFER_READ_ONLY 0 data len (\<lambda>sys raw_id. r4sys_io_file_append E sys path data len flags raw_id)"

definition r4_resources_async_stream_begin :: "u32 \<Rightarrow> 'w io_start" where
  "r4_resources_async_stream_begin flags E resources path out =
     io_begin E resources out BUFFER_NONE 0 0 0 (\<lambda>sys raw_id. r4sys_io_file_stream_begin E sys path flags raw_id)"

definition r4_resources_async_stream_write :: "u64 \<Rightarrow> u64 \<Rightarrow> u64 \<Rightarrow> u32 \<Rightarrow> 'w io_start" where
  "r4_resources_async_stream_write offset data len flags E resources path out =
     io_begin E resources out BUFFER_READ_ONLY 0 data len (\<lambda>sys raw_id. r4sys_io_file_stream_write E sys path offset data len flags raw_id)"

definition r4_resources_async_stream_finish :: "u64 \<Rightarrow> u32 \<Rightarrow> 'w io_start" where
  "r4_resources_async_stream_finish expected_size flags E resources path out =
     io_begin E resources out BUFFER_NONE 0 0 0 (\<lambda>sys raw_id. r4sys_io_file_stream_finish E sys path expected_size flags raw_id)"

definition r4_resources_async_stream_abort :: "'w io_start" where
  "r4_resources_async_stream_abort E resources path out =
     io_begin E resources out BUFFER_NONE 0 0 0 (\<lambda>sys raw_id. r4sys_io_file_stream_abort E sys path raw_id)"

text \<open>These three call through their slot themselves, after testing the path.\<close>

definition io_direct ::
  "'w platform \<Rightarrow> r4_resources option \<Rightarrow> u64 \<Rightarrow> io_request option \<Rightarrow> io_buffer_kind \<Rightarrow> u64 \<Rightarrow> u64 \<Rightarrow> string \<Rightarrow> u64 list \<Rightarrow>
    (i32 \<times> io_request option, 'w) io" where
  "io_direct E resources path out kind read_only_p len slot args =
     (let app = resources_app resources; zero = map_option (\<lambda>_. io_zero E) out in
      if out = None \<or> path = 0 then give (code E ''R4OS_IO_ERROR_UNSUPPORTED'', zero)
      else ask (app_field E app slot) (\<lambda>ok.
        if \<not> ok then give (code E ''R4OS_IO_ERROR_UNSUPPORTED'', zero)
        else io_begin E resources out kind 0 read_only_p len (\<lambda>_ raw_id. app_call E app slot (path # args @ [raw_id]))))"

definition r4_resources_async_write_at :: "u64 \<Rightarrow> u64 \<Rightarrow> u64 \<Rightarrow> u32 \<Rightarrow> 'w io_start" where
  "r4_resources_async_write_at offset data len flags E resources path out =
     io_direct E resources path out BUFFER_READ_ONLY data len ''io_file_write_at'' [offset, data, len, ucast flags]"

definition r4_resources_async_file_info :: "u32 \<Rightarrow> 'w io_start" where
  "r4_resources_async_file_info flags E resources path out =
     io_direct E resources path out BUFFER_NONE 0 0 ''io_file_info'' [ucast flags]"

definition r4_resources_async_file_lock :: "u64 \<Rightarrow> u64 \<Rightarrow> u32 \<Rightarrow> 'w io_start" where
  "r4_resources_async_file_lock offset len flags E resources path out =
     io_direct E resources path out BUFFER_NONE 0 0 ''io_file_lock'' [offset, len, ucast flags]"

definition r4_resources_async_service_call ::
  "'w platform \<Rightarrow> r4_resources option \<Rightarrow> u32 \<Rightarrow> u16 \<Rightarrow> u64 \<Rightarrow> u32 \<Rightarrow> u64 \<Rightarrow> u64 \<Rightarrow> u32 \<Rightarrow> u64 \<Rightarrow> u32 \<Rightarrow> io_request option \<Rightarrow>
    (i32 \<times> io_request option, 'w) io" where
  "r4_resources_async_service_call E resources service op_code request request_len header response capacity ticks flags out =
     io_begin E resources out BUFFER_MUTABLE response request (ucast capacity) (\<lambda>sys raw_id.
       r4sys_io_service_call E sys service op_code request request_len header response capacity ticks flags raw_id)"

definition r4_io_request_buffers_held :: "io_request option \<Rightarrow> bool" where
  "r4_io_request_buffers_held request \<longleftrightarrow>
     r4_io_request_valid request \<and> (case request of None \<Rightarrow> False | Some q \<Rightarrow> iq_kind q \<noteq> BUFFER_NONE)"

definition io_forget :: "io_request \<Rightarrow> io_request" where
  "io_forget q = q\<lparr>iq_kind := BUFFER_NONE, iq_mutable := 0, iq_read_only := 0, iq_length := 0\<rparr>"

definition r4_io_request_release_buffers :: "'w platform \<Rightarrow> io_request option \<Rightarrow> i32 \<times> io_request option" where
  "r4_io_request_release_buffers E request =
     (if r4_io_request_buffers_held request then (code E ''R4OS_ERR_BUFFER_IN_USE'', request)
      else (code E ''R4OS_IO_OK'', map_option io_forget request))"

definition r4_io_request_status :: "'w platform \<Rightarrow> io_request option \<Rightarrow> u64 \<Rightarrow> (i32 \<times> io_request option, 'w) io" where
  "r4_io_request_status E request out =
     (case request of
        None \<Rightarrow> give (code E ''R4OS_ERR_CLOSED'', request)
      | Some q \<Rightarrow>
          if \<not> r4_io_request_valid request then give (code E ''R4OS_ERR_CLOSED'', request)
          else and_then (r4sys_io_status E (system_of (iq_app q)) (iq_raw q) out) (\<lambda>raw.
            if raw = code E ''R4OS_IO_OK'' \<and> out \<noteq> 0
            then and_then (load_obj E out ''R4ProgramIoInfo'') (\<lambda>info. give (raw, Some (q\<lparr>iq_info := info\<rparr>)))
            else give (raw, request)))"

definition r4_io_request_wait ::
  "'w platform \<Rightarrow> time_codes \<Rightarrow> io_request option \<Rightarrow> r4_timeout \<Rightarrow> (resource_wait \<times> io_request option, 'w) io" where
  "r4_io_request_wait E K request timeout =
     (let refuse = (\<lambda>rc. give (\<lparr>rw_kind = WAIT_REFUSED, rw_amount = rc\<rparr>, request)) in
      case request of
        None \<Rightarrow> refuse (code E ''R4OS_ERR_CLOSED'')
      | Some q \<Rightarrow>
          if \<not> r4_io_request_valid request then refuse (code E ''R4OS_ERR_CLOSED'')
          else and_then (r4_resource_monotonic_hz E (iq_app q)) (\<lambda>hz.
            case timeout_ticks K timeout hz of
              None \<Rightarrow> refuse (code E ''R4OS_IO_ERROR_INVALID'')
            | Some ticks \<Rightarrow>
                and_then (clear_obj E (p_local E ''info'') ''R4ProgramIoInfo'') (\<lambda>_.
                and_then (r4sys_io_wait E (system_of (iq_app q)) (iq_raw q) ticks (p_local E ''info'')) (\<lambda>raw.
                  if raw = code E ''R4OS_IO_ERROR_TIMEOUT'' then give (\<lparr>rw_kind = WAIT_EXPIRED, rw_amount = 0\<rparr>, request)
                  else if raw \<noteq> code E ''R4OS_IO_OK'' then refuse raw
                  else and_then (load_obj E (p_local E ''info'') ''R4ProgramIoInfo'') (\<lambda>info.
                    give (\<lparr>rw_kind = WAIT_EXITED, rw_amount = obj_word E ''R4ProgramIoInfo'' ''result'' info\<rparr>,
                      Some (q\<lparr>iq_info := info\<rparr>)))))))"

definition r4_io_request_close :: "'w platform \<Rightarrow> io_request option \<Rightarrow> (i32 \<times> io_request option, 'w) io" where
  "r4_io_request_close E request =
     (case request of
        None \<Rightarrow> give (code E ''R4OS_ERR_CLOSED'', request)
      | Some q \<Rightarrow>
          if \<not> r4_io_request_valid request then give (code E ''R4OS_ERR_CLOSED'', request)
          else if iq_owned q = 0 then give (code E ''R4OS_ERR_NOT_OWNED'', request)
          else and_then (r4sys_io_close E (system_of (iq_app q)) (iq_raw q)) (\<lambda>raw.
            if raw = code E ''R4OS_IO_OK'' \<or> raw = code E ''R4OS_IO_ERROR_NOT_FOUND''
            then give (if raw = code E ''R4OS_IO_OK'' then raw else code E ''R4OS_ERR_CLOSED'', Some (io_forget (q\<lparr>iq_raw := 0\<rparr>)))
            else give (raw, request)))"

subsection \<open>The four owned handles\<close>

text \<open>
  A step of a handle is one operation on it, whether or not it may end the handle. What is outside the
  program, the calls made and the platform's state, is the second half of the state; the memory may change
  freely between steps.
\<close>

definition outside :: "'w machine \<Rightarrow> (u64 \<times> u64 list) list \<times> 'w" where
  "outside s = (m_calls s, m_os s)"

type_synonym ('h, 'w) handle_state = "'h \<times> (u64 \<times> u64 list) list \<times> 'w"

inductive process_step :: "'w platform \<Rightarrow> time_codes \<Rightarrow> (r4_process, 'w) handle_state \<Rightarrow> (r4_process, 'w) handle_state \<Rightarrow> bool" for E K where
  status: "r4os_process_status E (Some p) out s = Some (rc, s') \<Longrightarrow> process_step E K (p, outside s) (p, outside s')"
| request_close: "r4os_process_request_close E (Some p) s = Some (rc, s') \<Longrightarrow> process_step E K (p, outside s) (p, outside s')"
| kill: "r4os_process_kill E (Some p) s = Some (rc, s') \<Longrightarrow> process_step E K (p, outside s) (p, outside s')"
| ready: "r4os_process_wait_ready E K (Some p) timeout out s = Some (rc, s') \<Longrightarrow> process_step E K (p, outside s) (p, outside s')"
| completion: "r4os_process_completion_read E (Some p) offset out capacity out_read s = Some (rc, s') \<Longrightarrow>
    process_step E K (p, outside s) (p, outside s')"
| reap: "r4os_process_reap E (Some p) out s = Some ((rc, Some p'), s') \<Longrightarrow> process_step E K (p, outside s) (p', outside s')"
| await: "r4os_process_wait E K (Some p) timeout out s = Some ((rc, Some p'), s') \<Longrightarrow> process_step E K (p, outside s) (p', outside s')"
| short_reap: "r4_process_reap E (Some p) s = Some ((r, Some p'), s') \<Longrightarrow> process_step E K (p, outside s) (p', outside s')"
| short_wait: "r4_process_wait E K (Some p) timeout s = Some ((r, Some p'), s') \<Longrightarrow> process_step E K (p, outside s) (p', outside s')"

inductive join_step :: "'w platform \<Rightarrow> time_codes \<Rightarrow> (join_handle, 'w) handle_state \<Rightarrow> (join_handle, 'w) handle_state \<Rightarrow> bool" for E K where
  status: "r4_join_status E (Some j) out s = Some (rc, s') \<Longrightarrow> join_step E K (j, outside s) (j, outside s')"
| placement: "r4_join_placement E (Some j) info cpus capacity s = Some (rc, s') \<Longrightarrow> join_step E K (j, outside s) (j, outside s')"
| set_placement: "r4_join_set_placement E (Some j) request cpus n s = Some (rc, s') \<Longrightarrow> join_step E K (j, outside s) (j, outside s')"
| await: "r4_join_wait E K (Some j) timeout s = Some ((r, Some j'), s') \<Longrightarrow> join_step E K (j, outside s) (j', outside s')"

inductive region_step :: "'w platform \<Rightarrow> (vm_handle, 'w) handle_state \<Rightarrow> (vm_handle, 'w) handle_state \<Rightarrow> bool" for E where
  query: "r4_vm_region_query E (Some r) out s = Some ((rc, Some r'), s') \<Longrightarrow> region_step E (r, outside s) (r', outside s')"
| commit: "r4_vm_region_commit E (Some r) offset len s = Some (rc, s') \<Longrightarrow> region_step E (r, outside s) (r, outside s')"
| commit_flags: "r4_vm_region_commit_flags E (Some r) offset len flags s = Some (rc, s') \<Longrightarrow> region_step E (r, outside s) (r, outside s')"
| decommit: "r4_vm_region_decommit E (Some r) offset len s = Some (rc, s') \<Longrightarrow> region_step E (r, outside s) (r, outside s')"
| release: "r4_vm_region_release E (Some r) s = Some ((rc, Some r'), s') \<Longrightarrow> region_step E (r, outside s) (r', outside s')"

inductive request_step :: "'w platform \<Rightarrow> time_codes \<Rightarrow> (io_request, 'w) handle_state \<Rightarrow> (io_request, 'w) handle_state \<Rightarrow> bool" for E K where
  status: "r4_io_request_status E (Some q) out s = Some ((rc, Some q'), s') \<Longrightarrow> request_step E K (q, outside s) (q', outside s')"
| await: "r4_io_request_wait E K (Some q) timeout s = Some ((r, Some q'), s') \<Longrightarrow> request_step E K (q, outside s) (q', outside s')"
| close: "r4_io_request_close E (Some q) s = Some ((rc, Some q'), s') \<Longrightarrow> request_step E K (q, outside s) (q', outside s')"
| release: "r4_io_request_release_buffers E (Some q) = (rc, Some q') \<Longrightarrow> request_step E K (q, outside s) (q', outside s)"

inductive_cases process_stepE: "process_step E K (p, w) (p', w')"
inductive_cases join_stepE: "join_step E K (j, w) (j', w')"
inductive_cases region_stepE: "region_step E (r, w) (r', w')"
inductive_cases request_stepE: "request_step E K (q, w) (q', w')"

lemma clear_outside: "clear_obj E a T s = Some ((), s') \<Longrightarrow> outside s' = outside s"
  by (auto simp: clear_obj_def Platform.store_def outside_def)

lemma clear_completion_outside: "clear_completion E out s = Some ((), s') \<Longrightarrow> outside s' = outside s"
  by (auto simp: clear_completion_def give_def dest: clear_outside split: if_split_asm)

text \<open>What an operation that may end a handle does to it, for each of the four.\<close>

definition process_kept :: "r4_process \<Rightarrow> r4_process \<Rightarrow> bool" where
  "process_kept p p' \<longleftrightarrow> p' = p \<or> p' = r4os_process_invalidate p"

lemma reap_kept:
  assumes "r4os_process_reap E (Some p) out s = Some ((rc, Some p'), s')"
  shows "process_kept p p'" and "\<not> r4os_process_valid (Some p) \<Longrightarrow> p' = p \<and> outside s' = outside s"
  using assms
  by (auto simp: r4os_process_reap_def process_kept_def and_then_Some_iff ask_Some_iff give_def
      dest: clear_completion_outside split: if_split_asm)

lemma await_kept:
  assumes "r4os_process_wait E K (Some p) timeout out s = Some ((rc, Some p'), s')"
  shows "process_kept p p'" and "\<not> r4os_process_valid (Some p) \<Longrightarrow> p' = p \<and> outside s' = outside s"
  using assms
  by (auto simp: r4os_process_wait_def and_then_Some_iff give_def process_kept_def dest: reap_kept(1) split: if_split_asm)

lemma process_op_dead: "process_op E (Some p) bad slot args s = Some (rc, s') \<Longrightarrow> \<not> r4os_process_valid (Some p) \<Longrightarrow> s' = s"
  by (auto simp: process_op_def give_def split: if_split_asm)

lemma join_store_outside: "Platform.store a bs s = Some ((), s') \<Longrightarrow> outside s' = outside s"
  by (auto simp: Platform.store_def outside_def)

lemma process_call_dead:
  assumes "\<not> r4os_process_valid (Some p)"
  shows "r4os_process_status E (Some p) out s = Some (rc, s') \<Longrightarrow> outside s' = outside s"
    and "r4os_process_request_close E (Some p) s = Some (rc, s') \<Longrightarrow> outside s' = outside s"
    and "r4os_process_kill E (Some p) s = Some (rc, s') \<Longrightarrow> outside s' = outside s"
    and "r4os_process_wait_ready E K (Some p) timeout out s = Some (rc, s') \<Longrightarrow> outside s' = outside s"
    and "r4os_process_completion_read E (Some p) offset out capacity out_read s = Some (rc, s') \<Longrightarrow> outside s' = outside s"
  using assms process_op_dead [OF _ assms]
  by (auto simp: r4os_process_status_def r4os_process_request_close_def r4os_process_kill_def r4os_process_wait_ready_def
      r4os_process_completion_read_def and_then_Some_iff give_def dest!: process_op_dead [OF _ assms] dest: clear_completion_outside join_store_outside split: if_split_asm)

lemma completion_wait_same: "completion_wait E expires (status, q) s = Some ((r, q'), s') \<Longrightarrow> q' = q \<and> outside s' = outside s"
  by (auto simp: completion_wait_def and_then_Some_iff give_def load_obj_def split: if_split_asm option.split_asm)

lemma short_kept:
  assumes "r4_process_reap E (Some p) s = Some ((r, Some p'), s') \<or> r4_process_wait E K (Some p) timeout s = Some ((r, Some p'), s')"
  shows "process_kept p p'" and "\<not> r4os_process_valid (Some p) \<Longrightarrow> p' = p \<and> outside s' = outside s"
proof -
  obtain s1 s2 rc q expires where c: "clear_obj E (p_local E ''completion'') ''R4ProgramProcessCompletion'' s = Some ((), s1)"
    and one: "r4os_process_reap E (Some p) (p_local E ''completion'') s1 = Some ((rc, q), s2) \<or>
      r4os_process_wait E K (Some p) timeout (p_local E ''completion'') s1 = Some ((rc, q), s2)"
    and w: "completion_wait E expires (rc, q) s2 = Some ((r, Some p'), s')"
    using assms unfolding r4_process_reap_def r4_process_wait_def and_then_Some_iff by (auto simp: split_paired_all) blast+
  have q: "q = Some p'" "outside s' = outside s2" using completion_wait_same [OF w] by simp_all
  show "process_kept p p'" using one reap_kept(1) await_kept(1) unfolding q(1) by blast
  show "p' = p \<and> outside s' = outside s" if "\<not> r4os_process_valid (Some p)"
    using one reap_kept(2) await_kept(2) that clear_outside [OF c] q(2) unfolding q(1) by metis
qed

lemma join_op_dead: "join_op E (Some j) call s = Some (rc, s') \<Longrightarrow> \<not> r4_join_handle_valid E (Some j) \<Longrightarrow> s' = s"
  by (simp add: join_op_def give_def)

lemma join_kept:
  assumes "r4_join_wait E K (Some j) timeout s = Some ((r, Some j'), s')"
  shows "j' = j \<or> j' = r4_join_handle_invalidate E j" and "\<not> r4_join_handle_valid E (Some j) \<Longrightarrow> j' = j \<and> s' = s"
  using assms
  by (auto simp: r4_join_wait_def and_then_Some_iff give_def Let_def apsnd_Some_eq join_result_def split: if_split_asm option.split_asm)

lemma region_kept:
  assumes "region_step E (r, w) (r', w')"
  shows "vh_app r' = vh_app r \<and> (vh_raw r' = vh_raw r \<or> vh_raw r' = 0)" and "\<not> r4_vm_region_valid (Some r) \<Longrightarrow> r' = r \<and> w' = w"
  using assms
  by (auto elim!: region_stepE simp: r4_vm_region_query_def r4_vm_region_release_def r4_vm_region_commit_def r4_vm_region_commit_flags_def
      r4_vm_region_decommit_def region_op_def and_then_Some_iff give_def split: if_split_asm)

text \<open>A dead request is only changed by giving up its record of buffers.\<close>

lemma request_kept:
  assumes "request_step E K (q, w) (q', w')"
  shows "iq_app q' = iq_app q \<and> (iq_raw q' = iq_raw q \<or> iq_raw q' = 0)"
    and "\<not> r4_io_request_valid (Some q) \<Longrightarrow> (q' = q \<or> q' = io_forget q) \<and> w' = w"
  using assms
  by (auto elim!: request_stepE simp: r4_io_request_status_def r4_io_request_wait_def r4_io_request_close_def io_forget_def
      r4_io_request_release_buffers_def and_then_Some_iff give_def Let_def split: if_split_asm option.split_asm)

lemma request_run_kept:
  assumes "(request_step E K)\<^sup>*\<^sup>* (q, w) (q', w')"
  shows "iq_app q' = iq_app q \<and> (iq_raw q' = iq_raw q \<or> iq_raw q' = 0)"
    and "\<not> r4_io_request_valid (Some q) \<Longrightarrow> (q' = q \<or> q' = io_forget q) \<and> w' = w"
proof -
  have "iq_app q' = iq_app q \<and> (iq_raw q' = iq_raw q \<or> iq_raw q' = 0) \<and>
      (\<not> r4_io_request_valid (Some q) \<longrightarrow> (q' = q \<or> q' = io_forget q) \<and> w' = w)"
    using assms
  proof (induction "(q, w)" "(q', w')" arbitrary: q' w' rule: rtranclp.induct)
    case (rtrancl_into_rtrancl b)
    obtain q1 w1 where b: "b = (q1, w1)" by (cases b)
    note ih = rtrancl_into_rtrancl(2) [OF b] and st = request_kept [OF rtrancl_into_rtrancl(3) [unfolded b]]
    have "r4_io_request_valid (Some (io_forget q)) = r4_io_request_valid (Some q)" "io_forget (io_forget q) = io_forget q"
      by (simp_all add: r4_io_request_valid_def io_forget_def)
    then show ?case using ih st by auto
  qed simp
  then show "iq_app q' = iq_app q \<and> (iq_raw q' = iq_raw q \<or> iq_raw q' = 0)"
    and "\<not> r4_io_request_valid (Some q) \<Longrightarrow> (q' = q \<or> q' = io_forget q) \<and> w' = w" by blast+
qed

lemma request_run_safe:
  assumes "(request_step E K)\<^sup>*\<^sup>* (q, w) (q', w')"
  shows "(r4_io_request_valid (Some q') \<longrightarrow> r4_io_request_valid (Some q) \<and> (iq_app q', iq_raw q') = (iq_app q, iq_raw q)) \<and>
    (\<not> r4_io_request_valid (Some q) \<longrightarrow> (q' = q \<or> q' = io_forget q) \<and> w' = w)"
  using request_run_kept(1) [OF assms] request_run_kept(2) [OF assms] by (auto simp: r4_io_request_valid_def)

lemma invalidated [simp]:
  "\<not> r4os_process_valid (Some (r4os_process_invalidate p))" "\<not> r4_join_handle_valid E (Some (r4_join_handle_invalidate E j))"
proof -
  have "(le_word (replicate k 0) :: u64) = 0" for k by (induction k) simp_all
  then have "(le_word (take n (drop l (replicate m 0))) :: u64) = 0" for n l m by (simp add: min_def)
  then show "\<not> r4_join_handle_valid E (Some (r4_join_handle_invalidate E j))"
    by (simp add: r4_join_handle_valid_def r4_join_handle_invalidate_def obj_word_def zero_obj_def)
qed (simp add: r4os_process_valid_def r4os_process_invalidate_def)

lemma process_kept_refl [simp]: "process_kept p p"
  by (simp add: process_kept_def)

lemma process_step_kept:
  assumes "process_step E K (p, w) (p', w')"
  shows "process_kept p p'" and "\<not> r4os_process_valid (Some p) \<Longrightarrow> p' = p \<and> w' = w"
  using assms
  by (auto elim!: process_stepE dest: reap_kept(1) await_kept(1) short_kept(1) [OF disjI1] short_kept(1) [OF disjI2])
    (auto elim!: process_stepE dest: reap_kept(2) await_kept(2) short_kept(2) [OF disjI1] short_kept(2) [OF disjI2] process_call_dead [rotated])

lemma join_step_kept:
  assumes "join_step E K (j, w) (j', w')"
  shows "j' = j \<or> j' = r4_join_handle_invalidate E j" and "\<not> r4_join_handle_valid E (Some j) \<Longrightarrow> j' = j \<and> w' = w"
  using assms
  by (auto elim!: join_stepE simp: r4_join_status_def r4_join_placement_def r4_join_set_placement_def dest: join_kept join_op_dead)

interpretation process: handle_protocol "\<lambda>p. r4os_process_valid (Some p)" "\<lambda>p. p" "process_step E K" for E K
  by unfold_locales (use process_step_kept in \<open>blast\<close>, use process_step_kept(1) invalidated(1) in \<open>unfold process_kept_def, blast\<close>)

interpretation join: handle_protocol "\<lambda>j. r4_join_handle_valid E (Some j)" "\<lambda>j. j" "join_step E K" for E K
  by unfold_locales (use join_step_kept in \<open>blast\<close>, use join_step_kept(1) invalidated(2) in \<open>blast\<close>)

interpretation region: handle_protocol "\<lambda>r. r4_vm_region_valid (Some r)" "\<lambda>r. (vh_app r, vh_raw r)" "region_step E" for E
  by unfold_locales (auto dest: region_kept simp: r4_vm_region_valid_def)

text \<open>
  C29: The four handles of this header die once. Along every run of the operations on it (queries, waits, closing, killing,
  reaping, placement, committing, releasing and the rest), whatever the
  platform answers, a process, a thread's join handle, a memory region and a request that is live at the
  end was live at the start and names what it named; one that is dead at the start stays as it is (a request may
  give up its record of buffers), and no operation on it reaches the platform.\<close>

theorem resource_handles_die_once:
  assumes "(process_step E K)\<^sup>*\<^sup>* (p, w) (p', w')" and "(join_step E K)\<^sup>*\<^sup>* (j, u) (j', u')"
    and "(region_step E)\<^sup>*\<^sup>* (r, v) (r', v')" and "(request_step E K)\<^sup>*\<^sup>* (q, x) (q', x')"
  shows "(r4os_process_valid (Some p') \<longrightarrow> r4os_process_valid (Some p) \<and> p' = p) \<and>
    (\<not> r4os_process_valid (Some p) \<longrightarrow> p' = p \<and> w' = w) \<and>
    (r4_join_handle_valid E (Some j') \<longrightarrow> r4_join_handle_valid E (Some j) \<and> j' = j) \<and>
    (\<not> r4_join_handle_valid E (Some j) \<longrightarrow> j' = j \<and> u' = u) \<and>
    (r4_vm_region_valid (Some r') \<longrightarrow> r4_vm_region_valid (Some r) \<and> (vh_app r', vh_raw r') = (vh_app r, vh_raw r)) \<and>
    (\<not> r4_vm_region_valid (Some r) \<longrightarrow> r' = r \<and> v' = v) \<and>
    (r4_io_request_valid (Some q') \<longrightarrow> r4_io_request_valid (Some q) \<and> (iq_app q', iq_raw q') = (iq_app q, iq_raw q)) \<and>
    (\<not> r4_io_request_valid (Some q) \<longrightarrow> (q' = q \<or> q' = io_forget q) \<and> x' = x)"
  by (intro conjI process.run_safe [OF assms(1), THEN conjunct1] process.run_safe [OF assms(1), THEN conjunct2]
      join.run_safe [OF assms(2), THEN conjunct1] join.run_safe [OF assms(2), THEN conjunct2]
      region.run_safe [OF assms(3), THEN conjunct1] region.run_safe [OF assms(3), THEN conjunct2]
      request_run_safe [OF assms(4), THEN conjunct1] request_run_safe [OF assms(4), THEN conjunct2])

text \<open>A region of the sample application, whose release the platform accepts.\<close>

definition sample_region :: vm_handle where
  "sample_region = \<lparr>vh_app = Some sample_app, vh_raw = 7, vh_owned = 1, vh_info = []\<rparr>"

lemma sample_field: "app_field (sample_platform\<lparr>p_code := c\<rparr>) (Some sample_app) slot (m_mem sample_state) = Some True"
proof -
  have "opens (sample_platform\<lparr>p_code := c\<rparr>) ''R4Sys'' 0x1000 sample_table slot"
    using sample_opens [of "''R4Sys''" slot] by (simp add: opens_def)
  then show ?thesis
    using has_field_answer [OF sample_steady, of "sample_platform\<lparr>p_code := c\<rparr>" "''R4Sys''" slot]
    by (simp add: sample_app_sys sample_state_def)
qed

lemma sample_app_call:
  "app_call (sample_platform\<lparr>p_code := c\<rparr>) (Some sample_app) slot args sample_state =
    Some (0, sample_state\<lparr>m_calls := [(0x400000, args)]\<rparr>)"
proof -
  have word: "slot_word sample_table (p_off (sample_platform\<lparr>p_code := c\<rparr>) T m) = 0x400000" for T m
    by (simp add: slot_word_def sample_platform_def sample_table_def)
  have mem: "steady 0x1000 sample_table [] (m_mem sample_state)" using sample_steady by (simp add: sample_state_def)
  have "opens (sample_platform\<lparr>p_code := c\<rparr>) ''R4Sys'' 0x1000 sample_table slot"
    using sample_opens [of "''R4Sys''" slot] by (simp add: opens_def)
  from call_slot_open [OF mem this] show ?thesis
    unfolding sample_app_sys word by (simp add: sample_platform_def sample_state_def)
qed

lemma sample_release:
  "\<exists>s. r4_vm_region_release (sample_platform\<lparr>p_code := \<lambda>_. 0\<rparr>) (Some sample_region) sample_state =
    Some ((0, Some (sample_region\<lparr>vh_raw := 0, vh_info := zero_obj (sample_platform\<lparr>p_code := \<lambda>_. 0\<rparr>) ''R4ProgramVmRegionInfo''\<rparr>)), s)"
  by (simp add: sample_field sample_app_call r4_vm_region_release_def r4_vm_region_valid_def sample_region_def r4sys_vm_release_def ask_def and_then_def give_def)

theorem resource_handles_die_once_witness:
  "\<forall>K. \<exists>r' v'. (region_step (sample_platform\<lparr>p_code := \<lambda>_. 0\<rparr>))\<^sup>*\<^sup>* (sample_region, outside sample_state) (r', v') \<and>
    r4_vm_region_valid (Some sample_region) \<and> \<not> r4_vm_region_valid (Some r')"
proof
  fix K :: time_codes
  let ?E = "sample_platform\<lparr>p_code := \<lambda>_. 0\<rparr>"
  let ?dead = "sample_region\<lparr>vh_raw := 0, vh_info := zero_obj ?E ''R4ProgramVmRegionInfo''\<rparr>"
  obtain s where "r4_vm_region_release ?E (Some sample_region) sample_state = Some ((0, Some ?dead), s)" using sample_release by blast
  then have run: "(region_step ?E)\<^sup>*\<^sup>* (sample_region, outside sample_state) (?dead, outside s)"
    by (intro r_into_rtranclp region_step.release)
  have "vh_raw ?dead \<noteq> vh_raw sample_region" by (simp add: sample_region_def)
  moreover have "r4_vm_region_valid (Some sample_region)" by (simp add: sample_region_def r4_vm_region_valid_def)
  ultimately show "\<exists>r' v'. (region_step ?E)\<^sup>*\<^sup>* (sample_region, outside sample_state) (r', v') \<and>
      r4_vm_region_valid (Some sample_region) \<and> \<not> r4_vm_region_valid (Some r')"
    using resource_handles_die_once [OF rtranclp.rtrancl_refl [of "process_step ?E K"] rtranclp.rtrancl_refl [of "join_step ?E K"] run
      rtranclp.rtrancl_refl [of "request_step ?E K"]] run by blast
qed

subsection \<open>The buffers of a request\<close>

text \<open>
  A run of operations on one request, with what the platform answered to closing it and what releasing
  its buffers reported; between the operations the program and the platform may do anything else.
  \<open>answer\<close> is what the platform's function returns to the call an operation made last, \<open>None\<close>
  where it made none; the only call of a close is made on the memory it starts from.
\<close>

definition answer :: "'w platform \<Rightarrow> 'w machine \<Rightarrow> 'w machine \<Rightarrow> i32 option" where
  "answer E s s' =
     (if m_calls s' = m_calls s then None
      else case last (m_calls s') of (f, args) \<Rightarrow> Some (ucast (fst (p_run E f args (m_mem s) (m_os s)))))"

datatype request_event = Other | Closed "i32 option" | Released i32

inductive request_run :: "'w platform \<Rightarrow> time_codes \<Rightarrow> io_request \<times> 'w machine \<Rightarrow> request_event list \<Rightarrow> io_request \<times> 'w machine \<Rightarrow> bool" for E K where
  start: "request_run E K c [] c"
| elsewhere: "request_run E K c es (q, s) \<Longrightarrow> request_run E K c (es @ [Other]) (q, s')"
| status: "request_run E K c es (q, s) \<Longrightarrow> r4_io_request_status E (Some q) out s = Some ((rc, Some q'), s') \<Longrightarrow>
    request_run E K c (es @ [Other]) (q', s')"
| await: "request_run E K c es (q, s) \<Longrightarrow> r4_io_request_wait E K (Some q) timeout s = Some ((r, Some q'), s') \<Longrightarrow>
    request_run E K c (es @ [Other]) (q', s')"
| close: "request_run E K c es (q, s) \<Longrightarrow> r4_io_request_close E (Some q) s = Some ((rc, Some q'), s') \<Longrightarrow>
    request_run E K c (es @ [Closed (answer E s s')]) (q', s')"
| release: "request_run E K c es (q, s) \<Longrightarrow> r4_io_request_release_buffers E (Some q) = (rc, Some q') \<Longrightarrow>
    request_run E K c (es @ [Released rc]) (q', s)"

definition buffers_of :: "io_request \<Rightarrow> r4_app option \<times> u32 \<times> io_buffer_kind \<times> u64 \<times> u64 \<times> u64" where
  "buffers_of q = (iq_app q, iq_raw q, iq_kind q, iq_mutable q, iq_read_only q, iq_length q)"

text \<open>The platform acknowledges a closing with success, or by answering that it does not know the request any more.\<close>

definition acknowledges :: "'w platform \<Rightarrow> i32 option \<Rightarrow> bool" where
  "acknowledges E a \<longleftrightarrow> a = Some (code E ''R4OS_IO_OK'') \<or> a = Some (code E ''R4OS_IO_ERROR_NOT_FOUND'')"

definition acknowledged :: "'w platform \<Rightarrow> request_event list \<Rightarrow> bool" where
  "acknowledged E es \<longleftrightarrow> (\<exists>a. Closed a \<in> set es \<and> acknowledges E a)"

lemma held_fields:
  "buffers_of q' = buffers_of q \<Longrightarrow> r4_io_request_buffers_held (Some q') = r4_io_request_buffers_held (Some q)"
  by (simp add: buffers_of_def r4_io_request_buffers_held_def r4_io_request_valid_def)

lemma valid_fields: "buffers_of q' = buffers_of q \<Longrightarrow> r4_io_request_valid (Some q') = r4_io_request_valid (Some q)"
  by (simp add: buffers_of_def r4_io_request_valid_def)

lemma dead_close: "r4_io_request_close E (Some q) s = Some ((rc, Some q'), s') \<Longrightarrow> \<not> r4_io_request_valid (Some q) \<Longrightarrow> q' = q"
  by (simp add: r4_io_request_close_def give_def)

lemma release_dead:
  "r4_io_request_release_buffers E (Some q) = (rc, Some q') \<Longrightarrow> r4_io_request_valid (Some q') = r4_io_request_valid (Some q)"
  by (auto simp: r4_io_request_release_buffers_def io_forget_def r4_io_request_valid_def split: if_split_asm)

lemma status_buffers: "r4_io_request_status E (Some q) out s = Some ((rc, Some q'), s') \<Longrightarrow> buffers_of q' = buffers_of q"
  by (auto simp: r4_io_request_status_def and_then_Some_iff give_def buffers_of_def split: if_split_asm)

lemma wait_buffers: "r4_io_request_wait E K (Some q) timeout s = Some ((r, Some q'), s') \<Longrightarrow> buffers_of q' = buffers_of q"
  by (auto simp: r4_io_request_wait_def and_then_Some_iff give_def buffers_of_def Let_def split: if_split_asm option.split_asm)

text \<open>The contract's codes: a missing slot is not reported as a success or as an unknown request.\<close>

definition close_codes :: "'w platform \<Rightarrow> bool" where
  "close_codes E \<longleftrightarrow> code E ''R4OS_IO_ERROR_UNSUPPORTED'' \<notin> {code E ''R4OS_IO_OK'', code E ''R4OS_IO_ERROR_NOT_FOUND''}"

lemma close_answer:
  assumes "r4sys_io_close E sys i s = Some (raw, s')" and "raw \<noteq> code E ''R4OS_IO_ERROR_UNSUPPORTED''"
  shows "answer E s s' = Some raw"
proof -
  have "sys_call E sys ''io_close'' [ucast i] s = Some (raw, s')"
    using assms by (auto simp: r4sys_io_close_def ask_Some_iff give_def split: if_split_asm)
  then show ?thesis
    by (auto simp: call_slot_def call_fn_def and_then_def give_def answer_def split: option.split_asm prod.split_asm)
qed

lemma close_facts:
  assumes "r4_io_request_close E (Some q) s = Some ((rc, Some q'), s')" and "close_codes E"
  shows "if acknowledges E (answer E s s') then \<not> r4_io_request_valid (Some q') else q' = q"
proof (cases "r4_io_request_valid (Some q) \<and> iq_owned q \<noteq> 0")
  case False
  then have "q' = q \<and> s' = s" using assms(1) by (auto simp: r4_io_request_close_def give_def split: if_split_asm)
  then show ?thesis by (simp add: answer_def acknowledges_def)
next
  case True
  then obtain raw where close: "r4sys_io_close E (system_of (iq_app q)) (iq_raw q) s = Some (raw, s')"
    and q': "q' = (if raw = code E ''R4OS_IO_OK'' \<or> raw = code E ''R4OS_IO_ERROR_NOT_FOUND'' then io_forget (q\<lparr>iq_raw := 0\<rparr>) else q)"
    using assms(1) by (auto simp: r4_io_request_close_def and_then_Some_iff give_def split: if_split_asm)
  show ?thesis
  proof (cases "raw = code E ''R4OS_IO_ERROR_UNSUPPORTED''")
    case False
    then show ?thesis using close_answer [OF close] q' by (auto simp: acknowledges_def r4_io_request_valid_def io_forget_def)
  next
    case True
    then have same: "q' = q" using q' assms(2) by (auto simp: close_codes_def)
    show ?thesis
    proof (cases "acknowledges E (answer E s s')")
      case True
      then have "answer E s s' \<noteq> None" by (auto simp: acknowledges_def)
      then have "answer E s s' = Some raw"
        using close by (auto simp: r4sys_io_close_def ask_Some_iff give_def call_slot_def call_fn_def and_then_def answer_def
          split: if_split_asm option.split_asm prod.split_asm)
      with True \<open>raw = _\<close> assms(2) show ?thesis by (auto simp: acknowledges_def close_codes_def)
    qed (use same in simp)
  qed
qed

lemma acknowledged_append [simp]:
  "acknowledged E (es @ [Other]) = acknowledged E es" "acknowledged E (es @ [Released rc]) = acknowledged E es"
  "acknowledged E (es @ [Closed a]) \<longleftrightarrow> acknowledged E es \<or> acknowledges E a"
  by (auto simp: acknowledged_def)

text \<open>
  C30: While the platform has not acknowledged closing a request that holds buffers, the request keeps
  naming the same id and the same buffers, however often it is queried, waited on, refused its closing or
  timed out, and every attempt to take the buffers back is refused: the program is never told to reuse
  memory the platform may still write. What counts is the platform's own answer to the call of the close;
  once it is success or not knowing the request, the request is dead and holds no buffers.\<close>

theorem request_buffers_held_until_closed:
  assumes "request_run E K (q, s) es (q', s')" and "r4_io_request_buffers_held (Some q)" and "close_codes E"
  shows "if acknowledged E es then \<not> r4_io_request_valid (Some q') \<and> \<not> r4_io_request_buffers_held (Some q')
    else buffers_of q' = buffers_of q \<and> r4_io_request_buffers_held (Some q') \<and>
      (\<forall>rc. Released rc \<in> set es \<longrightarrow> rc = code E ''R4OS_ERR_BUFFER_IN_USE'')"
  using assms(1)
proof (induction "(q, s)" es "(q', s')" arbitrary: q' s' rule: request_run.induct)
  case start
  then show ?case using assms(2) by (simp add: acknowledged_def)
next
  case (elsewhere es q1 s1 s2)
  then show ?case by simp
next
  case (status es q1 s1 out rc q2 s2)
  note same = status_buffers [OF status(3)]
  show ?case using status(2) same held_fields [OF same] valid_fields [OF same] by simp
next
  case (await es q1 s1 timeout r q2 s2)
  note same = wait_buffers [OF await(3)]
  show ?case using await(2) same held_fields [OF same] valid_fields [OF same] by simp
next
  case (close es q1 s1 rc q2 s2)
  show ?case
  proof (cases "acknowledged E es")
    case True
    then have "\<not> r4_io_request_valid (Some q1)" using close(2) by simp
    then show ?thesis using dead_close [OF close(3)] True by (simp add: r4_io_request_buffers_held_def)
  next
    case False
    then show ?thesis using close_facts [OF close(3) assms(3)] close(2)
      by (cases "acknowledges E (answer E s1 s2)") (simp_all add: r4_io_request_buffers_held_def)
  qed
next
  case (release es q1 s1 rc q2)
  show ?case
  proof (cases "acknowledged E es")
    case True
    then have "\<not> r4_io_request_valid (Some q1)" using release(2) by simp
    then have "\<not> r4_io_request_valid (Some q2)" using release_dead [OF release(3)] by simp
    then show ?thesis using True by (simp add: r4_io_request_buffers_held_def)
  next
    case False
    then have "r4_io_request_buffers_held (Some q1)" using release(2) by simp
    then have "q2 = q1" "rc = code E ''R4OS_ERR_BUFFER_IN_USE''" using release(3) by (simp_all add: r4_io_request_release_buffers_def)
    then show ?thesis using release(2) False by simp
  qed
qed

text \<open>A platform that refuses to close, and a program that then tries to take its buffer back.\<close>

definition refusing_code :: "string \<Rightarrow> u32" where
  "refusing_code c = (if c = ''R4OS_ERR_BUFFER_IN_USE'' then - 7 else if c = ''R4OS_IO_OK'' then 1
     else if c = ''R4OS_IO_ERROR_NOT_FOUND'' then 2 else if c = ''R4OS_ERR_CLOSED'' then 3 else 4)"

definition sample_request :: io_request where
  "sample_request = \<lparr>iq_app = Some sample_app, iq_raw = 7, iq_owned = 1, iq_kind = BUFFER_MUTABLE, iq_mutable = 0x9000,
     iq_read_only = 0, iq_length = 16, iq_info = []\<rparr>"

lemma refused_close:
  "\<exists>s. r4_io_request_close (sample_platform\<lparr>p_code := refusing_code\<rparr>) (Some sample_request) sample_state = Some ((0, Some sample_request), s) \<and>
    answer (sample_platform\<lparr>p_code := refusing_code\<rparr>) sample_state s = Some 0"
  by (simp add: sample_field sample_app_call r4_io_request_close_def r4_io_request_valid_def sample_request_def r4sys_io_close_def ask_def and_then_def give_def
    refusing_code_def answer_def) (simp add: sample_state_def sample_platform_def)

theorem request_buffers_held_until_closed_witness:
  "\<forall>K. \<exists>s. request_run (sample_platform\<lparr>p_code := refusing_code\<rparr>) K (sample_request, sample_state) [Closed (Some 0), Released (- 7)] (sample_request, s) \<and>
    r4_io_request_buffers_held (Some sample_request)"
proof
  fix K
  let ?E = "sample_platform\<lparr>p_code := refusing_code\<rparr>"
  obtain s where closed: "r4_io_request_close ?E (Some sample_request) sample_state = Some ((0, Some sample_request), s)"
    and answer: "answer ?E sample_state s = Some 0" using refused_close by blast
  have held: "r4_io_request_buffers_held (Some sample_request)"
    by (simp add: r4_io_request_buffers_held_def r4_io_request_valid_def sample_request_def)
  then have "r4_io_request_release_buffers ?E (Some sample_request) = (- 7, Some sample_request)"
    by (simp add: r4_io_request_release_buffers_def refusing_code_def)
  from request_run.release [OF request_run.close [OF request_run.start closed] this]
  have run: "request_run ?E K (sample_request, sample_state) [Closed (Some 0), Released (- 7)] (sample_request, s)" by (simp add: answer)
  have "\<not> acknowledged ?E [Closed (Some 0), Released (- 7)]" by (simp add: acknowledged_def acknowledges_def refusing_code_def)
  moreover have "close_codes ?E" by (simp add: close_codes_def refusing_code_def)
  ultimately show "\<exists>s. request_run ?E K (sample_request, sample_state) [Closed (Some 0), Released (- 7)] (sample_request, s) \<and>
      r4_io_request_buffers_held (Some sample_request)" using request_buffers_held_until_closed [OF run held] run by auto
qed

end
