(* ===== verification/ResourceCalls.thy ===== *)
theory ResourceCalls
  imports Processes
begin

text \<open>
  The operations of \<open>Shared/C/include/r4os/app_resources.h\<close> that keep no state of their own: program
  inventory, notifications, program-local words and the raw thread and program calls. Each tests its
  arguments and the slot it needs, through the resource handle's own test or that of the system facade,
  and calls the platform.
\<close>

definition resource_call ::
  "'w platform \<Rightarrow> r4_resources option \<Rightarrow> bool \<Rightarrow> i32 \<Rightarrow> i32 \<Rightarrow> string \<Rightarrow> u64 list \<Rightarrow> (i32, 'w) io" where
  "resource_call E resources bad invalid missing slot args =
     (if bad then give invalid
      else ask (app_field E (resources_app resources) slot) (\<lambda>ok.
        if \<not> ok then give missing else app_call E (resources_app resources) slot args))"

definition desk_resource_call :: "'w platform \<Rightarrow> r4_resources option \<Rightarrow> 'a::len word \<Rightarrow> string \<Rightarrow> u64 list \<Rightarrow> ('a word, 'w) io" where
  "desk_resource_call E resources missing slot args =
     ask (desk_app_field E (resources_app resources) slot) (\<lambda>ok.
       if \<not> ok then give missing else desk_app_call E (resources_app resources) slot args)"

definition with_system :: "r4_resources option \<Rightarrow> 'a \<Rightarrow> (r4_sys option \<Rightarrow> ('a, 'w) io) \<Rightarrow> ('a, 'w) io" where
  "with_system resources missing call =
     (if resources_app resources = None then give missing else call (system_of (resources_app resources)))"

definition r4_resources_notification_create :: "'w platform \<Rightarrow> r4_resources option \<Rightarrow> u64 \<Rightarrow> (i32, 'w) io" where
  "r4_resources_notification_create E resources out =
     resource_call E resources (out = 0) (code E ''R4OS_ERROR_INVALID'') (code E ''R4OS_ERR_NO_FN'') ''notification_create'' [out]"

definition r4_resources_notification_query :: "'w platform \<Rightarrow> r4_resources option \<Rightarrow> u64 \<Rightarrow> u64 \<Rightarrow> (i32, 'w) io" where
  "r4_resources_notification_query E resources handle_v sequence =
     resource_call E resources (sequence = 0) (code E ''R4OS_ERROR_INVALID'') (code E ''R4OS_ERR_NO_FN'') ''notification_query'' [handle_v, sequence]"

definition r4_resources_notification_notify :: "'w platform \<Rightarrow> r4_resources option \<Rightarrow> u64 \<Rightarrow> u32 \<Rightarrow> (i32, 'w) io" where
  "r4_resources_notification_notify E resources handle_v count_v =
     resource_call E resources (False) (code E ''R4OS_ERROR_INVALID'') (code E ''R4OS_ERR_NO_FN'') ''notification_notify'' [handle_v, ucast count_v]"

definition r4_resources_notification_wait :: "'w platform \<Rightarrow> r4_resources option \<Rightarrow> u64 \<Rightarrow> u64 \<Rightarrow> u64 \<Rightarrow> (i32, 'w) io" where
  "r4_resources_notification_wait E resources handle_v observed ticks =
     resource_call E resources (False) (code E ''R4OS_ERROR_INVALID'') (code E ''R4OS_ERR_NO_FN'') ''notification_wait'' [handle_v, observed, ticks]"

definition r4_resources_notification_close :: "'w platform \<Rightarrow> r4_resources option \<Rightarrow> u64 \<Rightarrow> (i32, 'w) io" where
  "r4_resources_notification_close E resources handle_v =
     resource_call E resources (False) (code E ''R4OS_ERROR_INVALID'') (code E ''R4OS_ERR_NO_FN'') ''notification_close'' [handle_v]"

definition r4_resources_program_local_get :: "'w platform \<Rightarrow> r4_resources option \<Rightarrow> u64 \<Rightarrow> u64 \<Rightarrow> (i32, 'w) io" where
  "r4_resources_program_local_get E resources key out =
     resource_call E resources (out = 0) (code E ''R4OS_ERROR_INVALID'') (code E ''R4OS_ERR_NO_FN'') ''program_local_get'' [key, out]"

definition r4_resources_program_local_publish :: "'w platform \<Rightarrow> r4_resources option \<Rightarrow> u64 \<Rightarrow> u64 \<Rightarrow> u64 \<Rightarrow> (i32, 'w) io" where
  "r4_resources_program_local_publish E resources key content out =
     resource_call E resources (out = 0) (code E ''R4OS_ERROR_INVALID'') (code E ''R4OS_ERR_NO_FN'') ''program_local_publish'' [key, content, out]"

definition r4_resources_program_run :: "'w platform \<Rightarrow> r4_resources option \<Rightarrow> u64 \<Rightarrow> u64 \<Rightarrow> (i32, 'w) io" where
  "r4_resources_program_run E resources path args =
     resource_call E resources (path = 0 \<or> args = 0) (code E ''R4OS_ERROR_INVALID'') (code E ''R4OS_ERR_NO_FN'') ''program_run'' [path, args]"

definition r4_resources_program_launch :: "'w platform \<Rightarrow> r4_resources option \<Rightarrow> u64 \<Rightarrow> u64 \<Rightarrow> u32 \<Rightarrow> (i32, 'w) io" where
  "r4_resources_program_launch E resources path args policy =
     resource_call E resources (path = 0 \<or> args = 0) (code E ''R4OS_ERROR_INVALID'') (code E ''R4OS_ERR_NO_FN'') ''program_launch'' [path, args, ucast policy]"

definition r4_resources_program_spawn :: "'w platform \<Rightarrow> r4_resources option \<Rightarrow> u64 \<Rightarrow> u64 \<Rightarrow> u32 \<Rightarrow> (i32, 'w) io" where
  "r4_resources_program_spawn E resources path args policy =
     resource_call E resources (path = 0 \<or> args = 0) (code E ''R4OS_ERROR_INVALID'') (code E ''R4OS_ERR_NO_FN'') ''program_spawn'' [path, args, ucast policy]"

definition r4_resources_program_instance :: "'w platform \<Rightarrow> r4_resources option \<Rightarrow> u32 \<Rightarrow> u64 \<Rightarrow> (i32, 'w) io" where
  "r4_resources_program_instance E resources index out =
     resource_call E resources (out = 0) (code E ''R4OS_ERROR_INVALID'') (code E ''R4OS_ERR_NO_FN'') ''program_instance'' [ucast index, out]"

definition r4_resources_program_class :: "'w platform \<Rightarrow> r4_resources option \<Rightarrow> u64 \<Rightarrow> u32 \<Rightarrow> (i32, 'w) io" where
  "r4_resources_program_class E resources path policy =
     resource_call E resources (path = 0) (code E ''R4OS_ERROR_INVALID'') (code E ''R4OS_ERR_NO_FN'') ''program_class'' [path, ucast policy]"

definition r4_resources_program_module_path :: "'w platform \<Rightarrow> r4_resources option \<Rightarrow> u64 \<Rightarrow> u32 \<Rightarrow> (i32, 'w) io" where
  "r4_resources_program_module_path E resources out capacity =
     resource_call E resources (out = 0) (code E ''R4OS_ERROR_INVALID'') (code E ''R4OS_ERR_NO_FN'') ''program_module_path'' [out, ucast capacity]"

definition r4_resources_program_module_running :: "'w platform \<Rightarrow> r4_resources option \<Rightarrow> u64 \<Rightarrow> (i32, 'w) io" where
  "r4_resources_program_module_running E resources path =
     resource_call E resources (path = 0) (code E ''R4OS_ERROR_INVALID'') (code E ''R4OS_ERR_NO_FN'') ''program_module_running'' [path]"

definition r4_resources_program_reap_instance :: "'w platform \<Rightarrow> r4_resources option \<Rightarrow> u32 \<Rightarrow> (i32, 'w) io" where
  "r4_resources_program_reap_instance E resources instance_v =
     resource_call E resources (False) (code E ''R4OS_ERROR_INVALID'') (code E ''R4OS_ERR_NO_FN'') ''program_reap_instance'' [ucast instance_v]"

definition r4_resources_program_request_close :: "'w platform \<Rightarrow> r4_resources option \<Rightarrow> u32 \<Rightarrow> (i32, 'w) io" where
  "r4_resources_program_request_close E resources instance_v =
     resource_call E resources (False) (code E ''R4OS_ERROR_INVALID'') (code E ''R4OS_ERR_NO_FN'') ''program_request_close'' [ucast instance_v]"

definition r4_resources_program_kill :: "'w platform \<Rightarrow> r4_resources option \<Rightarrow> u32 \<Rightarrow> (i32, 'w) io" where
  "r4_resources_program_kill E resources instance_v =
     resource_call E resources (False) (code E ''R4OS_ERROR_INVALID'') (code E ''R4OS_ERR_NO_FN'') ''program_kill'' [ucast instance_v]"

definition r4_resources_program_exit :: "'w platform \<Rightarrow> r4_resources option \<Rightarrow> u32 \<Rightarrow> u32 \<Rightarrow> (i32, 'w) io" where
  "r4_resources_program_exit E resources exit_code reason =
     resource_call E resources (False) (code E ''R4OS_ERROR_INVALID'') (code E ''R4OS_ERR_NO_FN'') ''program_exit'' [ucast exit_code, ucast reason]"

definition r4_resources_cpu_capacity :: "'w platform \<Rightarrow> r4_resources option \<Rightarrow> u64 \<Rightarrow> (i32, 'w) io" where
  "r4_resources_cpu_capacity E resources out =
     with_system resources (code E ''R4OS_ERR_NO_FN'') (\<lambda>sys. r4sys_cpu_capacity E sys out)"

definition r4_resources_program_lifecycle_begin :: "'w platform \<Rightarrow> r4_resources option \<Rightarrow> u64 \<Rightarrow> (i32, 'w) io" where
  "r4_resources_program_lifecycle_begin E resources cursor =
     with_system resources (code E ''R4OS_PROGRAM_HANDLE_ERROR_INVALID'') (\<lambda>sys. r4sys_program_lifecycle_begin E sys cursor)"

definition r4_resources_program_lifecycle_programs :: "'w platform \<Rightarrow> r4_resources option \<Rightarrow> u64 \<Rightarrow> u64 \<Rightarrow> u32 \<Rightarrow> u64 \<Rightarrow> (i32, 'w) io" where
  "r4_resources_program_lifecycle_programs E resources cursor out capacity page =
     with_system resources (code E ''R4OS_PROGRAM_HANDLE_ERROR_INVALID'') (\<lambda>sys. r4sys_program_lifecycle_programs E sys cursor out capacity page)"

definition r4_resources_program_inventory_begin :: "'w platform \<Rightarrow> r4_resources option \<Rightarrow> u64 \<Rightarrow> u64 \<Rightarrow> (i32, 'w) io" where
  "r4_resources_program_inventory_begin E resources cursor summary =
     with_system resources (code E ''R4OS_ERR_NO_FN'') (\<lambda>sys. r4sys_program_inventory_begin E sys cursor summary)"

definition r4_resources_program_inventory_programs :: "'w platform \<Rightarrow> r4_resources option \<Rightarrow> u64 \<Rightarrow> u64 \<Rightarrow> u32 \<Rightarrow> u64 \<Rightarrow> (i32, 'w) io" where
  "r4_resources_program_inventory_programs E resources cursor out capacity page =
     with_system resources (code E ''R4OS_ERR_NO_FN'') (\<lambda>sys. r4sys_program_inventory_programs E sys cursor out capacity page)"

definition r4_resources_program_inventory_tasks :: "'w platform \<Rightarrow> r4_resources option \<Rightarrow> u64 \<Rightarrow> u64 \<Rightarrow> u32 \<Rightarrow> u64 \<Rightarrow> (i32, 'w) io" where
  "r4_resources_program_inventory_tasks E resources cursor out capacity page =
     with_system resources (code E ''R4OS_ERR_NO_FN'') (\<lambda>sys. r4sys_program_inventory_tasks E sys cursor out capacity page)"

definition r4_resources_program_inventory_threads :: "'w platform \<Rightarrow> r4_resources option \<Rightarrow> u64 \<Rightarrow> u64 \<Rightarrow> u32 \<Rightarrow> u64 \<Rightarrow> (i32, 'w) io" where
  "r4_resources_program_inventory_threads E resources cursor out capacity page =
     with_system resources (code E ''R4OS_ERR_NO_FN'') (\<lambda>sys. r4sys_program_inventory_threads E sys cursor out capacity page)"

definition r4_resources_thread_join_raw :: "'w platform \<Rightarrow> r4_resources option \<Rightarrow> u32 \<Rightarrow> u64 \<Rightarrow> u64 \<Rightarrow> (i32, 'w) io" where
  "r4_resources_thread_join_raw E resources thread_v ticks out =
     with_system resources (code E ''R4OS_THREAD_ERROR_UNSUPPORTED'') (\<lambda>sys. r4sys_thread_join E sys thread_v ticks out)"

definition r4_resources_thread_status_raw :: "'w platform \<Rightarrow> r4_resources option \<Rightarrow> u32 \<Rightarrow> u64 \<Rightarrow> (i32, 'w) io" where
  "r4_resources_thread_status_raw E resources thread_v out =
     with_system resources (code E ''R4OS_THREAD_ERROR_UNSUPPORTED'') (\<lambda>sys. r4sys_thread_status E sys thread_v out)"

definition r4_resources_thread_current_id :: "'w platform \<Rightarrow> r4_resources option \<Rightarrow> (u32, 'w) io" where
  "r4_resources_thread_current_id E resources = with_system resources 0 (\<lambda>sys. r4sys_thread_current E sys)"

text \<open>Support is the presence of every slot the handles need.\<close>

definition r4_resources_available :: "'w platform \<Rightarrow> r4_resources option \<Rightarrow> query" where
  "r4_resources_available E resources =
     foldr (\<lambda>slot. q_and (app_field E (resources_app resources) slot))
       [''program_spawn_handle'', ''program_open_handle'', ''program_handle_status'', ''program_handle_request_close'', ''program_handle_kill'',
        ''program_handle_wait'', ''program_handle_reap'', ''program_completion_read'', ''thread_create_handle'', ''thread_handle_join'',
        ''thread_handle_status'', ''vm_reserve'', ''vm_release'', ''io_wait'', ''io_close''] (sure True)"

definition r4_resource_timeout_ticks ::
  "'w platform \<Rightarrow> time_codes \<Rightarrow> r4_resources option \<Rightarrow> r4_timeout \<Rightarrow> u64 option \<Rightarrow> (i32 \<times> u64 option, 'w) io" where
  "r4_resource_timeout_ticks E K resources timeout out =
     and_then (r4_resource_monotonic_hz E (resources_app resources)) (\<lambda>hz. give (r4_timeout_to_ticks K timeout hz out))"

text \<open>The callback has no result; a valid terminal callback of \<open>thread_exit\<close> does not return.\<close>

definition r4_resources_program_status :: "'w platform \<Rightarrow> r4_resources option \<Rightarrow> u64 \<Rightarrow> (i32, 'w) io" where
  "r4_resources_program_status E resources out =
     (if out = 0 then give (code E ''R4OS_ERR_NO_FN'')
      else ask (app_field E (resources_app resources) ''program_status'') (\<lambda>ok.
        if \<not> ok then give (code E ''R4OS_ERR_NO_FN'')
        else and_then (app_call E (resources_app resources) ''program_status'' [out] :: (u64, 'w) io) (\<lambda>_. give (code E ''R4OS_OK''))))"

definition r4_resources_thread_create_raw ::
  "'w platform \<Rightarrow> r4_resources option \<Rightarrow> u64 \<Rightarrow> u64 \<Rightarrow> u64 \<Rightarrow> u32 \<Rightarrow> u64 \<Rightarrow> (i32, 'w) io" where
  "r4_resources_thread_create_raw E resources entry arg reserve flags out =
     and_then (if out \<noteq> 0 then Platform.store out (replicate 4 0) else give ()) (\<lambda>_.
       resource_call E resources (entry = 0 \<or> out = 0) (code E ''R4OS_THREAD_ERROR_INVALID'') (code E ''R4OS_THREAD_ERROR_UNSUPPORTED'')
         ''thread_create'' [entry, arg, reserve, ucast flags, out])"

definition r4_resources_thread_exit :: "'w platform \<Rightarrow> r4_resources option \<Rightarrow> u32 \<Rightarrow> (i32, 'w) io" where
  "r4_resources_thread_exit E resources exit_code =
     ask (app_field E (resources_app resources) ''thread_exit'') (\<lambda>ok.
       if \<not> ok then give (code E ''R4OS_THREAD_ERROR_UNSUPPORTED'')
       else and_then (app_call E (resources_app resources) ''thread_exit'' [ucast exit_code] :: (u64, 'w) io) (\<lambda>_.
         give (code E ''R4OS_THREAD_ERROR_INVALID'')))"

definition r4_resources_program_set_console_host :: "'w platform \<Rightarrow> r4_resources option \<Rightarrow> u32 \<Rightarrow> u32 \<Rightarrow> (i32, 'w) io" where
  "r4_resources_program_set_console_host E resources instance_v host =
     desk_resource_call E resources (code E ''R4OS_ERR_NO_FN'') ''program_set_console_host'' [ucast instance_v, ucast host]"

definition r4_resources_program_current_console_host :: "'w platform \<Rightarrow> r4_resources option \<Rightarrow> (u32, 'w) io" where
  "r4_resources_program_current_console_host E resources =
     desk_resource_call E resources (p_code E ''R4ABI_CONSOLE_HOST_KIND_NONE'') ''program_current_console_host'' []"

definition r4_resources_program_request_desktop :: "'w platform \<Rightarrow> r4_resources option \<Rightarrow> (i32, 'w) io" where
  "r4_resources_program_request_desktop E resources =
     desk_resource_call E resources (code E ''R4OS_ERR_NO_FN'') ''program_request_desktop'' []"

definition r4_resources_program_spawn_with_console_host ::
  "'w platform \<Rightarrow> r4_resources option \<Rightarrow> u64 \<Rightarrow> u64 \<Rightarrow> u32 \<Rightarrow> u32 \<Rightarrow> (i32, 'w) io" where
  "r4_resources_program_spawn_with_console_host E resources path args policy host =
     (if path = 0 \<or> args = 0 then give (code E ''R4OS_PROGRAM_HANDLE_ERROR_INVALID'')
      else desk_resource_call E resources (code E ''R4OS_ERR_NO_FN'') ''program_spawn_with_console_host''
        [path, args, ucast policy, ucast host])"

end
