(* ===== verification/Audio.thy ===== *)
theory Audio
  imports ServiceClient
begin

text \<open>
  \<open>Shared/C/include/r4os/app_audio.h\<close>: the client of the audio service. A stream owns a connection and
  a stream id; written data goes out in pieces and the result says how long a prefix the service took.
  Replies are accepted by the SDK's own check, \<open>r4os/audio_stream_reply.zig\<close>, which is translated here too;
  the generated bridge between the two is a parameter.
\<close>

subsection \<open>Data\<close>

datatype audio_result_kind = AUDIO_OK | AUDIO_TIMED_OUT | AUDIO_NO_SERVICE | AUDIO_FAILED | AUDIO_BUSY

record audio_result =
  ar_kind :: audio_result_kind
  ar_raw :: i32
  ar_bytes :: u32

record audio_stream =
  as_connection :: service_link
  as_stream_id :: u32
  as_owned :: u8
  as_frame_bytes :: u32

definition stream_zero :: "'w platform \<Rightarrow> audio_stream" where
  "stream_zero E = \<lparr>as_connection = link_zero E, as_stream_id = 0, as_owned = 0, as_frame_bytes = 0\<rparr>"

definition r4_audio_stream_valid :: "audio_stream option \<Rightarrow> bool" where
  "r4_audio_stream_valid stream =
     (case stream of
        None \<Rightarrow> False
      | Some st \<Rightarrow> as_owned st \<noteq> 0 \<and> as_stream_id st \<noteq> 0 \<and> r4_service_connection_valid (Some (as_connection st)))"

definition r4_audio_result :: "audio_result_kind \<Rightarrow> i32 \<Rightarrow> u32 \<Rightarrow> audio_result" where
  "r4_audio_result kind raw bytes = \<lparr>ar_kind = kind, ar_raw = raw, ar_bytes = bytes\<rparr>"

abbreviation audio_op :: "'w platform \<Rightarrow> string \<Rightarrow> u16" where
  "audio_op E c \<equiv> ucast (p_code E (''R4OS_AUDIO_SERVICE_OP_'' @ c))"

subsection \<open>Records on the wire\<close>

text \<open>The header fixes their layout: each record is its members in order, little endian, 24, 20, 20 and 120 bytes.\<close>

definition wire_head :: "'w platform \<Rightarrow> bytes" where
  "wire_head E = le_bytes 4 (p_code E ''R4OS_AUDIO_SERVICE_REQUEST_MAGIC'') @ le_bytes 2 (p_code E ''R4OS_AUDIO_SERVICE_REQUEST_VERSION'') @ [0, 0]"

definition wire_open :: "'w platform \<Rightarrow> u32 \<Rightarrow> u16 \<Rightarrow> u16 \<Rightarrow> u32 \<Rightarrow> bytes" where
  "wire_open E rate channels format volume =
     wire_head E @ le_bytes 4 rate @ le_bytes 2 channels @ le_bytes 2 format @ le_bytes 4 volume @ le_bytes 4 (0 :: u32)"

definition wire_write :: "'w platform \<Rightarrow> u32 \<Rightarrow> u32 \<Rightarrow> bytes" where
  "wire_write E stream_id byte_count = wire_head E @ le_bytes 4 stream_id @ le_bytes 4 byte_count @ le_bytes 4 (0 :: u32)"

definition wire_control :: "'w platform \<Rightarrow> u32 \<Rightarrow> u32 \<Rightarrow> bytes" where
  "wire_control E stream_id volume = wire_head E @ le_bytes 4 stream_id @ le_bytes 4 volume @ le_bytes 4 (0 :: u32)"

text \<open>The members of \<open>R4AudioWireResult\<close> the client reads.\<close>

definition wire_magic :: "bytes \<Rightarrow> u32" where "wire_magic v = le_word (take 4 v)"
definition wire_version :: "bytes \<Rightarrow> u16" where "wire_version v = le_word (take 2 (drop 4 v))"
definition wire_action :: "bytes \<Rightarrow> u16" where "wire_action v = le_word (take 2 (drop 6 v))"
definition wire_result :: "bytes \<Rightarrow> i32" where "wire_result v = le_word (take 4 (drop 8 v))"
definition wire_stream :: "bytes \<Rightarrow> u32" where "wire_stream v = le_word (take 4 (drop 12 v))"
definition wire_bytes :: "bytes \<Rightarrow> u32" where "wire_bytes v = le_word (take 4 (drop 16 v))"

definition r4_audio_response_valid :: "'w platform \<Rightarrow> bytes \<Rightarrow> u16 \<Rightarrow> bool" where
  "r4_audio_response_valid E v action \<longleftrightarrow> wire_magic v = p_code E ''R4OS_AUDIO_SERVICE_RESULT_MAGIC'' \<and>
     wire_version v = ucast (p_code E ''R4OS_AUDIO_SERVICE_RESULT_VERSION'') \<and> wire_action v = action"

text \<open>\<open>validate\<close> of the SDK: a valid negative reply acknowledges nothing, a valid write acknowledges whole frames.\<close>

definition reply_validate :: "'w platform \<Rightarrow> bytes \<Rightarrow> u16 \<Rightarrow> u32 \<Rightarrow> u32 \<Rightarrow> u64 \<Rightarrow> bool" where
  "reply_validate E v action stream_id maximum_bytes frame_bytes \<longleftrightarrow>
     length v = 120 \<and> r4_audio_response_valid E v action \<and>
     (if action = audio_op E ''OPEN_STREAM''
      then wire_bytes v = 0 \<and>
        (if negative (wire_result v) then wire_stream v = 0 else 0 < sint (wire_result v) \<and> wire_stream v = wire_result v)
      else stream_id \<noteq> 0 \<and> wire_stream v = stream_id \<and>
        action \<in> {audio_op E ''WRITE_STREAM'', audio_op E ''SET_STREAM_VOLUME'', audio_op E ''CLOSE_STREAM''} \<and>
        (if negative (wire_result v) then wire_bytes v = 0
         else if action = audio_op E ''WRITE_STREAM''
         then wire_bytes v \<noteq> 0 \<and> wire_bytes v \<le> maximum_bytes \<and> frame_bytes \<noteq> 0 \<and> ucast (wire_bytes v) mod frame_bytes = 0 \<and>
           sint (wire_result v) = uint (wire_bytes v)
         else wire_result v = 0 \<and> wire_bytes v = 0))"

text \<open>The bridge answers in a slot.\<close>

record data_slot =
  ds_status :: i32
  ds_flags :: u32
  ds_bits :: u64

type_synonym reply_bridge = "bytes \<Rightarrow> u16 \<Rightarrow> u32 \<Rightarrow> u32 \<Rightarrow> u64 \<Rightarrow> data_slot"

definition r4_audio_stream_reply_valid :: "'w platform \<Rightarrow> reply_bridge \<Rightarrow> bytes \<Rightarrow> u16 \<Rightarrow> u32 \<Rightarrow> u32 \<Rightarrow> u64 \<Rightarrow> bool" where
  "r4_audio_stream_reply_valid E B v action stream_id maximum_bytes frame_bytes \<longleftrightarrow>
     (let checked = B v action stream_id maximum_bytes frame_bytes in
      ds_status checked = 0 \<and> ds_flags checked AND p_code E ''R4SDKDATA_PRESENT'' \<noteq> 0 \<and> ds_bits checked \<noteq> 0)"

definition r4_audio_master_state_valid :: "'w platform \<Rightarrow> bytes \<Rightarrow> bool" where
  "r4_audio_master_state_valid E v \<longleftrightarrow>
     field E ''R4AudioServiceMasterState'' ''magic'' v = ucast (p_code E ''R4OS_AUDIO_MASTER_STATE_MAGIC'') \<and>
     field E ''R4AudioServiceMasterState'' ''version'' v = ucast (p_code E ''R4OS_AUDIO_MASTER_STATE_VERSION'') \<and>
     field E ''R4AudioServiceMasterState'' ''size'' v = sizeof E ''R4AudioServiceMasterState''"

subsection \<open>The master volume\<close>

definition r4_audio_available :: "'w platform \<Rightarrow> r4_app option \<Rightarrow> query" where
  "r4_audio_available E app =
     q_and (sure (app \<noteq> None)) (foldr (\<lambda>slot. q_and (app_field E app slot)) [''service_open'', ''service_close'', ''service_call''] (sure True))"

text \<open>A connection to the service, or the result that says there is none.\<close>

definition audio_open :: "'w platform \<Rightarrow> r4_app option \<Rightarrow> (audio_result + service_link option, 'w) io" where
  "audio_open E app =
     and_then (r4_services_open E (Some (r4_app_services app)) (p_local E ''AUDSVC'') (Some (link_zero E))) (\<lambda>(opened, c).
       give (if opened \<noteq> code E ''R4OS_SERVICE_API_RESULT_OK'' then Inl (r4_audio_result AUDIO_NO_SERVICE opened 0) else Inr c))"

definition master_result :: "'w platform \<Rightarrow> service_call_result \<Rightarrow> bytes \<Rightarrow> audio_result" where
  "master_result E call v =
     (if sc_kind call = CALL_TIMED_OUT then r4_audio_result AUDIO_TIMED_OUT (code E ''R4OS_SERVICE_API_RESULT_TIMEOUT'') 0
      else if sc_kind call \<noteq> CALL_RESPONSE \<or> \<not> r4_audio_master_state_valid E v
      then r4_audio_result AUDIO_FAILED
        (if sc_kind call = CALL_RESPONSE then code E ''R4OS_SERVICE_API_RESULT_INVALID'' else sc_raw_code call) 0
      else r4_audio_result AUDIO_OK (code E ''R4OS_OK'') 0)"

definition r4_audio_master_call ::
  "'w platform \<Rightarrow> time_codes \<Rightarrow> r4_app option \<Rightarrow> u16 \<Rightarrow> u64 \<Rightarrow> u32 \<Rightarrow> r4_timeout \<Rightarrow> u64 \<Rightarrow> (audio_result, 'w) io" where
  "r4_audio_master_call E K app op_code request request_size timeout out =
     ask (q_and (r4_audio_available E app) (sure (out \<noteq> 0))) (\<lambda>ok.
       if \<not> ok then give (r4_audio_result AUDIO_NO_SERVICE (code E ''R4OS_ERR_NO_FN'') 0)
       else and_then (audio_open E app) (\<lambda>opened. case opened of
         Inl r \<Rightarrow> give r
       | Inr c \<Rightarrow>
           and_then (clear_obj E out ''R4AudioServiceMasterState'') (\<lambda>_.
           and_then (r4_service_connection_call_struct E K c op_code request request_size out
               (ucast (sizeof E ''R4AudioServiceMasterState'')) timeout) (\<lambda>(call, c).
           and_then (r4_service_connection_close E c) (\<lambda>_.
           and_then (load_obj E out ''R4AudioServiceMasterState'') (\<lambda>v. give (master_result E call v)))))))"

definition r4_audio_master_status ::
  "'w platform \<Rightarrow> time_codes \<Rightarrow> r4_app option \<Rightarrow> r4_timeout \<Rightarrow> u64 \<Rightarrow> (audio_result, 'w) io" where
  "r4_audio_master_status E K app timeout out = r4_audio_master_call E K app (audio_op E ''MASTER_STATUS'') 0 0 timeout out"

definition r4_audio_set_master_state ::
  "'w platform \<Rightarrow> time_codes \<Rightarrow> r4_app option \<Rightarrow> u32 \<Rightarrow> u32 \<Rightarrow> bool \<Rightarrow> u64 \<Rightarrow> r4_timeout \<Rightarrow> u64 \<Rightarrow> (audio_result, 'w) io" where
  "r4_audio_set_master_state E K app update_flags volume muted expected_revision timeout out =
     (let set_volume = p_code E ''R4OS_AUDIO_MASTER_REQUEST_FLAG_SET_VOLUME''; set_muted = p_code E ''R4OS_AUDIO_MASTER_REQUEST_FLAG_SET_MUTED'';
          allowed = set_volume OR set_muted; T = ''R4AudioServiceMasterRequest''; request = p_local E ''request'';
          flags = (if update_flags AND set_muted \<noteq> 0 \<and> muted
                   then update_flags OR p_code E ''R4OS_AUDIO_MASTER_REQUEST_FLAG_MUTED'' else update_flags) in
      if update_flags AND allowed = 0 \<or> update_flags AND NOT allowed \<noteq> 0
      then give (r4_audio_result AUDIO_FAILED (code E ''R4OS_SERVICE_API_RESULT_INVALID'') 0)
      else and_then (clear_obj E request T) (\<lambda>_.
        and_then (each (\<lambda>(m, v). put_member E request T m v)
          [(''magic'', ucast (p_code E ''R4OS_AUDIO_MASTER_REQUEST_MAGIC'')), (''version'', ucast (p_code E ''R4OS_AUDIO_MASTER_REQUEST_VERSION'')),
           (''size'', sizeof E T), (''flags'', ucast flags), (''fixed_volume'', ucast volume), (''expected_revision'', expected_revision)]) (\<lambda>_.
        r4_audio_master_call E K app (audio_op E ''SET_MASTER_STATE'') request (ucast (sizeof E T)) timeout out)))"

subsection \<open>Opening a stream\<close>

definition open_bad :: "'w platform \<Rightarrow> u32 \<Rightarrow> u16 \<Rightarrow> u16 \<Rightarrow> bool" where
  "open_bad E rate channels format \<longleftrightarrow> rate = 0 \<or> rate > 192000 \<or> channels = 0 \<or> channels > 2 \<or>
     ucast format \<noteq> p_code E ''R4OS_AUDIO_BACKEND_FORMAT_S16LE''"

text \<open>The call with a request in a local object and the reply in another, cleared before it.\<close>

definition wire_call ::
  "'w platform \<Rightarrow> time_codes \<Rightarrow> service_link option \<Rightarrow> u16 \<Rightarrow> bytes \<Rightarrow> r4_timeout \<Rightarrow> (service_call_result \<times> service_link option \<times> bytes, 'w) io" where
  "wire_call E K c op_code request timeout =
     and_then (Platform.store (p_local E ''request'') request) (\<lambda>_.
     and_then (Platform.store (p_local E ''response'') (replicate 120 0)) (\<lambda>_.
     and_then (r4_service_connection_call_struct E K c op_code (p_local E ''request'') (word_of_nat (length request))
         (p_local E ''response'') 120 timeout) (\<lambda>(call, c).
     and_then (load_range (p_local E ''response'') 120) (\<lambda>v. give (call, c, v)))))"

definition r4_audio_open_stream ::
  "'w platform \<Rightarrow> time_codes \<Rightarrow> reply_bridge \<Rightarrow> r4_app option \<Rightarrow> u32 \<Rightarrow> u16 \<Rightarrow> u16 \<Rightarrow> u32 \<Rightarrow> r4_timeout \<Rightarrow> audio_stream option \<Rightarrow>
    (audio_result \<times> audio_stream option, 'w) io" where
  "r4_audio_open_stream E K B app rate channels format volume timeout out =
     (let zero = map_option (\<lambda>_. stream_zero E) out; refuse = (\<lambda>kind raw. give (r4_audio_result kind raw 0, zero)) in
      ask (q_and (r4_audio_available E app) (sure (out \<noteq> None))) (\<lambda>ok.
        if \<not> ok then refuse AUDIO_NO_SERVICE (code E ''R4OS_ERR_NO_FN'')
        else if open_bad E rate channels format then refuse AUDIO_FAILED (code E ''R4OS_SERVICE_API_RESULT_INVALID'')
        else and_then (audio_open E app) (\<lambda>opened. case opened of
          Inl r \<Rightarrow> give (r, zero)
        | Inr c \<Rightarrow>
            and_then (wire_call E K c (audio_op E ''OPEN_STREAM'') (wire_open E rate channels format volume) timeout) (\<lambda>(call, c, v).
              let valid = (sc_kind call = CALL_RESPONSE \<and> r4_audio_stream_reply_valid E B v (audio_op E ''OPEN_STREAM'') 0 0 0) in
              if sc_kind call = CALL_TIMED_OUT
              then and_then (r4_service_connection_close E c) (\<lambda>_. refuse AUDIO_TIMED_OUT (code E ''R4OS_SERVICE_API_RESULT_TIMEOUT''))
              else if \<not> valid \<or> negative (wire_result v)
              then and_then (r4_service_connection_close E c) (\<lambda>_. refuse AUDIO_FAILED
                (if sc_kind call = CALL_RESPONSE then if valid then wire_result v else code E ''R4OS_SERVICE_API_RESULT_INVALID''
                 else sc_raw_code call))
              else give (r4_audio_result AUDIO_OK (code E ''R4OS_OK'') 0,
                Some \<lparr>as_connection = (case c of None \<Rightarrow> link_zero E | Some l \<Rightarrow> l), as_stream_id = wire_stream v, as_owned = 1,
                  as_frame_bytes = ucast channels * 2\<rparr>)))))"

subsection \<open>Writing\<close>

text \<open>One piece: the wire record and as much data as fits a message; the reply, or why the write stops.\<close>

definition audio_chunk :: "'w platform \<Rightarrow> u32 \<Rightarrow> u32 \<Rightarrow> u32" where
  "audio_chunk E data_len offset = min (data_len - offset) (p_code E ''R4OS_SERVICE_API_MAX_PAYLOAD'' - 20)"

definition piece_result ::
  "'w platform \<Rightarrow> reply_bridge \<Rightarrow> audio_stream \<Rightarrow> u32 \<Rightarrow> u32 \<Rightarrow> service_call_result \<Rightarrow> bytes \<Rightarrow> audio_result + u32" where
  "piece_result E B st chunk offset call v =
     (if sc_kind call = CALL_TIMED_OUT then Inl (r4_audio_result AUDIO_TIMED_OUT (code E ''R4OS_SERVICE_API_RESULT_TIMEOUT'') offset)
      else if sc_kind call = CALL_RESPONSE \<and> (sc_bytes call \<noteq> 120 \<or>
        \<not> r4_audio_stream_reply_valid E B v (audio_op E ''WRITE_STREAM'') (as_stream_id st) chunk (ucast (as_frame_bytes st)))
      then Inl (r4_audio_result AUDIO_FAILED (code E ''R4OS_SERVICE_API_RESULT_INVALID'') offset)
      else if sc_kind call = CALL_RESPONSE \<and> wire_result v = code E ''R4OS_SERVICE_API_RESULT_BUSY''
      then Inl (r4_audio_result AUDIO_BUSY (code E ''R4OS_SERVICE_API_RESULT_BUSY'') offset)
      else if sc_kind call \<noteq> CALL_RESPONSE \<or> negative (wire_result v)
      then Inl (r4_audio_result AUDIO_FAILED (if sc_kind call = CALL_RESPONSE then wire_result v else sc_raw_code call) offset)
      else Inr (wire_bytes v))"

definition audio_piece ::
  "'w platform \<Rightarrow> time_codes \<Rightarrow> reply_bridge \<Rightarrow> audio_stream \<Rightarrow> u64 \<Rightarrow> u32 \<Rightarrow> r4_timeout \<Rightarrow> u32 \<Rightarrow> ((audio_result + u32) \<times> audio_stream, 'w) io" where
  "audio_piece E K B st data data_len timeout offset =
     (let chunk = audio_chunk E data_len offset; payload = p_local E ''payload'' in
      and_then (Platform.store payload (wire_write E (as_stream_id st) chunk)) (\<lambda>_.
      and_then (copy_range (payload + 20) (data + ucast offset) (unat chunk)) (\<lambda>_.
      and_then (Platform.store (p_local E ''response'') (replicate 120 0)) (\<lambda>_.
      and_then (r4_service_connection_call E K (Some (as_connection st)) (audio_op E ''WRITE_STREAM'') payload (20 + chunk)
          (p_local E ''response'') 120 timeout) (\<lambda>(call, c).
      and_then (load_range (p_local E ''response'') 120) (\<lambda>v.
        give (piece_result E B st chunk offset call v, st\<lparr>as_connection := (case c of None \<Rightarrow> as_connection st | Some l \<Rightarrow> l)\<rparr>)))))))"

text \<open>The loop: \<open>left\<close> is \<open>max_calls - calls\<close>, so its test is \<open>calls++ == max_calls\<close>.\<close>

primrec audio_pieces ::
  "nat \<Rightarrow> 'w platform \<Rightarrow> time_codes \<Rightarrow> reply_bridge \<Rightarrow> audio_stream \<Rightarrow> u64 \<Rightarrow> u32 \<Rightarrow> r4_timeout \<Rightarrow> u32 \<Rightarrow> (audio_result \<times> audio_stream, 'w) io" where
  "audio_pieces 0 E K B st data data_len timeout offset =
     give (if offset < data_len then r4_audio_result AUDIO_BUSY (code E ''R4OS_SERVICE_API_RESULT_BUSY'') offset
           else r4_audio_result AUDIO_OK (code E ''R4OS_OK'') offset, st)"
| "audio_pieces (Suc left) E K B st data data_len timeout offset =
     (if offset < data_len
      then and_then (audio_piece E K B st data data_len timeout offset) (\<lambda>(r, st). case r of
        Inl stop \<Rightarrow> give (stop, st)
      | Inr n \<Rightarrow> audio_pieces left E K B st data data_len timeout (offset + n))
      else give (r4_audio_result AUDIO_OK (code E ''R4OS_OK'') offset, st))"

definition r4_audio_stream_write_bounded ::
  "'w platform \<Rightarrow> time_codes \<Rightarrow> reply_bridge \<Rightarrow> audio_stream option \<Rightarrow> u64 \<Rightarrow> u32 \<Rightarrow> r4_timeout \<Rightarrow> u32 \<Rightarrow>
    (audio_result \<times> audio_stream option, 'w) io" where
  "r4_audio_stream_write_bounded E K B stream data data_len timeout max_calls =
     (let refuse = (\<lambda>raw. give (r4_audio_result AUDIO_FAILED raw 0, stream)) in
      case stream of
        None \<Rightarrow> refuse (code E ''R4OS_ERR_CLOSED'')
      | Some st \<Rightarrow>
          if \<not> r4_audio_stream_valid stream then refuse (code E ''R4OS_ERR_CLOSED'')
          else if data_len \<noteq> 0 \<and> data = 0 then refuse (code E ''R4OS_SERVICE_API_RESULT_INVALID'')
          else if as_frame_bytes st = 0 \<or> data_len mod as_frame_bytes st \<noteq> 0 then refuse (code E ''R4OS_SERVICE_API_RESULT_INVALID'')
          else and_then (audio_pieces (unat max_calls) E K B st data data_len timeout 0) (\<lambda>(r, st). give (r, Some st)))"

definition r4_audio_stream_write ::
  "'w platform \<Rightarrow> time_codes \<Rightarrow> reply_bridge \<Rightarrow> audio_stream option \<Rightarrow> u64 \<Rightarrow> u32 \<Rightarrow> r4_timeout \<Rightarrow> (audio_result \<times> audio_stream option, 'w) io" where
  "r4_audio_stream_write E K B s p n t = r4_audio_stream_write_bounded E K B s p n t (- 1)"

definition r4_audio_stream_write_once ::
  "'w platform \<Rightarrow> time_codes \<Rightarrow> reply_bridge \<Rightarrow> audio_stream option \<Rightarrow> u64 \<Rightarrow> u32 \<Rightarrow> r4_timeout \<Rightarrow> (audio_result \<times> audio_stream option, 'w) io" where
  "r4_audio_stream_write_once E K B s p n t = r4_audio_stream_write_bounded E K B s p n t 1"

subsection \<open>Volume and closing\<close>

text \<open>Closing zeroes the stream's own words and then closes the connection it still holds.\<close>

definition stream_closed :: "audio_stream \<Rightarrow> audio_stream" where
  "stream_closed st = st\<lparr>as_stream_id := 0, as_owned := 0, as_frame_bytes := 0\<rparr>"

definition with_connection :: "audio_stream \<Rightarrow> service_link option \<Rightarrow> audio_stream" where
  "with_connection st c = st\<lparr>as_connection := (case c of None \<Rightarrow> as_connection st | Some l \<Rightarrow> l)\<rparr>"

definition r4_audio_stream_control ::
  "'w platform \<Rightarrow> time_codes \<Rightarrow> reply_bridge \<Rightarrow> audio_stream option \<Rightarrow> u16 \<Rightarrow> u32 \<Rightarrow> r4_timeout \<Rightarrow> bool \<Rightarrow> (audio_result \<times> audio_stream option, 'w) io" where
  "r4_audio_stream_control E K B stream op_code volume timeout closes =
     (case stream of
        None \<Rightarrow> give (r4_audio_result AUDIO_FAILED (code E ''R4OS_ERR_CLOSED'') 0, stream)
      | Some st \<Rightarrow>
          if \<not> r4_audio_stream_valid stream then give (r4_audio_result AUDIO_FAILED (code E ''R4OS_ERR_CLOSED'') 0, stream)
          else and_then (wire_call E K (Some (as_connection st)) op_code (wire_control E (as_stream_id st) volume) timeout) (\<lambda>(call, c, v).
            let st = with_connection st c;
                valid = (sc_kind call = CALL_RESPONSE \<and> r4_audio_stream_reply_valid E B v op_code (as_stream_id st) 0 0) in
            if sc_kind call = CALL_TIMED_OUT
            then give (r4_audio_result AUDIO_TIMED_OUT (code E ''R4OS_SERVICE_API_RESULT_TIMEOUT'') 0, Some st)
            else if \<not> valid \<or> negative (wire_result v)
            then give (r4_audio_result AUDIO_FAILED
              (if sc_kind call = CALL_RESPONSE then if valid then wire_result v else code E ''R4OS_SERVICE_API_RESULT_INVALID''
               else sc_raw_code call) 0, Some st)
            else if closes
            then and_then (r4_service_connection_close E (Some (as_connection st))) (\<lambda>(_, c).
              give (r4_audio_result AUDIO_OK (code E ''R4OS_OK'') 0, Some (with_connection (stream_closed st) c)))
            else give (r4_audio_result AUDIO_OK (code E ''R4OS_OK'') 0, Some st)))"

definition r4_audio_stream_set_volume ::
  "'w platform \<Rightarrow> time_codes \<Rightarrow> reply_bridge \<Rightarrow> audio_stream option \<Rightarrow> u32 \<Rightarrow> r4_timeout \<Rightarrow> (audio_result \<times> audio_stream option, 'w) io" where
  "r4_audio_stream_set_volume E K B stream volume timeout =
     r4_audio_stream_control E K B stream (audio_op E ''SET_STREAM_VOLUME'') volume timeout False"

definition r4_audio_stream_close ::
  "'w platform \<Rightarrow> time_codes \<Rightarrow> reply_bridge \<Rightarrow> audio_stream option \<Rightarrow> r4_timeout \<Rightarrow> (audio_result \<times> audio_stream option, 'w) io" where
  "r4_audio_stream_close E K B stream timeout =
     r4_audio_stream_control E K B stream (audio_op E ''CLOSE_STREAM'') 0x00010000 timeout True"

subsection \<open>The synthesizers\<close>

definition app_audio :: "r4_app option \<Rightarrow> u64" where
  "app_audio app = (case app of None \<Rightarrow> 0 | Some a \<Rightarrow> a_audio a)"

definition synth_call :: "'w platform \<Rightarrow> r4_app option \<Rightarrow> string \<Rightarrow> u64 list \<Rightarrow> (i32, 'w) io" where
  "synth_call E app slot args =
     ask (has_base E ''R4Audio'' (app_audio app) slot) (\<lambda>ok.
       if \<not> ok then give (code E ''R4OS_ERR_NO_FN'') else call_slot E ''R4Audio'' (app_audio app) slot args)"

definition r4_audio_sid_acquire :: "'w platform \<Rightarrow> r4_app option \<Rightarrow> (i32, 'w) io" where
  "r4_audio_sid_acquire E app = synth_call E app ''sid_acquire'' []"

definition r4_audio_sid_write_register :: "'w platform \<Rightarrow> r4_app option \<Rightarrow> u32 \<Rightarrow> u8 \<Rightarrow> u8 \<Rightarrow> (i32, 'w) io" where
  "r4_audio_sid_write_register E app handle_v reg v = synth_call E app ''sid_write_register'' [ucast handle_v, ucast reg, ucast v]"

definition r4_audio_sid_release :: "'w platform \<Rightarrow> r4_app option \<Rightarrow> u32 \<Rightarrow> (i32, 'w) io" where
  "r4_audio_sid_release E app handle_v = synth_call E app ''sid_release'' [ucast handle_v]"

definition r4_audio_midi_open_synth :: "'w platform \<Rightarrow> r4_app option \<Rightarrow> u64 \<Rightarrow> (i32, 'w) io" where
  "r4_audio_midi_open_synth E app backend = synth_call E app ''midi_open_synth'' [backend]"

definition r4_audio_midi_send :: "'w platform \<Rightarrow> r4_app option \<Rightarrow> u32 \<Rightarrow> u8 \<Rightarrow> u8 \<Rightarrow> u8 \<Rightarrow> u8 \<Rightarrow> (i32, 'w) io" where
  "r4_audio_midi_send E app handle_v channel status data1 data2 =
     synth_call E app ''midi_send'' [ucast handle_v, ucast channel, ucast status, ucast data1, ucast data2]"

definition r4_audio_midi_close :: "'w platform \<Rightarrow> r4_app option \<Rightarrow> u32 \<Rightarrow> (i32, 'w) io" where
  "r4_audio_midi_close E app handle_v = synth_call E app ''midi_close'' [ucast handle_v]"

definition r4_audio_opl3_write_register :: "'w platform \<Rightarrow> r4_app option \<Rightarrow> u8 \<Rightarrow> u8 \<Rightarrow> u8 \<Rightarrow> (i32, 'w) io" where
  "r4_audio_opl3_write_register E app bank reg v = synth_call E app ''opl3_write_register'' [ucast bank, ucast reg, ucast v]"

definition r4_audio_opl3_reset :: "'w platform \<Rightarrow> r4_app option \<Rightarrow> (i32, 'w) io" where
  "r4_audio_opl3_reset E app = synth_call E app ''opl3_reset'' []"

definition r4_audio_opl3_render_block :: "'w platform \<Rightarrow> r4_app option \<Rightarrow> (i32, 'w) io" where
  "r4_audio_opl3_render_block E app = synth_call E app ''opl3_render_block'' []"

definition r4_audio_opl3_stop :: "'w platform \<Rightarrow> r4_app option \<Rightarrow> (i32, 'w) io" where
  "r4_audio_opl3_stop E app = synth_call E app ''opl3_stop'' []"

subsection \<open>What a write accounts for\<close>

text \<open>The bridge carries the SDK's verdict, and opening and writing are different operations.\<close>

definition bridge_ok :: "'w platform \<Rightarrow> reply_bridge \<Rightarrow> bool" where
  "bridge_ok E B \<longleftrightarrow> audio_op E ''OPEN_STREAM'' \<noteq> audio_op E ''WRITE_STREAM'' \<and>
     (\<forall>v action stream_id m f. r4_audio_stream_reply_valid E B v action stream_id m f \<longleftrightarrow> reply_validate E v action stream_id m f)"

definition same_stream :: "audio_stream \<Rightarrow> audio_stream \<Rightarrow> bool" where
  "same_stream st st' \<longleftrightarrow> as_stream_id st' = as_stream_id st \<and> as_owned st' = as_owned st \<and> as_frame_bytes st' = as_frame_bytes st"

lemma same_stream_refl [simp]: "same_stream st st"
  by (simp add: same_stream_def)

lemma same_stream_trans: "same_stream a b \<Longrightarrow> same_stream b c \<Longrightarrow> same_stream a c"
  by (simp add: same_stream_def)

lemma write_reply:
  assumes "reply_validate E v (audio_op E ''WRITE_STREAM'') stream_id m f"
    and "audio_op E ''WRITE_STREAM'' \<noteq> audio_op E ''OPEN_STREAM''" and "\<not> negative (wire_result v)"
  shows "wire_bytes v \<noteq> 0 \<and> wire_bytes v \<le> m \<and> ucast (wire_bytes v) mod f = 0"
  using assms unfolding reply_validate_def by (simp only: if_False if_True HOL.simp_thms refl)

lemma piece_accepted:
  assumes "bridge_ok E B" and "piece_result E B st chunk offset call v = Inr n"
  shows "n \<noteq> 0 \<and> n \<le> chunk \<and> unat (as_frame_bytes st) dvd unat n"
proof -
  have "r4_audio_stream_reply_valid E B v (audio_op E ''WRITE_STREAM'') (as_stream_id st) chunk (ucast (as_frame_bytes st))"
    and n: "n = wire_bytes v" and pos: "\<not> negative (wire_result v)"
    using assms(2) by (auto simp: piece_result_def split: if_split_asm)
  then have "reply_validate E v (audio_op E ''WRITE_STREAM'') (as_stream_id st) chunk (ucast (as_frame_bytes st))"
    using assms(1) unfolding bridge_ok_def by blast
  from write_reply [OF this _ pos] assms(1)
  have reply: "wire_bytes v \<noteq> 0 \<and> wire_bytes v \<le> chunk \<and> (ucast (wire_bytes v) :: u64) mod ucast (as_frame_bytes st) = 0"
    unfolding bridge_ok_def by metis
  have wide: "unat (ucast x :: u64) = unat x" for x :: u32
  proof -
    have "unat x < 2 ^ 64" using unsigned_less [of x, where ?'a = nat] by simp
    then show ?thesis by (simp add: unsigned_ucast_eq take_bit_nat_eq_self)
  qed
  have "unat (wire_bytes v) mod unat (as_frame_bytes st) = 0"
    using reply unat_mod [of "ucast (wire_bytes v) :: u64" "ucast (as_frame_bytes st)"] by (simp only: wide unat_0)
  with reply n show ?thesis by (simp add: dvd_eq_mod_eq_0)
qed

lemma piece_stops:
  assumes "piece_result E B st chunk offset call v = Inl r"
  shows "ar_bytes r = offset \<and> ar_kind r \<noteq> AUDIO_OK"
  using assms by (auto simp: piece_result_def r4_audio_result_def split: if_split_asm)

lemma piece_run:
  assumes "audio_piece E K B st data data_len timeout offset s = Some ((r, st'), s')"
  shows "same_stream st st' \<and> (\<exists>call v. piece_result E B st (audio_chunk E data_len offset) offset call v = r)"
  using assms by (auto simp: audio_piece_def and_then_Some_iff give_def same_stream_def Let_def)

lemma offset_advances:
  assumes "offset < data_len" and "n \<le> audio_chunk E data_len offset"
  shows "unat (offset + n) = unat offset + unat n" "unat (offset + n) \<le> unat data_len"
    "unat n \<le> unat (p_code E ''R4OS_SERVICE_API_MAX_PAYLOAD'' - 20)"
proof -
  have "unat n \<le> unat (data_len - offset)" and cap: "unat n \<le> unat (p_code E ''R4OS_SERVICE_API_MAX_PAYLOAD'' - 20)"
    using assms(2) by (simp_all add: audio_chunk_def word_le_nat_alt min_def split: if_split_asm)
  moreover have "unat (data_len - offset) = unat data_len - unat offset"
    using assms(1) by (simp add: unat_sub order_less_imp_le)
  ultimately have le: "unat offset + unat n \<le> unat data_len" using assms(1) by (simp add: word_less_nat_alt)
  moreover have "unat data_len < 2 ^ 32" using unsigned_less [of data_len] by simp
  ultimately show "unat (offset + n) = unat offset + unat n" by (simp add: unat_word_ariths(1))
  with le show "unat (offset + n) \<le> unat data_len" by simp
  show "unat n \<le> unat (p_code E ''R4OS_SERVICE_API_MAX_PAYLOAD'' - 20)" by (rule cap)
qed

lemma pieces_account:
  assumes "bridge_ok E B" and "audio_pieces left E K B st data data_len timeout offset s = Some ((r, st'), s')"
    and "offset \<le> data_len" and "unat (as_frame_bytes st) dvd unat offset"
  shows "same_stream st st' \<and> unat (ar_bytes r) \<le> unat data_len \<and> unat (as_frame_bytes st) dvd unat (ar_bytes r) \<and>
    (ar_kind r = AUDIO_OK \<longleftrightarrow> ar_bytes r = data_len) \<and>
    unat (ar_bytes r) \<le> unat offset + left * unat (p_code E ''R4OS_SERVICE_API_MAX_PAYLOAD'' - 20)"
  using assms(2-4)
proof (induction left arbitrary: st offset s)
  case 0
  then show ?case by (cases "offset < data_len") (auto simp: give_def r4_audio_result_def, simp_all add: word_le_nat_alt)
next
  case (Suc left)
  show ?case
  proof (cases "offset < data_len")
    case False
    with Suc.prems show ?thesis by (auto simp: give_def r4_audio_result_def)
  next
    case True
    from Suc.prems(1) True obtain x st1 s1
      where p: "audio_piece E K B st data data_len timeout offset s = Some ((x, st1), s1)"
        and rest: "(case x of Inl stop \<Rightarrow> give (stop, st1) | Inr n \<Rightarrow> audio_pieces left E K B st1 data data_len timeout (offset + n)) s1 =
          Some ((r, st'), s')"
      by (auto simp: and_then_Some_iff)
    from piece_run [OF p] obtain call v where same: "same_stream st st1"
      and x: "piece_result E B st (audio_chunk E data_len offset) offset call v = x" by blast
    show ?thesis
    proof (cases x)
      case (Inl stop)
      with rest same piece_stops [OF x [unfolded Inl]] Suc.prems True show ?thesis
        by (auto simp: give_def word_le_nat_alt word_less_nat_alt)
    next
      case (Inr n)
      note n = piece_accepted [OF assms(1) x [unfolded Inr]]
      note adv = offset_advances [OF True, of n E]
      have frame: "as_frame_bytes st1 = as_frame_bytes st" using same by (simp add: same_stream_def)
      have "unat (as_frame_bytes st1) dvd unat (offset + n)" using n adv(1) Suc.prems(3) frame by simp
      from Suc.IH [OF rest [unfolded Inr sum.case] _ this] adv(2) n
      have IH: "same_stream st1 st' \<and> unat (ar_bytes r) \<le> unat data_len \<and> unat (as_frame_bytes st1) dvd unat (ar_bytes r) \<and>
          (ar_kind r = AUDIO_OK \<longleftrightarrow> ar_bytes r = data_len) \<and>
          unat (ar_bytes r) \<le> unat (offset + n) + left * unat (p_code E ''R4OS_SERVICE_API_MAX_PAYLOAD'' - 20)"
        by (simp add: word_le_nat_alt)
      with same_stream_trans [OF same] frame adv n show ?thesis by simp
    qed
  qed
qed

text \<open>
  C31: However a write of a stream ends, and whatever the service answers, the bytes it reports are a
  prefix of the data made of whole frames, no longer than the allowed number of calls can carry; the
  write reports success exactly when that prefix is all of the data, and the stream keeps its id, its
  owner mark and its frame size.\<close>

theorem audio_write_accounts:
  assumes "bridge_ok E B" and "r4_audio_stream_valid (Some st)" and "data \<noteq> 0"
    and "as_frame_bytes st \<noteq> 0" and "data_len mod as_frame_bytes st = 0"
    and "r4_audio_stream_write_bounded E K B (Some st) data data_len timeout max_calls s = Some ((r, stream'), s')"
  shows "\<exists>st'. stream' = Some st' \<and> same_stream st st' \<and> unat (ar_bytes r) \<le> unat data_len \<and>
    unat (as_frame_bytes st) dvd unat (ar_bytes r) \<and> (ar_kind r = AUDIO_OK \<longleftrightarrow> ar_bytes r = data_len) \<and>
    unat (ar_bytes r) \<le> unat max_calls * unat (p_code E ''R4OS_SERVICE_API_MAX_PAYLOAD'' - 20)"
proof -
  from assms(2-6) obtain st' where "audio_pieces (unat max_calls) E K B st data data_len timeout 0 s = Some ((r, st'), s')"
    and "stream' = Some st'"
    by (auto simp: r4_audio_stream_write_bounded_def and_then_Some_iff give_def Let_def)
  with pieces_account [OF assms(1) this(1)] show ?thesis by simp
qed

subsection \<open>A sample stream\<close>

definition audio_code :: "string \<Rightarrow> u32" where
  "audio_code x = (if x = ''R4OS_AUDIO_SERVICE_RESULT_MAGIC'' then 11 else if x = ''R4OS_AUDIO_SERVICE_RESULT_VERSION'' then 1
     else if x = ''R4OS_AUDIO_SERVICE_OP_OPEN_STREAM'' then 1 else if x = ''R4OS_AUDIO_SERVICE_OP_WRITE_STREAM'' then 2
     else if x = ''R4SDKDATA_PRESENT'' then 1 else if x = ''R4OS_SERVICE_API_MAX_PAYLOAD'' then 128 else 0)"

definition audio_platform :: "bytes platform" where
  "audio_platform = (service_platform (\<lambda>_. []) audio_code)\<lparr>p_local := (\<lambda>x. if x = ''payload'' then 0x9000 else service_local x)\<rparr>"

definition sample_bridge :: reply_bridge where
  "sample_bridge v action stream_id m f =
     \<lparr>ds_status = 0, ds_flags = 1, ds_bits = of_bool (reply_validate audio_platform v action stream_id m f)\<rparr>"

definition sample_stream :: audio_stream where
  "sample_stream = \<lparr>as_connection = \<lparr>sl_app = Some service_app, sl_raw = 7, sl_owned = 1, sl_info = []\<rparr>,
     as_stream_id = 9, as_owned = 1, as_frame_bytes = 2\<rparr>"

text \<open>The service takes four bytes of stream 9.\<close>

definition audio_reply :: bytes where
  "audio_reply = [11, 0, 0, 0, 1, 0, 2, 0, 4, 0, 0, 0, 9, 0, 0, 0, 4, 0, 0, 0] @ replicate 100 0"

definition audio_start :: "bytes machine" where
  "audio_start = \<lparr>m_mem = flat [(0x8000, [1, 2, 3, 4]), (0x1000, service_table)], m_calls = [], m_os = audio_reply\<rparr>"

lemma sample_bridge_ok: "bridge_ok audio_platform sample_bridge"
  by (simp add: bridge_ok_def r4_audio_stream_reply_valid_def sample_bridge_def audio_platform_def audio_code_def)

lemma audio_reply_valid: "reply_validate audio_platform audio_reply 2 9 4 2"
  by (simp add: reply_validate_def r4_audio_response_valid_def wire_magic_def wire_version_def wire_action_def wire_result_def wire_stream_def
    wire_bytes_def audio_reply_def audio_platform_def audio_code_def)

lemma audio_reply_words: "length audio_reply = 120" "wire_bytes audio_reply = 4" "wire_result audio_reply = 4"
  by (simp_all add: audio_reply_def wire_bytes_def wire_result_def)

lemma audio_platform_simps:
  "p_off audio_platform T m = layout_off (service_layout T) m"
  "p_len audio_platform T m = layout_len (service_layout T) m"
  "p_size audio_platform T = sum_list (List.map snd (service_layout T))"
  "p_code audio_platform x = (if audio_code x \<noteq> 0 then audio_code x else service_code x)"
  "p_local audio_platform x = (if x = ''payload'' then 0x9000 else service_local x)"
  "p_run audio_platform = service_run"
  by (simp_all add: audio_platform_def)

lemma audio_sample_piece:
  "\<exists>s'. audio_piece audio_platform sample_codes sample_bridge sample_stream 0x8000 4 poll_timeout 0 audio_start = Some ((Inr 4, sample_stream), s')"
proof -
  have verdict: "r4_audio_stream_reply_valid audio_platform sample_bridge audio_reply 2 9 4 2"
    using sample_bridge_ok audio_reply_valid by (simp add: bridge_ok_def)
  show ?thesis
    by (simp add: audio_piece_def audio_chunk_def wire_write_def wire_head_def piece_result_def verdict audio_reply_words sample_stream_def
      audio_platform_simps audio_code_def audio_start_def copy_range_def load_range_def exchange_eval service_eval sample_codes_def Let_def
      cong: run_congs del: load_bytes.simps store_bytes.simps)
qed

theorem audio_write_accounts_witness:
  "\<exists>s'. r4_audio_stream_write_once audio_platform sample_codes sample_bridge (Some sample_stream) 0x8000 4 poll_timeout audio_start =
      Some ((r4_audio_result AUDIO_OK (- 5) 4, Some sample_stream), s') \<and> unat (4 :: u32) \<le> unat (1 :: u32) * 108"
proof -
  obtain s' where piece: "audio_piece audio_platform sample_codes sample_bridge sample_stream 0x8000 4 poll_timeout 0 audio_start =
      Some ((Inr 4, sample_stream), s')"
    using audio_sample_piece by blast
  have ok: "code audio_platform ''R4OS_OK'' = - 5" "p_code audio_platform ''R4OS_SERVICE_API_MAX_PAYLOAD'' - 20 = 108"
    by (simp_all add: audio_platform_simps audio_code_def service_code_def)
  have valid: "r4_audio_stream_valid (Some sample_stream)" "as_frame_bytes sample_stream \<noteq> 0" "4 mod as_frame_bytes sample_stream = 0"
    by (simp_all add: r4_audio_stream_valid_def r4_service_connection_valid_def sample_stream_def)
  have run: "r4_audio_stream_write_bounded audio_platform sample_codes sample_bridge (Some sample_stream) 0x8000 4 poll_timeout 1 audio_start =
      Some ((r4_audio_result AUDIO_OK (- 5) 4, Some sample_stream), s')"
    using valid piece ok by (simp add: r4_audio_stream_write_bounded_def and_then_def give_def)
  from audio_write_accounts [OF sample_bridge_ok valid(1) _ valid(2,3) run] run ok
  show ?thesis by (auto simp: r4_audio_stream_write_once_def r4_audio_result_def)
qed

end
