(* ===== verification/NetTransport.thy ===== *)
theory NetTransport
  imports ServiceClient
begin

text \<open>
  \<open>Shared/C/include/r4os/app_network.h\<close>, the part its sockets share: how one request travels to a network
  service and back, with its deadline, and how the reply of a service is turned into a result. A request
  that may have reached the service without a validated answer is reported as such, never as a failure
  that could be retried.
\<close>

subsection \<open>Data\<close>

datatype net_result_kind = NET_OK | NET_WOULD_BLOCK | NET_TIMED_OUT | NET_RESET | NET_PEER_CLOSED | NET_CLOSED | NET_NOT_FOUND |
  NET_NO_SERVICE | NET_FAILED | NET_UNKNOWN

record net_result =
  nr_kind :: net_result_kind
  nr_raw :: i32
  nr_bytes :: u32

record r4_network =
  nw_app :: "r4_app option"

record socket_address =
  sk_ip :: bytes
  sk_port :: u16

text \<open>A call of the TCP service, and whether it was handed to the platform.\<close>

record tcp_call =
  tk_call :: service_call_result
  tk_submitted :: bool

definition r4_ipv4 :: "u8 \<Rightarrow> u8 \<Rightarrow> u8 \<Rightarrow> u8 \<Rightarrow> bytes" where
  "r4_ipv4 a b c d = [a, b, c, d]"

definition r4_ipv4_is_unspecified :: "bytes \<Rightarrow> bool" where
  "r4_ipv4_is_unspecified ip \<longleftrightarrow> ip ! 0 = 0 \<and> ip ! 1 = 0 \<and> ip ! 2 = 0 \<and> ip ! 3 = 0"

definition r4_net_result :: "net_result_kind \<Rightarrow> i32 \<Rightarrow> u32 \<Rightarrow> net_result" where
  "r4_net_result kind raw bytes = \<lparr>nr_kind = kind, nr_raw = raw, nr_bytes = bytes\<rparr>"

definition r4_net_progress_known :: "net_result \<Rightarrow> bool" where
  "r4_net_progress_known r \<longleftrightarrow> nr_kind r \<noteq> NET_UNKNOWN"

definition r4_tcp_reply_unknown :: "'w platform \<Rightarrow> net_result" where
  "r4_tcp_reply_unknown E = r4_net_result NET_UNKNOWN (code E ''R4OS_SERVICE_API_RESULT_INVALID'') 0"

definition network_app :: "r4_network option \<Rightarrow> r4_app option" where
  "network_app network = Option.bind network nw_app"

definition app_net :: "r4_app option \<Rightarrow> u64" where
  "app_net app = (case app of None \<Rightarrow> 0 | Some a \<Rightarrow> a_network a)"

definition r4_network_available :: "'w platform \<Rightarrow> r4_network option \<Rightarrow> query" where
  "r4_network_available E network =
     q_and (sure (network_app network \<noteq> None)) (q_and (has_base E ''R4Net'' (app_net (network_app network)) ''tcp_connect'')
       (r4_services_available E (Some (r4_app_services (network_app network)))))"

subsection \<open>One service call\<close>

text \<open>A reply whose header is not for this operation, or longer than the caller's buffer, is no reply.\<close>

definition header_word :: "'w platform \<Rightarrow> string \<Rightarrow> service_call_result \<Rightarrow> u64" where
  "header_word E m call = field E ''R4ServiceMessageHeader'' m (sc_header call)"

definition checked_reply :: "'w platform \<Rightarrow> u32 \<Rightarrow> u16 \<Rightarrow> service_call_result \<Rightarrow> service_call_result" where
  "checked_reply E capacity op_code call =
     (if sc_kind call = CALL_RESPONSE \<and> (sc_bytes call > capacity \<or>
        header_word E ''magic'' call \<noteq> ucast (p_code E ''R4OS_SERVICE_API_MAGIC'') \<or>
        header_word E ''version'' call \<noteq> ucast (p_code E ''R4OS_SERVICE_API_VERSION'') \<or> header_word E ''op'' call \<noteq> ucast op_code)
      then call\<lparr>sc_kind := CALL_FAILED, sc_raw_code := code E ''R4OS_SERVICE_API_RESULT_INVALID'', sc_bytes := 0\<rparr>
      else call)"

definition r4_network_service_call ::
  "'w platform \<Rightarrow> time_codes \<Rightarrow> r4_network option \<Rightarrow> u64 \<Rightarrow> u16 \<Rightarrow> u64 \<Rightarrow> u32 \<Rightarrow> u64 \<Rightarrow> u32 \<Rightarrow> r4_timeout \<Rightarrow> (service_call_result, 'w) io" where
  "r4_network_service_call E K network name op_code request request_len response capacity timeout =
     ask (r4_network_available E network) (\<lambda>ok.
       if \<not> ok then give (call_failed E (code E ''R4OS_ERR_NO_GROUP''))
       else and_then (r4_services_open E (Some (r4_app_services (network_app network))) name (Some (link_zero E))) (\<lambda>(raw, c).
         if raw \<noteq> code E ''R4OS_SERVICE_API_RESULT_OK'' then give (call_failed E raw)
         else and_then (r4_service_connection_call E K c op_code request request_len response capacity timeout) (\<lambda>(result, c).
           and_then (r4_service_connection_close E c) (\<lambda>_. give (checked_reply E capacity op_code result)))))"

definition r4_net_from_call :: "'w platform \<Rightarrow> service_call_result \<Rightarrow> net_result" where
  "r4_net_from_call E call =
     (if sc_kind call = CALL_TIMED_OUT then r4_net_result NET_TIMED_OUT (code E ''R4OS_SERVICE_API_RESULT_TIMEOUT'') 0
      else if sc_kind call = CALL_RESPONSE then r4_net_result NET_OK (code E ''R4OS_OK'') (sc_bytes call)
      else if sc_raw_code call \<in> {code E ''R4OS_SERVICE_API_RESULT_NOT_FOUND'', code E ''R4OS_SERVICE_API_RESULT_NO_ENDPOINT'',
        code E ''R4OS_SERVICE_API_RESULT_NOT_RUNNING''}
      then r4_net_result NET_NO_SERVICE (sc_raw_code call) 0
      else r4_net_result NET_FAILED (sc_raw_code call) 0)"

subsection \<open>A TCP service call with its deadline\<close>

text \<open>
  The request carries the deadline in a footer. A finite one is the current tick plus the budget; it
  must not reach the largest tick, which stands for waiting forever. \<open>poll_tick\<close> is the contract's
  64-bit mark of a poll.
\<close>

definition deadline_overflows :: "u64 \<Rightarrow> u64 \<Rightarrow> bool" where
  "deadline_overflows ticks now \<longleftrightarrow> ticks = - 1 \<or> now \<ge> - 1 - ticks"

definition tcp_deadline :: "time_codes \<Rightarrow> u64 \<Rightarrow> r4_timeout \<Rightarrow> u64 \<Rightarrow> u64 \<Rightarrow> u64" where
  "tcp_deadline K poll_tick timeout ticks now =
     (if timeout_kind timeout = kind_poll K then poll_tick else if timeout_kind timeout = kind_finite K then now + ticks else - 1)"

definition tcp_unsent :: "'w platform \<Rightarrow> service_call_kind \<Rightarrow> i32 \<Rightarrow> tcp_call" where
  "tcp_unsent E kind raw = \<lparr>tk_call = (call_failed E raw)\<lparr>sc_kind := kind\<rparr>, tk_submitted = False\<rparr>"

definition tcp_encode :: "'w platform \<Rightarrow> u64 \<Rightarrow> u32 \<Rightarrow> u64 \<Rightarrow> (unit, 'w) io" where
  "tcp_encode E request request_len deadline =
     (let encoded = p_local E ''encoded''; footer = encoded + ucast request_len; T = ''R4ServiceDeadlineFooter'' in
      and_then (if request_len \<noteq> 0 then copy_range encoded request (unat request_len) else give ()) (\<lambda>_.
      and_then (clear_obj E footer T) (\<lambda>_.
        each (\<lambda>(m, v). put_member E footer T m v)
          [(''magic'', ucast (p_code E ''R4OS_SERVICE_DEADLINE_FOOTER_MAGIC'')), (''version'', ucast (p_code E ''R4OS_SERVICE_DEADLINE_FOOTER_VERSION'')),
           (''size'', sizeof E T), (''payload_len'', ucast request_len), (''deadline_tick'', deadline)])))"

text \<open>The connection is opened after the request is encoded, and the time left is measured again then.\<close>

definition tcp_submit ::
  "'w platform \<Rightarrow> r4_app option \<Rightarrow> u16 \<Rightarrow> u32 \<Rightarrow> u64 \<Rightarrow> u32 \<Rightarrow> u64 \<Rightarrow> service_link option \<Rightarrow> (tcp_call, 'w) io" where
  "tcp_submit E app op_code request_len response capacity ticks c =
     and_then (r4_service_connection_call_ticks E c op_code (p_local E ''encoded'') (request_len + ucast (sizeof E ''R4ServiceDeadlineFooter''))
         response capacity ticks) (\<lambda>(result, c).
       and_then (r4_service_connection_close E c) (\<lambda>_.
         give \<lparr>tk_call = checked_reply E capacity op_code result, tk_submitted = True\<rparr>))"

definition tcp_travel ::
  "'w platform \<Rightarrow> r4_app option \<Rightarrow> bool \<Rightarrow> u16 \<Rightarrow> u32 \<Rightarrow> u64 \<Rightarrow> u32 \<Rightarrow> u64 \<Rightarrow> u64 \<Rightarrow> (tcp_call, 'w) io" where
  "tcp_travel E app finite_b op_code request_len response capacity ticks deadline =
     and_then (r4_services_open E (Some (r4_app_services app)) (p_local E ''TCPSVC'') (Some (link_zero E))) (\<lambda>(raw, c).
       if raw \<noteq> code E ''R4OS_SERVICE_API_RESULT_OK'' then give (tcp_unsent E CALL_FAILED raw)
       else if finite_b
       then and_then (r4_app_ticks E app) (\<lambda>now.
         if now \<ge> deadline
         then and_then (r4_service_connection_close E c) (\<lambda>_.
           give (tcp_unsent E CALL_TIMED_OUT (code E ''R4OS_SERVICE_API_RESULT_TIMEOUT'')))
         else tcp_submit E app op_code request_len response capacity (deadline - now) c)
       else tcp_submit E app op_code request_len response capacity ticks c)"

definition r4_network_tcp_service_call ::
  "'w platform \<Rightarrow> time_codes \<Rightarrow> u64 \<Rightarrow> r4_network option \<Rightarrow> u16 \<Rightarrow> u64 \<Rightarrow> u32 \<Rightarrow> u64 \<Rightarrow> u32 \<Rightarrow> r4_timeout \<Rightarrow> (tcp_call, 'w) io" where
  "r4_network_tcp_service_call E K poll_tick network op_code request request_len response capacity timeout =
     (let app = network_app network; finite_b = (timeout_kind timeout = kind_finite K);
          invalid = tcp_unsent E CALL_FAILED (code E ''R4OS_SERVICE_API_RESULT_INVALID'') in
      ask (r4_network_available E network) (\<lambda>ok.
        if \<not> ok then give (tcp_unsent E CALL_FAILED (code E ''R4OS_ERR_NO_GROUP''))
        else if ucast request_len > ucast (p_code E ''R4OS_SERVICE_API_MAX_PAYLOAD'') - sizeof E ''R4ServiceDeadlineFooter'' \<or>
          (request_len \<noteq> 0 \<and> request = 0) then give invalid
        else and_then (r4_services_monotonic_hz E app) (\<lambda>hz.
          case timeout_ticks K timeout hz of
            None \<Rightarrow> give invalid
          | Some ticks \<Rightarrow>
              ask (q_and (sure finite_b) (q_not (app_field E app ''ticks''))) (\<lambda>missing.
                if missing then give (tcp_unsent E CALL_FAILED (code E ''R4OS_ERR_NO_FN''))
                else and_then (if finite_b then r4_app_ticks E app else give 0) (\<lambda>now.
                  if finite_b \<and> deadline_overflows ticks now then give invalid
                  else if finite_b \<and> ticks = 0 then give (tcp_unsent E CALL_TIMED_OUT (code E ''R4OS_SERVICE_API_RESULT_TIMEOUT''))
                  else let deadline = tcp_deadline K poll_tick timeout ticks now in
                    and_then (tcp_encode E request request_len deadline) (\<lambda>_.
                      tcp_travel E app finite_b op_code request_len response capacity ticks deadline))))))"

text \<open>Without a validated reply, only a request that was never submitted has a known outcome.\<close>

definition r4_tcp_from_call :: "'w platform \<Rightarrow> tcp_call \<Rightarrow> net_result" where
  "r4_tcp_from_call E t =
     (if sc_kind (tk_call t) = CALL_RESPONSE then r4_net_from_call E (tk_call t)
      else if \<not> tk_submitted t then r4_net_from_call E (tk_call t)
      else r4_net_result NET_UNKNOWN (sc_raw_code (tk_call t)) 0)"

subsection \<open>What a reply means\<close>

abbreviation net_status where "net_status E c \<equiv> p_code E (''R4OS_NET_SERVICE_STATUS_'' @ c)"
abbreviation lifecycle_code where "lifecycle_code E c \<equiv> p_code E (''R4OS_NET_SERVICE_SOCKET_LIFECYCLE_'' @ c)"
abbreviation net_word :: "'w platform \<Rightarrow> string \<Rightarrow> string \<Rightarrow> bytes \<Rightarrow> u32" where "net_word E T m v \<equiv> obj_word E T m v"

definition r4_net_classify_socket :: "'w platform \<Rightarrow> u32 \<Rightarrow> u32 \<Rightarrow> i32 \<Rightarrow> u32 \<Rightarrow> net_result" where
  "r4_net_classify_socket E status lifecycle raw bytes =
     (if status = net_status E ''WOULD_BLOCK'' \<or> lifecycle = lifecycle_code E ''WOULD_BLOCK'' then r4_net_result NET_WOULD_BLOCK raw 0
      else if status = net_status E ''TIMEOUT'' \<or> lifecycle = lifecycle_code E ''TIMEOUT'' then r4_net_result NET_TIMED_OUT raw 0
      else if lifecycle = lifecycle_code E ''RESET'' then r4_net_result NET_RESET raw 0
      else if lifecycle = lifecycle_code E ''PEER_GONE'' then r4_net_result NET_PEER_CLOSED raw 0
      else if lifecycle = lifecycle_code E ''LOCAL_CLOSE'' \<or> lifecycle = lifecycle_code E ''CLOSED'' \<or> lifecycle = lifecycle_code E ''BAD_HANDLE''
      then r4_net_result NET_CLOSED raw 0
      else if raw = 0 then r4_net_result NET_OK raw bytes else r4_net_result NET_FAILED raw 0)"

text \<open>The status packed into the flags.\<close>

definition packed_status :: "'w platform \<Rightarrow> string \<Rightarrow> bytes \<Rightarrow> u32" where
  "packed_status E T v = drop_bit (unat (net_status E ''SHIFT'')) (net_word E T ''flags'' v AND net_status E ''MASK'')"

definition reply_status :: "'w platform \<Rightarrow> string \<Rightarrow> bytes \<Rightarrow> u32" where
  "reply_status E T v =
     (if net_word E T ''service_status'' v \<noteq> net_status E ''IDLE'' then net_word E T ''service_status'' v else packed_status E T v)"

definition tcp_status :: "'w platform \<Rightarrow> bytes \<Rightarrow> u32" where
  "tcp_status E v =
     (if packed_status E ''R4NetServiceTcpResult'' v = net_status E ''WOULD_BLOCK'' then packed_status E ''R4NetServiceTcpResult'' v
      else reply_status E ''R4NetServiceTcpResult'' v)"

definition r4_net_classify_tcp :: "'w platform \<Rightarrow> bytes \<Rightarrow> u32 \<Rightarrow> net_result" where
  "r4_net_classify_tcp E v bytes =
     (let T = ''R4NetServiceTcpResult''; status = tcp_status E v; lifecycle = net_word E T ''lifecycle_cause'' v; raw = net_word E T ''result'' v in
      if status = net_status E ''FAILED'' \<and> raw = code E ''R4OS_NET_TX_BACKEND_ERROR'' then r4_net_result NET_NO_SERVICE raw 0
      else let r = (r4_net_classify_socket E status lifecycle raw bytes)\<lparr>nr_bytes := bytes\<rparr> in
        if nr_kind r = NET_CLOSED \<and> lifecycle = lifecycle_code E ''CLOSED'' then r\<lparr>nr_kind := NET_PEER_CLOSED\<rparr> else r)"

definition r4_net_classify_udp :: "'w platform \<Rightarrow> bytes \<Rightarrow> u32 \<Rightarrow> net_result" where
  "r4_net_classify_udp E v bytes =
     (let T = ''R4NetServiceUdpResult''; status = reply_status E T v; raw = net_word E T ''result'' v in
      if status = net_status E ''FAILED'' \<and> raw = code E ''R4OS_NET_TX_BACKEND_ERROR'' then r4_net_result NET_NO_SERVICE raw 0
      else r4_net_classify_socket E status (net_word E T ''lifecycle_cause'' v) raw bytes)"

text \<open>Closing is complete when the reply says so in any of these ways.\<close>

definition close_complete :: "'w platform \<Rightarrow> string \<Rightarrow> net_result \<Rightarrow> bytes \<Rightarrow> bool" where
  "close_complete E T r v \<longleftrightarrow> nr_kind r = NET_OK \<or> nr_kind r = NET_CLOSED \<or>
     (nr_kind r = NET_PEER_CLOSED \<and> net_word E T ''lifecycle_cause'' v = lifecycle_code E ''CLOSED'')"

definition net_head_bad :: "'w platform \<Rightarrow> string \<Rightarrow> string \<Rightarrow> bytes \<Rightarrow> bool" where
  "net_head_bad E T prefix v \<longleftrightarrow> field E T ''magic'' v \<noteq> ucast (p_code E (prefix @ ''_MAGIC'')) \<or>
     field E T ''version'' v \<noteq> ucast (p_code E (prefix @ ''_VERSION''))"

subsection \<open>Names and addresses\<close>

definition dns_result :: "'w platform \<Rightarrow> bytes \<Rightarrow> net_result \<times> bytes option" where
  "dns_result E v =
     (let T = ''R4NetServiceDnsResult''; raw = net_word E T ''result'' v in
      if raw = code E ''R4OS_DNS_RESULT_TIMEOUT'' then (r4_net_result NET_TIMED_OUT raw 0, None)
      else if raw = code E ''R4OS_DNS_RESULT_NXDOMAIN'' then (r4_net_result NET_NOT_FOUND raw 0, None)
      else if raw \<noteq> code E ''R4OS_DNS_RESULT_OK'' \<or> net_word E T ''flags'' v AND p_code E ''R4OS_NET_SERVICE_DNS_FLAG_OK'' = 0
      then (r4_net_result NET_FAILED raw 0, None)
      else (r4_net_result NET_OK (code E ''R4OS_DNS_RESULT_OK'') 0, Some (take 4 (obj_part E T ''answer'' v))))"

text \<open>\<open>server\<close> holds the caller's server address, when there is one; the answer starts as 0.0.0.0.\<close>

definition r4_resolver_resolve_a ::
  "'w platform \<Rightarrow> time_codes \<Rightarrow> r4_network option \<Rightarrow> u64 \<Rightarrow> u32 \<Rightarrow> bytes option \<Rightarrow> r4_timeout \<Rightarrow> bytes option \<Rightarrow> (net_result \<times> bytes option, 'w) io" where
  "r4_resolver_resolve_a E K resolver name name_len server timeout out =
     (let zero = map_option (\<lambda>_. [0, 0, 0, 0]) out; T = ''R4NetServiceDnsResult''; response = p_local E ''response'';
          head = (case server of None \<Rightarrow> [] | Some ip \<Rightarrow> take 4 ip);
          op_code = ucast (p_code E (if server = None then ''R4OS_NET_SERVICE_OP_DNS_RESOLVE_A_RESULT''
            else ''R4OS_NET_SERVICE_OP_DNS_RESOLVE_A_SERVER_RESULT'')) in
      if resolver = None \<or> out = None \<or> name = 0 \<or> name_len = 0 \<or> name_len > p_code E ''R4OS_SERVICE_API_MAX_PAYLOAD'' - 4
      then give (r4_net_result NET_FAILED (code E ''R4OS_DNS_RESULT_NAME'') 0, zero)
      else and_then (load_range name (unat name_len)) (\<lambda>bs.
        and_then (Platform.store (p_local E ''request'') (head @ bs)) (\<lambda>_.
        and_then (clear_obj E response T) (\<lambda>_.
        and_then (r4_network_service_call E K resolver (p_local E ''DNSSVC'') op_code (p_local E ''request'')
            (word_of_nat (length head) + name_len) response (ucast (sizeof E T)) timeout) (\<lambda>call.
          let transport = r4_net_from_call E call in
          if nr_kind transport \<noteq> NET_OK then give (transport, zero)
          else and_then (load_obj E response T) (\<lambda>v.
            if ucast (sc_bytes call) \<noteq> sizeof E T \<or> net_head_bad E T ''R4OS_NET_SERVICE_DNS_RESULT'' v
            then give (r4_net_result NET_FAILED (code E ''R4OS_SERVICE_API_RESULT_INVALID'') 0, zero)
            else case dns_result E v of (r, answer) \<Rightarrow> give (r, if answer = None then zero else answer)))))))"

subsection \<open>A sample network\<close>

text \<open>
  A platform whose system table has the service slots and whose network table has \<open>tcp_connect\<close>; results
  carry a handle, flags, a result and a number of bytes. Codes not listed are zero.
\<close>

definition net_layout :: "string \<Rightarrow> (string \<times> nat) list" where
  "net_layout T =
     (if T = ''R4Sys'' then [(''head'', 16), (''service_open'', 8), (''service_call'', 8), (''service_close'', 8),
        (''service_endpoint_register'', 8), (''service_endpoint_unregister'', 8), (''service_endpoint_wait'', 8),
        (''service_endpoint_recv'', 8), (''service_endpoint_reply'', 8), (''monotonic_clock'', 8)]
      else if T = ''R4Net'' then [(''head'', 16), (''tcp_connect'', 8)]
      else if T = ''R4NetServiceTcpResult'' \<or> T = ''R4NetServiceUdpResult'' then [(''handle'', 1), (''flags'', 1), (''result'', 1), (''bytes'', 1)]
      else service_layout T)"

definition net_code :: "string \<Rightarrow> u32" where
  "net_code x = (if x = ''R4OS_SERVICE_API_MAX_PAYLOAD'' then 200 else if x = ''R4OS_SERVICE_API_RESULT_TIMEOUT'' then - 9
     else if x = ''R4OS_NET_SERVICE_TCP_FLAG_HANDLE_VALID'' then 1
     else if x \<in> {''R4OS_NET_SERVICE_STATUS_WOULD_BLOCK'', ''R4OS_NET_SERVICE_STATUS_TIMEOUT'', ''R4OS_NET_SERVICE_STATUS_FAILED'',
       ''R4OS_NET_SERVICE_SOCKET_LIFECYCLE_WOULD_BLOCK'', ''R4OS_NET_SERVICE_SOCKET_LIFECYCLE_TIMEOUT'',
       ''R4OS_NET_SERVICE_SOCKET_LIFECYCLE_RESET'', ''R4OS_NET_SERVICE_SOCKET_LIFECYCLE_PEER_GONE'', ''R4OS_NET_SERVICE_SOCKET_LIFECYCLE_LOCAL_CLOSE'',
       ''R4OS_NET_SERVICE_SOCKET_LIFECYCLE_CLOSED'', ''R4OS_NET_SERVICE_SOCKET_LIFECYCLE_BAD_HANDLE''} then 3
     else if x \<in> {''R4OS_NET_SERVICE_TCP_WRITE_MAX'', ''R4OS_NET_SERVICE_TCP_READ_MAX'', ''R4OS_NET_SERVICE_UDP_SEND_MAX'',
       ''R4OS_NET_SERVICE_UDP_READ_MAX''} then 8 else 0)"

definition net_local :: "string \<Rightarrow> u64" where
  "net_local x = (if x = ''encoded'' then 0x4800 else service_local x)"

definition net_platform :: "bytes platform" where
  "net_platform = (service_platform net_layout (\<lambda>_. 0))\<lparr>p_code := net_code, p_local := net_local\<rparr>"

lemma net_layout_some: "net_layout T \<noteq> [] \<or> service_layout T = []"
  by (auto simp: net_layout_def)

lemma net_platform_simps:
  "p_off net_platform T m = layout_off (net_layout T) m"
  "p_len net_platform T m = layout_len (net_layout T) m"
  "p_size net_platform T = sum_list (List.map snd (net_layout T))"
  "p_code net_platform = net_code"
  "p_local net_platform = net_local"
  "p_run net_platform = service_run"
  using net_layout_some [of T] by (auto simp: net_platform_def)

definition net_app :: r4_app where
  "net_app = zero_app\<lparr>a_system := \<lparr>h_table = 0x1000, h_ctx = None\<rparr>, a_network := 0x1800\<rparr>"

definition net_tables :: "(u64 \<times> bytes) list" where
  "net_tables = [(0x1000, [0, 0, 0, 0, 1, 0, 0, 0, 80, 0, 0, 0, 0, 0, 0, 0, 1, 0, 0, 0, 0, 0, 0, 0, 2, 0, 0, 0, 0, 0, 0, 0, 3, 0, 0, 0, 0, 0, 0, 0,
       4, 0, 0, 0, 0, 0, 0, 0, 4, 0, 0, 0, 0, 0, 0, 0, 4, 0, 0, 0, 0, 0, 0, 0, 4, 0, 0, 0, 0, 0, 0, 0, 4, 0, 0, 0, 0, 0, 0, 0]),
     (0x1800, [0, 0, 0, 0, 1, 0, 0, 0, 24, 0, 0, 0, 0, 0, 0, 0, 5, 0, 0, 0, 0, 0, 0, 0])]"

definition net_start :: "bytes \<Rightarrow> bytes machine" where
  "net_start reply = \<lparr>m_mem = flat net_tables, m_calls = [], m_os = reply\<rparr>"

lemmas net_eval = net_platform_simps net_layout_def net_code_def net_local_def net_app_def net_tables_def net_start_def
  r4_network_available_def r4_services_available_def network_app_def app_net_def has_base_def header_word_def checked_reply_def
  net_head_bad_def r4_net_from_call_def r4_net_result_def copy_range_def load_range_def

end
