(* ===== verification/NetTcp.thy ===== *)
theory NetTcp
  imports NetTransport
begin

text \<open>
  \<open>Shared/C/include/r4os/app_network.h\<close>, the TCP half: connecting, listening, accepting, transfers,
  readiness and closing. A close whose outcome is not known marks the socket, and a marked or released
  socket never sends a close request again.
\<close>

subsection \<open>Data\<close>

text \<open>\<open>ts_mark\<close> is \<open>reserved[0]\<close>, the only reserved byte the header uses.\<close>

record tcp_socket =
  ts_network :: r4_network
  ts_raw :: u32
  ts_owned :: u8
  ts_mark :: u8
  ts_remote :: socket_address

record tcp_listener =
  tl_network :: r4_network
  tl_port :: u16
  tl_owned :: u8

record tcp_readiness =
  td_readable :: bool
  td_writable :: bool
  td_pending_rx :: u32
  td_rx_window :: u32
  td_tx_window :: u32
  td_lifecycle :: u32
  td_status :: u32
  td_would_block :: bool
  td_reset :: bool
  td_peer_closed :: bool
  td_terminal :: bool

record tcp_poll_result =
  tp_result :: net_result
  tp_readiness :: tcp_readiness
  tp_available :: bool

record tcp_receipt =
  tr_outcome :: net_result
  tr_operation :: u16
  tr_action :: u16
  tr_ack :: u32
  tr_lifecycle :: u32
  tr_status :: u32
  tr_accepted :: bool
  tr_pending :: bool
  tr_released :: bool
  tr_submitted :: bool

definition zero_socket_address :: socket_address where
  "zero_socket_address = \<lparr>sk_ip = [0, 0, 0, 0], sk_port = 0\<rparr>"

definition tcp_socket_zero :: tcp_socket where
  "tcp_socket_zero = \<lparr>ts_network = \<lparr>nw_app = None\<rparr>, ts_raw = 0, ts_owned = 0, ts_mark = 0, ts_remote = zero_socket_address\<rparr>"

definition tcp_listener_zero :: tcp_listener where
  "tcp_listener_zero = \<lparr>tl_network = \<lparr>nw_app = None\<rparr>, tl_port = 0, tl_owned = 0\<rparr>"

definition r4_tcp_socket_valid :: "tcp_socket option \<Rightarrow> bool" where
  "r4_tcp_socket_valid k = (case k of None \<Rightarrow> False | Some k \<Rightarrow> nw_app (ts_network k) \<noteq> None \<and> ts_raw k \<noteq> 0)"

definition r4_tcp_listener_valid :: "tcp_listener option \<Rightarrow> bool" where
  "r4_tcp_listener_valid l = (case l of None \<Rightarrow> False | Some l \<Rightarrow> nw_app (tl_network l) \<noteq> None \<and> tl_port l \<noteq> 0)"

definition r4_net_write_u16 :: "u16 \<Rightarrow> bytes" where
  "r4_net_write_u16 v = [ucast v, ucast (drop_bit 8 v)]"

definition r4_net_write_u32 :: "u32 \<Rightarrow> bytes" where
  "r4_net_write_u32 v = [ucast v, ucast (drop_bit 8 v), ucast (drop_bit 16 v), ucast (drop_bit 24 v)]"

lemma net_write_le: "r4_net_write_u16 v = le_bytes 2 v" "r4_net_write_u32 w = le_bytes 4 w"
  by (simp_all add: r4_net_write_u16_def r4_net_write_u32_def numeral_eq_Suc drop_bit_drop_bit)

subsection \<open>One request\<close>

text \<open>
  A fixed-size exchange: the request bytes go to the local buffer, the response object starts cleared,
  and only a whole result with the right magic and version counts as a reply. \<open>Inl r\<close> is what the
  operation returns, \<open>Inr v\<close> the validated result object.
\<close>

abbreviation tcp_word :: "'w platform \<Rightarrow> string \<Rightarrow> bytes \<Rightarrow> u32" where "tcp_word E m v \<equiv> net_word E ''R4NetServiceTcpResult'' m v"
abbreviation tcp_op :: "'w platform \<Rightarrow> string \<Rightarrow> u16" where "tcp_op E c \<equiv> ucast (p_code E (''R4OS_NET_SERVICE_OP_TCP_'' @ c))"
abbreviation tcp_bad :: "'w platform \<Rightarrow> bytes \<Rightarrow> bool" where
  "tcp_bad E v \<equiv> net_head_bad E ''R4NetServiceTcpResult'' ''R4OS_NET_SERVICE_TCP_RESULT'' v"

definition tcp_reply :: "'w platform \<Rightarrow> tcp_call \<Rightarrow> (net_result + bytes, 'w) io" where
  "tcp_reply E t =
     (let transport = r4_tcp_from_call E t; T = ''R4NetServiceTcpResult'' in
      if nr_kind transport \<noteq> NET_OK then give (Inl transport)
      else and_then (load_obj E (p_local E ''response'') T) (\<lambda>v.
        give (if ucast (sc_bytes (tk_call t)) \<noteq> sizeof E T \<or> tcp_bad E v then Inl (r4_tcp_reply_unknown E) else Inr v)))"

definition tcp_exchange ::
  "'w platform \<Rightarrow> time_codes \<Rightarrow> u64 \<Rightarrow> r4_network \<Rightarrow> u16 \<Rightarrow> bytes \<Rightarrow> r4_timeout \<Rightarrow> (tcp_call \<times> (net_result + bytes), 'w) io" where
  "tcp_exchange E K poll_tick network op_code request timeout =
     and_then (Platform.store (p_local E ''request'') request) (\<lambda>_.
     and_then (clear_obj E (p_local E ''response'') ''R4NetServiceTcpResult'') (\<lambda>_.
     and_then (r4_network_tcp_service_call E K poll_tick (Some network) op_code (p_local E ''request'') (word_of_nat (length request))
         (p_local E ''response'') (ucast (sizeof E ''R4NetServiceTcpResult'')) timeout) (\<lambda>t.
     and_then (tcp_reply E t) (\<lambda>reply. give (t, reply)))))"

definition names_handle :: "'w platform \<Rightarrow> bytes \<Rightarrow> bool" where
  "names_handle E v \<longleftrightarrow> tcp_word E ''handle'' v \<noteq> 0 \<and> tcp_word E ''flags'' v AND p_code E ''R4OS_NET_SERVICE_TCP_FLAG_HANDLE_VALID'' \<noteq> 0"

subsection \<open>Connecting and listening\<close>

definition r4_network_connect_tcp ::
  "'w platform \<Rightarrow> time_codes \<Rightarrow> u64 \<Rightarrow> r4_network option \<Rightarrow> socket_address \<Rightarrow> r4_timeout \<Rightarrow> tcp_socket option \<Rightarrow>
    (net_result \<times> tcp_socket option, 'w) io" where
  "r4_network_connect_tcp E K poll_tick network remote timeout out =
     (let zero = map_option (\<lambda>_. tcp_socket_zero) out in
      case network of
        None \<Rightarrow> give (r4_net_result NET_FAILED (code E ''R4OS_ERROR_INVALID'') 0, zero)
      | Some n \<Rightarrow>
          if out = None then give (r4_net_result NET_FAILED (code E ''R4OS_ERROR_INVALID'') 0, zero)
          else and_then (tcp_exchange E K poll_tick n (tcp_op E ''CONNECT_RESULT'') (take 4 (sk_ip remote) @ r4_net_write_u16 (sk_port remote)) timeout)
            (\<lambda>(t, reply). case reply of
               Inl r \<Rightarrow> give (r, zero)
             | Inr v \<Rightarrow> let r = r4_net_classify_tcp E v (tcp_word E ''bytes'' v) in
                 if nr_kind r \<noteq> NET_OK \<or> \<not> names_handle E v
                 then give (if nr_kind r = NET_OK then r4_tcp_reply_unknown E else r, zero)
                 else give (r, Some \<lparr>ts_network = n, ts_raw = tcp_word E ''handle'' v, ts_owned = 1, ts_mark = 0, ts_remote = remote\<rparr>)))"

definition r4_network_listen_tcp ::
  "'w platform \<Rightarrow> time_codes \<Rightarrow> u64 \<Rightarrow> r4_network option \<Rightarrow> u16 \<Rightarrow> r4_timeout \<Rightarrow> tcp_listener option \<Rightarrow>
    (net_result \<times> tcp_listener option, 'w) io" where
  "r4_network_listen_tcp E K poll_tick network port timeout out =
     (let zero = map_option (\<lambda>_. tcp_listener_zero) out in
      case network of
        None \<Rightarrow> give (r4_net_result NET_FAILED (code E ''R4OS_ERROR_INVALID'') 0, zero)
      | Some n \<Rightarrow>
          if out = None \<or> port = 0 then give (r4_net_result NET_FAILED (code E ''R4OS_ERROR_INVALID'') 0, zero)
          else and_then (tcp_exchange E K poll_tick n (tcp_op E ''LISTEN_RESULT'') (r4_net_write_u16 port) timeout) (\<lambda>(t, reply).
            case reply of
              Inl r \<Rightarrow> give (r, zero)
            | Inr v \<Rightarrow> let r = r4_net_classify_tcp E v 0 in
                give (r, if nr_kind r = NET_OK then Some \<lparr>tl_network = n, tl_port = port, tl_owned = 1\<rparr> else zero)))"

definition accepted_socket :: "'w platform \<Rightarrow> tcp_listener \<Rightarrow> bytes \<Rightarrow> tcp_socket" where
  "accepted_socket E l v = \<lparr>ts_network = tl_network l, ts_raw = tcp_word E ''handle'' v, ts_owned = 1, ts_mark = 0,
     ts_remote = \<lparr>sk_ip = take 4 (obj_part E ''R4NetServiceTcpResult'' ''remote_ip'' v),
       sk_port = obj_word E ''R4NetServiceTcpResult'' ''remote_port'' v\<rparr>\<rparr>"

definition r4_tcp_listener_accept ::
  "'w platform \<Rightarrow> time_codes \<Rightarrow> u64 \<Rightarrow> tcp_listener option \<Rightarrow> r4_timeout \<Rightarrow> tcp_socket option \<Rightarrow> (net_result \<times> tcp_socket option, 'w) io" where
  "r4_tcp_listener_accept E K poll_tick listener timeout out =
     (let zero = map_option (\<lambda>_. tcp_socket_zero) out; closed = give (r4_net_result NET_FAILED (code E ''R4OS_ERR_CLOSED'') 0, zero) in
      case listener of
        None \<Rightarrow> closed
      | Some l \<Rightarrow>
          if \<not> r4_tcp_listener_valid listener \<or> out = None then closed
          else and_then (tcp_exchange E K poll_tick (tl_network l) (tcp_op E ''ACCEPT_POLL_RESULT'') (r4_net_write_u16 (tl_port l)) timeout)
            (\<lambda>(t, reply). case reply of
               Inl r \<Rightarrow> give (r, zero)
             | Inr v \<Rightarrow> let r = r4_net_classify_tcp E v 0 in
                 if nr_kind r = NET_OK \<and> names_handle E v then give (r, Some (accepted_socket E l v))
                 else give (if nr_kind r = NET_OK then r4_net_result NET_WOULD_BLOCK (tcp_word E ''result'' v) 0 else r, zero)))"

subsection \<open>Transfers\<close>

abbreviation net_closed :: "'w platform \<Rightarrow> net_result" where
  "net_closed E \<equiv> r4_net_result NET_FAILED (code E ''R4OS_ERR_CLOSED'') 0"

definition tcp_written :: "'w platform \<Rightarrow> u32 \<Rightarrow> net_result + bytes \<Rightarrow> net_result" where
  "tcp_written E len reply =
     (case reply of
        Inl r \<Rightarrow> r
      | Inr v \<Rightarrow> if tcp_word E ''bytes'' v > len then r4_tcp_reply_unknown E else r4_net_classify_tcp E v (tcp_word E ''bytes'' v))"

definition r4_tcp_socket_write ::
  "'w platform \<Rightarrow> time_codes \<Rightarrow> u64 \<Rightarrow> tcp_socket option \<Rightarrow> u64 \<Rightarrow> u32 \<Rightarrow> r4_timeout \<Rightarrow> (net_result, 'w) io" where
  "r4_tcp_socket_write E K poll_tick sock src len timeout =
     (case sock of
        None \<Rightarrow> give (net_closed E)
      | Some k \<Rightarrow>
          if \<not> r4_tcp_socket_valid sock then give (net_closed E)
          else if len > p_code E ''R4OS_NET_SERVICE_TCP_WRITE_MAX'' \<or> (len \<noteq> 0 \<and> src = 0)
          then give (r4_net_result NET_FAILED (code E ''R4OS_NET_TX_TOO_LARGE'') 0)
          else and_then (load_range src (unat len)) (\<lambda>bs.
            and_then (tcp_exchange E K poll_tick (ts_network k) (tcp_op E ''WRITE_RESULT'') (r4_net_write_u32 (ts_raw k) @ bs) timeout)
              (\<lambda>(t, reply). give (tcp_written E len reply))))"

text \<open>A read's reply is the result object followed by the bytes.\<close>

definition read_reply :: "'w platform \<Rightarrow> u64 \<Rightarrow> u32 \<Rightarrow> tcp_call \<Rightarrow> (net_result, 'w) io" where
  "read_reply E out capacity t =
     (let transport = r4_tcp_from_call E t; T = ''R4NetServiceTcpResult''; response = p_local E ''response''; got = ucast (sc_bytes (tk_call t)) in
      if nr_kind transport \<noteq> NET_OK then give transport
      else if got < sizeof E T then give (r4_tcp_reply_unknown E)
      else and_then (load_obj E response T) (\<lambda>parsed.
        let n = tcp_word E ''bytes'' parsed in
        if tcp_bad E parsed \<or> n > capacity \<or> sizeof E T + ucast n > got then give (r4_tcp_reply_unknown E)
        else and_then (copy_range out (response + sizeof E T) (unat n)) (\<lambda>_. give (r4_net_classify_tcp E parsed n))))"

definition r4_tcp_socket_read ::
  "'w platform \<Rightarrow> time_codes \<Rightarrow> u64 \<Rightarrow> tcp_socket option \<Rightarrow> u64 \<Rightarrow> u32 \<Rightarrow> r4_timeout \<Rightarrow> (net_result, 'w) io" where
  "r4_tcp_socket_read E K poll_tick sock out capacity timeout =
     (case sock of
        None \<Rightarrow> give (net_closed E)
      | Some k \<Rightarrow>
          if \<not> r4_tcp_socket_valid sock then give (net_closed E)
          else if capacity \<noteq> 0 \<and> out = 0 then give (r4_net_result NET_FAILED (code E ''R4OS_ERROR_INVALID'') 0)
          else let most = p_code E ''R4OS_NET_SERVICE_TCP_READ_MAX''; capacity = (if capacity > most then most else capacity) in
            and_then (Platform.store (p_local E ''request'') (r4_net_write_u32 (ts_raw k) @ r4_net_write_u16 (ucast capacity))) (\<lambda>_.
            and_then (r4_network_tcp_service_call E K poll_tick (Some (ts_network k)) (tcp_op E ''READ_RESULT'') (p_local E ''request'') 6
                (p_local E ''response'') (ucast (sizeof E ''R4NetServiceTcpResult'') + most) timeout)
              (read_reply E out capacity)))"

subsection \<open>Readiness\<close>

definition no_readiness :: tcp_readiness where
  "no_readiness = \<lparr>td_readable = False, td_writable = False, td_pending_rx = 0, td_rx_window = 0, td_tx_window = 0, td_lifecycle = 0,
     td_status = 0, td_would_block = False, td_reset = False, td_peer_closed = False, td_terminal = False\<rparr>"

definition terminal_causes :: "string list" where
  "terminal_causes = [''CLOSED'', ''RESET'', ''PEER_GONE'', ''LOCAL_ABORT'', ''LOCAL_CLOSE'', ''BAD_HANDLE'', ''OWNER_MISMATCH'', ''DROPPED'']"

definition readiness_of :: "'w platform \<Rightarrow> bytes \<Rightarrow> tcp_readiness" where
  "readiness_of E v =
     (let cause = tcp_word E ''lifecycle_cause'' v in
      \<lparr>td_readable = (tcp_word E ''pending_rx'' v \<noteq> 0), td_writable = (tcp_word E ''tx_window'' v \<noteq> 0),
       td_pending_rx = tcp_word E ''pending_rx'' v, td_rx_window = tcp_word E ''rx_window'' v, td_tx_window = tcp_word E ''tx_window'' v,
       td_lifecycle = cause, td_status = tcp_status E v,
       td_would_block = (tcp_status E v = net_status E ''WOULD_BLOCK'' \<or> cause = lifecycle_code E ''WOULD_BLOCK''),
       td_reset = (cause = lifecycle_code E ''RESET''),
       td_peer_closed = (cause = lifecycle_code E ''PEER_GONE'' \<or> cause = lifecycle_code E ''CLOSED''),
       td_terminal = (\<exists>c \<in> set terminal_causes. cause = lifecycle_code E c)\<rparr>)"

definition unready :: "net_result \<Rightarrow> tcp_poll_result" where
  "unready r = \<lparr>tp_result = r, tp_readiness = no_readiness, tp_available = False\<rparr>"

definition r4_tcp_socket_readiness ::
  "'w platform \<Rightarrow> time_codes \<Rightarrow> u64 \<Rightarrow> tcp_socket option \<Rightarrow> r4_timeout \<Rightarrow> (tcp_poll_result, 'w) io" where
  "r4_tcp_socket_readiness E K poll_tick sock timeout =
     (case sock of
        None \<Rightarrow> give (unready (net_closed E))
      | Some k \<Rightarrow>
          if \<not> r4_tcp_socket_valid sock then give (unready (net_closed E))
          else and_then (tcp_exchange E K poll_tick (ts_network k) (tcp_op E ''POLL_RESULT'') (r4_net_write_u32 (ts_raw k)) timeout)
            (\<lambda>(t, reply). give (case reply of
               Inl r \<Rightarrow> unready r
             | Inr v \<Rightarrow> \<lparr>tp_result = r4_net_classify_tcp E v 0, tp_readiness = readiness_of E v, tp_available = True\<rparr>)))"

definition r4_tcp_socket_poll :: "'w platform \<Rightarrow> time_codes \<Rightarrow> u64 \<Rightarrow> tcp_socket option \<Rightarrow> r4_timeout \<Rightarrow> (net_result, 'w) io" where
  "r4_tcp_socket_poll E K poll_tick sock timeout =
     and_then (r4_tcp_socket_readiness E K poll_tick sock timeout) (\<lambda>p. give (tp_result p))"

subsection \<open>Closing\<close>

definition blank_receipt :: "'w platform \<Rightarrow> net_result \<Rightarrow> tcp_receipt" where
  "blank_receipt E r = \<lparr>tr_outcome = r, tr_operation = tcp_op E ''CLOSE_RESULT'', tr_action = 0, tr_ack = 0, tr_lifecycle = 0, tr_status = 0,
     tr_accepted = False, tr_pending = False, tr_released = False, tr_submitted = False\<rparr>"

text \<open>The reply must repeat the operation and the handle.\<close>

definition close_mismatch :: "'w platform \<Rightarrow> tcp_socket \<Rightarrow> bytes \<Rightarrow> bool" where
  "close_mismatch E k v \<longleftrightarrow> field E ''R4NetServiceTcpResult'' ''action'' v \<noteq> ucast (p_code E ''R4OS_NET_SERVICE_TCP_ACTION_CLOSE'') \<or>
     tcp_word E ''flags'' v AND p_code E ''R4OS_NET_SERVICE_TCP_FLAG_HANDLE_VALID'' = 0 \<or> tcp_word E ''handle'' v \<noteq> ts_raw k"

definition settle_close :: "'w platform \<Rightarrow> tcp_socket \<Rightarrow> tcp_receipt \<Rightarrow> net_result + bytes \<Rightarrow> tcp_receipt \<times> tcp_socket" where
  "settle_close E k c reply =
     (case reply of
        Inl r \<Rightarrow> (c\<lparr>tr_outcome := r\<rparr>, if nr_kind r = NET_UNKNOWN then k\<lparr>ts_mark := 1\<rparr> else k)
      | Inr v \<Rightarrow>
          if close_mismatch E k v then (c\<lparr>tr_outcome := r4_tcp_reply_unknown E\<rparr>, k\<lparr>ts_mark := 1\<rparr>)
          else let c = c\<lparr>tr_action := obj_word E ''R4NetServiceTcpResult'' ''action'' v, tr_ack := tcp_word E ''tx_ack'' v,
                  tr_lifecycle := tcp_word E ''lifecycle_cause'' v, tr_status := tcp_word E ''service_status'' v,
                  tr_outcome := r4_net_classify_tcp E v 0\<rparr> in
            if tcp_word E ''result'' v = 0
            then (c\<lparr>tr_accepted := True, tr_pending := (tcp_word E ''lifecycle_cause'' v = lifecycle_code E ''PENDING_CLOSE''),
                tr_released := True, tr_outcome := r4_net_result NET_CLOSED (code E ''R4OS_OK'') 0\<rparr>, k\<lparr>ts_raw := 0\<rparr>)
            else (c, k\<lparr>ts_mark := 1\<rparr>))"

definition r4_tcp_socket_close_receipt ::
  "'w platform \<Rightarrow> time_codes \<Rightarrow> u64 \<Rightarrow> tcp_socket option \<Rightarrow> r4_timeout \<Rightarrow> (tcp_receipt \<times> tcp_socket option, 'w) io" where
  "r4_tcp_socket_close_receipt E K poll_tick sock timeout =
     (case sock of
        None \<Rightarrow> give (blank_receipt E (net_closed E), None)
      | Some k \<Rightarrow>
          if \<not> r4_tcp_socket_valid sock then give (blank_receipt E (net_closed E), sock)
          else if ts_owned k = 0 then give (blank_receipt E (r4_net_result NET_FAILED (code E ''R4OS_ERR_NOT_OWNED'') 0), sock)
          else if ts_mark k \<noteq> 0 then give ((blank_receipt E (r4_tcp_reply_unknown E))\<lparr>tr_submitted := True\<rparr>, sock)
          else and_then (tcp_exchange E K poll_tick (ts_network k) (tcp_op E ''CLOSE_RESULT'') (r4_net_write_u32 (ts_raw k)) timeout)
            (\<lambda>(t, reply). give (apsnd Some
              (settle_close E k ((blank_receipt E (net_closed E))\<lparr>tr_submitted := tk_submitted t\<rparr>) reply))))"

text \<open>The close kept for compatibility, of sockets and of listeners; it only reads the mark.\<close>

definition plain_close :: "'w platform \<Rightarrow> net_result + bytes \<Rightarrow> net_result \<times> bool" where
  "plain_close E reply =
     (case reply of
        Inl r \<Rightarrow> (r, False)
      | Inr v \<Rightarrow> let r = r4_net_classify_tcp E v 0 in
          if close_complete E ''R4NetServiceTcpResult'' r v then (r4_net_result NET_CLOSED (code E ''R4OS_OK'') 0, True) else (r, False))"

definition r4_tcp_socket_close ::
  "'w platform \<Rightarrow> time_codes \<Rightarrow> u64 \<Rightarrow> tcp_socket option \<Rightarrow> r4_timeout \<Rightarrow> (net_result \<times> tcp_socket option, 'w) io" where
  "r4_tcp_socket_close E K poll_tick sock timeout =
     (case sock of
        None \<Rightarrow> give (net_closed E, None)
      | Some k \<Rightarrow>
          if \<not> r4_tcp_socket_valid sock then give (net_closed E, sock)
          else if ts_owned k = 0 then give (r4_net_result NET_FAILED (code E ''R4OS_ERR_NOT_OWNED'') 0, sock)
          else if ts_mark k \<noteq> 0 then give (r4_tcp_reply_unknown E, sock)
          else and_then (tcp_exchange E K poll_tick (ts_network k) (tcp_op E ''CLOSE_RESULT'') (r4_net_write_u32 (ts_raw k)) timeout)
            (\<lambda>(t, reply). give (case plain_close E reply of (r, done_b) \<Rightarrow> (r, Some (if done_b then k\<lparr>ts_raw := 0\<rparr> else k)))))"

definition r4_tcp_listener_close ::
  "'w platform \<Rightarrow> time_codes \<Rightarrow> u64 \<Rightarrow> tcp_listener option \<Rightarrow> r4_timeout \<Rightarrow> (net_result \<times> tcp_listener option, 'w) io" where
  "r4_tcp_listener_close E K poll_tick listener timeout =
     (case listener of
        None \<Rightarrow> give (net_closed E, None)
      | Some l \<Rightarrow>
          if \<not> r4_tcp_listener_valid listener then give (net_closed E, listener)
          else if tl_owned l = 0 then give (r4_net_result NET_FAILED (code E ''R4OS_ERR_NOT_OWNED'') 0, listener)
          else and_then (tcp_exchange E K poll_tick (tl_network l) (tcp_op E ''CLOSE_LISTEN_RESULT'') (r4_net_write_u16 (tl_port l)) timeout)
            (\<lambda>(t, reply). give (case plain_close E reply of (r, done_b) \<Rightarrow> (r, Some (if done_b then l\<lparr>tl_port := 0\<rparr> else l)))))"

subsection \<open>What was sent and what is known\<close>

definition known_failure :: "net_result \<Rightarrow> bool" where
  "known_failure r \<longleftrightarrow> nr_kind r \<in> {NET_TIMED_OUT, NET_NO_SERVICE, NET_FAILED}"

lemma from_call_known: "sc_kind call \<noteq> CALL_RESPONSE \<Longrightarrow> known_failure (r4_net_from_call E call)"
  by (simp add: known_failure_def r4_net_from_call_def r4_net_result_def)

lemma from_call_bytes: "nr_kind (r4_net_from_call E call) \<noteq> NET_OK \<Longrightarrow> nr_bytes (r4_net_from_call E call) = 0"
  by (simp add: r4_net_from_call_def r4_net_result_def split: if_split_asm)

lemma unsent_known: "known_failure (r4_tcp_from_call E (tcp_unsent E CALL_FAILED raw))" "known_failure (r4_tcp_from_call E (tcp_unsent E CALL_TIMED_OUT raw))"
  by (simp_all add: r4_tcp_from_call_def from_call_known tcp_unsent_def)

lemma submit_sent: "tcp_submit E app op_code n response capacity ticks c s = Some (t, s') \<Longrightarrow> tk_submitted t"
  by (auto simp: tcp_submit_def and_then_Some_iff give_def)

lemma travel_known:
  "tcp_travel E app b op_code n response capacity ticks deadline s = Some (t, s') \<Longrightarrow> \<not> tk_submitted t \<Longrightarrow> known_failure (r4_tcp_from_call E t)"
  by (auto simp: tcp_travel_def and_then_Some_iff give_def dest: submit_sent intro: unsent_known split: if_split_asm)

lemma tcp_call_known:
  "r4_network_tcp_service_call E K p network op_code rq n response capacity timeout s = Some (t, s') \<Longrightarrow> \<not> tk_submitted t \<Longrightarrow>
    known_failure (r4_tcp_from_call E t)"
  unfolding r4_network_tcp_service_call_def Let_def
  by (auto simp: and_then_Some_iff ask_Some_iff give_def dest: travel_known intro: unsent_known split: if_split_asm option.split_asm)

lemma sent_unknown: "tk_submitted t \<Longrightarrow> nr_kind (r4_tcp_from_call E t) \<noteq> NET_OK \<Longrightarrow> nr_kind (r4_tcp_from_call E t) = NET_UNKNOWN"
  by (simp add: r4_tcp_from_call_def r4_net_from_call_def r4_net_result_def split: if_split_asm)

lemma tcp_from_call_bytes: "nr_kind (r4_tcp_from_call E t) \<noteq> NET_OK \<Longrightarrow> nr_bytes (r4_tcp_from_call E t) = 0"
  using from_call_bytes [of E "tk_call t"] by (simp add: r4_tcp_from_call_def r4_net_result_def split: if_split_asm)

text \<open>An exchange that was not submitted has a known failure; a submitted one has a reply or an unknown outcome.\<close>

lemma exchange_known:
  assumes "tcp_exchange E K p network op_code rq timeout s = Some ((t, reply), s')"
  shows "if tk_submitted t then \<forall>r. reply = Inl r \<longrightarrow> nr_kind r = NET_UNKNOWN \<and> nr_bytes r = 0
    else \<exists>r. reply = Inl r \<and> known_failure r \<and> nr_bytes r = 0"
proof -
  from assms obtain s1 s2 where call: "r4_network_tcp_service_call E K p (Some network) op_code (p_local E ''request'') (word_of_nat (length rq))
      (p_local E ''response'') (ucast (sizeof E ''R4NetServiceTcpResult'')) timeout s1 = Some (t, s2)"
    and reply: "tcp_reply E t s2 = Some (reply, s')"
    unfolding tcp_exchange_def by (auto simp: and_then_Some_iff give_def)
  show ?thesis
  proof (cases "nr_kind (r4_tcp_from_call E t) = NET_OK")
    case True
    then have "tk_submitted t" using tcp_call_known [OF call] by (auto simp: known_failure_def)
    then show ?thesis using reply True
      by (auto simp: tcp_reply_def and_then_Some_iff give_def r4_tcp_reply_unknown_def r4_net_result_def Let_def split: if_split_asm)
  next
    case False
    then have "reply = Inl (r4_tcp_from_call E t)" using reply by (simp add: tcp_reply_def give_def)
    then show ?thesis using False tcp_call_known [OF call] sent_unknown [of t E] tcp_from_call_bytes [of E t] by auto
  qed
qed

subsection \<open>Runs of closes\<close>

text \<open>A socket on which a close request may still be sent.\<close>

definition closable :: "tcp_socket \<Rightarrow> bool" where
  "closable k \<longleftrightarrow> r4_tcp_socket_valid (Some k) \<and> ts_mark k = 0"

inductive tcp_close_step :: "'w platform \<Rightarrow> time_codes \<Rightarrow> u64 \<Rightarrow> tcp_socket \<times> 'w machine \<Rightarrow> tcp_socket \<times> 'w machine \<Rightarrow> bool" for E K p where
  receipt: "r4_tcp_socket_close_receipt E K p (Some k) timeout s = Some ((c, Some k'), s') \<Longrightarrow> tcp_close_step E K p (k, s) (k', s')"
| close: "r4_tcp_socket_close E K p (Some k) timeout s = Some ((r, Some k'), s') \<Longrightarrow> tcp_close_step E K p (k, s) (k', s')"

inductive_cases tcp_close_stepE: "tcp_close_step E K p (k, s) (k', s')"

lemma settled_kept:
  "snd (settle_close E k c reply) = k \<or> snd (settle_close E k c reply) = k\<lparr>ts_raw := 0\<rparr> \<or> snd (settle_close E k c reply) = k\<lparr>ts_mark := 1\<rparr>"
  by (simp add: settle_close_def Let_def split: sum.split)

lemma not_closable: "\<not> closable (k\<lparr>ts_raw := 0\<rparr>)" "\<not> closable (k\<lparr>ts_mark := 1\<rparr>)"
  by (simp_all add: closable_def r4_tcp_socket_valid_def)

lemma receipt_kept:
  assumes "r4_tcp_socket_close_receipt E K p (Some k) timeout s = Some ((c, Some k'), s')"
  shows "(k' = k \<or> k' = k\<lparr>ts_raw := 0\<rparr> \<or> k' = k\<lparr>ts_mark := 1\<rparr>) \<and> (\<not> closable k \<longrightarrow> k' = k \<and> s' = s)"
  using assms unfolding r4_tcp_socket_close_receipt_def closable_def
  by (auto simp: and_then_Some_iff give_def apsnd_Some_eq split: if_split_asm) (metis settled_kept)

lemma tcp_close_kept:
  assumes "r4_tcp_socket_close E K p (Some k) timeout s = Some ((r, Some k'), s')"
  shows "(k' = k \<or> k' = k\<lparr>ts_raw := 0\<rparr>) \<and> (\<not> closable k \<longrightarrow> k' = k \<and> s' = s)"
  using assms unfolding r4_tcp_socket_close_def closable_def
  by (auto simp: and_then_Some_iff give_def case_prod_beta split: if_split_asm)

lemma tcp_close_step_kept:
  "tcp_close_step E K p (k, s) (k', s') \<Longrightarrow>
    (k' = k \<or> k' = k\<lparr>ts_raw := 0\<rparr> \<or> k' = k\<lparr>ts_mark := 1\<rparr>) \<and> (\<not> closable k \<longrightarrow> k' = k \<and> s' = s)"
  by (erule tcp_close_stepE) (erule receipt_kept, drule tcp_close_kept, blast)

interpretation closing: handle_protocol closable "\<lambda>k. k" "tcp_close_step E K p" for E K p
  by unfold_locales (use tcp_close_step_kept in blast, use tcp_close_step_kept not_closable in blast)

text \<open>
  C32: One close request of a valid, owned, unmarked socket settles it in exactly one of three ways, told
  apart by the receipt. Not submitted: the failure is known and the socket is unchanged. Submitted and
  released: the outcome is closed and the raw handle is dropped. Submitted and not released: the socket
  is marked, and from then on every run of closes, of either kind, leaves the socket as it is and neither
  calls the platform nor changes memory, so the request is never repeated.\<close>

theorem tcp_close_settles:
  assumes "r4_tcp_socket_close_receipt E K p (Some k) timeout s = Some ((c, Some k'), s')"
    and "r4_tcp_socket_valid (Some k)" and "ts_owned k \<noteq> 0" and "ts_mark k = 0"
  shows "if \<not> tr_submitted c then k' = k \<and> \<not> tr_released c \<and> nr_kind (tr_outcome c) \<in> {NET_TIMED_OUT, NET_NO_SERVICE, NET_FAILED}
    else if tr_released c then tr_accepted c \<and> nr_kind (tr_outcome c) = NET_CLOSED \<and> k' = k\<lparr>ts_raw := 0\<rparr>
    else k' = k\<lparr>ts_mark := 1\<rparr> \<and> (\<forall>k2 s2. (tcp_close_step E K p)\<^sup>*\<^sup>* (k', s') (k2, s2) \<longrightarrow> k2 = k' \<and> s2 = s')"
proof -
  let ?c = "(blank_receipt E (net_closed E))"
  from assms obtain t reply where ex: "tcp_exchange E K p (ts_network k) (tcp_op E ''CLOSE_RESULT'') (r4_net_write_u32 (ts_raw k)) timeout s =
      Some ((t, reply), s')"
    and settle: "settle_close E k (?c\<lparr>tr_submitted := tk_submitted t\<rparr>) reply = (c, k')"
    unfolding r4_tcp_socket_close_receipt_def by (auto simp: and_then_Some_iff give_def apsnd_Some_eq)
  have dead: "(\<forall>k2 s2. (tcp_close_step E K p)\<^sup>*\<^sup>* (k', s') (k2, s2) \<longrightarrow> k2 = k' \<and> s2 = s')" if "k' = k\<lparr>ts_mark := 1\<rparr>"
    using closing.run_safe not_closable(2) unfolding that by blast
  show ?thesis
  proof (cases "tk_submitted t")
    case False
    with exchange_known [OF ex] obtain r where "reply = Inl r" "known_failure r" by auto
    then show ?thesis using settle False by (auto simp: settle_close_def known_failure_def blank_receipt_def)
  next
    case True
    with exchange_known [OF ex] have "nr_kind r = NET_UNKNOWN" if "reply = Inl r" for r using that by simp
    then show ?thesis using settle True dead
      by (auto simp: settle_close_def blank_receipt_def r4_net_result_def Let_def split: sum.split_asm if_split_asm)
  qed
qed

text \<open>The service of the sample network closes handle 7 and says so.\<close>

definition sample_socket :: tcp_socket where
  "sample_socket = \<lparr>ts_network = \<lparr>nw_app = Some net_app\<rparr>, ts_raw = 7, ts_owned = 1, ts_mark = 0, ts_remote = zero_socket_address\<rparr>"

lemma sample_tcp_close:
  "\<exists>c s. r4_tcp_socket_close_receipt net_platform sample_codes 5 (Some sample_socket) poll_timeout (net_start [7, 1, 0, 0]) =
    Some ((c, Some (sample_socket\<lparr>ts_raw := 0\<rparr>)), s) \<and> tr_submitted c \<and> tr_released c"
  by (simp add: r4_tcp_socket_close_receipt_def r4_tcp_socket_valid_def sample_socket_def tcp_exchange_def tcp_reply_def settle_close_def
    close_mismatch_def blank_receipt_def r4_net_write_u32_def r4_network_tcp_service_call_def tcp_encode_def tcp_travel_def tcp_submit_def
    tcp_deadline_def r4_tcp_from_call_def net_eval exchange_eval service_eval sample_codes_def Let_def
    cong: run_congs del: load_bytes.simps store_bytes.simps)

theorem tcp_close_settles_witness:
  "\<exists>c s. r4_tcp_socket_close_receipt net_platform sample_codes 5 (Some sample_socket) poll_timeout (net_start [7, 1, 0, 0]) =
      Some ((c, Some (sample_socket\<lparr>ts_raw := 0\<rparr>)), s) \<and> tr_accepted c \<and> nr_kind (tr_outcome c) = NET_CLOSED"
proof -
  obtain c s where run: "r4_tcp_socket_close_receipt net_platform sample_codes 5 (Some sample_socket) poll_timeout (net_start [7, 1, 0, 0]) =
      Some ((c, Some (sample_socket\<lparr>ts_raw := 0\<rparr>)), s)" and c: "tr_submitted c" "tr_released c"
    using sample_tcp_close by blast
  have "r4_tcp_socket_valid (Some sample_socket)" "ts_owned sample_socket \<noteq> 0" "ts_mark sample_socket = 0"
    by (simp_all add: r4_tcp_socket_valid_def sample_socket_def)
  from tcp_close_settles [OF run this] c run show ?thesis by auto
qed

end
