(* ===== verification/NetUdp.thy ===== *)
theory NetUdp
  imports NetTcp
begin

text \<open>
  \<open>Shared/C/include/r4os/app_network.h\<close>, the UDP half: binding, sending and receiving datagrams, closing.
  A socket the service reports closed or reset is given up at once.
\<close>

subsection \<open>Data\<close>

record udp_socket =
  us_network :: r4_network
  us_raw :: u32
  us_local_port :: u16
  us_owned :: u8

record datagram =
  dg_source :: socket_address
  dg_destination :: socket_address
  dg_bytes :: u32

definition udp_socket_zero :: udp_socket where
  "udp_socket_zero = \<lparr>us_network = \<lparr>nw_app = None\<rparr>, us_raw = 0, us_local_port = 0, us_owned = 0\<rparr>"

definition datagram_zero :: datagram where
  "datagram_zero = \<lparr>dg_source = zero_socket_address, dg_destination = zero_socket_address, dg_bytes = 0\<rparr>"

definition r4_udp_socket_valid :: "udp_socket option \<Rightarrow> bool" where
  "r4_udp_socket_valid k = (case k of None \<Rightarrow> False | Some k \<Rightarrow> nw_app (us_network k) \<noteq> None \<and> us_raw k \<noteq> 0)"

definition r4_app_network :: "r4_app option \<Rightarrow> r4_network" where
  "r4_app_network app = \<lparr>nw_app = app\<rparr>"

text \<open>A resolver is its network.\<close>

definition r4_network_resolver :: "r4_network \<Rightarrow> r4_network" where
  "r4_network_resolver network = network"

subsection \<open>One request\<close>

abbreviation udp_word :: "'w platform \<Rightarrow> string \<Rightarrow> bytes \<Rightarrow> u32" where "udp_word E m v \<equiv> net_word E ''R4NetServiceUdpResult'' m v"
abbreviation udp_op :: "'w platform \<Rightarrow> string \<Rightarrow> u16" where "udp_op E c \<equiv> ucast (p_code E (''R4OS_NET_SERVICE_OP_UDP_'' @ c))"
abbreviation udp_bad :: "'w platform \<Rightarrow> bytes \<Rightarrow> bool" where
  "udp_bad E v \<equiv> net_head_bad E ''R4NetServiceUdpResult'' ''R4OS_NET_SERVICE_UDP_RESULT'' v"
abbreviation net_invalid :: "'w platform \<Rightarrow> net_result" where
  "net_invalid E \<equiv> r4_net_result NET_FAILED (code E ''R4OS_SERVICE_API_RESULT_INVALID'') 0"

definition udp_reply :: "'w platform \<Rightarrow> service_call_result \<Rightarrow> (net_result + bytes, 'w) io" where
  "udp_reply E call =
     (let transport = r4_net_from_call E call; T = ''R4NetServiceUdpResult'' in
      if nr_kind transport \<noteq> NET_OK then give (Inl transport)
      else and_then (load_obj E (p_local E ''response'') T) (\<lambda>v.
        give (if ucast (sc_bytes call) \<noteq> sizeof E T \<or> udp_bad E v then Inl (net_invalid E) else Inr v)))"

definition udp_exchange ::
  "'w platform \<Rightarrow> time_codes \<Rightarrow> r4_network \<Rightarrow> u16 \<Rightarrow> bytes \<Rightarrow> r4_timeout \<Rightarrow> (net_result + bytes, 'w) io" where
  "udp_exchange E K network op_code request timeout =
     and_then (Platform.store (p_local E ''request'') request) (\<lambda>_.
     and_then (clear_obj E (p_local E ''response'') ''R4NetServiceUdpResult'') (\<lambda>_.
     and_then (r4_network_service_call E K (Some network) (p_local E ''UDPSVC'') op_code (p_local E ''request'') (word_of_nat (length request))
         (p_local E ''response'') (ucast (sizeof E ''R4NetServiceUdpResult'')) timeout)
       (udp_reply E)))"

text \<open>\<open>if (result.kind == CLOSED || result.kind == RESET) socket->raw = 0\<close>\<close>

definition give_up :: "net_result \<Rightarrow> udp_socket \<Rightarrow> udp_socket" where
  "give_up r k = (if nr_kind r = NET_CLOSED \<or> nr_kind r = NET_RESET then k\<lparr>us_raw := 0\<rparr> else k)"

subsection \<open>Operations\<close>

definition r4_network_bind_udp ::
  "'w platform \<Rightarrow> time_codes \<Rightarrow> r4_network option \<Rightarrow> u16 \<Rightarrow> r4_timeout \<Rightarrow> udp_socket option \<Rightarrow> (net_result \<times> udp_socket option, 'w) io" where
  "r4_network_bind_udp E K network port timeout out =
     (let zero = map_option (\<lambda>_. udp_socket_zero) out in
      case network of
        None \<Rightarrow> give (r4_net_result NET_FAILED (code E ''R4OS_ERROR_INVALID'') 0, zero)
      | Some n \<Rightarrow>
          if out = None then give (r4_net_result NET_FAILED (code E ''R4OS_ERROR_INVALID'') 0, zero)
          else and_then (udp_exchange E K n (udp_op E ''BIND_RESULT'') (r4_net_write_u16 port) timeout) (\<lambda>reply.
            case reply of
              Inl r \<Rightarrow> give (r, zero)
            | Inr v \<Rightarrow> let r = r4_net_classify_udp E v 0 in
                if nr_kind r = NET_OK \<and> udp_word E ''handle'' v \<noteq> 0 \<and>
                  udp_word E ''flags'' v AND p_code E ''R4OS_NET_SERVICE_UDP_FLAG_HANDLE_VALID'' \<noteq> 0
                then give (r, Some \<lparr>us_network = n, us_raw = udp_word E ''handle'' v, us_local_port = port, us_owned = 1\<rparr>)
                else give (if nr_kind r = NET_OK then net_invalid E else r, zero)))"

definition udp_sent :: "'w platform \<Rightarrow> udp_socket \<Rightarrow> u32 \<Rightarrow> net_result + bytes \<Rightarrow> net_result \<times> udp_socket" where
  "udp_sent E k len reply =
     (case reply of
        Inl r \<Rightarrow> (r, k)
      | Inr v \<Rightarrow>
          if udp_word E ''bytes'' v > len then (net_invalid E, k)
          else let r = r4_net_classify_udp E v (udp_word E ''bytes'' v) in (r, give_up r k))"

definition r4_udp_socket_send_to ::
  "'w platform \<Rightarrow> time_codes \<Rightarrow> udp_socket option \<Rightarrow> socket_address \<Rightarrow> u64 \<Rightarrow> u32 \<Rightarrow> r4_timeout \<Rightarrow> (net_result \<times> udp_socket option, 'w) io" where
  "r4_udp_socket_send_to E K sock destination src len timeout =
     (case sock of
        None \<Rightarrow> give (net_closed E, None)
      | Some k \<Rightarrow>
          if \<not> r4_udp_socket_valid sock then give (net_closed E, sock)
          else if len > p_code E ''R4OS_NET_SERVICE_UDP_SEND_MAX'' \<or> (len \<noteq> 0 \<and> src = 0)
          then give (r4_net_result NET_FAILED (code E ''R4OS_NET_TX_TOO_LARGE'') 0, sock)
          else and_then (load_range src (unat len)) (\<lambda>bs.
            and_then (udp_exchange E K (us_network k) (udp_op E ''SENDTO_RESULT'')
                (r4_net_write_u32 (us_raw k) @ take 4 (sk_ip destination) @ r4_net_write_u16 (sk_port destination) @ bs) timeout)
              (\<lambda>reply. give (apsnd Some (udp_sent E k len reply)))))"

text \<open>The source address and the destination the service reports.\<close>

definition datagram_of :: "'w platform \<Rightarrow> bytes \<Rightarrow> datagram" where
  "datagram_of E v =
     (let T = ''R4NetServiceUdpResult'' in
      \<lparr>dg_source = \<lparr>sk_ip = take 4 (obj_part E T ''source_ip'' v), sk_port = obj_word E T ''source_port'' v\<rparr>,
       dg_destination = \<lparr>sk_ip = take 4 (obj_part E T ''dest_ip'' v), sk_port = obj_word E T ''dest_port'' v\<rparr>,
       dg_bytes = udp_word E ''bytes'' v\<rparr>)"

text \<open>A reply that is not a datagram is judged before its length.\<close>

definition receive_reply ::
  "'w platform \<Rightarrow> u64 \<Rightarrow> u32 \<Rightarrow> udp_socket \<Rightarrow> service_call_result \<Rightarrow> (net_result \<times> udp_socket \<times> datagram, 'w) io" where
  "receive_reply E out capacity k call =
     (let transport = r4_net_from_call E call; T = ''R4NetServiceUdpResult''; response = p_local E ''response''; got = ucast (sc_bytes call) in
      if nr_kind transport \<noteq> NET_OK then give (transport, k, datagram_zero)
      else if got < sizeof E T then give (net_invalid E, k, datagram_zero)
      else and_then (load_obj E response T) (\<lambda>parsed.
        let n = udp_word E ''bytes'' parsed; r = r4_net_classify_udp E parsed n in
        if udp_bad E parsed then give (net_invalid E, k, datagram_zero)
        else if nr_kind r \<noteq> NET_OK then give (r, give_up r k, datagram_zero)
        else if n > capacity \<or> sizeof E T + ucast n > got then give (net_invalid E, k, datagram_zero)
        else and_then (copy_range out (response + sizeof E T) (unat n)) (\<lambda>_. give (r, k, datagram_of E parsed))))"

definition r4_udp_socket_receive_from ::
  "'w platform \<Rightarrow> time_codes \<Rightarrow> udp_socket option \<Rightarrow> u64 \<Rightarrow> u32 \<Rightarrow> r4_timeout \<Rightarrow> datagram option \<Rightarrow>
    (net_result \<times> udp_socket option \<times> datagram option, 'w) io" where
  "r4_udp_socket_receive_from E K sock out capacity timeout dgram =
     (let zero = map_option (\<lambda>_. datagram_zero) dgram; refuse = (\<lambda>c. give (r4_net_result NET_FAILED (code E c) 0, sock, zero)) in
      case sock of
        None \<Rightarrow> refuse ''R4OS_ERR_CLOSED''
      | Some k \<Rightarrow>
          if \<not> r4_udp_socket_valid sock \<or> dgram = None then refuse ''R4OS_ERR_CLOSED''
          else if capacity \<noteq> 0 \<and> out = 0 then refuse ''R4OS_ERROR_INVALID''
          else let most = p_code E ''R4OS_NET_SERVICE_UDP_READ_MAX''; capacity = (if capacity > most then most else capacity) in
            and_then (Platform.store (p_local E ''request'') (r4_net_write_u32 (us_raw k) @ r4_net_write_u16 (ucast capacity))) (\<lambda>_.
            and_then (r4_network_service_call E K (Some (us_network k)) (p_local E ''UDPSVC'') (udp_op E ''RECV_RESULT'') (p_local E ''request'') 6
                (p_local E ''response'') (ucast (sizeof E ''R4NetServiceUdpResult'') + most) timeout) (\<lambda>call.
            and_then (receive_reply E out capacity k call) (\<lambda>(r, k, d). give (r, Some k, Some d)))))"

definition udp_closed :: "'w platform \<Rightarrow> udp_socket \<Rightarrow> net_result + bytes \<Rightarrow> net_result \<times> udp_socket" where
  "udp_closed E k reply =
     (case reply of
        Inl r \<Rightarrow> (r, k)
      | Inr v \<Rightarrow> let r = r4_net_classify_udp E v 0 in
          if close_complete E ''R4NetServiceUdpResult'' r v
          then (r4_net_result NET_CLOSED (code E ''R4OS_OK'') 0, k\<lparr>us_raw := 0\<rparr>) else (r, k))"

definition r4_udp_socket_close ::
  "'w platform \<Rightarrow> time_codes \<Rightarrow> udp_socket option \<Rightarrow> r4_timeout \<Rightarrow> (net_result \<times> udp_socket option, 'w) io" where
  "r4_udp_socket_close E K sock timeout =
     (case sock of
        None \<Rightarrow> give (net_closed E, None)
      | Some k \<Rightarrow>
          if \<not> r4_udp_socket_valid sock then give (net_closed E, sock)
          else if us_owned k = 0 then give (r4_net_result NET_FAILED (code E ''R4OS_ERR_NOT_OWNED'') 0, sock)
          else and_then (udp_exchange E K (us_network k) (udp_op E ''CLOSE_RESULT'') (r4_net_write_u32 (us_raw k)) timeout)
            (\<lambda>reply. give (apsnd Some (udp_closed E k reply))))"

subsection \<open>Runs of a socket\<close>

inductive udp_step :: "'w platform \<Rightarrow> time_codes \<Rightarrow> udp_socket \<times> 'w machine \<Rightarrow> udp_socket \<times> 'w machine \<Rightarrow> bool" for E K where
  send: "r4_udp_socket_send_to E K (Some k) destination src len timeout s = Some ((r, Some k'), s') \<Longrightarrow> udp_step E K (k, s) (k', s')"
| receive: "r4_udp_socket_receive_from E K (Some k) out capacity timeout d s = Some ((r, Some k', d'), s') \<Longrightarrow> udp_step E K (k, s) (k', s')"
| close: "r4_udp_socket_close E K (Some k) timeout s = Some ((r, Some k'), s') \<Longrightarrow> udp_step E K (k, s) (k', s')"

inductive_cases udp_stepE: "udp_step E K (k, s) (k', s')"

definition udp_kept :: "udp_socket \<Rightarrow> 'w machine \<Rightarrow> udp_socket \<Rightarrow> 'w machine \<Rightarrow> bool" where
  "udp_kept k s k' s' \<longleftrightarrow> (k' = k \<or> k' = k\<lparr>us_raw := 0\<rparr>) \<and> (\<not> r4_udp_socket_valid (Some k) \<longrightarrow> k' = k \<and> s' = s)"

lemma give_up_cases: "give_up r k = k \<or> give_up r k = k\<lparr>us_raw := 0\<rparr>"
  by (simp add: give_up_def)

lemma udp_sent_kept: "snd (udp_sent E k len reply) = k \<or> snd (udp_sent E k len reply) = k\<lparr>us_raw := 0\<rparr>"
  using give_up_cases by (auto simp: udp_sent_def Let_def split: sum.split)

lemma udp_closed_kept: "snd (udp_closed E k reply) = k \<or> snd (udp_closed E k reply) = k\<lparr>us_raw := 0\<rparr>"
  by (simp add: udp_closed_def Let_def split: sum.split)

lemma receive_reply_kept: "receive_reply E out capacity k call s = Some ((r, k', d), s') \<Longrightarrow> k' = k \<or> k' = k\<lparr>us_raw := 0\<rparr>"
  using give_up_cases by (auto simp: receive_reply_def and_then_Some_iff give_def Let_def split: if_split_asm)

lemma send_kept: "r4_udp_socket_send_to E K (Some k) destination src len timeout s = Some ((r, Some k'), s') \<Longrightarrow> udp_kept k s k' s'"
  unfolding r4_udp_socket_send_to_def udp_kept_def using udp_sent_kept [of E k len]
  by (auto simp: and_then_Some_iff give_def apsnd_Some_eq split: if_split_asm)

lemma receive_kept:
  "r4_udp_socket_receive_from E K (Some k) out capacity timeout d s = Some ((r, Some k', d'), s') \<Longrightarrow> udp_kept k s k' s'"
  unfolding r4_udp_socket_receive_from_def udp_kept_def Let_def
  by (auto simp: and_then_Some_iff give_def dest: receive_reply_kept split: if_split_asm)

lemma udp_close_kept: "r4_udp_socket_close E K (Some k) timeout s = Some ((r, Some k'), s') \<Longrightarrow> udp_kept k s k' s'"
  unfolding r4_udp_socket_close_def udp_kept_def using udp_closed_kept [of E k]
  by (auto simp: and_then_Some_iff give_def apsnd_Some_eq split: if_split_asm)

lemma udp_step_kept: "udp_step E K (k, s) (k', s') \<Longrightarrow> udp_kept k s k' s'"
  by (erule udp_stepE) (erule send_kept receive_kept udp_close_kept)+

lemma udp_dropped: "\<not> r4_udp_socket_valid (Some (k\<lparr>us_raw := 0\<rparr>))"
  by (simp add: r4_udp_socket_valid_def)

interpretation udp: handle_protocol "\<lambda>k. r4_udp_socket_valid (Some k)" "\<lambda>k. k" "udp_step E K" for E K
  by unfold_locales (use udp_step_kept udp_dropped in \<open>unfold udp_kept_def, blast\<close>)+

text \<open>
  C33: Along every run of sends, receives and closes, a UDP socket that is still valid is unchanged, raw
  handle, local port and owner alike, and one that is not valid stays as it is while no operation on it
  calls the platform or changes memory.\<close>

theorem udp_socket_dies_once:
  assumes "(udp_step E K)\<^sup>*\<^sup>* (k, s) (k', s')"
  shows "(r4_udp_socket_valid (Some k') \<longrightarrow> r4_udp_socket_valid (Some k) \<and> k' = k) \<and>
    (\<not> r4_udp_socket_valid (Some k) \<longrightarrow> k' = k \<and> s' = s)"
  by (rule udp.run_safe [OF assms])

definition sample_udp :: udp_socket where
  "sample_udp = \<lparr>us_network = \<lparr>nw_app = Some net_app\<rparr>, us_raw = 7, us_local_port = 53, us_owned = 1\<rparr>"

lemmas udp_eval = r4_udp_socket_valid_def sample_udp_def udp_exchange_def udp_reply_def r4_net_write_u32_def r4_net_write_u16_def
  r4_network_service_call_def r4_net_classify_udp_def reply_status_def packed_status_def r4_net_classify_socket_def
  net_eval exchange_eval service_eval sample_codes_def

lemma sample_udp_close:
  "\<exists>r s. r4_udp_socket_close net_platform sample_codes (Some sample_udp) poll_timeout (net_start [7, 1, 0, 0]) =
    Some ((r, Some (sample_udp\<lparr>us_raw := 0\<rparr>)), s)"
  by (simp add: r4_udp_socket_close_def udp_closed_def close_complete_def udp_eval Let_def cong: run_congs del: load_bytes.simps store_bytes.simps)

theorem udp_socket_dies_once_witness:
  "\<exists>s. (udp_step net_platform sample_codes)\<^sup>*\<^sup>* (sample_udp, net_start [7, 1, 0, 0]) (sample_udp\<lparr>us_raw := 0\<rparr>, s) \<and>
    \<not> r4_udp_socket_valid (Some (sample_udp\<lparr>us_raw := 0\<rparr>))"
proof -
  obtain r s where "r4_udp_socket_close net_platform sample_codes (Some sample_udp) poll_timeout (net_start [7, 1, 0, 0]) =
    Some ((r, Some (sample_udp\<lparr>us_raw := 0\<rparr>)), s)" using sample_udp_close by blast
  then have run: "(udp_step net_platform sample_codes)\<^sup>*\<^sup>* (sample_udp, net_start [7, 1, 0, 0]) (sample_udp\<lparr>us_raw := 0\<rparr>, s)"
    by (intro r_into_rtranclp udp_step.close)
  have "sample_udp\<lparr>us_raw := 0\<rparr> \<noteq> sample_udp" by (simp add: sample_udp_def)
  with udp_socket_dies_once [OF run] run show ?thesis by blast
qed

subsection \<open>What a transfer reports\<close>

lemma classify_socket_bytes: "nr_bytes (r4_net_classify_socket E status lifecycle raw n) = (if nr_kind (r4_net_classify_socket E status lifecycle raw n) = NET_OK then n else 0)"
  by (simp add: r4_net_classify_socket_def r4_net_result_def)

lemma classify_tcp_bytes: "nr_bytes (r4_net_classify_tcp E v n) \<le> n"
  by (simp add: r4_net_classify_tcp_def r4_net_result_def Let_def)

lemma classify_udp_bytes: "nr_bytes (r4_net_classify_udp E v n) = (if nr_kind (r4_net_classify_udp E v n) = NET_OK then n else 0)"
  by (simp add: r4_net_classify_udp_def r4_net_result_def classify_socket_bytes Let_def)

lemma tcp_exchange_bytes: "tcp_exchange E K p network op_code rq timeout s = Some ((t, Inl r), s') \<Longrightarrow> nr_bytes r = 0"
  by (drule exchange_known) (auto split: if_split_asm)

lemma udp_reply_bytes: "udp_reply E call s = Some (Inl r, s') \<Longrightarrow> nr_bytes r = 0"
  using from_call_bytes [of E call] unfolding udp_reply_def Let_def
  by (simp add: and_then_Some_iff give_def split: if_split_asm) (auto simp: r4_net_result_def split: if_split_asm)

lemma udp_exchange_bytes: "udp_exchange E K network op_code rq timeout s = Some (Inl r, s') \<Longrightarrow> nr_bytes r = 0"
  by (auto simp: udp_exchange_def and_then_Some_iff dest: udp_reply_bytes)

lemma tcp_written_bytes: "(\<And>r. reply = Inl r \<Longrightarrow> nr_bytes r = 0) \<Longrightarrow> nr_bytes (tcp_written E len reply) \<le> len"
  by (auto simp: tcp_written_def r4_tcp_reply_unknown_def r4_net_result_def not_less split: sum.split
      intro: order_trans [OF classify_tcp_bytes])

lemma udp_sent_bytes: "(\<And>r. reply = Inl r \<Longrightarrow> nr_bytes r = 0) \<Longrightarrow> nr_bytes (fst (udp_sent E k len reply)) \<le> len"
  by (auto simp: udp_sent_def r4_net_result_def classify_udp_bytes Let_def split: sum.split)

lemma write_bytes:
  assumes "r4_tcp_socket_write E K p (Some k) src len timeout s = Some (r, s')"
  shows "nr_bytes r \<le> len"
proof -
  have "nr_bytes r = 0 \<or> (\<exists>network op_code rq s1 t reply. tcp_exchange E K p network op_code rq timeout s1 = Some ((t, reply), s') \<and>
      r = tcp_written E len reply)"
    using assms unfolding r4_tcp_socket_write_def
    by (simp add: and_then_Some_iff give_def r4_net_result_def split: if_split_asm; auto; blast)
  then show ?thesis by (auto intro!: tcp_written_bytes dest: tcp_exchange_bytes)
qed

lemma read_reply_bytes:
  assumes "read_reply E out capacity t s = Some (r, s')"
  shows "nr_bytes r \<le> capacity"
proof -
  consider "nr_kind (r4_tcp_from_call E t) \<noteq> NET_OK" "r = r4_tcp_from_call E t" | "r = r4_tcp_reply_unknown E"
    | v n where "n \<le> capacity" "r = r4_net_classify_tcp E v n"
    using assms unfolding read_reply_def Let_def
    by (simp add: and_then_Some_iff give_def not_less split: if_split_asm) (auto split: if_split_asm)
  then show ?thesis
  proof cases
    case 1
    then show ?thesis by (simp add: tcp_from_call_bytes)
  next
    case 2
    then show ?thesis by (simp add: r4_tcp_reply_unknown_def r4_net_result_def)
  next
    case 3
    then show ?thesis using order_trans [OF classify_tcp_bytes] by blast
  qed
qed

lemma read_bytes:
  assumes "r4_tcp_socket_read E K p (Some k) out capacity timeout s = Some (r, s')"
  shows "nr_bytes r \<le> min capacity (p_code E ''R4OS_NET_SERVICE_TCP_READ_MAX'')"
proof -
  let ?most = "p_code E ''R4OS_NET_SERVICE_TCP_READ_MAX''"
  have "nr_bytes r = 0 \<or> (\<exists>t s1. read_reply E out (if capacity > ?most then ?most else capacity) t s1 = Some (r, s'))"
    using assms unfolding r4_tcp_socket_read_def Let_def
    by (simp add: and_then_Some_iff give_def r4_net_result_def del: if_split split: if_split_asm; auto; blast)
  then show ?thesis by (auto simp: min_def not_less dest!: read_reply_bytes split: if_split_asm)
qed

lemma sent_bytes:
  assumes "r4_udp_socket_send_to E K (Some k) destination src len timeout s = Some ((r, k'), s')"
  shows "nr_bytes r \<le> len"
proof -
  have "nr_bytes r = 0 \<or> (\<exists>network op_code rq s1 reply. udp_exchange E K network op_code rq timeout s1 = Some (reply, s') \<and>
      r = fst (udp_sent E k len reply))"
    using assms unfolding r4_udp_socket_send_to_def
    by (simp add: and_then_Some_iff give_def r4_net_result_def apsnd_Some_eq split: if_split_asm; auto; blast)
  then show ?thesis by (auto intro!: udp_sent_bytes dest: udp_exchange_bytes)
qed

lemma receive_reply_bytes:
  assumes "receive_reply E out capacity k call s = Some ((r, k', d), s')"
  shows "nr_bytes r \<le> capacity \<and> dg_bytes d = nr_bytes r"
proof -
  consider "nr_bytes r = 0" "d = datagram_zero"
    | v where "udp_word E ''bytes'' v \<le> capacity" "r = r4_net_classify_udp E v (udp_word E ''bytes'' v)" "nr_kind r = NET_OK" "d = datagram_of E v"
    using assms from_call_bytes [of E call] classify_udp_bytes [of E] unfolding receive_reply_def Let_def
    by (simp add: and_then_Some_iff give_def not_less split: if_split_asm) (auto simp: r4_net_result_def split: if_split_asm)
  then show ?thesis
    by cases (simp_all add: datagram_zero_def datagram_of_def classify_udp_bytes Let_def)
qed

lemma receive_bytes:
  assumes "r4_udp_socket_receive_from E K (Some k) out capacity timeout (Some d) s = Some ((r, k', Some d'), s')"
  shows "nr_bytes r \<le> min capacity (p_code E ''R4OS_NET_SERVICE_UDP_READ_MAX'') \<and> dg_bytes d' = nr_bytes r"
proof -
  let ?most = "p_code E ''R4OS_NET_SERVICE_UDP_READ_MAX''"
  have "nr_bytes r = 0 \<and> d' = datagram_zero \<or>
      (\<exists>call s1 k1. receive_reply E out (if capacity > ?most then ?most else capacity) k call s1 = Some ((r, k1, d'), s'))"
    using assms unfolding r4_udp_socket_receive_from_def Let_def
    by (simp add: and_then_Some_iff give_def r4_net_result_def del: if_split split: if_split_asm; auto; blast)
  then show ?thesis by (auto simp: min_def not_less datagram_zero_def dest!: receive_reply_bytes split: if_split_asm)
qed

text \<open>
  No transfer reports more than it could have moved, whatever the service answers: a TCP write and a
  UDP send at most the bytes they were given, a TCP read and a UDP receive at most the caller's capacity
  and the service's limit; and the datagram a receive hands out carries exactly the reported number.\<close>

theorem transfers_bounded:
  assumes "r4_tcp_socket_write E K p (Some k) src len timeout s1 = Some (w, t1)"
    and "r4_tcp_socket_read E K p (Some k) out capacity timeout s2 = Some (r, t2)"
    and "r4_udp_socket_send_to E K (Some u) destination src len timeout s3 = Some ((d, u1), t3)"
    and "r4_udp_socket_receive_from E K (Some u) out capacity timeout (Some g) s4 = Some ((q, u2, Some g'), t4)"
  shows "nr_bytes w \<le> len \<and> nr_bytes d \<le> len \<and> nr_bytes r \<le> min capacity (p_code E ''R4OS_NET_SERVICE_TCP_READ_MAX'') \<and>
    nr_bytes q \<le> min capacity (p_code E ''R4OS_NET_SERVICE_UDP_READ_MAX'') \<and> dg_bytes g' = nr_bytes q"
  using write_bytes [OF assms(1)] read_bytes [OF assms(2)] sent_bytes [OF assms(3)] receive_bytes [OF assms(4)] by blast

end
