(* ===== verification/GuiTimers.thy ===== *)
theory GuiTimers
  imports Handles
begin

text \<open>
  The timers of a window's event loop in \<open>Shared/C/include/r4os/app_gui.h\<close>: starting and cancelling, which
  timer is due, how a periodic timer moves on after missed periods, and how long a wait may last.
\<close>

subsection \<open>Timers\<close>

record gui_timer =
  gt_id :: u32
  gt_deadline :: u64
  gt_interval :: u64
  gt_active :: bool

text \<open>\<open>r4_gui_monotonic_hz\<close>: the rate the system table reports, or 0.\<close>

definition r4_gui_monotonic_hz :: "'w platform \<Rightarrow> r4_app option \<Rightarrow> (u32, 'w) io" where
  "r4_gui_monotonic_hz E app =
     (if app = None then give 0
      else ask (app_field E app ''time_state'') (\<lambda>ok.
        if \<not> ok then give 0
        else and_then (clear_obj E (p_local E ''state'') ''R4TimeState'') (\<lambda>_.
          and_then (app_call E app ''time_state'' [p_local E ''state''] :: (i32, 'w) io) (\<lambda>_.
          and_then (load_obj E (p_local E ''state'') ''R4TimeState'') (\<lambda>v. give (obj_word E ''R4TimeState'' ''monotonic_hz'' v))))))"

text \<open>\<open>UINT64_MAX - now < ticks ? UINT64_MAX : now + ticks\<close>\<close>

definition tick_after :: "u64 \<Rightarrow> u64 \<Rightarrow> u64" where
  "tick_after now ticks = (if UINT64_MAX - now < ticks then UINT64_MAX else now + ticks)"

definition r4_timer_start ::
  "'w platform \<Rightarrow> time_codes \<Rightarrow> gui_timer option \<Rightarrow> r4_app option \<Rightarrow> u32 \<Rightarrow> r4_duration \<Rightarrow> bool \<Rightarrow> (bool \<times> gui_timer option, 'w) io" where
  "r4_timer_start E K timer app timer_id duration repeating =
     (if timer = None \<or> app = None then give (False, timer)
      else and_then (r4_gui_monotonic_hz E app) (\<lambda>hz.
        case r4_duration_to_ticks K duration hz (Some 0) of (rc, out) \<Rightarrow>
          if rc \<noteq> ok_code K then give (False, timer)
          else let ticks = (case out of None \<Rightarrow> 0 | Some t \<Rightarrow> t) in
            and_then (r4_app_ticks E app) (\<lambda>now.
              give (True, Some \<lparr>gt_id = timer_id, gt_deadline = tick_after now ticks,
                gt_interval = (if repeating then if ticks = 0 then 1 else ticks else 0), gt_active = True\<rparr>))))"

definition r4_timer_cancel :: "gui_timer option \<Rightarrow> gui_timer option" where
  "r4_timer_cancel timer = map_option (\<lambda>t. t\<lparr>gt_active := False\<rparr>) timer"

subsection \<open>Delivering a timer\<close>

definition timer_due :: "u64 \<Rightarrow> gui_timer \<Rightarrow> bool" where
  "timer_due now t \<longleftrightarrow> \<not> (\<not> gt_active t \<or> now < gt_deadline t)"

text \<open>The periods that have begun since the deadline, counted without overflow.\<close>

definition timer_periods :: "u64 \<Rightarrow> gui_timer \<Rightarrow> u64" where
  "timer_periods now t =
     (let quotient = (now - gt_deadline t) div gt_interval t in if quotient = UINT64_MAX then UINT64_MAX else quotient + 1)"

definition timer_next :: "u64 \<Rightarrow> gui_timer \<Rightarrow> gui_timer" where
  "timer_next now t =
     (if gt_interval t = 0 then t\<lparr>gt_active := False\<rparr>
      else t\<lparr>gt_deadline := if timer_periods now t > (UINT64_MAX - gt_deadline t) div gt_interval t then UINT64_MAX
        else gt_deadline t + timer_periods now t * gt_interval t\<rparr>)"

text \<open>The loop over the timers: the first one that is due is delivered and moved on.\<close>

fun fire_first :: "u64 \<Rightarrow> gui_timer list \<Rightarrow> (u32 \<times> gui_timer list) option" where
  "fire_first now [] = None"
| "fire_first now (t # ts) =
     (if \<not> gt_active t \<or> now < gt_deadline t then map_option (\<lambda>(i, ts). (i, t # ts)) (fire_first now ts)
      else Some (gt_id t, timer_next now t # ts))"

lemma fire_none: "fire_first now ts = None \<longleftrightarrow> (\<forall>t \<in> set ts. \<not> timer_due now t)"
  by (induction now ts rule: fire_first.induct) (auto simp: timer_due_def)

lemma fire_some:
  "fire_first now ts = Some (i, ts') \<Longrightarrow>
    \<exists>n < length ts. timer_due now (ts ! n) \<and> (\<forall>m < n. \<not> timer_due now (ts ! m)) \<and> i = gt_id (ts ! n) \<and> ts' = ts[n := timer_next now (ts ! n)]"
proof (induction now ts arbitrary: ts' rule: fire_first.induct)
  case (2 now t ts)
  show ?case
  proof (cases "timer_due now t")
    case True
    then show ?thesis using 2(2) by (auto simp: timer_due_def)
  next
    case False
    then obtain ts1 where "fire_first now ts = Some (i, ts1)" "ts' = t # ts1" using 2(2) by (auto simp: timer_due_def)
    with 2(1) False obtain n where "n < length ts" "timer_due now (ts ! n)" "\<forall>m < n. \<not> timer_due now (ts ! m)" "i = gt_id (ts ! n)"
      "ts1 = ts[n := timer_next now (ts ! n)]" by (auto simp: timer_due_def)
    then show ?thesis using False \<open>ts' = t # ts1\<close> by (intro exI [of _ "Suc n"]) (auto simp: less_Suc_eq_0_disj)
  qed
qed simp

subsection \<open>How long a wait may last\<close>

definition timer_wait :: "u64 \<Rightarrow> gui_timer \<Rightarrow> u64" where
  "timer_wait now t = (if now \<ge> gt_deadline t then 0 else gt_deadline t - now)"

fun delay_loop :: "u64 \<Rightarrow> u64 \<times> bool \<Rightarrow> gui_timer list \<Rightarrow> u64 \<times> bool" where
  "delay_loop now (result, found) [] = (result, found)"
| "delay_loop now (result, found) (t # ts) =
     (if gt_active t
      then delay_loop now (if \<not> found \<or> timer_wait now t < result then timer_wait now t else result, True) ts
      else delay_loop now (result, found) ts)"

text \<open>The delay to the nearest timer, and whether there is one.\<close>

definition r4_event_loop_timer_delay :: "gui_timer list \<Rightarrow> u64 \<Rightarrow> u64 \<times> bool" where
  "r4_event_loop_timer_delay timers now = delay_loop now (UINT64_MAX, False) timers"

definition time_left :: "bool \<Rightarrow> u64 \<Rightarrow> u64 \<Rightarrow> u64" where
  "time_left forever deadline now = (if forever then UINT64_MAX else if now \<ge> deadline then 0 else deadline - now)"

text \<open>\<open>if (timer_found && timer_delay < remaining) remaining = timer_delay\<close>\<close>

definition sleep_ticks :: "gui_timer list \<Rightarrow> u64 \<Rightarrow> u64 \<Rightarrow> u64" where
  "sleep_ticks timers now left =
     (case r4_event_loop_timer_delay timers now of (delay, found) \<Rightarrow> if found \<and> delay < left then delay else left)"

lemma delay_loop_min:
  "delay_loop now (r, b) ts = (r', b') \<Longrightarrow>
    b' = (b \<or> (\<exists>t \<in> set ts. gt_active t)) \<and> (b \<longrightarrow> r' \<le> r) \<and> (\<forall>t \<in> set ts. gt_active t \<longrightarrow> r' \<le> timer_wait now t) \<and>
    (r' = r \<or> (\<exists>t \<in> set ts. gt_active t \<and> r' = timer_wait now t))"
proof (induction now "(r, b)" ts arbitrary: r b rule: delay_loop.induct)
  case (2 now r b t ts)
  show ?case
  proof (cases "gt_active t")
    case True
    let ?r = "if \<not> b \<or> timer_wait now t < r then timer_wait now t else r"
    from 2(1) [OF True] 2(3) True
    have "b' \<and> r' \<le> ?r \<and> (\<forall>t \<in> set ts. gt_active t \<longrightarrow> r' \<le> timer_wait now t) \<and>
        (r' = ?r \<or> (\<exists>t \<in> set ts. gt_active t \<and> r' = timer_wait now t))" by simp
    then show ?thesis using True by (auto split: if_splits)
  next
    case False
    then show ?thesis using 2(2) [OF False] 2(3) by auto
  qed
qed simp

lemma delay_found:
  assumes "r4_event_loop_timer_delay timers now = (delay, found)"
  shows "(found \<longleftrightarrow> (\<exists>t \<in> set timers. gt_active t)) \<and> (\<forall>t \<in> set timers. gt_active t \<longrightarrow> delay \<le> timer_wait now t) \<and>
    (found \<longrightarrow> (\<exists>t \<in> set timers. gt_active t \<and> delay = timer_wait now t))"
proof -
  have "r = UINT64_MAX \<Longrightarrow> r \<le> w \<Longrightarrow> r = w" for r w :: u64 by (simp add: word_order.extremum_unique)
  with delay_loop_min [OF assms [unfolded r4_event_loop_timer_delay_def]] show ?thesis by (metis (no_types))
qed

lemma sleep_spec:
  "sleep_ticks timers now left \<le> left \<and> (\<forall>t \<in> set timers. gt_active t \<longrightarrow> sleep_ticks timers now left \<le> timer_wait now t) \<and>
    (sleep_ticks timers now left = left \<or> (\<exists>t \<in> set timers. gt_active t \<and> sleep_ticks timers now left = timer_wait now t))"
proof -
  obtain delay found where d: "r4_event_loop_timer_delay timers now = (delay, found)" by fastforce
  note f = delay_found [OF d]
  have s: "sleep_ticks timers now left = (if found \<and> delay < left then delay else left)" by (simp add: sleep_ticks_def d)
  show ?thesis
  proof (cases "found \<and> delay < left")
    case True
    then show ?thesis using f s by auto
  next
    case False
    have bound: "left \<le> timer_wait now t" if "t \<in> set timers" "gt_active t" for t
    proof -
      have "found" "delay \<le> timer_wait now t" using f that by blast+
      with False show ?thesis by (meson not_less order_trans)
    qed
    have "sleep_ticks timers now left = left" using False s by (simp only: if_False)
    then show ?thesis using bound by (simp only: order_refl simp_thms) blast
  qed
qed

text \<open>
  C35: A wait of the event loop sleeps for as long as it may and no longer: not past the time left, not
  past the deadline of any active timer, and one of the two limits is reached exactly. When it would
  not sleep at all, no time is left or a timer is due at this very tick, so the next look at the timers delivers one.\<close>

theorem wait_sleeps_exactly:
  "sleep_ticks timers now left \<le> left \<and>
   (\<forall>t \<in> set timers. gt_active t \<longrightarrow> unat now + unat (sleep_ticks timers now left) \<le> max (unat now) (unat (gt_deadline t))) \<and>
   (sleep_ticks timers now left = left \<or>
     (\<exists>t \<in> set timers. gt_active t \<and> unat now + unat (sleep_ticks timers now left) = max (unat now) (unat (gt_deadline t)))) \<and>
   (sleep_ticks timers now left = 0 \<longrightarrow> left = 0 \<or> fire_first now timers \<noteq> None)"
proof -
  have wait: "unat now + unat (timer_wait now t) = max (unat now) (unat (gt_deadline t))" for t
    by (cases "gt_deadline t \<le> now") (simp_all add: timer_wait_def max_def word_le_nat_alt unat_sub)
  have mono: "x \<le> timer_wait now t \<Longrightarrow> unat now + unat x \<le> max (unat now) (unat (gt_deadline t))" for x t
    using wait [of t] by (simp add: word_le_nat_alt)
  have due: "fire_first now timers \<noteq> None" if "t \<in> set timers" "gt_active t" "timer_wait now t = 0" for t
  proof -
    have "timer_due now t" using that by (auto simp: timer_due_def timer_wait_def not_less split: if_split_asm)
    then show ?thesis using that(1) fire_none by blast
  qed
  note spec = sleep_spec [of timers now left]
  have "sleep_ticks timers now left = left \<or> (\<exists>t \<in> set timers. gt_active t \<and> unat now + unat (sleep_ticks timers now left) = max (unat now) (unat (gt_deadline t)))"
    using spec wait by metis
  moreover have "sleep_ticks timers now left = 0 \<longrightarrow> left = 0 \<or> fire_first now timers \<noteq> None"
    using spec due by metis
  ultimately show ?thesis using spec mono by blast
qed

definition slow_timer :: gui_timer where
  "slow_timer = \<lparr>gt_id = 4, gt_deadline = 30, gt_interval = 0, gt_active = True\<rparr>"

theorem wait_sleeps_exactly_witness: "sleep_ticks [slow_timer] 25 100 = 5"
proof -
  have "unat (25::64 word) + unat (sleep_ticks [slow_timer] 25 100) \<le> 30"
    using wait_sleeps_exactly [of "[slow_timer]" 25 100] by (simp add: slow_timer_def)
  moreover have "sleep_ticks [slow_timer] 25 100 = 100 \<or> unat (25::64 word) + unat (sleep_ticks [slow_timer] 25 100) = 30"
    using wait_sleeps_exactly [of "[slow_timer]" 25 100] by (auto simp: slow_timer_def)
  ultimately have "unat (sleep_ticks [slow_timer] 25 100) = unat (5::64 word)" by auto
  then show ?thesis by (simp only: unsigned_word_eqI)
qed

subsection \<open>Missed periods\<close>

lemma periods_nat:
  assumes "timer_due now t" and "gt_interval t \<noteq> 0"
  shows "unat (timer_periods now t) = min ((unat now - unat (gt_deadline t)) div unat (gt_interval t) + 1) (2 ^ 64 - 1)"
proof -
  let ?q = "(now - gt_deadline t) div gt_interval t"
  have le: "gt_deadline t \<le> now" using assms(1) by (simp add: timer_due_def not_less)
  then have q: "unat ?q = (unat now - unat (gt_deadline t)) div unat (gt_interval t)"
    by (simp add: unat_div unat_sub word_le_nat_alt)
  have m: "unat (UINT64_MAX) = 2 ^ 64 - 1" by (simp add: unsigned_minus_1_eq_mask mask_eq_exp_minus_1)
  show ?thesis
  proof (cases "?q = UINT64_MAX")
    case True
    then show ?thesis using q m by (simp add: timer_periods_def)
  next
    case False
    then have "unat ?q \<noteq> unat (UINT64_MAX)" by (metis unsigned_word_eqI)
    then have lt: "unat ?q < 2 ^ 64 - 1" using m unsigned_less [of ?q, where ?'a = nat] by simp
    then have "unat (?q + 1) = unat ?q + 1" by (subst unat_add_fit) simp_all
    then show ?thesis using False lt q by (simp add: timer_periods_def)
  qed
qed

lemma next_nat:
  assumes "timer_due now t" and "gt_interval t \<noteq> 0"
  shows "unat (gt_deadline (timer_next now t)) =
    min (unat (gt_deadline t) + ((unat now - unat (gt_deadline t)) div unat (gt_interval t) + 1) * unat (gt_interval t)) (2 ^ 64 - 1)"
proof -
  define d where "d = unat (gt_deadline t)"
  define i where "i = unat (gt_interval t)"
  define k where "k = (unat now - d) div i + 1"
  define p where "p = unat (timer_periods now t)"
  have m: "unat (UINT64_MAX) = 2 ^ 64 - 1" by (simp add: unsigned_minus_1_eq_mask mask_eq_exp_minus_1)
  have i: "0 < i" using assms(2) by (simp add: i_def unat_gt_0)
  have d: "d \<le> 2 ^ 64 - 1" using unsigned_less [of "gt_deadline t", where ?'a = nat] by (simp add: d_def)
  have p: "p = min k (2 ^ 64 - 1)" using periods_nat [OF assms] by (simp add: p_def k_def d_def i_def)
  have below: "unat (UINT64_MAX - gt_deadline t) = 2 ^ 64 - 1 - d"
    using m d by (subst unat_sub) (simp_all add: word_le_nat_alt d_def)
  have room: "unat ((UINT64_MAX - gt_deadline t) div gt_interval t) = (2 ^ 64 - 1 - d) div i"
    by (simp only: unat_div below i_def)
  have over: "timer_periods now t > (UINT64_MAX - gt_deadline t) div gt_interval t \<longleftrightarrow> 2 ^ 64 - 1 < d + p * i"
    using i d div_less_iff_less_mult [of i "2 ^ 64 - 1 - d" p] by (simp only: word_less_nat_alt room p_def [symmetric]) linarith
  have sat: "min (d + k * i) (2 ^ 64 - 1) = min (d + p * i) (2 ^ 64 - 1)"
  proof (cases "k \<le> 2 ^ 64 - 1")
    case False
    then have "2 ^ 64 - 1 \<le> p" "p \<le> k" using p by simp_all
    then have "(2 ^ 64 - 1) * 1 \<le> p * i" "p * i \<le> k * i" using i by (simp_all only: mult_le_mono Suc_leI One_nat_def) 
    then show ?thesis by linarith
  qed (use p in simp)
  have "unat (gt_deadline (timer_next now t)) = min (d + p * i) (2 ^ 64 - 1)"
  proof (cases "2 ^ 64 - 1 < d + p * i")
    case True
    then show ?thesis using over m assms(2) by (simp add: timer_next_def)
  next
    case False
    then have "p * i < 2 ^ 64" by simp
    then have "unat (timer_periods now t * gt_interval t) = p * i" by (simp add: unat_word_ariths(2) p_def i_def)
    then have "unat (gt_deadline t + timer_periods now t * gt_interval t) = d + p * i"
      using False by (subst unat_add_fit) (simp_all add: d_def)
    then show ?thesis using False over assms(2) by (simp add: timer_next_def)
  qed
  then show ?thesis unfolding sat [unfolded k_def d_def i_def, symmetric] d_def i_def by (simp only: sat [unfolded k_def d_def i_def])
qed

text \<open>
  C34: A periodic timer that is delivered late skips what it missed: its next deadline is the first moment
  of its own rhythm after the present, so it lies in the future by at most one period, and the timer stays
  active with its identity and interval; when that moment does not fit in 64 bits it is the largest tick, never an earlier one.\<close>

theorem periodic_timer_skips_missed:
  assumes "timer_due now t" and "gt_interval t \<noteq> 0"
  shows "\<exists>k. k = (unat now - unat (gt_deadline t)) div unat (gt_interval t) + 1 \<and>
    unat now < unat (gt_deadline t) + k * unat (gt_interval t) \<and> unat (gt_deadline t) + k * unat (gt_interval t) \<le> unat now + unat (gt_interval t) \<and>
    unat (gt_deadline (timer_next now t)) = min (unat (gt_deadline t) + k * unat (gt_interval t)) (2 ^ 64 - 1) \<and>
    timer_next now t = t\<lparr>gt_deadline := gt_deadline (timer_next now t)\<rparr> \<and> gt_active (timer_next now t)"
proof (intro exI conjI)
  let ?d = "unat (gt_deadline t)" and ?i = "unat (gt_interval t)"
  let ?q = "(unat now - ?d) div ?i"
  have le: "?d \<le> unat now" using assms(1) by (simp add: timer_due_def not_less word_le_nat_alt)
  have i: "0 < ?i" using assms(2) by (simp add: unat_gt_0)
  have parts: "?q * ?i + (unat now - ?d) mod ?i = unat now - ?d" "(?q + 1) * ?i = ?q * ?i + ?i" by simp_all
  have rest: "(unat now - ?d) mod ?i < ?i" using i by simp
  show "unat now < ?d + (?q + 1) * ?i" "?d + (?q + 1) * ?i \<le> unat now + ?i" using parts rest le by linarith+
  show "unat (gt_deadline (timer_next now t)) = min (?d + (?q + 1) * ?i) (2 ^ 64 - 1)" by (rule next_nat [OF assms])
  show "timer_next now t = t\<lparr>gt_deadline := gt_deadline (timer_next now t)\<rparr>" "gt_active (timer_next now t)"
    using assms by (simp_all add: timer_next_def timer_due_def)
qed simp

definition sample_timer :: gui_timer where
  "sample_timer = \<lparr>gt_id = 3, gt_deadline = 10, gt_interval = 4, gt_active = True\<rparr>"

theorem periodic_timer_skips_missed_witness:
  "timer_due 19 sample_timer \<and> gt_deadline (timer_next 19 sample_timer) = 22 \<and> gt_active (timer_next 19 sample_timer)"
proof -
  have due: "timer_due 19 sample_timer" "gt_interval sample_timer \<noteq> 0" by (simp_all add: timer_due_def sample_timer_def)
  have "gt_deadline (timer_next 19 sample_timer) = 22" by (simp add: timer_next_def timer_periods_def sample_timer_def)
  with periodic_timer_skips_missed [OF due] due show ?thesis by blast
qed

end
