(* ===== verification/EventLoop.thy ===== *)
theory EventLoop
  imports GuiTimers DeskCalls ServiceClient
begin

text \<open>
  Messages and the event loop of \<open>Shared/C/include/r4os/app_gui.h\<close>: events of the platform translated into
  messages, the order in which a poll looks for one, and the wait that polls, sleeps and polls again.
\<close>

subsection \<open>Messages\<close>

text \<open>An event as the platform fills it in.\<close>

record gui_event =
  ge_kind :: u32
  ge_window_id :: i32
  ge_x :: i32
  ge_y :: i32
  ge_key :: u32
  ge_buttons :: u32
  ge_modifiers :: u32
  ge_tick :: u64

datatype mouse_action = MOUSE_DOWN | MOUSE_UP | MOUSE_MOVE

record resize_message =
  rm_window_id :: i32
  rm_width :: i32
  rm_height :: i32
  rm_tick :: u64

record key_message =
  km_window_id :: i32
  km_key :: u8
  km_codepoint :: u32
  km_modifiers :: u32
  km_tick :: u64

record mouse_message =
  mm_window_id :: i32
  mm_action :: mouse_action
  mm_x :: i32
  mm_y :: i32
  mm_buttons :: u32
  mm_modifiers :: u32
  mm_tick :: u64

record timer_message =
  tm_id :: u32
  tm_tick :: u64

record focus_message =
  fm_window_id :: i32
  fm_tick :: u64

record wheel_message =
  wm_window_id :: i32
  wm_x :: i32
  wm_y :: i32
  wm_delta :: i32
  wm_buttons :: u32
  wm_modifiers :: u32
  wm_tick :: u64

record relative_message =
  rl_window_id :: i32
  rl_dx :: i32
  rl_dy :: i32
  rl_buttons :: u32
  rl_source :: u32
  rl_modifiers :: u32
  rl_tick :: u64

record capture_message =
  pm_window_id :: i32
  pm_state :: u32
  pm_reason :: u32
  pm_mode :: u32
  pm_capture_id :: u64
  pm_tick :: u64

record reset_message =
  im_window_id :: i32
  im_reason :: u32
  im_tick :: u64

datatype gui_message =
    MESSAGE_CLOSE i32
  | MESSAGE_RESIZE resize_message
  | MESSAGE_KEY key_message
  | MESSAGE_MOUSE mouse_message
  | MESSAGE_COMMAND u32
  | MESSAGE_CLIPBOARD u32
  | MESSAGE_TIMER timer_message
  | MESSAGE_UNKNOWN gui_event
  | MESSAGE_FOCUS_GAINED focus_message
  | MESSAGE_FOCUS_LOST focus_message
  | MESSAGE_FONT_CHANGED focus_message
  | MESSAGE_MOUSE_WHEEL wheel_message
  | MESSAGE_MOUSE_RELATIVE relative_message
  | MESSAGE_POINTER_CAPTURE capture_message
  | MESSAGE_INPUT_RESET reset_message

datatype message_state = NEXT_MESSAGE | NEXT_TIMED_OUT | NEXT_FAILED

text \<open>\<open>mx_message\<close> is empty where the code leaves the message zeroed.\<close>

record message_next =
  mx_state :: message_state
  mx_raw_code :: i32
  mx_message :: "gui_message option"

text \<open>The flags of the loop are only compared with zero.\<close>

record event_loop =
  el_app :: "r4_app option"
  el_timers :: "gui_timer list"
  el_activity :: u64
  el_clipboard :: u32
  el_command :: u32
  el_has_command :: bool
  el_close_delivered :: bool
  el_view_pending :: bool

subsection \<open>Translation\<close>

abbreviation event_code where "event_code E c \<equiv> p_code E (''R4ABI_GUI_EVENT_KIND_'' @ c)"

definition event_of :: "'w platform \<Rightarrow> bytes \<Rightarrow> gui_event" where
  "event_of E v = (let T = ''R4GuiEvent'' in
     \<lparr>ge_kind = obj_word E T ''kind'' v, ge_window_id = obj_word E T ''window_id'' v, ge_x = obj_word E T ''x'' v, ge_y = obj_word E T ''y'' v,
      ge_key = obj_word E T ''key'' v, ge_buttons = obj_word E T ''buttons'' v, ge_modifiers = obj_word E T ''modifiers'' v,
      ge_tick = obj_word E T ''tick'' v\<rparr>)"

definition r4_mouse_message :: "gui_event \<Rightarrow> mouse_action \<Rightarrow> mouse_message" where
  "r4_mouse_message raw action =
     \<lparr>mm_window_id = ge_window_id raw, mm_action = action, mm_x = ge_x raw, mm_y = ge_y raw, mm_buttons = ge_buttons raw,
      mm_modifiers = ge_modifiers raw, mm_tick = ge_tick raw\<rparr>"

definition focus_of :: "gui_event \<Rightarrow> focus_message" where
  "focus_of raw = \<lparr>fm_window_id = ge_window_id raw, fm_tick = ge_tick raw\<rparr>"

text \<open>Every kind but a resize, which asks for the window's size.\<close>

definition plain_message :: "'w platform \<Rightarrow> gui_event \<Rightarrow> gui_message" where
  "plain_message E raw =
     (let kind = ge_kind raw in
      if kind = event_code E ''CLOSE'' then MESSAGE_CLOSE (ge_window_id raw)
      else if kind = event_code E ''KEY_DOWN'' then MESSAGE_KEY \<lparr>km_window_id = ge_window_id raw, km_key = ucast (ge_key raw),
        km_codepoint = ge_key raw, km_modifiers = ge_modifiers raw, km_tick = ge_tick raw\<rparr>
      else if kind = event_code E ''MOUSE_DOWN'' then MESSAGE_MOUSE (r4_mouse_message raw MOUSE_DOWN)
      else if kind = event_code E ''MOUSE_UP'' then MESSAGE_MOUSE (r4_mouse_message raw MOUSE_UP)
      else if kind = event_code E ''MOUSE_MOVE'' then MESSAGE_MOUSE (r4_mouse_message raw MOUSE_MOVE)
      else if kind = event_code E ''MOUSE_WHEEL'' then MESSAGE_MOUSE_WHEEL \<lparr>wm_window_id = ge_window_id raw, wm_x = ge_x raw, wm_y = ge_y raw,
        wm_delta = ge_key raw, wm_buttons = ge_buttons raw, wm_modifiers = ge_modifiers raw, wm_tick = ge_tick raw\<rparr>
      else if kind = event_code E ''MOUSE_RELATIVE'' then MESSAGE_MOUSE_RELATIVE \<lparr>rl_window_id = ge_window_id raw, rl_dx = ge_x raw,
        rl_dy = ge_y raw, rl_buttons = ge_buttons raw, rl_source = ge_key raw, rl_modifiers = ge_modifiers raw, rl_tick = ge_tick raw\<rparr>
      else if kind = event_code E ''INPUT_RESET'' then MESSAGE_INPUT_RESET \<lparr>im_window_id = ge_window_id raw, im_reason = ge_key raw,
        im_tick = ge_tick raw\<rparr>
      else if kind = event_code E ''CAPTURE_CHANGED'' then MESSAGE_POINTER_CAPTURE \<lparr>pm_window_id = ge_window_id raw, pm_state = ge_x raw,
        pm_reason = ge_y raw, pm_mode = ge_modifiers raw, pm_capture_id = ucast (ge_key raw) OR push_bit 32 (ucast (ge_buttons raw)),
        pm_tick = ge_tick raw\<rparr>
      else if kind = event_code E ''FOCUS_GAINED'' then MESSAGE_FOCUS_GAINED (focus_of raw)
      else if kind = event_code E ''FOCUS_LOST'' then MESSAGE_FOCUS_LOST (focus_of raw)
      else if kind = event_code E ''FONT_CHANGED'' then MESSAGE_FONT_CHANGED (focus_of raw)
      else MESSAGE_UNKNOWN raw)"

definition loop_desk :: "event_loop \<Rightarrow> handle option" where
  "loop_desk L = Some \<lparr>h_table = app_desk (el_app L)\<rparr>"

definition r4_message_translate :: "'w platform \<Rightarrow> event_loop \<Rightarrow> gui_event \<Rightarrow> (gui_message \<times> event_loop, 'w) io" where
  "r4_message_translate E L raw =
     (if ge_kind raw \<noteq> event_code E ''RESIZE'' then give (plain_message E raw, L)
      else let L = (if ge_key raw = p_code E ''R4OS_GUI_RESIZE_ACTION_VIEW_KEY'' then L\<lparr>el_view_pending := True\<rparr> else L);
               T = ''R4GuiWindowInfo''; info = p_local E ''info'' in
        and_then (clear_obj E info T) (\<lambda>_.
        and_then (r4desk_gui_window_info E (loop_desk L) info) (\<lambda>rc.
          if negative rc then give (MESSAGE_UNKNOWN raw, L)
          else and_then (load_obj E info T) (\<lambda>v.
            give (MESSAGE_RESIZE \<lparr>rm_window_id = ge_window_id raw, rm_width = obj_word E T ''client_w'' v, rm_height = obj_word E T ''client_h'' v,
              rm_tick = ge_tick raw\<rparr>, L)))))"

subsection \<open>Polling\<close>

definition r4_event_loop_post_command :: "event_loop option \<Rightarrow> u32 \<Rightarrow> bool \<times> event_loop option" where
  "r4_event_loop_post_command lp command =
     (case lp of
        None \<Rightarrow> (False, None)
      | Some L \<Rightarrow> if el_has_command L then (False, lp) else (True, Some (L\<lparr>el_command := command, el_has_command := True\<rparr>)))"

text \<open>The part of a poll after the platform's events and the pending command.\<close>

definition poll_close :: "start_contract \<Rightarrow> 'w platform \<Rightarrow> event_loop \<Rightarrow> (gui_message option \<times> event_loop, 'w) io" where
  "poll_close S E L =
     and_then (r4_app_should_close S E (el_app L)) (\<lambda>closing.
       if \<not> closing then give (None, L\<lparr>el_close_delivered := False\<rparr>)
       else if el_close_delivered L then give (None, L)
       else and_then (r4desk_program_window_id E (loop_desk L)) (\<lambda>w.
         give (Some (MESSAGE_CLOSE w), L\<lparr>el_close_delivered := True\<rparr>)))"

definition poll_timers :: "start_contract \<Rightarrow> 'w platform \<Rightarrow> event_loop \<Rightarrow> (gui_message option \<times> event_loop, 'w) io" where
  "poll_timers S E L =
     and_then (r4_app_ticks E (el_app L)) (\<lambda>now.
       case fire_first now (el_timers L) of
         Some (i, ts) \<Rightarrow> give (Some (MESSAGE_TIMER \<lparr>tm_id = i, tm_tick = now\<rparr>), L\<lparr>el_timers := ts\<rparr>)
       | None \<Rightarrow> poll_close S E L)"

definition poll_rest :: "start_contract \<Rightarrow> 'w platform \<Rightarrow> event_loop \<Rightarrow> (gui_message option \<times> event_loop, 'w) io" where
  "poll_rest S E L =
     (if el_has_command L then give (Some (MESSAGE_COMMAND (el_command L)), L\<lparr>el_has_command := False\<rparr>)
      else ask (desk_field E (loop_desk L) ''clipboard_revision'') (\<lambda>ok.
        if \<not> ok then poll_timers S E L
        else and_then (desk_call E (loop_desk L) ''clipboard_revision'' []) (\<lambda>revision.
          if revision \<noteq> el_clipboard L
          then give (Some (MESSAGE_CLIPBOARD revision), L\<lparr>el_clipboard := revision\<rparr>)
          else poll_timers S E L)))"

text \<open>\<open>Some m\<close>: the call returned 1 and stored \<open>m\<close>; \<open>out\<close> says whether the caller gave a place for it.\<close>

definition r4_event_loop_poll ::
  "start_contract \<Rightarrow> 'w platform \<Rightarrow> event_loop option \<Rightarrow> bool \<Rightarrow> (gui_message option \<times> event_loop option, 'w) io" where
  "r4_event_loop_poll S E lp out =
     (case lp of
        None \<Rightarrow> give (None, None)
      | Some L \<Rightarrow>
          if \<not> out \<or> el_app L = None then give (None, lp)
          else let raw = p_local E ''raw'' in
            and_then (clear_obj E raw ''R4GuiEvent'') (\<lambda>_.
            and_then (r4desk_gui_poll_event E (loop_desk L) raw) (\<lambda>rc.
              if sint rc > 0
              then and_then (load_obj E raw ''R4GuiEvent'') (\<lambda>v.
                let ev = event_of E v; L = (if ge_kind ev = event_code E ''CLOSE'' then L\<lparr>el_close_delivered := True\<rparr> else L) in
                and_then (r4_message_translate E L ev) (\<lambda>(m, L). give (Some m, Some L)))
              else and_then (poll_rest S E L) (\<lambda>(m, L). give (m, Some L)))))"

subsection \<open>Waiting\<close>

definition waited :: "message_state \<Rightarrow> i32 \<Rightarrow> message_next" where
  "waited state raw = \<lparr>mx_state = state, mx_raw_code = raw, mx_message = None\<rparr>"

text \<open>One turn of the loop: \<open>Inl\<close> leaves it, \<open>Inr\<close> goes round again.\<close>

definition wait_turn ::
  "start_contract \<Rightarrow> 'w platform \<Rightarrow> bool \<Rightarrow> u64 \<Rightarrow> event_loop \<Rightarrow> ((message_next \<times> event_loop) + event_loop, 'w) io" where
  "wait_turn S E forever deadline L =
     and_then (r4_event_loop_poll S E (Some L) True) (\<lambda>(m, lp).
       let L = (case lp of None \<Rightarrow> L | Some L' \<Rightarrow> L') in
       case m of
         Some m \<Rightarrow> give (Inl (\<lparr>mx_state = NEXT_MESSAGE, mx_raw_code = 0, mx_message = Some m\<rparr>, L))
       | None \<Rightarrow>
           and_then (r4_app_ticks E (el_app L)) (\<lambda>now.
             let left = time_left forever deadline now; ticks = sleep_ticks (el_timers L) now left; place_seq = p_local E ''sequence'' in
             if left = 0 then give (Inl (waited NEXT_TIMED_OUT 0, L))
             else if ticks = 0 then give (Inr L)
             else and_then (Platform.store place_seq (le_bytes 8 (el_activity L))) (\<lambda>_.
               and_then (desk_call E (loop_desk L) ''gui_activity_wait''
                   [el_activity L, ticks, ucast (p_code E ''R4OS_GUI_ACTIVITY_SHARED_CLIPBOARD''), place_seq]) (\<lambda>raw.
               and_then (load_range place_seq 8) (\<lambda>v.
                 let L = L\<lparr>el_activity := le_word v\<rparr> in
                 give (if negative raw then Inl (waited NEXT_FAILED raw, L) else Inr L))))))"

partial_function (option) wait_loop ::
  "start_contract \<Rightarrow> 'w platform \<Rightarrow> bool \<Rightarrow> u64 \<Rightarrow> event_loop \<Rightarrow> 'w machine \<Rightarrow> ((message_next \<times> event_loop) \<times> 'w machine) option" where
  "wait_loop S E forever deadline L s =
     (case wait_turn S E forever deadline L s of
        None \<Rightarrow> None
      | Some (r, s) \<Rightarrow> (case r of Inl result \<Rightarrow> Some (result, s) | Inr L \<Rightarrow> wait_loop S E forever deadline L s))"

text \<open>The wait once the timeout is known in ticks.\<close>

definition wait_within ::
  "start_contract \<Rightarrow> 'w platform \<Rightarrow> bool \<Rightarrow> u64 \<Rightarrow> event_loop \<Rightarrow> (message_next \<times> event_loop option, 'w) io" where
  "wait_within S E forever budget L =
     and_then (r4_app_ticks E (el_app L)) (\<lambda>started.
       and_then (wait_loop S E forever (if forever then UINT64_MAX else tick_after started budget) L) (\<lambda>(r, L). give (r, Some L)))"

definition r4_event_loop_wait ::
  "start_contract \<Rightarrow> 'w platform \<Rightarrow> time_codes \<Rightarrow> event_loop option \<Rightarrow> r4_timeout \<Rightarrow> (message_next \<times> event_loop option, 'w) io" where
  "r4_event_loop_wait S E K lp timeout =
     (case lp of
        None \<Rightarrow> give (waited NEXT_FAILED (code E ''R4OS_ERR_NO_FN''), None)
      | Some L \<Rightarrow>
          ask (q_and (sure (el_app L \<noteq> None)) (desk_field E (loop_desk L) ''gui_activity_wait'')) (\<lambda>ok.
            if \<not> ok then give (waited NEXT_FAILED (code E ''R4OS_ERR_NO_FN''), lp)
            else and_then (r4_gui_monotonic_hz E (el_app L)) (\<lambda>hz.
              case timeout_ticks K timeout hz of
                None \<Rightarrow> give (waited NEXT_FAILED (code E ''R4_REMOTE_FRAME_ERROR_INVALID''), lp)
              | Some budget \<Rightarrow> wait_within S E (timeout_kind timeout = kind_forever K) budget L)))"

subsection \<open>What a poll does to the timers\<close>

text \<open>Only a timer message changes the timers, and it says which one was delivered.\<close>

definition fired :: "gui_timer list \<Rightarrow> gui_message option \<Rightarrow> gui_timer list \<Rightarrow> bool" where
  "fired ts m ts' \<longleftrightarrow>
     (case m of Some (MESSAGE_TIMER t) \<Rightarrow> fire_first (tm_tick t) ts = Some (tm_id t, ts') | _ \<Rightarrow> ts' = ts)"

definition polled :: "event_loop \<Rightarrow> gui_message option \<Rightarrow> event_loop \<Rightarrow> bool" where
  "polled L m L' \<longleftrightarrow> el_app L' = el_app L \<and> fired (el_timers L) m (el_timers L')"

lemma fired_simps [simp]:
  "fired ts None ts' \<longleftrightarrow> ts' = ts"
  "fired ts (Some (MESSAGE_TIMER t)) ts' \<longleftrightarrow> fire_first (tm_tick t) ts = Some (tm_id t, ts')"
  "(\<And>t. m \<noteq> MESSAGE_TIMER t) \<Longrightarrow> fired ts (Some m) ts' \<longleftrightarrow> ts' = ts"
  by (auto simp: fired_def split: gui_message.split)

named_theorems poll_facts \<open>what each part of a poll does to the loop\<close>

lemma plain_not_timer: "plain_message E raw \<noteq> MESSAGE_TIMER t"
  by (simp add: plain_message_def Let_def)

lemma polled_plain: "polled L (Some (plain_message E raw)) L"
  by (simp add: polled_def plain_not_timer)

lemma translate_polled [poll_facts]: "r4_message_translate E L raw s = Some ((m, L'), s') \<Longrightarrow> polled L (Some m) L'"
  by (auto simp: r4_message_translate_def and_then_Some_iff give_def Let_def polled_plain split: if_split_asm) (auto simp: polled_def)

lemma poll_close_polled [poll_facts]: "poll_close S E L s = Some ((m, L'), s') \<Longrightarrow> polled L m L'"
  by (auto simp: poll_close_def and_then_Some_iff give_def polled_def split: if_split_asm)

lemma poll_timers_polled [poll_facts]: "poll_timers S E L s = Some ((m, L'), s') \<Longrightarrow> polled L m L'"
  by (auto simp: poll_timers_def and_then_Some_iff give_def dest: poll_facts split: option.split_asm) (auto simp: polled_def)

lemma poll_rest_polled [poll_facts]: "poll_rest S E L s = Some ((m, L'), s') \<Longrightarrow> polled L m L'"
  by (auto simp: poll_rest_def and_then_Some_iff ask_Some_iff give_def dest: poll_facts split: if_split_asm) (auto simp: polled_def)

lemma polled_delivered: "polled (L\<lparr>el_close_delivered := b\<rparr>) m L' = polled L m L'"
  by (simp add: polled_def)

lemma poll_polled:
  "r4_event_loop_poll S E (Some L) out s = Some ((m, lp), s') \<Longrightarrow> \<exists>L'. lp = Some L' \<and> polled L m L'"
  by (auto simp: r4_event_loop_poll_def and_then_Some_iff give_def Let_def polled_delivered dest: poll_facts split: if_split_asm)
    (auto simp: polled_def)

subsection \<open>What a wait reports\<close>

text \<open>A wait that ends without a message left the timers alone; one that timed out read the clock last, past its deadline.\<close>

definition wait_done :: "'w platform \<Rightarrow> bool \<Rightarrow> u64 \<Rightarrow> event_loop \<Rightarrow> message_next \<Rightarrow> event_loop \<Rightarrow> 'w machine \<Rightarrow> bool" where
  "wait_done E forever deadline L r L' s' \<longleftrightarrow> polled L (mx_message r) L' \<and> (mx_state r = NEXT_MESSAGE \<longleftrightarrow> mx_message r \<noteq> None) \<and>
     (mx_state r = NEXT_FAILED \<longrightarrow> negative (mx_raw_code r)) \<and>
     (mx_state r = NEXT_TIMED_OUT \<longrightarrow> \<not> forever \<and> (\<exists>s now. r4_app_ticks E (el_app L) s = Some (now, s') \<and> deadline \<le> now))"

lemma time_left_0: "time_left forever deadline now = 0 \<Longrightarrow> \<not> forever \<and> deadline \<le> now"
  by (auto simp: time_left_def split: if_split_asm)

lemma turn_done:
  assumes "wait_turn S E forever deadline L s = Some (Inl (r, L'), s')"
  shows "wait_done E forever deadline L r L' s'"
proof -
  from assms obtain m lp s1 where poll: "r4_event_loop_poll S E (Some L) True s = Some ((m, lp), s1)"
    unfolding wait_turn_def by (auto simp: and_then_Some_iff)
  then obtain L1 where lp: "lp = Some L1" and p: "polled L m L1" using poll_polled by blast
  have app: "el_app L1 = el_app L" using p by (simp add: polled_def)
  show ?thesis
  proof (cases m)
    case (Some x)
    then show ?thesis using assms p unfolding wait_turn_def wait_done_def and_then_def poll lp
      by (simp add: give_def) (auto simp: wait_done_def)
  next
    case None
    then have same: "polled L None L1" using p by simp
    from assms None obtain now s2 where now: "r4_app_ticks E (el_app L) s1 = Some (now, s2)"
      unfolding wait_turn_def and_then_def poll lp by (auto simp: app split: option.split_asm)
    from assms None consider (timeout) "time_left forever deadline now = 0" "r = waited NEXT_TIMED_OUT 0" "L' = L1" "s' = s2"
      | (failed) raw v where "negative raw" "r = waited NEXT_FAILED raw" "L' = L1\<lparr>el_activity := le_word v\<rparr>"
      unfolding wait_turn_def and_then_def [of "r4_event_loop_poll S E (Some L) True"] poll lp
      by (simp add: and_then_def [of "r4_app_ticks E (el_app L)"] app now Let_def split: if_split_asm)
        (auto simp: give_def and_then_Some_iff split: if_split_asm)
    then show ?thesis
    proof cases
      case timeout
      then have "\<not> forever" "deadline \<le> now" using time_left_0 by blast+
      then show ?thesis using same now timeout by (auto simp: wait_done_def waited_def)
    next
      case failed
      then show ?thesis using same by (auto simp: wait_done_def waited_def polled_def)
    qed
  qed
qed

lemma turn_again:
  assumes "wait_turn S E forever deadline L s = Some (Inr L', s')"
  shows "el_app L' = el_app L \<and> el_timers L' = el_timers L"
proof -
  from assms obtain m lp s1 where poll: "r4_event_loop_poll S E (Some L) True s = Some ((m, lp), s1)"
    unfolding wait_turn_def by (auto simp: and_then_Some_iff)
  then obtain L1 where lp: "lp = Some L1" and p: "polled L m L1" using poll_polled by blast
  have m: "m = None" using assms unfolding wait_turn_def and_then_def [of "r4_event_loop_poll S E (Some L) True"] poll lp
    by (cases m) (simp_all add: give_def)
  then have "el_app L' = el_app L1 \<and> el_timers L' = el_timers L1"
    using assms unfolding wait_turn_def and_then_def [of "r4_event_loop_poll S E (Some L) True"] poll lp
    by (auto simp: and_then_Some_iff give_def Let_def split: if_split_asm)
  then show ?thesis using p m by (simp add: polled_def)
qed

lemma wait_done_from:
  "el_app L1 = el_app L \<Longrightarrow> el_timers L1 = el_timers L \<Longrightarrow> wait_done E f d L1 r L' s' = wait_done E f d L r L' s'"
  by (simp add: wait_done_def polled_def)

lemma loop_done:
  assumes "wait_loop S E forever deadline L s = Some y"
  shows "wait_done E forever deadline L (fst (fst y)) (snd (fst y)) (snd y)"
proof (rule wait_loop.raw_induct [where P = "\<lambda>S E forever deadline L s y. wait_done E forever deadline L (fst (fst y)) (snd (fst y)) (snd y)", OF _ assms])
  fix wait S E forever deadline L s y
  assume IH: "\<And>S E forever deadline L s y. wait S E forever deadline L s = Some y \<Longrightarrow> wait_done E forever deadline L (fst (fst y)) (snd (fst y)) (snd y)"
    and eq: "(case wait_turn S E forever deadline L s of None \<Rightarrow> None
      | Some (r, s) \<Rightarrow> (case r of Inl result \<Rightarrow> Some (result, s) | Inr L \<Rightarrow> wait S E forever deadline L s)) = Some y"
  from eq obtain t s1 where turn: "wait_turn S E forever deadline L s = Some (t, s1)" by (auto split: option.split_asm)
  show "wait_done E forever deadline L (fst (fst y)) (snd (fst y)) (snd y)"
  proof (cases t)
    case (Inl x)
    then show ?thesis using eq turn turn_done [of S E forever deadline L s "fst x" "snd x" s1] by auto
  next
    case (Inr L1)
    then have "wait S E forever deadline L1 s1 = Some y" using eq turn by simp
    then have "wait_done E forever deadline L1 (fst (fst y)) (snd (fst y)) (snd y)" by (rule IH)
    moreover have "el_app L1 = el_app L \<and> el_timers L1 = el_timers L" using turn_again turn Inr by blast
    ultimately show ?thesis using wait_done_from by blast
  qed
qed

lemma tick_after_le: "tick_after now ticks \<le> t \<Longrightarrow> min (unat now + unat ticks) (2 ^ 64 - 1) \<le> unat t"
proof (cases "UINT64_MAX - now < ticks")
  case True
  moreover assume "tick_after now ticks \<le> t"
  ultimately have "unat (UINT64_MAX :: u64) \<le> unat t" by (simp add: tick_after_def word_le_nat_alt)
  then show ?thesis by (simp add: unsigned_minus_1_eq_mask mask_eq_exp_minus_1)
next
  case False
  then have "unat (now + ticks) = unat now + unat ticks" by (intro unat_add_fit) (simp add: no_wrap_iff add.commute)
  moreover assume "tick_after now ticks \<le> t"
  ultimately show ?thesis using False by (simp add: tick_after_def word_le_nat_alt)
qed

text \<open>
  C36: However a wait of the event loop ends, it is honest about timers and time. A timer message names the
  first timer of the array that was due at the tick it carries: that timer alone is moved on, the others
  stay as they were; without a timer message no timer changes. A message is there exactly when the wait says
  so, a failure carries a negative code, and a wait that times out was not forever and read the clock last, at or past its
  deadline: the wait first asked the rate of the clock, turned the timeout into a budget of ticks at that rate, then read the
  clock, and the last reading is at least that first one plus the budget (or the last value of the clock, where the sum is past it).\<close>

theorem event_wait_reports:
  assumes "r4_event_loop_wait S E K (Some L) timeout s = Some ((r, Some L'), s')"
    and "negative (code E ''R4OS_ERR_NO_FN'')" and "negative (code E ''R4_REMOTE_FRAME_ERROR_INVALID'')"
  shows "(case mx_message r of
      Some (MESSAGE_TIMER t) \<Rightarrow> \<exists>n < length (el_timers L). timer_due (tm_tick t) (el_timers L ! n) \<and>
        (\<forall>m < n. \<not> timer_due (tm_tick t) (el_timers L ! m)) \<and> tm_id t = gt_id (el_timers L ! n) \<and>
        el_timers L' = (el_timers L)[n := timer_next (tm_tick t) (el_timers L ! n)]
    | _ \<Rightarrow> el_timers L' = el_timers L) \<and>
    (mx_state r = NEXT_MESSAGE \<longleftrightarrow> mx_message r \<noteq> None) \<and> (mx_state r = NEXT_FAILED \<longrightarrow> negative (mx_raw_code r)) \<and>
    (mx_state r = NEXT_TIMED_OUT \<longrightarrow> timeout_kind timeout \<noteq> kind_forever K \<and>
      (\<exists>hz s0 budget started s1 s2 now. r4_gui_monotonic_hz E (el_app L) s = Some (hz, s0) \<and> timeout_ticks K timeout hz = Some budget \<and>
        r4_app_ticks E (el_app L) s0 = Some (started, s1) \<and> r4_app_ticks E (el_app L) s2 = Some (now, s') \<and>
        min (unat started + unat budget) (2 ^ 64 - 1) \<le> unat now))"
proof -
  consider (early) x where "negative x" "r = waited NEXT_FAILED x" "L' = L"
    | (loop) hz s0 budget started s1 where "r4_gui_monotonic_hz E (el_app L) s = Some (hz, s0)" "timeout_ticks K timeout hz = Some budget" "r4_app_ticks E (el_app L) s0 = Some (started, s1)"
      "wait_loop S E (timeout_kind timeout = kind_forever K) (if timeout_kind timeout = kind_forever K then UINT64_MAX else tick_after started budget)
        L s1 = Some ((r, L'), s')"
  proof -
    let ?q = "q_and (sure (el_app L \<noteq> None)) (desk_field E (loop_desk L) ''gui_activity_wait'')"
    from assms(1) obtain b where b: "?q (m_mem s) = Some b" unfolding r4_event_loop_wait_def option.case ask_Some_iff by blast
    show ?thesis
    proof (cases b)
      case False
      then show ?thesis using assms(1,2) b early [of "code E ''R4OS_ERR_NO_FN''"] by (simp add: r4_event_loop_wait_def ask_def give_def)
    next
      case True
      with assms(1) b obtain hz s1 where hz: "r4_gui_monotonic_hz E (el_app L) s = Some (hz, s1)" and k: "(case timeout_ticks K timeout hz of
            None \<Rightarrow> give (waited NEXT_FAILED (code E ''R4_REMOTE_FRAME_ERROR_INVALID''), Some L)
          | Some budget \<Rightarrow> wait_within S E (timeout_kind timeout = kind_forever K) budget L) s1 = Some ((r, Some L'), s')"
        by (auto simp: r4_event_loop_wait_def ask_def and_then_Some_iff)
      show ?thesis
      proof (cases "timeout_ticks K timeout hz")
        case None
        then show ?thesis using k assms(3) early [of "code E ''R4_REMOTE_FRAME_ERROR_INVALID''"] by (simp add: give_def)
      next
        case (Some budget)
        then have "wait_within S E (timeout_kind timeout = kind_forever K) budget L s1 = Some ((r, Some L'), s')" using k by simp
        then obtain started s2 where "r4_app_ticks E (el_app L) s1 = Some (started, s2)"
          "wait_loop S E (timeout_kind timeout = kind_forever K) (if timeout_kind timeout = kind_forever K then UINT64_MAX else tick_after started budget)
            L s2 = Some ((r, L'), s')"
          unfolding wait_within_def by (simp only: and_then_Some_iff give_def split_beta option.inject prod.inject) auto
        with hz Some show ?thesis by (rule loop)
      qed
    qed
  qed
  then show ?thesis
  proof cases
    case early
    then show ?thesis by (simp add: waited_def)
  next
    case loop
    let ?f = "timeout_kind timeout = kind_forever K"
    let ?d = "if ?f then UINT64_MAX else tick_after started budget"
    from loop_done [OF loop(4)] have d: "wait_done E ?f ?d L r L' s'" by simp
    then have "fired (el_timers L) (mx_message r) (el_timers L')" by (simp add: wait_done_def polled_def)
    then have "case mx_message r of
        Some (MESSAGE_TIMER t) \<Rightarrow> \<exists>n < length (el_timers L). timer_due (tm_tick t) (el_timers L ! n) \<and>
          (\<forall>m < n. \<not> timer_due (tm_tick t) (el_timers L ! m)) \<and> tm_id t = gt_id (el_timers L ! n) \<and>
          el_timers L' = (el_timers L)[n := timer_next (tm_tick t) (el_timers L ! n)]
      | _ \<Rightarrow> el_timers L' = el_timers L"
      using fire_some by (auto simp: fired_def split: option.split_asm gui_message.split_asm option.split gui_message.split)
    moreover have "timeout_kind timeout \<noteq> kind_forever K \<and>
      (\<exists>hz s0 budget started s1 s2 now. r4_gui_monotonic_hz E (el_app L) s = Some (hz, s0) \<and> timeout_ticks K timeout hz = Some budget \<and>
        r4_app_ticks E (el_app L) s0 = Some (started, s1) \<and> r4_app_ticks E (el_app L) s2 = Some (now, s') \<and>
        min (unat started + unat budget) (2 ^ 64 - 1) \<le> unat now)" if "mx_state r = NEXT_TIMED_OUT"
    proof -
      have late: "\<not> ?f \<and> (\<exists>s now. r4_app_ticks E (el_app L) s = Some (now, s') \<and> ?d \<le> now)" using d that unfolding wait_done_def by blast
      then obtain s2 now where now: "\<not> ?f" "r4_app_ticks E (el_app L) s2 = Some (now, s')" "?d \<le> now" by blast
      from now(1,3) have "tick_after started budget \<le> now" by (simp only: if_False)
      then have "min (unat started + unat budget) (2 ^ 64 - 1) \<le> unat now" by (rule tick_after_le)
      then show ?thesis using now(1,2) loop(1-3) by blast
    qed
    ultimately show ?thesis using d unfolding wait_done_def by (intro conjI) blast+
  qed
qed

text \<open>A platform whose clock stands at 0, with a one-shot timer that is due.\<close>

definition gui_platform :: "unit platform" where
  "gui_platform = sample_platform\<lparr>p_code := (\<lambda>_. - 5)\<rparr>"

definition gui_loop :: event_loop where
  "gui_loop = \<lparr>el_app = Some (sample_app\<lparr>a_desktop := 0x1000\<rparr>), el_timers = [\<lparr>gt_id = 3, gt_deadline = 0, gt_interval = 0, gt_active = True\<rparr>],
     el_activity = 0, el_clipboard = 0, el_command = 0, el_has_command = False, el_close_delivered = False, el_view_pending = False\<rparr>"

definition gui_state :: "unit machine" where
  "gui_state = \<lparr>m_mem = flat [(0x1000, sample_table)], m_calls = [], m_os = ()\<rparr>"

lemmas gui_eval = gui_platform_def sample_platform_def gui_loop_def gui_state_def sample_app_def zero_app_def sample_table_def app_sys_def app_desk_def
  loop_desk_def table_of_def has_base_def r4_app_ticks_def r4_gui_monotonic_hz_def r4desk_gui_poll_event_def

definition gui_fired :: event_loop where
  "gui_fired = gui_loop\<lparr>el_timers := [\<lparr>gt_id = 3, gt_deadline = 0, gt_interval = 0, gt_active = False\<rparr>]\<rparr>"

definition gui_next :: message_next where
  "gui_next = \<lparr>mx_state = NEXT_MESSAGE, mx_raw_code = 0, mx_message = Some (MESSAGE_TIMER \<lparr>tm_id = 3, tm_tick = 0\<rparr>)\<rparr>"

lemma gui_turn:
  "\<exists>s'. wait_turn S gui_platform False 0 gui_loop (gui_state\<lparr>m_mem := flat [(0x3000, replicate 24 0), (0x1000, sample_table)], m_calls := cs\<rparr>) =
    Some (Inl (gui_next, gui_fired), s')"
  by (simp add: gui_next_def gui_fired_def wait_turn_def r4_event_loop_poll_def poll_rest_def poll_timers_def timer_next_def gui_eval flat_simps
    run_steps run_stores run_tests run_objects Let_def cong: run_congs del: load_bytes.simps store_bytes.simps)

lemma gui_wait:
  "\<exists>s. r4_event_loop_wait S gui_platform sample_codes (Some gui_loop) poll_timeout gui_state = Some ((gui_next, Some gui_fired), s)"
proof -
  have loop: "\<exists>s'. wait_loop S gui_platform False 0 gui_loop (gui_state\<lparr>m_mem := flat [(0x3000, replicate 24 0), (0x1000, sample_table)], m_calls := cs\<rparr>) =
      Some ((gui_next, gui_fired), s')" for cs
    using gui_turn [of S cs] by (subst wait_loop.simps) auto
  have "r4_event_loop_wait S gui_platform sample_codes (Some gui_loop) poll_timeout gui_state =
      and_then (wait_loop S gui_platform False 0 gui_loop) (\<lambda>(r, L). give (r, Some L))
        (gui_state\<lparr>m_mem := flat [(0x3000, replicate 24 0), (0x1000, sample_table)], m_calls := [(0x400000, [0x3000]), (0x400000, [])]\<rparr>)"
    by (simp add: r4_event_loop_wait_def wait_within_def tick_after_def timeout_ticks_def r4_timeout_to_ticks_def sample_codes_def poll_timeout_def
      gui_eval flat_simps run_steps run_stores run_tests run_objects Let_def cong: run_congs del: load_bytes.simps store_bytes.simps)
  then show ?thesis using loop [of "[(0x400000, [0x3000]), (0x400000, [])]"] by (auto simp: and_then_def give_def)
qed

theorem event_wait_reports_witness:
  "\<forall>S. \<exists>s. r4_event_loop_wait S gui_platform sample_codes (Some gui_loop) poll_timeout gui_state = Some ((gui_next, Some gui_fired), s) \<and>
    timer_due 0 (el_timers gui_loop ! 0) \<and> \<not> gt_active (el_timers gui_fired ! 0)"
proof
  fix S
  obtain s where run: "r4_event_loop_wait S gui_platform sample_codes (Some gui_loop) poll_timeout gui_state = Some ((gui_next, Some gui_fired), s)"
    using gui_wait by blast
  have codes: "negative (code gui_platform c)" for c by (simp add: gui_platform_def)
  have "length (el_timers gui_loop) = 1" "\<not> gt_active (el_timers gui_fired ! 0)" by (simp_all add: gui_loop_def gui_fired_def)
  with event_wait_reports [OF run codes codes] run show "\<exists>s. r4_event_loop_wait S gui_platform sample_codes (Some gui_loop) poll_timeout gui_state =
      Some ((gui_next, Some gui_fired), s) \<and> timer_due 0 (el_timers gui_loop ! 0) \<and> \<not> gt_active (el_timers gui_fired ! 0)"
    by (auto simp: gui_next_def)
qed

end
