(* ===== verification/CanvasClip.thy ===== *)
theory CanvasClip
  imports Prelude
begin

text \<open>
  The arithmetic of \<open>r4_canvas_blend_alpha8\<close> in \<open>Shared/C/include/r4os/app_gui.h\<close>: an alpha image placed at any
  signed position is cut to the window before it is handed to the drawing group.
\<close>

subsection \<open>The code\<close>

text \<open>An image: its position, its size, the bytes from one row to the next and the bytes behind the pointer.\<close>

record alpha_image =
  ai_x :: i32
  ai_y :: i32
  ai_width :: u32
  ai_height :: u32
  ai_stride :: u32
  ai_length :: u64

text \<open>What is handed on: the place in the window, the visible size, where its first byte is and how many are needed.\<close>

record clipped =
  cl_left :: int
  cl_top :: int
  cl_width :: u32
  cl_height :: u32
  cl_offset :: nat
  cl_bytes :: nat

datatype blend = BLEND_NOTHING | BLEND_INVALID | BLEND clipped

text \<open>
  The edges are 64-bit signed integers; they and the sizes computed from 32-bit words cannot
  overflow, so they are \<open>int\<close> and \<open>nat\<close>. \<open>most_w\<close> and \<open>most_h\<close> are the contract's largest sizes.
\<close>

definition alpha_needed :: "u32 \<Rightarrow> u32 \<Rightarrow> u32 \<Rightarrow> nat" where
  "alpha_needed height stride width = unat (height - 1) * unat stride + unat width"

definition blend_visible :: "alpha_image \<Rightarrow> int \<Rightarrow> int \<Rightarrow> int \<Rightarrow> int \<Rightarrow> blend" where
  "blend_visible i left upper right lower =
     (let source_x = nat (left - sint (ai_x i)); source_y = nat (upper - sint (ai_y i));
          visible_width = word_of_int (right - left); visible_height = word_of_int (lower - upper);
          source_offset = source_y * unat (ai_stride i) + source_x;
          visible_bytes = alpha_needed visible_height (ai_stride i) visible_width in
      if source_offset > unat (ai_length i) \<or> visible_bytes > unat (ai_length i) - source_offset then BLEND_INVALID
      else BLEND \<lparr>cl_left = left, cl_top = upper, cl_width = visible_width, cl_height = visible_height,
        cl_offset = source_offset, cl_bytes = visible_bytes\<rparr>)"

definition blend_clip :: "u32 \<Rightarrow> u32 \<Rightarrow> i32 \<Rightarrow> i32 \<Rightarrow> alpha_image \<Rightarrow> blend" where
  "blend_clip most_w most_h client_w client_h i =
     (if ai_width i = 0 \<or> ai_height i = 0 then BLEND_NOTHING
      else if ai_width i > most_w \<or> ai_height i > most_h \<or> ai_stride i < ai_width i then BLEND_INVALID
      else if alpha_needed (ai_height i) (ai_stride i) (ai_width i) > unat (ai_length i) then BLEND_INVALID
      else
        let left = (if negative (ai_x i) then 0 else sint (ai_x i)); upper = (if negative (ai_y i) then 0 else sint (ai_y i));
            right = sint (ai_x i) + uint (ai_width i); lower = sint (ai_y i) + uint (ai_height i);
            right = (if right > sint client_w then sint client_w else right);
            lower = (if lower > sint client_h then sint client_h else lower) in
        if right \<le> left \<or> lower \<le> upper then BLEND_NOTHING else blend_visible i left upper right lower)"

subsection \<open>What is drawn\<close>

text \<open>The pixel at \<open>(px, py)\<close> of the window lies in the image, in the window, in the cut part.\<close>

definition in_image :: "alpha_image \<Rightarrow> int \<Rightarrow> int \<Rightarrow> bool" where
  "in_image i px py \<longleftrightarrow> sint (ai_x i) \<le> px \<and> px < sint (ai_x i) + uint (ai_width i) \<and> sint (ai_y i) \<le> py \<and> py < sint (ai_y i) + uint (ai_height i)"

definition in_window :: "i32 \<Rightarrow> i32 \<Rightarrow> int \<Rightarrow> int \<Rightarrow> bool" where
  "in_window client_w client_h px py \<longleftrightarrow> 0 \<le> px \<and> px < sint client_w \<and> 0 \<le> py \<and> py < sint client_h"

definition in_clip :: "clipped \<Rightarrow> int \<Rightarrow> int \<Rightarrow> bool" where
  "in_clip c px py \<longleftrightarrow> cl_left c \<le> px \<and> px < cl_left c + uint (cl_width c) \<and> cl_top c \<le> py \<and> py < cl_top c + uint (cl_height c)"

text \<open>The byte of the image for a pixel, and the byte the drawing group reads for it.\<close>

definition image_byte :: "alpha_image \<Rightarrow> int \<Rightarrow> int \<Rightarrow> int" where
  "image_byte i px py = (py - sint (ai_y i)) * uint (ai_stride i) + (px - sint (ai_x i))"

definition clip_byte :: "alpha_image \<Rightarrow> clipped \<Rightarrow> int \<Rightarrow> int \<Rightarrow> int" where
  "clip_byte i c px py = int (cl_offset c) + (py - cl_top c) * uint (ai_stride i) + (px - cl_left c)"

lemma uint_visible:
  fixes l r :: int
  assumes "l < r" and "0 \<le> l" and "r \<le> sint (w :: i32)"
  shows "uint (word_of_int (r - l) :: u32) = r - l"
proof -
  have "sint w < 2 ^ 31" using sint_less [of w] by simp
  with assms have "0 \<le> r - l" "r - l < 2 ^ 32" by simp_all
  then show ?thesis by (simp only: uint_word_of_int_eq take_bit_int_eq_self len_num1 len_bit0 len_of_numeral_defs) (simp add: take_bit_int_eq_self)
qed

lemma blend_parts:
  assumes "blend_clip mw mh cw ch i = BLEND c"
  shows "cl_left c = max 0 (sint (ai_x i))" and "cl_top c = max 0 (sint (ai_y i))"
    and "cl_left c < min (sint cw) (sint (ai_x i) + uint (ai_width i))" and "cl_top c < min (sint ch) (sint (ai_y i) + uint (ai_height i))"
    and "uint (cl_width c) = min (sint cw) (sint (ai_x i) + uint (ai_width i)) - cl_left c"
    and "uint (cl_height c) = min (sint ch) (sint (ai_y i) + uint (ai_height i)) - cl_top c"
    and "int (cl_offset c) = (cl_top c - sint (ai_y i)) * uint (ai_stride i) + (cl_left c - sint (ai_x i))"
    and "cl_bytes c = alpha_needed (cl_height c) (ai_stride i) (cl_width c)" and "cl_offset c + cl_bytes c \<le> unat (ai_length i)"
proof -
  define l where "l = max 0 (sint (ai_x i))"
  define t where "t = max 0 (sint (ai_y i))"
  define r where "r = min (sint cw) (sint (ai_x i) + uint (ai_width i))"
  define b where "b = min (sint ch) (sint (ai_y i) + uint (ai_height i))"
  have edges: "(if negative (ai_x i) then 0 else sint (ai_x i)) = l" "(if negative (ai_y i) then 0 else sint (ai_y i)) = t"
    "(if sint (ai_x i) + uint (ai_width i) > sint cw then sint cw else sint (ai_x i) + uint (ai_width i)) = r"
    "(if sint (ai_y i) + uint (ai_height i) > sint ch then sint ch else sint (ai_y i) + uint (ai_height i)) = b"
    by (auto simp: l_def t_def r_def b_def)
  have lr: "l < r" "t < b" and vis: "blend_visible i l t r b = BLEND c"
    using assms unfolding blend_clip_def Let_def edges by (simp_all split: if_split_asm)
  let ?off = "nat (t - sint (ai_y i)) * unat (ai_stride i) + nat (l - sint (ai_x i))"
  from vis have c: "cl_left c = l" "cl_top c = t" "cl_width c = word_of_int (r - l)" "cl_height c = word_of_int (b - t)" "cl_offset c = ?off"
      "cl_bytes c = alpha_needed (cl_height c) (ai_stride i) (cl_width c)" "cl_offset c \<le> unat (ai_length i)"
      "cl_bytes c \<le> unat (ai_length i) - cl_offset c"
    unfolding blend_visible_def Let_def by (auto simp: not_less split: if_split_asm)
  have "0 \<le> l" "0 \<le> t" "sint (ai_x i) \<le> l" "sint (ai_y i) \<le> t" by (simp_all add: l_def t_def)
  then have off: "int ?off = (t - sint (ai_y i)) * uint (ai_stride i) + (l - sint (ai_x i))"
    by (simp add: uint_nat [symmetric])
  have w: "uint (cl_width c) = r - l" "uint (cl_height c) = b - t"
    unfolding c(3,4) by (rule uint_visible [OF lr(1), of cw] uint_visible [OF lr(2), of ch]; simp add: l_def t_def r_def b_def)+
  show "cl_left c = max 0 (sint (ai_x i))" "cl_top c = max 0 (sint (ai_y i))" by (simp_all only: c(1,2) l_def t_def)
  show "cl_left c < min (sint cw) (sint (ai_x i) + uint (ai_width i))" "cl_top c < min (sint ch) (sint (ai_y i) + uint (ai_height i))"
    using lr by (simp_all only: c(1,2) r_def b_def)
  show "uint (cl_width c) = min (sint cw) (sint (ai_x i) + uint (ai_width i)) - cl_left c"
    "uint (cl_height c) = min (sint ch) (sint (ai_y i) + uint (ai_height i)) - cl_top c"
    by (simp_all only: w c(1,2) r_def b_def)
  show "int (cl_offset c) = (cl_top c - sint (ai_y i)) * uint (ai_stride i) + (cl_left c - sint (ai_x i))"
    by (simp only: c(1,2,5) off)
  show "cl_bytes c = alpha_needed (cl_height c) (ai_stride i) (cl_width c)" by (rule c(6))
  show "cl_offset c + cl_bytes c \<le> unat (ai_length i)" using c(7,8) by linarith
qed

text \<open>
  C37: The part of an alpha image that is handed to the drawing group is exactly what shows: it holds a pixel
  of the window if and only if the image covers that pixel; every byte the group reads for a pixel is the
  image's own byte for that pixel, and lies within the bytes handed on, which lie within the caller's buffer.\<close>

theorem blend_clips_exactly:
  assumes "blend_clip mw mh cw ch i = BLEND c"
  shows "(in_clip c px py \<longleftrightarrow> in_image i px py \<and> in_window cw ch px py) \<and>
    (in_clip c px py \<longrightarrow> clip_byte i c px py = image_byte i px py \<and> int (cl_offset c) \<le> image_byte i px py \<and>
      image_byte i px py < int (cl_offset c) + int (cl_bytes c)) \<and>
    cl_offset c + cl_bytes c \<le> unat (ai_length i)"
proof -
  note part = blend_parts [OF assms]
  have area: "in_clip c px py \<longleftrightarrow> in_image i px py \<and> in_window cw ch px py"
    using part(1-6) unfolding in_clip_def in_image_def in_window_def by linarith
  have "clip_byte i c px py = image_byte i px py"
    unfolding clip_byte_def image_byte_def part(7) by (simp add: algebra_simps)
  moreover have "int (cl_offset c) \<le> clip_byte i c px py \<and> clip_byte i c px py < int (cl_offset c) + int (cl_bytes c)" if clip: "in_clip c px py"
  proof -
    let ?st = "uint (ai_stride i)" and ?h = "uint (cl_height c)"
    have h: "int (unat (cl_height c - 1)) = ?h - 1"
    proof -
      have "1 \<le> ?h" using part(4,6) by linarith
      then show ?thesis by (simp add: uint_nat [symmetric] uint_sub_if')
    qed
    have n: "int (cl_bytes c) = (?h - 1) * ?st + uint (cl_width c)"
      using h by (simp add: part(8) alpha_needed_def uint_nat [symmetric])
    have row: "0 \<le> py - cl_top c" "py - cl_top c \<le> ?h - 1" and col: "0 \<le> px - cl_left c" "px - cl_left c < uint (cl_width c)"
      using clip by (auto simp: in_clip_def)
    have "0 \<le> (py - cl_top c) * ?st" "(py - cl_top c) * ?st \<le> (?h - 1) * ?st"
      using row by (simp_all add: mult_right_mono)
    with col n show ?thesis by (simp add: clip_byte_def)
  qed
  ultimately show ?thesis using area part(9) by auto
qed

definition sample_image :: alpha_image where
  "sample_image = \<lparr>ai_x = - 2, ai_y = 1, ai_width = 4, ai_height = 3, ai_stride = 5, ai_length = 14\<rparr>"

theorem blend_clips_exactly_witness:
  "blend_clip 64 64 8 3 sample_image = BLEND \<lparr>cl_left = 0, cl_top = 1, cl_width = 2, cl_height = 2, cl_offset = 2, cl_bytes = 7\<rparr> \<and>
    in_image sample_image 1 2 \<and> image_byte sample_image 1 2 = 8 \<and> (8 :: int) < 2 + 7"
proof -
  have run: "blend_clip 64 64 8 3 sample_image = BLEND \<lparr>cl_left = 0, cl_top = 1, cl_width = 2, cl_height = 2, cl_offset = 2, cl_bytes = 7\<rparr>"
    by (simp add: blend_clip_def blend_visible_def alpha_needed_def sample_image_def Let_def)
  from blend_clips_exactly [OF run, of 1 2] run show ?thesis
    by (simp add: in_clip_def image_byte_def sample_image_def)
qed

end
