(* ===== verification/GuiPaint.thy ===== *)
theory GuiPaint
  imports EventLoop CanvasClip DrawCalls DesktopActions
begin

text \<open>
  Windows and painting in \<open>Shared/C/include/r4os/app_gui.h\<close>: opening a window, pointer capture, a paint with
  its frame, the drawing operations of a canvas, and presenting or discarding what was drawn.
\<close>

subsection \<open>Windows\<close>

record gui_window =
  gw_app :: "r4_app option"
  gw_id :: i32
  gw_events :: event_loop

definition app_draw :: "r4_app option \<Rightarrow> handle option" where
  "app_draw app = Some \<lparr>h_table = (case app of None \<Rightarrow> 0 | Some a \<Rightarrow> a_drawing a)\<rparr>"

definition app_desktop :: "r4_app option \<Rightarrow> handle option" where
  "app_desktop app = Some \<lparr>h_table = app_desk app\<rparr>"

text \<open>The slots a window needs, of both tables.\<close>

definition window_slots :: "'w platform \<Rightarrow> r4_app option \<Rightarrow> query" where
  "window_slots E app =
     foldr q_and
       [desk_field E (app_desktop app) ''program_window_id'', desk_field E (app_desktop app) ''gui_window_info'',
        desk_field E (app_desktop app) ''gui_poll_event'', desk_field E (app_desktop app) ''gui_activity_wait'',
        draw_field E (app_draw app) ''gui_clear'', draw_field E (app_draw app) ''gui_rect'',
        draw_field E (app_draw app) ''gui_draw_text'', draw_field E (app_draw app) ''gui_present''] (sure True)"

definition window_zero :: "r4_app option \<Rightarrow> i32 \<Rightarrow> gui_timer list \<Rightarrow> gui_window" where
  "window_zero app w timers = \<lparr>gw_app = app, gw_id = w, gw_events = \<lparr>el_app = app, el_timers = timers, el_activity = 0, el_clipboard = 0,
     el_command = 0, el_has_command = False, el_close_delivered = False, el_view_pending = False\<rparr>\<rparr>"

text \<open>\<open>timers\<close> is the caller's array, \<open>None\<close> the null pointer; the contract \<open>A\<close> names the two groups.\<close>

definition r4_window_open ::
  "'w platform \<Rightarrow> app_contract \<Rightarrow> r4_app option \<Rightarrow> gui_timer list option \<Rightarrow> u32 \<Rightarrow> gui_window option \<Rightarrow> (bool \<times> gui_window option, 'w) io" where
  "r4_window_open E A app timers timer_count out =
     (if app = None \<or> out = None \<or> (timer_count \<noteq> 0 \<and> timers = None) \<or> \<not> r4_app_has_group app (g_id (ac_desk A)) \<or> \<not> r4_app_has_group app (g_id (ac_draw A))
      then give (False, out)
      else ask (q_and (sure (app_desk app \<noteq> 0 \<and> table_of (app_draw app) \<noteq> 0)) (window_slots E app)) (\<lambda>ok.
        if \<not> ok then give (False, out)
        else and_then (r4desk_program_window_id E (app_desktop app)) (\<lambda>w.
          if negative w then give (False, out)
          else let win = window_zero app w (case timers of None \<Rightarrow> [] | Some ts \<Rightarrow> take (unat timer_count) ts) in
            ask (desk_field E (app_desktop app) ''clipboard_revision'') (\<lambda>ok.
              if \<not> ok then give (True, Some win)
              else and_then (desk_call E (app_desktop app) ''clipboard_revision'' []) (\<lambda>revision.
                give (True, Some (win\<lparr>gw_events := (gw_events win)\<lparr>el_clipboard := revision\<rparr>\<rparr>)))))))"

definition window_app :: "gui_window option \<Rightarrow> r4_app option" where
  "window_app window = Option.bind window gw_app"

subsection \<open>Pointer capture\<close>

abbreviation pointer_error where "pointer_error E c \<equiv> code E (''R4OS_GUI_POINTER_ERROR_'' @ c)"

definition r4_window_pointer_identity :: "'w platform \<Rightarrow> gui_window option \<Rightarrow> u64 \<Rightarrow> (i32, 'w) io" where
  "r4_window_pointer_identity E window out =
     (if window_app window = None \<or> out = 0 then give (pointer_error E ''INVALID'')
      else let info = p_local E ''info''; T = ''R4GuiPointerCaptureInfo'' in
        and_then (clear_obj E info T) (\<lambda>_.
        and_then (r4desk_gui_pointer_capture_info E (app_desktop (window_app window)) 0 info) (\<lambda>rc.
          if rc \<noteq> 0 then give rc
          else and_then (load_obj E info T) (\<lambda>v.
            let w = obj_part E ''R4GuiPointerCaptureHandle'' ''window'' (obj_part E T ''capture'' v) in
            if obj_word E ''R4GuiPointerWindowIdentity'' ''window_id'' w \<noteq> (case window of None \<Rightarrow> 0 | Some x \<Rightarrow> gw_id x) \<or>
              field E ''R4GuiPointerWindowIdentity'' ''epoch'' w = 0
            then give (pointer_error E ''UNAVAILABLE'')
            else and_then (Platform.store out w) (\<lambda>_. give 0)))))"

definition r4_window_pointer_capture :: "'w platform \<Rightarrow> gui_window option \<Rightarrow> u64 \<Rightarrow> u32 \<Rightarrow> u64 \<Rightarrow> (i32, 'w) io" where
  "r4_window_pointer_capture E window identity mode out =
     (if window_app window = None \<or> identity = 0 \<or> out = 0 then give (pointer_error E ''INVALID'')
      else ask (member_is E identity ''R4GuiPointerWindowIdentity'' ''window_id''
          (\<lambda>x. (ucast x :: i32) \<noteq> (case window of None \<Rightarrow> 0 | Some w \<Rightarrow> gw_id w))) (\<lambda>other.
        if other then give (pointer_error E ''STALE'')
        else r4desk_gui_pointer_capture_acquire E (app_desktop (window_app window)) identity mode out))"

definition r4_window_pointer_status :: "'w platform \<Rightarrow> gui_window option \<Rightarrow> u64 \<Rightarrow> u64 \<Rightarrow> (i32, 'w) io" where
  "r4_window_pointer_status E window capture out =
     (if window_app window = None \<or> capture = 0 \<or> out = 0 then give (pointer_error E ''INVALID'')
      else r4desk_gui_pointer_capture_info E (app_desktop (window_app window)) capture out)"

definition r4_window_pointer_release :: "'w platform \<Rightarrow> gui_window option \<Rightarrow> u64 \<Rightarrow> (i32, 'w) io" where
  "r4_window_pointer_release E window capture =
     (if window_app window = None \<or> capture = 0 then give (pointer_error E ''INVALID'')
      else r4desk_gui_pointer_capture_release E (app_desktop (window_app window)) capture)"

definition r4_window_set_title :: "'w platform \<Rightarrow> gui_window option \<Rightarrow> u64 \<Rightarrow> (i32, 'w) io" where
  "r4_window_set_title E window title =
     (if window_app window \<noteq> None then r4desk_gui_set_title E (app_desktop (window_app window)) title else give (code E ''R4OS_ERR_NO_FN''))"

definition r4_window_set_minimum_size :: "'w platform \<Rightarrow> gui_window option \<Rightarrow> i32 \<Rightarrow> i32 \<Rightarrow> (i32, 'w) io" where
  "r4_window_set_minimum_size E window width height =
     (if window_app window \<noteq> None then r4desk_gui_set_min_size E (app_desktop (window_app window)) width height
      else give (code E ''R4OS_ERR_NO_FN''))"

definition r4_window_wait_message ::
  "start_contract \<Rightarrow> 'w platform \<Rightarrow> time_codes \<Rightarrow> gui_window option \<Rightarrow> r4_timeout \<Rightarrow> (message_next \<times> gui_window option, 'w) io" where
  "r4_window_wait_message S E K window timeout =
     (case window of
        None \<Rightarrow> give (waited NEXT_FAILED (code E ''R4OS_ERR_NO_FN''), None)
      | Some w \<Rightarrow> and_then (r4_event_loop_wait S E K (Some (gw_events w)) timeout) (\<lambda>(r, lp).
          give (r, Some (case lp of None \<Rightarrow> w | Some L \<Rightarrow> w\<lparr>gw_events := L\<rparr>))))"

subsection \<open>Paints\<close>

text \<open>
  The paint's window is only used to reach the application. The view token stays in memory, in the
  paint's own member at \<open>p_local ''paint_action_view''\<close>, because its address is passed on.
\<close>

record paint =
  pc_app :: "r4_app option"
  pc_info :: bytes
  pc_active :: bool
  pc_transactional :: bool
  pc_view_valid :: bool
  pc_revision :: u64

abbreviation info_word :: "'w platform \<Rightarrow> string \<Rightarrow> bytes \<Rightarrow> i32" where "info_word E m v \<equiv> obj_word E ''R4GuiWindowInfo'' m v"

definition info_empty :: "'w platform \<Rightarrow> bytes \<Rightarrow> bool" where
  "info_empty E v \<longleftrightarrow> sint (info_word E ''client_w'' v) \<le> 0 \<or> sint (info_word E ''client_h'' v) \<le> 0"

text \<open>The window as it is now is the one the view shows.\<close>

definition view_matches :: "'w platform \<Rightarrow> bytes \<Rightarrow> bytes \<Rightarrow> bool" where
  "view_matches E current v =
     (\<forall>m \<in> set [''client_x'', ''client_y'', ''client_w'', ''client_h'', ''flags''].
        info_word E m current = info_word E m (obj_part E ''R4DesktopActionState'' ''info'' (obj_part E ''R4DesktopActionReply'' ''current'' v)))"

definition view_revision :: "'w platform \<Rightarrow> bytes \<Rightarrow> u64" where
  "view_revision E v = field E ''R4DesktopActionState'' ''view_revision'' (obj_part E ''R4DesktopActionReply'' ''current'' v)"

text \<open>The window's info read into a cleared object, with the code of the call.\<close>

definition read_info :: "'w platform \<Rightarrow> r4_app option \<Rightarrow> string \<Rightarrow> (i32 \<times> bytes, 'w) io" where
  "read_info E app local =
     and_then (clear_obj E (p_local E local) ''R4GuiWindowInfo'') (\<lambda>_.
     and_then (r4desk_gui_window_info E (app_desktop app) (p_local E local)) (\<lambda>rc.
     and_then (load_obj E (p_local E local) ''R4GuiWindowInfo'') (\<lambda>v. give (rc, v))))"

text \<open>A pending action view is asked for once; the paint takes it over when the window still looks the same.\<close>

definition take_view :: "'w platform \<Rightarrow> time_codes \<Rightarrow> gui_window \<Rightarrow> paint \<Rightarrow> (paint, 'w) io" where
  "take_view E K w p =
     (let view = p_local E ''view''; T = ''R4DesktopActionReply'' in
      and_then (clear_obj E view T) (\<lambda>_.
      and_then (r4_desktop_action_app_view E K (gw_app w) (gw_id w) view) (\<lambda>rc.
        if rc \<noteq> 0 then give p
        else and_then (load_obj E view T) (\<lambda>v.
          if reply_result E v \<noteq> 0 \<or> view_revision E v = 0 then give p
          else and_then (read_info E (gw_app w) ''current'') (\<lambda>(rc, current).
            if negative rc then give p
            else if \<not> view_matches E current v then give (p\<lparr>pc_info := current\<rparr>)
            else and_then (Platform.store (p_local E ''paint_action_view'') (reply_token E v)) (\<lambda>_.
              give (p\<lparr>pc_info := current, pc_revision := view_revision E v, pc_view_valid := True\<rparr>)))))))"

definition paint_zero :: "'w platform \<Rightarrow> r4_app option \<Rightarrow> paint" where
  "paint_zero E app = \<lparr>pc_app = app, pc_info = zero_obj E ''R4GuiWindowInfo'', pc_active = False, pc_transactional = False,
     pc_view_valid = False, pc_revision = 0\<rparr>"

definition begin_frame :: "'w platform \<Rightarrow> paint \<Rightarrow> (bool \<times> paint, 'w) io" where
  "begin_frame E p =
     (if info_empty E (pc_info p) then give (False, p)
      else and_then (r4draw_gui_frame_begin E (app_draw (pc_app p))) (\<lambda>rc.
        if negative rc then give (False, p) else give (True, p\<lparr>pc_transactional := True, pc_active := True\<rparr>)))"

definition r4_window_begin_paint ::
  "'w platform \<Rightarrow> time_codes \<Rightarrow> gui_window option \<Rightarrow> paint option \<Rightarrow> (bool \<times> gui_window option \<times> paint option, 'w) io" where
  "r4_window_begin_paint E K window out =
     (case window of
        None \<Rightarrow> give (False, window, out)
      | Some w \<Rightarrow>
          ask (q_and (sure (out \<noteq> None \<and> gw_app w \<noteq> None)) (r4draw_supports_gui_frame_contract E (app_draw (gw_app w)))) (\<lambda>ok.
            if \<not> ok then give (False, window, out)
            else and_then (read_info E (gw_app w) ''paint_info'') (\<lambda>(rc, v).
                  let p = (paint_zero E (gw_app w))\<lparr>pc_info := v\<rparr> in
                  if negative rc \<or> info_empty E v then give (False, window, Some p)
                  else if el_view_pending (gw_events w)
                  then let w = w\<lparr>gw_events := (gw_events w)\<lparr>el_view_pending := False\<rparr>\<rparr> in
                    and_then (take_view E K w p) (\<lambda>p.
                    and_then (begin_frame E p) (\<lambda>(ok, p). give (ok, Some w, Some p)))
                  else and_then (begin_frame E p) (\<lambda>(ok, p). give (ok, window, Some p)))))"

subsection \<open>Drawing\<close>

text \<open>A canvas is a pointer to its paint: the operations take the paint as it is when they are called.\<close>

type_synonym canvas = "paint option"

definition r4_paint_canvas :: "paint option \<Rightarrow> canvas" where
  "r4_paint_canvas p = p"

definition canvas_live :: "canvas \<Rightarrow> bool" where
  "canvas_live cv = (case cv of None \<Rightarrow> False | Some p \<Rightarrow> pc_active p)"

definition canvas_draw :: "canvas \<Rightarrow> handle option" where
  "canvas_draw cv = app_draw (Option.bind cv pc_app)"

definition r4_canvas_clear :: "'w platform \<Rightarrow> canvas \<Rightarrow> u32 \<Rightarrow> (i32, 'w) io" where
  "r4_canvas_clear E cv rgb = (if canvas_live cv then r4draw_gui_clear E (canvas_draw cv) rgb else give (code E ''R4OS_ERR_NO_FN''))"

definition r4_canvas_rect :: "'w platform \<Rightarrow> canvas \<Rightarrow> i32 \<Rightarrow> i32 \<Rightarrow> u32 \<Rightarrow> u32 \<Rightarrow> u32 \<Rightarrow> (i32, 'w) io" where
  "r4_canvas_rect E cv x y width height rgb =
     (if canvas_live cv then r4draw_gui_rect E (canvas_draw cv) x y width height rgb else give (code E ''R4OS_ERR_NO_FN''))"

definition r4_canvas_text :: "'w platform \<Rightarrow> canvas \<Rightarrow> i32 \<Rightarrow> i32 \<Rightarrow> u64 \<Rightarrow> u32 \<Rightarrow> u32 \<Rightarrow> (i32, 'w) io" where
  "r4_canvas_text E cv x y str fg bg =
     (if canvas_live cv then r4draw_gui_draw_text E (canvas_draw cv) x y str fg bg else give (code E ''R4OS_ERR_NO_FN''))"

definition r4_canvas_blend_alpha8 ::
  "'w platform \<Rightarrow> canvas \<Rightarrow> i32 \<Rightarrow> i32 \<Rightarrow> u32 \<Rightarrow> u32 \<Rightarrow> u32 \<Rightarrow> u32 \<Rightarrow> u64 \<Rightarrow> u64 \<Rightarrow> (i32, 'w) io" where
  "r4_canvas_blend_alpha8 E cv x y width height stride rgb alpha alpha_len =
     (if \<not> canvas_live cv \<or> alpha = 0 then give (code E ''R4OS_ERR_NO_FN'')
      else let info = (case cv of None \<Rightarrow> [] | Some p \<Rightarrow> pc_info p) in
        case blend_clip (p_code E ''R4OS_GUI_ALPHA8_MAX_WIDTH'') (p_code E ''R4OS_GUI_ALPHA8_MAX_HEIGHT'')
            (info_word E ''client_w'' info) (info_word E ''client_h'' info)
            \<lparr>ai_x = x, ai_y = y, ai_width = width, ai_height = height, ai_stride = stride, ai_length = alpha_len\<rparr> of
          BLEND_NOTHING \<Rightarrow> give 0
        | BLEND_INVALID \<Rightarrow> give (code E ''R4OS_ERROR_INVALID'')
        | BLEND c \<Rightarrow> r4draw_gui_blend_alpha8 E (canvas_draw cv) (word_of_int (cl_left c)) (word_of_int (cl_top c)) (cl_width c) (cl_height c)
            stride rgb (alpha + word_of_nat (cl_offset c)) (word_of_nat (cl_bytes c)))"

subsection \<open>Presenting\<close>

text \<open>After a committed frame the desktop is told which frame shows the action view; its answer is dropped.\<close>

definition report_view :: "'w platform \<Rightarrow> time_codes \<Rightarrow> paint \<Rightarrow> (unit, 'w) io" where
  "report_view E K p =
     (let frame = p_local E ''frame''; reply = p_local E ''reply''; view = p_local E ''paint_action_view'';
          owner = member_at E (member_at E view ''R4DesktopActionToken'' ''window'') ''R4WindowModeIdentity'' ''owner'' in
      and_then (clear_obj E frame ''R4GuiFrameInfo'') (\<lambda>_.
      and_then (clear_obj E reply ''R4DesktopActionReply'') (\<lambda>_.
      and_then (r4draw_gui_frame_info E (app_draw (pc_app p)) owner frame) (\<lambda>rc.
        if rc \<noteq> 0 then give ()
        else and_then (load_obj E frame ''R4GuiFrameInfo'') (\<lambda>v.
          and_then (r4_desktop_action_app_frame E K (pc_app p) view (pc_revision p) (field E ''R4GuiFrameInfo'' ''committed_generation'' v)
              (info_word E ''client_w'' (pc_info p)) (info_word E ''client_h'' (pc_info p)) reply) (\<lambda>_. give ()))))))"

definition r4_paint_present :: "'w platform \<Rightarrow> time_codes \<Rightarrow> paint option \<Rightarrow> (i32 \<times> paint option, 'w) io" where
  "r4_paint_present E K pt =
     (case pt of
        None \<Rightarrow> give (code E ''R4OS_ERR_NO_FN'', None)
      | Some p \<Rightarrow>
          if \<not> pc_active p then give (code E ''R4OS_ERR_NO_FN'', pt)
          else and_then (if pc_transactional p then r4draw_gui_frame_commit E (app_draw (pc_app p))
              else r4draw_gui_present E (app_draw (pc_app p))) (\<lambda>raw.
            if negative raw then give (raw, pt)
            else let p = p\<lparr>pc_active := False\<rparr> in
              and_then (if pc_transactional p \<and> pc_view_valid p then report_view E K p else give ()) (\<lambda>_. give (raw, Some p))))"

definition r4_paint_discard :: "'w platform \<Rightarrow> paint option \<Rightarrow> (paint option, 'w) io" where
  "r4_paint_discard E pt =
     (case pt of
        None \<Rightarrow> give None
      | Some p \<Rightarrow>
          and_then (if pc_active p \<and> pc_transactional p then and_then (r4draw_gui_frame_cancel E (app_draw (pc_app p))) (\<lambda>_. give ())
              else give ()) (\<lambda>_. give (Some (p\<lparr>pc_active := False\<rparr>))))"

subsection \<open>Runs of a paint\<close>

inductive paint_step :: "'w platform \<Rightarrow> time_codes \<Rightarrow> paint \<times> 'w machine \<Rightarrow> paint \<times> 'w machine \<Rightarrow> bool" for E K where
  clear: "r4_canvas_clear E (Some p) rgb s = Some (rc, s') \<Longrightarrow> paint_step E K (p, s) (p, s')"
| rect: "r4_canvas_rect E (Some p) x y width height rgb s = Some (rc, s') \<Longrightarrow> paint_step E K (p, s) (p, s')"
| draw_text: "r4_canvas_text E (Some p) x y str fg bg s = Some (rc, s') \<Longrightarrow> paint_step E K (p, s) (p, s')"
| blend: "r4_canvas_blend_alpha8 E (Some p) x y width height stride rgb alpha alpha_len s = Some (rc, s') \<Longrightarrow> paint_step E K (p, s) (p, s')"
| present: "r4_paint_present E K (Some p) s = Some ((rc, Some p'), s') \<Longrightarrow> paint_step E K (p, s) (p', s')"
| discard: "r4_paint_discard E (Some p) s = Some (Some p', s') \<Longrightarrow> paint_step E K (p, s) (p', s')"

inductive_cases paint_stepE: "paint_step E K (p, s) (p', s')"

definition paint_kept :: "paint \<Rightarrow> 'w machine \<Rightarrow> paint \<Rightarrow> 'w machine \<Rightarrow> bool" where
  "paint_kept p s p' s' \<longleftrightarrow> (p' = p \<or> p' = p\<lparr>pc_active := False\<rparr>) \<and> (\<not> pc_active p \<longrightarrow> p' = p \<and> s' = s)"

lemma canvas_kept:
  "r4_canvas_clear E (Some p) rgb s = Some (rc, s') \<Longrightarrow> paint_kept p s p s'"
  "r4_canvas_rect E (Some p) x y width height rgb s = Some (rc, s') \<Longrightarrow> paint_kept p s p s'"
  "r4_canvas_text E (Some p) x y str fg bg s = Some (rc, s') \<Longrightarrow> paint_kept p s p s'"
  "r4_canvas_blend_alpha8 E (Some p) x y width height stride rgb alpha alpha_len s = Some (rc, s') \<Longrightarrow> paint_kept p s p s'"
  by (auto simp: paint_kept_def r4_canvas_clear_def r4_canvas_rect_def r4_canvas_text_def r4_canvas_blend_alpha8_def canvas_live_def give_def)

lemma present_kept: "r4_paint_present E K (Some p) s = Some ((rc, Some p'), s') \<Longrightarrow> paint_kept p s p' s'"
  by (auto simp: r4_paint_present_def paint_kept_def and_then_Some_iff give_def Let_def split: if_split_asm)

lemma discard_kept: "r4_paint_discard E (Some p) s = Some (Some p', s') \<Longrightarrow> paint_kept p s p' s'"
  by (auto simp: r4_paint_discard_def paint_kept_def and_then_Some_iff give_def split: if_split_asm)

lemma paint_step_kept: "paint_step E K (p, s) (p', s') \<Longrightarrow> paint_kept p s p' s'"
  by (erule paint_stepE) (auto dest: canvas_kept present_kept discard_kept)

interpretation painting: handle_protocol pc_active "\<lambda>p. p" "paint_step E K" for E K
  by unfold_locales (auto dest!: paint_step_kept simp: paint_kept_def)

lemma present_ends:
  "r4_paint_present E K (Some p) s = Some ((raw, Some q), t) \<Longrightarrow> pc_active p \<Longrightarrow> if negative raw then q = p else q = p\<lparr>pc_active := False\<rparr>"
  by (auto simp: r4_paint_present_def and_then_Some_iff give_def Let_def split: if_split_asm)

lemma present_commits:
  "r4_paint_present E K (Some p) s = Some ((raw, Some q), t) \<Longrightarrow> pc_active p \<Longrightarrow>
    \<exists>t0. (if pc_transactional p then r4draw_gui_frame_commit E (app_draw (pc_app p)) else r4draw_gui_present E (app_draw (pc_app p))) s = Some (raw, t0) \<and>
      (negative raw \<or> \<not> (pc_transactional p \<and> pc_view_valid p) \<longrightarrow> t = t0)"
  by (cases "pc_transactional p"; cases "pc_view_valid p")
    (auto simp: r4_paint_present_def and_then_Some_iff give_def Let_def split: if_split_asm)

lemma discard_ends:
  "r4_paint_discard E (Some p) s = Some (Some q, t) \<Longrightarrow> pc_active p \<Longrightarrow> q = p\<lparr>pc_active := False\<rparr> \<and>
    (if pc_transactional p then \<exists>rc. r4draw_gui_frame_cancel E (app_draw (pc_app p)) s = Some (rc, t) else t = s)"
  by (auto simp: r4_paint_discard_def and_then_Some_iff give_def split: if_split_asm)

text \<open>
  C38: A paint ends once. Along every run of drawing, presenting and discarding, a paint that is still
  active is the one that was begun. Presenting it then commits its frame (or presents, without one): a
  failure changes nothing else and leaves it as it is, to be tried again, a success ends it. Discarding it
  cancels its frame, if it has one, calls nothing else and always ends it. From the end on no operation of
  any later run calls the platform or changes memory, so nothing is drawn into, committed or cancelled for
  a frame that is over.\<close>

theorem paint_ends_once:
  assumes "(paint_step E K)\<^sup>*\<^sup>* (p, s) (p1, s1)" and "pc_active p1"
  shows "p1 = p \<and>
    (\<forall>raw q t. r4_paint_present E K (Some p1) s1 = Some ((raw, Some q), t) \<longrightarrow>
      (\<exists>t0. (if pc_transactional p then r4draw_gui_frame_commit E (app_draw (pc_app p)) else r4draw_gui_present E (app_draw (pc_app p))) s1 = Some (raw, t0) \<and>
        (negative raw \<or> \<not> (pc_transactional p \<and> pc_view_valid p) \<longrightarrow> t = t0)) \<and>
      (if negative raw then q = p
       else q = p\<lparr>pc_active := False\<rparr> \<and> (\<forall>q' t'. (paint_step E K)\<^sup>*\<^sup>* (q, t) (q', t') \<longrightarrow> q' = q \<and> t' = t))) \<and>
    (\<forall>q t. r4_paint_discard E (Some p1) s1 = Some (Some q, t) \<longrightarrow>
      (if pc_transactional p then \<exists>rc. r4draw_gui_frame_cancel E (app_draw (pc_app p)) s1 = Some (rc, t) else t = s1) \<and>
      q = p\<lparr>pc_active := False\<rparr> \<and> (\<forall>q' t'. (paint_step E K)\<^sup>*\<^sup>* (q, t) (q', t') \<longrightarrow> q' = q \<and> t' = t))"
proof -
  have p: "p1 = p" using painting.run_safe [OF assms(1)] assms(2) by blast
  have over: "q' = q \<and> t' = t" if "\<not> pc_active q" "(paint_step E K)\<^sup>*\<^sup>* (q, t) (q', t')" for q t q' t'
    using painting.run_safe [OF that(2)] that(1) by blast
  have active: "pc_active p" using p assms(2) by simp
  note present = present_ends [OF _ active] present_commits [OF _ active] and discard = discard_ends [OF _ active]
  show ?thesis unfolding p
  proof (intro conjI allI impI)
    fix raw q t assume "r4_paint_present E K (Some p) s1 = Some ((raw, Some q), t)"
    from present(1) [OF this] show "if negative raw then q = p
       else q = p\<lparr>pc_active := False\<rparr> \<and> (\<forall>q' t'. (paint_step E K)\<^sup>*\<^sup>* (q, t) (q', t') \<longrightarrow> q' = q \<and> t' = t)"
      using over [of q t] by (auto split: if_split_asm)
  next
    fix q t q' t' assume "r4_paint_discard E (Some p) s1 = Some (Some q, t)" and run: "(paint_step E K)\<^sup>*\<^sup>* (q, t) (q', t')"
    from discard [OF this(1)] have "\<not> pc_active q" by simp
    from over [OF this run] show "q' = q" "t' = t" by simp_all
  qed (use present(2) discard in blast)+
qed

text \<open>A frame of the sample platform, cleared and committed.\<close>

definition sample_paint :: paint where
  "sample_paint = \<lparr>pc_app = Some (sample_app\<lparr>a_drawing := 0x1000\<rparr>), pc_info = [], pc_active = True, pc_transactional = True,
     pc_view_valid = False, pc_revision = 0\<rparr>"

lemmas paint_eval = sample_paint_def app_draw_def canvas_live_def canvas_draw_def r4draw_gui_clear_def r4draw_supports_gui_frame_contract_def
  r4draw_gui_frame_commit_def has_slots_def gui_eval flat_simps run_steps run_stores run_tests run_objects

lemma sample_clear: "\<exists>cs. r4_canvas_clear gui_platform (Some sample_paint) 0 gui_state = Some (0, gui_state\<lparr>m_calls := cs\<rparr>)"
  by (simp add: r4_canvas_clear_def paint_eval cong: run_congs del: load_bytes.simps store_bytes.simps)

lemma sample_present:
  "\<exists>t. r4_paint_present gui_platform K (Some sample_paint) (gui_state\<lparr>m_calls := cs\<rparr>) = Some ((0, Some (sample_paint\<lparr>pc_active := False\<rparr>)), t)"
  by (simp add: r4_paint_present_def paint_eval tail_slots_def cong: run_congs del: load_bytes.simps store_bytes.simps)

lemma sample_discard:
  "\<exists>t. r4_paint_discard gui_platform (Some sample_paint) (gui_state\<lparr>m_calls := cs\<rparr>) = Some (Some (sample_paint\<lparr>pc_active := False\<rparr>), t)"
  by (simp add: r4_paint_discard_def r4draw_gui_frame_cancel_def paint_eval tail_slots_def cong: run_congs del: load_bytes.simps store_bytes.simps)

theorem paint_ends_once_witness:
  "\<forall>K. \<exists>s1 t u. (paint_step gui_platform K)\<^sup>*\<^sup>* (sample_paint, gui_state) (sample_paint, s1) \<and>
    r4_paint_present gui_platform K (Some sample_paint) s1 = Some ((0, Some (sample_paint\<lparr>pc_active := False\<rparr>)), t) \<and>
    (\<forall>q' t'. (paint_step gui_platform K)\<^sup>*\<^sup>* (sample_paint\<lparr>pc_active := False\<rparr>, t) (q', t') \<longrightarrow> t' = t) \<and>
    r4_paint_discard gui_platform (Some sample_paint) s1 = Some (Some (sample_paint\<lparr>pc_active := False\<rparr>), u) \<and>
    (\<exists>rc. r4draw_gui_frame_cancel gui_platform (app_draw (pc_app sample_paint)) s1 = Some (rc, u)) \<and>
    (\<forall>q' t'. (paint_step gui_platform K)\<^sup>*\<^sup>* (sample_paint\<lparr>pc_active := False\<rparr>, u) (q', t') \<longrightarrow> t' = u)"
proof
  fix K
  obtain cs where "r4_canvas_clear gui_platform (Some sample_paint) 0 gui_state = Some (0, gui_state\<lparr>m_calls := cs\<rparr>)" using sample_clear by blast
  then have run: "(paint_step gui_platform K)\<^sup>*\<^sup>* (sample_paint, gui_state) (sample_paint, gui_state\<lparr>m_calls := cs\<rparr>)"
    by (intro r_into_rtranclp paint_step.clear)
  let ?s = "gui_state\<lparr>m_calls := cs\<rparr>" and ?q = "sample_paint\<lparr>pc_active := False\<rparr>"
  obtain t where present: "r4_paint_present gui_platform K (Some sample_paint) ?s = Some ((0, Some ?q), t)" using sample_present by blast
  obtain u where discard: "r4_paint_discard gui_platform (Some sample_paint) ?s = Some (Some ?q, u)" using sample_discard by blast
  have "pc_active sample_paint" "pc_transactional sample_paint" by (simp_all add: sample_paint_def)
  note ends = paint_ends_once [OF run this(1), THEN conjunct2]
  have "\<forall>q' t'. (paint_step gui_platform K)\<^sup>*\<^sup>* (?q, t) (q', t') \<longrightarrow> t' = t" using ends present by fastforce
  moreover have "(\<exists>rc. r4draw_gui_frame_cancel gui_platform (app_draw (pc_app sample_paint)) ?s = Some (rc, u)) \<and>
      (\<forall>q' t'. (paint_step gui_platform K)\<^sup>*\<^sup>* (?q, u) (q', t') \<longrightarrow> t' = u)"
    using ends [THEN conjunct2, rule_format, OF discard] \<open>pc_transactional sample_paint\<close> by simp
  ultimately show "\<exists>s1 t u. (paint_step gui_platform K)\<^sup>*\<^sup>* (sample_paint, gui_state) (sample_paint, s1) \<and>
    r4_paint_present gui_platform K (Some sample_paint) s1 = Some ((0, Some (sample_paint\<lparr>pc_active := False\<rparr>)), t) \<and>
    (\<forall>q' t'. (paint_step gui_platform K)\<^sup>*\<^sup>* (sample_paint\<lparr>pc_active := False\<rparr>, t) (q', t') \<longrightarrow> t' = t) \<and>
    r4_paint_discard gui_platform (Some sample_paint) s1 = Some (Some (sample_paint\<lparr>pc_active := False\<rparr>), u) \<and>
    (\<exists>rc. r4draw_gui_frame_cancel gui_platform (app_draw (pc_app sample_paint)) s1 = Some (rc, u)) \<and>
    (\<forall>q' t'. (paint_step gui_platform K)\<^sup>*\<^sup>* (sample_paint\<lparr>pc_active := False\<rparr>, u) (q', t') \<longrightarrow> t' = u)"
    using run present discard by blast
qed

end
