(* ===== verification/Storage.thy ===== *)
theory Storage
  imports ServiceClient
begin

text \<open>
  \<open>Shared/C/include/r4os/storage.h\<close>: the inventory of disks, partitions and volumes, claims on a target, raw
  transfers in whole sectors, mounting, and uses that keep a path's storage in place.
\<close>

subsection \<open>The table\<close>

record r4_storage =
  st_system :: "r4_sys option"

definition storage_table :: "r4_storage option \<Rightarrow> u64" where
  "storage_table s = table_of (Option.bind s st_system)"

abbreviation storage_code where "storage_code E c \<equiv> code E (''R4OS_STORAGE_'' @ c)"

text \<open>\<open>R4_STORAGE_HAS\<close> and \<open>R4_STORAGE_CALL\<close>.\<close>

definition storage_has :: "'w platform \<Rightarrow> r4_storage option \<Rightarrow> string \<Rightarrow> query" where
  "storage_has E s slot = has_slot E ''R4Sys'' (storage_table s) slot"

definition storage_call :: "'w platform \<Rightarrow> r4_storage option \<Rightarrow> string \<Rightarrow> u64 list \<Rightarrow> (i32, 'w) io" where
  "storage_call E s slot args =
     ask (storage_has E s slot) (\<lambda>ok.
       if ok then call_slot E ''R4Sys'' (storage_table s) slot args else give (storage_code E ''ERROR_UNSUPPORTED''))"

abbreviation storage_invalid :: "'w platform \<Rightarrow> (i32, 'w) io" where
  "storage_invalid E \<equiv> give (storage_code E ''ERROR_INVALID'')"

definition r4_storage_available :: "'w platform \<Rightarrow> r4_storage option \<Rightarrow> query" where
  "r4_storage_available E s =
     q_and (storage_has E s ''storage_inventory'') (q_and (storage_has E s ''storage_claim_begin'')
       (q_and (storage_has E s ''storage_use_begin'') (storage_has E s ''storage_use_end'')))"

subsection \<open>Inventory\<close>

text \<open>\<open>T value = {0}; value.version = 1; value.size = sizeof(value); *out = value\<close>\<close>

definition versioned :: "'w platform \<Rightarrow> u64 \<Rightarrow> string \<Rightarrow> (unit, 'w) io" where
  "versioned E out T = and_then (clear_obj E out T) (\<lambda>_. put_header E out T 1 (sizeof E T))"

definition r4_storage_inventory :: "'w platform \<Rightarrow> r4_storage option \<Rightarrow> u64 \<Rightarrow> (i32, 'w) io" where
  "r4_storage_inventory E s out =
     (if out = 0 then storage_invalid E
      else and_then (versioned E out ''R4StorageInventory'') (\<lambda>_. storage_call E s ''storage_inventory'' [out]))"

definition r4_storage_device :: "'w platform \<Rightarrow> r4_storage option \<Rightarrow> u64 \<Rightarrow> u32 \<Rightarrow> u64 \<Rightarrow> (i32, 'w) io" where
  "r4_storage_device E s generation slot out =
     (if out = 0 then storage_invalid E
      else and_then (versioned E out ''R4StorageDeviceInfo'') (\<lambda>_. storage_call E s ''storage_device'' [generation, ucast slot, out]))"

definition r4_storage_partition :: "'w platform \<Rightarrow> r4_storage option \<Rightarrow> u64 \<Rightarrow> u64 \<Rightarrow> u32 \<Rightarrow> u64 \<Rightarrow> (i32, 'w) io" where
  "r4_storage_partition E s generation device slot out =
     (if out = 0 then storage_invalid E
      else and_then (versioned E out ''R4StoragePartitionInfo'') (\<lambda>_.
        storage_call E s ''storage_partition'' [generation, device, ucast slot, out]))"

definition r4_storage_volume :: "'w platform \<Rightarrow> r4_storage option \<Rightarrow> u64 \<Rightarrow> u32 \<Rightarrow> u64 \<Rightarrow> (i32, 'w) io" where
  "r4_storage_volume E s generation slot out =
     (if out = 0 then storage_invalid E
      else and_then (versioned E out ''R4StorageVolumeInfo'') (\<lambda>_. storage_call E s ''storage_volume'' [generation, ucast slot, out]))"

text \<open>The target is returned by value: it is built in a local object and read back.\<close>

definition r4_storage_whole_device :: "'w platform \<Rightarrow> u64 \<Rightarrow> (bytes, 'w) io" where
  "r4_storage_whole_device E disk =
     (let target = p_local E ''target''; T = ''R4StorageTarget''; D = ''R4StorageDeviceInfo'' in
      and_then (versioned E target T) (\<lambda>_.
      and_then (if disk = 0 then give ()
        else and_then (load_obj E disk D) (\<lambda>d.
          and_then (Platform.store (member_at E target T ''device'') (obj_part E D ''reference'' d)) (\<lambda>_.
          each (\<lambda>(m, v). put_member E target T m v)
            [(''layout_generation'', field E D ''layout_generation'' d), (''sector_count'', field E D ''sector_count'' d),
             (''kind'', ucast (p_code E ''R4OS_STORAGE_TARGET_DEVICE''))]))) (\<lambda>_.
        load_obj E target T)))"

subsection \<open>Claims\<close>

definition r4_storage_claim_begin :: "'w platform \<Rightarrow> r4_storage option \<Rightarrow> u64 \<Rightarrow> u64 \<Rightarrow> (i32, 'w) io" where
  "r4_storage_claim_begin E s target claim =
     (if target = 0 \<or> claim = 0 then storage_invalid E
      else and_then (Platform.store claim (le_bytes 8 (0 :: u64))) (\<lambda>_. storage_call E s ''storage_claim_begin'' [target, claim]))"

text \<open>The codes after which the claim no longer exists.\<close>

definition claim_over :: "'w platform \<Rightarrow> i32 \<Rightarrow> bool" where
  "claim_over E result \<longleftrightarrow> result = storage_code E ''RESULT_OK'' \<or> result = storage_code E ''ERROR_IO'' \<or> result = storage_code E ''ERROR_REMOUNT''"

text \<open>\<open>if (over) *handle = 0\<close>\<close>

definition drop_handle :: "bool \<Rightarrow> u64 \<Rightarrow> (unit, 'w) io" where
  "drop_handle over handle = (if over then Platform.store handle (le_bytes 8 (0 :: u64)) else give ())"

definition r4_storage_claim_end :: "'w platform \<Rightarrow> r4_storage option \<Rightarrow> u64 \<Rightarrow> bool \<Rightarrow> (i32, 'w) io" where
  "r4_storage_claim_end E s claim keep_unmounted =
     (if claim = 0 then storage_invalid E
      else and_then (load_range claim 8) (\<lambda>held.
        and_then (storage_call E s ''storage_claim_end''
            [le_word held, ucast (if keep_unmounted then storage_code E ''CLAIM_END_KEEP_UNMOUNTED'' else 0)]) (\<lambda>result.
        and_then (drop_handle (claim_over E result) claim) (\<lambda>_. give result))))"

subsection \<open>Raw transfers\<close>

definition transfer_bad :: "'w platform \<Rightarrow> u64 \<Rightarrow> u64 \<Rightarrow> u32 \<Rightarrow> bool" where
  "transfer_bad E buffer owner bytes \<longleftrightarrow> buffer = 0 \<or> owner = 0 \<or> bytes = 0 \<or> bytes mod 512 \<noteq> 0 \<or> bytes div 512 > storage_code E ''RAW_MAX_SECTORS''"

text \<open>The three transfers differ in the slot; \<open>owner\<close> is the target's address or the claim.\<close>

definition raw_transfer :: "'w platform \<Rightarrow> r4_storage option \<Rightarrow> string \<Rightarrow> u64 \<Rightarrow> u64 \<Rightarrow> u64 \<Rightarrow> u32 \<Rightarrow> (i32, 'w) io" where
  "raw_transfer E s slot owner lba buffer bytes =
     (if transfer_bad E buffer owner bytes then storage_invalid E
      else storage_call E s slot [owner, lba, ucast (bytes div 512), buffer, ucast bytes])"

definition r4_storage_read :: "'w platform \<Rightarrow> r4_storage option \<Rightarrow> u64 \<Rightarrow> u64 \<Rightarrow> u64 \<Rightarrow> u32 \<Rightarrow> (i32, 'w) io" where
  "r4_storage_read E s target lba buffer bytes = raw_transfer E s ''storage_read'' target lba buffer bytes"

definition r4_storage_claim_read :: "'w platform \<Rightarrow> r4_storage option \<Rightarrow> u64 \<Rightarrow> u64 \<Rightarrow> u64 \<Rightarrow> u32 \<Rightarrow> (i32, 'w) io" where
  "r4_storage_claim_read E s claim lba buffer bytes = raw_transfer E s ''storage_claim_read'' claim lba buffer bytes"

definition r4_storage_claim_write :: "'w platform \<Rightarrow> r4_storage option \<Rightarrow> u64 \<Rightarrow> u64 \<Rightarrow> u64 \<Rightarrow> u32 \<Rightarrow> (i32, 'w) io" where
  "r4_storage_claim_write E s claim lba buffer bytes = raw_transfer E s ''storage_claim_write'' claim lba buffer bytes"

definition r4_storage_claim_flush :: "'w platform \<Rightarrow> r4_storage option \<Rightarrow> u64 \<Rightarrow> (i32, 'w) io" where
  "r4_storage_claim_flush E s claim = storage_call E s ''storage_claim_flush'' [claim]"

subsection \<open>Mounting and uses\<close>

definition r4_storage_rescan :: "'w platform \<Rightarrow> r4_storage option \<Rightarrow> u64 \<Rightarrow> (i32, 'w) io" where
  "r4_storage_rescan E s device = (if device = 0 then storage_invalid E else storage_call E s ''storage_rescan'' [device])"

definition r4_storage_mount :: "'w platform \<Rightarrow> r4_storage option \<Rightarrow> u64 \<Rightarrow> u8 \<Rightarrow> u64 \<Rightarrow> (i32, 'w) io" where
  "r4_storage_mount E s target letter out =
     (if target = 0 \<or> out = 0 then storage_invalid E
      else and_then (clear_obj E out ''R4StorageVolumeRef'') (\<lambda>_. storage_call E s ''storage_mount'' [target, ucast letter, out]))"

definition r4_storage_unmount :: "'w platform \<Rightarrow> r4_storage option \<Rightarrow> u64 \<Rightarrow> (i32, 'w) io" where
  "r4_storage_unmount E s volume = (if volume = 0 then storage_invalid E else storage_call E s ''storage_unmount'' [volume])"

definition r4_storage_use_begin :: "'w platform \<Rightarrow> r4_storage option \<Rightarrow> u64 \<Rightarrow> u64 \<Rightarrow> (i32, 'w) io" where
  "r4_storage_use_begin E s path use_at =
     (if path = 0 \<or> use_at = 0 then storage_invalid E
      else and_then (Platform.store use_at (le_bytes 8 (0 :: u64))) (\<lambda>_. storage_call E s ''storage_use_begin'' [path, use_at]))"

definition r4_storage_use_end :: "'w platform \<Rightarrow> r4_storage option \<Rightarrow> u64 \<Rightarrow> (i32, 'w) io" where
  "r4_storage_use_end E s use_at =
     (if use_at = 0 then storage_invalid E
      else and_then (load_range use_at 8) (\<lambda>held.
        if le_word held = (0 :: u64) then give (storage_code E ''RESULT_OK'')
        else and_then (storage_call E s ''storage_use_end'' [le_word held]) (\<lambda>result.
          and_then (drop_handle (result = storage_code E ''RESULT_OK'') use_at) (\<lambda>_. give result))))"

text \<open>A system without uses and claims needs none: the handle is cleared and the call succeeds.\<close>

definition r4_storage_transfer_use_begin :: "'w platform \<Rightarrow> r4_storage option \<Rightarrow> u64 \<Rightarrow> u64 \<Rightarrow> (i32, 'w) io" where
  "r4_storage_transfer_use_begin E s path use_at =
     (if path = 0 \<or> use_at = 0 then storage_invalid E
      else ask (q_and (q_not (storage_has E s ''storage_use_begin'')) (q_not (storage_has E s ''storage_claim_begin''))) (\<lambda>none.
        if none then and_then (Platform.store use_at (le_bytes 8 (0 :: u64))) (\<lambda>_. give (storage_code E ''RESULT_OK''))
        else r4_storage_use_begin E s path use_at))"

subsection \<open>Calls that reach the platform\<close>

text \<open>Whatever is asked for, the platform is called at most once, through the named slot.\<close>

definition called_once :: "u64 list \<Rightarrow> 'w machine \<Rightarrow> 'w machine \<Rightarrow> bool" where
  "called_once args s s' \<longleftrightarrow> s' = s \<or> (\<exists>f. m_calls s' = m_calls s @ [(f, args)])"

lemma storage_call_once: "storage_call E s slot args st = Some (rc, st') \<Longrightarrow> called_once args st st'"
  by (auto simp: storage_call_def called_once_def ask_Some_iff call_slot_def and_then_Some_iff give_def call_fn_def
      split: if_split_asm option.split_asm prod.split_asm)

lemma whole_sectors:
  fixes n :: u32
  assumes "n \<noteq> 0" and "n mod 512 = 0"
  shows "unat (ucast (n div 512) :: u64) = unat n div 512" and "unat n div 512 * 512 = unat n" and "0 < unat n div 512"
proof -
  have "unat (n mod 512) = 0" using assms(2) by (simp only: unsigned_0)
  then have m: "unat n mod 512 = 0" by (simp only: unat_mod) simp
  then show whole: "unat n div 512 * 512 = unat n" by (simp add: mult_div_mod_eq [symmetric] dvd_imp_mod_0 mod_0_imp_dvd)
  have "0 < unat n" using assms(1) by (simp add: unat_gt_0)
  with whole show "0 < unat n div 512" by (metis mult_0 neq0_conv)
  have "unat n div 512 < 2 ^ 64" using unsigned_less [of n, where ?'a = nat] by (simp add: div_less_iff_less_mult)
  then show "unat (ucast (n div 512) :: u64) = unat n div 512" by (simp add: unsigned_ucast_eq unat_div take_bit_nat_eq_self)
qed

lemma transfer_sectors:
  assumes "raw_transfer E s slot owner lba buffer bytes st = Some (rc, st')"
  shows "st' = st \<or> owner \<noteq> 0 \<and> buffer \<noteq> 0 \<and> (\<exists>f n. m_calls st' = m_calls st @ [(f, [owner, lba, n, buffer, ucast bytes])] \<and>
    unat n * 512 = unat bytes \<and> 0 < unat n \<and> unat n \<le> unat (storage_code E ''RAW_MAX_SECTORS''))"
proof (cases "transfer_bad E buffer owner bytes")
  case True
  then show ?thesis using assms by (simp add: raw_transfer_def give_def)
next
  case False
  then have b: "bytes \<noteq> 0" "bytes mod 512 = 0" "bytes div 512 \<le> storage_code E ''RAW_MAX_SECTORS''" "owner \<noteq> 0" "buffer \<noteq> 0"
    by (auto simp: transfer_bad_def not_less)
  note w = whole_sectors [OF b(1,2)]
  have "unat bytes div 512 \<le> unat (storage_code E ''RAW_MAX_SECTORS'')" using b(3) by (simp add: word_le_nat_alt unat_div)
  moreover have "called_once [owner, lba, ucast (bytes div 512), buffer, ucast bytes] st st'"
    using assms False storage_call_once by (simp add: raw_transfer_def)
  ultimately show ?thesis using w b(4,5) unfolding called_once_def by metis
qed

text \<open>
  C39: A raw transfer, from a target or through a claim, reaches the platform at most once, and then with a
  target or claim and a buffer that are there, for a positive number of whole sectors within the
  contract's limit that make up exactly the bytes the caller named; otherwise nothing happens at all.\<close>

theorem storage_transfers_whole_sectors:
  assumes "transfer \<in> {r4_storage_read E s, r4_storage_claim_read E s, r4_storage_claim_write E s}"
    and "transfer owner lba buffer bytes st = Some (rc, st')"
  shows "st' = st \<or> owner \<noteq> 0 \<and> buffer \<noteq> 0 \<and> (\<exists>f n. m_calls st' = m_calls st @ [(f, [owner, lba, n, buffer, ucast bytes])] \<and>
    unat n * 512 = unat bytes \<and> 0 < unat n \<and> unat n \<le> unat (storage_code E ''RAW_MAX_SECTORS''))"
proof -
  obtain slot where "raw_transfer E s slot owner lba buffer bytes st = Some (rc, st')"
    using assms by (auto simp: r4_storage_read_def r4_storage_claim_read_def r4_storage_claim_write_def)
  then show ?thesis by (rule transfer_sectors)
qed

text \<open>A handle is given up only when the platform says that it is over, and then it reads as zero.\<close>

lemma claim_end_drops:
  assumes "r4_storage_claim_end E s claim keep st = Some (rc, st')" and "claim \<noteq> 0"
  shows "\<exists>st1. called_once [le_word (the (load_bytes (m_mem st) claim 8)), ucast (if keep then storage_code E ''CLAIM_END_KEEP_UNMOUNTED'' else 0)] st st1 \<and>
    m_calls st' = m_calls st1 \<and> (if claim_over E rc then store_bytes (m_mem st1) claim (le_bytes 8 (0 :: u64)) = Some (m_mem st') else st' = st1)"
proof -
  obtain held st1 where "load_range claim 8 st = Some (held, st)" and call: "storage_call E s ''storage_claim_end''
      [le_word held, ucast (if keep then storage_code E ''CLAIM_END_KEEP_UNMOUNTED'' else 0)] st = Some (rc, st1)"
    and drop: "drop_handle (claim_over E rc) claim st1 = Some ((), st')"
    using assms by (auto simp: r4_storage_claim_end_def and_then_Some_iff give_def load_range_def)
  then have "held = the (load_bytes (m_mem st) claim 8)" by (auto simp: load_range_def)
  with storage_call_once [OF call] drop show ?thesis by (auto simp: drop_handle_def Platform.store_def give_def split: if_split_asm)
qed

definition sample_storage :: r4_storage where
  "sample_storage = \<lparr>st_system = Some \<lparr>h_table = 0x1000, h_ctx = None\<rparr>\<rparr>"

definition storage_start :: "unit machine" where
  "storage_start = \<lparr>m_mem = flat [(0x1000, sample_table)], m_calls = [], m_os = ()\<rparr>"

theorem storage_transfers_whole_sectors_witness:
  "\<exists>st. r4_storage_claim_write (sample_platform\<lparr>p_code := (\<lambda>_. 8)\<rparr>) (Some sample_storage) 5 100 0x7000 1024 storage_start = Some (0, st) \<and>
    m_calls st = [(0x400000, [5, 100, 2, 0x7000, 1024])] \<and> unat (2 :: u64) * 512 = unat (1024 :: u32)"
proof -
  let ?E = "sample_platform\<lparr>p_code := (\<lambda>_. 8)\<rparr>"
  have run: "r4_storage_claim_write ?E (Some sample_storage) 5 100 0x7000 1024 storage_start =
      Some (0, storage_start\<lparr>m_calls := [(0x400000, [5, 100, 2, 0x7000, 1024])]\<rparr>)"
    by (simp add: r4_storage_claim_write_def raw_transfer_def transfer_bad_def storage_call_def storage_has_def storage_table_def table_of_def
      sample_storage_def storage_start_def sample_platform_def sample_table_def flat_simps run_steps run_tests run_objects
      cong: run_congs del: load_bytes.simps store_bytes.simps)
  have "storage_start\<lparr>m_calls := [(0x400000, [5, 100, 2, 0x7000, 1024])]\<rparr> \<noteq> storage_start" by (simp add: storage_start_def)
  with storage_transfers_whole_sectors [of "r4_storage_claim_write ?E (Some sample_storage)" ?E "Some sample_storage", OF _ run] run show ?thesis by (simp add: storage_start_def)
qed

end
