(* ===== verification/Devices.thy ===== *)
theory Devices
  imports Handles DevCalls
begin

text \<open>
  \<open>Shared/C/include/r4os/app_devices.h\<close>: the views an application has of the devices, the memory and the
  performance counters of the machine.
\<close>

subsection \<open>Views\<close>

text \<open>\<open>R4Devices\<close> and its three views hold the application they were made for.\<close>

record r4_devices =
  dv_app :: "r4_app option"

record r4_device_inventory_view =
  iv_app :: "r4_app option"

record r4_memory_view =
  mv_app :: "r4_app option"

record r4_performance_view =
  pv_app :: "r4_app option"

definition r4_app_devices :: "r4_app option \<Rightarrow> r4_devices" where
  "r4_app_devices app = \<lparr>dv_app = app\<rparr>"

definition r4_devices_inventory :: "r4_devices \<Rightarrow> r4_device_inventory_view" where
  "r4_devices_inventory devices = \<lparr>iv_app = dv_app devices\<rparr>"

definition r4_devices_memory :: "r4_devices \<Rightarrow> r4_memory_view" where
  "r4_devices_memory devices = \<lparr>mv_app = dv_app devices\<rparr>"

definition r4_devices_performance :: "r4_devices \<Rightarrow> r4_performance_view" where
  "r4_devices_performance devices = \<lparr>pv_app = dv_app devices\<rparr>"

text \<open>\<open>&app->devices\<close>, and \<open>view != 0 && view->app != 0 ? view->app->devices.table : 0\<close>.\<close>

definition device_group :: "r4_app option \<Rightarrow> handle option" where
  "device_group app = map_option (\<lambda>a. \<lparr>h_table = a_devices a\<rparr>) app"

definition device_table :: "r4_app option \<Rightarrow> u64" where
  "device_table app = table_of (device_group app)"

abbreviation devices_of where "devices_of v \<equiv> Option.bind v dv_app"
abbreviation inventory_of where "inventory_of v \<equiv> Option.bind v iv_app"
abbreviation memory_of where "memory_of v \<equiv> Option.bind v mv_app"
abbreviation performance_of where "performance_of v \<equiv> Option.bind v pv_app"

definition r4_devices_available :: "'w platform \<Rightarrow> r4_devices option \<Rightarrow> query" where
  "r4_devices_available E devices =
     (let table = device_table (devices_of devices); slot = filled E ''R4Dev'' table in
      q_and (sure (table \<noteq> 0)) (q_and (slot ''device_inventory_summary'') (q_and (slot ''memory_summary'') (slot ''performance_summary''))))"

subsection \<open>Records of the table\<close>

text \<open>\<open>table != 0 && table->slot != 0 && out != 0 ? table->slot(args) : R4OS_ERR_NO_FN\<close>\<close>

definition record_call :: "'w platform \<Rightarrow> r4_app option \<Rightarrow> string \<Rightarrow> u64 \<Rightarrow> u64 list \<Rightarrow> (i32, 'w) io" where
  "record_call E app slot out args =
     ask (q_and (sure (device_table app \<noteq> 0)) (q_and (filled E ''R4Dev'' (device_table app) slot) (sure (out \<noteq> 0)))) (\<lambda>ok.
       if ok then call_slot E ''R4Dev'' (device_table app) slot args else give (code E ''R4OS_ERR_NO_FN''))"

definition r4_device_inventory_summary :: "'w platform \<Rightarrow> r4_device_inventory_view option \<Rightarrow> u64 \<Rightarrow> (i32, 'w) io" where
  "r4_device_inventory_summary E view out = record_call E (inventory_of view) ''device_inventory_summary'' out [out]"

definition r4_device_inventory_record :: "'w platform \<Rightarrow> r4_device_inventory_view option \<Rightarrow> u32 \<Rightarrow> u64 \<Rightarrow> (i32, 'w) io" where
  "r4_device_inventory_record E view index out = record_call E (inventory_of view) ''device_inventory_record'' out [ucast index, out]"

definition r4_device_hardware_summary :: "'w platform \<Rightarrow> r4_device_inventory_view option \<Rightarrow> u64 \<Rightarrow> (i32, 'w) io" where
  "r4_device_hardware_summary E view out = record_call E (inventory_of view) ''hardware_summary'' out [out]"

definition r4_memory_summary :: "'w platform \<Rightarrow> r4_memory_view option \<Rightarrow> u64 \<Rightarrow> (i32, 'w) io" where
  "r4_memory_summary E view out = record_call E (memory_of view) ''memory_summary'' out [out]"

definition r4_memory_pressure :: "'w platform \<Rightarrow> r4_memory_view option \<Rightarrow> u64 \<Rightarrow> (i32, 'w) io" where
  "r4_memory_pressure E view out = record_call E (memory_of view) ''memory_pressure_snapshot'' out [out]"

definition r4_memory_block_count :: "'w platform \<Rightarrow> r4_memory_view option \<Rightarrow> (u32, 'w) io" where
  "r4_memory_block_count E view =
     (let table = device_table (memory_of view) in
      ask (q_and (sure (table \<noteq> 0)) (filled E ''R4Dev'' table ''memory_block_count'')) (\<lambda>ok.
        if ok then call_slot E ''R4Dev'' table ''memory_block_count'' [] else give 0))"

definition r4_memory_block :: "'w platform \<Rightarrow> r4_memory_view option \<Rightarrow> u32 \<Rightarrow> u64 \<Rightarrow> (i32, 'w) io" where
  "r4_memory_block E view index out = record_call E (memory_of view) ''memory_block'' out [ucast index, out]"

definition r4_performance_summary :: "'w platform \<Rightarrow> r4_performance_view option \<Rightarrow> u64 \<Rightarrow> (i32, 'w) io" where
  "r4_performance_summary E view out = record_call E (performance_of view) ''performance_summary'' out [out]"

definition r4_program_instance_storage_self_test :: "'w platform \<Rightarrow> r4_performance_view option \<Rightarrow> u64 \<Rightarrow> (i32, 'w) io" where
  "r4_program_instance_storage_self_test E view out = record_call E (performance_of view) ''program_instance_storage_self_test'' out [out]"

definition r4_performance_task :: "'w platform \<Rightarrow> r4_performance_view option \<Rightarrow> u32 \<Rightarrow> u64 \<Rightarrow> (i32, 'w) io" where
  "r4_performance_task E view index out = record_call E (performance_of view) ''performance_task'' out [ucast index, out]"

definition r4_performance_storage :: "'w platform \<Rightarrow> r4_performance_view option \<Rightarrow> u32 \<Rightarrow> u64 \<Rightarrow> (i32, 'w) io" where
  "r4_performance_storage E view index out = record_call E (performance_of view) ''performance_storage'' out [ucast index, out]"

definition r4_performance_boot_phase :: "'w platform \<Rightarrow> r4_performance_view option \<Rightarrow> u32 \<Rightarrow> u64 \<Rightarrow> (i32, 'w) io" where
  "r4_performance_boot_phase E view index out = record_call E (performance_of view) ''performance_boot_phase'' out [ucast index, out]"

text \<open>The two registry tests also compare the announced size, and report a missing output first.\<close>

definition tail_record_call :: "'w platform \<Rightarrow> r4_app option \<Rightarrow> string \<Rightarrow> u64 \<Rightarrow> (i32, 'w) io" where
  "tail_record_call E app slot out =
     (if out = 0 then give (code E ''R4OS_ERROR_INVALID'')
      else ask (has_slot E ''R4Dev'' (device_table app) slot) (\<lambda>ok.
        if ok then call_slot E ''R4Dev'' (device_table app) slot [out] else give (code E ''R4OS_ERR_NO_FN'')))"

definition r4_program_registry_summary_v2 :: "'w platform \<Rightarrow> r4_performance_view option \<Rightarrow> u64 \<Rightarrow> (i32, 'w) io" where
  "r4_program_registry_summary_v2 E view out = tail_record_call E (performance_of view) ''program_registry_summary_v2'' out"

definition r4_program_registry_self_test_v2 :: "'w platform \<Rightarrow> r4_performance_view option \<Rightarrow> u64 \<Rightarrow> (i32, 'w) io" where
  "r4_program_registry_self_test_v2 E view out = tail_record_call E (performance_of view) ''program_registry_self_test_v2'' out"

subsection \<open>Records read through the library\<close>

text \<open>\<open>*out = (T){0}; out->version = v; out->size = sizeof(*out)\<close>\<close>

definition prepare :: "'w platform \<Rightarrow> u64 \<Rightarrow> string \<Rightarrow> u64 \<Rightarrow> (unit, 'w) io" where
  "prepare E out T version = and_then (clear_obj E out T) (\<lambda>_. put_header E out T version (sizeof E T))"

text \<open>The four reads differ in the object and in the wrapper they end in.\<close>

definition prepared_read ::
  "'w platform \<Rightarrow> r4_app option \<Rightarrow> u64 \<Rightarrow> string \<Rightarrow> (handle option \<Rightarrow> u64 \<Rightarrow> (i32, 'w) io) \<Rightarrow> (i32, 'w) io" where
  "prepared_read E app out T wrapper =
     (if out = 0 then give (code E ''R4OS_ERROR_INVALID'')
      else if app = None then give (code E ''R4OS_ERR_NO_FN'')
      else and_then (prepare E out T 1) (\<lambda>_. wrapper (device_group app) out))"

definition r4_devices_display :: "'w platform \<Rightarrow> r4_devices option \<Rightarrow> u64 \<Rightarrow> (i32, 'w) io" where
  "r4_devices_display E devices out =
     prepared_read E (devices_of devices) out ''R4DisplayStateInfo'' (r4dev_display_state E)"

definition r4_performance_instrumentation :: "'w platform \<Rightarrow> r4_performance_view option \<Rightarrow> u64 \<Rightarrow> (i32, 'w) io" where
  "r4_performance_instrumentation E view out =
     prepared_read E (performance_of view) out ''R4ProgramInstrumentationInfo'' (r4dev_performance_instrumentation E)"

definition r4_performance_lock :: "'w platform \<Rightarrow> r4_performance_view option \<Rightarrow> u32 \<Rightarrow> u64 \<Rightarrow> (i32, 'w) io" where
  "r4_performance_lock E view index out =
     prepared_read E (performance_of view) out ''R4ProgramLockPerformanceInfo'' (\<lambda>dev. r4dev_performance_lock E dev index)"

definition r4_performance_stack :: "'w platform \<Rightarrow> r4_performance_view option \<Rightarrow> u32 \<Rightarrow> u64 \<Rightarrow> (i32, 'w) io" where
  "r4_performance_stack E view index out =
     prepared_read E (performance_of view) out ''R4ProgramStackPerformanceInfo'' (\<lambda>dev. r4dev_performance_stack E dev index)"

text \<open>The caller initializes the header here, and a failed read preserves it.\<close>

definition r4_performance_stack_fault :: "'w platform \<Rightarrow> r4_performance_view option \<Rightarrow> u32 \<Rightarrow> u64 \<Rightarrow> (i32, 'w) io" where
  "r4_performance_stack_fault E view cpu out =
     (if out = 0 then give (code E ''R4OS_ERROR_INVALID'')
      else if performance_of view = None then give (code E ''R4OS_ERR_NO_FN'')
      else r4dev_stack_fault E (device_group (performance_of view)) cpu out)"

definition r4_program_instance_storage_summary :: "'w platform \<Rightarrow> r4_performance_view option \<Rightarrow> u64 \<Rightarrow> (i32, 'w) io" where
  "r4_program_instance_storage_summary E view out =
     (let app = performance_of view in
      if app = None \<or> out = 0 then give (code E ''R4OS_ERR_NO_FN'')
      else ask (has_slot E ''R4Dev'' (device_table app) ''program_instance_storage_summary_v2'') (\<lambda>ok.
        if \<not> ok then give (code E ''R4OS_ERR_NO_FN'')
        else and_then (prepare E out ''R4ProgramInstanceStorageSummary'' 2) (\<lambda>_.
          r4dev_program_instance_storage_summary_v2 E (device_group app) out)))"

definition r4_execution_inventory_summary :: "'w platform \<Rightarrow> r4_performance_view option \<Rightarrow> u64 \<Rightarrow> (i32, 'w) io" where
  "r4_execution_inventory_summary E view out =
     (if out = 0 then give (code E ''R4OS_PROGRAM_HANDLE_ERROR_INVALID'')
      else if performance_of view = None then give (code E ''R4OS_ERR_NO_FN'')
      else r4dev_execution_inventory_summary E (device_group (performance_of view)) out)"

subsection \<open>What a read leaves\<close>

text \<open>A record of the table is left alone unless the table's own function was called on it.\<close>

lemma record_call_refuses:
  assumes "record_call E app slot out args s = Some (r, t)"
  shows "call_slot E ''R4Dev'' (device_table app) slot args s = Some (r, t) \<and> device_table app \<noteq> 0 \<and> out \<noteq> 0 \<or>
    t = s \<and> r = code E ''R4OS_ERR_NO_FN''"
  using assms by (auto simp: record_call_def ask_def q_and_def sure_def give_def split: if_split_asm option.splits)

text \<open>Reading a fault preserves the caller's header when it is refused.\<close>

lemma stack_fault_preserves:
  assumes "r4_performance_stack_fault E view cpu out s = Some (r, t)"
  shows "call_slot E ''R4Dev'' (device_table (performance_of view)) ''stack_fault'' [ucast cpu, out] s = Some (r, t) \<or>
    t = s \<and> (r = code E ''R4OS_ERROR_INVALID'' \<or> r = code E ''R4OS_ERR_NO_FN'')"
  using assms by (auto simp: r4_performance_stack_fault_def r4dev_stack_fault_def device_table_def ask_def give_def split: if_split_asm option.splits)

end
