(* ===== verification/DialogPages.thy ===== *)
theory DialogPages
  imports FilePath FileStreams FlatMemory
begin

text \<open>
  The pages of a file dialog in \<open>Shared/C/include/r4os/directory_page.h\<close>, with the bounded labels of
  \<open>r4os/bounded_text.zig\<close> its rows carry.
\<close>

subsection \<open>Bounded labels\<close>

text \<open>Continuation bytes, and well-formed UTF-8 as the language's library defines it.\<close>

definition trails :: "u8 \<Rightarrow> bool" where
  "trails b \<longleftrightarrow> 0x80 \<le> b \<and> b < 0xC0"

fun utf8_valid :: "bytes \<Rightarrow> bool" where
  "utf8_valid [] = True"
| "utf8_valid (a # bs) =
     (if a < 0x80 then utf8_valid bs
      else if a < 0xC2 then False
      else if a < 0xE0 then (case bs of b # r \<Rightarrow> trails b \<and> utf8_valid r | _ \<Rightarrow> False)
      else if a < 0xF0 then
        (case bs of
           b # c # r \<Rightarrow> trails b \<and> trails c \<and> (a = 0xE0 \<longrightarrow> 0xA0 \<le> b) \<and> (a = 0xED \<longrightarrow> b < 0xA0) \<and> utf8_valid r
         | _ \<Rightarrow> False)
      else if a < 0xF5 then
        (case bs of
           b # c # d # r \<Rightarrow>
             trails b \<and> trails c \<and> trails d \<and> (a = 0xF0 \<longrightarrow> 0x90 \<le> b) \<and> (a = 0xF4 \<longrightarrow> b < 0x90) \<and> utf8_valid r
         | _ \<Rightarrow> False)
      else False)"

definition text_valid :: "bytes \<Rightarrow> bool" where
  "text_valid value \<longleftrightarrow> utf8_valid value \<and> 0 \<notin> set value"

text \<open>The output is \<open>n\<close> bytes, all of them written on success and none on failure.\<close>

definition assign_z :: "nat \<Rightarrow> bytes \<Rightarrow> bytes option" where
  "assign_z n value =
     (if n = 0 \<or> length value \<ge> n \<or> \<not> text_valid value then None else Some (value @ replicate (n - length value) 0))"

text \<open>
  The longest prefix of whole grapheme clusters comes from another package and is a parameter:
  \<open>G value limit\<close> is its length, or nothing when the text is malformed.
\<close>

type_synonym graphemes = "bytes \<Rightarrow> nat \<Rightarrow> nat option"

definition label_z :: "graphemes \<Rightarrow> nat \<Rightarrow> bytes \<Rightarrow> bytes option" where
  "label_z G n value =
     (if n = 0 \<or> \<not> text_valid value then None
      else if length value < n then assign_z n value
      else (let dots = (if 4 \<le> n then 3 else 0) in
        case G value (n - 1 - dots) of
          None \<Rightarrow> None
        | Some e \<Rightarrow> Some (take e value @ replicate dots 0x2E @ replicate (n - (e + dots)) 0)))"

subsection \<open>Rows\<close>

abbreviation "DIALOG_FILE \<equiv> 0 :: u32"
abbreviation "DIALOG_DIRECTORY \<equiv> 1 :: u32"
abbreviation "DIALOG_PREVIOUS \<equiv> 2 :: u32"
abbreviation "DIALOG_NEXT \<equiv> 3 :: u32"

record dialog_row =
  dr_kind :: u32
  dr_path :: file_path
  dr_label :: bytes

text \<open>The array of rows is the list behind \<open>dp_rows\<close>; the directory is the object's bytes.\<close>

record dialog_page =
  dp_directory :: bytes
  dp_rows :: "dialog_row list option"
  dp_capacity :: u32
  dp_count :: u32
  dp_number :: u32

definition dialog_page_zero :: "'w platform \<Rightarrow> dialog_page" where
  "dialog_page_zero E = \<lparr>dp_directory = replicate (p_size E ''R4FilePath'') 0, dp_rows = None, dp_capacity = 0, dp_count = 0, dp_number = 0\<rparr>"

definition r4_dialog_page_init ::
  "'w platform \<Rightarrow> dialog_page option \<Rightarrow> dialog_row list option \<Rightarrow> u32 \<Rightarrow> bool \<times> dialog_page option" where
  "r4_dialog_page_init E page rows capacity =
     (if page = None \<or> rows = None \<or> capacity < 4 then (False, page)
      else (True, Some ((dialog_page_zero E)\<lparr>dp_rows := rows, dp_capacity := capacity\<rparr>)))"

definition file_path_zero :: "'w platform \<Rightarrow> file_path" where
  "file_path_zero E = \<lparr>fp_bytes = replicate (path_room E) 0, fp_length = 0, fp_absolute = False\<rparr>"

text \<open>The row is cleared and its kind and path are set before the label is tried; a row beyond the array is no access at all.\<close>

definition r4_dialog_page_add ::
  "'w platform \<Rightarrow> graphemes \<Rightarrow> dialog_page \<Rightarrow> u32 \<Rightarrow> file_path option \<Rightarrow> bytes \<Rightarrow> (bool \<times> dialog_page) option" where
  "r4_dialog_page_add E G page kind path label =
     (if dp_count page \<ge> dp_capacity page then Some (False, page)
      else (case dp_rows page of
        None \<Rightarrow> None
      | Some rows \<Rightarrow>
          if unat (dp_count page) \<ge> length rows then None
          else (let row = \<lparr>dr_kind = kind, dr_path = (case path of None \<Rightarrow> file_path_zero E | Some p \<Rightarrow> p), dr_label = replicate 256 0\<rparr>;
                    n = unat (dp_count page) in
            (case label_z G 256 label of
               None \<Rightarrow> Some (False, page\<lparr>dp_rows := Some (rows[n := row])\<rparr>)
             | Some l \<Rightarrow> Some (True, page\<lparr>dp_rows := Some (rows[n := row\<lparr>dr_label := l\<rparr>]), dp_count := dp_count page + 1\<rparr>)))))"

subsection \<open>Entries\<close>

text \<open>The path of an entry, its name, and where its last component starts.\<close>

definition entry_path :: "directory_next \<Rightarrow> file_path" where
  "entry_path entry = \<lparr>fp_bytes = dn_path entry, fp_length = dn_length entry, fp_absolute = dn_absolute entry\<rparr>"

definition entry_name :: "directory_next \<Rightarrow> bytes" where
  "entry_name entry = take (unat (dn_length entry)) (dn_path entry)"

definition leaf_start :: "bytes \<Rightarrow> nat" where
  "leaf_start name = fold (\<lambda>n tail. if name ! n = 0x2F \<or> name ! n = 0x5C then n + 1 else tail) [0..<length name] 0"

text \<open>Directories are always shown; a file is shown when its name ends in the extension.\<close>

definition entry_shown :: "bytes \<Rightarrow> directory_next \<Rightarrow> bool" where
  "entry_shown extension entry \<longleftrightarrow>
     (let name = entry_name entry in
      \<not> (\<not> dn_is_directory entry \<and> extension \<noteq> [] \<and>
         (length extension > length name \<or> \<not> r4_path_equal_ignore_case (drop (length name - length extension) name) extension)))"

definition entry_label :: "graphemes \<Rightarrow> directory_next \<Rightarrow> bytes option" where
  "entry_label G entry =
     (let prefix = (if dn_is_directory entry then map of_char ''[DIR] '' else []); name = entry_name entry in
      map_option (\<lambda>l. takeWhile (\<lambda>b. b \<noteq> 0) (prefix @ l)) (label_z G (256 - length prefix) (drop (leaf_start name) name)))"

definition entry_kind :: "directory_next \<Rightarrow> u32" where
  "entry_kind entry = (if dn_is_directory entry then DIALOG_DIRECTORY else DIALOG_FILE)"

subsection \<open>Loading a page\<close>

text \<open>
  One turn of the loop: \<open>None\<close> is an access outside an array, \<open>Some None\<close> the early return
  of zero, and otherwise the page and the number of entries seen.
\<close>

definition dialog_step ::
  "'w platform \<Rightarrow> graphemes \<Rightarrow> bytes \<Rightarrow> u64 \<Rightarrow> u64 \<Rightarrow> directory_next \<Rightarrow> dialog_page \<times> u64 \<Rightarrow> (dialog_page \<times> u64) option option" where
  "dialog_step E G extension first page_size entry = (\<lambda>(page, seen).
     if \<not> entry_shown extension entry then Some (Some (page, seen))
     else if \<not> (seen \<ge> first \<and> seen - first < page_size) then Some (Some (page, seen + 1))
     else (case entry_label G entry of
        None \<Rightarrow> Some None
      | Some l \<Rightarrow>
          (case r4_dialog_page_add E G page (entry_kind entry) (Some (entry_path entry)) l of
             None \<Rightarrow> None
           | Some (ok, page) \<Rightarrow> Some (if ok then Some (page, seen + 1) else None))))"

text \<open>The loop over the directory: it ends with the listing, and fails with it.\<close>

partial_function (option) dialog_scan ::
  "start_contract \<Rightarrow> 'w platform \<Rightarrow> graphemes \<Rightarrow> bytes \<Rightarrow> u64 \<Rightarrow> u64 \<Rightarrow> directory_iterator option \<Rightarrow> dialog_page \<times> u64 \<Rightarrow> 'w machine \<Rightarrow>
    ((dialog_page \<times> u64) option \<times> 'w machine) option" where
  "dialog_scan K E G extension first page_size it acc s =
     (case r4_directory_next K E it s of
        None \<Rightarrow> None
      | Some ((entry, it), s) \<Rightarrow>
          if dn_state entry = DIRECTORY_END then Some (Some acc, s)
          else if dn_state entry \<noteq> DIRECTORY_ENTRY then Some (None, s)
          else (case dialog_step E G extension first page_size entry acc of
                  None \<Rightarrow> None
                | Some None \<Rightarrow> Some (None, s)
                | Some (Some acc) \<Rightarrow> dialog_scan K E G extension first page_size it acc s))"

text \<open>The rows before the entries: the parent, and the way back from a later page.\<close>

definition dialog_head :: "'w platform \<Rightarrow> graphemes \<Rightarrow> directory_next \<Rightarrow> u32 \<Rightarrow> dialog_page \<Rightarrow> dialog_page option option" where
  "dialog_head E G parent number page =
     (if dn_state parent \<noteq> DIRECTORY_ENTRY then Some None
      else (case r4_dialog_page_add E G page DIALOG_DIRECTORY (Some (entry_path parent)) (map of_char ''[DIR] ..'') of
        None \<Rightarrow> None
      | Some (False, _) \<Rightarrow> Some None
      | Some (True, page) \<Rightarrow>
          if number = 0 then Some (Some page)
          else (case r4_dialog_page_add E G page DIALOG_PREVIOUS None (map of_char ''<< Previous page'') of
             None \<Rightarrow> None
           | Some (ok, page) \<Rightarrow> Some (if ok then Some page else None))))"

text \<open>The row after the entries, when the directory goes on beyond this page.\<close>

definition dialog_tail :: "'w platform \<Rightarrow> graphemes \<Rightarrow> u64 \<Rightarrow> u64 \<Rightarrow> dialog_page \<times> u64 \<Rightarrow> dialog_page option option" where
  "dialog_tail E G first page_size = (\<lambda>(page, seen).
     if \<not> seen > first + page_size then Some (Some page)
     else (case r4_dialog_page_add E G page DIALOG_NEXT None (map of_char ''Next page >>'') of
        None \<Rightarrow> None
      | Some (ok, page) \<Rightarrow> Some (if ok then Some page else None)))"

text \<open>Only a complete page is copied over the published one.\<close>

definition dialog_publish :: "dialog_page \<Rightarrow> dialog_page \<Rightarrow> dialog_page option" where
  "dialog_publish page next =
     (case (dp_rows page, dp_rows next) of
        (Some old, Some new) \<Rightarrow>
          let n = unat (dp_count next) in
          if n > length old \<or> n > length new then None
          else Some (page\<lparr>dp_rows := Some (take n new @ drop n old), dp_directory := dp_directory next,
            dp_number := dp_number next, dp_count := dp_count next\<rparr>)
      | _ \<Rightarrow> None)"

text \<open>The directory's value, the entry of the parent and the iterator after it.\<close>

definition dialog_open ::
  "start_contract \<Rightarrow> 'w platform \<Rightarrow> r4_files \<Rightarrow> u64 \<Rightarrow> (bytes \<times> directory_next \<times> directory_iterator option, 'w) io" where
  "dialog_open K E files directory =
     and_then (load_obj E directory ''R4FilePath'') (\<lambda>value.
     and_then (r4_files_iterate E files directory (p_local E ''it.cursor'') (p_local E ''it.buffer'')) (\<lambda>it.
     and_then (r4_directory_next K E (Some (it\<lparr>di_index := 1\<rparr>))) (\<lambda>(parent, it). give (value, parent, it))))"

text \<open>What is decided without the directory, as a step that may be undefined or return zero.\<close>

definition settled :: "'a option option \<Rightarrow> ('a option, 'w) io" where
  "settled x s = map_option (\<lambda>v. (v, s)) x"

definition then_if :: "('a option, 'w) io \<Rightarrow> ('a \<Rightarrow> ('b option, 'w) io) \<Rightarrow> ('b option, 'w) io" where
  "then_if m k = and_then m (\<lambda>x. case x of None \<Rightarrow> give None | Some v \<Rightarrow> k v)"

definition page_span :: "u32 \<Rightarrow> u64" where
  "page_span capacity = ucast (capacity - 3)"

definition r4_dialog_page_load ::
  "start_contract \<Rightarrow> 'w platform \<Rightarrow> graphemes \<Rightarrow> dialog_page option \<Rightarrow> dialog_row list option \<Rightarrow> u32 \<Rightarrow> r4_files \<Rightarrow> u64 \<Rightarrow> u32 \<Rightarrow>
    bytes option \<Rightarrow> nat \<Rightarrow> (bool \<times> dialog_page option, 'w) io" where
  "r4_dialog_page_load K E G page scratch scratch_capacity files directory number extension extension_len =
     (case page of
        None \<Rightarrow> give (False, None)
      | Some p \<Rightarrow>
          if dp_rows p = None \<or> directory = 0 \<or> scratch = None \<or> scratch_capacity < dp_capacity p \<or> dp_capacity p < 4 \<or>
             extension = None \<and> extension_len \<noteq> 0
          then give (False, page)
          else (let size = page_span (dp_capacity p); first = ucast number * size;
                    ext = (case extension of None \<Rightarrow> [] | Some bs \<Rightarrow> take extension_len bs) in
            and_then (dialog_open K E files directory) (\<lambda>(value, parent, it).
            and_then
              (then_if (settled (dialog_head E G parent number
                  \<lparr>dp_directory = value, dp_rows = scratch, dp_capacity = dp_capacity p, dp_count = 0, dp_number = number\<rparr>)) (\<lambda>next.
               then_if (dialog_scan K E G ext first size it (next, 0)) (\<lambda>acc.
               then_if (settled (dialog_tail E G first size acc)) (\<lambda>next.
                 settled (map_option Some (dialog_publish p next)))))) (\<lambda>out.
            case out of None \<Rightarrow> give (False, page) | Some p \<Rightarrow> give (True, Some p)))))"

subsection \<open>What a page shows\<close>

text \<open>The entries the iterator yields from here on, up to the end of the directory.\<close>

inductive listing ::
  "start_contract \<Rightarrow> 'w platform \<Rightarrow> directory_iterator option \<Rightarrow> 'w machine \<Rightarrow> directory_next list \<Rightarrow> 'w machine \<Rightarrow> bool" for K E where
  ended: "r4_directory_next K E it s = Some ((e, it'), t) \<Longrightarrow> dn_state e = DIRECTORY_END \<Longrightarrow> listing K E it s [] t"
| more: "r4_directory_next K E it s = Some ((e, it'), t) \<Longrightarrow> dn_state e = DIRECTORY_ENTRY \<Longrightarrow> listing K E it' t es u \<Longrightarrow>
    listing K E it s (e # es) u"

text \<open>The rows of page \<open>number\<close>, each \<open>None\<close> when its label does not fit.\<close>

definition dialog_row_of :: "'w platform \<Rightarrow> graphemes \<Rightarrow> u32 \<Rightarrow> file_path option \<Rightarrow> bytes \<Rightarrow> dialog_row option" where
  "dialog_row_of E G kind path label =
     map_option (\<lambda>l. \<lparr>dr_kind = kind, dr_path = (case path of None \<Rightarrow> file_path_zero E | Some p \<Rightarrow> p), dr_label = l\<rparr>) (label_z G 256 label)"

definition entry_row :: "'w platform \<Rightarrow> graphemes \<Rightarrow> directory_next \<Rightarrow> dialog_row option" where
  "entry_row E G e = Option.bind (entry_label G e) (dialog_row_of E G (entry_kind e) (Some (entry_path e)))"

definition head_rows :: "'w platform \<Rightarrow> graphemes \<Rightarrow> directory_next \<Rightarrow> u32 \<Rightarrow> dialog_row option list" where
  "head_rows E G parent number =
     dialog_row_of E G DIALOG_DIRECTORY (Some (entry_path parent)) (map of_char ''[DIR] ..'') #
     (if number = 0 then [] else [dialog_row_of E G DIALOG_PREVIOUS None (map of_char ''<< Previous page'')])"

definition page_rows :: "'w platform \<Rightarrow> graphemes \<Rightarrow> bytes \<Rightarrow> u32 \<Rightarrow> u32 \<Rightarrow> directory_next \<Rightarrow> directory_next list \<Rightarrow> dialog_row option list" where
  "page_rows E G extension capacity number parent es =
     (let size = unat capacity - 3; shown = filter (entry_shown extension) es in
      head_rows E G parent number @
      map (entry_row E G) (take size (drop (unat number * size) shown)) @
      (if length shown > (unat number + 1) * size then [dialog_row_of E G DIALOG_NEXT None (map of_char ''Next page >>'')] else []))"

text \<open>A page that has been filled with \<open>rs\<close> over the caller's rows.\<close>

definition holding :: "dialog_page \<Rightarrow> dialog_row list \<Rightarrow> dialog_row list \<Rightarrow> dialog_page" where
  "holding page scratch rs = page\<lparr>dp_rows := Some (rs @ drop (length rs) scratch), dp_count := word_of_nat (length rs)\<rparr>"

lemma add_row:
  assumes "dialog_row_of E G kind path label = Some r" and "length rs < unat (dp_capacity page)" and "unat (dp_capacity page) \<le> length scratch"
  shows "r4_dialog_page_add E G (holding page scratch rs) kind path label = Some (True, holding page scratch (rs @ [r]))"
proof -
  have n: "unat (word_of_nat (length rs) :: u32) = length rs" using assms(2) unsigned_less [of "dp_capacity page", where ?'a = nat]
    by (simp add: unsigned_of_nat take_bit_nat_eq_self)
  have lt: "word_of_nat (length rs) < dp_capacity page" using assms(2) n by (simp add: word_less_nat_alt)
  have "drop (length rs) scratch = scratch ! length rs # drop (Suc (length rs)) scratch"
    using assms(2,3) by (simp add: Cons_nth_drop_Suc)
  then have put: "(rs @ drop (length rs) scratch)[length rs := x] = rs @ x # drop (Suc (length rs)) scratch" for x
    by (simp add: list_update_append)
  from assms(1) obtain l where l: "label_z G 256 label = Some l"
      "r = \<lparr>dr_kind = kind, dr_path = (case path of None \<Rightarrow> file_path_zero E | Some p \<Rightarrow> p), dr_label = l\<rparr>"
    by (auto simp: dialog_row_of_def)
  show ?thesis
    using assms(2,3) lt n by (simp add: r4_dialog_page_add_def holding_def l not_le [symmetric] Let_def put add.commute)
qed

text \<open>The entries of \<open>es\<close> that still fall on the page when \<open>n\<close> were seen before.\<close>

definition slice :: "bytes \<Rightarrow> nat \<Rightarrow> nat \<Rightarrow> nat \<Rightarrow> directory_next list \<Rightarrow> directory_next list" where
  "slice extension first z n es = take (first + z - max n first) (drop (first - n) (filter (entry_shown extension) es))"

lemma slice_simps:
  "slice x f z n [] = []"
  "\<not> entry_shown x e \<Longrightarrow> slice x f z n (e # es) = slice x f z n es"
  "entry_shown x e \<Longrightarrow> n < f \<Longrightarrow> slice x f z n (e # es) = slice x f z (n + 1) es"
  "entry_shown x e \<Longrightarrow> f \<le> n \<Longrightarrow> n < f + z \<Longrightarrow> slice x f z n (e # es) = e # slice x f z (n + 1) es"
  "entry_shown x e \<Longrightarrow> f + z \<le> n \<Longrightarrow> slice x f z n (e # es) = slice x f z (n + 1) es"
proof -
  show "entry_shown x e \<Longrightarrow> n < f \<Longrightarrow> slice x f z n (e # es) = slice x f z (n + 1) es"
  proof -
    assume "entry_shown x e" "n < f"
    then obtain k where "f = Suc (n + k)" by (metis less_imp_Suc_add)
    with \<open>entry_shown x e\<close> show ?thesis by (simp add: slice_def max_def)
  qed
  show "entry_shown x e \<Longrightarrow> f \<le> n \<Longrightarrow> n < f + z \<Longrightarrow> slice x f z n (e # es) = e # slice x f z (n + 1) es"
    by (simp add: slice_def take_Cons' max_def)
qed (simp_all add: slice_def)

lemma step_row:
  assumes "slice x (unat first) (unat wide) (unat seen) [e] = shown"
    and "map (entry_row E G) shown = map Some new"
    and "length rs + length new \<le> unat (dp_capacity page)" and "unat (dp_capacity page) \<le> length scratch"
    and "unat seen + 1 < 2 ^ 64" and "unat first + unat wide < 2 ^ 64"
  shows "dialog_step E G x first wide e (holding page scratch rs, seen) =
      Some (Some (holding page scratch (rs @ new), seen + (if entry_shown x e then 1 else 0)))"
proof (cases "entry_shown x e")
  case False
  then show ?thesis using assms(1,2) by (simp add: dialog_step_def slice_simps)
next
  case shown: True
  have on: "seen \<ge> first \<and> seen - first < wide \<longleftrightarrow> unat first \<le> unat seen \<and> unat seen < unat first + unat wide"
    by (auto simp: word_le_nat_alt word_less_nat_alt unat_sub)
  show ?thesis
  proof (cases "unat first \<le> unat seen \<and> unat seen < unat first + unat wide")
    case True
    then have "shown = [e]" using assms(1) shown by (simp add: slice_simps)
    then obtain r where r: "entry_row E G e = Some r" "new = [r]" using assms(2) by (cases new) auto
    then obtain l where l: "entry_label G e = Some l" "dialog_row_of E G (entry_kind e) (Some (entry_path e)) l = Some r"
      by (auto simp: entry_row_def bind_eq_Some_conv)
    show ?thesis using True shown on r(2) l(1) add_row [OF l(2), of rs page scratch] assms(3,4)
      by (simp add: dialog_step_def del: append.simps)
  next
    case False
    then have "shown = []" using assms(1) shown by (auto simp: not_le slice_simps)
    then show ?thesis using False shown on assms(2) by (auto simp: dialog_step_def)
  qed
qed

lemma slice_Cons: "slice x f z n (e # es) = slice x f z n [e] @ slice x f z (n + (if entry_shown x e then 1 else 0)) es"
proof (cases "entry_shown x e")
  case True
  consider "n < f" | "f \<le> n" "n < f + z" | "f + z \<le> n" by linarith
  then show ?thesis by cases (simp_all add: True slice_simps)
qed (simp add: slice_simps)

lemma scan_rows:
  assumes "listing K E it s es t"
    and "map (entry_row E G) (slice x (unat first) (unat wide) (unat seen) es) = map Some new"
    and "length rs + length new \<le> unat (dp_capacity page)" and "unat (dp_capacity page) \<le> length scratch"
    and "unat seen + length es < 2 ^ 64" and "unat first + unat wide < 2 ^ 64"
  shows "dialog_scan K E G x first wide it (holding page scratch rs, seen) s =
    Some (Some (holding page scratch (rs @ new), seen + word_of_nat (length (filter (entry_shown x) es))), t)"
  using assms
proof (induction arbitrary: rs new seen rule: listing.induct)
  case (ended it s e it' t)
  then show ?case by (subst dialog_scan.simps) (simp add: slice_simps)
next
  case (more it s e it' t es u)
  define d where "d = (if entry_shown x e then 1 else 0 :: nat)"
  have seen: "unat (seen + (if entry_shown x e then 1 else 0)) = unat seen + d"
    using more.prems(4) by (auto simp: d_def intro!: unat_add_fit [of seen 1, simplified])
  from more.prems(1) slice_Cons [of x "unat first" "unat wide" "unat seen" e es]
  obtain n1 n2 where new: "new = n1 @ n2"
      "map (entry_row E G) (slice x (unat first) (unat wide) (unat seen) [e]) = map Some n1"
      "map (entry_row E G) (slice x (unat first) (unat wide) (unat seen + d) es) = map Some n2"
    by (auto simp: d_def map_eq_append_conv append_eq_map_conv)
  have "dialog_step E G x first wide e (holding page scratch rs, seen) =
      Some (Some (holding page scratch (rs @ n1), seen + (if entry_shown x e then 1 else 0)))"
    by (rule step_row [OF refl new(2)]) (use more.prems new(1) in auto)
  moreover have "dialog_scan K E G x first wide it' (holding page scratch (rs @ n1), seen + (if entry_shown x e then 1 else 0)) t =
      Some (Some (holding page scratch ((rs @ n1) @ n2),
        (seen + (if entry_shown x e then 1 else 0)) + word_of_nat (length (filter (entry_shown x) es))), u)"
    by (rule more.IH) (use more.prems new seen in \<open>auto simp: d_def\<close>)
  ultimately show ?case using more.hyps by (subst dialog_scan.simps) (simp add: new(1))
qed

lemma head_ok:
  assumes "head_rows E G parent number = map Some hs" and "dn_state parent = DIRECTORY_ENTRY"
    and "2 \<le> unat (dp_capacity page)" and "unat (dp_capacity page) \<le> length scratch"
  shows "dialog_head E G parent number (holding page scratch []) = Some (Some (holding page scratch hs))"
proof -
  from assms(1) obtain h rest where h: "hs = h # rest"
      "dialog_row_of E G DIALOG_DIRECTORY (Some (entry_path parent)) (map of_char ''[DIR] ..'') = Some h"
      "(if number = 0 then [] else [dialog_row_of E G DIALOG_PREVIOUS None (map of_char ''<< Previous page'')]) = map Some rest"
    by (cases hs) (auto simp: head_rows_def)
  have first: "r4_dialog_page_add E G (holding page scratch []) DIALOG_DIRECTORY (Some (entry_path parent)) (map of_char ''[DIR] ..'') =
      Some (True, holding page scratch [h])"
    using add_row [OF h(2), of "[]" page scratch] assms(3,4) by simp
  show ?thesis
  proof (cases "number = 0")
    case True
    then show ?thesis using h(1,3) first assms(2) by (simp only: dialog_head_def) simp
  next
    case False
    then obtain q where q: "rest = [q]" "dialog_row_of E G DIALOG_PREVIOUS None (map of_char ''<< Previous page'') = Some q"
      using h(3) by (cases rest) (auto simp only: if_False list.map list.inject)
    have "r4_dialog_page_add E G (holding page scratch [h]) DIALOG_PREVIOUS None (map of_char ''<< Previous page'') =
        Some (True, holding page scratch [h, q])"
      using add_row [OF q(2), of "[h]" page scratch] assms(3,4) by simp
    with False show ?thesis using h(1) q(1) first assms(2) by (simp only: dialog_head_def) simp
  qed
qed

lemma tail_ok:
  assumes "(if seen > first + wide then [dialog_row_of E G DIALOG_NEXT None (map of_char ''Next page >>'')] else []) = map Some ts"
    and "length rs + length ts \<le> unat (dp_capacity page)" and "unat (dp_capacity page) \<le> length scratch"
  shows "dialog_tail E G first wide (holding page scratch rs, seen) = Some (Some (holding page scratch (rs @ ts)))"
proof (cases "seen > first + wide")
  case True
  then obtain q where q: "ts = [q]" "dialog_row_of E G DIALOG_NEXT None (map of_char ''Next page >>'') = Some q"
    using assms(1) by (cases ts) (auto simp only: if_True list.map list.inject)
  then have "r4_dialog_page_add E G (holding page scratch rs) DIALOG_NEXT None (map of_char ''Next page >>'') =
      Some (True, holding page scratch (rs @ [q]))"
    using add_row [OF q(2), of rs page scratch] assms(2,3) by simp
  with True q(1) show ?thesis by (simp only: dialog_tail_def) simp
next
  case False
  then show ?thesis using assms(1) by (simp only: dialog_tail_def) simp
qed

lemma publish_ok:
  assumes "dp_rows p = Some old" and "length rs \<le> length old" and "length rs < 2 ^ 32"
  shows "dialog_publish p (holding next scratch rs) =
    Some (p\<lparr>dp_rows := Some (rs @ drop (length rs) old), dp_directory := dp_directory next, dp_number := dp_number next,
      dp_count := word_of_nat (length rs)\<rparr>)"
proof -
  have "unat (word_of_nat (length rs) :: u32) = length rs" using assms(3) by (simp add: unsigned_of_nat take_bit_nat_eq_self)
  then show ?thesis using assms(1,2) by (simp add: dialog_publish_def holding_def Let_def)
qed

lemma page_span_nat:
  assumes "4 \<le> capacity"
  shows "unat (page_span capacity) = unat capacity - 3"
    and "unat (ucast (number :: u32) * page_span capacity) = unat number * (unat capacity - 3)"
    and "unat number * (unat capacity - 3) + (unat capacity - 3) < 2 ^ 64"
proof -
  have c: "4 \<le> unat capacity" "unat capacity < 2 ^ 32" using assms unsigned_less [of capacity, where ?'a = nat] by (simp_all add: word_le_nat_alt)
  have n: "unat number < 2 ^ 32" using unsigned_less [of number, where ?'a = nat] by simp
  show span: "unat (page_span capacity) = unat capacity - 3"
    using c by (simp add: page_span_def unsigned_ucast_eq unat_sub word_le_nat_alt take_bit_nat_eq_self)
  have "(unat number + 1) * (unat capacity - 3) \<le> 2 ^ 32 * (2 ^ 32 - 4)" using n c by (intro mult_le_mono) simp_all
  then show all: "unat number * (unat capacity - 3) + (unat capacity - 3) < 2 ^ 64" by (simp only: distrib_right mult_1) simp
  have "unat (ucast number :: u64) = unat number" using n by (simp add: unsigned_ucast_eq take_bit_nat_eq_self)
  then show "unat (ucast number * page_span capacity) = unat number * (unat capacity - 3)"
    using all by (simp add: unat_word_ariths(2) span)
qed

lemma three_parts: "a @ b @ c = map f rs \<Longrightarrow> \<exists>hs ms ts. rs = hs @ ms @ ts \<and> a = map f hs \<and> b = map f ms \<and> c = map f ts"
  by (auto simp: append_eq_map_conv)

text \<open>
  C40: Loading a page of a file dialog shows exactly its part of the directory: when the listing ends and every label fits,
  the load succeeds and publishes the parent's row, the way back unless it is page 0, the entries from
  \<open>number * (capacity - 3)\<close> on that pass the extension filter, at most \<open>capacity - 3\<close> of them in the order of the listing, and
  the way forward exactly when more follow; the rows fit the caller's array, whose remaining rows are untouched.\<close>

theorem dialog_page_shows_slice:
  assumes "dialog_open K E files directory s = Some ((value, parent, it), s1)" and "dn_state parent = DIRECTORY_ENTRY"
    and "listing K E it s1 es t" and "length es < 2 ^ 64"
    and "page_rows E G ext (dp_capacity p) number parent es = map Some rows"
    and "dp_rows p = Some old" and "unat (dp_capacity p) \<le> length old"
    and "unat (dp_capacity p) \<le> length scratch" and "dp_capacity p \<le> scratch_capacity" and "4 \<le> dp_capacity p" and "directory \<noteq> 0"
  shows "length rows \<le> unat (dp_capacity p) \<and>
    r4_dialog_page_load K E G (Some p) (Some scratch) scratch_capacity files directory number (Some ext) (length ext) s =
      Some ((True, Some (p\<lparr>dp_rows := Some (rows @ drop (length rows) old), dp_directory := value, dp_number := number,
        dp_count := word_of_nat (length rows)\<rparr>)), t)"
proof -
  let ?wide = "page_span (dp_capacity p)" and ?first = "ucast number * page_span (dp_capacity p)"
  let ?base = "\<lparr>dp_directory = value, dp_rows = Some scratch, dp_capacity = dp_capacity p, dp_count = 0, dp_number = number\<rparr>"
  let ?shown = "filter (entry_shown ext) es"
  note span = page_span_nat [OF assms(10)]
  have cap: "4 \<le> unat (dp_capacity p)" "unat (dp_capacity p) < 2 ^ 32"
    using assms(10) unsigned_less [of "dp_capacity p", where ?'a = nat] by (simp_all add: word_le_nat_alt)
  have slice: "slice ext (unat ?first) (unat ?wide) (unat (0 :: u64)) es =
      take (unat (dp_capacity p) - 3) (drop (unat number * (unat (dp_capacity p) - 3)) ?shown)"
    by (simp only: span(1,2) slice_def unsigned_0 max_0L add_diff_cancel_left' diff_zero)
  have seen: "unat (word_of_nat (length ?shown) :: u64) = length ?shown"
    using le_less_trans [OF length_filter_le assms(4), of "entry_shown ext"] by (simp add: unsigned_of_nat take_bit_nat_eq_self)
  have "unat (?first + ?wide) = (unat number + 1) * (unat (dp_capacity p) - 3)"
    using unat_add_fit [of ?first ?wide] span(3) [of number] by (simp only: span(1,2) distrib_right mult_1)
  then have further: "word_of_nat (length ?shown) > ?first + ?wide \<longleftrightarrow> length ?shown > (unat number + 1) * (unat (dp_capacity p) - 3)"
    by (simp only: word_less_nat_alt seen)
  have "head_rows E G parent number @ map (entry_row E G) (slice ext (unat ?first) (unat ?wide) (unat (0 :: u64)) es) @
      (if word_of_nat (length ?shown) > ?first + ?wide then [dialog_row_of E G DIALOG_NEXT None (map of_char ''Next page >>'')] else []) =
      map Some rows"
    using assms(5) by (simp only: page_rows_def Let_def slice further)
  from three_parts [OF this] obtain hs ms ts where rows: "rows = hs @ ms @ ts" "head_rows E G parent number = map Some hs"
      "map (entry_row E G) (slice ext (unat ?first) (unat ?wide) (unat (0 :: u64)) es) = map Some ms"
      "(if word_of_nat (length ?shown) > ?first + ?wide then [dialog_row_of E G DIALOG_NEXT None (map of_char ''Next page >>'')] else []) = map Some ts"
    by blast
  have "length hs = length (head_rows E G parent number)" using rows(2) by simp
  then have hs: "length hs \<le> 2" by (simp add: head_rows_def)
  have ms: "length ms \<le> unat (dp_capacity p) - 3" using arg_cong [OF rows(3), of length] slice span(1) by simp
  have ts: "length ts \<le> 1" using arg_cong [OF rows(4), of length] by (simp split: if_split_asm)
  have fits: "length rows \<le> unat (dp_capacity p)" using hs ms ts cap(1) rows(1) by simp
  have base: "?base = holding ?base scratch []" by (simp add: holding_def)
  have head: "dialog_head E G parent number ?base = Some (Some (holding ?base scratch hs))"
    by (subst base) (rule head_ok, use rows(2) assms(2,8) cap in simp_all)
  have scan: "dialog_scan K E G ext ?first ?wide it (holding ?base scratch hs, 0) s1 =
      Some (Some (holding ?base scratch (hs @ ms), 0 + word_of_nat (length ?shown)), t)"
    by (rule scan_rows [OF assms(3) rows(3)]) (use hs ms cap assms(4,8) span in simp_all)
  have tail: "dialog_tail E G ?first ?wide (holding ?base scratch (hs @ ms), 0 + word_of_nat (length ?shown)) =
      Some (Some (holding ?base scratch ((hs @ ms) @ ts)))"
    by (rule tail_ok) (use rows(4) fits rows(1) assms(8) in simp_all)
  have "dialog_publish p (holding ?base scratch ((hs @ ms) @ ts)) =
      Some (p\<lparr>dp_rows := Some (rows @ drop (length rows) old), dp_directory := value, dp_number := number, dp_count := word_of_nat (length rows)\<rparr>)"
    using publish_ok [OF assms(6), of rows ?base scratch] fits assms(7) cap rows(1) by simp
  then show ?thesis
    using assms(1,6,9-11) fits head scan tail
    by (simp add: r4_dialog_page_load_def Let_def and_then_def then_if_def settled_def give_def not_less)
qed

subsection \<open>A sample directory\<close>

text \<open>One file called \<open>a\<close>, yielded by the batch slot once; the parent comes from the older slot.\<close>

definition dialog_offset :: "string \<Rightarrow> nat" where
  "dialog_offset m = (if m = ''dir_entry'' then 16 else if m = ''directory_batch'' then 24 else 32)"

definition dialog_code :: "string \<Rightarrow> u32" where
  "dialog_code c = (if c = ''R4SYS_DIR_ENTRY_RESULT_END'' then - 7 else 0)"

definition dialog_local :: "string \<Rightarrow> u64" where
  "dialog_local x = (if x = ''it.buffer'' then 0x3000 else 0x4000)"

definition dialog_run :: "u64 \<Rightarrow> u64 list \<Rightarrow> memory \<Rightarrow> nat \<Rightarrow> u64 \<times> memory \<times> nat" where
  "dialog_run f args M w =
     (if f = 1 then (1, M, w) else if args ! 3 = 0 then (0, M, w)
      else if w = 0 then (1, the (store_bytes M 0x3020 [0x61]), 1) else (- 7, M, w))"

definition dialog_platform :: "nat platform" where
  "dialog_platform = \<lparr>p_off = (\<lambda>_. dialog_offset), p_len = (\<lambda>T _. if T = ''R4FilePath'' then 2 else 1), p_size = (\<lambda>_. 1),
     p_code = dialog_code, p_frame = 0, p_local = dialog_local, p_run = dialog_run\<rparr>"

lemma dialog_platform_simps:
  "p_off dialog_platform T m = dialog_offset m" "p_len dialog_platform T m = (if T = ''R4FilePath'' then 2 else 1)"
  "p_size dialog_platform T = 1" "p_code dialog_platform = dialog_code" "p_local dialog_platform = dialog_local"
  "p_run dialog_platform = dialog_run" "path_room dialog_platform = 2"
  by (simp_all add: dialog_platform_def path_room_def)

definition dialog_start :: "nat machine" where
  "dialog_start = \<lparr>m_mem = flat [(0x1000, [0, 0, 0, 0, 1, 0, 0, 0, 80, 0, 0, 0, 0, 0, 0, 0, 1, 0, 0, 0, 0, 0, 0, 0, 2, 0, 0, 0, 0, 0, 0, 0])],
     m_calls = [], m_os = 0\<rparr>"

definition dialog_files :: r4_files where
  "dialog_files = \<lparr>fs_system = Some \<lparr>h_table = 0x1000, h_ctx = None\<rparr>\<rparr>"

lemmas dialog_eval = dialog_platform_simps dialog_offset_def dialog_code_def dialog_local_def dialog_run_def dialog_files_def
  load_obj_def clear_obj_def put_header_def put_member_def sizeof_def filled_def call_slot_def call_fn_def
  load_u64_def load_u32_def table_of_def directory_complete_def path_bytes_def flat_simps run_steps run_stores

definition dialog_iterator :: directory_iterator where
  "dialog_iterator = \<lparr>di_files = dialog_files, di_directory = 0x5000, di_index = 2, di_ended = False, di_legacy = False,
     di_cursor = 0x4000, di_buffer = 0x3000, di_buffer_index = 0, di_buffer_count = 0\<rparr>"

definition dialog_objects :: "(u64 \<times> bytes) list" where
  "dialog_objects = [(0x4020, [1]), (0x4020, [1]), (0x4000, [0]), (0x3000, [0, 0, 0, 0]),
     (0x1000, [0, 0, 0, 0, 1, 0, 0, 0, 80, 0, 0, 0, 0, 0, 0, 0, 1, 0, 0, 0, 0, 0, 0, 0, 2, 0, 0, 0, 0, 0, 0, 0])]"

lemma some_copies: "replicate 2 x = [x, x]" "replicate 4 x = [x, x, x, x]" "replicate 8 x = [x, x, x, x, x, x, x, x]"
  by (simp_all add: eval_nat_numeral)

lemma dialog_iterates:
  "r4_files_iterate dialog_platform dialog_files 0x5000 0x4000 0x3000 dialog_start =
    Some (dialog_iterator, \<lparr>m_mem = flat dialog_objects, m_calls = [], m_os = 0\<rparr>)"
  by (simp add: dialog_start_def r4_files_iterate_def reset_cursor_def dialog_iterator_def dialog_objects_def
    dialog_eval some_copies cong: run_congs del: load_bytes.simps store_bytes.simps)

lemma dialog_parent:
  "\<exists>parent t. r4_directory_next sample_contract dialog_platform (Some (dialog_iterator\<lparr>di_index := 1\<rparr>))
      \<lparr>m_mem = flat dialog_objects, m_calls = [], m_os = 0\<rparr> = Some ((parent, Some dialog_iterator), t) \<and>
    m_mem t = flat ((0x4000, [0, 0]) # dialog_objects) \<and> m_os t = 0 \<and>
    dn_state parent = DIRECTORY_ENTRY \<and> entry_path parent = \<lparr>fp_bytes = [0, 0], fp_length = 0, fp_absolute = True\<rparr>"
  by (simp add: dialog_iterator_def dialog_objects_def r4_directory_next_def directory_single_def entry_path_def
    dialog_eval some_copies Let_def cong: run_congs del: load_bytes.simps store_bytes.simps)

lemma dialog_opens:
  "\<exists>parent t. dialog_open sample_contract dialog_platform dialog_files 0x5000 dialog_start = Some (([0], parent, Some dialog_iterator), t) \<and>
    m_mem t = flat ((0x4000, [0, 0]) # dialog_objects) \<and> m_os t = 0 \<and>
    dn_state parent = DIRECTORY_ENTRY \<and> entry_path parent = \<lparr>fp_bytes = [0, 0], fp_length = 0, fp_absolute = True\<rparr>"
proof -
  have "load_obj dialog_platform 0x5000 ''R4FilePath'' dialog_start = Some ([0], dialog_start)"
    by (simp add: dialog_start_def dialog_eval del: load_bytes.simps)
  with dialog_iterates dialog_parent show ?thesis
    by (auto simp add: dialog_open_def and_then_def give_def dialog_platform_simps dialog_local_def)
qed

lemma dialog_fill:
  assumes "m_mem s = flat ((0x4000, [0, 0]) # dialog_objects)" and "m_os s = 0"
  shows "directory_fill sample_contract dialog_platform dialog_iterator s = Some (Inr (dialog_iterator\<lparr>di_buffer_index := 0, di_buffer_count := 1\<rparr>),
    s\<lparr>m_mem := flat ((0x3020, [0x61]) # (0x4000, [0, 0]) # dialog_objects), m_calls := m_calls s @ [(2, [0x5020, 0x4000, 0x3000, 4])], m_os := 1\<rparr>)"
  using assms
  by (subst directory_fill.simps) (simp add: dialog_iterator_def dialog_objects_def r4_files_directory_batch_def run_tests dialog_eval
    cong: run_congs del: load_bytes.simps store_bytes.simps)

lemma scan_two:
  "scan_terminated M a 2 = (case M a of None \<Rightarrow> None | Some b \<Rightarrow> if b = 0 then Some (Some []) else
    (case M (a + 1) of None \<Rightarrow> None | Some c \<Rightarrow> if c = 0 then Some (Some [b]) else Some None))"
  by (simp add: eval_nat_numeral split: option.split)

lemma dialog_no_close:
  assumes "m_mem s = flat ((0x3020, [0x61]) # (0x4000, [0, 0]) # dialog_objects)"
  shows "r4sys_program_should_close sample_contract dialog_platform (fs_system dialog_files) s = Some (False, s)"
  using assms
  by (simp add: dialog_objects_def r4sys_program_should_close_def 
        dialog_eval some_copies Let_def cong: run_congs del: load_bytes.simps store_bytes.simps)

lemma dialog_probe:
  assumes "m_mem s = flat ((0x3020, [0x61]) # (0x4000, [0, 0]) # dialog_objects)"
  shows "r4_files_directory_batch dialog_platform (Some dialog_files) 0x5000 0x4000 0 0 s = Some (0, s\<lparr>m_calls := m_calls s @ [(2, [0x5020, 0x4000, 0, 0])]\<rparr>)"
  using assms
  by (simp add: dialog_objects_def r4_files_directory_batch_def run_tests dialog_eval some_copies cong: run_congs del: load_bytes.simps store_bytes.simps)

lemma dialog_reads:
  assumes "m_mem s = flat ((0x3020, [0x61]) # (0x4000, [0, 0]) # dialog_objects)"
  shows "directory_record dialog_platform (dialog_iterator\<lparr>di_buffer_index := 0, di_buffer_count := 1\<rparr>) s =
    Some ((0, [0x61, 0], Some [0x61], dialog_iterator\<lparr>di_buffer_index := 1, di_buffer_count := 1\<rparr>), s)"
proof -
  have "load_bytes (m_mem s) 0x3020 1 = Some [0x61]" "m_mem s 0x3020 = Some 0x61" "m_mem s 0x3021 = Some 0"
    unfolding assms by (simp add: flat_simps dialog_objects_def del: load_bytes.simps, simp, simp add: dialog_objects_def)
  then show ?thesis
    by (simp add: directory_record_def dialog_iterator_def dialog_platform_simps dialog_offset_def dialog_code_def scan_two obj_word_def Let_def some_copies
      del: load_bytes.simps)
qed

lemma dialog_batched:
  assumes "m_mem s = flat ((0x4000, [0, 0]) # dialog_objects)" and "m_os s = 0"
  shows "\<exists>t. directory_batched sample_contract dialog_platform dialog_iterator s =
      Some ((0, [0x61, 0], Some [0x61], dialog_iterator\<lparr>di_buffer_index := 1, di_buffer_count := 1\<rparr>), t) \<and>
    m_mem t = flat ((0x3020, [0x61]) # (0x4000, [0, 0]) # dialog_objects) \<and> m_os t = 1"
  using dialog_fill [OF assms]
  by (simp add: directory_batched_def and_then_def dialog_no_close dialog_probe dialog_reads [unfolded dialog_iterator_def directory_iterator.update_convs]
    dialog_iterator_def give_def)

lemma dialog_entry:
  assumes "m_mem s = flat ((0x4000, [0, 0]) # dialog_objects)" and "m_os s = 0"
  shows "\<exists>e t. r4_directory_next sample_contract dialog_platform (Some dialog_iterator) s =
      Some ((e, Some (dialog_iterator\<lparr>di_index := 3, di_buffer_index := 1, di_buffer_count := 1\<rparr>)), t) \<and>
    m_mem t = flat ((0x3020, [0x61]) # (0x4000, [0, 0]) # dialog_objects) \<and> m_os t = 1 \<and>
    dn_state e = DIRECTORY_ENTRY \<and> \<not> dn_is_directory e \<and> entry_path e = \<lparr>fp_bytes = [0x61, 0], fp_length = 1, fp_absolute = True\<rparr>"
  using dialog_batched [OF assms]
  by (auto simp: r4_directory_next_def dialog_iterator_def dialog_files_def table_of_def and_then_def give_def
    directory_complete_def dialog_platform_simps dialog_code_def entry_path_def)

lemma dialog_ends:
  assumes "m_mem s = flat ((0x3020, [0x61]) # (0x4000, [0, 0]) # dialog_objects)" and "m_os s = 1"
  shows "\<exists>e it t. r4_directory_next sample_contract dialog_platform
      (Some (dialog_iterator\<lparr>di_index := 3, di_buffer_index := 1, di_buffer_count := 1\<rparr>)) s = Some ((e, it), t) \<and> dn_state e = DIRECTORY_END"
  using assms
  by (simp add: dialog_iterator_def dialog_objects_def r4_directory_next_def directory_batched_def directory_fill.simps directory_stop_def
    r4_files_directory_batch_def run_tests dialog_eval some_copies Let_def cong: run_congs del: load_bytes.simps store_bytes.simps)

lemma dialog_listing:
  assumes "m_mem s = flat ((0x4000, [0, 0]) # dialog_objects)" and "m_os s = 0"
  shows "\<exists>e t. listing sample_contract dialog_platform (Some dialog_iterator) s [e] t \<and> \<not> dn_is_directory e \<and>
    entry_path e = \<lparr>fp_bytes = [0x61, 0], fp_length = 1, fp_absolute = True\<rparr>"
proof -
  obtain e t where e: "r4_directory_next sample_contract dialog_platform (Some dialog_iterator) s =
        Some ((e, Some (dialog_iterator\<lparr>di_index := 3, di_buffer_index := 1, di_buffer_count := 1\<rparr>)), t)"
      "m_mem t = flat ((0x3020, [0x61]) # (0x4000, [0, 0]) # dialog_objects)" "m_os t = 1" "dn_state e = DIRECTORY_ENTRY" "\<not> dn_is_directory e"
      "entry_path e = \<lparr>fp_bytes = [0x61, 0], fp_length = 1, fp_absolute = True\<rparr>" using dialog_entry [OF assms] by blast
  obtain z it u where "r4_directory_next sample_contract dialog_platform
      (Some (dialog_iterator\<lparr>di_index := 3, di_buffer_index := 1, di_buffer_count := 1\<rparr>)) t = Some ((z, it), u)" "dn_state z = DIRECTORY_END"
    using dialog_ends [OF e(2,3)] by blast
  then have "listing sample_contract dialog_platform (Some dialog_iterator) s [e] u" using e(1,4) by (blast intro: listing.intros)
  with e(5,6) show ?thesis by blast
qed

definition blank_row :: dialog_row where
  "blank_row = \<lparr>dr_kind = 9, dr_path = \<lparr>fp_bytes = [], fp_length = 0, fp_absolute = False\<rparr>, dr_label = []\<rparr>"

definition dialog_sample_page :: dialog_page where
  "dialog_sample_page = \<lparr>dp_directory = [], dp_rows = Some (replicate 4 blank_row), dp_capacity = 4, dp_count = 0, dp_number = 7\<rparr>"

definition named_row :: "u32 \<Rightarrow> bytes \<Rightarrow> u16 \<Rightarrow> bytes \<Rightarrow> dialog_row" where
  "named_row kind path n label = \<lparr>dr_kind = kind, dr_path = \<lparr>fp_bytes = path, fp_length = n, fp_absolute = True\<rparr>, dr_label = label @ replicate (256 - length label) 0\<rparr>"

text \<open>The first page of that directory is the parent and the file, and two rows of the caller's array stay as they were.\<close>

theorem dialog_page_shows_slice_witness:
  "\<exists>t. r4_dialog_page_load sample_contract dialog_platform (\<lambda>_. Some) (Some dialog_sample_page) (Some (replicate 4 blank_row)) 4 dialog_files 0x5000 0 (Some [])
      0 dialog_start =
    Some ((True, Some \<lparr>dp_directory = [0],
      dp_rows = Some [named_row DIALOG_DIRECTORY [0, 0] 0 [0x5B, 0x44, 0x49, 0x52, 0x5D, 0x20, 0x2E, 0x2E], named_row DIALOG_FILE [0x61, 0] 1 [0x61], blank_row, blank_row],
      dp_capacity = 4, dp_count = 2, dp_number = 0\<rparr>), t)"
proof -
  let ?rows = "[named_row DIALOG_DIRECTORY [0, 0] 0 [0x5B, 0x44, 0x49, 0x52, 0x5D, 0x20, 0x2E, 0x2E], named_row DIALOG_FILE [0x61, 0] 1 [0x61]]"
  obtain parent s1 where 1: "dialog_open sample_contract dialog_platform dialog_files 0x5000 dialog_start = Some (([0], parent, Some dialog_iterator), s1)"
      "m_mem s1 = flat ((0x4000, [0, 0]) # dialog_objects)" "m_os s1 = 0" "dn_state parent = DIRECTORY_ENTRY"
      "entry_path parent = \<lparr>fp_bytes = [0, 0], fp_length = 0, fp_absolute = True\<rparr>" using dialog_opens by blast
  obtain e t where 2: "listing sample_contract dialog_platform (Some dialog_iterator) s1 [e] t" "\<not> dn_is_directory e"
      "entry_path e = \<lparr>fp_bytes = [0x61, 0], fp_length = 1, fp_absolute = True\<rparr>" using dialog_listing [OF 1(2,3)] by blast
  have name: "entry_name e = [0x61]" using 2(3) by (simp add: entry_path_def entry_name_def)
  have "label_z (\<lambda>_. Some) 256 [0x61] = Some (0x61 # replicate 255 0)"
    by (simp add: label_z_def assign_z_def text_valid_def)
  then have "entry_label (\<lambda>_. Some) e = Some [0x61]" using 2(2) name by (simp add: entry_label_def leaf_start_def)
  then have row: "entry_row dialog_platform (\<lambda>_. Some) e = Some (named_row DIALOG_FILE [0x61, 0] 1 [0x61])"
    using 2(2,3) by (simp add: entry_row_def dialog_row_of_def entry_kind_def named_row_def label_z_def assign_z_def text_valid_def)
  have rows: "page_rows dialog_platform (\<lambda>_. Some) [] (dp_capacity dialog_sample_page) 0 parent [e] = map Some ?rows"
    using row 1(5) by (simp add: page_rows_def head_rows_def dialog_row_of_def dialog_sample_page_def entry_shown_def label_z_def assign_z_def
      text_valid_def named_row_def Let_def)
  show ?thesis
    using dialog_page_shows_slice [OF 1(1,4) 2(1) _ rows, of "replicate 4 blank_row" "replicate 4 blank_row" 4]
    by (auto simp: dialog_sample_page_def some_copies)
qed

end
