(* ===== verification/Spec2Isabelle.thy ===== *)
theory Spec2Isabelle
  imports Prelude PathText FilePath NormLoop FilePathCorrect PathCase RegistryPath Timeouts RecordBuffer OrderedPage HeapOrder Heap Snapshot Memory Binding Startup Platform SysCalls SysFacade VmAlloc DrawCalls DeskCalls DevCalls GroupInit AppContract Handles Services Context2 RegistryBatch Files FileStreams RegistryFacade ProtocolGate FlatMemory ServiceClient PowerProfiles DesktopEvidence DesktopActions DesktopLinks DriverTable DriverGraphics DriverSystem DriverLifecycle ProtocolApi Tray Processes Requests ResourceCalls Audio NetTransport NetTcp NetUdp GuiTimers EventLoop CanvasClip GuiPaint Storage Devices DialogPages
begin

text \<open>
  Verification development for the C side of the R4OS software development kit: the hand-written inline
  headers of \<open>Shared/C/include/r4os\<close> and the three start objects of \<open>Shared/C/src\<close>.

  \<^bold>\<open>The program.\<close> A program of R4OS is started with a context that lists imports. Each import names a group table, a block
  of memory with a magic, a version, a size and slots that hold the addresses of the platform's functions. The headers
  have four layers. The lowest finds and validates tables (\<open>r4l.h\<close>, \<open>startup.h\<close>, \<open>platform2.h\<close>). Above it one
  wrapper per slot tests its arguments and the slot and calls (\<open>r4sys.h\<close>, \<open>r4draw.h\<close>, \<open>r4desk.h\<close>, \<open>r4dev.h\<close>,
  \<open>r4audio.h\<close>, \<open>r4net.h\<close>, \<open>serial.h\<close>, the driver headers, \<open>protocol.h\<close>). The application layer (\<open>app_*.h\<close>, \<open>storage.h\<close>,
  \<open>heap.h\<close>, \<open>directory_page.h\<close>) owns handles, loops and buffers over those wrappers. Clients of named services
  (\<open>power_profiles.h\<close>, \<open>desktop_*.h\<close>, \<open>app_tray.h\<close>, \<open>app_audio.h\<close>, \<open>app_network.h\<close>) exchange request and reply
  objects over one service connection.

  \<^bold>\<open>The model of the platform.\<close> \<open>Memory\<close> has the memory as a partial map from addresses to bytes: a routine that
  would read or write outside its objects has the value \<open>None\<close>. \<open>Platform\<close> has the machine: that memory, the
  calls made so far in order, and a state \<open>'w\<close> of the platform. An operation that calls out is a function of type
  \<open>('a, 'w) io\<close>, from a machine to its result and the next machine. The record \<open>platform\<close> holds everything the contract
  header fixes, which is not part of the repository: offsets, lengths and sizes of members and objects by name,
  the values of codes, the addresses of local objects, and \<open>p_run\<close>, what a platform function does. All of it is
  a parameter of every definition. \<open>FlatMemory\<close> writes memories as lists of objects so that the witnesses compute.

  \<^bold>\<open>Theories and code.\<close>
  \<^item> \<open>Prelude\<close>: the integer types, byte order and the hints shared by all; \<open>Memory\<close>, \<open>Platform\<close>, \<open>FlatMemory\<close>, \<open>Handles\<close> as above,
    \<open>Handles\<close> with the application's tables and the protocol of owned handles.
  \<^item> \<open>PathText\<close>, \<open>FilePath\<close>, \<open>NormLoop\<close>, \<open>FilePathCorrect\<close>, \<open>PathCase\<close>, \<open>RegistryPath\<close>: path validation, the normalisation loop on its
    bounded buffer, its refinement to a function on lists of components, and case-insensitive comparison; \<open>Timeouts\<close>: durations,
    timeouts and deadlines (all \<open>path_timeout.h\<close>).
  \<^item> \<open>RecordBuffer\<close>, \<open>OrderedPage\<close>, \<open>HeapOrder\<close>, \<open>Snapshot\<close>, \<open>DialogPages\<close>: \<open>directory_page.h\<close> with bounded pages, the growing
    snapshot and its in-place heapsort, and the pages of a file dialog; \<open>Heap\<close>: \<open>heap.h\<close>.
  \<^item> \<open>Binding\<close>, \<open>Startup\<close>, \<open>GroupInit\<close>, \<open>AppContract\<close>, \<open>Context2\<close>: \<open>r4l.h\<close>, \<open>startup.h\<close>, \<open>r4net.h\<close>, \<open>app_contract.h\<close>,
    \<open>platform2.h\<close>, \<open>facades.c\<close>, \<open>r4app_startup.c\<close>, \<open>r4xstart_startup.c\<close>.
  \<^item> \<open>SysCalls\<close>, \<open>SysFacade\<close>, \<open>VmAlloc\<close>: \<open>r4sys.h\<close> with its region allocator; \<open>DrawCalls\<close>, \<open>DeskCalls\<close>, \<open>DevCalls\<close>:
    \<open>r4draw.h\<close>, \<open>r4desk.h\<close>, \<open>r4dev.h\<close>, \<open>r4audio.h\<close>, \<open>serial.h\<close>; \<open>Devices\<close>: \<open>app_devices.h\<close>; \<open>Storage\<close>: \<open>storage.h\<close>.
  \<^item> \<open>Services\<close>, \<open>ServiceClient\<close>: \<open>app_services.h\<close> and the exchange its clients share; \<open>PowerProfiles\<close>, \<open>DesktopEvidence\<close>,
    \<open>DesktopActions\<close>, \<open>DesktopLinks\<close>, \<open>Tray\<close>, \<open>Audio\<close>: the clients named like them.
  \<^item> \<open>Files\<close>, \<open>FileStreams\<close>, \<open>RegistryBatch\<close>, \<open>RegistryFacade\<close>: \<open>app_storage.h\<close>; \<open>Processes\<close>, \<open>Requests\<close>, \<open>ResourceCalls\<close>:
    \<open>app_resources.h\<close>.
  \<^item> \<open>NetTransport\<close>, \<open>NetTcp\<close>, \<open>NetUdp\<close>: \<open>app_network.h\<close>; \<open>GuiTimers\<close>, \<open>EventLoop\<close>, \<open>CanvasClip\<close>, \<open>GuiPaint\<close>: \<open>app_gui.h\<close>.
  \<^item> \<open>DriverTable\<close>, \<open>DriverGraphics\<close>, \<open>DriverSystem\<close>, \<open>DriverLifecycle\<close>: the \<open>driver*.h\<close> headers; \<open>ProtocolApi\<close>, \<open>ProtocolGate\<close>:
    \<open>protocol.h\<close> with its session gate as a transition system of concurrent calls.

  A definition has the name of the C function it models; a macro, a loop or a branch that is a definition of
  its own says in its text which one it is. Structures are records, with pointers that may be null as options;
  flags that are only compared with zero are \<open>bool\<close>; integers keep their width wherever they can wrap.

  \<^bold>\<open>What the lemmas show.\<close>
  \<^item> Routines without the platform: refinement of a specification on lists (paths, registry paths, batch builder, ordered
    page, heapsort, dialog pages), exact bounds on words (ticks, deadlines, timers, clipping, sectors).
  \<^item> Wrappers: \<open>admitted\<close> says a run reads and writes only resident tables and objects the caller gave, and calls only
    filled slots; the rules in \<open>admits\<close> and \<open>driver_admits\<close> derive it for every forwarding wrapper. \<open>SysFacade\<close> adds the
    system wrappers that may call back into the loader, \<open>VmAlloc\<close> the allocator, which lies in the region the platform granted.
  \<^item> Start: each code of the declared check is characterised by rules that do not follow the code's order of tests, and each
    bound table by the import row it comes from and the header it has.
  \<^item> Clients: what an accepted reply is known to repeat, what a failed call reports, and what is left to the caller.
  \<^item> Owned handles: steps are inductive relations, and along every run a closed handle stays closed and reaches the platform no more.
    Stream writes and the buffers of requests are judged by what the platform answers, not by what the wrappers return.
  \<^item> The protocol gate: invariants by rule induction over all interleavings, and that a closed gate refuses entry until it has
    drained and is reset.

  \<^bold>\<open>Interfaces.\<close> Four contracts are locales. \<open>record_array\<close> is an array of records in a byte buffer, provided by
  \<open>RecordBuffer\<close> and used by pages and snapshots. \<open>owned_close\<close> is closing at most once, provided by the kernel and window
  handles of \<open>AppContract\<close>. \<open>handle_protocol\<close> is a handle whose steps leave it alone once it is dead; connections,
  endpoints, evidence leases, processes, joins, regions, stream readers and writers, TCP and UDP sockets and paints provide it. \<open>memory_contract\<close> is
  safe access to known memory, provided by group tables and driver tables.

  \<^bold>\<open>Loops.\<close> Loops over arrays and buffers are structural or \<open>function\<close>s with a measure. Four loops end only if the
  platform lets them: the refill of a directory batch, the scan of a dialog page, the wait of the event loop and the length of a string
  in memory. They are \<open>partial_function (option)\<close>, so that not returning is \<open>None\<close>; the dialog page is shown to
  return when the listing ends, and the wait never to sleep past its limits and to deliver a timer when it does not sleep. No fuel is used.

  \<^bold>\<open>Not modelled.\<close> The eight generated headers (\<open>gui_bridge.h\<close>, \<open>web_helpers.h\<close>, \<open>data_helpers.h\<close>, \<open>transport_helpers.h\<close>,
  \<open>subsystem_helpers.h\<close>, \<open>update_helpers.h\<close>, \<open>driver_helpers.h\<close>, \<open>net_bridge.h\<close>) pack arguments into a slot and call the Zig
  runtime: a compiler writes them and they hold no decision of their own. Headers with only declarations or
  includes, entry macros of assembly text, the vendored boot loader tool, tests, examples and the Zig and Rust libraries
  are left out too; two Zig checks the C headers end in, the audio reply and the bounded label, are translated. Where a
  header relies on code outside the repository (grapheme boundaries, the heap of the runtime, the platform itself)
  that code is a parameter.
\<close>

end
